(* ===== verification/Prelude.thy ===== *)
theory Prelude
  imports Main "HOL-Library.Word"
begin

text \<open>
  Shared vocabulary of the development: Go error values as optional texts, the
  early-return idiom \<open>if cond { return fmt.Errorf(...) }\<close> as \<open>guard\<close>, a sequence
  of such returns as \<open>firstErr\<close>, and the list lemmas the components share.

  An error value is modelled by its text. The verbs of a format string that print a
  value (\<open>%d\<close>, \<open>%q\<close>, \<open>%s\<close>) are left out of the text; the wrapped error of \<open>%w\<close>
  is kept. No branch of the program reads an error text except to test whether a
  detail is blank, and every format string has visible fixed text.
\<close>

named_theorems validate_simps \<open>characteristic equations of the Validate functions\<close>
named_theorems observe_simps \<open>characteristic equations of the Observe functions\<close>

type_synonym error = string

section \<open>Early returns\<close>

definition guard :: "bool \<Rightarrow> string \<Rightarrow> error option" where
  "guard c msg = (if c then Some msg else None)"

fun firstErr :: "error option list \<Rightarrow> error option" where
  "firstErr [] = None"
| "firstErr (e # es) = (case e of Some m \<Rightarrow> Some m | None \<Rightarrow> firstErr es)"

definition wrapErr :: "string \<Rightarrow> error option \<Rightarrow> error option" where
  "wrapErr p e = map_option (\<lambda>m. p @ m) e"

lemma guard_None [simp]: "guard c m = None \<longleftrightarrow> \<not> c"
  by (simp add: guard_def)

lemma guard_Some [simp]: "guard c m = Some e \<longleftrightarrow> c \<and> e = m"
  by (auto simp: guard_def)

lemma guard_Some' [simp]: "Some e = guard c m \<longleftrightarrow> c \<and> e = m"
  by (auto simp: guard_def)

lemma wrapErr_None [simp]: "wrapErr p e = None \<longleftrightarrow> e = None"
  by (simp add: wrapErr_def)

lemma wrapErr_Some: "wrapErr p x = Some e \<longleftrightarrow> (\<exists>m. x = Some m \<and> e = p @ m)"
  and wrapErr_Some': "Some e = wrapErr p x \<longleftrightarrow> (\<exists>m. x = Some m \<and> e = p @ m)"
  by (cases x; auto simp: wrapErr_def)+

lemma firstErr_Cons_None: "firstErr (e # es) = None \<longleftrightarrow> e = None \<and> firstErr es = None"
  by (cases e) auto

lemma firstErr_None: "firstErr es = None \<longleftrightarrow> (\<forall>e \<in> set es. e = None)"
  by (induction es) (auto split: option.splits)

lemma firstErr_map_None: "firstErr (map f xs) = None \<longleftrightarrow> (\<forall>x \<in> set xs. f x = None)"
  by (simp add: firstErr_None)

lemma firstErr_append_None: "firstErr (xs @ ys) = None \<longleftrightarrow> firstErr xs = None \<and> firstErr ys = None"
  by (auto simp: firstErr_None)

lemma firstErr_Some: "firstErr es = Some m \<Longrightarrow> Some m \<in> set es"
  by (induction es) (auto split: option.splits)

declare firstErr.simps(2) [simp del]

lemmas firstErr_simps = firstErr_Cons_None firstErr_map_None firstErr_append_None firstErr.simps(1)

section \<open>Lists\<close>

text \<open>\<open>len\<close>, indexing and ranging treat a nil slice as the empty one.\<close>

fun sliceOf :: "'a list option \<Rightarrow> 'a list" where
  "sliceOf None = []"
| "sliceOf (Some xs) = xs"

text \<open>First occurrences in order: the map-backed \<open>seen\<close> loops of the normalizers.\<close>

fun dedup :: "'a list \<Rightarrow> 'a list \<Rightarrow> 'a list" where
  "dedup seen [] = []"
| "dedup seen (x # xs) =
     (if x \<in> set seen then dedup seen xs else x # dedup (x # seen) xs)"

lemma set_dedup: "set (dedup seen xs) = set xs - set seen"
  by (induction seen xs rule: dedup.induct) auto

lemma distinct_dedup: "distinct (dedup seen xs)"
  by (induction seen xs rule: dedup.induct) (auto simp: set_dedup)

lemma dedup_id: "distinct xs \<Longrightarrow> set xs \<inter> set seen = {} \<Longrightarrow> dedup seen xs = xs"
  by (induction seen xs rule: dedup.induct) auto

lemma dedup_idem: "dedup [] (dedup [] xs) = dedup [] xs"
  by (rule dedup_id) (simp_all add: distinct_dedup)

lemma dedup_Nil_iff: "dedup [] xs = [] \<longleftrightarrow> xs = []"
  by (cases xs) auto

end
