(* ===== verification/GoStd.thy ===== *)
theory GoStd
  imports Prelude
begin

text \<open>
  The parts of Go's standard library the program uses on strings, bytes, numbers, times
  and contexts. A Go string is its byte sequence, so it is an Isabelle \<open>string\<close> (a
  \<open>char\<close> is a byte). Library data that is a table (the Unicode case mapping and case
  folding of non-ASCII runes) is a parameter, the record \<open>unitab\<close>; everything the
  code's decisions rest on is computed here.
\<close>

section \<open>Unicode tables and UTF-8\<close>

record unitab =
  uni_lower :: "nat \<Rightarrow> nat"
  uni_fold :: "string \<Rightarrow> string \<Rightarrow> bool"

abbreviation byte :: "char \<Rightarrow> nat" where
  "byte c \<equiv> of_char c"

definition isAscii :: "string \<Rightarrow> bool" where
  "isAscii s = list_all (\<lambda>c. byte c < 128) s"

definition inRange :: "nat \<Rightarrow> nat \<Rightarrow> nat \<Rightarrow> bool" where
  "inRange lo hi b = (lo \<le> b \<and> b \<le> hi)"

definition runeError :: nat where "runeError = 65533"

text \<open>\<open>utf8.DecodeRuneInString\<close>: the rune and its width; an invalid byte is U+FFFD of width 1.\<close>

definition decode2 :: "nat \<Rightarrow> nat \<Rightarrow> (nat \<times> nat) option" where
  "decode2 a b = (if inRange 194 223 a \<and> inRange 128 191 b
     then Some ((a - 192) * 64 + (b - 128), 2) else None)"

definition decode3 :: "nat \<Rightarrow> nat \<Rightarrow> nat \<Rightarrow> (nat \<times> nat) option" where
  "decode3 a b c = (if inRange 224 239 a \<and> inRange (if a = 224 then 160 else 128) (if a = 237 then 159 else 191) b
      \<and> inRange 128 191 c
     then Some ((a - 224) * 4096 + (b - 128) * 64 + (c - 128), 3) else None)"

definition decode4 :: "nat \<Rightarrow> nat \<Rightarrow> nat \<Rightarrow> nat \<Rightarrow> (nat \<times> nat) option" where
  "decode4 a b c d = (if inRange 240 244 a \<and> inRange (if a = 240 then 144 else 128) (if a = 244 then 143 else 191) b
      \<and> inRange 128 191 c \<and> inRange 128 191 d
     then Some ((a - 240) * 262144 + (b - 128) * 4096 + (c - 128) * 64 + (d - 128), 4) else None)"

fun orElse :: "'a option \<Rightarrow> 'a option \<Rightarrow> 'a option" where
  "orElse (Some x) _ = Some x"
| "orElse None y = y"

definition decodeRune :: "string \<Rightarrow> nat \<times> nat" where
  "decodeRune s = (case map byte (take 4 s) of
      [] \<Rightarrow> (runeError, 0)
    | a # r \<Rightarrow> if a < 128 then (a, 1) else
        (case (case r of
            [] \<Rightarrow> None
          | [b] \<Rightarrow> decode2 a b
          | [b, c] \<Rightarrow> orElse (decode2 a b) (decode3 a b c)
          | b # c # d # _ \<Rightarrow> orElse (decode2 a b) (orElse (decode3 a b c) (decode4 a b c d)))
         of Some p \<Rightarrow> p | None \<Rightarrow> (runeError, 1)))"

text \<open>\<open>utf8.EncodeRune\<close>: surrogates and runes past U+10FFFF are written as U+FFFD.\<close>

definition encodeRune :: "nat \<Rightarrow> string" where
  "encodeRune r0 = (let r = (if (55296 \<le> r0 \<and> r0 \<le> 57343) \<or> 1114111 < r0 then runeError else r0) in
     map char_of (
       if r < 128 then [r]
       else if r < 2048 then [192 + r div 64, 128 + r mod 64]
       else if r < 65536 then [224 + r div 4096, 128 + r div 64 mod 64, 128 + r mod 64]
       else [240 + r div 262144, 128 + r div 4096 mod 64, 128 + r div 64 mod 64, 128 + r mod 64]))"

lemma decodeRune_width: "s \<noteq> [] \<Longrightarrow> 0 < snd (decodeRune s)"
  by (cases s) (auto simp: decodeRune_def decode2_def decode3_def decode4_def
      split: list.splits option.splits if_splits)

text \<open>The runes a \<open>for range\<close> loop over a string visits.\<close>

function runes :: "string \<Rightarrow> nat list" where
  "runes s = (if s = [] then [] else fst (decodeRune s) # runes (drop (snd (decodeRune s)) s))"
  by pat_completeness auto
termination
  by (relation "measure length") (auto simp: decodeRune_width)

declare runes.simps [simp del]

lemma decodeRune_ascii: "byte c < 128 \<Longrightarrow> decodeRune (c # s) = (byte c, 1)"
  by (simp add: decodeRune_def)

lemma runes_Nil [simp]: "runes [] = []"
  by (simp add: runes.simps)

lemma runes_ascii_Cons: "byte c < 128 \<Longrightarrow> runes (c # s) = byte c # runes s"
  by (simp add: runes.simps [of "c # s"] decodeRune_ascii)

lemma runes_ascii: "isAscii s \<Longrightarrow> runes s = map byte s"
  by (induction s) (auto simp: isAscii_def runes_ascii_Cons)

lemma decodeRune_ge: "\<not> byte c < 128 \<Longrightarrow> 128 \<le> fst (decodeRune (c # s))"
  by (auto simp: decodeRune_def runeError_def decode2_def decode3_def decode4_def inRange_def
      split: list.splits option.splits if_splits)

text \<open>A string all of whose runes are below 128 is plain ASCII: there is no overlong form.\<close>

lemma runes_lt_128: "\<forall>r \<in> set (runes s). r < 128 \<Longrightarrow> isAscii s"
proof (induction s rule: runes.induct)
  case (1 s)
  show ?case
  proof (cases s)
    case (Cons c t)
    have s: "s \<noteq> []" by (simp add: Cons)
    have r: "runes s = fst (decodeRune s) # runes (drop (snd (decodeRune s)) s)"
      using s by (subst runes.simps) simp
    have "fst (decodeRune s) < 128"
      using "1.prems" r by simp
    then have c: "byte c < 128"
      using decodeRune_ge [of c t] Cons by force
    have "isAscii t"
      using "1.IH" [OF s] "1.prems" Cons c r by (simp add: decodeRune_ascii)
    with c Cons show ?thesis by (simp add: isAscii_def)
  qed (simp add: isAscii_def)
qed

section \<open>Package strings\<close>

text \<open>\<open>unicode.IsSpace\<close>.\<close>

definition spaceRunes :: "nat list" where
  "spaceRunes = [9, 10, 11, 12, 13, 32, 133, 160, 5760, 8192, 8193, 8194, 8195, 8196, 8197, 8198,
     8199, 8200, 8201, 8202, 8232, 8233, 8239, 8287, 12288]"

definition isSpaceRune :: "nat \<Rightarrow> bool" where
  "isSpaceRune r = (r \<in> set spaceRunes)"

text \<open>
  \<open>strings.TrimSpace\<close> drops leading and trailing space runes. UTF-8 is self-synchronizing,
  so the first (last) rune is a given space exactly when the string starts (ends) with its
  encoding.
\<close>

definition startsWith :: "string \<Rightarrow> string \<Rightarrow> bool" where
  "startsWith p s = (take (length p) s = p)"

function stripPrefixes :: "string list \<Rightarrow> string \<Rightarrow> string" where
  "stripPrefixes ps s =
     (case find (\<lambda>p. p \<noteq> [] \<and> startsWith p s) ps of
        None \<Rightarrow> s
      | Some p \<Rightarrow> stripPrefixes ps (drop (length p) s))"
  by pat_completeness auto
termination
proof (relation "measure (\<lambda>(ps, s). length s)")
  fix ps :: "string list" and s p
  assume "find (\<lambda>p. p \<noteq> [] \<and> startsWith p s) ps = Some p"
  then have "p \<noteq> []" "take (length p) s = p"
    by (auto simp: find_Some_iff startsWith_def)
  then show "((ps, drop (length p) s), ps, s) \<in> measure (\<lambda>(ps, s). length s)"
    by (cases s; cases p) auto
qed simp

declare stripPrefixes.simps [simp del]

definition spaceEncodings :: "string list" where
  "spaceEncodings = map encodeRune spaceRunes"

definition trimLeft :: "string \<Rightarrow> string" where
  "trimLeft s = stripPrefixes spaceEncodings s"

definition trimRight :: "string \<Rightarrow> string" where
  "trimRight s = rev (stripPrefixes (map rev spaceEncodings) (rev s))"

definition TrimSpace :: "string \<Rightarrow> string" where
  "TrimSpace s = trimRight (trimLeft s)"

definition stripped :: "string list \<Rightarrow> string \<Rightarrow> bool" where
  "stripped ps s = list_all (\<lambda>p. p = [] \<or> \<not> startsWith p s) ps"

lemma stripPrefixes_stripped: "stripped ps (stripPrefixes ps s)"
proof (induction ps s rule: stripPrefixes.induct)
  case (1 ps s)
  then show ?case
    by (subst stripPrefixes.simps)
      (auto split: option.splits simp: stripped_def list_all_iff find_None_iff)
qed

lemma stripPrefixes_id: "stripped ps s \<Longrightarrow> stripPrefixes ps s = s"
proof -
  assume "stripped ps s"
  then have "find (\<lambda>p. p \<noteq> [] \<and> startsWith p s) ps = None"
    by (auto simp: stripped_def list_all_iff find_None_iff)
  then show ?thesis by (simp add: stripPrefixes.simps)
qed

lemma stripPrefixes_suffix: "\<exists>k. stripPrefixes ps s = drop k s"
proof (induction ps s rule: stripPrefixes.induct)
  case (1 ps s)
  show ?case
  proof (cases "find (\<lambda>p. p \<noteq> [] \<and> startsWith p s) ps")
    case None
    then have "stripPrefixes ps s = drop 0 s" by (simp add: stripPrefixes.simps)
    then show ?thesis by blast
  next
    case (Some p)
    from "1.IH" [OF Some] obtain k where "stripPrefixes ps (drop (length p) s) = drop k (drop (length p) s)" ..
    with Some show ?thesis
      by (auto simp: stripPrefixes.simps [of ps s] drop_drop)
  qed
qed

lemma startsWith_take: "startsWith p (take k s) \<Longrightarrow> startsWith p s"
  unfolding startsWith_def by (metis length_take min.absorb_iff2 take_take min.commute nle_le take_all)

lemma trimRight_take: "\<exists>k. trimRight s = take k s"
proof -
  obtain k where "stripPrefixes (map rev spaceEncodings) (rev s) = drop k (rev s)"
    using stripPrefixes_suffix by blast
  then show ?thesis by (auto simp: trimRight_def rev_drop)
qed

lemma TrimSpace_idem [simp]: "TrimSpace (TrimSpace s) = TrimSpace s"
proof -
  let ?t = "trimLeft s"
  obtain k where k: "trimRight ?t = take k ?t" using trimRight_take by blast
  have "stripped spaceEncodings ?t"
    by (simp add: trimLeft_def stripPrefixes_stripped)
  then have "stripped spaceEncodings (take k ?t)"
    unfolding stripped_def list_all_iff using startsWith_take by blast
  then have left: "trimLeft (trimRight ?t) = trimRight ?t"
    unfolding k by (simp add: trimLeft_def stripPrefixes_id)
  have "trimRight (trimRight ?t) = trimRight ?t"
    by (simp add: trimRight_def stripPrefixes_id stripPrefixes_stripped)
  with left show ?thesis by (simp add: TrimSpace_def)
qed

text \<open>A string with no space rune byte at either end is left alone.\<close>

definition blank :: "string \<Rightarrow> bool" where
  "blank s = (TrimSpace s = [])"

definition isGraph :: "char \<Rightarrow> bool" where
  "isGraph c = (33 \<le> byte c \<and> byte c < 127)"

lemma spaceEncodings_code: "spaceEncodings =
  map (map char_of) [[9], [10], [11], [12], [13], [32], [194, 133], [194, 160], [225, 154, 128],
     [226, 128, 128], [226, 128, 129], [226, 128, 130], [226, 128, 131], [226, 128, 132],
     [226, 128, 133], [226, 128, 134], [226, 128, 135], [226, 128, 136], [226, 128, 137],
     [226, 128, 138], [226, 128, 168], [226, 128, 169], [226, 128, 175], [226, 129, 159],
     [227, 128, 128 :: nat]]"
  by (simp add: spaceEncodings_def spaceRunes_def encodeRune_def Let_def runeError_def)

lemma stripped_graph_hd: "isGraph c \<Longrightarrow> stripped spaceEncodings (c # s)"
  by (auto simp: stripped_def spaceEncodings_code startsWith_def isGraph_def)

lemma stripped_graph_last: "isGraph c \<Longrightarrow> stripped (map rev spaceEncodings) (c # s)"
  by (auto simp: stripped_def spaceEncodings_code startsWith_def isGraph_def)

lemma TrimSpace_graph: "s \<noteq> [] \<Longrightarrow> isGraph (hd s) \<Longrightarrow> isGraph (last s) \<Longrightarrow> TrimSpace s = s"
proof -
  assume s: "s \<noteq> []" "isGraph (hd s)" "isGraph (last s)"
  from s have "stripped spaceEncodings s"
    by (cases s) (auto intro: stripped_graph_hd)
  then have l: "trimLeft s = s" by (simp add: trimLeft_def stripPrefixes_id)
  from s have "stripped (map rev spaceEncodings) (rev s)"
    by (cases s rule: rev_cases) (auto intro: stripped_graph_last)
  then have "trimRight s = s" by (simp add: trimRight_def stripPrefixes_id)
  with l show ?thesis by (simp add: TrimSpace_def)
qed

lemma TrimSpace_Nil [simp]: "TrimSpace [] = []"
proof -
  have "stripped spaceEncodings []" "stripped (map rev spaceEncodings) []"
    by (auto simp: stripped_def spaceEncodings_code startsWith_def)
  then show ?thesis
    by (simp add: TrimSpace_def trimLeft_def trimRight_def stripPrefixes_id)
qed

text \<open>A leading visible ASCII character keeps a string from being blank.\<close>

lemma not_blank_graph: "isGraph c \<Longrightarrow> \<not> blank (c # s)"
proof -
  assume c: "isGraph c"
  then have l: "trimLeft (c # s) = c # s"
    by (simp add: trimLeft_def stripPrefixes_id stripped_graph_hd)
  have "stripPrefixes (map rev spaceEncodings) (rev (c # s)) \<noteq> []"
  proof
    let ?ps = "map rev spaceEncodings"
    assume e: "stripPrefixes ?ps (rev (c # s)) = []"
    have "t @ [c] \<noteq> [] \<and> stripPrefixes ?ps (t @ [c]) \<noteq> []" for t
    proof (induction t rule: length_induct)
      case (1 t)
      show ?case
      proof (cases "find (\<lambda>p. p \<noteq> [] \<and> startsWith p (t @ [c])) ?ps")
        case None
        then show ?thesis by (simp add: stripPrefixes.simps)
      next
        case (Some p)
        then have p: "p \<in> set ?ps" "p \<noteq> []" "startsWith p (t @ [c])"
          by (auto simp: find_Some_iff)
        have "length p \<le> length t"
        proof (rule ccontr)
          assume "\<not> length p \<le> length t"
          with p(3) have "p = t @ [c]" by (auto simp: startsWith_def)
          then have "c \<in> set p" by simp
          with p(1) c show False by (auto simp: spaceEncodings_code isGraph_def)
        qed
        then have "drop (length p) (t @ [c]) = drop (length p) t @ [c]" by simp
        moreover have "length (drop (length p) t) < length t"
          using p(2) \<open>length p \<le> length t\<close> by (cases p) auto
        ultimately show ?thesis using Some 1 by (simp add: stripPrefixes.simps [of ?ps "t @ [c]"])
      qed
    qed
    with e show False by simp
  qed
  with l show ?thesis by (simp add: blank_def TrimSpace_def trimRight_def)
qed

definition asciiLower :: "char \<Rightarrow> char" where
  "asciiLower c = (if 65 \<le> byte c \<and> byte c \<le> 90 then char_of (byte c + 32) else c)"

definition lowerRune :: "'a unitab_scheme \<Rightarrow> nat \<Rightarrow> nat" where
  "lowerRune u r = (if r < 128 then (if 65 \<le> r \<and> r \<le> 90 then r + 32 else r) else uni_lower u r)"

definition ToLower :: "'a unitab_scheme \<Rightarrow> string \<Rightarrow> string" where
  "ToLower u s = (if isAscii s then map asciiLower s
                  else concat (map (\<lambda>r. encodeRune (lowerRune u r)) (runes s)))"

definition EqualFold :: "'a unitab_scheme \<Rightarrow> string \<Rightarrow> string \<Rightarrow> bool" where
  "EqualFold u s t = (if isAscii s \<and> isAscii t then map asciiLower s = map asciiLower t
                      else uni_fold u s t)"

definition TrimSuffixDot :: "string \<Rightarrow> string" where
  "TrimSuffixDot s = (if s \<noteq> [] \<and> last s = CHR ''.'' then butlast s else s)"

definition ContainsAny :: "string \<Rightarrow> string \<Rightarrow> bool" where
  "ContainsAny s cs = list_ex (\<lambda>c. c \<in> set cs) s"

definition hasSpaceRune :: "string \<Rightarrow> bool" where
  "hasSpaceRune s = list_ex isSpaceRune (runes s)"

fun splitOn :: "char \<Rightarrow> string \<Rightarrow> string list" where
  "splitOn sep [] = [[]]"
| "splitOn sep (c # s) = (if c = sep then [] # splitOn sep s
     else (case splitOn sep s of [] \<Rightarrow> [[c]] | p # ps \<Rightarrow> (c # p) # ps))"

definition HasPrefix :: "string \<Rightarrow> string \<Rightarrow> bool" where
  "HasPrefix s p = startsWith p s"

lemma asciiLower_idem: "asciiLower (asciiLower c) = asciiLower c"
  by (auto simp: asciiLower_def)

lemma ToLower_ascii: "isAscii s \<Longrightarrow> ToLower u s = map asciiLower s"
  by (simp add: ToLower_def)

lemma ToLower_lower_id:
  "\<forall>c \<in> set s. byte c < 128 \<and> \<not> (65 \<le> byte c \<and> byte c \<le> 90) \<Longrightarrow> ToLower u s = s"
  by (auto simp: ToLower_def isAscii_def list_all_iff asciiLower_def intro!: map_idI)

end
