(* ===== verification/GoNum.thy ===== *)
theory GoNum
  imports GoStd
begin

text \<open>
  Numbers and bytes: \<open>strconv\<close> decimal and hexadecimal text, \<open>encoding/hex\<close>,
  \<open>encoding/binary.BigEndian\<close>, and 64-bit signed wrap-around.
\<close>

section \<open>Digits\<close>

definition digitChar :: "nat \<Rightarrow> char" where
  "digitChar d = (if d < 10 then char_of (48 + d) else char_of (87 + d))"

definition isDigit :: "char \<Rightarrow> bool" where
  "isDigit c = (48 \<le> byte c \<and> byte c \<le> 57)"

text \<open>The value of a hexadecimal digit, upper or lower case.\<close>

definition hexVal :: "char \<Rightarrow> nat option" where
  "hexVal c = (if isDigit c then Some (byte c - 48)
     else if 97 \<le> byte c \<and> byte c \<le> 102 then Some (byte c - 87)
     else if 65 \<le> byte c \<and> byte c \<le> 70 then Some (byte c - 55)
     else None)"

lemma byte_digitChar [simp]: "d < 16 \<Longrightarrow> byte (digitChar d) = (if d < 10 then 48 + d else 87 + d)"
  by (auto simp: digitChar_def)

lemma isDigit_digitChar [simp]: "d < 10 \<Longrightarrow> isDigit (digitChar d)"
  by (simp add: isDigit_def)

lemma hexVal_digitChar [simp]: "d < 16 \<Longrightarrow> hexVal (digitChar d) = Some d"
  by (auto simp: hexVal_def isDigit_def)

lemma isGraph_digitChar [simp]: "d < 16 \<Longrightarrow> isGraph (digitChar d)"
  by (auto simp: isGraph_def)

text \<open>\<open>strconv.FormatUint\<close> in base 10 or 16, lower case, no leading zeros.\<close>

fun fmtBase :: "nat \<Rightarrow> nat \<Rightarrow> string" where
  "fmtBase b n = (if n < b \<or> b < 2 then [digitChar (n mod 16)]
     else fmtBase b (n div b) @ [digitChar (n mod b)])"

declare fmtBase.simps [simp del]

abbreviation fmtDec :: "nat \<Rightarrow> string" where "fmtDec \<equiv> fmtBase 10"
abbreviation fmtHex :: "nat \<Rightarrow> string" where "fmtHex \<equiv> fmtBase 16"

lemma fmtBase_neq_Nil [simp]: "fmtBase b n \<noteq> []"
  by (subst fmtBase.simps) simp

lemma fmtBase_rec: "2 \<le> b \<Longrightarrow> b \<le> 16 \<Longrightarrow>
    fmtBase b n = (if n < b then [digitChar n] else fmtBase b (n div b) @ [digitChar (n mod b)])"
  by (subst fmtBase.simps) auto

lemma fmtBase_digits:
  "2 \<le> b \<Longrightarrow> b \<le> 16 \<Longrightarrow> c \<in> set (fmtBase b n) \<Longrightarrow> \<exists>d < b. c = digitChar d"
proof (induction n rule: less_induct)
  case (less n)
  show ?case
  proof (cases "n < b")
    case True
    with less.prems show ?thesis by (auto simp: fmtBase_rec)
  next
    case False
    with less.prems have "c \<in> set (fmtBase b (n div b)) \<or> c = digitChar (n mod b)"
      by (auto simp: fmtBase_rec [of b n])
    moreover have "n div b < n" using False less.prems by simp
    ultimately show ?thesis using less by (auto intro: exI [of _ "n mod b"])
  qed
qed

lemma fmtDec_isDigit: "c \<in> set (fmtDec n) \<Longrightarrow> isDigit c"
  using fmtBase_digits [of 10 c n] by auto

lemma fmtBase_length: "2 \<le> b \<Longrightarrow> b \<le> 16 \<Longrightarrow> n < b ^ k \<Longrightarrow> 0 < k \<Longrightarrow> length (fmtBase b n) \<le> k"
proof (induction n arbitrary: k rule: less_induct)
  case (less n)
  show ?case
  proof (cases "n < b")
    case True
    with less.prems show ?thesis by (simp add: fmtBase_rec)
  next
    case False
    from less.prems(4) obtain j where j: "k = Suc j" by (cases k) auto
    with False less.prems(3) have k: "k = Suc j" "0 < j" by (cases j; simp)+
    have "n div b < b ^ j"
      using less.prems k by (simp add: less_mult_imp_div_less mult.commute)
    moreover have "n div b < n" using False less.prems by simp
    ultimately have "length (fmtBase b (n div b)) \<le> j"
      using less k by blast
    with False less.prems k show ?thesis by (simp add: fmtBase_rec [of b n])
  qed
qed

text \<open>Reading the digits back gives the number.\<close>

fun readBase :: "nat \<Rightarrow> nat \<Rightarrow> string \<Rightarrow> nat option" where
  "readBase b acc [] = Some acc"
| "readBase b acc (c # s) =
     (case hexVal c of None \<Rightarrow> None
      | Some d \<Rightarrow> if d < b then readBase b (acc * b + d) s else None)"

lemma readBase_append:
  "readBase b acc (s @ t) = (case readBase b acc s of None \<Rightarrow> None | Some a \<Rightarrow> readBase b a t)"
  by (induction s arbitrary: acc) (auto split: option.splits)

lemma readBase_fmtBase: "2 \<le> b \<Longrightarrow> b \<le> 16 \<Longrightarrow> readBase b 0 (fmtBase b n) = Some n"
proof (induction n rule: less_induct)
  case (less n)
  show ?case
  proof (cases "n < b")
    case True
    with less.prems show ?thesis by (simp add: fmtBase_rec)
  next
    case False
    then have "n div b < n" using less.prems by simp
    then have "readBase b 0 (fmtBase b (n div b)) = Some (n div b)"
      using less by blast
    moreover have "n mod b < b" "n mod b < 16"
      using less.prems by (simp, meson less_le_trans mod_less_divisor zero_less_numeral order_less_le_trans)
    ultimately show ?thesis using False less.prems
      by (simp add: fmtBase_rec [of b n] readBase_append)
  qed
qed

lemma readBase_mono: "readBase b acc s = Some n \<Longrightarrow> 0 < b \<Longrightarrow> acc \<le> n"
proof (induction s arbitrary: acc)
  case (Cons c s)
  then obtain d where "hexVal c = Some d" "readBase b (acc * b + d) s = Some n"
    by (auto split: option.splits if_splits)
  with Cons.IH Cons.prems(2) have "acc * b + d \<le> n" by blast
  moreover have "acc \<le> acc * b" using Cons.prems(2) by simp
  ultimately show ?case by linarith
qed simp

text \<open>No leading zero: the first digit of a positive number is not \<open>0\<close>.\<close>

lemma fmtBase_hd: "2 \<le> b \<Longrightarrow> b \<le> 16 \<Longrightarrow> 0 < n \<Longrightarrow> hd (fmtBase b n) \<noteq> CHR ''0''"
proof (induction n rule: less_induct)
  case (less n)
  show ?case
  proof (cases "n < b")
    case True
    have "digitChar n \<noteq> CHR ''0''"
      using True less.prems byte_digitChar [of n] by (auto simp: digitChar_def)
    with True less.prems show ?thesis by (simp add: fmtBase_rec)
  next
    case False
    then have "n div b < n" "0 < n div b" using less.prems by (auto simp: div_greater_zero_iff)
    with less False show ?thesis by (simp add: fmtBase_rec [of b n])
  qed
qed

lemma fmtBase_zero: "2 \<le> b \<Longrightarrow> b \<le> 16 \<Longrightarrow> fmtBase b 0 = ''0''"
proof -
  have "(char_of (48 :: nat) :: char) = CHR ''0''" by code_simp
  then show "2 \<le> b \<Longrightarrow> b \<le> 16 \<Longrightarrow> fmtBase b 0 = ''0''"
    by (simp add: fmtBase_rec digitChar_def)
qed

section \<open>Package strconv\<close>

text \<open>\<open>strconv.ParseUint(s, 10, 16)\<close>: digits only, no sign, at most 65535.\<close>

definition ParseUint16 :: "string \<Rightarrow> nat option" where
  "ParseUint16 s = (if s = [] then None
     else case readBase 10 0 s of None \<Rightarrow> None
          | Some n \<Rightarrow> if n \<le> 65535 then Some n else None)"

lemma ParseUint16_fmtDec: "n \<le> 65535 \<Longrightarrow> ParseUint16 (fmtDec n) = Some n"
  by (simp add: ParseUint16_def readBase_fmtBase)

section \<open>Bytes\<close>

type_synonym bytes = "8 word list"

text \<open>\<open>hex.EncodeToString\<close> and \<open>hex.DecodeString\<close> (which also reads upper-case digits).\<close>

definition hexEncode :: "bytes \<Rightarrow> string" where
  "hexEncode bs = concat (map (\<lambda>w. [digitChar (unat w div 16), digitChar (unat w mod 16)]) bs)"

fun hexDecode :: "string \<Rightarrow> bytes option" where
  "hexDecode [] = Some []"
| "hexDecode [c] = None"
| "hexDecode (c # d # s) =
     (case (hexVal c, hexVal d) of
        (Some x, Some y) \<Rightarrow> map_option (\<lambda>r. word_of_nat (16 * x + y) # r) (hexDecode s)
      | _ \<Rightarrow> None)"

lemma hexDecode_hexEncode [simp]: "hexDecode (hexEncode bs) = Some bs"
proof (induction bs)
  case (Cons w bs)
  have "unat w < 2 ^ 8" using unsigned_less [of w] by simp
  then have "unat w div 16 < 16" by (simp add: less_mult_imp_div_less)
  with Cons show ?case by (simp add: hexEncode_def)
qed (simp add: hexEncode_def)

lemma length_hexEncode: "length (hexEncode bs) = 2 * length bs"
  by (induction bs) (auto simp: hexEncode_def)

text \<open>\<open>binary.BigEndian.Uint16\<close> of two bytes.\<close>

definition beUint16 :: "8 word \<Rightarrow> 8 word \<Rightarrow> 16 word" where
  "beUint16 a b = word_of_nat (unat a * 256 + unat b)"

text \<open>64-bit signed addition wraps around.\<close>

definition wrap64 :: "int \<Rightarrow> int" where
  "wrap64 x = (x + 2 ^ 63) mod 2 ^ 64 - 2 ^ 63"

definition add64 :: "int \<Rightarrow> int \<Rightarrow> int" where
  "add64 a b = wrap64 (a + b)"

lemma wrap64_id: "- (2 ^ 63) \<le> x \<Longrightarrow> x < 2 ^ 63 \<Longrightarrow> wrap64 x = x"
  by (simp add: wrap64_def)

text \<open>Digits as text, for evaluating printed numbers.\<close>

lemma digitChar_text: "digitChar 0 = CHR ''0''" "digitChar 1 = CHR ''1''" "digitChar (Suc 0) = CHR ''1''"
  "digitChar 2 = CHR ''2''" "digitChar 3 = CHR ''3''" "digitChar 4 = CHR ''4''" "digitChar 5 = CHR ''5''"
  "digitChar 6 = CHR ''6''" "digitChar 7 = CHR ''7''" "digitChar 8 = CHR ''8''" "digitChar 9 = CHR ''9''"
  by (simp_all add: digitChar_def char_of_def bit_0)

end
