(* ===== verification/GoTime.thy ===== *)
theory GoTime
  imports GoNum
begin

text \<open>
  Package \<open>time\<close> and \<open>context\<close>. A \<open>time.Time\<close> is its instant in nanoseconds since the
  zero time, an optional monotonic reading and a zone offset. A context is what its \<open>Err\<close>
  method answers at each point of the run: the argument is a logical clock that advances with
  every reading, so every race between a reading and a cancellation is a choice of the context.
\<close>

section \<open>Times\<close>

record gotime =
  t_wall :: int
  t_mono :: "int option"
  t_zone :: int

definition IsZero :: "gotime \<Rightarrow> bool" where
  "IsZero t = (t_wall t = 0)"

definition UTC :: "gotime \<Rightarrow> gotime" where
  "UTC t = t\<lparr>t_mono := None, t_zone := 0\<rparr>"

text \<open>\<open>Sub\<close> prefers the monotonic readings and saturates at the ends of \<open>time.Duration\<close>.\<close>

definition clamp64 :: "int \<Rightarrow> int" where
  "clamp64 x = max (- (2 ^ 63)) (min (2 ^ 63 - 1) x)"

definition Sub :: "gotime \<Rightarrow> gotime \<Rightarrow> int" where
  "Sub t u = clamp64 (case (t_mono t, t_mono u) of
      (Some a, Some b) \<Rightarrow> a - b
    | _ \<Rightarrow> t_wall t - t_wall u)"

definition After :: "gotime \<Rightarrow> gotime \<Rightarrow> bool" where
  "After t u = (case (t_mono t, t_mono u) of
      (Some a, Some b) \<Rightarrow> b < a
    | _ \<Rightarrow> t_wall u < t_wall t)"

definition Before :: "gotime \<Rightarrow> gotime \<Rightarrow> bool" where
  "Before t u = After u t"

text \<open>\<open>Add\<close> moves both readings; \<open>zeroTime\<close> is the zero value.\<close>

definition addDuration :: "gotime \<Rightarrow> int \<Rightarrow> gotime" where
  "addDuration t d = t\<lparr>t_wall := t_wall t + d, t_mono := map_option (\<lambda>m. m + d) (t_mono t)\<rparr>"

definition zeroTime :: gotime where
  "zeroTime = \<lparr>t_wall = 0, t_mono = None, t_zone = 0\<rparr>"

text \<open>Integer division truncates towards zero.\<close>

definition Milliseconds :: "int \<Rightarrow> int" where
  "Milliseconds d = (if 0 \<le> d then d div 1000000 else - ((- d) div 1000000))"

abbreviation Millisecond :: int where "Millisecond \<equiv> 1000000"
abbreviation Second :: int where "Second \<equiv> 1000000000"

lemma UTC_zone [simp]: "t_zone (UTC t) = 0" and UTC_wall [simp]: "t_wall (UTC t) = t_wall t"
  by (simp_all add: UTC_def)

lemma IsZero_UTC [simp]: "IsZero (UTC t) = IsZero t"
  by (simp add: IsZero_def)

text \<open>\<open>duration := finishedAt.Sub(startedAt).Milliseconds(); if duration < 0 { duration = 0 }\<close>\<close>

definition elapsedMS :: "gotime \<Rightarrow> gotime \<Rightarrow> int" where
  "elapsedMS started finished = (let d = Milliseconds (Sub finished started) in if d < 0 then 0 else d)"

lemma elapsedMS_nonneg [simp]: "0 \<le> elapsedMS s f" and elapsedMS_not_neg [simp]: "\<not> elapsedMS s f < 0"
  by (simp_all add: elapsedMS_def Let_def)

section \<open>Contexts\<close>

datatype ctxErr = Canceled | DeadlineExceeded

fun ctxText :: "ctxErr \<Rightarrow> string" where
  "ctxText Canceled = ''context canceled''"
| "ctxText DeadlineExceeded = ''context deadline exceeded''"

type_synonym ctx = "nat \<Rightarrow> ctxErr option"

lemma ctxText_not_blank [simp]: "\<not> blank (ctxText e)"
  by (cases e) (auto intro!: not_blank_graph simp: isGraph_def)

text \<open>
  The documented law of a context: once \<open>Err\<close> has returned an error, it returns the same
  error ever after.
\<close>

locale go_context =
  fixes err :: ctx
  assumes err_stable: "\<lbrakk>err m = Some e; m \<le> n\<rbrakk> \<Longrightarrow> err n = Some e"
begin

lemma err_live_before: "\<lbrakk>err n = None; m \<le> n\<rbrakk> \<Longrightarrow> err m = None"
  by (cases "err m") (auto dest: err_stable)

lemma err_unique: "\<lbrakk>err m = Some e; err n = Some e'\<rbrakk> \<Longrightarrow> e = e'"
  using err_stable [of m e n] err_stable [of n e' m] by (cases "m \<le> n") auto

end

text \<open>
  \<open>context.WithTimeout\<close>: the child reports the first of the parent's error and the expiry
  of its own timer, and keeps it. \<open>fired n\<close> says whether the timer has gone off by reading n.
\<close>

fun withTimeout :: "ctx \<Rightarrow> (nat \<Rightarrow> bool) \<Rightarrow> ctx" where
  "withTimeout parent fired 0 =
     (case parent 0 of Some e \<Rightarrow> Some e | None \<Rightarrow> if fired 0 then Some DeadlineExceeded else None)"
| "withTimeout parent fired (Suc n) =
     (case withTimeout parent fired n of
        Some e \<Rightarrow> Some e
      | None \<Rightarrow> (case parent (Suc n) of Some e \<Rightarrow> Some e
                 | None \<Rightarrow> if fired (Suc n) then Some DeadlineExceeded else None))"

lemma withTimeout_stable: "withTimeout p f m = Some e \<Longrightarrow> m \<le> n \<Longrightarrow> withTimeout p f n = Some e"
proof (induction n)
  case (Suc n)
  then show ?case by (cases "m = Suc n") auto
qed simp

interpretation timeout_ctx: go_context "withTimeout p f" for p f
  by unfold_locales (rule withTimeout_stable)

text \<open>A parent that is done leaves no child running.\<close>

lemma withTimeout_parent: "p n = Some e \<Longrightarrow> \<exists>e'. withTimeout p f n = Some e'"
  by (cases n) (auto split: option.splits)

text \<open>Contexts of a caller: never done, and done from some reading on.\<close>

definition background :: ctx where
  "background = (\<lambda>n. None)"

definition doneFrom :: "nat \<Rightarrow> ctxErr \<Rightarrow> ctx" where
  "doneFrom k e = (\<lambda>n. if k \<le> n then Some e else None)"

interpretation background_ctx: go_context background
  by unfold_locales (simp add: background_def)

interpretation done_ctx: go_context "doneFrom k e" for k e
  by unfold_locales (auto simp: doneFrom_def split: if_splits)

end
