(* ===== verification/Envelope.thy ===== *)
theory Envelope
  imports GoTime
begin

text \<open>
  Package \<open>internal/probe\<close>: the versioned evidence envelope every probe returns, and the
  invariants \<open>Envelope.Validate\<close> checks. Go's string enumerations are open types, so each
  datatype has a constructor for any other text.
\<close>

section \<open>Types\<close>

definition SchemaVersion :: int where
  "SchemaVersion = 1"

datatype Kind =
    KindSystemResolution
  | KindResolverInventory
  | KindDNSObservation
  | KindWebObservation
  | KindSSHObservation
  | KindTLSObservation
  | KindAddressFamilyConditions
  | KindOther string

datatype Capability =
    CapabilityNative
  | CapabilityDegraded
  | CapabilityOther string

datatype Outcome =
    OutcomeSucceeded
  | OutcomeFailed
  | OutcomeCancelled
  | OutcomeOther string

text \<open>The shared codes, and the codes a concrete probe adds under its own text.\<close>

datatype FailureCode =
    FailureInvalidInput
  | FailureNameUnresolved
  | FailureTimeout
  | FailureResolutionFailure
  | FailureCancelled
  | FailureOf string

record Platform =
  plat_os :: string
  plat_arch :: string

record Source =
  src_backend :: string
  src_capability :: Capability
  src_reason :: string

record Failure =
  fail_code :: FailureCode
  fail_detail :: string

record ('i, 'e) Envelope =
  env_schema :: int
  env_probe :: Kind
  env_observedAt :: gotime
  env_durationMS :: int
  env_platform :: Platform
  env_source :: Source
  env_input :: 'i
  env_outcome :: Outcome
  env_evidence :: "'e option"
  env_failure :: "Failure option"

section \<open>Validate\<close>

fun Capability_valid :: "Capability \<Rightarrow> bool" where
  "Capability_valid c = (c = CapabilityNative \<or> c = CapabilityDegraded)"

definition Validate_outcome :: "Outcome \<Rightarrow> 'e option \<Rightarrow> Failure option \<Rightarrow> error option" where
  "Validate_outcome outcome evidence failure = (case outcome of
     OutcomeSucceeded \<Rightarrow> firstErr [
       guard (evidence = None) ''succeeded outcome must include evidence'',
       guard (failure \<noteq> None) ''succeeded outcome must not include failure'']
   | OutcomeFailed \<Rightarrow> firstErr [
       guard (evidence \<noteq> None) ''failed outcome must not include evidence'',
       guard (failure = None) ''failed outcome must include failure'',
       guard (case failure of None \<Rightarrow> False
              | Some f \<Rightarrow> fail_code f = FailureOf '''' \<or> fail_code f = FailureCancelled)
         ''failed outcome must include a non-cancelled failure code'']
   | OutcomeCancelled \<Rightarrow> firstErr [
       guard (evidence \<noteq> None) ''cancelled outcome must not include evidence'',
       guard (case failure of None \<Rightarrow> True | Some f \<Rightarrow> fail_code f \<noteq> FailureCancelled)
         ''cancelled outcome must include cancelled failure'']
   | OutcomeOther x \<Rightarrow> Some ''unsupported outcome'')"

definition Validate_envelope :: "('i, 'e) Envelope \<Rightarrow> error option" where
  "Validate_envelope e = firstErr [
     guard (env_schema e \<noteq> SchemaVersion) ''schema_version must be 1'',
     guard (env_probe e = KindOther '''') ''probe must not be empty'',
     guard (IsZero (env_observedAt e)) ''observed_at must not be zero'',
     guard (t_zone (env_observedAt e) \<noteq> 0) ''observed_at must use UTC'',
     guard (env_durationMS e < 0) ''duration_ms must not be negative'',
     guard (plat_os (env_platform e) = '''' \<or> plat_arch (env_platform e) = '''')
       ''platform os and arch must not be empty'',
     guard (src_backend (env_source e) = '''') ''source backend must not be empty'',
     guard (\<not> Capability_valid (src_capability (env_source e))) ''unsupported source capability'',
     guard (src_capability (env_source e) = CapabilityNative \<and> src_reason (env_source e) \<noteq> '''')
       ''native source must not include a degradation reason'',
     guard (src_capability (env_source e) = CapabilityDegraded \<and> src_reason (env_source e) = '''')
       ''degraded source must include a reason'',
     Validate_outcome (env_outcome e) (env_evidence e) (env_failure e)]"

section \<open>What a valid envelope guarantees\<close>

lemma Validate_outcome_None: "Validate_outcome oc ev fl = None \<longleftrightarrow>
    (case oc of
       OutcomeSucceeded \<Rightarrow> ev \<noteq> None \<and> fl = None
     | OutcomeFailed \<Rightarrow> ev = None \<and> (\<exists>f. fl = Some f \<and> fail_code f \<noteq> FailureOf '''' \<and> fail_code f \<noteq> FailureCancelled)
     | OutcomeCancelled \<Rightarrow> ev = None \<and> (\<exists>f. fl = Some f \<and> fail_code f = FailureCancelled)
     | OutcomeOther x \<Rightarrow> False)"
  by (auto simp: Validate_outcome_def firstErr_simps split: Outcome.splits option.splits)

lemma Validate_envelope_None: "Validate_envelope e = None \<longleftrightarrow>
    env_schema e = SchemaVersion \<and> env_probe e \<noteq> KindOther '''' \<and>
    \<not> IsZero (env_observedAt e) \<and> t_zone (env_observedAt e) = 0 \<and> 0 \<le> env_durationMS e \<and>
    plat_os (env_platform e) \<noteq> '''' \<and> plat_arch (env_platform e) \<noteq> '''' \<and>
    src_backend (env_source e) \<noteq> '''' \<and>
    ((src_capability (env_source e) = CapabilityNative \<and> src_reason (env_source e) = '''') \<or>
     (src_capability (env_source e) = CapabilityDegraded \<and> src_reason (env_source e) \<noteq> '''')) \<and>
    Validate_outcome (env_outcome e) (env_evidence e) (env_failure e) = None"
  by (cases "src_capability (env_source e)") (simp_all add: Validate_envelope_def firstErr_simps not_less)

lemma valid_envelope_cases:
  assumes "Validate_envelope e = None"
  obtains (succeeded) ev where "env_outcome e = OutcomeSucceeded" "env_evidence e = Some ev" "env_failure e = None"
  | (failed) f where "env_outcome e = OutcomeFailed" "env_evidence e = None" "env_failure e = Some f"
      "fail_code f \<noteq> FailureOf ''''" "fail_code f \<noteq> FailureCancelled"
  | (cancelled) f where "env_outcome e = OutcomeCancelled" "env_evidence e = None" "env_failure e = Some f"
      "fail_code f = FailureCancelled"
  using assms by (auto simp: Validate_envelope_None Validate_outcome_None split: Outcome.splits)

end
