(* ===== verification/NetipRoundtrip.thy ===== *)
theory NetipRoundtrip
  imports Netip
begin

text \<open>
  The netip parser reads back what the printer writes: \<open>ParseAddr (AddrString a) = Some a\<close>
  for every address with a value, zones and IPv4-mapped addresses included, and the same for
  address-port pairs.
\<close>

section \<open>Fields\<close>

lemma hexVal_lt: "hexVal c = Some d \<Longrightarrow> d < 16"
  by (auto simp: hexVal_def isDigit_def split: if_splits)

lemma readBase_total:
  "\<forall>c \<in> set s. \<exists>d. hexVal c = Some d \<and> d < b \<Longrightarrow> \<exists>n. readBase b acc s = Some n"
  by (induction s arbitrary: acc) auto

lemma digit_hexVal: "isDigit c \<Longrightarrow> hexVal c = Some (byte c - 48)"
  by (simp add: hexVal_def)

lemma ipv4Fields_fmtDec:
  "n \<le> 255 \<Longrightarrow> \<exists>l. ipv4Fields (fmtDec n @ rest) True 0 0 fs = ipv4Fields rest False n l fs"
proof -
  have "n \<le> 255 \<Longrightarrow> ipv4Fields (fmtDec n @ rest) True 0 0 fs
      = ipv4Fields rest False n (length (fmtDec n)) fs"
  proof (induction n arbitrary: rest rule: less_induct)
    case (less n)
    show ?case
    proof (cases "n < 10")
      case True
      with less.prems show ?thesis by (simp add: fmtBase_rec)
    next
      case False
      let ?c = "digitChar (n mod 10)"
      from False have "n div 10 < n" "n div 10 \<le> 255" "0 < n div 10" using less.prems by auto
      with less have IH: "ipv4Fields (fmtDec (n div 10) @ (?c # rest)) True 0 0 fs
          = ipv4Fields (?c # rest) False (n div 10) (length (fmtDec (n div 10))) fs"
        by blast
      have "isDigit ?c" "byte ?c - 48 = n mod 10" by simp_all
      moreover have "n div 10 * 10 + n mod 10 = n" by simp
      ultimately have "ipv4Fields (?c # rest) False (n div 10) (length (fmtDec (n div 10))) fs
          = ipv4Fields rest False n (length (fmtDec (n div 10)) + 1) fs"
        using \<open>0 < n div 10\<close> less.prems by (simp add: Let_def)
      with IH False show ?thesis by (simp add: fmtBase_rec [of 10 n])
    qed
  qed
  then show "n \<le> 255 \<Longrightarrow> ?thesis" by blast
qed

lemma dotted4: "dotted [a, b, c, d] = fmtDec a @ ''.'' @ fmtDec b @ ''.'' @ fmtDec c @ ''.'' @ fmtDec d"
  by (simp add: dotted_def)

lemma ipv4Fields_dot:
  "s \<noteq> [] \<Longrightarrow> length fs < 3 \<Longrightarrow>
   ipv4Fields (CHR ''.'' # s) False v l fs = ipv4Fields s True 0 0 (fs @ [v])"
  by (simp add: isDigit_def)

lemma ipv4Fields_dotted:
  assumes "a \<le> 255" "b \<le> 255" "c \<le> 255" "d \<le> 255"
  shows "ipv4Fields (dotted [a, b, c, d]) True 0 0 [] = Some [a, b, c, d]"
proof -
  obtain la lb lc ld where
    "ipv4Fields (fmtDec a @ ''.'' @ fmtDec b @ ''.'' @ fmtDec c @ ''.'' @ fmtDec d) True 0 0 []
       = ipv4Fields (''.'' @ fmtDec b @ ''.'' @ fmtDec c @ ''.'' @ fmtDec d) False a la []"
    "ipv4Fields (fmtDec b @ ''.'' @ fmtDec c @ ''.'' @ fmtDec d) True 0 0 [a]
       = ipv4Fields (''.'' @ fmtDec c @ ''.'' @ fmtDec d) False b lb [a]"
    "ipv4Fields (fmtDec c @ ''.'' @ fmtDec d) True 0 0 [a, b]
       = ipv4Fields (''.'' @ fmtDec d) False c lc [a, b]"
    "ipv4Fields (fmtDec d @ []) True 0 0 [a, b, c] = ipv4Fields [] False d ld [a, b, c]"
    using ipv4Fields_fmtDec assms by metis
  then show ?thesis unfolding dotted4 by (simp add: ipv4Fields_dot del: ipv4Fields.simps(2))
qed

lemma hexGroup_read:
  "readBase 16 acc ds = Some n \<Longrightarrow> off + length ds \<le> 4 \<Longrightarrow> acc < 16 ^ off \<Longrightarrow>
   hexGroup (ds @ rest) off acc = hexGroup rest (off + length ds) n"
proof (induction ds arbitrary: acc off)
  case (Cons c ds)
  then obtain d where d: "hexVal c = Some d" "d < 16" "readBase 16 (acc * 16 + d) ds = Some n"
    by (auto split: option.splits if_splits)
  have lt: "acc * 16 + d < 16 ^ (off + 1)" using Cons.prems(3) d(2) by simp
  have "(16 :: nat) ^ (off + 1) \<le> 16 ^ 4" using Cons.prems(2) by (intro power_increasing) auto
  with lt have "acc * 16 + d \<le> 65535" by simp
  moreover have "hexGroup (ds @ rest) (off + 1) (acc * 16 + d) = hexGroup rest (off + 1 + length ds) n"
    using Cons.IH [OF d(3)] Cons.prems(2) lt by simp
  ultimately show ?case using d Cons.prems by simp
qed simp

definition stops :: "string \<Rightarrow> bool" where
  "stops s = (case s of [] \<Rightarrow> True | c # _ \<Rightarrow> hexVal c = None)"

lemma hexGroup_stops: "stops rest \<Longrightarrow> hexGroup rest off n = Some (off, n, rest)"
  by (cases rest) (auto simp: stops_def)

lemma hexGroup_fmtHex:
  assumes "n < 65536" "stops rest"
  shows "hexGroup (fmtHex n @ rest) 0 0 = Some (length (fmtHex n), n, rest)"
proof -
  have "length (fmtHex n) \<le> 4" using fmtBase_length [of 16 n 4] assms by simp
  then show ?thesis
    using hexGroup_read [of 0 "fmtHex n" n 0 rest] readBase_fmtBase [of 16 n] assms
    by (simp add: hexGroup_stops)
qed

lemma fmtDec_read16: "\<exists>m. readBase 16 0 (fmtDec n) = Some m"
proof (rule readBase_total, rule ballI)
  fix c assume "c \<in> set (fmtDec n)"
  then have "isDigit c" by (rule fmtDec_isDigit)
  then show "\<exists>d. hexVal c = Some d \<and> d < 16"
    by (auto simp: digit_hexVal isDigit_def)
qed

lemma hexGroup_octet:
  assumes "n \<le> 255"
  shows "\<exists>m. hexGroup (fmtDec n @ CHR ''.'' # rest) 0 0 = Some (length (fmtDec n), m, CHR ''.'' # rest)"
proof -
  obtain m where "readBase 16 0 (fmtDec n) = Some m" using fmtDec_read16 by blast
  moreover have "length (fmtDec n) \<le> 3" using fmtBase_length [of 10 n 3] assms by simp
  ultimately have "hexGroup (fmtDec n @ CHR ''.'' # rest) 0 0
      = hexGroup (CHR ''.'' # rest) (length (fmtDec n)) m"
    using hexGroup_read [of 0 "fmtDec n" m 0] by simp
  then show ?thesis by (simp add: hexVal_def isDigit_def)
qed

section \<open>Groups\<close>

lemma fmtHex_Cons: obtains c t where "fmtHex n = c # t" "hexVal c \<noteq> None" "c \<noteq> CHR '':''" "c \<noteq> CHR ''.''" "c \<noteq> CHR ''%''"
proof -
  obtain c t where c: "fmtHex n = c # t" by (cases "fmtHex n") auto
  then have "\<exists>d < 16. c = digitChar d" using fmtBase_digits [of 16 c n] by simp
  then obtain d where d: "d < 16" "c = digitChar d" by blast
  then have v: "hexVal c = Some d" by simp
  then have "c \<noteq> CHR '':''" "c \<noteq> CHR ''.''" "c \<noteq> CHR ''%''"
    by (auto simp: hexVal_def isDigit_def)
  with c v show ?thesis by (intro that) auto
qed

lemma stops_colon: "stops (CHR '':'' # s)" and stops_Nil: "stops []"
  by (simp_all add: stops_def hexVal_def isDigit_def)

lemma v6Loop_last:
  "length gs < 8 \<Longrightarrow> g < 65536 \<Longrightarrow> v6Loop (fmtHex g) gs ell = Some ([], gs @ [g], ell)"
  using hexGroup_fmtHex [of g "[]"] by (simp add: v6Loop.simps [of "fmtHex g"] stops_Nil)

lemma v6Loop_colon:
  "length gs < 8 \<Longrightarrow> g < 65536 \<Longrightarrow> c \<noteq> CHR '':'' \<Longrightarrow>
   v6Loop (fmtHex g @ CHR '':'' # c # s) gs ell = v6Loop (c # s) (gs @ [g]) ell"
  using hexGroup_fmtHex [of g "CHR '':'' # c # s"]
  by (simp add: v6Loop.simps [of "fmtHex g @ CHR '':'' # c # s"] stops_colon)

lemma v6Loop_ellipsis:
  "length gs < 8 \<Longrightarrow> g < 65536 \<Longrightarrow>
   v6Loop (fmtHex g @ CHR '':'' # CHR '':'' # s) gs None =
     (if s = [] then Some ([], gs @ [g], Some (length gs + 1))
      else v6Loop s (gs @ [g]) (Some (length gs + 1)))"
  using hexGroup_fmtHex [of g "CHR '':'' # CHR '':'' # s"]
  by (simp add: v6Loop.simps [of "fmtHex g @ CHR '':'' # CHR '':'' # s"] stops_colon)

lemma colons_Cons: "gs \<noteq> [] \<Longrightarrow> colons (g # gs) = fmtHex g @ CHR '':'' # colons gs"
  by (cases gs) (simp_all add: colons_def)

lemma colons_single: "colons [g] = fmtHex g" and colons_Nil: "colons [] = []"
  by (simp_all add: colons_def)

lemma colons_hd:
  assumes "gs \<noteq> []"
  obtains c t where "colons gs = c # t" "hexVal c \<noteq> None" "c \<noteq> CHR '':''" "c \<noteq> CHR ''.''" "c \<noteq> CHR ''%''"
proof -
  from assms obtain g gs' where gs: "gs = g # gs'" by (cases gs) auto
  obtain c t where c: "fmtHex g = c # t" "hexVal c \<noteq> None" "c \<noteq> CHR '':''" "c \<noteq> CHR ''.''" "c \<noteq> CHR ''%''"
    by (rule fmtHex_Cons)
  then show ?thesis
    using gs that by (cases "gs' = []") (auto simp: colons_Cons colons_single)
qed

lemma v6Loop_colons:
  "gs \<noteq> [] \<Longrightarrow> \<forall>g \<in> set gs. g < 65536 \<Longrightarrow> length pre + length gs \<le> 8 \<Longrightarrow>
   v6Loop (colons gs) pre ell = Some ([], pre @ gs, ell)"
proof (induction gs arbitrary: pre)
  case (Cons g gs)
  show ?case
  proof (cases "gs = []")
    case True
    with Cons.prems show ?thesis by (simp add: colons_single v6Loop_last)
  next
    case False
    then obtain c t where c: "colons gs = c # t" "c \<noteq> CHR '':''" by (rule colons_hd)
    have "v6Loop (colons (g # gs)) pre ell = v6Loop (colons gs) (pre @ [g]) ell"
      using c False Cons.prems by (simp add: colons_Cons v6Loop_colon)
    with Cons.IH [OF False, of "pre @ [g]"] Cons.prems show ?thesis by simp
  qed
qed simp

lemma v6Loop_colons_ellipsis:
  "gs \<noteq> [] \<Longrightarrow> \<forall>g \<in> set gs. g < 65536 \<Longrightarrow> length pre + length gs \<le> 8 \<Longrightarrow>
   v6Loop (colons gs @ CHR '':'' # CHR '':'' # s) pre None =
     (if s = [] then Some ([], pre @ gs, Some (length (pre @ gs)))
      else v6Loop s (pre @ gs) (Some (length (pre @ gs))))"
proof (induction gs arbitrary: pre)
  case (Cons g gs)
  show ?case
  proof (cases "gs = []")
    case True
    with Cons.prems show ?thesis by (simp add: colons_single v6Loop_ellipsis)
  next
    case False
    then obtain c t where c: "colons gs = c # t" "c \<noteq> CHR '':''" by (rule colons_hd)
    have "v6Loop (colons (g # gs) @ CHR '':'' # CHR '':'' # s) pre None
        = v6Loop (colons gs @ CHR '':'' # CHR '':'' # s) (pre @ [g]) None"
      using c False Cons.prems by (simp add: colons_Cons v6Loop_colon)
    with Cons.IH [OF False, of "pre @ [g]"] Cons.prems show ?thesis by simp
  qed
qed simp

section \<open>Zero runs\<close>

definition zeroSpan :: "nat list \<Rightarrow> nat \<times> nat \<Rightarrow> bool" where
  "zeroSpan gs p = (case p of (s, e) \<Rightarrow>
     s + 2 \<le> e \<and> e \<le> length gs \<and> take (e - s) (drop s gs) = replicate (e - s) 0)"

lemma zeroRun_span: "2 \<le> zeroRun gs i \<Longrightarrow> zeroSpan gs (i, i + zeroRun gs i)"
proof -
  let ?t = "takeWhile (\<lambda>g. g = 0) (drop i gs)"
  assume two: "2 \<le> zeroRun gs i"
  have "take (length ?t) (drop i gs) = ?t" by (simp add: takeWhile_eq_take [symmetric] flip: takeWhile_eq_take)
  moreover have "?t = replicate (length ?t) 0"
    by (auto simp: replicate_length_same dest: set_takeWhileD intro!: replicate_length_same [symmetric])
  moreover have "length ?t \<le> length gs - i" using length_takeWhile_le [of _ "drop i gs"] by simp
  ultimately show ?thesis using two by (auto simp: zeroSpan_def zeroRun_def)
qed

lemma fold_bestRunStep_span:
  "fold (bestRunStep gs) is best = Some p \<Longrightarrow> \<forall>p. best = Some p \<longrightarrow> zeroSpan gs p \<Longrightarrow> zeroSpan gs p"
proof (induction "is" arbitrary: best)
  case (Cons i "is")
  have "\<forall>p. bestRunStep gs i best = Some p \<longrightarrow> zeroSpan gs p"
    using Cons.prems(2) zeroRun_span [of gs i] by (auto simp: bestRunStep_def Let_def)
  with Cons.IH Cons.prems(1) show ?case by simp
qed simp

lemma bestRun_span: "bestRun gs = Some p \<Longrightarrow> zeroSpan gs p"
  unfolding bestRun_def by (erule fold_bestRunStep_span) simp

lemma zeroSpan_split:
  assumes "zeroSpan gs (s, e)"
  shows "gs = take s gs @ replicate (e - s) 0 @ drop e gs"
proof -
  have "gs = take s gs @ take (e - s) (drop s gs) @ drop (e - s) (drop s gs)"
    by (simp only: append_take_drop_id)
  moreover have "drop (e - s) (drop s gs) = drop e gs"
    using assms by (simp add: zeroSpan_def)
  ultimately show ?thesis using assms by (simp add: zeroSpan_def)
qed

lemma startsWith_colons: "gs \<noteq> [] \<Longrightarrow> \<not> startsWith ''::'' (colons gs @ s)"
  by (rule colons_hd [of gs]) (auto simp: startsWith_def)

lemma parseGroups6_string6:
  assumes len: "length gs = 8" and rng: "\<forall>g \<in> set gs. g < 65536"
  shows "parseGroups6 (string6 gs) = Some gs"
proof (cases "bestRun gs")
  case None
  have "gs \<noteq> []" using len by auto
  moreover have "v6Loop (colons gs) [] None = Some ([], gs, None)"
    using v6Loop_colons [of gs "[]"] \<open>gs \<noteq> []\<close> len rng by simp
  ultimately show ?thesis using None startsWith_colons [of gs "[]"] len
    by (simp add: string6_def parseGroups6_def v6Finish_def)
next
  case (Some p)
  obtain s e where p: "p = (s, e)" by (cases p)
  let ?L = "take s gs" and ?R = "drop e gs"
  have span: "zeroSpan gs (s, e)" using bestRun_span Some p by simp
  then have se: "s + 2 \<le> e" "e \<le> 8" using len by (auto simp: zeroSpan_def)
  have split: "gs = ?L @ replicate (e - s) 0 @ ?R" by (rule zeroSpan_split [OF span])
  have lens: "length ?L = s" "length ?R = 8 - e" using se len by auto
  have rngs: "\<forall>g \<in> set ?L. g < 65536" "\<forall>g \<in> set ?R. g < 65536"
    using rng by (auto dest: in_set_takeD in_set_dropD)
  have str: "string6 gs = colons ?L @ CHR '':'' # CHR '':'' # colons ?R"
    using Some p by (simp add: string6_def)
  have e8: "8 - (8 - e) = e" "s + (8 - e) < 8" "8 - (s + (8 - e)) = e - s" using se by auto
  have fin: "v6Finish (Some ([], ?L @ ?R, Some s)) = Some gs"
    using split lens e8 by (simp add: v6Finish_def)
  show ?thesis
  proof (cases "s = 0")
    case True
    show ?thesis
    proof (cases "?R = []")
      case R: True
      then have "gs = replicate 8 0" using split True lens se len by (metis append_Nil append_Nil2 length_replicate take_0)
      with str True R show ?thesis by (simp add: parseGroups6_def startsWith_def colons_Nil)
    next
      case False
      then obtain c t where c: "colons ?R = c # t" by (rule colons_hd)
      have "v6Loop (colons ?R) [] (Some 0) = Some ([], ?R, Some 0)"
        using v6Loop_colons [of ?R "[]"] False rngs lens by simp
      with str True c fin show ?thesis by (simp add: parseGroups6_def startsWith_def colons_Nil)
    qed
  next
    case False
    then have L: "?L \<noteq> []" using lens by auto
    have "v6Loop (string6 gs) [] None = Some ([], ?L @ ?R, Some s)"
    proof (cases "?R = []")
      case True
      with v6Loop_colons_ellipsis [OF L rngs(1), of "[]" "[]"] lens se str
      show ?thesis by (simp add: colons_Nil)
    next
      case R: False
      then obtain c t where c: "colons ?R = c # t" by (rule colons_hd)
      have "v6Loop (string6 gs) [] None = v6Loop (colons ?R) ?L (Some s)"
        using v6Loop_colons_ellipsis [OF L rngs(1), of "[]" "colons ?R"] lens se str c by simp
      also have "\<dots> = Some ([], ?L @ ?R, Some s)"
        using v6Loop_colons [OF R rngs(2), of ?L] lens se by simp
      finally show ?thesis .
    qed
    with fin str startsWith_colons [OF L] show ?thesis by (simp add: parseGroups6_def)
  qed
qed

section \<open>Addresses\<close>

definition percentFree :: "string \<Rightarrow> bool" where
  "percentFree s = (CHR ''%'' \<notin> set s)"

lemma takeWhile_zone:
  "percentFree s \<Longrightarrow> takeWhile (\<lambda>c. c \<noteq> CHR ''%'') (s @ zoneSuffix z) = s"
  by (auto simp: percentFree_def zoneSuffix_def takeWhile_append takeWhile_eq_all_conv)

lemma parseIPv6_zone:
  assumes "percentFree s"
  shows "parseIPv6 (s @ zoneSuffix z) = map_option (\<lambda>gs. mkAddr6 gs z) (parseGroups6 s)"
  using takeWhile_zone [OF assms, of z] by (simp add: parseIPv6_def Let_def) (simp add: zoneSuffix_def)

lemma not_digit_percent: "isDigit c \<Longrightarrow> c \<noteq> CHR ''%'' \<and> c \<noteq> CHR ''.'' \<and> c \<noteq> CHR '':''"
  by (auto simp: isDigit_def)

lemma fmtHex_free: "c \<in> set (fmtHex n) \<Longrightarrow> c \<noteq> CHR ''%'' \<and> c \<noteq> CHR ''.'' \<and> c \<noteq> CHR '':''"
proof -
  assume "c \<in> set (fmtHex n)"
  then obtain d where "d < 16" "c = digitChar d" using fmtBase_digits [of 16 c n] by auto
  then have "isDigit c \<or> 97 \<le> byte c" by (auto simp: isDigit_def)
  then show ?thesis by (auto simp: isDigit_def)
qed

lemma colons_free: "c \<in> set (colons gs) \<Longrightarrow> c \<noteq> CHR ''%'' \<and> c \<noteq> CHR ''.''"
proof (induction gs)
  case (Cons g gs)
  then show ?case by (cases "gs = []") (auto simp: colons_Cons colons_single dest: fmtHex_free)
qed (simp add: colons_Nil)

lemma string6_free: "c \<in> set (string6 gs) \<Longrightarrow> c \<noteq> CHR ''%'' \<and> c \<noteq> CHR ''.''"
  by (auto simp: string6_def split: option.splits prod.splits dest: colons_free)

lemma string6_colon: assumes "length gs = 8" shows "CHR '':'' \<in> set (string6 gs)"
proof (cases "bestRun gs")
  case None
  obtain g gs' where "gs = g # gs'" "gs' \<noteq> []" using assms by (cases gs; cases "tl gs") auto
  with None show ?thesis by (simp add: string6_def colons_Cons)
qed (auto simp: string6_def split: prod.splits)

lemma find_colon:
  "\<forall>c \<in> set s. c \<noteq> CHR ''.'' \<and> c \<noteq> CHR ''%'' \<Longrightarrow> CHR '':'' \<in> set s \<Longrightarrow>
   find (\<lambda>c. c = CHR ''.'' \<or> c = CHR '':'' \<or> c = CHR ''%'') (s @ t) = Some (CHR '':'')"
  by (induction s) auto

lemma ParseAddr_colon:
  assumes "\<forall>c \<in> set s. c \<noteq> CHR ''.'' \<and> c \<noteq> CHR ''%''" "CHR '':'' \<in> set s"
  shows "ParseAddr (s @ t) = parseIPv6 (s @ t)"
  using find_colon [OF assms] by (simp add: ParseAddr_def)

lemma find_dot: "\<forall>c \<in> set s. isDigit c \<Longrightarrow>
   find (\<lambda>c. c = CHR ''.'' \<or> c = CHR '':'' \<or> c = CHR ''%'') (s @ CHR ''.'' # t) = Some (CHR ''.'')"
  by (induction s) (auto dest: not_digit_percent)

lemma unat_octet: "unat (w :: octet) \<le> 255"
proof -
  have "unat w < 2 ^ 8" using unsigned_less [of w] by simp
  then show ?thesis by simp
qed

lemma unat_hextet: "unat (w :: hextet) < 65536"
proof -
  have "unat w < 2 ^ 16" using unsigned_less [of w] by simp
  then show ?thesis by simp
qed

lemma ParseAddr_dotted:
  "ParseAddr (dotted [unat a, unat b, unat c, unat d]) = Some (Addr4 a b c d)"
proof -
  have "ParseAddr (dotted [unat a, unat b, unat c, unat d])
      = parseIPv4 (dotted [unat a, unat b, unat c, unat d])"
    using find_dot [of "fmtDec (unat a)"] fmtDec_isDigit
    by (simp add: ParseAddr_def dotted4)
  then show ?thesis
    by (simp add: parseIPv4_def ipv4Fields_dotted unat_octet)
qed

lemma groups6_mkAddr6: "mkAddr6 (map unat [a, b, c, d, e, f, g, h :: hextet]) z = Addr6 a b c d e f g h z"
  by (simp add: mkAddr6_def)

lemma parseGroups6_mapped:
  assumes "a \<le> 255" "b \<le> 255" "c \<le> 255" "d \<le> 255"
  shows "parseGroups6 (''::ffff:'' @ dotted [a, b, c, d])
    = Some [0, 0, 0, 0, 0, 65535, a * 256 + b, c * 256 + d]"
proof -
  let ?v = "dotted [a, b, c, d]"
  have hv: "hd ?v \<noteq> CHR '':''" "?v \<noteq> []"
    using fmtDec_isDigit [of "hd (fmtDec a)" a]
    by (auto simp: dotted4 isDigit_def)
  have "hexGroup (''ffff:'' @ ?v) 0 0 = Some (4, 65535, CHR '':'' # ?v)"
    by (simp add: hexVal_def isDigit_def)
  moreover obtain x xs where "?v = x # xs" "x \<noteq> CHR '':''" using hv by (cases ?v) auto
  ultimately have "v6Loop (''ffff:'' @ ?v) [] (Some 0) = v6Loop ?v [65535] (Some 0)"
    by (simp add: v6Loop.simps [of "''ffff:'' @ _"] del: hexGroup.simps append_Cons)
  also have "\<dots> = Some ([], [65535, a * 256 + b, c * 256 + d], Some 0)"
  proof -
    obtain m where "hexGroup ?v 0 0
        = Some (length (fmtDec a), m, CHR ''.'' # fmtDec b @ ''.'' @ fmtDec c @ ''.'' @ fmtDec d)"
      using hexGroup_octet [OF assms(1)] by (fastforce simp: dotted4)
    then show ?thesis using ipv4Fields_dotted [OF assms] by (simp add: v6Loop.simps [of ?v])
  qed
  finally have "v6Loop (''ffff:'' @ ?v) [] (Some 0) = Some ([], [65535, a * 256 + b, c * 256 + d], Some 0)" .
  moreover have "replicate 5 (0 :: nat) = [0, 0, 0, 0, 0]" by (simp add: numeral_eq_Suc)
  ultimately show ?thesis by (simp add: parseGroups6_def startsWith_def v6Finish_def)
qed

theorem ParseAddr_String: "IsValid a \<Longrightarrow> ParseAddr (AddrString a) = Some a"
proof (cases a)
  case (Addr4 a1 b1 c1 d1)
  then show ?thesis using ParseAddr_dotted [of a1 b1 c1 d1] by (simp add: AddrString_def)
next
  case (Addr6 a1 b1 c1 d1 e1 f1 g1 h1 z)
  show ?thesis
  proof (cases "Is4In6 a")
    case True
    let ?o = "octets4 (Unmap a)"
    have o: "?o = [unat g1 div 256, unat g1 mod 256, unat h1 div 256, unat h1 mod 256]"
      using True Addr6 unat_hextet [of g1] unat_hextet [of h1]
      by (simp add: hiOctet_def loOctet_def unat_of_nat less_mult_imp_div_less)
    have le: "unat g1 div 256 \<le> 255" "unat h1 div 256 \<le> 255"
      using unat_hextet [of g1] unat_hextet [of h1] by linarith+
    have free: "percentFree (''::ffff:'' @ dotted ?o)"
      unfolding o dotted4 percentFree_def by (auto dest!: fmtDec_isDigit not_digit_percent)
    have "ParseAddr (AddrString a) = parseIPv6 ((''::ffff:'' @ dotted ?o) @ zoneSuffix z)"
      using True Addr6 ParseAddr_colon [of "''::ffff:''" "dotted ?o @ zoneSuffix z"]
      by (simp add: AddrString_def)
    also have "\<dots> = map_option (\<lambda>gs. mkAddr6 gs z) (parseGroups6 (''::ffff:'' @ dotted ?o))"
      by (rule parseIPv6_zone [OF free])
    also have "\<dots> = Some (mkAddr6 [0, 0, 0, 0, 0, 65535, unat g1, unat h1] z)"
      unfolding o using parseGroups6_mapped [OF le(1) _ le(2), of "unat g1 mod 256" "unat h1 mod 256"]
      by simp
    also have "\<dots> = Some a" using True Addr6 by (simp add: mkAddr6_def)
    finally show ?thesis .
  next
    case False
    let ?gs = "groups6 a"
    have gs: "?gs = map unat [a1, b1, c1, d1, e1, f1, g1, h1]" using Addr6 by simp
    have "ParseAddr (AddrString a) = parseIPv6 (string6 ?gs @ zoneSuffix z)"
      using False Addr6 ParseAddr_colon [of "string6 ?gs" "zoneSuffix z"] string6_free string6_colon gs
      by (auto simp: AddrString_def)
    also have "\<dots> = map_option (\<lambda>gs. mkAddr6 gs z) (parseGroups6 (string6 ?gs))"
      by (rule parseIPv6_zone) (use string6_free in \<open>auto simp: percentFree_def\<close>)
    also have "\<dots> = Some (mkAddr6 ?gs z)"
      using parseGroups6_string6 [of ?gs] gs unat_hextet by auto
    also have "\<dots> = Some a" using Addr6 by (simp add: mkAddr6_def)
    finally show ?thesis .
  qed
qed simp

section \<open>Address and port\<close>

lemma takeWhile_rev_colon:
  "\<forall>c \<in> set p. c \<noteq> CHR '':'' \<Longrightarrow>
   rev (takeWhile (\<lambda>c. c \<noteq> CHR '':'') (rev (h @ CHR '':'' # p))) = p"
  by (simp add: takeWhile_append)

lemma ParseAddrPort_split:
  assumes "\<forall>c \<in> set p. c \<noteq> CHR '':''" "h \<noteq> []" "p \<noteq> []"
  shows "ParseAddrPort (h @ CHR '':'' # p) =
    (if hd h = CHR ''['' \<and> (length h < 2 \<or> last h \<noteq> CHR '']'') then None
     else case (ParseUint16 p, ParseAddr (if hd h = CHR ''['' then butlast (tl h) else h)) of
         (Some n, Some a) \<Rightarrow>
           if (hd h = CHR ''['' \<and> Is4 a) \<or> (hd h \<noteq> CHR ''['' \<and> Is6 a) then None else Some (a, n)
       | _ \<Rightarrow> None)"
  unfolding ParseAddrPort_def takeWhile_rev_colon [OF assms(1)] Let_def
  using assms(2,3) by (simp cong: option.case_cong)

lemma fmtDec_no_colon: "\<forall>c \<in> set (fmtDec n). c \<noteq> CHR '':''"
  using fmtDec_isDigit not_digit_percent by blast

theorem ParseAddrPort_String:
  assumes valid: "IsValid a" and port: "n \<le> 65535"
  shows "ParseAddrPort (AddrPortString (a, n)) = Some (a, n)"
proof -
  note rt = ParseAddr_String [OF valid] ParseUint16_fmtDec [OF port]
  show ?thesis
  proof (cases "Is4 a")
    case True
    then obtain x y z w where a: "a = Addr4 x y z w" by (cases a) auto
    then have "AddrString a \<noteq> []" "hd (AddrString a) \<noteq> CHR ''[''"
      using fmtDec_isDigit [of "hd (fmtDec (unat x))" "unat x"]
      by (auto simp: AddrString_def dotted4 isDigit_def)
    with True a rt ParseAddrPort_split [of "fmtDec n" "AddrString a"] fmtDec_no_colon show ?thesis
      by (simp add: AddrPortString_def)
  next
    case False
    let ?h = "CHR ''['' # AddrString a @ [CHR '']'']"
    have "a \<noteq> AddrInvalid" "Is6 a" using valid False by (cases a; simp)+
    with False rt ParseAddrPort_split [of "fmtDec n" ?h] fmtDec_no_colon show ?thesis
      by (cases a) (auto simp: AddrPortString_def)
  qed
qed

end
