(* ===== verification/Nettarget.thy ===== *)
theory Nettarget
  imports NetipRoundtrip
begin

text \<open>
  Package \<open>internal/nettarget\<close>: the one place that decides which literal addresses and
  which host names the program may contact. \<open>NormalizePublicIP\<close> returns the canonical text,
  the address and the error, as the Go function does; the hostname policy is
  \<open>NormalizeWebHostname\<close>.
\<close>

section \<open>Public addresses\<close>

definition mustPrefixes :: "string list \<Rightarrow> (Addr \<times> nat) list option" where
  "mustPrefixes values = those (map ParsePrefix values)"

text \<open>\<open>MustParsePrefix\<close> panics on a bad literal; \<open>deniedPublicPrefixes_eq\<close> shows that none is.\<close>

definition deniedPublicPrefixes :: "(Addr \<times> nat) list" where
  "deniedPublicPrefixes = the (mustPrefixes [
     ''0.0.0.0/8'', ''10.0.0.0/8'', ''100.64.0.0/10'', ''127.0.0.0/8'', ''169.254.0.0/16'',
     ''172.16.0.0/12'', ''192.0.0.0/24'', ''192.0.2.0/24'', ''192.88.99.0/24'', ''192.168.0.0/16'',
     ''198.18.0.0/15'', ''198.51.100.0/24'', ''203.0.113.0/24'', ''224.0.0.0/4'', ''240.0.0.0/4'',
     ''64:ff9b::/96'', ''64:ff9b:1::/48'', ''100::/64'', ''2001::/23'', ''2001:db8::/32'',
     ''2002::/16'', ''3ffe::/16'', ''3fff::/20'', ''5f00::/16'', ''fc00::/7'', ''fe80::/10'',
     ''ff00::/8''])"

definition allocatedIPv6GlobalUnicast :: "Addr \<times> nat" where
  "allocatedIPv6GlobalUnicast = the (ParsePrefix ''2000::/3'')"

definition isAllowedPublicIP :: "Addr \<Rightarrow> bool" where
  "isAllowedPublicIP ip =
     (if \<not> IsValid ip \<or> \<not> IsGlobalUnicast ip \<or> IsPrivate ip \<or> IsLoopback ip \<or>
         IsLinkLocalUnicast ip \<or> IsMulticast ip \<or> IsUnspecified ip then False
      else if Is6 ip \<and> \<not> PrefixContains allocatedIPv6GlobalUnicast ip then False
      else \<not> list_ex (\<lambda>prefix. PrefixContains prefix ip) deniedPublicPrefixes)"

definition NormalizePublicIP :: "string \<Rightarrow> string \<times> Addr \<times> error option" where
  "NormalizePublicIP value =
     (let text = TrimSpace value in
      case ParseAddr text of
        None \<Rightarrow> (text, AddrInvalid, Some ''target must be one IP literal'')
      | Some ip0 \<Rightarrow>
          if Zone ip0 \<noteq> '''' then
            (AddrString ip0, AddrInvalid, Some ''target must not include an IPv6 zone'')
          else (let ip = Unmap ip0; text = AddrString ip in
            if \<not> isAllowedPublicIP ip then
              (text, ip, Some ''target is not an allowed public address'')
            else (text, ip, None)))"

section \<open>Web host names\<close>

definition hostnameReserved :: string where
  "hostnameReserved = [CHR ''/'', CHR 0x5C, CHR '':'', CHR ''@'', CHR ''?'', CHR ''#'', CHR ''['', CHR '']'', CHR ''*'']"

definition hostnameChar :: "nat \<Rightarrow> bool" where
  "hostnameChar r = ((97 \<le> r \<and> r \<le> 122) \<or> (48 \<le> r \<and> r \<le> 57) \<or> r = 45)"

definition webLabelErr :: "string \<Rightarrow> error option" where
  "webLabelErr label = firstErr [
     guard (length label = 0 \<or> 63 < length label) ''hostname labels must contain 1 to 63 bytes'',
     guard (label \<noteq> [] \<and> (hd label = CHR ''-'' \<or> last label = CHR ''-''))
       ''hostname labels must not begin or end with a hyphen'',
     guard (\<not> list_all (\<lambda>r. r \<le> 127 \<and> hostnameChar r) (runes label))
       ''hostname must be normalized ASCII letters, digits, dots, and hyphens'']"

definition webHostnameText :: "'a unitab_scheme \<Rightarrow> string \<Rightarrow> string" where
  "webHostnameText u value = TrimSuffixDot (ToLower u (TrimSpace value))"

definition webHostnameErr :: "string \<Rightarrow> error option" where
  "webHostnameErr hostname = firstErr ([
     guard (hostname = '''') ''hostname must not be empty'',
     guard (253 < length hostname) ''hostname exceeds 253 bytes'',
     guard (CHR ''.'' \<notin> set hostname) ''hostname must not be a single-label local name'',
     guard (ParseAddr hostname \<noteq> None) ''IP literals are not Web observation hostnames'',
     guard (ContainsAny hostname hostnameReserved \<or> hasSpaceRune hostname)
       ''hostname must not include a scheme, port, path, or whitespace'']
     @ map webLabelErr (splitOn (CHR ''.'') hostname))"

definition NormalizeWebHostname :: "'a unitab_scheme \<Rightarrow> string \<Rightarrow> string \<times> error option" where
  "NormalizeWebHostname u value =
     (let hostname = webHostnameText u value in (hostname, webHostnameErr hostname))"

end
