(* ===== verification/NettargetProps.thy ===== *)
theory NettargetProps
  imports Nettarget
begin

text \<open>
  What the target policy guarantees: the normalizer is idempotent (so an envelope can record
  its output and a validator can recompute it), accepted text is canonical and reads back as
  the address, and the accepted addresses are exactly those outside the special-purpose ranges.
\<close>

section \<open>The table\<close>

lemma deniedPublicPrefixes_eq: "deniedPublicPrefixes =
  [(Addr4 0 0 0 0, 8), (Addr4 10 0 0 0, 8), (Addr4 100 64 0 0, 10),
   (Addr4 127 0 0 0, 8), (Addr4 169 254 0 0, 16), (Addr4 172 16 0 0, 12),
   (Addr4 192 0 0 0, 24), (Addr4 192 0 2 0, 24), (Addr4 192 88 99 0, 24),
   (Addr4 192 168 0 0, 16), (Addr4 198 18 0 0, 15), (Addr4 198 51 100 0, 24),
   (Addr4 203 0 113 0, 24), (Addr4 224 0 0 0, 4), (Addr4 240 0 0 0, 4),
   (Addr6 100 65435 0 0 0 0 0 0 [], 96),
   (Addr6 100 65435 1 0 0 0 0 0 [], 48), (Addr6 256 0 0 0 0 0 0 0 [], 64),
   (Addr6 8193 0 0 0 0 0 0 0 [], 23), (Addr6 8193 3512 0 0 0 0 0 0 [], 32),
   (Addr6 8194 0 0 0 0 0 0 0 [], 16), (Addr6 16382 0 0 0 0 0 0 0 [], 16),
   (Addr6 16383 0 0 0 0 0 0 0 [], 20), (Addr6 24320 0 0 0 0 0 0 0 [], 16),
   (Addr6 64512 0 0 0 0 0 0 0 [], 7), (Addr6 65152 0 0 0 0 0 0 0 [], 10),
   (Addr6 65280 0 0 0 0 0 0 0 [], 8)]"
  by (simp add: deniedPublicPrefixes_def mustPrefixes_def netip_prefix_eval netip_parse_eval)

lemma allocatedIPv6GlobalUnicast_eq: "allocatedIPv6GlobalUnicast = (Addr6 8192 0 0 0 0 0 0 0 [], 3)"
  by (simp add: allocatedIPv6GlobalUnicast_def netip_prefix_eval netip_parse_eval)

section \<open>Prefixes as ranges\<close>

lemma uint8_range: "0 \<le> uint (a :: octet)" "uint (a :: octet) < 256"
proof -
  have "uint a < 2 ^ 8" using uint_bounded [of a] by simp
  then show "uint (a :: octet) < 256" by simp
qed simp

lemma uint16_range: "0 \<le> uint (a :: hextet)" "uint (a :: hextet) < 65536"
proof -
  have "uint a < 2 ^ 16" using uint_bounded [of a] by simp
  then show "uint (a :: hextet) < 65536" by simp
qed simp

lemma div_range: "0 < (d :: int) \<Longrightarrow> x div d = q \<longleftrightarrow> d * q \<le> x \<and> x < d * q + d"
proof -
  assume d: "0 < d"
  have m: "x = d * (x div d) + x mod d" "0 \<le> x mod d" "x mod d < d" using d by simp_all
  show ?thesis
  proof
    assume "x div d = q" then show "d * q \<le> x \<and> x < d * q + d" using m by auto
  next
    assume r: "d * q \<le> x \<and> x < d * q + d"
    show "x div d = q"
      by (rule int_div_pos_eq [of _ _ _ "x - d * q"]) (use r in simp_all)
  qed
qed

text \<open>An IPv4 value of octets \<open>A B C D\<close> under the masks of the table.\<close>

lemma v4_mask_ranges:
  fixes A B C D :: int
  assumes b: "0 \<le> A" "A < 256" "0 \<le> B" "B < 256" "0 \<le> C" "C < 256" "0 \<le> D" "D < 256"
  defines "V \<equiv> 16777216 * A + 65536 * B + C * 256 + D"
  shows "V div 16777216 = q \<longleftrightarrow> A = q"
    and "V div 4194304 = 401 \<longleftrightarrow> A = 100 \<and> 64 \<le> B \<and> B \<le> 127"
    and "V div 1048576 = 2753 \<longleftrightarrow> A = 172 \<and> 16 \<le> B \<and> B \<le> 31"
    and "V div 131072 = 25353 \<longleftrightarrow> A = 198 \<and> 18 \<le> B \<and> B \<le> 19"
    and "V div 65536 = 43518 \<longleftrightarrow> A = 169 \<and> B = 254"
    and "V div 65536 = 49320 \<longleftrightarrow> A = 192 \<and> B = 168"
    and "V div 256 = 12582912 \<longleftrightarrow> A = 192 \<and> B = 0 \<and> C = 0"
    and "V div 256 = 12582914 \<longleftrightarrow> A = 192 \<and> B = 0 \<and> C = 2"
    and "V div 256 = 12605539 \<longleftrightarrow> A = 192 \<and> B = 88 \<and> C = 99"
    and "V div 256 = 12989284 \<longleftrightarrow> A = 198 \<and> B = 51 \<and> C = 100"
    and "V div 256 = 13303921 \<longleftrightarrow> A = 203 \<and> B = 0 \<and> C = 113"
    and "V div 268435456 = 14 \<longleftrightarrow> 224 \<le> A \<and> A \<le> 239"
    and "V div 268435456 = 15 \<longleftrightarrow> 240 \<le> A"
proof -
  show "V div 16777216 = q \<longleftrightarrow> A = q"
    unfolding V_def div_range [OF zero_less_numeral] by (intro iffI conjI; (elim conjE)?; use b in linarith)
  show "V div 4194304 = 401 \<longleftrightarrow> A = 100 \<and> 64 \<le> B \<and> B \<le> 127"
    unfolding V_def div_range [OF zero_less_numeral]
    by (cases "A = 100"; cases "B = 64"; intro iffI conjI; (elim conjE)?; use b in linarith)
  show "V div 1048576 = 2753 \<longleftrightarrow> A = 172 \<and> 16 \<le> B \<and> B \<le> 31"
    unfolding V_def div_range [OF zero_less_numeral]
    by (cases "A = 172"; cases "B = 16"; intro iffI conjI; (elim conjE)?; use b in linarith)
  show "V div 131072 = 25353 \<longleftrightarrow> A = 198 \<and> 18 \<le> B \<and> B \<le> 19"
    unfolding V_def div_range [OF zero_less_numeral]
    by (cases "A = 198"; cases "B = 18"; intro iffI conjI; (elim conjE)?; use b in linarith)
  show "V div 65536 = 43518 \<longleftrightarrow> A = 169 \<and> B = 254"
    unfolding V_def div_range [OF zero_less_numeral]
    by (cases "A = 169"; cases "B = 254"; intro iffI conjI; (elim conjE)?; use b in linarith)
  show "V div 65536 = 49320 \<longleftrightarrow> A = 192 \<and> B = 168"
    unfolding V_def div_range [OF zero_less_numeral]
    by (cases "A = 192"; cases "B = 168"; intro iffI conjI; (elim conjE)?; use b in linarith)
  show "V div 256 = 12582912 \<longleftrightarrow> A = 192 \<and> B = 0 \<and> C = 0"
    unfolding V_def div_range [OF zero_less_numeral]
    by (cases "A = 192"; cases "B = 0"; intro iffI conjI; (elim conjE)?; use b in linarith)
  show "V div 256 = 12582914 \<longleftrightarrow> A = 192 \<and> B = 0 \<and> C = 2"
    unfolding V_def div_range [OF zero_less_numeral]
    by (cases "A = 192"; cases "B = 0"; intro iffI conjI; (elim conjE)?; use b in linarith)
  show "V div 256 = 12605539 \<longleftrightarrow> A = 192 \<and> B = 88 \<and> C = 99"
    unfolding V_def div_range [OF zero_less_numeral]
    by (cases "A = 192"; cases "B = 88"; intro iffI conjI; (elim conjE)?; use b in linarith)
  show "V div 256 = 12989284 \<longleftrightarrow> A = 198 \<and> B = 51 \<and> C = 100"
    unfolding V_def div_range [OF zero_less_numeral]
    by (cases "A = 198"; cases "B = 51"; intro iffI conjI; (elim conjE)?; use b in linarith)
  show "V div 256 = 13303921 \<longleftrightarrow> A = 203 \<and> B = 0 \<and> C = 113"
    unfolding V_def div_range [OF zero_less_numeral]
    by (cases "A = 203"; cases "B = 0"; intro iffI conjI; (elim conjE)?; use b in linarith)
  show "V div 268435456 = 14 \<longleftrightarrow> 224 \<le> A \<and> A \<le> 239"
    unfolding V_def div_range [OF zero_less_numeral] by (intro iffI conjI; (elim conjE)?; use b in linarith)
  show "V div 268435456 = 15 \<longleftrightarrow> 240 \<le> A"
    unfolding V_def div_range [OF zero_less_numeral] by (intro iffI conjI; (elim conjE)?; use b in linarith)
qed

text \<open>The special-purpose IPv4 space of the product policy, octet by octet.\<close>

definition specialV4 :: "int \<Rightarrow> int \<Rightarrow> int \<Rightarrow> bool" where
  "specialV4 A B C \<longleftrightarrow> A = 0 \<or> A = 10 \<or> (A = 100 \<and> 64 \<le> B \<and> B \<le> 127) \<or> A = 127
     \<or> (A = 169 \<and> B = 254) \<or> (A = 172 \<and> 16 \<le> B \<and> B \<le> 31)
     \<or> (A = 192 \<and> B = 0 \<and> C = 0) \<or> (A = 192 \<and> B = 0 \<and> C = 2) \<or> (A = 192 \<and> B = 88 \<and> C = 99)
     \<or> (A = 192 \<and> B = 168) \<or> (A = 198 \<and> 18 \<le> B \<and> B \<le> 19) \<or> (A = 198 \<and> B = 51 \<and> C = 100)
     \<or> (A = 203 \<and> B = 0 \<and> C = 113) \<or> 224 \<le> A"

lemma deniedV4_iff:
  "list_ex (\<lambda>prefix. PrefixContains prefix (Addr4 a b c d)) deniedPublicPrefixes
     \<longleftrightarrow> specialV4 (uint a) (uint b) (uint c)"
proof -
  note m = v4_mask_ranges [OF uint8_range [of a] uint8_range [of b] uint8_range [of c] uint8_range [of d]]
  have "(224 \<le> uint a \<and> uint a \<le> 239 \<or> 240 \<le> uint a) = (224 \<le> uint a)" by linarith
  then show ?thesis
    by (simp add: deniedPublicPrefixes_eq PrefixContains_def m specialV4_def)
qed

lemma unat_div: "unat (a :: 'a :: len word) div n = nat (uint a div int n)"
  by (simp add: nat_div_distrib)

lemma classes_v4:
  assumes "\<not> specialV4 (uint a) (uint b) (uint c)"
  shows "IsGlobalUnicast (Addr4 a b c d)" "\<not> IsPrivate (Addr4 a b c d)"
    "\<not> IsLoopback (Addr4 a b c d)" "\<not> IsLinkLocalUnicast (Addr4 a b c d)"
    "\<not> IsMulticast (Addr4 a b c d)" "\<not> IsUnspecified (Addr4 a b c d)"
proof -
  have eqs: "(a = 0) = (uint a = 0)" "(a = 127) = (uint a = 127)" "(a = 10) = (uint a = 10)"
    "(a = 172) = (uint a = 172)" "(a = 192) = (uint a = 192)" "(b = 168) = (uint b = 168)"
    "(a = 169) = (uint a = 169)" "(b = 254) = (uint b = 254)" "(a = 255) = (uint a = 255)"
    by (simp_all add: word_uint_eq_iff)
  have neq: "uint a \<noteq> 0" "uint a \<noteq> 10" "uint a \<noteq> 127" "uint a < 224"
    "\<not> (uint a = 169 \<and> uint b = 254)" "\<not> (uint a = 192 \<and> uint b = 168)"
    "\<not> (uint a = 172 \<and> 16 \<le> uint b \<and> uint b \<le> 31)"
    using assms unfolding specialV4_def by auto
  have m: "unat a div 16 \<noteq> 14" "\<not> (uint a = 172 \<and> unat b div 16 = 1)"
    using neq(4,7) uint8_range [of a] uint8_range [of b] unat_div [of a 16] unat_div [of b 16]
    by auto
  show "\<not> IsPrivate (Addr4 a b c d)" "\<not> IsLoopback (Addr4 a b c d)"
    "\<not> IsLinkLocalUnicast (Addr4 a b c d)" "\<not> IsMulticast (Addr4 a b c d)"
    "\<not> IsUnspecified (Addr4 a b c d)"
    using neq m
    by (auto simp: IsPrivate_def IsLoopback_def IsLinkLocalUnicast_def IsMulticast_def
        IsUnspecified_def IPv4Unspecified_def IPv6Unspecified_def eqs)
  then show "IsGlobalUnicast (Addr4 a b c d)"
    using neq by (auto simp: IsGlobalUnicast_def IPv4Unspecified_def IPv6Unspecified_def eqs)
qed

lemma isAllowedPublicIP_v4:
  "isAllowedPublicIP (Addr4 a b c d) \<longleftrightarrow> \<not> specialV4 (uint a) (uint b) (uint c)"
proof (cases "specialV4 (uint a) (uint b) (uint c)")
  case True
  then show ?thesis by (simp add: isAllowedPublicIP_def deniedV4_iff)
next
  case False
  then show ?thesis using classes_v4 [OF False] by (simp add: isAllowedPublicIP_def deniedV4_iff)
qed

section \<open>IPv6\<close>

definition hextetPair :: "hextet \<Rightarrow> hextet \<Rightarrow> int" where
  "hextetPair a b = uint a * 65536 + uint b"

lemma addrValue_top:
  "addrValue (Addr6 a b c d e f g h z) div 2 ^ 96 = hextetPair a b"
proof -
  let ?R = "(((((uint c * 65536 + uint d) * 65536) + uint e) * 65536 + uint f) * 65536 + uint g) * 65536 + uint h"
  note r = uint16_range [of c] uint16_range [of d] uint16_range [of e] uint16_range [of f]
    uint16_range [of g] uint16_range [of h]
  have "0 \<le> ?R" "?R < 2 ^ 96" using r by simp_all
  moreover have "addrValue (Addr6 a b c d e f g h z) = 2 ^ 96 * hextetPair a b + ?R"
    by (simp add: hextetPair_def algebra_simps)
  ultimately show ?thesis by (intro int_div_pos_eq [of _ _ _ ?R]) simp_all
qed

lemma addrValue_div_high:
  assumes "n \<le> 32"
  shows "addrValue (Addr6 a b c d e f g h z) div 2 ^ (128 - n) = hextetPair a b div 2 ^ (32 - n)"
proof -
  have "128 - n = 96 + (32 - n)" using assms by simp
  then have "(2 :: int) ^ (128 - n) = 2 ^ 96 * 2 ^ (32 - n)" by (metis power_add)
  then show ?thesis by (simp only: zdiv_zmult2_eq zero_le_power zero_le_numeral addrValue_top)
qed

lemma PrefixContains_v6_short:
  "n \<le> 32 \<Longrightarrow> PrefixContains (Addr6 p q r s t u v w y, n) (Addr6 a b c d e f g h z) \<longleftrightarrow>
     z = [] \<and> hextetPair a b div 2 ^ (32 - n) = hextetPair p q div 2 ^ (32 - n)"
  by (simp only: PrefixContains_def prod.case BitLen.simps Zone.simps addrValue_div_high) simp

lemma PrefixContains_v6_long:
  assumes "PrefixContains (Addr6 p q r s t u v w y, n) (Addr6 a b c d e f g h z)"
    and "32 \<le> n" "n \<le> 128"
  shows "hextetPair a b = hextetPair p q"
proof -
  have eq: "addrValue (Addr6 a b c d e f g h z) div 2 ^ (128 - n) =
      addrValue (Addr6 p q r s t u v w y) div 2 ^ (128 - n)"
    using assms(1) by (simp only: PrefixContains_def prod.case BitLen.simps)
  have "96 = (128 - n) + (n - 32)" using assms(2,3) by simp
  then have "(2 :: int) ^ 96 = 2 ^ (128 - n) * 2 ^ (n - 32)" by (metis power_add)
  then have "V div 2 ^ 96 = V div 2 ^ (128 - n) div 2 ^ (n - 32)" for V :: int
    by (simp only: zdiv_zmult2_eq zero_le_power zero_le_numeral)
  with eq show ?thesis by (metis addrValue_top)
qed

text \<open>The special-purpose space inside the allocated block \<open>2000::/3\<close>, by leading hextets.\<close>

definition specialV6 :: "int \<Rightarrow> int \<Rightarrow> bool" where
  "specialV6 A B \<longleftrightarrow> (A = 8193 \<and> B < 512) \<or> (A = 8193 \<and> B = 3512) \<or> A = 8194 \<or> A = 16382
     \<or> (A = 16383 \<and> B < 4096)"

lemma v6_mask_ranges:
  fixes A B :: int
  assumes b: "0 \<le> A" "A < 65536" "0 \<le> B" "B < 65536"
  shows "(A * 65536 + B) div 536870912 = 1 \<longleftrightarrow> 8192 \<le> A \<and> A \<le> 16383"
    and "(A * 65536 + B) div 512 = 1048704 \<longleftrightarrow> A = 8193 \<and> B < 512"
    and "(A * 65536 + B) div 65536 = q \<longleftrightarrow> A = q"
    and "(A * 65536 + B) div 4096 = 262128 \<longleftrightarrow> A = 16383 \<and> B < 4096"
    and "A * 65536 + B = 536939960 \<longleftrightarrow> A = 8193 \<and> B = 3512"
    and "(A * 65536 + B) div 33554432 = 126 \<longleftrightarrow> 64512 \<le> A \<and> A \<le> 65023"
    and "(A * 65536 + B) div 4194304 = 1018 \<longleftrightarrow> 65152 \<le> A \<and> A \<le> 65215"
    and "(A * 65536 + B) div 16777216 = 255 \<longleftrightarrow> 65280 \<le> A"
  unfolding div_range [OF zero_less_numeral]
  by ((cases "A = 8193"; cases "A = 16383"; intro iffI conjI; (elim conjE)?; use b in linarith)+)

lemma allocated_v6:
  "PrefixContains allocatedIPv6GlobalUnicast (Addr6 a b c d e f g h z) \<longleftrightarrow>
     z = [] \<and> 8192 \<le> uint a \<and> uint a \<le> 16383"
  by (simp add: allocatedIPv6GlobalUnicast_eq PrefixContains_v6_short hextetPair_def
      v6_mask_ranges [OF uint16_range uint16_range])


lemma deniedV6_iff:
  assumes "8192 \<le> uint a" "uint a \<le> 16383"
  shows "list_ex (\<lambda>prefix. PrefixContains prefix (Addr6 a b c d e f g h [])) deniedPublicPrefixes
     \<longleftrightarrow> specialV6 (uint a) (uint b)"
proof -
  have long: "\<not> PrefixContains (Addr6 p q r s t u v w y, n) (Addr6 a b c d e f g h [])"
    if "32 \<le> n" "n \<le> 128" "hextetPair a b \<noteq> hextetPair p q" for p q r s t u v w y n
    using that PrefixContains_v6_long by blast
  have ne: "hextetPair a b \<noteq> hextetPair 100 65435" "hextetPair a b \<noteq> hextetPair 256 0"
    using assms uint16_range [of b] unfolding hextetPair_def by (simp_all, linarith+)
  have v4: "\<not> PrefixContains (Addr4 p q r s, n) (Addr6 a b c d e f g h [])" for p q r s n
    by (simp add: PrefixContains_def)
  show ?thesis
    using assms
    by (simp add: deniedPublicPrefixes_eq long ne v4 PrefixContains_v6_short)
      (auto simp: hextetPair_def v6_mask_ranges [OF uint16_range uint16_range] specialV6_def
        simp del: div_mult_self3 div_mult_self4)
qed

lemma classes_v6:
  assumes "8192 \<le> uint a" "uint a \<le> 16383"
  shows "IsGlobalUnicast (Addr6 a b c d e f g h z)" "\<not> IsPrivate (Addr6 a b c d e f g h z)"
    "\<not> IsLoopback (Addr6 a b c d e f g h z)" "\<not> IsLinkLocalUnicast (Addr6 a b c d e f g h z)"
    "\<not> IsMulticast (Addr6 a b c d e f g h z)" "\<not> IsUnspecified (Addr6 a b c d e f g h z)"
proof -
  have a: "a \<noteq> 0" using assms by auto
  have "unat a < 16384" using assms(2) by (simp only: nat_uint_eq [symmetric])
  then have "unat a div 256 < 64" "unat a div 512 < 64" "unat a div 64 < 256"
    by (simp_all add: div_less_iff_less_mult)
  then show *: "\<not> IsPrivate (Addr6 a b c d e f g h z)" "\<not> IsLoopback (Addr6 a b c d e f g h z)"
    "\<not> IsLinkLocalUnicast (Addr6 a b c d e f g h z)" "\<not> IsMulticast (Addr6 a b c d e f g h z)"
    "\<not> IsUnspecified (Addr6 a b c d e f g h z)"
    using a
    by (simp_all add: IsPrivate_def IsLoopback_def IsLinkLocalUnicast_def IsMulticast_def
        IsUnspecified_def IPv4Unspecified_def IPv6Unspecified_def)
  then show "IsGlobalUnicast (Addr6 a b c d e f g h z)"
    using a by (simp add: IsGlobalUnicast_def IPv4Unspecified_def IPv6Unspecified_def)
qed

lemma isAllowedPublicIP_v6:
  "isAllowedPublicIP (Addr6 a b c d e f g h z) \<longleftrightarrow>
     z = [] \<and> 8192 \<le> uint a \<and> uint a \<le> 16383 \<and> \<not> specialV6 (uint a) (uint b)"
proof (cases "z = [] \<and> 8192 \<le> uint a \<and> uint a \<le> 16383")
  case True
  then show ?thesis
    using classes_v6 [of a b c d e f g h z]
    by (auto simp: isAllowedPublicIP_def allocated_v6 deniedV6_iff)
next
  case False
  then show ?thesis by (auto simp: isAllowedPublicIP_def allocated_v6)
qed

section \<open>The normalizer\<close>

text \<open>Printed addresses use visible ASCII only, so trimming leaves them alone.\<close>

definition graphic :: "string \<Rightarrow> bool" where
  "graphic s = list_all isGraph s"

lemma graphic_append [simp]: "graphic (s @ t) \<longleftrightarrow> graphic s \<and> graphic t"
  and graphic_Cons [simp]: "graphic (c # s) \<longleftrightarrow> isGraph c \<and> graphic s"
  and graphic_Nil [simp]: "graphic []"
  by (simp_all add: graphic_def)

lemma graphic_digits: "b \<le> 16 \<Longrightarrow> 2 \<le> b \<Longrightarrow> graphic (fmtBase b n)"
proof -
  assume b: "b \<le> 16" "2 \<le> b"
  have "isGraph c" if c: "c \<in> set (fmtBase b n)" for c
  proof -
    obtain d where "d < b" "c = digitChar d" using fmtBase_digits [OF b(2) b(1) c] by blast
    then show ?thesis using b by (auto simp: isGraph_def digitChar_def)
  qed
  then show ?thesis by (simp add: graphic_def list_all_iff)
qed

lemma graphic_dec [simp]: "graphic (fmtDec n)" and graphic_hex [simp]: "graphic (fmtHex n)"
  by (simp_all add: graphic_digits)

lemma isGraph_sep [simp]: "isGraph (CHR ''.'')" "isGraph (CHR '':'')"
  by (simp_all add: isGraph_def)

lemma graphic_dotted: "graphic (dotted [a, b, c, d])"
  by (simp add: dotted4)

lemma graphic_colons: "graphic (colons gs)"
proof (induction gs)
  case (Cons g gs)
  then show ?case by (cases "gs = []") (simp_all add: colons_Cons colons_single)
qed (simp add: colons_Nil)

lemma graphic_string6: "graphic (string6 gs)"
  by (auto simp: string6_def graphic_colons split: option.splits prod.splits)

lemma AddrString_shape:
  assumes "IsValid a"
  obtains s where "AddrString a = s @ zoneSuffix (Zone a)" "graphic s" "s \<noteq> []"
proof (cases a)
  case AddrInvalid with assms show ?thesis by simp
next
  case (Addr4 x y z w)
  then show ?thesis
    by (intro that [of "AddrString a"])
      (auto simp: zoneSuffix_def graphic_dotted dotted4 AddrString_def)
next
  case (Addr6 x1 x2 x3 x4 x5 x6 x7 x8 z)
  have ne: "string6 (groups6 a) \<noteq> []"
    using string6_colon [of "groups6 a"] Addr6 by fastforce
  show ?thesis
  proof (cases "Is4In6 a")
    case True
    with Addr6 show ?thesis
      by (intro that [of "''::ffff:'' @ dotted (octets4 (Unmap a))"]) (auto simp: graphic_dotted AddrString_def isGraph_def)
  next
    case False
    with Addr6 ne show ?thesis
      by (intro that [of "string6 (groups6 a)"]) (auto simp: graphic_string6 AddrString_def)
  qed
qed

lemma TrimSpace_graphic: "graphic s \<Longrightarrow> TrimSpace s = s"
  by (cases "s = []") (auto intro!: TrimSpace_graph simp: graphic_def list_all_iff)

text \<open>A zone is the tail of the text, so a trimmed text stays trimmed when reprinted.\<close>

lemma startsWith_before:
  "c \<notin> set p \<Longrightarrow> startsWith p (x @ c # r) \<Longrightarrow> startsWith p (x @ c # r')"
proof -
  assume c: "c \<notin> set p" and s: "startsWith p (x @ c # r)"
  have "length p \<le> length x"
  proof (rule ccontr)
    assume "\<not> length p \<le> length x"
    then have "c \<in> set (take (length p) (x @ c # r))" by (simp add: take_Cons')
    with s c show False by (simp add: startsWith_def)
  qed
  with s show ?thesis by (simp add: startsWith_def)
qed

lemma stripped_before:
  assumes "\<forall>p \<in> set ps. c \<notin> set p" "stripped ps (x @ c # r)"
  shows "stripped ps (x @ c # r')"
  using assms startsWith_before unfolding stripped_def list_all_iff by blast

lemma TrimSpace_stripped:
  "TrimSpace s = s \<longleftrightarrow> stripped spaceEncodings s \<and> stripped (map rev spaceEncodings) (rev s)"
  if "s \<noteq> []"
proof
  assume t: "TrimSpace s = s"
  obtain k where k: "trimLeft s = drop k s" unfolding trimLeft_def using stripPrefixes_suffix by blast
  obtain j where j: "TrimSpace s = take j (trimLeft s)" unfolding TrimSpace_def using trimRight_take by blast
  have "length (TrimSpace s) \<le> length s - k" using j k by simp
  with t that have "k = 0" by (cases s) auto
  with k have l: "trimLeft s = s" by simp
  with t have r: "trimRight s = s" by (simp add: TrimSpace_def)
  have "stripped (map rev spaceEncodings) (rev (trimRight s))"
    by (simp add: trimRight_def stripPrefixes_stripped)
  moreover have "stripped spaceEncodings (trimLeft s)"
    by (simp add: trimLeft_def stripPrefixes_stripped)
  ultimately show "stripped spaceEncodings s \<and> stripped (map rev spaceEncodings) (rev s)"
    using l r by simp
qed (simp add: TrimSpace_def trimLeft_def trimRight_def stripPrefixes_id)

lemma spaceEncodings_not_graph: "p \<in> set spaceEncodings \<Longrightarrow> c \<in> set p \<Longrightarrow> \<not> isGraph c"
  by (auto simp: spaceEncodings_code isGraph_def)

lemma mkAddr6_Zone: "Zone (mkAddr6 gs z) \<noteq> [] \<Longrightarrow> Zone (mkAddr6 gs z) = z"
  by (auto simp: mkAddr6_def split: list.splits)

lemma TrimSpace_zone:
  assumes t: "TrimSpace (s @ CHR ''%'' # z) = s @ CHR ''%'' # z"
    and g: "graphic s'" "s' \<noteq> []"
  shows "TrimSpace (s' @ CHR ''%'' # z) = s' @ CHR ''%'' # z"
proof -
  have "stripped spaceEncodings (s' @ CHR ''%'' # z)"
    using g by (cases s') (auto intro: stripped_graph_hd)
  moreover have "stripped (map rev spaceEncodings) (rev z @ CHR ''%'' # rev s)"
    using t by (simp add: TrimSpace_stripped)
  then have "stripped (map rev spaceEncodings) (rev z @ CHR ''%'' # rev s')"
    by (rule stripped_before [rotated]) (auto dest: spaceEncodings_not_graph simp: isGraph_def)
  ultimately show ?thesis by (simp add: TrimSpace_stripped)
qed

lemma parseIPv4_Zone: "parseIPv4 t = Some a \<Longrightarrow> IsValid a \<and> Zone a = []"
  by (auto simp: parseIPv4_def split: option.splits list.splits)

lemma ParseAddr_zone_text:
  assumes "ParseAddr t = Some a" "Zone a \<noteq> []"
  obtains s where "t = s @ CHR ''%'' # Zone a"
proof -
  let ?s = "takeWhile (\<lambda>c. c \<noteq> CHR ''%'') t"
  from assms have p: "parseIPv6 t = Some a"
    by (auto simp: ParseAddr_def dest: parseIPv4_Zone split: option.splits if_splits)
  then have "Zone a = drop (length ?s + 1) t"
    using assms(2) mkAddr6_Zone by (auto simp: parseIPv6_def Let_def split: if_splits)
  moreover from this assms(2) have "length ?s < length t" by (cases "length ?s < length t") auto
  then have "t ! length ?s = CHR ''%''" using nth_length_takeWhile by fastforce
  ultimately have "t = ?s @ CHR ''%'' # Zone a"
    using \<open>length ?s < length t\<close> by (metis Cons_nth_drop_Suc Suc_eq_plus1 append_take_drop_id takeWhile_eq_take)
  then show ?thesis by (rule that)
qed

lemma v6Loop_length: "length gs \<le> 8 \<Longrightarrow> v6Loop s gs ell = Some (r, gs', ell') \<Longrightarrow> length gs' \<le> 8"
proof (induction s gs ell rule: v6Loop.induct)
  case (1 s gs ell)
  show ?case
  proof (cases "8 \<le> length gs")
    case True
    with 1(4) show ?thesis using 1(3) by (auto simp: v6Loop.simps)
  next
    case False
    obtain off acc rest where h: "hexGroup s 0 0 = Some (off, acc, rest)"
      using 1(4) False by (subst (asm) v6Loop.simps) (auto split: option.splits)
    show ?thesis
    proof (cases "rest \<noteq> [] \<and> hd rest = CHR ''.''")
      case True
      then show ?thesis using 1(4) False h
        by (subst (asm) v6Loop.simps) (auto split: option.splits if_splits list.splits)
    next
      case nd: False
      show ?thesis using 1(4) False h nd 1(1,2)[OF _ h refl refl _ nd]
        by (subst (asm) v6Loop.simps) (cases rest rule: remdups_adj.cases; auto split: if_splits)
    qed
  qed
qed

lemma parseGroups6_length: "parseGroups6 s = Some gs \<Longrightarrow> length gs = 8"
  by (auto simp: parseGroups6_def v6Finish_def dest!: v6Loop_length [rotated]
      split: if_splits option.splits)

lemma mkAddr6_valid: "length gs = 8 \<Longrightarrow> IsValid (mkAddr6 gs z)"
  by (auto simp: mkAddr6_def split: list.splits)

lemma ParseAddr_valid: "ParseAddr t = Some a \<Longrightarrow> IsValid a"
  by (auto simp: ParseAddr_def parseIPv6_def Let_def mkAddr6_valid parseGroups6_length
      dest: parseIPv4_Zone split: option.splits if_splits)

lemma Unmap_valid [simp]: "IsValid (Unmap a) = IsValid a" by (cases a) auto
lemma Unmap_Unmap [simp]: "Unmap (Unmap a) = Unmap a" by (cases a) auto
lemma Unmap_Zone: "Zone a = [] \<Longrightarrow> Zone (Unmap a) = []" by (cases a) auto

lemma TrimSpace_AddrString: "IsValid a \<Longrightarrow> Zone a = [] \<Longrightarrow> TrimSpace (AddrString a) = AddrString a"
  by (metis AddrString_shape append_Nil2 TrimSpace_graphic zoneSuffix_def)

lemma NormalizePublicIP_idempotent:
  "NormalizePublicIP (fst (NormalizePublicIP v)) = NormalizePublicIP v"
proof (cases "ParseAddr (TrimSpace v)")
  case None
  then show ?thesis by (simp add: NormalizePublicIP_def)
next
  case (Some a)
  note val = ParseAddr_valid [OF Some]
  show ?thesis
  proof (cases "Zone a = []")
    case True
    then have "fst (NormalizePublicIP v) = AddrString (Unmap a)"
      using Some by (simp add: NormalizePublicIP_def Let_def)
    moreover have "TrimSpace (AddrString (Unmap a)) = AddrString (Unmap a)"
      using val True by (intro TrimSpace_AddrString) (simp_all add: Unmap_Zone)
    moreover have "ParseAddr (AddrString (Unmap a)) = Some (Unmap a)"
      using val by (intro ParseAddr_String) simp
    ultimately show ?thesis using Some True by (simp add: NormalizePublicIP_def Let_def Unmap_Zone)
  next
    case False
    obtain s where s: "TrimSpace v = s @ CHR ''%'' # Zone a"
      using ParseAddr_zone_text [OF Some False] by blast
    obtain s' where s': "AddrString a = s' @ CHR ''%'' # Zone a" "graphic s'" "s' \<noteq> []"
      using AddrString_shape [OF val] False by (metis zoneSuffix_def)
    have "TrimSpace (AddrString a) = AddrString a"
      unfolding s'(1) by (rule TrimSpace_zone [OF _ s'(2,3), of s]) (metis TrimSpace_idem s)
    moreover have "fst (NormalizePublicIP v) = AddrString a"
      using Some False by (simp add: NormalizePublicIP_def Let_def)
    ultimately show ?thesis
      using Some False ParseAddr_String [OF val] by (simp add: NormalizePublicIP_def Let_def)
  qed
qed

lemma NormalizePublicIP_accept_cases:
  assumes "NormalizePublicIP v = (t, ip, None)"
  shows "t = AddrString ip" "IsValid ip" "Zone ip = []" "isAllowedPublicIP ip" "Unmap ip = ip"
    "ParseAddr t = Some ip"
proof -
  obtain a where a: "ParseAddr (TrimSpace v) = Some a" "Zone a = []" "ip = Unmap a"
    "t = AddrString ip" "isAllowedPublicIP ip"
    using assms by (auto simp: NormalizePublicIP_def Let_def split: option.splits if_splits)
  then show "t = AddrString ip" "IsValid ip" "Zone ip = []" "isAllowedPublicIP ip" "Unmap ip = ip"
    using ParseAddr_valid [OF a(1)] by (simp_all add: Unmap_Zone)
  with a(4) show "ParseAddr t = Some ip" by (simp add: ParseAddr_String)
qed

lemma NormalizePublicIP_complete:
  "isAllowedPublicIP ip \<Longrightarrow> Unmap ip = ip \<Longrightarrow> NormalizePublicIP (AddrString ip) = (AddrString ip, ip, None)"
proof -
  assume a: "isAllowedPublicIP ip" "Unmap ip = ip"
  then have v: "IsValid ip" by (auto simp: isAllowedPublicIP_def split: if_splits)
  have "Zone ip = []" using a(1) v by (cases ip) (auto simp: isAllowedPublicIP_v6)
  with a v show ?thesis
    by (simp add: NormalizePublicIP_def Let_def TrimSpace_AddrString ParseAddr_String)
qed

section \<open>The host name policy\<close>

text \<open>Accepted text is lower-case ASCII without separators, so it normalizes to itself.\<close>

definition hostText :: "string \<Rightarrow> bool" where
  "hostText h = (list_all (\<lambda>c. hostnameChar (byte c) \<or> c = CHR ''.'') h)"

lemma webLabelErr_chars: "webLabelErr l = None \<Longrightarrow> list_all (\<lambda>c. hostnameChar (byte c)) l"
proof -
  assume "webLabelErr l = None"
  then have r: "\<forall>r \<in> set (runes l). r \<le> 127 \<and> hostnameChar r"
    by (simp add: webLabelErr_def firstErr_simps list_all_iff)
  then have "isAscii l" using runes_lt_128 [of l] by fastforce
  then have "runes l = map byte l" by (rule runes_ascii)
  with r show ?thesis by (simp add: list_all_iff)
qed

lemma splitOn_chars: "c \<in> set s \<Longrightarrow> c \<noteq> d \<Longrightarrow> \<exists>l \<in> set (splitOn d s). c \<in> set l"
  by (induction s) (auto split: list.splits)

lemma splitOn_not_Nil: "splitOn d s \<noteq> []"
  by (induction s) (auto split: list.splits)

lemma splitOn_trailing:
  "s \<noteq> [] \<Longrightarrow> last s = d \<Longrightarrow> last (splitOn d s) = [] \<and> tl (splitOn d s) \<noteq> []"
proof (induction s)
  case (Cons c s)
  show ?case
  proof (cases "s = []")
    case False
    then have "last (splitOn d s) = []" "tl (splitOn d s) \<noteq> []" using Cons by simp_all
    then show ?thesis by (cases "splitOn d s") (auto split: if_splits)
  qed (use Cons in simp)
qed simp

lemma webHostnameErr_hostText: "webHostnameErr h = None \<Longrightarrow> hostText h"
proof -
  assume "webHostnameErr h = None"
  then have "\<forall>l \<in> set (splitOn (CHR ''.'') h). webLabelErr l = None"
    by (simp add: webHostnameErr_def firstErr_simps)
  then show ?thesis
    unfolding hostText_def list_all_iff
    using splitOn_chars [of _ h "CHR ''.''"] webLabelErr_chars by (fastforce simp: list_all_iff)
qed

lemma hostText_byte: "hostText h \<Longrightarrow> c \<in> set h \<Longrightarrow>
    isGraph c \<and> byte c < 128 \<and> \<not> (65 \<le> byte c \<and> byte c \<le> 90)"
  by (fastforce simp: hostText_def list_all_iff hostnameChar_def isGraph_def)

lemma webHostnameErr_None_fixed:
  assumes "webHostnameErr h = None"
  shows "webHostnameText u h = h"
proof -
  note t = webHostnameErr_hostText [OF assms]
  have labels: "\<forall>l \<in> set (splitOn (CHR ''.'') h). webLabelErr l = None" and ne: "h \<noteq> []"
    using assms by (simp_all add: webHostnameErr_def firstErr_simps)
  have "last h \<noteq> CHR ''.''"
  proof
    assume "last h = CHR ''.''"
    then have "[] \<in> set (splitOn (CHR ''.'') h)"
      using splitOn_trailing [OF ne] splitOn_not_Nil by (metis last_in_set)
    with labels have "webLabelErr [] = None" by blast
    then show False by (simp add: webLabelErr_def firstErr_simps)
  qed
  moreover have "TrimSpace h = h"
    using hostText_byte [OF t] by (intro TrimSpace_graphic) (simp add: graphic_def list_all_iff)
  moreover have "ToLower u h = h"
    using hostText_byte [OF t] by (intro ToLower_lower_id) blast
  ultimately show ?thesis by (simp add: webHostnameText_def TrimSuffixDot_def)
qed

lemma NormalizeWebHostname_fixed:
  "NormalizeWebHostname u v = (h, None) \<Longrightarrow> NormalizeWebHostname u h = (h, None)"
  using webHostnameErr_None_fixed [of h u] by (auto simp: NormalizeWebHostname_def Let_def)

lemma NormalizeWebHostname_accept:
  assumes "NormalizeWebHostname u v = (h, None)"
  shows "hostText h" "h \<noteq> []" "length h \<le> 253" "ParseAddr h = None" "CHR ''.'' \<in> set h"
  using assms webHostnameErr_hostText
  by (auto simp: NormalizeWebHostname_def Let_def webHostnameErr_def firstErr_simps)

lemma NormalizeWebHostname_not_idempotent:
  "fst (NormalizeWebHostname u ''a..'') = ''a.''"
  "fst (NormalizeWebHostname u (fst (NormalizeWebHostname u ''a..''))) = ''a''"
proof -
  have t: "TrimSpace ''a..'' = ''a..''" "TrimSpace ''a.'' = ''a.''"
    by (rule TrimSpace_graphic, simp add: isGraph_def)+
  have l: "ToLower u ''a..'' = ''a..''" "ToLower u ''a.'' = ''a.''"
    by (rule ToLower_lower_id, simp)+
  show "fst (NormalizeWebHostname u ''a..'') = ''a.''"
    by (simp add: NormalizeWebHostname_def webHostnameText_def t l TrimSuffixDot_def Let_def)
  then show "fst (NormalizeWebHostname u (fst (NormalizeWebHostname u ''a..''))) = ''a''"
    by (simp add: NormalizeWebHostname_def webHostnameText_def t l TrimSuffixDot_def Let_def)
qed

section \<open>Properties\<close>

text \<open>
  Property C1. The addresses the program may contact, octet by octet: an IPv4 address outside
  the special-purpose ranges, and an IPv6 address without a zone in \<open>2000::/3\<close> outside the
  special-purpose ranges there.
\<close>

theorem isAllowedPublicIP_exact:
  "(isAllowedPublicIP (Addr4 a b c d) \<longleftrightarrow> \<not> specialV4 (uint a) (uint b) (uint c)) \<and>
   (isAllowedPublicIP (Addr6 g0 g1 g2 g3 g4 g5 g6 g7 z) \<longleftrightarrow>
      z = [] \<and> 8192 \<le> uint g0 \<and> uint g0 \<le> 16383 \<and> \<not> specialV6 (uint g0) (uint g1)) \<and>
   \<not> isAllowedPublicIP AddrInvalid"
  using isAllowedPublicIP_v4 [of a b c d] isAllowedPublicIP_v6 [of g0 g1 g2 g3 g4 g5 g6 g7 z]
  by (simp add: isAllowedPublicIP_def)

text \<open>
  The normalizer is idempotent on every input, rejected ones included, so a
  recorded target can be recomputed from its own text.
\<close>

theorem NormalizePublicIP_idem:
  "NormalizePublicIP (fst (NormalizePublicIP v)) = NormalizePublicIP v"
  by (rule NormalizePublicIP_idempotent)

text \<open>
  The printed form of an address is accepted and returned unchanged exactly when
  the address is allowed and not an IPv4-mapped wrapper.
\<close>

theorem NormalizePublicIP_canonical:
  "NormalizePublicIP (AddrString ip) = (AddrString ip, ip, None) \<longleftrightarrow> isAllowedPublicIP ip \<and> Unmap ip = ip"
  using NormalizePublicIP_complete NormalizePublicIP_accept_cases by blast

text \<open>
  An accepted host name consists of lower-case letters, digits, hyphens and dots,
  is at most 253 bytes long, is not an address literal, and normalizes to itself.
\<close>

theorem NormalizeWebHostname_accepted:
  assumes "NormalizeWebHostname u v = (h, None)"
  shows "hostText h \<and> CHR ''.'' \<in> set h \<and> length h \<le> 253 \<and> ParseAddr h = None \<and>
    NormalizeWebHostname u h = (h, None)"
  using NormalizeWebHostname_accept [OF assms] NormalizeWebHostname_fixed [OF assms] by simp

lemma ascii_host_example:
  "NormalizeWebHostname u '' Example.COM. '' = (''example.com'', None)"
proof -
  have "trimLeft '' Example.COM. '' = ''Example.COM. ''"
    by (simp add: trimLeft_def spaceEncodings_code stripPrefixes.simps startsWith_def char_of_def bit_0)
  moreover have "trimRight ''Example.COM. '' = ''Example.COM.''"
    by (simp add: trimRight_def spaceEncodings_code stripPrefixes.simps startsWith_def char_of_def bit_0)
  ultimately have "TrimSpace '' Example.COM. '' = ''Example.COM.''" by (simp add: TrimSpace_def)
  then have "webHostnameText u '' Example.COM. '' = ''example.com''"
    by (simp add: webHostnameText_def ToLower_ascii isAscii_def asciiLower_def TrimSuffixDot_def char_of_def bit_0)
  moreover have "runes ''example'' = map byte ''example''" "runes ''com'' = map byte ''com''"
    "runes ''example.com'' = map byte ''example.com''"
    by (rule runes_ascii, simp add: isAscii_def)+
  ultimately show ?thesis
    by (simp add: NormalizeWebHostname_def webHostnameErr_def firstErr_simps webLabelErr_def hostnameChar_def
        ContainsAny_def hostnameReserved_def hasSpaceRune_def isSpaceRune_def spaceRunes_def netip_parse_eval)
qed

lemma NormalizeWebHostname_accepted_witness:
  "NormalizeWebHostname \<lparr>uni_lower = id, uni_fold = (=)\<rparr> ''example.com'' = (''example.com'', None)"
  using NormalizeWebHostname_accepted [OF ascii_host_example] by blast

text \<open>
  Rejected host names are not normalized to a fixed point: one trailing dot is
  removed per pass, so the text recorded for \<open>a..\<close> normalizes to something else again.
\<close>

theorem NormalizeWebHostname_rejected_not_fixed:
  "fst (NormalizeWebHostname u ''a..'') = ''a.'' \<and>
   fst (NormalizeWebHostname u (fst (NormalizeWebHostname u ''a..''))) = ''a''"
  using NormalizeWebHostname_not_idempotent by blast

end
