(* ===== verification/GoNet.thy ===== *)
theory GoNet
  imports Envelope NettargetProps
begin

text \<open>
  What the probes share of the standard library: error values as \<open>errors.Is\<close> and
  \<open>errors.As\<close> see them, the clock, and the connection a dialer returns. The clock, the
  context, the dialer and the peer are the environment of a run and are parameters of it.
\<close>

section \<open>Error values\<close>

text \<open>
  An error of the network stack: its text, the sentinel values \<open>errors.Is\<close> finds in its
  chain and the certificate error types \<open>errors.As\<close> finds there (the last five), and whether the first \<open>net.Error\<close> of the chain answers true to \<open>Timeout\<close>.
\<close>

datatype sentinel =
    SCanceled | SDeadlineExceeded | SOsDeadlineExceeded
  | SEOF | SUnexpectedEOF | SNetClosed
  | ECONNREFUSED | ENETUNREACH | EHOSTUNREACH | ECONNRESET | EPIPE
  | EAFNOSUPPORT | EADDRNOTAVAIL | ENETDOWN
  | WSAENETUNREACH | WSAEHOSTUNREACH | WSAEAFNOSUPPORT | WSAEADDRNOTAVAIL | WSAENETDOWN
  | STLSVerification | SHostname | SUnknownAuthority | SCertificateInvalid | SSystemRoots

record goerr =
  err_text :: string
  err_chain :: "sentinel list"
  err_timeout :: bool

definition errorsIs :: "goerr option \<Rightarrow> sentinel \<Rightarrow> bool" where
  "errorsIs e s = (case e of None \<Rightarrow> False | Some g \<Rightarrow> s \<in> set (err_chain g))"

definition netTimeout :: "goerr option \<Rightarrow> bool" where
  "netTimeout e = (case e of None \<Rightarrow> False | Some g \<Rightarrow> err_timeout g)"

fun ctxGoErr :: "ctxErr \<Rightarrow> goerr" where
  "ctxGoErr Canceled = \<lparr>err_text = ctxText Canceled, err_chain = [SCanceled], err_timeout = False\<rparr>"
| "ctxGoErr DeadlineExceeded =
     \<lparr>err_text = ctxText DeadlineExceeded, err_chain = [SDeadlineExceeded], err_timeout = True\<rparr>"

definition plainErr :: "error \<Rightarrow> goerr" where
  "plainErr m = \<lparr>err_text = m, err_chain = [], err_timeout = False\<rparr>"

text \<open>The value of \<open>ctx.Err()\<close> at a reading, as an error.\<close>

definition ctxErrAt :: "ctx \<Rightarrow> nat \<Rightarrow> goerr option" where
  "ctxErrAt c n = map_option ctxGoErr (c n)"

lemma errorsIs_ctx [simp]:
  "errorsIs (ctxErrAt c n) SCanceled \<longleftrightarrow> c n = Some Canceled"
  "errorsIs (ctxErrAt c n) SDeadlineExceeded \<longleftrightarrow> c n = Some DeadlineExceeded"
  "ctxErrAt c n = None \<longleftrightarrow> c n = None"
proof -
  show "errorsIs (ctxErrAt c n) SCanceled \<longleftrightarrow> c n = Some Canceled"
    by (cases "c n"; cases "the (c n)") (auto simp: errorsIs_def ctxErrAt_def)
  show "errorsIs (ctxErrAt c n) SDeadlineExceeded \<longleftrightarrow> c n = Some DeadlineExceeded"
    by (cases "c n"; cases "the (c n)") (auto simp: errorsIs_def ctxErrAt_def)
qed (simp add: ctxErrAt_def)

section \<open>The clock\<close>

text \<open>
  \<open>now n\<close> is the n-th reading of the clock. The documented behaviour of \<open>time.Now\<close>: every
  reading carries a monotonic reading that never goes backwards, a run fits in a
  \<open>time.Duration\<close>, and the wall clock is not at the zero time.
\<close>

definition clock_ok :: "(nat \<Rightarrow> gotime) \<Rightarrow> bool" where
  "clock_ok now \<longleftrightarrow> (\<forall>n. \<not> IsZero (now n)) \<and>
     (\<exists>f. mono f \<and> (\<forall>n. t_mono (now n) = Some (f n)) \<and> (\<forall>n. f n - f 0 < 2 ^ 63))"

definition steadyClock :: "int \<Rightarrow> nat \<Rightarrow> gotime" where
  "steadyClock period n = \<lparr>t_wall = 10 ^ 18 + period * int (min n 1000),
     t_mono = Some (period * int (min n 1000)), t_zone = 7200\<rparr>"

lemma steadyClock_ok: "0 \<le> period \<Longrightarrow> period \<le> 10 ^ 12 \<Longrightarrow> clock_ok (steadyClock period)"
proof -
  assume p: "0 \<le> period" "period \<le> 10 ^ 12"
  have "period * int (min n 1000) \<le> 10 ^ 12 * 1000" for n
    using p by (intro mult_mono) auto
  then have le: "period * int (min n 1000) \<le> 1000000000000000" for n by simp
  have "mono (\<lambda>n. period * int (min n 1000))"
    using p by (intro monoI mult_left_mono) auto
  moreover have "period * int (min n 1000) < 9223372036854775808" for n
    using le [of n] by linarith
  moreover have "10 ^ 18 + period * int (min n 1000) \<noteq> 0" for n
    using p by (smt (verit) of_nat_0_le_iff mult_nonneg_nonneg zero_less_power)
  ultimately show ?thesis
    unfolding clock_ok_def steadyClock_def IsZero_def
    by (auto intro!: exI [of _ "\<lambda>n. period * int (min n 1000)"])
qed

lemma clock_nonzero: "clock_ok now \<Longrightarrow> \<not> IsZero (now n)"
  by (simp add: clock_ok_def)

lemma clock_Sub:
  assumes "clock_ok now"
  shows "\<exists>f. mono f \<and> (\<forall>m n. f n - f m < (2 :: int) ^ 63) \<and>
    (\<forall>m n. m \<le> n \<longrightarrow> Sub (now n) (now m) = f n - f m)"
proof -
  obtain f where f: "mono f" "\<And>n. t_mono (now n) = Some (f n)" "\<And>n. f n - f 0 < (2 :: int) ^ 63"
    using assms by (auto simp: clock_ok_def)
  have lt: "f n - f m < 2 ^ 63" for m n
    using f(3) [of n] monoD [OF f(1), of 0 m] by linarith
  have "Sub (now n) (now m) = f n - f m" if "m \<le> n" for m n
    using lt [of n m] monoD [OF f(1) that] by (simp add: Sub_def f(2) clamp64_def)
  with f(1) lt show ?thesis by blast
qed

lemma Sub_self [simp]: "Sub t t = 0"
  by (cases "t_mono t") (simp_all add: Sub_def clamp64_def)

text \<open>Stages measured one after another fit in the whole, also after rounding down.\<close>

lemma div_add_le: "0 < c \<Longrightarrow> (a :: int) div c + b div c \<le> (a + b) div c"
  by (subst div_add1_eq [of a b c]) (simp add: pos_imp_zdiv_nonneg_iff)

lemma clock_stages:
  assumes "clock_ok now" "i \<le> j" "j \<le> k" "k \<le> l" "l \<le> m" "i' \<le> i"
  shows "Milliseconds (Sub (now j) (now i)) + Milliseconds (Sub (now l) (now k))
    \<le> Milliseconds (Sub (now m) (now i'))"
    and "0 \<le> Milliseconds (Sub (now j) (now i))" "Milliseconds (Sub (now j) (now i)) < 2 ^ 62"
proof -
  obtain f where f: "\<And>m n. m \<le> n \<Longrightarrow> Sub (now n) (now m) = f n - f m" "mono f"
    "\<And>m n. f n - f m < (2 :: int) ^ 63"
    using clock_Sub [OF assms(1)] by auto
  have le: "f i' \<le> f i" "f i \<le> f j" "f j \<le> f k" "f k \<le> f l" "f l \<le> f m"
    using assms f(2) by (auto dest: monoD)
  have "(f j - f i) div 1000000 + (f l - f k) div 1000000 \<le> ((f j - f i) + (f l - f k)) div 1000000"
    by (rule div_add_le) simp
  also have "\<dots> \<le> (f m - f i') div 1000000"
    using le by (intro zdiv_mono1) simp_all
  finally show "Milliseconds (Sub (now j) (now i)) + Milliseconds (Sub (now l) (now k))
      \<le> Milliseconds (Sub (now m) (now i'))"
    using le assms by (simp add: f(1) Milliseconds_def)
  show "0 \<le> Milliseconds (Sub (now j) (now i))"
    using le assms by (simp add: f(1) Milliseconds_def pos_imp_zdiv_nonneg_iff)
  have "(f j - f i) div 1000000 \<le> 2 ^ 63 div 1000000"
    using f(3) [of j i] by (intro zdiv_mono1) simp_all
  then show "Milliseconds (Sub (now j) (now i)) < 2 ^ 62"
    using le assms by (simp add: f(1) Milliseconds_def)
qed

section \<open>Text\<close>

text \<open>\<open>utf8.ValidString\<close>: no byte decodes to U+FFFD with width one.\<close>

function ValidString :: "string \<Rightarrow> bool" where
  "ValidString s = (if s = [] then True
     else if snd (decodeRune s) = 1 \<and> fst (decodeRune s) = runeError then False
     else ValidString (drop (snd (decodeRune s)) s))"
  by pat_completeness auto
termination
  by (relation "measure length") (auto simp: decodeRune_width)

declare ValidString.simps [simp del]

lemma ValidString_ascii: "isAscii s \<Longrightarrow> ValidString s"
proof (induction s)
  case (Cons c s)
  then show ?case
    by (subst ValidString.simps) (simp add: isAscii_def decodeRune_ascii runeError_def)
qed (simp add: ValidString.simps)

end
