(* ===== verification/TlsObservation.thy ===== *)
theory TlsObservation
  imports GoNet
begin

text \<open>
  Package \<open>internal/tlsobservation\<close>: one bounded TLS handshake against an explicit public
  address without a host name. \<open>Observe_tls\<close> is the whole of \<open>observer.Observe\<close>: its
  readings of the clock and of the two contexts are numbered in program order, and the
  dialer, the connection and the handshake answer from the record \<open>TlsWorld\<close>.
\<close>

section \<open>Types\<close>

abbreviation ProbeKind_tls :: Kind where "ProbeKind_tls \<equiv> KindTLSObservation"

definition Port_tls :: nat where "Port_tls = 443"

definition FailureTCPConnectionRefused :: FailureCode where
  "FailureTCPConnectionRefused = FailureOf ''tcp_connection_refused''"
definition FailureTCPNoRoute :: FailureCode where "FailureTCPNoRoute = FailureOf ''tcp_no_route''"
definition FailureTCPTimeout :: FailureCode where "FailureTCPTimeout = FailureOf ''tcp_timeout''"
definition FailureTCPConnectionReset :: FailureCode where
  "FailureTCPConnectionReset = FailureOf ''tcp_connection_reset''"
definition FailureTCP :: FailureCode where "FailureTCP = FailureOf ''tcp_failure''"

lemmas tls_codes = FailureTCPConnectionRefused_def FailureTCPNoRoute_def FailureTCPTimeout_def
  FailureTCPConnectionReset_def FailureTCP_def

datatype Family = FamilyIPv4 | FamilyIPv6 | FamilyOther string

abbreviation FamilyNone :: Family where "FamilyNone \<equiv> FamilyOther ''''"

datatype SNIMode = SNIOmittedNoHostname | SNIModeOther string

datatype IdentityVerificationMode = IdentityNotPerformedNoHostname | IdentityOther string

datatype TLSStatus = TLSCompleted | TLSUnconfirmed | TLSStatusOther string

datatype UnconfirmedReason =
    UnconfirmedHandshakeTimeout
  | UnconfirmedConnectionClosed
  | UnconfirmedConnectionReset
  | UnconfirmedHandshakeFailure
  | UnconfirmedExchangeFailure
  | UnconfirmedOther string

abbreviation UnconfirmedNone :: UnconfirmedReason where "UnconfirmedNone \<equiv> UnconfirmedOther ''''"

record TlsConfig =
  cfg_Timeout :: int

record TlsRequest =
  req_DialIP :: string

record TlsInput =
  in_DialIP :: string
  in_Family :: Family
  in_Port :: nat
  in_SNIMode :: SNIMode
  in_Identity :: IdentityVerificationMode

record LeafCertificate =
  leaf_SHA256 :: string
  leaf_NotBefore :: gotime
  leaf_NotAfter :: gotime

record TLS =
  tls_Status :: TLSStatus
  tls_Reason :: UnconfirmedReason
  tls_HandshakeMS :: int
  tls_Version :: string
  tls_CipherSuite :: string
  tls_ALPN :: string
  tls_PeerCertificates :: int
  tls_Leaf :: "LeafCertificate option"

record TlsEvidence =
  ev_RemoteEndpoint :: string
  ev_TCPConnectMS :: int
  ev_TLS :: TLS

type_synonym TlsResult = "(TlsInput, TlsEvidence) Envelope"

section \<open>normalizeRequest\<close>

record configuredTarget =
  tgt_network :: string
  tgt_endpoint :: string

definition familyOf :: "Addr \<Rightarrow> Family" where
  "familyOf address = (if \<not> IsValid address then FamilyNone
     else if Is4 address then FamilyIPv4 else FamilyIPv6)"

definition normalizeRequest_tls :: "TlsRequest \<Rightarrow> TlsInput \<times> configuredTarget \<times> error option" where
  "normalizeRequest_tls request =
     (let (txt, address, err) = NormalizePublicIP (req_DialIP request);
          inp = \<lparr>in_DialIP = txt, in_Family = familyOf address, in_Port = Port_tls,
                 in_SNIMode = SNIOmittedNoHostname, in_Identity = IdentityNotPerformedNoHostname\<rparr>
      in if err \<noteq> None then (inp, \<lparr>tgt_network = '''', tgt_endpoint = ''''\<rparr>, err)
         else (inp, \<lparr>tgt_network = (if Is4 address then ''tcp4'' else ''tcp6''),
                     tgt_endpoint = AddrPortString (address, Port_tls)\<rparr>, None))"

section \<open>Classification of failures\<close>

definition isTimeout_tls :: "goerr option \<Rightarrow> bool" where
  "isTimeout_tls err =
     (errorsIs err SDeadlineExceeded \<or> errorsIs err SOsDeadlineExceeded \<or> netTimeout err)"

definition isReset_tls :: "goerr option \<Rightarrow> bool" where
  "isReset_tls err = (errorsIs err ECONNRESET \<or> errorsIs err EPIPE)"

text \<open>The readings of the contexts are \<open>k\<close>, \<open>k + 1\<close>, \<open>k + 2\<close> and \<open>k + 3\<close>.\<close>

definition classifyTCPFailure_tls :: "ctx \<Rightarrow> ctx \<Rightarrow> nat \<Rightarrow> goerr option \<Rightarrow> Outcome \<times> FailureCode" where
  "classifyTCPFailure_tls parent attempt k err =
     (if errorsIs (ctxErrAt parent k) SCanceled then (OutcomeCancelled, FailureCancelled)
      else if errorsIs (ctxErrAt parent (k + 1)) SDeadlineExceeded \<or>
              errorsIs (ctxErrAt attempt (k + 2)) SDeadlineExceeded \<or> isTimeout_tls err
        then (OutcomeFailed, FailureTCPTimeout)
      else if errorsIs (ctxErrAt attempt (k + 3)) SCanceled then (OutcomeCancelled, FailureCancelled)
      else if errorsIs err ECONNREFUSED then (OutcomeFailed, FailureTCPConnectionRefused)
      else if errorsIs err ENETUNREACH \<or> errorsIs err EHOSTUNREACH then (OutcomeFailed, FailureTCPNoRoute)
      else if isReset_tls err then (OutcomeFailed, FailureTCPConnectionReset)
      else (OutcomeFailed, FailureTCP))"

definition classifyUnconfirmedReason_tls :: "goerr option \<Rightarrow> UnconfirmedReason" where
  "classifyUnconfirmedReason_tls err =
     (if isTimeout_tls err then UnconfirmedHandshakeTimeout
      else if isReset_tls err then UnconfirmedConnectionReset
      else if errorsIs err SEOF \<or> errorsIs err SUnexpectedEOF \<or> errorsIs err SNetClosed
        then UnconfirmedConnectionClosed
      else UnconfirmedHandshakeFailure)"

section \<open>The observer and its environment\<close>

definition defaultTimeout_tls :: int where "defaultTimeout_tls = 6 * Second"
definition maximumTimeout_tls :: int where "maximumTimeout_tls = 30 * Second"

record TlsObserver =
  ob_timeout :: int
  ob_source :: Source

definition newObserver_tls :: "TlsConfig \<Rightarrow> error + TlsObserver" where
  "newObserver_tls config =
     (let timeout = (if cfg_Timeout config = 0 then defaultTimeout_tls else cfg_Timeout config) in
      if timeout < 0 \<or> maximumTimeout_tls < timeout then Inl ''timeout must be between zero and 30s''
      else Inr \<lparr>ob_timeout = timeout,
        ob_source = \<lparr>src_backend = ''go-stdlib-tls-direct-no-sni'',
          src_capability = CapabilityNative, src_reason = ''''\<rparr>\<rparr>)"

text \<open>What \<open>crypto/tls\<close> and \<open>crypto/x509\<close> report of a finished handshake.\<close>

record Certificate =
  crt_Raw :: bytes
  crt_NotBefore :: gotime
  crt_NotAfter :: gotime

record ConnectionState =
  cs_HandshakeComplete :: bool
  cs_ServerName :: string
  cs_VerifiedChains :: nat
  cs_PeerCertificates :: "Certificate list"
  cs_Version :: "16 word"
  cs_CipherSuite :: "16 word"
  cs_NegotiatedProtocol :: string

text \<open>A dialed connection: its remote address, the answer of \<open>SetDeadline\<close>, the handshake.\<close>

record TlsConn =
  conn_RemoteAddr :: "string option"
  conn_SetDeadline :: "goerr option"
  conn_Handshake :: "goerr + ConnectionState"

record TlsWorld =
  w_now :: "nat \<Rightarrow> gotime"
  w_ctx :: ctx
  w_fired :: "int \<Rightarrow> nat \<Rightarrow> bool"
  w_dial :: "string \<Rightarrow> string \<Rightarrow> goerr + TlsConn"
  w_os :: string
  w_arch :: string
  w_sha256 :: "bytes \<Rightarrow> bytes"
  w_cipherSuiteName :: "16 word \<Rightarrow> string"

definition durationMS_tls :: "int \<Rightarrow> int" where
  "durationMS_tls duration = (if duration < 0 then 0 else Milliseconds duration)"

definition tlsVersionName :: "16 word \<Rightarrow> string" where
  "tlsVersionName version =
     (if version = 0x0301 then ''TLS1.0''
      else if version = 0x0302 then ''TLS1.1''
      else if version = 0x0303 then ''TLS1.2''
      else if version = 0x0304 then ''TLS1.3''
      else ''0x'' @ (let h = fmtHex (unat version) in replicate (4 - length h) CHR ''0'' @ h))"

definition unconfirmedTLS :: "int \<Rightarrow> UnconfirmedReason \<Rightarrow> TLS" where
  "unconfirmedTLS handshakeMS reason = \<lparr>tls_Status = TLSUnconfirmed, tls_Reason = reason,
     tls_HandshakeMS = handshakeMS, tls_Version = '''', tls_CipherSuite = '''', tls_ALPN = '''',
     tls_PeerCertificates = 0, tls_Leaf = None\<rparr>"

definition completedTLS :: "TlsWorld \<Rightarrow> ConnectionState \<Rightarrow> int \<Rightarrow> error + TLS" where
  "completedTLS w state handshakeMS =
     (if \<not> cs_HandshakeComplete state then Inl ''TLS state is not complete''
      else if cs_ServerName state \<noteq> '''' then Inl ''TLS state unexpectedly reports server name''
      else if cs_VerifiedChains state \<noteq> 0
        then Inl ''hostname-free TLS state unexpectedly includes verified chains''
      else case cs_PeerCertificates state of
          [] \<Rightarrow> Inl ''TLS state has no peer certificate''
        | leaf # _ \<Rightarrow> Inr \<lparr>tls_Status = TLSCompleted, tls_Reason = UnconfirmedNone,
            tls_HandshakeMS = handshakeMS,
            tls_Version = tlsVersionName (cs_Version state),
            tls_CipherSuite = w_cipherSuiteName w (cs_CipherSuite state),
            tls_ALPN = cs_NegotiatedProtocol state,
            tls_PeerCertificates = int (length (cs_PeerCertificates state)),
            tls_Leaf = Some \<lparr>leaf_SHA256 = hexEncode (w_sha256 w (crt_Raw leaf)),
              leaf_NotBefore = UTC (crt_NotBefore leaf), leaf_NotAfter = UTC (crt_NotAfter leaf)\<rparr>\<rparr>)"

definition canonicalRemoteEndpoint_tls :: "string option \<Rightarrow> error + string" where
  "canonicalRemoteEndpoint_tls address = (case address of
      None \<Rightarrow> Inl ''dialer returned no remote endpoint''
    | Some a \<Rightarrow> (case ParseAddrPort a of
        None \<Rightarrow> Inl ''parse remote endpoint: invalid address and port''
      | Some (ip, port) \<Rightarrow>
          if Zone ip \<noteq> '''' then Inl ''remote endpoint unexpectedly includes an IPv6 zone''
          else Inr (AddrPortString (Unmap ip, port))))"

section \<open>Observe\<close>

definition baseResult_tls :: "TlsWorld \<Rightarrow> TlsObserver \<Rightarrow> gotime \<Rightarrow> gotime \<Rightarrow> TlsInput \<Rightarrow> TlsResult" where
  "baseResult_tls w ob finishedAt startedAt inp = \<lparr>env_schema = SchemaVersion, env_probe = ProbeKind_tls,
     env_observedAt = UTC finishedAt, env_durationMS = durationMS_tls (Sub finishedAt startedAt),
     env_platform = \<lparr>plat_os = w_os w, plat_arch = w_arch w\<rparr>, env_source = ob_source ob,
     env_input = inp, env_outcome = OutcomeOther '''', env_evidence = None, env_failure = None\<rparr>"

definition failureResult_tls :: "TlsWorld \<Rightarrow> TlsObserver \<Rightarrow> gotime \<Rightarrow> gotime \<Rightarrow> TlsInput \<Rightarrow>
    Outcome \<Rightarrow> FailureCode \<Rightarrow> goerr option \<Rightarrow> TlsResult" where
  "failureResult_tls w ob finishedAt startedAt inp outcome code err =
     (baseResult_tls w ob finishedAt startedAt inp)\<lparr>env_outcome := outcome,
        env_failure := Some \<lparr>fail_code = code,
          fail_detail = (case err of None \<Rightarrow> '''' | Some e \<Rightarrow> err_text e)\<rparr>\<rparr>"

text \<open>\<open>commitEvidence\<close> reads the contexts at \<open>k\<close>, \<open>k + 1\<close>, \<open>k + 2\<close> (and \<open>k + 1\<close> for the text).\<close>

definition commitEvidence_tls :: "TlsWorld \<Rightarrow> TlsObserver \<Rightarrow> ctx \<Rightarrow> nat \<Rightarrow> gotime \<Rightarrow> gotime \<Rightarrow> TlsInput \<Rightarrow>
    TlsEvidence \<Rightarrow> TlsResult" where
  "commitEvidence_tls w ob attempt k finishedAt startedAt inp evidence =
     (if errorsIs (ctxErrAt (w_ctx w) k) SCanceled
      then failureResult_tls w ob finishedAt startedAt inp OutcomeCancelled FailureCancelled
             (ctxErrAt (w_ctx w) (k + 1))
      else let evidence' =
             (if ctxErrAt (w_ctx w) (k + 1) \<noteq> None \<or> ctxErrAt attempt (k + 2) \<noteq> None
              then evidence\<lparr>ev_TLS := unconfirmedTLS (tls_HandshakeMS (ev_TLS evidence)) UnconfirmedHandshakeTimeout\<rparr>
              else evidence)
           in (baseResult_tls w ob finishedAt startedAt inp)\<lparr>env_outcome := OutcomeSucceeded,
                env_evidence := Some evidence'\<rparr>)"

text \<open>
  The TLS stage on a connection to the right endpoint; the handshake is timed by the clock
  readings 3 and 4, and the second component is the next reading. A context of \<open>WithTimeout\<close>
  always has a deadline, so the branch for a missing one, whose result is that of a failed
  \<open>SetDeadline\<close>, is not taken.
\<close>

definition handshakeStage :: "TlsWorld \<Rightarrow> TlsConn \<Rightarrow> TLS \<times> nat" where
  "handshakeStage w conn =
     (if conn_SetDeadline conn \<noteq> None then (unconfirmedTLS 0 UnconfirmedExchangeFailure, 3)
      else let handshakeMS = durationMS_tls (Sub (w_now w 4) (w_now w 3)) in
        (case conn_Handshake conn of
           Inl e \<Rightarrow> unconfirmedTLS handshakeMS (classifyUnconfirmedReason_tls (Some e))
         | Inr state \<Rightarrow> (case completedTLS w state handshakeMS of
             Inl e \<Rightarrow> unconfirmedTLS handshakeMS UnconfirmedExchangeFailure
           | Inr t \<Rightarrow> t), 5))"

definition Observe_tls :: "TlsWorld \<Rightarrow> TlsObserver \<Rightarrow> TlsRequest \<Rightarrow> TlsResult" where
  "Observe_tls w ob request =
     (let now = w_now w; ctx = w_ctx w; startedAt = now 0;
          (inp, target, err) = normalizeRequest_tls request in
      if err \<noteq> None then
        failureResult_tls w ob (now 1) startedAt inp OutcomeFailed FailureInvalidInput (map_option plainErr err)
      else if ctxErrAt ctx 0 \<noteq> None then
        (let (outcome, code) = classifyTCPFailure_tls ctx ctx 2 (ctxErrAt ctx 1) in
         failureResult_tls w ob (now 1) startedAt inp outcome code (ctxErrAt ctx 6))
      else
        (let attempt = withTimeout ctx (w_fired w (ob_timeout ob)); connectStarted = now 1; connectDone = now 2 in
         case w_dial w (tgt_network target) (tgt_endpoint target) of
           Inl e \<Rightarrow>
             (let (outcome, code) = classifyTCPFailure_tls ctx attempt 2 (Some e) in
              failureResult_tls w ob (now 3) connectStarted inp outcome code (Some e))
         | Inr conn \<Rightarrow>
             (case canonicalRemoteEndpoint_tls (conn_RemoteAddr conn) of
                Inl m \<Rightarrow> failureResult_tls w ob (now 3) startedAt inp OutcomeFailed FailureTCP (Some (plainErr m))
              | Inr remoteEndpoint \<Rightarrow>
                  if remoteEndpoint \<noteq> tgt_endpoint target then
                    failureResult_tls w ob (now 3) startedAt inp OutcomeFailed FailureTCP
                      (Some (plainErr ''dialer connected to another endpoint''))
                  else
                    (let (tls, readings) = handshakeStage w conn in
                     commitEvidence_tls w ob attempt 6 (now readings) startedAt inp
                       \<lparr>ev_RemoteEndpoint = remoteEndpoint,
                        ev_TCPConnectMS = durationMS_tls (Sub connectDone connectStarted),
                        ev_TLS = tls\<rparr>))))"

section \<open>Validate\<close>

fun validFailureCode_tls :: "FailureCode \<Rightarrow> bool" where
  "validFailureCode_tls code = (code \<in> {FailureInvalidInput, FailureCancelled, FailureTCPConnectionRefused,
     FailureTCPNoRoute, FailureTCPTimeout, FailureTCPConnectionReset, FailureTCP})"

fun validUnconfirmedReason_tls :: "UnconfirmedReason \<Rightarrow> bool" where
  "validUnconfirmedReason_tls reason = (reason \<in> {UnconfirmedHandshakeTimeout, UnconfirmedConnectionClosed,
     UnconfirmedConnectionReset, UnconfirmedHandshakeFailure, UnconfirmedExchangeFailure})"

definition validateLeaf :: "LeafCertificate \<Rightarrow> error option" where
  "validateLeaf leaf = (case hexDecode (leaf_SHA256 leaf) of
      None \<Rightarrow> Some ''leaf sha256 must contain 32 lowercase hexadecimal bytes''
    | Some decoded \<Rightarrow> firstErr [
        guard (length decoded \<noteq> 32) ''leaf sha256 must contain 32 lowercase hexadecimal bytes'',
        guard (leaf_SHA256 leaf \<noteq> hexEncode decoded) ''leaf sha256 must use lowercase hexadecimal'',
        guard (IsZero (leaf_NotBefore leaf) \<or> IsZero (leaf_NotAfter leaf)) ''leaf validity times must not be zero'',
        guard (t_zone (leaf_NotBefore leaf) \<noteq> 0) ''leaf not_before must use UTC'',
        guard (t_zone (leaf_NotAfter leaf) \<noteq> 0) ''leaf not_after must use UTC'',
        guard (\<not> After (leaf_NotAfter leaf) (leaf_NotBefore leaf)) ''leaf not_after must be after not_before''])"

definition Validate_tls_status :: "TLS \<Rightarrow> error option" where
  "Validate_tls_status t = (case tls_Status t of
      TLSCompleted \<Rightarrow> firstErr [
        guard (tls_Reason t \<noteq> UnconfirmedNone) ''completed TLS must not include an unconfirmed reason'',
        guard (tls_Version t = '''' \<or> tls_CipherSuite t = '''') ''completed TLS requires version and cipher suite'',
        guard (\<not> ValidString (tls_ALPN t) \<or> 255 < length (tls_ALPN t)) ''TLS ALPN must be bounded valid UTF-8'',
        guard (tls_PeerCertificates t < 1 \<or> tls_Leaf t = None)
          ''completed TLS requires peer and leaf certificate evidence'',
        (case tls_Leaf t of None \<Rightarrow> None | Some leaf \<Rightarrow> validateLeaf leaf)]
    | TLSUnconfirmed \<Rightarrow> firstErr [
        guard (\<not> validUnconfirmedReason_tls (tls_Reason t)) ''unsupported unconfirmed reason'',
        guard (tls_Version t \<noteq> '''' \<or> tls_CipherSuite t \<noteq> '''' \<or> tls_ALPN t \<noteq> '''' \<or>
            tls_PeerCertificates t \<noteq> 0 \<or> tls_Leaf t \<noteq> None)
          ''unconfirmed TLS must not include completed-handshake fields'']
    | TLSStatusOther s \<Rightarrow>
        Some (if s = '''' then ''TLS status must not be empty'' else ''unsupported TLS status''))"

definition Validate_tls_target :: "TlsResult \<Rightarrow> error option" where
  "Validate_tls_target result =
     (let (txt, address, err) = NormalizePublicIP (in_DialIP (env_input result)) in firstErr [
        wrapErr ''input dial_ip is not an allowed public address: '' err,
        guard (txt \<noteq> in_DialIP (env_input result)) ''input dial_ip must be canonical'',
        guard (in_Family (env_input result) \<noteq> (if Is4 address then FamilyIPv4 else FamilyIPv6))
          ''input family does not match dial_ip'',
        (if env_outcome result \<noteq> OutcomeSucceeded then None
         else case env_evidence result of
            None \<Rightarrow> Some ''panic: nil evidence''
          | Some evidence \<Rightarrow> firstErr [
              guard (ev_RemoteEndpoint evidence \<noteq> AddrPortString (address, Port_tls)) ''remote endpoint must match'',
              guard (ev_TCPConnectMS evidence < 0 \<or> tls_HandshakeMS (ev_TLS evidence) < 0)
                ''stage timings must not be negative'',
              guard (env_durationMS result < add64 (ev_TCPConnectMS evidence) (tls_HandshakeMS (ev_TLS evidence)))
                ''stage timings must fit within total duration'',
              Validate_tls_status (ev_TLS evidence)])])"

definition Validate_tls :: "TlsResult \<Rightarrow> error option" where
  "Validate_tls result = firstErr [
     wrapErr ''invalid probe envelope: '' (Validate_envelope result),
     guard (env_probe result \<noteq> ProbeKind_tls) ''probe must be tls_observation'',
     guard (in_Port (env_input result) \<noteq> Port_tls) ''input port must be 443'',
     guard (in_SNIMode (env_input result) \<noteq> SNIOmittedNoHostname) ''input SNI mode must be omitted_no_hostname'',
     guard (in_Identity (env_input result) \<noteq> IdentityNotPerformedNoHostname)
       ''input identity verification must be not_performed_no_hostname'',
     (case env_failure result of
        None \<Rightarrow> Validate_tls_target result
      | Some f \<Rightarrow>
          if \<not> validFailureCode_tls (fail_code f) then Some ''unsupported TLS observation failure code''
          else if fail_code f = FailureInvalidInput then
            (let (normalized, target, normalizeErr) =
                   normalizeRequest_tls \<lparr>req_DialIP = in_DialIP (env_input result)\<rparr> in firstErr [
              guard (normalizeErr = None) ''invalid_input failure requires an invalid target'',
              guard (normalized \<noteq> env_input result)
                ''invalid_input must preserve the normalized and derived representation''])
          else Validate_tls_target result)]"

end
