(* ===== verification/TlsProps.thy ===== *)
theory TlsProps
  imports TlsObservation
begin

text \<open>
  What the TLS observation guarantees: its own validator accepts every result it returns when
  the peer's certificate is well formed, it dials public addresses only, and a cancellation or
  a deadline seen at the commit point never yields a completed handshake.
\<close>

section \<open>Valid results\<close>

lemma newObserver_tls_source:
  "newObserver_tls cfg = Inr ob \<Longrightarrow> ob_source ob =
     \<lparr>src_backend = ''go-stdlib-tls-direct-no-sni'', src_capability = CapabilityNative, src_reason = ''''\<rparr>"
  by (auto simp: newObserver_tls_def Let_def split: if_splits)

definition platform_ok :: "string \<Rightarrow> string \<Rightarrow> bool" where
  "platform_ok os arch = (os \<noteq> '''' \<and> arch \<noteq> '''')"

lemma durationMS_tls_nonneg [simp]: "0 \<le> durationMS_tls d" "\<not> durationMS_tls d < 0"
  by (auto simp: durationMS_tls_def Milliseconds_def pos_imp_zdiv_nonneg_iff)

lemma baseResult_tls_sel [simp]:
  "env_schema (baseResult_tls w ob f s i) = SchemaVersion"
  "env_probe (baseResult_tls w ob f s i) = ProbeKind_tls"
  "env_observedAt (baseResult_tls w ob f s i) = UTC f"
  "env_durationMS (baseResult_tls w ob f s i) = durationMS_tls (Sub f s)"
  "env_platform (baseResult_tls w ob f s i) = \<lparr>plat_os = w_os w, plat_arch = w_arch w\<rparr>"
  "env_source (baseResult_tls w ob f s i) = ob_source ob"
  "env_input (baseResult_tls w ob f s i) = i"
  "env_evidence (baseResult_tls w ob f s i) = None"
  "env_failure (baseResult_tls w ob f s i) = None"
  by (simp_all add: baseResult_tls_def)

lemma failureResult_tls_sel [simp]:
  "env_outcome (failureResult_tls w ob f s i oc c e) = oc"
  "env_input (failureResult_tls w ob f s i oc c e) = i"
  "env_evidence (failureResult_tls w ob f s i oc c e) = None"
  "env_probe (failureResult_tls w ob f s i oc c e) = ProbeKind_tls"
  "env_failure (failureResult_tls w ob f s i oc c e) =
     Some \<lparr>fail_code = c, fail_detail = (case e of None \<Rightarrow> '''' | Some x \<Rightarrow> err_text x)\<rparr>"
  by (simp_all add: failureResult_tls_def)

text \<open>A failure outcome and its code go together.\<close>

definition coherent :: "Outcome \<Rightarrow> FailureCode \<Rightarrow> bool" where
  "coherent oc c \<longleftrightarrow> (oc = OutcomeCancelled \<and> c = FailureCancelled) \<or>
     (oc = OutcomeFailed \<and> c \<noteq> FailureCancelled \<and> c \<noteq> FailureOf '''')"

lemma failureResult_tls_envelope:
  assumes "clock_ok (w_now w)" "platform_ok (w_os w) (w_arch w)" "newObserver_tls cfg = Inr ob"
    and "coherent oc c"
  shows "Validate_envelope (failureResult_tls w ob (w_now w n) s i oc c e) = None"
  using assms clock_nonzero [OF assms(1), of n]
  by (auto simp: Validate_envelope_None Validate_outcome_None failureResult_tls_def coherent_def
      platform_ok_def newObserver_tls_source)

lemma classifyTCPFailure_tls_coherent:
  assumes "classifyTCPFailure_tls p a k e = (oc, c)"
  shows "coherent oc c" "validFailureCode_tls c" "c \<noteq> FailureInvalidInput" "oc \<noteq> OutcomeSucceeded"
  using assms by (auto simp: classifyTCPFailure_tls_def coherent_def tls_codes split: if_splits)

lemma normalizeRequest_tls_ok:
  assumes "normalizeRequest_tls r = (i, t, None)"
  obtains ip where "NormalizePublicIP (req_DialIP r) = (in_DialIP i, ip, None)"
    "i = \<lparr>in_DialIP = AddrString ip, in_Family = (if Is4 ip then FamilyIPv4 else FamilyIPv6),
       in_Port = Port_tls, in_SNIMode = SNIOmittedNoHostname, in_Identity = IdentityNotPerformedNoHostname\<rparr>"
    "tgt_endpoint t = AddrPortString (ip, Port_tls)" "isAllowedPublicIP ip"
    "tgt_network t = (if Is4 ip then ''tcp4'' else ''tcp6'')"
    "NormalizePublicIP (in_DialIP i) = (in_DialIP i, ip, None)"
proof -
  obtain tx ip where n: "NormalizePublicIP (req_DialIP r) = (tx, ip, None)"
    using assms by (auto simp: normalizeRequest_tls_def Let_def split: prod.splits if_splits)
  note acc = NormalizePublicIP_accept_cases [OF n]
  have i: "i = \<lparr>in_DialIP = tx, in_Family = (if Is4 ip then FamilyIPv4 else FamilyIPv6),
       in_Port = Port_tls, in_SNIMode = SNIOmittedNoHostname, in_Identity = IdentityNotPerformedNoHostname\<rparr>"
    and t: "tgt_endpoint t = AddrPortString (ip, Port_tls)" "tgt_network t = (if Is4 ip then ''tcp4'' else ''tcp6'')"
    using assms n acc(2) by (auto simp: normalizeRequest_tls_def familyOf_def)
  have "NormalizePublicIP tx = (tx, ip, None)"
    using NormalizePublicIP_idempotent [of "req_DialIP r"] n by simp
  with n i t acc show ?thesis by (intro that [of ip]) simp_all
qed

lemma normalizeRequest_tls_bad:
  assumes "normalizeRequest_tls r = (i, t, Some m)"
  shows "normalizeRequest_tls \<lparr>req_DialIP = in_DialIP i\<rparr> = (i, t, Some m)"
    "in_Port i = Port_tls" "in_SNIMode i = SNIOmittedNoHostname" "in_Identity i = IdentityNotPerformedNoHostname"
  using assms NormalizePublicIP_idempotent [of "req_DialIP r"]
  by (auto simp: normalizeRequest_tls_def Let_def split: prod.splits if_splits)

lemma Validate_tls_failure:
  assumes env: "clock_ok (w_now w)" "platform_ok (w_os w) (w_arch w)" "newObserver_tls cfg = Inr ob"
    and c: "coherent oc c" "validFailureCode_tls c" "c \<noteq> FailureInvalidInput" "oc \<noteq> OutcomeSucceeded"
    and n: "normalizeRequest_tls r = (i, t, None)"
  shows "Validate_tls (failureResult_tls w ob (w_now w n) s i oc c e) = None"
proof -
  obtain ip where "NormalizePublicIP (in_DialIP i) = (in_DialIP i, ip, None)"
    "i = \<lparr>in_DialIP = AddrString ip, in_Family = (if Is4 ip then FamilyIPv4 else FamilyIPv6),
       in_Port = Port_tls, in_SNIMode = SNIOmittedNoHostname, in_Identity = IdentityNotPerformedNoHostname\<rparr>"
    using normalizeRequest_tls_ok [OF n] by metis
  then show ?thesis
    using failureResult_tls_envelope [OF env c(1)] c
    by (simp add: Validate_tls_def Validate_tls_target_def firstErr_simps Let_def del: validFailureCode_tls.simps)
qed

lemma Validate_tls_invalid_input:
  assumes env: "clock_ok (w_now w)" "platform_ok (w_os w) (w_arch w)" "newObserver_tls cfg = Inr ob"
    and n: "normalizeRequest_tls r = (i, t, Some m)"
  shows "Validate_tls (failureResult_tls w ob (w_now w n) s i OutcomeFailed FailureInvalidInput e) = None"
  using failureResult_tls_envelope [OF env, of OutcomeFailed FailureInvalidInput]
    normalizeRequest_tls_bad [OF n]
  by (simp add: Validate_tls_def firstErr_simps Let_def coherent_def)

text \<open>What the TLS library reports of a completed handshake, and what a sane peer sends.\<close>

definition tls_library_ok :: "TlsWorld \<Rightarrow> bool" where
  "tls_library_ok w \<longleftrightarrow> (\<forall>bs. length (w_sha256 w bs) = 32) \<and> (\<forall>n. w_cipherSuiteName w n \<noteq> '''')"

definition state_ok :: "ConnectionState \<Rightarrow> bool" where
  "state_ok st \<longleftrightarrow> ValidString (cs_NegotiatedProtocol st) \<and> length (cs_NegotiatedProtocol st) \<le> 255 \<and>
     (\<forall>leaf \<in> set (cs_PeerCertificates st). \<not> IsZero (crt_NotBefore leaf) \<and> \<not> IsZero (crt_NotAfter leaf) \<and>
        t_wall (crt_NotBefore leaf) < t_wall (crt_NotAfter leaf))"

definition peers_ok :: "TlsWorld \<Rightarrow> bool" where
  "peers_ok w \<longleftrightarrow> (\<forall>net ep conn st. w_dial w net ep = Inr conn \<longrightarrow> conn_Handshake conn = Inr st \<longrightarrow> state_ok st)"

lemma tlsVersionName_nonempty: "tlsVersionName v \<noteq> ''''"
  by (simp add: tlsVersionName_def)

lemma After_UTC: "After (UTC a) (UTC b) \<longleftrightarrow> t_wall b < t_wall a"
  by (simp add: After_def UTC_def)

lemma unconfirmedTLS_valid [simp]:
  "validUnconfirmedReason_tls r \<Longrightarrow> Validate_tls_status (unconfirmedTLS ms r) = None"
  "tls_HandshakeMS (unconfirmedTLS ms r) = ms" "tls_Status (unconfirmedTLS ms r) = TLSUnconfirmed"
  by (simp_all add: unconfirmedTLS_def Validate_tls_status_def firstErr_simps)

lemma classifyUnconfirmedReason_tls_valid [simp]: "validUnconfirmedReason_tls (classifyUnconfirmedReason_tls e)"
  by (simp add: classifyUnconfirmedReason_tls_def)

text \<open>
  What the observer takes over from the peer without a check, and the validator refuses: the protocol of ALPN and
  the times of the certificate, which a handshake without verification accepts as they are.
\<close>

definition refusedPeer :: "TLS \<Rightarrow> bool" where
  "refusedPeer t \<longleftrightarrow> tls_Status t = TLSCompleted \<and>
     (\<not> ValidString (tls_ALPN t) \<or> 255 < length (tls_ALPN t) \<or>
      (\<exists>leaf. tls_Leaf t = Some leaf \<and> (IsZero (leaf_NotBefore leaf) \<or> IsZero (leaf_NotAfter leaf) \<or>
         \<not> After (leaf_NotAfter leaf) (leaf_NotBefore leaf))))"

lemma completedTLS_exact:
  assumes "tls_library_ok w" "completedTLS w st ms = Inr t"
  shows "Validate_tls_status t = None \<longleftrightarrow> \<not> refusedPeer t" "tls_HandshakeMS t = ms"
    "state_ok st \<Longrightarrow> \<not> refusedPeer t"
  using assms
  by (auto simp: completedTLS_def Validate_tls_status_def validateLeaf_def firstErr_simps tls_library_ok_def refusedPeer_def
      state_ok_def tlsVersionName_nonempty After_UTC not_less split: if_splits list.splits)

lemma unconfirmed_not_refused [simp]: "\<not> refusedPeer (unconfirmedTLS ms r)"
  by (simp add: refusedPeer_def unconfirmedTLS_def)

lemma handshakeStage_exact:
  assumes "tls_library_ok w" and h: "handshakeStage w conn = (t, k)"
  shows "Validate_tls_status t = None \<longleftrightarrow> \<not> refusedPeer t"
    "(k = 3 \<and> tls_HandshakeMS t = 0) \<or> (k = 5 \<and> tls_HandshakeMS t = durationMS_tls (Sub (w_now w 4) (w_now w 3)))"
    "(\<And>st. conn_Handshake conn = Inr st \<Longrightarrow> state_ok st) \<Longrightarrow> \<not> refusedPeer t"
  using h completedTLS_exact [OF assms(1)]
  by (auto simp: handshakeStage_def Let_def simp del: validUnconfirmedReason_tls.simps split: if_splits sum.splits) auto

lemma durationMS_tls_0 [simp]: "durationMS_tls 0 = 0"
  by (simp add: durationMS_tls_def Milliseconds_def)

lemma durationMS_clock:
  assumes "clock_ok now" "m \<le> n"
  shows "durationMS_tls (Sub (now n) (now m)) = Milliseconds (Sub (now n) (now m))"
proof -
  obtain f where f: "\<And>m n. m \<le> n \<Longrightarrow> Sub (now n) (now m) = f n - f m" "mono f"
    "\<And>m n. f n - f m < (2 :: int) ^ 63"
    using clock_Sub [OF assms(1)] by auto
  have "f m \<le> f n" using f(2) assms(2) by (rule monoD)
  with f(1) [OF assms(2)] show ?thesis by (simp add: durationMS_tls_def)
qed

lemma stage_sum:
  assumes "clock_ok now" "i \<le> j" "j \<le> k" "k \<le> l" "l \<le> m" "i' \<le> i"
  shows "add64 (durationMS_tls (Sub (now j) (now i))) (durationMS_tls (Sub (now l) (now k)))
    \<le> durationMS_tls (Sub (now m) (now i'))"
proof -
  note c = clock_stages [OF assms]
  have "Milliseconds (Sub (now l) (now k)) < 2 ^ 62" "0 \<le> Milliseconds (Sub (now l) (now k))"
    using clock_stages(2,3) [OF assms(1), of k l l l l k] assms(4) by simp_all
  with c(1-3) have "add64 (Milliseconds (Sub (now j) (now i))) (Milliseconds (Sub (now l) (now k)))
     = Milliseconds (Sub (now j) (now i)) + Milliseconds (Sub (now l) (now k))"
    unfolding add64_def by (intro wrap64_id) simp_all
  with c(1) assms show ?thesis by (simp add: durationMS_clock)
qed

lemma commitEvidence_tls_exact:
  assumes env: "clock_ok (w_now w)" "platform_ok (w_os w) (w_arch w)" "newObserver_tls cfg = Inr ob"
    and n: "normalizeRequest_tls r = (i, tg, None)"
    and ev: "ev_RemoteEndpoint e = tgt_endpoint tg" "Validate_tls_status (ev_TLS e) = None \<longleftrightarrow> \<not> refusedPeer (ev_TLS e)"
      "0 \<le> ev_TCPConnectMS e" "0 \<le> tls_HandshakeMS (ev_TLS e)"
      "add64 (ev_TCPConnectMS e) (tls_HandshakeMS (ev_TLS e)) \<le> durationMS_tls (Sub (w_now w f) s)"
  shows "Validate_tls (commitEvidence_tls w ob a k (w_now w f) s i e) = None \<longleftrightarrow>
    \<not> (\<exists>e'. env_evidence (commitEvidence_tls w ob a k (w_now w f) s i e) = Some e' \<and> refusedPeer (ev_TLS e'))"
proof (cases "w_ctx w k = Some Canceled")
  case True
  have "Validate_tls (failureResult_tls w ob (w_now w f) s i OutcomeCancelled FailureCancelled c) = None" for c
    by (rule Validate_tls_failure [OF env _ _ _ _ n]) (simp_all add: coherent_def)
  with True show ?thesis by (simp add: commitEvidence_tls_def)
next
  case False
  obtain ip where ip: "NormalizePublicIP (in_DialIP i) = (in_DialIP i, ip, None)"
    "i = \<lparr>in_DialIP = AddrString ip, in_Family = (if Is4 ip then FamilyIPv4 else FamilyIPv6),
       in_Port = Port_tls, in_SNIMode = SNIOmittedNoHostname, in_Identity = IdentityNotPerformedNoHostname\<rparr>"
    "tgt_endpoint tg = AddrPortString (ip, Port_tls)"
    using normalizeRequest_tls_ok [OF n] by metis
  have envl: "Validate_envelope ((baseResult_tls w ob (w_now w f) s i)\<lparr>env_outcome := OutcomeSucceeded,
      env_evidence := Some e'\<rparr>) = None" for e'
    using env clock_nonzero [OF env(1), of f]
    by (auto simp: Validate_envelope_None Validate_outcome_None platform_ok_def newObserver_tls_source)
  show ?thesis
    using False ip ev envl
    by (simp add: commitEvidence_tls_def Validate_tls_def Validate_tls_target_def firstErr_simps Let_def not_less)
qed

lemma Observe_tls_exact:
  assumes env: "clock_ok (w_now w)" "platform_ok (w_os w) (w_arch w)" "newObserver_tls cfg = Inr ob"
    and lib: "tls_library_ok w"
  shows "Validate_tls (Observe_tls w ob r) = None \<longleftrightarrow>
    \<not> (\<exists>e. env_evidence (Observe_tls w ob r) = Some e \<and> refusedPeer (ev_TLS e))"
proof -
  obtain i tg err where n: "normalizeRequest_tls r = (i, tg, err)" by (cases "normalizeRequest_tls r")
  show ?thesis
  proof (cases err)
    case (Some m)
    with n Validate_tls_invalid_input [OF env, of r i tg m] show ?thesis
      by (simp add: Observe_tls_def Let_def)
  next
    case None
    note n = n [unfolded None]
    note bad = Validate_tls_failure [OF env _ _ _ _ n]
    show ?thesis
    proof (cases "w_ctx w 0")
      case (Some c)
      with n show ?thesis
        using classifyTCPFailure_tls_coherent [of "w_ctx w" "w_ctx w" 2 "ctxErrAt (w_ctx w) 1"]
        by (auto simp: Observe_tls_def Let_def split: prod.splits intro!: bad)
    next
      case live: None
      show ?thesis
      proof (cases "w_dial w (tgt_network tg) (tgt_endpoint tg)")
        case (Inl e)
        with n live show ?thesis
          using classifyTCPFailure_tls_coherent [of "w_ctx w" "withTimeout (w_ctx w) (w_fired w (ob_timeout ob))" 2 "Some e"]
          by (auto simp: Observe_tls_def Let_def split: prod.splits intro!: bad)
      next
        case (Inr conn)
        obtain t k where h: "handshakeStage w conn = (t, k)" by (cases "handshakeStage w conn")
        note hv = handshakeStage_exact [OF lib h]
        have sum: "add64 (durationMS_tls (Sub (w_now w 2) (w_now w 1))) (tls_HandshakeMS t)
            \<le> durationMS_tls (Sub (w_now w k) (w_now w 0))"
          using hv(2)
        proof (elim disjE conjE)
          assume "k = 3" "tls_HandshakeMS t = 0"
          then show ?thesis using stage_sum [OF env(1), of 1 2 2 2 3 0] by simp
        next
          assume "k = 5" "tls_HandshakeMS t = durationMS_tls (Sub (w_now w 4) (w_now w 3))"
          then show ?thesis using stage_sum [OF env(1), of 1 2 3 4 5 0] by simp
        qed
        have nn: "0 \<le> tls_HandshakeMS t" using hv(2) by auto
        let ?commit = "\<lambda>a. commitEvidence_tls w ob a 6 (w_now w k) (w_now w 0) i
            \<lparr>ev_RemoteEndpoint = tgt_endpoint tg, ev_TCPConnectMS = durationMS_tls (Sub (w_now w 2) (w_now w 1)), ev_TLS = t\<rparr>"
        have ok: "Validate_tls (?commit a) = None \<longleftrightarrow> \<not> (\<exists>e. env_evidence (?commit a) = Some e \<and> refusedPeer (ev_TLS e))" for a
          by (rule commitEvidence_tls_exact [OF env n]) (use hv(1) sum nn in simp_all)
        have tcp: "Validate_tls (failureResult_tls w ob (w_now w 3) (w_now w 0) i OutcomeFailed FailureTCP e) = None" for e
          by (rule bad) (simp_all add: coherent_def tls_codes)
        show ?thesis
          using n live Inr h ok tcp by (auto simp: Observe_tls_def Let_def split: sum.splits)
      qed
    qed
  qed
qed

lemma Observe_tls_handshake:
  assumes "env_evidence (Observe_tls w ob r) = Some e" "refusedPeer (ev_TLS e)"
  obtains net ep conn k where "w_dial w net ep = Inr conn" "handshakeStage w conn = (ev_TLS e, k)"
proof -
  obtain i tg err where n: "normalizeRequest_tls r = (i, tg, err)" by (cases "normalizeRequest_tls r")
  have err: "err = None" and live: "w_ctx w 0 = None"
    using assms n by (auto simp: Observe_tls_def Let_def split: if_splits prod.splits)
  obtain conn where c: "w_dial w (tgt_network tg) (tgt_endpoint tg) = Inr conn"
    using assms n err live
    by (cases "w_dial w (tgt_network tg) (tgt_endpoint tg)") (auto simp: Observe_tls_def Let_def split: prod.splits)
  obtain t k where h: "handshakeStage w conn = (t, k)" by (cases "handshakeStage w conn")
  have "t = ev_TLS e"
    using assms n err live c h by (auto simp: Observe_tls_def commitEvidence_tls_def Let_def split: sum.splits if_splits)
  with c h that show ?thesis by blast
qed

lemma Observe_tls_valid_lemma:
  assumes "clock_ok (w_now w)" "platform_ok (w_os w) (w_arch w)" "newObserver_tls cfg = Inr ob"
    and lib: "tls_library_ok w" and peers: "peers_ok w"
  shows "Validate_tls (Observe_tls w ob r) = None"
proof -
  have "\<not> refusedPeer (ev_TLS e)" if e: "env_evidence (Observe_tls w ob r) = Some e" for e
  proof
    assume "refusedPeer (ev_TLS e)"
    with e obtain net ep conn k where *: "w_dial w net ep = Inr conn" "handshakeStage w conn = (ev_TLS e, k)" "refusedPeer (ev_TLS e)"
      using Observe_tls_handshake by metis
    from handshakeStage_exact(3) [OF lib *(2)] *(1,3) peers show False by (auto simp: peers_ok_def)
  qed
  then show ?thesis using Observe_tls_exact [OF assms(1-4)] by blast
qed

section \<open>Safety\<close>

text \<open>The dialer is asked for the canonical endpoint of an allowed address, or not at all.\<close>

lemma Observe_tls_dial_lemma:
  assumes "\<And>ip. isAllowedPublicIP ip \<Longrightarrow>
      d (if Is4 ip then ''tcp4'' else ''tcp6'') (AddrPortString (ip, Port_tls)) =
      d' (if Is4 ip then ''tcp4'' else ''tcp6'') (AddrPortString (ip, Port_tls))"
  shows "Observe_tls (w\<lparr>w_dial := d\<rparr>) ob r = Observe_tls (w\<lparr>w_dial := d'\<rparr>) ob r"
proof -
  obtain i tg err where n: "normalizeRequest_tls r = (i, tg, err)" by (cases "normalizeRequest_tls r")
  have same: "baseResult_tls (w\<lparr>w_dial := d\<rparr>) = baseResult_tls (w\<lparr>w_dial := d'\<rparr>)"
    "failureResult_tls (w\<lparr>w_dial := d\<rparr>) = failureResult_tls (w\<lparr>w_dial := d'\<rparr>)"
    "commitEvidence_tls (w\<lparr>w_dial := d\<rparr>) = commitEvidence_tls (w\<lparr>w_dial := d'\<rparr>)"
    "completedTLS (w\<lparr>w_dial := d\<rparr>) = completedTLS (w\<lparr>w_dial := d'\<rparr>)"
    by (intro ext, simp add: baseResult_tls_def failureResult_tls_def commitEvidence_tls_def completedTLS_def Let_def
        split: list.split)+
  then have stage: "handshakeStage (w\<lparr>w_dial := d\<rparr>) = handshakeStage (w\<lparr>w_dial := d'\<rparr>)"
    by (intro ext) (simp add: handshakeStage_def Let_def cong: sum.case_cong if_cong)
  show ?thesis
  proof (cases err)
    case (Some m)
    with n same show ?thesis by (simp add: Observe_tls_def)
  next
    case None
    then obtain ip where "tgt_endpoint tg = AddrPortString (ip, Port_tls)" "isAllowedPublicIP ip"
      "tgt_network tg = (if Is4 ip then ''tcp4'' else ''tcp6'')"
      using normalizeRequest_tls_ok n by metis
    with assms [of ip] have "d (tgt_network tg) (tgt_endpoint tg) = d' (tgt_network tg) (tgt_endpoint tg)"
      by simp
    with n same stage show ?thesis by (simp add: Observe_tls_def Let_def cong: sum.case_cong if_cong)
  qed
qed

lemma commitEvidence_tls_outcome:
  "env_outcome (commitEvidence_tls w ob a k f s i e) = OutcomeSucceeded \<longleftrightarrow> w_ctx w k \<noteq> Some Canceled"
  by (simp add: commitEvidence_tls_def Let_def)

lemma commitEvidence_tls_evidence:
  "env_evidence (commitEvidence_tls w ob a k f s i e) = Some e' \<Longrightarrow> w_ctx w (k + 1) \<noteq> None \<or> a (k + 2) \<noteq> None \<Longrightarrow>
   ev_TLS e' = unconfirmedTLS (tls_HandshakeMS (ev_TLS e)) UnconfirmedHandshakeTimeout"
  by (auto simp: commitEvidence_tls_def Let_def split: if_splits)

lemma Observe_tls_commit:
  assumes "env_evidence (Observe_tls w ob r) = Some e"
  obtains i e0 n where "Observe_tls w ob r =
      commitEvidence_tls w ob (withTimeout (w_ctx w) (w_fired w (ob_timeout ob))) 6 (w_now w n) (w_now w 0) i e0"
    "w_ctx w 0 = None"
proof -
  obtain i tg err where n: "normalizeRequest_tls r = (i, tg, err)" by (cases "normalizeRequest_tls r")
  have err: "err = None" and live: "w_ctx w 0 = None"
    using assms n by (auto simp: Observe_tls_def Let_def split: if_splits prod.splits)
  obtain conn where c: "w_dial w (tgt_network tg) (tgt_endpoint tg) = Inr conn"
    using assms n err live
    by (cases "w_dial w (tgt_network tg) (tgt_endpoint tg)") (auto simp: Observe_tls_def Let_def split: prod.splits)
  obtain t k where h: "handshakeStage w conn = (t, k)" by (cases "handshakeStage w conn")
  show ?thesis
    using assms n err live c h that
    by (auto simp: Observe_tls_def Let_def split: sum.splits if_splits)
qed

section \<open>A concrete run\<close>

definition demoCert :: "int \<Rightarrow> int \<Rightarrow> Certificate" where
  "demoCert b u = \<lparr>crt_Raw = [1, 2, 3], crt_NotBefore = \<lparr>t_wall = b, t_mono = None, t_zone = 0\<rparr>,
     crt_NotAfter = \<lparr>t_wall = u, t_mono = None, t_zone = 0\<rparr>\<rparr>"

definition demoState :: "Certificate \<Rightarrow> ConnectionState" where
  "demoState c = \<lparr>cs_HandshakeComplete = True, cs_ServerName = '''', cs_VerifiedChains = 0,
     cs_PeerCertificates = [c], cs_Version = 0x0304, cs_CipherSuite = 0x1301, cs_NegotiatedProtocol = ''''\<rparr>"

definition demoTlsWorld :: "ctx \<Rightarrow> Certificate \<Rightarrow> TlsWorld" where
  "demoTlsWorld c crt = \<lparr>w_now = steadyClock 1000000, w_ctx = c, w_fired = (\<lambda>d n. False),
     w_dial = (\<lambda>network endpoint. Inr \<lparr>conn_RemoteAddr = Some ''1.1.1.1:443'', conn_SetDeadline = None,
        conn_Handshake = Inr (demoState crt)\<rparr>),
     w_os = ''linux'', w_arch = ''amd64'', w_sha256 = (\<lambda>bs. replicate 32 7),
     w_cipherSuiteName = (\<lambda>n. ''TLS_AES_128_GCM_SHA256'')\<rparr>"

definition demoObserver :: TlsObserver where
  "demoObserver = \<lparr>ob_timeout = defaultTimeout_tls,
     ob_source = \<lparr>src_backend = ''go-stdlib-tls-direct-no-sni'', src_capability = CapabilityNative, src_reason = ''''\<rparr>\<rparr>"

lemma demoObserver_new: "newObserver_tls \<lparr>cfg_Timeout = 0\<rparr> = Inr demoObserver"
  by (simp add: newObserver_tls_def demoObserver_def defaultTimeout_tls_def maximumTimeout_tls_def)

lemma demoTlsWorld_ok:
  "clock_ok (w_now (demoTlsWorld c crt))" "platform_ok (w_os (demoTlsWorld c crt)) (w_arch (demoTlsWorld c crt))"
  "tls_library_ok (demoTlsWorld c crt)"
  by (simp_all add: demoTlsWorld_def steadyClock_ok platform_ok_def tls_library_ok_def)

lemma demoTlsWorld_peers: "b \<noteq> 0 \<Longrightarrow> u \<noteq> 0 \<Longrightarrow> b < u \<Longrightarrow> peers_ok (demoTlsWorld c (demoCert b u))"
  by (auto simp: peers_ok_def demoTlsWorld_def demoState_def demoCert_def state_ok_def IsZero_def ValidString.simps)

lemma one_one_allowed: "isAllowedPublicIP (Addr4 1 1 1 1)"
  by (simp add: isAllowedPublicIP_v4 specialV4_def)

lemma one_one_text: "AddrString (Addr4 1 1 1 1) = ''1.1.1.1''"
  by (simp add: AddrString_def dotted_def fmtBase_rec digitChar_text)

lemma normalize_one_one: "normalizeRequest_tls \<lparr>req_DialIP = ''1.1.1.1''\<rparr> =
  (\<lparr>in_DialIP = ''1.1.1.1'', in_Family = FamilyIPv4, in_Port = Port_tls, in_SNIMode = SNIOmittedNoHostname,
    in_Identity = IdentityNotPerformedNoHostname\<rparr>, \<lparr>tgt_network = ''tcp4'', tgt_endpoint = ''1.1.1.1:443''\<rparr>, None)"
  using NormalizePublicIP_complete [OF one_one_allowed]
  by (simp add: normalizeRequest_tls_def one_one_text familyOf_def AddrPortString_def Port_tls_def fmtBase_rec digitChar_text)

lemma demo_endpoint: "canonicalRemoteEndpoint_tls (Some ''1.1.1.1:443'') = Inr ''1.1.1.1:443''"
proof -
  have "AddrPortString (Addr4 1 1 1 1, 443) = ''1.1.1.1:443''"
    by (simp add: AddrPortString_def one_one_text fmtBase_rec digitChar_text)
  with ParseAddrPort_String [of "Addr4 1 1 1 1" 443] show ?thesis
    by (simp add: canonicalRemoteEndpoint_tls_def)
qed

lemma demo_Observe: "Observe_tls (demoTlsWorld background (demoCert b u)) demoObserver \<lparr>req_DialIP = ''1.1.1.1''\<rparr> =
  (baseResult_tls (demoTlsWorld background (demoCert b u)) demoObserver (steadyClock 1000000 5) (steadyClock 1000000 0)
     (fst (normalizeRequest_tls \<lparr>req_DialIP = ''1.1.1.1''\<rparr>)))
  \<lparr>env_outcome := OutcomeSucceeded, env_evidence := Some \<lparr>ev_RemoteEndpoint = ''1.1.1.1:443'', ev_TCPConnectMS = 1,
     ev_TLS = \<lparr>tls_Status = TLSCompleted, tls_Reason = UnconfirmedNone, tls_HandshakeMS = 1, tls_Version = ''TLS1.3'',
       tls_CipherSuite = ''TLS_AES_128_GCM_SHA256'', tls_ALPN = '''', tls_PeerCertificates = 1,
       tls_Leaf = Some \<lparr>leaf_SHA256 = hexEncode (replicate 32 7), leaf_NotBefore = UTC (crt_NotBefore (demoCert b u)),
         leaf_NotAfter = UTC (crt_NotAfter (demoCert b u))\<rparr>\<rparr>\<rparr>\<rparr>"
proof -
  have ms: "durationMS_tls (Sub (steadyClock 1000000 (Suc (Suc 0))) (steadyClock 1000000 (Suc 0))) = 1"
    "durationMS_tls (Sub (steadyClock 1000000 2) (steadyClock 1000000 (Suc 0))) = 1"
    "durationMS_tls (Sub (steadyClock 1000000 4) (steadyClock 1000000 3)) = 1"
    by (simp_all add: steadyClock_def Sub_def clamp64_def durationMS_tls_def Milliseconds_def)
  have live: "withTimeout (\<lambda>n. None) (\<lambda>n. False) k = None" for k
    by (induction k) simp_all
  show ?thesis
    by (simp add: Observe_tls_def normalize_one_one demoTlsWorld_def demo_endpoint handshakeStage_def completedTLS_def
        demoState_def demoCert_def commitEvidence_tls_def ms live tlsVersionName_def demoObserver_def Let_def
        ctxErrAt_def background_def errorsIs_def baseResult_tls_def)
qed

section \<open>Properties\<close>

text \<open>
  Property C2. Whatever the request, the dialer, the peer and the contexts do, the envelope the
  observer returns satisfies its package's own validator, except exactly when it reports a completed
  handshake whose certificate has a zero time or does not end after it begins, or whose ALPN
  protocol is not bounded UTF-8. The clock is Go's, and the TLS library digests to 32 bytes and names
  every cipher suite.
\<close>

theorem Observe_tls_valid:
  assumes "newObserver_tls cfg = Inr ob" "clock_ok (w_now w)" "platform_ok (w_os w) (w_arch w)" "tls_library_ok w"
  shows "Validate_tls (Observe_tls w ob r) = None \<longleftrightarrow>
    \<not> (\<exists>e. env_evidence (Observe_tls w ob r) = Some e \<and> refusedPeer (ev_TLS e))"
  using Observe_tls_exact assms by blast

lemma Observe_tls_valid_witness:
  "Validate_tls (Observe_tls (demoTlsWorld background (demoCert 1000 2000)) demoObserver \<lparr>req_DialIP = ''1.1.1.1''\<rparr>) = None \<and>
   Validate_tls (Observe_tls (demoTlsWorld background (demoCert 2000 1000)) demoObserver \<lparr>req_DialIP = ''1.1.1.1''\<rparr>) \<noteq> None"
proof -
  note valid = Observe_tls_valid [OF demoObserver_new demoTlsWorld_ok, of background _ "\<lparr>req_DialIP = ''1.1.1.1''\<rparr>"]
  show ?thesis
    unfolding valid unfolding demo_Observe
    by (simp add: refusedPeer_def ValidString.simps demoCert_def IsZero_def After_UTC)
qed

text \<open>
  The exception is reached: the handshake does not verify the certificate, so a peer whose
  certificate ends before it begins makes the observer succeed with evidence the validator
  of the same package rejects.
\<close>

theorem Observe_tls_inverted_certificate:
  "\<exists>w. clock_ok (w_now w) \<and> platform_ok (w_os w) (w_arch w) \<and> tls_library_ok w \<and>
     env_outcome (Observe_tls w demoObserver \<lparr>req_DialIP = ''1.1.1.1''\<rparr>) = OutcomeSucceeded \<and>
     Validate_tls (Observe_tls w demoObserver \<lparr>req_DialIP = ''1.1.1.1''\<rparr>) = Some ''leaf not_after must be after not_before''"
proof (intro exI conjI)
  let ?w = "demoTlsWorld background (demoCert 2000 1000)"
  show "clock_ok (w_now ?w)" "platform_ok (w_os ?w) (w_arch ?w)" "tls_library_ok ?w"
    by (rule demoTlsWorld_ok)+
  show "env_outcome (Observe_tls ?w demoObserver \<lparr>req_DialIP = ''1.1.1.1''\<rparr>) = OutcomeSucceeded"
    by (simp add: demo_Observe)
  have leaf: "validateLeaf \<lparr>leaf_SHA256 = hexEncode (replicate 32 7), leaf_NotBefore = UTC (crt_NotBefore (demoCert 2000 1000)),
      leaf_NotAfter = UTC (crt_NotAfter (demoCert 2000 1000))\<rparr> = Some ''leaf not_after must be after not_before''"
    by (simp add: validateLeaf_def firstErr.simps guard_def demoCert_def IsZero_def After_UTC)
  have total: "durationMS_tls (Sub (steadyClock 1000000 5) (steadyClock 1000000 0)) = 5"
    by (simp add: steadyClock_def Sub_def clamp64_def durationMS_tls_def Milliseconds_def)
  have wraps: "add64 1 1 = 2" by (simp add: add64_def wrap64_def)
  have env: "Validate_envelope (Observe_tls ?w demoObserver \<lparr>req_DialIP = ''1.1.1.1''\<rparr>) = None"
    using clock_nonzero [OF demoTlsWorld_ok(1), where n = 5]
    unfolding demo_Observe
    by (simp add: Validate_envelope_None Validate_outcome_None demoObserver_def demoTlsWorld_def)
  show "Validate_tls (Observe_tls ?w demoObserver \<lparr>req_DialIP = ''1.1.1.1''\<rparr>) = Some ''leaf not_after must be after not_before''"
    using env leaf NormalizePublicIP_complete [OF one_one_allowed] total wraps
    by (simp add: AddrPortString_def Port_tls_def fmtBase_rec digitChar_text ValidString.simps [of "[]"] Validate_tls_def Validate_tls_target_def Validate_tls_status_def demo_Observe normalize_one_one
        one_one_text firstErr.simps guard_def wrapErr_def Let_def)
qed

text \<open>
  Property C3. A request reaches the network only at the canonical \<open>ip:443\<close> of an address
  the public-target policy allows: two dialers that agree there give the same result.
\<close>

theorem Observe_tls_dials_public_only:
  assumes "\<And>ip. isAllowedPublicIP ip \<Longrightarrow>
      d (if Is4 ip then ''tcp4'' else ''tcp6'') (AddrPortString (ip, Port_tls)) =
      d' (if Is4 ip then ''tcp4'' else ''tcp6'') (AddrPortString (ip, Port_tls))"
  shows "Observe_tls (w\<lparr>w_dial := d\<rparr>) ob r = Observe_tls (w\<lparr>w_dial := d'\<rparr>) ob r"
  using assms by (rule Observe_tls_dial_lemma)

text \<open>A dialer that would connect to the private address 10.0.0.1 makes no difference.\<close>

lemma Observe_tls_dials_public_only_witness:
  "Observe_tls ((demoTlsWorld background (demoCert 1 2))\<lparr>w_dial := (\<lambda>network endpoint. if endpoint = ''10.0.0.1:443''
       then Inr \<lparr>conn_RemoteAddr = None, conn_SetDeadline = None, conn_Handshake = Inl (plainErr ''reset'')\<rparr>
       else Inl (plainErr ''unreachable''))\<rparr>) demoObserver \<lparr>req_DialIP = ''10.0.0.1''\<rparr> =
   Observe_tls ((demoTlsWorld background (demoCert 1 2))\<lparr>w_dial := (\<lambda>network endpoint. Inl (plainErr ''unreachable''))\<rparr>)
     demoObserver \<lparr>req_DialIP = ''10.0.0.1''\<rparr>"
proof (rule Observe_tls_dials_public_only)
  fix ip
  assume a: "isAllowedPublicIP ip"
  have priv: "AddrPortString (Addr4 10 0 0 1, 443) = ''10.0.0.1:443''"
    by (simp add: AddrPortString_def AddrString_def dotted_def fmtBase_rec digitChar_text)
  have "IsValid ip" using a by (simp add: isAllowedPublicIP_def split: if_splits)
  then have "ip = Addr4 10 0 0 1" if "AddrPortString (ip, Port_tls) = ''10.0.0.1:443''"
    using that ParseAddrPort_String [of ip 443] ParseAddrPort_String [of "Addr4 10 0 0 1" 443] priv
    by (simp add: Port_tls_def)
  with a have "AddrPortString (ip, Port_tls) \<noteq> ''10.0.0.1:443''"
    by (auto simp: isAllowedPublicIP_v4 specialV4_def)
  then show "(if AddrPortString (ip, Port_tls) = ''10.0.0.1:443''
       then Inr \<lparr>conn_RemoteAddr = None, conn_SetDeadline = None, conn_Handshake = Inl (plainErr ''reset'')\<rparr>
       else Inl (plainErr ''unreachable'')) = Inl (plainErr ''unreachable'')" by simp
qed

text \<open>
  Property C4. No late handshake: evidence is committed only if the caller had not cancelled at
  the commit point. When the caller's context or the attempt's own deadline was over there, the
  evidence keeps the TCP connection and reports TLS as unconfirmed by a timeout, never as completed.
\<close>

theorem Observe_tls_no_late_success:
  assumes "env_evidence (Observe_tls w ob r) = Some e"
  shows "w_ctx w 6 \<noteq> Some Canceled \<and>
    (w_ctx w 7 \<noteq> None \<or> withTimeout (w_ctx w) (w_fired w (ob_timeout ob)) 8 \<noteq> None \<longrightarrow>
       tls_Status (ev_TLS e) = TLSUnconfirmed \<and> tls_Reason (ev_TLS e) = UnconfirmedHandshakeTimeout \<and> tls_Leaf (ev_TLS e) = None)"
proof -
  obtain i e0 n where c: "Observe_tls w ob r =
      commitEvidence_tls w ob (withTimeout (w_ctx w) (w_fired w (ob_timeout ob))) 6 (w_now w n) (w_now w 0) i e0"
    using Observe_tls_commit [OF assms] by metis
  have "w_ctx w 6 \<noteq> Some Canceled"
    using assms unfolding c by (auto simp: commitEvidence_tls_def)
  with commitEvidence_tls_evidence [OF assms [unfolded c]] show ?thesis by (auto simp: unconfirmedTLS_def)
qed

text \<open>A deadline that passes between the end of the handshake and the commit point.\<close>

definition lateDeadline :: ctx where
  "lateDeadline n = (if n < 7 then None else Some DeadlineExceeded)"

lemma Observe_tls_no_late_success_witness:
  "\<exists>e. env_evidence (Observe_tls (demoTlsWorld lateDeadline (demoCert 1000 2000)) demoObserver \<lparr>req_DialIP = ''1.1.1.1''\<rparr>) = Some e \<and>
     tls_Status (ev_TLS e) = TLSUnconfirmed \<and> tls_Reason (ev_TLS e) = UnconfirmedHandshakeTimeout"
proof -
  let ?w = "demoTlsWorld lateDeadline (demoCert 1000 2000)"
  have live: "withTimeout lateDeadline (\<lambda>n. False) k = lateDeadline k" for k
    by (induction k) (simp_all add: lateDeadline_def)
  obtain e where e: "env_evidence (Observe_tls ?w demoObserver \<lparr>req_DialIP = ''1.1.1.1''\<rparr>) = Some e"
    by (simp add: Observe_tls_def normalize_one_one demoTlsWorld_def demo_endpoint handshakeStage_def completedTLS_def
        demoState_def demoCert_def commitEvidence_tls_def live tlsVersionName_def demoObserver_def Let_def
        ctxErrAt_def lateDeadline_def errorsIs_def baseResult_tls_def)
  with Observe_tls_no_late_success [OF e] show ?thesis
    by (auto simp: demoTlsWorld_def lateDeadline_def)
qed

text \<open>
  The validator's bound on stage timings wraps: two stage times of 2^62 ms add up
  to a negative 64-bit number, so evidence claiming them within a total of 0 ms is accepted.
\<close>

theorem Validate_tls_timing_overflow:
  "\<exists>result e. env_evidence result = Some e \<and> env_durationMS result = 0 \<and>
     ev_TCPConnectMS e = 2 ^ 62 \<and> tls_HandshakeMS (ev_TLS e) = 2 ^ 62 \<and> Validate_tls result = None"
proof -
  let ?w = "demoTlsWorld background (demoCert 1000 2000)"
  let ?e = "\<lparr>ev_RemoteEndpoint = ''1.1.1.1:443'', ev_TCPConnectMS = 2 ^ 62,
     ev_TLS = unconfirmedTLS (2 ^ 62) UnconfirmedHandshakeFailure\<rparr>"
  let ?r = "(baseResult_tls ?w demoObserver (steadyClock 1000000 0) (steadyClock 1000000 0)
     (fst (normalizeRequest_tls \<lparr>req_DialIP = ''1.1.1.1''\<rparr>)))
     \<lparr>env_outcome := OutcomeSucceeded, env_evidence := Some ?e\<rparr>"
  have env: "Validate_envelope ?r = None"
    using clock_nonzero [OF demoTlsWorld_ok(1), where n = 0]
    by (simp add: Validate_envelope_None Validate_outcome_None demoObserver_def demoTlsWorld_def)
  have "Validate_tls ?r = None"
    using env NormalizePublicIP_complete [OF one_one_allowed]
    by (simp add: Validate_tls_def Validate_tls_target_def normalize_one_one one_one_text firstErr_simps
        Let_def add64_def wrap64_def AddrPortString_def Port_tls_def fmtBase_rec digitChar_text)
  then show ?thesis by (intro exI [of _ ?r] exI [of _ ?e]) simp
qed

end
