(* ===== verification/TlsRetryBatch.thy ===== *)
theory TlsRetryBatch
  imports TlsProps
begin

text \<open>
  Package \<open>internal/tlsretrybatch\<close>: a bounded, concurrent schedule of TLS observations. The
  sequential parts are functions; the workers are a transition system whose states hold the
  job queue, the targets, the shared \<open>runState\<close>, the two contexts and each worker's place in
  \<open>runTarget\<close>. What a worker gets from outside (a jitter delay, the result of a wait, a TLS
  observation) is an argument of its step, so a step relation over all arguments and all
  interleavings covers every run.

  A Go slice that can be nil is an \<open>option\<close>: \<open>None\<close> is the nil slice, which encodes as JSON
  null and which \<open>reflect.DeepEqual\<close> tells from an empty one.
\<close>

section \<open>Types and limits\<close>

definition SchemaVersion_batch :: int where "SchemaVersion_batch = 1"
definition Operation_batch :: string where "Operation_batch = ''tls_retry_batch''"
definition targetLimit :: nat where "targetLimit = 4"
definition requestTargetLimit :: nat where "requestTargetLimit = 16"
definition concurrencyLimit :: nat where "concurrencyLimit = 2"
definition attemptLimit :: nat where "attemptLimit = 3"
definition retryLimit :: nat where "retryLimit = attemptLimit - 1"

definition defaultTimeout_batch :: int where "defaultTimeout_batch = 30 * Second"
definition maximumTimeout_batch :: int where "maximumTimeout_batch = 45 * Second"
definition perAttemptTimeout :: int where "perAttemptTimeout = 5 * Second"
definition backoffMin :: int where "backoffMin = 100 * Millisecond"
definition backoffMax :: int where "backoffMax = 300 * Millisecond"

datatype BatchStatus = StatusCompleted | StatusStopped | StatusCancelled | StatusOther string

datatype StopReason =
    StopInvalidInput
  | StopBatchTimeout
  | StopCancelled
  | StopInvalidProbeEvidence
  | StopSchedulerFailure
  | StopOther string

abbreviation StopNone :: StopReason where "StopNone \<equiv> StopOther ''''"

datatype TargetStatus = TargetCompleted | TargetInterrupted | TargetNotStarted | TargetStatusOther string

record BatchConfig =
  bcfg_Timeout :: int

record BatchRequest =
  breq_Targets :: "string list"

record BatchInput =
  bin_Targets :: "string list option"
  bin_TargetLimit :: nat
  bin_ConcurrencyLimit :: nat
  bin_AttemptLimit :: nat
  bin_RetryLimit :: nat
  bin_Port :: nat
  bin_SNIMode :: SNIMode
  bin_Identity :: IdentityVerificationMode
  bin_PerAttemptTimeoutMS :: int
  bin_BackoffMinMS :: int
  bin_BackoffMaxMS :: int

record Attempt =
  att_Number :: nat
  att_RetryDelayMS :: int
  att_Observation :: TlsResult

record TargetResult =
  tr_DialIP :: string
  tr_Family :: Family
  tr_Status :: TargetStatus
  tr_Attempts :: "Attempt list option"

record BatchResult =
  br_SchemaVersion :: int
  br_Operation :: string
  br_ObservedAt :: gotime
  br_DurationMS :: int
  br_Platform :: Platform
  br_Input :: BatchInput
  br_Status :: BatchStatus
  br_StopReason :: StopReason
  br_Detail :: string
  br_TargetsOmitted :: nat
  br_Targets :: "TargetResult list option"

section \<open>Normalization\<close>

definition policyInput :: "string list option \<Rightarrow> BatchInput" where
  "policyInput targets = \<lparr>bin_Targets = targets, bin_TargetLimit = targetLimit,
     bin_ConcurrencyLimit = concurrencyLimit, bin_AttemptLimit = attemptLimit, bin_RetryLimit = retryLimit,
     bin_Port = Port_tls, bin_SNIMode = SNIOmittedNoHostname, bin_Identity = IdentityNotPerformedNoHostname,
     bin_PerAttemptTimeoutMS = Milliseconds perAttemptTimeout, bin_BackoffMinMS = Milliseconds backoffMin,
     bin_BackoffMaxMS = Milliseconds backoffMax\<rparr>"

definition normalizeRequest_batch :: "BatchRequest \<Rightarrow> BatchInput \<times> error option" where
  "normalizeRequest_batch request =
     (let values = breq_Targets request;
          targets = dedup [] (map (\<lambda>value. fst (NormalizePublicIP value)) values);
          targetErr = firstErr (map (\<lambda>value. wrapErr ''target: '' (snd (snd (NormalizePublicIP value)))) values);
          inp = policyInput (Some targets)
      in (inp, firstErr [
           guard (values = []) ''targets must not be empty'',
           targetErr,
           guard (requestTargetLimit < length targets) ''targets must contain at most 16 unique addresses'']))"

definition boundedTargets :: "BatchInput \<Rightarrow> string list" where
  "boundedTargets inp = take (min (length (sliceOf (bin_Targets inp))) targetLimit) (sliceOf (bin_Targets inp))"

definition omittedTargets :: "BatchInput \<Rightarrow> nat" where
  "omittedTargets inp = length (sliceOf (bin_Targets inp)) - targetLimit"

text \<open>\<open>MustParseAddr\<close> panics on bad text; it is only applied to accepted targets.\<close>

definition targetFamily :: "string \<Rightarrow> Family" where
  "targetFamily value = (case ParseAddr value of
      None \<Rightarrow> FamilyOther ''panic''
    | Some address \<Rightarrow> if Is4 address then FamilyIPv4 else FamilyIPv6)"

definition expectedTLSInput :: "string \<Rightarrow> TlsInput" where
  "expectedTLSInput target = \<lparr>in_DialIP = target, in_Family = targetFamily target, in_Port = Port_tls,
     in_SNIMode = SNIOmittedNoHostname, in_Identity = IdentityNotPerformedNoHostname\<rparr>"

definition shouldRetry :: "TlsResult \<Rightarrow> bool" where
  "shouldRetry result = (case env_outcome result of
      OutcomeFailed \<Rightarrow> (case env_failure result of
          None \<Rightarrow> False
        | Some f \<Rightarrow> fail_code f = FailureTCPTimeout \<or> fail_code f = FailureTCPConnectionReset)
    | OutcomeSucceeded \<Rightarrow> (case env_evidence result of
          None \<Rightarrow> False
        | Some ev \<Rightarrow> tls_Status (ev_TLS ev) = TLSUnconfirmed \<and>
            (tls_Reason (ev_TLS ev) = UnconfirmedHandshakeTimeout \<or>
             tls_Reason (ev_TLS ev) = UnconfirmedConnectionReset))
    | _ \<Rightarrow> False)"

section \<open>Construction\<close>

definition normalizeTimeout_batch :: "int \<Rightarrow> error + int" where
  "normalizeTimeout_batch timeout =
     (if timeout = 0 then Inr defaultTimeout_batch
      else if timeout < 0 \<or> maximumTimeout_batch < timeout then Inl ''timeout must be between zero and 45s''
      else Inr timeout)"

text \<open>The jitter of \<open>randomRetryDelay\<close>, given the number \<open>rand.Int64N(span + 1)\<close> returned.\<close>

definition randomRetryDelay :: "int \<Rightarrow> int" where
  "randomRetryDelay r = backoffMin + r mod (backoffMax - backoffMin + 1)"

record BatchObserver =
  bo_timeout :: int
  bo_platform :: Platform

definition newObserver_batch :: "BatchConfig \<Rightarrow> Platform \<Rightarrow> Platform \<Rightarrow> bool \<Rightarrow> error + BatchObserver" where
  "newObserver_batch config runtimePlatform depPlatform hasTls =
     (case normalizeTimeout_batch (bcfg_Timeout config) of
        Inl e \<Rightarrow> Inl e
      | Inr timeout \<Rightarrow>
          (let platform = (if plat_os depPlatform = '''' \<and> plat_arch depPlatform = '''' then runtimePlatform else depPlatform) in
           if plat_os platform = '''' \<or> plat_arch platform = ''''
             then Inl ''platform dependency must include OS and architecture''
           else if \<not> hasTls then Inl ''TLS observation dependency must not be nil''
           else Inr \<lparr>bo_timeout = timeout, bo_platform = platform\<rparr>))"

definition New_batch :: "BatchConfig \<Rightarrow> Platform \<Rightarrow> error + (BatchObserver \<times> TlsObserver)" where
  "New_batch config runtimePlatform =
     (case normalizeTimeout_batch (bcfg_Timeout config) of
        Inl e \<Rightarrow> Inl e
      | Inr timeout \<Rightarrow>
          (case newObserver_tls \<lparr>cfg_Timeout = min timeout perAttemptTimeout\<rparr> of
             Inl e \<Rightarrow> Inl (''create TLS observation adapter: '' @ e)
           | Inr tls \<Rightarrow>
               (case newObserver_batch config runtimePlatform \<lparr>plat_os = '''', plat_arch = ''''\<rparr> True of
                  Inl e \<Rightarrow> Inl e
                | Inr ob \<Rightarrow> Inr (ob, tls))))"

section \<open>The shared run state\<close>

record RunState =
  rs_failure :: "(StopReason \<times> error) option"
  rs_source :: "Source option"

definition acceptSource :: "RunState \<Rightarrow> Source \<Rightarrow> RunState \<times> error option" where
  "acceptSource st source = (case rs_source st of
      None \<Rightarrow> (st\<lparr>rs_source := Some source\<rparr>, None)
    | Some known \<Rightarrow> (st, guard (source \<noteq> known) ''TLS Observation changes the configured adapter''))"

text \<open>The locked part of \<open>runState.fail\<close>; the call of \<open>cancel\<close> that follows is a step of its own.\<close>

definition failRun :: "StopReason \<Rightarrow> error \<Rightarrow> RunState \<Rightarrow> RunState" where
  "failRun reason err st = (if rs_failure st = None then st\<lparr>rs_failure := Some (reason, err)\<rparr> else st)"

definition validateObservation :: "BatchObserver \<Rightarrow> TlsResult \<Rightarrow> TargetResult \<Rightarrow> RunState \<Rightarrow> RunState \<times> error option" where
  "validateObservation ob result target st = (case Validate_tls result of
      Some e \<Rightarrow> (st, Some (''target returned invalid TLS Observation: '' @ e))
    | None \<Rightarrow>
        if env_platform result \<noteq> bo_platform ob \<or> env_input result \<noteq> expectedTLSInput (tr_DialIP target)
        then (st, Some ''target changes the fixed platform or TLS request'')
        else acceptSource st (env_source result))"

definition interruptTarget :: "TargetResult \<Rightarrow> TargetResult" where
  "interruptTarget target = (if sliceOf (tr_Attempts target) = []
     then target\<lparr>tr_Status := TargetNotStarted\<rparr> else target\<lparr>tr_Status := TargetInterrupted\<rparr>)"

definition initializeTargets :: "BatchInput \<Rightarrow> TargetResult list" where
  "initializeTargets inp = map (\<lambda>value. \<lparr>tr_DialIP = value, tr_Family = targetFamily value,
     tr_Status = TargetNotStarted, tr_Attempts = Some []\<rparr>) (boundedTargets inp)"

section \<open>One worker inside runTarget\<close>

text \<open>
  A worker's place in the code. \<open>WTake\<close> receives from \<open>jobs\<close>, \<open>WTaken\<close> reads the batch
  context before \<open>runTarget\<close>; the numbered places carry the target index, the attempt number
  and the retry delay. \<open>WCancel\<close> is between the locked part of \<open>fail\<close> and its \<open>cancel\<close>.
\<close>

datatype WorkerAt =
    WTake
  | WTaken nat
  | WTop nat nat int
  | WDelay nat nat int
  | WWait nat nat int
  | WWaitErr nat nat int error
  | WObserve nat nat int
  | WObserved nat nat int TlsResult
  | WValidate nat nat int TlsResult
  | WAppended nat nat int TlsResult
  | WCancel nat
  | WDone

text \<open>What the outside world answers during a step.\<close>

record Choice =
  ch_delay :: int
  ch_wait :: "error option"
  ch_observation :: TlsResult

text \<open>
  One step of \<open>runTarget\<close> on the worker's own target: the next place, the target, the shared
  run state, and whether \<open>cancel\<close> was called. \<open>ctxDone\<close> is the reading of the batch context
  at this step.
\<close>

fun runTargetStep :: "BatchObserver \<Rightarrow> Choice \<Rightarrow> ctxErr option \<Rightarrow> WorkerAt \<Rightarrow> TargetResult \<Rightarrow> RunState \<Rightarrow>
    WorkerAt \<times> TargetResult \<times> RunState \<times> bool" where
  "runTargetStep ob ch ctxDone (WTop i n d) t st =
     (if ctxDone \<noteq> None then (WTake, interruptTarget t, st, False)
      else if 1 < n then (WDelay i n d, t, st, False) else (WObserve i n d, t, st, False))"
| "runTargetStep ob ch ctxDone (WDelay i n d) t st =
     (let delay = ch_delay ch in
      if delay < backoffMin \<or> backoffMax < delay
      then (WCancel i, t, failRun StopSchedulerFailure ''retry delay is outside fixed bounds'' st, False)
      else (WWait i n delay, t, st, False))"
| "runTargetStep ob ch ctxDone (WWait i n d) t st = (case ch_wait ch of
       Some e \<Rightarrow> (WWaitErr i n d e, t, st, False)
     | None \<Rightarrow> (WObserve i n d, t, st, False))"
| "runTargetStep ob ch ctxDone (WWaitErr i n d e) t st =
     (if ctxDone = None
      then (WCancel i, t, failRun StopSchedulerFailure (''wait before target attempt: '' @ e) st, False)
      else (WTake, interruptTarget t, st, False))"
| "runTargetStep ob ch ctxDone (WObserve i n d) t st = (WObserved i n d (ch_observation ch), t, st, False)"
| "runTargetStep ob ch ctxDone (WObserved i n d r) t st =
     (if ctxDone \<noteq> None \<and> env_outcome r = OutcomeSucceeded then (WTake, interruptTarget t, st, False)
      else (WValidate i n d r, t, st, False))"
| "runTargetStep ob ch ctxDone (WValidate i n d r) t st =
     (case validateObservation ob r t st of
        (st', Some e) \<Rightarrow> (WCancel i, t, failRun StopInvalidProbeEvidence e st', False)
      | (st', None) \<Rightarrow>
          (WAppended i n d r,
           t\<lparr>tr_Attempts := Some (sliceOf (tr_Attempts t) @
               [\<lparr>att_Number = n, att_RetryDelayMS = Milliseconds d, att_Observation = r\<rparr>])\<rparr>, st', False))"
| "runTargetStep ob ch ctxDone (WAppended i n d r) t st =
     (if ctxDone \<noteq> None then (WTake, interruptTarget t, st, False)
      else if env_outcome r = OutcomeCancelled
        then (WCancel i, t, failRun StopInvalidProbeEvidence
               ''target returned cancellation while the batch was active'' st, False)
      else if \<not> shouldRetry r \<or> n = attemptLimit then (WTake, t\<lparr>tr_Status := TargetCompleted\<rparr>, st, False)
      else (WTop i (n + 1) d, t, st, False))"
| "runTargetStep ob ch ctxDone (WCancel i) t st = (WTake, interruptTarget t, st, True)"
| "runTargetStep ob ch ctxDone at t st = (at, t, st, False)"

fun workerTarget :: "WorkerAt \<Rightarrow> nat option" where
  "workerTarget WTake = None"
| "workerTarget WDone = None"
| "workerTarget (WTaken i) = Some i"
| "workerTarget (WTop i n d) = Some i"
| "workerTarget (WDelay i n d) = Some i"
| "workerTarget (WWait i n d) = Some i"
| "workerTarget (WWaitErr i n d e) = Some i"
| "workerTarget (WObserve i n d) = Some i"
| "workerTarget (WObserved i n d r) = Some i"
| "workerTarget (WValidate i n d r) = Some i"
| "workerTarget (WAppended i n d r) = Some i"
| "workerTarget (WCancel i) = Some i"

section \<open>The workers together\<close>

record BatchState =
  bs_jobs :: "nat list"
  bs_targets :: "TargetResult list"
  bs_run :: RunState
  bs_parent :: "ctxErr option"
  bs_batch :: "ctxErr option"
  bs_workers :: "WorkerAt list"

definition startState :: "BatchInput \<Rightarrow> BatchState" where
  "startState inp = (let targets = initializeTargets inp in
     \<lparr>bs_jobs = [0..<length targets], bs_targets = targets,
      bs_run = \<lparr>rs_failure = None, rs_source = None\<rparr>, bs_parent = None, bs_batch = None,
      bs_workers = replicate (min concurrencyLimit (length targets)) WTake\<rparr>)"

text \<open>A worker inside \<open>runTarget\<close> moves on its own target.\<close>

definition moveWorker :: "BatchObserver \<Rightarrow> Choice \<Rightarrow> nat \<Rightarrow> nat \<Rightarrow> BatchState \<Rightarrow> BatchState" where
  "moveWorker ob ch k i s =
     (let (at', t', st', cancel) = runTargetStep ob ch (bs_batch s) (bs_workers s ! k) (bs_targets s ! i) (bs_run s) in
      s\<lparr>bs_targets := (bs_targets s)[i := t'], bs_run := st',
        bs_batch := (if cancel \<and> bs_batch s = None then Some Canceled else bs_batch s),
        bs_workers := (bs_workers s)[k := at']\<rparr>)"

text \<open>The worker loop of \<open>Observe\<close>: receive an index, look at the batch context, run the target.\<close>

definition workerStep :: "BatchObserver \<Rightarrow> Choice \<Rightarrow> nat \<Rightarrow> BatchState \<Rightarrow> BatchState" where
  "workerStep ob ch k s = (case bs_workers s ! k of
      WTake \<Rightarrow> (case bs_jobs s of
          [] \<Rightarrow> s\<lparr>bs_workers := (bs_workers s)[k := WDone]\<rparr>
        | i # js \<Rightarrow> s\<lparr>bs_jobs := js, bs_workers := (bs_workers s)[k := WTaken i]\<rparr>)
    | WTaken i \<Rightarrow> s\<lparr>bs_workers := (bs_workers s)[k := if bs_batch s \<noteq> None then WDone else WTop i 1 0]\<rparr>
    | at \<Rightarrow> (case workerTarget at of None \<Rightarrow> s | Some i \<Rightarrow> moveWorker ob ch k i s))"

text \<open>
  The scheduler: a worker moves, the caller's context ends, its end reaches the batch context,
  or the batch deadline passes.
\<close>

datatype Sched = SWork nat Choice | SParent ctxErr | SPropagate | SDeadline

fun schedStep :: "BatchObserver \<Rightarrow> Sched \<Rightarrow> BatchState \<Rightarrow> BatchState option" where
  "schedStep ob (SWork k ch) s =
     (if k < length (bs_workers s) \<and> bs_workers s ! k \<noteq> WDone then Some (workerStep ob ch k s) else None)"
| "schedStep ob (SParent e) s = (if bs_parent s = None then Some (s\<lparr>bs_parent := Some e\<rparr>) else None)"
| "schedStep ob SPropagate s =
     (if bs_parent s \<noteq> None \<and> bs_batch s = None then Some (s\<lparr>bs_batch := bs_parent s\<rparr>) else None)"
| "schedStep ob SDeadline s =
     (if bs_batch s = None then Some (s\<lparr>bs_batch := Some DeadlineExceeded\<rparr>) else None)"

inductive reach :: "BatchObserver \<Rightarrow> BatchInput \<Rightarrow> BatchState \<Rightarrow> bool" for ob inp where
  reach_start: "reach ob inp (startState inp)"
| reach_step: "reach ob inp s \<Longrightarrow> schedStep ob ev s = Some s' \<Longrightarrow> reach ob inp s'"

definition allDone :: "BatchState \<Rightarrow> bool" where
  "allDone s = list_all (\<lambda>at. at = WDone) (bs_workers s)"

section \<open>Termination of the batch\<close>

record terminal =
  tm_status :: BatchStatus
  tm_reason :: StopReason
  tm_detail :: string

definition ctxDetail :: "ctx \<Rightarrow> nat \<Rightarrow> string" where
  "ctxDetail c k = (case ctxErrAt c k of None \<Rightarrow> ''panic: nil error'' | Some e \<Rightarrow> err_text e)"

definition parentTerminal :: "ctx \<Rightarrow> nat \<Rightarrow> terminal option" where
  "parentTerminal c k =
     (if errorsIs (ctxErrAt c k) SCanceled
        then Some \<lparr>tm_status = StatusCancelled, tm_reason = StopCancelled, tm_detail = ctxDetail c (k + 1)\<rparr>
      else if errorsIs (ctxErrAt c (k + 1)) SDeadlineExceeded
        then Some \<lparr>tm_status = StatusStopped, tm_reason = StopBatchTimeout, tm_detail = ctxDetail c (k + 2)\<rparr>
      else None)"

definition batchTerminal :: "ctx \<Rightarrow> ctx \<Rightarrow> nat \<Rightarrow> terminal option" where
  "batchTerminal parent batch k = (case parentTerminal parent k of
      Some t \<Rightarrow> Some t
    | None \<Rightarrow>
        if errorsIs (ctxErrAt batch (k + 2)) SDeadlineExceeded
          then Some \<lparr>tm_status = StatusStopped, tm_reason = StopBatchTimeout, tm_detail = ctxDetail batch (k + 3)\<rparr>
        else if errorsIs (ctxErrAt batch (k + 3)) SCanceled
          then Some \<lparr>tm_status = StatusCancelled, tm_reason = StopCancelled, tm_detail = ctxDetail batch (k + 4)\<rparr>
        else None)"

text \<open>\<open>append([]string(nil), xs...)\<close> is nil when there is nothing to append.\<close>

definition appendToNil :: "'a list option \<Rightarrow> 'a list option" where
  "appendToNil xs = (if sliceOf xs = [] then None else Some (sliceOf xs))"

definition finish_batch :: "BatchObserver \<Rightarrow> gotime \<Rightarrow> gotime \<Rightarrow> BatchInput \<Rightarrow> nat \<Rightarrow> TargetResult list \<Rightarrow> terminal \<Rightarrow> BatchResult" where
  "finish_batch ob finishedAt startedAt inp omitted targets state =
     \<lparr>br_SchemaVersion = SchemaVersion_batch, br_Operation = Operation_batch, br_ObservedAt = UTC finishedAt,
      br_DurationMS = elapsedMS startedAt finishedAt, br_Platform = bo_platform ob,
      br_Input = inp\<lparr>bin_Targets := appendToNil (bin_Targets inp)\<rparr>,
      br_Status = tm_status state, br_StopReason = tm_reason state, br_Detail = tm_detail state,
      br_TargetsOmitted = omitted,
      br_Targets = Some (map (\<lambda>t. t\<lparr>tr_Attempts := Some (sliceOf (tr_Attempts t))\<rparr>) targets)\<rparr>"

text \<open>What \<open>Observe\<close> does after \<open>workers.Wait()\<close>; the contexts are read from \<open>k\<close> on.\<close>

definition concludeTerminal :: "ctx \<Rightarrow> ctx \<Rightarrow> nat \<Rightarrow> BatchState \<Rightarrow> terminal" where
  "concludeTerminal parent batch k s = (case rs_failure (bs_run s) of
      Some (reason, e) \<Rightarrow> \<lparr>tm_status = StatusStopped, tm_reason = reason, tm_detail = e\<rparr>
    | None \<Rightarrow> (case batchTerminal parent batch k of
        Some t \<Rightarrow> t
      | None \<Rightarrow>
          if list_ex (\<lambda>t. tr_Status t \<noteq> TargetCompleted) (bs_targets s)
          then \<lparr>tm_status = StatusStopped, tm_reason = StopSchedulerFailure,
                tm_detail = ''target ended without a terminal context''\<rparr>
          else (case batchTerminal parent batch (k + 5) of
              Some t \<Rightarrow> t
            | None \<Rightarrow> \<lparr>tm_status = StatusCompleted, tm_reason = StopNone, tm_detail = ''''\<rparr>)))"

text \<open>
  \<open>Observe\<close>: every result a call can return. The batch context, read after the workers have
  ended, keeps the error it had then.
\<close>

inductive Observe_batch :: "BatchObserver \<Rightarrow> (nat \<Rightarrow> gotime) \<Rightarrow> ctx \<Rightarrow> BatchRequest \<Rightarrow> BatchResult \<Rightarrow> bool"
  for ob now ctx request where
  Observe_invalid: "normalizeRequest_batch request = (inp, Some e) \<Longrightarrow>
    Observe_batch ob now ctx request (finish_batch ob (now 1) (now 0) inp 0 []
      \<lparr>tm_status = StatusStopped, tm_reason = StopInvalidInput, tm_detail = e\<rparr>)"
| Observe_done: "normalizeRequest_batch request = (inp, None) \<Longrightarrow> parentTerminal ctx 0 = Some t \<Longrightarrow>
    Observe_batch ob now ctx request
      (finish_batch ob (now 1) (now 0) inp (omittedTargets inp) (initializeTargets inp) t)"
| Observe_run: "normalizeRequest_batch request = (inp, None) \<Longrightarrow> parentTerminal ctx 0 = None \<Longrightarrow>
    reach ob inp s \<Longrightarrow> allDone s \<Longrightarrow>
    (\<And>e. bs_parent s = Some e \<Longrightarrow> ctx 3 = Some e) \<Longrightarrow>
    go_context batch \<Longrightarrow> (\<And>e. bs_batch s = Some e \<Longrightarrow> batch 3 = Some e) \<Longrightarrow>
    Observe_batch ob now ctx request
      (finish_batch ob (now 1) (now 0) inp (omittedTargets inp) (bs_targets s) (concludeTerminal ctx batch 3 s))"

section \<open>Validate\<close>

text \<open>
  One attempt of \<open>validateTarget\<close>: \<open>prev\<close> is the attempt before it, \<open>isLast\<close> says whether it
  is the last one, \<open>source\<close> the adapter seen so far (\<open>hasSource\<close> is that there is one).
\<close>

definition validateAttempt :: "BatchResult \<Rightarrow> string \<Rightarrow> TargetStatus \<Rightarrow> nat \<Rightarrow> Attempt option \<Rightarrow> bool \<Rightarrow> Attempt \<Rightarrow>
    Source option \<Rightarrow> error option" where
  "validateAttempt result expectedIP status attemptIndex prev isLast attempt source = firstErr [
     guard (att_Number attempt \<noteq> attemptIndex + 1) ''attempt has a non-sequential number'',
     (case prev of
        None \<Rightarrow> guard (att_RetryDelayMS attempt \<noteq> 0) ''first attempt must not include retry delay''
      | Some p \<Rightarrow> firstErr [
          guard (att_RetryDelayMS attempt < Milliseconds backoffMin \<or> Milliseconds backoffMax < att_RetryDelayMS attempt)
            ''retry delay is outside fixed bounds'',
          guard (\<not> shouldRetry (att_Observation p)) ''attempt follows a non-retryable result'']),
     wrapErr ''attempt: '' (Validate_tls (att_Observation attempt)),
     guard (env_platform (att_Observation attempt) \<noteq> br_Platform result \<or>
         env_input (att_Observation attempt) \<noteq> expectedTLSInput expectedIP)
       ''attempt changes the fixed platform or TLS request'',
     guard (source \<noteq> None \<and> source \<noteq> Some (env_source (att_Observation attempt)))
       ''attempt changes the configured TLS adapter'',
     guard (env_outcome (att_Observation attempt) = OutcomeCancelled \<and>
         (status \<noteq> TargetInterrupted \<or> \<not> isLast \<or> br_Status result = StatusCompleted))
       ''cancelled attempt must terminate an interrupted batch target'']"

fun validateAttempts :: "BatchResult \<Rightarrow> string \<Rightarrow> TargetStatus \<Rightarrow> nat \<Rightarrow> Attempt option \<Rightarrow> Attempt list \<Rightarrow>
    Source option \<Rightarrow> error option \<times> Source option" where
  "validateAttempts result ip status k prev [] source = (None, source)"
| "validateAttempts result ip status k prev (a # as) source =
     (case validateAttempt result ip status k prev (as = []) a source of
        Some e \<Rightarrow> (Some e, source)
      | None \<Rightarrow> validateAttempts result ip status (k + 1) (Some a) as
          (if source = None then Some (env_source (att_Observation a)) else source))"

definition validateTargetShape :: "BatchResult \<Rightarrow> TargetResult \<Rightarrow> string \<Rightarrow> error option" where
  "validateTargetShape result target expectedIP = (let attempts = sliceOf (tr_Attempts target) in firstErr [
     guard (tr_DialIP target \<noteq> expectedIP \<or> tr_Family target \<noteq> targetFamily expectedIP)
       ''target changes the normalized address or family'',
     guard (tr_Attempts target = None) ''attempts must encode as an array'',
     (case tr_Status target of
        TargetCompleted \<Rightarrow> guard (attempts = []) ''completed without an attempt''
      | TargetInterrupted \<Rightarrow> guard (br_Status result = StatusCompleted \<or> attempts = [])
          ''interrupted status does not match its batch or attempts''
      | TargetNotStarted \<Rightarrow> guard (br_Status result = StatusCompleted \<or> attempts \<noteq> [])
          ''not_started status does not match its batch or attempts''
      | TargetStatusOther x \<Rightarrow> Some ''unsupported status''),
     guard (attemptLimit < length attempts) ''exceeds the fixed attempt limit''])"

definition validateTargetEnd :: "TargetResult \<Rightarrow> error option" where
  "validateTargetEnd target = (let attempts = sliceOf (tr_Attempts target) in
     if tr_Status target = TargetCompleted then firstErr [
       guard (env_outcome (att_Observation (last attempts)) = OutcomeCancelled) ''completed with a cancelled attempt'',
       guard (length attempts < attemptLimit \<and> shouldRetry (att_Observation (last attempts)))
         ''completed before exhausting a retryable result'']
     else None)"

definition validateTarget :: "BatchResult \<Rightarrow> TargetResult \<Rightarrow> string \<Rightarrow> Source option \<Rightarrow> error option \<times> Source option" where
  "validateTarget result target expectedIP source = (case validateTargetShape result target expectedIP of
      Some e \<Rightarrow> (Some e, source)
    | None \<Rightarrow> (case validateAttempts result expectedIP (tr_Status target) 0 None (sliceOf (tr_Attempts target)) source of
        (Some e, source') \<Rightarrow> (Some e, source')
      | (None, source') \<Rightarrow> (validateTargetEnd target, source')))"

fun validateTargets :: "BatchResult \<Rightarrow> (TargetResult \<times> string) list \<Rightarrow> Source option \<Rightarrow> error option" where
  "validateTargets result [] source = None"
| "validateTargets result ((target, ip) # rest) source = (case validateTarget result target ip source of
      (Some e, source') \<Rightarrow> Some e
    | (None, source') \<Rightarrow> validateTargets result rest source')"

definition validateTerminalShape :: "BatchResult \<Rightarrow> error option" where
  "validateTerminalShape result = (case br_Status result of
      StatusCompleted \<Rightarrow> guard (br_StopReason result \<noteq> StopNone \<or> br_Detail result \<noteq> '''')
        ''completed batch must not include a stop reason or detail''
    | StatusStopped \<Rightarrow> firstErr [
        guard (br_StopReason result \<notin> {StopBatchTimeout, StopInvalidProbeEvidence, StopSchedulerFailure})
          ''stopped batch has unsupported reason'',
        guard (blank (br_Detail result)) ''stopped batch requires detail'']
    | StatusCancelled \<Rightarrow> guard (br_StopReason result \<noteq> StopCancelled \<or> blank (br_Detail result))
        ''cancelled batch requires cancelled reason and detail''
    | StatusOther x \<Rightarrow> Some ''unsupported status'')"

definition Validate_batch :: "BatchResult \<Rightarrow> error option" where
  "Validate_batch result = firstErr [
     guard (br_SchemaVersion result \<noteq> SchemaVersion_batch) ''schema_version must be 1'',
     guard (br_Operation result \<noteq> Operation_batch) ''operation must be tls_retry_batch'',
     guard (IsZero (br_ObservedAt result)) ''observed_at must not be zero'',
     guard (t_zone (br_ObservedAt result) \<noteq> 0) ''observed_at must use UTC'',
     guard (br_DurationMS result < 0) ''duration_ms must not be negative'',
     guard (plat_os (br_Platform result) = '''' \<or> plat_arch (br_Platform result) = '''')
       ''platform must include OS and architecture'',
     guard (bin_Targets (br_Input result) = None \<or> br_Targets result = None)
       ''input targets and target results must encode as arrays'',
     (let (normalized, inputErr) = normalizeRequest_batch \<lparr>breq_Targets = sliceOf (bin_Targets (br_Input result))\<rparr>;
          targets = sliceOf (br_Targets result); expectedTargets = boundedTargets (br_Input result)
      in firstErr [
       guard (normalized \<noteq> br_Input result) ''input does not match the normalized fixed retry policy'',
       (if inputErr \<noteq> None then
          guard (br_Status result \<noteq> StatusStopped \<or> br_StopReason result \<noteq> StopInvalidInput \<or>
              blank (br_Detail result) \<or> br_TargetsOmitted result \<noteq> 0 \<or> targets \<noteq> [])
            ''invalid input requires stopped/invalid_input without attempts''
        else firstErr [
          guard (br_Status result = StatusStopped \<and> br_StopReason result = StopInvalidInput)
            ''valid input must not stop as invalid_input'',
          validateTerminalShape result,
          guard (br_TargetsOmitted result \<noteq> omittedTargets (br_Input result))
            ''targets_omitted does not match the fixed target limit'',
          guard (length targets \<noteq> length expectedTargets) ''target results must match the bounded input schedule'',
          validateTargets result (zip targets expectedTargets) None,
          guard (br_Status result = StatusCompleted \<and> list_ex (\<lambda>t. tr_Status t \<noteq> TargetCompleted) targets)
            ''completed batch targets must be completed''])])]"

end
