(* ===== verification/TlsBatchProps.thy ===== *)
theory TlsBatchProps
  imports TlsRetryBatch
begin

text \<open>
  The TLS retry batch keeps its schedule in every interleaving: an invariant of the transition
  system gives each target to one worker at a time and keeps its attempts in the retry
  discipline, and at the end the report passes the package's own validator.
\<close>

section \<open>Attempts in the retry discipline\<close>

definition delayOK :: "nat \<Rightarrow> int \<Rightarrow> bool" where
  "delayOK n d \<longleftrightarrow> (if n = 1 then d = 0 else backoffMin \<le> d \<and> d \<le> backoffMax)"

definition attemptOK :: "BatchObserver \<Rightarrow> string \<Rightarrow> Source option \<Rightarrow> nat \<Rightarrow> Attempt option \<Rightarrow> Attempt \<Rightarrow> bool" where
  "attemptOK ob ip src k prev a \<longleftrightarrow> att_Number a = k + 1 \<and>
     (case prev of None \<Rightarrow> att_RetryDelayMS a = 0
      | Some p \<Rightarrow> Milliseconds backoffMin \<le> att_RetryDelayMS a \<and> att_RetryDelayMS a \<le> Milliseconds backoffMax \<and>
          shouldRetry (att_Observation p)) \<and>
     Validate_tls (att_Observation a) = None \<and> env_platform (att_Observation a) = bo_platform ob \<and>
     env_input (att_Observation a) = expectedTLSInput ip \<and> src = Some (env_source (att_Observation a))"

fun attemptsOK :: "BatchObserver \<Rightarrow> string \<Rightarrow> Source option \<Rightarrow> nat \<Rightarrow> Attempt option \<Rightarrow> Attempt list \<Rightarrow> bool" where
  "attemptsOK ob ip src k prev [] = True"
| "attemptsOK ob ip src k prev (a # as) = (attemptOK ob ip src k prev a \<and> attemptsOK ob ip src (k + 1) (Some a) as)"

definition uncancelled :: "Attempt list \<Rightarrow> bool" where
  "uncancelled as = list_all (\<lambda>a. env_outcome (att_Observation a) \<noteq> OutcomeCancelled) as"

lemma attemptsOK_snoc: "attemptsOK ob ip src k prev (as @ [a]) \<longleftrightarrow> attemptsOK ob ip src k prev as \<and>
    attemptOK ob ip src (k + length as) (if as = [] then prev else Some (last as)) a"
  by (induction as arbitrary: k prev) auto

lemma attemptsOK_mono:
  "attemptsOK ob ip src k prev as \<Longrightarrow> (src \<noteq> None \<longrightarrow> src' = src) \<Longrightarrow> attemptsOK ob ip src' k prev as"
  by (induction as arbitrary: k prev) (auto simp: attemptOK_def)

lemma uncancelled_simps [simp]: "uncancelled []"
  "uncancelled (as @ [a]) \<longleftrightarrow> uncancelled as \<and> env_outcome (att_Observation a) \<noteq> OutcomeCancelled"
  by (simp_all add: uncancelled_def)

lemma uncancelled_butlast: "uncancelled as \<Longrightarrow> uncancelled (butlast as)"
  by (auto simp: uncancelled_def list_all_iff dest: in_set_butlastD)

lemma uncancelled_last: "as \<noteq> [] \<Longrightarrow> uncancelled as \<longleftrightarrow>
    uncancelled (butlast as) \<and> env_outcome (att_Observation (last as)) \<noteq> OutcomeCancelled"
  by (cases as rule: rev_cases) simp_all

section \<open>One target\<close>

text \<open>The attempts of a target, and what holds of them at each place of \<open>runTarget\<close>.\<close>

abbreviation attempts :: "TargetResult \<Rightarrow> Attempt list" where
  "attempts t \<equiv> sliceOf (tr_Attempts t)"

definition targetOK :: "BatchObserver \<Rightarrow> string \<Rightarrow> RunState \<Rightarrow> TargetResult \<Rightarrow> bool" where
  "targetOK ob ip st t \<longleftrightarrow> tr_DialIP t = ip \<and> tr_Family t = targetFamily ip \<and> tr_Attempts t \<noteq> None \<and>
     attemptsOK ob ip (rs_source st) 0 None (attempts t) \<and> length (attempts t) \<le> attemptLimit \<and>
     uncancelled (butlast (attempts t))"

definition beforeAttempt :: "nat \<Rightarrow> TargetResult \<Rightarrow> bool" where
  "beforeAttempt n t \<longleftrightarrow> 1 \<le> n \<and> n \<le> attemptLimit \<and> length (attempts t) = n - 1 \<and> uncancelled (attempts t) \<and>
     (1 < n \<longrightarrow> shouldRetry (att_Observation (last (attempts t))))"

fun placeOK :: "RunState \<Rightarrow> WorkerAt \<Rightarrow> TargetResult \<Rightarrow> bool" where
  "placeOK st (WTaken i) t = (attempts t = [] \<and> tr_Status t = TargetNotStarted)"
| "placeOK st (WTop i n d) t = (beforeAttempt n t \<and> (n = 1 \<longrightarrow> d = 0))"
| "placeOK st (WDelay i n d) t = (beforeAttempt n t \<and> 1 < n)"
| "placeOK st (WWait i n d) t = (beforeAttempt n t \<and> 1 < n \<and> delayOK n d)"
| "placeOK st (WWaitErr i n d e) t = (beforeAttempt n t \<and> 1 < n)"
| "placeOK st (WObserve i n d) t = (beforeAttempt n t \<and> delayOK n d)"
| "placeOK st (WObserved i n d r) t = (beforeAttempt n t \<and> delayOK n d)"
| "placeOK st (WValidate i n d r) t = (beforeAttempt n t \<and> delayOK n d)"
| "placeOK st (WAppended i n d r) t = (attempts t \<noteq> [] \<and> length (attempts t) = n \<and> n \<le> attemptLimit \<and>
     att_Observation (last (attempts t)) = r)"
| "placeOK st (WCancel i) t = (rs_failure st \<noteq> None)"
| "placeOK st WTake t = True"
| "placeOK st WDone t = True"

text \<open>A target no worker owns any more. \<open>stopped\<close>: the batch context is over or a failure is recorded.\<close>

definition settled :: "bool \<Rightarrow> TargetResult \<Rightarrow> bool" where
  "settled stopped t \<longleftrightarrow> (case tr_Status t of
      TargetCompleted \<Rightarrow> attempts t \<noteq> [] \<and> uncancelled (attempts t) \<and>
        (length (attempts t) = attemptLimit \<or> \<not> shouldRetry (att_Observation (last (attempts t))))
    | TargetInterrupted \<Rightarrow> attempts t \<noteq> [] \<and> stopped
    | TargetNotStarted \<Rightarrow> attempts t = [] \<and> stopped
    | TargetStatusOther x \<Rightarrow> False)"

text \<open>The shared state only grows: the first failure and the first adapter stay.\<close>

definition grows :: "RunState \<Rightarrow> RunState \<Rightarrow> bool" where
  "grows st st' \<longleftrightarrow> (rs_failure st \<noteq> None \<longrightarrow> rs_failure st' = rs_failure st) \<and>
     (rs_source st \<noteq> None \<longrightarrow> rs_source st' = rs_source st)"

lemma grows_refl [simp]: "grows st st"
  by (simp add: grows_def)

lemma grows_failRun [simp]: "grows st (failRun r e st)" "rs_failure (failRun r e st) \<noteq> None"
  "rs_source (failRun r e st) = rs_source st"
  by (auto simp: grows_def failRun_def)

lemma targetOK_grows: "targetOK ob ip st t \<Longrightarrow> grows st st' \<Longrightarrow> targetOK ob ip st' t"
  unfolding targetOK_def grows_def by (metis attemptsOK_mono)

lemma targetOK_status [simp]: "targetOK ob ip st (t\<lparr>tr_Status := x\<rparr>) = targetOK ob ip st t"
  by (simp add: targetOK_def)

lemma placeOK_grows: "placeOK st at t \<Longrightarrow> grows st st' \<Longrightarrow> placeOK st' at t"
  by (cases "(st, at, t)" rule: placeOK.cases) (auto simp: grows_def)

lemma interruptTarget_OK: "targetOK ob ip st (interruptTarget t) = targetOK ob ip st t"
  by (simp add: targetOK_def interruptTarget_def)

lemma interruptTarget_settled: "stopped \<Longrightarrow> settled stopped (interruptTarget t)"
  by (simp add: settled_def interruptTarget_def)

lemma validateObservation_ok:
  assumes "validateObservation ob r t st = (st', None)"
  shows "Validate_tls r = None" "env_platform r = bo_platform ob" "env_input r = expectedTLSInput (tr_DialIP t)"
    "rs_source st' = Some (env_source r)" "grows st st'" "rs_failure st' = rs_failure st"
  using assms by (auto simp: validateObservation_def acceptSource_def grows_def split: option.splits if_splits)

lemma validateObservation_grows: "validateObservation ob r t st = (st', e) \<Longrightarrow> grows st st'"
  by (auto simp: validateObservation_def acceptSource_def grows_def split: option.splits if_splits)

lemma grows_trans: "grows a b \<Longrightarrow> grows b c \<Longrightarrow> grows a c"
  by (auto simp: grows_def)

lemma retryDelay_ms: "delayOK n d \<Longrightarrow> n \<noteq> 1 \<Longrightarrow>
    Milliseconds backoffMin \<le> Milliseconds d \<and> Milliseconds d \<le> Milliseconds backoffMax"
  by (auto simp: delayOK_def backoffMin_def backoffMax_def Milliseconds_def)

lemma append_attempt:
  assumes t: "targetOK ob ip st t" "beforeAttempt n t" "delayOK n d"
    and v: "validateObservation ob r t st = (st', None)"
  shows "targetOK ob ip st' (t\<lparr>tr_Attempts := Some (attempts t @
     [\<lparr>att_Number = n, att_RetryDelayMS = Milliseconds d, att_Observation = r\<rparr>])\<rparr>)"
proof -
  let ?a = "\<lparr>att_Number = n, att_RetryDelayMS = Milliseconds d, att_Observation = r\<rparr>"
  note ok = validateObservation_ok [OF v]
  have t': "targetOK ob ip st' t" using targetOK_grows [OF t(1) ok(5)] .
  have d: "Milliseconds d = 0" if "attempts t = []"
    using that t(2,3) by (auto simp: beforeAttempt_def delayOK_def Milliseconds_def)
  have ms: "Milliseconds backoffMin \<le> Milliseconds d \<and> Milliseconds d \<le> Milliseconds backoffMax" if "attempts t \<noteq> []"
    using that t(2) by (intro retryDelay_ms [OF t(3)]) (auto simp: beforeAttempt_def)
  have "attemptOK ob ip (rs_source st') (length (attempts t)) (if attempts t = [] then None else Some (last (attempts t))) ?a"
    using t(1,2) ok d ms by (auto simp: attemptOK_def beforeAttempt_def targetOK_def)
  with t' t(2) show ?thesis
    by (auto simp: targetOK_def beforeAttempt_def attemptsOK_snoc)
qed

lemma runTargetStep_grows: "runTargetStep ob ch c at t st = (at', t', st', cancel) \<Longrightarrow> grows st st'"
  by (cases "(ob, ch, c, at, t, st)" rule: runTargetStep.cases)
    (auto simp: Let_def dest: validateObservation_grows
      intro: grows_trans [OF validateObservation_grows grows_failRun(1)] split: if_splits option.splits prod.splits)

text \<open>Every step of a worker keeps its target in the discipline.\<close>

lemma runTargetStep_inv:
  assumes t: "targetOK ob ip st t" "placeOK st at t" and i: "workerTarget at = Some i" "\<And>j. at \<noteq> WTaken j"
    and step: "runTargetStep ob ch c at t st = (at', t', st', cancel)"
  shows "grows st st'" "targetOK ob ip st' t'"
    "(workerTarget at' = Some i \<and> at' \<noteq> WTaken i \<and> placeOK st' at' t') \<or>
     (at' = WTake \<and> settled (c \<noteq> None \<or> rs_failure st' \<noteq> None) t')"
proof -
  show "grows st st'" using step by (rule runTargetStep_grows)
  show ok: "targetOK ob ip st' t'"
    using step i t append_attempt [OF t(1)] targetOK_grows [OF t(1) \<open>grows st st'\<close>]
    by (cases at) (auto simp: Let_def interruptTarget_OK split: if_splits option.splits prod.splits)
  show "(workerTarget at' = Some i \<and> at' \<noteq> WTaken i \<and> placeOK st' at' t') \<or>
     (at' = WTake \<and> settled (c \<noteq> None \<or> rs_failure st' \<noteq> None) t')"
  proof (cases at)
    case (WAppended j n d r)
    then show ?thesis
      using step i t
      by (auto simp: targetOK_def beforeAttempt_def uncancelled_last settled_def interruptTarget_def
          split: if_splits)
  next
    case (WValidate j n d r)
    then show ?thesis
      using step i t by (auto simp: beforeAttempt_def split: prod.splits option.splits)
  next
    case (WDelay j n d)
    then show ?thesis using step i t by (auto simp: Let_def delayOK_def split: if_splits)
  next
    case (WTop j n d)
    then show ?thesis
      using step i t by (auto simp: delayOK_def beforeAttempt_def interruptTarget_settled split: if_splits)
  qed (use step i t in \<open>auto simp: interruptTarget_settled split: option.splits if_splits\<close>)
qed

section \<open>The invariant of the schedule\<close>

definition stopped :: "BatchState \<Rightarrow> bool" where
  "stopped s \<longleftrightarrow> bs_batch s \<noteq> None \<or> rs_failure (bs_run s) \<noteq> None"

definition owns :: "BatchState \<Rightarrow> nat \<Rightarrow> nat \<Rightarrow> bool" where
  "owns s k i \<longleftrightarrow> k < length (bs_workers s) \<and> workerTarget (bs_workers s ! k) = Some i"

text \<open>\<open>ips\<close> are the scheduled addresses.\<close>

definition Inv :: "BatchObserver \<Rightarrow> string list \<Rightarrow> BatchState \<Rightarrow> bool" where
  "Inv ob ips s \<longleftrightarrow>
     length (bs_targets s) = length ips \<and> length (bs_workers s) = min concurrencyLimit (length ips) \<and>
     (\<forall>i < length ips. targetOK ob (ips ! i) (bs_run s) (bs_targets s ! i)) \<and>
     distinct (bs_jobs s) \<and> (\<forall>i \<in> set (bs_jobs s). i < length ips \<and> placeOK (bs_run s) (WTaken i) (bs_targets s ! i)) \<and>
     (\<forall>k i. owns s k i \<longrightarrow> i < length ips \<and> i \<notin> set (bs_jobs s) \<and>
        placeOK (bs_run s) (bs_workers s ! k) (bs_targets s ! i)) \<and>
     (\<forall>k k' i. owns s k i \<longrightarrow> owns s k' i \<longrightarrow> k = k') \<and>
     (\<forall>i < length ips. i \<notin> set (bs_jobs s) \<longrightarrow> (\<forall>k. \<not> owns s k i) \<longrightarrow> settled (stopped s) (bs_targets s ! i)) \<and>
     (WDone \<in> set (bs_workers s) \<longrightarrow> bs_jobs s = [] \<or> bs_batch s \<noteq> None)"

lemma settled_mono: "settled a t \<Longrightarrow> (a \<longrightarrow> b) \<Longrightarrow> settled b t"
  by (auto simp: settled_def split: TargetStatus.splits)

lemma Inv_start: "Inv ob (boundedTargets inp) (startState inp)"
proof -
  let ?ips = "boundedTargets inp"
  have own: "\<not> owns (startState inp) k i" for k i
    by (auto simp: owns_def startState_def Let_def)
  have "targetOK ob (?ips ! i) st (initializeTargets inp ! i)" "placeOK st (WTaken i) (initializeTargets inp ! i)"
    if "i < length ?ips" for i st
    using that by (simp_all add: initializeTargets_def targetOK_def)
  with own show ?thesis
    by (simp add: Inv_def) (auto simp: startState_def Let_def initializeTargets_def)
qed

lemma Inv_context:
  assumes "Inv ob ips s" "bs_batch s \<noteq> None \<longrightarrow> b = bs_batch s"
  shows "Inv ob ips (s\<lparr>bs_parent := p, bs_batch := b\<rparr>)"
proof -
  have own: "owns (s\<lparr>bs_parent := p, bs_batch := b\<rparr>) = owns s"
    by (intro ext) (simp add: owns_def)
  have "stopped s \<longrightarrow> stopped (s\<lparr>bs_parent := p, bs_batch := b\<rparr>)"
    using assms(2) by (auto simp: stopped_def)
  with assms own show ?thesis
    by (simp add: Inv_def) (meson settled_mono)
qed

lemma owns_update:
  "owns (s\<lparr>bs_workers := (bs_workers s)[k := a]\<rparr>) k' i \<longleftrightarrow>
     (if k' = k then k < length (bs_workers s) \<and> workerTarget a = Some i else owns s k' i)"
  by (auto simp: owns_def)

text \<open>Taking a job, giving up on one, and ending: the steps outside \<open>runTarget\<close>.\<close>

lemma Inv_take:
  assumes inv: "Inv ob ips s" and k: "k < length (bs_workers s)" "bs_workers s ! k = WTake"
  shows "Inv ob ips (workerStep ob ch k s)"
proof (cases "bs_jobs s")
  case Nil
  have own: "owns (s\<lparr>bs_workers := (bs_workers s)[k := WDone]\<rparr>) = owns s"
    using k by (intro ext) (auto simp: owns_def nth_list_update)
  have "placeOK (bs_run s) ((bs_workers s)[k := WDone] ! k') t = placeOK (bs_run s) (bs_workers s ! k') t"
    for k' t using k by (cases "k' = k") simp_all
  with inv Nil k own show ?thesis
    by (simp add: workerStep_def Inv_def stopped_def)
next
  case (Cons i js)
  let ?s = "s\<lparr>bs_jobs := js, bs_workers := (bs_workers s)[k := WTaken i]\<rparr>"
  have own: "owns ?s k' j \<longleftrightarrow> (if k' = k then j = i else owns s k' j)" for k' j
    using k by (auto simp: owns_def nth_list_update)
  have none: "\<not> owns s k j" for j using k by (simp add: owns_def)
  have i: "i < length ips" "i \<notin> set js" "placeOK (bs_run s) (WTaken i) (bs_targets s ! i)"
    "\<And>k'. \<not> owns s k' i" "distinct js"
    using inv Cons by (auto simp: Inv_def)
  have place: "owns s k' j \<Longrightarrow> k' \<noteq> k \<and> placeOK (bs_run s) (bs_workers s ! k') (bs_targets s ! j) \<and> j < length ips \<and> j \<notin> set js" for k' j
    using inv none Cons by (auto simp: Inv_def)
  have dn: "WDone \<in> set ((bs_workers s)[k := WTaken i]) \<longrightarrow> WDone \<in> set (bs_workers s)"
    using set_update_subset_insert by fastforce
  have placed: "owns ?s k' j \<Longrightarrow> j < length ips \<and> j \<notin> set js \<and>
      placeOK (bs_run s) ((bs_workers s)[k := WTaken i] ! k') (bs_targets s ! j)" for k' j
    using place [of k' j] i k by (cases "k' = k") (auto simp: own)
  have unique: "owns ?s k' j \<Longrightarrow> owns ?s k'' j \<Longrightarrow> k' = k''" for k' k'' j
    using inv i(4) by (auto simp: own Inv_def split: if_splits)
  have free: "settled (stopped s) (bs_targets s ! j)" if "j < length ips" "j \<notin> set js" "\<forall>k'. \<not> owns ?s k' j" for j
  proof -
    have "owns ?s k i" using own by simp
    then have "j \<noteq> i" using that(3) by blast
    moreover have "\<forall>k'. \<not> owns s k' j" using that(3) own none by metis
    ultimately show ?thesis using inv Cons that by (simp add: Inv_def)
  qed
  have "Inv ob ips ?s"
    using inv Cons i(5) dn placed unique free
    unfolding Inv_def stopped_def
    by simp
  with k Cons show ?thesis by (simp add: workerStep_def)
qed

lemma Inv_taken:
  assumes inv: "Inv ob ips s" and k: "k < length (bs_workers s)" "bs_workers s ! k = WTaken i"
  shows "Inv ob ips (workerStep ob ch k s)"
proof -
  have own: "owns s k i" using k by (simp add: owns_def)
  have i: "i < length ips" "i \<notin> set (bs_jobs s)" "placeOK (bs_run s) (WTaken i) (bs_targets s ! i)"
    using inv own k unfolding Inv_def by metis+
  have only: "owns s k' i \<Longrightarrow> k' = k" for k' using inv own by (auto simp: Inv_def)
  define a where "a = (if bs_batch s \<noteq> None then WDone else WTop i 1 0)"
  let ?s = "s\<lparr>bs_workers := (bs_workers s)[k := a]\<rparr>"
  have own': "owns ?s k' j \<longleftrightarrow> (if k' = k then bs_batch s = None \<and> j = i else owns s k' j)" for k' j
    using k by (auto simp: owns_def nth_list_update a_def)
  have placed: "owns ?s k' j \<Longrightarrow> j < length ips \<and> j \<notin> set (bs_jobs s) \<and>
      placeOK (bs_run s) ((bs_workers s)[k := a] ! k') (bs_targets s ! j)" for k' j
  proof (cases "k' = k")
    case True
    assume "owns ?s k' j"
    with True own' have "bs_batch s = None" "j = i" by simp_all
    with i k True show ?thesis by (simp add: a_def beforeAttempt_def attemptLimit_def)
  next
    case False
    assume "owns ?s k' j"
    with False own' have "owns s k' j" by simp
    with False inv show ?thesis by (simp add: Inv_def)
  qed
  have unique: "owns ?s k' j \<Longrightarrow> owns ?s k'' j \<Longrightarrow> k' = k''" for k' k'' j
    using inv only by (auto simp: own' Inv_def split: if_splits)
  have free: "settled (stopped s) (bs_targets s ! j)" if "j < length ips" "j \<notin> set (bs_jobs s)" "\<forall>k'. \<not> owns ?s k' j" for j
  proof (cases "j = i")
    case True
    then have "bs_batch s \<noteq> None" using that(3) own' [of k i] by simp
    with i(3) True show ?thesis by (auto simp: settled_def stopped_def)
  next
    case False
    then have "\<forall>k'. \<not> owns s k' j" using that(3) own' own k by (metis owns_def option.inject workerTarget.simps(3))
    with inv that show ?thesis by (simp add: Inv_def)
  qed
  have dn: "WDone \<in> set ((bs_workers s)[k := a]) \<longrightarrow> WDone \<in> set (bs_workers s) \<or> bs_batch s \<noteq> None"
    using set_update_subset_insert [of "bs_workers s" k a] by (auto simp: a_def split: if_splits)
  have "Inv ob ips ?s"
    using inv dn placed unique free unfolding Inv_def stopped_def by auto
  with k show ?thesis by (simp add: workerStep_def a_def)
qed

lemma workerStep_move:
  "workerTarget at = Some i \<Longrightarrow> (\<And>j. at \<noteq> WTaken j) \<Longrightarrow> bs_workers s ! k = at \<Longrightarrow>
   workerStep ob ch k s = moveWorker ob ch k i s"
  by (cases at) (auto simp: workerStep_def)

lemma Inv_run:
  assumes inv: "Inv ob ips s" and k: "k < length (bs_workers s)" "bs_workers s ! k = at"
    and at: "workerTarget at = Some i" "\<And>j. at \<noteq> WTaken j"
  shows "Inv ob ips (workerStep ob ch k s)"
proof -
  obtain at' t' st' cancel where step:
    "runTargetStep ob ch (bs_batch s) at (bs_targets s ! i) (bs_run s) = (at', t', st', cancel)"
    by (metis prod_cases4)
  define b where "b = (if cancel \<and> bs_batch s = None then Some Canceled else bs_batch s)"
  let ?s = "s\<lparr>bs_targets := (bs_targets s)[i := t'], bs_run := st', bs_batch := b, bs_workers := (bs_workers s)[k := at']\<rparr>"
  have eq: "workerStep ob ch k s = ?s"
    using k step by (simp add: workerStep_move [OF at k(2)] moveWorker_def b_def)
  have own: "owns s k i" using k at by (simp add: owns_def)
  have i: "i < length ips" "i \<notin> set (bs_jobs s)" "placeOK (bs_run s) at (bs_targets s ! i)"
    "targetOK ob (ips ! i) (bs_run s) (bs_targets s ! i)" "i < length (bs_targets s)"
    using inv own k by (auto simp: Inv_def)
  note st = runTargetStep_inv [OF i(4,3) at step]
  have only: "owns s k' i \<Longrightarrow> k' = k" for k' using inv own by (auto simp: Inv_def)
  have own': "owns ?s k' j \<longleftrightarrow> (if k' = k then workerTarget at' = Some j else owns s k' j)" for k' j
    using k by (auto simp: owns_def nth_list_update)
  have mine: "owns s k j \<Longrightarrow> j = i" for j using own by (auto simp: owns_def)
  have at': "workerTarget at' = Some i \<or> workerTarget at' = None" using st(3) by auto
  have stop: "stopped s \<longrightarrow> stopped ?s" using st(1) by (auto simp: stopped_def b_def grows_def)
  have tOK: "targetOK ob (ips ! j) st' ((bs_targets s)[i := t'] ! j)" if "j < length ips" for j
    using inv that st(2) i(5) targetOK_grows [OF _ st(1)] by (cases "j = i") (auto simp: Inv_def)
  have jobs: "placeOK st' (WTaken j) ((bs_targets s)[i := t'] ! j)" "j < length ips" if "j \<in> set (bs_jobs s)" for j
  proof -
    have "j \<noteq> i" using that i(2) by auto
    then show "placeOK st' (WTaken j) ((bs_targets s)[i := t'] ! j)" "j < length ips"
      using inv that by (simp_all add: Inv_def)
  qed
  have placed: "owns ?s k' j \<Longrightarrow> j < length ips \<and> j \<notin> set (bs_jobs s) \<and>
      placeOK st' ((bs_workers s)[k := at'] ! k') ((bs_targets s)[i := t'] ! j)" for k' j
  proof (cases "k' = k")
    case True
    assume "owns ?s k' j"
    with True own' have "workerTarget at' = Some j" by simp
    with st(3) True i k show ?thesis by auto
  next
    case False
    assume "owns ?s k' j"
    with False own' have o: "owns s k' j" by simp
    with only False have "j \<noteq> i" by auto
    with o False inv placeOK_grows [OF _ st(1)] show ?thesis by (auto simp: Inv_def)
  qed
  have unique: "owns ?s k' j \<Longrightarrow> owns ?s k'' j \<Longrightarrow> k' = k''" for k' k'' j
    using inv only at' by (auto simp: own' Inv_def split: if_splits)
  have free: "settled (stopped ?s) ((bs_targets s)[i := t'] ! j)"
    if "j < length ips" "j \<notin> set (bs_jobs s)" "\<forall>k'. \<not> owns ?s k' j" for j
  proof (cases "j = i")
    case True
    have "workerTarget at' \<noteq> Some i" using that(3) own' [of k i] True by simp
    with st(3) have "settled (bs_batch s \<noteq> None \<or> rs_failure st' \<noteq> None) t'" by auto
    then have "settled (stopped ?s) t'" by (rule settled_mono) (auto simp: stopped_def b_def)
    with True i show ?thesis by simp
  next
    case False
    then have "\<forall>k'. \<not> owns s k' j" using that(3) own' mine by metis
    with inv that have "settled (stopped s) (bs_targets s ! j)" by (simp add: Inv_def)
    then have "settled (stopped ?s) (bs_targets s ! j)" using stop by (rule settled_mono)
    with False show ?thesis by simp
  qed
  have dn: "WDone \<in> set ((bs_workers s)[k := at']) \<longrightarrow> WDone \<in> set (bs_workers s)"
    using set_update_subset_insert [of "bs_workers s" k at'] st(3) by auto
  have "Inv ob ips ?s"
    using inv dn tOK jobs placed unique free unfolding Inv_def by (auto simp: b_def)
  with eq show ?thesis by simp
qed

lemma Inv_step: "Inv ob ips s \<Longrightarrow> schedStep ob ev s = Some s' \<Longrightarrow> Inv ob ips s'"
proof (cases ev)
  case (SWork k ch)
  assume inv: "Inv ob ips s" and st: "schedStep ob ev s = Some s'"
  with SWork have k: "k < length (bs_workers s)" "bs_workers s ! k \<noteq> WDone" "s' = workerStep ob ch k s"
    by (auto split: if_splits)
  show ?thesis
  proof (cases "bs_workers s ! k = WTake \<or> (\<exists>i. bs_workers s ! k = WTaken i)")
    case True
    with inv k show ?thesis using Inv_take Inv_taken by metis
  next
    case False
    with k obtain i where "workerTarget (bs_workers s ! k) = Some i" by (cases "bs_workers s ! k") auto
    with inv k False show ?thesis using Inv_run by metis
  qed
next
  case (SParent e)
  assume "Inv ob ips s" "schedStep ob ev s = Some s'"
  with SParent Inv_context [of ob ips s "bs_batch s" "Some e"] show ?thesis by (auto split: if_splits)
next
  case SPropagate
  assume "Inv ob ips s" "schedStep ob ev s = Some s'"
  with SPropagate Inv_context [of ob ips s "bs_parent s" "bs_parent s"] show ?thesis by (auto split: if_splits)
next
  case SDeadline
  assume "Inv ob ips s" "schedStep ob ev s = Some s'"
  with SDeadline Inv_context [of ob ips s "Some DeadlineExceeded" "bs_parent s"] show ?thesis by (auto split: if_splits)
qed

lemma Inv_reach: "reach ob inp s \<Longrightarrow> Inv ob (boundedTargets inp) s"
  by (induction rule: reach.induct) (auto intro: Inv_start Inv_step)

section \<open>The end of a run\<close>

lemma settled_False: "settled False t \<longleftrightarrow> tr_Status t = TargetCompleted \<and> attempts t \<noteq> [] \<and> uncancelled (attempts t) \<and>
    (length (attempts t) = attemptLimit \<or> \<not> shouldRetry (att_Observation (last (attempts t))))"
  by (cases "tr_Status t") (simp_all add: settled_def)

lemma allDone_owns: "allDone s \<Longrightarrow> \<not> owns s k i"
  by (auto simp: allDone_def owns_def list_all_length)

lemma concurrency_pos: "0 < concurrencyLimit" "0 < attemptLimit"
  by (simp_all add: concurrencyLimit_def attemptLimit_def)

text \<open>When the workers have ended, every target is settled, those left in the queue included.\<close>

lemma reach_done:
  assumes r: "reach ob inp s" and d: "allDone s"
  shows "length (bs_targets s) = length (boundedTargets inp)"
    "\<And>i. i < length (boundedTargets inp) \<Longrightarrow> targetOK ob (boundedTargets inp ! i) (bs_run s) (bs_targets s ! i)"
    "\<And>i. i < length (boundedTargets inp) \<Longrightarrow> settled (stopped s) (bs_targets s ! i)"
proof -
  let ?ips = "boundedTargets inp"
  note inv = Inv_reach [OF r]
  show "length (bs_targets s) = length ?ips" using inv by (simp add: Inv_def)
  show "targetOK ob (?ips ! i) (bs_run s) (bs_targets s ! i)" if "i < length ?ips" for i
    using inv that by (simp add: Inv_def)
  show "settled (stopped s) (bs_targets s ! i)" if i: "i < length ?ips" for i
  proof (cases "i \<in> set (bs_jobs s)")
    case False
    with inv i allDone_owns [OF d] show ?thesis by (simp add: Inv_def)
  next
    case True
    have "bs_workers s \<noteq> []" using inv i concurrency_pos by (auto simp: Inv_def)
    with d have "WDone \<in> set (bs_workers s)" by (cases "bs_workers s") (auto simp: allDone_def)
    with inv True have "bs_batch s \<noteq> None" by (auto simp: Inv_def)
    moreover have "placeOK (bs_run s) (WTaken i) (bs_targets s ! i)" using inv True by (simp add: Inv_def)
    ultimately show ?thesis by (simp add: settled_def stopped_def)
  qed
qed

section \<open>The report\<close>

lemma dedup_map_idem:
  "(\<And>x. f (f x) = f x) \<Longrightarrow> dedup [] (map f (dedup [] (map f xs))) = dedup [] (map f xs)"
proof -
  assume f: "\<And>x. f (f x) = f x"
  have "map f (dedup [] (map f xs)) = dedup [] (map f xs)"
    using f by (intro map_idI) (auto simp: set_dedup)
  then show ?thesis by (simp add: dedup_idem)
qed

text \<open>Normalizing a recorded input gives it back, with an error exactly if there was one.\<close>

lemma normalizeRequest_batch_again:
  assumes n: "normalizeRequest_batch req = (inp, e)"
  shows "fst (normalizeRequest_batch \<lparr>breq_Targets = sliceOf (bin_Targets inp)\<rparr>) = inp"
    "snd (normalizeRequest_batch \<lparr>breq_Targets = sliceOf (bin_Targets inp)\<rparr>) = None \<longleftrightarrow> e = None"
    "bin_Targets inp = Some (dedup [] (map (\<lambda>v. fst (NormalizePublicIP v)) (breq_Targets req)))"
proof -
  let ?f = "\<lambda>v. fst (NormalizePublicIP v)" and ?vs = "breq_Targets req"
  let ?ts = "dedup [] (map ?f ?vs)"
  have inp: "inp = policyInput (Some ?ts)" using n by (auto simp: normalizeRequest_batch_def Let_def)
  have again: "dedup [] (map ?f ?ts) = ?ts" by (rule dedup_map_idem) (simp add: NormalizePublicIP_idempotent)
  show "bin_Targets inp = Some ?ts" by (simp add: inp policyInput_def)
  then show "fst (normalizeRequest_batch \<lparr>breq_Targets = sliceOf (bin_Targets inp)\<rparr>) = inp"
    by (simp add: normalizeRequest_batch_def Let_def again inp)
  have "(\<forall>v \<in> set ?ts. snd (snd (NormalizePublicIP v)) = None) \<longleftrightarrow> (\<forall>v \<in> set ?vs. snd (snd (NormalizePublicIP v)) = None)"
    by (simp add: set_dedup NormalizePublicIP_idempotent)
  with n \<open>bin_Targets inp = Some ?ts\<close> again
  show "snd (normalizeRequest_batch \<lparr>breq_Targets = sliceOf (bin_Targets inp)\<rparr>) = None \<longleftrightarrow> e = None"
    by (auto simp: normalizeRequest_batch_def Let_def firstErr_simps dedup_Nil_iff)
qed

lemma validateAttempts_ok:
  assumes "attemptsOK ob ip src k prev as" "br_Platform res = bo_platform ob" "s = None \<or> s = src"
    and "uncancelled (butlast as)"
    and "as = [] \<or> env_outcome (att_Observation (last as)) \<noteq> OutcomeCancelled \<or>
      (status = TargetInterrupted \<and> br_Status res \<noteq> StatusCompleted)"
  shows "\<exists>s'. validateAttempts res ip status k prev as s = (None, s') \<and> (s' = None \<or> s' = src)"
  using assms
proof (induction as arbitrary: k prev s)
  case (Cons a as)
  have a: "attemptOK ob ip src k prev a" "attemptsOK ob ip src (k + 1) (Some a) as" using Cons.prems(1) by simp_all
  have nc: "as \<noteq> [] \<Longrightarrow> env_outcome (att_Observation a) \<noteq> OutcomeCancelled" "uncancelled (butlast as)"
    using Cons.prems(4) by (cases "as = []"; simp add: uncancelled_def)+
  have c: "env_outcome (att_Observation a) = OutcomeCancelled \<Longrightarrow>
      as = [] \<and> status = TargetInterrupted \<and> br_Status res \<noteq> StatusCompleted"
    using Cons.prems(5) nc(1) by (cases "as = []") simp_all
  have "validateAttempt res ip status k prev (as = []) a s = None"
    using a(1) Cons.prems(2,3) c
    by (auto simp: validateAttempt_def attemptOK_def firstErr_simps split: option.splits)
  moreover have "(if s = None then Some (env_source (att_Observation a)) else s) = src"
    using a(1) Cons.prems(3) by (auto simp: attemptOK_def)
  moreover have "\<exists>s'. validateAttempts res ip status (k + 1) (Some a) as src = (None, s') \<and> (s' = None \<or> s' = src)"
    using Cons.prems a nc by (intro Cons.IH) auto
  ultimately show ?case by simp
qed simp

lemma validateTarget_ok:
  assumes t: "targetOK ob ip st t" "settled sp t" and pl: "br_Platform res = bo_platform ob"
    and s: "s = None \<or> s = rs_source st"
    and done_all: "br_Status res = StatusCompleted \<Longrightarrow> tr_Status t = TargetCompleted"
  shows "\<exists>s'. validateTarget res t ip s = (None, s') \<and> (s' = None \<or> s' = rs_source st)"
proof -
  let ?as = "attempts t"
  have shape: "validateTargetShape res t ip = None"
    using t done_all
    by (auto simp: validateTargetShape_def Let_def firstErr_simps targetOK_def settled_def split: TargetStatus.splits)
  have "?as = [] \<or> env_outcome (att_Observation (last ?as)) \<noteq> OutcomeCancelled \<or>
      (tr_Status t = TargetInterrupted \<and> br_Status res \<noteq> StatusCompleted)"
    using t(2) done_all uncancelled_last [of ?as] by (auto simp: settled_def split: TargetStatus.splits)
  then obtain s' where "validateAttempts res ip (tr_Status t) 0 None ?as s = (None, s')" "s' = None \<or> s' = rs_source st"
    using t(1) pl s validateAttempts_ok [of ob ip "rs_source st" 0 None ?as res s "tr_Status t"]
    by (auto simp: targetOK_def)
  moreover have "validateTargetEnd t = None"
    using t(2) uncancelled_last [of ?as] by (auto simp: validateTargetEnd_def settled_def Let_def firstErr_simps)
  ultimately show ?thesis using shape by (simp add: validateTarget_def)
qed

lemma validateTargets_ok:
  assumes "\<And>t ip. (t, ip) \<in> set ps \<Longrightarrow> targetOK ob ip st t \<and> settled sp t \<and>
      (br_Status res = StatusCompleted \<longrightarrow> tr_Status t = TargetCompleted)"
    and "br_Platform res = bo_platform ob" "s = None \<or> s = rs_source st"
  shows "validateTargets res ps s = None"
  using assms
proof (induction ps arbitrary: s)
  case (Cons p ps)
  obtain t ip where p: "p = (t, ip)" by (cases p)
  then obtain s' where s': "validateTarget res t ip s = (None, s')" "s' = None \<or> s' = rs_source st"
    using validateTarget_ok [of ob ip st t sp res s] Cons.prems by auto
  with Cons p show ?case by auto
qed simp

lemma appendToNil_Some: "xs \<noteq> [] \<Longrightarrow> appendToNil (Some xs) = Some xs"
  by (simp add: appendToNil_def)

lemma input_copied:
  assumes n: "normalizeRequest_batch req = (inp, e)" and ne: "breq_Targets req \<noteq> []"
  shows "inp\<lparr>bin_Targets := appendToNil (bin_Targets inp)\<rparr> = inp" "bin_Targets inp \<noteq> None"
proof -
  have t: "bin_Targets inp = Some (dedup [] (map (\<lambda>v. fst (NormalizePublicIP v)) (breq_Targets req)))"
    by (rule normalizeRequest_batch_again(3) [OF n])
  with ne have "appendToNil (bin_Targets inp) = bin_Targets inp"
    by (simp add: appendToNil_def dedup_Nil_iff)
  then show "inp\<lparr>bin_Targets := appendToNil (bin_Targets inp)\<rparr> = inp" by simp
  show "bin_Targets inp \<noteq> None" using t by simp
qed

lemma targets_copied: "list_all (\<lambda>t. tr_Attempts t \<noteq> None) ts \<Longrightarrow>
    map (\<lambda>t. t\<lparr>tr_Attempts := Some (sliceOf (tr_Attempts t))\<rparr>) ts = ts"
  by (induction ts) auto

text \<open>A terminal that ends a batch with valid input.\<close>

definition terminalOK :: "terminal \<Rightarrow> bool" where
  "terminalOK t \<longleftrightarrow> (tm_status t = StatusCompleted \<and> tm_reason t = StopNone \<and> tm_detail t = '''') \<or>
     (tm_status t = StatusStopped \<and> \<not> blank (tm_detail t) \<and>
        tm_reason t \<in> {StopBatchTimeout, StopInvalidProbeEvidence, StopSchedulerFailure}) \<or>
     (tm_status t = StatusCancelled \<and> tm_reason t = StopCancelled \<and> \<not> blank (tm_detail t))"

lemma Validate_batch_valid_input:
  assumes n: "normalizeRequest_batch req = (inp, None)"
    and env: "\<not> IsZero now1" "platform_ok (plat_os (bo_platform ob)) (plat_arch (bo_platform ob))"
    and tm: "terminalOK tm"
    and len: "length ts = length (boundedTargets inp)"
    and ts: "\<And>i. i < length ts \<Longrightarrow> targetOK ob (boundedTargets inp ! i) st (ts ! i) \<and> settled sp (ts ! i) \<and>
      (tm_status tm = StatusCompleted \<longrightarrow> tr_Status (ts ! i) = TargetCompleted)"
  shows "Validate_batch (finish_batch ob now1 now0 inp (omittedTargets inp) ts tm) = None"
proof -
  let ?r = "finish_batch ob now1 now0 inp (omittedTargets inp) ts tm"
  have ne: "breq_Targets req \<noteq> []"
    using n by (auto simp: normalizeRequest_batch_def Let_def firstErr_simps)
  note again = normalizeRequest_batch_again [OF n]
  note inp = input_copied [OF n ne]
  have "list_all (\<lambda>t. tr_Attempts t \<noteq> None) ts"
    using ts by (auto simp: list_all_length targetOK_def)
  then have tsr: "br_Targets ?r = Some ts" by (simp add: finish_batch_def targets_copied)
  have shape: "validateTerminalShape ?r = None" "\<not> (br_Status ?r = StatusStopped \<and> br_StopReason ?r = StopInvalidInput)"
    using tm by (auto simp: terminalOK_def validateTerminalShape_def finish_batch_def firstErr_simps)
  have "validateTargets ?r (zip ts (boundedTargets inp)) None = None"
    by (rule validateTargets_ok [where ob = ob and st = st and sp = sp])
      (use ts len in \<open>auto simp: in_set_zip finish_batch_def\<close>)
  moreover have "\<not> (br_Status ?r = StatusCompleted \<and> list_ex (\<lambda>t. tr_Status t \<noteq> TargetCompleted) ts)"
    using ts by (auto simp: finish_batch_def list_ex_length)
  ultimately show ?thesis
    using again inp tsr shape len env
    by (auto simp: Validate_batch_def firstErr_simps platform_ok_def Let_def split_beta)
      (simp_all add: finish_batch_def)
qed

text \<open>A recorded failure has one of two reasons and a visible text.\<close>

definition failureOK :: "RunState \<Rightarrow> bool" where
  "failureOK st = (case rs_failure st of None \<Rightarrow> True
     | Some (r, e) \<Rightarrow> r \<in> {StopInvalidProbeEvidence, StopSchedulerFailure} \<and> \<not> blank e)"

lemma failRun_OK: "failureOK st \<Longrightarrow> r \<in> {StopInvalidProbeEvidence, StopSchedulerFailure} \<Longrightarrow> \<not> blank e \<Longrightarrow>
    failureOK (failRun r e st)"
  by (auto simp: failureOK_def failRun_def)

lemma visible: "\<not> blank (CHR ''r'' # s)" "\<not> blank (CHR ''w'' # s)" "\<not> blank (CHR ''t'' # s)" "\<not> blank (CHR ''T'' # s)"
  by (auto intro!: not_blank_graph simp: isGraph_def)

lemma validateObservation_failureOK:
  "failureOK st \<Longrightarrow> validateObservation ob r t st = (st', e) \<Longrightarrow> failureOK st' \<and> (\<forall>m. e = Some m \<longrightarrow> \<not> blank m)"
  by (auto simp: validateObservation_def acceptSource_def failureOK_def visible split: option.splits if_splits)

lemma runTargetStep_failureOK:
  "failureOK st \<Longrightarrow> runTargetStep ob ch c at t st = (at', t', st', cancel) \<Longrightarrow> failureOK st'"
  by (cases "(ob, ch, c, at, t, st)" rule: runTargetStep.cases)
    (auto simp: Let_def visible dest: validateObservation_failureOK intro!: failRun_OK
      split: if_splits option.splits prod.splits)

lemma reach_failureOK: "reach ob inp s \<Longrightarrow> failureOK (bs_run s)"
proof (induction rule: reach.induct)
  case reach_start
  then show ?case by (simp add: startState_def Let_def failureOK_def)
next
  case (reach_step s ev s')
  show ?case
  proof (cases ev)
    case (SWork k ch)
    with reach_step have s': "s' = workerStep ob ch k s" by (auto split: if_splits)
    have "failureOK (bs_run (moveWorker ob ch k i s))" for i
      using reach_step.IH runTargetStep_failureOK by (auto simp: moveWorker_def split: prod.splits)
    with reach_step.IH show ?thesis
      by (cases "bs_workers s ! k") (auto simp: s' workerStep_def split: list.splits)
  qed (use reach_step in \<open>auto split: if_splits\<close>)
qed

lemma ctxDetail_visible: "go_context c \<Longrightarrow> c k = Some e \<Longrightarrow> k \<le> n \<Longrightarrow> \<not> blank (ctxDetail c n)"
proof -
  assume "go_context c" "c k = Some e" "k \<le> n"
  then have "c n = Some e" by (rule go_context.err_stable)
  then show ?thesis by (cases e) (simp_all add: ctxDetail_def ctxErrAt_def del: ctxText.simps)
qed

lemma parentTerminal_OK:
  "go_context c \<Longrightarrow> parentTerminal c k = Some t \<Longrightarrow> terminalOK t \<and> tm_status t \<noteq> StatusCompleted"
  using ctxDetail_visible [of c k Canceled "k + 1"] ctxDetail_visible [of c "k + 1" DeadlineExceeded "k + 2"]
  by (simp add: parentTerminal_def terminalOK_def split: if_splits) auto

lemma batchTerminal_OK:
  "go_context p \<Longrightarrow> go_context b \<Longrightarrow> batchTerminal p b k = Some t \<Longrightarrow> terminalOK t \<and> tm_status t \<noteq> StatusCompleted"
  using ctxDetail_visible [of b "k + 2" DeadlineExceeded "k + 3"] ctxDetail_visible [of b "k + 3" Canceled "k + 4"]
    parentTerminal_OK [of p k]
  by (cases "parentTerminal p k") (auto simp: batchTerminal_def terminalOK_def split: if_splits)

lemma concludeTerminal_OK:
  assumes "go_context p" "go_context b" "failureOK (bs_run s)"
  shows "terminalOK (concludeTerminal p b k s)"
    "tm_status (concludeTerminal p b k s) = StatusCompleted \<Longrightarrow>
      rs_failure (bs_run s) = None \<and> list_all (\<lambda>t. tr_Status t = TargetCompleted) (bs_targets s)"
  using assms batchTerminal_OK [OF assms(1,2)]
  by (auto simp: concludeTerminal_def failureOK_def terminalOK_def visible list_ex_iff list_all_iff
      split: option.splits if_splits)

section \<open>Every result of Observe\<close>

lemma newObserver_batch_platform:
  "newObserver_batch cfg rt dep hasTls = Inr ob \<Longrightarrow> platform_ok (plat_os (bo_platform ob)) (plat_arch (bo_platform ob))"
  by (auto simp: newObserver_batch_def platform_ok_def Let_def split: sum.splits if_splits)

lemma initial_targets:
  assumes "i < length (initializeTargets inp)"
  shows "targetOK ob (boundedTargets inp ! i) st (initializeTargets inp ! i)" "settled True (initializeTargets inp ! i)"
  using assms by (simp_all add: initializeTargets_def targetOK_def settled_def)

lemma Validate_batch_invalid_input:
  assumes n: "normalizeRequest_batch req = (inp, Some e)" and ne: "breq_Targets req \<noteq> []"
    and env: "\<not> IsZero now1" "platform_ok (plat_os (bo_platform ob)) (plat_arch (bo_platform ob))"
  shows "Validate_batch (finish_batch ob now1 now0 inp 0 []
    \<lparr>tm_status = StatusStopped, tm_reason = StopInvalidInput, tm_detail = e\<rparr>) = None"
proof -
  note again = normalizeRequest_batch_again [OF n]
  note inp = input_copied [OF n ne]
  obtain s where "e = CHR ''t'' # s"
    using n by (auto simp: normalizeRequest_batch_def Let_def wrapErr_Some wrapErr_Some' dest!: firstErr_Some firstErr_Some [OF sym])
  then have "\<not> blank e" by (simp add: visible)
  with again inp env show ?thesis
    by (simp add: Validate_batch_def firstErr_simps platform_ok_def Let_def split_beta finish_batch_def)
qed

lemma Observe_batch_valid_lemma:
  assumes "Observe_batch ob now ctx req r" "go_context ctx" "\<not> IsZero (now 1)"
    and "newObserver_batch cfg rt dep hasTls = Inr ob" "breq_Targets req \<noteq> []"
  shows "Validate_batch r = None"
  using assms(1)
proof cases
  case (Observe_invalid inp e)
  with assms newObserver_batch_platform show ?thesis by (auto intro: Validate_batch_invalid_input)
next
  case (Observe_done inp t)
  have t: "terminalOK t" "tm_status t \<noteq> StatusCompleted"
    using parentTerminal_OK [OF assms(2) Observe_done(3)] by simp_all
  have "Validate_batch (finish_batch ob (now 1) (now 0) inp (omittedTargets inp) (initializeTargets inp) t) = None"
    by (rule Validate_batch_valid_input [OF Observe_done(2) assms(3) newObserver_batch_platform [OF assms(4)] t(1),
          where st = "\<lparr>rs_failure = None, rs_source = None\<rparr>" and sp = True])
      (use t(2) initial_targets in \<open>auto simp: initializeTargets_def\<close>)
  with Observe_done show ?thesis by simp
next
  case (Observe_run inp s batch)
  note dn = reach_done [OF Observe_run(4,5)]
  note tm = concludeTerminal_OK [OF assms(2) Observe_run(7) reach_failureOK [OF Observe_run(4)], of 3]
  have "Validate_batch (finish_batch ob (now 1) (now 0) inp (omittedTargets inp) (bs_targets s) (concludeTerminal ctx batch 3 s)) = None"
    by (rule Validate_batch_valid_input [OF Observe_run(2) assms(3) newObserver_batch_platform [OF assms(4)] tm(1) dn(1),
          where st = "bs_run s" and sp = "stopped s"])
      (use dn tm(2) in \<open>auto simp: list_all_length\<close>)
  with Observe_run show ?thesis by simp
qed

section \<open>Progress\<close>

text \<open>A failure is recorded only by a worker that then cancels the batch.\<close>

lemma runTargetStep_failure:
  assumes "runTargetStep ob ch c at t st = (at', t', st', cancel)" "rs_failure st' \<noteq> None"
  shows "rs_failure st \<noteq> None \<or> (\<exists>i. at' = WCancel i) \<or> cancel"
  using assms by (cases "(ob, ch, c, at, t, st)" rule: runTargetStep.cases)
    (auto simp: Let_def validateObservation_def acceptSource_def split: if_splits option.splits prod.splits)

lemma reach_failure_cancels:
  "reach ob inp s \<Longrightarrow> rs_failure (bs_run s) \<noteq> None \<Longrightarrow> bs_batch s \<noteq> None \<or> (\<exists>i. WCancel i \<in> set (bs_workers s))"
proof (induction rule: reach.induct)
  case reach_start
  then show ?case by (simp add: startState_def Let_def)
next
  case (reach_step s ev s')
  show ?case
  proof (cases ev)
    case (SWork k ch)
    with reach_step have k: "k < length (bs_workers s)" "bs_workers s ! k \<noteq> WDone" "s' = workerStep ob ch k s"
      by (auto split: if_splits)
    let ?ws = "bs_workers s"
    have keep: "WCancel i \<in> set (?ws[k := a])" if "WCancel i \<in> set ?ws" "?ws ! k \<noteq> WCancel i" for i a
      using that by (metis in_set_conv_nth length_list_update nth_list_update_neq)
    show ?thesis
    proof (cases "workerTarget (?ws ! k) = None \<or> (\<exists>i. ?ws ! k = WTaken i)")
      case True
      then have "rs_failure (bs_run s) \<noteq> None" using reach_step.prems k
        by (cases "?ws ! k") (auto simp: workerStep_def split: list.splits if_splits)
      with reach_step.IH True k keep show ?thesis
        by (cases "?ws ! k") (auto simp: workerStep_def split: list.splits if_splits)
    next
      case False
      then obtain i where i: "workerTarget (?ws ! k) = Some i" "\<And>j. ?ws ! k \<noteq> WTaken j" by auto
      obtain at' t' st' cancel where step:
        "runTargetStep ob ch (bs_batch s) (?ws ! k) (bs_targets s ! i) (bs_run s) = (at', t', st', cancel)"
        by (metis prod_cases4)
      have s': "s' = s\<lparr>bs_targets := (bs_targets s)[i := t'], bs_run := st',
          bs_batch := (if cancel \<and> bs_batch s = None then Some Canceled else bs_batch s), bs_workers := ?ws[k := at']\<rparr>"
        using k(3) step by (simp add: workerStep_move [OF i refl] moveWorker_def)
      have cancel: "?ws ! k = WCancel j \<Longrightarrow> cancel" for j using step by auto
      have key: "WCancel j \<in> set ?ws \<Longrightarrow> \<not> cancel \<Longrightarrow> \<exists>i. WCancel i \<in> set (?ws[k := at'])" for j
        using keep cancel by blast
      show ?thesis
        using runTargetStep_failure [OF step] reach_step.prems reach_step.IH key set_update_memI [OF k(1), of at']
        by (auto simp: s')
    qed
  qed (use reach_step in \<open>auto split: if_splits\<close>)
qed

text \<open>The steps the workers still have, counted from their places and the queue.\<close>

fun placeRank :: "WorkerAt \<Rightarrow> nat" where
  "placeRank WDone = 0"
| "placeRank WTake = 1"
| "placeRank (WTaken i) = 32"
| "placeRank (WTop i n d) = 10 * (4 - n) + 1"
| "placeRank (WDelay i n d) = 10 * (4 - n)"
| "placeRank (WWait i n d) = 10 * (4 - n) - 1"
| "placeRank (WWaitErr i n d e) = 10 * (4 - n) - 2"
| "placeRank (WObserve i n d) = 10 * (4 - n) - 3"
| "placeRank (WObserved i n d r) = 10 * (4 - n) - 4"
| "placeRank (WValidate i n d r) = 10 * (4 - n) - 5"
| "placeRank (WAppended i n d r) = 10 * (4 - n) - 6"
| "placeRank (WCancel i) = 2"

definition workLeft :: "BatchState \<Rightarrow> nat" where
  "workLeft s = 32 * length (bs_jobs s) + sum_list (map placeRank (bs_workers s))"

lemma runTargetStep_rank:
  assumes "placeOK st at t" "workerTarget at = Some i" "\<And>j. at \<noteq> WTaken j"
    and "runTargetStep ob ch c at t st = (at', t', st', cancel)"
  shows "placeRank at' < placeRank at"
  using assms
  by (cases at) (auto simp: Let_def beforeAttempt_def attemptLimit_def split: if_splits option.splits prod.splits)

lemma sum_list_update_less: "k < length xs \<Longrightarrow> f y < f (xs ! k) \<Longrightarrow> sum_list (map f (xs[k := y])) < sum_list (map f xs)"
  for f :: "'a \<Rightarrow> nat"
  by (induction xs arbitrary: k) (auto split: nat.splits)

lemma sum_list_update_eq: "k < length xs \<Longrightarrow>
    sum_list (map f (xs[k := y])) + f (xs ! k) = sum_list (map f xs) + (f y :: nat)"
  by (induction xs arbitrary: k) (auto split: nat.splits)

lemma workerStep_workLeft:
  assumes r: "reach ob inp s" and k: "k < length (bs_workers s)" "bs_workers s ! k \<noteq> WDone"
  shows "workLeft (workerStep ob ch k s) < workLeft s"
proof -
  let ?ws = "bs_workers s"
  note upd = sum_list_update_eq [OF k(1), of placeRank]
  consider (take) "?ws ! k = WTake" | (taken) i where "?ws ! k = WTaken i"
    | (run) i where "workerTarget (?ws ! k) = Some i" "\<And>j. ?ws ! k \<noteq> WTaken j"
    using k(2) by (cases "?ws ! k") auto
  then show ?thesis
  proof cases
    case take
    with upd [of WDone] upd [of "WTaken (hd (bs_jobs s))"] show ?thesis
      by (cases "bs_jobs s") (auto simp: workerStep_def workLeft_def)
  next
    case (taken i)
    with upd [of WDone] upd [of "WTop i 1 0"] show ?thesis
      by (auto simp: workerStep_def workLeft_def)
  next
    case (run i)
    obtain at' t' st' cancel where step:
      "runTargetStep ob ch (bs_batch s) (?ws ! k) (bs_targets s ! i) (bs_run s) = (at', t', st', cancel)"
      by (metis prod_cases4)
    have "owns s k i" using k run by (simp add: owns_def)
    with Inv_reach [OF r] have "placeOK (bs_run s) (?ws ! k) (bs_targets s ! i)"
      unfolding Inv_def by blast
    then have "placeRank at' < placeRank (?ws ! k)" using run step by (rule runTargetStep_rank)
    with upd [of at'] k step show ?thesis
      by (simp add: workerStep_move [OF run refl] moveWorker_def workLeft_def)
  qed
qed

section \<open>The TLS observation as the batch sees it\<close>

text \<open>
  The contract between the batch and its adapter: every observation is valid, comes from one
  platform and one source, and records the request it was given. The batch checks all of this
  on every observation; an adapter that keeps the contract is never refused.
\<close>

locale tls_adapter =
  fixes observe :: "'w \<Rightarrow> TlsRequest \<Rightarrow> TlsResult"
    and ok :: "'w \<Rightarrow> bool"
    and platform :: Platform
    and source :: Source
  assumes adapter_valid: "ok w \<Longrightarrow> Validate_tls (observe w r) = None"
    and adapter_platform: "ok w \<Longrightarrow> env_platform (observe w r) = platform"
    and adapter_source: "ok w \<Longrightarrow> env_source (observe w r) = source"
    and adapter_input: "ok w \<Longrightarrow> env_input (observe w r) = fst (normalizeRequest_tls r)"
begin

lemma adapter_expected:
  assumes "ok w" "NormalizePublicIP v = (tx, ip, None)"
  shows "env_input (observe w \<lparr>req_DialIP = tx\<rparr>) = expectedTLSInput tx"
proof -
  note acc = NormalizePublicIP_accept_cases [OF assms(2)]
  have "NormalizePublicIP tx = (tx, ip, None)" using NormalizePublicIP_idempotent [of v] assms(2) by simp
  then show ?thesis
    using acc by (simp add: adapter_input [OF assms(1)] normalizeRequest_tls_def expectedTLSInput_def familyOf_def targetFamily_def)
qed

lemma adapter_accepted:
  assumes "ok w" "NormalizePublicIP v = (tx, ip, None)" "bo_platform ob = platform" "tr_DialIP t = tx"
    and "rs_source st = None \<or> rs_source st = Some source"
  shows "validateObservation ob (observe w \<lparr>req_DialIP = tx\<rparr>) t st = (st\<lparr>rs_source := Some source\<rparr>, None)"
proof -
  let ?r = "observe w \<lparr>req_DialIP = tx\<rparr>"
  have "Validate_tls ?r = None" "env_platform ?r = platform" "env_source ?r = source"
    "env_input ?r = expectedTLSInput tx"
    using assms(1) adapter_valid adapter_platform adapter_source adapter_expected [OF assms(1,2)] by blast+
  then show ?thesis
    using assms(3,4,5) by (cases st) (auto simp: validateObservation_def acceptSource_def)
qed

end

text \<open>The package's own observer keeps the contract in every well-behaved environment.\<close>

definition tlsEnvironment :: "string \<Rightarrow> string \<Rightarrow> TlsWorld \<times> TlsObserver \<Rightarrow> bool" where
  "tlsEnvironment os arch wo = (case wo of (w, ob) \<Rightarrow> w_os w = os \<and> w_arch w = arch \<and> platform_ok os arch \<and>
     clock_ok (w_now w) \<and> tls_library_ok w \<and> peers_ok w \<and> (\<exists>cfg. newObserver_tls cfg = Inr ob))"

lemma Observe_tls_base:
  "env_platform (Observe_tls w ob r) = \<lparr>plat_os = w_os w, plat_arch = w_arch w\<rparr>"
  "env_source (Observe_tls w ob r) = ob_source ob"
  "env_input (Observe_tls w ob r) = fst (normalizeRequest_tls r)"
  by (simp_all add: Observe_tls_def Let_def failureResult_tls_def commitEvidence_tls_def split_beta split: sum.split prod.split)

interpretation production_tls: tls_adapter "\<lambda>(w, ob) r. Observe_tls w ob r" "tlsEnvironment os arch"
    "\<lparr>plat_os = os, plat_arch = arch\<rparr>"
    "\<lparr>src_backend = ''go-stdlib-tls-direct-no-sni'', src_capability = CapabilityNative, src_reason = ''''\<rparr>"
  for os arch
  by unfold_locales
    (auto simp: tlsEnvironment_def Observe_tls_base newObserver_tls_source intro: Observe_tls_valid_lemma)

section \<open>A concrete run\<close>

fun runSched :: "BatchObserver \<Rightarrow> Sched list \<Rightarrow> BatchState \<Rightarrow> BatchState option" where
  "runSched ob [] s = Some s"
| "runSched ob (ev # evs) s = (case schedStep ob ev s of None \<Rightarrow> None | Some s' \<Rightarrow> runSched ob evs s')"

lemma runSched_reach: "reach ob inp s \<Longrightarrow> runSched ob evs s = Some s' \<Longrightarrow> reach ob inp s'"
  by (induction evs arbitrary: s) (auto intro: reach_step split: option.splits)

definition demoPlatform :: Platform where
  "demoPlatform = \<lparr>plat_os = ''linux'', plat_arch = ''amd64''\<rparr>"

definition demoBatchObserver :: BatchObserver where
  "demoBatchObserver = \<lparr>bo_timeout = defaultTimeout_batch, bo_platform = demoPlatform\<rparr>"

definition demoTls :: TlsResult where
  "demoTls = Observe_tls (demoTlsWorld background (demoCert 1000 2000)) demoObserver \<lparr>req_DialIP = ''1.1.1.1''\<rparr>"

definition demoChoice :: Choice where
  "demoChoice = \<lparr>ch_delay = backoffMin, ch_wait = None, ch_observation = demoTls\<rparr>"

lemma demoBatchObserver_new: "newObserver_batch \<lparr>bcfg_Timeout = 0\<rparr> demoPlatform demoPlatform True = Inr demoBatchObserver"
  by (simp add: newObserver_batch_def normalizeTimeout_batch_def demoBatchObserver_def demoPlatform_def)

lemma one_one_normal: "NormalizePublicIP ''1.1.1.1'' = (''1.1.1.1'', Addr4 1 1 1 1, None)"
  using NormalizePublicIP_complete [OF one_one_allowed] by (simp add: one_one_text)

lemma demoTls_accepted: "tr_DialIP t = ''1.1.1.1'' \<Longrightarrow> rs_source st = None \<Longrightarrow>
   validateObservation demoBatchObserver demoTls t st = (st\<lparr>rs_source := Some (ob_source demoObserver)\<rparr>, None)"
proof -
  have env: "tlsEnvironment ''linux'' ''amd64'' (demoTlsWorld background (demoCert 1000 2000), demoObserver)"
    using demoTlsWorld_ok demoTlsWorld_peers demoObserver_new
    by (auto simp: tlsEnvironment_def) (simp_all add: demoTlsWorld_def platform_ok_def)
  then show "tr_DialIP t = ''1.1.1.1'' \<Longrightarrow> rs_source st = None \<Longrightarrow> ?thesis"
    using production_tls.adapter_accepted [OF env one_one_normal, of demoBatchObserver t st]
    by (simp add: demoTls_def demoBatchObserver_def demoPlatform_def demoObserver_def)
qed

lemma demoTls_settles: "\<not> shouldRetry demoTls" "env_outcome demoTls = OutcomeSucceeded"
  by (simp_all add: demoTls_def demo_Observe shouldRetry_def)

definition demoInput :: BatchInput where
  "demoInput = policyInput (Some [''1.1.1.1''])"

lemma demoInput_normal: "normalizeRequest_batch \<lparr>breq_Targets = [''1.1.1.1'']\<rparr> = (demoInput, None)"
  by (simp add: normalizeRequest_batch_def one_one_normal Let_def demoInput_def requestTargetLimit_def
      firstErr.simps guard_def wrapErr_def)

lemma demo_bounded: "boundedTargets demoInput = [''1.1.1.1'']"
  by (simp add: boundedTargets_def demoInput_def policyInput_def targetLimit_def)

lemma demo_run: "\<exists>s. runSched demoBatchObserver (replicate 8 (SWork 0 demoChoice)) (startState demoInput) = Some s \<and>
    allDone s \<and> bs_batch s = None \<and> bs_parent s = None"
  by (simp add: startState_def initializeTargets_def demo_bounded concurrencyLimit_def replicate_num workerStep_def
      moveWorker_def demoTls_accepted demoTls_settles demoChoice_def allDone_def attemptLimit_def)

lemma demo_Observe_batch:
  "\<exists>r. Observe_batch demoBatchObserver (steadyClock 1000000) background \<lparr>breq_Targets = [''1.1.1.1'']\<rparr> r"
proof -
  obtain s where s: "runSched demoBatchObserver (replicate 8 (SWork 0 demoChoice)) (startState demoInput) = Some s"
    "allDone s" "bs_batch s = None" "bs_parent s = None"
    using demo_run by blast
  show ?thesis
    by (rule exI, rule Observe_run [OF demoInput_normal _ runSched_reach [OF reach_start s(1)] s(2) _ background_ctx.go_context_axioms])
      (simp_all add: s parentTerminal_def background_def ctxErrAt_def errorsIs_def)
qed

section \<open>Properties\<close>

text \<open>
  Property C5. Whatever the workers' interleaving, the TLS adapter, the delays and the contexts
  do, the report of a batch with at least one target passes the package's own validator.
\<close>

theorem Observe_batch_valid:
  assumes "Observe_batch ob now ctx req r" "newObserver_batch cfg rt dep hasTls = Inr ob"
    and "go_context ctx" "\<not> IsZero (now 1)" "breq_Targets req \<noteq> []"
  shows "Validate_batch r = None"
  using Observe_batch_valid_lemma assms by blast

lemma Observe_batch_valid_witness:
  "\<exists>r. Observe_batch demoBatchObserver (steadyClock 1000000) background \<lparr>breq_Targets = [''1.1.1.1'']\<rparr> r \<and> Validate_batch r = None"
proof -
  obtain r where r: "Observe_batch demoBatchObserver (steadyClock 1000000) background \<lparr>breq_Targets = [''1.1.1.1'']\<rparr> r"
    using demo_Observe_batch by blast
  have "Validate_batch r = None"
    by (rule Observe_batch_valid [OF r demoBatchObserver_new background_ctx.go_context_axioms])
      (simp_all add: steadyClock_def IsZero_def)
  with r show ?thesis by blast
qed

text \<open>
  The exception: a request without targets. Copying an empty slice onto nil leaves
  nil, so the report of the rejected request is itself rejected by the validator.
\<close>

theorem Observe_batch_empty_rejected:
  "newObserver_batch cfg rt dep hasTls = Inr ob \<and> \<not> IsZero (now 1) \<longrightarrow>
   (\<exists>r. Observe_batch ob now ctx \<lparr>breq_Targets = []\<rparr> r) \<and>
   (\<forall>r. Observe_batch ob now ctx \<lparr>breq_Targets = []\<rparr> r \<longrightarrow> br_StopReason r = StopInvalidInput \<and>
      Validate_batch r = Some ''input targets and target results must encode as arrays'')"
proof (intro impI conjI allI)
  assume a: "newObserver_batch cfg rt dep hasTls = Inr ob \<and> \<not> IsZero (now 1)"
  have n: "normalizeRequest_batch \<lparr>breq_Targets = []\<rparr> = (policyInput (Some []), Some ''targets must not be empty'')"
    by (simp add: normalizeRequest_batch_def Let_def firstErr.simps guard_def)
  show "\<exists>r. Observe_batch ob now ctx \<lparr>breq_Targets = []\<rparr> r" using Observe_invalid [OF n] by blast
  fix r assume "Observe_batch ob now ctx \<lparr>breq_Targets = []\<rparr> r"
  then have r: "r = finish_batch ob (now 1) (now 0) (policyInput (Some [])) 0 []
      \<lparr>tm_status = StatusStopped, tm_reason = StopInvalidInput, tm_detail = ''targets must not be empty''\<rparr>"
    by cases (use n in simp_all)
  show "br_StopReason r = StopInvalidInput" by (simp add: r finish_batch_def)
  have "platform_ok (plat_os (bo_platform ob)) (plat_arch (bo_platform ob))"
    using a newObserver_batch_platform by blast
  then show "Validate_batch r = Some ''input targets and target results must encode as arrays''"
    using a by (simp add: r finish_batch_def Validate_batch_def firstErr.simps guard_def platform_ok_def
        policyInput_def appendToNil_def)
qed

lemma Observe_batch_empty_rejected_witness:
  "\<exists>r. Observe_batch demoBatchObserver (steadyClock 1000000) background \<lparr>breq_Targets = []\<rparr> r \<and> Validate_batch r \<noteq> None"
proof -
  have "\<not> IsZero (steadyClock 1000000 1)" by (simp add: steadyClock_def IsZero_def)
  with Observe_batch_empty_rejected [where ctx = background] demoBatchObserver_new show ?thesis by blast
qed

text \<open>
  Property C7. The bounds of the schedule: at most two workers, at most four targets, at most
  three attempts on each, and no target on two workers at once.
\<close>

theorem reach_bounds:
  assumes "reach ob inp s"
  shows "length (bs_workers s) \<le> 2 \<and> length (bs_targets s) \<le> 4 \<and>
    (\<forall>t \<in> set (bs_targets s). length (attempts t) \<le> 3) \<and>
    (\<forall>k k' i. owns s k i \<longrightarrow> owns s k' i \<longrightarrow> k = k')"
  using Inv_reach [OF assms]
  by (auto simp: Inv_def concurrencyLimit_def boundedTargets_def targetLimit_def targetOK_def attemptLimit_def in_set_conv_nth)

lemma reach_bounds_witness: "length (bs_workers (startState demoInput)) \<le> 2"
  using reach_bounds [OF reach_start [of demoBatchObserver demoInput]] by simp

text \<open>
  Property C8. Termination: the steps the workers have left never increase and go down with
  every step of a worker, so a run has at most \<open>32 * targets + 2\<close> of them.
\<close>

theorem reach_terminates:
  assumes "reach ob inp s" "schedStep ob ev s = Some s'"
  shows "(case ev of SWork k ch \<Rightarrow> workLeft s' < workLeft s | _ \<Rightarrow> workLeft s' = workLeft s) \<and>
    workLeft (startState inp) \<le> 32 * length (boundedTargets inp) + 2"
proof
  show "case ev of SWork k ch \<Rightarrow> workLeft s' < workLeft s | _ \<Rightarrow> workLeft s' = workLeft s"
    using assms workerStep_workLeft [OF assms(1)]
    by (cases ev) (auto simp: workLeft_def split: if_splits)
  show "workLeft (startState inp) \<le> 32 * length (boundedTargets inp) + 2"
    by (simp add: workLeft_def startState_def initializeTargets_def Let_def concurrencyLimit_def sum_list_replicate)
qed

lemma reach_terminates_witness:
  "\<exists>s. schedStep demoBatchObserver (SWork 0 demoChoice) (startState demoInput) = Some s \<and> workLeft s < workLeft (startState demoInput)"
proof -
  obtain s where s: "schedStep demoBatchObserver (SWork 0 demoChoice) (startState demoInput) = Some s"
    by (simp add: startState_def initializeTargets_def demo_bounded concurrencyLimit_def)
  with reach_terminates [OF reach_start s] show ?thesis by simp
qed

text \<open>
  Property C6. Completeness: when the workers have ended and nothing has ended the batch
  context, no failure is recorded and every scheduled target is completed, its last attempt
  being final or the third.
\<close>

theorem reach_completes:
  assumes "reach ob inp s" "allDone s" "bs_batch s = None"
  shows "rs_failure (bs_run s) = None \<and> map tr_DialIP (bs_targets s) = boundedTargets inp \<and>
    (\<forall>t \<in> set (bs_targets s). tr_Status t = TargetCompleted \<and> attempts t \<noteq> [] \<and>
       (length (attempts t) = 3 \<or> \<not> shouldRetry (att_Observation (last (attempts t)))))"
proof -
  note dn = reach_done [OF assms(1,2)]
  have "\<not> (\<exists>i. WCancel i \<in> set (bs_workers s))" using assms(2) by (auto simp: allDone_def list_all_iff)
  with reach_failure_cancels [OF assms(1)] assms(3) have f: "rs_failure (bs_run s) = None" by blast
  with assms(3) have "\<not> stopped s" by (simp add: stopped_def)
  with dn(3) have st: "i < length (bs_targets s) \<Longrightarrow> settled False (bs_targets s ! i)" for i using dn(1) by simp
  have "map tr_DialIP (bs_targets s) = boundedTargets inp"
    using dn(1,2) by (intro nth_equalityI) (auto simp: targetOK_def)
  moreover have "settled False t" if "t \<in> set (bs_targets s)" for t
    using that st by (auto simp: in_set_conv_nth)
  ultimately show ?thesis
    using f by (simp add: settled_False attemptLimit_def)
qed

lemma reach_completes_witness:
  "\<exists>s. reach demoBatchObserver demoInput s \<and> map tr_Status (bs_targets s) = [TargetCompleted]"
proof -
  obtain s where s: "runSched demoBatchObserver (replicate 8 (SWork 0 demoChoice)) (startState demoInput) = Some s"
    "allDone s" "bs_batch s = None"
    using demo_run by blast
  note r = runSched_reach [OF reach_start s(1)]
  have "map tr_DialIP (bs_targets s) = [''1.1.1.1'']" "\<forall>t \<in> set (bs_targets s). tr_Status t = TargetCompleted"
    using reach_completes [OF r s(2,3)] by (simp_all add: demo_bounded)
  with r show ?thesis by (cases "bs_targets s") (auto simp: map_eq_Cons_conv)
qed

text \<open>
  The first recorded failure stays: no later step, of any worker, replaces it.
\<close>

theorem schedStep_first_failure:
  assumes "schedStep ob ev s = Some s'" "rs_failure (bs_run s) = Some f"
  shows "rs_failure (bs_run s') = Some f"
proof -
  have move: "rs_failure (bs_run (moveWorker ob ch k i s)) = Some f" for ch k i
  proof -
    obtain at' t' st' cancel where step:
      "runTargetStep ob ch (bs_batch s) (bs_workers s ! k) (bs_targets s ! i) (bs_run s) = (at', t', st', cancel)"
      by (metis prod_cases4)
    with runTargetStep_grows [OF step] assms(2) show ?thesis by (simp add: moveWorker_def grows_def)
  qed
  show ?thesis
  proof (cases ev)
    case (SWork k ch)
    with assms move show ?thesis
      by (cases "bs_workers s ! k") (auto simp: workerStep_def split: list.splits if_splits)
  qed (use assms in \<open>auto split: if_splits\<close>)
qed

lemma schedStep_first_failure_witness:
  "\<exists>s'. schedStep demoBatchObserver SDeadline ((startState demoInput)\<lparr>bs_run := failRun StopSchedulerFailure ''x'' \<lparr>rs_failure = None, rs_source = None\<rparr>\<rparr>) = Some s' \<and>
     rs_failure (bs_run s') = Some (StopSchedulerFailure, ''x'')"
proof -
  let ?s = "(startState demoInput)\<lparr>bs_run := failRun StopSchedulerFailure ''x'' \<lparr>rs_failure = None, rs_source = None\<rparr>\<rparr>"
  obtain s' where s': "schedStep demoBatchObserver SDeadline ?s = Some s'" by (simp add: startState_def Let_def)
  moreover have "rs_failure (bs_run s') = Some (StopSchedulerFailure, ''x'')"
    by (rule schedStep_first_failure [OF s']) (simp add: failRun_def)
  ultimately show ?thesis by blast
qed

text \<open>
  The package's own TLS observer never makes the batch report invalid evidence:
  in a well-behaved environment every observation of an accepted target is accepted, whether it
  is the first of the batch or a later one.
\<close>

theorem validateObservation_production:
  assumes "tlsEnvironment os arch (w, tls)" "NormalizePublicIP v = (tx, ip, None)"
    and "bo_platform ob = \<lparr>plat_os = os, plat_arch = arch\<rparr>" "tr_DialIP t = tx"
    and "rs_source st = None \<or> rs_source st = Some (ob_source tls)"
  shows "snd (validateObservation ob (Observe_tls w tls \<lparr>req_DialIP = tx\<rparr>) t st) = None"
proof -
  have "ob_source tls = \<lparr>src_backend = ''go-stdlib-tls-direct-no-sni'', src_capability = CapabilityNative, src_reason = ''''\<rparr>"
    using assms(1) newObserver_tls_source by (auto simp: tlsEnvironment_def)
  with production_tls.adapter_accepted [OF assms(1-4), of st] assms(5) show ?thesis by simp
qed

lemma validateObservation_production_witness:
  "snd (validateObservation demoBatchObserver demoTls (hd (initializeTargets demoInput)) \<lparr>rs_failure = None, rs_source = None\<rparr>) = None"
  unfolding demoTls_def
proof (rule validateObservation_production [OF _ one_one_normal])
  show "tlsEnvironment ''linux'' ''amd64'' (demoTlsWorld background (demoCert 1000 2000), demoObserver)"
    using demoTlsWorld_ok demoTlsWorld_peers demoObserver_new
    by (auto simp: tlsEnvironment_def) (simp_all add: demoTlsWorld_def platform_ok_def)
qed (simp_all add: demoBatchObserver_def demoPlatform_def initializeTargets_def demo_bounded)

end
