(* ===== verification/GoUrl.thy ===== *)
theory GoUrl
  imports GoNet
begin

text \<open>
  Package \<open>net/url\<close> as of the Go version the module names: parsing, escaping and printing of
  URLs. A host in brackets must be an IPv6 literal, a bracket may only open the host, and a
  host without brackets has at most one colon, before its port.
\<close>

section \<open>Cutting strings\<close>

definition cutAt :: "char \<Rightarrow> string \<Rightarrow> string \<times> string \<times> bool" where
  "cutAt c s = (let a = takeWhile (\<lambda>x. x \<noteq> c) s in
     if length a < length s then (a, drop (length a + 1) s, True) else (s, [], False))"

text \<open>Before and after the last occurrence of a character.\<close>

definition cutLast :: "char \<Rightarrow> string \<Rightarrow> (string \<times> string) option" where
  "cutLast c s = (let b = rev (takeWhile (\<lambda>x. x \<noteq> c) (rev s)) in
     if length b < length s then Some (take (length s - length b - 1) s, b) else None)"

fun indexOf :: "string \<Rightarrow> string \<Rightarrow> nat option" where
  "indexOf p [] = (if p = [] then Some 0 else None)"
| "indexOf p (c # s) = (if startsWith p (c # s) then Some 0 else map_option Suc (indexOf p s))"

section \<open>Escaping\<close>

datatype encoding = encodePath | encodeUserPassword | encodeHost | encodeZone | encodeFragment

definition isAlnum :: "char \<Rightarrow> bool" where
  "isAlnum c = ((97 \<le> byte c \<and> byte c \<le> 122) \<or> (65 \<le> byte c \<and> byte c \<le> 90) \<or> (48 \<le> byte c \<and> byte c \<le> 57))"

definition hostPunct :: string where
  "hostPunct = [CHR ''!'', CHR ''$'', CHR ''&'', CHR 0x27, CHR ''('', CHR '')'', CHR ''*'', CHR ''+'', CHR '','',
     CHR '';'', CHR ''='', CHR '':'', CHR ''['', CHR '']'', CHR ''<'', CHR ''>'', CHR 0x22]"

definition shouldEscape :: "char \<Rightarrow> encoding \<Rightarrow> bool" where
  "shouldEscape c mode =
     (if isAlnum c then False
      else if (mode = encodeHost \<or> mode = encodeZone) \<and> c \<in> set hostPunct then False
      else if c \<in> set ''-_.~'' then False
      else if c \<in> set ''$&+,/:;=?@'' \<and> mode \<in> {encodePath, encodeUserPassword, encodeFragment} then
        (case mode of
           encodePath \<Rightarrow> c = CHR ''?''
         | encodeUserPassword \<Rightarrow> c \<in> set ''@/?:''
         | _ \<Rightarrow> False)
      else if mode = encodeFragment \<and> c \<in> set ''!()*'' then False
      else True)"

definition upperHexChar :: "nat \<Rightarrow> char" where
  "upperHexChar d = (if d < 10 then char_of (48 + d) else char_of (55 + d))"

definition escape :: "encoding \<Rightarrow> string \<Rightarrow> string" where
  "escape mode s = concat (map (\<lambda>c. if shouldEscape c mode
     then [CHR ''%'', upperHexChar (byte c div 16), upperHexChar (byte c mod 16)] else [c]) s)"

text \<open>
  \<open>unescape\<close>: a percent sign needs two hexadecimal digits; in a host only non-ASCII bytes and
  the percent sign itself may be escaped, in a zone only what a host may contain, a space or
  the percent sign; other ASCII in a host or a zone must not need escaping.
\<close>

fun unescape :: "encoding \<Rightarrow> string \<Rightarrow> string option" where
  "unescape mode [] = Some []"
| "unescape mode (c # s) =
     (if c = CHR ''%'' then
        (case s of
           h # l # r \<Rightarrow>
             (case (hexVal h, hexVal l) of
                (Some x, Some y) \<Rightarrow>
                  (let v = char_of (16 * x + y); pct = (h = CHR ''2'' \<and> l = CHR ''5'') in
                   if mode = encodeHost \<and> x < 8 \<and> \<not> pct then None
                   else if mode = encodeZone \<and> \<not> pct \<and> v \<noteq> CHR '' '' \<and> shouldEscape v encodeHost then None
                   else map_option (\<lambda>t. v # t) (unescape mode r))
              | _ \<Rightarrow> None)
         | _ \<Rightarrow> None)
      else if (mode = encodeHost \<or> mode = encodeZone) \<and> byte c < 128 \<and> shouldEscape c mode then None
      else map_option (\<lambda>t. c # t) (unescape mode s))"

definition validEncoded :: "encoding \<Rightarrow> string \<Rightarrow> bool" where
  "validEncoded mode s = list_all (\<lambda>c. c \<in> set hostPunct - {CHR ''<'', CHR ''>'', CHR 0x22} \<or>
     c = CHR ''@'' \<or> c = CHR ''%'' \<or> \<not> shouldEscape c mode) s"

section \<open>URLs\<close>

record url =
  u_Scheme :: string
  u_Opaque :: string
  u_User :: "(string \<times> string option) option"
  u_Host :: string
  u_Path :: string
  u_RawPath :: string
  u_OmitHost :: bool
  u_ForceQuery :: bool
  u_RawQuery :: string
  u_Fragment :: string
  u_RawFragment :: string

definition emptyURL :: url where
  "emptyURL = \<lparr>u_Scheme = '''', u_Opaque = '''', u_User = None, u_Host = '''', u_Path = '''', u_RawPath = '''',
     u_OmitHost = False, u_ForceQuery = False, u_RawQuery = '''', u_Fragment = '''', u_RawFragment = ''''\<rparr>"

definition validOptionalPort :: "string \<Rightarrow> bool" where
  "validOptionalPort p = (case p of [] \<Rightarrow> True | c # r \<Rightarrow> c = CHR '':'' \<and> list_all isDigit r)"

definition parseHost :: "string \<Rightarrow> string option" where
  "parseHost host =
     (if CHR ''['' \<in> set host then
        (if hd host \<noteq> CHR ''['' \<or> CHR ''['' \<in> set (tl host) then None
         else case cutLast (CHR '']'') (tl host) of
             None \<Rightarrow> None
           | Some (hostname, colonPort) \<Rightarrow>
               if \<not> validOptionalPort colonPort then None
               else (case (case indexOf ''%25'' hostname of
                    None \<Rightarrow> unescape encodeHost hostname
                  | Some z \<Rightarrow> (case (unescape encodeHost (take z hostname), unescape encodeZone (drop z hostname)) of
                        (Some a, Some b) \<Rightarrow> Some (a @ b)
                      | _ \<Rightarrow> None)) of
                   None \<Rightarrow> None
                 | Some name \<Rightarrow> (case ParseAddr name of
                       None \<Rightarrow> None
                     | Some addr \<Rightarrow> if Is4 addr then None else Some (''['' @ name @ '']'' @ colonPort))))
      else (let (name, port, found) = cutAt (CHR '':'') host in
        if found \<and> \<not> validOptionalPort (CHR '':'' # port) then None else unescape encodeHost host))"

definition validUserinfo :: "string \<Rightarrow> bool" where
  "validUserinfo s = list_all (\<lambda>c. isAlnum c \<or> c \<in> set ''-._:~!$&()*+,;=%@'' \<or> c = CHR 0x27) s"

definition parseAuthority :: "string \<Rightarrow> ((string \<times> string option) option \<times> string) option" where
  "parseAuthority authority = (case cutLast (CHR ''@'') authority of
      None \<Rightarrow> map_option (\<lambda>h. (None, h)) (parseHost authority)
    | Some (userinfo, host) \<Rightarrow> (case parseHost host of
        None \<Rightarrow> None
      | Some h \<Rightarrow>
          if \<not> validUserinfo userinfo then None
          else (let (name, pass, found) = cutAt (CHR '':'') userinfo in
            case (unescape encodeUserPassword name, unescape encodeUserPassword pass) of
              (Some n, Some p) \<Rightarrow> Some (Some (n, if found then Some p else None), h)
            | _ \<Rightarrow> None)))"

text \<open>\<open>getScheme\<close>: scheme and rest; no scheme if an invalid byte comes first; an error for a leading colon.\<close>

fun schemeRun :: "bool \<Rightarrow> string \<Rightarrow> string option" where
  "schemeRun start [] = None"
| "schemeRun start (c # s) =
     (if isAlnum c \<and> \<not> isDigit c then map_option (\<lambda>t. c # t) (schemeRun False s)
      else if isDigit c \<or> c \<in> set ''+-.'' then (if start then None else map_option (\<lambda>t. c # t) (schemeRun False s))
      else if c = CHR '':'' then Some []
      else None)"

definition getScheme :: "string \<Rightarrow> (string \<times> string) option" where
  "getScheme rawURL = (case rawURL of
      c # r \<Rightarrow> if c = CHR '':'' then None
        else (case schemeRun True rawURL of
            None \<Rightarrow> Some ('''', rawURL)
          | Some s \<Rightarrow> Some (s, drop (length s + 1) rawURL))
    | [] \<Rightarrow> Some ('''', rawURL))"

definition setPath :: "url \<Rightarrow> string \<Rightarrow> url option" where
  "setPath u p = (case unescape encodePath p of
      None \<Rightarrow> None
    | Some path \<Rightarrow> Some (u\<lparr>u_Path := path, u_RawPath := (if p = escape encodePath path then '''' else p)\<rparr>))"

definition setFragment :: "url \<Rightarrow> string \<Rightarrow> url option" where
  "setFragment u f = (case unescape encodeFragment f of
      None \<Rightarrow> None
    | Some frag \<Rightarrow> Some (u\<lparr>u_Fragment := frag, u_RawFragment := (if f = escape encodeFragment frag then '''' else f)\<rparr>))"

definition controlByte :: "char \<Rightarrow> bool" where
  "controlByte c = (byte c < 32 \<or> byte c = 127)"

definition parseURL :: "bool \<Rightarrow> string \<Rightarrow> url option" where
  "parseURL viaRequest rawURL =
     (if list_ex controlByte rawURL then None
      else if rawURL = '''' \<and> viaRequest then None
      else if rawURL = ''*'' then Some (emptyURL\<lparr>u_Path := ''*''\<rparr>)
      else case getScheme rawURL of
        None \<Rightarrow> None
      | Some (scheme0, rest0) \<Rightarrow>
          (let scheme = map asciiLower scheme0;
               forced = (rest0 \<noteq> [] \<and> last rest0 = CHR ''?'' \<and> CHR ''?'' \<notin> set (butlast rest0));
               (rest, query, found) = (if forced then (butlast rest0, '''', True) else cutAt (CHR ''?'') rest0);
               u = emptyURL\<lparr>u_Scheme := scheme, u_ForceQuery := forced, u_RawQuery := query\<rparr>
           in
           if \<not> startsWith ''/'' rest \<and> scheme \<noteq> '''' then Some (u\<lparr>u_Opaque := rest\<rparr>)
           else if \<not> startsWith ''/'' rest \<and> viaRequest then None
           else if \<not> startsWith ''/'' rest \<and> CHR '':'' \<in> set (fst (cutAt (CHR ''/'') rest)) then None
           else if (scheme \<noteq> '''' \<or> (\<not> viaRequest \<and> \<not> startsWith ''///'' rest)) \<and> startsWith ''//'' rest then
             (let authority = takeWhile (\<lambda>c. c \<noteq> CHR ''/'') (drop 2 rest); path = drop (2 + length authority) rest in
              case parseAuthority authority of
                None \<Rightarrow> None
              | Some (user, host) \<Rightarrow> setPath (u\<lparr>u_User := user, u_Host := host\<rparr>) path)
           else setPath (u\<lparr>u_OmitHost := (scheme \<noteq> '''' \<and> startsWith ''/'' rest)\<rparr>) rest))"

text \<open>\<open>url.Parse\<close> cuts the fragment off first; \<open>url.ParseRequestURI\<close> does not.\<close>

definition urlParse :: "string \<Rightarrow> url option" where
  "urlParse rawURL = (let (u, frag, found) = cutAt (CHR ''#'') rawURL in
     case parseURL False u of
       None \<Rightarrow> None
     | Some v \<Rightarrow> if frag = '''' then Some v else setFragment v frag)"

definition ParseRequestURI :: "string \<Rightarrow> url option" where
  "ParseRequestURI rawURL = parseURL True rawURL"

definition EscapedPath :: "url \<Rightarrow> string" where
  "EscapedPath u =
     (if u_RawPath u \<noteq> '''' \<and> validEncoded encodePath (u_RawPath u) \<and> unescape encodePath (u_RawPath u) = Some (u_Path u)
      then u_RawPath u
      else if u_Path u = ''*'' then ''*'' else escape encodePath (u_Path u))"

definition EscapedFragment :: "url \<Rightarrow> string" where
  "EscapedFragment u =
     (if u_RawFragment u \<noteq> '''' \<and> validEncoded encodeFragment (u_RawFragment u) \<and>
         unescape encodeFragment (u_RawFragment u) = Some (u_Fragment u)
      then u_RawFragment u else escape encodeFragment (u_Fragment u))"

definition userString :: "(string \<times> string option) option \<Rightarrow> string" where
  "userString user = (case user of None \<Rightarrow> ''''
    | Some (n, p) \<Rightarrow> escape encodeUserPassword n @
        (case p of None \<Rightarrow> '''' | Some w \<Rightarrow> '':'' @ escape encodeUserPassword w) @ ''@'')"

definition urlString :: "url \<Rightarrow> string" where
  "urlString u =
     (let scheme = (if u_Scheme u = '''' then '''' else u_Scheme u @ '':'');
          body = (if u_Opaque u \<noteq> '''' then scheme @ u_Opaque u
            else (let auth = (if u_Scheme u = '''' \<and> u_Host u = '''' \<and> u_User u = None then ''''
                      else if u_OmitHost u \<and> u_Host u = '''' \<and> u_User u = None then ''''
                      else (if u_Host u \<noteq> '''' \<or> u_Path u \<noteq> '''' \<or> u_User u \<noteq> None then ''//'' else '''') @
                        userString (u_User u) @ escape encodeHost (u_Host u));
                      path = EscapedPath u;
                      slash = (if path \<noteq> '''' \<and> hd path \<noteq> CHR ''/'' \<and> u_Host u \<noteq> '''' then ''/'' else '''');
                      front = scheme @ auth @ slash;
                      dot = (if front = '''' \<and> CHR '':'' \<in> set (fst (cutAt (CHR ''/'') path)) then ''./'' else '''')
                  in front @ dot @ path))
      in body @ (if u_ForceQuery u \<or> u_RawQuery u \<noteq> '''' then ''?'' @ u_RawQuery u else '''') @
         (if u_Fragment u \<noteq> '''' then ''#'' @ EscapedFragment u else ''''))"

text \<open>\<open>Hostname\<close> and \<open>Port\<close> split the host at its last colon if a port follows.\<close>

definition splitHostPort :: "string \<Rightarrow> string \<times> string" where
  "splitHostPort hostPort =
     (let (host, port) = (case cutLast (CHR '':'') hostPort of
            None \<Rightarrow> (hostPort, '''')
          | Some (h, p) \<Rightarrow> if validOptionalPort (CHR '':'' # p) then (h, p) else (hostPort, ''''))
      in (if 2 \<le> length host \<and> hd host = CHR ''['' \<and> last host = CHR '']'' then butlast (tl host) else host, port))"

definition Hostname :: "url \<Rightarrow> string" where "Hostname u = fst (splitHostPort (u_Host u))"
definition urlPort :: "url \<Rightarrow> string" where "urlPort u = snd (splitHostPort (u_Host u))"

definition IsAbs :: "url \<Rightarrow> bool" where "IsAbs u = (u_Scheme u \<noteq> '''')"

end
