(* ===== verification/GoHttp.thy ===== *)
theory GoHttp
  imports GoUrl
begin

text \<open>
  Packages \<open>net\<close>, \<open>io\<close> and \<open>mime\<close> as the DNS observation uses them: joining and splitting
  host and port, reading a stream in full, writing through a short-writing writer, and the
  media type of a \<open>Content-Type\<close> header.
\<close>

section \<open>Host and port\<close>

text \<open>\<open>net.JoinHostPort\<close> brackets a host with a colon.\<close>

definition JoinHostPort :: "string \<Rightarrow> string \<Rightarrow> string" where
  "JoinHostPort host port =
     (if CHR '':'' \<in> set host then ''['' @ host @ '']:'' @ port else host @ '':'' @ port)"

text \<open>
  \<open>net.SplitHostPort\<close>: the last colon ends the host; a bracketed host ends at its first closing
  bracket, which that colon must follow; a bare host has no other colon, and no further bracket
  may occur.
\<close>

definition SplitHostPort :: "string \<Rightarrow> (string \<times> string) option" where
  "SplitHostPort hostport = (case cutLast (CHR '':'') hostport of
      None \<Rightarrow> None
    | Some (before, port) \<Rightarrow>
        if startsWith ''['' hostport then
          (let (inside, rest, found) = cutAt (CHR '']'') hostport in
           if \<not> found \<or> length inside + 1 \<noteq> length before \<or> CHR ''['' \<in> set (tl hostport) \<or> CHR '']'' \<in> set rest
           then None else Some (tl inside, port))
        else if CHR '':'' \<in> set before \<or> CHR ''['' \<in> set hostport \<or> CHR '']'' \<in> set hostport then None
        else Some (before, port))"

section \<open>Streams\<close>

text \<open>A stream is the bytes still to come and the error it ends with (\<open>io.EOF\<close> for a closed peer).\<close>

type_synonym stream = "bytes \<times> goerr"

definition EOFErr :: goerr where
  "EOFErr = \<lparr>err_text = ''EOF'', err_chain = [SEOF], err_timeout = False\<rparr>"

definition UnexpectedEOFErr :: goerr where
  "UnexpectedEOFErr = \<lparr>err_text = ''unexpected EOF'', err_chain = [SUnexpectedEOF], err_timeout = False\<rparr>"

definition ShortWriteErr :: goerr where
  "ShortWriteErr = plainErr ''short write''"

text \<open>\<open>io.ReadFull\<close> of n bytes; \<open>io.ReadAll\<close> of at most n bytes.\<close>

definition readFull :: "nat \<Rightarrow> stream \<Rightarrow> goerr + bytes \<times> stream" where
  "readFull n s = (case s of (bs, e) \<Rightarrow>
     if n \<le> length bs then Inr (take n bs, (drop n bs, e))
     else Inl (if e = EOFErr \<and> bs \<noteq> [] then UnexpectedEOFErr else e))"

definition readAllLimited :: "nat \<Rightarrow> stream \<Rightarrow> goerr + bytes" where
  "readAllLimited n s = (case s of (bs, e) \<Rightarrow>
     if n \<le> length bs then Inr (take n bs) else if e = EOFErr then Inr bs else Inl e)"

section \<open>Media types\<close>

definition isTSpecial :: "char \<Rightarrow> bool" where
  "isTSpecial c = (c \<in> set ''()<>@,;:/[]?='' \<or> byte c = 92 \<or> byte c = 34)"

definition isTokenChar :: "char \<Rightarrow> bool" where
  "isTokenChar c = (32 < byte c \<and> byte c < 127 \<and> \<not> isTSpecial c)"

definition consumeToken :: "string \<Rightarrow> string \<times> string" where
  "consumeToken v = (takeWhile isTokenChar v, dropWhile isTokenChar v)"

fun quotedString :: "string \<Rightarrow> (string \<times> string) option" where
  "quotedString [] = None"
| "quotedString (c # s) =
     (if byte c = 34 then Some ([], s)
      else if byte c = 92 \<and> s \<noteq> [] \<and> isTSpecial (hd s) then
        map_option (\<lambda>(v, r). (hd s # v, r)) (quotedString (tl s))
      else if byte c = 13 \<or> byte c = 10 then None
      else map_option (\<lambda>(v, r). (c # v, r)) (quotedString s))"

definition consumeValue :: "string \<Rightarrow> string \<times> string" where
  "consumeValue v = (case v of
      [] \<Rightarrow> ([], [])
    | c # s \<Rightarrow> if byte c \<noteq> 34 then consumeToken v
        else (case quotedString s of None \<Rightarrow> ([], v) | Some p \<Rightarrow> p))"

definition consumeMediaParam :: "string \<Rightarrow> (string \<times> string \<times> string) option" where
  "consumeMediaParam v =
     (let r1 = trimLeft v in
      if \<not> startsWith '';'' r1 then None
      else (let (param, r2) = consumeToken (trimLeft (tl r1)); r3 = trimLeft r2 in
        if param = '''' \<or> \<not> startsWith ''='' r3 then None
        else (let r4 = trimLeft (tl r3); (val, rest) = consumeValue r4 in
          if val = '''' \<and> rest = r4 then None else Some (map asciiLower param, val, rest))))"

lemma trimLeft_length: "length (trimLeft s) \<le> length s"
  using stripPrefixes_suffix [of spaceEncodings s] by (auto simp: trimLeft_def)

lemma quotedString_length: "quotedString s = Some (v, r) \<Longrightarrow> length r \<le> length s"
proof (induction s arbitrary: v r rule: quotedString.induct)
  case (2 c s)
  then show ?case by (force split: if_splits)
qed simp

lemma consumeValue_length: "length (snd (consumeValue v)) \<le> length v"
  using quotedString_length by (fastforce simp: consumeValue_def consumeToken_def length_dropWhile_le
      split: list.split option.split intro: le_SucI)

lemma consumeMediaParam_length: "consumeMediaParam v = Some (k, w, r) \<Longrightarrow> length r < length v"
proof -
  assume a: "consumeMediaParam v = Some (k, w, r)"
  obtain p r2 where t: "consumeToken (trimLeft (tl (trimLeft v))) = (p, r2)" by fastforce
  let ?r4 = "trimLeft (tl (trimLeft r2))"
  have "startsWith '';'' (trimLeft v)" and r: "r = snd (consumeValue ?r4)"
    using a t by (auto simp: consumeMediaParam_def Let_def split: if_splits prod.splits)
  then have "length (tl (trimLeft v)) < length (trimLeft v)"
    by (cases "trimLeft v") (auto simp: startsWith_def)
  moreover have "length r2 \<le> length (trimLeft (tl (trimLeft v)))"
    using t by (auto simp: consumeToken_def length_dropWhile_le)
  moreover have "length (snd (consumeValue ?r4)) \<le> length r2"
    using consumeValue_length [of ?r4] trimLeft_length [of "tl (trimLeft r2)"] trimLeft_length [of r2] by simp
  ultimately show ?thesis
    unfolding r using trimLeft_length [of v] trimLeft_length [of "tl (trimLeft v)"] by linarith
qed

text \<open>The parameters: \<open>False\<close> for an invalid one or two values under one name.\<close>

function mediaParams :: "string \<Rightarrow> (string \<rightharpoonup> string) \<Rightarrow> bool" where
  "mediaParams v0 params =
     (let v = trimLeft v0 in
      if v = [] then True
      else case consumeMediaParam v of
          None \<Rightarrow> TrimSpace v = '';''
        | Some (key, val, rest) \<Rightarrow>
            if params key \<noteq> None \<and> params key \<noteq> Some val then False
            else mediaParams rest (params(key \<mapsto> val)))"
  by pat_completeness auto
termination
  using consumeMediaParam_length trimLeft_length
  by (relation "measure (\<lambda>(v, params). length v)") (auto dest!: consumeMediaParam_length intro: less_le_trans)

declare mediaParams.simps [simp del]

definition checkMediaType :: "string \<Rightarrow> bool" where
  "checkMediaType s =
     (let (typ, rest) = consumeToken s in
      if typ = '''' then False
      else if rest = '''' then True
      else if \<not> startsWith ''/'' rest then False
      else (let (subtype, rest2) = consumeToken (tl rest) in subtype \<noteq> '''' \<and> rest2 = ''''))"

definition ParseMediaType :: "'a unitab_scheme \<Rightarrow> string \<Rightarrow> string option" where
  "ParseMediaType u v =
     (let base = takeWhile (\<lambda>c. c \<noteq> CHR '';'') v; mediatype = TrimSpace (ToLower u base) in
      if checkMediaType mediatype \<and> mediaParams (drop (length base) v) (\<lambda>k. None) then Some mediatype else None)"

end
