(* ===== verification/DnsTypes.thy ===== *)
theory DnsTypes
  imports GoHttp
begin

text \<open>
  Package \<open>internal/dnsobservation\<close>, \<open>observation.go\<close>: the data of one controlled DNS
  exchange and the configuration of an observer. \<open>newObserver_dns\<close> is \<open>newObserver\<close>; the
  clock, the random source and the root certificates of its dependencies belong to the
  environment of a run.
\<close>

section \<open>Types\<close>

abbreviation ProbeKind_dns :: Kind where "ProbeKind_dns \<equiv> KindDNSObservation"

definition FailureDNSTransport :: FailureCode where "FailureDNSTransport = FailureOf ''dns_transport_failure''"
definition FailureDNSProtocol :: FailureCode where "FailureDNSProtocol = FailureOf ''dns_protocol_failure''"
definition FailureDoHRule :: FailureCode where "FailureDoHRule = FailureOf ''doh_rule_failure''"

lemmas dns_codes = FailureDNSTransport_def FailureDNSProtocol_def FailureDoHRule_def

definition defaultTimeout_dns :: int where "defaultTimeout_dns = 3 * Second"
definition maximumTimeout_dns :: int where "maximumTimeout_dns = 30 * Second"
definition maxDNSMessageBytes :: nat where "maxDNSMessageBytes = 65535"
definition maxResponseRecords :: nat where "maxResponseRecords = 128"
definition dnsPort :: nat where "dnsPort = 53"

definition ipv4LimitedBroadcast :: Addr where
  "ipv4LimitedBroadcast = AddrFrom4 (255, 255, 255, 255)"

type_synonym ResolverID = string

datatype Transport = TransportUDP | TransportTCP | TransportDoH | TransportOther string

datatype QueryType =
  QueryTypeA | QueryTypeAAAA | QueryTypeCNAME | QueryTypeSVCB | QueryTypeHTTPS | QueryTypeOther string

record ResolverEndpoint =
  rep_ID :: ResolverID
  rep_WireIP :: Addr
  rep_DoHURL :: string
  rep_DoHBootstrap :: Addr

record DnsConfig =
  dcfg_Resolvers :: "ResolverEndpoint list"
  dcfg_Timeout :: int

record DnsRequest =
  dreq_Hostname :: string
  dreq_QueryType :: QueryType
  dreq_Resolver :: ResolverID
  dreq_Transport :: Transport

record ResolverInput =
  ri_ID :: ResolverID
  ri_Endpoint :: string

record DnsInput =
  din_Hostname :: string
  din_QueryType :: QueryType
  din_Class :: string
  din_Resolver :: ResolverInput
  din_Transport :: Transport

datatype AnswerKind =
    AnswerKindAnswer
  | AnswerKindNoData
  | AnswerKindNameError
  | AnswerKindReferral
  | AnswerKindRCodeError
  | AnswerKindIncomplete
  | AnswerKindOther string

record ResponseCode =
  rc_Code :: "16 word"
  rc_Name :: string

record ResponseFlags =
  rf_Authoritative :: bool
  rf_Truncated :: bool
  rf_RecursionDesired :: bool
  rf_RecursionAvailable :: bool
  rf_AuthenticatedData :: bool
  rf_CheckingDisabled :: bool

datatype IPFamily = IPFamilyIPv4 | IPFamilyIPv6 | IPFamilyOther string

abbreviation IPFamilyNone :: IPFamily where "IPFamilyNone \<equiv> IPFamilyOther ''''"

datatype ServiceBindingMode = ServiceBindingAlias | ServiceBindingService | ServiceBindingModeOther string

record ServiceParameter =
  sp_Key :: "16 word"
  sp_Name :: string
  sp_ValueHex :: string

record ServiceBinding =
  sb_Priority :: "16 word"
  sb_Target :: string
  sb_Mode :: ServiceBindingMode
  sb_Params :: "ServiceParameter list option"

record Record =
  rec_Name :: string
  rec_Type :: QueryType
  rec_TTL :: "32 word"
  rec_Address :: string
  rec_Family :: IPFamily
  rec_Target :: string
  rec_Service :: "ServiceBinding option"

record SOARecord =
  soa_Name :: string
  soa_TTL :: "32 word"
  soa_NS :: string
  soa_Mailbox :: string
  soa_Serial :: "32 word"
  soa_Refresh :: "32 word"
  soa_Retry :: "32 word"
  soa_Expire :: "32 word"
  soa_MinTTL :: "32 word"

record NSRecord =
  ns_Name :: string
  ns_TTL :: "32 word"
  ns_Target :: string

record DnsEvidence =
  dev_RCode :: ResponseCode
  dev_Flags :: ResponseFlags
  dev_AnswerKind :: AnswerKind
  dev_EffectiveName :: string
  dev_Records :: "Record list"
  dev_NegativeSOA :: "SOARecord option"
  dev_AuthorityNS :: "NSRecord list"
  dev_ResponseBytes :: int
  dev_RemoteEndpoint :: string
  dev_DoHStatus :: int

type_synonym DnsResult = "(DnsInput, DnsEvidence) Envelope"

section \<open>Endpoints\<close>

datatype endpointKind = endpointWire | endpointDoH

text \<open>A wire endpoint has no URL (nil in the code) and no bootstrap address; nothing reads them.\<close>

record configuredEndpoint =
  ce_id :: ResolverID
  ce_kind :: endpointKind
  ce_wireIP :: Addr
  ce_dohURL :: url
  ce_bootstrap :: Addr

definition isUnsupportedResolverAddress :: "Addr \<Rightarrow> bool" where
  "isUnsupportedResolverAddress address0 =
     (let address = Unmap address0 in
      IsUnspecified address \<or> IsMulticast address \<or> address = ipv4LimitedBroadcast)"

definition dohPort :: "url \<Rightarrow> error + string" where
  "dohPort u =
     (let port = urlPort u in
      if port = '''' then Inr ''443''
      else case ParseUint16 port of
          None \<Rightarrow> Inl ''DoH URL has invalid port''
        | Some parsed \<Rightarrow>
            if parsed = 0 then Inl ''DoH URL has invalid port''
            else if fmtDec parsed \<noteq> port then Inl ''DoH URL has non-canonical port''
            else Inr port)"

definition parseDoHEndpointURL :: "string \<Rightarrow> error + url" where
  "parseDoHEndpointURL v = (case urlParse v of
      None \<Rightarrow> Inl ''parse URL: invalid URL''
    | Some u \<Rightarrow>
        if u_Scheme u \<noteq> ''https'' \<or> u_Host u = '''' \<or> Hostname u = '''' then Inl ''requires an absolute HTTPS URL''
        else if u_User u \<noteq> None \<or> u_Fragment u \<noteq> '''' \<or> u_RawQuery u \<noteq> ''''
          then Inl ''URL must not contain credentials, query, or fragment''
        else (case dohPort u of Inl e \<Rightarrow> Inl e | Inr _ \<Rightarrow> Inr u))"

definition normalizeEndpoint :: "ResolverEndpoint \<Rightarrow> error + configuredEndpoint" where
  "normalizeEndpoint candidate =
     (let id = TrimSpace (rep_ID candidate);
          hasWire = IsValid (rep_WireIP candidate);
          hasDoH = (TrimSpace (rep_DoHURL candidate) \<noteq> '''' \<or> IsValid (rep_DoHBootstrap candidate)) in
      if id = '''' then Inl ''resolver id must not be empty''
      else if hasWire = hasDoH then Inl ''resolver must define exactly one wire or DoH endpoint''
      else if hasWire then
        (let ip = Unmap (rep_WireIP candidate) in
         if isUnsupportedResolverAddress ip then Inl ''wire resolver has unsupported IP''
         else Inr \<lparr>ce_id = id, ce_kind = endpointWire, ce_wireIP = ip,
                   ce_dohURL = emptyURL, ce_bootstrap = AddrInvalid\<rparr>)
      else if \<not> IsValid (rep_DoHBootstrap candidate) then Inl ''DoH resolver requires a bootstrap IP''
      else (let bootstrap = Unmap (rep_DoHBootstrap candidate) in
        if isUnsupportedResolverAddress bootstrap then Inl ''DoH resolver has unsupported bootstrap IP''
        else case parseDoHEndpointURL (rep_DoHURL candidate) of
            Inl e \<Rightarrow> Inl (''DoH resolver: '' @ e)
          | Inr u \<Rightarrow> Inr \<lparr>ce_id = id, ce_kind = endpointDoH, ce_wireIP = AddrInvalid,
                           ce_dohURL = u, ce_bootstrap = bootstrap\<rparr>))"

definition input_dns :: "configuredEndpoint \<Rightarrow> Transport \<Rightarrow> nat \<Rightarrow> ResolverInput" where
  "input_dns e transport wirePort =
     \<lparr>ri_ID = ce_id e,
      ri_Endpoint = (case ce_kind e of
         endpointWire \<Rightarrow> AddrPortString (ce_wireIP e, wirePort)
       | endpointDoH \<Rightarrow> urlString (ce_dohURL e))\<rparr>"

section \<open>New\<close>

record DnsObserver =
  dob_endpoints :: "ResolverID \<rightharpoonup> configuredEndpoint"
  dob_timeout :: int
  dob_wirePort :: nat
  dob_source :: Source

fun addEndpoints :: "(ResolverID \<rightharpoonup> configuredEndpoint) \<Rightarrow> ResolverEndpoint list \<Rightarrow>
    error + (ResolverID \<rightharpoonup> configuredEndpoint)" where
  "addEndpoints endpoints [] = Inr endpoints"
| "addEndpoints endpoints (candidate # rest) = (case normalizeEndpoint candidate of
      Inl e \<Rightarrow> Inl (''resolver: '' @ e)
    | Inr endpoint \<Rightarrow>
        if endpoints (ce_id endpoint) \<noteq> None then Inl ''resolver id is duplicated''
        else addEndpoints (endpoints(ce_id endpoint \<mapsto> endpoint)) rest)"

definition newObserver_dns :: "DnsConfig \<Rightarrow> nat \<Rightarrow> error + DnsObserver" where
  "newObserver_dns config wirePort =
     (let timeout = (if dcfg_Timeout config = 0 then defaultTimeout_dns else dcfg_Timeout config) in
      if timeout < 0 \<or> maximumTimeout_dns < timeout then Inl ''timeout must be between zero and 30s''
      else if dcfg_Resolvers config = [] then Inl ''at least one resolver endpoint is required''
      else case addEndpoints (\<lambda>_. None) (dcfg_Resolvers config) of
          Inl e \<Rightarrow> Inl e
        | Inr endpoints \<Rightarrow> Inr \<lparr>dob_endpoints = endpoints, dob_timeout = timeout,
            dob_wirePort = (if wirePort = 0 then dnsPort else wirePort),
            dob_source = \<lparr>src_backend = ''golang.org/x/net/dns/dnsmessage'',
              src_capability = CapabilityNative, src_reason = ''''\<rparr>\<rparr>)"

definition New_dns :: "DnsConfig \<Rightarrow> error + DnsObserver" where
  "New_dns config = newObserver_dns config dnsPort"

end
