(* ===== verification/DnsMessage.thy ===== *)
theory DnsMessage
  imports DnsTypes
begin

text \<open>
  Package \<open>internal/dnsobservation\<close>, \<open>message.go\<close>: the request, the query, the decoded
  response and its evidence. The wire codec \<open>golang.org/x/net/dns/dnsmessage\<close> is third-party
  code and is the parameter \<open>dnslib\<close>: what a parser yields for a message is its header and,
  per section, the entries before the section ends, with the error it ends with if any.
\<close>

section \<open>The wire codec\<close>

text \<open>A name is what its \<open>String\<close> method renders.\<close>

type_synonym dnsName = string
type_synonym dnsType = "16 word"

record Question =
  qu_Name :: dnsName
  qu_Type :: dnsType
  qu_Class :: "16 word"

record QueryMessage =
  qm_ID :: "16 word"
  qm_RecursionDesired :: bool
  qm_Questions :: "Question list"

record DnsHeader =
  hd_ID :: "16 word"
  hd_Response :: bool
  hd_OpCode :: "16 word"
  hd_Authoritative :: bool
  hd_Truncated :: bool
  hd_RecursionDesired :: bool
  hd_RecursionAvailable :: bool
  hd_AuthenticData :: bool
  hd_CheckingDisabled :: bool
  hd_RCode :: "16 word"

record ResourceHeader =
  rh_Name :: dnsName
  rh_Type :: dnsType
  rh_Class :: "16 word"
  rh_TTL :: "32 word"

type_synonym SVCParam = "16 word \<times> bytes"

datatype ResourceBody =
    AResource "octet \<times> octet \<times> octet \<times> octet"
  | AAAAResource "hextet \<times> hextet \<times> hextet \<times> hextet \<times> hextet \<times> hextet \<times> hextet \<times> hextet"
  | CNAMEResource dnsName
  | SVCBResource "16 word" dnsName "SVCParam list"
  | HTTPSResource "16 word" dnsName "SVCParam list"
  | SOAResource dnsName dnsName "32 word" "32 word" "32 word" "32 word" "32 word"
  | NSResource dnsName
  | OtherResource

record Resource =
  rs_Header :: ResourceHeader
  rs_Body :: ResourceBody

text \<open>The entries of a section, and the error other than \<open>ErrSectionDone\<close> it ends with.\<close>

type_synonym 'a entries = "'a list \<times> error option"

record Sections =
  sec_Questions :: "Question entries"
  sec_Answers :: "Resource entries"
  sec_Authorities :: "Resource entries"
  sec_Additionals :: "Resource entries"

record dnslib =
  dl_NewName :: "string \<Rightarrow> error + dnsName"
  dl_Pack :: "QueryMessage \<Rightarrow> error + bytes"
  dl_Start :: "bytes \<Rightarrow> error + DnsHeader \<times> Sections"
  dl_ExtendedRCode :: "ResourceHeader \<Rightarrow> 16 word \<Rightarrow> 16 word"

text \<open>Assigned numbers.\<close>

definition TypeA :: dnsType where "TypeA = 1"
definition TypeCNAME :: dnsType where "TypeCNAME = 5"
definition TypeAAAA :: dnsType where "TypeAAAA = 28"
definition TypeOPT :: dnsType where "TypeOPT = 41"
definition TypeSVCB :: dnsType where "TypeSVCB = 64"
definition TypeHTTPS :: dnsType where "TypeHTTPS = 65"
definition ClassINET :: "16 word" where "ClassINET = 1"

definition RCodeSuccess :: "16 word" where "RCodeSuccess = 0"
definition RCodeNameError :: "16 word" where "RCodeNameError = 3"

section \<open>Requests\<close>

definition dnsClassIN :: string where "dnsClassIN = ''IN''"

fun Transport_valid :: "Transport \<Rightarrow> bool" where
  "Transport_valid t = (t = TransportUDP \<or> t = TransportTCP \<or> t = TransportDoH)"

fun QueryType_valid :: "QueryType \<Rightarrow> bool" where
  "QueryType_valid q = (q = QueryTypeA \<or> q = QueryTypeAAAA \<or> q = QueryTypeCNAME \<or> q = QueryTypeSVCB \<or>
     q = QueryTypeHTTPS)"

fun AnswerKind_valid :: "AnswerKind \<Rightarrow> bool" where
  "AnswerKind_valid k = (case k of AnswerKindOther _ \<Rightarrow> False | _ \<Rightarrow> True)"

fun wireQueryType :: "QueryType \<Rightarrow> error + dnsType" where
  "wireQueryType QueryTypeA = Inr TypeA"
| "wireQueryType QueryTypeAAAA = Inr TypeAAAA"
| "wireQueryType QueryTypeCNAME = Inr TypeCNAME"
| "wireQueryType QueryTypeSVCB = Inr TypeSVCB"
| "wireQueryType QueryTypeHTTPS = Inr TypeHTTPS"
| "wireQueryType (QueryTypeOther x) = Inl ''unsupported DNS query type''"

definition buildQuery :: "dnslib \<Rightarrow> 16 word \<Rightarrow> dnsName \<Rightarrow> dnsType \<Rightarrow> error + bytes" where
  "buildQuery L ident name qtype = dl_Pack L \<lparr>qm_ID = ident, qm_RecursionDesired = True,
     qm_Questions = [\<lparr>qu_Name = name, qu_Type = qtype, qu_Class = ClassINET\<rparr>]\<rparr>"

text \<open>The minimal question packed to have the codec check the labels of a name.\<close>

definition probeMessage :: "dnsName \<Rightarrow> QueryMessage" where
  "probeMessage name = \<lparr>qm_ID = 0, qm_RecursionDesired = False,
     qm_Questions = [\<lparr>qu_Name = name, qu_Type = TypeA, qu_Class = ClassINET\<rparr>]\<rparr>"

definition hostnameText_dns :: "'a unitab_scheme \<Rightarrow> string \<Rightarrow> string" where
  "hostnameText_dns u v = TrimSuffixDot (ToLower u (TrimSpace v))"

definition hostnameErr_dns :: "string \<Rightarrow> error option" where
  "hostnameErr_dns hostname = firstErr [
     guard (hostname = '''') ''hostname must not be empty'',
     guard (ParseAddr hostname \<noteq> None) ''IP literals are not DNS observation hostnames'',
     guard (ContainsAny hostname hostnameReserved \<or> hasSpaceRune hostname)
       ''hostname must not include a scheme, port, path, or whitespace'',
     guard (\<not> list_all (\<lambda>r. r \<le> 127 \<and> 33 \<le> r) (runes hostname)) ''hostname must be normalized ASCII'']"

definition normalizeHostname_dns :: "'a unitab_scheme \<Rightarrow> dnslib \<Rightarrow> string \<Rightarrow>
    string \<times> dnsName \<times> error option" where
  "normalizeHostname_dns u L v =
     (let hostname = hostnameText_dns u v in
      case hostnameErr_dns hostname of
        Some e \<Rightarrow> (hostname, '''', Some e)
      | None \<Rightarrow> (case dl_NewName L (hostname @ ''.'') of
            Inl e \<Rightarrow> (hostname, '''', Some (''create DNS name: '' @ e))
          | Inr name \<Rightarrow> (case dl_Pack L (probeMessage name) of
                Inl e \<Rightarrow> (hostname, '''', Some (''invalid DNS hostname: '' @ e))
              | Inr _ \<Rightarrow> (hostname, name, None))))"

definition normalizeRequest_dns :: "'a unitab_scheme \<Rightarrow> dnslib \<Rightarrow> DnsRequest \<Rightarrow>
    DnsInput \<times> dnsName \<times> dnsType \<times> error option" where
  "normalizeRequest_dns u L request =
     (let (hostname, name, err) = normalizeHostname_dns u L (dreq_Hostname request);
          inp = \<lparr>din_Hostname = hostname, din_QueryType = dreq_QueryType request, din_Class = dnsClassIN,
                 din_Resolver = \<lparr>ri_ID = TrimSpace (dreq_Resolver request), ri_Endpoint = ''''\<rparr>,
                 din_Transport = dreq_Transport request\<rparr> in
      if err \<noteq> None then (inp, '''', 0, err)
      else case wireQueryType (dreq_QueryType request) of
          Inl e \<Rightarrow> (inp, '''', 0, Some e)
        | Inr qtype \<Rightarrow>
            if \<not> Transport_valid (dreq_Transport request) then (inp, '''', 0, Some ''unsupported DNS transport'')
            else if ri_ID (din_Resolver inp) = '''' then (inp, '''', 0, Some ''resolver id must not be empty'')
            else (inp, name, qtype, None))"

section \<open>decodeResponse\<close>

record expectedResponse =
  ex_id :: "16 word"
  ex_name :: dnsName
  ex_qtype :: dnsType

record parsedResponse =
  pr_header :: DnsHeader
  pr_answers :: "Resource list"
  pr_authorities :: "Resource list"
  pr_additionals :: "Resource list"
  pr_bodyComplete :: bool

definition validateResponseIdentity :: "'a unitab_scheme \<Rightarrow> DnsHeader \<Rightarrow> Question list \<Rightarrow>
    expectedResponse \<Rightarrow> error option" where
  "validateResponseIdentity u header questions expected = firstErr [
     guard (\<not> hd_Response header) ''DNS message is not a response'',
     guard (hd_OpCode header \<noteq> 0) ''DNS response opcode is not QUERY'',
     guard (hd_ID header \<noteq> ex_id expected) ''DNS response id does not match'',
     guard (length questions \<noteq> 1) ''DNS response must have one question'',
     (case questions of
        [] \<Rightarrow> Some ''panic: index out of range''
      | question # _ \<Rightarrow>
          guard (\<not> EqualFold u (qu_Name question) (ex_name expected) \<or> qu_Type question \<noteq> ex_qtype expected \<or>
              qu_Class question \<noteq> ClassINET)
            ''DNS response question does not match the request'')]"

text \<open>Reading the questions stops with an error at the second one.\<close>

fun readQuestions :: "nat \<Rightarrow> Question list \<Rightarrow> error option \<Rightarrow> error option" where
  "readQuestions n [] end_err = map_option (\<lambda>e. ''parse DNS question: '' @ e) end_err"
| "readQuestions n (q # qs) end_err =
     (if 1 < n + 1 then Some ''DNS response must contain exactly one question''
      else readQuestions (n + 1) qs end_err)"

text \<open>
  \<open>parseSection\<close>: the records so far are counted across sections. The answer is an error, or
  the entries read, whether the section is complete, and the new count.
\<close>

fun parseSection :: "Resource list \<Rightarrow> error option \<Rightarrow> bool \<Rightarrow> nat \<Rightarrow>
    error + Resource list \<times> bool \<times> nat" where
  "parseSection [] end_err allowTruncated records = (case end_err of
      None \<Rightarrow> Inr ([], True, records)
    | Some e \<Rightarrow> if allowTruncated then Inr ([], False, records) else Inl (''parse DNS resource: '' @ e))"
| "parseSection (r # rs) end_err allowTruncated records =
     (if maxResponseRecords < records + 1 then Inl ''DNS response exceeds 128 records''
      else case parseSection rs end_err allowTruncated (records + 1) of
          Inl e \<Rightarrow> Inl e
        | Inr (result, complete, n) \<Rightarrow> Inr (r # result, complete, n))"

definition decodeResponse :: "'a unitab_scheme \<Rightarrow> dnslib \<Rightarrow> bytes \<Rightarrow> expectedResponse \<Rightarrow>
    error + parsedResponse" where
  "decodeResponse u L raw expected =
     (if length raw = 0 \<or> maxDNSMessageBytes < length raw
      then Inl ''DNS response size is outside the allowed range''
      else case dl_Start L raw of
        Inl e \<Rightarrow> Inl (''parse DNS header: '' @ e)
      | Inr (header, sections) \<Rightarrow>
          (case readQuestions 0 (fst (sec_Questions sections)) (snd (sec_Questions sections)) of
            Some e \<Rightarrow> Inl e
          | None \<Rightarrow>
          (case validateResponseIdentity u header (fst (sec_Questions sections)) expected of
            Some e \<Rightarrow> Inl e
          | None \<Rightarrow>
              (let tc = hd_Truncated header;
                   parsed = \<lparr>pr_header = header, pr_answers = [], pr_authorities = [], pr_additionals = [],
                     pr_bodyComplete = True\<rparr> in
               case parseSection (fst (sec_Answers sections)) (snd (sec_Answers sections)) tc 0 of
                 Inl e \<Rightarrow> Inl e
               | Inr (answers, complete1, n1) \<Rightarrow>
                   if \<not> complete1 then Inr (parsed\<lparr>pr_answers := answers, pr_bodyComplete := False\<rparr>)
                   else (case parseSection (fst (sec_Authorities sections)) (snd (sec_Authorities sections)) tc n1 of
                       Inl e \<Rightarrow> Inl e
                     | Inr (authorities, complete2, n2) \<Rightarrow>
                         if \<not> complete2 then Inr (parsed\<lparr>pr_answers := answers, pr_authorities := authorities,
                              pr_bodyComplete := False\<rparr>)
                         else (case parseSection (fst (sec_Additionals sections)) (snd (sec_Additionals sections)) tc n2 of
                             Inl e \<Rightarrow> Inl e
                           | Inr (additionals, complete3, n3) \<Rightarrow>
                               Inr (parsed\<lparr>pr_answers := answers, pr_authorities := authorities,
                                 pr_additionals := additionals, pr_bodyComplete := complete3\<rparr>)))))))"

section \<open>evidenceFromResponse\<close>

definition canonicalName :: "'a unitab_scheme \<Rightarrow> string \<Rightarrow> string" where
  "canonicalName u v = (let lowered = ToLower u v in
     if lowered = ''.'' then lowered else TrimSuffixDot lowered)"

definition responseCodeName :: "16 word \<Rightarrow> string" where
  "responseCodeName rcode =
     (if rcode = 0 then ''NOERROR''
      else if rcode = 1 then ''FORMERR''
      else if rcode = 2 then ''SERVFAIL''
      else if rcode = 3 then ''NXDOMAIN''
      else if rcode = 4 then ''NOTIMP''
      else if rcode = 5 then ''REFUSED''
      else ''RCODE'' @ fmtDec (unat rcode))"

definition serviceParameterName :: "16 word \<Rightarrow> string" where
  "serviceParameterName key =
     (if key = 0 then ''mandatory''
      else if key = 1 then ''alpn''
      else if key = 2 then ''no-default-alpn''
      else if key = 3 then ''port''
      else if key = 4 then ''ipv4hint''
      else if key = 5 then ''ech''
      else if key = 6 then ''ipv6hint''
      else if key = 7 then ''dohpath''
      else if key = 8 then ''ohttp''
      else if key = 9 then ''tls-supported-groups''
      else ''key'' @ fmtDec (unat key))"

definition emptyRecord :: Record where
  "emptyRecord = \<lparr>rec_Name = '''', rec_Type = QueryTypeOther '''', rec_TTL = 0, rec_Address = '''',
     rec_Family = IPFamilyNone, rec_Target = '''', rec_Service = None\<rparr>"

definition serviceBindingRecord :: "'a unitab_scheme \<Rightarrow> string \<Rightarrow> QueryType \<Rightarrow> 32 word \<Rightarrow> 16 word \<Rightarrow>
    dnsName \<Rightarrow> SVCParam list \<Rightarrow> Record" where
  "serviceBindingRecord u name recordType ttl priority target params =
     emptyRecord\<lparr>rec_Name := name, rec_Type := recordType, rec_TTL := ttl,
       rec_Service := Some \<lparr>sb_Priority = priority, sb_Target = canonicalName u target,
         sb_Mode = (if priority = 0 then ServiceBindingAlias else ServiceBindingService),
         sb_Params = Some (map (\<lambda>(key, val). \<lparr>sp_Key = key, sp_Name = serviceParameterName key,
           sp_ValueHex = hexEncode val\<rparr>) params)\<rparr>\<rparr>"

fun AddrFrom16 :: "hextet \<times> hextet \<times> hextet \<times> hextet \<times> hextet \<times> hextet \<times> hextet \<times> hextet \<Rightarrow> Addr" where
  "AddrFrom16 (a, b, c, d, e, f, g, h) = Addr6 a b c d e f g h []"

definition answerRecord :: "'a unitab_scheme \<Rightarrow> Resource \<Rightarrow> Record option" where
  "answerRecord u answer =
     (let header = rs_Header answer; name = canonicalName u (rh_Name header); ttl = rh_TTL header in
      if rh_Class header \<noteq> ClassINET then None
      else case rs_Body answer of
          AResource a \<Rightarrow> Some (emptyRecord\<lparr>rec_Name := name, rec_Type := QueryTypeA, rec_TTL := ttl,
            rec_Address := AddrString (AddrFrom4 a), rec_Family := IPFamilyIPv4\<rparr>)
        | AAAAResource a \<Rightarrow> Some (emptyRecord\<lparr>rec_Name := name, rec_Type := QueryTypeAAAA, rec_TTL := ttl,
            rec_Address := AddrString (AddrFrom16 a), rec_Family := IPFamilyIPv6\<rparr>)
        | CNAMEResource t \<Rightarrow> Some (emptyRecord\<lparr>rec_Name := name, rec_Type := QueryTypeCNAME, rec_TTL := ttl,
            rec_Target := canonicalName u t\<rparr>)
        | SVCBResource priority target params \<Rightarrow>
            Some (serviceBindingRecord u name QueryTypeSVCB ttl priority target params)
        | HTTPSResource priority target params \<Rightarrow>
            Some (serviceBindingRecord u name QueryTypeHTTPS ttl priority target params)
        | _ \<Rightarrow> None)"

definition authoritySOA :: "'a unitab_scheme \<Rightarrow> Resource \<Rightarrow> SOARecord option" where
  "authoritySOA u authority =
     (if rh_Class (rs_Header authority) \<noteq> ClassINET then None
      else case rs_Body authority of
          SOAResource ns mbox serial refresh retry expire minttl \<Rightarrow>
            Some \<lparr>soa_Name = canonicalName u (rh_Name (rs_Header authority)), soa_TTL = rh_TTL (rs_Header authority),
              soa_NS = canonicalName u ns, soa_Mailbox = canonicalName u mbox, soa_Serial = serial,
              soa_Refresh = refresh, soa_Retry = retry, soa_Expire = expire, soa_MinTTL = minttl\<rparr>
        | _ \<Rightarrow> None)"

definition authorityNS :: "'a unitab_scheme \<Rightarrow> Resource \<Rightarrow> NSRecord option" where
  "authorityNS u authority =
     (if rh_Class (rs_Header authority) \<noteq> ClassINET then None
      else case rs_Body authority of
          NSResource ns \<Rightarrow> Some \<lparr>ns_Name = canonicalName u (rh_Name (rs_Header authority)),
            ns_TTL = rh_TTL (rs_Header authority), ns_Target = canonicalName u ns\<rparr>
        | _ \<Rightarrow> None)"

text \<open>The first OPT record extends the response code.\<close>

definition responseRCode :: "dnslib \<Rightarrow> parsedResponse \<Rightarrow> 16 word" where
  "responseRCode L parsed =
     (case find (\<lambda>r. rh_Type (rs_Header r) = TypeOPT) (pr_additionals parsed) of
        None \<Rightarrow> hd_RCode (pr_header parsed)
      | Some r \<Rightarrow> dl_ExtendedRCode L (rs_Header r) (hd_RCode (pr_header parsed)))"

subsection \<open>CNAME chains\<close>

fun cnameTargets :: "Record list \<Rightarrow> (string \<rightharpoonup> string) \<times> bool \<Rightarrow> (string \<rightharpoonup> string) \<times> bool" where
  "cnameTargets [] (targets, complete) = (targets, complete)"
| "cnameTargets (r # rs) (targets, complete) =
     (if rec_Type r \<noteq> QueryTypeCNAME then cnameTargets rs (targets, complete)
      else if targets (rec_Name r) \<noteq> None \<and> targets (rec_Name r) \<noteq> Some (rec_Target r)
        then cnameTargets rs (targets, False)
      else cnameTargets rs (targets(rec_Name r \<mapsto> rec_Target r), complete))"

fun chaseCNAMEs :: "(string \<rightharpoonup> string) \<Rightarrow> bool \<Rightarrow> nat \<Rightarrow> string \<Rightarrow> string list \<Rightarrow> string \<times> bool" where
  "chaseCNAMEs targets complete 0 effective seen =
     (if targets effective \<noteq> None then (effective, False) else (effective, complete))"
| "chaseCNAMEs targets complete (Suc n) effective seen = (case targets effective of
      None \<Rightarrow> (effective, complete)
    | Some target \<Rightarrow>
        if target \<in> set seen then (effective, False)
        else chaseCNAMEs targets complete n target (target # seen))"

definition followCNAMEs :: "string \<Rightarrow> Record list \<Rightarrow> string \<times> bool" where
  "followCNAMEs hostname records =
     (let (targets, complete) = cnameTargets records (\<lambda>_. None, True) in
      chaseCNAMEs targets complete (length records) hostname [hostname])"

definition classifyAnswer :: "DnsHeader \<Rightarrow> 16 word \<Rightarrow> QueryType \<Rightarrow> string \<Rightarrow> string \<Rightarrow> bool \<Rightarrow>
    Record list \<Rightarrow> bool \<Rightarrow> bool \<Rightarrow> AnswerKind" where
  "classifyAnswer header rcode queryType hostname effectiveName complete records hasSOA hasAuthorityNS =
     (if hd_Truncated header \<or> \<not> complete then AnswerKindIncomplete
      else if rcode = RCodeNameError then AnswerKindNameError
      else if rcode \<noteq> RCodeSuccess then AnswerKindRCodeError
      else let wantedName = (if queryType = QueryTypeCNAME then hostname else effectiveName) in
        if list_ex (\<lambda>r. rec_Type r = queryType \<and> rec_Name r = wantedName) records then AnswerKindAnswer
        else if \<not> hasSOA \<and> hasAuthorityNS then AnswerKindReferral
        else AnswerKindNoData)"

definition evidenceFromResponse :: "'a unitab_scheme \<Rightarrow> dnslib \<Rightarrow> parsedResponse \<Rightarrow> DnsInput \<Rightarrow> nat \<Rightarrow>
    string \<Rightarrow> int \<Rightarrow> DnsEvidence" where
  "evidenceFromResponse u L parsed inp responseBytes remoteEndpoint dohStatus =
     (let header = pr_header parsed;
          rcode = responseRCode L parsed;
          records = List.map_filter (answerRecord u) (pr_answers parsed);
          soas = List.map_filter (authoritySOA u) (pr_authorities parsed);
          negativeSOA = (case soas of [] \<Rightarrow> None | s # _ \<Rightarrow> Some s);
          nss = List.map_filter (authorityNS u) (pr_authorities parsed);
          (effectiveName, chainComplete) = followCNAMEs (din_Hostname inp) records;
          kind = classifyAnswer header rcode (din_QueryType inp) (din_Hostname inp) effectiveName
            (chainComplete \<and> pr_bodyComplete parsed) records (negativeSOA \<noteq> None) (nss \<noteq> [])
      in \<lparr>dev_RCode = \<lparr>rc_Code = rcode, rc_Name = responseCodeName rcode\<rparr>,
          dev_Flags = \<lparr>rf_Authoritative = hd_Authoritative header, rf_Truncated = hd_Truncated header,
            rf_RecursionDesired = hd_RecursionDesired header, rf_RecursionAvailable = hd_RecursionAvailable header,
            rf_AuthenticatedData = hd_AuthenticData header, rf_CheckingDisabled = hd_CheckingDisabled header\<rparr>,
          dev_AnswerKind = kind,
          dev_EffectiveName = effectiveName,
          dev_Records = records,
          dev_NegativeSOA = (if kind \<noteq> AnswerKindNoData \<and> kind \<noteq> AnswerKindNameError then None else negativeSOA),
          dev_AuthorityNS = nss,
          dev_ResponseBytes = int responseBytes,
          dev_RemoteEndpoint = remoteEndpoint,
          dev_DoHStatus = dohStatus\<rparr>)"

end
