(* ===== verification/DnsTransport.thy ===== *)
theory DnsTransport
  imports DnsMessage
begin

text \<open>
  Package \<open>internal/dnsobservation\<close>, \<open>transport.go\<close>: one exchange over UDP, TCP or HTTPS and
  the whole of \<open>observer.Observe\<close>. Readings of the clock and of the two contexts are numbered
  in program order; the network answers from the record \<open>DnsWorld\<close>. The HTTP client of the
  library is a function of the client configuration the code builds, the dial function
  included, and of the request.
\<close>

section \<open>The environment\<close>

record DnsConn =
  dc_RemoteAddr :: string
  dc_SetDeadline :: "goerr option"
  dc_Write :: "nat \<Rightarrow> bytes \<Rightarrow> nat \<times> goerr option"
  dc_Datagram :: "goerr + bytes"
  dc_Stream :: stream

record HttpResponse =
  hr_StatusCode :: int
  hr_ContentType :: string
  hr_Body :: stream

record DoHRequest =
  dr_Method :: string
  dr_URL :: string
  dr_Accept :: string
  dr_ContentType :: string
  dr_Body :: bytes

record DoHClient =
  dh_DialTarget :: "string \<Rightarrow> string \<Rightarrow> goerr + string \<times> string"
  dh_MinVersion :: "16 word"
  dh_ServerName :: string
  dh_FollowRedirects :: bool
  dh_KeepAlives :: bool
  dh_TLSHandshakeTimeout :: int
  dh_ResponseHeaderTimeout :: int
  dh_MaxResponseHeaderBytes :: nat

record DnsWorld =
  dw_now :: "nat \<Rightarrow> gotime"
  dw_ctx :: ctx
  dw_fired :: "int \<Rightarrow> nat \<Rightarrow> bool"
  dw_random :: "goerr + 16 word"
  dw_dial :: "string \<Rightarrow> string \<Rightarrow> goerr + DnsConn"
  dw_http :: "DoHClient \<Rightarrow> DoHRequest \<Rightarrow> goerr + HttpResponse"
  dw_os :: string
  dw_arch :: string

section \<open>Results\<close>

definition baseResult_dns :: "DnsWorld \<Rightarrow> DnsObserver \<Rightarrow> gotime \<Rightarrow> DnsInput \<Rightarrow> DnsResult" where
  "baseResult_dns w ob startedAt inp =
     (let finishedAt = dw_now w 1 in
      \<lparr>env_schema = SchemaVersion, env_probe = ProbeKind_dns, env_observedAt = UTC finishedAt,
       env_durationMS = elapsedMS startedAt finishedAt,
       env_platform = \<lparr>plat_os = dw_os w, plat_arch = dw_arch w\<rparr>, env_source = dob_source ob,
       env_input = inp, env_outcome = OutcomeOther '''', env_evidence = None, env_failure = None\<rparr>)"

definition failureResult_dns :: "DnsWorld \<Rightarrow> DnsObserver \<Rightarrow> gotime \<Rightarrow> DnsInput \<Rightarrow> Outcome \<Rightarrow> FailureCode \<Rightarrow>
    goerr option \<Rightarrow> DnsResult" where
  "failureResult_dns w ob startedAt inp outcome code err =
     (baseResult_dns w ob startedAt inp)\<lparr>env_outcome := outcome,
        env_failure := Some \<lparr>fail_code = code,
          fail_detail = (case err of None \<Rightarrow> '''' | Some e \<Rightarrow> err_text e)\<rparr>\<rparr>"

text \<open>
  \<open>classifyContextFailure\<close> reads the parent at \<open>k\<close> and \<open>k + 2\<close> and the attempt at
  \<open>k + 1\<close> and \<open>k + 3\<close>.
\<close>

definition classifyContextFailure :: "ctx \<Rightarrow> ctx \<Rightarrow> nat \<Rightarrow> (Outcome \<times> FailureCode \<times> goerr) option" where
  "classifyContextFailure parent attempt k =
     (if errorsIs (ctxErrAt parent k) SCanceled \<or> errorsIs (ctxErrAt attempt (k + 1)) SCanceled
      then Some (OutcomeCancelled, FailureCancelled, ctxGoErr Canceled)
      else if errorsIs (ctxErrAt parent (k + 2)) SDeadlineExceeded \<or>
              errorsIs (ctxErrAt attempt (k + 3)) SDeadlineExceeded
      then Some (OutcomeFailed, FailureTimeout, ctxGoErr DeadlineExceeded)
      else None)"

definition isTimeout_dns :: "goerr \<Rightarrow> bool" where
  "isTimeout_dns err = (errorsIs (Some err) SDeadlineExceeded \<or> netTimeout (Some err))"

section \<open>The wire exchange\<close>

record exchangeResult =
  xr_message :: bytes
  xr_remoteEndpoint :: string
  xr_dohStatus :: int

type_synonym exchangeFailure = "FailureCode \<times> goerr"

function writeAll :: "(nat \<Rightarrow> bytes \<Rightarrow> nat \<times> goerr option) \<Rightarrow> nat \<Rightarrow> bytes \<Rightarrow> goerr option" where
  "writeAll write k v =
     (if v = [] then None
      else (case write k v of
          (n, Some e) \<Rightarrow> Some e
        | (n, None) \<Rightarrow> if n = 0 then Some ShortWriteErr else writeAll write (k + 1) (drop n v)))"
  by pat_completeness auto
termination
  by (relation "measure (\<lambda>(w, k, v). length v)") auto

declare writeAll.simps [simp del]

text \<open>\<open>binary.BigEndian.PutUint16(b, uint16(n))\<close>.\<close>

definition putUint16 :: "nat \<Rightarrow> bytes" where
  "putUint16 n = [word_of_nat (n div 256), word_of_nat n]"

definition exchangeUDP :: "DnsConn \<Rightarrow> ctx \<Rightarrow> bytes \<Rightarrow> exchangeFailure + exchangeResult" where
  "exchangeUDP conn attempt query = (case writeAll (dc_Write conn) 0 query of
      Some e \<Rightarrow> Inl (FailureDNSTransport, e)
    | None \<Rightarrow> (case dc_Datagram conn of
        Inl e \<Rightarrow> Inl (FailureDNSTransport, e)
      | Inr datagram \<Rightarrow> (case ctxErrAt attempt 4 of
          Some e \<Rightarrow> Inl (FailureDNSTransport, e)
        | None \<Rightarrow> Inr \<lparr>xr_message = take maxDNSMessageBytes datagram,
            xr_remoteEndpoint = dc_RemoteAddr conn, xr_dohStatus = 0\<rparr>)))"

definition exchangeTCP :: "DnsConn \<Rightarrow> ctx \<Rightarrow> bytes \<Rightarrow> exchangeFailure + exchangeResult" where
  "exchangeTCP conn attempt query =
     (if maxDNSMessageBytes < length query then Inl (FailureDNSProtocol, plainErr ''DNS query is too large'')
      else case writeAll (dc_Write conn) 0 (putUint16 (length query) @ query) of
        Some e \<Rightarrow> Inl (FailureDNSTransport, e)
      | None \<Rightarrow> (case readFull 2 (dc_Stream conn) of
          Inl e \<Rightarrow> Inl (FailureDNSTransport, e)
        | Inr (prefix, rest) \<Rightarrow>
            (let responseLength = unat (beUint16 (prefix ! 0) (prefix ! 1)) in
             if responseLength = 0 \<or> maxDNSMessageBytes < responseLength
             then Inl (FailureDNSProtocol, plainErr ''TCP DNS response length is invalid'')
             else (case readFull responseLength rest of
                Inl e \<Rightarrow> Inl (FailureDNSTransport, e)
              | Inr (message, _) \<Rightarrow> (case ctxErrAt attempt 4 of
                  Some e \<Rightarrow> Inl (FailureDNSTransport, e)
                | None \<Rightarrow> Inr \<lparr>xr_message = message, xr_remoteEndpoint = dc_RemoteAddr conn,
                    xr_dohStatus = 0\<rparr>)))))"

text \<open>A context of \<open>WithTimeout\<close> has a deadline, so the deadline of the connection is always set.\<close>

definition exchangeWire :: "DnsWorld \<Rightarrow> DnsObserver \<Rightarrow> ctx \<Rightarrow> configuredEndpoint \<Rightarrow> string \<Rightarrow> bytes \<Rightarrow>
    exchangeFailure + exchangeResult" where
  "exchangeWire w ob attempt endpoint transport query =
     (case dw_dial w transport (AddrPortString (ce_wireIP endpoint, dob_wirePort ob)) of
        Inl e \<Rightarrow> Inl (FailureDNSTransport, e)
      | Inr conn \<Rightarrow> (case dc_SetDeadline conn of
          Some e \<Rightarrow> Inl (FailureDNSTransport, e)
        | None \<Rightarrow> if transport = ''udp'' then exchangeUDP conn attempt query
                  else exchangeTCP conn attempt query))"

section \<open>The HTTPS exchange\<close>

definition dohDialTarget :: "'a unitab_scheme \<Rightarrow> url \<Rightarrow> string \<Rightarrow> string \<Rightarrow> string \<Rightarrow> string \<Rightarrow>
    goerr + string \<times> string" where
  "dohDialTarget u dohURL port bootstrapAddress network address = (case SplitHostPort address of
      None \<Rightarrow> Inl (plainErr ''DoH transport refused unexpected dial target'')
    | Some (host, requestedPort) \<Rightarrow>
        if \<not> EqualFold u host (Hostname dohURL) \<or> requestedPort \<noteq> port
        then Inl (plainErr ''DoH transport refused unexpected dial target'')
        else Inr (network, bootstrapAddress))"

definition dohClient :: "'a unitab_scheme \<Rightarrow> DnsObserver \<Rightarrow> configuredEndpoint \<Rightarrow> string \<Rightarrow> DoHClient" where
  "dohClient u ob endpoint port =
     \<lparr>dh_DialTarget = dohDialTarget u (ce_dohURL endpoint) port (JoinHostPort (AddrString (ce_bootstrap endpoint)) port),
      dh_MinVersion = 0x0303, dh_ServerName = Hostname (ce_dohURL endpoint), dh_FollowRedirects = False,
      dh_KeepAlives = False, dh_TLSHandshakeTimeout = dob_timeout ob,
      dh_ResponseHeaderTimeout = dob_timeout ob, dh_MaxResponseHeaderBytes = 32 * 1024\<rparr>"

definition dohRequest :: "url \<Rightarrow> bytes \<Rightarrow> DoHRequest" where
  "dohRequest dohURL query = \<lparr>dr_Method = ''POST'', dr_URL = urlString dohURL,
     dr_Accept = ''application/dns-message'', dr_ContentType = ''application/dns-message'', dr_Body = query\<rparr>"

definition readDoHResponse :: "'a unitab_scheme \<Rightarrow> ctx \<Rightarrow> string \<Rightarrow> HttpResponse \<Rightarrow> exchangeFailure + exchangeResult" where
  "readDoHResponse u attempt bootstrapAddress response =
     (if hr_StatusCode response < 200 \<or> 300 \<le> hr_StatusCode response
      then Inl (FailureDoHRule, plainErr ''DoH server returned an HTTP status other than 2xx'')
      else if (case ParseMediaType u (hr_ContentType response) of
            None \<Rightarrow> True
          | Some mediaType \<Rightarrow> \<not> EqualFold u mediaType ''application/dns-message'')
      then Inl (FailureDoHRule, plainErr ''DoH server returned unsupported Content-Type'')
      else case readAllLimited (maxDNSMessageBytes + 1) (hr_Body response) of
          Inl e \<Rightarrow> Inl (FailureDNSTransport, e)
        | Inr message \<Rightarrow>
            if maxDNSMessageBytes < length message
            then Inl (FailureDoHRule, plainErr ''DoH response exceeds 65535 bytes'')
            else (case ctxErrAt attempt 4 of
                Some e \<Rightarrow> Inl (FailureDNSTransport, e)
              | None \<Rightarrow> Inr \<lparr>xr_message = message, xr_remoteEndpoint = bootstrapAddress,
                  xr_dohStatus = hr_StatusCode response\<rparr>))"

definition exchangeDoH :: "'a unitab_scheme \<Rightarrow> DnsWorld \<Rightarrow> DnsObserver \<Rightarrow> ctx \<Rightarrow> configuredEndpoint \<Rightarrow> bytes \<Rightarrow>
    exchangeFailure + exchangeResult" where
  "exchangeDoH u w ob attempt endpoint query = (case dohPort (ce_dohURL endpoint) of
      Inl e \<Rightarrow> Inl (FailureDoHRule, plainErr e)
    | Inr port \<Rightarrow>
        if urlParse (urlString (ce_dohURL endpoint)) = None
        then Inl (FailureDoHRule, plainErr ''parse URL: invalid URL'')
        else (case dw_http w (dohClient u ob endpoint port) (dohRequest (ce_dohURL endpoint) query) of
            Inl e \<Rightarrow> Inl (FailureDNSTransport, e)
          | Inr response \<Rightarrow>
              readDoHResponse u attempt (JoinHostPort (AddrString (ce_bootstrap endpoint)) port) response))"

section \<open>Observe\<close>

fun transportText :: "Transport \<Rightarrow> string" where
  "transportText TransportUDP = ''udp''"
| "transportText TransportTCP = ''tcp''"
| "transportText TransportDoH = ''doh''"
| "transportText (TransportOther x) = x"

definition validateTransportEndpoint :: "Transport \<Rightarrow> configuredEndpoint \<Rightarrow> error option" where
  "validateTransportEndpoint transport endpoint = firstErr [
     guard ((transport = TransportUDP \<or> transport = TransportTCP) \<and> ce_kind endpoint \<noteq> endpointWire)
       ''resolver is not configured for the transport'',
     guard (transport = TransportDoH \<and> ce_kind endpoint \<noteq> endpointDoH) ''resolver is not configured for DoH'']"

definition exchange_dns :: "'a unitab_scheme \<Rightarrow> DnsWorld \<Rightarrow> DnsObserver \<Rightarrow> ctx \<Rightarrow> configuredEndpoint \<Rightarrow>
    Transport \<Rightarrow> bytes \<Rightarrow> exchangeFailure + exchangeResult" where
  "exchange_dns u w ob attempt endpoint transport query = (case transport of
      TransportUDP \<Rightarrow> exchangeWire w ob attempt endpoint (transportText TransportUDP) query
    | TransportTCP \<Rightarrow> exchangeWire w ob attempt endpoint (transportText TransportTCP) query
    | TransportDoH \<Rightarrow> exchangeDoH u w ob attempt endpoint query
    | TransportOther x \<Rightarrow> Inr \<lparr>xr_message = [], xr_remoteEndpoint = '''', xr_dohStatus = 0\<rparr>)"

text \<open>From the exchange on; the contexts are read at 5 to 8, 9 to 12 and 13 to 16.\<close>

definition finishExchange :: "'a unitab_scheme \<Rightarrow> dnslib \<Rightarrow> DnsWorld \<Rightarrow> DnsObserver \<Rightarrow> ctx \<Rightarrow> DnsInput \<Rightarrow>
    expectedResponse \<Rightarrow> exchangeFailure + exchangeResult \<Rightarrow> DnsResult" where
  "finishExchange u L w ob attempt inp expected exchange =
     (let ctx = dw_ctx w; failed = failureResult_dns w ob (dw_now w 0) inp in
      case classifyContextFailure ctx attempt 5 of
        Some (outcome, code, e) \<Rightarrow> failed outcome code (Some e)
      | None \<Rightarrow> (case exchange of
          Inl (code, e) \<Rightarrow> failed OutcomeFailed (if isTimeout_dns e then FailureTimeout else code) (Some e)
        | Inr x \<Rightarrow> (case decodeResponse u L (xr_message x) expected of
            Inl e \<Rightarrow> failed OutcomeFailed FailureDNSProtocol (Some (plainErr e))
          | Inr parsed \<Rightarrow> (case classifyContextFailure ctx attempt 9 of
              Some (outcome, code, e) \<Rightarrow> failed outcome code (Some e)
            | None \<Rightarrow>
                (let evidence = evidenceFromResponse u L parsed inp (length (xr_message x))
                       (xr_remoteEndpoint x) (xr_dohStatus x) in
                 case classifyContextFailure ctx attempt 13 of
                   Some (outcome, code, e) \<Rightarrow> failed outcome code (Some e)
                 | None \<Rightarrow> (baseResult_dns w ob (dw_now w 0) inp)\<lparr>env_outcome := OutcomeSucceeded,
                     env_evidence := Some evidence\<rparr>)))))"

definition messageID :: "DnsWorld \<Rightarrow> Transport \<Rightarrow> goerr + 16 word" where
  "messageID w transport = (if transport \<noteq> TransportDoH then dw_random w else Inr 0)"

definition Observe_dns :: "'a unitab_scheme \<Rightarrow> dnslib \<Rightarrow> DnsWorld \<Rightarrow> DnsObserver \<Rightarrow> DnsRequest \<Rightarrow> DnsResult" where
  "Observe_dns u L w ob request =
     (let ctx = dw_ctx w; startedAt = dw_now w 0;
          (input0, name, qtype, err) = normalizeRequest_dns u L request in
      if err \<noteq> None then
        failureResult_dns w ob startedAt input0 OutcomeFailed FailureInvalidInput (map_option plainErr err)
      else case classifyContextFailure ctx ctx 0 of
        Some (outcome, code, e) \<Rightarrow> failureResult_dns w ob startedAt input0 outcome code (Some e)
      | None \<Rightarrow> (case dob_endpoints ob (ri_ID (din_Resolver input0)) of
          None \<Rightarrow> failureResult_dns w ob startedAt input0 OutcomeFailed FailureInvalidInput
            (Some (plainErr ''resolver is not configured''))
        | Some endpoint \<Rightarrow>
            (let transport = din_Transport input0;
                 inp = input0\<lparr>din_Resolver := input_dns endpoint transport (dob_wirePort ob)\<rparr> in
             case validateTransportEndpoint transport endpoint of
               Some e \<Rightarrow> failureResult_dns w ob startedAt inp OutcomeFailed FailureInvalidInput (Some (plainErr e))
             | None \<Rightarrow> (case messageID w transport of
                 Inl e \<Rightarrow> failureResult_dns w ob startedAt inp OutcomeFailed FailureDNSProtocol
                   (Some (e\<lparr>err_text := ''generate DNS message id: '' @ err_text e\<rparr>))
               | Inr ident \<Rightarrow> (case buildQuery L ident name qtype of
                   Inl e \<Rightarrow> failureResult_dns w ob startedAt inp OutcomeFailed FailureDNSProtocol (Some (plainErr e))
                 | Inr query \<Rightarrow>
                     (let attempt = withTimeout ctx (dw_fired w (dob_timeout ob)) in
                      finishExchange u L w ob attempt inp
                        \<lparr>ex_id = ident, ex_name = name, ex_qtype = qtype\<rparr>
                        (exchange_dns u w ob attempt endpoint transport query)))))))"

end
