(* ===== verification/DnsValidate.thy ===== *)
theory DnsValidate
  imports DnsTransport
begin

text \<open>
  Package \<open>internal/dnsobservation\<close>, \<open>validate.go\<close>: the evidence contract every DNS
  observation is checked against, by the observer's own tests and by the modules that consume
  observations.
\<close>

section \<open>Names and endpoints\<close>

definition isCanonicalDNSName :: "'a unitab_scheme \<Rightarrow> dnslib \<Rightarrow> string \<Rightarrow> bool" where
  "isCanonicalDNSName u L v =
     (if v = ''.'' then True
      else (let (normalized, name, err) = normalizeHostname_dns u L v in err = None \<and> normalized = v))"

definition NormalizeHostname :: "'a unitab_scheme \<Rightarrow> dnslib \<Rightarrow> string \<Rightarrow> string \<times> error option" where
  "NormalizeHostname u L v = (let (normalized, name, err) = normalizeHostname_dns u L v in (normalized, err))"

definition parseCanonicalAddrPort :: "string \<Rightarrow> error + Addr \<times> nat" where
  "parseCanonicalAddrPort v = (case ParseAddrPort v of
      None \<Rightarrow> Inl ''not an address and port''
    | Some endpoint \<Rightarrow>
        if AddrPortString endpoint \<noteq> v then Inl ''not canonical''
        else if isUnsupportedResolverAddress (fst endpoint) then Inl ''uses an unsupported address''
        else Inr endpoint)"

definition validateResolverEndpoint :: "DnsInput \<Rightarrow> error + (Addr \<times> nat) \<times> nat" where
  "validateResolverEndpoint inp =
     (let endpoint = ri_Endpoint (din_Resolver inp);
          wire = (case parseCanonicalAddrPort endpoint of
              Inl e \<Rightarrow> Inl (''wire resolver endpoint: '' @ e)
            | Inr ap \<Rightarrow> Inr (ap, snd ap))
      in case din_Transport inp of
          TransportUDP \<Rightarrow> wire
        | TransportTCP \<Rightarrow> wire
        | TransportDoH \<Rightarrow> (case parseDoHEndpointURL endpoint of
              Inl e \<Rightarrow> Inl (''DoH resolver endpoint: '' @ e)
            | Inr u \<Rightarrow>
                if urlString u \<noteq> endpoint then Inl ''DoH resolver endpoint must be canonical''
                else (case dohPort u of
                    Inl e \<Rightarrow> Inl e
                  | Inr port \<Rightarrow> (case ParseUint16 port of
                      None \<Rightarrow> Inl ''DoH resolver endpoint has invalid port''
                    | Some parsedPort \<Rightarrow>
                        if parsedPort = 0 then Inl ''DoH resolver endpoint has invalid port''
                        else Inr ((AddrInvalid, 0), parsedPort))))
        | TransportOther x \<Rightarrow> Inl ''unsupported transport'')"

definition validateRemoteEndpoint :: "DnsInput \<Rightarrow> string \<Rightarrow> error option" where
  "validateRemoteEndpoint inp v = (case parseCanonicalAddrPort v of
      Inl e \<Rightarrow> Some (''remote_endpoint: '' @ e)
    | Inr remote \<Rightarrow> (case validateResolverEndpoint inp of
        Inl e \<Rightarrow> Some e
      | Inr (configuredWire, expectedPort) \<Rightarrow> firstErr [
          guard (snd remote \<noteq> expectedPort) ''remote_endpoint port does not match resolver port'',
          guard (din_Transport inp \<noteq> TransportDoH \<and> remote \<noteq> configuredWire)
            ''remote_endpoint does not match wire resolver endpoint'']))"

definition validFailureCode_dns :: "FailureCode \<Rightarrow> bool" where
  "validFailureCode_dns code = (code \<in> {FailureInvalidInput, FailureTimeout, FailureCancelled,
     FailureDNSTransport, FailureDNSProtocol, FailureDoHRule})"

section \<open>The input\<close>

definition validateInputContract :: "'a unitab_scheme \<Rightarrow> dnslib \<Rightarrow> DnsInput \<Rightarrow> Outcome \<Rightarrow> Failure option \<Rightarrow>
    error option" where
  "validateInputContract u L inp outcome failure =
     (let (normalized, name, hostnameErr) = normalizeHostname_dns u L (din_Hostname inp);
          resolverID = ri_ID (din_Resolver inp);
          failureCode = (case failure of None \<Rightarrow> FailureOf '''' | Some f \<Rightarrow> fail_code f);
          strictRequest = (outcome = OutcomeSucceeded \<or> failureCode \<noteq> FailureInvalidInput);
          requiresEndpoint = (outcome = OutcomeSucceeded \<or> failureCode = FailureDNSTransport \<or>
            failureCode = FailureDNSProtocol \<or> failureCode = FailureDoHRule) in
      firstErr [
        guard (normalized \<noteq> din_Hostname inp) ''hostname must use its normalized representation'',
        guard (din_Class inp \<noteq> dnsClassIN) ''class must be IN'',
        guard (TrimSpace resolverID \<noteq> resolverID) ''resolver id must be trimmed'',
        (if strictRequest then firstErr [
            wrapErr ''hostname is invalid: '' hostnameErr,
            guard (\<not> QueryType_valid (din_QueryType inp)) ''unsupported query type'',
            guard (\<not> Transport_valid (din_Transport inp)) ''unsupported transport'',
            guard (resolverID = '''') ''resolver id must not be empty'']
         else None),
        (if failureCode = FailureInvalidInput then None
         else if ri_Endpoint (din_Resolver inp) = '''' then
           guard requiresEndpoint ''resolver endpoint must not be empty''
         else (case validateResolverEndpoint inp of Inl e \<Rightarrow> Some e | Inr _ \<Rightarrow> None))])"

section \<open>The evidence\<close>

definition validateServiceParams :: "ServiceParameter list \<Rightarrow> error option" where
  "validateServiceParams params = firstErr (map (\<lambda>i. let param = params ! i in firstErr [
     guard (0 < i \<and> sp_Key param \<le> sp_Key (params ! (i - 1))) ''service parameters must use strictly increasing keys'',
     guard (sp_Name param \<noteq> serviceParameterName (sp_Key param)) ''service parameter name does not match key'',
     guard (case hexDecode (sp_ValueHex param) of None \<Rightarrow> True | Some v \<Rightarrow> hexEncode v \<noteq> sp_ValueHex param)
       ''service parameter value_hex is not canonical lowercase hexadecimal'']) [0..<length params])"

definition validateServiceBinding :: "'a unitab_scheme \<Rightarrow> dnslib \<Rightarrow> ServiceBinding \<Rightarrow> error option" where
  "validateServiceBinding u L binding = firstErr [
     guard (\<not> isCanonicalDNSName u L (sb_Target binding)) ''service target is not canonical'',
     guard (sb_Params binding = None) ''service parameters must encode as an array'',
     guard (sb_Mode binding \<noteq> (if sb_Priority binding = 0 then ServiceBindingAlias else ServiceBindingService))
       ''service binding priority requires the other mode'',
     (case sb_Params binding of None \<Rightarrow> None | Some params \<Rightarrow> validateServiceParams params)]"

definition validateRecord :: "'a unitab_scheme \<Rightarrow> dnslib \<Rightarrow> Record \<Rightarrow> error option" where
  "validateRecord u L record = firstErr [
     guard (\<not> isCanonicalDNSName u L (rec_Name record)) ''name is not canonical'',
     (case rec_Type record of
        QueryTypeA \<Rightarrow> firstErr [
          guard (case ParseAddr (rec_Address record) of None \<Rightarrow> True
                 | Some address \<Rightarrow> \<not> Is4 address \<or> AddrString address \<noteq> rec_Address record)
            ''A address is not canonical IPv4'',
          guard (rec_Family record \<noteq> IPFamilyIPv4 \<or> rec_Target record \<noteq> '''' \<or> rec_Service record \<noteq> None)
            ''A record has inconsistent family, target, or service binding'']
      | QueryTypeAAAA \<Rightarrow> firstErr [
          guard (case ParseAddr (rec_Address record) of None \<Rightarrow> True
                 | Some address \<Rightarrow> \<not> Is6 address \<or> Is4 address \<or> AddrString address \<noteq> rec_Address record)
            ''AAAA address is not canonical IPv6'',
          guard (rec_Family record \<noteq> IPFamilyIPv6 \<or> rec_Target record \<noteq> '''' \<or> rec_Service record \<noteq> None)
            ''AAAA record has inconsistent family, target, or service binding'']
      | QueryTypeCNAME \<Rightarrow>
          guard (rec_Address record \<noteq> '''' \<or> rec_Family record \<noteq> IPFamilyNone \<or> rec_Service record \<noteq> None \<or>
              \<not> isCanonicalDNSName u L (rec_Target record))
            ''CNAME record has inconsistent address, family, target, or service binding''
      | QueryTypeOther x \<Rightarrow> Some ''unsupported record type''
      | _ \<Rightarrow> firstErr [
          guard (rec_Address record \<noteq> '''' \<or> rec_Family record \<noteq> IPFamilyNone \<or> rec_Target record \<noteq> '''' \<or>
              rec_Service record = None)
            ''record has inconsistent address, family, target, or service binding'',
          (case rec_Service record of None \<Rightarrow> None | Some b \<Rightarrow> validateServiceBinding u L b)])]"

definition validateSOA :: "'a unitab_scheme \<Rightarrow> dnslib \<Rightarrow> SOARecord \<Rightarrow> error option" where
  "validateSOA u L record =
     guard (\<not> isCanonicalDNSName u L (soa_Name record) \<or> \<not> isCanonicalDNSName u L (soa_NS record) \<or>
         \<not> isCanonicalDNSName u L (soa_Mailbox record))
       ''name, ns, and mailbox must be canonical DNS names''"

definition validateNSRecord :: "'a unitab_scheme \<Rightarrow> dnslib \<Rightarrow> NSRecord \<Rightarrow> error option" where
  "validateNSRecord u L record =
     guard (\<not> isCanonicalDNSName u L (ns_Name record) \<or> \<not> isCanonicalDNSName u L (ns_Target record))
       ''name and target must be canonical DNS names''"

definition validateAnswerKind :: "AnswerKind \<Rightarrow> 16 word \<Rightarrow> error option" where
  "validateAnswerKind kind code =
     (if kind \<in> {AnswerKindAnswer, AnswerKindNoData, AnswerKindReferral} then
        guard (code \<noteq> RCodeSuccess) ''answer kind requires NOERROR''
      else if kind = AnswerKindNameError then guard (code \<noteq> RCodeNameError) ''name_error requires NXDOMAIN''
      else if kind = AnswerKindRCodeError then
        guard (code = RCodeSuccess \<or> code = RCodeNameError) ''rcode_error requires a non-NOERROR, non-NXDOMAIN code''
      else None)"

definition validateEvidenceClassification :: "'a unitab_scheme \<Rightarrow> dnslib \<Rightarrow> DnsInput \<Rightarrow> DnsEvidence \<Rightarrow>
    error option" where
  "validateEvidenceClassification u L inp evidence =
     (let (effectiveName, chainComplete) = followCNAMEs (din_Hostname inp) (dev_Records evidence);
          truncated = rf_Truncated (dev_Flags evidence);
          kind = dev_AnswerKind evidence;
          wantedName = (if din_QueryType inp = QueryTypeCNAME then din_Hostname inp else effectiveName);
          hasRequestedAnswer = list_ex (\<lambda>r. rec_Type r = din_QueryType inp \<and> rec_Name r = wantedName)
            (dev_Records evidence) in
      firstErr [
        guard (dev_EffectiveName evidence = '''' \<or> \<not> isCanonicalDNSName u L (dev_EffectiveName evidence))
          ''effective_name is not canonical'',
        guard (dev_EffectiveName evidence \<noteq> effectiveName) ''effective_name does not match the CNAME chain result'',
        validateAnswerKind kind (rc_Code (dev_RCode evidence)),
        (if kind = AnswerKindIncomplete then firstErr [
            guard (\<not> truncated \<and> chainComplete) ''incomplete answer requires truncation or an incomplete CNAME chain'',
            guard (dev_NegativeSOA evidence \<noteq> None) ''incomplete answer must not include a negative SOA'']
         else firstErr [
            guard (truncated \<or> \<not> chainComplete) ''complete answer kind has incomplete response evidence'',
            (case kind of
               AnswerKindAnswer \<Rightarrow> guard (\<not> hasRequestedAnswer) ''answer evidence has no requested record''
             | AnswerKindNoData \<Rightarrow> firstErr [
                 guard hasRequestedAnswer ''no_data evidence includes a requested answer'',
                 guard (dev_AuthorityNS evidence \<noteq> [] \<and> dev_NegativeSOA evidence = None)
                   ''no_data authority NS evidence without a negative SOA is a referral'']
             | AnswerKindReferral \<Rightarrow> firstErr [
                 guard hasRequestedAnswer ''referral evidence includes a requested answer'',
                 guard (dev_AuthorityNS evidence = []) ''referral evidence requires an authority NS record'',
                 guard (dev_NegativeSOA evidence \<noteq> None) ''referral evidence must not include a negative SOA'']
             | AnswerKindRCodeError \<Rightarrow>
                 guard (dev_NegativeSOA evidence \<noteq> None) ''rcode_error evidence must not include a negative SOA''
             | _ \<Rightarrow> None)])])"

definition validateEvidence_dns :: "'a unitab_scheme \<Rightarrow> dnslib \<Rightarrow> DnsInput \<Rightarrow> DnsEvidence \<Rightarrow> error option" where
  "validateEvidence_dns u L inp evidence = firstErr ([
     guard (\<not> AnswerKind_valid (dev_AnswerKind evidence)) ''unsupported answer kind'',
     guard (rc_Name (dev_RCode evidence) \<noteq> responseCodeName (rc_Code (dev_RCode evidence)))
       ''rcode name does not match code'',
     guard (dev_ResponseBytes evidence \<le> 0 \<or> int maxDNSMessageBytes < dev_ResponseBytes evidence)
       ''response_bytes must be between 1 and 65535'',
     guard (dev_RemoteEndpoint evidence = '''') ''remote_endpoint must not be empty'',
     validateRemoteEndpoint inp (dev_RemoteEndpoint evidence),
     (if din_Transport inp = TransportDoH then
        guard (dev_DoHStatus evidence < 200 \<or> 300 \<le> dev_DoHStatus evidence)
          ''successful DoH evidence must include a 2xx status''
      else guard (dev_DoHStatus evidence \<noteq> 0) ''wire DNS evidence must not include a DoH status''),
     guard (rf_Truncated (dev_Flags evidence) \<and> dev_AnswerKind evidence \<noteq> AnswerKindIncomplete)
       ''truncated response must be incomplete'',
     guard (maxResponseRecords < length (dev_Records evidence)) ''records exceed limit 128'']
     @ map (\<lambda>r. wrapErr ''record: '' (validateRecord u L r)) (dev_Records evidence)
     @ [guard (maxResponseRecords < length (dev_Records evidence) + length (dev_AuthorityNS evidence))
          ''typed records exceed limit 128'']
     @ map (\<lambda>r. wrapErr ''authority NS: '' (validateNSRecord u L r)) (dev_AuthorityNS evidence)
     @ [(case dev_NegativeSOA evidence of
           None \<Rightarrow> None
         | Some soa \<Rightarrow> firstErr [
             guard (dev_AnswerKind evidence \<noteq> AnswerKindNoData \<and> dev_AnswerKind evidence \<noteq> AnswerKindNameError)
               ''negative SOA requires no_data or name_error'',
             wrapErr ''negative SOA: '' (validateSOA u L soa)]),
        validateEvidenceClassification u L inp evidence])"

definition Validate_dns :: "'a unitab_scheme \<Rightarrow> dnslib \<Rightarrow> DnsResult \<Rightarrow> error option" where
  "Validate_dns u L result = firstErr [
     wrapErr ''invalid probe envelope: '' (Validate_envelope result),
     guard (env_probe result \<noteq> ProbeKind_dns) ''probe must be dns_observation'',
     guard (case env_failure result of None \<Rightarrow> False | Some f \<Rightarrow> \<not> validFailureCode_dns (fail_code f))
       ''unsupported DNS observation failure code'',
     wrapErr ''invalid DNS observation input: ''
       (validateInputContract u L (env_input result) (env_outcome result) (env_failure result)),
     (if env_outcome result \<noteq> OutcomeSucceeded then None
      else case env_evidence result of
          None \<Rightarrow> Some ''panic: nil evidence''
        | Some evidence \<Rightarrow> validateEvidence_dns u L (env_input result) evidence)]"

end
