(* ===== verification/GoUrlProps.thy ===== *)
theory GoUrlProps
  imports GoUrl
begin

text \<open>
  Printing and parsing URLs: what \<open>escape\<close> writes \<open>unescape\<close> reads back, the printed form of
  a parsed host parses to the same host, and an absolute URL with a host, no credentials,
  query or fragment is a fixed point of printing and parsing.
\<close>

section \<open>Escaping\<close>

lemma byte_lt: "byte (c :: char) < 256"
  by (metis of_char_of of_char_mod_256 mod_less_divisor zero_less_numeral)

lemma upperHexChar_hexVal [simp]: "d < 16 \<Longrightarrow> hexVal (upperHexChar d) = Some d"
  by (auto simp: upperHexChar_def hexVal_def isDigit_def)

lemma hexVal_25: "hexVal (CHR ''2'') = Some 2" "hexVal (CHR ''5'') = Some 5"
  by (simp_all add: hexVal_def isDigit_def)

lemma escape_Nil [simp]: "escape m [] = []"
  by (simp add: escape_def)

lemma escape_Cons: "escape m (c # s) =
  (if shouldEscape c m then CHR ''%'' # upperHexChar (byte c div 16) # upperHexChar (byte c mod 16) # escape m s
   else c # escape m s)"
  by (simp add: escape_def)

lemma escape_append [simp]: "escape m (s @ t) = escape m s @ escape m t"
  by (simp add: escape_def)

lemma shouldEscape_percent [simp]: "shouldEscape (CHR ''%'') m"
  by (cases m) (simp_all add: shouldEscape_def isAlnum_def hostPunct_def)

lemma hex_digits_byte: "char_of (16 * (byte c div 16) + byte c mod 16) = c"
  by (simp add: mult.commute)

lemma unescape_escape_path: "unescape encodePath (escape encodePath s) = Some s"
proof (induction s)
  case (Cons c s)
  have "byte c div 16 < 16" using byte_lt [of c] by (simp add: less_mult_imp_div_less)
  with Cons show ?case
    using shouldEscape_percent [of encodePath] by (auto simp: escape_Cons Let_def hex_digits_byte)
qed simp

text \<open>The bytes a parsed host consists of: those the host encoding leaves alone or may escape.\<close>

definition hostByte :: "char \<Rightarrow> bool" where
  "hostByte c = (128 \<le> byte c \<or> c = CHR ''%'' \<or> \<not> shouldEscape c encodeHost)"

lemma unescape_host_bytes: "unescape encodeHost s = Some t \<Longrightarrow> list_all hostByte t"
proof (induction "encodeHost" s arbitrary: t rule: unescape.induct)
  case (2 c s)
  show ?case
  proof (cases "c = CHR ''%''")
    case True
    then obtain h l r x y t' where s: "s = h # l # r" "hexVal h = Some x" "hexVal l = Some y"
      "unescape encodeHost r = Some t'" "t = char_of (16 * x + y) # t'"
      "\<not> (x < 8 \<and> \<not> (h = CHR ''2'' \<and> l = CHR ''5''))"
      using "2.prems" by (auto simp: Let_def split: list.splits option.splits if_splits)
    have "hostByte (char_of (16 * x + y))"
    proof (cases "x < 8")
      case True
      with s have "x = 2" "y = 5" by (auto simp: hexVal_def isDigit_def split: if_splits)
      then show ?thesis by (simp add: hostByte_def char_of_def bit_0)
    next
      case False
      have "x < 16" "y < 16" using s(2,3) by (auto simp: hexVal_def isDigit_def split: if_splits)
      with False have "byte (char_of (16 * x + y)) = 16 * x + y" by simp
      with False show ?thesis by (simp add: hostByte_def)
    qed
    moreover have "list_all hostByte t'"
      using "2.hyps"(1) [OF True] s by (auto simp: Let_def split: if_splits)
    ultimately show ?thesis using s by simp
  next
    case False
    with "2.prems" "2.hyps"(2) [OF False] show ?thesis
      by (auto simp: hostByte_def split: if_splits)
  qed
qed simp

lemma unescape_escape_host: "list_all hostByte s \<Longrightarrow> unescape encodeHost (escape encodeHost s) = Some s"
proof (induction s)
  case (Cons c s)
  have lt: "byte c div 16 < 16" using byte_lt [of c] by (simp add: less_mult_imp_div_less)
  have pct: "upperHexChar 2 = CHR ''2''" "upperHexChar 5 = CHR ''5''"
    by (simp_all add: upperHexChar_def char_of_def bit_0)
  consider "128 \<le> byte c" "shouldEscape c encodeHost" | "c = CHR ''%''" | "\<not> shouldEscape c encodeHost"
    using Cons.prems by (auto simp: hostByte_def)
  then show ?case
  proof cases
    case 1
    then have "\<not> byte c div 16 < 8" by simp
    with 1 lt Cons show ?thesis by (simp add: escape_Cons Let_def hex_digits_byte)
  next
    case 2
    with Cons show ?thesis by (simp add: escape_Cons Let_def pct hexVal_25 char_of_def bit_0)
  next
    case 3
    with Cons show ?thesis using shouldEscape_percent [of encodeHost] by (auto simp: escape_Cons)
  qed
qed simp

text \<open>A byte that is no part of an escape separates what is decoded before and after it.\<close>

lemma unescape_split:
  assumes "hexVal c = None" "c \<noteq> CHR ''%''"
  shows "unescape m (s @ c # t) = Some r \<Longrightarrow>
    \<exists>s' t'. unescape m s = Some s' \<and> unescape m t = Some t' \<and> r = s' @ c # t'"
proof (induction m s arbitrary: r rule: unescape.induct)
  case (1 m)
  with assms(2) show ?case by (auto split: if_splits)
next
  case (2 m d s)
  show ?case
  proof (cases "d = CHR ''%''")
    case True
    then obtain h l w x y r2 where s: "s @ c # t = h # l # w" "hexVal h = Some x" "hexVal l = Some y"
      "unescape m w = Some r2" "r = char_of (16 * x + y) # r2"
      using "2.prems" by (auto simp: Let_def split: list.splits option.splits if_splits)
    obtain w' where s': "s = h # l # w'" "w = w' @ c # t"
      using s(1-3) assms(1) by (cases s; cases "tl s") auto
    have "\<exists>s' t'. unescape m w' = Some s' \<and> unescape m t = Some t' \<and> r2 = s' @ c # t'"
      using "2.IH"(1) [OF True s'(1) refl refl s(2,3) refl refl] "2.prems" True s s'
      by (auto simp: Let_def split: if_splits)
    with True s s' "2.prems" show ?thesis by (auto simp: Let_def split: if_splits)
  next
    case False
    with "2.prems" obtain r2 where r: "unescape m (s @ c # t) = Some r2" "r = d # r2"
      and g: "\<not> ((m = encodeHost \<or> m = encodeZone) \<and> byte d < 128 \<and> shouldEscape d m)"
      by (auto split: if_splits)
    from "2.IH"(2) [OF False g r(1)] False g r(2) show ?thesis by auto
  qed
qed

lemma unescape_host_mem:
  "unescape encodeHost s = Some t \<Longrightarrow> c \<in> set t \<Longrightarrow> byte c < 128 \<Longrightarrow> c \<noteq> CHR ''%'' \<Longrightarrow> c \<in> set s"
proof (induction "encodeHost" s arbitrary: t rule: unescape.induct)
  case (2 d s)
  show ?case
  proof (cases "d = CHR ''%''")
    case True
    then obtain h l r x y t' where s: "s = h # l # r" "hexVal h = Some x" "hexVal l = Some y"
      "unescape encodeHost r = Some t'" "t = char_of (16 * x + y) # t'"
      "\<not> (x < 8 \<and> \<not> (h = CHR ''2'' \<and> l = CHR ''5''))"
      using "2.prems" by (auto simp: Let_def split: list.splits option.splits if_splits)
    have "c \<noteq> char_of (16 * x + y)"
    proof (cases "x < 8")
      case True
      with s have "x = 2" "y = 5" by (auto simp: hexVal_25)
      with "2.prems" show ?thesis by (simp add: char_of_def bit_0)
    next
      case False
      have "x < 16" "y < 16" using s(2,3) by (auto simp: hexVal_def isDigit_def split: if_splits)
      with False have "byte (char_of (16 * x + y)) = 16 * x + y" by simp
      with False "2.prems"(3) show ?thesis by auto
    qed
    with "2.prems" s have "c \<in> set t'" by simp
    with "2.hyps"(1) [OF True] s "2.prems" have "c \<in> set r" by (auto simp: Let_def split: if_splits)
    with s show ?thesis by simp
  next
    case False
    with "2.prems" "2.hyps"(2) [OF False] show ?thesis by (auto split: if_splits)
  qed
qed simp

text \<open>What \<open>escape\<close> writes: hexadecimal escapes and bytes that need none.\<close>

lemma upperHexChar_val: "d < 16 \<Longrightarrow> hexVal (upperHexChar d) \<noteq> None"
  by simp

lemma escape_mem:
  "c \<in> set (escape m s) \<Longrightarrow> c \<noteq> CHR ''%'' \<Longrightarrow> hexVal c = None \<Longrightarrow> c \<in> set s \<and> \<not> shouldEscape c m"
proof (induction s)
  case (Cons d s)
  have "byte d div 16 < 16" using byte_lt [of d] by (simp add: less_mult_imp_div_less)
  then have "hexVal (upperHexChar (byte d div 16)) \<noteq> None" "hexVal (upperHexChar (byte d mod 16)) \<noteq> None"
    by simp_all
  with Cons show ?case by (auto simp: escape_Cons split: if_splits)
qed simp

lemma escape_id: "\<forall>c \<in> set s. \<not> shouldEscape c m \<Longrightarrow> escape m s = s"
  by (induction s) (auto simp: escape_Cons)

lemma unescape_id: "\<forall>c \<in> set s. c \<noteq> CHR ''%'' \<and> \<not> shouldEscape c m \<Longrightarrow> unescape m s = Some s"
  by (induction s) auto

lemma indexOf_escape:
  "list_all hostByte s \<Longrightarrow> CHR ''%'' \<notin> set s \<Longrightarrow> indexOf ''%25'' (escape encodeHost s) = None"
proof (induction s)
  case (Cons c s)
  have hex: "\<And>d. d < 16 \<Longrightarrow> upperHexChar d \<noteq> CHR ''%''"
    using upperHexChar_val by (fastforce simp: hexVal_def isDigit_def)
  show ?case
  proof (cases "shouldEscape c encodeHost")
    case True
    with Cons.prems have "128 \<le> byte c" by (auto simp: hostByte_def)
    then have "8 \<le> byte c div 16" "byte c div 16 < 16"
      using byte_lt [of c] by (simp_all add: less_mult_imp_div_less)
    then have "upperHexChar (byte c div 16) \<noteq> CHR ''2''"
      using upperHexChar_hexVal [of "byte c div 16"] hexVal_25(1) by force
    with Cons True hex \<open>byte c div 16 < 16\<close> show ?thesis
      by (auto simp: escape_Cons startsWith_def take_Cons')
  next
    case False
    with Cons show ?thesis by (auto simp: escape_Cons startsWith_def take_Cons')
  qed
qed simp

section \<open>Hosts\<close>

lemma host_separators:
  "\<not> shouldEscape (CHR '':'') encodeHost" "\<not> shouldEscape (CHR ''['') encodeHost"
  "\<not> shouldEscape (CHR '']'') encodeHost"
  "hexVal (CHR '':'') = None" "hexVal (CHR ''['') = None" "hexVal (CHR '']'') = None"
  by (simp_all add: shouldEscape_def isAlnum_def hostPunct_def hexVal_def isDigit_def)

lemma isDigit_plain: "isDigit c \<Longrightarrow> \<not> shouldEscape c m \<and> c \<noteq> CHR ''%''"
  by (auto simp: shouldEscape_def isAlnum_def isDigit_def)

lemma escape_port: "validOptionalPort p \<Longrightarrow> escape encodeHost p = p"
  by (rule escape_id) (use isDigit_plain host_separators in \<open>auto simp: validOptionalPort_def list_all_iff split: list.splits\<close>)

lemma takeWhile_absent: "c \<notin> set s \<Longrightarrow> takeWhile (\<lambda>x. x \<noteq> c) s = s"
  by (induction s) auto

lemma cutAt_None: "c \<notin> set s \<Longrightarrow> cutAt c s = (s, [], False)"
  by (simp add: cutAt_def Let_def takeWhile_absent)

lemma cutAt_Some: "c \<notin> set a \<Longrightarrow> cutAt c (a @ c # b) = (a, b, True)"
  by (simp add: cutAt_def Let_def takeWhile_append)

lemma cutAt_found: "cutAt c s = (a, b, True) \<Longrightarrow> s = a @ c # b \<and> c \<notin> set a"
proof -
  assume a: "cutAt c s = (a, b, True)"
  let ?a = "takeWhile (\<lambda>x. x \<noteq> c) s"
  have l: "length ?a < length s" and ab: "a = ?a" "b = drop (length ?a + 1) s"
    using a by (auto simp: cutAt_def Let_def split: if_splits)
  have "s ! length ?a = c" using nth_length_takeWhile [OF l] by simp
  moreover have "s = take (length ?a) s @ s ! length ?a # drop (Suc (length ?a)) s"
    using l by (rule id_take_nth_drop)
  moreover have "take (length ?a) s = ?a" by (metis takeWhile_eq_take)
  moreover have "c \<notin> set ?a" by (auto dest: set_takeWhileD)
  ultimately show ?thesis using ab by simp
qed

lemma cutAt_not_found: "cutAt c s = (a, b, False) \<Longrightarrow> c \<notin> set s \<and> a = s"
proof -
  assume a: "cutAt c s = (a, b, False)"
  have "\<exists>x \<in> set s. \<not> x \<noteq> c \<Longrightarrow> length (takeWhile (\<lambda>x. x \<noteq> c) s) < length s"
    by (induction s) auto
  with a show ?thesis by (auto simp: cutAt_def Let_def split: if_splits)
qed

lemma cutLast_None: "c \<notin> set s \<Longrightarrow> cutLast c s = None"
  unfolding cutLast_def Let_def by (subst takeWhile_absent) simp_all

lemma cutLast_Some: "c \<notin> set b \<Longrightarrow> cutLast c (a @ c # b) = Some (a, b)"
proof -
  assume "c \<notin> set b"
  then have "takeWhile (\<lambda>x. x \<noteq> c) (rev (a @ c # b)) = rev b"
    by (auto simp: takeWhile_append takeWhile_eq_all_conv)
  then show ?thesis by (simp add: cutLast_def Let_def)
qed

lemma cutLast_found: "cutLast c s = Some (a, b) \<Longrightarrow> s = a @ c # b \<and> c \<notin> set b"
proof -
  assume a: "cutLast c s = Some (a, b)"
  let ?t = "takeWhile (\<lambda>x. x \<noteq> c) (rev s)"
  have l: "length ?t < length (rev s)" and b: "b = rev ?t" "a = take (length s - length ?t - 1) s"
    using a by (auto simp: cutLast_def Let_def split: if_splits)
  have "rev s ! length ?t = c" using nth_length_takeWhile [OF l] by simp
  moreover have "rev s = take (length ?t) (rev s) @ rev s ! length ?t # drop (Suc (length ?t)) (rev s)"
    using l by (rule id_take_nth_drop)
  moreover have "take (length ?t) (rev s) = ?t" by (metis takeWhile_eq_take)
  ultimately have "rev s = ?t @ c # drop (Suc (length ?t)) (rev s)" by simp
  then have "s = rev (drop (Suc (length ?t)) (rev s)) @ c # rev ?t"
    by (metis append.assoc append_Cons append_Nil rev.simps(2) rev_append rev_rev_ident)
  moreover have "rev (drop (Suc (length ?t)) (rev s)) = a"
    unfolding b by (simp add: rev_drop)
  moreover have "c \<notin> set b" unfolding b by (auto dest: set_takeWhileD)
  ultimately show ?thesis using b by simp
qed

lemma parseHost_print:
  assumes "parseHost h = Some H" "CHR ''%'' \<notin> set H"
  shows "parseHost (escape encodeHost H) = Some H"
proof (cases "CHR ''['' \<in> set h")
  case True
  then obtain h' n cp name addr where h: "h = CHR ''['' # h'" "CHR ''['' \<notin> set h'"
    "cutLast (CHR '']'') h' = Some (n, cp)" "validOptionalPort cp"
    and name: "(case indexOf ''%25'' n of None \<Rightarrow> unescape encodeHost n
                  | Some z \<Rightarrow> (case (unescape encodeHost (take z n), unescape encodeZone (drop z n)) of
                        (Some a, Some b) \<Rightarrow> Some (a @ b) | _ \<Rightarrow> None)) = Some name"
    and addr: "ParseAddr name = Some addr" "\<not> Is4 addr" and H: "H = ''['' @ name @ '']'' @ cp"
    using assms(1) by (cases h) (auto simp: parseHost_def split: if_splits option.splits prod.splits)
  have z: "indexOf ''%25'' n = None"
  proof (rule ccontr)
    assume "indexOf ''%25'' n \<noteq> None"
    then obtain z a b where z: "indexOf ''%25'' n = Some z" "unescape encodeZone (drop z n) = Some b" "name = a @ b"
      using name by (auto split: option.splits)
    have "\<exists>r. drop z n = ''%25'' @ r"
      using z(1)
    proof (induction n arbitrary: z)
      case (Cons c n)
      then show ?case
        by (auto simp: startsWith_def split: if_splits) (metis append_take_drop_id append_Cons append_Nil)
    qed simp
    then have "CHR ''%'' \<in> set b"
      using z(2) by (auto simp: hexVal_25 Let_def char_of_def bit_0)
    with H z(3) assms(2) show False by simp
  qed
  then have un: "unescape encodeHost n = Some name" using name by simp
  have free: "CHR ''['' \<notin> set name" "CHR '']'' \<notin> set cp" "CHR ''['' \<notin> set cp"
    using unescape_host_mem [OF un, of "CHR ''[''"] h(2) cutLast_found [OF h(3)] by auto
  let ?e = "escape encodeHost name"
  have e: "escape encodeHost H = CHR ''['' # ?e @ CHR '']'' # cp"
    using H escape_port [OF h(4)] by (simp add: escape_Cons host_separators)
  have "CHR ''['' \<notin> set ?e" using free(1) escape_mem [of "CHR ''[''"] by (auto simp: host_separators)
  moreover have "indexOf ''%25'' ?e = None"
    using indexOf_escape unescape_host_bytes [OF un] H assms(2) by simp
  moreover have "unescape encodeHost ?e = Some name"
    by (rule unescape_escape_host [OF unescape_host_bytes [OF un]])
  ultimately show ?thesis
    using free addr h(4) unfolding e by (simp add: parseHost_def cutLast_Some H)
next
  case False
  obtain name port found where c: "cutAt (CHR '':'') h = (name, port, found)"
    using prod_cases3 by blast
  have un: "unescape encodeHost h = Some H" and p: "found \<Longrightarrow> validOptionalPort (CHR '':'' # port)"
    using assms(1) False c by (auto simp: parseHost_def split: if_splits)
  note bytes = unescape_host_bytes [OF un]
  have nb: "CHR ''['' \<notin> set (escape encodeHost H)"
    using False unescape_host_mem [OF un, of "CHR ''[''"] escape_mem [of "CHR ''[''"] by (auto simp: host_separators)
  have fwd: "unescape encodeHost (escape encodeHost H) = Some H" by (rule unescape_escape_host [OF bytes])
  show ?thesis
  proof (cases found)
    case True
    from cutAt_found [of _ h] c True have h: "h = name @ CHR '':'' # port" "CHR '':'' \<notin> set name" by auto
    obtain s' t' where s: "unescape encodeHost name = Some s'" "unescape encodeHost port = Some t'"
      "H = s' @ CHR '':'' # t'"
      using unescape_split [of "CHR '':''" encodeHost name port H] un h(1) by (auto simp: host_separators)
    have dig: "\<forall>c \<in> set port. isDigit c" using p [OF True] by (simp add: validOptionalPort_def list_all_iff)
    then have "unescape encodeHost port = Some port"
      using isDigit_plain by (intro unescape_id) blast
    with s have t: "t' = port" by simp
    have "escape encodeHost port = port" using dig isDigit_plain by (intro escape_id) blast
    then have e: "escape encodeHost H = escape encodeHost s' @ CHR '':'' # port"
      using s(3) t by (simp add: escape_Cons host_separators)
    have "CHR '':'' \<notin> set (escape encodeHost s')"
      using h(2) unescape_host_mem [OF s(1), of "CHR '':''"] escape_mem [of "CHR '':''"] by (auto simp: host_separators)
    then have "cutAt (CHR '':'') (escape encodeHost H) = (escape encodeHost s', port, True)"
      unfolding e by (rule cutAt_Some)
    with nb fwd p [OF True] show ?thesis by (simp add: parseHost_def)
  next
    case False
    with c have "cutAt (CHR '':'') h = (name, port, False)" by simp
    then have "CHR '':'' \<notin> set h" using cutAt_not_found by blast
    then have "CHR '':'' \<notin> set (escape encodeHost H)"
      using unescape_host_mem [OF un, of "CHR '':''"] escape_mem [of "CHR '':''"] by (auto simp: host_separators)
    with nb fwd show ?thesis by (simp add: parseHost_def cutAt_None)
  qed
qed

section \<open>Paths\<close>

definition plainPathByte :: "char \<Rightarrow> bool" where
  "plainPathByte c = (c \<noteq> CHR ''#'' \<and> c \<noteq> CHR ''?'' \<and> \<not> controlByte c)"

lemma isAlnum_plain: "isAlnum c \<Longrightarrow> plainPathByte c"
proof -
  assume a: "isAlnum c"
  then have "c \<noteq> CHR ''#''" "c \<noteq> CHR ''?''" by (auto simp: isAlnum_def)
  with a show ?thesis by (auto simp: plainPathByte_def isAlnum_def controlByte_def)
qed

lemma hexVal_isAlnum: "hexVal c \<noteq> None \<Longrightarrow> isAlnum c"
  by (auto simp: isAlnum_def hexVal_def isDigit_def split: if_splits)

lemma upperHexChar_plain: "d < 16 \<Longrightarrow> plainPathByte (upperHexChar d)"
  using upperHexChar_val [of d] hexVal_isAlnum isAlnum_plain by blast

lemma controlByte_escape: "controlByte c \<Longrightarrow> shouldEscape c m \<and> hexVal c = None \<and> c \<noteq> CHR ''%''"
proof -
  assume a: "controlByte c"
  have "c \<notin> set hostPunct" "c \<notin> set ''-_.~''" "c \<notin> set ''$&+,/:;=?@''" "c \<notin> set ''!()*''" "c \<noteq> CHR ''%''"
    using a by (auto simp: controlByte_def hostPunct_def)
  moreover have "\<not> isAlnum c" using a isAlnum_plain by (auto simp: plainPathByte_def)
  moreover have "hexVal c = None" using calculation(6) hexVal_isAlnum [of c] by blast
  ultimately show ?thesis by (simp add: shouldEscape_def)
qed

lemma shouldEscape_plain: "\<not> shouldEscape c encodePath \<Longrightarrow> plainPathByte c"
proof -
  assume a: "\<not> shouldEscape c encodePath"
  have "shouldEscape (CHR ''#'') encodePath" "shouldEscape (CHR ''?'') encodePath"
    by (simp_all add: shouldEscape_def isAlnum_def)
  with a controlByte_escape [of c encodePath] show ?thesis by (auto simp: plainPathByte_def)
qed

lemma plain_marks: "c \<in> set hostPunct - {CHR ''<'', CHR ''>'', CHR 0x22} \<or> c = CHR ''@'' \<or> c = CHR ''%'' \<Longrightarrow> plainPathByte c"
proof -
  have "\<forall>c \<in> set hostPunct. plainPathByte c" "plainPathByte (CHR ''@'')" "plainPathByte (CHR ''%'')"
    by (simp_all add: hostPunct_def plainPathByte_def controlByte_def)
  then show "c \<in> set hostPunct - {CHR ''<'', CHR ''>'', CHR 0x22} \<or> c = CHR ''@'' \<or> c = CHR ''%'' \<Longrightarrow> plainPathByte c"
    by blast
qed

lemma escape_path_plain: "list_all plainPathByte (escape encodePath s)"
proof (induction s)
  case (Cons c s)
  have hex: "plainPathByte (upperHexChar (byte c div 16))" "plainPathByte (upperHexChar (byte c mod 16))"
    using byte_lt [of c] by (simp_all add: upperHexChar_plain less_mult_imp_div_less)
  have "plainPathByte (CHR ''%'')" by (rule plain_marks) simp
  with Cons hex shouldEscape_plain [of c] show ?case by (simp add: escape_Cons)
qed simp

lemma validEncoded_plain: "validEncoded encodePath s \<Longrightarrow> list_all plainPathByte s"
  unfolding validEncoded_def by (rule list.pred_mono_strong) (use shouldEscape_plain plain_marks in blast)+

lemma EscapedPath_plain: "list_all plainPathByte (EscapedPath u)"
proof -
  have "list_all plainPathByte ''*''" by (simp add: plainPathByte_def controlByte_def)
  then show ?thesis using escape_path_plain validEncoded_plain by (simp add: EscapedPath_def)
qed

text \<open>A slash is never escaped in a path, and only a slash is written as one.\<close>

lemma slash_plain: "\<not> shouldEscape (CHR ''/'') encodePath"
  by (simp add: shouldEscape_def isAlnum_def)

lemma escape_path_hd: "s \<noteq> [] \<Longrightarrow> hd s = CHR ''/'' \<Longrightarrow> escape encodePath s \<noteq> [] \<and> hd (escape encodePath s) = CHR ''/''"
  by (cases s) (simp_all add: escape_Cons slash_plain)

lemma EscapedPath_reads:
  assumes "setPath u0 p = Some u" "u_Path u \<noteq> ''*''"
  shows "setPath u1 (EscapedPath u) =
      Some (u1\<lparr>u_Path := u_Path u, u_RawPath := (if EscapedPath u = escape encodePath (u_Path u) then '''' else EscapedPath u)\<rparr>)"
    and "setPath u1 (EscapedPath u) = Some u2 \<Longrightarrow> EscapedPath u2 = EscapedPath u"
proof -
  have un: "unescape encodePath (EscapedPath u) = Some (u_Path u)"
    using assms(2) unescape_escape_path by (auto simp: EscapedPath_def)
  then show 1: "setPath u1 (EscapedPath u) =
      Some (u1\<lparr>u_Path := u_Path u, u_RawPath := (if EscapedPath u = escape encodePath (u_Path u) then '''' else EscapedPath u)\<rparr>)"
    for u1 by (simp add: setPath_def)
  show "EscapedPath u2 = EscapedPath u" if "setPath u1 (EscapedPath u) = Some u2"
  proof (cases "EscapedPath u = escape encodePath (u_Path u)")
    case True
    with that 1 [of u1] have "u_Path u2 = u_Path u" "u_RawPath u2 = ''''" by auto
    with True assms(2) show ?thesis by (simp add: EscapedPath_def [of u2])
  next
    case False
    with assms(2) have "EscapedPath u = u_RawPath u" "u_RawPath u \<noteq> ''''" "validEncoded encodePath (u_RawPath u)"
      by (auto simp: EscapedPath_def split: if_splits)
    moreover from False that 1 [of u1] have "u_Path u2 = u_Path u" "u_RawPath u2 = EscapedPath u" by auto
    ultimately show ?thesis using un by (simp add: EscapedPath_def [of u2])
  qed
qed

section \<open>Absolute URLs\<close>

text \<open>The front part of an absolute URL with an authority.\<close>

definition siteURL :: "url \<Rightarrow> bool" where
  "siteURL u \<longleftrightarrow> u_Scheme u = ''https'' \<and> u_Opaque u = '''' \<and> u_User u = None \<and> u_Host u \<noteq> '''' \<and>
     \<not> u_OmitHost u \<and> u_RawQuery u = '''' \<and> u_Fragment u = '''' \<and> u_RawFragment u = '''' \<and>
     parseHost (escape encodeHost (u_Host u)) = Some (u_Host u) \<and>
     (\<exists>u0 p. setPath u0 p = Some u) \<and> u_Path u \<noteq> ''*'' \<and>
     (EscapedPath u = '''' \<or> hd (EscapedPath u) = CHR ''/'')"

lemma escape_host_plain:
  assumes "c \<in> set (escape encodeHost H)"
  shows "c \<noteq> CHR ''#'' \<and> c \<noteq> CHR ''?'' \<and> c \<noteq> CHR ''/'' \<and> c \<noteq> CHR ''@'' \<and> \<not> controlByte c"
proof -
  have sep: "shouldEscape (CHR ''#'') encodeHost" "shouldEscape (CHR ''?'') encodeHost"
    "shouldEscape (CHR ''/'') encodeHost" "shouldEscape (CHR ''@'') encodeHost"
    by (simp_all add: shouldEscape_def isAlnum_def hostPunct_def)
  have no: "hexVal (CHR ''#'') = None" "hexVal (CHR ''?'') = None" "hexVal (CHR ''/'') = None" "hexVal (CHR ''@'') = None"
    by (simp_all add: hexVal_def isDigit_def)
  show ?thesis
    using assms sep no escape_mem [of c encodeHost H] controlByte_escape [of c encodeHost] by auto
qed

lemma unescape_Nil_iff: "unescape m s = Some [] \<longleftrightarrow> s = []"
  by (cases s) (auto simp: Let_def split: list.splits option.splits if_splits)

lemma unescape_slash: "unescape m (CHR ''/'' # s) = Some t \<Longrightarrow> hd t = CHR ''/'' \<and> t \<noteq> []"
  by (auto split: if_splits)

lemma setPath_shape:
  assumes "setPath u0 p = Some u" "p = '''' \<or> hd p = CHR ''/''"
  shows "u_Path u \<noteq> ''*''" "EscapedPath u = '''' \<or> hd (EscapedPath u) = CHR ''/''"
proof -
  from assms(1) obtain path where path: "unescape encodePath p = Some path"
    "u = u0\<lparr>u_Path := path, u_RawPath := (if p = escape encodePath path then '''' else p)\<rparr>"
    by (auto simp: setPath_def split: option.splits)
  have hd: "path = '''' \<and> p = '''' \<or> hd path = CHR ''/'' \<and> path \<noteq> ''''"
    using path(1) assms(2) unescape_slash [of encodePath "tl p"] by (cases p) auto
  then show "u_Path u \<noteq> ''*''" using path(2) by auto
  then show "EscapedPath u = '''' \<or> hd (EscapedPath u) = CHR ''/''"
    using hd path(2) assms(2) escape_path_hd [of path] by (auto simp: EscapedPath_def)
qed

lemma setPath_sel: "setPath u0 p = Some u \<Longrightarrow>
  u_Scheme u = u_Scheme u0 \<and> u_Opaque u = u_Opaque u0 \<and> u_User u = u_User u0 \<and> u_Host u = u_Host u0 \<and>
  u_OmitHost u = u_OmitHost u0 \<and> u_ForceQuery u = u_ForceQuery u0 \<and> u_RawQuery u = u_RawQuery u0 \<and>
  u_Fragment u = u_Fragment u0 \<and> u_RawFragment u = u_RawFragment u0"
  by (auto simp: setPath_def split: option.splits)

lemma drop_takeWhile_hd:
  "drop (length (takeWhile P s)) s = [] \<or> \<not> P (hd (drop (length (takeWhile P s)) s))"
  by (metis dropWhile_eq_drop hd_dropWhile)

lemma parseURL_site:
  assumes "parseURL False v = Some u" "u_Host u \<noteq> ''''" "u_User u = None" "CHR ''%'' \<notin> set (u_Host u)"
    "u_Scheme u = ''https''" "u_RawQuery u = ''''"
  shows "siteURL u"
proof -
  obtain scheme0 rest0 where g: "getScheme v = Some (scheme0, rest0)"
    using assms(1,2) by (auto simp: parseURL_def emptyURL_def split: if_splits option.splits)
  let ?scheme = "map asciiLower scheme0"
  let ?forced = "rest0 \<noteq> [] \<and> last rest0 = CHR ''?'' \<and> CHR ''?'' \<notin> set (butlast rest0)"
  obtain rest query found where c: "(if ?forced then (butlast rest0, '''', True) else cutAt (CHR ''?'') rest0) = (rest, query, found)"
    using prod_cases3 by blast
  let ?u = "emptyURL\<lparr>u_Scheme := ?scheme, u_ForceQuery := ?forced, u_RawQuery := query\<rparr>"
  let ?auth = "takeWhile (\<lambda>c. c \<noteq> CHR ''/'') (drop 2 rest)"
  have host: "u_Host ?u = ''''" by (simp add: emptyURL_def)
  have nopath: "setPath (?u\<lparr>u_OmitHost := oh\<rparr>) rest \<noteq> Some u" for oh
    using setPath_sel [of "?u\<lparr>u_OmitHost := oh\<rparr>" rest u] assms(2) host by auto
  have noopaque: "Some (?u\<lparr>u_Opaque := rest\<rparr>) \<noteq> Some u" "Some (emptyURL\<lparr>u_Path := ''*''\<rparr>) \<noteq> Some u"
    using assms(2) by (auto simp: emptyURL_def)
  have "(case parseAuthority ?auth of None \<Rightarrow> None
      | Some (user, host) \<Rightarrow> setPath (?u\<lparr>u_User := user, u_Host := host\<rparr>) (drop (2 + length ?auth) rest)) = Some u"
    using assms(1) noopaque nopath unfolding parseURL_def g Let_def c
    by (simp add: c split: if_split_asm)
  then obtain user host where a:
    "parseAuthority (takeWhile (\<lambda>c. c \<noteq> CHR ''/'') (drop 2 rest)) = Some (user, host)"
    "setPath (?u\<lparr>u_User := user, u_Host := host\<rparr>) (drop (2 + length (takeWhile (\<lambda>c. c \<noteq> CHR ''/'') (drop 2 rest))) rest) = Some u"
    by (auto split: option.splits)
  have e: "u_Opaque ?u = ''''" "\<not> u_OmitHost ?u" "u_Fragment ?u = ''''" "u_RawFragment ?u = ''''"
    by (simp_all add: emptyURL_def)
  note sel = setPath_sel [OF a(2)]
  have "user = None" using sel assms(3) by simp
  then have "parseHost (takeWhile (\<lambda>c. c \<noteq> CHR ''/'') (drop 2 rest)) = Some host"
    using a(1) by (auto simp: parseAuthority_def Let_def split: option.splits if_splits prod.splits)
  then have "parseHost (escape encodeHost (u_Host u)) = Some (u_Host u)"
    using parseHost_print assms(4) sel by simp
  moreover have "drop (2 + length (takeWhile (\<lambda>c. c \<noteq> CHR ''/'') (drop 2 rest))) rest = '''' \<or>
      hd (drop (2 + length (takeWhile (\<lambda>c. c \<noteq> CHR ''/'') (drop 2 rest))) rest) = CHR ''/''"
    using drop_takeWhile_hd [of "\<lambda>c. c \<noteq> CHR ''/''" "drop 2 rest"] by (auto simp: add.commute)
  note shape = setPath_shape [OF a(2) this]
  ultimately show ?thesis
    using sel shape assms a(2) e unfolding siteURL_def by auto
qed

lemma urlParse_site:
  assumes "urlParse raw = Some u" "u_Host u \<noteq> ''''" "u_User u = None" "CHR ''%'' \<notin> set (u_Host u)"
    "u_Scheme u = ''https''" "u_RawQuery u = ''''" "u_Fragment u = ''''"
  shows "siteURL u"
proof -
  obtain v frag found where c: "cutAt (CHR ''#'') raw = (v, frag, found)" using prod_cases3 by blast
  have "frag = ''''"
  proof (rule ccontr)
    assume "frag \<noteq> ''''"
    with assms(1) c obtain w where "setFragment w frag = Some u"
      by (auto simp: urlParse_def split: option.splits)
    then have "unescape encodeFragment frag = Some (u_Fragment u)"
      by (auto simp: setFragment_def split: option.splits)
    with assms(7) \<open>frag \<noteq> ''''\<close> unescape_Nil_iff show False by auto
  qed
  with assms(1) c have "parseURL False v = Some u" by (auto simp: urlParse_def split: option.splits)
  then show ?thesis using parseURL_site assms by blast
qed

definition siteText :: "url \<Rightarrow> string" where
  "siteText u = escape encodeHost (u_Host u) @ EscapedPath u"

lemma urlString_site: "siteURL u \<Longrightarrow>
  urlString u = ''https://'' @ siteText u @ (if u_ForceQuery u then ''?'' else '''')"
  by (auto simp: siteURL_def urlString_def userString_def siteText_def Let_def)

lemma siteText_plain:
  assumes "c \<in> set (siteText u)"
  shows "c \<noteq> CHR ''#'' \<and> c \<noteq> CHR ''?'' \<and> \<not> controlByte c"
  using assms escape_host_plain [of c "u_Host u"] EscapedPath_plain [of u]
  by (auto simp: siteText_def list_all_iff plainPathByte_def)

lemma getScheme_https: "getScheme (''https:'' @ s) = Some (''https'', s)"
  by (simp add: getScheme_def isAlnum_def isDigit_def)

lemma parseURL_authority:
  assumes "\<not> list_ex controlByte s" "s \<noteq> ''*''" "getScheme s = Some (scheme, rest0)"
    "map asciiLower scheme = scheme" "scheme \<noteq> ''''"
    "(rest0 \<noteq> [] \<and> last rest0 = CHR ''?'' \<and> CHR ''?'' \<notin> set (butlast rest0)) = forced"
    "(if forced then (butlast rest0, '''', True) else cutAt (CHR ''?'') rest0) = (rest, query, found)"
    "startsWith ''/'' rest" "startsWith ''//'' rest"
    "takeWhile (\<lambda>c. c \<noteq> CHR ''/'') (drop 2 rest) = authority" "parseAuthority authority = Some (user, host)"
  shows "parseURL False s =
    setPath (emptyURL\<lparr>u_Scheme := scheme, u_ForceQuery := forced, u_RawQuery := query, u_User := user, u_Host := host\<rparr>)
      (drop (2 + length authority) rest)"
  unfolding parseURL_def assms(3) Let_def option.case prod.case assms(4,6,7)
  using assms(1,2,5,8-11) by simp

lemma parseURL_siteText:
  assumes u: "siteURL u"
  shows "\<exists>u'. parseURL False (urlString u) = Some u' \<and> siteURL u' \<and> urlString u' = urlString u \<and> u_Host u' = u_Host u"
proof -
  let ?q = "if u_ForceQuery u then ''?'' else ''''"
  let ?s = "''https://'' @ siteText u @ ?q"
  let ?r = "''//'' @ siteText u @ ?q"
  have plain: "\<forall>c \<in> set (siteText u). c \<noteq> CHR ''#'' \<and> c \<noteq> CHR ''?'' \<and> \<not> controlByte c"
    using siteText_plain by blast
  have "\<not> list_ex controlByte ''https://''" "\<not> list_ex controlByte ?q" by (simp_all add: controlByte_def)
  moreover have "\<not> list_ex controlByte (siteText u)" using plain by (simp add: list_ex_iff)
  ultimately have ctl: "\<not> list_ex controlByte ?s" unfolding list_ex_append by blast
  have gs: "getScheme ?s = Some (''https'', ?r)"
    using getScheme_https [of ?r] by simp
  have qs: "CHR ''?'' \<notin> set (''//'' @ siteText u)" using plain by auto
  have forced: "(?r \<noteq> [] \<and> last ?r = CHR ''?'' \<and> CHR ''?'' \<notin> set (butlast ?r)) = u_ForceQuery u"
  proof (cases "u_ForceQuery u")
    case True
    then show ?thesis using qs by (simp add: butlast_append)
  next
    case False
    then have "last ?r \<noteq> CHR ''?''" using qs last_in_set [of "''//'' @ siteText u"] by auto
    with False show ?thesis by simp
  qed
  have bl: "u_ForceQuery u \<Longrightarrow> butlast ?r = ''//'' @ siteText u"
    by (simp add: butlast_append)
  have cut: "\<not> u_ForceQuery u \<Longrightarrow> cutAt (CHR ''?'') ?r = (''//'' @ siteText u, '''', False)"
    using qs cutAt_None by simp
  let ?v = "emptyURL\<lparr>u_Scheme := ''https'', u_ForceQuery := u_ForceQuery u, u_RawQuery := ''''\<rparr>"
  have low: "map asciiLower ''https'' = ''https''" by (simp add: asciiLower_def)
  have host: "\<forall>c \<in> set (escape encodeHost (u_Host u)). c \<noteq> CHR ''/''" "CHR ''@'' \<notin> set (escape encodeHost (u_Host u))"
    using escape_host_plain by blast+
  have auth: "takeWhile (\<lambda>c. c \<noteq> CHR ''/'') (drop 2 (''//'' @ siteText u)) = escape encodeHost (u_Host u)"
    using u host(1) by (cases "EscapedPath u") (auto simp: siteText_def siteURL_def takeWhile_eq_all_conv)
  have pa: "parseAuthority (escape encodeHost (u_Host u)) = Some (None, u_Host u)"
    using u host(2) by (simp add: parseAuthority_def cutLast_None siteURL_def)
  have path: "drop (2 + length (escape encodeHost (u_Host u))) (''//'' @ siteText u) = EscapedPath u"
    by (simp add: siteText_def)
  obtain u0 p where sp: "setPath u0 p = Some u" "u_Path u \<noteq> ''*''" using u by (auto simp: siteURL_def)
  let ?w = "?v\<lparr>u_User := None, u_Host := u_Host u\<rparr>"
  let ?u' = "?w\<lparr>u_Path := u_Path u,
    u_RawPath := (if EscapedPath u = escape encodePath (u_Path u) then '''' else EscapedPath u)\<rparr>"
  have set: "setPath ?w (EscapedPath u) = Some ?u'" by (rule EscapedPath_reads(1) [OF sp])
  note ep = EscapedPath_reads(2) [OF sp set]
  have st: "startsWith ''/'' (''//'' @ siteText u)" "startsWith ''//'' (''//'' @ siteText u)"
    by (simp_all add: startsWith_def)
  have rest: "(if u_ForceQuery u then (butlast ?r, '''', True) else cutAt (CHR ''?'') ?r) =
      (''//'' @ siteText u, '''', u_ForceQuery u)"
    using bl cut by simp
  have "parseURL False ?s = setPath ?w (drop (2 + length (escape encodeHost (u_Host u))) (''//'' @ siteText u))"
    by (rule parseURL_authority [OF ctl _ gs low _ forced rest st auth pa, THEN trans]) (simp_all add: emptyURL_def)
  then have "parseURL False ?s = Some ?u'"
    unfolding path set .
  moreover have "\<exists>u0 p. setPath u0 p = Some ?u'" using set by blast
  then have site: "siteURL ?u'"
    using u unfolding siteURL_def ep by (simp add: emptyURL_def)
  moreover have "urlString ?u' = urlString u"
    using urlString_site [OF site] urlString_site [OF u] ep by (simp add: siteText_def)
  ultimately show ?thesis
    using urlString_site [OF u] by (intro exI [of _ ?u']) simp
qed

lemma urlParse_siteText:
  assumes u: "siteURL u"
  shows "\<exists>u'. urlParse (urlString u) = Some u' \<and> siteURL u' \<and> urlString u' = urlString u \<and> u_Host u' = u_Host u"
proof -
  have "CHR ''#'' \<notin> set (urlString u)"
    using siteText_plain [of "CHR ''#''" u] by (auto simp: urlString_site [OF u])
  then have "cutAt (CHR ''#'') (urlString u) = (urlString u, '''', False)" by (rule cutAt_None)
  then show ?thesis using parseURL_siteText [OF u] by (auto simp: urlParse_def)
qed

end
