(* ===== verification/DnsNames.thy ===== *)
theory DnsNames
  imports DnsValidate GoUrlProps
begin

text \<open>
  Host names and endpoints of the DNS observation: an accepted host name is a fixed point of
  the normalizer, the endpoint an observer records for a configured resolver is accepted by
  the validator, and following CNAME records is reachability in the relation they span.
\<close>

section \<open>Host names\<close>

text \<open>
  The library's tables and codec as the code relies on them: lower-casing a non-ASCII rune
  never gives an upper-case ASCII letter, and packing a question refuses an empty label.
\<close>

definition unitab_ok :: "'a unitab_scheme \<Rightarrow> bool" where
  "unitab_ok u \<longleftrightarrow> (\<forall>r \<ge> 128. \<not> (65 \<le> uni_lower u r \<and> uni_lower u r \<le> 90))"

definition labels_checked :: "dnslib \<Rightarrow> bool" where
  "labels_checked L \<longleftrightarrow> (\<forall>h name bs. dl_NewName L (h @ ''.'') = Inr name \<longrightarrow>
     dl_Pack L (probeMessage name) = Inr bs \<longrightarrow> h = '''' \<or> last h \<noteq> CHR ''.'')"

lemma encodeRune_upper:
  assumes "c \<in> set (encodeRune r)" "65 \<le> byte c" "byte c \<le> 90"
  shows "r = byte c"
proof (cases "r < 128")
  case True
  then show ?thesis using assms by (auto simp: encodeRune_def Let_def runeError_def)
next
  case False
  let ?big = "\<lambda>n :: nat. 128 \<le> n \<and> n < 256"
  have big: "?big n \<Longrightarrow> \<not> byte (char_of n) \<le> 90" for n by simp
  define q where "q = (if (55296 \<le> r \<and> r \<le> 57343) \<or> 1114111 < r then runeError else r)"
  have q: "128 \<le> q" "q \<le> 1114111" using False by (auto simp: q_def runeError_def)
  have e: "set (encodeRune r) \<subseteq> char_of ` {n. ?big n}"
  proof (cases "q < 2048")
    case True
    then have "q div 64 < 32" by (simp add: less_mult_imp_div_less)
    with True q show ?thesis by (auto simp: encodeRune_def Let_def q_def [symmetric] intro!: imageI)
  next
    case lt: False
    show ?thesis
    proof (cases "q < 65536")
      case True
      then have "q div 4096 < 16" by (simp add: less_mult_imp_div_less)
      with True lt q show ?thesis by (auto simp: encodeRune_def Let_def q_def [symmetric] intro!: imageI)
    next
      case False
      have "q div 262144 < 16" using q(2) by (simp add: less_mult_imp_div_less)
      with False lt q show ?thesis by (auto simp: encodeRune_def Let_def q_def [symmetric] intro!: imageI)
    qed
  qed
  with assms(1) big assms(3) show ?thesis by blast
qed

lemma asciiLower_not_upper: "\<not> (65 \<le> byte (asciiLower c) \<and> byte (asciiLower c) \<le> 90)"
  by (auto simp: asciiLower_def)

lemma runes_mem: "r \<in> set (runes s) \<Longrightarrow> r < 128 \<or> 128 \<le> r" by auto

lemma ToLower_not_upper:
  assumes "unitab_ok u" "c \<in> set (ToLower u s)"
  shows "\<not> (65 \<le> byte c \<and> byte c \<le> 90)"
proof (cases "isAscii s")
  case True
  with assms(2) show ?thesis using asciiLower_not_upper by (auto simp: ToLower_def)
next
  case False
  with assms(2) obtain r where r: "c \<in> set (encodeRune (lowerRune u r))" by (auto simp: ToLower_def)
  show ?thesis
  proof
    assume a: "65 \<le> byte c \<and> byte c \<le> 90"
    then have "lowerRune u r = byte c" using encodeRune_upper [OF r] by simp
    with a assms(1) show False by (cases "r < 128") (auto simp: lowerRune_def unitab_ok_def not_less split: if_splits)
  qed
qed

lemma visible_trim:
  assumes "\<forall>c \<in> set h. 33 \<le> byte c \<and> byte c < 128"
  shows "TrimSpace h = h"
proof (cases "h = []")
  case False
  have no: "\<And>c s. 33 \<le> byte c \<Longrightarrow> byte c < 128 \<Longrightarrow> stripped spaceEncodings (c # s) \<and> stripped (map rev spaceEncodings) (c # s)"
    by (auto simp: stripped_def spaceEncodings_code startsWith_def)
  have "stripped spaceEncodings h"
    using False assms no by (cases h) auto
  moreover have "stripped (map rev spaceEncodings) (rev h)"
    using False assms no by (cases h rule: rev_cases) auto
  ultimately show ?thesis
    by (simp add: TrimSpace_def trimLeft_def trimRight_def stripPrefixes_id)
qed simp

lemma TrimSuffixDot_set: "c \<in> set (TrimSuffixDot s) \<Longrightarrow> c \<in> set s"
  by (auto simp: TrimSuffixDot_def dest: in_set_butlastD split: if_splits)

lemma hostnameErr_dns_chars:
  assumes "hostnameErr_dns h = None"
  shows "h \<noteq> ''''" "\<forall>c \<in> set h. 33 \<le> byte c \<and> byte c < 128"
proof -
  have r: "list_all (\<lambda>r. r \<le> 127 \<and> 33 \<le> r) (runes h)" and ne: "h \<noteq> ''''"
    using assms by (simp_all add: hostnameErr_dns_def firstErr_simps)
  then have a: "isAscii h" by (intro runes_lt_128) (auto simp: list_all_iff)
  show "h \<noteq> ''''" by (rule ne)
  show "\<forall>c \<in> set h. 33 \<le> byte c \<and> byte c < 128"
    using r a unfolding runes_ascii [OF a] by (auto simp: list_all_iff isAscii_def)
qed

lemma normalizeHostname_dns_ok:
  assumes "normalizeHostname_dns u L v = (h, name, None)"
  shows "h = hostnameText_dns u v" "hostnameErr_dns h = None" "dl_NewName L (h @ ''.'') = Inr name"
    "\<exists>bs. dl_Pack L (probeMessage name) = Inr bs"
  using assms by (auto simp: normalizeHostname_dns_def Let_def split: option.splits sum.splits)

lemma normalizeHostname_dns_text: "fst (normalizeHostname_dns u L v) = hostnameText_dns u v"
  by (simp add: normalizeHostname_dns_def Let_def split: option.splits sum.splits)

lemma normalizeHostname_dns_fixed:
  assumes "unitab_ok u" "labels_checked L" and n: "normalizeHostname_dns u L v = (h, name, None)"
  shows "normalizeHostname_dns u L h = (h, name, None)"
proof -
  note ok = normalizeHostname_dns_ok [OF n]
  note ch = hostnameErr_dns_chars [OF ok(2)]
  have "last h \<noteq> CHR ''.''" using assms(2) ok(3,4) ch(1) by (auto simp: labels_checked_def)
  moreover have "ToLower u h = h"
  proof (rule ToLower_lower_id)
    have "\<And>c. c \<in> set h \<Longrightarrow> c \<in> set (ToLower u (TrimSpace v))"
      using ok(1) TrimSuffixDot_set by (auto simp: hostnameText_dns_def)
    then show "\<forall>c\<in>set h. byte c < 128 \<and> \<not> (65 \<le> byte c \<and> byte c \<le> 90)"
      using ToLower_not_upper [OF assms(1)] ch(2) by blast
  qed
  ultimately have "hostnameText_dns u h = h"
    by (simp add: hostnameText_dns_def visible_trim [OF ch(2)] TrimSuffixDot_def)
  then show ?thesis
    using n unfolding normalizeHostname_dns_def Let_def ok(1) [symmetric] by metis
qed

lemma normalizeHostname_dns_canonical:
  assumes "unitab_ok u" "labels_checked L" "normalizeHostname_dns u L v = (h, name, None)"
  shows "isCanonicalDNSName u L h" "h \<noteq> ''''"
  using normalizeHostname_dns_fixed [OF assms] hostnameErr_dns_chars(1) normalizeHostname_dns_ok(2) [OF assms(3)]
  by (auto simp: isCanonicalDNSName_def)

section \<open>Endpoints\<close>

text \<open>What \<open>normalizeEndpoint\<close> leaves in the observer's table.\<close>

definition endpoint_ok :: "configuredEndpoint \<Rightarrow> bool" where
  "endpoint_ok e \<longleftrightarrow> TrimSpace (ce_id e) = ce_id e \<and> ce_id e \<noteq> '''' \<and> (case ce_kind e of
      endpointWire \<Rightarrow> IsValid (ce_wireIP e) \<and> Unmap (ce_wireIP e) = ce_wireIP e \<and>
        \<not> isUnsupportedResolverAddress (ce_wireIP e)
    | endpointDoH \<Rightarrow> IsValid (ce_bootstrap e) \<and> Unmap (ce_bootstrap e) = ce_bootstrap e \<and>
        \<not> isUnsupportedResolverAddress (ce_bootstrap e) \<and> (\<exists>raw. parseDoHEndpointURL raw = Inr (ce_dohURL e)))"

lemma normalizeEndpoint_ok: "normalizeEndpoint candidate = Inr e \<Longrightarrow> endpoint_ok e"
  by (auto simp: normalizeEndpoint_def endpoint_ok_def Let_def split: if_splits sum.splits)

definition table_ok :: "(ResolverID \<rightharpoonup> configuredEndpoint) \<Rightarrow> bool" where
  "table_ok m \<longleftrightarrow> (\<forall>k e. m k = Some e \<longrightarrow> ce_id e = k \<and> endpoint_ok e)"

lemma addEndpoints_ok: "addEndpoints m cs = Inr m' \<Longrightarrow> table_ok m \<Longrightarrow> table_ok m'"
proof (induction m cs arbitrary: m' rule: addEndpoints.induct)
  case (2 m c cs)
  from "2.prems"(1) obtain e' where e': "normalizeEndpoint c = Inr e'" "addEndpoints (m(ce_id e' \<mapsto> e')) cs = Inr m'"
    "\<not> m (ce_id e') \<noteq> None"
    by (auto split: sum.splits if_splits)
  have "table_ok (m(ce_id e' \<mapsto> e'))"
    using "2.prems"(2) normalizeEndpoint_ok [OF e'(1)] by (simp add: table_ok_def)
  then show ?case by (rule "2.IH" [OF e'(1,3,2)])
qed simp

lemma newObserver_dns_ok:
  assumes "newObserver_dns cfg port = Inr ob"
  shows "dob_endpoints ob k = Some e \<Longrightarrow> ce_id e = k \<and> endpoint_ok e"
    "dob_source ob = \<lparr>src_backend = ''golang.org/x/net/dns/dnsmessage'', src_capability = CapabilityNative,
       src_reason = ''''\<rparr>"
    "dob_wirePort ob = (if port = 0 then dnsPort else port)"
    "0 \<le> dob_timeout ob" "dob_timeout ob \<le> maximumTimeout_dns"
proof -
  let ?t = "if dcfg_Timeout cfg = 0 then defaultTimeout_dns else dcfg_Timeout cfg"
  have t: "\<not> (?t < 0 \<or> maximumTimeout_dns < ?t)" "dcfg_Resolvers cfg \<noteq> []"
    using assms unfolding newObserver_dns_def Let_def by (auto split: if_splits)
  obtain m where m: "addEndpoints (\<lambda>_. None) (dcfg_Resolvers cfg) = Inr m"
    using assms t unfolding newObserver_dns_def Let_def by (cases "addEndpoints (\<lambda>_. None) (dcfg_Resolvers cfg)") simp_all
  have ob: "ob = \<lparr>dob_endpoints = m, dob_timeout = ?t, dob_wirePort = (if port = 0 then dnsPort else port),
      dob_source = \<lparr>src_backend = ''golang.org/x/net/dns/dnsmessage'', src_capability = CapabilityNative,
       src_reason = ''''\<rparr>\<rparr>"
    using assms t m unfolding newObserver_dns_def Let_def by simp
  show "dob_endpoints ob k = Some e \<Longrightarrow> ce_id e = k \<and> endpoint_ok e"
    using addEndpoints_ok [OF m] ob by (simp add: table_ok_def)
  show "dob_source ob = \<lparr>src_backend = ''golang.org/x/net/dns/dnsmessage'', src_capability = CapabilityNative,
       src_reason = ''''\<rparr>" "dob_wirePort ob = (if port = 0 then dnsPort else port)" using ob by simp_all
  show "0 \<le> dob_timeout ob" "dob_timeout ob \<le> maximumTimeout_dns" using t(1) ob by simp_all
qed

lemma AddrPortString_not_Nil: "AddrPortString ap \<noteq> ''''"
  by (auto simp: AddrPortString_def split: prod.splits)

lemma parseCanonicalAddrPort_ok:
  assumes "IsValid a" "\<not> isUnsupportedResolverAddress a" "n \<le> 65535"
  shows "parseCanonicalAddrPort (AddrPortString (a, n)) = Inr (a, n)"
  using assms ParseAddrPort_String [OF assms(1,3)] by (simp add: parseCanonicalAddrPort_def)

lemma parseDoH_ok:
  assumes "parseDoHEndpointURL raw = Inr u"
  shows "urlParse raw = Some u" "u_Scheme u = ''https''" "u_Host u \<noteq> ''''" "Hostname u \<noteq> ''''" "u_User u = None"
    "u_Fragment u = ''''" "u_RawQuery u = ''''" "\<exists>p. dohPort u = Inr p"
  using assms by (cases "u_User u"; auto simp: parseDoHEndpointURL_def split: option.splits if_splits sum.splits)+

lemma dohPort_range:
  "dohPort u = Inr p \<Longrightarrow> \<exists>n. ParseUint16 p = Some n \<and> 0 < n \<and> n \<le> 65535 \<and> fmtDec n = p"
proof -
  assume a: "dohPort u = Inr p"
  show ?thesis
  proof (cases "urlPort u = ''''")
    case True
    with a have p: "p = ''443''" by (simp add: dohPort_def)
    have "fmtDec 443 = ''443''" by (simp add: fmtBase_rec digitChar_text)
    then have "ParseUint16 ''443'' = Some 443" using ParseUint16_fmtDec [of 443] by simp
    with p \<open>fmtDec 443 = ''443''\<close> show ?thesis by (intro exI [of _ 443]) simp
  next
    case False
    with a obtain n where "ParseUint16 p = Some n" "n \<noteq> 0" "fmtDec n = p"
      by (auto simp: dohPort_def Let_def split: option.splits if_splits)
    moreover from this(1) have "n \<le> 65535"
      by (auto simp: ParseUint16_def split: if_splits option.splits)
    ultimately show ?thesis by auto
  qed
qed

text \<open>A configured URL is printed in the canonical form the validator expects.\<close>

lemma parseDoH_print:
  assumes "parseDoHEndpointURL raw = Inr u" "CHR ''%'' \<notin> set (u_Host u)"
  shows "\<exists>u'. parseDoHEndpointURL (urlString u) = Inr u' \<and> urlString u' = urlString u \<and> dohPort u' = dohPort u"
proof -
  note ok = parseDoH_ok [OF assms(1)]
  have "siteURL u" by (rule urlParse_site) (use ok assms(2) in auto)
  from urlParse_siteText [OF this] obtain u' where u': "urlParse (urlString u) = Some u'" "siteURL u'"
    "urlString u' = urlString u" "u_Host u' = u_Host u" by blast
  have "Hostname u' = Hostname u" "dohPort u' = dohPort u"
    using u'(4) by (simp_all add: Hostname_def urlPort_def dohPort_def)
  with u' ok show ?thesis
    by (auto simp: parseDoHEndpointURL_def siteURL_def)
qed

text \<open>The endpoint recorded for a configured resolver.\<close>

definition host_plain :: "configuredEndpoint \<Rightarrow> bool" where
  "host_plain e \<longleftrightarrow> (ce_kind e = endpointDoH \<longrightarrow> CHR ''%'' \<notin> set (u_Host (ce_dohURL e)))"

lemma urlString_not_Nil: "u_Scheme u \<noteq> '''' \<Longrightarrow> urlString u \<noteq> ''''"
  by (simp add: urlString_def Let_def)

lemma endpoint_valid:
  assumes ok: "endpoint_ok e" "host_plain e" and t: "validateTransportEndpoint t e = None" "Transport_valid t"
    and port: "port \<le> 65535" and i: "din_Resolver i = input_dns e t port" "din_Transport i = t"
  shows "ri_Endpoint (din_Resolver i) \<noteq> ''''"
    "t \<noteq> TransportDoH \<Longrightarrow> validateResolverEndpoint i = Inr ((ce_wireIP e, port), port)"
    "t = TransportDoH \<Longrightarrow> \<exists>p n. dohPort (ce_dohURL e) = Inr p \<and> ParseUint16 p = Some n \<and> fmtDec n = p \<and>
       n \<le> 65535 \<and> validateResolverEndpoint i = Inr ((AddrInvalid, 0), n)"
proof -
  have kind: "ce_kind e = (if t = TransportDoH then endpointDoH else endpointWire)"
    using t by (auto simp: validateTransportEndpoint_def firstErr_simps)
  show "validateResolverEndpoint i = Inr ((ce_wireIP e, port), port)" if "t \<noteq> TransportDoH"
  proof -
    have "parseCanonicalAddrPort (AddrPortString (ce_wireIP e, port)) = Inr (ce_wireIP e, port)"
      using ok kind that port by (intro parseCanonicalAddrPort_ok) (simp_all add: endpoint_ok_def)
    with that t(2) kind i show ?thesis
      by (auto simp: validateResolverEndpoint_def input_dns_def Let_def)
  qed
  show "\<exists>p n. dohPort (ce_dohURL e) = Inr p \<and> ParseUint16 p = Some n \<and> fmtDec n = p \<and>
       n \<le> 65535 \<and> validateResolverEndpoint i = Inr ((AddrInvalid, 0), n)" if "t = TransportDoH"
  proof -
    have k: "ce_kind e = endpointDoH" using kind that by simp
    obtain raw where raw: "parseDoHEndpointURL raw = Inr (ce_dohURL e)"
      using ok(1) unfolding endpoint_ok_def k by auto
    obtain u' where u': "parseDoHEndpointURL (urlString (ce_dohURL e)) = Inr u'"
      "urlString u' = urlString (ce_dohURL e)" "dohPort u' = dohPort (ce_dohURL e)"
      using parseDoH_print [OF raw] ok(2) k by (auto simp: host_plain_def)
    obtain p where p: "dohPort (ce_dohURL e) = Inr p" using parseDoH_ok(8) [OF raw] by blast
    obtain n where "ParseUint16 p = Some n" "0 < n" "n \<le> 65535" "fmtDec n = p" using dohPort_range [OF p] by blast
    with that i kind u' p show ?thesis
      by (intro exI [of _ p] exI [of _ n]) (simp add: validateResolverEndpoint_def input_dns_def Let_def)
  qed
  show "ri_Endpoint (din_Resolver i) \<noteq> ''''"
  proof (cases "ce_kind e")
    case endpointWire
    with i AddrPortString_not_Nil show ?thesis by (simp add: input_dns_def)
  next
    case endpointDoH
    then obtain raw where raw: "parseDoHEndpointURL raw = Inr (ce_dohURL e)" using ok by (auto simp: endpoint_ok_def)
    have "urlString (ce_dohURL e) \<noteq> ''''"
      using parseDoH_ok(2) [OF raw] by (intro urlString_not_Nil) simp
    with i endpointDoH show ?thesis by (simp add: input_dns_def)
  qed
qed

section \<open>CNAME chains as a relation\<close>

text \<open>The owner-to-target relation the CNAME records of an answer span.\<close>

definition cnameRel :: "Record list \<Rightarrow> (string \<times> string) set" where
  "cnameRel records = {(rec_Name r, rec_Target r) |r. r \<in> set records \<and> rec_Type r = QueryTypeCNAME}"

lemma cnameRel_Cons: "cnameRel (r # rs) =
  (if rec_Type r = QueryTypeCNAME then insert (rec_Name r, rec_Target r) (cnameRel rs) else cnameRel rs)"
  by (auto simp: cnameRel_def)

lemma cnameTargets_complete:
  "cnameTargets rs (m, c) = (m', c') \<Longrightarrow>
     Map.graph m \<subseteq> Map.graph m' \<and> Map.graph m' \<subseteq> Map.graph m \<union> cnameRel rs \<and> dom m' = dom m \<union> Domain (cnameRel rs) \<and>
     (c' \<longleftrightarrow> c \<and> cnameRel rs \<subseteq> Map.graph m')"
proof (induction rs "(m, c)" arbitrary: m c rule: cnameTargets.induct)
  case (2 r rs m c)
  show ?case
  proof (cases "rec_Type r = QueryTypeCNAME")
    case False
    with 2 show ?thesis by (simp add: cnameRel_Cons)
  next
    case cname: True
    show ?thesis
    proof (cases "m (rec_Name r) \<noteq> None \<and> m (rec_Name r) \<noteq> Some (rec_Target r)")
      case True
      with "2.hyps"(2) cname "2.prems" have ih: "Map.graph m \<subseteq> Map.graph m'" "Map.graph m' \<subseteq> Map.graph m \<union> cnameRel rs"
        "dom m' = dom m \<union> Domain (cnameRel rs)" "\<not> c'" by auto
      have "(rec_Name r, rec_Target r) \<notin> Map.graph m'"
        using True ih(1) by (force simp: graph_def)
      moreover have "rec_Name r \<in> dom m" using True by auto
      ultimately show ?thesis using ih cname by (auto simp: cnameRel_Cons)
    next
      case False
      let ?m = "m(rec_Name r \<mapsto> rec_Target r)"
      have r: "cnameTargets rs (?m, c) = (m', c')" 
        using "2.prems" by (simp only: cnameTargets.simps cname not_True_eq_False if_False if_not_P [OF False] simp_thms)
      have ih: "Map.graph ?m \<subseteq> Map.graph m'" "Map.graph m' \<subseteq> Map.graph ?m \<union> cnameRel rs"
        "dom m' = dom ?m \<union> Domain (cnameRel rs)" "c' \<longleftrightarrow> c \<and> cnameRel rs \<subseteq> Map.graph m'"
        using "2.hyps"(3) [OF _ False r] cname by blast+
      let ?p = "(rec_Name r, rec_Target r)"
      have g: "Map.graph ?m = insert ?p (Map.graph m)"
        using False by (auto simp: graph_def split: if_splits)
      have rel: "cnameRel (r # rs) = insert ?p (cnameRel rs)" using cname by (simp add: cnameRel_Cons)
      have d: "dom m' = dom m \<union> Domain (cnameRel (r # rs))" using ih(3) by (auto simp: rel)
      have "?p \<in> Map.graph m'" using ih(1) g by blast
      with ih(4) have "c' \<longleftrightarrow> c \<and> cnameRel (r # rs) \<subseteq> Map.graph m'" unfolding rel by blast
      moreover have "Map.graph m \<subseteq> Map.graph m'" "Map.graph m' \<subseteq> Map.graph m \<union> cnameRel (r # rs)"
        using ih(1,2) unfolding g rel by blast+
      ultimately show ?thesis using d by blast
    qed
  qed
qed (simp add: cnameRel_def)

lemma cnameTargets_start:
  assumes "cnameTargets rs (\<lambda>_. None, True) = (m, c)"
  shows "Map.graph m \<subseteq> cnameRel rs" "dom m = Domain (cnameRel rs)" "c \<longleftrightarrow> single_valued (cnameRel rs)"
    "c \<Longrightarrow> Map.graph m = cnameRel rs"
proof -
  note r = cnameTargets_complete [OF assms]
  show g: "Map.graph m \<subseteq> cnameRel rs" and d: "dom m = Domain (cnameRel rs)"
    using r by (auto simp: graph_def)
  show "c \<Longrightarrow> Map.graph m = cnameRel rs" using r g by blast
  show "c \<longleftrightarrow> single_valued (cnameRel rs)"
  proof
    assume c
    with r g have "Map.graph m = cnameRel rs" by blast
    then show "single_valued (cnameRel rs)" unfolding single_valued_def by (metis in_graphD option.inject)
  next
    assume sv: "single_valued (cnameRel rs)"
    have "cnameRel rs \<subseteq> Map.graph m"
    proof
      fix p assume p: "p \<in> cnameRel rs"
      obtain a b where ab: "p = (a, b)" by fastforce
      with p d obtain b' where b': "m a = Some b'" by auto
      then have "(a, b') \<in> cnameRel rs" using g by (auto simp: graph_def)
      with sv p ab have "b' = b" by (auto simp: single_valued_def)
      with b' ab show "p \<in> Map.graph m" by (simp add: graph_def)
    qed
    with r show c by simp
  qed
qed

lemma chase_sound:
  "chaseCNAMEs m c n e seen = (e', c') \<Longrightarrow> (e, e') \<in> (Map.graph m)\<^sup>* \<and> (c' \<longrightarrow> c \<and> m e' = None)"
proof (induction m c n e seen rule: chaseCNAMEs.induct)
  case (2 m c n e seen)
  show ?case
  proof (cases "m e")
    case (Some t)
    show ?thesis
    proof (cases "t \<in> set seen")
      case False
      with "2.IH" [OF Some False] "2.prems" Some
      have "(t, e') \<in> (Map.graph m)\<^sup>* \<and> (c' \<longrightarrow> c \<and> m e' = None)" by simp
      moreover have "(e, t) \<in> Map.graph m" using Some by (simp add: graph_def)
      ultimately show ?thesis by (meson converse_rtrancl_into_rtrancl)
    qed (use 2 Some in auto)
  qed (use 2 in auto)
qed (auto split: if_splits)

lemma cycle_has_no_end:
  assumes "single_valued R" "(e, e) \<in> R\<^sup>+" "(e, x) \<in> R\<^sup>*"
  shows "(x, e) \<in> R\<^sup>+"
  using assms(3)
proof (induction rule: rtrancl_induct)
  case (step y z)
  from step.IH obtain w where w: "(y, w) \<in> R" "(w, e) \<in> R\<^sup>*" by (meson tranclD)
  with step(2) assms(1) have "w = z" by (auto simp: single_valued_def)
  with w assms(2) show ?case by (simp add: rtrancl_trancl_trancl)
qed (rule assms(2))

lemma graph_single_valued: "single_valued (Map.graph m)"
  by (auto simp: single_valued_def graph_def)

lemma chase_complete:
  assumes "finite (dom m)" "distinct (e # prev)" "set prev \<subseteq> dom m" "card (dom m) \<le> length prev + n"
    "(e, e') \<in> (Map.graph m)\<^sup>*" "m e' = None" "\<forall>s \<in> set prev. (s, e) \<in> (Map.graph m)\<^sup>*"
  shows "chaseCNAMEs m c n e (e # prev) = (e', c)"
  using assms(2-)
proof (induction n arbitrary: e prev)
  have stop: "e' = e" if "(e, e') \<in> (Map.graph m)\<^sup>*" "m e = None" for e
    using that by (metis converse_rtranclE in_graphD option.distinct(1))
  {
    case 0
    have "card (set prev) = card (dom m)"
      using 0 assms(1) card_mono [of "dom m" "set prev"] distinct_card [of prev] by simp
    then have "set prev = dom m" using 0(2) assms(1) by (simp add: card_subset_eq)
    with 0(1) have "m e = None" by auto
    with stop 0(4) show ?case by auto
  next
    case (Suc n)
    show ?case
    proof (cases "m e")
      case None
      with stop Suc show ?thesis by auto
    next
      case (Some t)
      then have et: "(e, t) \<in> Map.graph m" by (simp add: graph_def)
      have te': "(t, e') \<in> (Map.graph m)\<^sup>*"
        using Suc.prems(4,5) Some et by (metis converse_rtranclE in_graphD option.distinct(1) option.inject)
      have new: "t \<notin> set (e # prev)"
      proof
        assume "t \<in> set (e # prev)"
        then have "(t, e) \<in> (Map.graph m)\<^sup>*" using Suc.prems(6) by auto
        with et have "(e, e) \<in> (Map.graph m)\<^sup>+" by (rule rtrancl_into_trancl2)
        from cycle_has_no_end [OF graph_single_valued this Suc.prems(4)] obtain y where "(e', y) \<in> Map.graph m"
          by (meson tranclD)
        with Suc.prems(5) show False by (simp add: graph_def)
      qed
      have "chaseCNAMEs m c n t (t # e # prev) = (e', c)"
      proof (rule Suc.IH)
        show "distinct (t # e # prev)" using Suc.prems(1) new by simp
        show "set (e # prev) \<subseteq> dom m" using Suc.prems(2) Some by auto
        show "card (dom m) \<le> length (e # prev) + n" using Suc.prems(3) by simp
        show "\<forall>s \<in> set (e # prev). (s, t) \<in> (Map.graph m)\<^sup>*"
          using Suc.prems(6) et by (auto intro: rtrancl_into_rtrancl)
      qed (use te' Suc.prems(5) in auto)
      with Some new show ?thesis by simp
    qed
  }
qed

lemma followCNAMEs_reach: "followCNAMEs h rs = (e, c) \<Longrightarrow> (h, e) \<in> (cnameRel rs)\<^sup>*"
proof -
  assume a: "followCNAMEs h rs = (e, c)"
  obtain m c0 where m: "cnameTargets rs (\<lambda>_. None, True) = (m, c0)" by fastforce
  then have "(h, e) \<in> (Map.graph m)\<^sup>*"
    using a chase_sound [of m c0 "length rs" h "[h]" e c] by (simp add: followCNAMEs_def)
  then show ?thesis using rtrancl_mono [OF cnameTargets_start(1) [OF m]] by blast
qed

lemma followCNAMEs_iff:
  "followCNAMEs h rs = (e, True) \<longleftrightarrow>
     single_valued (cnameRel rs) \<and> (h, e) \<in> (cnameRel rs)\<^sup>* \<and> e \<notin> Domain (cnameRel rs)"
proof -
  obtain m c where m: "cnameTargets rs (\<lambda>_. None, True) = (m, c)" by fastforce
  note st = cnameTargets_start [OF m]
  have f: "followCNAMEs h rs = chaseCNAMEs m c (length rs) h [h]" using m by (simp add: followCNAMEs_def)
  show ?thesis
  proof
    assume a: "followCNAMEs h rs = (e, True)"
    then have "chaseCNAMEs m c (length rs) h [h] = (e, True)" using f by simp
    from chase_sound [OF this] have "c" "m e = None" by simp_all
    with st(2,3) followCNAMEs_reach [OF a]
    show "single_valued (cnameRel rs) \<and> (h, e) \<in> (cnameRel rs)\<^sup>* \<and> e \<notin> Domain (cnameRel rs)" by auto
  next
    assume a: "single_valued (cnameRel rs) \<and> (h, e) \<in> (cnameRel rs)\<^sup>* \<and> e \<notin> Domain (cnameRel rs)"
    have sub: "Domain (cnameRel rs) \<subseteq> rec_Name ` set rs" by (auto simp: cnameRel_def)
    then have fin: "finite (dom m)" unfolding st(2) using finite_subset by blast
    have "card (dom m) \<le> card (rec_Name ` set rs)" unfolding st(2) by (rule card_mono [OF _ sub]) simp
    also have "\<dots> \<le> length rs" using card_image_le [OF finite_set, of rec_Name rs] card_length [of rs] by linarith
    finally have card: "card (dom m) \<le> length [] + length rs" by simp
    have c: c and g: "Map.graph m = cnameRel rs" using a st(3,4) by auto
    have "chaseCNAMEs m c (length rs) h [h] = (e, c)"
      using a st(2) g by (intro chase_complete [OF fin _ _ card]) auto
    with f c show "followCNAMEs h rs = (e, True)" by simp
  qed
qed

end
