(* ===== verification/DnsProps.thy ===== *)
theory DnsProps
  imports DnsNames TlsProps
begin

text \<open>
  What the DNS observation guarantees: bounds of a decoded response, the evidence the package
  validator accepts, no success after a cancellation, no answer to another query, and a DoH
  client that can reach its configured address only.
\<close>

section \<open>Decoded responses\<close>

lemma parseSection_Inr:
  "parseSection xs e t n = Inr (ys, c, m) \<Longrightarrow>
     ys = xs \<and> m = n + length xs \<and> (n \<le> maxResponseRecords \<longrightarrow> m \<le> maxResponseRecords) \<and> (c \<or> t)"
proof (induction xs e t n arbitrary: ys c m rule: parseSection.induct)
  case (1 e t n)
  then show ?case by (auto split: option.splits if_splits)
next
  case (2 r rs e t n)
  from "2.prems" obtain zs c' m' where z: "\<not> maxResponseRecords < n + 1" "parseSection rs e t (n + 1) = Inr (zs, c', m')"
    "ys = r # zs" "c = c'" "m = m'"
    by (auto split: if_splits sum.splits)
  from "2.IH" [OF z(1,2)] z show ?case by simp
qed

text \<open>A response is accepted only for the query it answers, and its sections are bounded.\<close>

definition answers_query :: "'a unitab_scheme \<Rightarrow> DnsHeader \<Rightarrow> Question list \<Rightarrow> expectedResponse \<Rightarrow> bool" where
  "answers_query u header questions expected \<longleftrightarrow> hd_Response header \<and> hd_OpCode header = 0 \<and>
     hd_ID header = ex_id expected \<and>
     (\<exists>q. questions = [q] \<and> EqualFold u (qu_Name q) (ex_name expected) \<and> qu_Type q = ex_qtype expected \<and>
        qu_Class q = ClassINET)"

lemma validateResponseIdentity_None:
  "validateResponseIdentity u header qs expected = None \<longleftrightarrow> answers_query u header qs expected"
  by (cases qs) (auto simp: validateResponseIdentity_def firstErr_simps answers_query_def)

definition decodes_to :: "'a unitab_scheme \<Rightarrow> dnslib \<Rightarrow> bytes \<Rightarrow> expectedResponse \<Rightarrow> parsedResponse \<Rightarrow> bool" where
  "decodes_to u L raw expected p \<longleftrightarrow> 0 < length raw \<and> length raw \<le> maxDNSMessageBytes \<and>
     length (pr_answers p) + length (pr_authorities p) + length (pr_additionals p) \<le> maxResponseRecords \<and>
     (pr_bodyComplete p \<or> hd_Truncated (pr_header p)) \<and>
     (\<exists>s. dl_Start L raw = Inr (pr_header p, s) \<and> answers_query u (pr_header p) (fst (sec_Questions s)) expected \<and>
        set (pr_answers p) \<subseteq> set (fst (sec_Answers s)) \<and> set (pr_authorities p) \<subseteq> set (fst (sec_Authorities s)))"

lemma decodeResponse_Inr:
  assumes "decodeResponse u L raw expected = Inr p"
  shows "decodes_to u L raw expected p"
proof -
  obtain header s where st: "dl_Start L raw = Inr (header, s)" and len: "0 < length raw" "length raw \<le> maxDNSMessageBytes"
    using assms by (auto simp: decodeResponse_def split: if_splits sum.splits)
  let ?t = "hd_Truncated header"
  have q: "readQuestions 0 (fst (sec_Questions s)) (snd (sec_Questions s)) = None"
    "validateResponseIdentity u header (fst (sec_Questions s)) expected = None"
    using assms st len by (auto simp: decodeResponse_def Let_def split: option.splits)
  note id = q(2) [unfolded validateResponseIdentity_None]
  let ?empty = "\<lparr>pr_header = header, pr_answers = [], pr_authorities = [], pr_additionals = [], pr_bodyComplete = True\<rparr>"
  obtain a c1 n1 where 1: "parseSection (fst (sec_Answers s)) (snd (sec_Answers s)) ?t 0 = Inr (a, c1, n1)"
    using assms st len q by (auto simp: decodeResponse_def Let_def split: sum.splits)
  note p1 = parseSection_Inr [OF 1]
  show ?thesis
  proof (cases c1)
    case False
    then have "p = ?empty\<lparr>pr_answers := a, pr_bodyComplete := False\<rparr>"
      using assms st len q 1 by (simp add: decodeResponse_def)
    with st len id p1 False show ?thesis by (simp add: decodes_to_def)
  next
    case c1: True
    obtain b c2 n2 where 2: "parseSection (fst (sec_Authorities s)) (snd (sec_Authorities s)) ?t n1 = Inr (b, c2, n2)"
      using assms st len q 1 c1 by (auto simp: decodeResponse_def Let_def split: sum.splits)
    note p2 = parseSection_Inr [OF 2]
    show ?thesis
    proof (cases c2)
      case False
      then have "p = ?empty\<lparr>pr_answers := a, pr_authorities := b, pr_bodyComplete := False\<rparr>"
        using assms st len q 1 2 c1 by (simp add: decodeResponse_def)
      with st len id p1 p2 False show ?thesis by (simp add: decodes_to_def)
    next
      case c2: True
      obtain d c3 n3 where 3: "parseSection (fst (sec_Additionals s)) (snd (sec_Additionals s)) ?t n2 = Inr (d, c3, n3)"
        using assms st len q 1 2 c1 c2 by (auto simp: decodeResponse_def Let_def split: sum.splits)
      note p3 = parseSection_Inr [OF 3]
      have "p = ?empty\<lparr>pr_answers := a, pr_authorities := b, pr_additionals := d, pr_bodyComplete := c3\<rparr>"
        using assms st len q 1 2 3 c1 c2 by (simp add: decodeResponse_def)
      with st len id p1 p2 p3 show ?thesis by (simp add: decodes_to_def)
    qed
  qed
qed

section \<open>Records\<close>

text \<open>
  What a well-behaved peer sends: names the host-name normalizer accepts (or the root), and
  service parameters in strictly increasing order of their keys.
\<close>

definition name_ok :: "'a unitab_scheme \<Rightarrow> dnslib \<Rightarrow> dnsName \<Rightarrow> bool" where
  "name_ok u L n \<longleftrightarrow> isCanonicalDNSName u L (canonicalName u n)"

definition resource_ok :: "'a unitab_scheme \<Rightarrow> dnslib \<Rightarrow> Resource \<Rightarrow> bool" where
  "resource_ok u L r \<longleftrightarrow> rh_Class (rs_Header r) \<noteq> ClassINET \<or> rs_Body r = OtherResource \<or>
     (name_ok u L (rh_Name (rs_Header r)) \<and> (case rs_Body r of
        CNAMEResource t \<Rightarrow> name_ok u L t
      | SVCBResource _ t ps \<Rightarrow> name_ok u L t \<and> sorted_wrt (<) (map fst ps)
      | HTTPSResource _ t ps \<Rightarrow> name_ok u L t \<and> sorted_wrt (<) (map fst ps)
      | SOAResource ns mbox _ _ _ _ _ \<Rightarrow> name_ok u L ns \<and> name_ok u L mbox
      | NSResource ns \<Rightarrow> name_ok u L ns
      | _ \<Rightarrow> True))"

definition message_ok :: "'a unitab_scheme \<Rightarrow> dnslib \<Rightarrow> bytes \<Rightarrow> bool" where
  "message_ok u L raw \<longleftrightarrow> (\<forall>header s. dl_Start L raw = Inr (header, s) \<longrightarrow>
     (\<forall>r \<in> set (fst (sec_Answers s)) \<union> set (fst (sec_Authorities s)). resource_ok u L r))"

text \<open>What the validator refuses in a record that was decoded from a message: a name outside the host-name syntax, and
  service parameters out of order.\<close>

definition refusedRecord :: "'a unitab_scheme \<Rightarrow> dnslib \<Rightarrow> Record \<Rightarrow> bool" where
  "refusedRecord u L r \<longleftrightarrow> \<not> isCanonicalDNSName u L (rec_Name r) \<or>
     rec_Type r = QueryTypeCNAME \<and> \<not> isCanonicalDNSName u L (rec_Target r) \<or>
     (\<exists>b. rec_Service r = Some b \<and> (\<not> isCanonicalDNSName u L (sb_Target b) \<or>
        (\<exists>ps. sb_Params b = Some ps \<and> \<not> sorted_wrt (<) (map sp_Key ps))))"

definition refusedEvidence :: "'a unitab_scheme \<Rightarrow> dnslib \<Rightarrow> DnsEvidence \<Rightarrow> bool" where
  "refusedEvidence u L ev \<longleftrightarrow> (\<exists>r \<in> set (dev_Records ev). refusedRecord u L r) \<or>
     (\<exists>r \<in> set (dev_AuthorityNS ev). \<not> isCanonicalDNSName u L (ns_Name r) \<or> \<not> isCanonicalDNSName u L (ns_Target r)) \<or>
     (\<exists>r. dev_NegativeSOA ev = Some r \<and> (\<not> isCanonicalDNSName u L (soa_Name r) \<or> \<not> isCanonicalDNSName u L (soa_NS r) \<or>
        \<not> isCanonicalDNSName u L (soa_Mailbox r)))"

lemma sorted_adjacent:
  "sorted_wrt (<) xs \<longleftrightarrow> (\<forall>i < length xs. i = 0 \<or> xs ! (i - 1) < (xs ! i :: 'b :: order))"
  (is "_ \<longleftrightarrow> ?R")
proof -
  have "(\<forall>i. Suc i < length xs \<longrightarrow> xs ! i < xs ! Suc i) \<longleftrightarrow> ?R" (is "?L \<longleftrightarrow> _")
  proof
    assume a: ?L
    show ?R
    proof (intro allI impI)
      fix i assume "i < length xs"
      with a show "i = 0 \<or> xs ! (i - 1) < xs ! i" by (cases i) simp_all
    qed
  next
    assume a: ?R
    show ?L
    proof (intro allI impI)
      fix i assume "Suc i < length xs"
      with a [rule_format, of "Suc i"] show "xs ! i < xs ! Suc i" by simp
    qed
  qed
  then show ?thesis by (simp add: sorted_wrt_iff_nth_Suc_transp)
qed

lemma validateServiceParams_exact:
  "validateServiceParams (map (\<lambda>p. \<lparr>sp_Key = fst p, sp_Name = serviceParameterName (fst p),
     sp_ValueHex = hexEncode (snd p)\<rparr>) ps) = None \<longleftrightarrow> sorted_wrt (<) (map fst ps)"
  unfolding sorted_adjacent
  by (auto simp: validateServiceParams_def firstErr_simps Let_def not_le)

lemma serviceBindingRecord_exact:
  assumes "t \<in> {QueryTypeSVCB, QueryTypeHTTPS}"
  shows "validateRecord u L (serviceBindingRecord u name t ttl priority target ps) = None \<longleftrightarrow>
    \<not> refusedRecord u L (serviceBindingRecord u name t ttl priority target ps)"
  using assms
  by (auto simp: validateRecord_def serviceBindingRecord_def emptyRecord_def firstErr_simps validateServiceBinding_def
      validateServiceParams_exact refusedRecord_def comp_def case_prod_unfold)

lemma AddrFrom16_AAAA:
  obtains x where "AddrFrom16 a = x" "IsValid x" "Is6 x" "\<not> Is4 x"
  by (cases a) auto

lemma answerRecord_exact:
  assumes "answerRecord u r = Some rec"
  shows "validateRecord u L rec = None \<longleftrightarrow> \<not> refusedRecord u L rec"
proof -
  have cls: "rh_Class (rs_Header r) = ClassINET"
    using assms(1) by (auto simp: answerRecord_def Let_def split: if_splits)
  show ?thesis
  proof (cases "rs_Body r")
    case (AResource a)
    then show ?thesis
      using assms cls ParseAddr_String [of "AddrFrom4 a"]
      by (cases a) (auto simp: answerRecord_def Let_def refusedRecord_def validateRecord_def emptyRecord_def
          firstErr_simps AddrFrom4_def)
  next
    case (AAAAResource a)
    then show ?thesis
      using assms cls ParseAddr_String [of "AddrFrom16 a"]
      by (cases a) (auto simp: answerRecord_def Let_def refusedRecord_def validateRecord_def emptyRecord_def firstErr_simps)
  next
    case (CNAMEResource t)
    then show ?thesis
      using assms cls by (auto simp: answerRecord_def Let_def refusedRecord_def validateRecord_def emptyRecord_def firstErr_simps)
  next
    case (SVCBResource p t ps)
    then show ?thesis
      using assms cls serviceBindingRecord_exact [of QueryTypeSVCB u L] by (auto simp: answerRecord_def Let_def)
  next
    case (HTTPSResource p t ps)
    then show ?thesis
      using assms cls serviceBindingRecord_exact [of QueryTypeHTTPS u L] by (auto simp: answerRecord_def Let_def)
  qed (use assms cls in \<open>auto simp: answerRecord_def Let_def\<close>)
qed

text \<open>A well-behaved message leads to no refused record.\<close>

lemma answerRecord_ok: "answerRecord u r = Some rec \<Longrightarrow> resource_ok u L r \<Longrightarrow> \<not> refusedRecord u L rec"
  by (auto simp: answerRecord_def Let_def resource_ok_def name_ok_def refusedRecord_def emptyRecord_def serviceBindingRecord_def
      comp_def case_prod_unfold split: if_splits ResourceBody.splits)

lemma authoritySOA_ok: "authoritySOA u r = Some soa \<Longrightarrow> resource_ok u L r \<Longrightarrow>
    isCanonicalDNSName u L (soa_Name soa) \<and> isCanonicalDNSName u L (soa_NS soa) \<and> isCanonicalDNSName u L (soa_Mailbox soa)"
  by (auto simp: authoritySOA_def resource_ok_def name_ok_def split: if_splits ResourceBody.splits)

lemma authorityNS_ok: "authorityNS u r = Some ns \<Longrightarrow> resource_ok u L r \<Longrightarrow>
    isCanonicalDNSName u L (ns_Name ns) \<and> isCanonicalDNSName u L (ns_Target ns)"
  by (auto simp: authorityNS_def resource_ok_def name_ok_def split: if_splits ResourceBody.splits)

lemma map_filter_mem: "y \<in> set (List.map_filter f xs) \<longleftrightarrow> (\<exists>x \<in> set xs. f x = Some y)"
  by (induction xs) (auto simp: List.map_filter_def split: option.splits)

lemma map_filter_length: "length (List.map_filter f xs) \<le> length xs"
  by (simp add: List.map_filter_def)

section \<open>Evidence\<close>

lemma canonical_not_Nil: "isCanonicalDNSName u L v \<Longrightarrow> v \<noteq> ''''"
proof
  assume c: "isCanonicalDNSName u L v" and v: "v = ''''"
  have "hostnameText_dns u '''' = ''''"
    by (simp add: hostnameText_dns_def ToLower_def isAscii_def TrimSuffixDot_def)
  then show False
    using c v by (simp add: isCanonicalDNSName_def normalizeHostname_dns_def hostnameErr_dns_def firstErr.simps guard_def)
qed

lemma effectiveName_ok:
  assumes "followCNAMEs h rs = (e, c)" "isCanonicalDNSName u L h"
    "\<forall>r \<in> set rs. rec_Type r = QueryTypeCNAME \<longrightarrow> isCanonicalDNSName u L (rec_Target r)"
  shows "isCanonicalDNSName u L e"
proof -
  have "(h, e) \<in> (cnameRel rs)\<^sup>*" by (rule followCNAMEs_reach [OF assms(1)])
  then show ?thesis
  proof (cases rule: rtranclE)
    case (step x)
    with assms(3) show ?thesis by (auto simp: cnameRel_def)
  qed (use assms(2) in simp)
qed

lemma classification_ok:
  assumes e: "followCNAMEs (din_Hostname i) (dev_Records ev) = (dev_EffectiveName ev, c)"
    and canon: "isCanonicalDNSName u L (dev_EffectiveName ev)"
    and t: "rf_Truncated (dev_Flags ev) = hd_Truncated hdr" "b \<or> hd_Truncated hdr"
    and kind: "dev_AnswerKind ev = classifyAnswer hdr (rc_Code (dev_RCode ev)) (din_QueryType i) (din_Hostname i)
        (dev_EffectiveName ev) (c \<and> b) (dev_Records ev) (soa \<noteq> None) (dev_AuthorityNS ev \<noteq> [])"
    and soa: "dev_NegativeSOA ev = (if dev_AnswerKind ev \<noteq> AnswerKindNoData \<and> dev_AnswerKind ev \<noteq> AnswerKindNameError
        then None else soa)"
  shows "validateEvidenceClassification u L i ev = None"
proof -
  note canon' = canon canonical_not_Nil [OF canon]
  let ?w = "if din_QueryType i = QueryTypeCNAME then din_Hostname i else dev_EffectiveName ev"
  let ?has = "list_ex (\<lambda>r. rec_Type r = din_QueryType i \<and> rec_Name r = ?w) (dev_Records ev)"
  let ?code = "rc_Code (dev_RCode ev)"
  note simps = validateEvidenceClassification_def e firstErr_simps validateAnswerKind_def canon' Let_def t(1)
    RCodeSuccess_def RCodeNameError_def
  consider (inc) "hd_Truncated hdr \<or> \<not> c" | (nx) "\<not> hd_Truncated hdr" c b "?code = 3"
    | (err) "\<not> hd_Truncated hdr" c b "?code \<noteq> 3" "?code \<noteq> 0"
    | (ans) "\<not> hd_Truncated hdr" c b "?code = 0" ?has
    | (ref) "\<not> hd_Truncated hdr" c b "?code = 0" "\<not> ?has" "soa = None" "dev_AuthorityNS ev \<noteq> []"
    | (nodata) "\<not> hd_Truncated hdr" c b "?code = 0" "\<not> ?has" "soa \<noteq> None \<or> dev_AuthorityNS ev = []"
    using t(2) by blast
  then show ?thesis
  proof cases
    case inc
    then have k: "dev_AnswerKind ev = AnswerKindIncomplete" unfolding kind classifyAnswer_def by auto
    with soa inc show ?thesis by (auto simp: simps)
  next
    case nx
    then have k: "dev_AnswerKind ev = AnswerKindNameError" unfolding kind by (simp add: classifyAnswer_def RCodeNameError_def)
    with nx show ?thesis by (simp add: simps)
  next
    case err
    then have k: "dev_AnswerKind ev = AnswerKindRCodeError"
      unfolding kind by (simp add: classifyAnswer_def RCodeNameError_def RCodeSuccess_def)
    with soa err show ?thesis by (simp add: simps)
  next
    case ans
    then have k: "dev_AnswerKind ev = AnswerKindAnswer"
      unfolding kind by (simp add: classifyAnswer_def RCodeNameError_def RCodeSuccess_def Let_def)
    with soa ans show ?thesis by (simp add: simps)
  next
    case ref
    then have k: "dev_AnswerKind ev = AnswerKindReferral"
      unfolding kind by (simp add: classifyAnswer_def RCodeNameError_def RCodeSuccess_def Let_def)
    with soa ref show ?thesis by (simp add: simps)
  next
    case nodata
    then have k: "dev_AnswerKind ev = AnswerKindNoData"
      unfolding kind by (simp add: classifyAnswer_def RCodeNameError_def RCodeSuccess_def Let_def)
    with soa nodata show ?thesis by (auto simp: simps)
  qed
qed

lemma classifyAnswer_valid: "AnswerKind_valid (classifyAnswer hdr rc q h e c rs s n)"
  by (simp add: classifyAnswer_def Let_def)

lemma classifyAnswer_truncated: "hd_Truncated hdr \<Longrightarrow> classifyAnswer hdr rc q h e c rs s n = AnswerKindIncomplete"
  by (simp add: classifyAnswer_def)

lemma evidence_exact:
  assumes dec: "decodes_to u L raw expected p"
    and canon: "isCanonicalDNSName u L (din_Hostname i)"
    and remote: "remote \<noteq> ''''" "validateRemoteEndpoint i remote = None"
    and status: "if din_Transport i = TransportDoH then 200 \<le> status \<and> status < 300 else status = 0"
  shows "validateEvidence_dns u L i (evidenceFromResponse u L p i (length raw) remote status) = None \<longleftrightarrow>
    \<not> refusedEvidence u L (evidenceFromResponse u L p i (length raw) remote status)"
proof -
  let ?rs = "List.map_filter (answerRecord u) (pr_answers p)"
  let ?nss = "List.map_filter (authorityNS u) (pr_authorities p)"
  let ?soas = "List.map_filter (authoritySOA u) (pr_authorities p)"
  let ?soa = "case ?soas of [] \<Rightarrow> None | s # _ \<Rightarrow> Some s"
  let ?ev = "evidenceFromResponse u L p i (length raw) remote status"
  obtain e c where ec: "followCNAMEs (din_Hostname i) ?rs = (e, c)" by fastforce
  let ?kind = "classifyAnswer (pr_header p) (responseRCode L p) (din_QueryType i) (din_Hostname i) e
      (c \<and> pr_bodyComplete p) ?rs (?soa \<noteq> None) (?nss \<noteq> [])"
  have ev: "dev_Records ?ev = ?rs" "dev_AuthorityNS ?ev = ?nss" "dev_EffectiveName ?ev = e" "dev_AnswerKind ?ev = ?kind"
    "dev_RCode ?ev = \<lparr>rc_Code = responseRCode L p, rc_Name = responseCodeName (responseRCode L p)\<rparr>"
    "rf_Truncated (dev_Flags ?ev) = hd_Truncated (pr_header p)" "dev_ResponseBytes ?ev = int (length raw)"
    "dev_RemoteEndpoint ?ev = remote" "dev_DoHStatus ?ev = status"
    "dev_NegativeSOA ?ev = (if ?kind \<noteq> AnswerKindNoData \<and> ?kind \<noteq> AnswerKindNameError then None else ?soa)"
    by (simp_all add: evidenceFromResponse_def Let_def ec)
  have exact: "validateRecord u L r = None \<longleftrightarrow> \<not> refusedRecord u L r" if "r \<in> set ?rs" for r
    using that answerRecord_exact unfolding map_filter_mem by blast
  have len: "length ?rs + length ?nss \<le> maxResponseRecords" "0 < length raw" "length raw \<le> maxDNSMessageBytes"
    "pr_bodyComplete p \<or> hd_Truncated (pr_header p)"
    using dec map_filter_length [of "answerRecord u" "pr_answers p"] map_filter_length [of "authorityNS u" "pr_authorities p"]
    by (auto simp: decodes_to_def)
  have trunc: "hd_Truncated (pr_header p) \<Longrightarrow> ?kind = AnswerKindIncomplete" by (rule classifyAnswer_truncated)
  show ?thesis
  proof
    assume v: "validateEvidence_dns u L i ?ev = None"
    have "\<not> refusedRecord u L r" if "r \<in> set ?rs" for r
      using v that exact [OF that] unfolding validateEvidence_dns_def firstErr_simps ev by (auto simp: firstErr_simps)
    moreover have "validateNSRecord u L r = None" if "r \<in> set ?nss" for r
      using v that unfolding validateEvidence_dns_def firstErr_simps ev by (auto simp: firstErr_simps)
    moreover have "validateSOA u L r = None" if "dev_NegativeSOA ?ev = Some r" for r
      using v that unfolding validateEvidence_dns_def firstErr_simps by (auto simp: firstErr_simps)
    ultimately show "\<not> refusedEvidence u L ?ev"
      unfolding refusedEvidence_def ev(1,2) validateNSRecord_def validateSOA_def guard_None by blast
  next
    assume r: "\<not> refusedEvidence u L ?ev"
    have rs: "\<forall>r \<in> set ?rs. validateRecord u L r = None \<and> (rec_Type r = QueryTypeCNAME \<longrightarrow> isCanonicalDNSName u L (rec_Target r))"
      using r exact unfolding refusedEvidence_def ev(1) refusedRecord_def by blast
    have nss: "\<forall>r \<in> set ?nss. validateNSRecord u L r = None"
      using r unfolding refusedEvidence_def ev(2) validateNSRecord_def guard_None by blast
    have soa: "validateSOA u L s = None" if "dev_NegativeSOA ?ev = Some s" for s
      using r that unfolding refusedEvidence_def validateSOA_def guard_None by blast
    have ecan: "isCanonicalDNSName u L e" using effectiveName_ok [OF ec canon] rs by blast
    have cls: "validateEvidenceClassification u L i ?ev = None"
      by (rule classification_ok [where c = c and b = "pr_bodyComplete p" and hdr = "pr_header p" and soa = ?soa])
        (use ec ecan len ev in simp_all)
    show "validateEvidence_dns u L i ?ev = None"
      unfolding validateEvidence_dns_def firstErr_simps ev(1-9)
      using rs nss soa len cls remote status trunc classifyAnswer_valid
      by (auto simp: firstErr_simps ev(10) simp del: AnswerKind_valid.simps split: option.splits if_splits)
  qed
qed

section \<open>Exchanges\<close>

lemma JoinHostPort_AddrPort:
  assumes "IsValid a"
  shows "JoinHostPort (AddrString a) (fmtDec n) = AddrPortString (a, n)"
proof (cases a)
  case (Addr4 x y z w)
  have "CHR '':'' \<notin> set (AddrString a)"
    using Addr4 fmtDec_no_colon by (auto simp: AddrString_def dotted4)
  with Addr4 show ?thesis by (simp add: JoinHostPort_def AddrPortString_def)
next
  case (Addr6 x1 x2 x3 x4 x5 x6 x7 x8 z)
  have "CHR '':'' \<in> set (AddrString a)"
    using Addr6 string6_colon [of "groups6 a"] by (auto simp: AddrString_def)
  with Addr6 show ?thesis by (simp add: JoinHostPort_def AddrPortString_def)
qed (use assms in simp)

text \<open>The documented behaviour of a dialer: the peer of a connection is the address dialed.\<close>

definition dialer_ok :: "DnsWorld \<Rightarrow> bool" where
  "dialer_ok w \<longleftrightarrow> (\<forall>net addr conn. dw_dial w net addr = Inr conn \<longrightarrow> dc_RemoteAddr conn = addr)"

lemma exchangeWire_remote:
  assumes "exchangeWire w ob attempt e net query = Inr x" "dialer_ok w"
  shows "xr_remoteEndpoint x = AddrPortString (ce_wireIP e, dob_wirePort ob)" "xr_dohStatus x = 0"
  using assms
  by (auto simp: exchangeWire_def exchangeUDP_def exchangeTCP_def dialer_ok_def Let_def
      split: sum.splits option.splits if_splits)

lemma exchangeDoH_remote:
  assumes "exchangeDoH u w ob attempt e query = Inr x"
  obtains p where "dohPort (ce_dohURL e) = Inr p"
    "xr_remoteEndpoint x = JoinHostPort (AddrString (ce_bootstrap e)) p" "200 \<le> xr_dohStatus x" "xr_dohStatus x < 300"
proof -
  obtain p where p: "dohPort (ce_dohURL e) = Inr p" using assms by (auto simp: exchangeDoH_def split: sum.splits)
  obtain r where r: "readDoHResponse u attempt (JoinHostPort (AddrString (ce_bootstrap e)) p) r = Inr x"
    using assms p by (auto simp: exchangeDoH_def split: sum.splits if_splits)
  show ?thesis
  proof (rule that [OF p])
    show "xr_remoteEndpoint x = JoinHostPort (AddrString (ce_bootstrap e)) p" "200 \<le> xr_dohStatus x" "xr_dohStatus x < 300"
      using r unfolding readDoHResponse_def by (auto split: sum.splits option.splits if_splits)
  qed
qed

lemma exchange_remote:
  assumes x: "exchange_dns u w ob attempt e t query = Inr x" and net: "dialer_ok w"
    and ok: "endpoint_ok e" "host_plain e" "validateTransportEndpoint t e = None" "Transport_valid t"
    and port: "dob_wirePort ob \<le> 65535" and i: "din_Resolver i = input_dns e t (dob_wirePort ob)" "din_Transport i = t"
  shows "xr_remoteEndpoint x \<noteq> ''''" "validateRemoteEndpoint i (xr_remoteEndpoint x) = None"
    "if din_Transport i = TransportDoH then 200 \<le> xr_dohStatus x \<and> xr_dohStatus x < 300 else xr_dohStatus x = 0"
proof -
  have "xr_remoteEndpoint x \<noteq> '''' \<and> validateRemoteEndpoint i (xr_remoteEndpoint x) = None \<and>
    (if t = TransportDoH then 200 \<le> xr_dohStatus x \<and> xr_dohStatus x < 300 else xr_dohStatus x = 0)"
  proof (cases "t = TransportDoH")
    case True
    then have k: "ce_kind e = endpointDoH" using ok(3) by (simp add: validateTransportEndpoint_def firstErr_simps)
    obtain p n where p: "dohPort (ce_dohURL e) = Inr p" "fmtDec n = p" "n \<le> 65535"
      "validateResolverEndpoint i = Inr ((AddrInvalid, 0), n)"
      using endpoint_valid(3) [OF ok port i True] by blast
    from x True have "exchangeDoH u w ob attempt e query = Inr x" by (simp add: exchange_dns_def)
    then obtain p' where r: "dohPort (ce_dohURL e) = Inr p'" "xr_remoteEndpoint x = JoinHostPort (AddrString (ce_bootstrap e)) p'"
      "200 \<le> xr_dohStatus x" "xr_dohStatus x < 300"
      by (rule exchangeDoH_remote)
    have b: "IsValid (ce_bootstrap e)" "\<not> isUnsupportedResolverAddress (ce_bootstrap e)"
      using ok(1) unfolding endpoint_ok_def k by simp_all
    have remote: "xr_remoteEndpoint x = AddrPortString (ce_bootstrap e, n)"
      using r p by (simp add: JoinHostPort_AddrPort [OF b(1), of n, symmetric])
    then have "xr_remoteEndpoint x \<noteq> ''''" using AddrPortString_not_Nil by simp
    moreover have "validateRemoteEndpoint i (xr_remoteEndpoint x) = None"
      unfolding remote using parseCanonicalAddrPort_ok [OF b p(3)] p(4) True i
      by (simp add: validateRemoteEndpoint_def firstErr_simps)
    ultimately show ?thesis using True r by simp
  next
    case False
    then have k: "ce_kind e = endpointWire" using ok(3,4) by (auto simp: validateTransportEndpoint_def firstErr_simps)
    have b: "IsValid (ce_wireIP e)" "\<not> isUnsupportedResolverAddress (ce_wireIP e)"
      using ok(1) unfolding endpoint_ok_def k by simp_all
    have "exchangeWire w ob attempt e (transportText t) query = Inr x"
      using x False ok(4) by (auto simp: exchange_dns_def)
    note r = exchangeWire_remote [OF this net]
    with endpoint_valid(2) [OF ok port i False] parseCanonicalAddrPort_ok [OF b port] False i AddrPortString_not_Nil
    show ?thesis by (simp add: validateRemoteEndpoint_def firstErr_simps)
  qed
  with i show "xr_remoteEndpoint x \<noteq> ''''" "validateRemoteEndpoint i (xr_remoteEndpoint x) = None"
    "if din_Transport i = TransportDoH then 200 \<le> xr_dohStatus x \<and> xr_dohStatus x < 300 else xr_dohStatus x = 0"
    by simp_all
qed

section \<open>Results\<close>

lemma classifyContextFailure_coherent:
  assumes "classifyContextFailure p a k = Some (oc, code, e)"
  shows "coherent oc code" "code \<in> {FailureCancelled, FailureTimeout}" "oc \<noteq> OutcomeSucceeded"
  using assms by (auto simp: classifyContextFailure_def coherent_def split: if_splits)

definition dns_env_ok :: "DnsWorld \<Rightarrow> bool" where
  "dns_env_ok w \<longleftrightarrow> clock_ok (dw_now w) \<and> platform_ok (dw_os w) (dw_arch w)"

lemma failureResult_dns_sel [simp]:
  "env_outcome (failureResult_dns w ob s i oc c e) = oc" "env_input (failureResult_dns w ob s i oc c e) = i"
  "env_probe (failureResult_dns w ob s i oc c e) = ProbeKind_dns"
  "env_evidence (failureResult_dns w ob s i oc c e) = None"
  "env_failure (failureResult_dns w ob s i oc c e) =
     Some \<lparr>fail_code = c, fail_detail = (case e of None \<Rightarrow> '''' | Some x \<Rightarrow> err_text x)\<rparr>"
  by (simp_all add: failureResult_dns_def baseResult_dns_def Let_def)

lemma failureResult_dns_envelope:
  assumes "dns_env_ok w" "newObserver_dns cfg port = Inr ob" "coherent oc c"
  shows "Validate_envelope (failureResult_dns w ob s i oc c e) = None"
  using assms clock_nonzero [of "dw_now w" 1] newObserver_dns_ok(2) [OF assms(2)]
  by (auto simp: Validate_envelope_None Validate_outcome_None failureResult_dns_def baseResult_dns_def Let_def
      dns_env_ok_def platform_ok_def coherent_def)

text \<open>The part of the input contract shared by all accepted requests.\<close>

definition input_accepted :: "'a unitab_scheme \<Rightarrow> dnslib \<Rightarrow> DnsInput \<Rightarrow> bool" where
  "input_accepted u L i \<longleftrightarrow> (\<exists>name. normalizeHostname_dns u L (din_Hostname i) = (din_Hostname i, name, None)) \<and>
     din_Class i = dnsClassIN \<and> TrimSpace (ri_ID (din_Resolver i)) = ri_ID (din_Resolver i) \<and>
     ri_ID (din_Resolver i) \<noteq> '''' \<and> QueryType_valid (din_QueryType i) \<and> Transport_valid (din_Transport i)"

lemma accepted_failure_valid:
  assumes env: "dns_env_ok w" "newObserver_dns cfg port = Inr ob" "coherent oc c" "oc \<noteq> OutcomeSucceeded"
    and i: "input_accepted u L i" and code: "validFailureCode_dns c"
    and ep: "c = FailureInvalidInput \<or> (ri_Endpoint (din_Resolver i) = '''' \<and> c \<in> {FailureCancelled, FailureTimeout}) \<or>
      (ri_Endpoint (din_Resolver i) \<noteq> '''' \<and> (\<exists>r. validateResolverEndpoint i = Inr r))"
  shows "Validate_dns u L (failureResult_dns w ob s i oc c e) = None"
proof -
  obtain name where n: "normalizeHostname_dns u L (din_Hostname i) = (din_Hostname i, name, None)"
    using i by (auto simp: input_accepted_def)
  have "validateInputContract u L i oc (Some \<lparr>fail_code = c, fail_detail = d\<rparr>) = None" for d
    using i ep env(4)
    by (auto simp: validateInputContract_def n Let_def firstErr_simps input_accepted_def dns_codes)
  then show ?thesis
    using failureResult_dns_envelope [OF env(1-3)] code env(4)
    by (simp add: Validate_dns_def firstErr_simps)
qed

lemma normalizeRequest_dns_ok:
  assumes "normalizeRequest_dns u L r = (i, name, q, None)" "unitab_ok u" "labels_checked L"
  shows "input_accepted u L i" "ri_Endpoint (din_Resolver i) = ''''"
    "normalizeHostname_dns u L (din_Hostname i) = (din_Hostname i, name, None)"
    "wireQueryType (din_QueryType i) = Inr q" "ri_ID (din_Resolver i) = TrimSpace (dreq_Resolver r)"
    "din_Transport i = dreq_Transport r" "din_QueryType i = dreq_QueryType r"
proof -
  obtain h where h: "normalizeHostname_dns u L (dreq_Hostname r) = (h, name, None)"
    and i: "i = \<lparr>din_Hostname = h, din_QueryType = dreq_QueryType r, din_Class = dnsClassIN,
        din_Resolver = \<lparr>ri_ID = TrimSpace (dreq_Resolver r), ri_Endpoint = ''''\<rparr>, din_Transport = dreq_Transport r\<rparr>"
    and q: "wireQueryType (dreq_QueryType r) = Inr q" "Transport_valid (dreq_Transport r)" "TrimSpace (dreq_Resolver r) \<noteq> ''''"
    using assms(1) by (auto simp: normalizeRequest_dns_def Let_def split: prod.splits if_splits sum.splits)
  note fx = normalizeHostname_dns_fixed [OF assms(2,3) h]
  have "QueryType_valid (dreq_QueryType r)" using q(1) by (cases "dreq_QueryType r") auto
  with fx i q show "input_accepted u L i" "ri_Endpoint (din_Resolver i) = ''''"
    "normalizeHostname_dns u L (din_Hostname i) = (din_Hostname i, name, None)"
    "wireQueryType (din_QueryType i) = Inr q" "ri_ID (din_Resolver i) = TrimSpace (dreq_Resolver r)"
    "din_Transport i = dreq_Transport r" "din_QueryType i = dreq_QueryType r"
    by (auto simp: input_accepted_def)
qed

text \<open>A rejected host name is recorded as it stood after one pass of the normalizer.\<close>

definition rejects_stable :: "'a unitab_scheme \<Rightarrow> dnslib \<Rightarrow> string \<Rightarrow> bool" where
  "rejects_stable u L v \<longleftrightarrow> (\<exists>h name. normalizeHostname_dns u L v = (h, name, None)) \<or>
     hostnameText_dns u (hostnameText_dns u v) = hostnameText_dns u v"

lemma invalid_request_exact:
  assumes env: "dns_env_ok w" "newObserver_dns cfg port = Inr ob"
    and n: "normalizeRequest_dns u L r = (i, name, q, Some m)" and u: "unitab_ok u" "labels_checked L"
  shows "Validate_dns u L (failureResult_dns w ob s i OutcomeFailed FailureInvalidInput e) = None \<longleftrightarrow> rejects_stable u L (dreq_Hostname r)"
proof -
  let ?h = "hostnameText_dns u (dreq_Hostname r)"
  have i: "din_Class i = dnsClassIN" "ri_ID (din_Resolver i) = TrimSpace (dreq_Resolver r)" "din_Hostname i = ?h"
    using n normalizeHostname_dns_text [of u L "dreq_Hostname r"]
    by (auto simp: normalizeRequest_dns_def Let_def split: prod.splits if_splits sum.splits)
  have "rejects_stable u L (dreq_Hostname r) \<longleftrightarrow> hostnameText_dns u ?h = ?h"
  proof
    assume "rejects_stable u L (dreq_Hostname r)"
    then show "hostnameText_dns u ?h = ?h"
    proof (unfold rejects_stable_def, elim disjE exE)
      fix h name assume a: "normalizeHostname_dns u L (dreq_Hostname r) = (h, name, None)"
      have "normalizeHostname_dns u L h = (h, name, None)" by (rule normalizeHostname_dns_fixed [OF u a])
      then show ?thesis using normalizeHostname_dns_ok(1) a by metis
    qed
  qed (simp add: rejects_stable_def)
  moreover have "fst (normalizeHostname_dns u L ?h) = hostnameText_dns u ?h" by (simp add: normalizeHostname_dns_text)
  then have "validateInputContract u L i OutcomeFailed (Some \<lparr>fail_code = FailureInvalidInput, fail_detail = d\<rparr>) = None \<longleftrightarrow>
      hostnameText_dns u ?h = ?h" for d
    using i by (auto simp: validateInputContract_def Let_def firstErr_simps split: prod.splits)
  ultimately show ?thesis
    using failureResult_dns_envelope [OF env, of OutcomeFailed FailureInvalidInput]
    by (simp add: Validate_dns_def firstErr_simps coherent_def validFailureCode_dns_def)
qed

definition peers_ok_dns :: "'a unitab_scheme \<Rightarrow> dnslib \<Rightarrow> DnsWorld \<Rightarrow> DnsObserver \<Rightarrow> bool" where
  "peers_ok_dns u L w ob \<longleftrightarrow> (\<forall>attempt e t query x. exchange_dns u w ob attempt e t query = Inr x \<longrightarrow>
     message_ok u L (xr_message x))"

definition endpoints_plain :: "DnsObserver \<Rightarrow> bool" where
  "endpoints_plain ob \<longleftrightarrow> (\<forall>k e. dob_endpoints ob k = Some e \<longrightarrow> host_plain e)"

lemma exchange_code:
  "exchange_dns u w ob attempt e t query = Inl (code, err) \<Longrightarrow> code \<in> {FailureDNSTransport, FailureDNSProtocol, FailureDoHRule}"
  by (auto simp: exchange_dns_def exchangeWire_def exchangeUDP_def exchangeTCP_def exchangeDoH_def readDoHResponse_def
      Let_def split: Transport.splits sum.splits option.splits if_splits)

lemma success_exact:
  assumes env: "dns_env_ok w" "newObserver_dns cfg port = Inr ob" and i: "input_accepted u L i"
    and ep: "ri_Endpoint (din_Resolver i) \<noteq> ''''" "\<exists>r. validateResolverEndpoint i = Inr r"
  shows "Validate_dns u L ((baseResult_dns w ob s i)\<lparr>env_outcome := OutcomeSucceeded, env_evidence := Some ev\<rparr>) = None \<longleftrightarrow>
    validateEvidence_dns u L i ev = None"
proof -
  obtain name where n: "normalizeHostname_dns u L (din_Hostname i) = (din_Hostname i, name, None)"
    using i by (auto simp: input_accepted_def)
  have "validateInputContract u L i OutcomeSucceeded None = None"
    using i ep by (auto simp: validateInputContract_def n Let_def firstErr_simps input_accepted_def dns_codes)
  then show ?thesis
    using env clock_nonzero [of "dw_now w" 1] newObserver_dns_ok(2) [OF env(2)]
    by (auto simp: Validate_dns_def firstErr_simps Validate_envelope_None Validate_outcome_None baseResult_dns_def Let_def
        dns_env_ok_def platform_ok_def)
qed

definition noRefusal :: "'a unitab_scheme \<Rightarrow> dnslib \<Rightarrow> DnsResult \<Rightarrow> bool" where
  "noRefusal u L result \<longleftrightarrow> \<not> (\<exists>ev. env_evidence result = Some ev \<and> refusedEvidence u L ev)"

lemma noRefusal_failure [simp]: "noRefusal u L (failureResult_dns w ob s i oc c e)"
  by (simp add: noRefusal_def)

lemma finishExchange_exact:
  assumes env: "dns_env_ok w" "newObserver_dns cfg port = Inr ob" and i: "input_accepted u L i"
    and ep: "ri_Endpoint (din_Resolver i) \<noteq> ''''" "\<exists>r. validateResolverEndpoint i = Inr r"
    and bad: "\<And>code e. x = Inl (code, e) \<Longrightarrow> code \<in> {FailureDNSTransport, FailureDNSProtocol, FailureDoHRule}"
    and good: "\<And>y. x = Inr y \<Longrightarrow> xr_remoteEndpoint y \<noteq> '''' \<and>
      validateRemoteEndpoint i (xr_remoteEndpoint y) = None \<and>
      (if din_Transport i = TransportDoH then 200 \<le> xr_dohStatus y \<and> xr_dohStatus y < 300 else xr_dohStatus y = 0)"
  shows "Validate_dns u L (finishExchange u L w ob attempt i ex x) = None \<longleftrightarrow> noRefusal u L (finishExchange u L w ob attempt i ex x)"
proof -
  have fail: "Validate_dns u L (failureResult_dns w ob (dw_now w 0) i oc c e) = None"
    if "coherent oc c" "oc \<noteq> OutcomeSucceeded" "validFailureCode_dns c" for oc c e
    by (rule accepted_failure_valid [OF env that(1,2) i that(3)]) (use ep in blast)
  have ctxf: "Validate_dns u L (failureResult_dns w ob (dw_now w 0) i oc c e) = None"
    if "classifyContextFailure p a k = Some (oc, c, e')" for oc c e p a k e'
    using classifyContextFailure_coherent [OF that] by (intro fail) (auto simp: validFailureCode_dns_def)
  have codes: "Validate_dns u L (failureResult_dns w ob (dw_now w 0) i OutcomeFailed c e) = None"
    if "c \<in> {FailureTimeout, FailureDNSTransport, FailureDNSProtocol, FailureDoHRule}" for c e
    using that by (intro fail) (auto simp: coherent_def validFailureCode_dns_def dns_codes)
  have canon: "isCanonicalDNSName u L (din_Hostname i)"
    using i by (auto simp: input_accepted_def isCanonicalDNSName_def)
  show ?thesis
  proof (cases x)
    case (Inl f)
    obtain code e where f: "f = (code, e)" by fastforce
    with Inl bad have "code \<in> {FailureDNSTransport, FailureDNSProtocol, FailureDoHRule}" by blast
    then have "Validate_dns u L (failureResult_dns w ob (dw_now w 0) i OutcomeFailed
        (if isTimeout_dns e then FailureTimeout else code) (Some e)) = None"
      by (intro codes) auto
    with Inl f ctxf show ?thesis by (simp add: finishExchange_def Let_def split: option.split prod.split)
  next
    case (Inr y)
    note g = good [OF Inr]
    have protocol: "Validate_dns u L (failureResult_dns w ob (dw_now w 0) i OutcomeFailed FailureDNSProtocol e) = None" for e
      by (rule codes) simp
    let ?ev = "\<lambda>p. evidenceFromResponse u L p i (length (xr_message y)) (xr_remoteEndpoint y) (xr_dohStatus y)"
    let ?done = "\<lambda>p. (baseResult_dns w ob (dw_now w 0) i)\<lparr>env_outcome := OutcomeSucceeded, env_evidence := Some (?ev p)\<rparr>"
    have ok: "Validate_dns u L (?done p) = None \<longleftrightarrow> noRefusal u L (?done p)"
      if "decodeResponse u L (xr_message y) ex = Inr p" for p
      using success_exact [OF env i ep] evidence_exact [OF decodeResponse_Inr [OF that] canon] g
      by (simp add: noRefusal_def)
    from Inr show ?thesis
      using ctxf protocol ok by (simp add: finishExchange_def Let_def split: option.split sum.split prod.split)
  qed
qed

lemma Observe_dns_exact:
  assumes env: "dns_env_ok w" "newObserver_dns cfg port = Inr ob" "port \<le> 65535" "endpoints_plain ob"
    and lib: "unitab_ok u" "labels_checked L" and net: "dialer_ok w"
  shows "Validate_dns u L (Observe_dns u L w ob r) = None \<longleftrightarrow>
    rejects_stable u L (dreq_Hostname r) \<and> noRefusal u L (Observe_dns u L w ob r)"
proof -
  obtain i name q err where n: "normalizeRequest_dns u L r = (i, name, q, err)" using prod_cases4 by blast
  show ?thesis
  proof (cases err)
    case (Some m)
    with n show ?thesis
      using invalid_request_exact [OF env(1,2) _ lib] by (simp add: Observe_dns_def)
  next
    case None
    note ok = normalizeRequest_dns_ok [OF n [unfolded None] lib]
    have early: "Validate_dns u L (failureResult_dns w ob (dw_now w 0) i oc c e) = None"
      if "classifyContextFailure (dw_ctx w) (dw_ctx w) 0 = Some (oc, c, e')" for oc c e e'
      using classifyContextFailure_coherent [OF that] ok
      by (intro accepted_failure_valid [OF env(1,2)]) (auto simp: validFailureCode_dns_def)
    have invalid: "Validate_dns u L (failureResult_dns w ob (dw_now w 0) j OutcomeFailed FailureInvalidInput e) = None"
      if "input_accepted u L j" for j e
      using that by (intro accepted_failure_valid [OF env(1,2)]) (auto simp: validFailureCode_dns_def coherent_def)
    have stable: "rejects_stable u L (dreq_Hostname r)"
      using n [unfolded None] by (auto simp: normalizeRequest_dns_def rejects_stable_def Let_def split: prod.splits if_splits)
    let ?found = "\<lambda>e j. case validateTransportEndpoint (din_Transport i) e of
          Some m \<Rightarrow> failureResult_dns w ob (dw_now w 0) j OutcomeFailed FailureInvalidInput (Some (plainErr m))
        | None \<Rightarrow> (case messageID w (din_Transport i) of
            Inl m \<Rightarrow> failureResult_dns w ob (dw_now w 0) j OutcomeFailed FailureDNSProtocol
              (Some (m\<lparr>err_text := ''generate DNS message id: '' @ err_text m\<rparr>))
          | Inr ident \<Rightarrow> (case buildQuery L ident name q of
              Inl m \<Rightarrow> failureResult_dns w ob (dw_now w 0) j OutcomeFailed FailureDNSProtocol (Some (plainErr m))
            | Inr query \<Rightarrow> finishExchange u L w ob (withTimeout (dw_ctx w) (dw_fired w (dob_timeout ob))) j
                \<lparr>ex_id = ident, ex_name = name, ex_qtype = q\<rparr>
                (exchange_dns u w ob (withTimeout (dw_ctx w) (dw_fired w (dob_timeout ob))) e (din_Transport i) query)))"
    have found: "Validate_dns u L (?found e j) = None \<longleftrightarrow> noRefusal u L (?found e j)" if e: "dob_endpoints ob (ri_ID (din_Resolver i)) = Some e"
        and j: "j = i\<lparr>din_Resolver := input_dns e (din_Transport i) (dob_wirePort ob)\<rparr>" for e j
    proof -
      have eok: "ce_id e = ri_ID (din_Resolver i)" "endpoint_ok e" "host_plain e"
        using newObserver_dns_ok(1) [OF env(2) e] env(4) e by (auto simp: endpoints_plain_def)
      have acc: "input_accepted u L j"
        using ok(1) eok(1) j by (auto simp: input_accepted_def input_dns_def)
      have port: "dob_wirePort ob \<le> 65535"
        using newObserver_dns_ok(3) [OF env(2)] env(3) by (simp add: dnsPort_def)
      show ?thesis
      proof (cases "validateTransportEndpoint (din_Transport i) e")
        case (Some m)
        with invalid [OF acc] show ?thesis by simp
      next
        case None
        have tv: "Transport_valid (din_Transport i)" using ok(1) by (simp add: input_accepted_def)
        have ji: "din_Resolver j = input_dns e (din_Transport i) (dob_wirePort ob)" "din_Transport j = din_Transport i"
          using j by simp_all
        note ev = endpoint_valid [OF eok(2,3) None tv port ji]
        have ep: "ri_Endpoint (din_Resolver j) \<noteq> ''''" "\<exists>r. validateResolverEndpoint j = Inr r"
          using ev by blast+
        let ?fin = "\<lambda>a ex query. finishExchange u L w ob a j ex (exchange_dns u w ob a e (din_Transport i) query)"
        have fin: "Validate_dns u L (?fin a ex query) = None \<longleftrightarrow> noRefusal u L (?fin a ex query)" for a ex query
        proof (rule finishExchange_exact [OF env(1,2) acc ep])
          fix y assume y: "exchange_dns u w ob a e (din_Transport i) query = Inr y"
          with exchange_remote [OF y net eok(2,3) None tv port ji]
          show "xr_remoteEndpoint y \<noteq> '''' \<and>
            validateRemoteEndpoint j (xr_remoteEndpoint y) = None \<and>
            (if din_Transport j = TransportDoH then 200 \<le> xr_dohStatus y \<and> xr_dohStatus y < 300 else xr_dohStatus y = 0)"
            by simp
        qed (rule exchange_code)
        have prot: "Validate_dns u L (failureResult_dns w ob (dw_now w 0) j OutcomeFailed FailureDNSProtocol m) = None" for m
          by (rule accepted_failure_valid [OF env(1,2) _ _ acc])
            (use ep in \<open>simp_all add: coherent_def validFailureCode_dns_def dns_codes\<close>)
        from None fin prot show ?thesis by (simp split: sum.split)
      qed
    qed
    show ?thesis
      unfolding Observe_dns_def n None Let_def prod.case
      using stable early invalid [OF ok(1)] found by (simp split: option.split prod.split)
  qed
qed

section \<open>Successes\<close>

text \<open>Everything that must have happened when an observation succeeds.\<close>

definition dns_run :: "'a unitab_scheme \<Rightarrow> dnslib \<Rightarrow> DnsWorld \<Rightarrow> DnsObserver \<Rightarrow> DnsRequest \<Rightarrow> DnsEvidence \<Rightarrow> bool" where
  "dns_run u L w ob r ev \<longleftrightarrow> (\<exists>i name q e ident query x p.
     normalizeRequest_dns u L r = (i, name, q, None) \<and>
     dob_endpoints ob (ri_ID (din_Resolver i)) = Some e \<and>
     messageID w (din_Transport i) = Inr ident \<and>
     buildQuery L ident name q = Inr query \<and>
     exchange_dns u w ob (withTimeout (dw_ctx w) (dw_fired w (dob_timeout ob))) e (din_Transport i) query = Inr x \<and>
     decodes_to u L (xr_message x) \<lparr>ex_id = ident, ex_name = name, ex_qtype = q\<rparr> p \<and>
     ev = evidenceFromResponse u L p (i\<lparr>din_Resolver := input_dns e (din_Transport i) (dob_wirePort ob)\<rparr>)
       (length (xr_message x)) (xr_remoteEndpoint x) (xr_dohStatus x))"

lemma finishExchange_success:
  assumes "env_outcome (finishExchange u L w ob a i ex x) = OutcomeSucceeded"
  obtains y p where "x = Inr y" "decodeResponse u L (xr_message y) ex = Inr p"
    "classifyContextFailure (dw_ctx w) a 13 = None"
    "env_evidence (finishExchange u L w ob a i ex x) =
      Some (evidenceFromResponse u L p i (length (xr_message y)) (xr_remoteEndpoint y) (xr_dohStatus y))"
proof -
  have nf: "classifyContextFailure p' a' k \<noteq> Some (OutcomeSucceeded, c, e)" for p' a' k c e
    using classifyContextFailure_coherent(3) by blast
  have n5: "classifyContextFailure (dw_ctx w) a 5 = None"
    using assms nf by (auto simp: finishExchange_def Let_def split: option.splits)
  obtain y where y: "x = Inr y"
    using assms n5 by (cases x) (auto simp: finishExchange_def Let_def)
  obtain p where p: "decodeResponse u L (xr_message y) ex = Inr p"
    using assms n5 y by (cases "decodeResponse u L (xr_message y) ex") (auto simp: finishExchange_def Let_def)
  have n9: "classifyContextFailure (dw_ctx w) a 9 = None"
    using assms nf n5 y p by (auto simp: finishExchange_def Let_def split: option.splits)
  have n13: "classifyContextFailure (dw_ctx w) a 13 = None"
    using assms nf n5 n9 y p by (auto simp: finishExchange_def Let_def split: option.splits)
  show ?thesis
    by (rule that [OF y p n13]) (use n5 n9 n13 y p in \<open>simp add: finishExchange_def Let_def\<close>)
qed

lemma Observe_dns_success:
  assumes "env_outcome (Observe_dns u L w ob r) = OutcomeSucceeded"
  obtains ev where "env_evidence (Observe_dns u L w ob r) = Some ev" "dns_run u L w ob r ev"
    "classifyContextFailure (dw_ctx w) (withTimeout (dw_ctx w) (dw_fired w (dob_timeout ob))) 13 = None"
proof -
  let ?a = "withTimeout (dw_ctx w) (dw_fired w (dob_timeout ob))"
  obtain i name q err where n: "normalizeRequest_dns u L r = (i, name, q, err)" using prod_cases4 by blast
  have err: "err = None" using assms n by (cases err) (simp_all add: Observe_dns_def)
  have n0: "classifyContextFailure (dw_ctx w) (dw_ctx w) 0 = None"
  proof (rule ccontr)
    assume "classifyContextFailure (dw_ctx w) (dw_ctx w) 0 \<noteq> None"
    then obtain oc c e where c: "classifyContextFailure (dw_ctx w) (dw_ctx w) 0 = Some (oc, c, e)" by auto
    then have "env_outcome (Observe_dns u L w ob r) = oc" using n err by (simp add: Observe_dns_def Let_def)
    with assms classifyContextFailure_coherent(3) [OF c] show False by simp
  qed
  obtain e where e: "dob_endpoints ob (ri_ID (din_Resolver i)) = Some e"
    using assms n err n0 by (cases "dob_endpoints ob (ri_ID (din_Resolver i))") (simp_all add: Observe_dns_def)
  have v: "validateTransportEndpoint (din_Transport i) e = None"
    using assms n err n0 e by (cases "validateTransportEndpoint (din_Transport i) e") (simp_all add: Observe_dns_def Let_def)
  obtain ident where ident: "messageID w (din_Transport i) = Inr ident"
    using assms n err n0 e v by (cases "messageID w (din_Transport i)") (simp_all add: Observe_dns_def Let_def)
  obtain query where query: "buildQuery L ident name q = Inr query"
    using assms n err n0 e v ident by (cases "buildQuery L ident name q") (simp_all add: Observe_dns_def Let_def)
  let ?i = "i\<lparr>din_Resolver := input_dns e (din_Transport i) (dob_wirePort ob)\<rparr>"
  have obs: "Observe_dns u L w ob r = finishExchange u L w ob ?a ?i \<lparr>ex_id = ident, ex_name = name, ex_qtype = q\<rparr>
      (exchange_dns u w ob ?a e (din_Transport i) query)"
    using n err n0 e v ident query by (simp add: Observe_dns_def Let_def)
  from assms [unfolded obs] obtain y p where
    x: "exchange_dns u w ob ?a e (din_Transport i) query = Inr y"
      "decodeResponse u L (xr_message y) \<lparr>ex_id = ident, ex_name = name, ex_qtype = q\<rparr> = Inr p"
      "classifyContextFailure (dw_ctx w) ?a 13 = None"
      "env_evidence (Observe_dns u L w ob r) =
        Some (evidenceFromResponse u L p ?i (length (xr_message y)) (xr_remoteEndpoint y) (xr_dohStatus y))"
    unfolding obs by (rule finishExchange_success)
  show ?thesis
  proof (rule that [OF x(4) _ x(3)])
    show "dns_run u L w ob r (evidenceFromResponse u L p ?i (length (xr_message y)) (xr_remoteEndpoint y) (xr_dohStatus y))"
      unfolding dns_run_def using n err e ident query x(1) decodeResponse_Inr [OF x(2)] by blast
  qed
qed

lemma evidence_noRefusal:
  assumes dec: "decodes_to u L raw expected p" and msg: "message_ok u L raw"
  shows "\<not> refusedEvidence u L (evidenceFromResponse u L p i n remote status)"
proof -
  let ?ev = "evidenceFromResponse u L p i n remote status"
  have res: "\<forall>r \<in> set (pr_answers p) \<union> set (pr_authorities p). resource_ok u L r"
    using dec msg by (auto simp: decodes_to_def message_ok_def)
  have ev: "dev_Records ?ev = List.map_filter (answerRecord u) (pr_answers p)"
    "dev_AuthorityNS ?ev = List.map_filter (authorityNS u) (pr_authorities p)"
    by (simp_all add: evidenceFromResponse_def Let_def split: prod.split)
  have soa: "s \<in> set (List.map_filter (authoritySOA u) (pr_authorities p))" if "dev_NegativeSOA ?ev = Some s" for s
    using that by (auto simp: evidenceFromResponse_def Let_def split: prod.splits if_splits list.splits)
  have "\<not> refusedRecord u L r" if "r \<in> set (dev_Records ?ev)" for r
    using that res answerRecord_ok unfolding ev map_filter_mem by blast
  moreover have "isCanonicalDNSName u L (ns_Name r) \<and> isCanonicalDNSName u L (ns_Target r)" if "r \<in> set (dev_AuthorityNS ?ev)" for r
    using that res authorityNS_ok unfolding ev map_filter_mem by blast
  moreover have "isCanonicalDNSName u L (soa_Name s) \<and> isCanonicalDNSName u L (soa_NS s) \<and> isCanonicalDNSName u L (soa_Mailbox s)"
    if "dev_NegativeSOA ?ev = Some s" for s
    using soa [OF that] res authoritySOA_ok unfolding map_filter_mem by blast
  ultimately show ?thesis unfolding refusedEvidence_def by blast
qed

text \<open>Evidence is reported with success only.\<close>

definition evidence_succeeds :: "DnsResult \<Rightarrow> bool" where
  "evidence_succeeds x \<longleftrightarrow> (env_evidence x \<noteq> None \<longrightarrow> env_outcome x = OutcomeSucceeded)"

lemma evidence_succeeds_failure [simp]: "evidence_succeeds (failureResult_dns w ob s i oc c e)"
  by (simp add: evidence_succeeds_def)

lemma finishExchange_evidence: "evidence_succeeds (finishExchange u L w ob a i ex x)"
  by (simp add: finishExchange_def Let_def split: prod.split option.split sum.split)
    (simp add: evidence_succeeds_def)

lemma Observe_dns_evidence:
  "env_evidence (Observe_dns u L w ob r) = Some ev \<Longrightarrow> env_outcome (Observe_dns u L w ob r) = OutcomeSucceeded"
proof -
  have "evidence_succeeds (Observe_dns u L w ob r)"
    unfolding Observe_dns_def Let_def by (simp add: finishExchange_evidence split: prod.split option.split sum.split)
  then show "env_evidence (Observe_dns u L w ob r) = Some ev \<Longrightarrow> env_outcome (Observe_dns u L w ob r) = OutcomeSucceeded"
    by (simp add: evidence_succeeds_def)
qed

lemma Observe_dns_valid_lemma:
  assumes "dns_env_ok w" "newObserver_dns cfg port = Inr ob" "port \<le> 65535" "endpoints_plain ob"
    "unitab_ok u" "labels_checked L" "dialer_ok w" "peers_ok_dns u L w ob" "rejects_stable u L (dreq_Hostname r)"
  shows "Validate_dns u L (Observe_dns u L w ob r) = None"
proof -
  have "\<not> refusedEvidence u L ev" if ev: "env_evidence (Observe_dns u L w ob r) = Some ev" for ev
  proof -
    have "dns_run u L w ob r ev" using Observe_dns_success [OF Observe_dns_evidence [OF ev]] ev by (metis option.inject)
    with assms(8) show ?thesis unfolding dns_run_def peers_ok_dns_def using evidence_noRefusal by blast
  qed
  then show ?thesis using Observe_dns_exact [OF assms(1-7)] assms(9) by (auto simp: noRefusal_def)
qed

lemma classifyContextFailure_None:
  assumes "classifyContextFailure p a k = None" "a (k + 1) = Some e" "a (k + 3) = Some e"
  shows False
  using assms by (cases e) (simp_all add: classifyContextFailure_def split: if_splits)

lemma no_late_success:
  assumes "env_outcome (Observe_dns u L w ob r) = OutcomeSucceeded" "k \<le> 14"
  shows "withTimeout (dw_ctx w) (dw_fired w (dob_timeout ob)) k = None"
proof (rule ccontr)
  let ?a = "withTimeout (dw_ctx w) (dw_fired w (dob_timeout ob))"
  assume "?a k \<noteq> None"
  then obtain e where e: "?a k = Some e" by blast
  have "?a (13 + 1) = Some e" "?a (13 + 3) = Some e"
    by (rule withTimeout_stable [OF e], use assms(2) in simp)+
  moreover have "classifyContextFailure (dw_ctx w) ?a 13 = None" using Observe_dns_success [OF assms(1)] by blast
  ultimately show False using classifyContextFailure_None by blast
qed

section \<open>Framing\<close>

lemma writeAll_progress:
  assumes "\<And>k v. v \<noteq> [] \<Longrightarrow> \<exists>n. write k v = (n, None) \<and> 0 < n"
  shows "writeAll write k v = None"
proof (induction "length v" arbitrary: k v rule: less_induct)
  case less
  show ?case
  proof (cases "v = []")
    case False
    then obtain n where n: "write k v = (n, None)" "0 < n" using assms by blast
    then have "length (drop n v) < length v" using False by simp
    from less [OF this] n False show ?thesis by (subst writeAll.simps) simp
  qed (simp add: writeAll.simps)
qed

lemma putUint16_value:
  assumes "n \<le> 65535"
  shows "unat (beUint16 (putUint16 n ! 0) (putUint16 n ! 1)) = n"
proof -
  have "n div 256 < 256" using assms by (simp add: less_mult_imp_div_less)
  then have "unat (word_of_nat (n div 256) :: 8 word) * 256 + unat (word_of_nat n :: 8 word) = n"
    by (simp add: unat_of_nat)
  with assms show ?thesis by (simp add: putUint16_def beUint16_def unat_of_nat)
qed

lemma exchangeTCP_framed:
  assumes "dc_Stream conn = (putUint16 (length m) @ m @ rest, e)" "0 < length m" "length m \<le> maxDNSMessageBytes"
    "length query \<le> maxDNSMessageBytes" "writeAll (dc_Write conn) 0 (putUint16 (length query) @ query) = None"
    "attempt 4 = None"
  shows "exchangeTCP conn attempt query = Inr \<lparr>xr_message = m, xr_remoteEndpoint = dc_RemoteAddr conn, xr_dohStatus = 0\<rparr>"
proof -
  have l: "length (putUint16 n) = 2" for n by (simp add: putUint16_def)
  have r: "readFull 2 (dc_Stream conn) = Inr (putUint16 (length m), (m @ rest, e))"
    unfolding assms(1) readFull_def by (simp add: l)
  have v: "unat (beUint16 (putUint16 (length m) ! 0) (putUint16 (length m) ! 1)) = length m"
    using assms(3) by (intro putUint16_value) (simp add: maxDNSMessageBytes_def)
  have r2: "readFull (length m) (m @ rest, e) = Inr (m, (rest, e))" by (simp add: readFull_def)
  show ?thesis
    using assms(2-6) r2 unfolding exchangeTCP_def r sum.case prod.case Let_def v
    by (simp add: ctxErrAt_def)
qed

end
