(* ===== verification/DnsClaims.thy ===== *)
theory DnsClaims
  imports DnsProps
begin

text \<open>
  The properties of the DNS observation, and one run of it on a small network: a codec that
  reads one fixed response to \<open>example.com A\<close>, an alias and the address it leads to.
\<close>

section \<open>A small network\<close>

definition demoTab :: "unit unitab_scheme" where
  "demoTab = \<lparr>uni_lower = (\<lambda>r. r), uni_fold = (=)\<rparr>"

definition demoPack :: "QueryMessage \<Rightarrow> error + bytes" where
  "demoPack q = (if list_ex (\<lambda>x. startsWith ''..'' (rev (qu_Name x))) (qm_Questions q)
     then Inl ''zero length segment'' else Inr [0, 7])"

definition demoHeader :: DnsHeader where
  "demoHeader = \<lparr>hd_ID = 7, hd_Response = True, hd_OpCode = 0, hd_Authoritative = False, hd_Truncated = False,
     hd_RecursionDesired = True, hd_RecursionAvailable = True, hd_AuthenticData = False, hd_CheckingDisabled = False,
     hd_RCode = 0\<rparr>"

definition demoSections :: "dnsName \<Rightarrow> Sections" where
  "demoSections target = \<lparr>
     sec_Questions = ([\<lparr>qu_Name = ''example.com.'', qu_Type = TypeA, qu_Class = ClassINET\<rparr>], None),
     sec_Answers = ([
       \<lparr>rs_Header = \<lparr>rh_Name = ''example.com.'', rh_Type = TypeCNAME, rh_Class = ClassINET, rh_TTL = 60\<rparr>,
        rs_Body = CNAMEResource target\<rparr>,
       \<lparr>rs_Header = \<lparr>rh_Name = target, rh_Type = TypeA, rh_Class = ClassINET, rh_TTL = 60\<rparr>,
        rs_Body = AResource (93, 184, 215, 14)\<rparr>], None),
     sec_Authorities = ([], None),
     sec_Additionals = ([], None)\<rparr>"

definition demoLib :: "dnsName \<Rightarrow> dnslib" where
  "demoLib target = \<lparr>dl_NewName = Inr, dl_Pack = demoPack,
     dl_Start = (\<lambda>raw. Inr (demoHeader, demoSections target)), dl_ExtendedRCode = (\<lambda>h r. r)\<rparr>"

definition demoDnsConfig :: DnsConfig where
  "demoDnsConfig = \<lparr>dcfg_Resolvers = [\<lparr>rep_ID = ''r'', rep_WireIP = Addr4 9 9 9 9, rep_DoHURL = '''',
     rep_DoHBootstrap = AddrInvalid\<rparr>], dcfg_Timeout = 0\<rparr>"

definition demoDnsEndpoint :: configuredEndpoint where
  "demoDnsEndpoint = \<lparr>ce_id = ''r'', ce_kind = endpointWire, ce_wireIP = Addr4 9 9 9 9, ce_dohURL = emptyURL,
     ce_bootstrap = AddrInvalid\<rparr>"

definition demoDnsObserver :: DnsObserver where
  "demoDnsObserver = \<lparr>dob_endpoints = [''r'' \<mapsto> demoDnsEndpoint], dob_timeout = 3 * Second, dob_wirePort = 53,
     dob_source = \<lparr>src_backend = ''golang.org/x/net/dns/dnsmessage'', src_capability = CapabilityNative,
       src_reason = ''''\<rparr>\<rparr>"

definition demoDnsWorld :: "ctx \<Rightarrow> DnsWorld" where
  "demoDnsWorld ctx = \<lparr>dw_now = steadyClock 1000000, dw_ctx = ctx, dw_fired = (\<lambda>d n. False), dw_random = Inr 7,
     dw_dial = (\<lambda>net addr. Inr \<lparr>dc_RemoteAddr = addr, dc_SetDeadline = None,
       dc_Write = (\<lambda>k v. (length v, None)), dc_Datagram = Inr [0, 7, 1], dc_Stream = ([], EOFErr)\<rparr>),
     dw_http = (\<lambda>c r. Inl EOFErr), dw_os = ''linux'', dw_arch = ''amd64''\<rparr>"

definition demoDnsRequest :: DnsRequest where
  "demoDnsRequest = \<lparr>dreq_Hostname = ''example.com'', dreq_QueryType = QueryTypeA, dreq_Resolver = ''r'',
     dreq_Transport = TransportUDP\<rparr>"

lemma demoTab_ok: "unitab_ok demoTab"
  by (simp add: unitab_ok_def demoTab_def)

lemma demoLib_labels: "labels_checked (demoLib t)"
proof -
  have "h = '''' \<or> last h \<noteq> CHR ''.''" if "\<not> startsWith ''..'' (rev (h @ ''.''))" for h
    using that by (cases h rule: rev_cases) (auto simp: startsWith_def take_Cons')
  then show ?thesis
    by (auto simp: labels_checked_def demoLib_def demoPack_def probeMessage_def split: if_splits)
qed

lemma demo_host:
  assumes "graphic h" "\<forall>c \<in> set h. byte c < 128 \<and> \<not> (65 \<le> byte c \<and> byte c \<le> 90)" "h \<noteq> ''''" "last h \<noteq> CHR ''.''"
    "ParseAddr h = None" "\<not> ContainsAny h hostnameReserved"
  shows "normalizeHostname_dns demoTab (demoLib t) h = (h, h @ ''.'', None)"
proof -
  have a: "isAscii h" using assms(2) by (simp add: isAscii_def list_all_iff)
  have g: "\<forall>c \<in> set h. 33 \<le> byte c \<and> byte c < 127" using assms(1) by (auto simp: graphic_def list_all_iff isGraph_def)
  have "\<not> hasSpaceRune h"
    using g by (fastforce simp: hasSpaceRune_def runes_ascii [OF a] list_ex_iff isSpaceRune_def spaceRunes_def)
  moreover have "list_all (\<lambda>r. r \<le> 127 \<and> 33 \<le> r) (runes h)"
    using g by (fastforce simp: runes_ascii [OF a] list_all_iff)
  ultimately have "hostnameErr_dns h = None"
    using assms by (simp add: hostnameErr_dns_def firstErr_simps)
  moreover have "hostnameText_dns demoTab h = h"
    using assms by (simp add: hostnameText_dns_def TrimSpace_graphic ToLower_lower_id TrimSuffixDot_def)
  moreover have "\<not> startsWith ''..'' (rev (h @ ''.''))"
    using assms(3,4) by (cases h rule: rev_cases) (auto simp: startsWith_def take_Cons')
  ultimately show ?thesis
    by (simp add: normalizeHostname_dns_def demoLib_def demoPack_def probeMessage_def)
qed

lemma demo_names:
  "normalizeHostname_dns demoTab (demoLib t) ''example.com'' = (''example.com'', ''example.com.'', None)"
  "normalizeHostname_dns demoTab (demoLib t) ''edge.example.net'' = (''edge.example.net'', ''edge.example.net.'', None)"
  by (rule demo_host [THEN trans];
      simp add: isGraph_def netip_parse_eval ContainsAny_def hostnameReserved_def)+

lemma demoDnsObserver_new: "newObserver_dns demoDnsConfig 53 = Inr demoDnsObserver"
proof -
  have "TrimSpace ''r'' = ''r''" by (rule TrimSpace_graphic) (simp add: isGraph_def)
  then have "normalizeEndpoint \<lparr>rep_ID = ''r'', rep_WireIP = Addr4 9 9 9 9, rep_DoHURL = '''', rep_DoHBootstrap = AddrInvalid\<rparr> =
      Inr demoDnsEndpoint"
    by (simp add: normalizeEndpoint_def demoDnsEndpoint_def isUnsupportedResolverAddress_def IsUnspecified_def
        IPv4Unspecified_def IPv6Unspecified_def IsMulticast_def ipv4LimitedBroadcast_def AddrFrom4_def)
  then show ?thesis
    by (simp add: newObserver_dns_def demoDnsConfig_def demoDnsObserver_def defaultTimeout_dns_def maximumTimeout_dns_def
        demoDnsEndpoint_def)
qed

lemma demoDnsWorld_ok: "dns_env_ok (demoDnsWorld ctx)" "dialer_ok (demoDnsWorld ctx)"
  by (simp_all add: dns_env_ok_def demoDnsWorld_def steadyClock_ok platform_ok_def dialer_ok_def)

text \<open>The run, up to the network: a query over UDP that is answered.\<close>

lemma demo_dns_input:
  "normalizeRequest_dns demoTab (demoLib t) demoDnsRequest =
     (\<lparr>din_Hostname = ''example.com'', din_QueryType = QueryTypeA, din_Class = ''IN'',
       din_Resolver = \<lparr>ri_ID = ''r'', ri_Endpoint = ''''\<rparr>, din_Transport = TransportUDP\<rparr>, ''example.com.'', TypeA, None)"
proof -
  have "TrimSpace ''r'' = ''r''" by (rule TrimSpace_graphic) (simp add: isGraph_def)
  then show ?thesis
    by (simp add: normalizeRequest_dns_def demoDnsRequest_def demo_names dnsClassIN_def)
qed

lemma demo_endpoint_text: "AddrPortString (Addr4 9 9 9 9, 53) = ''9.9.9.9:53''"
  by (simp add: AddrPortString_def AddrString_def dotted_def fmtBase_rec digitChar_text)

definition demoDnsInput :: DnsInput where
  "demoDnsInput = \<lparr>din_Hostname = ''example.com'', din_QueryType = QueryTypeA, din_Class = ''IN'',
     din_Resolver = \<lparr>ri_ID = ''r'', ri_Endpoint = ''9.9.9.9:53''\<rparr>, din_Transport = TransportUDP\<rparr>"

definition demoParsed :: "dnsName \<Rightarrow> parsedResponse" where
  "demoParsed t = \<lparr>pr_header = demoHeader, pr_answers = fst (sec_Answers (demoSections t)), pr_authorities = [],
     pr_additionals = [], pr_bodyComplete = True\<rparr>"

lemma demo_decode:
  "decodeResponse demoTab (demoLib t) [0, 7, 1] \<lparr>ex_id = 7, ex_name = ''example.com.'', ex_qtype = TypeA\<rparr> = Inr (demoParsed t)"
proof -
  have "EqualFold demoTab ''example.com.'' ''example.com.''"
    by (simp add: EqualFold_def isAscii_def)
  then show ?thesis
    by (simp add: decodeResponse_def demoLib_def demoSections_def demoHeader_def demoParsed_def maxDNSMessageBytes_def
        maxResponseRecords_def validateResponseIdentity_def firstErr.simps guard_def)
qed

lemma demo_Observe_dns:
  "Observe_dns demoTab (demoLib t) (demoDnsWorld background) demoDnsObserver demoDnsRequest =
     (baseResult_dns (demoDnsWorld background) demoDnsObserver (dw_now (demoDnsWorld background) 0) demoDnsInput)
       \<lparr>env_outcome := OutcomeSucceeded, env_evidence :=
          Some (evidenceFromResponse demoTab (demoLib t) (demoParsed t) demoDnsInput (Suc (Suc (Suc 0))) ''9.9.9.9:53'' 0)\<rparr>"
proof -
  have live: "withTimeout background (\<lambda>n. False) k = None" for k
    by (induction k) (simp_all add: background_def)
  have ctx: "classifyContextFailure background background k = None"
    "classifyContextFailure background (withTimeout background (\<lambda>n. False)) k = None" for k
    by (simp_all add: classifyContextFailure_def live) (simp_all add: background_def)
  have q: "buildQuery (demoLib t) 7 ''example.com.'' TypeA = Inr [0, 7]"
    by (simp add: buildQuery_def demoLib_def demoPack_def startsWith_def)
  have wr: "writeAll (\<lambda>k v. (length v, None)) 0 [0, 7] = None"
    by (simp add: writeAll.simps)
  have x: "exchange_dns demoTab (demoDnsWorld background) demoDnsObserver (withTimeout background (\<lambda>n. False)) demoDnsEndpoint
      TransportUDP [0, 7] = Inr \<lparr>xr_message = [0, 7, 1], xr_remoteEndpoint = ''9.9.9.9:53'', xr_dohStatus = 0\<rparr>"
    by (simp add: exchange_dns_def exchangeWire_def exchangeUDP_def demoDnsWorld_def demoDnsObserver_def demoDnsEndpoint_def
        demo_endpoint_text wr live ctxErrAt_def maxDNSMessageBytes_def)
  have w: "dw_ctx (demoDnsWorld background) = background" "dw_fired (demoDnsWorld background) = (\<lambda>d n. False)"
    "dw_random (demoDnsWorld background) = Inr 7"
    by (simp_all add: demoDnsWorld_def)
  have ep: "dob_endpoints demoDnsObserver ''r'' = Some demoDnsEndpoint" by (simp add: demoDnsObserver_def)
  have inp: "input_dns demoDnsEndpoint TransportUDP (dob_wirePort demoDnsObserver) = \<lparr>ri_ID = ''r'', ri_Endpoint = ''9.9.9.9:53''\<rparr>"
    "validateTransportEndpoint TransportUDP demoDnsEndpoint = None"
    by (simp_all add: input_dns_def demoDnsEndpoint_def demoDnsObserver_def demo_endpoint_text validateTransportEndpoint_def firstErr_simps)
  show ?thesis
    by (simp add: Observe_dns_def demo_dns_input w ctx ep inp messageID_def q x finishExchange_def demo_decode Let_def
        demoDnsInput_def)
qed

lemma demo_message_ok: "name_ok demoTab (demoLib ''edge.example.net.'') ''edge.example.net.'' \<and>
  name_ok demoTab (demoLib ''edge.example.net.'') ''example.com.''"
proof -
  have "canonicalName demoTab ''edge.example.net.'' = ''edge.example.net''"
    "canonicalName demoTab ''example.com.'' = ''example.com''"
    by (simp_all add: canonicalName_def Let_def ToLower_lower_id TrimSuffixDot_def)
  then show ?thesis by (simp add: name_ok_def isCanonicalDNSName_def demo_names)
qed

lemma demo_peers: "peers_ok_dns demoTab (demoLib ''edge.example.net.'') w ob"
  using demo_message_ok
  by (auto simp: peers_ok_dns_def message_ok_def demoLib_def demoSections_def resource_ok_def)

lemma demo_plain: "endpoints_plain demoDnsObserver"
  by (auto simp: endpoints_plain_def demoDnsObserver_def host_plain_def demoDnsEndpoint_def split: if_splits)

lemma demo_stable: "rejects_stable demoTab (demoLib t) (dreq_Hostname demoDnsRequest)"
  by (simp add: rejects_stable_def demoDnsRequest_def demo_names)

section \<open>Properties\<close>

text \<open>
  A response may contain any name: an alias to a classless reverse-delegation name is observed with
  success, and the name is outside the host-name syntax of the validator.
\<close>

definition reverseAlias :: dnsName where
  "reverseAlias = ''1.0/25.2.0.192.in-addr.arpa.''"

lemma reverse_alias_record:
  "\<exists>r \<in> set (dev_Records (evidenceFromResponse demoTab (demoLib reverseAlias) (demoParsed reverseAlias) demoDnsInput n remote status)).
     refusedRecord demoTab (demoLib reverseAlias) r"
proof -
  let ?n = "''1.0/25.2.0.192.in-addr.arpa''"
  let ?ev = "evidenceFromResponse demoTab (demoLib reverseAlias) (demoParsed reverseAlias) demoDnsInput n remote status"
  let ?r = "emptyRecord\<lparr>rec_Name := ''example.com'', rec_Type := QueryTypeCNAME, rec_TTL := 60, rec_Target := ?n\<rparr>"
  have names: "canonicalName demoTab reverseAlias = ?n" "canonicalName demoTab ''example.com.'' = ''example.com''"
    by (simp_all add: reverseAlias_def canonicalName_def Let_def ToLower_lower_id TrimSuffixDot_def)
  have mem: "?r \<in> set (dev_Records ?ev)"
    by (simp add: evidenceFromResponse_def demoParsed_def demoSections_def answerRecord_def names Let_def
        List.map_filter_def split: prod.splits)
  have "hostnameText_dns demoTab ?n = ?n"
    by (simp add: hostnameText_dns_def TrimSpace_graphic ToLower_lower_id TrimSuffixDot_def isGraph_def)
  moreover have "hostnameErr_dns ?n \<noteq> None"
    by (simp add: hostnameErr_dns_def firstErr_simps ContainsAny_def hostnameReserved_def)
  ultimately have "\<not> isCanonicalDNSName demoTab (demoLib reverseAlias) ?n"
    by (auto simp: isCanonicalDNSName_def normalizeHostname_dns_def)
  then have "refusedRecord demoTab (demoLib reverseAlias) ?r" by (simp add: refusedRecord_def emptyRecord_def)
  with mem show ?thesis by blast
qed

lemma reverse_alias_refused:
  "refusedEvidence demoTab (demoLib reverseAlias)
     (evidenceFromResponse demoTab (demoLib reverseAlias) (demoParsed reverseAlias) demoDnsInput n remote status)"
  using reverse_alias_record unfolding refusedEvidence_def by blast

theorem Observe_dns_rejects_reverse_alias:
  "env_outcome (Observe_dns demoTab (demoLib reverseAlias) (demoDnsWorld background) demoDnsObserver demoDnsRequest) = OutcomeSucceeded \<and>
   Validate_dns demoTab (demoLib reverseAlias) (Observe_dns demoTab (demoLib reverseAlias) (demoDnsWorld background)
     demoDnsObserver demoDnsRequest) \<noteq> None"
proof -
  have "\<not> noRefusal demoTab (demoLib reverseAlias) (Observe_dns demoTab (demoLib reverseAlias) (demoDnsWorld background)
      demoDnsObserver demoDnsRequest)"
    using reverse_alias_refused by (simp add: noRefusal_def demo_Observe_dns)
  then have "Validate_dns demoTab (demoLib reverseAlias) (Observe_dns demoTab (demoLib reverseAlias) (demoDnsWorld background)
      demoDnsObserver demoDnsRequest) \<noteq> None"
    using Observe_dns_exact [OF demoDnsWorld_ok(1) demoDnsObserver_new _ demo_plain demoTab_ok demoLib_labels demoDnsWorld_ok(2)]
    by simp
  then show ?thesis by (simp add: demo_Observe_dns)
qed

text \<open>
  Property C9. Whatever the request, the contexts, the clock and the network do, the envelope of the DNS
  observer satisfies the package's own validator, except exactly in two cases: the request was refused for a
  host name whose recorded text changes when it is normalized again, or the evidence holds a name outside
  the host-name syntax or service parameters out of order. The observer was built by \<open>newObserver\<close> with a
  port of sixteen bits and DoH URLs without an IPv6 zone, the clock is Go's and the platform is named, a
  connection reaches the address dialed, the wire codec packs no name that ends in an empty label, and no lower
  case of a non-ASCII rune is an ASCII capital.
\<close>

theorem Observe_dns_valid:
  assumes "dns_env_ok w" "newObserver_dns cfg port = Inr ob" "port \<le> 65535" "endpoints_plain ob"
    "unitab_ok u" "labels_checked L" "dialer_ok w"
  shows "Validate_dns u L (Observe_dns u L w ob r) = None \<longleftrightarrow>
    rejects_stable u L (dreq_Hostname r) \<and>
    \<not> (\<exists>ev. env_evidence (Observe_dns u L w ob r) = Some ev \<and> refusedEvidence u L ev)"
  by (rule Observe_dns_exact [OF assms, unfolded noRefusal_def])

lemma demo_not_refused:
  "\<not> refusedEvidence demoTab (demoLib ''edge.example.net.'') (evidenceFromResponse demoTab (demoLib ''edge.example.net.'')
     (demoParsed ''edge.example.net.'') demoDnsInput n remote status)"
proof (rule evidence_noRefusal [OF decodeResponse_Inr [OF demo_decode]])
  show "message_ok demoTab (demoLib ''edge.example.net.'') [0, 7, 1]"
    using demo_message_ok by (auto simp: message_ok_def demoLib_def demoSections_def resource_ok_def)
qed

lemma Observe_dns_valid_witness:
  "Validate_dns demoTab (demoLib ''edge.example.net.'') (Observe_dns demoTab (demoLib ''edge.example.net.'')
      (demoDnsWorld background) demoDnsObserver demoDnsRequest) = None \<and>
   Validate_dns demoTab (demoLib reverseAlias) (Observe_dns demoTab (demoLib reverseAlias)
      (demoDnsWorld background) demoDnsObserver demoDnsRequest) \<noteq> None"
proof
  note valid = Observe_dns_valid [OF demoDnsWorld_ok(1) demoDnsObserver_new _ demo_plain demoTab_ok demoLib_labels
      demoDnsWorld_ok(2)]
  show "Validate_dns demoTab (demoLib ''edge.example.net.'') (Observe_dns demoTab (demoLib ''edge.example.net.'')
      (demoDnsWorld background) demoDnsObserver demoDnsRequest) = None"
    using demo_stable demo_not_refused by (subst valid) (simp_all add: demo_Observe_dns)
  show "Validate_dns demoTab (demoLib reverseAlias) (Observe_dns demoTab (demoLib reverseAlias)
      (demoDnsWorld background) demoDnsObserver demoDnsRequest) \<noteq> None"
    using reverse_alias_refused by (subst valid) (simp_all add: demo_Observe_dns)
qed

text \<open>
  Property C10. Following CNAME records is reachability: the code reports a name and a complete
  chain exactly when no owner has two targets, the name is reachable from the host name, and
  it has no CNAME record of its own. Loops, conflicts and the bound on the number of steps are
  all covered.
\<close>

theorem followCNAMEs_closure:
  "followCNAMEs h rs = (e, True) \<longleftrightarrow>
     single_valued (cnameRel rs) \<and> (h, e) \<in> (cnameRel rs)\<^sup>* \<and> e \<notin> Domain (cnameRel rs)"
  by (rule followCNAMEs_iff)

text \<open>
  Property C11. A context that is done, for whatever reason, by the commit point never yields a
  succeeded observation, even when a valid response has been decoded.
\<close>

theorem Observe_dns_no_late_success:
  assumes "withTimeout (dw_ctx w) (dw_fired w (dob_timeout ob)) k \<noteq> None" "k \<le> 14"
  shows "env_outcome (Observe_dns u L w ob r) \<noteq> OutcomeSucceeded"
  using no_late_success [of u L w ob r k] assms by blast

lemma Observe_dns_no_late_success_witness:
  "env_outcome (Observe_dns demoTab (demoLib ''edge.example.net.'') (demoDnsWorld (doneFrom 14 Canceled)) demoDnsObserver
      demoDnsRequest) \<noteq> OutcomeSucceeded"
proof -
  have "withTimeout (doneFrom 14 Canceled) f 14 \<noteq> None" for f
    using withTimeout_parent [of "doneFrom 14 Canceled" 14] by (auto simp: doneFrom_def)
  then show ?thesis
    by (intro Observe_dns_no_late_success [where k = 14]) (simp_all add: demoDnsWorld_def)
qed

text \<open>
  Property C12. A succeeded observation reports the decoded content of a message that answers
  the query it sent: same identifier, one question with the same name, type and class, over
  the configured endpoint and transport.
\<close>

theorem Observe_dns_answers_query:
  assumes "env_outcome (Observe_dns u L w ob r) = OutcomeSucceeded"
  shows "\<exists>ev. env_evidence (Observe_dns u L w ob r) = Some ev \<and> dns_run u L w ob r ev"
  using Observe_dns_success [OF assms] by blast

lemma Observe_dns_answers_query_witness:
  "\<exists>ev. env_evidence (Observe_dns demoTab (demoLib ''edge.example.net.'') (demoDnsWorld background) demoDnsObserver
      demoDnsRequest) = Some ev \<and>
    dns_run demoTab (demoLib ''edge.example.net.'') (demoDnsWorld background) demoDnsObserver demoDnsRequest ev"
  by (rule Observe_dns_answers_query) (simp add: demo_Observe_dns)

text \<open>
  TCP framing: a query written through a connection that makes progress and a
  response framed by its length are exchanged whole, whatever follows it in the stream.
\<close>

theorem exchangeTCP_roundtrip:
  assumes "dc_Stream conn = (putUint16 (length m) @ m @ rest, e)" "0 < length m" "length m \<le> maxDNSMessageBytes"
    "length query \<le> maxDNSMessageBytes" "attempt 4 = None"
    "\<And>k v. v \<noteq> [] \<Longrightarrow> \<exists>n. dc_Write conn k v = (n, None) \<and> 0 < n"
  shows "exchangeTCP conn attempt query = Inr \<lparr>xr_message = m, xr_remoteEndpoint = dc_RemoteAddr conn, xr_dohStatus = 0\<rparr>"
proof (rule exchangeTCP_framed [where rest = rest and e = e])
  show "writeAll (dc_Write conn) 0 (putUint16 (length query) @ query) = None"
    by (rule writeAll_progress [OF assms(6)])
qed (rule assms)+

lemma exchangeTCP_roundtrip_witness:
  "exchangeTCP \<lparr>dc_RemoteAddr = ''9.9.9.9:53'', dc_SetDeadline = None, dc_Write = (\<lambda>k v. (1, None)),
      dc_Datagram = Inl EOFErr, dc_Stream = ([0, 2, 5, 6, 9], EOFErr)\<rparr> background [1, 2, 3] =
    Inr \<lparr>xr_message = [5, 6], xr_remoteEndpoint = ''9.9.9.9:53'', xr_dohStatus = 0\<rparr>"
  by (rule exchangeTCP_roundtrip [where rest = "[9]" and e = EOFErr, THEN trans])
    (simp_all add: putUint16_def maxDNSMessageBytes_def background_def)

text \<open>
  A DoH URL that \<open>New\<close> accepts and whose host has no zone is recorded in a form
  that parses again, prints to itself and names the same port.
\<close>

theorem parseDoHEndpointURL_roundtrip:
  assumes "parseDoHEndpointURL raw = Inr u" "CHR ''%'' \<notin> set (u_Host u)"
  shows "\<exists>u'. parseDoHEndpointURL (urlString u) = Inr u' \<and> urlString u' = urlString u \<and> dohPort u' = dohPort u"
  by (rule parseDoH_print [OF assms])

text \<open>
  The validator pins the classification of a response down: evidence it accepts
  with a complete answer carries the kind \<open>classifyAnswer\<close> computes from the evidence itself.
\<close>

theorem validateEvidence_classifies:
  assumes "validateEvidenceClassification u L i ev = None" "AnswerKind_valid (dev_AnswerKind ev)"
    "dev_AnswerKind ev \<noteq> AnswerKindIncomplete" "\<not> hd_Truncated hdr"
  shows "dev_AnswerKind ev = classifyAnswer hdr (rc_Code (dev_RCode ev)) (din_QueryType i) (din_Hostname i)
    (dev_EffectiveName ev) True (dev_Records ev) (dev_NegativeSOA ev \<noteq> None) (dev_AuthorityNS ev \<noteq> [])"
proof -
  obtain e c where ec: "followCNAMEs (din_Hostname i) (dev_Records ev) = (e, c)" by fastforce
  show ?thesis
    using assms
    by (cases "dev_AnswerKind ev")
      (auto simp: validateEvidenceClassification_def ec Let_def firstErr_simps validateAnswerKind_def classifyAnswer_def
        RCodeSuccess_def RCodeNameError_def)
qed

definition demoDohURL :: url where
  "demoDohURL = emptyURL\<lparr>u_Scheme := ''https'', u_Host := ''dns.example.org'', u_Path := ''/dns-query''\<rparr>"

lemma demoDohURL_parse: "parseDoHEndpointURL ''https://dns.example.org/dns-query'' = Inr demoDohURL"
  by code_simp

lemma parseDoHEndpointURL_roundtrip_witness:
  "\<exists>u'. parseDoHEndpointURL (urlString demoDohURL) = Inr u' \<and> urlString u' = urlString demoDohURL \<and>
     dohPort u' = dohPort demoDohURL"
  by (rule parseDoHEndpointURL_roundtrip [OF demoDohURL_parse]) (simp add: demoDohURL_def emptyURL_def)

definition demoNoData :: DnsEvidence where
  "demoNoData = \<lparr>dev_RCode = \<lparr>rc_Code = 0, rc_Name = ''NOERROR''\<rparr>,
     dev_Flags = \<lparr>rf_Authoritative = False, rf_Truncated = False, rf_RecursionDesired = True,
       rf_RecursionAvailable = True, rf_AuthenticatedData = False, rf_CheckingDisabled = False\<rparr>,
     dev_AnswerKind = AnswerKindNoData, dev_EffectiveName = ''example.com'', dev_Records = [],
     dev_NegativeSOA = None, dev_AuthorityNS = [], dev_ResponseBytes = 3, dev_RemoteEndpoint = ''9.9.9.9:53'',
     dev_DoHStatus = 0\<rparr>"

lemma demoNoData_valid: "validateEvidenceClassification demoTab (demoLib ''x.'') demoDnsInput demoNoData = None"
  by (simp add: validateEvidenceClassification_def demoNoData_def demoDnsInput_def followCNAMEs_def firstErr_simps
      isCanonicalDNSName_def demo_names validateAnswerKind_def RCodeSuccess_def Let_def)

lemma validateEvidence_classifies_witness:
  "classifyAnswer demoHeader 0 QueryTypeA ''example.com'' ''example.com'' True [] False False = AnswerKindNoData"
  using validateEvidence_classifies [OF demoNoData_valid, of demoHeader]
  by (simp add: demoNoData_def demoDnsInput_def demoHeader_def)

text \<open>
  A host name with two trailing dots is refused, and the envelope that reports
  the refusal fails the package's own validator, because one dot is removed per pass.
\<close>

theorem Observe_dns_double_dot_rejected:
  assumes "labels_checked L"
  shows "Validate_dns u L (Observe_dns u L w ob (r\<lparr>dreq_Hostname := ''a..''\<rparr>)) \<noteq> None"
proof -
  have t: "hostnameText_dns u ''a..'' = ''a.''" "hostnameText_dns u ''a.'' = ''a''"
    by (simp_all add: hostnameText_dns_def TrimSpace_graphic ToLower_lower_id TrimSuffixDot_def isGraph_def)
  obtain h n e where nz: "normalizeHostname_dns u L ''a..'' = (h, n, e)" by (metis prod_cases3)
  have h: "h = ''a.''" using nz t normalizeHostname_dns_text [of u L "''a..''"] by simp
  have "e \<noteq> None"
  proof
    assume "e = None"
    note ok = normalizeHostname_dns_ok [OF nz [unfolded this]]
    obtain bs where "dl_Pack L (probeMessage n) = Inr bs" using ok(4) by blast
    with assms ok(3) have "h = '''' \<or> last h \<noteq> CHR ''.''" unfolding labels_checked_def by blast
    with h show False by simp
  qed
  then obtain m where m: "e = Some m" by blast
  obtain h2 n2 e2 where nz2: "normalizeHostname_dns u L ''a.'' = (h2, n2, e2)" by (metis prod_cases3)
  have h2: "h2 = ''a''" using nz2 t normalizeHostname_dns_text [of u L "''a.''"] by simp
  let ?i = "\<lparr>din_Hostname = ''a.'', din_QueryType = dreq_QueryType r, din_Class = dnsClassIN,
    din_Resolver = \<lparr>ri_ID = TrimSpace (dreq_Resolver r), ri_Endpoint = ''''\<rparr>, din_Transport = dreq_Transport r\<rparr>"
  have "Observe_dns u L w ob (r\<lparr>dreq_Hostname := ''a..''\<rparr>) =
      failureResult_dns w ob (dw_now w 0) ?i OutcomeFailed FailureInvalidInput (Some (plainErr m))"
    by (simp add: Observe_dns_def normalizeRequest_dns_def nz m h)
  then show ?thesis
    by (simp add: Validate_dns_def validateInputContract_def nz2 h2 firstErr_simps Let_def)
qed

lemma Observe_dns_double_dot_rejected_witness:
  "Validate_dns demoTab (demoLib ''x.'') (Observe_dns demoTab (demoLib ''x.'') (demoDnsWorld background) demoDnsObserver
     (demoDnsRequest\<lparr>dreq_Hostname := ''a..''\<rparr>)) \<noteq> None"
  by (rule Observe_dns_double_dot_rejected [OF demoLib_labels])

end
