(* ===== verification/PathTypes.thy ===== *)
theory PathTypes
  imports DnsValidate
begin

text \<open>
  Package \<open>internal/dnshttpspath\<close>, \<open>types.go\<close> and \<open>service.go\<close>: the report of one HTTPS
  discovery path and the decisions about ServiceMode records. A record of a final response is
  referred to by its index; the decision keeps that index.
\<close>

section \<open>Types\<close>

definition SchemaVersion_path :: int where "SchemaVersion_path = 1"
definition Operation_path :: string where "Operation_path = ''dns_https_path''"
definition aliasLimit_path :: int where "aliasLimit_path = 3"
definition serviceTargetLimit :: int where "serviceTargetLimit = 8"

datatype PathStatus = StatusCompleted | StatusStopped | StatusCancelled | StatusOther string

datatype CompletionKind =
    CompletionServiceMode
  | CompletionAliasFallback
  | CompletionOriginFallback
  | CompletionServiceUnavailable
  | CompletionUnsupportedServiceMode
  | CompletionOther string

datatype PathStopReason =
    StopInvalidInput
  | StopDNSObservationFailed
  | StopDNSObservationIncomplete
  | StopAliasLoop
  | StopAliasLimit
  | StopPathTimeout
  | StopCancelled
  | StopInvalidProbeEvidence
  | StopOther string

abbreviation CompletionNone :: CompletionKind where "CompletionNone \<equiv> CompletionOther ''''"
abbreviation StopReasonNone :: PathStopReason where "StopReasonNone \<equiv> StopOther ''''"

datatype BindingReason =
    BindingUsable
  | BindingMalformedParameters
  | BindingUnsupportedParameters
  | BindingReasonOther string

record BindingDecision =
  bd_RecordIndex :: int
  bd_Priority :: "16 word"
  bd_AddressHostname :: string
  bd_Usable :: bool
  bd_Reason :: BindingReason
  bd_UnsupportedParameterKeys :: "16 word list option"

datatype TargetSource = TargetServiceMode | TargetAliasFallback | TargetOriginFallback | TargetSourceOther string

record AddressTarget =
  at_Hostname :: string
  at_Source :: TargetSource
  at_Priority :: "16 word"
  at_Observations :: "DnsResult list option"

record PathConfig =
  pcfg_DNS :: DnsConfig
  pcfg_Timeout :: int

record PathRequest =
  preq_Hostname :: string
  preq_Resolver :: ResolverID
  preq_Transport :: Transport

record PathInput =
  pin_Hostname :: string
  pin_Resolver :: ResolverID
  pin_Transport :: Transport
  pin_QueryType :: QueryType
  pin_AliasLimit :: int
  pin_ServiceTargetLimit :: int
  pin_AddressQueryTypes :: "QueryType list"

record PathResult =
  pth_SchemaVersion :: int
  pth_Operation :: string
  pth_ObservedAt :: gotime
  pth_DurationMS :: int
  pth_Platform :: Platform
  pth_Input :: PathInput
  pth_Status :: PathStatus
  pth_Completion :: CompletionKind
  pth_StopReason :: PathStopReason
  pth_Detail :: string
  pth_AliasesFollowed :: int
  pth_ServiceTargetsOmitted :: int
  pth_HTTPSObservations :: "DnsResult list option"
  pth_ServiceBindings :: "BindingDecision list option"
  pth_AddressTargets :: "AddressTarget list option"

section \<open>Bindings of a response\<close>

definition serviceParamMandatory :: "16 word" where "serviceParamMandatory = 0"
definition serviceParamALPN :: "16 word" where "serviceParamALPN = 1"
definition serviceParamNoDefaultALPN :: "16 word" where "serviceParamNoDefaultALPN = 2"
definition serviceParamPort :: "16 word" where "serviceParamPort = 3"
definition serviceParamIPv4Hint :: "16 word" where "serviceParamIPv4Hint = 4"
definition serviceParamIPv6Hint :: "16 word" where "serviceParamIPv6Hint = 6"
definition httpsDefaultPort :: "16 word" where "httpsDefaultPort = 443"

lemmas service_params = serviceParamMandatory_def serviceParamALPN_def serviceParamNoDefaultALPN_def
  serviceParamPort_def serviceParamIPv4Hint_def serviceParamIPv6Hint_def

text \<open>A reference pairs the record with its binding, which is known to be there.\<close>

record bindingReference =
  br_recordIndex :: int
  br_record :: Record
  br_service :: ServiceBinding

definition relevantBindings :: "DnsEvidence \<Rightarrow> bindingReference list \<times> bindingReference list" where
  "relevantBindings evidence =
     (let references = List.map_filter (\<lambda>(index, record).
            if rec_Type record \<noteq> QueryTypeHTTPS \<or> rec_Name record \<noteq> dev_EffectiveName evidence then None
            else map_option (\<lambda>service. \<lparr>br_recordIndex = int index, br_record = record, br_service = service\<rparr>)
              (rec_Service record))
          (enumerate 0 (dev_Records evidence))
      in (filter (\<lambda>r. sb_Mode (br_service r) = ServiceBindingAlias) references,
          filter (\<lambda>r. sb_Mode (br_service r) \<noteq> ServiceBindingAlias) references))"

text \<open>The loop of \<open>mandatoryKeys\<close>: the keys so far, and the bytes from the offset on.\<close>

fun mandatoryLoop :: "16 word list \<Rightarrow> bytes \<Rightarrow> 16 word list option" where
  "mandatoryLoop keys (a # b # value) =
     (if keys \<noteq> [] \<and> beUint16 a b \<le> last keys then None
      else mandatoryLoop (keys @ [beUint16 a b]) value)"
| "mandatoryLoop keys value = Some keys"

definition mandatoryKeys :: "bytes \<Rightarrow> 16 word list option" where
  "mandatoryKeys value =
     (if length value = 0 \<or> length value mod 2 \<noteq> 0 then None else mandatoryLoop [] value)"

function alpnLoop :: "bytes list \<Rightarrow> bytes \<Rightarrow> bytes list option" where
  "alpnLoop ids [] = Some ids"
| "alpnLoop ids (n # value) =
     (if unat n = 0 \<or> length value < unat n then None
      else alpnLoop (ids @ [take (unat n) value]) (drop (unat n) value))"
  by pat_completeness auto
termination
  by (relation "measure (\<lambda>(ids, value). length value)") auto

definition alpnIDs :: "bytes \<Rightarrow> bytes list option" where
  "alpnIDs value = (if value = [] then None else alpnLoop [] value)"

text \<open>\<open>string(b)\<close> of a byte slice.\<close>

definition goString :: "bytes \<Rightarrow> string" where
  "goString = map (\<lambda>b. char_of (unat b))"

definition containsALPN :: "bytes list \<Rightarrow> string \<Rightarrow> bool" where
  "containsALPN ids wanted = list_ex (\<lambda>ident. goString ident = wanted) ids"

definition supportedMandatoryKey :: "16 word \<Rightarrow> bool" where
  "supportedMandatoryKey key = (key \<in> {serviceParamALPN, serviceParamNoDefaultALPN, serviceParamPort})"

text \<open>\<open>sort.Slice\<close> on plain numbers, then the loop that keeps the first of equal neighbours.\<close>

definition normalizedKeys :: "16 word list \<Rightarrow> 16 word list" where
  "normalizedKeys keys =
     fold (\<lambda>key result. if result = [] \<or> last result \<noteq> key then result @ [key] else result) (sort keys) []"

section \<open>The decision about one ServiceMode record\<close>

definition malformedParam :: "16 word \<Rightarrow> bytes \<Rightarrow> bool" where
  "malformedParam key value =
     (if key = serviceParamMandatory then mandatoryKeys value = None
      else if key = serviceParamALPN then alpnIDs value = None
      else if key = serviceParamNoDefaultALPN then length value \<noteq> 0
      else if key = serviceParamPort then length value \<noteq> 2
      else if key = serviceParamIPv4Hint then length value = 0 \<or> length value mod 4 \<noteq> 0
      else if key = serviceParamIPv6Hint then length value = 0 \<or> length value mod 16 \<noteq> 0
      else False)"

text \<open>The first loop: the values by key, and the malformed keys in order.\<close>

fun readParams :: "(16 word \<rightharpoonup> bytes) \<Rightarrow> 16 word list \<Rightarrow> ServiceParameter list \<Rightarrow>
    (16 word \<rightharpoonup> bytes) \<times> 16 word list" where
  "readParams values malformed [] = (values, malformed)"
| "readParams values malformed (param # params) = (case hexDecode (sp_ValueHex param) of
      None \<Rightarrow> readParams values (malformed @ [sp_Key param]) params
    | Some value \<Rightarrow> readParams (values(sp_Key param \<mapsto> value))
        (if malformedParam (sp_Key param) value then malformed @ [sp_Key param] else malformed) params)"

text \<open>The checks between parameters.\<close>

definition malformedTogether :: "(16 word \<rightharpoonup> bytes) \<Rightarrow> 16 word list" where
  "malformedTogether values =
     (if values serviceParamNoDefaultALPN \<noteq> None \<and> values serviceParamALPN = None
      then [serviceParamNoDefaultALPN] else [])
     @ (case values serviceParamMandatory of
          None \<Rightarrow> []
        | Some mandatory \<Rightarrow> (case mandatoryKeys mandatory of
            None \<Rightarrow> []
          | Some keys \<Rightarrow> filter (\<lambda>key. key = serviceParamMandatory \<or> values key = None) keys))"

text \<open>
  Keys this client does not support. The code reads the parameters of a well-formed binding
  only, where the mandatory keys, the protocol list and the two bytes of the port are there.
\<close>

definition unsupportedKeys :: "(16 word \<rightharpoonup> bytes) \<Rightarrow> 16 word list" where
  "unsupportedKeys values =
     (case values serviceParamMandatory of
        None \<Rightarrow> []
      | Some mandatory \<Rightarrow> filter (\<lambda>key. \<not> supportedMandatoryKey key)
          (case mandatoryKeys mandatory of None \<Rightarrow> [] | Some keys \<Rightarrow> keys))
     @ (case values serviceParamPort of
        None \<Rightarrow> []
      | Some port \<Rightarrow> if beUint16 (port ! 0) (port ! 1) \<noteq> httpsDefaultPort then [serviceParamPort] else [])
     @ (case values serviceParamNoDefaultALPN of
        None \<Rightarrow> []
      | Some noDefault \<Rightarrow>
          (let ids = (case alpnIDs (case values serviceParamALPN of None \<Rightarrow> [] | Some v \<Rightarrow> v) of
               None \<Rightarrow> [] | Some ids \<Rightarrow> ids) in
           if \<not> containsALPN ids ''http/1.1'' then [serviceParamALPN, serviceParamNoDefaultALPN] else []))"

definition evaluateBinding :: "bindingReference \<Rightarrow> BindingDecision" where
  "evaluateBinding reference =
     (let binding = br_service reference;
          addressHostname = (if sb_Target binding = ''.'' then rec_Name (br_record reference) else sb_Target binding);
          decision = \<lparr>bd_RecordIndex = br_recordIndex reference, bd_Priority = sb_Priority binding,
            bd_AddressHostname = addressHostname, bd_Usable = True, bd_Reason = BindingUsable,
            bd_UnsupportedParameterKeys = None\<rparr>;
          (values, malformed1) = readParams (\<lambda>_. None) [] (sliceOf (sb_Params binding));
          malformed = malformed1 @ malformedTogether values in
      if malformed \<noteq> [] then decision\<lparr>bd_Usable := False, bd_Reason := BindingMalformedParameters,
          bd_UnsupportedParameterKeys := Some (normalizedKeys malformed)\<rparr>
      else (let unsupported = unsupportedKeys values in
        if unsupported \<noteq> [] then decision\<lparr>bd_Usable := False, bd_Reason := BindingUnsupportedParameters,
            bd_UnsupportedParameterKeys := Some (normalizedKeys unsupported)\<rparr>
        else decision))"

definition evaluateBindings :: "bindingReference list \<Rightarrow> BindingDecision list" where
  "evaluateBindings services = map evaluateBinding services"

section \<open>The targets of usable bindings\<close>

text \<open>The second loop of \<open>serviceAddressTargets\<close>, with the host names seen so far.\<close>

fun targetsOf :: "string set \<Rightarrow> BindingDecision list \<Rightarrow> AddressTarget list" where
  "targetsOf seen [] = []"
| "targetsOf seen (decision # decisions) =
     (if bd_AddressHostname decision \<in> seen then targetsOf seen decisions
      else \<lparr>at_Hostname = bd_AddressHostname decision, at_Source = TargetServiceMode,
             at_Priority = bd_Priority decision, at_Observations = Some []\<rparr>
        # targetsOf (insert (bd_AddressHostname decision) seen) decisions)"

definition serviceAddressTargets :: "BindingDecision list \<Rightarrow> AddressTarget list" where
  "serviceAddressTargets decisions = targetsOf {} (sort_key bd_Priority (filter bd_Usable decisions))"

end
