(* ===== verification/PathObserver.thy ===== *)
theory PathObserver
  imports PathTypes
begin

text \<open>
  Package \<open>internal/dnshttpspath\<close>, \<open>observer.go\<close>: the sequence of DNS observations of one
  path. The DNS observer is a parameter of a run: its answer to the n-th request. The two
  contexts are read in a block of five readings at every \<open>terminalContext\<close>; block 0 is the one
  before the path context exists, blocks 2 n + 1 and 2 n + 2 surround request n.
\<close>

section \<open>Construction\<close>

definition defaultTimeout_path :: int where "defaultTimeout_path = 30 * Second"
definition maximumTimeout_path :: int where "maximumTimeout_path = 45 * Second"

record PathObserver =
  po_timeout :: int
  po_platform :: Platform

definition normalizeTimeout_path :: "int \<Rightarrow> error + int" where
  "normalizeTimeout_path timeout =
     (if timeout = 0 then Inr defaultTimeout_path
      else if timeout < 0 \<or> maximumTimeout_path < timeout then Inl ''timeout must be between zero and 45s''
      else Inr timeout)"

definition newObserver_path :: "PathConfig \<Rightarrow> Platform \<Rightarrow> Platform \<Rightarrow> bool \<Rightarrow> error + PathObserver" where
  "newObserver_path config runtimePlatform depPlatform hasDns =
     (case normalizeTimeout_path (pcfg_Timeout config) of
        Inl e \<Rightarrow> Inl e
      | Inr timeout \<Rightarrow>
          (let platform = (if plat_os depPlatform = '''' \<and> plat_arch depPlatform = '''' then runtimePlatform else depPlatform) in
           if plat_os platform = '''' \<or> plat_arch platform = ''''
             then Inl ''platform dependency must include OS and architecture''
           else if \<not> hasDns then Inl ''DNS observation dependency must not be nil''
           else Inr \<lparr>po_timeout = timeout, po_platform = platform\<rparr>))"

definition New_path :: "PathConfig \<Rightarrow> Platform \<Rightarrow> error + (PathObserver \<times> DnsObserver)" where
  "New_path config runtimePlatform =
     (case normalizeTimeout_path (pcfg_Timeout config) of
        Inl e \<Rightarrow> Inl e
      | Inr timeout \<Rightarrow>
          (case New_dns (pcfg_DNS config) of
             Inl e \<Rightarrow> Inl (''create DNS observation adapter: '' @ e)
           | Inr dns \<Rightarrow>
               (case newObserver_path config runtimePlatform \<lparr>plat_os = '''', plat_arch = ''''\<rparr> True of
                  Inl e \<Rightarrow> Inl e
                | Inr ob \<Rightarrow> Inr (ob, dns))))"

section \<open>Requests\<close>

definition normalizeRequest_path :: "'a unitab_scheme \<Rightarrow> dnslib \<Rightarrow> PathRequest \<Rightarrow> PathInput \<times> error option" where
  "normalizeRequest_path u L request =
     (let (hostname, err) = NormalizeHostname u L (preq_Hostname request);
          inp = \<lparr>pin_Hostname = hostname, pin_Resolver = TrimSpace (preq_Resolver request),
            pin_Transport = preq_Transport request, pin_QueryType = QueryTypeHTTPS, pin_AliasLimit = aliasLimit_path,
            pin_ServiceTargetLimit = serviceTargetLimit, pin_AddressQueryTypes = [QueryTypeA, QueryTypeAAAA]\<rparr>
      in (inp, firstErr [
           err,
           guard (pin_Resolver inp = '''') ''resolver id must not be empty'',
           guard (pin_Transport inp \<notin> {TransportUDP, TransportTCP, TransportDoH}) ''unsupported DNS transport'']))"

section \<open>The state of a run\<close>

record reportBuilder =
  rb_input :: PathInput
  rb_aliasesFollowed :: int
  rb_httpsObservations :: "DnsResult list"
  rb_serviceBindings :: "BindingDecision list"
  rb_addressTargets :: "AddressTarget list"
  rb_serviceTargetsOmitted :: int
  rb_dnsIdentity :: "(string \<times> Source) option"

record pathTerminal =
  tm_status :: PathStatus
  tm_completion :: CompletionKind
  tm_reason :: PathStopReason
  tm_detail :: string

abbreviation stopped :: "PathStopReason \<Rightarrow> string \<Rightarrow> pathTerminal" where
  "stopped reason detail \<equiv> \<lparr>tm_status = StatusStopped, tm_completion = CompletionNone, tm_reason = reason, tm_detail = detail\<rparr>"

abbreviation cancelled :: "string \<Rightarrow> pathTerminal" where
  "cancelled detail \<equiv> \<lparr>tm_status = StatusCancelled, tm_completion = CompletionNone, tm_reason = StopCancelled, tm_detail = detail\<rparr>"

abbreviation completed :: "CompletionKind \<Rightarrow> pathTerminal" where
  "completed kind \<equiv> \<lparr>tm_status = StatusCompleted, tm_completion = kind, tm_reason = StopReasonNone, tm_detail = ''''\<rparr>"

record PathWorld =
  pw_now :: "nat \<Rightarrow> gotime"
  pw_ctx :: ctx
  pw_fired :: "int \<Rightarrow> nat \<Rightarrow> bool"
  pw_dns :: "nat \<Rightarrow> DnsRequest \<Rightarrow> DnsResult"

section \<open>The contexts\<close>

definition errDetail :: "goerr option \<Rightarrow> string" where
  "errDetail e = (case e of None \<Rightarrow> ''panic: nil error'' | Some g \<Rightarrow> err_text g)"

definition terminalContext :: "ctx \<Rightarrow> ctx \<Rightarrow> nat \<Rightarrow> pathTerminal option" where
  "terminalContext parent path n =
     (let k = 5 * n in
      if errorsIs (ctxErrAt parent k) SCanceled then Some (cancelled (errDetail (ctxErrAt parent (k + 1))))
      else if ctxErrAt parent (k + 1) \<noteq> None \<or> errorsIs (ctxErrAt path (k + 2)) SDeadlineExceeded
        then Some (stopped StopPathTimeout
          (errDetail (case ctxErrAt parent (k + 3) of None \<Rightarrow> ctxErrAt path (k + 4) | Some e \<Rightarrow> Some e)))
      else if errorsIs (ctxErrAt path (k + 3)) SCanceled
        then Some (cancelled (errDetail (ctxErrAt path (k + 4))))
      else None)"

section \<open>One DNS observation\<close>

definition matchesRequest :: "Platform \<Rightarrow> DnsResult \<Rightarrow> DnsRequest \<Rightarrow> bool" where
  "matchesRequest platform result request \<longleftrightarrow> env_platform result = platform \<and>
     din_Hostname (env_input result) = dreq_Hostname request \<and>
     din_QueryType (env_input result) = dreq_QueryType request \<and>
     ri_ID (din_Resolver (env_input result)) = dreq_Resolver request \<and>
     din_Transport (env_input result) = dreq_Transport request"

abbreviation endpointOf :: "DnsResult \<Rightarrow> string" where
  "endpointOf result \<equiv> ri_Endpoint (din_Resolver (env_input result))"

definition validateObservation_path :: "'a unitab_scheme \<Rightarrow> dnslib \<Rightarrow> PathObserver \<Rightarrow> DnsResult \<Rightarrow> DnsRequest \<Rightarrow>
    reportBuilder \<Rightarrow> reportBuilder \<times> error option" where
  "validateObservation_path u L ob result request builder =
     (case Validate_dns u L result of
        Some e \<Rightarrow> (builder, Some (''invalid DNS Observation: '' @ e))
      | None \<Rightarrow>
          if \<not> matchesRequest (po_platform ob) result request
          then (builder, Some ''DNS Observation does not match the requested platform, hostname, or query'')
          else (case rb_dnsIdentity builder of
              None \<Rightarrow> (builder\<lparr>rb_dnsIdentity := Some (endpointOf result, env_source result)\<rparr>, None)
            | Some identity \<Rightarrow> (builder,
                guard (endpointOf result \<noteq> fst identity \<or> env_source result \<noteq> snd identity)
                  ''DNS Observation changes the configured resolver adapter'')))"

definition failureDetail :: "DnsResult \<Rightarrow> string" where
  "failureDetail result = (case env_failure result of
      None \<Rightarrow> ''DNS observation failed''
    | Some f \<Rightarrow> if fail_detail f = '''' then ''DNS observation failed'' else fail_detail f)"

text \<open>
  What the HTTPS loop and the address loop share: request n between its two looks at the
  contexts. The first component is the observation to append to the evidence, if any; the last
  one is the observation to go on with, or the end of the run.
\<close>

definition askDns :: "'a unitab_scheme \<Rightarrow> dnslib \<Rightarrow> PathWorld \<Rightarrow> PathObserver \<Rightarrow> nat \<Rightarrow> string \<Rightarrow> QueryType \<Rightarrow>
    reportBuilder \<Rightarrow> DnsResult list \<times> reportBuilder \<times> (pathTerminal + DnsResult)" where
  "askDns u L w ob n hostname queryType builder =
     (let pathCtx = withTimeout (pw_ctx w) (pw_fired w (po_timeout ob)) in
      case terminalContext (pw_ctx w) pathCtx (2 * n + 1) of
        Some state \<Rightarrow> ([], builder, Inl state)
      | None \<Rightarrow>
          (let request = \<lparr>dreq_Hostname = hostname, dreq_QueryType = queryType,
                 dreq_Resolver = pin_Resolver (rb_input builder), dreq_Transport = pin_Transport (rb_input builder)\<rparr>;
               observation = pw_dns w n request;
               (builder, err) = validateObservation_path u L ob observation request builder in
           case err of
             Some e \<Rightarrow> ([], builder, Inl (stopped StopInvalidProbeEvidence e))
           | None \<Rightarrow> (case terminalContext (pw_ctx w) pathCtx (2 * n + 2) of
               Some state \<Rightarrow>
                 (if env_outcome observation \<noteq> OutcomeSucceeded then [observation] else [], builder, Inl state)
             | None \<Rightarrow> ([observation], builder,
                 if env_outcome observation = OutcomeCancelled then Inl (cancelled '''') else Inr observation))))"

section \<open>The address targets\<close>

text \<open>The loop over the query types of one target: the target, and whether a request failed or was incomplete.\<close>

fun observeTypes :: "'a unitab_scheme \<Rightarrow> dnslib \<Rightarrow> PathWorld \<Rightarrow> PathObserver \<Rightarrow> nat \<Rightarrow> QueryType list \<Rightarrow>
    AddressTarget \<Rightarrow> bool \<times> bool \<Rightarrow> reportBuilder \<Rightarrow>
    nat \<times> AddressTarget \<times> reportBuilder \<times> (pathTerminal + bool \<times> bool)" where
  "observeTypes u L w ob n [] target had builder = (n, target, builder, Inr had)"
| "observeTypes u L w ob n (queryType # queryTypes) target had builder =
     (let (observed, builder, step) = askDns u L w ob n (at_Hostname target) queryType builder;
          target = target\<lparr>at_Observations := Some (sliceOf (at_Observations target) @ observed)\<rparr> in
      case step of
        Inl state \<Rightarrow> (n + 1, target, builder, Inl state)
      | Inr observation \<Rightarrow> observeTypes u L w ob (n + 1) queryTypes target
          (if env_outcome observation \<noteq> OutcomeSucceeded then (True, snd had)
           else (fst had, snd had \<or> (case env_evidence observation of
               None \<Rightarrow> False | Some evidence \<Rightarrow> dev_AnswerKind evidence = AnswerKindIncomplete)))
          builder)"

text \<open>The loop over the targets; those not reached stay as they are.\<close>

fun observeTargets :: "'a unitab_scheme \<Rightarrow> dnslib \<Rightarrow> PathWorld \<Rightarrow> PathObserver \<Rightarrow> nat \<Rightarrow> AddressTarget list \<Rightarrow>
    bool \<times> bool \<Rightarrow> reportBuilder \<Rightarrow> AddressTarget list \<times> reportBuilder \<times> (pathTerminal + bool \<times> bool)" where
  "observeTargets u L w ob n [] had builder = ([], builder, Inr had)"
| "observeTargets u L w ob n (target # targets) had builder =
     (case observeTypes u L w ob n (pin_AddressQueryTypes (rb_input builder)) target had builder of
        (n', target', builder', Inl state) \<Rightarrow> (target' # targets, builder', Inl state)
      | (n', target', builder', Inr had') \<Rightarrow>
          (let (targets', builder'', step) = observeTargets u L w ob n' targets had' builder' in
           (target' # targets', builder'', step)))"

text \<open>A run whose requests all succeeded ends with the given completion.\<close>

definition observeAddressTargets :: "'a unitab_scheme \<Rightarrow> dnslib \<Rightarrow> PathWorld \<Rightarrow> PathObserver \<Rightarrow> nat \<Rightarrow>
    CompletionKind \<Rightarrow> reportBuilder \<Rightarrow> reportBuilder \<times> pathTerminal" where
  "observeAddressTargets u L w ob n completion builder =
     (let (targets, builder, step) =
            observeTargets u L w ob n (rb_addressTargets builder) (False, False) builder
      in (builder\<lparr>rb_addressTargets := targets\<rparr>,
          case step of
            Inl state \<Rightarrow> state
          | Inr (hadFailure, hadIncomplete) \<Rightarrow>
              if hadFailure then stopped StopDNSObservationFailed ''one or more final address observations failed''
              else if hadIncomplete then stopped StopDNSObservationIncomplete
                ''one or more final address observations are incomplete''
              else completed completion))"

section \<open>Observe\<close>

definition finish_path :: "PathWorld \<Rightarrow> PathObserver \<Rightarrow> reportBuilder \<Rightarrow> pathTerminal \<Rightarrow> PathResult" where
  "finish_path w ob builder state =
     (let startedAt = pw_now w 0; finishedAt = pw_now w 1 in
      \<lparr>pth_SchemaVersion = SchemaVersion_path, pth_Operation = Operation_path, pth_ObservedAt = UTC finishedAt,
       pth_DurationMS = elapsedMS startedAt finishedAt, pth_Platform = po_platform ob, pth_Input = rb_input builder,
       pth_Status = tm_status state, pth_Completion = tm_completion state, pth_StopReason = tm_reason state,
       pth_Detail = tm_detail state, pth_AliasesFollowed = rb_aliasesFollowed builder,
       pth_ServiceTargetsOmitted = rb_serviceTargetsOmitted builder,
       pth_HTTPSObservations = Some (rb_httpsObservations builder),
       pth_ServiceBindings = Some (rb_serviceBindings builder),
       pth_AddressTargets = Some (rb_addressTargets builder)\<rparr>)"

text \<open>What follows a complete HTTPS answer without an alias: request n is the first for an address.\<close>

definition observeServices :: "'a unitab_scheme \<Rightarrow> dnslib \<Rightarrow> PathWorld \<Rightarrow> PathObserver \<Rightarrow> nat \<Rightarrow>
    bindingReference list \<Rightarrow> reportBuilder \<Rightarrow> reportBuilder \<times> pathTerminal" where
  "observeServices u L w ob n services builder =
     (let decisions = evaluateBindings services;
          targets = serviceAddressTargets decisions;
          limit = pin_ServiceTargetLimit (rb_input builder);
          builder = builder\<lparr>rb_serviceBindings := decisions,
            rb_addressTargets := (if limit < int (length targets) then take (nat limit) targets else targets),
            rb_serviceTargetsOmitted := (if limit < int (length targets) then int (length targets) - limit
              else rb_serviceTargetsOmitted builder)\<rparr> in
      if rb_addressTargets builder = [] then (builder, completed CompletionUnsupportedServiceMode)
      else observeAddressTargets u L w ob n CompletionServiceMode builder)"

definition observeFallback :: "'a unitab_scheme \<Rightarrow> dnslib \<Rightarrow> PathWorld \<Rightarrow> PathObserver \<Rightarrow> nat \<Rightarrow>
    string \<Rightarrow> reportBuilder \<Rightarrow> reportBuilder \<times> pathTerminal" where
  "observeFallback u L w ob n fallback builder =
     (if fallback = ''.'' then (builder, completed CompletionServiceUnavailable)
      else let followed = 0 < rb_aliasesFollowed builder in
        observeAddressTargets u L w ob n
          (if followed then CompletionAliasFallback else CompletionOriginFallback)
          (builder\<lparr>rb_addressTargets := [\<lparr>at_Hostname = fallback,
             at_Source = (if followed then TargetAliasFallback else TargetOriginFallback), at_Priority = 0,
             at_Observations = Some []\<rparr>]\<rparr>))"

lemma validateObservation_builder:
  "validateObservation_path u L ob result request b = (b', e) \<Longrightarrow> \<exists>ident. b' = b\<lparr>rb_dnsIdentity := ident\<rparr>"
  by (auto simp: validateObservation_path_def split: option.splits if_splits
      intro: exI [of _ "rb_dnsIdentity b"] exI [of _ "Some x" for x])

lemma askDns_builder:
  "askDns u L w ob n h q b = (obs, b', step) \<Longrightarrow> \<exists>ident. b' = b\<lparr>rb_dnsIdentity := ident\<rparr>"
  by (auto simp: askDns_def Let_def split: option.splits prod.splits
      dest: validateObservation_builder intro: exI [of _ "rb_dnsIdentity b"])

text \<open>
  The loop over the aliases. An answer whose evidence is missing would make the code panic;
  a validated observation that succeeded has evidence.
\<close>

function httpsLoop :: "'a unitab_scheme \<Rightarrow> dnslib \<Rightarrow> PathWorld \<Rightarrow> PathObserver \<Rightarrow> nat \<Rightarrow> string set \<Rightarrow> string \<Rightarrow>
    reportBuilder \<Rightarrow> reportBuilder \<times> pathTerminal" where
  "httpsLoop u L w ob n seen current builder0 =
     (let (observed, builder1, step) = askDns u L w ob n current QueryTypeHTTPS builder0;
          builder = builder1\<lparr>rb_httpsObservations := rb_httpsObservations builder1 @ observed\<rparr> in
      case step of
        Inl state \<Rightarrow> (builder, state)
      | Inr observation \<Rightarrow>
          if env_outcome observation \<noteq> OutcomeSucceeded
          then (builder, stopped StopDNSObservationFailed (failureDetail observation))
          else (case env_evidence observation of
            None \<Rightarrow> (builder, stopped StopInvalidProbeEvidence ''panic: nil evidence'')
          | Some evidence \<Rightarrow>
              if dev_AnswerKind evidence = AnswerKindIncomplete
              then (builder, stopped StopDNSObservationIncomplete ''HTTPS DNS observation is incomplete'')
              else (case relevantBindings evidence of
                (alias # aliases, services) \<Rightarrow>
                  (let target = sb_Target (br_service alias); seen = insert (dev_EffectiveName evidence) seen in
                   if target = ''.'' then (builder, completed CompletionServiceUnavailable)
                   else if target \<in> seen
                   then (builder, stopped StopAliasLoop ''HTTPS AliasMode target repeats the observed chain'')
                   else if aliasLimit_path \<le> rb_aliasesFollowed builder
                   then (builder, stopped StopAliasLimit ''HTTPS AliasMode limit 3 reached'')
                   else httpsLoop u L w ob (n + 1) (insert target seen) target
                     (builder\<lparr>rb_aliasesFollowed := rb_aliasesFollowed builder + 1\<rparr>))
              | ([], service # services) \<Rightarrow> observeServices u L w ob (n + 1) (service # services) builder
              | ([], []) \<Rightarrow> observeFallback u L w ob (n + 1) (dev_EffectiveName evidence) builder)))"
  by pat_completeness auto

termination
  by (relation "measure (\<lambda>(u, L, w, ob, n, seen, current, b). nat (aliasLimit_path - rb_aliasesFollowed b))")
    (auto dest!: askDns_builder [OF sym])

declare httpsLoop.simps [simp del]

definition Observe_path :: "'a unitab_scheme \<Rightarrow> dnslib \<Rightarrow> PathWorld \<Rightarrow> PathObserver \<Rightarrow> PathRequest \<Rightarrow> PathResult" where
  "Observe_path u L w ob request =
     (let (inp, err) = normalizeRequest_path u L request;
          builder = \<lparr>rb_input = inp, rb_aliasesFollowed = 0, rb_httpsObservations = [], rb_serviceBindings = [],
            rb_addressTargets = [], rb_serviceTargetsOmitted = 0, rb_dnsIdentity = None\<rparr> in
      case err of
        Some e \<Rightarrow> finish_path w ob builder (stopped StopInvalidInput e)
      | None \<Rightarrow> (case terminalContext (pw_ctx w) (pw_ctx w) 0 of
          Some state \<Rightarrow> finish_path w ob builder state
        | None \<Rightarrow>
            (let (builder, state) = httpsLoop u L w ob 0 {pin_Hostname inp} (pin_Hostname inp) builder in
             finish_path w ob builder state)))"

end
