(* ===== verification/PathValidate.thy ===== *)
theory PathValidate
  imports PathObserver
begin

text \<open>
  Package \<open>internal/dnshttpspath\<close>, \<open>validate.go\<close>: the contract of the report, the evidence of
  every embedded observation included.
\<close>

section \<open>Vocabulary\<close>

fun CompletionKind_valid :: "CompletionKind \<Rightarrow> bool" where
  "CompletionKind_valid completion = (completion \<in> {CompletionServiceMode, CompletionAliasFallback,
     CompletionOriginFallback, CompletionServiceUnavailable, CompletionUnsupportedServiceMode})"

fun StopReason_valid_path :: "PathStopReason \<Rightarrow> bool" where
  "StopReason_valid_path reason = (reason \<in> {StopInvalidInput, StopDNSObservationFailed, StopDNSObservationIncomplete,
     StopAliasLoop, StopAliasLimit, StopPathTimeout, StopCancelled, StopInvalidProbeEvidence})"

definition hasUsableBinding :: "BindingDecision list \<Rightarrow> bool" where
  "hasUsableBinding decisions = list_ex bd_Usable decisions"

definition validateTerminalShape_path :: "PathResult \<Rightarrow> error option" where
  "validateTerminalShape_path result = (case pth_Status result of
      StatusCompleted \<Rightarrow>
        guard (\<not> CompletionKind_valid (pth_Completion result) \<or> pth_StopReason result \<noteq> StopReasonNone \<or>
            pth_Detail result \<noteq> '''')
          ''completed path requires one completion and no stop reason or detail''
    | StatusStopped \<Rightarrow>
        guard (pth_Completion result \<noteq> CompletionNone \<or> \<not> StopReason_valid_path (pth_StopReason result) \<or>
            pth_StopReason result = StopCancelled \<or> blank (pth_Detail result))
          ''stopped path requires a non-cancel stop reason and detail''
    | StatusCancelled \<Rightarrow>
        guard (pth_Completion result \<noteq> CompletionNone \<or> pth_StopReason result \<noteq> StopCancelled)
          ''cancelled path requires cancelled stop reason''
    | StatusOther x \<Rightarrow> Some ''unsupported status'')"

section \<open>Embedded observations\<close>

definition validateEmbeddedObservation :: "'a unitab_scheme \<Rightarrow> dnslib \<Rightarrow> DnsResult \<Rightarrow> Platform \<Rightarrow> PathInput \<Rightarrow>
    string \<Rightarrow> QueryType \<Rightarrow> error option" where
  "validateEmbeddedObservation u L observation platform inp hostname queryType = firstErr [
     Validate_dns u L observation,
     guard (\<not> matchesRequest platform observation \<lparr>dreq_Hostname = hostname, dreq_QueryType = queryType,
         dreq_Resolver = pin_Resolver inp, dreq_Transport = pin_Transport inp\<rparr>)
       ''observation does not match the path platform, resolver, transport, hostname, or query type'']"

text \<open>A succeeded observation that is incomplete, and one that is complete.\<close>

definition incompleteEvidence :: "DnsResult \<Rightarrow> bool" where
  "incompleteEvidence observation \<longleftrightarrow> (case env_evidence observation of
     None \<Rightarrow> False | Some evidence \<Rightarrow> dev_AnswerKind evidence = AnswerKindIncomplete)"

definition validateTargetObservations :: "'a unitab_scheme \<Rightarrow> dnslib \<Rightarrow> PathResult \<Rightarrow> string \<Rightarrow> Source \<Rightarrow>
    AddressTarget \<Rightarrow> error option" where
  "validateTargetObservations u L result resolverEndpoint source target = firstErr (map
     (\<lambda>(observation, queryType). firstErr [
        wrapErr ''address target observation: '' (validateEmbeddedObservation u L observation (pth_Platform result)
          (pth_Input result) (at_Hostname target) queryType),
        guard (endpointOf observation \<noteq> resolverEndpoint \<or> env_source observation \<noteq> source)
          ''address target observation changes the configured resolver adapter''])
     (zip (sliceOf (at_Observations target)) (pin_AddressQueryTypes (pth_Input result))))"

definition validateAddressTarget :: "'a unitab_scheme \<Rightarrow> dnslib \<Rightarrow> PathResult \<Rightarrow> string \<Rightarrow> Source \<Rightarrow>
    AddressTarget \<Rightarrow> AddressTarget \<Rightarrow> error option" where
  "validateAddressTarget u L result resolverEndpoint source target want =
     (let observations = sliceOf (at_Observations target) in firstErr [
     guard (at_Hostname target \<noteq> at_Hostname want \<or> at_Source target \<noteq> at_Source want \<or>
         at_Priority target \<noteq> at_Priority want)
       ''address target metadata does not match final HTTPS evidence'',
     guard (at_Observations target = None) ''address target observations must encode as an array'',
     guard (length (pin_AddressQueryTypes (pth_Input result)) < length observations)
       ''address target has too many observations'',
     validateTargetObservations u L result resolverEndpoint source target,
     (if pth_Status result \<noteq> StatusCompleted then None else firstErr [
        guard (length observations \<noteq> length (pin_AddressQueryTypes (pth_Input result)))
          ''completed address target lacks A or AAAA evidence'',
        guard (list_ex (\<lambda>observation. env_outcome observation \<noteq> OutcomeSucceeded \<or> incompleteEvidence observation)
            observations)
          ''completed address target includes incomplete probe evidence''])])"

definition validateAddressTargets :: "'a unitab_scheme \<Rightarrow> dnslib \<Rightarrow> PathResult \<Rightarrow> AddressTarget list \<Rightarrow> string \<Rightarrow>
    Source \<Rightarrow> error option" where
  "validateAddressTargets u L result expected resolverEndpoint source =
     (let targets = sliceOf (pth_AddressTargets result) in
      if length targets \<noteq> length expected then Some ''address_targets count does not match final HTTPS evidence''
      else firstErr (map (\<lambda>(target, want). validateAddressTarget u L result resolverEndpoint source target want)
        (zip targets expected)))"

section \<open>The end of the path\<close>

text \<open>\<open>aliases[0].record.Service.Target\<close>, where there is one.\<close>

fun firstTarget :: "bindingReference list \<Rightarrow> string option" where
  "firstTarget [] = None"
| "firstTarget (alias # aliases) = Some (sb_Target (br_service alias))"

definition validateCompletion :: "PathResult \<Rightarrow> DnsEvidence \<Rightarrow> bindingReference list \<Rightarrow> bindingReference list \<Rightarrow>
    BindingDecision list \<Rightarrow> error option" where
  "validateCompletion result lastEvidence aliases services decisions =
     (let targets = sliceOf (pth_AddressTargets result) in
      case pth_Completion result of
        CompletionServiceMode \<Rightarrow>
          guard (aliases \<noteq> [] \<or> services = [] \<or> \<not> hasUsableBinding decisions \<or> targets = [])
            ''service_mode completion does not match final HTTPS evidence''
      | CompletionUnsupportedServiceMode \<Rightarrow>
          guard (aliases \<noteq> [] \<or> services = [] \<or> hasUsableBinding decisions \<or> targets \<noteq> [])
            ''unsupported_service_mode does not match final HTTPS evidence''
      | CompletionAliasFallback \<Rightarrow>
          guard (pth_AliasesFollowed result = 0 \<or> aliases \<noteq> [] \<or> services \<noteq> [] \<or> length targets \<noteq> 1 \<or>
              at_Source (targets ! 0) \<noteq> TargetAliasFallback)
            ''alias_fallback does not match final HTTPS evidence''
      | CompletionOriginFallback \<Rightarrow>
          guard (pth_AliasesFollowed result \<noteq> 0 \<or> aliases \<noteq> [] \<or> services \<noteq> [] \<or> length targets \<noteq> 1 \<or>
              at_Source (targets ! 0) \<noteq> TargetOriginFallback)
            ''origin_fallback does not match final HTTPS evidence''
      | CompletionServiceUnavailable \<Rightarrow>
          guard (\<not> (dev_EffectiveName lastEvidence = ''.'' \<or> firstTarget aliases = Some ''.'') \<or> targets \<noteq> [])
            ''service_unavailable does not match final HTTPS evidence''
      | CompletionOther x \<Rightarrow> None)"

definition embeddedObservations :: "PathResult \<Rightarrow> DnsResult list" where
  "embeddedObservations result = sliceOf (pth_HTTPSObservations result)
     @ concat (map (\<lambda>target. sliceOf (at_Observations target)) (sliceOf (pth_AddressTargets result)))"

definition validateStopEvidence :: "PathResult \<Rightarrow> string set \<Rightarrow> error option" where
  "validateStopEvidence result queriedNames =
     (let hasFailure = list_ex (\<lambda>o'. env_outcome o' = OutcomeFailed) (embeddedObservations result);
          hasIncomplete = list_ex (\<lambda>o'. env_outcome o' = OutcomeSucceeded \<and> incompleteEvidence o')
            (embeddedObservations result);
          aliasStop = (let final = last (sliceOf (pth_HTTPSObservations result)) in
            if env_outcome final \<noteq> OutcomeSucceeded
            then Some ''alias stop requires a successful final HTTPS observation''
            else case env_evidence final of
              None \<Rightarrow> Some ''panic: nil evidence''
            | Some evidence \<Rightarrow>
               (case firstTarget (fst (relevantBindings evidence)) of
                  None \<Rightarrow> Some ''alias stop requires a followable AliasMode target''
                | Some target \<Rightarrow> firstErr [
                    guard (target = ''.'') ''alias stop requires a followable AliasMode target'',
                    guard (pth_StopReason result = StopAliasLoop \<and> target \<notin> queriedNames)
                      ''alias_loop target does not repeat the observed chain'',
                    guard (pth_StopReason result = StopAliasLimit \<and> (target \<in> queriedNames \<or>
                        pth_AliasesFollowed result \<noteq> aliasLimit_path))
                      ''alias_limit does not match the bounded chain'']))
      in case pth_StopReason result of
           StopDNSObservationFailed \<Rightarrow> guard (\<not> hasFailure) ''dns_observation_failed requires failed embedded evidence''
         | StopDNSObservationIncomplete \<Rightarrow>
             guard (\<not> hasIncomplete) ''dns_observation_incomplete requires incomplete embedded evidence''
         | StopAliasLoop \<Rightarrow> aliasStop
         | StopAliasLimit \<Rightarrow> aliasStop
         | _ \<Rightarrow> None)"

section \<open>The HTTPS observations\<close>

text \<open>The names a chain of observations queried, effective names included.\<close>

fun queriedNamesOf :: "DnsResult list \<Rightarrow> string set" where
  "queriedNamesOf [] = {}"
| "queriedNamesOf (observation # observations) =
     {din_Hostname (env_input observation)}
     \<union> (if env_outcome observation \<noteq> OutcomeSucceeded then {}
        else case env_evidence observation of None \<Rightarrow> {} | Some evidence \<Rightarrow> {dev_EffectiveName evidence})
     \<union> queriedNamesOf observations"

text \<open>A non-terminal observation leads to the next one.\<close>

definition restartsAt :: "DnsResult \<Rightarrow> DnsResult \<Rightarrow> error option" where
  "restartsAt observation following =
     (if env_outcome observation \<noteq> OutcomeSucceeded \<or> incompleteEvidence observation
      then Some ''nonterminal HTTPS observation is not complete''
      else case env_evidence observation of
          None \<Rightarrow> Some ''panic: nil evidence''
        | Some evidence \<Rightarrow>
            guard (firstTarget (fst (relevantBindings evidence)) \<noteq> Some (din_Hostname (env_input following)))
              ''HTTPS observation does not restart at its first AliasMode target'')"

fun validateHttps :: "'a unitab_scheme \<Rightarrow> dnslib \<Rightarrow> PathResult \<Rightarrow> string \<Rightarrow> Source \<Rightarrow> bool \<Rightarrow> DnsResult list \<Rightarrow>
    error option" where
  "validateHttps u L result resolverEndpoint source isFirst [] = None"
| "validateHttps u L result resolverEndpoint source isFirst (observation # observations) = firstErr [
     wrapErr ''HTTPS observation: '' (validateEmbeddedObservation u L observation (pth_Platform result)
       (pth_Input result) (din_Hostname (env_input observation)) QueryTypeHTTPS),
     guard (endpointOf observation \<noteq> resolverEndpoint \<or> env_source observation \<noteq> source)
       ''HTTPS observation does not use the same configured resolver adapter'',
     guard (isFirst \<and> din_Hostname (env_input observation) \<noteq> pin_Hostname (pth_Input result))
       ''first HTTPS observation does not query the input hostname'',
     (case observations of [] \<Rightarrow> None | following # _ \<Rightarrow> restartsAt observation following),
     validateHttps u L result resolverEndpoint source False observations]"

section \<open>Validate\<close>

definition expectedTargets :: "PathResult \<Rightarrow> DnsEvidence \<Rightarrow> BindingDecision list \<times> AddressTarget list \<times> int" where
  "expectedTargets result lastEvidence =
     (let (aliases, services) = relevantBindings lastEvidence in
      if aliases = [] \<and> services \<noteq> [] then
        (let decisions = evaluateBindings services;
             targets = serviceAddressTargets decisions;
             limit = pin_ServiceTargetLimit (pth_Input result) in
         if limit < int (length targets) then (decisions, take (nat limit) targets, int (length targets) - limit)
         else (decisions, targets, 0))
      else if aliases = [] \<and> dev_EffectiveName lastEvidence \<noteq> ''.'' then
        ([], [\<lparr>at_Hostname = dev_EffectiveName lastEvidence,
               at_Source = (if 0 < pth_AliasesFollowed result then TargetAliasFallback else TargetOriginFallback),
               at_Priority = 0, at_Observations = Some []\<rparr>], 0)
      else ([], [], 0))"

text \<open>From the last HTTPS observation on.\<close>

definition validateFinal :: "'a unitab_scheme \<Rightarrow> dnslib \<Rightarrow> PathResult \<Rightarrow> string \<Rightarrow> Source \<Rightarrow> string set \<Rightarrow>
    DnsResult \<Rightarrow> error option" where
  "validateFinal u L result resolverEndpoint source queriedNames final =
     (let noTargets = (sliceOf (pth_ServiceBindings result) = [] \<and> sliceOf (pth_AddressTargets result) = [] \<and>
            pth_ServiceTargetsOmitted result = 0) in
      if env_outcome final \<noteq> OutcomeSucceeded then firstErr [
        guard (pth_Status result = StatusCompleted) ''completed path cannot end with a failed HTTPS observation'',
        guard (\<not> noTargets) ''failed HTTPS observation must be terminal before final targets'',
        validateStopEvidence result queriedNames]
      else case env_evidence final of
        None \<Rightarrow> Some ''panic: nil evidence''
      | Some evidence \<Rightarrow>
          if dev_AnswerKind evidence = AnswerKindIncomplete then firstErr [
            guard (pth_Status result = StatusCompleted) ''completed path cannot end with incomplete HTTPS evidence'',
            guard (\<not> noTargets) ''incomplete HTTPS evidence must not produce final targets'',
            validateStopEvidence result queriedNames]
          else (let (aliases, services) = relevantBindings evidence;
                    (decisions, targets, omitted) = expectedTargets result evidence in firstErr [
            guard (pth_ServiceBindings result \<noteq> Some decisions) ''service_bindings do not match the final HTTPS records'',
            guard (pth_ServiceTargetsOmitted result \<noteq> omitted)
              ''service_targets_omitted does not match final HTTPS evidence'',
            validateAddressTargets u L result targets resolverEndpoint source,
            (if pth_Status result = StatusCompleted then validateCompletion result evidence aliases services decisions
             else validateStopEvidence result queriedNames)]))"

definition validateSequence :: "'a unitab_scheme \<Rightarrow> dnslib \<Rightarrow> PathResult \<Rightarrow> DnsResult list \<Rightarrow> error option" where
  "validateSequence u L result observations =
     (let followed = pth_AliasesFollowed result; count = int (length observations);
          resolverEndpoint = endpointOf (observations ! 0); source = env_source (observations ! 0) in firstErr [
      guard (followed \<noteq> count - 1 \<and> followed \<noteq> count) ''aliases_followed does not match the HTTPS observation sequence'',
      guard (followed = count \<and> pth_Status result = StatusCompleted)
        ''completed path cannot end before an followed alias is observed'',
      guard (followed = count \<and> pth_Status result \<noteq> StatusCancelled \<and> pth_StopReason result \<noteq> StopPathTimeout \<and>
          pth_StopReason result \<noteq> StopInvalidProbeEvidence)
        ''a followed but unobserved alias requires timeout, cancellation, or invalid evidence'',
      validateHttps u L result resolverEndpoint source True observations,
      validateFinal u L result resolverEndpoint source (queriedNamesOf observations) (last observations)])"

text \<open>A path that made no HTTPS observation.\<close>

definition validateEmpty :: "PathResult \<Rightarrow> error option" where
  "validateEmpty result = firstErr [
     guard (pth_AliasesFollowed result \<noteq> 0 \<or> pth_ServiceTargetsOmitted result \<noteq> 0 \<or> pth_Status result = StatusCompleted)
       ''a completed path requires HTTPS evidence'',
     guard (pth_Status result = StatusStopped \<and> pth_StopReason result \<noteq> StopPathTimeout \<and>
         pth_StopReason result \<noteq> StopInvalidProbeEvidence)
       ''stop reason requires embedded HTTPS evidence'']"

definition Validate_path :: "'a unitab_scheme \<Rightarrow> dnslib \<Rightarrow> PathResult \<Rightarrow> error option" where
  "Validate_path u L result =
     (let (normalized, inputErr) = normalizeRequest_path u L \<lparr>preq_Hostname = pin_Hostname (pth_Input result),
            preq_Resolver = pin_Resolver (pth_Input result), preq_Transport = pin_Transport (pth_Input result)\<rparr>;
          observations = sliceOf (pth_HTTPSObservations result) in firstErr [
      guard (pth_SchemaVersion result \<noteq> SchemaVersion_path) ''schema_version must be 1'',
      guard (pth_Operation result \<noteq> Operation_path) ''operation must be dns_https_path'',
      guard (IsZero (pth_ObservedAt result)) ''observed_at must not be zero'',
      guard (pth_DurationMS result < 0) ''duration_ms must not be negative'',
      guard (plat_os (pth_Platform result) = '''' \<or> plat_arch (pth_Platform result) = '''')
        ''platform must include OS and architecture'',
      guard (pth_HTTPSObservations result = None \<or> pth_ServiceBindings result = None \<or> pth_AddressTargets result = None)
        ''evidence collections must encode as arrays'',
      guard (normalized \<noteq> pth_Input result) ''input does not match the normalized fixed policy'',
      (if pth_Status result = StatusStopped \<and> pth_StopReason result = StopInvalidInput then firstErr [
         guard (inputErr = None \<or> observations \<noteq> [] \<or> sliceOf (pth_ServiceBindings result) \<noteq> [] \<or>
             sliceOf (pth_AddressTargets result) \<noteq> [] \<or> pth_AliasesFollowed result \<noteq> 0 \<or>
             pth_ServiceTargetsOmitted result \<noteq> 0)
           ''invalid_input must contain only a rejected input'',
         validateTerminalShape_path result]
       else firstErr [
         wrapErr ''input is invalid: '' inputErr,
         validateTerminalShape_path result,
         guard (pth_AliasesFollowed result < 0 \<or> aliasLimit_path < pth_AliasesFollowed result)
           ''aliases_followed must be between zero and 3'',
         guard (pth_ServiceTargetsOmitted result < 0) ''service_targets_omitted must not be negative'',
         (if observations = [] then validateEmpty result else validateSequence u L result observations)])])"

end
