(* ===== verification/PathProps.thy ===== *)
theory PathProps
  imports PathValidate DnsProps
begin

text \<open>
  The report of a path passes the validator: what one request contributes, the chain of HTTPS
  observations as an invariant of the loop, the address observations, and the end of a run.
\<close>

section \<open>One request\<close>

text \<open>What every observation kept in a report satisfies.\<close>

definition observation_ok :: "'a unitab_scheme \<Rightarrow> dnslib \<Rightarrow> Platform \<Rightarrow> PathInput \<Rightarrow> string \<Rightarrow> Source \<Rightarrow>
    string \<Rightarrow> QueryType \<Rightarrow> DnsResult \<Rightarrow> bool" where
  "observation_ok u L platform inp ep src hostname queryType x \<longleftrightarrow>
     validateEmbeddedObservation u L x platform inp hostname queryType = None \<and> endpointOf x = ep \<and> env_source x = src"

text \<open>The ends a run may have whatever its evidence is.\<close>

definition open_end :: "pathTerminal \<Rightarrow> bool" where
  "open_end st \<longleftrightarrow> tm_completion st = CompletionNone \<and>
     (tm_status st = StatusCancelled \<and> tm_reason st = StopCancelled \<or>
      tm_status st = StatusStopped \<and> tm_reason st \<in> {StopPathTimeout, StopInvalidProbeEvidence} \<and> \<not> blank (tm_detail st))"

lemma ctx_detail_text [simp]: "err_text (ctxGoErr e) = ctxText e"
  by (cases e) simp_all

lemma errDetail_visible [simp]: "\<not> blank (errDetail (ctxErrAt c n))"
  by (cases "c n") (auto simp: errDetail_def ctxErrAt_def isGraph_def not_blank_graph)

lemma errDetail_either [simp]:
  "\<not> blank (errDetail (case ctxErrAt p i of None \<Rightarrow> ctxErrAt c j | Some e \<Rightarrow> Some e))"
proof (cases "ctxErrAt p i")
  case (Some e)
  then show ?thesis by (simp del: errDetail_visible) (metis errDetail_visible)
next
  case None
  show ?thesis unfolding None by simp
qed

lemma terminalContext_open: "terminalContext p c n = Some st \<Longrightarrow> open_end st"
  by (auto simp: terminalContext_def open_end_def Let_def split: if_splits)

lemma validateObservation_path_None:
  assumes "validateObservation_path u L ob x r b = (b', None)"
  shows "Validate_dns u L x = None" "matchesRequest (po_platform ob) x r"
    "b' = b\<lparr>rb_dnsIdentity := Some (endpointOf x, env_source x)\<rparr>"
    "rb_dnsIdentity b \<noteq> None \<Longrightarrow> rb_dnsIdentity b = Some (endpointOf x, env_source x)"
  using assms
  by (auto simp: validateObservation_path_def split: option.splits if_splits)

lemma validateObservation_path_Some:
  assumes "validateObservation_path u L ob x r b = (b', Some e)"
  shows "b' = b" "\<not> blank e"
  using assms
  by (auto simp: validateObservation_path_def isGraph_def intro!: not_blank_graph split: option.splits if_splits)

text \<open>
  The cases of a request: it is not made or refused, it is made and the run ends, or it is
  made and the run goes on.
\<close>

lemma askDns_cases:
  assumes "askDns u L w ob n h q b = (obs, b', step)"
  obtains (unmade) st where "obs = []" "step = Inl st" "open_end st" "b' = b"
  | (lost) st x where "obs = []" "step = Inl st" "open_end st" "env_outcome x = OutcomeSucceeded"
      "b' = b\<lparr>rb_dnsIdentity := Some (endpointOf x, env_source x)\<rparr>"
      "rb_dnsIdentity b \<noteq> None \<Longrightarrow> rb_dnsIdentity b = Some (endpointOf x, env_source x)"
  | (final) st x where "obs = [x]" "step = Inl st" "open_end st" "env_outcome x \<noteq> OutcomeSucceeded"
      "b' = b\<lparr>rb_dnsIdentity := Some (endpointOf x, env_source x)\<rparr>"
      "rb_dnsIdentity b \<noteq> None \<Longrightarrow> rb_dnsIdentity b = Some (endpointOf x, env_source x)"
      "observation_ok u L (po_platform ob) (rb_input b) (endpointOf x) (env_source x) h q x"
  | (answered) x where "obs = [x]" "step = Inr x" "env_outcome x \<noteq> OutcomeCancelled"
      "b' = b\<lparr>rb_dnsIdentity := Some (endpointOf x, env_source x)\<rparr>"
      "rb_dnsIdentity b \<noteq> None \<Longrightarrow> rb_dnsIdentity b = Some (endpointOf x, env_source x)"
      "observation_ok u L (po_platform ob) (rb_input b) (endpointOf x) (env_source x) h q x"
      "x = pw_dns w n \<lparr>dreq_Hostname = h, dreq_QueryType = q, dreq_Resolver = pin_Resolver (rb_input b),
         dreq_Transport = pin_Transport (rb_input b)\<rparr>"
proof -
  let ?r = "\<lparr>dreq_Hostname = h, dreq_QueryType = q, dreq_Resolver = pin_Resolver (rb_input b),
     dreq_Transport = pin_Transport (rb_input b)\<rparr>"
  let ?x = "pw_dns w n ?r"
  let ?c = "withTimeout (pw_ctx w) (pw_fired w (po_timeout ob))"
  show ?thesis
  proof (cases "terminalContext (pw_ctx w) ?c (2 * n + 1)")
    case (Some st)
    with assms terminalContext_open [OF Some] show ?thesis by (auto simp: askDns_def Let_def intro: unmade)
  next
    case pre: None
    obtain b1 e where v: "validateObservation_path u L ob ?x ?r b = (b1, e)" by fastforce
    show ?thesis
    proof (cases e)
      case (Some m)
      with validateObservation_path_Some [of u L ob ?x ?r b b1 m] v pre assms show ?thesis
        by (auto simp: askDns_def Let_def open_end_def intro: unmade)
    next
      case None
      note ok = validateObservation_path_None [OF v [unfolded None]]
      have x: "observation_ok u L (po_platform ob) (rb_input b) (endpointOf ?x) (env_source ?x) h q ?x"
        using ok(1,2) by (simp add: observation_ok_def validateEmbeddedObservation_def firstErr_simps)
      show ?thesis
      proof (cases "terminalContext (pw_ctx w) ?c (2 * n + 2)")
        case (Some st)
        with assms pre v None terminalContext_open [OF Some] ok(3,4) x show ?thesis
          by (cases "env_outcome ?x = OutcomeSucceeded") (auto simp: askDns_def Let_def intro: lost final)
      next
        case post: None
        show ?thesis
        proof (cases "env_outcome ?x = OutcomeCancelled")
          case True
          with assms pre v None post ok(3,4) x show ?thesis
            by (auto simp: askDns_def Let_def open_end_def intro: final)
        next
          case False
          with assms pre v None post ok(3,4) x show ?thesis
            by (auto simp: askDns_def Let_def intro: answered)
        qed
      qed
    qed
  qed
qed

text \<open>An observation that is kept and did not succeed has failed.\<close>

lemma observation_ok_outcome:
  assumes "observation_ok u L p i ep src h q x"
  shows "env_outcome x = OutcomeSucceeded \<Longrightarrow> \<exists>ev. env_evidence x = Some ev"
    "env_outcome x \<noteq> OutcomeSucceeded \<Longrightarrow> env_outcome x \<noteq> OutcomeCancelled \<Longrightarrow>
      env_outcome x = OutcomeFailed \<and> (\<exists>f. env_failure x = Some f)"
proof -
  have "Validate_envelope x = None"
    using assms by (simp add: observation_ok_def validateEmbeddedObservation_def Validate_dns_def firstErr_simps)
  then show "env_outcome x = OutcomeSucceeded \<Longrightarrow> \<exists>ev. env_evidence x = Some ev"
    "env_outcome x \<noteq> OutcomeSucceeded \<Longrightarrow> env_outcome x \<noteq> OutcomeCancelled \<Longrightarrow>
      env_outcome x = OutcomeFailed \<and> (\<exists>f. env_failure x = Some f)"
    by (auto elim!: valid_envelope_cases)
qed

section \<open>The address observations\<close>

text \<open>Once the adapter's identity is known, a request leaves the builder as it is.\<close>

lemma askDns_known:
  assumes "askDns u L w ob n h q b = (obs, b', step)" and id: "rb_dnsIdentity b = Some (ep, src)"
  shows "b' = b" "\<forall>x \<in> set obs. observation_ok u L (po_platform ob) (rb_input b) ep src h q x"
    "length obs \<le> 1" "\<And>st. step = Inl st \<Longrightarrow> open_end st"
    "\<And>x. step = Inr x \<Longrightarrow> obs = [x] \<and> env_outcome x \<noteq> OutcomeCancelled"
proof -
  have eq: "b\<lparr>rb_dnsIdentity := Some (ep, src)\<rparr> = b" using id by simp
  note c = askDns_cases [OF assms(1)]
  from id show "b' = b" by (rule_tac c) (auto simp: eq)
  from id show "\<forall>x \<in> set obs. observation_ok u L (po_platform ob) (rb_input b) ep src h q x"
    by (rule_tac c) auto
  show "length obs \<le> 1" "\<And>st. step = Inl st \<Longrightarrow> open_end st"
    "\<And>x. step = Inr x \<Longrightarrow> obs = [x] \<and> env_outcome x \<noteq> OutcomeCancelled"
    by (rule_tac c, simp_all)+
qed

abbreviation unfinished :: "DnsResult \<Rightarrow> bool" where
  "unfinished x \<equiv> env_outcome x \<noteq> OutcomeSucceeded"

abbreviation undecided :: "DnsResult \<Rightarrow> bool" where
  "undecided x \<equiv> env_outcome x = OutcomeSucceeded \<and> incompleteEvidence x"

text \<open>The observations a target has gained, query type by query type.\<close>

definition gained :: "'a unitab_scheme \<Rightarrow> dnslib \<Rightarrow> PathObserver \<Rightarrow> PathInput \<Rightarrow> string \<Rightarrow> Source \<Rightarrow> string \<Rightarrow>
    QueryType list \<Rightarrow> DnsResult list \<Rightarrow> bool" where
  "gained u L ob inp ep src h qs xs \<longleftrightarrow> length xs \<le> length qs \<and>
     (\<forall>i < length xs. observation_ok u L (po_platform ob) inp ep src h (qs ! i) (xs ! i))"

lemma gained_Nil [simp]: "gained u L ob inp ep src h qs []"
  by (simp add: gained_def)

lemma gained_Cons: "observation_ok u L (po_platform ob) inp ep src h q x \<Longrightarrow> gained u L ob inp ep src h qs xs \<Longrightarrow>
    gained u L ob inp ep src h (q # qs) (x # xs)"
  by (auto simp: gained_def nth_Cons split: nat.split)

lemma gained_few: "length xs \<le> 1 \<Longrightarrow> \<forall>x \<in> set xs. observation_ok u L (po_platform ob) inp ep src h q x \<Longrightarrow>
    gained u L ob inp ep src h (q # qs) xs"
  by (cases xs) (auto simp: gained_def)

text \<open>How a phase ends: early, or with what went wrong in the observations it made.\<close>

definition phase_end :: "bool \<times> bool \<Rightarrow> DnsResult list \<Rightarrow> pathTerminal + bool \<times> bool \<Rightarrow> bool" where
  "phase_end had xs step \<longleftrightarrow> (case step of
     Inl st \<Rightarrow> open_end st
   | Inr (f, i) \<Rightarrow> f = (fst had \<or> list_ex unfinished xs) \<and> i = (snd had \<or> list_ex undecided xs) \<and>
       (\<forall>x \<in> set xs. env_outcome x \<noteq> OutcomeCancelled))"

lemma observeTypes_ok:
  assumes "observeTypes u L w ob n qs t had b = (n', t', b', step)" "rb_dnsIdentity b = Some (ep, src)"
    "at_Observations t \<noteq> None"
  shows "\<exists>xs. b' = b \<and> t' = t\<lparr>at_Observations := Some (sliceOf (at_Observations t) @ xs)\<rparr> \<and>
    gained u L ob (rb_input b) ep src (at_Hostname t) qs xs \<and> phase_end had xs step \<and>
    (\<forall>r. step = Inr r \<longrightarrow> length xs = length qs)"
  using assms
proof (induction qs arbitrary: n t had)
  case Nil
  then show ?case by (auto simp: phase_end_def intro!: exI [of _ "[]"])
next
  case (Cons q qs)
  obtain obs b1 s where a: "askDns u L w ob n (at_Hostname t) q b = (obs, b1, s)" by (metis prod_cases3)
  note k = askDns_known [OF a Cons.prems(2)]
  let ?t = "t\<lparr>at_Observations := Some (sliceOf (at_Observations t) @ obs)\<rparr>"
  show ?case
  proof (cases s)
    case (Inl st)
    with Cons.prems(1) k show ?thesis
      by (auto simp: a Let_def phase_end_def intro!: exI [of _ obs] gained_few)
  next
    case (Inr x)
    then have o: "obs = [x]" "env_outcome x \<noteq> OutcomeCancelled" using k(5) by auto
    let ?had = "if unfinished x then (True, snd had) else (fst had, snd had \<or> incompleteEvidence x)"
    have "observeTypes u L w ob (n + 1) qs ?t ?had b = (n', t', b', step)"
      using Cons.prems(1) k(1) Inr unfolding incompleteEvidence_def
      by (simp add: a Let_def split del: if_split)
    from Cons.IH [OF this Cons.prems(2)] obtain xs where xs: "b' = b"
      "t' = ?t\<lparr>at_Observations := Some (sliceOf (at_Observations ?t) @ xs)\<rparr>"
      "gained u L ob (rb_input b) ep src (at_Hostname t) qs xs" "phase_end ?had xs step"
      "\<forall>r. step = Inr r \<longrightarrow> length xs = length qs"
      by auto
    have "phase_end had (x # xs) step"
      using xs(4) o(2) by (auto simp: phase_end_def split: sum.splits if_splits)
    with xs o k(2) show ?thesis by (auto intro!: exI [of _ "x # xs"] gained_Cons)
  qed
qed

text \<open>A target of the report against the target the final HTTPS answer asks for.\<close>

definition target_ok :: "'a unitab_scheme \<Rightarrow> dnslib \<Rightarrow> PathObserver \<Rightarrow> PathInput \<Rightarrow> string \<Rightarrow> Source \<Rightarrow>
    AddressTarget \<Rightarrow> AddressTarget \<Rightarrow> bool" where
  "target_ok u L ob inp ep src want t \<longleftrightarrow> (\<exists>xs. t = want\<lparr>at_Observations := Some xs\<rparr> \<and>
     gained u L ob inp ep src (at_Hostname want) (pin_AddressQueryTypes inp) xs)"

definition observationsOf :: "AddressTarget list \<Rightarrow> DnsResult list" where
  "observationsOf targets = concat (map (\<lambda>t. sliceOf (at_Observations t)) targets)"

lemma observationsOf_simps [simp]: "observationsOf [] = []"
  "observationsOf (t # ts) = sliceOf (at_Observations t) @ observationsOf ts"
  by (simp_all add: observationsOf_def)

lemma target_ok_fresh: "at_Observations want = Some [] \<Longrightarrow> target_ok u L ob inp ep src want want"
  by (auto simp: target_ok_def intro!: exI [of _ "[]"])

lemma observeTargets_ok:
  assumes "observeTargets u L w ob n ts had b = (ts', b', step)" "rb_dnsIdentity b = Some (ep, src)"
    "\<forall>t \<in> set ts. at_Observations t = Some []"
  shows "b' = b \<and> list_all2 (target_ok u L ob (rb_input b) ep src) ts ts' \<and>
    phase_end had (observationsOf ts') step \<and>
    (\<forall>r. step = Inr r \<longrightarrow> (\<forall>t \<in> set ts'. length (sliceOf (at_Observations t)) = length (pin_AddressQueryTypes (rb_input b))))"
  using assms
proof (induction ts arbitrary: n had ts' b' step)
  case Nil
  then show ?case by (auto simp: phase_end_def)
next
  case (Cons t ts)
  obtain n1 t1 b1 s where a: "observeTypes u L w ob n (pin_AddressQueryTypes (rb_input b)) t had b = (n1, t1, b1, s)"
    by (metis prod_cases4)
  have "at_Observations t \<noteq> None" using Cons.prems(3) by auto
  from observeTypes_ok [OF a Cons.prems(2) this] Cons.prems(3) obtain xs where xs: "b1 = b"
    "t1 = t\<lparr>at_Observations := Some xs\<rparr>"
    "gained u L ob (rb_input b) ep src (at_Hostname t) (pin_AddressQueryTypes (rb_input b)) xs" "phase_end had xs s"
    "\<forall>r. s = Inr r \<longrightarrow> length xs = length (pin_AddressQueryTypes (rb_input b))"
    by auto
  have t1: "target_ok u L ob (rb_input b) ep src t t1" using xs by (auto simp: target_ok_def)
  show ?case
  proof (cases s)
    case (Inl st)
    then have e: "ts' = t1 # ts" "b' = b" "step = Inl st" using Cons.prems(1) xs(1) by (auto simp: a)
    have "list_all2 (target_ok u L ob (rb_input b) ep src) ts ts"
      using Cons.prems(3) by (auto intro!: list.rel_refl_strong target_ok_fresh)
    with e t1 xs(4) Inl show ?thesis by (auto simp: phase_end_def)
  next
    case (Inr had1)
    obtain ts1 b2 step1 where r: "observeTargets u L w ob n1 ts had1 b = (ts1, b2, step1)" by (metis prod_cases3)
    have e: "ts' = t1 # ts1" "b' = b2" "step = step1" using Cons.prems(1) xs(1) Inr by (auto simp: a r)
    have ih: "b2 = b \<and> list_all2 (target_ok u L ob (rb_input b) ep src) ts ts1 \<and> phase_end had1 (observationsOf ts1) step1 \<and>
      (\<forall>r. step1 = Inr r \<longrightarrow> (\<forall>t \<in> set ts1. length (sliceOf (at_Observations t)) = length (pin_AddressQueryTypes (rb_input b))))"
      using Cons.IH [OF r Cons.prems(2)] Cons.prems(3) by auto
    have "phase_end had (xs @ observationsOf ts1) step1"
      using xs(4) ih Inr by (auto simp: phase_end_def split: sum.splits)
    with e ih t1 xs Inr show ?thesis by auto
  qed
qed

end
