(* ===== verification/PathChain.thy ===== *)
theory PathChain
  imports PathProps
begin

text \<open>
  The chain of HTTPS observations as the invariant of the alias loop, and the validator on the
  report of a finished run.
\<close>

section \<open>Chains\<close>

definition leadsTo :: "DnsResult \<Rightarrow> string \<Rightarrow> bool" where
  "leadsTo x target \<longleftrightarrow> env_outcome x = OutcomeSucceeded \<and> (\<exists>ev. env_evidence x = Some ev \<and>
     dev_AnswerKind ev \<noteq> AnswerKindIncomplete \<and> firstTarget (fst (relevantBindings ev)) = Some target)"

lemma restartsAt_None: "restartsAt a b = None \<longleftrightarrow> leadsTo a (din_Hostname (env_input b))"
  by (auto simp: restartsAt_def leadsTo_def incompleteEvidence_def split: option.splits)

definition chain :: "'a unitab_scheme \<Rightarrow> dnslib \<Rightarrow> PathObserver \<Rightarrow> PathInput \<Rightarrow> string \<Rightarrow> Source \<Rightarrow> DnsResult list \<Rightarrow> bool" where
  "chain u L ob inp ep src xs \<longleftrightarrow>
     (\<forall>x \<in> set xs. observation_ok u L (po_platform ob) inp ep src (din_Hostname (env_input x)) QueryTypeHTTPS x) \<and>
     successively (\<lambda>a b. leadsTo a (din_Hostname (env_input b))) xs \<and>
     (xs \<noteq> [] \<longrightarrow> din_Hostname (env_input (hd xs)) = pin_Hostname inp)"

lemma validateHttps_None:
  assumes "pth_Platform R = p" "pth_Input R = inp"
  shows "validateHttps u L R ep src isFirst xs = None \<longleftrightarrow>
    (\<forall>x \<in> set xs. observation_ok u L p inp ep src (din_Hostname (env_input x)) QueryTypeHTTPS x) \<and>
    successively (\<lambda>a b. leadsTo a (din_Hostname (env_input b))) xs \<and>
    (isFirst \<and> xs \<noteq> [] \<longrightarrow> din_Hostname (env_input (hd xs)) = pin_Hostname inp)"
proof (induction xs arbitrary: isFirst)
  case (Cons x xs)
  show ?case
    unfolding validateHttps.simps(2) firstErr_simps Cons.IH
    by (cases xs) (auto simp: observation_ok_def restartsAt_None assms)
qed simp

lemma observation_ok_hostname: "observation_ok u L p i ep src h q x \<Longrightarrow> din_Hostname (env_input x) = h"
  by (simp add: observation_ok_def validateEmbeddedObservation_def firstErr_simps matchesRequest_def)

lemma chain_extend:
  assumes "chain u L ob inp ep src xs" "observation_ok u L (po_platform ob) inp ep src h QueryTypeHTTPS x"
    "if xs = [] then h = pin_Hostname inp else leadsTo (last xs) h"
  shows "chain u L ob inp ep src (xs @ [x])"
  using assms observation_ok_hostname [OF assms(2)]
  by (cases "xs = []") (auto simp: chain_def successively_append_iff)

lemma queriedNamesOf_append: "queriedNamesOf (xs @ ys) = queriedNamesOf xs \<union> queriedNamesOf ys"
  by (induction xs) auto

section \<open>The report of a finished run\<close>

lemma finish_path_sel [simp]:
  "pth_SchemaVersion (finish_path w ob b st) = SchemaVersion_path" "pth_Operation (finish_path w ob b st) = Operation_path"
  "pth_ObservedAt (finish_path w ob b st) = UTC (pw_now w 1)" "0 \<le> pth_DurationMS (finish_path w ob b st)"
  "pth_Platform (finish_path w ob b st) = po_platform ob" "pth_Input (finish_path w ob b st) = rb_input b"
  "pth_Status (finish_path w ob b st) = tm_status st" "pth_Completion (finish_path w ob b st) = tm_completion st"
  "pth_StopReason (finish_path w ob b st) = tm_reason st" "pth_Detail (finish_path w ob b st) = tm_detail st"
  "pth_AliasesFollowed (finish_path w ob b st) = rb_aliasesFollowed b"
  "pth_ServiceTargetsOmitted (finish_path w ob b st) = rb_serviceTargetsOmitted b"
  "pth_HTTPSObservations (finish_path w ob b st) = Some (rb_httpsObservations b)"
  "pth_ServiceBindings (finish_path w ob b st) = Some (rb_serviceBindings b)"
  "pth_AddressTargets (finish_path w ob b st) = Some (rb_addressTargets b)"
  by (simp_all add: finish_path_def Let_def)

text \<open>What the loop owes the validator once the input has been accepted.\<close>

definition report_ok :: "'a unitab_scheme \<Rightarrow> dnslib \<Rightarrow> PathWorld \<Rightarrow> PathObserver \<Rightarrow> reportBuilder \<Rightarrow> pathTerminal \<Rightarrow> bool" where
  "report_ok u L w ob b st \<longleftrightarrow> validateTerminalShape_path (finish_path w ob b st) = None \<and> tm_reason st \<noteq> StopInvalidInput \<and>
     0 \<le> rb_aliasesFollowed b \<and> rb_aliasesFollowed b \<le> aliasLimit_path \<and> 0 \<le> rb_serviceTargetsOmitted b \<and>
     (if rb_httpsObservations b = [] then validateEmpty (finish_path w ob b st) = None
      else validateSequence u L (finish_path w ob b st) (rb_httpsObservations b) = None)"

text \<open>The final part of the validator, for the report of a builder.\<close>

abbreviation final_ok :: "'a unitab_scheme \<Rightarrow> dnslib \<Rightarrow> PathWorld \<Rightarrow> PathObserver \<Rightarrow> reportBuilder \<Rightarrow> pathTerminal \<Rightarrow> bool" where
  "final_ok u L w ob b st \<equiv> (let xs = rb_httpsObservations b in
     validateFinal u L (finish_path w ob b st) (endpointOf (hd xs)) (env_source (hd xs)) (queriedNamesOf xs) (last xs) = None)"

lemma report_okI:
  assumes "chain u L ob (rb_input b) (endpointOf (hd (rb_httpsObservations b))) (env_source (hd (rb_httpsObservations b)))
      (rb_httpsObservations b)" "rb_httpsObservations b \<noteq> []"
    and "rb_aliasesFollowed b = int (length (rb_httpsObservations b)) - 1 \<or>
      rb_aliasesFollowed b = int (length (rb_httpsObservations b)) \<and> open_end st"
    and "rb_aliasesFollowed b \<le> aliasLimit_path" "0 \<le> rb_serviceTargetsOmitted b"
    and "validateTerminalShape_path (finish_path w ob b st) = None" "tm_reason st \<noteq> StopInvalidInput"
    and "final_ok u L w ob b st"
  shows "report_ok u L w ob b st"
proof -
  have "0 < length (rb_httpsObservations b)" using assms(2) by simp
  then have "0 \<le> rb_aliasesFollowed b" using assms(3) by linarith
  moreover have "rb_httpsObservations b ! 0 = hd (rb_httpsObservations b)" using assms(2) by (simp add: hd_conv_nth)
  moreover have "validateHttps u L (finish_path w ob b st) (endpointOf (hd (rb_httpsObservations b)))
      (env_source (hd (rb_httpsObservations b))) True (rb_httpsObservations b) = None"
    using assms(1) by (simp add: validateHttps_None chain_def)
  ultimately show ?thesis
    using assms by (auto simp: report_ok_def validateSequence_def firstErr_simps Let_def open_end_def)
qed

lemma open_end_shape: "open_end st \<Longrightarrow> validateTerminalShape_path (finish_path w ob b st) = None \<and>
    tm_reason st \<noteq> StopInvalidInput \<and> tm_status st \<noteq> StatusCompleted \<and>
    validateStopEvidence (finish_path w ob b st) names = None"
  by (auto simp: open_end_def validateTerminalShape_path_def validateStopEvidence_def Let_def)

section \<open>The invariant of the alias loop\<close>

definition loop_inv :: "'a unitab_scheme \<Rightarrow> dnslib \<Rightarrow> PathObserver \<Rightarrow> string set \<Rightarrow> string \<Rightarrow> reportBuilder \<Rightarrow> bool" where
  "loop_inv u L ob seen current b \<longleftrightarrow> (let xs = rb_httpsObservations b in
     rb_aliasesFollowed b = int (length xs) \<and> rb_aliasesFollowed b \<le> aliasLimit_path \<and>
     rb_serviceBindings b = [] \<and> rb_addressTargets b = [] \<and> rb_serviceTargetsOmitted b = 0 \<and>
     rb_dnsIdentity b = (if xs = [] then None else Some (endpointOf (hd xs), env_source (hd xs))) \<and>
     chain u L ob (rb_input b) (endpointOf (hd xs)) (env_source (hd xs)) xs \<and>
     (if xs = [] then current = pin_Hostname (rb_input b) else leadsTo (last xs) current) \<and>
     seen = insert current (queriedNamesOf xs))"

text \<open>A run that ends at the head of the loop.\<close>

lemma report_open:
  assumes "loop_inv u L ob seen current b" "open_end st"
  shows "report_ok u L w ob (b\<lparr>rb_dnsIdentity := ident\<rparr>) st"
proof (cases "rb_httpsObservations b = []")
  case True
  with assms open_end_shape [OF assms(2)] show ?thesis
    by (auto simp: report_ok_def loop_inv_def Let_def validateEmpty_def firstErr_simps open_end_def aliasLimit_path_def)
next
  case False
  let ?b = "b\<lparr>rb_dnsIdentity := ident\<rparr>"
  let ?xs = "rb_httpsObservations b"
  have "leadsTo (last ?xs) current" using assms(1) False by (simp add: loop_inv_def Let_def)
  then obtain ev where ev: "env_outcome (last ?xs) = OutcomeSucceeded" "env_evidence (last ?xs) = Some ev"
    "dev_AnswerKind ev \<noteq> AnswerKindIncomplete" "firstTarget (fst (relevantBindings ev)) = Some current"
    by (auto simp: leadsTo_def)
  then have a: "fst (relevantBindings ev) \<noteq> []" by auto
  have "final_ok u L w ob ?b st"
    using ev a assms open_end_shape [OF assms(2)]
    by (auto simp: validateFinal_def expectedTargets_def firstErr_simps Let_def split_def loop_inv_def
        validateAddressTargets_def)
  with assms False open_end_shape [OF assms(2)] show ?thesis
    by (intro report_okI) (simp_all add: loop_inv_def Let_def)
qed

text \<open>The builder after an HTTPS observation has been appended.\<close>

definition appended :: "reportBuilder \<Rightarrow> DnsResult \<Rightarrow> reportBuilder" where
  "appended b x = b\<lparr>rb_dnsIdentity := Some (endpointOf x, env_source x),
     rb_httpsObservations := rb_httpsObservations b @ [x]\<rparr>"

lemma appended_sel [simp]:
  "rb_httpsObservations (appended b x) = rb_httpsObservations b @ [x]" "rb_input (appended b x) = rb_input b"
  "rb_aliasesFollowed (appended b x) = rb_aliasesFollowed b" "rb_serviceBindings (appended b x) = rb_serviceBindings b"
  "rb_addressTargets (appended b x) = rb_addressTargets b"
  "rb_serviceTargetsOmitted (appended b x) = rb_serviceTargetsOmitted b"
  "rb_dnsIdentity (appended b x) = Some (endpointOf x, env_source x)"
  by (simp_all add: appended_def)

lemma appended_inv:
  assumes inv: "loop_inv u L ob seen current b"
    and x: "observation_ok u L (po_platform ob) (rb_input b) (endpointOf x) (env_source x) current QueryTypeHTTPS x"
    and ident: "rb_dnsIdentity b \<noteq> None \<Longrightarrow> rb_dnsIdentity b = Some (endpointOf x, env_source x)"
  defines "ys \<equiv> rb_httpsObservations b @ [x]"
  shows "chain u L ob (rb_input b) (endpointOf (hd ys)) (env_source (hd ys)) ys"
    "endpointOf (hd ys) = endpointOf x" "env_source (hd ys) = env_source x"
    "rb_aliasesFollowed b = int (length ys) - 1" "rb_aliasesFollowed b \<le> aliasLimit_path"
    "queriedNamesOf ys = seen \<union> queriedNamesOf [x]"
proof -
  have h: "din_Hostname (env_input x) = current" by (rule observation_ok_hostname [OF x])
  show e: "endpointOf (hd ys) = endpointOf x" "env_source (hd ys) = env_source x"
    using inv ident by (auto simp: ys_def loop_inv_def Let_def hd_append split: if_splits)
  show "rb_aliasesFollowed b = int (length ys) - 1" "rb_aliasesFollowed b \<le> aliasLimit_path"
    "queriedNamesOf ys = seen \<union> queriedNamesOf [x]"
    using inv h by (auto simp: ys_def loop_inv_def Let_def queriedNamesOf_append)
  have "chain u L ob (rb_input b) (endpointOf x) (env_source x) (rb_httpsObservations b)"
    using inv e by (cases "rb_httpsObservations b = []") (auto simp: ys_def loop_inv_def Let_def chain_def)
  from chain_extend [OF this x] inv e show "chain u L ob (rb_input b) (endpointOf (hd ys)) (env_source (hd ys)) ys"
    by (simp add: ys_def loop_inv_def Let_def)
qed

lemma report_at_end:
  assumes inv: "loop_inv u L ob seen current b"
    and x: "observation_ok u L (po_platform ob) (rb_input b) (endpointOf x) (env_source x) current QueryTypeHTTPS x"
    and ident: "rb_dnsIdentity b \<noteq> None \<Longrightarrow> rb_dnsIdentity b = Some (endpointOf x, env_source x)"
    and b': "rb_httpsObservations b' = rb_httpsObservations b @ [x]" "rb_input b' = rb_input b"
      "rb_aliasesFollowed b' = rb_aliasesFollowed b" "0 \<le> rb_serviceTargetsOmitted b'"
    and st: "validateTerminalShape_path (finish_path w ob b' st) = None" "tm_reason st \<noteq> StopInvalidInput"
    and fin: "validateFinal u L (finish_path w ob b' st) (endpointOf x) (env_source x) (seen \<union> queriedNamesOf [x]) x = None"
  shows "report_ok u L w ob b' st"
  using appended_inv [OF inv x ident] b' st fin
  by (intro report_okI) (simp_all add: Let_def del: queriedNamesOf.simps)

lemma stop_shape [simp]:
  "validateTerminalShape_path (finish_path w ob b (completed c)) = None \<longleftrightarrow> CompletionKind_valid c"
  "validateTerminalShape_path (finish_path w ob b (stopped r d)) = None \<longleftrightarrow>
     StopReason_valid_path r \<and> r \<noteq> StopCancelled \<and> \<not> blank d"
  by (auto simp: validateTerminalShape_path_def)

lemma detail_texts [simp]:
  "\<not> blank ''HTTPS DNS observation is incomplete''" "\<not> blank ''HTTPS AliasMode target repeats the observed chain''"
  "\<not> blank ''HTTPS AliasMode limit 3 reached''" "\<not> blank ''DNS observation failed''"
  "\<not> blank ''one or more final address observations failed''"
  "\<not> blank ''one or more final address observations are incomplete''"
  by (simp_all add: not_blank_graph isGraph_def)

text \<open>The ends of the loop without address targets.\<close>

lemma end_failed:
  assumes "env_outcome x \<noteq> OutcomeSucceeded" "rb_serviceBindings b = []" "rb_addressTargets b = []"
    "rb_serviceTargetsOmitted b = 0"
    "open_end st \<or> st = stopped StopDNSObservationFailed d \<and> env_outcome x = OutcomeFailed \<and> x \<in> set (rb_httpsObservations b)"
  shows "validateFinal u L (finish_path w ob b st) ep src names x = None"
  using assms(5)
proof
  assume "open_end st"
  with assms open_end_shape [of st w ob b] show ?thesis by (simp add: validateFinal_def firstErr_simps)
next
  assume "st = stopped StopDNSObservationFailed d \<and> env_outcome x = OutcomeFailed \<and> x \<in> set (rb_httpsObservations b)"
  with assms show ?thesis
    by (auto simp: validateFinal_def firstErr_simps validateStopEvidence_def embeddedObservations_def Let_def list_ex_iff)
qed

lemma end_incomplete:
  assumes "env_outcome x = OutcomeSucceeded" "env_evidence x = Some ev" "dev_AnswerKind ev = AnswerKindIncomplete"
    "rb_serviceBindings b = []" "rb_addressTargets b = []" "rb_serviceTargetsOmitted b = 0"
    "x \<in> set (rb_httpsObservations b)"
  shows "validateFinal u L (finish_path w ob b (stopped StopDNSObservationIncomplete d)) ep src names x = None"
  using assms
  by (auto simp: validateFinal_def firstErr_simps validateStopEvidence_def embeddedObservations_def Let_def list_ex_iff
      incompleteEvidence_def)

lemma end_alias:
  assumes "env_outcome x = OutcomeSucceeded" "env_evidence x = Some ev" "dev_AnswerKind ev \<noteq> AnswerKindIncomplete"
    "relevantBindings ev = (alias # aliases, services)" "t = sb_Target (br_service alias)"
    "rb_serviceBindings b = []" "rb_addressTargets b = []" "rb_serviceTargetsOmitted b = 0"
    "rb_httpsObservations b = xs @ [x]"
    "t = ''.'' \<and> st = completed CompletionServiceUnavailable \<or>
     t \<noteq> ''.'' \<and> t \<in> names \<and> st = stopped StopAliasLoop d \<or>
     t \<noteq> ''.'' \<and> t \<notin> names \<and> rb_aliasesFollowed b = aliasLimit_path \<and> st = stopped StopAliasLimit d"
  shows "validateFinal u L (finish_path w ob b st) ep src names x = None"
  using assms
  by (auto simp: validateFinal_def firstErr_simps validateStopEvidence_def Let_def expectedTargets_def
      validateAddressTargets_def validateCompletion_def)

section \<open>The ends of the address phase\<close>

definition phase_result :: "CompletionKind \<Rightarrow> DnsResult list \<Rightarrow> pathTerminal \<Rightarrow> bool" where
  "phase_result completion xs st \<longleftrightarrow> open_end st \<or>
     (\<exists>d. st = stopped StopDNSObservationFailed d \<and> \<not> blank d \<and> list_ex unfinished xs) \<or>
     (\<exists>d. st = stopped StopDNSObservationIncomplete d \<and> \<not> blank d \<and> list_ex undecided xs) \<or>
     st = completed completion \<and> (\<forall>x \<in> set xs. env_outcome x = OutcomeSucceeded \<and> \<not> incompleteEvidence x)"

lemma observeAddressTargets_ok:
  assumes "observeAddressTargets u L w ob n completion b = (b', st)" "rb_dnsIdentity b = Some (ep, src)"
    "\<forall>t \<in> set (rb_addressTargets b). at_Observations t = Some []"
  shows "\<exists>ts. b' = b\<lparr>rb_addressTargets := ts\<rparr> \<and>
    list_all2 (target_ok u L ob (rb_input b) ep src) (rb_addressTargets b) ts \<and>
    phase_result completion (observationsOf ts) st \<and>
    (\<forall>x \<in> set (observationsOf ts). open_end st \<or> env_outcome x \<noteq> OutcomeCancelled) \<and>
    (tm_status st = StatusCompleted \<longrightarrow>
      (\<forall>t \<in> set ts. length (sliceOf (at_Observations t)) = length (pin_AddressQueryTypes (rb_input b))))"
proof -
  obtain ts b1 step where a: "observeTargets u L w ob n (rb_addressTargets b) (False, False) b = (ts, b1, step)"
    by (metis prod_cases3)
  note k = observeTargets_ok [OF a assms(2,3)]
  show ?thesis
  proof (cases step)
    case (Inl st')
    with assms(1) k show ?thesis
      by (auto simp: observeAddressTargets_def a phase_end_def phase_result_def open_end_def intro!: exI [of _ ts])
  next
    case (Inr r)
    with assms(1) k show ?thesis
      by (cases r) (auto simp: observeAddressTargets_def a phase_end_def phase_result_def list_ex_iff
          intro!: exI [of _ ts] split: if_splits)
  qed
qed

lemma gained_zip: "gained u L ob inp ep src h qs xs \<Longrightarrow> (x, q) \<in> set (zip xs qs) \<Longrightarrow>
    observation_ok u L (po_platform ob) inp ep src h q x"
  by (auto simp: gained_def set_zip)

lemma validateAddressTarget_None:
  assumes t: "target_ok u L ob (rb_input b) ep src want t"
    and done': "tm_status st = StatusCompleted \<Longrightarrow>
      length (sliceOf (at_Observations t)) = length (pin_AddressQueryTypes (rb_input b)) \<and>
      (\<forall>x \<in> set (sliceOf (at_Observations t)). env_outcome x = OutcomeSucceeded \<and> \<not> incompleteEvidence x)"
  shows "validateAddressTarget u L (finish_path w ob b st) ep src t want = None"
proof -
  obtain xs where xs: "t = want\<lparr>at_Observations := Some xs\<rparr>"
    "gained u L ob (rb_input b) ep src (at_Hostname want) (pin_AddressQueryTypes (rb_input b)) xs"
    using t by (auto simp: target_ok_def)
  have "validateTargetObservations u L (finish_path w ob b st) ep src t = None"
    using gained_zip [OF xs(2)]
    by (auto simp: validateTargetObservations_def firstErr_simps observation_ok_def xs(1) split_def)
  with xs done' show ?thesis
    by (auto simp: validateAddressTarget_def firstErr_simps gained_def list_ex_iff Let_def)
qed

lemma observationsOf_set: "set (observationsOf ts) = (\<Union>t \<in> set ts. set (sliceOf (at_Observations t)))"
  by (auto simp: observationsOf_def)

lemma validateAddressTargets_None:
  assumes "list_all2 (target_ok u L ob (rb_input b) ep src) wants (rb_addressTargets b)"
    and "tm_status st = StatusCompleted \<Longrightarrow>
      (\<forall>t \<in> set (rb_addressTargets b). length (sliceOf (at_Observations t)) = length (pin_AddressQueryTypes (rb_input b))) \<and>
      (\<forall>x \<in> set (observationsOf (rb_addressTargets b)). env_outcome x = OutcomeSucceeded \<and> \<not> incompleteEvidence x)"
  shows "validateAddressTargets u L (finish_path w ob b st) wants ep src = None"
proof -
  have "validateAddressTarget u L (finish_path w ob b st) ep src t want = None"
    if "(t, want) \<in> set (zip (rb_addressTargets b) wants)" for t want
  proof (rule validateAddressTarget_None)
    show "target_ok u L ob (rb_input b) ep src want t"
      using that assms(1) by (auto simp: list_all2_conv_all_nth set_zip)
    show "length (sliceOf (at_Observations t)) = length (pin_AddressQueryTypes (rb_input b)) \<and>
      (\<forall>x \<in> set (sliceOf (at_Observations t)). env_outcome x = OutcomeSucceeded \<and> \<not> incompleteEvidence x)"
      if "tm_status st = StatusCompleted"
      using assms(2) [OF that] set_zip_leftD [OF \<open>(t, want) \<in> _\<close>] by (auto simp: observationsOf_set)
  qed
  then show ?thesis
    using list_all2_lengthD [OF assms(1)] by (auto simp: validateAddressTargets_def firstErr_simps)
qed

lemma targets_observed:
  assumes "list_all2 (target_ok u L ob inp ep src) wants ts" "x \<in> set (observationsOf ts)"
  shows "\<exists>h q. observation_ok u L (po_platform ob) inp ep src h q x"
proof -
  obtain t where t: "t \<in> set ts" "x \<in> set (sliceOf (at_Observations t))" using assms(2) by (auto simp: observationsOf_set)
  then obtain want where "target_ok u L ob inp ep src want t"
    using assms(1) by (auto simp: list_all2_conv_all_nth in_set_conv_nth)
  then obtain xs where xs: "at_Observations t = Some xs"
    "gained u L ob inp ep src (at_Hostname want) (pin_AddressQueryTypes inp) xs"
    by (auto simp: target_ok_def)
  with t(2) obtain i where "i < length xs" "x = xs ! i" by (auto simp: in_set_conv_nth)
  with xs(2) show ?thesis by (auto simp: gained_def)
qed

lemma phase_stop:
  assumes ph: "phase_result c (observationsOf (rb_addressTargets b)) st" "st \<noteq> completed c"
    and ts: "list_all2 (target_ok u L ob (rb_input b) ep src) wants (rb_addressTargets b)"
    and nc: "\<forall>x \<in> set (observationsOf (rb_addressTargets b)). open_end st \<or> env_outcome x \<noteq> OutcomeCancelled"
  shows "tm_status st \<noteq> StatusCompleted \<and> validateStopEvidence (finish_path w ob b st) names = None"
proof (cases "open_end st")
  case True
  with open_end_shape [of st] show ?thesis by blast
next
  case False
  have emb: "set (embeddedObservations (finish_path w ob b st)) =
      set (rb_httpsObservations b) \<union> set (observationsOf (rb_addressTargets b))"
    by (simp add: embeddedObservations_def observationsOf_def)
  from False ph consider (failed) d x where "st = stopped StopDNSObservationFailed d"
      "x \<in> set (observationsOf (rb_addressTargets b))" "unfinished x"
    | (incomplete) d x where "st = stopped StopDNSObservationIncomplete d"
      "x \<in> set (observationsOf (rb_addressTargets b))" "undecided x"
    by (auto simp: phase_result_def list_ex_iff)
  then show ?thesis
  proof cases
    case failed
    with targets_observed [OF ts failed(2)] nc False have "env_outcome x = OutcomeFailed"
      using observation_ok_outcome(2) by blast
    with failed emb show ?thesis by (auto simp: validateStopEvidence_def Let_def list_ex_iff)
  next
    case incomplete
    with emb show ?thesis by (auto simp: validateStopEvidence_def Let_def list_ex_iff)
  qed
qed

lemma end_targets:
  assumes x: "env_outcome x = OutcomeSucceeded" "env_evidence x = Some ev" "dev_AnswerKind ev \<noteq> AnswerKindIncomplete"
      "relevantBindings ev = (aliases, services)"
    and wants: "expectedTargets (finish_path w ob b st) ev = (rb_serviceBindings b, wants, rb_serviceTargetsOmitted b)"
    and ts: "list_all2 (target_ok u L ob (rb_input b) ep src) wants (rb_addressTargets b)"
    and ph: "phase_result c (observationsOf (rb_addressTargets b)) st"
    and nc: "\<forall>x \<in> set (observationsOf (rb_addressTargets b)). open_end st \<or> env_outcome x \<noteq> OutcomeCancelled"
    and len: "tm_status st = StatusCompleted \<Longrightarrow> \<forall>t \<in> set (rb_addressTargets b).
      length (sliceOf (at_Observations t)) = length (pin_AddressQueryTypes (rb_input b))"
    and c: "st = completed c \<Longrightarrow> validateCompletion (finish_path w ob b st) ev aliases services (rb_serviceBindings b) = None"
  shows "validateFinal u L (finish_path w ob b st) ep src names x = None"
proof -
  have "validateAddressTargets u L (finish_path w ob b st) wants ep src = None"
    using len ph by (intro validateAddressTargets_None [OF ts]) (auto simp: phase_result_def open_end_def)
  then show ?thesis
    using x wants c phase_stop [OF ph _ ts nc, of w names]
    by (cases "st = completed c") (auto simp: validateFinal_def firstErr_simps)
qed

section \<open>The loop\<close>

text \<open>The policy a normalized input carries.\<close>

definition policy_ok :: "PathInput \<Rightarrow> bool" where
  "policy_ok inp \<longleftrightarrow> pin_ServiceTargetLimit inp = serviceTargetLimit \<and> pin_AddressQueryTypes inp = [QueryTypeA, QueryTypeAAAA]"

lemma serviceAddressTargets_fresh: "t \<in> set (serviceAddressTargets ds) \<Longrightarrow> at_Observations t = Some [] \<and> at_Source t = TargetServiceMode"
proof -
  have "t \<in> set (targetsOf seen ds') \<Longrightarrow> at_Observations t = Some [] \<and> at_Source t = TargetServiceMode" for seen ds'
    by (induction seen ds' rule: targetsOf.induct) (auto split: if_splits)
  then show "t \<in> set (serviceAddressTargets ds) \<Longrightarrow> at_Observations t = Some [] \<and> at_Source t = TargetServiceMode"
    by (simp add: serviceAddressTargets_def)
qed

lemma targetsOf_Nil: "targetsOf {} ds = [] \<longleftrightarrow> ds = []"
  by (cases ds) auto

lemma serviceAddressTargets_Nil: "serviceAddressTargets ds = [] \<longleftrightarrow> \<not> hasUsableBinding ds"
proof -
  have "serviceAddressTargets ds = [] \<longleftrightarrow> sort_key bd_Priority (filter bd_Usable ds) = []"
    unfolding serviceAddressTargets_def by (rule targetsOf_Nil)
  also have "\<dots> \<longleftrightarrow> filter bd_Usable ds = []"
    by (metis length_0_conv length_sort)
  finally show ?thesis by (simp add: hasUsableBinding_def filter_empty_conv list_ex_iff)
qed

lemma phase_shape: "phase_result c xs st \<Longrightarrow> CompletionKind_valid c \<Longrightarrow>
    validateTerminalShape_path (finish_path w ob b st) = None \<and> tm_reason st \<noteq> StopInvalidInput"
  unfolding phase_result_def using open_end_shape [of st w ob b] by (elim disjE exE conjE) auto

text \<open>A phase that starts from an appended observation ends with an accepted report.\<close>

lemma phase_report:
  assumes inv: "loop_inv u L ob seen current b"
    and x: "observation_ok u L (po_platform ob) (rb_input b) (endpointOf x) (env_source x) current QueryTypeHTTPS x"
    and ident: "rb_dnsIdentity b \<noteq> None \<Longrightarrow> rb_dnsIdentity b = Some (endpointOf x, env_source x)"
    and ev: "env_outcome x = OutcomeSucceeded" "env_evidence x = Some ev" "dev_AnswerKind ev \<noteq> AnswerKindIncomplete"
      "relevantBindings ev = (aliases, services)"
    and run: "observeAddressTargets u L w ob n c (appended b x\<lparr>rb_serviceBindings := ds, rb_addressTargets := wants,
        rb_serviceTargetsOmitted := omitted\<rparr>) = (b', st)"
    and wants: "\<forall>t \<in> set wants. at_Observations t = Some []" "0 \<le> omitted" "CompletionKind_valid c"
      "\<And>R. pth_Input R = rb_input b \<Longrightarrow> pth_AliasesFollowed R = rb_aliasesFollowed b \<Longrightarrow> expectedTargets R ev = (ds, wants, omitted)"
      "\<And>R ts. pth_AddressTargets R = Some ts \<Longrightarrow> list_all2 (target_ok u L ob (rb_input b) (endpointOf x) (env_source x)) wants ts \<Longrightarrow>
         pth_AliasesFollowed R = rb_aliasesFollowed b \<Longrightarrow> pth_Completion R = c \<Longrightarrow>
         validateCompletion R ev aliases services ds = None"
  shows "report_ok u L w ob b' st" "rb_input b' = rb_input b"
proof -
  let ?b = "appended b x\<lparr>rb_serviceBindings := ds, rb_addressTargets := wants, rb_serviceTargetsOmitted := omitted\<rparr>"
  from observeAddressTargets_ok [OF run] wants(1) obtain ts where ts: "b' = ?b\<lparr>rb_addressTargets := ts\<rparr>"
    "list_all2 (target_ok u L ob (rb_input b) (endpointOf x) (env_source x)) wants ts"
    "phase_result c (observationsOf ts) st"
    "\<forall>x \<in> set (observationsOf ts). open_end st \<or> env_outcome x \<noteq> OutcomeCancelled"
    "tm_status st = StatusCompleted \<longrightarrow>
      (\<forall>t \<in> set ts. length (sliceOf (at_Observations t)) = length (pin_AddressQueryTypes (rb_input b)))"
    by auto
  have "validateFinal u L (finish_path w ob b' st) (endpointOf x) (env_source x) (seen \<union> queriedNamesOf [x]) x = None"
    using ts wants(4,5) by (intro end_targets [OF ev, where c = c and wants = wants]) auto
  with ts(1) wants(2) phase_shape [OF ts(3) wants(3)] show "report_ok u L w ob b' st" "rb_input b' = rb_input b"
    by (auto intro!: report_at_end [OF inv x ident])
qed

lemma services_report:
  assumes inv: "loop_inv u L ob seen current b"
    and x: "observation_ok u L (po_platform ob) (rb_input b) (endpointOf x) (env_source x) current QueryTypeHTTPS x"
    and ident: "rb_dnsIdentity b \<noteq> None \<Longrightarrow> rb_dnsIdentity b = Some (endpointOf x, env_source x)"
    and ev: "env_outcome x = OutcomeSucceeded" "env_evidence x = Some ev" "dev_AnswerKind ev \<noteq> AnswerKindIncomplete"
      "relevantBindings ev = ([], services)"
    and services: "services \<noteq> []" and pol: "policy_ok (rb_input b)"
    and run: "observeServices u L w ob n services (appended b x) = (b', st)"
  shows "report_ok u L w ob b' st \<and> rb_input b' = rb_input b"
proof -
  let ?ds = "evaluateBindings services"
  let ?all = "serviceAddressTargets ?ds"
  let ?more = "serviceTargetLimit < int (length ?all)"
  let ?ts = "if ?more then take (nat serviceTargetLimit) ?all else ?all"
  let ?om = "if ?more then int (length ?all) - serviceTargetLimit else 0"
  let ?b = "appended b x\<lparr>rb_serviceBindings := ?ds, rb_addressTargets := ?ts, rb_serviceTargetsOmitted := ?om\<rparr>"
  have lim: "pin_ServiceTargetLimit (rb_input b) = serviceTargetLimit" using pol by (simp add: policy_ok_def)
  have om: "rb_serviceTargetsOmitted b = 0" using inv by (simp add: loop_inv_def Let_def)
  have exp: "expectedTargets R ev = (?ds, ?ts, ?om)" if "pth_Input R = rb_input b" for R
    using that services lim by (simp add: expectedTargets_def ev(4) Let_def)
  have nil: "?ts = [] \<longleftrightarrow> \<not> hasUsableBinding ?ds"
    using serviceAddressTargets_Nil [of ?ds] by (auto simp: serviceTargetLimit_def)
  have fresh: "\<forall>t \<in> set ?ts. at_Observations t = Some []"
    using serviceAddressTargets_fresh by (auto dest: in_set_takeD split: if_splits)
  show ?thesis
  proof (cases "?ts = []")
    case True
    with run have e: "b' = ?b" "st = completed CompletionUnsupportedServiceMode"
      by (auto simp: observeServices_def Let_def lim om)
    let ?R = "finish_path w ob b' st"
    have "validateFinal u L ?R (endpointOf x) (env_source x) (seen \<union> queriedNamesOf [x]) x = None"
    proof (rule end_targets [OF ev, where c = CompletionUnsupportedServiceMode and wants = ?ts])
      show "validateCompletion ?R ev [] services (rb_serviceBindings b') = None"
        using True nil services e by (simp add: validateCompletion_def Let_def)
    qed (use e True exp in \<open>auto simp: phase_result_def\<close>)
    with e show ?thesis by (auto intro!: report_at_end [OF inv x ident])
  next
    case False
    have run': "observeAddressTargets u L w ob n CompletionServiceMode ?b = (b', st)"
      using run False by (auto simp: observeServices_def Let_def lim om split: if_splits)
    have comp: "validateCompletion R ev [] services ?ds = None"
      if "pth_AddressTargets R = Some ts" "list_all2 (target_ok u L ob (rb_input b) (endpointOf x) (env_source x)) ?ts ts"
        "pth_Completion R = CompletionServiceMode" for R ts
      using that False nil services by (auto simp: validateCompletion_def Let_def)
    show ?thesis
      by (intro conjI; rule phase_report [OF inv x ident ev run' fresh]; (rule exp comp)?; simp)
  qed
qed

lemma fallback_report:
  assumes inv: "loop_inv u L ob seen current b"
    and x: "observation_ok u L (po_platform ob) (rb_input b) (endpointOf x) (env_source x) current QueryTypeHTTPS x"
    and ident: "rb_dnsIdentity b \<noteq> None \<Longrightarrow> rb_dnsIdentity b = Some (endpointOf x, env_source x)"
    and ev: "env_outcome x = OutcomeSucceeded" "env_evidence x = Some ev" "dev_AnswerKind ev \<noteq> AnswerKindIncomplete"
      "relevantBindings ev = ([], [])"
    and run: "observeFallback u L w ob n (dev_EffectiveName ev) (appended b x) = (b', st)"
  shows "report_ok u L w ob b' st \<and> rb_input b' = rb_input b"
proof -
  have z: "rb_serviceBindings b = []" "rb_addressTargets b = []" "rb_serviceTargetsOmitted b = 0"
    using inv by (simp_all add: loop_inv_def Let_def)
  show ?thesis
  proof (cases "dev_EffectiveName ev = ''.''")
    case True
    with run have e: "b' = appended b x" "st = completed CompletionServiceUnavailable"
      by (auto simp: observeFallback_def)
    let ?R = "finish_path w ob b' st"
    have "validateFinal u L ?R (endpointOf x) (env_source x) (seen \<union> queriedNamesOf [x]) x = None"
    proof (rule end_targets [OF ev, where c = CompletionServiceUnavailable and wants = "[]"])
      show "validateCompletion ?R ev [] [] (rb_serviceBindings b') = None"
        using True e z by (simp add: validateCompletion_def Let_def)
    qed (use e True z in \<open>auto simp: phase_result_def expectedTargets_def ev(4)\<close>)
    with e z show ?thesis by (auto intro!: report_at_end [OF inv x ident])
  next
    case False
    let ?f = "0 < rb_aliasesFollowed b"
    let ?c = "if ?f then CompletionAliasFallback else CompletionOriginFallback"
    let ?t = "\<lparr>at_Hostname = dev_EffectiveName ev, at_Source = if ?f then TargetAliasFallback else TargetOriginFallback,
      at_Priority = 0, at_Observations = Some []\<rparr>"
    have nn: "0 \<le> rb_aliasesFollowed b" using inv by (simp add: loop_inv_def Let_def)
    have "appended b x\<lparr>rb_serviceBindings := [], rb_addressTargets := [?t], rb_serviceTargetsOmitted := 0\<rparr> =
        appended b x\<lparr>rb_addressTargets := [?t]\<rparr>"
      using z by (cases b) (simp add: appended_def)
    with run False have run': "observeAddressTargets u L w ob n ?c
        (appended b x\<lparr>rb_serviceBindings := [], rb_addressTargets := [?t], rb_serviceTargetsOmitted := 0\<rparr>) = (b', st)"
      by (simp add: observeFallback_def Let_def)
    have exp: "expectedTargets R ev = ([], [?t], 0)" if "pth_AliasesFollowed R = rb_aliasesFollowed b" for R
      using that False by (simp add: expectedTargets_def ev(4))
    have comp: "validateCompletion R ev [] [] [] = None"
      if "pth_AddressTargets R = Some ts" "list_all2 (target_ok u L ob (rb_input b) (endpointOf x) (env_source x)) [?t] ts"
        "pth_AliasesFollowed R = rb_aliasesFollowed b" "pth_Completion R = ?c" for R ts
      using that nn by (auto simp: validateCompletion_def Let_def list_all2_Cons1 target_ok_def)
    show ?thesis
      by (intro conjI; rule phase_report [OF inv x ident ev run']; (rule exp comp)?; simp)
  qed
qed

text \<open>A stop that does not say why: the failure of a DNS observation may carry a detail of white space only.\<close>

definition blankStop :: "pathTerminal \<Rightarrow> bool" where
  "blankStop st \<longleftrightarrow> tm_status st = StatusStopped \<and> blank (tm_detail st)"

lemma loop_step:
  assumes inv: "loop_inv u L ob seen current b"
    and x: "observation_ok u L (po_platform ob) (rb_input b) (endpointOf x) (env_source x) current QueryTypeHTTPS x"
    and ident: "rb_dnsIdentity b \<noteq> None \<Longrightarrow> rb_dnsIdentity b = Some (endpointOf x, env_source x)"
    and lead: "leadsTo x t" and less: "rb_aliasesFollowed b < aliasLimit_path"
  shows "loop_inv u L ob (insert t (seen \<union> queriedNamesOf [x])) t
    ((appended b x)\<lparr>rb_aliasesFollowed := rb_aliasesFollowed b + 1\<rparr>)"
  using appended_inv [OF inv x ident] inv lead less
  by (simp add: loop_inv_def Let_def del: queriedNamesOf.simps)

lemma httpsLoop_answered:
  assumes "askDns u L w ob n current QueryTypeHTTPS b = ([x], b\<lparr>rb_dnsIdentity := Some (endpointOf x, env_source x)\<rparr>, Inr x)"
  shows "httpsLoop u L w ob n seen current b =
     (if env_outcome x \<noteq> OutcomeSucceeded then (appended b x, stopped StopDNSObservationFailed (failureDetail x))
      else (case env_evidence x of
          None \<Rightarrow> (appended b x, stopped StopInvalidProbeEvidence ''panic: nil evidence'')
        | Some evidence \<Rightarrow>
            if dev_AnswerKind evidence = AnswerKindIncomplete
            then (appended b x, stopped StopDNSObservationIncomplete ''HTTPS DNS observation is incomplete'')
            else (case relevantBindings evidence of
              (alias # aliases, services) \<Rightarrow>
                (let target = sb_Target (br_service alias); seen = insert (dev_EffectiveName evidence) seen in
                 if target = ''.'' then (appended b x, completed CompletionServiceUnavailable)
                 else if target \<in> seen
                 then (appended b x, stopped StopAliasLoop ''HTTPS AliasMode target repeats the observed chain'')
                 else if aliasLimit_path \<le> rb_aliasesFollowed b
                 then (appended b x, stopped StopAliasLimit ''HTTPS AliasMode limit 3 reached'')
                 else httpsLoop u L w ob (n + 1) (insert target seen) target
                   ((appended b x)\<lparr>rb_aliasesFollowed := rb_aliasesFollowed b + 1\<rparr>))
            | ([], service # services) \<Rightarrow> observeServices u L w ob (n + 1) (service # services) (appended b x)
            | ([], []) \<Rightarrow> observeFallback u L w ob (n + 1) (dev_EffectiveName evidence) (appended b x))))"
proof -
  have sel: "rb_httpsObservations (b\<lparr>rb_dnsIdentity := i\<rparr>) = rb_httpsObservations b"
    "rb_aliasesFollowed (b\<lparr>rb_dnsIdentity := i, rb_httpsObservations := xs\<rparr>) = rb_aliasesFollowed b" for i xs
    by simp_all
  show ?thesis
    unfolding httpsLoop.simps [of u L w ob n seen current b] assms prod.case sum.case Let_def appended_def sel ..
qed

lemma alias_report:
  assumes inv: "loop_inv u L ob seen current b"
    and x: "observation_ok u L (po_platform ob) (rb_input b) (endpointOf x) (env_source x) current QueryTypeHTTPS x"
    and ident: "rb_dnsIdentity b \<noteq> None \<Longrightarrow> rb_dnsIdentity b = Some (endpointOf x, env_source x)"
    and ev: "env_outcome x = OutcomeSucceeded" "env_evidence x = Some ev" "dev_AnswerKind ev \<noteq> AnswerKindIncomplete"
      "relevantBindings ev = (alias # aliases, services)" "t = sb_Target (br_service alias)"
    and nm: "seen \<union> queriedNamesOf [x] = names" and d: "\<not> blank d"
    and st: "t = ''.'' \<and> st = completed CompletionServiceUnavailable \<or>
      t \<noteq> ''.'' \<and> t \<in> names \<and> st = stopped StopAliasLoop d \<or>
      t \<noteq> ''.'' \<and> t \<notin> names \<and> rb_aliasesFollowed b = aliasLimit_path \<and> st = stopped StopAliasLimit d"
  shows "report_ok u L w ob (appended b x) st"
proof -
  have z: "rb_serviceBindings b = []" "rb_addressTargets b = []" "rb_serviceTargetsOmitted b = 0"
    using inv by (simp_all add: loop_inv_def Let_def)
  have "validateFinal u L (finish_path w ob (appended b x) st) (endpointOf x) (env_source x) (seen \<union> queriedNamesOf [x]) x = None"
    unfolding nm
    by (rule end_alias [OF ev, where xs = "rb_httpsObservations b" and d = d]) (use st z in simp_all)
  with st d z show ?thesis by (auto intro!: report_at_end [OF inv x ident])
qed

text \<open>The loop after a complete answer; the run from the next alias on is the induction hypothesis.\<close>

lemma complete_answer_ok:
  assumes inv: "loop_inv u L ob seen current b" and pol: "policy_ok (rb_input b)"
    and ask: "askDns u L w ob n current QueryTypeHTTPS b =
      ([x], b\<lparr>rb_dnsIdentity := Some (endpointOf x, env_source x)\<rparr>, Inr x)"
    and x: "observation_ok u L (po_platform ob) (rb_input b) (endpointOf x) (env_source x) current QueryTypeHTTPS x"
    and ident: "rb_dnsIdentity b \<noteq> None \<Longrightarrow> rb_dnsIdentity b = Some (endpointOf x, env_source x)"
    and ev: "env_outcome x = OutcomeSucceeded" "env_evidence x = Some ev" "dev_AnswerKind ev \<noteq> AnswerKindIncomplete"
    and run: "httpsLoop u L w ob n seen current b = (b', st)"
    and ih: "\<And>seen' t. let bt = (appended b x)\<lparr>rb_aliasesFollowed := rb_aliasesFollowed b + 1\<rparr> in
      rb_aliasesFollowed b < aliasLimit_path \<longrightarrow> loop_inv u L ob seen' t bt \<longrightarrow>
      httpsLoop u L w ob (n + 1) seen' t bt = (b', st) \<longrightarrow> (blankStop st \<or> report_ok u L w ob b' st) \<and> rb_input b' = rb_input b"
  shows "(blankStop st \<or> report_ok u L w ob b' st) \<and> rb_input b' = rb_input b"
proof -
  let ?eff = "dev_EffectiveName ev" and ?lim = "rb_aliasesFollowed b < aliasLimit_path"
  note step = httpsLoop_answered [OF ask]
  have nm: "seen \<union> queriedNamesOf [x] = insert ?eff seen"
    using observation_ok_hostname [OF x] ev inv by (auto simp: loop_inv_def Let_def)
  obtain aliases services where rb: "relevantBindings ev = (aliases, services)" by fastforce
  show ?thesis
  proof (cases aliases)
    case (Cons first others)
    let ?t = "sb_Target (br_service first)"
    show ?thesis
    proof (cases "?t \<noteq> ''.'' \<and> ?t \<notin> insert ?eff seen \<and> ?lim")
      case follow: True
      have "leadsTo x ?t" using ev rb Cons by (simp add: leadsTo_def)
      with loop_step [OF inv x ident this] follow nm ih [of "insert ?t (insert ?eff seen)" ?t] run ev rb Cons
      show ?thesis by (simp add: step Let_def)
    next
      case end': False
      define d where "d = (if ?t \<in> insert ?eff seen
        then ''HTTPS AliasMode target repeats the observed chain'' else ''HTTPS AliasMode limit 3 reached'')"
      have "rb_aliasesFollowed b \<le> aliasLimit_path" using inv by (simp add: loop_inv_def Let_def)
      then have e: "b' = appended b x" "?t = ''.'' \<and> st = completed CompletionServiceUnavailable \<or>
          ?t \<noteq> ''.'' \<and> ?t \<in> insert ?eff seen \<and> st = stopped StopAliasLoop d \<or>
          ?t \<noteq> ''.'' \<and> ?t \<notin> insert ?eff seen \<and> rb_aliasesFollowed b = aliasLimit_path \<and> st = stopped StopAliasLimit d"
        using run ev rb Cons end' by (auto simp: step Let_def d_def split: if_splits)
      have "\<not> blank d" by (simp add: d_def)
      from alias_report [OF inv x ident ev rb [unfolded Cons] refl nm this e(2)] e(1) show ?thesis by simp
    qed
  next
    case Nil
    show ?thesis
    proof (cases services)
      case (Cons s ss)
      with run ev rb Nil have "observeServices u L w ob (n + 1) services (appended b x) = (b', st)" by (simp add: step)
      from services_report [OF inv x ident ev rb [unfolded Nil] _ pol this] Cons show ?thesis by simp
    next
      case nos: Nil
      with run ev rb Nil have "observeFallback u L w ob (n + 1) ?eff (appended b x) = (b', st)" by (simp add: step)
      from fallback_report [OF inv x ident ev rb [unfolded Nil nos] this] show ?thesis by blast
    qed
  qed
qed

lemma httpsLoop_ok:
  assumes "loop_inv u L ob seen current b" "policy_ok (rb_input b)"
    "httpsLoop u L w ob n seen current b = (b', st)"
  shows "(blankStop st \<or> report_ok u L w ob b' st) \<and> rb_input b' = rb_input b"
  using assms
proof (induction "nat (aliasLimit_path - rb_aliasesFollowed b)" arbitrary: n seen current b rule: less_induct)
  case less
  note inv = less.prems(1) and run = less.prems(3)
  obtain obs b1 step where a: "askDns u L w ob n current QueryTypeHTTPS b = (obs, b1, step)" by (metis prod_cases3)
  have z: "rb_serviceBindings b = []" "rb_addressTargets b = []" "rb_serviceTargetsOmitted b = 0"
    using inv by (simp_all add: loop_inv_def Let_def)
  from a show ?case
  proof (cases rule: askDns_cases)
    case (unmade s)
    with run have "b' = b\<lparr>rb_dnsIdentity := rb_dnsIdentity b\<rparr>" "st = s"
      by (simp_all add: httpsLoop.simps a)
    with report_open [OF inv unmade(3), where ident = "rb_dnsIdentity b"] show ?thesis by simp
  next
    case (lost s x)
    with run have "b' = b\<lparr>rb_dnsIdentity := Some (endpointOf x, env_source x)\<rparr>" "st = s"
      by (simp_all add: httpsLoop.simps a)
    with report_open [OF inv lost(3)] show ?thesis by simp
  next
    case (final s x)
    with run have e: "b' = appended b x" "st = s" by (simp_all add: httpsLoop.simps a appended_def)
    have "validateFinal u L (finish_path w ob b' st) (endpointOf x) (env_source x) (seen \<union> queriedNamesOf [x]) x = None"
      by (rule end_failed) (use final e z in simp_all)
    with e z open_end_shape [OF final(3)] show ?thesis by (auto intro!: report_at_end [OF inv final(7,6)])
  next
    case (answered x)
    note ap = report_at_end [OF inv answered(6,5)]
    have ask: "askDns u L w ob n current QueryTypeHTTPS b =
        ([x], b\<lparr>rb_dnsIdentity := Some (endpointOf x, env_source x)\<rparr>, Inr x)"
      using a answered(1,2,4) by simp
    note step = httpsLoop_answered [OF ask]
    show ?thesis
    proof (cases "env_outcome x = OutcomeSucceeded")
      case False
      then have e: "b' = appended b x" "st = stopped StopDNSObservationFailed (failureDetail x)"
        using run by (simp_all add: step)
      have "validateFinal u L (finish_path w ob b' st) (endpointOf x) (env_source x) (seen \<union> queriedNamesOf [x]) x = None"
        by (rule end_failed [where d = "failureDetail x"])
          (use False answered(3) observation_ok_outcome(2) [OF answered(6) False] e z in simp_all)
      with e z show ?thesis by (cases "blank (failureDetail x)") (auto simp: blankStop_def intro!: ap)
    next
      case True
      then obtain ev where ev: "env_evidence x = Some ev" using observation_ok_outcome(1) [OF answered(6)] by auto
      show ?thesis
      proof (cases "dev_AnswerKind ev = AnswerKindIncomplete")
        case inc: True
        then have e: "b' = appended b x" "st = stopped StopDNSObservationIncomplete ''HTTPS DNS observation is incomplete''"
          using run True by (simp_all add: step ev)
        have "validateFinal u L (finish_path w ob b' st) (endpointOf x) (env_source x) (seen \<union> queriedNamesOf [x]) x = None"
          unfolding e(2) by (rule end_incomplete [OF True ev inc]) (use e z in simp_all)
        with e z show ?thesis by (auto intro!: ap)
      next
        case comp: False
        show ?thesis
        proof (rule complete_answer_ok [OF inv less.prems(2) ask answered(6,5) True ev comp run])
          fix seen' t
          show "let bt = (appended b x)\<lparr>rb_aliasesFollowed := rb_aliasesFollowed b + 1\<rparr> in
              rb_aliasesFollowed b < aliasLimit_path \<longrightarrow> loop_inv u L ob seen' t bt \<longrightarrow>
              httpsLoop u L w ob (n + 1) seen' t bt = (b', st) \<longrightarrow> (blankStop st \<or> report_ok u L w ob b' st) \<and> rb_input b' = rb_input b"
            using less.hyps [of "(appended b x)\<lparr>rb_aliasesFollowed := rb_aliasesFollowed b + 1\<rparr>" seen' t "n + 1"]
              less.prems(2) by (simp add: Let_def)
        qed
      qed
    qed
  qed
qed

section \<open>The whole run\<close>

lemma normalizeRequest_path_visible: "normalizeRequest_path u L r = (i, Some e) \<Longrightarrow> \<not> blank e"
proof -
  have h: "\<not> blank e" if "NormalizeHostname u L v = (h, Some e)" for v h e
    using that
    by (auto simp: NormalizeHostname_def normalizeHostname_dns_def hostnameErr_dns_def Let_def not_blank_graph isGraph_def
        dest!: firstErr_Some split: option.splits sum.splits)
  assume "normalizeRequest_path u L r = (i, Some e)"
  then show ?thesis
    using h by (auto simp: normalizeRequest_path_def Let_def not_blank_graph isGraph_def dest!: firstErr_Some split: prod.splits)
qed

lemma normalizeRequest_path_policy: "normalizeRequest_path u L r = (i, e) \<Longrightarrow> policy_ok i"
  by (auto simp: normalizeRequest_path_def Let_def policy_ok_def split: prod.splits)

text \<open>A recorded input is its own normalization, with the same verdict.\<close>

definition recorded :: "PathInput \<Rightarrow> PathRequest" where
  "recorded i = \<lparr>preq_Hostname = pin_Hostname i, preq_Resolver = pin_Resolver i, preq_Transport = pin_Transport i\<rparr>"

lemma NormalizeHostname_again:
  assumes "unitab_ok u" "labels_checked L" "rejects_stable u L v" and n: "NormalizeHostname u L v = (h, e)"
  shows "NormalizeHostname u L h = (h, e)"
proof -
  obtain name where v: "normalizeHostname_dns u L v = (h, name, e)"
    using n by (auto simp: NormalizeHostname_def split: prod.splits)
  have t: "hostnameText_dns u v = h" using normalizeHostname_dns_text [of u L v] v by simp
  show ?thesis
  proof (cases e)
    case None
    with normalizeHostname_dns_fixed [OF assms(1,2)] v show ?thesis by (simp add: NormalizeHostname_def)
  next
    case (Some m)
    then have "hostnameText_dns u h = h" using assms(3) v t by (auto simp: rejects_stable_def)
    then have "normalizeHostname_dns u L h = normalizeHostname_dns u L v"
      by (simp add: normalizeHostname_dns_def t)
    with v show ?thesis by (simp add: NormalizeHostname_def)
  qed
qed

lemma normalizeRequest_path_again:
  assumes "unitab_ok u" "labels_checked L" "normalizeRequest_path u L r = (i, e)"
  shows "rejects_stable u L (preq_Hostname r) \<Longrightarrow> normalizeRequest_path u L (recorded i) = (i, e)"
    "\<not> rejects_stable u L (preq_Hostname r) \<Longrightarrow> fst (normalizeRequest_path u L (recorded i)) \<noteq> i"
proof -
  obtain h m where h: "NormalizeHostname u L (preq_Hostname r) = (h, m)" by fastforce
  have i: "pin_Hostname i = h" using assms(3) by (auto simp: normalizeRequest_path_def h Let_def)
  show "normalizeRequest_path u L (recorded i) = (i, e)" if "rejects_stable u L (preq_Hostname r)"
    using assms(3) NormalizeHostname_again [OF assms(1,2) that h] by (auto simp: normalizeRequest_path_def recorded_def h Let_def)
  show "fst (normalizeRequest_path u L (recorded i)) \<noteq> i" if "\<not> rejects_stable u L (preq_Hostname r)"
  proof -
    have t: "hostnameText_dns u (preq_Hostname r) = h" "fst (NormalizeHostname u L h) = hostnameText_dns u h"
      using normalizeHostname_dns_text [of u L "preq_Hostname r"] normalizeHostname_dns_text [of u L h] h
      by (auto simp: NormalizeHostname_def split: prod.splits)
    then have "fst (NormalizeHostname u L h) \<noteq> h" using that by (auto simp: rejects_stable_def)
    then have "pin_Hostname (fst (normalizeRequest_path u L (recorded i))) \<noteq> pin_Hostname i"
      by (cases "NormalizeHostname u L h") (simp add: normalizeRequest_path_def recorded_def i Let_def)
    then show ?thesis by metis
  qed
qed

lemma normalizeRequest_path_unstable:
  "normalizeRequest_path u L r = (i, None) \<Longrightarrow> rejects_stable u L (preq_Hostname r)"
  by (auto simp: normalizeRequest_path_def NormalizeHostname_def rejects_stable_def Let_def firstErr_simps split: prod.splits)

definition path_env_ok :: "PathWorld \<Rightarrow> PathObserver \<Rightarrow> bool" where
  "path_env_ok w ob \<longleftrightarrow> clock_ok (pw_now w) \<and> plat_os (po_platform ob) \<noteq> '''' \<and> plat_arch (po_platform ob) \<noteq> ''''"

lemma newObserver_path_ok:
  "newObserver_path cfg rp dp h = Inr ob \<Longrightarrow> plat_os (po_platform ob) \<noteq> '''' \<and> plat_arch (po_platform ob) \<noteq> '''' \<and>
     0 < po_timeout ob \<and> po_timeout ob \<le> maximumTimeout_path"
  by (auto simp: newObserver_path_def normalizeTimeout_path_def Let_def defaultTimeout_path_def maximumTimeout_path_def
      split: if_splits sum.splits)

abbreviation freshBuilder :: "PathInput \<Rightarrow> reportBuilder" where
  "freshBuilder i \<equiv> \<lparr>rb_input = i, rb_aliasesFollowed = 0, rb_httpsObservations = [], rb_serviceBindings = [],
     rb_addressTargets = [], rb_serviceTargetsOmitted = 0, rb_dnsIdentity = None\<rparr>"

lemma report_accepted:
  assumes env: "path_env_ok w ob" and n: "normalizeRequest_path u L (recorded i) = (i, None)"
    and r: "report_ok u L w ob b st" "rb_input b = i"
  shows "Validate_path u L (finish_path w ob b st) = None"
  using assms clock_nonzero [of "pw_now w" 1]
  by (auto simp: Validate_path_def recorded_def firstErr_simps path_env_ok_def report_ok_def not_less Let_def
      split: prod.splits)

lemma loop_inv_start: "loop_inv u L ob {pin_Hostname i} (pin_Hostname i) (freshBuilder i)"
  by (simp add: loop_inv_def chain_def aliasLimit_path_def)

lemma Validate_path_accepts:
  assumes "Validate_path u L R = None"
  shows "fst (normalizeRequest_path u L (recorded (pth_Input R))) = pth_Input R" "validateTerminalShape_path R = None"
  using assms by (auto simp: Validate_path_def recorded_def firstErr_simps Let_def split: prod.splits if_splits)

lemma blank_stop_refused:
  "Validate_path u L R = None \<Longrightarrow> \<not> (pth_Status R = StatusStopped \<and> blank (pth_Detail R))"
  by (auto dest!: Validate_path_accepts(2) simp: validateTerminalShape_path_def)

lemma Observe_path_exact:
  assumes env: "path_env_ok w ob" and u: "unitab_ok u" "labels_checked L"
  shows "Validate_path u L (Observe_path u L w ob r) = None \<longleftrightarrow> rejects_stable u L (preq_Hostname r) \<and>
    \<not> (pth_Status (Observe_path u L w ob r) = StatusStopped \<and> blank (pth_Detail (Observe_path u L w ob r)))"
proof -
  obtain i e where n: "normalizeRequest_path u L r = (i, e)" by fastforce
  note again = normalizeRequest_path_again [OF u n]
  show ?thesis
  proof (cases e)
    case (Some m)
    note v = normalizeRequest_path_visible [of u L r i m]
    show ?thesis
    proof (cases "rejects_stable u L (preq_Hostname r)")
      case True
      with v Some n again(1) env clock_nonzero [of "pw_now w" 1] show ?thesis
        by (auto simp: Observe_path_def Validate_path_def recorded_def firstErr_simps path_env_ok_def not_less)
    next
      case False
      have "pth_Input (Observe_path u L w ob r) = i" using Some n by (simp add: Observe_path_def)
      with False again(2) Validate_path_accepts(1) show ?thesis by metis
    qed
  next
    case None
    have st: "rejects_stable u L (preq_Hostname r)" by (rule normalizeRequest_path_unstable [OF n [unfolded None]])
    note acc = report_accepted [OF env again(1) [OF st, unfolded None]]
    note inv = loop_inv_start [of u L ob i]
    show ?thesis
    proof (cases "terminalContext (pw_ctx w) (pw_ctx w) 0")
      case (Some s)
      have "report_ok u L w ob (freshBuilder i) s"
        using report_open [OF inv terminalContext_open [OF Some], of w None] by simp
      from acc [OF this] Some n None have "Validate_path u L (Observe_path u L w ob r) = None" by (simp add: Observe_path_def)
      with st blank_stop_refused show ?thesis by blast
    next
      case go: None
      obtain b s where r: "httpsLoop u L w ob 0 {pin_Hostname i} (pin_Hostname i) (freshBuilder i) = (b, s)" by fastforce
      have "policy_ok (rb_input (freshBuilder i))" using normalizeRequest_path_policy [OF n] by simp
      from httpsLoop_ok [OF inv this r] have b: "blankStop s \<or> report_ok u L w ob b s" "rb_input b = i" by auto
      have R: "Observe_path u L w ob r = finish_path w ob b s" using n None go r by (simp add: Observe_path_def)
      have "blankStop s \<or> Validate_path u L (finish_path w ob b s) = None"
        using b(1) acc [OF _ b(2), of s] by auto
      with st blank_stop_refused [of u L "finish_path w ob b s"] show ?thesis unfolding R by (auto simp: blankStop_def)
    qed
  qed
qed

end
