(* ===== verification/PathService.thy ===== *)
theory PathService
  imports PathTypes
begin

text \<open>
  The decisions about ServiceMode records: the codecs of the two list-valued parameters, the
  keys a decision reports, when a binding is usable, and the order of the address targets.
\<close>

section \<open>Parameter codecs\<close>

definition encodeKey :: "16 word \<Rightarrow> bytes" where
  "encodeKey k = [word_of_nat (unat k div 256), word_of_nat (unat k)]"

lemma encodeKey_Nil [simp]: "encodeKey k \<noteq> []" "[] \<noteq> encodeKey k"
  by (simp_all add: encodeKey_def)

lemma encodeKey_beUint16: "encodeKey (beUint16 a b) = [a, b]"
proof -
  have a: "unat a < 256" and b: "unat b < 256" using unsigned_less [of a] unsigned_less [of b] by simp_all
  then have v: "unat (beUint16 a b) = unat a * 256 + unat b"
    unfolding beUint16_def unat_of_nat by simp
  have h: "(unat a * 256 + unat b) div 256 = unat a" using b by simp
  have l: "(word_of_nat (unat a * 256 + unat b) :: 8 word) = b"
    unfolding word_unat_eq_iff unat_of_nat using b by simp
  show ?thesis unfolding encodeKey_def v h l by simp
qed

lemma beUint16_encodeKey:
  assumes "encodeKey k = [a, b]"
  shows "beUint16 a b = k"
proof -
  have k: "unat k < 65536" using unsigned_less [of k] by simp
  have a: "a = word_of_nat (unat k div 256)" and b: "b = word_of_nat (unat k)"
    using assms unfolding encodeKey_def by blast+
  have "unat a = unat k div 256 mod 256" "unat b = unat k mod 256"
    unfolding a b unat_of_nat by simp_all
  with k have "unat a * 256 + unat b = unat k" by simp
  then show ?thesis unfolding beUint16_def by simp
qed

lemma encodeKeys_Nil: "[] = concat (map encodeKey ks) \<longleftrightarrow> ks = []"
  by (cases ks) (auto simp: encodeKey_def)

lemma mandatoryLoop_Some:
  "even (length v) \<Longrightarrow> sorted_wrt (<) keys \<Longrightarrow>
    mandatoryLoop keys v = Some ks \<longleftrightarrow>
      (\<exists>new. ks = keys @ new \<and> v = concat (map encodeKey new)) \<and> sorted_wrt (<) ks"
proof (induction keys v rule: mandatoryLoop.induct)
  case (1 keys a b v)
  let ?k = "beUint16 a b"
  have split: "(\<exists>new. ks = keys @ new \<and> a # b # v = concat (map encodeKey new)) \<longleftrightarrow>
      (\<exists>new. ks = (keys @ [?k]) @ new \<and> v = concat (map encodeKey new))"
  proof
    assume "\<exists>new. ks = keys @ new \<and> a # b # v = concat (map encodeKey new)"
    then obtain new where n: "ks = keys @ new" "a # b # v = concat (map encodeKey new)" by blast
    then obtain k new' where "new = k # new'" by (cases new) auto
    with n beUint16_encodeKey [of k a b] show "\<exists>new. ks = (keys @ [?k]) @ new \<and> v = concat (map encodeKey new)"
      by (auto simp: encodeKey_def)
  next
    assume "\<exists>new. ks = (keys @ [?k]) @ new \<and> v = concat (map encodeKey new)"
    then obtain new where "ks = (keys @ [?k]) @ new" "v = concat (map encodeKey new)" by blast
    then show "\<exists>new. ks = keys @ new \<and> a # b # v = concat (map encodeKey new)"
      by (intro exI [of _ "?k # new"]) (simp add: encodeKey_beUint16)
  qed
  show ?case
  proof (cases "keys \<noteq> [] \<and> ?k \<le> last keys")
    case True
    then have "\<not> sorted_wrt (<) ((keys @ [?k]) @ new)" for new
      by (auto simp: sorted_wrt_append dest!: bspec [of _ _ "last keys"])
    with True show ?thesis unfolding split by auto
  next
    case False
    have "sorted_wrt (<) (keys @ [?k])"
    proof -
      have "x < ?k" if "x \<in> set keys" for x
      proof -
        have "x \<le> last keys" using "1.prems"(2) that
          by (induction keys) (auto simp: order.strict_iff_order)
        with False that show ?thesis by (cases keys) auto
      qed
      with "1.prems"(2) show ?thesis by (simp add: sorted_wrt_append)
    qed
    with "1.IH" [OF False] "1.prems" False show ?thesis unfolding split by auto
  qed
qed (auto simp: encodeKeys_Nil)

lemma mandatoryKeys_Some: "mandatoryKeys v = Some ks \<longleftrightarrow>
    ks \<noteq> [] \<and> sorted_wrt (<) ks \<and> v = concat (map encodeKey ks)"
proof -
  have len: "length (concat (map encodeKey ks)) = 2 * length ks"
    by (induction ks) (auto simp: encodeKey_def)
  show ?thesis
    using len mandatoryLoop_Some [of v "[]" ks]
    by (auto simp: mandatoryKeys_def even_iff_mod_2_eq_zero encodeKey_def concat_eq_Nil_conv)
qed

definition encodeALPN :: "bytes list \<Rightarrow> bytes" where
  "encodeALPN ids = concat (map (\<lambda>i. word_of_nat (length i) # i) ids)"

definition alpn_ok :: "bytes list \<Rightarrow> bool" where
  "alpn_ok ids \<longleftrightarrow> (\<forall>i \<in> set ids. 1 \<le> length i \<and> length i \<le> 255)"

lemma alpnLoop_encode: "alpn_ok new \<Longrightarrow> alpnLoop ids (encodeALPN new) = Some (ids @ new)"
proof (induction new arbitrary: ids)
  case Nil
  then show ?case by (simp add: encodeALPN_def)
next
  case (Cons i new)
  then have "unat (word_of_nat (length i) :: 8 word) = length i"
    by (simp add: alpn_ok_def unat_of_nat)
  moreover have "encodeALPN (i # new) = word_of_nat (length i) # i @ encodeALPN new"
    by (simp add: encodeALPN_def)
  moreover have "i \<noteq> []" using Cons.prems by (auto simp: alpn_ok_def)
  ultimately show ?case using Cons by (simp add: alpn_ok_def)
qed

lemma alpnLoop_decode: "alpnLoop ids v = Some out \<Longrightarrow> \<exists>new. out = ids @ new \<and> v = encodeALPN new \<and> alpn_ok new"
proof (induction ids v rule: alpnLoop.induct)
  case (1 ids)
  then show ?case by (auto simp: encodeALPN_def alpn_ok_def)
next
  case (2 ids n v)
  then have ok: "unat n \<noteq> 0" "unat n \<le> length v" by (auto split: if_splits)
  with 2 obtain new where n: "out = (ids @ [take (unat n) v]) @ new" "drop (unat n) v = encodeALPN new" "alpn_ok new"
    by auto
  have "unat n < 256" using unsigned_less [of n] by simp
  then have "n # v = encodeALPN (take (unat n) v # new) \<and> alpn_ok (take (unat n) v # new)"
    using n ok append_take_drop_id [of "unat n" v]
    by (simp add: encodeALPN_def alpn_ok_def)
  with n(1) show ?case by (intro exI [of _ "take (unat n) v # new"]) simp
qed

lemma alpnIDs_Some: "alpnIDs v = Some ids \<longleftrightarrow> ids \<noteq> [] \<and> alpn_ok ids \<and> v = encodeALPN ids"
proof -
  have "encodeALPN ids = [] \<longleftrightarrow> ids = []" by (cases ids) (auto simp: encodeALPN_def)
  then show ?thesis
    using alpnLoop_decode [of "[]" v ids] alpnLoop_encode [of ids "[]"] by (auto simp: alpnIDs_def)
qed

section \<open>Reported keys\<close>

lemma normalizedKeys_fold:
  "sorted xs \<Longrightarrow> sorted_wrt (<) acc \<Longrightarrow> (\<forall>a \<in> set acc. \<forall>x \<in> set xs. a \<le> x) \<Longrightarrow>
   (let out = fold (\<lambda>key result. if result = [] \<or> last result \<noteq> key then result @ [key] else result) xs acc in
    sorted_wrt (<) out \<and> set out = set acc \<union> set xs)" for acc xs :: "16 word list"
proof (induction xs arbitrary: acc)
  case (Cons x xs)
  let ?acc = "if acc = [] \<or> last acc \<noteq> x then acc @ [x] else acc"
  have le: "a \<le> last acc" if "a \<in> set acc" for a
    using Cons.prems(2) that by (induction acc) (auto simp: order.strict_iff_order)
  have lt: "a < x" if "a \<in> set acc" "last acc \<noteq> x" for a
  proof -
    have "acc \<noteq> []" using that(1) by auto
    then have "last acc \<le> x" using Cons.prems(3) by simp
    with le [OF that(1)] that(2) show ?thesis by simp
  qed
  have "sorted_wrt (<) ?acc" using Cons.prems(2) lt by (auto simp: sorted_wrt_append)
  moreover have "\<forall>a \<in> set ?acc. \<forall>y \<in> set xs. a \<le> y" using Cons.prems by auto
  moreover have "set ?acc = insert x (set acc)" by (auto intro: last_in_set)
  ultimately show ?case using Cons.IH [of ?acc] Cons.prems(1) by (simp add: Let_def)
qed simp

lemma normalizedKeys_sorted: "normalizedKeys ks = sorted_list_of_set (set ks)"
proof -
  have "sorted_wrt (<) (normalizedKeys ks) \<and> set (normalizedKeys ks) = set ks"
    using normalizedKeys_fold [of "sort ks" "[]"] by (simp add: normalizedKeys_def Let_def)
  then show ?thesis by (metis sorted_list_of_set.idem_if_sorted_distinct strict_sorted_iff)
qed

section \<open>The order of the targets\<close>

lemma targetsOf_hosts: "at_Hostname ` set (targetsOf seen ds) = bd_AddressHostname ` set ds - seen"
  by (induction seen ds rule: targetsOf.induct) auto

lemma targetsOf_distinct: "distinct (map at_Hostname (targetsOf seen ds))"
proof (induction seen ds rule: targetsOf.induct)
  case (2 seen d ds)
  then show ?case using targetsOf_hosts [of "insert (bd_AddressHostname d) seen" ds] by auto
qed simp

lemma targetsOf_from: "t \<in> set (targetsOf seen ds) \<Longrightarrow>
    \<exists>d \<in> set ds. bd_AddressHostname d = at_Hostname t \<and> bd_Priority d = at_Priority t"
  by (induction seen ds rule: targetsOf.induct) (auto split: if_splits)

lemma targetsOf_first:
  "sorted (map bd_Priority ds) \<Longrightarrow> t \<in> set (targetsOf seen ds) \<Longrightarrow> d \<in> set ds \<Longrightarrow>
     bd_AddressHostname d = at_Hostname t \<Longrightarrow> at_Priority t \<le> bd_Priority d"
proof (induction seen ds rule: targetsOf.induct)
  case (2 seen d' ds)
  have ne: "at_Hostname s \<noteq> h" if "s \<in> set (targetsOf (insert h seen) ds)" for s h
    using targetsOf_hosts [of "insert h seen" ds] that by blast
  have ns: "at_Hostname s \<notin> seen" if "s \<in> set (targetsOf seen ds)" for s
    using targetsOf_hosts [of seen ds] that by blast
  from 2 ne [of t "bd_AddressHostname d'"] ns show ?case by (auto split: if_splits)
qed simp

lemma targetsOf_sorted: "sorted (map bd_Priority ds) \<Longrightarrow> sorted (map at_Priority (targetsOf seen ds))"
proof (induction seen ds rule: targetsOf.induct)
  case (2 seen d ds)
  then show ?case using targetsOf_from [of _ "insert (bd_AddressHostname d) seen" ds] by fastforce
qed simp

text \<open>The host names of the usable bindings, once each, by the best priority offered for each.\<close>

lemma serviceAddressTargets_lemma:
  shows "sorted (map at_Priority (serviceAddressTargets ds))"
    and "distinct (map at_Hostname (serviceAddressTargets ds))"
    and "at_Hostname ` set (serviceAddressTargets ds) = bd_AddressHostname ` {d \<in> set ds. bd_Usable d}"
    and "t \<in> set (serviceAddressTargets ds) \<Longrightarrow>
      at_Priority t = Min (bd_Priority ` {d \<in> set ds. bd_Usable d \<and> bd_AddressHostname d = at_Hostname t})"
proof -
  let ?s = "sort_key bd_Priority (filter bd_Usable ds)"
  have s: "sorted (map bd_Priority ?s)" "set ?s = {d \<in> set ds. bd_Usable d}" by auto
  show "sorted (map at_Priority (serviceAddressTargets ds))"
    unfolding serviceAddressTargets_def by (rule targetsOf_sorted [OF s(1)])
  show "distinct (map at_Hostname (serviceAddressTargets ds))"
    unfolding serviceAddressTargets_def by (rule targetsOf_distinct)
  show "at_Hostname ` set (serviceAddressTargets ds) = bd_AddressHostname ` {d \<in> set ds. bd_Usable d}"
    unfolding serviceAddressTargets_def targetsOf_hosts s(2) by simp
  assume t: "t \<in> set (serviceAddressTargets ds)"
  let ?P = "bd_Priority ` {d \<in> set ds. bd_Usable d \<and> bd_AddressHostname d = at_Hostname t}"
  note t' = t [unfolded serviceAddressTargets_def]
  have "at_Priority t \<in> ?P" using targetsOf_from [OF t'] s(2) by force
  moreover have "\<forall>p \<in> ?P. at_Priority t \<le> p"
    using targetsOf_first [OF s(1) t'] s(2) by force
  ultimately show "at_Priority t = Min ?P" by (intro Min_eqI [symmetric]) auto
qed

section \<open>When a binding is usable\<close>

definition param_values :: "ServiceParameter list \<Rightarrow> (16 word \<rightharpoonup> bytes)" where
  "param_values params = map_of (map (\<lambda>p. (sp_Key p, the (hexDecode (sp_ValueHex p)))) params)"

lemma readParams_spec:
  "\<forall>p \<in> set params. hexDecode (sp_ValueHex p) \<noteq> None \<Longrightarrow> distinct (map sp_Key params) \<Longrightarrow>
   readParams vs bad params =
     (vs ++ param_values params,
      bad @ map sp_Key (filter (\<lambda>p. malformedParam (sp_Key p) (the (hexDecode (sp_ValueHex p)))) params))"
proof (induction params arbitrary: vs bad)
  case (Cons p ps)
  then obtain v where v: "hexDecode (sp_ValueHex p) = Some v" by auto
  have "sp_Key p \<notin> dom (param_values ps)"
    using Cons.prems(2) by (auto simp: param_values_def dom_map_of_conv_image_fst image_image)
  then have m: "vs(sp_Key p \<mapsto> v) ++ param_values ps = vs ++ param_values (p # ps)"
    by (auto simp: param_values_def v map_add_def fun_eq_iff dom_def split: option.splits)
  have ih: "readParams (vs(sp_Key p \<mapsto> v)) bad' ps = (vs ++ param_values (p # ps),
      bad' @ map sp_Key (filter (\<lambda>p. malformedParam (sp_Key p) (the (hexDecode (sp_ValueHex p)))) ps))" for bad'
    using Cons.prems by (subst Cons.IH) (simp_all only: m, simp_all)
  show ?case by (simp add: v ih)
qed (simp add: param_values_def)

text \<open>
  The compatibility rules: every known parameter is well formed, mandatory parameters are
  supported and present, the port is the default one, and without the default protocol the
  list offers HTTP/1.1.
\<close>

definition compatible :: "(16 word \<rightharpoonup> bytes) \<Rightarrow> bool" where
  "compatible values \<longleftrightarrow>
     (\<forall>k v. values k = Some v \<longrightarrow> \<not> malformedParam k v) \<and>
     (\<forall>v. values serviceParamMandatory = Some v \<longrightarrow> (\<forall>ks. mandatoryKeys v = Some ks \<longrightarrow>
        set ks \<subseteq> dom values \<inter> {serviceParamALPN, serviceParamNoDefaultALPN, serviceParamPort})) \<and>
     (\<forall>v. values serviceParamPort = Some v \<longrightarrow> v = encodeKey httpsDefaultPort) \<and>
     (values serviceParamNoDefaultALPN \<noteq> None \<longrightarrow>
        (\<exists>v ids. values serviceParamALPN = Some v \<and> alpnIDs v = Some ids \<and> containsALPN ids ''http/1.1''))"

lemma port_default: "length v = 2 \<Longrightarrow> beUint16 (v ! 0) (v ! 1) = httpsDefaultPort \<longleftrightarrow> v = encodeKey httpsDefaultPort"
proof -
  assume "length v = 2"
  then obtain a b where v: "v = [a, b]" by (cases v; cases "tl v") (auto simp: length_Suc_conv numeral_2_eq_2)
  show ?thesis
    using encodeKey_beUint16 [of a b] beUint16_encodeKey [of httpsDefaultPort a b] by (auto simp: v)
qed

lemma usable_iff_compatible:
  assumes wf: "\<forall>k v. values k = Some v \<longrightarrow> \<not> malformedParam k v"
  shows "malformedTogether values = [] \<and> unsupportedKeys values = [] \<longleftrightarrow> compatible values"
proof -
  have mand: "\<exists>ks. mandatoryKeys v = Some ks" if "values serviceParamMandatory = Some v" for v
    using wf [rule_format, OF that] by (simp add: malformedParam_def)
  have alpn: "\<exists>ids. alpnIDs v = Some ids" if "values serviceParamALPN = Some v" for v
    using wf [rule_format, OF that] by (simp add: malformedParam_def service_params)
  have port: "length v = 2" if "values serviceParamPort = Some v" for v
    using wf [rule_format, OF that] by (simp add: malformedParam_def service_params)
  have m: "(case values serviceParamMandatory of None \<Rightarrow> [] | Some mandatory \<Rightarrow> (case mandatoryKeys mandatory of
        None \<Rightarrow> [] | Some keys \<Rightarrow> filter (\<lambda>key. key = serviceParamMandatory \<or> values key = None) keys)) = [] \<and>
      (case values serviceParamMandatory of None \<Rightarrow> [] | Some mandatory \<Rightarrow> filter (\<lambda>key. \<not> supportedMandatoryKey key)
        (case mandatoryKeys mandatory of None \<Rightarrow> [] | Some keys \<Rightarrow> keys)) = [] \<longleftrightarrow>
      (\<forall>v. values serviceParamMandatory = Some v \<longrightarrow> (\<forall>ks. mandatoryKeys v = Some ks \<longrightarrow>
        set ks \<subseteq> dom values \<inter> {serviceParamALPN, serviceParamNoDefaultALPN, serviceParamPort}))"
    using mand
    by (cases "values serviceParamMandatory")
      (auto simp: filter_empty_conv supportedMandatoryKey_def service_params split: option.splits)
  have p: "(case values serviceParamPort of None \<Rightarrow> [] | Some port \<Rightarrow>
        if beUint16 (port ! 0) (port ! 1) \<noteq> httpsDefaultPort then [serviceParamPort] else []) = [] \<longleftrightarrow>
      (\<forall>v. values serviceParamPort = Some v \<longrightarrow> v = encodeKey httpsDefaultPort)"
    using port port_default by (auto split: option.splits)
  have d: "(if values serviceParamNoDefaultALPN \<noteq> None \<and> values serviceParamALPN = None then [serviceParamNoDefaultALPN]
        else []) = [] \<and>
      (case values serviceParamNoDefaultALPN of None \<Rightarrow> [] | Some noDefault \<Rightarrow>
        (let ids = (case alpnIDs (case values serviceParamALPN of None \<Rightarrow> [] | Some v \<Rightarrow> v) of None \<Rightarrow> [] | Some ids \<Rightarrow> ids) in
         if \<not> containsALPN ids ''http/1.1'' then [serviceParamALPN, serviceParamNoDefaultALPN] else [])) = [] \<longleftrightarrow>
      (values serviceParamNoDefaultALPN \<noteq> None \<longrightarrow>
        (\<exists>v ids. values serviceParamALPN = Some v \<and> alpnIDs v = Some ids \<and> containsALPN ids ''http/1.1''))"
    using alpn
    by (cases "values serviceParamNoDefaultALPN"; cases "values serviceParamALPN") (auto simp: Let_def)
  show ?thesis
    unfolding malformedTogether_def unsupportedKeys_def compatible_def append_is_Nil_conv using wf m p d by blast
qed

lemma evaluateBinding_usable_lemma:
  assumes params: "sb_Params (br_service r) = Some params"
    and wf: "\<forall>p \<in> set params. hexDecode (sp_ValueHex p) \<noteq> None" "distinct (map sp_Key params)"
  shows "bd_Usable (evaluateBinding r) \<longleftrightarrow> compatible (param_values params)"
proof -
  let ?bad = "filter (\<lambda>p. malformedParam (sp_Key p) (the (hexDecode (sp_ValueHex p)))) params"
  have rp: "readParams (\<lambda>_. None) [] params = (param_values params, map sp_Key ?bad)"
    using readParams_spec [OF wf, of Map.empty "[]"] by simp
  have bad: "?bad = [] \<longleftrightarrow> (\<forall>k v. param_values params k = Some v \<longrightarrow> \<not> malformedParam k v)"
  proof -
    have "distinct (map fst (map (\<lambda>p. (sp_Key p, the (hexDecode (sp_ValueHex p)))) params))"
      using wf(2) by (simp add: comp_def)
    then show ?thesis
      by (auto simp: filter_empty_conv param_values_def image_iff)
  qed
  show ?thesis
  proof (cases "?bad = []")
    case True
    with usable_iff_compatible [OF bad [THEN iffD1, OF True]] show ?thesis
      by (auto simp: evaluateBinding_def Let_def params rp)
  next
    case False
    then have "\<not> compatible (param_values params)" unfolding bad compatible_def by blast
    with False show ?thesis by (simp add: evaluateBinding_def Let_def params rp)
  qed
qed

end
