(* ===== verification/PathBounds.thy ===== *)
theory PathBounds
  imports PathChain PathService
begin

text \<open>
  How many requests a path makes: twenty at most, four for HTTPS and two for each of eight
  targets. The report does not depend on what the DNS observer would answer to any other.
\<close>

abbreviation answering :: "PathWorld \<Rightarrow> (nat \<Rightarrow> DnsRequest \<Rightarrow> DnsResult) \<Rightarrow> PathWorld" where
  "answering w f \<equiv> w\<lparr>pw_dns := f\<rparr>"

lemma askDns_local: "f n = pw_dns w n \<Longrightarrow> askDns u L (answering w f) ob n h q b = askDns u L w ob n h q b"
  by (simp add: askDns_def Let_def cong: option.case_cong)

lemma askDns_input: "askDns u L w ob n h q b = (obs, b', step) \<Longrightarrow> rb_input b' = rb_input b"
  by (auto dest: askDns_builder)

lemma observeTypes_local:
  "\<forall>k < n + length qs. f k = pw_dns w k \<Longrightarrow>
     observeTypes u L (answering w f) ob n qs t had b = observeTypes u L w ob n qs t had b"
proof (induction qs arbitrary: n t had b)
  case (Cons q qs)
  obtain obs b1 s where a: "askDns u L w ob n (at_Hostname t) q b = (obs, b1, s)" by (metis prod_cases3)
  have l: "askDns u L (answering w f) ob n (at_Hostname t) q b = (obs, b1, s)"
    using Cons.prems a by (subst askDns_local) auto
  show ?case using Cons.IH [of "n + 1"] Cons.prems by (cases s) (simp_all add: a l Let_def)
qed simp

lemma observeTypes_count:
  "observeTypes u L w ob n qs t had b = (n', t', b', step) \<Longrightarrow> n' \<le> n + length qs \<and> rb_input b' = rb_input b"
proof (induction qs arbitrary: n t had b)
  case (Cons q qs)
  obtain obs b1 s where a: "askDns u L w ob n (at_Hostname t) q b = (obs, b1, s)" by (metis prod_cases3)
  show ?case
    using Cons.IH [of "n + 1"] Cons.prems askDns_input [OF a] by (cases s) (fastforce simp: a Let_def)+
qed simp

lemma observeTargets_local:
  assumes "pin_AddressQueryTypes (rb_input b) = [QueryTypeA, QueryTypeAAAA]" "\<forall>k < n + 2 * length ts. f k = pw_dns w k"
  shows "observeTargets u L (answering w f) ob n ts had b = observeTargets u L w ob n ts had b"
  using assms
proof (induction ts arbitrary: n had b)
  case (Cons t ts)
  let ?qs = "[QueryTypeA, QueryTypeAAAA]"
  obtain n1 t1 b1 s where a: "observeTypes u L w ob n ?qs t had b = (n1, t1, b1, s)" by (metis prod_cases4)
  have k: "\<forall>k < n + length ?qs. f k = pw_dns w k" using Cons.prems(2) by auto
  have l: "observeTypes u L (answering w f) ob n ?qs t had b = (n1, t1, b1, s)"
    using observeTypes_local [OF k] a by metis
  have "n1 \<le> n + 2 \<and> rb_input b1 = rb_input b" using observeTypes_count [OF a] by simp
  with Cons.prems have "observeTargets u L (answering w f) ob n1 ts had' b1 = observeTargets u L w ob n1 ts had' b1" for had'
    by (intro Cons.IH) auto
  then show ?case using Cons.prems(1) by (cases s) (simp_all add: a l del: observeTypes.simps)
qed simp

definition requestLimit :: nat where "requestLimit = 20"

lemma observeAddressTargets_local:
  assumes "policy_ok (rb_input b)" "length (rb_addressTargets b) \<le> 8" "n \<le> 4" "\<forall>k < requestLimit. f k = pw_dns w k"
  shows "observeAddressTargets u L (answering w f) ob n c b = observeAddressTargets u L w ob n c b"
proof -
  have "observeTargets u L (answering w f) ob n (rb_addressTargets b) (False, False) b =
      observeTargets u L w ob n (rb_addressTargets b) (False, False) b"
    using assms by (intro observeTargets_local) (auto simp: policy_ok_def requestLimit_def)
  then show ?thesis by (simp add: observeAddressTargets_def)
qed

lemma observeServices_local:
  assumes "policy_ok (rb_input b)" "n \<le> 4" "\<forall>k < requestLimit. f k = pw_dns w k"
  shows "observeServices u L (answering w f) ob n s b = observeServices u L w ob n s b"
proof -
  have l: "pin_ServiceTargetLimit (rb_input b) = 8" using assms(1) by (simp add: policy_ok_def serviceTargetLimit_def)
  show ?thesis
    unfolding observeServices_def Let_def l
    by (intro if_cong [OF refl refl] observeAddressTargets_local) (use assms in auto)
qed

lemma observeFallback_local:
  assumes "policy_ok (rb_input b)" "n \<le> 4" "\<forall>k < requestLimit. f k = pw_dns w k"
  shows "observeFallback u L (answering w f) ob n h b = observeFallback u L w ob n h b"
  unfolding observeFallback_def Let_def
  by (intro if_cong [OF refl refl] observeAddressTargets_local) (use assms in auto)

lemma httpsLoop_local:
  assumes "int n = rb_aliasesFollowed b" "rb_aliasesFollowed b \<le> aliasLimit_path" "policy_ok (rb_input b)"
    "\<forall>k < requestLimit. f k = pw_dns w k"
  shows "httpsLoop u L (answering w f) ob n seen current b = httpsLoop u L w ob n seen current b"
  using assms
proof (induction "nat (aliasLimit_path - rb_aliasesFollowed b)" arbitrary: n seen current b rule: less_induct)
  case less
  obtain obs b1 step where a: "askDns u L w ob n current QueryTypeHTTPS b = (obs, b1, step)" by (metis prod_cases3)
  have n: "n \<le> 3" using less.prems by (simp add: aliasLimit_path_def)
  then have l: "askDns u L (answering w f) ob n current QueryTypeHTTPS b = (obs, b1, step)"
    using less.prems(4) a by (subst askDns_local) (auto simp: requestLimit_def)
  let ?b = "b1\<lparr>rb_httpsObservations := rb_httpsObservations b1 @ obs\<rparr>"
  obtain i where b1: "b1 = b\<lparr>rb_dnsIdentity := i\<rparr>" using askDns_builder [OF a] by blast
  have pol: "policy_ok (rb_input ?b)" using b1 less.prems(3) by simp
  have ih: "httpsLoop u L (answering w f) ob (n + 1) seen' t (?b\<lparr>rb_aliasesFollowed := rb_aliasesFollowed ?b + 1\<rparr>) =
      httpsLoop u L w ob (n + 1) seen' t (?b\<lparr>rb_aliasesFollowed := rb_aliasesFollowed ?b + 1\<rparr>)"
    if "\<not> aliasLimit_path \<le> rb_aliasesFollowed ?b" for seen' t
    using that less.prems b1 by (intro less.hyps) auto
  have n4: "n + 1 \<le> 4" using n by simp
  note sv = observeServices_local [OF pol n4 less.prems(4), simplified]
  note fb = observeFallback_local [OF pol n4 less.prems(4), simplified]
  show ?case
    unfolding httpsLoop.simps [of u L _ ob n seen current b] a l prod.case Let_def
    by (auto simp: ih [simplified] sv fb split: sum.split option.split prod.split list.split)
qed

lemma Observe_path_local:
  assumes "\<forall>k < requestLimit. f k = pw_dns w k"
  shows "Observe_path u L (answering w f) ob r = Observe_path u L w ob r"
proof -
  obtain i e where n: "normalizeRequest_path u L r = (i, e)" by fastforce
  have "httpsLoop u L (answering w f) ob 0 {pin_Hostname i} (pin_Hostname i) (freshBuilder i) =
      httpsLoop u L w ob 0 {pin_Hostname i} (pin_Hostname i) (freshBuilder i)"
    using normalizeRequest_path_policy [OF n] assms by (intro httpsLoop_local) (auto simp: aliasLimit_path_def)
  then show ?thesis by (simp add: Observe_path_def n finish_path_def Let_def split: option.split prod.split)
qed

end
