(* ===== verification/PathAdapter.thy ===== *)
theory PathAdapter
  imports PathChain
begin

text \<open>
  The contract between a path and its DNS observer. An observer whose answers are valid, match
  the request and come from one configured resolver is never reported as invalid evidence; the
  observer of \<open>internal/dnsobservation\<close> meets the contract as long as no request starts on a
  context that is already done.
\<close>

section \<open>The names a path asks for\<close>

definition host_ok :: "'a unitab_scheme \<Rightarrow> dnslib \<Rightarrow> string \<Rightarrow> bool" where
  "host_ok u L h \<longleftrightarrow> (\<exists>name. normalizeHostname_dns u L h = (h, name, None))"

lemma canonical_host_ok: "isCanonicalDNSName u L v \<Longrightarrow> v \<noteq> ''.'' \<Longrightarrow> host_ok u L v"
  by (auto simp: isCanonicalDNSName_def host_ok_def split: prod.splits)

lemma validated_names:
  assumes "Validate_dns u L x = None" "env_outcome x = OutcomeSucceeded" "env_evidence x = Some ev"
  shows "isCanonicalDNSName u L (dev_EffectiveName ev)" "\<And>r. r \<in> set (dev_Records ev) \<Longrightarrow> validateRecord u L r = None"
  using assms
  by (auto simp: Validate_dns_def validateEvidence_dns_def validateEvidenceClassification_def firstErr_simps Let_def
      split: prod.splits)

lemma relevant_record:
  assumes "r \<in> set (fst (relevantBindings ev)) \<union> set (snd (relevantBindings ev))"
  shows "br_record r \<in> set (dev_Records ev)" "rec_Service (br_record r) = Some (br_service r)"
    "rec_Type (br_record r) = QueryTypeHTTPS" "rec_Name (br_record r) = dev_EffectiveName ev"
proof -
  define f where "f = (\<lambda>(index, record).
      if rec_Type record \<noteq> QueryTypeHTTPS \<or> rec_Name record \<noteq> dev_EffectiveName ev then None
      else map_option (\<lambda>service. \<lparr>br_recordIndex = int index, br_record = record, br_service = service\<rparr>)
        (rec_Service record))"
  have "r \<in> set (List.map_filter f (enumerate 0 (dev_Records ev)))"
    using assms by (auto simp: relevantBindings_def Let_def f_def)
  then obtain i x where "(i, x) \<in> set (enumerate 0 (dev_Records ev))" "f (i, x) = Some r"
    unfolding map_filter_mem by auto
  then have "x \<in> set (dev_Records ev)" "f (i, x) = Some r"
    by (auto simp: in_set_enumerate_eq)
  then show "br_record r \<in> set (dev_Records ev)" "rec_Service (br_record r) = Some (br_service r)"
    "rec_Type (br_record r) = QueryTypeHTTPS" "rec_Name (br_record r) = dev_EffectiveName ev"
    by (auto simp: f_def split: if_splits)
qed

lemma validated_target:
  assumes "Validate_dns u L x = None" "env_outcome x = OutcomeSucceeded" "env_evidence x = Some ev"
    "r \<in> set (fst (relevantBindings ev)) \<union> set (snd (relevantBindings ev))"
  shows "isCanonicalDNSName u L (sb_Target (br_service r))"
  using validated_names(2) [OF assms(1-3) relevant_record(1) [OF assms(4)]] relevant_record(2,3) [OF assms(4)]
  by (simp add: validateRecord_def firstErr_simps validateServiceBinding_def)

text \<open>The host names of the targets are names the adapter accepts, away from the root.\<close>

lemma service_hosts:
  assumes "Validate_dns u L x = None" "env_outcome x = OutcomeSucceeded" "env_evidence x = Some ev"
    "dev_EffectiveName ev \<noteq> ''.''" "snd (relevantBindings ev) = services"
    "t \<in> set (serviceAddressTargets (evaluateBindings services))"
  shows "host_ok u L (at_Hostname t)"
proof -
  have "t \<in> set (targetsOf seen ds) \<Longrightarrow> \<exists>d \<in> set ds. bd_AddressHostname d = at_Hostname t" for seen ds
    by (induction seen ds rule: targetsOf.induct) (auto split: if_splits)
  then obtain r where r: "r \<in> set services" "bd_AddressHostname (evaluateBinding r) = at_Hostname t"
    using assms(6) by (fastforce simp: serviceAddressTargets_def evaluateBindings_def)
  then have m: "r \<in> set (fst (relevantBindings ev)) \<union> set (snd (relevantBindings ev))" using assms(5) by simp
  have "at_Hostname t = (if sb_Target (br_service r) = ''.'' then dev_EffectiveName ev else sb_Target (br_service r))"
    using r(2) relevant_record(4) [OF m] by (auto simp: evaluateBinding_def Let_def split: prod.splits if_splits)
  with validated_target [OF assms(1-3) m] validated_names(1) [OF assms(1-3)] assms(4) show ?thesis
    by (auto intro: canonical_host_ok)
qed

section \<open>The contract\<close>

text \<open>The side of the configuration a path sees.\<close>

record adapterView =
  av_platform :: Platform
  av_endpoint :: string
  av_source :: Source
  av_resolver :: ResolverID
  av_transport :: Transport

definition viewRequest :: "adapterView \<Rightarrow> string \<Rightarrow> QueryType \<Rightarrow> DnsRequest" where
  "viewRequest v h q = \<lparr>dreq_Hostname = h, dreq_QueryType = q, dreq_Resolver = av_resolver v, dreq_Transport = av_transport v\<rparr>"

definition pathQueries :: "QueryType set" where
  "pathQueries = {QueryTypeHTTPS, QueryTypeA, QueryTypeAAAA}"

locale dns_adapter =
  fixes u :: "'a unitab_scheme" and L :: dnslib
    and ask :: "'w \<Rightarrow> DnsRequest \<Rightarrow> DnsResult" and fit :: "'w \<Rightarrow> adapterView \<Rightarrow> bool"
  assumes ask_valid: "\<lbrakk>fit e v; host_ok u L h; q \<in> pathQueries\<rbrakk> \<Longrightarrow> Validate_dns u L (ask e (viewRequest v h q)) = None"
    and ask_matches: "\<lbrakk>fit e v; host_ok u L h; q \<in> pathQueries\<rbrakk> \<Longrightarrow>
      matchesRequest (av_platform v) (ask e (viewRequest v h q)) (viewRequest v h q)"
    and ask_fixed: "\<lbrakk>fit e v; host_ok u L h; q \<in> pathQueries\<rbrakk> \<Longrightarrow>
      endpointOf (ask e (viewRequest v h q)) = av_endpoint v \<and> env_source (ask e (viewRequest v h q)) = av_source v"
begin

text \<open>A world whose DNS observer is the adapter, in some environment for each request.\<close>

definition served :: "PathWorld \<Rightarrow> PathObserver \<Rightarrow> adapterView \<Rightarrow> bool" where
  "served w ob v \<longleftrightarrow> po_platform ob = av_platform v \<and>
     (\<forall>n. \<exists>e. fit e v \<and> (\<forall>h q. pw_dns w n (viewRequest v h q) = ask e (viewRequest v h q))) \<and>
     (\<forall>n h q ev. env_evidence (pw_dns w n (viewRequest v h q)) = Some ev \<longrightarrow> dev_EffectiveName ev \<noteq> ''.'')"

definition trusted :: "adapterView \<Rightarrow> reportBuilder \<Rightarrow> bool" where
  "trusted v b \<longleftrightarrow> pin_Resolver (rb_input b) = av_resolver v \<and> pin_Transport (rb_input b) = av_transport v \<and>
     pin_AddressQueryTypes (rb_input b) = [QueryTypeA, QueryTypeAAAA] \<and>
     (rb_dnsIdentity b = None \<or> rb_dnsIdentity b = Some (av_endpoint v, av_source v))"

lemma askDns_trusted:
  assumes s: "served w ob v" and t: "trusted v b" and h: "host_ok u L h" "q \<in> pathQueries"
    and a: "askDns u L w ob n h q b = (obs, b', step)"
  shows "trusted v b'" "\<And>st. step = Inl st \<Longrightarrow> tm_reason st \<noteq> StopInvalidProbeEvidence"
    "\<And>x. step = Inr x \<Longrightarrow> Validate_dns u L x = None \<and> (\<forall>ev. env_evidence x = Some ev \<longrightarrow> dev_EffectiveName ev \<noteq> ''.'')"
proof -
  let ?r = "viewRequest v h q"
  let ?x = "pw_dns w n ?r"
  have r: "\<lparr>dreq_Hostname = h, dreq_QueryType = q, dreq_Resolver = pin_Resolver (rb_input b),
      dreq_Transport = pin_Transport (rb_input b)\<rparr> = ?r"
    using t by (simp add: viewRequest_def trusted_def)
  obtain e where e: "fit e v" "?x = ask e ?r" using s unfolding served_def by blast
  have x: "Validate_dns u L ?x = None" "matchesRequest (av_platform v) ?x ?r"
    "endpointOf ?x = av_endpoint v" "env_source ?x = av_source v"
    using e(2) ask_valid [OF e(1) h] ask_matches [OF e(1) h] ask_fixed [OF e(1) h] by auto
  have v: "validateObservation_path u L ob ?x ?r b =
      (b\<lparr>rb_dnsIdentity := Some (av_endpoint v, av_source v)\<rparr>, None)"
    using x t s by (auto simp: validateObservation_path_def served_def trusted_def)
  have tc: "tm_reason st \<noteq> StopInvalidProbeEvidence" if "terminalContext p c k = Some st" for p c k st
    using that by (auto simp: terminalContext_def Let_def split: if_splits)
  note def = a [unfolded askDns_def Let_def r v, simplified]
  show "trusted v b'" using def t by (auto simp: trusted_def split: option.splits)
  show "tm_reason st \<noteq> StopInvalidProbeEvidence" if "step = Inl st" for st
    using def that by (auto dest: tc split: option.splits if_splits)
  show "Validate_dns u L x = None \<and> (\<forall>ev. env_evidence x = Some ev \<longrightarrow> dev_EffectiveName ev \<noteq> ''.'')"
    if "step = Inr x" for x
    using def that x(1) s by (auto simp: served_def split: option.splits if_splits)
qed

lemma observeTypes_trusted:
  assumes "served w ob v" "trusted v b" "host_ok u L (at_Hostname t)" "set qs \<subseteq> pathQueries"
    "observeTypes u L w ob n qs t had b = (n', t', b', step)"
  shows "trusted v b' \<and> (\<forall>st. step = Inl st \<longrightarrow> tm_reason st \<noteq> StopInvalidProbeEvidence)"
  using assms(2-)
proof (induction qs arbitrary: n t had b)
  case (Cons q qs)
  obtain obs b1 s where a: "askDns u L w ob n (at_Hostname t) q b = (obs, b1, s)" by (metis prod_cases3)
  have q: "q \<in> pathQueries" using Cons.prems(3) by simp
  note k = askDns_trusted [OF assms(1) Cons.prems(1,2) q a]
  show ?case
  proof (cases s)
    case (Inl st)
    with Cons.prems(4) k show ?thesis by (auto simp: a Let_def)
  next
    case (Inr x)
    from Cons.prems(4) show ?thesis
      by (intro Cons.IH [of b1 "t\<lparr>at_Observations := Some (sliceOf (at_Observations t) @ obs)\<rparr>" "n + 1"
          "if unfinished x then (True, snd had) else (fst had, snd had \<or> (case env_evidence x of
               None \<Rightarrow> False | Some evidence \<Rightarrow> dev_AnswerKind evidence = AnswerKindIncomplete))"])
        (use k(1) Cons.prems(2,3) Inr in \<open>auto simp: a Let_def split del: if_split\<close>)
  qed
qed auto

lemma observeTargets_trusted:
  assumes "served w ob v" "trusted v b" "\<forall>t \<in> set ts. host_ok u L (at_Hostname t)"
    "observeTargets u L w ob n ts had b = (ts', b', step)"
  shows "\<forall>st. step = Inl st \<longrightarrow> tm_reason st \<noteq> StopInvalidProbeEvidence"
  using assms(2-)
proof (induction ts arbitrary: n had b ts' b' step)
  case (Cons t ts)
  let ?qs = "[QueryTypeA, QueryTypeAAAA]"
  obtain n1 t1 b1 s where a: "observeTypes u L w ob n ?qs t had b = (n1, t1, b1, s)" by (metis prod_cases4)
  have qs: "pin_AddressQueryTypes (rb_input b) = ?qs" using Cons.prems(1) by (simp add: trusted_def)
  have k: "trusted v b1 \<and> (\<forall>st. s = Inl st \<longrightarrow> tm_reason st \<noteq> StopInvalidProbeEvidence)"
    by (rule observeTypes_trusted [OF assms(1) Cons.prems(1) _ _ a]) (use Cons.prems(2) in \<open>auto simp: pathQueries_def\<close>)
  show ?case
  proof (cases s)
    case (Inl st)
    with Cons.prems(3) k show ?thesis by (simp add: a qs del: observeTypes.simps)
  next
    case (Inr had1)
    obtain ts1 b2 step1 where r: "observeTargets u L w ob n1 ts had1 b1 = (ts1, b2, step1)" by (metis prod_cases3)
    have "step = step1" using Cons.prems(3) Inr by (simp add: a qs r del: observeTypes.simps)
    with Cons.IH [OF _ _ r] k Cons.prems(2) show ?thesis by simp
  qed
qed auto

lemma observeAddressTargets_trusted:
  assumes "served w ob v" "trusted v b" "\<forall>t \<in> set (rb_addressTargets b). host_ok u L (at_Hostname t)"
    "observeAddressTargets u L w ob n c b = (b', st)"
  shows "tm_reason st \<noteq> StopInvalidProbeEvidence"
proof -
  obtain ts b1 step where a: "observeTargets u L w ob n (rb_addressTargets b) (False, False) b = (ts, b1, step)"
    by (metis prod_cases3)
  from observeTargets_trusted [OF assms(1-3) a] assms(4) show ?thesis
    by (auto simp: observeAddressTargets_def a split: sum.splits if_splits)
qed

lemma observeServices_trusted:
  assumes s: "served w ob v" and t: "trusted v b"
    and h: "\<forall>t \<in> set (serviceAddressTargets (evaluateBindings services)). host_ok u L (at_Hostname t)"
    and run: "observeServices u L w ob n services b = (b', st)"
  shows "tm_reason st \<noteq> StopInvalidProbeEvidence"
proof -
  define b1 where "b1 = b\<lparr>rb_serviceBindings := evaluateBindings services,
    rb_addressTargets := (if pin_ServiceTargetLimit (rb_input b) < int (length (serviceAddressTargets (evaluateBindings services)))
      then take (nat (pin_ServiceTargetLimit (rb_input b))) (serviceAddressTargets (evaluateBindings services))
      else serviceAddressTargets (evaluateBindings services)),
    rb_serviceTargetsOmitted := (if pin_ServiceTargetLimit (rb_input b) < int (length (serviceAddressTargets (evaluateBindings services)))
      then int (length (serviceAddressTargets (evaluateBindings services))) - pin_ServiceTargetLimit (rb_input b)
      else rb_serviceTargetsOmitted b)\<rparr>"
  have e: "observeServices u L w ob n services b = (if rb_addressTargets b1 = [] then (b1, completed CompletionUnsupportedServiceMode)
      else observeAddressTargets u L w ob n CompletionServiceMode b1)"
    unfolding observeServices_def Let_def b1_def ..
  have "trusted v b1" using t by (simp add: trusted_def b1_def)
  moreover have "\<forall>t \<in> set (rb_addressTargets b1). host_ok u L (at_Hostname t)"
    using h by (auto simp: b1_def dest: in_set_takeD)
  ultimately show ?thesis
    using run observeAddressTargets_trusted [OF s] unfolding e by (auto split: if_splits)
qed

lemma observeFallback_trusted:
  assumes s: "served w ob v" and t: "trusted v b" and h: "host_ok u L name"
    and run: "observeFallback u L w ob n name b = (b', st)"
  shows "tm_reason st \<noteq> StopInvalidProbeEvidence"
proof (cases "name = ''.''")
  case True
  with run show ?thesis by (auto simp: observeFallback_def)
next
  case False
  let ?b = "b\<lparr>rb_addressTargets := [\<lparr>at_Hostname = name,
      at_Source = (if 0 < rb_aliasesFollowed b then TargetAliasFallback else TargetOriginFallback), at_Priority = 0,
      at_Observations = Some []\<rparr>]\<rparr>"
  have "trusted v ?b" using t by (simp add: trusted_def)
  moreover have "\<forall>t \<in> set (rb_addressTargets ?b). host_ok u L (at_Hostname t)" using h by simp
  ultimately show ?thesis
    using run False unfolding observeFallback_def Let_def by (simp only: if_False) (erule observeAddressTargets_trusted [OF s])
qed

lemma httpsLoop_trusted:
  assumes s: "served w ob v" and "trusted v b" "host_ok u L current" "httpsLoop u L w ob n seen current b = (b', st)"
  shows "tm_reason st \<noteq> StopInvalidProbeEvidence"
  using assms(2-)
proof (induction "nat (aliasLimit_path - rb_aliasesFollowed b)" arbitrary: n seen current b rule: less_induct)
  case less
  obtain obs b1 step where a: "askDns u L w ob n current QueryTypeHTTPS b = (obs, b1, step)" by (metis prod_cases3)
  have q: "QueryTypeHTTPS \<in> pathQueries" by (simp add: pathQueries_def)
  note k = askDns_trusted [OF s less.prems(1,2) q a]
  note run = less.prems(3) [unfolded httpsLoop.simps [of u L w ob n seen current b] a prod.case Let_def]
  let ?b = "b1\<lparr>rb_httpsObservations := rb_httpsObservations b1 @ obs\<rparr>"
  show ?case
  proof (cases step)
    case (Inl st')
    with run k(2) show ?thesis by auto
  next
    case (Inr x)
    then have x: "Validate_dns u L x = None" "\<And>ev. env_evidence x = Some ev \<Longrightarrow> dev_EffectiveName ev \<noteq> ''.''"
      using k(3) by auto
    show ?thesis
    proof (cases "env_outcome x = OutcomeSucceeded")
      case False
      with run Inr show ?thesis by auto
    next
      case True
      then obtain ev where ev: "env_evidence x = Some ev"
        using x(1) by (auto simp: Validate_dns_def firstErr_simps elim!: valid_envelope_cases)
      note vn = validated_names [OF x(1) True ev] and vt = validated_target [OF x(1) True ev]
      obtain aliases services where rb: "relevantBindings ev = (aliases, services)" by fastforce
      note run' = run [unfolded Inr sum.case ev option.case rb]
      show ?thesis
      proof (cases aliases)
        case (Cons first others)
        let ?t = "sb_Target (br_service first)"
        have "isCanonicalDNSName u L ?t" using vt [of first] rb Cons by simp
        moreover obtain i where "b1 = b\<lparr>rb_dnsIdentity := i\<rparr>" using askDns_builder [OF a] by blast
        ultimately show ?thesis
          using run' True k(1) less.hyps [of "?b\<lparr>rb_aliasesFollowed := rb_aliasesFollowed ?b + 1\<rparr>" ?t "n + 1"]
          by (auto simp: Cons trusted_def canonical_host_ok split: if_splits)
      next
        case Nil
        have t: "trusted v ?b" using k(1) by (simp add: trusted_def)
        show ?thesis
        proof (cases services)
          case (Cons sv ss)
          have h: "\<forall>t \<in> set (serviceAddressTargets (evaluateBindings services)). host_ok u L (at_Hostname t)"
            using service_hosts [OF x(1) True ev x(2) [OF ev]] rb by simp
          show ?thesis
            using run' True Nil Cons observeServices_trusted [OF s t h] by (auto split: if_splits)
        next
          case nos: Nil
          show ?thesis
            using run' True Nil nos observeFallback_trusted [OF s t canonical_host_ok [OF vn(1) x(2) [OF ev]]]
            by (auto split: if_splits)
        qed
      qed
    qed
  qed
qed

lemma never_invalid_evidence:
  assumes s: "served w ob v"
    and r: "preq_Transport r = av_transport v" "TrimSpace (preq_Resolver r) = av_resolver v"
    and u: "unitab_ok u" "labels_checked L"
  shows "pth_StopReason (Observe_path u L w ob r) \<noteq> StopInvalidProbeEvidence"
proof -
  obtain i e where n: "normalizeRequest_path u L r = (i, e)" by fastforce
  show ?thesis
  proof (cases "e = None \<and> terminalContext (pw_ctx w) (pw_ctx w) 0 = None")
    case True
    obtain b st where l: "httpsLoop u L w ob 0 {pin_Hostname i} (pin_Hostname i) (freshBuilder i) = (b, st)" by fastforce
    obtain name where "normalizeHostname_dns u L (preq_Hostname r) = (pin_Hostname i, name, None)"
      using n True by (auto simp: normalizeRequest_path_def NormalizeHostname_def Let_def firstErr_simps split: prod.splits)
    from normalizeHostname_dns_fixed [OF u this] have h: "host_ok u L (pin_Hostname i)" by (auto simp: host_ok_def)
    have "trusted v (freshBuilder i)"
      using n r by (auto simp: normalizeRequest_path_def trusted_def Let_def split: prod.splits)
    from httpsLoop_trusted [OF s this h l] True n l show ?thesis by (simp add: Observe_path_def)
  next
    case False
    have tc: "tm_reason st \<noteq> StopInvalidProbeEvidence" if "terminalContext p c k = Some st" for p c k st
      using that by (auto simp: terminalContext_def Let_def split: if_splits)
    with False n show ?thesis by (auto simp: Observe_path_def Let_def split: option.split)
  qed
qed

end

section \<open>The observer of \<open>internal/dnsobservation\<close>\<close>

text \<open>Every end of an observation reports the platform and the source of the observer.\<close>

lemma failureResult_dns_identity:
  "env_input (failureResult_dns w ob s i oc c e) = i" "env_source (failureResult_dns w ob s i oc c e) = dob_source ob"
  "env_platform (failureResult_dns w ob s i oc c e) = \<lparr>plat_os = dw_os w, plat_arch = dw_arch w\<rparr>"
  by (simp_all add: failureResult_dns_def baseResult_dns_def Let_def)

lemma finishExchange_identity:
  "env_input (finishExchange u L w ob a i x e) = i \<and> env_source (finishExchange u L w ob a i x e) = dob_source ob \<and>
   env_platform (finishExchange u L w ob a i x e) = \<lparr>plat_os = dw_os w, plat_arch = dw_arch w\<rparr>"
  by (auto simp: finishExchange_def Let_def failureResult_dns_def baseResult_dns_def split: option.splits sum.splits)

text \<open>
  The observer of the program behind the adapter: built by \<open>newObserver\<close>, asked on a context that is
  not done, for a configured resolver that serves the transport.
\<close>

definition production_env :: "'a unitab_scheme \<Rightarrow> dnslib \<Rightarrow> DnsWorld \<times> DnsObserver \<Rightarrow> adapterView \<Rightarrow> bool" where
  "production_env u L e v \<longleftrightarrow> (case e of (w, ob) \<Rightarrow>
     unitab_ok u \<and> labels_checked L \<and> dns_env_ok w \<and> dialer_ok w \<and> endpoints_plain ob \<and>
     (\<exists>cfg port. newObserver_dns cfg port = Inr ob \<and> port \<le> 65535) \<and>
     classifyContextFailure (dw_ctx w) (dw_ctx w) 0 = None \<and>
     av_platform v = \<lparr>plat_os = dw_os w, plat_arch = dw_arch w\<rparr> \<and> av_source v = dob_source ob \<and>
     TrimSpace (av_resolver v) = av_resolver v \<and> av_resolver v \<noteq> '''' \<and> Transport_valid (av_transport v) \<and>
     (\<exists>ep. dob_endpoints ob (av_resolver v) = Some ep \<and> validateTransportEndpoint (av_transport v) ep = None \<and>
        av_endpoint v = ri_Endpoint (input_dns ep (av_transport v) (dob_wirePort ob))))"

definition production_fit :: "'a unitab_scheme \<Rightarrow> dnslib \<Rightarrow> DnsWorld \<times> DnsObserver \<Rightarrow> adapterView \<Rightarrow> bool" where
  "production_fit u L e v \<longleftrightarrow> production_env u L e v \<and>
     (\<forall>h q. noRefusal u L (Observe_dns u L (fst e) (snd e) (viewRequest v h q)))"

lemma production_identity:
  assumes f: "production_env u L (w, ob) v" and h: "host_ok u L h" and q: "q \<in> pathQueries"
  shows "env_input (Observe_dns u L w ob (viewRequest v h q)) = \<lparr>din_Hostname = h, din_QueryType = q, din_Class = dnsClassIN,
      din_Resolver = \<lparr>ri_ID = av_resolver v, ri_Endpoint = av_endpoint v\<rparr>, din_Transport = av_transport v\<rparr>"
    "env_source (Observe_dns u L w ob (viewRequest v h q)) = av_source v"
    "env_platform (Observe_dns u L w ob (viewRequest v h q)) = av_platform v"
proof -
  obtain name where name: "normalizeHostname_dns u L h = (h, name, None)" using h by (auto simp: host_ok_def)
  obtain qt where qt: "wireQueryType q = Inr qt" using q by (auto simp: pathQueries_def)
  obtain cfg port ep where ep: "newObserver_dns cfg port = Inr ob" "dob_endpoints ob (av_resolver v) = Some ep"
    "validateTransportEndpoint (av_transport v) ep = None"
    "av_endpoint v = ri_Endpoint (input_dns ep (av_transport v) (dob_wirePort ob))"
    using f by (auto simp: production_env_def)
  have n: "normalizeRequest_dns u L (viewRequest v h q) = (\<lparr>din_Hostname = h, din_QueryType = q, din_Class = dnsClassIN,
      din_Resolver = \<lparr>ri_ID = av_resolver v, ri_Endpoint = ''''\<rparr>, din_Transport = av_transport v\<rparr>, name, qt, None)"
    using f by (simp add: normalizeRequest_dns_def viewRequest_def name qt production_env_def del: Transport_valid.simps)
  define i where "i = \<lparr>din_Hostname = h, din_QueryType = q, din_Class = dnsClassIN,
    din_Resolver = \<lparr>ri_ID = av_resolver v, ri_Endpoint = av_endpoint v\<rparr>, din_Transport = av_transport v\<rparr>"
  have inp: "input_dns ep (av_transport v) (dob_wirePort ob) = \<lparr>ri_ID = av_resolver v, ri_Endpoint = av_endpoint v\<rparr>"
    using newObserver_dns_ok(1) [OF ep(1) ep(2)] ep(4) by (simp add: input_dns_def)
  have live: "classifyContextFailure (dw_ctx w) (dw_ctx w) 0 = None"
    "av_platform v = \<lparr>plat_os = dw_os w, plat_arch = dw_arch w\<rparr>" "av_source v = dob_source ob"
    using f by (simp_all add: production_env_def)
  let ?a = "withTimeout (dw_ctx w) (dw_fired w (dob_timeout ob))"
  have run: "Observe_dns u L w ob (viewRequest v h q) = (case messageID w (av_transport v) of
      Inl e \<Rightarrow> failureResult_dns w ob (dw_now w 0) i OutcomeFailed FailureDNSProtocol
        (Some (e\<lparr>err_text := ''generate DNS message id: '' @ err_text e\<rparr>))
    | Inr ident \<Rightarrow> (case buildQuery L ident name qt of
        Inl e \<Rightarrow> failureResult_dns w ob (dw_now w 0) i OutcomeFailed FailureDNSProtocol (Some (plainErr e))
      | Inr query \<Rightarrow> finishExchange u L w ob ?a i \<lparr>ex_id = ident, ex_name = name, ex_qtype = qt\<rparr>
          (exchange_dns u w ob ?a ep (av_transport v) query)))"
    by (simp add: Observe_dns_def n live(1) ep(2,3) inp i_def Let_def cong: sum.case_cong)
  have "env_input (Observe_dns u L w ob (viewRequest v h q)) = i \<and>
      env_source (Observe_dns u L w ob (viewRequest v h q)) = dob_source ob \<and>
      env_platform (Observe_dns u L w ob (viewRequest v h q)) = \<lparr>plat_os = dw_os w, plat_arch = dw_arch w\<rparr>"
    unfolding run by (simp add: finishExchange_identity failureResult_dns_identity split: sum.split)
  with live show "env_input (Observe_dns u L w ob (viewRequest v h q)) = \<lparr>din_Hostname = h, din_QueryType = q,
      din_Class = dnsClassIN, din_Resolver = \<lparr>ri_ID = av_resolver v, ri_Endpoint = av_endpoint v\<rparr>,
      din_Transport = av_transport v\<rparr>"
    "env_source (Observe_dns u L w ob (viewRequest v h q)) = av_source v"
    "env_platform (Observe_dns u L w ob (viewRequest v h q)) = av_platform v"
    by (simp_all add: i_def)
qed

interpretation production: dns_adapter u L "\<lambda>(w, ob). Observe_dns u L w ob" "production_fit u L" for u L
proof unfold_locales
  fix e v h q
  assume f: "production_fit u L e v" and h: "host_ok u L h" and q: "q \<in> pathQueries"
  obtain w ob where e: "e = (w, ob)" by fastforce
  have env: "production_env u L (w, ob) v" "noRefusal u L (Observe_dns u L w ob (viewRequest v h q))"
    using f by (simp_all add: production_fit_def e)
  note i = production_identity [OF env(1) h q]
  have "rejects_stable u L (dreq_Hostname (viewRequest v h q))"
    using h by (auto simp: rejects_stable_def host_ok_def viewRequest_def)
  with env Observe_dns_exact [where w = w and ob = ob and u = u and L = L and r = "viewRequest v h q"]
  show "Validate_dns u L ((case e of (w, ob) \<Rightarrow> Observe_dns u L w ob) (viewRequest v h q)) = None"
    by (auto simp: production_env_def e)
  show "matchesRequest (av_platform v) ((case e of (w, ob) \<Rightarrow> Observe_dns u L w ob) (viewRequest v h q)) (viewRequest v h q)"
    using i by (simp add: e matchesRequest_def viewRequest_def)
  show "endpointOf ((case e of (w, ob) \<Rightarrow> Observe_dns u L w ob) (viewRequest v h q)) = av_endpoint v \<and>
      env_source ((case e of (w, ob) \<Rightarrow> Observe_dns u L w ob) (viewRequest v h q)) = av_source v"
    using i by (simp add: e)
qed

section \<open>A request that starts too late\<close>

text \<open>The observer refuses a request on a context that is done before it looks its resolver up.\<close>

lemma late_request_endpoint:
  "classifyContextFailure (dw_ctx w) (dw_ctx w) 0 \<noteq> None \<Longrightarrow> endpointOf (Observe_dns u L w ob r) = ''''"
  by (auto simp: Observe_dns_def normalizeRequest_dns_def Let_def split: prod.splits option.splits sum.splits)

lemma late_request_misreported:
  assumes "pw_dns w n = Observe_dns u L dw dob" "classifyContextFailure (dw_ctx dw) (dw_ctx dw) 0 \<noteq> None"
    and "terminalContext (pw_ctx w) (withTimeout (pw_ctx w) (pw_fired w (po_timeout ob))) (2 * n + 1) = None"
    and "rb_dnsIdentity b = Some (ep, src)" "ep \<noteq> ''''"
  shows "\<exists>e. askDns u L w ob n h q b = ([], b, Inl (stopped StopInvalidProbeEvidence e))"
proof -
  let ?x = "Observe_dns u L dw dob \<lparr>dreq_Hostname = h, dreq_QueryType = q, dreq_Resolver = pin_Resolver (rb_input b),
    dreq_Transport = pin_Transport (rb_input b)\<rparr>"
  have "endpointOf ?x \<noteq> ep" using late_request_endpoint [OF assms(2)] assms(5) by metis
  then have "\<exists>e. validateObservation_path u L ob ?x \<lparr>dreq_Hostname = h, dreq_QueryType = q,
      dreq_Resolver = pin_Resolver (rb_input b), dreq_Transport = pin_Transport (rb_input b)\<rparr> b = (b, Some e)"
    using assms(4) by (auto simp: validateObservation_path_def split: option.split)
  then obtain e where "validateObservation_path u L ob ?x \<lparr>dreq_Hostname = h, dreq_QueryType = q,
      dreq_Resolver = pin_Resolver (rb_input b), dreq_Transport = pin_Transport (rb_input b)\<rparr> b = (b, Some e)" ..
  then show ?thesis using assms(1,3) by (simp add: askDns_def Let_def)
qed

end
