(* ===== verification/PathClaims.thy ===== *)
theory PathClaims
  imports PathBounds PathAdapter DnsClaims
begin

text \<open>
  The properties of the HTTPS discovery path, and one run of it: an HTTPS record that points to
  another host name, whose two addresses are then asked for.
\<close>

section \<open>A run\<close>

definition demoPathHost :: "string \<Rightarrow> bool" where "demoPathHost h \<longleftrightarrow> h = ''example.com'' \<or> h = ''edge.example.net''"
definition demoHttpsRecord :: Record where
  "demoHttpsRecord = \<lparr>rec_Name = ''example.com'', rec_Type = QueryTypeHTTPS, rec_TTL = 60, rec_Address = '''',
     rec_Family = IPFamilyNone, rec_Target = '''', rec_Service = Some \<lparr>sb_Priority = 1, sb_Target = ''edge.example.net'',
       sb_Mode = ServiceBindingService, sb_Params = Some [\<lparr>sp_Key = 3, sp_Name = ''port'', sp_ValueHex = ''01bb''\<rparr>]\<rparr>\<rparr>"

definition demoPathEvidence :: "string \<Rightarrow> Record list \<Rightarrow> DnsEvidence" where
  "demoPathEvidence h records = \<lparr>dev_RCode = \<lparr>rc_Code = 0, rc_Name = ''NOERROR''\<rparr>,
     dev_Flags = \<lparr>rf_Authoritative = False, rf_Truncated = False, rf_RecursionDesired = True, rf_RecursionAvailable = True,
       rf_AuthenticatedData = False, rf_CheckingDisabled = False\<rparr>,
     dev_AnswerKind = (if records = [] then AnswerKindNoData else AnswerKindAnswer), dev_EffectiveName = h,
     dev_Records = records, dev_NegativeSOA = None, dev_AuthorityNS = [], dev_ResponseBytes = 64,
     dev_RemoteEndpoint = ''9.9.9.9:53'', dev_DoHStatus = 0\<rparr>"

definition demoPathPlatform :: Platform where "demoPathPlatform = \<lparr>plat_os = ''linux'', plat_arch = ''amd64''\<rparr>"

definition demoPathDns :: "nat \<Rightarrow> DnsRequest \<Rightarrow> DnsResult" where
  "demoPathDns n r = \<lparr>env_schema = 1, env_probe = ProbeKind_dns, env_observedAt = UTC (steadyClock 1000000 n), env_durationMS = 1,
     env_platform = demoPathPlatform,
     env_source = \<lparr>src_backend = ''demo'', src_capability = CapabilityNative, src_reason = ''''\<rparr>,
     env_input = \<lparr>din_Hostname = dreq_Hostname r, din_QueryType = dreq_QueryType r, din_Class = ''IN'',
       din_Resolver = \<lparr>ri_ID = dreq_Resolver r, ri_Endpoint = ''9.9.9.9:53''\<rparr>, din_Transport = dreq_Transport r\<rparr>,
     env_outcome = OutcomeSucceeded,
     env_evidence = Some (demoPathEvidence (dreq_Hostname r) (if dreq_QueryType r = QueryTypeHTTPS then [demoHttpsRecord] else [])),
     env_failure = None\<rparr>"

lemma demo_endpoint_parse: "parseCanonicalAddrPort ''9.9.9.9:53'' = Inr (Addr4 9 9 9 9, 53)"
proof -
  have "parseCanonicalAddrPort (AddrPortString (Addr4 9 9 9 9, 53)) = Inr (Addr4 9 9 9 9, 53)"
    by (rule parseCanonicalAddrPort_ok) (simp_all add: isUnsupportedResolverAddress_def IsUnspecified_def
        IPv4Unspecified_def IPv6Unspecified_def IsMulticast_def ipv4LimitedBroadcast_def AddrFrom4_def)
  then show ?thesis by (simp add: demo_endpoint_text)
qed

lemma demo_canonical: "demoPathHost h \<Longrightarrow> isCanonicalDNSName demoTab (demoLib t) h"
  by (auto simp: demoPathHost_def isCanonicalDNSName_def demo_names)

lemma demo_path_dns_valid:
  assumes "demoPathHost h" "q = QueryTypeHTTPS \<and> h = ''example.com'' \<or> q = QueryTypeA \<or> q = QueryTypeAAAA" "dreq_Hostname r = h"
    "dreq_QueryType r = q" "dreq_Resolver r = ''r''" "dreq_Transport r = TransportUDP"
  shows "Validate_dns demoTab (demoLib t) (demoPathDns n r) = None"
proof -
  let ?i = "env_input (demoPathDns n r)"
  let ?rs = "if q = QueryTypeHTTPS then [demoHttpsRecord] else []"
  have ts: "TrimSpace ''r'' = ''r''" by (rule TrimSpace_graphic) (simp add: isGraph_def)
  have norm: "\<exists>name. normalizeHostname_dns demoTab (demoLib t) h = (h, name, None)"
    using assms(1) demo_names by (auto simp: demoPathHost_def)
  have inp: "validateInputContract demoTab (demoLib t) ?i OutcomeSucceeded None = None"
    using norm assms by (auto simp: validateInputContract_def demoPathDns_def firstErr_simps ts dnsClassIN_def
        validateResolverEndpoint_def demo_endpoint_parse Let_def)
  have rem: "validateRemoteEndpoint ?i ''9.9.9.9:53'' = None"
    using assms by (simp add: validateRemoteEndpoint_def demo_endpoint_parse validateResolverEndpoint_def demoPathDns_def
        firstErr_simps)
  have par: "validateServiceParams [\<lparr>sp_Key = 3, sp_Name = ''port'', sp_ValueHex = ''01bb''\<rparr>] = None"
    by code_simp
  have rec: "validateRecord demoTab (demoLib t) demoHttpsRecord = None"
    by (simp add: validateRecord_def demoHttpsRecord_def firstErr_simps validateServiceBinding_def demo_canonical demoPathHost_def par)
  have chain: "followCNAMEs h ?rs = (h, True)"
    by (simp add: followCNAMEs_def demoHttpsRecord_def) (simp add: cnameTargets.simps)?
  have i: "din_Hostname ?i = h" "din_QueryType ?i = q" "din_Transport ?i = TransportUDP"
    using assms by (simp_all add: demoPathDns_def)
  have cls: "validateEvidenceClassification demoTab (demoLib t) ?i (demoPathEvidence h ?rs) = None"
    using assms(1,2) demo_canonical [OF assms(1), of t]
    by (auto simp: validateEvidenceClassification_def i chain demoPathEvidence_def firstErr_simps validateAnswerKind_def
        RCodeSuccess_def demoHttpsRecord_def demoPathHost_def)
  have "validateEvidence_dns demoTab (demoLib t) ?i (demoPathEvidence h ?rs) = None"
    using rem rec cls
    by (simp add: validateEvidence_dns_def demoPathEvidence_def firstErr_simps i responseCodeName_def
        maxDNSMessageBytes_def maxResponseRecords_def)
  moreover have "Validate_envelope (demoPathDns n r) = None"
    using clock_nonzero [OF steadyClock_ok, of 1000000]
    by (simp add: Validate_envelope_None Validate_outcome_None demoPathDns_def SchemaVersion_def demoPathPlatform_def)
  moreover have "env_probe (demoPathDns n r) = ProbeKind_dns" "env_failure (demoPathDns n r) = None"
    "env_outcome (demoPathDns n r) = OutcomeSucceeded" "env_evidence (demoPathDns n r) = Some (demoPathEvidence h ?rs)"
    using assms by (simp_all add: demoPathDns_def)
  ultimately show ?thesis using inp by (simp add: Validate_dns_def firstErr_simps)
qed

definition demoPathWorld :: PathWorld where
  "demoPathWorld = \<lparr>pw_now = steadyClock 1000000, pw_ctx = background, pw_fired = (\<lambda>d n. False), pw_dns = demoPathDns\<rparr>"

definition demoPathObserver :: PathObserver where
  "demoPathObserver = \<lparr>po_timeout = 30 * Second, po_platform = demoPathPlatform\<rparr>"

definition demoPathRequest :: PathRequest where
  "demoPathRequest = \<lparr>preq_Hostname = ''example.com'', preq_Resolver = ''r'', preq_Transport = TransportUDP\<rparr>"

definition demoPathInput :: PathInput where
  "demoPathInput = \<lparr>pin_Hostname = ''example.com'', pin_Resolver = ''r'', pin_Transport = TransportUDP,
     pin_QueryType = QueryTypeHTTPS, pin_AliasLimit = 3, pin_ServiceTargetLimit = 8,
     pin_AddressQueryTypes = [QueryTypeA, QueryTypeAAAA]\<rparr>"

lemma demo_path_env: "path_env_ok demoPathWorld demoPathObserver"
  by (simp add: path_env_ok_def demoPathWorld_def demoPathObserver_def demoPathPlatform_def steadyClock_ok)

lemma demo_path_input: "normalizeRequest_path demoTab (demoLib t) demoPathRequest = (demoPathInput, None)"
proof -
  have "TrimSpace ''r'' = ''r''" by (rule TrimSpace_graphic) (simp add: isGraph_def)
  then show ?thesis
    by (simp add: normalizeRequest_path_def NormalizeHostname_def demoPathRequest_def demoPathInput_def demo_names
        aliasLimit_path_def serviceTargetLimit_def firstErr_simps)
qed

lemma demo_path_live: "terminalContext background background n = None"
  "terminalContext background (withTimeout background (\<lambda>n. False)) n = None"
proof -
  have background_live: "background k = None" for k by (simp add: background_def)
  have live: "withTimeout background (\<lambda>n. False) k = None" for k
    by (induction k) (simp_all add: background_def)
  show "terminalContext background background n = None"
    "terminalContext background (withTimeout background (\<lambda>n. False)) n = None"
    by (simp_all add: terminalContext_def Let_def live background_live del: withTimeout.simps)
qed

definition demoPathIdentity :: "string \<times> Source" where
  "demoPathIdentity = (''9.9.9.9:53'', \<lparr>src_backend = ''demo'', src_capability = CapabilityNative, src_reason = ''''\<rparr>)"

lemma demo_ask:
  fixes n :: nat
  assumes "demoPathHost h" "q = QueryTypeHTTPS \<and> h = ''example.com'' \<or> q = QueryTypeA \<or> q = QueryTypeAAAA"
    "rb_input b = demoPathInput" "rb_dnsIdentity b = None \<or> rb_dnsIdentity b = Some demoPathIdentity"
  defines "x \<equiv> demoPathDns n \<lparr>dreq_Hostname = h, dreq_QueryType = q, dreq_Resolver = ''r'', dreq_Transport = TransportUDP\<rparr>"
  shows "askDns demoTab (demoLib t) demoPathWorld demoPathObserver n h q b =
    ([x], b\<lparr>rb_dnsIdentity := Some demoPathIdentity\<rparr>, Inr x)"
proof -
  let ?r = "\<lparr>dreq_Hostname = h, dreq_QueryType = q, dreq_Resolver = ''r'', dreq_Transport = TransportUDP\<rparr>"
  have "Validate_dns demoTab (demoLib t) x = None"
    unfolding x_def by (rule demo_path_dns_valid [OF assms(1,2)]) simp_all
  moreover have "matchesRequest demoPathPlatform x ?r" "endpointOf x = fst demoPathIdentity" "env_source x = snd demoPathIdentity"
    "env_outcome x = OutcomeSucceeded"
    by (simp_all add: x_def matchesRequest_def demoPathDns_def demoPathIdentity_def)
  moreover have "r\<lparr>rb_dnsIdentity := Some demoPathIdentity\<rparr> = r" if "rb_dnsIdentity r = Some demoPathIdentity" for r :: reportBuilder
    using that by (cases r) simp
  ultimately have "validateObservation_path demoTab (demoLib t) demoPathObserver x ?r b =
      (b\<lparr>rb_dnsIdentity := Some demoPathIdentity\<rparr>, None)" "env_outcome x = OutcomeSucceeded"
    using assms(4) by (auto simp: validateObservation_path_def demoPathObserver_def)
  then show ?thesis
    using assms(3) by (simp add: askDns_def demoPathWorld_def demo_path_live demoPathInput_def Let_def x_def)
qed

definition demoReference :: bindingReference where
  "demoReference = \<lparr>br_recordIndex = 0, br_record = demoHttpsRecord, br_service = the (rec_Service demoHttpsRecord)\<rparr>"

lemma demo_port_value: "hexDecode ''01bb'' = Some [1, 187]"
  by code_simp

lemma demo_binding: "evaluateBindings [demoReference] =
   [\<lparr>bd_RecordIndex = 0, bd_Priority = 1, bd_AddressHostname = ''edge.example.net'', bd_Usable = True, bd_Reason = BindingUsable,
     bd_UnsupportedParameterKeys = None\<rparr>]"
  by code_simp

lemma demo_relevant: "relevantBindings (demoPathEvidence ''example.com'' [demoHttpsRecord]) = ([], [demoReference])"
  by (simp add: relevantBindings_def demoPathEvidence_def demoHttpsRecord_def List.map_filter_def demoReference_def)

lemma demo_path_run:
  "pth_Status (Observe_path demoTab (demoLib t) demoPathWorld demoPathObserver demoPathRequest) = StatusCompleted \<and>
   pth_Completion (Observe_path demoTab (demoLib t) demoPathWorld demoPathObserver demoPathRequest) = CompletionServiceMode"
proof -
  have h: "demoPathHost ''example.com''" "demoPathHost ''edge.example.net''" by (simp_all add: demoPathHost_def)
  have sel: "env_outcome (demoPathDns n r) = OutcomeSucceeded"
    "env_evidence (demoPathDns n \<lparr>dreq_Hostname = a, dreq_QueryType = q, dreq_Resolver = b, dreq_Transport = c\<rparr>) =
      Some (demoPathEvidence a (if q = QueryTypeHTTPS then [demoHttpsRecord] else []))" for n r a q b c
    by (simp_all add: demoPathDns_def)
  have k: "dev_AnswerKind (demoPathEvidence a rs) \<noteq> AnswerKindIncomplete" for a rs by (simp add: demoPathEvidence_def)
  have lim: "pin_ServiceTargetLimit demoPathInput = 8" "pin_AddressQueryTypes demoPathInput = [QueryTypeA, QueryTypeAAAA]"
    "pin_Hostname demoPathInput = ''example.com''"
    by (simp_all add: demoPathInput_def)
  have svc: "observeServices demoTab (demoLib t) demoPathWorld demoPathObserver n [demoReference] b = (b', st) \<Longrightarrow>
      rb_input b = demoPathInput \<Longrightarrow> rb_dnsIdentity b = Some demoPathIdentity \<Longrightarrow> st = completed CompletionServiceMode" for n b b' st
    unfolding observeServices_def demo_binding
    by (simp add: serviceAddressTargets_def Let_def lim observeAddressTargets_def demo_ask [OF h(2)] sel k)
  obtain b st where r: "httpsLoop demoTab (demoLib t) demoPathWorld demoPathObserver 0 {''example.com''} ''example.com''
      (freshBuilder demoPathInput) = (b, st)" by fastforce
  then have "st = completed CompletionServiceMode"
    using svc by (auto simp: httpsLoop.simps demo_ask [OF h(1)] sel k demo_relevant Let_def)
  moreover have "terminalContext (pw_ctx demoPathWorld) (pw_ctx demoPathWorld) 0 = None"
    by (simp add: demoPathWorld_def demo_path_live)
  ultimately show ?thesis using r by (simp add: Observe_path_def demo_path_input lim)
qed

lemma demo_stable_path: "rejects_stable demoTab (demoLib t) (preq_Hostname demoPathRequest)"
  by (simp add: rejects_stable_def demoPathRequest_def demo_names)

text \<open>
  The observer of \<open>internal/dnsobservation\<close> behind the path: a query for the HTTPS record is answered over UDP
  with an alias.
\<close>

definition httpsLib :: "dnsName \<Rightarrow> dnslib" where
  "httpsLib target = (demoLib target)\<lparr>dl_Start := (\<lambda>raw. Inr (demoHeader, (demoSections target)\<lparr>
     sec_Questions := ([\<lparr>qu_Name = ''example.com.'', qu_Type = TypeHTTPS, qu_Class = ClassINET\<rparr>], None)\<rparr>))\<rparr>"

lemma httpsLib_names: "normalizeHostname_dns u (httpsLib t) v = normalizeHostname_dns u (demoLib t) v"
  by (simp add: normalizeHostname_dns_def httpsLib_def Let_def split: option.split sum.split)

lemma httpsLib_labels: "labels_checked (httpsLib t)"
  using demoLib_labels [of t] by (simp add: labels_checked_def httpsLib_def)

lemma https_decode:
  "decodeResponse demoTab (httpsLib t) [0, 7, 1] \<lparr>ex_id = 7, ex_name = ''example.com.'', ex_qtype = TypeHTTPS\<rparr> = Inr (demoParsed t)"
proof -
  have "EqualFold demoTab ''example.com.'' ''example.com.''"
    by (simp add: EqualFold_def isAscii_def)
  then show ?thesis
    by (simp add: decodeResponse_def httpsLib_def demoLib_def demoSections_def demoHeader_def demoParsed_def maxDNSMessageBytes_def
        maxResponseRecords_def validateResponseIdentity_def firstErr.simps guard_def)
qed

definition demoView :: adapterView where
  "demoView = \<lparr>av_platform = demoPathPlatform, av_endpoint = ''9.9.9.9:53'', av_source = dob_source demoDnsObserver,
     av_resolver = ''r'', av_transport = TransportUDP\<rparr>"

lemma https_observed:
  "env_evidence (Observe_dns demoTab (httpsLib t) (demoDnsWorld background) demoDnsObserver
      (viewRequest demoView ''example.com'' QueryTypeHTTPS)) =
    Some (evidenceFromResponse demoTab (httpsLib t) (demoParsed t) (demoDnsInput\<lparr>din_QueryType := QueryTypeHTTPS\<rparr>)
      (Suc (Suc (Suc 0))) ''9.9.9.9:53'' 0)"
proof -
  have live: "withTimeout background (\<lambda>n. False) k = None" for k
    by (induction k) (simp_all add: background_def)
  have ctx: "classifyContextFailure background background k = None"
    "classifyContextFailure background (withTimeout background (\<lambda>n. False)) k = None" for k
    by (simp_all add: classifyContextFailure_def live) (simp_all add: background_def)
  have n: "normalizeRequest_dns demoTab (httpsLib t) (viewRequest demoView ''example.com'' QueryTypeHTTPS) =
     (\<lparr>din_Hostname = ''example.com'', din_QueryType = QueryTypeHTTPS, din_Class = ''IN'',
       din_Resolver = \<lparr>ri_ID = ''r'', ri_Endpoint = ''''\<rparr>, din_Transport = TransportUDP\<rparr>, ''example.com.'', TypeHTTPS, None)"
    unfolding normalizeRequest_dns_def viewRequest_def demoView_def httpsLib_names
    by (simp add: demo_names dnsClassIN_def TrimSpace_graphic isGraph_def)
  have q: "buildQuery (httpsLib t) 7 ''example.com.'' TypeHTTPS = Inr [0, 7]"
    by (simp add: buildQuery_def httpsLib_def demoLib_def demoPack_def startsWith_def)
  have wr: "writeAll (\<lambda>k v. (length v, None)) 0 [0, 7] = None"
    by (simp add: writeAll.simps)
  have x: "exchange_dns demoTab (demoDnsWorld background) demoDnsObserver (withTimeout background (\<lambda>n. False)) demoDnsEndpoint
      TransportUDP [0, 7] = Inr \<lparr>xr_message = [0, 7, 1], xr_remoteEndpoint = ''9.9.9.9:53'', xr_dohStatus = 0\<rparr>"
    by (simp add: exchange_dns_def exchangeWire_def exchangeUDP_def demoDnsWorld_def demoDnsObserver_def demoDnsEndpoint_def
        demo_endpoint_text wr live ctxErrAt_def maxDNSMessageBytes_def)
  have w: "dw_ctx (demoDnsWorld background) = background" "dw_fired (demoDnsWorld background) = (\<lambda>d n. False)"
    "dw_random (demoDnsWorld background) = Inr 7"
    by (simp_all add: demoDnsWorld_def)
  have ep: "dob_endpoints demoDnsObserver ''r'' = Some demoDnsEndpoint" by (simp add: demoDnsObserver_def)
  have inp: "input_dns demoDnsEndpoint TransportUDP (dob_wirePort demoDnsObserver) = \<lparr>ri_ID = ''r'', ri_Endpoint = ''9.9.9.9:53''\<rparr>"
    "validateTransportEndpoint TransportUDP demoDnsEndpoint = None"
    by (simp_all add: input_dns_def demoDnsEndpoint_def demoDnsObserver_def demo_endpoint_text validateTransportEndpoint_def firstErr_simps)
  show ?thesis
    by (simp add: Observe_dns_def n w ctx ep inp messageID_def q x finishExchange_def https_decode Let_def demoDnsInput_def)
qed

lemma https_refused:
  "refusedEvidence demoTab (httpsLib reverseAlias) (evidenceFromResponse demoTab (httpsLib reverseAlias) (demoParsed reverseAlias)
     i n remote status)"
proof -
  have "dev_Records (evidenceFromResponse demoTab (httpsLib reverseAlias) (demoParsed reverseAlias) i n remote status) =
      dev_Records (evidenceFromResponse demoTab (demoLib reverseAlias) (demoParsed reverseAlias) demoDnsInput n remote status)"
    by (simp add: evidenceFromResponse_def Let_def split: prod.split)
  moreover have "\<exists>r \<in> set (dev_Records (evidenceFromResponse demoTab (demoLib reverseAlias) (demoParsed reverseAlias) demoDnsInput
      n remote status)). refusedRecord demoTab (demoLib reverseAlias) r"
    by (rule reverse_alias_record)
  moreover have "refusedRecord demoTab (httpsLib t) r = refusedRecord demoTab (demoLib t) r" for t r
    by (simp add: refusedRecord_def isCanonicalDNSName_def httpsLib_names)
  ultimately show ?thesis unfolding refusedEvidence_def by simp
qed

definition productionWorld :: PathWorld where
  "productionWorld = demoPathWorld\<lparr>pw_dns := (\<lambda>n. Observe_dns demoTab (httpsLib reverseAlias) (demoDnsWorld background) demoDnsObserver)\<rparr>"

lemma demo_production: "production_env demoTab (httpsLib t) (demoDnsWorld background, demoDnsObserver) demoView"
proof -
  have "TrimSpace ''r'' = ''r''" by (rule TrimSpace_graphic) (simp add: isGraph_def)
  moreover have "classifyContextFailure background background 0 = None"
    by (simp add: classifyContextFailure_def background_def)
  moreover have "validateTransportEndpoint TransportUDP demoDnsEndpoint = None"
    by (simp add: validateTransportEndpoint_def demoDnsEndpoint_def firstErr_simps)
  ultimately show ?thesis
    using demoDnsWorld_ok [of background] demoDnsObserver_new demo_plain
    by (auto simp: production_env_def demoTab_ok httpsLib_labels demoView_def demoDnsWorld_def dns_env_ok_def
        dialer_ok_def demoPathPlatform_def demoDnsObserver_def input_dns_def demoDnsEndpoint_def demo_endpoint_text
        intro!: exI [of _ demoDnsConfig] exI [of _ 53])
qed

lemma production_refused:
  "Validate_dns demoTab (httpsLib reverseAlias) (Observe_dns demoTab (httpsLib reverseAlias) (demoDnsWorld background) demoDnsObserver
      (viewRequest demoView ''example.com'' QueryTypeHTTPS)) \<noteq> None"
proof -
  have "\<not> noRefusal demoTab (httpsLib reverseAlias) (Observe_dns demoTab (httpsLib reverseAlias) (demoDnsWorld background)
      demoDnsObserver (viewRequest demoView ''example.com'' QueryTypeHTTPS))"
    using https_refused by (simp add: noRefusal_def https_observed)
  then show ?thesis
    using Observe_dns_exact [OF demoDnsWorld_ok(1) demoDnsObserver_new _ demo_plain demoTab_ok httpsLib_labels demoDnsWorld_ok(2)]
    by simp
qed

lemma production_stops:
  "pth_StopReason (Observe_path demoTab (httpsLib reverseAlias) productionWorld demoPathObserver demoPathRequest) = StopInvalidProbeEvidence"
proof -
  have i: "normalizeRequest_path demoTab (httpsLib t) demoPathRequest = (demoPathInput, None)" for t
    using demo_path_input [of t] by (simp add: normalizeRequest_path_def NormalizeHostname_def httpsLib_names)
  have r: "\<lparr>dreq_Hostname = ''example.com'', dreq_QueryType = QueryTypeHTTPS, dreq_Resolver = ''r'', dreq_Transport = TransportUDP\<rparr> =
      viewRequest demoView ''example.com'' QueryTypeHTTPS"
    by (simp add: viewRequest_def demoView_def)
  obtain m where m: "Validate_dns demoTab (httpsLib reverseAlias) (Observe_dns demoTab (httpsLib reverseAlias) (demoDnsWorld background)
      demoDnsObserver (viewRequest demoView ''example.com'' QueryTypeHTTPS)) = Some m"
    using production_refused by blast
  have w: "pw_ctx productionWorld = background" "pw_fired productionWorld = (\<lambda>d n. False)"
    "pw_dns productionWorld = (\<lambda>n. Observe_dns demoTab (httpsLib reverseAlias) (demoDnsWorld background) demoDnsObserver)"
    by (simp_all add: productionWorld_def demoPathWorld_def)
  have p: "pin_Hostname demoPathInput = ''example.com''" "pin_Resolver demoPathInput = ''r''" "pin_Transport demoPathInput = TransportUDP"
    by (simp_all add: demoPathInput_def)
  show ?thesis
    by (simp add: Observe_path_def i httpsLoop.simps askDns_def validateObservation_path_def w p r m demo_path_live Let_def
        del: withTimeout.simps)
qed

section \<open>Properties\<close>

text \<open>
  Property C14. Whatever the DNS observer answers and whenever the contexts end, the report of the path
  observer satisfies the package's own validator, which replays the alias chain, the binding decisions,
  the targets and the evidence, except exactly in two cases: the request was refused for a host name whose
  recorded text changes when it is normalized again, or the run stopped with a detail of white space only.
  The clock is Go's, the platform is named, the wire codec packs no name that ends in an empty label, and no
  lower case of a non-ASCII rune is an ASCII capital.
\<close>

theorem Observe_path_valid:
  assumes "path_env_ok w ob" "unitab_ok u" "labels_checked L"
  shows "Validate_path u L (Observe_path u L w ob r) = None \<longleftrightarrow> rejects_stable u L (preq_Hostname r) \<and>
    \<not> (pth_Status (Observe_path u L w ob r) = StatusStopped \<and> blank (pth_Detail (Observe_path u L w ob r)))"
  by (rule Observe_path_exact [OF assms])

lemma Observe_path_valid_witness:
  "Validate_path demoTab (demoLib ''x'') (Observe_path demoTab (demoLib ''x'') demoPathWorld demoPathObserver demoPathRequest) = None \<and>
   pth_Completion (Observe_path demoTab (demoLib ''x'') demoPathWorld demoPathObserver demoPathRequest) = CompletionServiceMode"
  using Observe_path_valid [OF demo_path_env demoTab_ok demoLib_labels, where r = demoPathRequest] demo_stable_path demo_path_run by simp

text \<open>
  A path makes at most twenty requests: two DNS observers that agree on the first
  twenty lead to the same report, whatever aliases and services they offer.
\<close>

theorem Observe_path_request_limit:
  assumes "\<forall>k < requestLimit. f k = pw_dns w k"
  shows "Observe_path u L (answering w f) ob r = Observe_path u L w ob r"
  by (rule Observe_path_local [OF assms])

lemma Observe_path_request_limit_witness:
  "pth_Status (Observe_path demoTab (demoLib ''x'') (answering demoPathWorld (\<lambda>n. if n < 20 then demoPathDns n else undefined))
     demoPathObserver demoPathRequest) = StatusCompleted"
proof -
  have "Observe_path demoTab (demoLib ''x'') (answering demoPathWorld (\<lambda>n. if n < 20 then demoPathDns n else undefined))
      demoPathObserver demoPathRequest = Observe_path demoTab (demoLib ''x'') demoPathWorld demoPathObserver demoPathRequest"
    by (rule Observe_path_request_limit) (simp add: requestLimit_def demoPathWorld_def)
  then show ?thesis using demo_path_run by simp
qed

text \<open>
  Property C15. The address targets are the host names of the usable bindings, once each, in
  the order of their priorities, and each with the best priority offered for its host name.
\<close>

theorem serviceAddressTargets_order:
  "sorted (map at_Priority (serviceAddressTargets ds)) \<and> distinct (map at_Hostname (serviceAddressTargets ds)) \<and>
   at_Hostname ` set (serviceAddressTargets ds) = bd_AddressHostname ` {d \<in> set ds. bd_Usable d} \<and>
   map at_Priority (serviceAddressTargets ds) = map (\<lambda>t. Min (bd_Priority `
     {d \<in> set ds. bd_Usable d \<and> bd_AddressHostname d = at_Hostname t})) (serviceAddressTargets ds)"
  using serviceAddressTargets_lemma by (intro conjI map_cong refl) blast+

text \<open>
  Property C16. The two list-valued parameters are decoded exactly from their wire forms: a
  mandatory list is a non-empty strictly increasing sequence of keys, a protocol list a
  non-empty sequence of names of 1 to 255 bytes, and nothing else is accepted.
\<close>

theorem serviceParams_roundtrip:
  "(mandatoryKeys v = Some ks \<longleftrightarrow> ks \<noteq> [] \<and> sorted_wrt (<) ks \<and> v = concat (map encodeKey ks)) \<and>
   (alpnIDs a = Some ids \<longleftrightarrow> ids \<noteq> [] \<and> alpn_ok ids \<and> a = encodeALPN ids)"
  using mandatoryKeys_Some alpnIDs_Some by blast

text \<open>
  Property C17. A binding with distinct hexadecimal parameters is usable exactly when it is
  compatible with this client: known parameters well formed, mandatory ones supported and
  present, port 443, and HTTP/1.1 offered when the default protocol is withdrawn.
\<close>

theorem evaluateBinding_usable:
  assumes "sb_Params (br_service r) = Some params" "\<forall>p \<in> set params. hexDecode (sp_ValueHex p) \<noteq> None"
    "distinct (map sp_Key params)"
  shows "bd_Usable (evaluateBinding r) \<longleftrightarrow> compatible (param_values params)"
  by (rule evaluateBinding_usable_lemma [OF assms])

lemma evaluateBinding_usable_witness:
  "compatible (param_values [\<lparr>sp_Key = 3, sp_Name = ''port'', sp_ValueHex = ''01bb''\<rparr>])"
proof -
  have "bd_Usable (evaluateBinding demoReference) \<longleftrightarrow>
      compatible (param_values [\<lparr>sp_Key = 3, sp_Name = ''port'', sp_ValueHex = ''01bb''\<rparr>])"
    by (rule evaluateBinding_usable) (simp_all add: demoReference_def demoHttpsRecord_def demo_port_value del: hexDecode.simps)
  moreover have "bd_Usable (evaluateBinding demoReference)" using demo_binding by (simp add: evaluateBindings_def)
  ultimately show ?thesis by blast
qed

text \<open>
  Property C18. With the observer of \<open>internal/dnsobservation\<close> on one configured resolver, and no request
  that starts on a context that is done, the path stops with invalid probe evidence only when an
  observation holds what the validator of DNS observations refuses (a name outside the host-name syntax,
  service parameters out of order), or its alias chain ends at the root: the two packages agree on
  everything else. Connections reach the address dialed, DoH URLs have no IPv6 zone, and the clock, the wire
  codec and the tables of Unicode are as for the DNS observer.
\<close>

theorem Observe_path_trusts_production:
  assumes "\<forall>n. \<exists>dw dob. production_env u L (dw, dob) v \<and>
      (\<forall>h q. pw_dns w n (viewRequest v h q) = Observe_dns u L dw dob (viewRequest v h q))"
    and "po_platform ob = av_platform v" "preq_Transport r = av_transport v" "TrimSpace (preq_Resolver r) = av_resolver v"
    and "pth_StopReason (Observe_path u L w ob r) = StopInvalidProbeEvidence"
  shows "\<exists>n h q ev. env_evidence (pw_dns w n (viewRequest v h q)) = Some ev \<and> (refusedEvidence u L ev \<or> dev_EffectiveName ev = ''.'')"
proof (rule ccontr)
  assume c: "\<not> ?thesis"
  have lib: "unitab_ok u" "labels_checked L" using assms(1) by (auto simp: production_env_def)
  have fit: "\<exists>e. production_fit u L e v \<and>
      (\<forall>h q. pw_dns w n (viewRequest v h q) = (case e of (w, ob) \<Rightarrow> Observe_dns u L w ob) (viewRequest v h q))" for n
  proof -
    obtain dw dob where d: "production_env u L (dw, dob) v"
      "\<forall>h q. pw_dns w n (viewRequest v h q) = Observe_dns u L dw dob (viewRequest v h q)"
      using assms(1) by blast
    have "noRefusal u L (Observe_dns u L dw dob (viewRequest v h q))" for h q
      using c d(2) unfolding noRefusal_def by metis
    with d show ?thesis by (intro exI [of _ "(dw, dob)"]) (simp add: production_fit_def)
  qed
  moreover have "\<forall>n h q ev. env_evidence (pw_dns w n (viewRequest v h q)) = Some ev \<longrightarrow> dev_EffectiveName ev \<noteq> ''.''"
    using c by blast
  ultimately show False
    using production.never_invalid_evidence [unfolded production.served_def, OF _ assms(3,4) lib, of ob w] assms(2,5) by blast
qed

lemma Observe_path_trusts_production_witness:
  "\<exists>n h q ev. env_evidence (pw_dns productionWorld n (viewRequest demoView h q)) = Some ev \<and>
     (refusedEvidence demoTab (httpsLib reverseAlias) ev \<or> dev_EffectiveName ev = ''.'')"
proof (rule Observe_path_trusts_production)
  show "\<forall>n. \<exists>dw dob. production_env demoTab (httpsLib reverseAlias) (dw, dob) demoView \<and>
      (\<forall>h q. pw_dns productionWorld n (viewRequest demoView h q) =
        Observe_dns demoTab (httpsLib reverseAlias) dw dob (viewRequest demoView h q))"
    using demo_production by (auto simp: productionWorld_def)
  show "TrimSpace (preq_Resolver demoPathRequest) = av_resolver demoView"
    unfolding demoPathRequest_def demoView_def by (simp add: TrimSpace_graphic isGraph_def)
  show "pth_StopReason (Observe_path demoTab (httpsLib reverseAlias) productionWorld demoPathObserver demoPathRequest) = StopInvalidProbeEvidence"
    by (rule production_stops)
qed (simp_all add: demoPathObserver_def demoView_def demoPathRequest_def)

text \<open>
  A later request that starts on a context that has just ended is misreported: the DNS observer answers
  without an endpoint, and the path stops with invalid probe evidence where it was cancelled or ran out
  of time. Every request after the first can end like this.
\<close>

theorem late_request_is_invalid_evidence:
  assumes "pw_dns w n = Observe_dns u L dw dob" "classifyContextFailure (dw_ctx dw) (dw_ctx dw) 0 \<noteq> None"
    and "terminalContext (pw_ctx w) (withTimeout (pw_ctx w) (pw_fired w (po_timeout ob))) (2 * n + 1) = None"
    and "rb_dnsIdentity b = Some (ep, src)" "ep \<noteq> ''''"
  shows "\<exists>e. askDns u L w ob n h q b = ([], b, Inl (stopped StopInvalidProbeEvidence e))"
  by (rule late_request_misreported [OF assms])

end
