(* ===== verification/WebRequest.thy ===== *)
theory WebRequest
  imports GoUrlProps
begin

text \<open>
  Package \<open>internal/nettarget\<close>, \<open>webrequest.go\<close>: the one policy for the path and the query a
  Web observation may send, and what it guarantees: accepted targets are bounded and made of
  plain bytes, and normalizing what has been recorded gives the same verdict and target.
\<close>

section \<open>The policy\<close>

definition MaxWebRequestTargetBytes :: nat where "MaxWebRequestTargetBytes = 4096"

record WebRequestTarget =
  wt_EscapedPath :: string
  wt_Path :: string
  wt_RawPath :: string
  wt_RawQuery :: string

definition isAlphaNumeric :: "char \<Rightarrow> bool" where
  "isAlphaNumeric c = ((97 \<le> byte c \<and> byte c \<le> 122) \<or> (65 \<le> byte c \<and> byte c \<le> 90) \<or> (48 \<le> byte c \<and> byte c \<le> 57))"

definition isHex :: "char \<Rightarrow> bool" where
  "isHex c = ((97 \<le> byte c \<and> byte c \<le> 102) \<or> (65 \<le> byte c \<and> byte c \<le> 70) \<or> (48 \<le> byte c \<and> byte c \<le> 57))"

definition queryMarks :: string where
  "queryMarks = ''-._~!$&'' @ [CHR 0x27] @ ''()*+,;=:@/?''"

fun validateRawQuery :: "string \<Rightarrow> error option" where
  "validateRawQuery [] = None"
| "validateRawQuery (c # s) =
     (if c = CHR ''%'' then
        (case s of
           h # l # r \<Rightarrow> if \<not> isHex h \<or> \<not> isHex l then Some ''raw query contains invalid percent-encoding''
             else validateRawQuery r
         | _ \<Rightarrow> Some ''raw query contains invalid percent-encoding'')
      else if isAlphaNumeric c \<or> c \<in> set queryMarks then validateRawQuery s
      else Some ''raw query contains unsafe unescaped byte'')"

definition requestTarget :: "string \<Rightarrow> string \<Rightarrow> string" where
  "requestTarget path rawQuery = (if rawQuery \<noteq> '''' then path @ ''?'' @ rawQuery else path)"

definition NormalizeWebRequestTarget :: "string \<Rightarrow> string \<Rightarrow> WebRequestTarget \<times> error option" where
  "NormalizeWebRequestTarget path0 rawQuery =
     (let path = (if path0 = '''' then ''/'' else path0);
          result = \<lparr>wt_EscapedPath = path, wt_Path = '''', wt_RawPath = '''', wt_RawQuery = rawQuery\<rparr> in
      case validateRawQuery rawQuery of
        Some e \<Rightarrow> (result, Some e)
      | None \<Rightarrow>
          if MaxWebRequestTargetBytes < length (requestTarget path rawQuery)
          then (result, Some ''request target exceeds 4096 bytes'')
          else (case ParseRequestURI (requestTarget path rawQuery) of
              None \<Rightarrow> (result, Some ''invalid request target'')
            | Some parsed \<Rightarrow>
                if IsAbs parsed \<or> u_Host parsed \<noteq> '''' \<or> u_Opaque parsed \<noteq> '''' \<or> u_Fragment parsed \<noteq> '''' \<or>
                   \<not> startsWith ''/'' path \<or> u_RawQuery parsed \<noteq> rawQuery
                then (result, Some ''request target must be an origin-form path with a separate query'')
                else (let escapedPath = (if EscapedPath parsed = '''' then ''/'' else EscapedPath parsed);
                          canonicalBytes = length escapedPath +
                            (if u_RawQuery parsed \<noteq> '''' then 1 + length (u_RawQuery parsed) else 0) in
                      if MaxWebRequestTargetBytes < canonicalBytes
                      then (result, Some ''normalized request target exceeds 4096 bytes'')
                      else (\<lparr>wt_EscapedPath = escapedPath, wt_Path = u_Path parsed, wt_RawPath = u_RawPath parsed,
                             wt_RawQuery = u_RawQuery parsed\<rparr>, None))))"

section \<open>Queries\<close>

definition queryByte :: "char \<Rightarrow> bool" where
  "queryByte c = (isAlphaNumeric c \<or> c \<in> set queryMarks \<or> c = CHR ''%'')"

lemma isHex_alnum: "isHex c \<Longrightarrow> isAlphaNumeric c"
  by (auto simp: isHex_def isAlphaNumeric_def)

lemma validateRawQuery_bytes: "validateRawQuery q = None \<Longrightarrow> list_all queryByte q"
  by (induction q rule: validateRawQuery.induct)
    (auto simp: queryByte_def isHex_alnum split: if_splits list.splits)

lemma queryByte_plain: "queryByte c \<Longrightarrow> \<not> controlByte c \<and> c \<noteq> CHR ''#''"
proof -
  assume "queryByte c"
  moreover have "plainPathByte d" if "isAlphaNumeric d" for d
    using that by (intro isAlnum_plain) (simp add: isAlphaNumeric_def isAlnum_def)
  moreover have "\<not> controlByte d \<and> d \<noteq> CHR ''#''" if "d \<in> set queryMarks" for d
    using that by (auto simp: queryMarks_def controlByte_def)
  ultimately show ?thesis by (auto simp: queryByte_def plainPathByte_def controlByte_def)
qed

section \<open>Parsing a canonical target\<close>

lemma getScheme_slash: "getScheme (CHR ''/'' # s) = Some ('''', CHR ''/'' # s)"
  by (simp add: getScheme_def isAlnum_def isDigit_def)

lemma ParseRequestURI_path:
  assumes "p \<noteq> ''''" "hd p = CHR ''/''" "list_all plainPathByte p" "list_all queryByte q"
  shows "ParseRequestURI (requestTarget p q) = setPath (emptyURL\<lparr>u_RawQuery := q\<rparr>) p"
proof -
  obtain r where p: "p = CHR ''/'' # r" using assms(1,2) by (cases p) auto
  let ?raw = "requestTarget p q"
  obtain r' where raw: "?raw = CHR ''/'' # r'" by (cases "q = []") (simp_all add: requestTarget_def p)
  have noq: "CHR ''?'' \<notin> set p" using assms(3) by (auto simp: list_all_iff plainPathByte_def)
  have "\<not> list_ex controlByte ?raw"
    using assms(3,4) queryByte_plain by (auto simp: requestTarget_def list_all_iff list_ex_iff plainPathByte_def controlByte_def)
  moreover have "\<not> (?raw \<noteq> [] \<and> last ?raw = CHR ''?'' \<and> CHR ''?'' \<notin> set (butlast ?raw))"
  proof (cases "q = ''''")
    case True
    have "last p \<in> set p" using assms(1) by simp
    with noq have "last p \<noteq> CHR ''?''" by metis
    with True show ?thesis by (simp add: requestTarget_def)
  next
    case False
    then show ?thesis by (simp add: requestTarget_def butlast_append)
  qed
  moreover have "\<exists>f. cutAt (CHR ''?'') ?raw = (p, q, f)"
  proof (cases "q = ''''")
    case True
    then show ?thesis using noq by (intro exI [of _ False]) (simp add: requestTarget_def cutAt_None)
  next
    case False
    then show ?thesis using noq by (intro exI [of _ True]) (simp add: requestTarget_def cutAt_Some)
  qed
  moreover have "getScheme ?raw = Some ('''', ?raw)" unfolding raw by (rule getScheme_slash)
  moreover have "?raw \<noteq> ''''" "?raw \<noteq> ''*''" using raw by auto
  moreover have "startsWith ''/'' p" by (simp add: p startsWith_def)
  moreover have "emptyURL\<lparr>u_Scheme := '''', u_ForceQuery := False, u_RawQuery := q, u_OmitHost := False\<rparr> = emptyURL\<lparr>u_RawQuery := q\<rparr>"
    by (simp add: emptyURL_def)
  ultimately show ?thesis
    unfolding ParseRequestURI_def parseURL_def by (auto simp: Let_def)
qed

lemma ParseRequestURI_setPath:
  assumes "ParseRequestURI raw = Some v" "u_Host v = ''''" "\<not> IsAbs v" "startsWith ''/'' raw"
  shows "\<exists>u0 p. setPath u0 p = Some v \<and> p \<noteq> '''' \<and> hd p = CHR ''/''"
proof -
  obtain r where raw: "raw = CHR ''/'' # r" using assms(4) by (cases raw) (auto simp: startsWith_def)
  let ?forced = "raw \<noteq> [] \<and> last raw = CHR ''?'' \<and> CHR ''?'' \<notin> set (butlast raw)"
  obtain rest query found where c: "(if ?forced then (butlast raw, '''', True) else cutAt (CHR ''?'') raw) = (rest, query, found)"
    using prod_cases3 by blast
  have hd: "rest \<noteq> '''' \<and> hd rest = CHR ''/''"
  proof (cases ?forced)
    case True
    then show ?thesis using c by (cases r) (auto simp: raw split: if_splits)
  next
    case False
    then have "cutAt (CHR ''?'') raw = (rest, query, found)" using c by (simp split: if_split_asm)
    then show ?thesis by (auto simp: raw cutAt_def Let_def split: if_splits)
  qed
  have "startsWith ''/'' rest" using hd by (cases rest) (auto simp: startsWith_def)
  then have "\<exists>u0. setPath u0 rest = Some v"
    using assms(1) c unfolding ParseRequestURI_def parseURL_def raw getScheme_slash
    by (auto simp: Let_def split: if_split_asm prod.splits)
  with hd show ?thesis by blast
qed

section \<open>What the policy guarantees\<close>

text \<open>Everything that holds of an accepted target.\<close>

definition target_good :: "WebRequestTarget \<Rightarrow> bool" where
  "target_good t \<longleftrightarrow> wt_EscapedPath t \<noteq> '''' \<and> hd (wt_EscapedPath t) = CHR ''/'' \<and>
     list_all plainPathByte (wt_EscapedPath t) \<and> unescape encodePath (wt_EscapedPath t) = Some (wt_Path t) \<and>
     validateRawQuery (wt_RawQuery t) = None \<and>
     length (requestTarget (wt_EscapedPath t) (wt_RawQuery t)) \<le> MaxWebRequestTargetBytes"

text \<open>The cases of the policy: everything as it was given, or a canonical target.\<close>

lemma NormalizeWebRequestTarget_cases:
  assumes "NormalizeWebRequestTarget path q = (t, e)"
  obtains (rejected) m where "e = Some m"
      "t = \<lparr>wt_EscapedPath = (if path = '''' then ''/'' else path), wt_Path = '''', wt_RawPath = '''', wt_RawQuery = q\<rparr>"
  | (accepted) v u0 p where "e = None" "setPath u0 p = Some v" "p \<noteq> ''''" "hd p = CHR ''/''"
      "t = \<lparr>wt_EscapedPath = EscapedPath v, wt_Path = u_Path v, wt_RawPath = u_RawPath v, wt_RawQuery = q\<rparr>"
      "validateRawQuery q = None" "length (requestTarget (EscapedPath v) q) \<le> MaxWebRequestTargetBytes"
      "EscapedPath v \<noteq> ''''" "hd (EscapedPath v) = CHR ''/''" "u_Path v \<noteq> ''*''"
proof (cases e)
  case (Some m)
  with assms show ?thesis
    by (intro rejected) (auto simp: NormalizeWebRequestTarget_def Let_def split: option.splits if_splits)
next
  case None
  let ?path = "if path = '''' then ''/'' else path"
  obtain v where v: "ParseRequestURI (requestTarget ?path q) = Some v" "validateRawQuery q = None"
    "\<not> IsAbs v" "u_Host v = ''''" "startsWith ''/'' ?path" "u_RawQuery v = q"
    "t = \<lparr>wt_EscapedPath = (if EscapedPath v = '''' then ''/'' else EscapedPath v), wt_Path = u_Path v,
      wt_RawPath = u_RawPath v, wt_RawQuery = q\<rparr>"
    "length (if EscapedPath v = '''' then ''/'' else EscapedPath v) + (if q \<noteq> '''' then 1 + length q else 0) \<le> MaxWebRequestTargetBytes"
    using assms None by (auto simp: NormalizeWebRequestTarget_def Let_def split: option.splits if_split_asm)
  have "startsWith ''/'' (requestTarget ?path q)"
    using v(5) by (cases ?path) (auto simp: startsWith_def requestTarget_def)
  then obtain u0 p where p: "setPath u0 p = Some v" "p \<noteq> ''''" "hd p = CHR ''/''"
    using ParseRequestURI_setPath v(1,3,4) by blast
  note sh = setPath_shape [OF p(1)]
  have ne: "EscapedPath v \<noteq> ''''"
  proof
    assume "EscapedPath v = ''''"
    moreover have "unescape encodePath (EscapedPath v) = Some (u_Path v)"
      using sh(1) p(3) unescape_escape_path by (auto simp: EscapedPath_def)
    moreover have "u_Path v \<noteq> ''''"
      using p unescape_Nil_iff [of encodePath p] by (auto simp: setPath_def split: option.splits)
    ultimately show False by simp
  qed
  show ?thesis
    by (rule accepted [OF None p]) (use v ne sh p(3) in \<open>auto simp: requestTarget_def split: if_splits\<close>)
qed

lemma NormalizeWebRequestTarget_good: "NormalizeWebRequestTarget path q = (t, None) \<Longrightarrow> target_good t"
proof (erule NormalizeWebRequestTarget_cases, simp)
  fix v u0 p
  assume "u_Path v \<noteq> ''*''" "t = \<lparr>wt_EscapedPath = EscapedPath v, wt_Path = u_Path v, wt_RawPath = u_RawPath v, wt_RawQuery = q\<rparr>"
    "validateRawQuery q = None" "length (requestTarget (EscapedPath v) q) \<le> MaxWebRequestTargetBytes"
    "EscapedPath v \<noteq> ''''" "hd (EscapedPath v) = CHR ''/''"
  moreover have "unescape encodePath (EscapedPath v) = Some (u_Path v)"
    using \<open>u_Path v \<noteq> ''*''\<close> unescape_escape_path by (auto simp: EscapedPath_def)
  ultimately show "target_good t" using EscapedPath_plain by (simp add: target_good_def)
qed

text \<open>A good target is accepted, with the same path and query.\<close>

lemma NormalizeWebRequestTarget_accepts:
  assumes "setPath u0 p = Some v" "u_Path v \<noteq> ''*''" "EscapedPath v \<noteq> ''''" "hd (EscapedPath v) = CHR ''/''"
    "validateRawQuery q = None" "length (requestTarget (EscapedPath v) q) \<le> MaxWebRequestTargetBytes"
  shows "\<exists>raw. NormalizeWebRequestTarget (EscapedPath v) q =
    (\<lparr>wt_EscapedPath = EscapedPath v, wt_Path = u_Path v, wt_RawPath = raw, wt_RawQuery = q\<rparr>, None)"
proof -
  let ?u1 = "emptyURL\<lparr>u_RawQuery := q\<rparr>"
  have parse: "ParseRequestURI (requestTarget (EscapedPath v) q) = setPath ?u1 (EscapedPath v)"
    by (rule ParseRequestURI_path [OF assms(3,4) EscapedPath_plain validateRawQuery_bytes [OF assms(5)]])
  obtain u2 where u2: "setPath ?u1 (EscapedPath v) = Some u2" using EscapedPath_reads(1) [OF assms(1,2)] by blast
  have sel: "u_Path u2 = u_Path v" "u_Host u2 = ''''" "\<not> IsAbs u2" "u_Opaque u2 = ''''" "u_Fragment u2 = ''''" "u_RawQuery u2 = q"
    using EscapedPath_reads(1) [OF assms(1,2), of ?u1] u2 by (auto simp: emptyURL_def IsAbs_def)
  have "startsWith ''/'' (EscapedPath v)" using assms(3,4) by (cases "EscapedPath v") (auto simp: startsWith_def)
  then show ?thesis
    using assms(3,5,6) parse u2 sel EscapedPath_reads(2) [OF assms(1,2) u2]
    by (auto simp: NormalizeWebRequestTarget_def Let_def requestTarget_def split: if_splits)
qed

lemma NormalizeWebRequestTarget_again:
  assumes "NormalizeWebRequestTarget path q = (t, e)"
  shows "\<exists>raw. NormalizeWebRequestTarget (wt_EscapedPath t) (wt_RawQuery t) = (t\<lparr>wt_RawPath := raw\<rparr>, e)"
  using assms
proof (cases rule: NormalizeWebRequestTarget_cases)
  case (rejected m)
  then have "NormalizeWebRequestTarget (wt_EscapedPath t) (wt_RawQuery t) = NormalizeWebRequestTarget path q"
    by (simp add: NormalizeWebRequestTarget_def)
  with assms rejected show ?thesis by (auto intro: exI [of _ "wt_RawPath t"])
next
  case (accepted v u0 p)
  from NormalizeWebRequestTarget_accepts [OF accepted(2,10,8,9,6,7)] accepted(1,5) show ?thesis by simp
qed

section \<open>Properties\<close>

text \<open>Property C20: every target the policy accepts is well formed: its escaped path is a non-empty
  absolute path of bytes a request line may carry, it decodes to exactly the recorded path, the
  query has only safe bytes and complete escapes, and the request line they make has at most
  \<open>MaxWebRequestTargetBytes\<close> bytes.\<close>

theorem NormalizeWebRequestTarget_type:
  assumes "NormalizeWebRequestTarget path rawQuery = (t, None)"
  shows "wt_EscapedPath t \<noteq> '''' \<and> hd (wt_EscapedPath t) = CHR ''/'' \<and>
    list_all plainPathByte (wt_EscapedPath t) \<and> unescape encodePath (wt_EscapedPath t) = Some (wt_Path t) \<and>
    validateRawQuery (wt_RawQuery t) = None \<and>
    length (requestTarget (wt_EscapedPath t) (wt_RawQuery t)) \<le> MaxWebRequestTargetBytes"
  using NormalizeWebRequestTarget_good [OF assms] by (simp add: target_good_def)

lemma target_example:
  "NormalizeWebRequestTarget ''/a%2Fb'' ''x=%41'' =
    (\<lparr>wt_EscapedPath = ''/a%2Fb'', wt_Path = ''/a/b'', wt_RawPath = ''/a%2Fb'', wt_RawQuery = ''x=%41''\<rparr>, None)"
  by code_simp

theorem NormalizeWebRequestTarget_type_witness:
  "unescape encodePath ''/a%2Fb'' = Some ''/a/b'' \<and> list_all plainPathByte ''/a%2Fb''"
  using NormalizeWebRequestTarget_type [OF target_example] by simp

text \<open>One byte that needs an escape makes the canonical path forget which slashes were escaped.\<close>

lemma escaped_slash_lost:
  "NormalizeWebRequestTarget ''/a%2Fb c'' '''' =
    (\<lparr>wt_EscapedPath = ''/a/b%20c'', wt_Path = ''/a/b c'', wt_RawPath = ''/a%2Fb c'', wt_RawQuery = ''''\<rparr>, None)"
  by code_simp

text \<open>Normalization is stable. Normalizing the path and the query of its own result,
  accepted or refused, gives the same verdict and the same path and query; only the separate
  \<open>RawPath\<close> hint may differ.\<close>

theorem NormalizeWebRequestTarget_canonical:
  "\<exists>raw. NormalizeWebRequestTarget (wt_EscapedPath (fst (NormalizeWebRequestTarget path rawQuery)))
      (wt_RawQuery (fst (NormalizeWebRequestTarget path rawQuery))) =
    ((fst (NormalizeWebRequestTarget path rawQuery))\<lparr>wt_RawPath := raw\<rparr>,
     snd (NormalizeWebRequestTarget path rawQuery))"
  by (rule NormalizeWebRequestTarget_again) simp

end
