(* ===== verification/SshObservation.thy ===== *)
theory SshObservation
  imports GoHttp
begin

text \<open>
  Package \<open>internal/sshobservation\<close>: one bounded SSH identification exchange with an explicit
  public address and port. \<open>exchangeIdentification\<close> reads the peer byte by byte; the connection
  is a record of what its writes and reads answer, numbered in program order, so a peer may send
  anything, stop, or fail at any byte. \<open>Observe_ssh\<close> is the whole of \<open>observer.Observe\<close>.
\<close>

section \<open>Types\<close>

abbreviation ProbeKind_ssh :: Kind where "ProbeKind_ssh \<equiv> KindSSHObservation"

definition DefaultPort_ssh :: nat where "DefaultPort_ssh = 22"

definition ClientIdentification :: string where "ClientIdentification = ''SSH-2.0-ReachRun_Phase0''"

definition FailureTCPConnectionRefused_ssh :: FailureCode where
  "FailureTCPConnectionRefused_ssh = FailureOf ''tcp_connection_refused''"
definition FailureTCPNoRoute_ssh :: FailureCode where "FailureTCPNoRoute_ssh = FailureOf ''tcp_no_route''"
definition FailureTCPTimeout_ssh :: FailureCode where "FailureTCPTimeout_ssh = FailureOf ''tcp_timeout''"
definition FailureTCPConnectionReset_ssh :: FailureCode where
  "FailureTCPConnectionReset_ssh = FailureOf ''tcp_connection_reset''"
definition FailureTCP_ssh :: FailureCode where "FailureTCP_ssh = FailureOf ''tcp_failure''"

lemmas ssh_codes = FailureTCPConnectionRefused_ssh_def FailureTCPNoRoute_ssh_def FailureTCPTimeout_ssh_def
  FailureTCPConnectionReset_ssh_def FailureTCP_ssh_def

datatype Family_ssh = FamilyIPv4_ssh | FamilyIPv6_ssh | FamilyOther_ssh string

datatype IdentificationStatus =
    IdentificationReceived | IdentificationUnconfirmed | IdentificationStatusOther string

datatype UnconfirmedReason_ssh =
    UnconfirmedInvalidIdentification
  | UnconfirmedTimeout
  | UnconfirmedConnectionClosed_ssh
  | UnconfirmedConnectionReset_ssh
  | UnconfirmedPreambleLimit
  | UnconfirmedExchangeFailure_ssh
  | UnconfirmedOther_ssh string

record SshConfig =
  scfg_Timeout :: int

text \<open>Ports are unsigned 16-bit numbers; no arithmetic is done on them.\<close>

record SshRequest =
  sreq_DialIP :: string
  sreq_Port :: nat

record SshInput =
  sin_DialIP :: string
  sin_Family :: Family_ssh
  sin_Port :: nat
  sin_ClientIdentification :: string

record Identification =
  ident_Status :: IdentificationStatus
  ident_Reason :: UnconfirmedReason_ssh
  ident_Server :: string
  ident_ProtocolVersion :: string
  ident_SoftwareVersion :: string
  ident_Comments :: string
  ident_PreambleLines :: int
  ident_ClientSent :: bool
  ident_ExchangeMS :: int

record SshEvidence =
  sev_RemoteEndpoint :: string
  sev_TCPConnectMS :: int
  sev_Identification :: Identification

type_synonym SshResult = "(SshInput, SshEvidence) Envelope"

section \<open>normalizeRequest\<close>

record SshTarget =
  stgt_network :: string
  stgt_endpoint :: string

definition normalizeRequest_ssh :: "SshRequest \<Rightarrow> SshInput \<times> SshTarget \<times> error option" where
  "normalizeRequest_ssh request =
     (let (text, address, err) = NormalizePublicIP (sreq_DialIP request);
          port = (if sreq_Port request = 0 then DefaultPort_ssh else sreq_Port request);
          family = (if \<not> IsValid address then FamilyOther_ssh ''''
                    else if Is4 address then FamilyIPv4_ssh else FamilyIPv6_ssh);
          inp = \<lparr>sin_DialIP = text, sin_Family = family, sin_Port = port,
                 sin_ClientIdentification = ClientIdentification\<rparr>
      in if err \<noteq> None then (inp, \<lparr>stgt_network = '''', stgt_endpoint = ''''\<rparr>, err)
         else (inp, \<lparr>stgt_network = (if Is4 address then ''tcp4'' else ''tcp6''),
                     stgt_endpoint = AddrPortString (address, port)\<rparr>, None))"

section \<open>Parsing an identification line\<close>

definition maxIdentificationBytes :: nat where "maxIdentificationBytes = 255"
definition maxPreambleLines :: int where "maxPreambleLines = 16"
definition maxPreambleBytes :: int where "maxPreambleBytes = 4096"

text \<open>
  What ends an exchange: the package's own sentinel errors, \<open>errInvalidIdentification\<close> with the
  text it is wrapped in, or an error of the connection, which wraps none of them.
\<close>

datatype exchangeError =
    ErrInvalidIdentification string
  | ErrPreambleLimit
  | ErrLineLimit
  | ErrConn goerr

record parsedIdentification =
  pid_raw :: string
  pid_protocolVersion :: string
  pid_softwareVersion :: string
  pid_comments :: string
  pid_preambleLines :: int
  pid_clientLineSent :: bool

definition noIdentification :: parsedIdentification where
  "noIdentification = \<lparr>pid_raw = '''', pid_protocolVersion = '''', pid_softwareVersion = '''',
     pid_comments = '''', pid_preambleLines = 0, pid_clientLineSent = False\<rparr>"

definition LF :: char where "LF = CHR 0x0A"
definition CR :: char where "CR = CHR 0x0D"

definition validProtocolVersion :: "string \<Rightarrow> bool" where
  "validProtocolVersion v = (v = ''2.0'' \<or> v = ''1.99'')"

definition validVersionField :: "string \<Rightarrow> bool" where
  "validVersionField v = (v \<noteq> '''' \<and>
     \<not> list_ex (\<lambda>c. byte c < 33 \<or> 126 < byte c \<or> c = CHR ''-'') v)"

definition validComments :: "string \<Rightarrow> bool" where
  "validComments v = (\<not> list_ex (\<lambda>c. byte c < 32 \<or> 126 < byte c) v)"

definition parseIdentificationLine :: "string \<Rightarrow> parsedIdentification \<times> exchangeError option" where
  "parseIdentificationLine line =
     (let bad = (\<lambda>m. (noIdentification, Some (ErrInvalidIdentification m))) in
      if line = [] \<or> last line \<noteq> LF then bad ''line is not LF terminated''
      else if maxIdentificationBytes < length line then bad ''line exceeds 255 bytes''
      else
       (let content0 = butlast line;
            hadCarriageReturn = (content0 \<noteq> [] \<and> last content0 = CR);
            content = (if hadCarriageReturn then butlast content0 else content0) in
        if \<not> startsWith ''SSH-'' content then bad ''line does not begin with SSH-''
        else
         (let (protocolVersion, softwareAndComments, found) = cutAt (CHR ''-'') (drop 4 content) in
          if \<not> found \<or> protocolVersion = '''' \<or> softwareAndComments = ''''
          then bad ''missing protocol or software version''
          else
           (let (softwareVersion, comments, space) = cutAt (CHR '' '') softwareAndComments in
            if space \<and> comments = '''' then bad ''empty comments after separator''
            else if \<not> validProtocolVersion protocolVersion then bad ''unsupported protocol version''
            else if protocolVersion = ''2.0'' \<and> \<not> hadCarriageReturn
              then bad ''SSH 2.0 requires CRLF termination''
            else if \<not> validVersionField softwareVersion then bad ''malformed software version''
            else if comments \<noteq> '''' \<and> \<not> validComments comments then bad ''malformed comments''
            else (\<lparr>pid_raw = content, pid_protocolVersion = protocolVersion,
                   pid_softwareVersion = softwareVersion, pid_comments = comments,
                   pid_preambleLines = 0, pid_clientLineSent = False\<rparr>, None)))))"

section \<open>The exchange\<close>

text \<open>
  \<open>sc_Write k v\<close> answers write k of the bytes v: how many were taken, and the error;
  \<open>sc_Read k\<close> answers read k into a buffer of one byte: the byte, if one was read, and the error.
\<close>

record SshConn =
  sc_RemoteAddr :: "string option"
  sc_SetDeadline :: "goerr option"
  sc_Write :: "nat \<Rightarrow> string \<Rightarrow> nat \<times> goerr option"
  sc_Read :: "nat \<Rightarrow> char option \<times> goerr option"

definition NoProgressErr :: goerr where
  "NoProgressErr = plainErr ''multiple Read calls return no data or error''"

function writeAll_ssh :: "(nat \<Rightarrow> string \<Rightarrow> nat \<times> goerr option) \<Rightarrow> nat \<Rightarrow> nat \<Rightarrow> string \<Rightarrow> nat \<times> goerr option" where
  "writeAll_ssh write k written rest =
     (if rest = [] then (written, None)
      else (case write k rest of
          (n, Some e) \<Rightarrow> (written + n, Some e)
        | (n, None) \<Rightarrow> if n = 0 then (written, Some ShortWriteErr)
            else writeAll_ssh write (k + 1) (written + n) (drop n rest)))"
  by pat_completeness auto
termination
  by (relation "measure (\<lambda>(w, k, n, v). length v)") auto

declare writeAll_ssh.simps [simp del]

text \<open>What a line with its new last byte c means: nothing yet, or the end of the reading.\<close>

definition lineStep :: "int \<Rightarrow> string \<Rightarrow> char \<Rightarrow> exchangeError option option" where
  "lineStep preambleRemaining line c =
     (let startsSSH = startsWith ''SSH-'' line;
          couldStartSSH = (length line < 4 \<and> startsWith line ''SSH-'') in
      if startsSSH then
        (if c = LF then Some None
         else if maxIdentificationBytes \<le> length line then Some (Some ErrLineLimit)
         else None)
      else if \<not> couldStartSSH then
        (if preambleRemaining < int (length line) then Some (Some ErrLineLimit)
         else if c = LF then Some None
         else if preambleRemaining \<le> int (length line) then Some (Some ErrLineLimit)
         else None)
      else None)"

lemma lineStep_continues:
  "lineStep r line c = None \<Longrightarrow> length line < max 255 (nat r)"
  by (auto simp: lineStep_def Let_def maxIdentificationBytes_def split: if_splits)

function readServerLine :: "(nat \<Rightarrow> char option \<times> goerr option) \<Rightarrow> nat \<Rightarrow> int \<Rightarrow> string \<Rightarrow>
    string \<times> exchangeError option \<times> nat" where
  "readServerLine read k preambleRemaining line =
     (case read k of
        (None, err) \<Rightarrow>
          (line, Some (ErrConn (case err of Some e \<Rightarrow> e | None \<Rightarrow> NoProgressErr)), k + 1)
      | (Some c, err) \<Rightarrow>
          (case lineStep preambleRemaining (line @ [c]) c of
             Some answer \<Rightarrow> (line @ [c], answer, k + 1)
           | None \<Rightarrow> (case err of
               Some e \<Rightarrow> (line @ [c], Some (ErrConn e), k + 1)
             | None \<Rightarrow> readServerLine read (k + 1) preambleRemaining (line @ [c]))))"
  by pat_completeness auto
termination
  by (relation "measure (\<lambda>(read, k, r, line). max 255 (nat r) - length line)")
    (auto dest!: lineStep_continues)

declare readServerLine.simps [simp del]

function exchangeLoop :: "(nat \<Rightarrow> char option \<times> goerr option) \<Rightarrow> bool \<Rightarrow> nat \<Rightarrow> int \<Rightarrow> int \<Rightarrow>
    parsedIdentification \<times> exchangeError option \<times> nat" where
  "exchangeLoop read clientSent k preambleLines preambleBytes =
     (let (line, readErr, k') = readServerLine read k (maxPreambleBytes - preambleBytes) '''';
          startsSSH = startsWith ''SSH-'' line;
          partial = noIdentification\<lparr>pid_preambleLines := preambleLines, pid_clientLineSent := clientSent\<rparr> in
      case readErr of
        Some e \<Rightarrow> (partial,
          Some (if e = ErrLineLimit
                then if startsSSH then ErrInvalidIdentification ''version line exceeded 255 bytes''
                     else ErrPreambleLimit
                else e), k')
      | None \<Rightarrow>
          if startsSSH then
            (let (parsed, err) = parseIdentificationLine line in
             (parsed\<lparr>pid_preambleLines := preambleLines, pid_clientLineSent := clientSent\<rparr>, err, k'))
          else if maxPreambleLines \<le> preambleLines \<or> maxPreambleBytes < preambleBytes + int (length line)
            then (partial, Some ErrPreambleLimit, k')
          else exchangeLoop read clientSent k' (preambleLines + 1) (preambleBytes + int (length line)))"
  by pat_completeness auto
termination
  by (relation "measure (\<lambda>(read, s, k, lines, bytes). nat (maxPreambleLines - lines))") auto

declare exchangeLoop.simps [simp del]

definition clientLine :: string where
  "clientLine = ClientIdentification @ [CR, LF]"

definition exchangeIdentification :: "SshConn \<Rightarrow> parsedIdentification \<times> exchangeError option" where
  "exchangeIdentification conn =
     (let (written, err) = writeAll_ssh (sc_Write conn) 0 0 clientLine;
          clientSent = (written = length clientLine) in
      case err of
        Some e \<Rightarrow> (noIdentification\<lparr>pid_clientLineSent := clientSent\<rparr>, Some (ErrConn e))
      | None \<Rightarrow> (let (parsed, err, reads) = exchangeLoop (sc_Read conn) clientSent 0 0 0 in (parsed, err)))"

section \<open>Classification of failures\<close>

definition isTimeout_ssh :: "goerr option \<Rightarrow> bool" where
  "isTimeout_ssh err =
     (errorsIs err SDeadlineExceeded \<or> errorsIs err SOsDeadlineExceeded \<or> netTimeout err)"

definition isReset_ssh :: "goerr option \<Rightarrow> bool" where
  "isReset_ssh err = (errorsIs err ECONNRESET \<or> errorsIs err EPIPE)"

text \<open>The readings of the contexts are \<open>k\<close>, \<open>k + 1\<close>, \<open>k + 2\<close> and \<open>k + 3\<close>.\<close>

definition classifyTCPFailure_ssh :: "ctx \<Rightarrow> ctx \<Rightarrow> nat \<Rightarrow> goerr option \<Rightarrow> Outcome \<times> FailureCode" where
  "classifyTCPFailure_ssh parent attempt k err =
     (if errorsIs (ctxErrAt parent k) SCanceled then (OutcomeCancelled, FailureCancelled)
      else if errorsIs (ctxErrAt parent (k + 1)) SDeadlineExceeded \<or>
              errorsIs (ctxErrAt attempt (k + 2)) SDeadlineExceeded \<or> isTimeout_ssh err
        then (OutcomeFailed, FailureTCPTimeout_ssh)
      else if errorsIs (ctxErrAt attempt (k + 3)) SCanceled then (OutcomeCancelled, FailureCancelled)
      else if errorsIs err ECONNREFUSED then (OutcomeFailed, FailureTCPConnectionRefused_ssh)
      else if errorsIs err ENETUNREACH \<or> errorsIs err EHOSTUNREACH then (OutcomeFailed, FailureTCPNoRoute_ssh)
      else if isReset_ssh err then (OutcomeFailed, FailureTCPConnectionReset_ssh)
      else (OutcomeFailed, FailureTCP_ssh))"

text \<open>\<open>errLineLimit\<close> never leaves the exchange; it would take the default branch.\<close>

fun classifyUnconfirmedReason_ssh :: "exchangeError \<Rightarrow> UnconfirmedReason_ssh" where
  "classifyUnconfirmedReason_ssh (ErrInvalidIdentification m) = UnconfirmedInvalidIdentification"
| "classifyUnconfirmedReason_ssh ErrPreambleLimit = UnconfirmedPreambleLimit"
| "classifyUnconfirmedReason_ssh ErrLineLimit = UnconfirmedExchangeFailure_ssh"
| "classifyUnconfirmedReason_ssh (ErrConn e) =
     (if isTimeout_ssh (Some e) then UnconfirmedTimeout
      else if isReset_ssh (Some e) then UnconfirmedConnectionReset_ssh
      else if errorsIs (Some e) SEOF \<or> errorsIs (Some e) SUnexpectedEOF \<or> errorsIs (Some e) SNetClosed
        then UnconfirmedConnectionClosed_ssh
      else UnconfirmedExchangeFailure_ssh)"

section \<open>The observer and its environment\<close>

definition defaultTimeout_ssh :: int where "defaultTimeout_ssh = 6 * Second"
definition maximumTimeout_ssh :: int where "maximumTimeout_ssh = 30 * Second"

record SshObserver =
  sob_timeout :: int
  sob_source :: Source

definition newObserver_ssh :: "SshConfig \<Rightarrow> error + SshObserver" where
  "newObserver_ssh config =
     (let timeout = (if scfg_Timeout config = 0 then defaultTimeout_ssh else scfg_Timeout config) in
      if timeout < 0 \<or> maximumTimeout_ssh < timeout then Inl ''timeout must be between zero and 30s''
      else Inr \<lparr>sob_timeout = timeout,
        sob_source = \<lparr>src_backend = ''go-stdlib-tcp-ssh-identification'',
          src_capability = CapabilityNative, src_reason = ''''\<rparr>\<rparr>)"

record SshWorld =
  sw_now :: "nat \<Rightarrow> gotime"
  sw_ctx :: ctx
  sw_fired :: "int \<Rightarrow> nat \<Rightarrow> bool"
  sw_dial :: "string \<Rightarrow> string \<Rightarrow> goerr + SshConn"
  sw_os :: string
  sw_arch :: string

definition durationMS_ssh :: "int \<Rightarrow> int" where
  "durationMS_ssh duration = (if duration < 0 then 0 else Milliseconds duration)"

definition canonicalRemoteEndpoint_ssh :: "string option \<Rightarrow> error + string" where
  "canonicalRemoteEndpoint_ssh address = (case address of
      None \<Rightarrow> Inl ''dialer returned no remote endpoint''
    | Some a \<Rightarrow> (case ParseAddrPort a of
        None \<Rightarrow> Inl ''parse remote endpoint: invalid address and port''
      | Some (ip, port) \<Rightarrow> Inr (AddrPortString (Unmap ip, port))))"

definition baseResult_ssh :: "SshWorld \<Rightarrow> SshObserver \<Rightarrow> gotime \<Rightarrow> gotime \<Rightarrow> SshInput \<Rightarrow> SshResult" where
  "baseResult_ssh w ob finishedAt startedAt inp = \<lparr>env_schema = SchemaVersion, env_probe = ProbeKind_ssh,
     env_observedAt = UTC finishedAt, env_durationMS = durationMS_ssh (Sub finishedAt startedAt),
     env_platform = \<lparr>plat_os = sw_os w, plat_arch = sw_arch w\<rparr>, env_source = sob_source ob,
     env_input = inp, env_outcome = OutcomeOther '''', env_evidence = None, env_failure = None\<rparr>"

definition failureResult_ssh :: "SshWorld \<Rightarrow> SshObserver \<Rightarrow> gotime \<Rightarrow> gotime \<Rightarrow> SshInput \<Rightarrow>
    Outcome \<Rightarrow> FailureCode \<Rightarrow> goerr option \<Rightarrow> SshResult" where
  "failureResult_ssh w ob finishedAt startedAt inp outcome code err =
     (baseResult_ssh w ob finishedAt startedAt inp)\<lparr>env_outcome := outcome,
        env_failure := Some \<lparr>fail_code = code,
          fail_detail = (case err of None \<Rightarrow> '''' | Some e \<Rightarrow> err_text e)\<rparr>\<rparr>"

definition successResult_ssh :: "SshWorld \<Rightarrow> SshObserver \<Rightarrow> gotime \<Rightarrow> gotime \<Rightarrow> SshInput \<Rightarrow> SshEvidence \<Rightarrow> SshResult" where
  "successResult_ssh w ob finishedAt startedAt inp evidence =
     (baseResult_ssh w ob finishedAt startedAt inp)\<lparr>env_outcome := OutcomeSucceeded,
        env_evidence := Some evidence\<rparr>"

text \<open>\<open>commitEvidence\<close> reads the contexts at \<open>k\<close>, \<open>k + 1\<close>, \<open>k + 2\<close> (and \<open>k + 1\<close> for the text).\<close>

definition commitEvidence_ssh :: "SshWorld \<Rightarrow> SshObserver \<Rightarrow> ctx \<Rightarrow> nat \<Rightarrow> gotime \<Rightarrow> gotime \<Rightarrow> SshInput \<Rightarrow>
    SshEvidence \<Rightarrow> SshResult" where
  "commitEvidence_ssh w ob attempt k finishedAt startedAt inp evidence =
     (if errorsIs (ctxErrAt (sw_ctx w) k) SCanceled
      then failureResult_ssh w ob finishedAt startedAt inp OutcomeCancelled FailureCancelled
             (ctxErrAt (sw_ctx w) (k + 1))
      else successResult_ssh w ob finishedAt startedAt inp
        (if ctxErrAt (sw_ctx w) (k + 1) \<noteq> None \<or> ctxErrAt attempt (k + 2) \<noteq> None
         then evidence\<lparr>sev_Identification := (sev_Identification evidence)\<lparr>
             ident_Status := IdentificationUnconfirmed, ident_Reason := UnconfirmedTimeout,
             ident_Server := '''', ident_ProtocolVersion := '''', ident_SoftwareVersion := '''',
             ident_Comments := ''''\<rparr>\<rparr>
         else evidence))"

text \<open>
  The identification stage on a connection to the right endpoint; the exchange is timed by the
  clock readings 3 and 4, and the second component is the next reading. A context of
  \<open>WithTimeout\<close> always has a deadline, so the branch for a missing one is not taken. The
  interrupt that moves the deadline when the attempt ends acts on the answers of the reads.
\<close>

definition noEvidence :: Identification where
  "noEvidence = \<lparr>ident_Status = IdentificationStatusOther '''', ident_Reason = UnconfirmedOther_ssh '''',
     ident_Server = '''', ident_ProtocolVersion = '''', ident_SoftwareVersion = '''',
     ident_Comments = '''', ident_PreambleLines = 0, ident_ClientSent = False, ident_ExchangeMS = 0\<rparr>"

definition identificationStage :: "SshWorld \<Rightarrow> SshConn \<Rightarrow> Identification \<times> nat" where
  "identificationStage w conn =
     (if sc_SetDeadline conn \<noteq> None
      then (noEvidence\<lparr>ident_Status := IdentificationUnconfirmed,
              ident_Reason := UnconfirmedExchangeFailure_ssh\<rparr>, 3)
      else
       (let (parsed, exchangeErr) = exchangeIdentification conn;
            identification = noEvidence\<lparr>ident_PreambleLines := pid_preambleLines parsed,
              ident_ClientSent := pid_clientLineSent parsed,
              ident_ExchangeMS := durationMS_ssh (Sub (sw_now w 4) (sw_now w 3))\<rparr> in
        ((case exchangeErr of
            None \<Rightarrow> identification\<lparr>ident_Status := IdentificationReceived, ident_Server := pid_raw parsed,
              ident_ProtocolVersion := pid_protocolVersion parsed,
              ident_SoftwareVersion := pid_softwareVersion parsed, ident_Comments := pid_comments parsed\<rparr>
          | Some e \<Rightarrow> identification\<lparr>ident_Status := IdentificationUnconfirmed,
              ident_Reason := classifyUnconfirmedReason_ssh e\<rparr>), 5)))"

definition Observe_ssh :: "SshWorld \<Rightarrow> SshObserver \<Rightarrow> SshRequest \<Rightarrow> SshResult" where
  "Observe_ssh w ob request =
     (let now = sw_now w; ctx = sw_ctx w; startedAt = now 0;
          (inp, target, err) = normalizeRequest_ssh request in
      if err \<noteq> None then
        failureResult_ssh w ob (now 1) startedAt inp OutcomeFailed FailureInvalidInput (map_option plainErr err)
      else if ctxErrAt ctx 0 \<noteq> None then
        (let (outcome, code) = classifyTCPFailure_ssh ctx ctx 2 (ctxErrAt ctx 1) in
         failureResult_ssh w ob (now 1) startedAt inp outcome code (ctxErrAt ctx 6))
      else
        (let attempt = withTimeout ctx (sw_fired w (sob_timeout ob)); connectStarted = now 1; connectDone = now 2 in
         case sw_dial w (stgt_network target) (stgt_endpoint target) of
           Inl e \<Rightarrow>
             (let (outcome, code) = classifyTCPFailure_ssh ctx attempt 2 (Some e) in
              failureResult_ssh w ob (now 3) connectStarted inp outcome code (Some e))
         | Inr conn \<Rightarrow>
             (case canonicalRemoteEndpoint_ssh (sc_RemoteAddr conn) of
                Inl m \<Rightarrow> failureResult_ssh w ob (now 3) startedAt inp OutcomeFailed FailureTCP_ssh (Some (plainErr m))
              | Inr remoteEndpoint \<Rightarrow>
                  if remoteEndpoint \<noteq> stgt_endpoint target then
                    failureResult_ssh w ob (now 3) startedAt inp OutcomeFailed FailureTCP_ssh
                      (Some (plainErr ''dialer connected to another endpoint''))
                  else
                    (let (identification, readings) = identificationStage w conn in
                     commitEvidence_ssh w ob attempt 6 (now readings) startedAt inp
                       \<lparr>sev_RemoteEndpoint = remoteEndpoint,
                        sev_TCPConnectMS = durationMS_ssh (Sub connectDone connectStarted),
                        sev_Identification = identification\<rparr>))))"

section \<open>Validate\<close>

definition validFailureCode_ssh :: "FailureCode \<Rightarrow> bool" where
  "validFailureCode_ssh code = (code \<in> {FailureInvalidInput, FailureCancelled, FailureTCPConnectionRefused_ssh,
     FailureTCPNoRoute_ssh, FailureTCPTimeout_ssh, FailureTCPConnectionReset_ssh, FailureTCP_ssh})"

definition validUnconfirmedReason_ssh :: "UnconfirmedReason_ssh \<Rightarrow> bool" where
  "validUnconfirmedReason_ssh reason = (reason \<in> {UnconfirmedInvalidIdentification, UnconfirmedTimeout,
     UnconfirmedConnectionClosed_ssh, UnconfirmedConnectionReset_ssh, UnconfirmedPreambleLimit,
     UnconfirmedExchangeFailure_ssh})"

definition Validate_ssh_status :: "Identification \<Rightarrow> error option" where
  "Validate_ssh_status t = (case ident_Status t of
      IdentificationReceived \<Rightarrow> firstErr [
        guard (ident_Reason t \<noteq> UnconfirmedOther_ssh '''')
          ''received identification must not include an unconfirmed reason'',
        guard (\<not> ident_ClientSent t) ''received identification requires the client line to be sent'',
        (case parseIdentificationLine (ident_Server t @ [CR, LF]) of
           (parsed, Some e) \<Rightarrow> Some ''server identification is invalid''
         | (parsed, None) \<Rightarrow>
             guard (pid_raw parsed \<noteq> ident_Server t \<or>
                 pid_protocolVersion parsed \<noteq> ident_ProtocolVersion t \<or>
                 pid_softwareVersion parsed \<noteq> ident_SoftwareVersion t \<or>
                 pid_comments parsed \<noteq> ident_Comments t)
               ''structured identification fields do not match the server line'')]
    | IdentificationUnconfirmed \<Rightarrow> firstErr [
        guard (\<not> validUnconfirmedReason_ssh (ident_Reason t)) ''unsupported unconfirmed reason'',
        guard (ident_Server t \<noteq> '''' \<or> ident_ProtocolVersion t \<noteq> '''' \<or>
            ident_SoftwareVersion t \<noteq> '''' \<or> ident_Comments t \<noteq> '''')
          ''unconfirmed identification must not include parsed server fields'']
    | IdentificationStatusOther s \<Rightarrow>
        Some (if s = '''' then ''identification status must not be empty''
              else ''unsupported identification status''))"

definition Validate_ssh_target :: "SshResult \<Rightarrow> error option" where
  "Validate_ssh_target result =
     (let (text, address, err) = NormalizePublicIP (sin_DialIP (env_input result)) in firstErr [
        wrapErr ''input dial_ip is not an allowed public address: '' err,
        guard (text \<noteq> sin_DialIP (env_input result)) ''input dial_ip must be canonical'',
        guard (sin_Family (env_input result) \<noteq> (if Is4 address then FamilyIPv4_ssh else FamilyIPv6_ssh))
          ''input family does not match dial_ip'',
        (if env_outcome result \<noteq> OutcomeSucceeded then None
         else case env_evidence result of
            None \<Rightarrow> Some ''panic: nil evidence''
          | Some evidence \<Rightarrow> firstErr [
              guard (sev_RemoteEndpoint evidence \<noteq> AddrPortString (address, sin_Port (env_input result)))
                ''remote endpoint must match'',
              guard (sev_TCPConnectMS evidence < 0) ''tcp_connect_ms must not be negative'',
              guard (ident_ExchangeMS (sev_Identification evidence) < 0) ''exchange_ms must not be negative'',
              guard (env_durationMS result <
                  add64 (sev_TCPConnectMS evidence) (ident_ExchangeMS (sev_Identification evidence)))
                ''stage timings must fit within total duration'',
              guard (ident_PreambleLines (sev_Identification evidence) < 0 \<or>
                  maxPreambleLines < ident_PreambleLines (sev_Identification evidence))
                ''preamble_lines must be between zero and 16'',
              Validate_ssh_status (sev_Identification evidence)])])"

definition Validate_ssh :: "SshResult \<Rightarrow> error option" where
  "Validate_ssh result = firstErr [
     wrapErr ''invalid probe envelope: '' (Validate_envelope result),
     guard (env_probe result \<noteq> ProbeKind_ssh) ''probe must be ssh_observation'',
     guard (sin_Port (env_input result) = 0) ''input port must not be zero'',
     guard (sin_ClientIdentification (env_input result) \<noteq> ClientIdentification)
       ''input client identification must be the fixed module value'',
     (case env_failure result of
        None \<Rightarrow> Validate_ssh_target result
      | Some f \<Rightarrow>
          if \<not> validFailureCode_ssh (fail_code f) then Some ''unsupported SSH observation failure code''
          else if fail_code f = FailureInvalidInput then
            (let (normalized, target, normalizeErr) =
                   normalizeRequest_ssh \<lparr>sreq_DialIP = sin_DialIP (env_input result),
                     sreq_Port = sin_Port (env_input result)\<rparr> in firstErr [
              guard (normalizeErr = None) ''invalid_input failure requires an invalid target'',
              guard (normalized \<noteq> env_input result)
                ''invalid_input must preserve the normalized and derived representation''])
          else Validate_ssh_target result)]"

end
