(* ===== verification/SshProps.thy ===== *)
theory SshProps
  imports SshObservation TlsProps GoUrlProps
begin

text \<open>
  What the SSH observation guarantees: its parser accepts exactly the printed identification
  lines, a peer that sends one within the limits is recognized, the exchange reads a bounded
  number of bytes, and the validator accepts every result but one kind.
\<close>

section \<open>Identification lines\<close>

text \<open>The line of RFC 4253, section 4.2, without its end, and with it.\<close>

definition sshText :: "string \<Rightarrow> string \<Rightarrow> string \<Rightarrow> string" where
  "sshText version software comments =
     ''SSH-'' @ version @ ''-'' @ software @ (if comments = '''' then '''' else '' '' @ comments)"

definition lineEnd :: "bool \<Rightarrow> string" where
  "lineEnd cr = (if cr then [CR, LF] else [LF])"

definition identification_ok :: "string \<Rightarrow> string \<Rightarrow> string \<Rightarrow> bool \<Rightarrow> bool" where
  "identification_ok version software comments cr \<longleftrightarrow>
     validProtocolVersion version \<and> (version = ''2.0'' \<longrightarrow> cr) \<and> validVersionField software \<and>
     validComments comments \<and>
     length (sshText version software comments @ lineEnd cr) \<le> maxIdentificationBytes"

definition identified :: "string \<Rightarrow> string \<Rightarrow> string \<Rightarrow> parsedIdentification" where
  "identified version software comments = noIdentification\<lparr>pid_raw := sshText version software comments,
     pid_protocolVersion := version, pid_softwareVersion := software, pid_comments := comments\<rparr>"

lemma CR_LF [simp]: "CR \<noteq> LF" "LF \<noteq> CR" "byte CR = 13" "byte LF = 10"
  by (simp_all add: CR_def LF_def)

lemma version_chars: "validProtocolVersion v \<Longrightarrow> CHR ''-'' \<notin> set v \<and> v \<noteq> ''''"
  by (auto simp: validProtocolVersion_def)

lemma software_chars:
  "validVersionField s \<Longrightarrow> s \<noteq> '''' \<and> CHR '' '' \<notin> set s \<and> CHR ''-'' \<notin> set s \<and> CR \<notin> set s \<and> LF \<notin> set s"
  by (intro conjI notI) (auto simp: validVersionField_def list_ex_iff dest!: bspec)

lemma comment_chars: "validComments s \<Longrightarrow> CR \<notin> set s \<and> LF \<notin> set s"
  by (intro conjI notI) (auto simp: validComments_def list_ex_iff dest!: bspec)

lemma startsWith_split: "startsWith p s \<Longrightarrow> s = p @ drop (length p) s"
  unfolding startsWith_def by (metis append_take_drop_id)

lemma last_not_in: "xs \<noteq> [] \<Longrightarrow> x \<notin> set xs \<Longrightarrow> last xs \<noteq> x"
  using last_in_set by metis

lemma sshText_last:
  assumes "validVersionField s" "validComments c"
  shows "last (sshText v s c) \<noteq> CR" "last (sshText v s c) \<noteq> LF" "sshText v s c \<noteq> ''''"
  using software_chars [OF assms(1)] comment_chars [OF assms(2)] last_not_in [of s] last_not_in [of c]
  by (cases "c = ''''"; simp add: sshText_def)+

lemma parse_sshText:
  assumes "identification_ok v s c cr"
  shows "parseIdentificationLine (sshText v s c @ lineEnd cr) = (identified v s c, None)"
proof -
  note ok = assms [unfolded identification_ok_def]
  let ?t = "sshText v s c" let ?l = "?t @ lineEnd cr"
  note lt = sshText_last [of s c v]
  have l: "?l \<noteq> []" "last ?l = LF" "length ?l \<le> maxIdentificationBytes"
    using ok by (simp_all add: lineEnd_def)
  have b: "butlast ?l = (if cr then ?t @ [CR] else ?t)" by (simp add: lineEnd_def butlast_append)
  have prefix: "startsWith ''SSH-'' ?t" by (simp add: startsWith_def sshText_def)
  have rest: "drop 4 ?t = v @ CHR ''-'' # s @ (if c = '''' then '''' else '' '' @ c)" by (simp add: sshText_def)
  have c1: "cutAt (CHR ''-'') (drop 4 ?t) = (v, s @ (if c = '''' then '''' else '' '' @ c), True)"
    unfolding rest by (rule cutAt_Some) (use ok version_chars in blast)
  have c2: "cutAt (CHR '' '') (s @ (if c = '''' then '''' else '' '' @ c)) = (s, c, c \<noteq> '''')"
    using software_chars [of s] ok by (simp add: cutAt_None cutAt_Some)
  have nCR: "cr \<or> \<not> (?t \<noteq> [] \<and> last ?t = CR)" using lt ok by simp
  show ?thesis
    using ok l prefix c1 c2 version_chars [of v] software_chars [of s] nCR b
    by (auto simp: parseIdentificationLine_def Let_def identified_def noIdentification_def)
qed

lemma parse_cases:
  assumes "parseIdentificationLine line = (p, None)"
  shows "\<exists>v s c cr. line = sshText v s c @ lineEnd cr \<and> identification_ok v s c cr \<and> p = identified v s c"
proof -
  let ?c0 = "butlast line"
  let ?cr = "?c0 \<noteq> [] \<and> last ?c0 = CR"
  let ?t = "if ?cr then butlast ?c0 else ?c0"
  obtain v rest found where c1: "cutAt (CHR ''-'') (drop 4 ?t) = (v, rest, found)" by (metis prod_cases3)
  obtain s c space where c2: "cutAt (CHR '' '') rest = (s, c, space)" by (metis prod_cases3)
  have h: "line \<noteq> []" "last line = LF" "length line \<le> maxIdentificationBytes" "startsWith ''SSH-'' ?t" "found"
    "v \<noteq> ''''" "rest \<noteq> ''''" "space \<longrightarrow> c \<noteq> ''''" "validProtocolVersion v" "v = ''2.0'' \<longrightarrow> ?cr"
    "validVersionField s" "c \<noteq> '''' \<longrightarrow> validComments c"
    "p = \<lparr>pid_raw = ?t, pid_protocolVersion = v, pid_softwareVersion = s, pid_comments = c,
       pid_preambleLines = 0, pid_clientLineSent = False\<rparr>"
    using assms c1 c2
    by (auto simp: parseIdentificationLine_def Let_def split: if_split_asm)
  have four: "length ''SSH-'' = 4" by simp
  have t: "?t = ''SSH-'' @ drop 4 ?t"
    using startsWith_split [OF h(4)] unfolding four .
  have "cutAt (CHR ''-'') (drop 4 ?t) = (v, rest, True)" using c1 h(5) by (simp only:)
  then have "drop 4 ?t = v @ CHR ''-'' # rest" using cutAt_found by blast
  moreover have "rest = s @ (if c = '''' then '''' else '' '' @ c)"
  proof (cases space)
    case True
    then show ?thesis using c2 h(8) cutAt_found [of "CHR '' ''" rest s c] by simp
  next
    case False
    then show ?thesis using c2 cutAt_not_found [of "CHR '' ''" rest s c] cutAt_None [of "CHR '' ''" rest] by simp
  qed
  ultimately have tt: "?t = sshText v s c" using t by (simp add: sshText_def)
  have l1: "line = ?c0 @ [LF]" using append_butlast_last_id [OF h(1)] unfolding h(2) by (rule sym)
  have l2: "?c0 = ?t @ (if ?cr then [CR] else [])"
  proof (cases ?cr)
    case True
    then have "butlast ?c0 @ [last ?c0] = ?c0" by (intro append_butlast_last_id) simp
    with True show ?thesis by simp
  qed auto
  have "line = ?t @ lineEnd ?cr"
  proof -
    have "(?t @ (if ?cr then [CR] else [])) @ [LF] = ?t @ lineEnd ?cr"
      by (simp only: lineEnd_def append_assoc if_distrib [of "\<lambda>x. x @ [LF]"] append.simps)
    then show ?thesis using l1 l2 by (simp only:)
  qed
  then have line: "line = sshText v s c @ lineEnd ?cr" unfolding tt .
  have ok: "identification_ok v s c ?cr"
    using h line by (auto simp: identification_ok_def validComments_def)
  have "p = identified v s c" using h(13) tt by (simp add: identified_def noIdentification_def)
  with line ok show ?thesis by blast
qed

lemma parse_iff: "parseIdentificationLine line = (p, None) \<longleftrightarrow>
  (\<exists>v s c cr. line = sshText v s c @ lineEnd cr \<and> identification_ok v s c cr \<and> p = identified v s c)"
proof
  assume "\<exists>v s c cr. line = sshText v s c @ lineEnd cr \<and> identification_ok v s c cr \<and> p = identified v s c"
  then show "parseIdentificationLine line = (p, None)" using parse_sshText by blast
qed (rule parse_cases)

lemma parse_length: "parseIdentificationLine line = (p, None) \<Longrightarrow> length line \<le> maxIdentificationBytes"
  by (auto simp: parseIdentificationLine_def Let_def split: if_split_asm)

section \<open>Reading\<close>

text \<open>A line takes at most one read more than the bytes it holds, and both are bounded.\<close>

lemma readServerLine_bounds:
  "readServerLine read k r line = (line', e, k') \<Longrightarrow> length line < max 255 (nat r) \<Longrightarrow>
   k' + length line \<le> k + max 255 (nat r) \<and> k \<le> k' \<and>
   (e = None \<longrightarrow> k' + length line = k + length line' \<and> (startsWith ''SSH-'' line' \<or> int (length line') \<le> r))"
proof (induction read k r line rule: readServerLine.induct)
  case (1 read k r line)
  note eq = "1.prems"(1) [unfolded readServerLine.simps [of read k r line]]
  obtain one err where rk: "read k = (one, err)" by (cases "read k")
  show ?case
  proof (cases one)
    case None
    with eq rk "1.prems"(2) show ?thesis by auto
  next
    case (Some c)
    show ?thesis
    proof (cases "lineStep r (line @ [c]) c")
      case step: (Some answer)
      then have "answer = None \<Longrightarrow> startsWith ''SSH-'' (line @ [c]) \<or> int (length (line @ [c])) \<le> r"
        by (auto simp: lineStep_def Let_def split: if_split_asm)
      with step Some eq rk "1.prems"(2) show ?thesis by auto
    next
      case step: None
      note less = lineStep_continues [OF step]
      show ?thesis
      proof (cases err)
        case (Some e')
        with step \<open>one = Some c\<close> eq rk "1.prems"(2) show ?thesis by auto
      next
        case None
        with step Some eq rk have "readServerLine read (k + 1) r (line @ [c]) = (line', e, k')" by simp
        from "1.IH" [OF rk [symmetric] Some step None this less] show ?thesis using less by auto
      qed
    qed
  qed
qed

text \<open>Every exchange reads a bounded number of bytes and counts at most 16 lines before the answer.\<close>

lemma exchangeLoop_bounds:
  "exchangeLoop read sent k n b = (p, e, k') \<Longrightarrow> 0 \<le> n \<Longrightarrow> n \<le> maxPreambleLines \<Longrightarrow> 0 \<le> b \<Longrightarrow> b \<le> maxPreambleBytes \<Longrightarrow>
   k \<le> k' \<and> int k' - int k \<le> maxPreambleBytes - b + 255 \<and> 0 \<le> pid_preambleLines p \<and>
   pid_preambleLines p \<le> maxPreambleLines \<and> pid_clientLineSent p = sent \<and> e \<noteq> Some ErrLineLimit \<and>
   (e = None \<longrightarrow> (\<exists>line q m. parseIdentificationLine line = (q, None) \<and>
      p = q\<lparr>pid_preambleLines := m, pid_clientLineSent := sent\<rparr>))"
proof (induction read sent k n b rule: exchangeLoop.induct)
  case (1 read sent k n b)
  obtain line re k1 where rl: "readServerLine read k (maxPreambleBytes - b) '''' = (line, re, k1)"
    by (metis prod_cases3)
  note eq = "1.prems"(1) [unfolded exchangeLoop.simps [of read sent k n b] Let_def rl prod.case]
  have "length '''' < max 255 (nat (maxPreambleBytes - b))" by (simp add: less_max_iff_disj)
  note bd = readServerLine_bounds [OF rl this]
  have k1: "k \<le> k1" "int k1 - int k \<le> maxPreambleBytes - b + 255"
    using bd "1.prems"(5) by (auto simp: max_def split: if_splits)
  show ?case
  proof (cases re)
    case (Some x)
    with eq k1 "1.prems"(2,3) show ?thesis by (auto split: if_split_asm)
  next
    case None
    show ?thesis
    proof (cases "startsWith ''SSH-'' line")
      case True
      obtain q err where q: "parseIdentificationLine line = (q, err)" by (cases "parseIdentificationLine line")
      have "err \<noteq> Some ErrLineLimit"
        using q by (auto simp: parseIdentificationLine_def Let_def split: if_split_asm prod.splits)
      with True None eq q k1 "1.prems"(2,3) show ?thesis by (auto intro!: exI [of _ line])
    next
      case False
      show ?thesis
      proof (cases "maxPreambleLines \<le> n \<or> maxPreambleBytes < b + int (length line)")
        case True
        with False None eq k1 "1.prems"(2,3) show ?thesis by auto
      next
        case go: False
        with False None eq have loop: "exchangeLoop read sent k1 (n + 1) (b + int (length line)) = (p, e, k')" by simp
        have len: "k1 = k + length line" using bd None by auto
        note IH = "1.IH" [OF refl rl [symmetric] refl refl refl None False go loop]
        show ?thesis using IH len go k1 "1.prems"(2,4) by auto
      qed
    qed
  qed
qed

section \<open>A peer that identifies itself is recognized\<close>

text \<open>The peer's bytes from read k on start with those of v.\<close>

definition sends :: "(nat \<Rightarrow> char option \<times> goerr option) \<Rightarrow> nat \<Rightarrow> string \<Rightarrow> bool" where
  "sends read k v \<longleftrightarrow> (\<forall>i < length v. read (k + i) = (Some (v ! i), None))"

lemma sends_append: "sends read k (a @ b) \<longleftrightarrow> sends read k a \<and> sends read (k + length a) b"
proof
  assume s: "sends read k (a @ b)"
  have "read (k + i) = (Some (a ! i), None)" if "i < length a" for i
    using s that unfolding sends_def by (metis length_append nth_append trans_less_add1)
  moreover have "read (k + length a + i) = (Some (b ! i), None)" if "i < length b" for i
    using s [unfolded sends_def, rule_format, of "length a + i"] that by (simp add: add.assoc)
  ultimately show "sends read k a \<and> sends read (k + length a) b" by (simp add: sends_def)
next
  assume s: "sends read k a \<and> sends read (k + length a) b"
  show "sends read k (a @ b)"
    unfolding sends_def
  proof (intro allI impI)
    fix i
    assume i: "i < length (a @ b)"
    show "read (k + i) = (Some ((a @ b) ! i), None)"
    proof (cases "i < length a")
      case True
      with s show ?thesis by (simp add: sends_def nth_append)
    next
      case False
      with s [THEN conjunct2, unfolded sends_def, rule_format, of "i - length a"] i
      show ?thesis by (simp add: nth_append)
    qed
  qed
qed

text \<open>A line within the limits: an identification of at most 255 bytes, or a line of the preamble.\<close>

definition line_fits :: "int \<Rightarrow> string \<Rightarrow> bool" where
  "line_fits r line \<longleftrightarrow> line \<noteq> '''' \<and> last line = LF \<and> LF \<notin> set (butlast line) \<and>
     (if startsWith ''SSH-'' line then length line \<le> maxIdentificationBytes else int (length line) \<le> r)"

lemma startsWith_prefix: "startsWith p (take n s) \<Longrightarrow> startsWith p s"
proof -
  assume p: "startsWith p (take n s)"
  then have "length (take (length p) (take n s)) = length p" by (simp only: startsWith_def)
  then have "length p \<le> n" by simp
  with p show ?thesis by (simp add: startsWith_def min_def)
qed

lemma lineStep_inside:
  assumes "line_fits r line" "Suc j < length line"
  shows "lineStep r (take (Suc j) line) (line ! j) = None"
proof -
  have "butlast line ! j \<in> set (butlast line)" using assms(2) by (intro nth_mem) simp
  then have "line ! j \<in> set (butlast line)" using assms(2) by (simp add: nth_butlast)
  then have "line ! j \<noteq> LF" using assms(1) by (auto simp: line_fits_def)
  moreover have "startsWith ''SSH-'' (take (Suc j) line) \<or> length (take (Suc j) line) < 4 \<and> startsWith (take (Suc j) line) ''SSH-''"
    if ssh: "startsWith ''SSH-'' line"
  proof (cases "Suc j < 4")
    case True
    obtain rest where "line = ''SSH-'' @ rest" using startsWith_split [OF ssh] by blast
    moreover have "j = 0 \<or> j = 1 \<or> j = 2" using True by arith
    ultimately show ?thesis by (auto simp: startsWith_def)
  next
    case False
    with ssh have "startsWith ''SSH-'' (take (Suc j) line)" by (simp add: startsWith_def min_def numeral_eq_Suc)
    then show ?thesis ..
  qed
  ultimately show ?thesis
    using assms startsWith_prefix [of "''SSH-''" "Suc j" line]
    by (cases "startsWith ''SSH-'' line") (auto simp: lineStep_def line_fits_def Let_def)
qed

lemma lineStep_last:
  assumes "line_fits r line"
  shows "lineStep r line LF = Some None"
proof -
  have "\<not> (length line < 4 \<and> startsWith line ''SSH-'')"
  proof
    assume a: "length line < 4 \<and> startsWith line ''SSH-''"
    then have "set line \<subseteq> set ''SSH-''" unfolding startsWith_def by (metis set_take_subset)
    moreover have "LF \<in> set line" using assms last_in_set by (metis line_fits_def)
    ultimately show False by (auto simp: LF_def)
  qed
  with assms show ?thesis by (auto simp: lineStep_def line_fits_def Let_def split: if_split_asm)
qed

lemma readServerLine_line:
  assumes "line_fits r line" "sends read k line"
  shows "readServerLine read k r '''' = (line, None, k + length line)"
proof -
  have "j < length line \<Longrightarrow> readServerLine read (k + j) r (take j line) = (line, None, k + length line)" for j
  proof (induction "length line - j" arbitrary: j rule: less_induct)
    case less
    have rd: "read (k + j) = (Some (line ! j), None)" using assms(2) less.prems by (simp add: sends_def)
    have tk: "take j line @ [line ! j] = take (Suc j) line" using less.prems by (simp add: take_Suc_conv_app_nth)
    show ?case
    proof (cases "Suc j < length line")
      case True
      have "readServerLine read (k + Suc j) r (take (Suc j) line) = (line, None, k + length line)"
        by (rule less.hyps) (use True in simp_all)
      with True show ?thesis
        by (subst readServerLine.simps) (simp add: rd tk lineStep_inside [OF assms(1)])
    next
      case False
      then have j: "Suc j = length line" using less.prems by simp
      have "line ! (length line - 1) = LF"
        using assms(1) last_conv_nth [of line] by (simp add: line_fits_def)
      moreover have "length line - 1 = j" using j by simp
      ultimately have "line ! j = LF" "take j line @ [LF] = line" using j tk by simp_all
      then show ?thesis
        by (subst readServerLine.simps) (simp add: rd j lineStep_last [OF assms(1)])
    qed
  qed
  from this [of 0] show ?thesis using assms(1) by (simp add: line_fits_def)
qed

lemma identification_fits:
  assumes "identification_ok v s c cr"
  shows "line_fits r (sshText v s c @ lineEnd cr)" "startsWith ''SSH-'' (sshText v s c @ lineEnd cr)"
proof -
  note ok = assms [unfolded identification_ok_def]
  show ssh: "startsWith ''SSH-'' (sshText v s c @ lineEnd cr)" by (simp add: startsWith_def sshText_def)
  have "LF \<notin> set (sshText v s c)"
    using ok software_chars [of s] comment_chars [of c]
    by (auto simp: sshText_def validProtocolVersion_def LF_def)
  with ok ssh show "line_fits r (sshText v s c @ lineEnd cr)"
    by (simp add: line_fits_def lineEnd_def butlast_append)
qed

definition preambleLine :: "string \<Rightarrow> bool" where
  "preambleLine l \<longleftrightarrow> l \<noteq> '''' \<and> last l = LF \<and> LF \<notin> set (butlast l) \<and> \<not> startsWith ''SSH-'' l"

lemma exchangeLoop_complete:
  assumes ok: "identification_ok v s c cr"
  shows "sends read k (concat pre @ sshText v s c @ lineEnd cr) \<Longrightarrow> list_all preambleLine pre \<Longrightarrow>
    n + int (length pre) \<le> maxPreambleLines \<Longrightarrow> b + int (length (concat pre)) \<le> maxPreambleBytes \<Longrightarrow>
    exchangeLoop read sent k n b =
      ((identified v s c)\<lparr>pid_preambleLines := n + int (length pre), pid_clientLineSent := sent\<rparr>, None,
       k + length (concat pre @ sshText v s c @ lineEnd cr))"
proof (induction pre arbitrary: k n b)
  case Nil
  let ?l = "sshText v s c @ lineEnd cr"
  have "readServerLine read k (maxPreambleBytes - b) '''' = (?l, None, k + length ?l)"
    using Nil by (intro readServerLine_line identification_fits(1) [OF ok]) simp
  then show ?case
    by (simp add: exchangeLoop.simps [of read sent k n b] identification_fits(2) [OF ok] parse_sshText [OF ok])
next
  case (Cons l pre)
  have l: "preambleLine l" "\<not> startsWith ''SSH-'' l" using Cons.prems(2) by (simp_all add: preambleLine_def)
  have snd: "sends read k l" "sends read (k + length l) (concat pre @ sshText v s c @ lineEnd cr)"
    using Cons.prems(1) by (simp_all add: sends_append)
  have "readServerLine read k (maxPreambleBytes - b) '''' = (l, None, k + length l)"
    using l Cons.prems(4) by (intro readServerLine_line snd(1)) (simp add: line_fits_def preambleLine_def)
  moreover have "exchangeLoop read sent (k + length l) (n + 1) (b + int (length l)) =
      ((identified v s c)\<lparr>pid_preambleLines := n + 1 + int (length pre), pid_clientLineSent := sent\<rparr>, None,
       k + length l + length (concat pre @ sshText v s c @ lineEnd cr))"
    by (rule Cons.IH [OF snd(2)]) (use Cons.prems in simp_all)
  moreover have "\<not> (maxPreambleLines \<le> n \<or> maxPreambleBytes < b + int (length l))"
    using Cons.prems(3,4) by simp
  ultimately show ?case
    using l by (simp add: exchangeLoop.simps [of read sent k n b] algebra_simps)
qed

text \<open>A connection whose writes take at least one byte each takes the whole client line.\<close>

definition takes_writes :: "SshConn \<Rightarrow> bool" where
  "takes_writes conn \<longleftrightarrow> (\<forall>k v. v \<noteq> '''' \<longrightarrow> (\<exists>n. sc_Write conn k v = (n, None) \<and> 0 < n \<and> n \<le> length v))"

lemma writeAll_ssh_all:
  assumes "takes_writes conn"
  shows "writeAll_ssh (sc_Write conn) k w v = (w + length v, None)"
proof (induction "length v" arbitrary: k w v rule: less_induct)
  case less
  show ?case
  proof (cases "v = ''''")
    case True
    then show ?thesis by (simp add: writeAll_ssh.simps)
  next
    case False
    then obtain n where n: "sc_Write conn k v = (n, None)" "0 < n" "n \<le> length v"
      using assms by (auto simp: takes_writes_def)
    have "writeAll_ssh (sc_Write conn) (k + 1) (w + n) (drop n v) = (w + n + length (drop n v), None)"
      by (rule less) (use n False in simp)
    with n False show ?thesis by (simp add: writeAll_ssh.simps [of _ k])
  qed
qed

lemma exchangeIdentification_complete_lemma:
  assumes "takes_writes conn" "identification_ok v s c cr" "list_all preambleLine pre" "length pre \<le> 16"
    "length (concat pre) \<le> 4096" "sends (sc_Read conn) 0 (concat pre @ sshText v s c @ lineEnd cr)"
  shows "exchangeIdentification conn =
    ((identified v s c)\<lparr>pid_preambleLines := int (length pre), pid_clientLineSent := True\<rparr>, None)"
  using exchangeLoop_complete [OF assms(2,6,3), of 0 0 True] assms(4,5) writeAll_ssh_all [OF assms(1)]
  by (simp add: exchangeIdentification_def maxPreambleLines_def maxPreambleBytes_def)

section \<open>Valid results\<close>

lemma durationMS_ssh_tls [simp]: "durationMS_ssh = durationMS_tls"
  by (intro ext) (simp add: durationMS_ssh_def durationMS_tls_def)

lemma newObserver_ssh_source:
  "newObserver_ssh cfg = Inr ob \<Longrightarrow> sob_source ob =
     \<lparr>src_backend = ''go-stdlib-tcp-ssh-identification'', src_capability = CapabilityNative, src_reason = ''''\<rparr>"
  by (auto simp: newObserver_ssh_def Let_def split: if_splits)

lemma baseResult_ssh_sel [simp]:
  "env_schema (baseResult_ssh w ob f s i) = SchemaVersion"
  "env_probe (baseResult_ssh w ob f s i) = ProbeKind_ssh"
  "env_observedAt (baseResult_ssh w ob f s i) = UTC f"
  "env_durationMS (baseResult_ssh w ob f s i) = durationMS_tls (Sub f s)"
  "env_platform (baseResult_ssh w ob f s i) = \<lparr>plat_os = sw_os w, plat_arch = sw_arch w\<rparr>"
  "env_source (baseResult_ssh w ob f s i) = sob_source ob"
  "env_input (baseResult_ssh w ob f s i) = i"
  "env_evidence (baseResult_ssh w ob f s i) = None"
  "env_failure (baseResult_ssh w ob f s i) = None"
  by (simp_all add: baseResult_ssh_def)

lemma failureResult_ssh_sel [simp]:
  "env_outcome (failureResult_ssh w ob f s i oc c e) = oc"
  "env_input (failureResult_ssh w ob f s i oc c e) = i"
  "env_evidence (failureResult_ssh w ob f s i oc c e) = None"
  "env_probe (failureResult_ssh w ob f s i oc c e) = ProbeKind_ssh"
  "env_failure (failureResult_ssh w ob f s i oc c e) =
     Some \<lparr>fail_code = c, fail_detail = (case e of None \<Rightarrow> '''' | Some x \<Rightarrow> err_text x)\<rparr>"
  by (simp_all add: failureResult_ssh_def)

lemma classifyTCPFailure_ssh_coherent:
  assumes "classifyTCPFailure_ssh p a k e = (oc, c)"
  shows "coherent oc c" "validFailureCode_ssh c" "c \<noteq> FailureInvalidInput" "oc \<noteq> OutcomeSucceeded"
  using assms by (auto simp: classifyTCPFailure_ssh_def coherent_def validFailureCode_ssh_def ssh_codes split: if_splits)

lemma normalizeRequest_ssh_ok:
  assumes "normalizeRequest_ssh r = (i, t, None)"
  obtains ip where "NormalizePublicIP (sreq_DialIP r) = (sin_DialIP i, ip, None)"
    "NormalizePublicIP (sin_DialIP i) = (sin_DialIP i, ip, None)" "isAllowedPublicIP ip"
    "i = \<lparr>sin_DialIP = sin_DialIP i, sin_Family = (if Is4 ip then FamilyIPv4_ssh else FamilyIPv6_ssh),
       sin_Port = (if sreq_Port r = 0 then DefaultPort_ssh else sreq_Port r),
       sin_ClientIdentification = ClientIdentification\<rparr>"
    "stgt_endpoint t = AddrPortString (ip, sin_Port i)" "stgt_network t = (if Is4 ip then ''tcp4'' else ''tcp6'')"
proof -
  obtain tx ip where n: "NormalizePublicIP (sreq_DialIP r) = (tx, ip, None)"
    using assms by (auto simp: normalizeRequest_ssh_def Let_def split: prod.splits if_splits)
  note acc = NormalizePublicIP_accept_cases [OF n]
  have "NormalizePublicIP tx = (tx, ip, None)"
    using NormalizePublicIP_idempotent [of "sreq_DialIP r"] n by simp
  with assms n acc show ?thesis
    by (intro that [of ip]) (auto simp: normalizeRequest_ssh_def Let_def)
qed

lemma normalizeRequest_ssh_bad:
  assumes "normalizeRequest_ssh r = (i, t, Some m)"
  shows "normalizeRequest_ssh \<lparr>sreq_DialIP = sin_DialIP i, sreq_Port = sin_Port i\<rparr> = (i, t, Some m)"
    "sin_Port i \<noteq> 0" "sin_ClientIdentification i = ClientIdentification"
  using assms NormalizePublicIP_idempotent [of "sreq_DialIP r"]
  by (auto simp: normalizeRequest_ssh_def Let_def DefaultPort_ssh_def split: prod.splits if_splits)

definition env_ok :: "SshWorld \<Rightarrow> SshObserver \<Rightarrow> bool" where
  "env_ok w ob \<longleftrightarrow> clock_ok (sw_now w) \<and> platform_ok (sw_os w) (sw_arch w) \<and> (\<exists>cfg. newObserver_ssh cfg = Inr ob)"

lemma failureResult_ssh_envelope:
  assumes "env_ok w ob" "coherent oc c"
  shows "Validate_envelope (failureResult_ssh w ob (sw_now w n) s i oc c e) = None"
  using assms clock_nonzero [of "sw_now w" n]
  by (auto simp: Validate_envelope_None Validate_outcome_None failureResult_ssh_def coherent_def
      platform_ok_def newObserver_ssh_source env_ok_def)

lemma Validate_ssh_failure:
  assumes "env_ok w ob" "coherent oc c" "validFailureCode_ssh c" "c \<noteq> FailureInvalidInput" "oc \<noteq> OutcomeSucceeded"
    and n: "normalizeRequest_ssh r = (i, t, None)"
  shows "Validate_ssh (failureResult_ssh w ob (sw_now w n) s i oc c e) = None"
proof -
  obtain ip where "NormalizePublicIP (sin_DialIP i) = (sin_DialIP i, ip, None)"
    "i = \<lparr>sin_DialIP = sin_DialIP i, sin_Family = (if Is4 ip then FamilyIPv4_ssh else FamilyIPv6_ssh),
       sin_Port = (if sreq_Port r = 0 then DefaultPort_ssh else sreq_Port r),
       sin_ClientIdentification = ClientIdentification\<rparr>"
    using normalizeRequest_ssh_ok [OF n] by metis
  then have "NormalizePublicIP (sin_DialIP i) = (sin_DialIP i, ip, None)" "sin_Port i \<noteq> 0"
    "sin_Family i = (if Is4 ip then FamilyIPv4_ssh else FamilyIPv6_ssh)"
    "sin_ClientIdentification i = ClientIdentification"
    by (smt (verit) SshInput.select_convs DefaultPort_ssh_def zero_neq_numeral)+
  then show ?thesis
    using failureResult_ssh_envelope [OF assms(1,2)] assms(3-5)
    by (simp add: Validate_ssh_def Validate_ssh_target_def firstErr_simps Let_def)
qed

lemma Validate_ssh_invalid_input:
  assumes "env_ok w ob" and n: "normalizeRequest_ssh r = (i, t, Some m)"
  shows "Validate_ssh (failureResult_ssh w ob (sw_now w n) s i OutcomeFailed FailureInvalidInput e) = None"
  using failureResult_ssh_envelope [OF assms(1), of OutcomeFailed FailureInvalidInput]
    normalizeRequest_ssh_bad [OF n]
  by (simp add: Validate_ssh_def firstErr_simps Let_def coherent_def validFailureCode_ssh_def)

text \<open>The contract of \<open>io.Writer\<close>: a write takes at most the bytes it is given.\<close>

definition ssh_conn_ok :: "SshConn \<Rightarrow> bool" where
  "ssh_conn_ok conn \<longleftrightarrow> (\<forall>k v. fst (sc_Write conn k v) \<le> length v)"

lemma writeAll_ssh_written:
  "\<forall>k v. fst (wfun k v) \<le> length v \<Longrightarrow> writeAll_ssh wfun k w v = (w', None) \<Longrightarrow> w' = w + length v"
proof (induction wfun k w v rule: writeAll_ssh.induct)
  case (1 wfun k w v)
  show ?case
  proof (cases "v = ''''")
    case True
    then show ?thesis using "1.prems"(2) by (simp add: writeAll_ssh.simps)
  next
    case False
    obtain n e where wr: "wfun k v = (n, e)" by (cases "wfun k v")
    with False "1.prems"(2) have e: "e = None" and n: "n \<noteq> 0"
      and rec: "writeAll_ssh wfun (k + 1) (w + n) (drop n v) = (w', None)"
      by (simp_all add: writeAll_ssh.simps [of wfun k w v] split: option.splits if_splits)
    have le: "n \<le> length v" using "1.prems"(1) wr by (metis fst_conv)
    from "1.IH" [OF False wr [symmetric] e n "1.prems"(1) rec] le show ?thesis by simp
  qed
qed

text \<open>
  The validator reads the recorded line with the end of a version 2.0 line. A line of version
  1.99 may end without the carriage return, so a text of 254 bytes fits the exchange and not
  the validator.
\<close>

lemma parse_recorded:
  assumes "identification_ok v s c cr"
  shows "parseIdentificationLine (sshText v s c @ [CR, LF]) = (identified v s c, None) \<longleftrightarrow>
      length (sshText v s c) \<noteq> 254"
    "snd (parseIdentificationLine (sshText v s c @ [CR, LF])) = None \<longleftrightarrow> length (sshText v s c) \<noteq> 254"
proof -
  have le: "length (sshText v s c) \<le> 254"
    using assms by (auto simp: identification_ok_def lineEnd_def maxIdentificationBytes_def split: if_splits)
  have good: "parseIdentificationLine (sshText v s c @ [CR, LF]) = (identified v s c, None)"
    if "length (sshText v s c) \<noteq> 254"
    using parse_sshText [of v s c True] assms le that
    by (simp add: identification_ok_def lineEnd_def maxIdentificationBytes_def)
  have bad: "length (sshText v s c) \<noteq> 254" if nn: "snd (parseIdentificationLine (sshText v s c @ [CR, LF])) = None"
  proof -
    obtain p where "parseIdentificationLine (sshText v s c @ [CR, LF]) = (p, None)" using nn by (metis prod.collapse)
    then have "length (sshText v s c @ [CR, LF]) \<le> maxIdentificationBytes" by (rule parse_length)
    then show ?thesis by (simp add: maxIdentificationBytes_def)
  qed
  show "parseIdentificationLine (sshText v s c @ [CR, LF]) = (identified v s c, None) \<longleftrightarrow>
      length (sshText v s c) \<noteq> 254"
    using good bad by auto
  show "snd (parseIdentificationLine (sshText v s c @ [CR, LF])) = None \<longleftrightarrow> length (sshText v s c) \<noteq> 254"
    using good bad by auto
qed

lemma exchangeIdentification_ok:
  assumes "exchangeIdentification conn = (p, e)" "ssh_conn_ok conn"
  shows "0 \<le> pid_preambleLines p" "pid_preambleLines p \<le> maxPreambleLines" "e \<noteq> Some ErrLineLimit"
    "e = None \<Longrightarrow> \<exists>v s c cr. identification_ok v s c cr \<and> pid_clientLineSent p \<and>
       pid_raw p = sshText v s c \<and> pid_protocolVersion p = v \<and> pid_softwareVersion p = s \<and> pid_comments p = c"
proof -
  obtain written err where wr: "writeAll_ssh (sc_Write conn) 0 0 clientLine = (written, err)"
    by (cases "writeAll_ssh (sc_Write conn) 0 0 clientLine")
  have "0 \<le> pid_preambleLines p \<and> pid_preambleLines p \<le> maxPreambleLines \<and> e \<noteq> Some ErrLineLimit \<and>
    (e = None \<longrightarrow> (\<exists>v s c cr. identification_ok v s c cr \<and> pid_clientLineSent p \<and>
       pid_raw p = sshText v s c \<and> pid_protocolVersion p = v \<and> pid_softwareVersion p = s \<and> pid_comments p = c))"
  proof (cases err)
    case (Some x)
    with assms(1) wr show ?thesis
      by (auto simp: exchangeIdentification_def noIdentification_def maxPreambleLines_def)
  next
    case None
    have sent: "written = length clientLine"
      using writeAll_ssh_written [of "sc_Write conn" 0 0 clientLine written] wr None assms(2)
      by (simp add: ssh_conn_ok_def)
    obtain k' where loop: "exchangeLoop (sc_Read conn) True 0 0 0 = (p, e, k')"
      using assms(1) wr None sent by (auto simp: exchangeIdentification_def split: prod.splits)
    note b = exchangeLoop_bounds [OF loop, simplified maxPreambleLines_def maxPreambleBytes_def, simplified]
    have "\<exists>v s c cr. identification_ok v s c cr \<and> pid_clientLineSent p \<and>
       pid_raw p = sshText v s c \<and> pid_protocolVersion p = v \<and> pid_softwareVersion p = s \<and> pid_comments p = c"
      if nn: "e = None"
    proof -
      obtain line q m where q: "parseIdentificationLine line = (q, None)"
        "p = q\<lparr>pid_preambleLines := m, pid_clientLineSent := True\<rparr>"
        using b nn by blast
      obtain v s c cr where "identification_ok v s c cr" "q = identified v s c"
        using parse_cases [OF q(1)] by blast
      with q(2) show ?thesis
        by (intro exI [of _ v] exI [of _ s] exI [of _ c] exI [of _ cr]) (simp add: identified_def)
    qed
    with b show ?thesis by (simp add: maxPreambleLines_def)
  qed
  then show "0 \<le> pid_preambleLines p" "pid_preambleLines p \<le> maxPreambleLines" "e \<noteq> Some ErrLineLimit"
    "e = None \<Longrightarrow> \<exists>v s c cr. identification_ok v s c cr \<and> pid_clientLineSent p \<and>
       pid_raw p = sshText v s c \<and> pid_protocolVersion p = v \<and> pid_softwareVersion p = s \<and> pid_comments p = c"
    by blast+
qed

definition ssh_peers_ok :: "SshWorld \<Rightarrow> bool" where
  "ssh_peers_ok w \<longleftrightarrow> (\<forall>net ep conn. sw_dial w net ep = Inr conn \<longrightarrow> ssh_conn_ok conn)"

text \<open>The stage is recorded faithfully, except for a version 1.99 text of 254 bytes.\<close>

definition stage_ok :: "Identification \<Rightarrow> bool" where
  "stage_ok t \<longleftrightarrow> 0 \<le> ident_PreambleLines t \<and> ident_PreambleLines t \<le> maxPreambleLines \<and>
     (Validate_ssh_status t = None \<longleftrightarrow> length (ident_Server t) \<noteq> 254)"

lemma classifyUnconfirmedReason_ssh_valid [simp]: "validUnconfirmedReason_ssh (classifyUnconfirmedReason_ssh e)"
  by (cases e) (simp_all add: validUnconfirmedReason_ssh_def)

lemma unconfirmed_stage_ok:
  assumes "validUnconfirmedReason_ssh r" "0 \<le> ident_PreambleLines t" "ident_PreambleLines t \<le> maxPreambleLines"
  shows "stage_ok (t\<lparr>ident_Status := IdentificationUnconfirmed, ident_Reason := r, ident_Server := '''',
     ident_ProtocolVersion := '''', ident_SoftwareVersion := '''', ident_Comments := ''''\<rparr>)"
  using assms by (simp add: stage_ok_def Validate_ssh_status_def firstErr_simps)

lemma identificationStage_ok:
  assumes "identificationStage w conn = (t, k)" "ssh_conn_ok conn"
  shows "stage_ok t"
    "(k = 3 \<and> ident_ExchangeMS t = 0) \<or> (k = 5 \<and> ident_ExchangeMS t = durationMS_tls (Sub (sw_now w 4) (sw_now w 3)))"
proof -
  obtain p e where ex: "exchangeIdentification conn = (p, e)" by (cases "exchangeIdentification conn")
  note exo = exchangeIdentification_ok [OF ex assms(2)]
  show "stage_ok t"
  proof (cases "sc_SetDeadline conn")
    case (Some x)
    with assms(1) show ?thesis
      by (auto simp: identificationStage_def noEvidence_def stage_ok_def Validate_ssh_status_def firstErr_simps
          validUnconfirmedReason_ssh_def maxPreambleLines_def)
  next
    case dl: None
    show ?thesis
    proof (cases e)
      case (Some x)
      with assms(1) ex dl exo(1,2) show ?thesis
        by (auto simp: identificationStage_def noEvidence_def stage_ok_def Validate_ssh_status_def firstErr_simps Let_def)
    next
      case None
      obtain v s c cr where v: "identification_ok v s c cr" "pid_clientLineSent p" "pid_raw p = sshText v s c"
        "pid_protocolVersion p = v" "pid_softwareVersion p = s" "pid_comments p = c"
        using exo(4) [OF None] by blast
      obtain q pe where q: "parseIdentificationLine (sshText v s c @ [CR, LF]) = (q, pe)"
        by (cases "parseIdentificationLine (sshText v s c @ [CR, LF])")
      with assms(1) ex dl None v exo(1,2) parse_recorded [OF v(1)] show ?thesis
        by (cases pe) (auto simp: identificationStage_def noEvidence_def stage_ok_def Validate_ssh_status_def
            firstErr_simps identified_def Let_def)
    qed
  qed
  show "(k = 3 \<and> ident_ExchangeMS t = 0) \<or> (k = 5 \<and> ident_ExchangeMS t = durationMS_tls (Sub (sw_now w 4) (sw_now w 3)))"
    using assms(1) ex by (auto simp: identificationStage_def noEvidence_def Let_def split: if_splits option.splits)
qed

definition tooLong :: "SshResult \<Rightarrow> bool" where
  "tooLong result \<longleftrightarrow> (\<exists>e. env_evidence result = Some e \<and> length (ident_Server (sev_Identification e)) = 254)"

lemma commitEvidence_ssh_valid:
  assumes env: "env_ok w ob" and n: "normalizeRequest_ssh r = (i, tg, None)"
    and ev: "sev_RemoteEndpoint e = stgt_endpoint tg" "stage_ok (sev_Identification e)"
      "0 \<le> sev_TCPConnectMS e" "0 \<le> ident_ExchangeMS (sev_Identification e)"
      "add64 (sev_TCPConnectMS e) (ident_ExchangeMS (sev_Identification e)) \<le> durationMS_tls (Sub (sw_now w f) s)"
  shows "Validate_ssh (commitEvidence_ssh w ob a k (sw_now w f) s i e) = None \<longleftrightarrow>
    \<not> tooLong (commitEvidence_ssh w ob a k (sw_now w f) s i e)"
proof (cases "sw_ctx w k = Some Canceled")
  case True
  have "Validate_ssh (failureResult_ssh w ob (sw_now w f) s i OutcomeCancelled FailureCancelled c) = None" for c
    by (rule Validate_ssh_failure [OF env _ _ _ _ n]) (simp_all add: coherent_def validFailureCode_ssh_def)
  with True show ?thesis by (simp add: commitEvidence_ssh_def tooLong_def)
next
  case False
  obtain ip where ip: "NormalizePublicIP (sin_DialIP i) = (sin_DialIP i, ip, None)"
    "i = \<lparr>sin_DialIP = sin_DialIP i, sin_Family = (if Is4 ip then FamilyIPv4_ssh else FamilyIPv6_ssh),
       sin_Port = (if sreq_Port r = 0 then DefaultPort_ssh else sreq_Port r),
       sin_ClientIdentification = ClientIdentification\<rparr>"
    "stgt_endpoint tg = AddrPortString (ip, sin_Port i)"
    using normalizeRequest_ssh_ok [OF n] by metis
  have sel: "sin_Port i \<noteq> 0" "sin_Family i = (if Is4 ip then FamilyIPv4_ssh else FamilyIPv6_ssh)"
    "sin_ClientIdentification i = ClientIdentification"
    using ip(2) by (smt (verit) SshInput.select_convs DefaultPort_ssh_def zero_neq_numeral)+
  have envl: "Validate_envelope (successResult_ssh w ob (sw_now w f) s i e') = None" for e'
    using env clock_nonzero [of "sw_now w" f]
    by (auto simp: Validate_envelope_None Validate_outcome_None platform_ok_def newObserver_ssh_source
        env_ok_def successResult_ssh_def)
  have success: "Validate_ssh (successResult_ssh w ob (sw_now w f) s i e') = None \<longleftrightarrow>
      length (ident_Server (sev_Identification e')) \<noteq> 254"
    if "stage_ok (sev_Identification e')" "sev_RemoteEndpoint e' = sev_RemoteEndpoint e"
      "sev_TCPConnectMS e' = sev_TCPConnectMS e"
      "ident_ExchangeMS (sev_Identification e') = ident_ExchangeMS (sev_Identification e)" for e'
    using that envl [of e'] ip(1,3) sel ev
    by (auto simp: Validate_ssh_def Validate_ssh_target_def firstErr_simps Let_def not_less stage_ok_def
        successResult_ssh_def)
  let ?late = "e\<lparr>sev_Identification := (sev_Identification e)\<lparr>
             ident_Status := IdentificationUnconfirmed, ident_Reason := UnconfirmedTimeout,
             ident_Server := '''', ident_ProtocolVersion := '''', ident_SoftwareVersion := '''',
             ident_Comments := ''''\<rparr>\<rparr>"
  have "stage_ok (sev_Identification ?late)"
    using unconfirmed_stage_ok [of UnconfirmedTimeout "sev_Identification e"] ev(2)
    by (simp add: stage_ok_def validUnconfirmedReason_ssh_def)
  then show ?thesis
    using False ev(2) success [of e] success [of ?late]
    by (simp add: commitEvidence_ssh_def tooLong_def) (simp add: successResult_ssh_def)
qed

lemma failure_not_tooLong: "\<not> tooLong (failureResult_ssh w ob f s i oc c e)"
  by (simp add: tooLong_def)

lemma Observe_ssh_valid_lemma:
  assumes env: "env_ok w ob" and peers: "ssh_peers_ok w"
  shows "Validate_ssh (Observe_ssh w ob r) = None \<longleftrightarrow> \<not> tooLong (Observe_ssh w ob r)"
proof -
  have clk: "clock_ok (sw_now w)" using env by (simp add: env_ok_def)
  obtain i tg err where n: "normalizeRequest_ssh r = (i, tg, err)" by (cases "normalizeRequest_ssh r")
  show ?thesis
  proof (cases err)
    case (Some m)
    with n Validate_ssh_invalid_input [OF env, of r i tg m] show ?thesis
      by (simp add: Observe_ssh_def Let_def failure_not_tooLong)
  next
    case None
    note n = n [unfolded None]
    note bad = Validate_ssh_failure [OF env _ _ _ _ n]
    show ?thesis
    proof (cases "sw_ctx w 0")
      case (Some c)
      with n show ?thesis
        using classifyTCPFailure_ssh_coherent [of "sw_ctx w" "sw_ctx w" 2 "ctxErrAt (sw_ctx w) 1"]
        by (auto simp: Observe_ssh_def Let_def failure_not_tooLong split: prod.splits intro!: bad)
    next
      case live: None
      show ?thesis
      proof (cases "sw_dial w (stgt_network tg) (stgt_endpoint tg)")
        case (Inl e)
        with n live show ?thesis
          using classifyTCPFailure_ssh_coherent [of "sw_ctx w" "withTimeout (sw_ctx w) (sw_fired w (sob_timeout ob))" 2 "Some e"]
          by (auto simp: Observe_ssh_def Let_def failure_not_tooLong split: prod.splits intro!: bad)
      next
        case (Inr conn)
        obtain t k where h: "identificationStage w conn = (t, k)" by (cases "identificationStage w conn")
        have "ssh_conn_ok conn" using peers Inr by (auto simp: ssh_peers_ok_def)
        note st = identificationStage_ok [OF h this]
        have sum: "add64 (durationMS_tls (Sub (sw_now w 2) (sw_now w 1))) (ident_ExchangeMS t)
            \<le> durationMS_tls (Sub (sw_now w k) (sw_now w 0))"
          using st(2) stage_sum [OF clk, of 1 2 2 2 3 0] stage_sum [OF clk, of 1 2 3 4 5 0] by auto
        have nn: "0 \<le> ident_ExchangeMS t" using st(2) by auto
        let ?ev = "\<lparr>sev_RemoteEndpoint = stgt_endpoint tg, sev_TCPConnectMS = durationMS_tls (Sub (sw_now w 2) (sw_now w 1)),
             sev_Identification = t\<rparr>"
        have ok: "Validate_ssh (commitEvidence_ssh w ob a 6 (sw_now w k) (sw_now w 0) i ?ev) = None \<longleftrightarrow>
            \<not> tooLong (commitEvidence_ssh w ob a 6 (sw_now w k) (sw_now w 0) i ?ev)" for a
          by (rule commitEvidence_ssh_valid [OF env n]) (use st(1) sum nn in simp_all)
        have tcp: "Validate_ssh (failureResult_ssh w ob (sw_now w 3) (sw_now w 0) i OutcomeFailed FailureTCP_ssh e) = None" for e
          by (rule bad) (simp_all add: coherent_def ssh_codes validFailureCode_ssh_def)
        show ?thesis
          using n live Inr h ok tcp by (auto simp: Observe_ssh_def Let_def failure_not_tooLong split: sum.splits)
      qed
    qed
  qed
qed

section \<open>A concrete run\<close>

definition peerSending :: "string \<Rightarrow> SshConn" where
  "peerSending v = \<lparr>sc_RemoteAddr = Some ''1.1.1.1:22'', sc_SetDeadline = None,
     sc_Write = (\<lambda>k bs. (length bs, None)),
     sc_Read = (\<lambda>k. if k < length v then (Some (v ! k), None) else (None, Some EOFErr))\<rparr>"

definition sshWorld :: "string \<Rightarrow> SshWorld" where
  "sshWorld v = \<lparr>sw_now = steadyClock 1000000, sw_ctx = background, sw_fired = (\<lambda>d n. False),
     sw_dial = (\<lambda>network endpoint. Inr (peerSending v)), sw_os = ''linux'', sw_arch = ''amd64''\<rparr>"

definition demoSshObserver :: SshObserver where
  "demoSshObserver = \<lparr>sob_timeout = defaultTimeout_ssh,
     sob_source = \<lparr>src_backend = ''go-stdlib-tcp-ssh-identification'', src_capability = CapabilityNative, src_reason = ''''\<rparr>\<rparr>"

lemma demoSshObserver_new: "newObserver_ssh \<lparr>scfg_Timeout = 0\<rparr> = Inr demoSshObserver"
  by (simp add: newObserver_ssh_def demoSshObserver_def defaultTimeout_ssh_def maximumTimeout_ssh_def)

lemma peerSending_ok: "takes_writes (peerSending v)" "ssh_conn_ok (peerSending v)" "sends (sc_Read (peerSending v)) 0 v"
  by (simp_all add: peerSending_def takes_writes_def ssh_conn_ok_def sends_def)

lemma sshWorld_ok: "clock_ok (sw_now (sshWorld v))" "platform_ok (sw_os (sshWorld v)) (sw_arch (sshWorld v))" "ssh_peers_ok (sshWorld v)"
  using peerSending_ok by (simp_all add: sshWorld_def steadyClock_ok platform_ok_def ssh_peers_ok_def)

lemma normalize_one_one_ssh: "normalizeRequest_ssh \<lparr>sreq_DialIP = ''1.1.1.1'', sreq_Port = 0\<rparr> =
  (\<lparr>sin_DialIP = ''1.1.1.1'', sin_Family = FamilyIPv4_ssh, sin_Port = 22, sin_ClientIdentification = ClientIdentification\<rparr>,
   \<lparr>stgt_network = ''tcp4'', stgt_endpoint = ''1.1.1.1:22''\<rparr>, None)"
  using NormalizePublicIP_complete [OF one_one_allowed]
  by (simp add: normalizeRequest_ssh_def one_one_text AddrPortString_def DefaultPort_ssh_def fmtBase_rec digitChar_text)

lemma demo_endpoint_ssh: "canonicalRemoteEndpoint_ssh (Some ''1.1.1.1:22'') = Inr ''1.1.1.1:22''"
proof -
  have "AddrPortString (Addr4 1 1 1 1, 22) = ''1.1.1.1:22''"
    by (simp add: AddrPortString_def one_one_text fmtBase_rec digitChar_text)
  with ParseAddrPort_String [of "Addr4 1 1 1 1" 22] show ?thesis
    by (simp add: canonicalRemoteEndpoint_ssh_def)
qed

lemma demo_Observe_ssh:
  assumes "identification_ok v s c cr"
  shows "\<exists>e. env_evidence (Observe_ssh (sshWorld (sshText v s c @ lineEnd cr)) demoSshObserver
      \<lparr>sreq_DialIP = ''1.1.1.1'', sreq_Port = 0\<rparr>) = Some e \<and> ident_Server (sev_Identification e) = sshText v s c"
proof -
  let ?v = "sshText v s c @ lineEnd cr"
  have live: "withTimeout (\<lambda>n. None) (\<lambda>n. False) k = None" for k
    by (induction k) simp_all
  have ex: "exchangeIdentification (peerSending ?v) =
      ((identified v s c)\<lparr>pid_preambleLines := 0, pid_clientLineSent := True\<rparr>, None)"
    using exchangeIdentification_complete_lemma [OF peerSending_ok(1) assms, of "[]"] peerSending_ok(3) by simp
  have sel: "sc_SetDeadline (peerSending ?v) = None" "sc_RemoteAddr (peerSending ?v) = Some ''1.1.1.1:22''"
    by (simp_all add: peerSending_def)
  show ?thesis
    by (simp add: Observe_ssh_def normalize_one_one_ssh sshWorld_def demo_endpoint_ssh sel ex identificationStage_def
        commitEvidence_ssh_def successResult_ssh_def live Let_def ctxErrAt_def background_def errorsIs_def identified_def)
qed

text \<open>A version 1.99 line of 255 bytes with a bare line feed, and an ordinary 2.0 line.\<close>

lemma long_line_ok: "identification_ok ''1.99'' (replicate 245 CHR ''x'') '''' False"
  by (simp add: identification_ok_def validProtocolVersion_def validVersionField_def validComments_def sshText_def
      lineEnd_def maxIdentificationBytes_def list_ex_iff)

lemma short_line_ok: "identification_ok ''2.0'' ''OpenSSH_9.6'' '''' True"
  by (simp add: identification_ok_def validProtocolVersion_def validVersionField_def validComments_def sshText_def
      lineEnd_def maxIdentificationBytes_def)

lemma sshText_long: "length (sshText ''1.99'' (replicate 245 CHR ''x'') '''') = 254"
  "length (sshText ''2.0'' ''OpenSSH_9.6'' '''') = 19"
  by (simp_all add: sshText_def)

section \<open>Properties\<close>

text \<open>Property C21: every envelope the SSH observer returns passes the validator of its package, for
  every peer, clock, dialer and context, with exactly one exception: an identification text of 254
  bytes. The exchange accepts it (version 1.99, ended by a bare line feed, 255 bytes in all), and the
  validator, which reads the text with a carriage return and a line feed, refuses the 256 bytes.\<close>

theorem Observe_ssh_valid:
  assumes "newObserver_ssh cfg = Inr ob" "clock_ok (sw_now w)" "platform_ok (sw_os w) (sw_arch w)" "ssh_peers_ok w"
  shows "Validate_ssh (Observe_ssh w ob request) = None \<longleftrightarrow>
    \<not> (\<exists>e. env_evidence (Observe_ssh w ob request) = Some e \<and> length (ident_Server (sev_Identification e)) = 254)"
  using Observe_ssh_valid_lemma [of w ob request] assms unfolding env_ok_def tooLong_def by blast

lemma Observe_ssh_valid_witness:
  "Validate_ssh (Observe_ssh (sshWorld (sshText ''2.0'' ''OpenSSH_9.6'' '''' @ lineEnd True)) demoSshObserver
      \<lparr>sreq_DialIP = ''1.1.1.1'', sreq_Port = 0\<rparr>) = None \<and>
   Validate_ssh (Observe_ssh (sshWorld (sshText ''1.99'' (replicate 245 CHR ''x'') '''' @ lineEnd False)) demoSshObserver
      \<lparr>sreq_DialIP = ''1.1.1.1'', sreq_Port = 0\<rparr>) \<noteq> None"
  using demo_Observe_ssh [OF short_line_ok] demo_Observe_ssh [OF long_line_ok] sshText_long
    Observe_ssh_valid [OF demoSshObserver_new sshWorld_ok] by auto

text \<open>Property C23: the parser of identification lines accepts exactly the lines RFC 4253 prints from a
  version (2.0 or 1.99), a software version and optional comments, in at most 255 bytes, with the
  carriage return that version 2.0 requires, and it returns those parts.\<close>

theorem parseIdentificationLine_exact:
  "parseIdentificationLine line = (p, None) \<longleftrightarrow>
     (\<exists>version software comments cr. line = sshText version software comments @ lineEnd cr \<and>
        validProtocolVersion version \<and> (version = ''2.0'' \<longrightarrow> cr) \<and> validVersionField software \<and>
        validComments comments \<and> length line \<le> maxIdentificationBytes \<and>
        p = identified version software comments)"
  unfolding parse_iff identification_ok_def by blast

lemma parseIdentificationLine_exact_witness:
  "parseIdentificationLine (''SSH-2.0-OpenSSH_9.6'' @ [CR, LF]) = (identified ''2.0'' ''OpenSSH_9.6'' '''', None)"
proof (rule parseIdentificationLine_exact [THEN iffD2], intro exI conjI)
  show "''SSH-2.0-OpenSSH_9.6'' @ [CR, LF] = sshText ''2.0'' ''OpenSSH_9.6'' '''' @ lineEnd True"
    by (simp add: sshText_def lineEnd_def)
  show "''2.0'' = ''2.0'' \<longrightarrow> True" by simp
qed (use short_line_ok in \<open>simp_all add: identification_ok_def sshText_def lineEnd_def\<close>)

text \<open>Whatever the peer sends, one exchange reads at most 4096 bytes of preamble and 255 of
  identification, and counts at most sixteen preamble lines.\<close>

theorem exchangeLoop_bounded:
  "snd (snd (exchangeLoop read sent 0 0 0)) \<le> 4096 + 255 \<and>
   0 \<le> pid_preambleLines (fst (exchangeLoop read sent 0 0 0)) \<and>
   pid_preambleLines (fst (exchangeLoop read sent 0 0 0)) \<le> 16"
  using exchangeLoop_bounds [of read sent 0 0 0 "fst (exchangeLoop read sent 0 0 0)"
      "fst (snd (exchangeLoop read sent 0 0 0))" "snd (snd (exchangeLoop read sent 0 0 0))"]
  by (simp add: maxPreambleLines_def maxPreambleBytes_def)

text \<open>Property C22: a server that takes the client's line and sends at most sixteen other lines of at
  most 4096 bytes together, then a well-formed identification, is recognized with exactly the parts
  it sent; the bytes after the identification are not read.\<close>

theorem exchangeIdentification_complete:
  assumes "takes_writes conn" "identification_ok version software comments cr"
    and "list_all preambleLine preamble" "length preamble \<le> 16" "length (concat preamble) \<le> 4096"
    and "sends (sc_Read conn) 0 (concat preamble @ sshText version software comments @ lineEnd cr)"
  shows "exchangeIdentification conn = ((identified version software comments)
      \<lparr>pid_preambleLines := int (length preamble), pid_clientLineSent := True\<rparr>, None)"
  using assms by (rule exchangeIdentification_complete_lemma)

lemma exchangeIdentification_complete_witness:
  "exchangeIdentification (peerSending ((''welcome'' @ [LF]) @ sshText ''2.0'' ''OpenSSH_9.6'' '''' @ lineEnd True)) =
    ((identified ''2.0'' ''OpenSSH_9.6'' '''')\<lparr>pid_preambleLines := 1, pid_clientLineSent := True\<rparr>, None)"
proof -
  have "list_all preambleLine [''welcome'' @ [LF]]"
    by (simp add: preambleLine_def startsWith_def LF_def)
  from exchangeIdentification_complete [OF peerSending_ok(1) short_line_ok this] peerSending_ok(3)
  show ?thesis by simp
qed

end
