(* ===== verification/WebObservation.thy ===== *)
theory WebObservation
  imports TlsObservation WebRequest GoHttp
begin

text \<open>
  Package \<open>internal/webobservation\<close>: one controlled HTTP exchange with an explicit public address
  under the logical host name. The transport of \<open>net/http\<close> is a parameter: for the transport and
  the request the code builds, it answers with the steps it took (dialing through the code's dial
  function, the events it reports to the code's trace) and with a response or an error. The trace
  and the dial function are the code's own, and every event reads the clock.
\<close>

section \<open>Types\<close>

abbreviation ProbeKind_web :: Kind where "ProbeKind_web \<equiv> KindWebObservation"

definition FailureTCPConnectionRefused_web :: FailureCode where
  "FailureTCPConnectionRefused_web = FailureOf ''tcp_connection_refused''"
definition FailureTCPNoRoute_web :: FailureCode where "FailureTCPNoRoute_web = FailureOf ''tcp_no_route''"
definition FailureTCPTimeout_web :: FailureCode where "FailureTCPTimeout_web = FailureOf ''tcp_timeout''"
definition FailureTCPConnectionReset_web :: FailureCode where
  "FailureTCPConnectionReset_web = FailureOf ''tcp_connection_reset''"
definition FailureTCP_web :: FailureCode where "FailureTCP_web = FailureOf ''tcp_failure''"
definition FailureTLSTimeout :: FailureCode where "FailureTLSTimeout = FailureOf ''tls_timeout''"
definition FailureTLSConnectionReset :: FailureCode where
  "FailureTLSConnectionReset = FailureOf ''tls_connection_reset''"
definition FailureTLSCertificate :: FailureCode where "FailureTLSCertificate = FailureOf ''tls_certificate_failure''"
definition FailureTLSHandshake :: FailureCode where "FailureTLSHandshake = FailureOf ''tls_handshake_failure''"
definition FailureHTTPTimeout :: FailureCode where "FailureHTTPTimeout = FailureOf ''http_timeout''"
definition FailureHTTPConnectionReset :: FailureCode where
  "FailureHTTPConnectionReset = FailureOf ''http_connection_reset''"
definition FailureHTTPProtocol :: FailureCode where "FailureHTTPProtocol = FailureOf ''http_protocol_failure''"

lemmas web_codes = FailureTCPConnectionRefused_web_def FailureTCPNoRoute_web_def FailureTCPTimeout_web_def
  FailureTCPConnectionReset_web_def FailureTCP_web_def FailureTLSTimeout_def FailureTLSConnectionReset_def
  FailureTLSCertificate_def FailureTLSHandshake_def FailureHTTPTimeout_def FailureHTTPConnectionReset_def
  FailureHTTPProtocol_def

text \<open>A scheme is any text; two texts are known.\<close>

type_synonym Scheme = string

definition SchemeHTTP :: Scheme where "SchemeHTTP = ''http''"
definition SchemeHTTPS :: Scheme where "SchemeHTTPS = ''https''"

lemma Scheme_distinct [simp]: "SchemeHTTP \<noteq> SchemeHTTPS" "SchemeHTTPS \<noteq> SchemeHTTP"
  by (simp_all add: SchemeHTTP_def SchemeHTTPS_def)

datatype Family_web = FamilyIPv4_web | FamilyIPv6_web | FamilyOther_web string

record WebConfig =
  wcfg_Timeout :: int

record WebObsRequest =
  wreq_Scheme :: Scheme
  wreq_Hostname :: string
  wreq_DialIP :: string
  wreq_Path :: string
  wreq_RawQuery :: string

record WebInput =
  win_Scheme :: Scheme
  win_Hostname :: string
  win_DialIP :: string
  win_Family :: Family_web
  win_Port :: nat
  win_Method :: string
  win_Path :: string
  win_RawQuery :: string

record WebLeaf =
  wleaf_SHA256 :: string
  wleaf_NotBefore :: gotime
  wleaf_NotAfter :: gotime

record TLSObservation =
  wtls_ServerName :: string
  wtls_Version :: string
  wtls_CipherSuite :: string
  wtls_ALPN :: string
  wtls_HandshakeMS :: int
  wtls_VerifiedChains :: int
  wtls_Leaf :: WebLeaf

record HTTPObservation =
  whttp_Protocol :: string
  whttp_StatusCode :: int
  whttp_TTFBMS :: int
  whttp_Location :: string
  whttp_LocationOmitted :: bool
  whttp_RetryAfter :: string
  whttp_RetryAfterOmitted :: bool

record WebEvidence =
  wev_RemoteEndpoint :: string
  wev_TCPConnectMS :: int
  wev_TLS :: "TLSObservation option"
  wev_HTTP :: HTTPObservation

type_synonym WebResult = "(WebInput, WebEvidence) Envelope"

section \<open>normalizeRequest\<close>

definition httpPort :: nat where "httpPort = 80"
definition httpsPort :: nat where "httpsPort = 443"
definition httpMethod :: string where "httpMethod = ''GET''"

record WebTarget =
  wtgt_hostname :: string
  wtgt_ip :: Addr
  wtgt_family :: Family_web
  wtgt_port :: nat
  wtgt_network :: string
  wtgt_endpoint :: string
  wtgt_path :: string
  wtgt_rawPath :: string
  wtgt_rawQuery :: string

definition emptyTarget :: WebTarget where
  "emptyTarget = \<lparr>wtgt_hostname = '''', wtgt_ip = AddrInvalid, wtgt_family = FamilyOther_web '''',
     wtgt_port = 0, wtgt_network = '''', wtgt_endpoint = '''', wtgt_path = '''', wtgt_rawPath = '''',
     wtgt_rawQuery = ''''\<rparr>"

definition normalizeScheme :: "'a unitab_scheme \<Rightarrow> Scheme \<Rightarrow> Scheme \<times> nat \<times> error option" where
  "normalizeScheme u value =
     (let scheme = ToLower u (TrimSpace value) in
      if scheme = SchemeHTTP then (scheme, httpPort, None)
      else if scheme = SchemeHTTPS then (scheme, httpsPort, None)
      else (scheme, 0, Some ''unsupported Web scheme''))"

definition normalizePublicIP_web :: "string \<Rightarrow> string \<times> Addr \<times> Family_web \<times> error option" where
  "normalizePublicIP_web value =
     (let (text, ip, err) = NormalizePublicIP value in
      (text, ip, if \<not> IsValid ip then FamilyOther_web '''' else if Is4 ip then FamilyIPv4_web else FamilyIPv6_web,
       err))"

definition normalizeRequest_web :: "'a unitab_scheme \<Rightarrow> WebObsRequest \<Rightarrow> WebInput \<times> WebTarget \<times> error option" where
  "normalizeRequest_web u request =
     (let (scheme, port, schemeErr) = normalizeScheme u (wreq_Scheme request);
          (hostname, hostnameErr) = NormalizeWebHostname u (wreq_Hostname request);
          (ipText, ip, family, ipErr) = normalizePublicIP_web (wreq_DialIP request);
          (target, targetErr) = NormalizeWebRequestTarget (wreq_Path request) (wreq_RawQuery request);
          inp = \<lparr>win_Scheme = scheme, win_Hostname = hostname, win_DialIP = ipText, win_Family = family,
            win_Port = port, win_Method = httpMethod, win_Path = wt_EscapedPath target,
            win_RawQuery = wt_RawQuery target\<rparr>
      in case firstErr [schemeErr, hostnameErr, ipErr, targetErr] of
           Some e \<Rightarrow> (inp, emptyTarget, Some e)
         | None \<Rightarrow> (inp, \<lparr>wtgt_hostname = hostname, wtgt_ip = ip, wtgt_family = family, wtgt_port = port,
             wtgt_network = (if family = FamilyIPv4_web then ''tcp4'' else ''tcp6''),
             wtgt_endpoint = AddrPortString (ip, port), wtgt_path = wt_Path target,
             wtgt_rawPath = wt_RawPath target, wtgt_rawQuery = wt_RawQuery target\<rparr>, None))"

definition logicalEndpoint :: "WebTarget \<Rightarrow> string" where
  "logicalEndpoint target = JoinHostPort (wtgt_hostname target) (fmtDec (wtgt_port target))"

section \<open>Classification of failures\<close>

datatype attemptStage = attemptStageTCP | attemptStageTLS | attemptStageHTTP

record stageFailureCodes =
  sfc_timeout :: FailureCode
  sfc_reset :: FailureCode
  sfc_fallback :: FailureCode

fun failureCodesFor :: "attemptStage \<Rightarrow> stageFailureCodes" where
  "failureCodesFor attemptStageTCP = \<lparr>sfc_timeout = FailureTCPTimeout_web,
     sfc_reset = FailureTCPConnectionReset_web, sfc_fallback = FailureTCP_web\<rparr>"
| "failureCodesFor attemptStageTLS = \<lparr>sfc_timeout = FailureTLSTimeout,
     sfc_reset = FailureTLSConnectionReset, sfc_fallback = FailureTLSHandshake\<rparr>"
| "failureCodesFor attemptStageHTTP = \<lparr>sfc_timeout = FailureHTTPTimeout,
     sfc_reset = FailureHTTPConnectionReset, sfc_fallback = FailureHTTPProtocol\<rparr>"

definition timeoutCode :: "attemptStage \<Rightarrow> FailureCode" where
  "timeoutCode stage = sfc_timeout (failureCodesFor stage)"

definition classifyContext :: "ctx \<Rightarrow> nat \<Rightarrow> attemptStage \<Rightarrow> (Outcome \<times> FailureCode \<times> goerr) option" where
  "classifyContext c k stage = (case ctxErrAt c k of
      None \<Rightarrow> None
    | Some err \<Rightarrow>
        if errorsIs (Some err) SCanceled then Some (OutcomeCancelled, FailureCancelled, err)
        else Some (OutcomeFailed, timeoutCode stage, err))"

text \<open>The parent is read at \<open>k\<close>, the attempt at \<open>k + 1\<close>.\<close>

definition classifyAttemptContext :: "ctx \<Rightarrow> ctx \<Rightarrow> nat \<Rightarrow> attemptStage \<Rightarrow> (Outcome \<times> FailureCode \<times> goerr) option" where
  "classifyAttemptContext parent attempt k stage = (case classifyContext parent k stage of
      Some c \<Rightarrow> Some c
    | None \<Rightarrow> classifyContext attempt (k + 1) stage)"

definition isTimeout_web :: "goerr option \<Rightarrow> bool" where
  "isTimeout_web err =
     (errorsIs err SDeadlineExceeded \<or> errorsIs err SOsDeadlineExceeded \<or> netTimeout err)"

definition isCertificateFailure :: "goerr option \<Rightarrow> bool" where
  "isCertificateFailure err =
     (errorsIs err STLSVerification \<or> errorsIs err SHostname \<or> errorsIs err SUnknownAuthority \<or>
      errorsIs err SCertificateInvalid \<or> errorsIs err SSystemRoots)"

definition classifyExchangeFailure :: "goerr \<Rightarrow> attemptStage \<Rightarrow> FailureCode" where
  "classifyExchangeFailure e stage =
     (let err = Some e; codes = failureCodesFor stage in
      if isTimeout_web err then sfc_timeout codes
      else if isCertificateFailure err then FailureTLSCertificate
      else if errorsIs err ECONNREFUSED then FailureTCPConnectionRefused_web
      else if errorsIs err ENETUNREACH \<or> errorsIs err EHOSTUNREACH then FailureTCPNoRoute_web
      else if errorsIs err ECONNRESET \<or> errorsIs err EPIPE then sfc_reset codes
      else sfc_fallback codes)"

section \<open>The trace of an attempt\<close>

text \<open>
  \<open>at_reads\<close> is the number of the next reading of the clock. A field of the zero time has not been
  set. The mutex makes every callback one step.
\<close>

record attemptTrace =
  at_reads :: nat
  at_connectStarted :: gotime
  at_connectDone :: gotime
  at_connectErr :: "goerr option"
  at_tlsStarted :: gotime
  at_tlsDone :: gotime
  at_tlsErr :: "goerr option"
  at_requestWritten :: gotime
  at_firstByte :: gotime
  at_remoteEndpoint :: string

definition newTrace :: "nat \<Rightarrow> attemptTrace" where
  "newTrace reads = \<lparr>at_reads = reads, at_connectStarted = zeroTime, at_connectDone = zeroTime,
     at_connectErr = None, at_tlsStarted = zeroTime, at_tlsDone = zeroTime, at_tlsErr = None,
     at_requestWritten = zeroTime, at_firstByte = zeroTime, at_remoteEndpoint = ''''\<rparr>"

datatype traceEvent =
    ConnectStart
  | ConnectDone "goerr option"
  | TLSHandshakeStart
  | TLSHandshakeDone "goerr option"
  | WroteRequest "goerr option"
  | GotFirstResponseByte

fun clientTrace :: "(nat \<Rightarrow> gotime) \<Rightarrow> traceEvent \<Rightarrow> attemptTrace \<Rightarrow> attemptTrace" where
  "clientTrace now ConnectStart t =
     (if IsZero (at_connectStarted t)
      then t\<lparr>at_connectStarted := now (at_reads t), at_reads := at_reads t + 1\<rparr> else t)"
| "clientTrace now (ConnectDone err) t =
     t\<lparr>at_connectDone := now (at_reads t), at_connectErr := err, at_reads := at_reads t + 1\<rparr>"
| "clientTrace now TLSHandshakeStart t =
     t\<lparr>at_tlsStarted := now (at_reads t), at_reads := at_reads t + 1\<rparr>"
| "clientTrace now (TLSHandshakeDone err) t =
     t\<lparr>at_tlsDone := now (at_reads t), at_tlsErr := err, at_reads := at_reads t + 1\<rparr>"
| "clientTrace now (WroteRequest err) t =
     (if err \<noteq> None then t
      else t\<lparr>at_requestWritten := now (at_reads t), at_reads := at_reads t + 1\<rparr>)"
| "clientTrace now GotFirstResponseByte t =
     t\<lparr>at_firstByte := now (at_reads t), at_reads := at_reads t + 1\<rparr>"

definition failureStage :: "attemptTrace \<Rightarrow> Scheme \<Rightarrow> attemptStage" where
  "failureStage t scheme =
     (if IsZero (at_connectDone t) \<or> at_connectErr t \<noteq> None then attemptStageTCP
      else if scheme = SchemeHTTPS \<and> (IsZero (at_tlsDone t) \<or> at_tlsErr t \<noteq> None) then attemptStageTLS
      else attemptStageHTTP)"

record stageDurations =
  sd_tcp :: int
  sd_tls :: int
  sd_ttfb :: int

definition nonNegativeDuration :: "int \<Rightarrow> int" where
  "nonNegativeDuration value = (if value < 0 then 0 else value)"

definition successDurations :: "attemptTrace \<Rightarrow> Scheme \<Rightarrow> error + stageDurations" where
  "successDurations t scheme =
     (if IsZero (at_connectStarted t) \<or> IsZero (at_connectDone t) \<or> at_connectErr t \<noteq> None
      then Inl ''successful HTTP response lacks completed TCP timing''
      else if IsZero (at_requestWritten t) \<or> IsZero (at_firstByte t)
      then Inl ''successful HTTP response lacks TTFB timing''
      else if scheme = SchemeHTTPS then
        (if IsZero (at_tlsStarted t) \<or> IsZero (at_tlsDone t) \<or> at_tlsErr t \<noteq> None
         then Inl ''successful HTTPS response lacks completed TLS timing''
         else Inr \<lparr>sd_tcp = nonNegativeDuration (Sub (at_connectDone t) (at_connectStarted t)),
           sd_tls = nonNegativeDuration (Sub (at_tlsDone t) (at_tlsStarted t)),
           sd_ttfb = nonNegativeDuration (Sub (at_firstByte t) (at_requestWritten t))\<rparr>)
      else Inr \<lparr>sd_tcp = nonNegativeDuration (Sub (at_connectDone t) (at_connectStarted t)), sd_tls = 0,
           sd_ttfb = nonNegativeDuration (Sub (at_firstByte t) (at_requestWritten t))\<rparr>)"

section \<open>The observer and its environment\<close>

definition defaultTimeout_web :: int where "defaultTimeout_web = 6 * Second"
definition maximumTimeout_web :: int where "maximumTimeout_web = 30 * Second"
definition maxResponseHeaderBytes_web :: nat where "maxResponseHeaderBytes_web = 32 * 1024"
definition maxLocationBytes :: nat where "maxLocationBytes = 4 * 1024"
definition maxRetryAfterBytes :: nat where "maxRetryAfterBytes = 1024"

record WebObserver =
  wob_timeout :: int
  wob_source :: Source

definition newObserver_web :: "WebConfig \<Rightarrow> error + WebObserver" where
  "newObserver_web config =
     (let timeout = (if wcfg_Timeout config = 0 then defaultTimeout_web else wcfg_Timeout config) in
      if timeout < 0 \<or> maximumTimeout_web < timeout then Inl ''timeout must be between zero and 30s''
      else Inr \<lparr>wob_timeout = timeout,
        wob_source = \<lparr>src_backend = ''go-stdlib-http1-direct'',
          src_capability = CapabilityNative, src_reason = ''''\<rparr>\<rparr>)"

text \<open>The request and the transport as the code builds them; no proxy, no HTTP/2, no reuse.\<close>

record WebHttpRequest =
  hq_Method :: string
  hq_URL :: url
  hq_Host :: string
  hq_Close :: bool
  hq_UserAgent :: string

record WebTransport =
  tp_UsesProxy :: bool
  tp_ForceAttemptHTTP2 :: bool
  tp_DisableKeepAlives :: bool
  tp_DisableCompression :: bool
  tp_MaxConnsPerHost :: nat
  tp_TLSHandshakeTimeout :: int
  tp_ResponseHeaderTimeout :: int
  tp_MaxResponseHeaderBytes :: nat
  tp_ServerName :: string
  tp_NextProtos :: "string list"
  tp_AlternateProtocols :: "string list"

text \<open>What the code reads of a response: header fields through \<open>Header.Get\<close>.\<close>

record WebResponse =
  rs_StatusCode :: int
  rs_Proto :: string
  rs_Header :: "string \<Rightarrow> string"
  rs_TLS :: "ConnectionState option"

text \<open>The dial function of the library reports its own events, and answers with the remote address.\<close>

record WebDial =
  wd_events :: "traceEvent list"
  wd_answer :: "goerr + string option"

datatype transportStep = TransportDial string | TransportEvent traceEvent

record WebExchange =
  wx_steps :: "transportStep list"
  wx_answer :: "goerr + WebResponse"

record WebWorld =
  ww_now :: "nat \<Rightarrow> gotime"
  ww_ctx :: ctx
  ww_fired :: "int \<Rightarrow> nat \<Rightarrow> bool"
  ww_dial :: "string \<Rightarrow> string \<Rightarrow> WebDial"
  ww_roundTrip :: "WebTransport \<Rightarrow> WebHttpRequest \<Rightarrow> WebExchange"
  ww_os :: string
  ww_arch :: string
  ww_sha256 :: "bytes \<Rightarrow> bytes"
  ww_cipherSuiteName :: "16 word \<Rightarrow> string"

section \<open>Dialing\<close>

definition canonicalRemoteEndpoint_web :: "string option \<Rightarrow> error + string" where
  "canonicalRemoteEndpoint_web address = (case address of
      None \<Rightarrow> Inl ''connected socket has no remote endpoint''
    | Some a \<Rightarrow> (case ParseAddrPort a of
        None \<Rightarrow> Inl ''parse connected remote endpoint: invalid address and port''
      | Some (ip, port) \<Rightarrow>
          if Zone ip \<noteq> '''' then Inl ''connected remote endpoint unexpectedly includes an IPv6 zone''
          else Inr (AddrPortString (Unmap ip, port))))"

text \<open>
  The dial function the code gives to the transport: the flag says whether it has dialed. The
  first component is what the transport gets: an error or a connection to the named endpoint.
\<close>

definition literalDialer :: "'a unitab_scheme \<Rightarrow> WebWorld \<Rightarrow> WebTarget \<Rightarrow> string \<Rightarrow> bool \<times> attemptTrace \<Rightarrow>
    (goerr + string) \<times> bool \<times> attemptTrace" where
  "literalDialer u w target address s = (case s of (dialed, trace) \<Rightarrow>
     if \<not> EqualFold u address (logicalEndpoint target)
     then (Inl (plainErr ''transport requested unexpected endpoint''), dialed, trace)
     else if dialed then (Inl (plainErr ''transport attempted more than one connection''), True, trace)
     else
      (let d = ww_dial w (wtgt_network target) (wtgt_endpoint target);
           trace' = foldl (\<lambda>t e. clientTrace (ww_now w) e t) trace (wd_events d) in
       case wd_answer d of
         Inl e \<Rightarrow> (Inl e, True, trace')
       | Inr address \<Rightarrow> (case canonicalRemoteEndpoint_web address of
           Inl m \<Rightarrow> (Inl (plainErr m), True, trace')
         | Inr remote \<Rightarrow>
             if remote \<noteq> wtgt_endpoint target
             then (Inl (plainErr ''connected remote endpoint does not match literal target''), True, trace')
             else (Inr remote, True, trace'\<lparr>at_remoteEndpoint := remote\<rparr>))))"

fun runTransportStep :: "'a unitab_scheme \<Rightarrow> WebWorld \<Rightarrow> WebTarget \<Rightarrow> bool \<times> attemptTrace \<Rightarrow> transportStep \<Rightarrow>
    bool \<times> attemptTrace" where
  "runTransportStep u w target s (TransportDial address) = snd (literalDialer u w target address s)"
| "runTransportStep u w target (dialed, trace) (TransportEvent e) = (dialed, clientTrace (ww_now w) e trace)"

definition runTransport :: "'a unitab_scheme \<Rightarrow> WebWorld \<Rightarrow> WebTarget \<Rightarrow> nat \<Rightarrow> transportStep list \<Rightarrow> attemptTrace" where
  "runTransport u w target reads steps = snd (foldl (runTransportStep u w target) (False, newTrace reads) steps)"

section \<open>Evidence\<close>

definition boundedHeaderValue :: "string \<Rightarrow> nat \<Rightarrow> string \<times> bool" where
  "boundedHeaderValue value maximum =
     (if length value \<le> maximum \<and> ValidString value then (value, False) else ('''', True))"

definition tlsVersionName_web :: "16 word \<Rightarrow> string" where
  "tlsVersionName_web version =
     (if version = 0x0301 then ''TLS1.0''
      else if version = 0x0302 then ''TLS1.1''
      else if version = 0x0303 then ''TLS1.2''
      else if version = 0x0304 then ''TLS1.3''
      else ''0x'' @ (let h = fmtHex (unat version) in replicate (4 - length h) CHR ''0'' @ h))"

definition tlsEvidenceFromState :: "WebWorld \<Rightarrow> WebInput \<Rightarrow> ConnectionState option \<Rightarrow> int \<Rightarrow> error + TLSObservation" where
  "tlsEvidenceFromState w inp state duration = (case state of
      None \<Rightarrow> Inl ''HTTPS response lacks a completed TLS state''
    | Some st \<Rightarrow>
        if \<not> cs_HandshakeComplete st then Inl ''HTTPS response lacks a completed TLS state''
        else if cs_ServerName st \<noteq> win_Hostname inp then Inl ''TLS server name does not match hostname''
        else if cs_VerifiedChains st = 0 then Inl ''HTTPS response lacks a verified certificate chain''
        else (case cs_PeerCertificates st of
          [] \<Rightarrow> Inl ''HTTPS response lacks a verified certificate chain''
        | leaf # _ \<Rightarrow> Inr \<lparr>wtls_ServerName = cs_ServerName st, wtls_Version = tlsVersionName_web (cs_Version st),
            wtls_CipherSuite = ww_cipherSuiteName w (cs_CipherSuite st), wtls_ALPN = cs_NegotiatedProtocol st,
            wtls_HandshakeMS = Milliseconds duration, wtls_VerifiedChains = int (cs_VerifiedChains st),
            wtls_Leaf = \<lparr>wleaf_SHA256 = hexEncode (ww_sha256 w (crt_Raw leaf)),
              wleaf_NotBefore = UTC (crt_NotBefore leaf), wleaf_NotAfter = UTC (crt_NotAfter leaf)\<rparr>\<rparr>))"

text \<open>
  A transport that returns no error returns a response, so the branch for a missing one is not
  taken. Every failure has the code \<open>FailureHTTPProtocol\<close>.
\<close>

definition evidenceFromResponse_web :: "WebWorld \<Rightarrow> WebInput \<Rightarrow> WebTarget \<Rightarrow> WebResponse \<Rightarrow> string \<Rightarrow>
    stageDurations \<Rightarrow> error + WebEvidence" where
  "evidenceFromResponse_web w inp target response remote timings =
     (if rs_StatusCode response < 100 \<or> 599 < rs_StatusCode response
      then Inl ''HTTP status is outside the supported range''
      else if remote = '''' then Inl ''HTTP response has no connected remote endpoint''
      else if remote \<noteq> wtgt_endpoint target then Inl ''HTTP remote endpoint does not match target''
      else
       (let (location, locationOmitted) = boundedHeaderValue (rs_Header response ''Location'') maxLocationBytes;
            (retryAfter, retryAfterOmitted) = boundedHeaderValue (rs_Header response ''Retry-After'') maxRetryAfterBytes;
            evidence = \<lparr>wev_RemoteEndpoint = remote, wev_TCPConnectMS = Milliseconds (sd_tcp timings), wev_TLS = None,
              wev_HTTP = \<lparr>whttp_Protocol = rs_Proto response, whttp_StatusCode = rs_StatusCode response,
                whttp_TTFBMS = Milliseconds (sd_ttfb timings), whttp_Location = location,
                whttp_LocationOmitted = locationOmitted, whttp_RetryAfter = retryAfter,
                whttp_RetryAfterOmitted = retryAfterOmitted\<rparr>\<rparr> in
        if win_Scheme inp = SchemeHTTPS then
          (case tlsEvidenceFromState w inp (rs_TLS response) (sd_tls timings) of
             Inl e \<Rightarrow> Inl e
           | Inr t \<Rightarrow> Inr (evidence\<lparr>wev_TLS := Some t\<rparr>))
        else if rs_TLS response \<noteq> None then Inl ''HTTP response unexpectedly includes TLS state''
        else Inr evidence))"

section \<open>Observe\<close>

definition baseResult_web :: "WebWorld \<Rightarrow> WebObserver \<Rightarrow> gotime \<Rightarrow> gotime \<Rightarrow> WebInput \<Rightarrow> WebResult" where
  "baseResult_web w ob finishedAt startedAt inp =
     (let duration = Milliseconds (Sub finishedAt startedAt) in
      \<lparr>env_schema = SchemaVersion, env_probe = ProbeKind_web,
       env_observedAt = UTC finishedAt, env_durationMS = (if duration < 0 then 0 else duration),
       env_platform = \<lparr>plat_os = ww_os w, plat_arch = ww_arch w\<rparr>, env_source = wob_source ob,
       env_input = inp, env_outcome = OutcomeOther '''', env_evidence = None, env_failure = None\<rparr>)"

definition failureResult_web :: "WebWorld \<Rightarrow> WebObserver \<Rightarrow> gotime \<Rightarrow> gotime \<Rightarrow> WebInput \<Rightarrow>
    Outcome \<Rightarrow> FailureCode \<Rightarrow> goerr option \<Rightarrow> WebResult" where
  "failureResult_web w ob finishedAt startedAt inp outcome code err =
     (baseResult_web w ob finishedAt startedAt inp)\<lparr>env_outcome := outcome,
        env_failure := Some \<lparr>fail_code = code,
          fail_detail = (case err of None \<Rightarrow> '''' | Some e \<Rightarrow> err_text e)\<rparr>\<rparr>"

definition requestURL :: "WebInput \<Rightarrow> WebTarget \<Rightarrow> url" where
  "requestURL inp target = emptyURL\<lparr>u_Scheme := win_Scheme inp, u_Host := win_Hostname inp,
     u_Path := wtgt_path target, u_RawPath := wtgt_rawPath target, u_RawQuery := wtgt_rawQuery target\<rparr>"

text \<open>
  \<open>http.NewRequestWithContext\<close> parses the printed URL again; its method is valid and its context
  is there, so it fails only when the URL does not parse.
\<close>

definition newHttpRequest :: "WebInput \<Rightarrow> WebTarget \<Rightarrow> WebHttpRequest option" where
  "newHttpRequest inp target = (case urlParse (urlString (requestURL inp target)) of
      None \<Rightarrow> None
    | Some v \<Rightarrow> Some \<lparr>hq_Method = win_Method inp, hq_URL = v, hq_Host = win_Hostname inp, hq_Close = True,
        hq_UserAgent = ''ReachRun/phase0''\<rparr>)"

definition webTransport :: "WebObserver \<Rightarrow> WebTarget \<Rightarrow> WebTransport" where
  "webTransport ob target = \<lparr>tp_UsesProxy = False, tp_ForceAttemptHTTP2 = False, tp_DisableKeepAlives = True,
     tp_DisableCompression = True, tp_MaxConnsPerHost = 1, tp_TLSHandshakeTimeout = wob_timeout ob,
     tp_ResponseHeaderTimeout = wob_timeout ob, tp_MaxResponseHeaderBytes = maxResponseHeaderBytes_web,
     tp_ServerName = wtgt_hostname target, tp_NextProtos = [''http/1.1''], tp_AlternateProtocols = []\<rparr>"

text \<open>The readings of the contexts: 0 before the attempt, 1 and 2 at its end.\<close>

definition Observe_web :: "'a unitab_scheme \<Rightarrow> WebWorld \<Rightarrow> WebObserver \<Rightarrow> WebObsRequest \<Rightarrow> WebResult" where
  "Observe_web u w ob request =
     (let now = ww_now w; ctx = ww_ctx w; startedAt = now 0;
          (inp, target, err) = normalizeRequest_web u request in
      if err \<noteq> None then
        failureResult_web w ob (now 1) startedAt inp OutcomeFailed FailureInvalidInput (map_option plainErr err)
      else (case classifyContext ctx 0 attemptStageTCP of
        Some (outcome, code, e) \<Rightarrow> failureResult_web w ob (now 1) startedAt inp outcome code (Some e)
      | None \<Rightarrow>
        (let attempt = withTimeout ctx (ww_fired w (wob_timeout ob)) in
         case newHttpRequest inp target of
           None \<Rightarrow> failureResult_web w ob (now 1) startedAt inp OutcomeFailed FailureInvalidInput
             (Some (plainErr ''parse URL''))
         | Some httpRequest \<Rightarrow>
            (let exchange = ww_roundTrip w (webTransport ob target) httpRequest;
                 trace = runTransport u w target 1 (wx_steps exchange);
                 failed = failureResult_web w ob (now (at_reads trace)) startedAt inp in
             case wx_answer exchange of
               Inl e \<Rightarrow>
                (let stage = failureStage trace (win_Scheme inp) in
                 case classifyAttemptContext ctx attempt 1 stage of
                   Some (outcome, code, e') \<Rightarrow> failed outcome code (Some e')
                 | None \<Rightarrow> failed OutcomeFailed (classifyExchangeFailure e stage) (Some e))
             | Inr response \<Rightarrow> (case successDurations trace (win_Scheme inp) of
                 Inl m \<Rightarrow> failed OutcomeFailed FailureHTTPProtocol (Some (plainErr m))
               | Inr timings \<Rightarrow>
                  (case evidenceFromResponse_web w inp target response (at_remoteEndpoint trace) timings of
                     Inl m \<Rightarrow> failed OutcomeFailed FailureHTTPProtocol (Some (plainErr m))
                   | Inr evidence \<Rightarrow>
                      (case classifyAttemptContext ctx attempt 1 attemptStageHTTP of
                         Some (outcome, code, e) \<Rightarrow> failed outcome code (Some e)
                       | None \<Rightarrow> (baseResult_web w ob (now (at_reads trace)) startedAt inp)
                           \<lparr>env_outcome := OutcomeSucceeded, env_evidence := Some evidence\<rparr>)))))))"

section \<open>Validate\<close>

definition validFailureCode_web :: "FailureCode \<Rightarrow> bool" where
  "validFailureCode_web code = (code \<in> {FailureInvalidInput, FailureCancelled, FailureTCPConnectionRefused_web,
     FailureTCPNoRoute_web, FailureTCPTimeout_web, FailureTCPConnectionReset_web, FailureTCP_web,
     FailureTLSTimeout, FailureTLSConnectionReset, FailureTLSCertificate, FailureTLSHandshake,
     FailureHTTPTimeout, FailureHTTPConnectionReset, FailureHTTPProtocol})"

definition validateFailureForInput :: "WebInput \<Rightarrow> Failure option \<Rightarrow> error option" where
  "validateFailureForInput inp failure = (case failure of
      None \<Rightarrow> None
    | Some f \<Rightarrow>
        if fail_code f = FailureInvalidInput \<or> win_Scheme inp \<noteq> SchemeHTTP then None
        else guard (fail_code f \<in> {FailureTLSTimeout, FailureTLSConnectionReset, FailureTLSCertificate, FailureTLSHandshake})
          ''plain HTTP input must not produce TLS failure'')"

definition validateInputContract_web :: "'a unitab_scheme \<Rightarrow> WebInput \<Rightarrow> Failure option \<Rightarrow> error option" where
  "validateInputContract_web u inp failure =
     (let (normalized, target, inputErr) = normalizeRequest_web u
            \<lparr>wreq_Scheme = win_Scheme inp, wreq_Hostname = win_Hostname inp, wreq_DialIP = win_DialIP inp,
             wreq_Path = win_Path inp, wreq_RawQuery = win_RawQuery inp\<rparr>;
          isInvalidFailure = (case failure of None \<Rightarrow> False | Some f \<Rightarrow> fail_code f = FailureInvalidInput) in
      if normalized \<noteq> inp then Some ''input must use its normalized and derived representation''
      else (case inputErr of
          Some e \<Rightarrow> if \<not> isInvalidFailure then Some (''invalid request requires invalid_input: '' @ e) else None
        | None \<Rightarrow> guard isInvalidFailure ''valid request must not produce invalid_input''))"

definition tlsDurationMS :: "TLSObservation option \<Rightarrow> int" where
  "tlsDurationMS observation = (case observation of None \<Rightarrow> 0 | Some t \<Rightarrow> wtls_HandshakeMS t)"

definition validateHTTP :: "HTTPObservation \<Rightarrow> error option" where
  "validateHTTP h = firstErr [
     guard (whttp_Protocol h \<noteq> ''HTTP/1.0'' \<and> whttp_Protocol h \<noteq> ''HTTP/1.1'') ''unsupported HTTP protocol'',
     guard (whttp_StatusCode h < 100 \<or> 599 < whttp_StatusCode h) ''status_code must be between 100 and 599'',
     guard (whttp_TTFBMS h < 0) ''ttfb_ms must not be negative'',
     guard (whttp_LocationOmitted h \<and> whttp_Location h \<noteq> '''') ''omitted location must not include a value'',
     guard (maxLocationBytes < length (whttp_Location h) \<or> \<not> ValidString (whttp_Location h))
       ''location must be valid UTF-8 within 4096 bytes'',
     guard (whttp_RetryAfterOmitted h \<and> whttp_RetryAfter h \<noteq> '''') ''omitted retry_after must not include a value'',
     guard (maxRetryAfterBytes < length (whttp_RetryAfter h) \<or> \<not> ValidString (whttp_RetryAfter h))
       ''retry_after must be valid UTF-8 within 1024 bytes'']"

text \<open>Durations here are bounded by the check of \<open>duration_ms\<close>, so no product or sum leaves 64 bits.\<close>

definition validateTLS :: "'a unitab_scheme \<Rightarrow> WebInput \<Rightarrow> gotime \<Rightarrow> int \<Rightarrow> int \<Rightarrow> int \<Rightarrow> TLSObservation \<Rightarrow> error option" where
  "validateTLS u inp observedAt durationMS tcpConnectMS ttfbMS t =
     (let leaf = wtls_Leaf t;
          attemptStarted = addDuration observedAt (- (durationMS + 1) * Millisecond);
          earliestTLSStart = addDuration attemptStarted (tcpConnectMS * Millisecond);
          latestTLSCompletion = addDuration observedAt (- ttfbMS * Millisecond) in firstErr [
     guard (wtls_ServerName t \<noteq> win_Hostname inp) ''TLS server_name does not match hostname'',
     guard (wtls_Version t = '''' \<or> wtls_CipherSuite t = '''') ''TLS version and cipher_suite must not be empty'',
     guard (wtls_HandshakeMS t < 0) ''TLS handshake_ms must not be negative'',
     guard (wtls_VerifiedChains t \<le> 0) ''TLS verified_chains must be positive'',
     guard (wtls_ALPN t \<noteq> '''' \<and> wtls_ALPN t \<noteq> ''http/1.1'') ''HTTP/1.1 backend cannot report TLS ALPN'',
     guard ((case hexDecode (wleaf_SHA256 leaf) of None \<Rightarrow> True | Some fingerprint \<Rightarrow> length fingerprint \<noteq> 32) \<or>
         ToLower u (wleaf_SHA256 leaf) \<noteq> wleaf_SHA256 leaf)
       ''TLS leaf sha256 must be 64 lowercase hexadecimal characters'',
     guard (IsZero (wleaf_NotBefore leaf) \<or> IsZero (wleaf_NotAfter leaf)) ''TLS leaf validity times must not be zero'',
     guard (t_zone (wleaf_NotBefore leaf) \<noteq> 0) ''TLS leaf not_before must use UTC'',
     guard (t_zone (wleaf_NotAfter leaf) \<noteq> 0) ''TLS leaf not_after must use UTC'',
     guard (\<not> Before (wleaf_NotBefore leaf) (wleaf_NotAfter leaf)) ''TLS leaf not_before must precede not_after'',
     guard (Before (wleaf_NotAfter leaf) earliestTLSStart \<or> After (wleaf_NotBefore leaf) latestTLSCompletion)
       ''TLS leaf validity does not overlap the possible TLS verification window''])"

text \<open>The loop over the stage times: the milliseconds used so far.\<close>

fun validateStages :: "int \<Rightarrow> int \<Rightarrow> int list \<Rightarrow> error option" where
  "validateStages durationMS stageMS [] = None"
| "validateStages durationMS stageMS (v # vs) =
     (if v < 0 then Some ''stage timings must not be negative''
      else if durationMS - stageMS < v then Some ''stage timings exceed envelope duration_ms''
      else validateStages durationMS (stageMS + v) vs)"

definition maximumRepresentableDurationMS :: int where
  "maximumRepresentableDurationMS = (2 ^ 63 - 1) div Millisecond - 1"

definition validateEvidence_web :: "'a unitab_scheme \<Rightarrow> WebInput \<Rightarrow> gotime \<Rightarrow> int \<Rightarrow> WebEvidence \<Rightarrow> error option" where
  "validateEvidence_web u inp observedAt durationMS e =
     (if maximumRepresentableDurationMS < durationMS
      then Some ''duration_ms exceeds the representable observation interval''
      else case ParseAddrPort (wev_RemoteEndpoint e) of
        None \<Rightarrow> Some ''remote_endpoint is not an address and port''
      | Some (addr, port) \<Rightarrow> firstErr [
          guard (Zone addr \<noteq> '''') ''remote_endpoint must not include an IPv6 zone'',
          guard (AddrPortString (Unmap addr, port) \<noteq> wev_RemoteEndpoint e) ''remote_endpoint must be canonical'',
          guard (AddrString (Unmap addr) \<noteq> win_DialIP inp \<or> port \<noteq> win_Port inp)
            ''remote_endpoint does not match dial target'',
          guard (wev_TCPConnectMS e < 0) ''tcp_connect_ms must not be negative'',
          validateHTTP (wev_HTTP e),
          validateStages durationMS (wev_TCPConnectMS e) [whttp_TTFBMS (wev_HTTP e), tlsDurationMS (wev_TLS e)],
          (if win_Scheme inp = SchemeHTTP then guard (wev_TLS e \<noteq> None) ''HTTP evidence must not include TLS''
           else if win_Scheme inp = SchemeHTTPS then
             (case wev_TLS e of
                None \<Rightarrow> Some ''HTTPS evidence must include TLS''
              | Some t \<Rightarrow> validateTLS u inp observedAt durationMS (wev_TCPConnectMS e) (whttp_TTFBMS (wev_HTTP e)) t)
           else None)])"

definition Validate_web :: "'a unitab_scheme \<Rightarrow> WebResult \<Rightarrow> error option" where
  "Validate_web u result = firstErr [
     wrapErr ''invalid probe envelope: '' (Validate_envelope result),
     guard (env_probe result \<noteq> ProbeKind_web) ''probe must be web_observation'',
     guard (case env_failure result of None \<Rightarrow> False | Some f \<Rightarrow> \<not> validFailureCode_web (fail_code f))
       ''unsupported Web observation failure code'',
     wrapErr ''invalid Web observation input: '' (validateInputContract_web u (env_input result) (env_failure result)),
     (if env_outcome result \<noteq> OutcomeSucceeded then
        wrapErr ''invalid Web observation failure: '' (validateFailureForInput (env_input result) (env_failure result))
      else wrapErr ''invalid Web observation evidence: '' (case env_evidence result of
          None \<Rightarrow> Some ''panic: nil evidence''
        | Some e \<Rightarrow> validateEvidence_web u (env_input result) (env_observedAt result) (env_durationMS result) e))]"

end
