(* ===== verification/WebProps.thy ===== *)
theory WebProps
  imports WebObservation TlsProps
begin

text \<open>
  What the Web observation guarantees: the recorded input is its own normalization, the request
  that is sent is the recorded one, the stages of an orderly exchange fit in the whole, and the
  validator accepts what the observer returns.
\<close>

section \<open>The recorded input\<close>

text \<open>
  Trimming, lower-casing and dropping a trailing dot once more changes nothing. It holds of every
  accepted request; the code relies on it for the refused ones, too.
\<close>

definition stable_request :: "'a unitab_scheme \<Rightarrow> WebObsRequest \<Rightarrow> bool" where
  "stable_request u r \<longleftrightarrow>
     ToLower u (TrimSpace (ToLower u (TrimSpace (wreq_Scheme r)))) = ToLower u (TrimSpace (wreq_Scheme r)) \<and>
     webHostnameText u (webHostnameText u (wreq_Hostname r)) = webHostnameText u (wreq_Hostname r)"

definition recordedRequest :: "WebInput \<Rightarrow> WebObsRequest" where
  "recordedRequest i = \<lparr>wreq_Scheme = win_Scheme i, wreq_Hostname = win_Hostname i, wreq_DialIP = win_DialIP i,
     wreq_Path = win_Path i, wreq_RawQuery = win_RawQuery i\<rparr>"

lemma normalizeScheme_fixed:
  "ToLower u (TrimSpace s) = s \<Longrightarrow> normalizeScheme u s = (s, snd (normalizeScheme u s))"
  by (simp add: normalizeScheme_def Let_def)

lemma known_scheme:
  assumes "s = SchemeHTTP \<or> s = SchemeHTTPS"
  shows "ToLower u (TrimSpace s) = s"
proof -
  have "graphic s" "\<forall>c \<in> set s. byte c < 128 \<and> \<not> (65 \<le> byte c \<and> byte c \<le> 90)"
    using assms by (auto simp: SchemeHTTP_def SchemeHTTPS_def graphic_def isGraph_def)
  then show ?thesis using TrimSpace_graphic [of s] ToLower_lower_id [of s u] by simp
qed

lemma normalizeScheme_again:
  assumes "ToLower u (TrimSpace (ToLower u (TrimSpace s))) = ToLower u (TrimSpace s)"
  shows "normalizeScheme u (fst (normalizeScheme u s)) = normalizeScheme u s"
proof -
  have "fst (normalizeScheme u s) = ToLower u (TrimSpace s)" by (simp add: normalizeScheme_def Let_def)
  then show ?thesis using assms by (simp add: normalizeScheme_def)
qed

lemma NormalizeWebHostname_again:
  assumes "webHostnameText u (webHostnameText u h) = webHostnameText u h"
  shows "NormalizeWebHostname u (fst (NormalizeWebHostname u h)) = NormalizeWebHostname u h"
  using assms by (simp add: NormalizeWebHostname_def Let_def)

lemma normalizePublicIP_web_again:
  "normalizePublicIP_web (fst (normalizePublicIP_web v)) = normalizePublicIP_web v"
proof -
  obtain t ip e where v: "NormalizePublicIP v = (t, ip, e)" by (metis prod_cases3)
  with NormalizePublicIP_idempotent [of v] have "NormalizePublicIP t = (t, ip, e)" by simp
  with v show ?thesis by (simp add: normalizePublicIP_web_def)
qed

lemma normalizeRequest_web_again:
  assumes "normalizeRequest_web u r = (i, t, e)" "stable_request u r"
  shows "\<exists>t'. normalizeRequest_web u (recordedRequest i) = (i, t', e)"
proof -
  obtain s p se where s: "normalizeScheme u (wreq_Scheme r) = (s, p, se)" by (metis prod_cases3)
  obtain h he where h: "NormalizeWebHostname u (wreq_Hostname r) = (h, he)" by (metis prod.collapse)
  obtain tx ip f ie where ip: "normalizePublicIP_web (wreq_DialIP r) = (tx, ip, f, ie)" by (metis prod_cases4)
  obtain rt te where rt: "NormalizeWebRequestTarget (wreq_Path r) (wreq_RawQuery r) = (rt, te)" by (metis prod.collapse)
  have i: "win_Scheme i = s" "win_Hostname i = h" "win_DialIP i = tx" "win_Path i = wt_EscapedPath rt"
    "win_RawQuery i = wt_RawQuery rt"
    using assms(1) s h ip rt by (auto simp: normalizeRequest_web_def Let_def split: option.splits)
  have "normalizeScheme u s = (s, p, se)" using normalizeScheme_again [of u "wreq_Scheme r"] assms(2) s by (simp add: stable_request_def)
  moreover have "NormalizeWebHostname u h = (h, he)"
    using NormalizeWebHostname_again [of u "wreq_Hostname r"] assms(2) h by (simp add: stable_request_def)
  moreover have "normalizePublicIP_web tx = (tx, ip, f, ie)" using normalizePublicIP_web_again [of "wreq_DialIP r"] ip by simp
  moreover obtain raw where "NormalizeWebRequestTarget (wt_EscapedPath rt) (wt_RawQuery rt) = (rt\<lparr>wt_RawPath := raw\<rparr>, te)"
    using NormalizeWebRequestTarget_again [OF rt] by blast
  ultimately show ?thesis
    using assms(1) s h ip rt i
    by (auto simp: normalizeRequest_web_def recordedRequest_def Let_def split: option.splits)
qed

lemma normalizeRequest_web_unstable:
  assumes "normalizeRequest_web u r = (i, t, e)" "\<not> stable_request u r"
  shows "fst (normalizeRequest_web u (recordedRequest i)) \<noteq> i"
proof
  assume eq: "fst (normalizeRequest_web u (recordedRequest i)) = i"
  have rec: "win_Scheme (fst (normalizeRequest_web u r')) = ToLower u (TrimSpace (wreq_Scheme r'))"
    "win_Hostname (fst (normalizeRequest_web u r')) = webHostnameText u (wreq_Hostname r')" for r'
    by (auto simp: normalizeRequest_web_def normalizeScheme_def NormalizeWebHostname_def Let_def split: prod.split option.split)
  have i: "win_Scheme i = ToLower u (TrimSpace (wreq_Scheme r))" "win_Hostname i = webHostnameText u (wreq_Hostname r)"
    using rec [of r] assms(1) by simp_all
  have "wreq_Scheme (recordedRequest i) = win_Scheme i" "wreq_Hostname (recordedRequest i) = win_Hostname i"
    by (simp_all add: recordedRequest_def)
  with rec [of "recordedRequest i"] eq i assms(2) show False unfolding stable_request_def by metis
qed

text \<open>What an accepted request has become.\<close>

lemma normalizeRequest_web_ok:
  assumes "normalizeRequest_web u r = (i, t, None)"
  obtains rt where "NormalizeWebRequestTarget (wreq_Path r) (wreq_RawQuery r) = (rt, None)"
    "NormalizeWebHostname u (wreq_Hostname r) = (win_Hostname i, None)"
    "NormalizePublicIP (wreq_DialIP r) = (win_DialIP i, wtgt_ip t, None)"
    "NormalizePublicIP (win_DialIP i) = (win_DialIP i, wtgt_ip t, None)"
    "win_Scheme i = SchemeHTTP \<and> win_Port i = 80 \<or> win_Scheme i = SchemeHTTPS \<and> win_Port i = 443"
    "win_Method i = httpMethod" "win_Path i = wt_EscapedPath rt" "win_RawQuery i = wt_RawQuery rt"
    "wtgt_hostname t = win_Hostname i" "wtgt_port t = win_Port i"
    "wtgt_endpoint t = AddrPortString (wtgt_ip t, win_Port i)"
    "wtgt_network t = (if Is4 (wtgt_ip t) then ''tcp4'' else ''tcp6'')"
    "wtgt_path t = wt_Path rt" "wtgt_rawPath t = wt_RawPath rt" "wtgt_rawQuery t = wt_RawQuery rt"
    "stable_request u r"
proof -
  obtain s p se where s: "normalizeScheme u (wreq_Scheme r) = (s, p, se)" by (metis prod_cases3)
  obtain h he where h: "NormalizeWebHostname u (wreq_Hostname r) = (h, he)" by (metis prod.collapse)
  obtain tx ip ie where ip: "NormalizePublicIP (wreq_DialIP r) = (tx, ip, ie)" by (metis prod_cases3)
  obtain rt te where rt: "NormalizeWebRequestTarget (wreq_Path r) (wreq_RawQuery r) = (rt, te)" by (metis prod.collapse)
  have none: "se = None" "he = None" "ie = None" "te = None"
    using assms s h ip rt
    by (auto simp: normalizeRequest_web_def normalizePublicIP_web_def Let_def firstErr_simps split: option.splits)
  have eq: "i = \<lparr>win_Scheme = s, win_Hostname = h, win_DialIP = tx,
      win_Family = (if \<not> IsValid ip then FamilyOther_web '''' else if Is4 ip then FamilyIPv4_web else FamilyIPv6_web),
      win_Port = p, win_Method = httpMethod, win_Path = wt_EscapedPath rt, win_RawQuery = wt_RawQuery rt\<rparr>"
    and teq: "wtgt_hostname t = h" "wtgt_ip t = ip" "wtgt_port t = p" "wtgt_endpoint t = AddrPortString (ip, p)"
      "wtgt_path t = wt_Path rt" "wtgt_rawPath t = wt_RawPath rt" "wtgt_rawQuery t = wt_RawQuery rt"
      "IsValid ip \<Longrightarrow> wtgt_network t = (if Is4 ip then ''tcp4'' else ''tcp6'')"
    using assms s h ip rt none
    by (auto simp: normalizeRequest_web_def normalizePublicIP_web_def Let_def firstErr.simps)
  have sch: "s = SchemeHTTP \<and> p = 80 \<or> s = SchemeHTTPS \<and> p = 443" "s = ToLower u (TrimSpace (wreq_Scheme r))"
    using s none(1) by (auto simp: normalizeScheme_def Let_def httpPort_def httpsPort_def split: if_splits)
  have host: "webHostnameText u h = h" "h = webHostnameText u (wreq_Hostname r)"
    using h none(2) webHostnameErr_None_fixed [of h u] by (auto simp: NormalizeWebHostname_def Let_def)
  have st: "stable_request u r"
    using sch known_scheme [of s u] host by (auto simp: stable_request_def)
  note acc = NormalizePublicIP_accept_cases [OF ip [unfolded none]]
  have "NormalizePublicIP tx = (tx, ip, None)"
    using NormalizePublicIP_idempotent [of "wreq_DialIP r"] ip none by simp
  then show ?thesis
    using that [of rt] rt h ip none eq teq sch st acc by auto
qed

section \<open>The request that is sent\<close>

lemma accepted_target:
  assumes "NormalizeWebRequestTarget path q = (rt, None)"
  obtains v u0 p where "setPath u0 p = Some v" "wt_EscapedPath rt = EscapedPath v" "wt_Path rt = u_Path v"
    "wt_RawPath rt = u_RawPath v" "wt_RawQuery rt = q" "validateRawQuery q = None" "EscapedPath v \<noteq> ''''"
    "hd (EscapedPath v) = CHR ''/''" "u_Path v \<noteq> ''*''"
  using assms by (rule NormalizeWebRequestTarget_cases) auto

lemma EscapedPath_cong: "u_Path a = u_Path b \<Longrightarrow> u_RawPath a = u_RawPath b \<Longrightarrow> EscapedPath a = EscapedPath b"
  by (simp add: EscapedPath_def)

lemma hostText_url:
  assumes "hostText h" "h \<noteq> ''''"
  shows "escape encodeHost h = h" "parseAuthority h = Some (None, h)"
    "CHR ''/'' \<notin> set h" "CHR ''?'' \<notin> set h" "CHR ''#'' \<notin> set h" "\<not> list_ex controlByte h"
proof -
  have c: "byte c = 45 \<or> byte c = 46 \<or> 48 \<le> byte c \<and> byte c \<le> 57 \<or> 97 \<le> byte c \<and> byte c \<le> 122" if "c \<in> set h" for c
    using assms(1) that by (fastforce simp: hostText_def list_all_iff hostnameChar_def)
  have marks: "CHR ''/'' \<notin> set h" "CHR ''?'' \<notin> set h" "CHR ''#'' \<notin> set h" "CHR ''@'' \<notin> set h" "CHR '':'' \<notin> set h"
    "CHR ''['' \<notin> set h" "CHR ''%'' \<notin> set h"
    using c by fastforce+
  have plain: "\<not> shouldEscape x encodeHost" if "x \<in> set h" for x
  proof -
    have "byte (CHR ''-'') = 45" "byte (CHR ''.'') = 46" by simp_all
    then have "byte x = 45 \<Longrightarrow> x = CHR ''-''" "byte x = 46 \<Longrightarrow> x = CHR ''.''" by (metis of_char_eq_iff)+
    then have "isAlnum x \<or> x = CHR ''-'' \<or> x = CHR ''.''"
      using c [OF that] by (auto simp: isAlnum_def)
    then show ?thesis by (auto simp: shouldEscape_def isAlnum_def)
  qed
  show "escape encodeHost h = h" using plain by (intro escape_id) blast
  have "unescape encodeHost h = Some h" using plain marks(7) by (intro unescape_id) metis
  then have "parseHost h = Some h" using marks by (simp add: parseHost_def cutAt_None)
  then show "parseAuthority h = Some (None, h)" using marks by (simp add: parseAuthority_def cutLast_None)
  show "CHR ''/'' \<notin> set h" "CHR ''?'' \<notin> set h" "CHR ''#'' \<notin> set h" by (fact marks)+
  show "\<not> list_ex controlByte h" using c by (fastforce simp: list_ex_iff controlByte_def)
qed

lemma getScheme_web:
  "s = SchemeHTTP \<or> s = SchemeHTTPS \<Longrightarrow> getScheme (s @ '':'' @ r) = Some (s, r)"
  by (auto simp: getScheme_def isAlnum_def isDigit_def SchemeHTTP_def SchemeHTTPS_def)

lemma urlParse_web:
  assumes sch: "scheme = SchemeHTTP \<or> scheme = SchemeHTTPS" and h: "hostText host" "host \<noteq> ''''"
    and p: "path \<noteq> ''''" "hd path = CHR ''/''" "list_all plainPathByte path" and q: "validateRawQuery query = None"
  shows "urlParse (scheme @ ''://'' @ host @ requestTarget path query) =
    setPath (emptyURL\<lparr>u_Scheme := scheme, u_RawQuery := query, u_Host := host\<rparr>) path"
proof -
  let ?rest = "''//'' @ host @ path"
  let ?full = "''//'' @ host @ requestTarget path query"
  let ?s = "scheme @ '':'' @ ?full"
  note host = hostText_url [OF h]
  have pl: "CHR ''?'' \<notin> set path" "CHR ''#'' \<notin> set path" "\<not> list_ex controlByte path"
    using p(3) by (auto simp: list_all_iff list_ex_iff plainPathByte_def controlByte_def)
  have ql: "CHR ''#'' \<notin> set query" "\<not> list_ex controlByte query"
    using validateRawQuery_bytes [OF q] queryByte_plain by (auto simp: list_all_iff list_ex_iff)
  have ctl: "\<not> list_ex controlByte ?s" and frag: "CHR ''#'' \<notin> set ?s"
    using sch host pl ql
    by (auto simp: requestTarget_def SchemeHTTP_def SchemeHTTPS_def controlByte_def)
  have nq: "CHR ''?'' \<notin> set ?rest" using host pl by auto
  have forced: "(?full \<noteq> [] \<and> last ?full = CHR ''?'' \<and> CHR ''?'' \<notin> set (butlast ?full)) = False"
  proof (cases "query = ''''")
    case True
    have "last ?rest \<in> set ?rest" by (rule last_in_set) simp
    with nq have "last ?rest \<noteq> CHR ''?''" by metis
    with True show ?thesis by (simp add: requestTarget_def)
  next
    case False
    then show ?thesis by (simp add: requestTarget_def butlast_append)
  qed
  have cut: "\<exists>found. (if False then (butlast ?full, '''', True) else cutAt (CHR ''?'') ?full) = (?rest, query, found)"
  proof (cases "query = ''''")
    case True
    then show ?thesis using cutAt_None [OF nq] by (intro exI [of _ False]) (simp add: requestTarget_def)
  next
    case False
    then show ?thesis using cutAt_Some [OF nq, of query] by (intro exI [of _ True]) (simp add: requestTarget_def)
  qed
  then obtain found where cut: "(if False then (butlast ?full, '''', True) else cutAt (CHR ''?'') ?full) = (?rest, query, found)"
    by blast
  have low: "map asciiLower scheme = scheme" "scheme \<noteq> ''''" "?s \<noteq> ''*''"
    using sch by (auto simp: asciiLower_def SchemeHTTP_def SchemeHTTPS_def)
  have auth: "takeWhile (\<lambda>c. c \<noteq> CHR ''/'') (drop 2 ?rest) = host"
    using p host(3) by (cases path) (auto simp: takeWhile_append takeWhile_eq_all_conv)
  have path: "drop (2 + length host) ?rest = path" by simp
  have st: "startsWith ''/'' ?rest" "startsWith ''//'' ?rest" by (simp_all add: startsWith_def)
  have "parseURL False ?s = setPath (emptyURL\<lparr>u_Scheme := scheme, u_ForceQuery := False, u_RawQuery := query,
      u_User := None, u_Host := host\<rparr>) path"
    using parseURL_authority [OF ctl low(3) getScheme_web [OF sch] low(1,2) forced cut st auth host(2)]
    unfolding path .
  moreover have "emptyURL\<lparr>u_Scheme := scheme, u_ForceQuery := False, u_RawQuery := query, u_User := None, u_Host := host\<rparr> =
      emptyURL\<lparr>u_Scheme := scheme, u_RawQuery := query, u_Host := host\<rparr>"
    by (simp add: emptyURL_def)
  moreover have "cutAt (CHR ''#'') ?s = (?s, '''', False)" by (rule cutAt_None [OF frag])
  ultimately show ?thesis by (simp add: urlParse_def split: option.split)
qed

text \<open>Printing the URL and parsing it again keeps scheme, host, path and query.\<close>

lemma newHttpRequest_ok:
  assumes n: "normalizeRequest_web u r = (i, t, None)"
  shows "\<exists>hq. newHttpRequest i t = Some hq \<and> u_Scheme (hq_URL hq) = win_Scheme i \<and> u_Host (hq_URL hq) = win_Hostname i \<and>
    EscapedPath (hq_URL hq) = win_Path i \<and> u_RawQuery (hq_URL hq) = win_RawQuery i \<and> u_User (hq_URL hq) = None \<and>
    hq_Host hq = win_Hostname i \<and> hq_Method hq = ''GET''"
proof -
  obtain rt where rt: "NormalizeWebRequestTarget (wreq_Path r) (wreq_RawQuery r) = (rt, None)"
    "NormalizeWebHostname u (wreq_Hostname r) = (win_Hostname i, None)"
    "win_Scheme i = SchemeHTTP \<or> win_Scheme i = SchemeHTTPS" "win_Method i = httpMethod"
    "win_Path i = wt_EscapedPath rt" "win_RawQuery i = wt_RawQuery rt"
    "wtgt_path t = wt_Path rt" "wtgt_rawPath t = wt_RawPath rt" "wtgt_rawQuery t = wt_RawQuery rt"
    using normalizeRequest_web_ok [OF n] by metis
  obtain v u0 p where v: "setPath u0 p = Some v" "wt_EscapedPath rt = EscapedPath v" "wt_Path rt = u_Path v"
    "wt_RawPath rt = u_RawPath v" "wt_RawQuery rt = wreq_RawQuery r" "validateRawQuery (wreq_RawQuery r) = None"
    "EscapedPath v \<noteq> ''''" "hd (EscapedPath v) = CHR ''/''" "u_Path v \<noteq> ''*''"
    using accepted_target [OF rt(1)] by metis
  note host = NormalizeWebHostname_accept(1,2) [OF rt(2)]
  let ?U = "requestURL i t"
  have ep: "EscapedPath ?U = EscapedPath v" by (rule EscapedPath_cong) (simp_all add: requestURL_def rt v)
  have str: "urlString ?U = win_Scheme i @ ''://'' @ win_Hostname i @ requestTarget (EscapedPath v) (wreq_RawQuery r)"
    using rt v host hostText_url(1) [OF host] ep
    by (auto simp: urlString_def userString_def requestURL_def emptyURL_def requestTarget_def Let_def
        SchemeHTTP_def SchemeHTTPS_def)
  let ?e = "emptyURL\<lparr>u_Scheme := win_Scheme i, u_RawQuery := wreq_RawQuery r, u_Host := win_Hostname i\<rparr>"
  have "urlParse (urlString ?U) = setPath ?e (EscapedPath v)"
    unfolding str by (rule urlParse_web [OF rt(3) host v(7,8) EscapedPath_plain v(6)])
  moreover obtain w where w: "setPath ?e (EscapedPath v) = Some w" using EscapedPath_reads(1) [OF v(1,9)] by blast
  ultimately show ?thesis
    using EscapedPath_reads(2) [OF v(1,9) w] setPath_sel [OF w] rt v
    by (simp add: newHttpRequest_def httpMethod_def emptyURL_def)
qed

section \<open>The trace of an orderly exchange\<close>

text \<open>
  What \<open>net/http\<close> and \<open>net\<close> document of the events of one exchange on a new connection: the dial
  starts and ends, the handshake starts and ends, and then the request is written and the first
  byte of the response arrives, in any order.
\<close>

definition exchangeEvent :: "traceEvent \<Rightarrow> bool" where
  "exchangeEvent e \<longleftrightarrow> e = GotFirstResponseByte \<or> (\<exists>err. e = WroteRequest err)"

definition dial_events_ok :: "traceEvent list \<Rightarrow> bool" where
  "dial_events_ok es \<longleftrightarrow> es = [] \<or> es = [ConnectStart] \<or> (\<exists>err. es = [ConnectStart, ConnectDone err])"

definition handshake_events_ok :: "traceEvent list \<Rightarrow> bool" where
  "handshake_events_ok es \<longleftrightarrow> es = [] \<or> es = [TLSHandshakeStart] \<or> (\<exists>err. es = [TLSHandshakeStart, TLSHandshakeDone err])"

definition steps_ok :: "transportStep list \<Rightarrow> bool" where
  "steps_ok steps \<longleftrightarrow> (\<exists>address handshake tail. steps = TransportDial address # map TransportEvent (handshake @ tail) \<and>
     handshake_events_ok handshake \<and> list_all exchangeEvent tail)"

text \<open>Wall clock and monotonic clock advance together, and an attempt is short.\<close>

definition web_clock_ok :: "(nat \<Rightarrow> gotime) \<Rightarrow> bool" where
  "web_clock_ok now \<longleftrightarrow> (\<forall>n. \<not> IsZero (now n)) \<and>
     (\<exists>f W. mono f \<and> (\<forall>n. t_mono (now n) = Some (f n) \<and> t_wall (now n) = W + f n) \<and> (\<forall>n. f n - f 0 < (2 :: int) ^ 62))"

lemma web_clock_clock: "web_clock_ok now \<Longrightarrow> clock_ok now"
proof -
  assume a: "web_clock_ok now"
  then obtain f where f: "mono f" "\<And>n. t_mono (now n) = Some (f n)" "\<And>n. f n - f 0 < (2 :: int) ^ 62"
    by (auto simp: web_clock_ok_def)
  have "f n - f 0 < 2 ^ 63" for n using f(3) [of n] by (rule order_less_trans) simp
  with a f show ?thesis unfolding web_clock_ok_def clock_ok_def by blast
qed

text \<open>A reading of the clock among the numbered ones.\<close>

definition reading :: "(nat \<Rightarrow> gotime) \<Rightarrow> nat \<Rightarrow> nat \<Rightarrow> gotime \<Rightarrow> bool" where
  "reading now a b x \<longleftrightarrow> (\<exists>j. a \<le> j \<and> j < b \<and> x = now j)"

lemma reading_first: "a < b \<Longrightarrow> reading now a b (now a)"
  unfolding reading_def by blast

lemma reading_later: "reading now (Suc a) b x \<Longrightarrow> reading now a b x"
proof -
  assume "reading now (Suc a) b x"
  then obtain j where "Suc a \<le> j" "j < b" "x = now j" unfolding reading_def by blast
  then show ?thesis unfolding reading_def by (intro exI [of _ j]) simp
qed

lemma events_fold: "foldl (runTransportStep u w target) (d, t) (map TransportEvent es) =
    (d, foldl (\<lambda>t e. clientTrace (ww_now w) e t) t es)"
  by (induction es arbitrary: t) simp_all

lemma exchangeEvents_trace:
  assumes "list_all exchangeEvent es" "t' = foldl (\<lambda>t e. clientTrace now e t) t es"
  shows "at_reads t \<le> at_reads t' \<and>
    (at_requestWritten t' = at_requestWritten t \<or> reading now (at_reads t) (at_reads t') (at_requestWritten t')) \<and>
    (at_firstByte t' = at_firstByte t \<or> reading now (at_reads t) (at_reads t') (at_firstByte t')) \<and>
    at_connectStarted t' = at_connectStarted t \<and> at_connectDone t' = at_connectDone t \<and>
    at_connectErr t' = at_connectErr t \<and> at_tlsStarted t' = at_tlsStarted t \<and> at_tlsDone t' = at_tlsDone t \<and>
    at_tlsErr t' = at_tlsErr t \<and> at_remoteEndpoint t' = at_remoteEndpoint t"
  using assms
proof (induction es arbitrary: t)
  case (Cons e es)
  have all: "list_all exchangeEvent es" and e: "exchangeEvent e" using Cons.prems(1) by simp_all
  note IH = Cons.IH [OF all, of "clientTrace now e t"]
  have t': "t' = foldl (\<lambda>t e. clientTrace now e t) (clientTrace now e t) es" using Cons.prems(2) by simp
  consider "e = GotFirstResponseByte" | "e = WroteRequest None" | x where "e = WroteRequest (Some x)"
    using e unfolding exchangeEvent_def by (metis option.exhaust)
  then show ?case
  proof cases
    case 1
    with IH t' show ?thesis using reading_first [of "at_reads t" "at_reads t'" now] by (auto dest: reading_later)
  next
    case 2
    with IH t' show ?thesis using reading_first [of "at_reads t" "at_reads t'" now] by (auto dest: reading_later)
  next
    case 3
    with IH t' show ?thesis by simp
  qed
qed simp

text \<open>The readings of the clock behind the durations of a success.\<close>

lemma successDurations_readings:
  assumes clk: "\<And>n. \<not> IsZero (ww_now w n)" and steps: "steps_ok steps" and dial: "\<And>n a. dial_events_ok (wd_events (ww_dial w n a))"
    and ok: "successDurations (runTransport u w target 1 steps) scheme = Inr sd"
  defines "t \<equiv> runTransport u w target 1 steps"
  shows "\<exists>s j k. 3 \<le> s \<and> s \<le> j \<and> j < at_reads t \<and> s \<le> k \<and> k < at_reads t \<and>
     sd_tcp sd = nonNegativeDuration (Sub (ww_now w 2) (ww_now w 1)) \<and>
     sd_ttfb sd = nonNegativeDuration (Sub (ww_now w k) (ww_now w j)) \<and>
     (if scheme = SchemeHTTPS then s = 5 \<and> sd_tls sd = nonNegativeDuration (Sub (ww_now w 4) (ww_now w 3)) else sd_tls sd = 0)"
proof -
  obtain address hs tail where st: "steps = TransportDial address # map TransportEvent (hs @ tail)"
    "handshake_events_ok hs" "list_all exchangeEvent tail"
    using steps by (auto simp: steps_ok_def)
  obtain r d t1 where d: "literalDialer u w target address (False, newTrace 1) = (r, d, t1)" by (metis prod_cases3)
  define t2 where "t2 = foldl (\<lambda>t e. clientTrace (ww_now w) e t) t1 hs"
  have t: "t = foldl (\<lambda>t e. clientTrace (ww_now w) e t) t2 tail"
    unfolding t_def runTransport_def st(1) t2_def by (simp add: d events_fold del: map_append One_nat_def)
  note tr = exchangeEvents_trace [OF st(3) t]
  have z: "IsZero zeroTime" by (simp add: IsZero_def zeroTime_def)
  have nz: "\<not> IsZero (at_connectStarted t)" "\<not> IsZero (at_connectDone t)" "\<not> IsZero (at_requestWritten t)"
    "\<not> IsZero (at_firstByte t)"
    using ok unfolding t_def [symmetric] by (auto simp: successDurations_def split: if_splits)
  have tls: "scheme = SchemeHTTPS \<Longrightarrow> \<not> IsZero (at_tlsStarted t) \<and> \<not> IsZero (at_tlsDone t)"
    using ok unfolding t_def [symmetric] by (auto simp: successDurations_def split: if_splits)
  define t0 where "t0 = foldl (\<lambda>t e. clientTrace (ww_now w) e t) (newTrace 1)
      (wd_events (ww_dial w (wtgt_network target) (wtgt_endpoint target)))"
  have t10: "t1 = newTrace 1 \<or> t1 = t0 \<or> (\<exists>e. t1 = t0\<lparr>at_remoteEndpoint := e\<rparr>)"
    using d unfolding t0_def by (auto simp: literalDialer_def Let_def split: if_splits sum.splits)
  have h12: "at_connectDone t2 = at_connectDone t1" "at_connectStarted t2 = at_connectStarted t1"
      "at_requestWritten t2 = at_requestWritten t1" "at_firstByte t2 = at_firstByte t1"
    using st(2) unfolding t2_def handshake_events_ok_def by auto
  have nz1: "\<not> IsZero (at_connectStarted t1)" "\<not> IsZero (at_connectDone t1)" using nz tr h12 by simp_all
  have new: "at_connectStarted (newTrace 1) = zeroTime" "at_connectDone (newTrace 1) = zeroTime"
    "at_tlsStarted (newTrace 1) = zeroTime" "at_tlsDone (newTrace 1) = zeroTime" "at_reads (newTrace 1) = 1"
    "at_requestWritten (newTrace 1) = zeroTime" "at_firstByte (newTrace 1) = zeroTime"
    by (simp_all add: newTrace_def)
  have same: "at_connectStarted t1 = at_connectStarted t0" "at_connectDone t1 = at_connectDone t0"
    "at_reads t1 = at_reads t0" "at_tlsStarted t1 = at_tlsStarted t0" "at_tlsDone t1 = at_tlsDone t0"
    "at_requestWritten t1 = at_requestWritten t0" "at_firstByte t1 = at_firstByte t0"
    using t10 nz1 z new by auto
  obtain err where "wd_events (ww_dial w (wtgt_network target) (wtgt_endpoint target)) = [ConnectStart, ConnectDone err]"
    using dial [of "wtgt_network target" "wtgt_endpoint target"] nz1 z new same
    unfolding dial_events_ok_def by (auto simp: t0_def)
  then have t1: "at_connectStarted t1 = ww_now w 1" "at_connectDone t1 = ww_now w 2" "at_reads t1 = 3"
      "at_tlsStarted t1 = zeroTime" "at_tlsDone t1 = zeroTime" "at_requestWritten t1 = zeroTime" "at_firstByte t1 = zeroTime"
    using same new z by (simp_all add: t0_def numeral_2_eq_2)
  have t2: "3 \<le> at_reads t2" "scheme = SchemeHTTPS \<Longrightarrow> at_reads t2 = 5 \<and> at_tlsStarted t2 = ww_now w 3 \<and> at_tlsDone t2 = ww_now w 4"
    using st(2) t1 tls tr z unfolding t2_def handshake_events_ok_def by auto
  obtain j where j: "at_reads t2 \<le> j" "j < at_reads t" "at_requestWritten t = ww_now w j"
    using tr h12 t1 nz z by (auto simp: reading_def)
  obtain k where k: "at_reads t2 \<le> k" "k < at_reads t" "at_firstByte t = ww_now w k"
    using tr h12 t1 nz z by (auto simp: reading_def)
  have sel: "at_connectStarted t = ww_now w 1" "at_connectDone t = ww_now w 2"
    "scheme = SchemeHTTPS \<Longrightarrow> at_tlsStarted t = ww_now w 3" "scheme = SchemeHTTPS \<Longrightarrow> at_tlsDone t = ww_now w 4"
    using tr h12 t1 t2 by simp_all
  show ?thesis
    using ok j k t2 sel unfolding t_def [symmetric]
    by (intro exI [of _ "at_reads t2"] exI [of _ j] exI [of _ k])
      (auto simp: successDurations_def split: if_splits)
qed

lemma web_clock_Sub:
  assumes "web_clock_ok now"
  obtains f W where "mono f" "\<And>m n. Sub (now n) (now m) = f n - f m" "\<And>n. t_wall (now n) = W + f n"
    "\<And>n. f n - f 0 < (2 :: int) ^ 62"
proof -
  obtain f W where f: "mono f" "\<And>n. t_mono (now n) = Some (f n)" "\<And>n. t_wall (now n) = W + f n"
    "\<And>n. f n - f 0 < (2 :: int) ^ 62"
    using assms by (auto simp: web_clock_ok_def)
  have "f 0 \<le> f n" for n using f(1) by (rule monoD) simp
  then have "Sub (now n) (now m) = f n - f m" for m n
    using f(4) [of n] f(4) [of m] by (simp add: Sub_def f(2) clamp64_def min_def max_def) (smt (verit))
  with f that show ?thesis by blast
qed

lemma Milliseconds_nonNegative: "Milliseconds (nonNegativeDuration d) = max 0 d div 1000000"
  by (simp add: Milliseconds_def nonNegativeDuration_def max_def)

lemma web_stages:
  fixes now :: "nat \<Rightarrow> gotime" and tls :: int
  assumes clk: "web_clock_ok now" and s: "3 \<le> s" "s \<le> j" "j < R" "s \<le> k" "k < R"
  defines "tcp \<equiv> Milliseconds (nonNegativeDuration (Sub (now 2) (now 1)))"
    and "ttfb \<equiv> Milliseconds (nonNegativeDuration (Sub (now k) (now j)))"
    and "tls \<equiv> Milliseconds (nonNegativeDuration (Sub (now 4) (now 3)))"
    and "dur \<equiv> Milliseconds (Sub (now R) (now 0))"
  shows "0 \<le> tcp" "0 \<le> ttfb" "0 \<le> tls" "0 \<le> dur" "tcp + ttfb \<le> dur" "s = 5 \<Longrightarrow> tcp + ttfb + tls \<le> dur"
    "dur \<le> maximumRepresentableDurationMS"
    "t_wall (now R) - (dur + 1) * Millisecond + tcp * Millisecond \<le> t_wall (now 3)"
    "s = 5 \<Longrightarrow> t_wall (now 4) \<le> t_wall (now R) - ttfb * Millisecond"
proof -
  obtain f W where f: "mono f" "\<And>m n. Sub (now n) (now m) = f n - f m" "\<And>n. t_wall (now n) = W + f n"
    "\<And>n. f n - f 0 < (2 :: int) ^ 62"
    using web_clock_Sub [OF clk] by metis
  have le: "m \<le> n \<Longrightarrow> f m \<le> f n" for m n using f(1) by (rule monoD)
  have ord: "f 0 \<le> f 1" "f 1 \<le> f 2" "f 2 \<le> f 3" "f 3 \<le> f 4" "f 3 \<le> f s" "f s \<le> f j" "f s \<le> f k" "f k \<le> f R"
    "f j \<le> f R" "s = 5 \<Longrightarrow> f 4 \<le> f s"
    using s by (auto intro!: le)
  have eqs: "tcp = (f 2 - f 1) div 1000000" "ttfb = max 0 (f k - f j) div 1000000" "tls = (f 4 - f 3) div 1000000"
    "dur = (f R - f 0) div 1000000"
    unfolding tcp_def ttfb_def tls_def dur_def Milliseconds_nonNegative f(2)
    using ord by (simp_all add: Milliseconds_def)
  show "0 \<le> tcp" "0 \<le> ttfb" "0 \<le> tls" "0 \<le> dur"
    unfolding eqs using ord by (simp_all add: pos_imp_zdiv_nonneg_iff)
  show sum2: "tcp + ttfb \<le> dur" unfolding eqs using ord by linarith
  show "tcp + ttfb + tls \<le> dur" if "s = 5" unfolding eqs using ord that by linarith
  show "dur \<le> maximumRepresentableDurationMS"
  proof -
    have "(f R - f 0) div 1000000 \<le> 2 ^ 62 div 1000000" using f(4) [of R] by (intro zdiv_mono1) simp_all
    then show ?thesis unfolding eqs by (simp add: maximumRepresentableDurationMS_def)
  qed
  show "t_wall (now R) - (dur + 1) * Millisecond + tcp * Millisecond \<le> t_wall (now 3)"
  proof -
    have "y < (y div 1000000 + 1) * 1000000" "y div 1000000 * 1000000 \<le> y" for y :: int by presburger+
    from this(1) [of "f R - f 0"] this(2) [of "f 2 - f 1"] show ?thesis
      unfolding eqs f(3) using ord by linarith
  qed
  show "t_wall (now 4) \<le> t_wall (now R) - ttfb * Millisecond" if "s = 5"
    unfolding eqs f(3) using ord that by linarith
qed

section \<open>Valid evidence\<close>

text \<open>
  What the code relies on in \<open>crypto/tls\<close> and \<open>crypto/x509\<close>: a verified leaf was valid at some
  moment of the handshake, which happened between the third and the fourth reading of the clock;
  the protocol was offered; a plain HTTP exchange has no certificate failure. A response comes
  after an orderly sequence of steps.
\<close>

definition leaf_verified :: "(nat \<Rightarrow> gotime) \<Rightarrow> Certificate \<Rightarrow> bool" where
  "leaf_verified now leaf \<longleftrightarrow> \<not> IsZero (crt_NotBefore leaf) \<and> \<not> IsZero (crt_NotAfter leaf) \<and>
     t_wall (crt_NotBefore leaf) < t_wall (crt_NotAfter leaf) \<and>
     t_wall (crt_NotBefore leaf) \<le> t_wall (now 4) \<and> t_wall (now 3) \<le> t_wall (crt_NotAfter leaf)"

definition state_verified :: "(nat \<Rightarrow> gotime) \<Rightarrow> string list \<Rightarrow> ConnectionState \<Rightarrow> bool" where
  "state_verified now protos st \<longleftrightarrow> (cs_NegotiatedProtocol st = '''' \<or> cs_NegotiatedProtocol st \<in> set protos) \<and>
     list_all (leaf_verified now) (cs_PeerCertificates st)"

definition exchange_ok :: "(nat \<Rightarrow> gotime) \<Rightarrow> WebTransport \<Rightarrow> WebHttpRequest \<Rightarrow> WebExchange \<Rightarrow> bool" where
  "exchange_ok now tp hq x \<longleftrightarrow> (case wx_answer x of
      Inl e \<Rightarrow> u_Scheme (hq_URL hq) = SchemeHTTP \<longrightarrow> \<not> isCertificateFailure (Some e)
    | Inr response \<Rightarrow> steps_ok (wx_steps x) \<and>
        (case rs_TLS response of None \<Rightarrow> True | Some st \<Rightarrow> state_verified now (tp_NextProtos tp) st))"

definition web_library_ok :: "WebWorld \<Rightarrow> bool" where
  "web_library_ok w \<longleftrightarrow> (\<forall>bs. length (ww_sha256 w bs) = 32) \<and> (\<forall>n. ww_cipherSuiteName w n \<noteq> '''') \<and>
     (\<forall>network endpoint. dial_events_ok (wd_events (ww_dial w network endpoint))) \<and>
     (\<forall>tp hq. exchange_ok (ww_now w) tp hq (ww_roundTrip w tp hq))"

text \<open>What the peer chooses and the observer does not check: the version of HTTP in its status line.\<close>

definition knownVersion :: "string \<Rightarrow> bool" where
  "knownVersion p \<longleftrightarrow> p = ''HTTP/1.0'' \<or> p = ''HTTP/1.1''"

lemma hexEncode_lower: "ToLower u (hexEncode bs) = hexEncode bs"
proof (rule ToLower_lower_id, intro ballI)
  fix c
  assume c: "c \<in> set (hexEncode bs)"
  have "unat b < 256" for b :: "8 word" using unsigned_less [of b] by simp
  then have lt: "unat b div 16 < 16" "unat b mod 16 < 16" for b :: "8 word" by (simp_all add: less_mult_imp_div_less)
  obtain b :: "8 word" where "c = digitChar (unat b div 16) \<or> c = digitChar (unat b mod 16)"
    using c by (auto simp: hexEncode_def)
  then obtain d where d: "d < 16" "c = digitChar d" using lt by blast
  then show "byte c < 128 \<and> \<not> (65 \<le> byte c \<and> byte c \<le> 90)" by simp
qed

lemma boundedHeaderValue_ok:
  "boundedHeaderValue v m = (x, omitted) \<Longrightarrow> length x \<le> m \<and> ValidString x \<and> (omitted \<longrightarrow> x = '''')"
  by (auto simp: boundedHeaderValue_def ValidString.simps [of "[]"] split: if_splits)

lemma tlsEvidence_valid:
  assumes ev: "tlsEvidenceFromState w i (Some st) d = Inr t" and st: "state_verified (ww_now w) [''http/1.1''] st"
    and lib: "web_library_ok w" and d: "0 \<le> Milliseconds d"
    and early: "t_wall observedAt - (dur + 1) * Millisecond + tcp * Millisecond \<le> t_wall (ww_now w 3)"
    and late: "t_wall (ww_now w 4) \<le> t_wall observedAt - ttfb * Millisecond"
  shows "validateTLS u i (UTC observedAt) dur tcp ttfb t = None" "wtls_HandshakeMS t = Milliseconds d"
proof -
  obtain leaf certs where certs: "cs_PeerCertificates st = leaf # certs"
    using ev by (auto simp: tlsEvidenceFromState_def split: if_splits list.splits)
  have leaf: "leaf_verified (ww_now w) leaf" "cs_NegotiatedProtocol st = '''' \<or> cs_NegotiatedProtocol st = ''http/1.1''"
    using st certs by (auto simp: state_verified_def)
  show ms: "wtls_HandshakeMS t = Milliseconds d"
    using ev certs by (auto simp: tlsEvidenceFromState_def split: if_splits)
  have version: "tlsVersionName_web v \<noteq> ''''" for v by (simp add: tlsVersionName_web_def)
  have utc: "Before (UTC a) (UTC b) \<longleftrightarrow> t_wall a < t_wall b" "t_mono (UTC a) = None" for a b
    by (simp_all add: Before_def After_def UTC_def)
  have "Before (UTC (crt_NotAfter leaf)) (addDuration (addDuration (UTC observedAt) (- (dur + 1) * Millisecond)) (tcp * Millisecond)) \<longleftrightarrow>
      t_wall (crt_NotAfter leaf) < t_wall observedAt - (dur + 1) * Millisecond + tcp * Millisecond"
    "After (UTC (crt_NotBefore leaf)) (addDuration (UTC observedAt) (- ttfb * Millisecond)) \<longleftrightarrow>
      t_wall observedAt - ttfb * Millisecond < t_wall (crt_NotBefore leaf)"
    by (simp_all add: Before_def After_def addDuration_def utc(2) algebra_simps)
  then show "validateTLS u i (UTC observedAt) dur tcp ttfb t = None"
    using ev certs leaf lib d early late version hexEncode_lower utc
    by (auto simp: tlsEvidenceFromState_def validateTLS_def firstErr_simps Let_def web_library_ok_def leaf_verified_def
        split: if_splits)
qed

lemma tlsEvidence_state: "tlsEvidenceFromState w i state d = Inr t \<Longrightarrow>
    \<exists>st. state = Some st \<and> tlsEvidenceFromState w i (Some st) d = Inr t"
  by (cases state) (simp_all add: tlsEvidenceFromState_def)

lemma evidence_valid_web:
  assumes n: "normalizeRequest_web u r = (i, tg, None)" and clk: "web_clock_ok (ww_now w)" and lib: "web_library_ok w"
    and x: "exchange_ok (ww_now w) tp hq x" "wx_answer x = Inr response" "tp_NextProtos tp = [''http/1.1'']"
  defines "trace \<equiv> runTransport u w tg 1 (wx_steps x)"
  assumes sd: "successDurations trace (win_Scheme i) = Inr sd"
    and ev: "evidenceFromResponse_web w i tg response remote sd = Inr e"
  shows "validateEvidence_web u i (UTC (ww_now w (at_reads trace)))
    (Milliseconds (Sub (ww_now w (at_reads trace)) (ww_now w 0))) e =
      guard (\<not> knownVersion (whttp_Protocol (wev_HTTP e))) ''unsupported HTTP protocol''"
proof -
  let ?R = "at_reads trace" and ?now = "ww_now w"
  let ?dur = "Milliseconds (Sub (?now ?R) (?now 0))"
  have steps: "steps_ok (wx_steps x)"
    and tlsok: "\<And>st. rs_TLS response = Some st \<Longrightarrow> state_verified ?now [''http/1.1''] st"
    using x by (auto simp: exchange_ok_def)
  have "\<And>n. \<not> IsZero (?now n)" using clk by (simp add: web_clock_ok_def)
  moreover have "\<And>n a. dial_events_ok (wd_events (ww_dial w n a))" using lib by (simp add: web_library_ok_def)
  ultimately obtain s j k where idx: "3 \<le> s" "s \<le> j" "j < ?R" "s \<le> k" "k < ?R"
    "sd_tcp sd = nonNegativeDuration (Sub (?now 2) (?now 1))" "sd_ttfb sd = nonNegativeDuration (Sub (?now k) (?now j))"
    "if win_Scheme i = SchemeHTTPS then s = 5 \<and> sd_tls sd = nonNegativeDuration (Sub (?now 4) (?now 3)) else sd_tls sd = 0"
    using successDurations_readings [OF _ steps _ sd [unfolded trace_def]] unfolding trace_def by blast
  note stages = web_stages [OF clk idx(1-5)]
  have nq: "NormalizePublicIP (win_DialIP i) = (win_DialIP i, wtgt_ip tg, None)"
    and sch: "win_Scheme i = SchemeHTTP \<and> win_Port i = 80 \<or> win_Scheme i = SchemeHTTPS \<and> win_Port i = 443"
    and ep: "wtgt_endpoint tg = AddrPortString (wtgt_ip tg, win_Port i)"
    using normalizeRequest_web_ok [OF n] by metis+
  note acc = NormalizePublicIP_accept_cases [OF nq]
  have parse: "ParseAddrPort (wtgt_endpoint tg) = Some (wtgt_ip tg, win_Port i)"
    unfolding ep by (rule ParseAddrPort_String) (use acc sch in auto)
  obtain loc lo ra ro where hdr: "boundedHeaderValue (rs_Header response ''Location'') maxLocationBytes = (loc, lo)"
    "boundedHeaderValue (rs_Header response ''Retry-After'') maxRetryAfterBytes = (ra, ro)" by fastforce
  let ?h = "\<lparr>whttp_Protocol = rs_Proto response, whttp_StatusCode = rs_StatusCode response,
     whttp_TTFBMS = Milliseconds (sd_ttfb sd), whttp_Location = loc, whttp_LocationOmitted = lo, whttp_RetryAfter = ra,
     whttp_RetryAfterOmitted = ro\<rparr>"
  have e: "wev_RemoteEndpoint e = wtgt_endpoint tg" "wev_TCPConnectMS e = Milliseconds (sd_tcp sd)" "wev_HTTP e = ?h"
    "100 \<le> rs_StatusCode response" "rs_StatusCode response \<le> 599"
    and tls: "if win_Scheme i = SchemeHTTPS
      then \<exists>st t. rs_TLS response = Some st \<and> tlsEvidenceFromState w i (Some st) (sd_tls sd) = Inr t \<and> wev_TLS e = Some t
      else wev_TLS e = None"
    using ev hdr
    by (auto simp: evidenceFromResponse_web_def Let_def dest: tlsEvidence_state split: if_splits sum.splits)
  show ?thesis
  proof (cases "knownVersion (rs_Proto response)")
    case False
    then have "validateHTTP (wev_HTTP e) = Some ''unsupported HTTP protocol''"
      using e by (simp add: validateHTTP_def knownVersion_def guard_def firstErr.simps)
    with False e parse acc stages idx(6) sch ep show ?thesis
      by (auto simp: validateEvidence_web_def guard_def firstErr.simps not_less)
  next
    case version: True
    then have http: "validateHTTP (wev_HTTP e) = None"
      using e stages(2) idx(7) boundedHeaderValue_ok [OF hdr(1)] boundedHeaderValue_ok [OF hdr(2)]
      by (simp add: validateHTTP_def knownVersion_def firstErr_simps)
    have "validateEvidence_web u i (UTC (?now ?R)) ?dur e = None"
    proof (cases "win_Scheme i = SchemeHTTPS")
      case True
      then obtain st t where t: "rs_TLS response = Some st" "tlsEvidenceFromState w i (Some st) (sd_tls sd) = Inr t"
        "wev_TLS e = Some t" using tls by auto
      have s5: "s = 5" "sd_tls sd = nonNegativeDuration (Sub (?now 4) (?now 3))" using idx(8) True by simp_all
      have "0 \<le> Milliseconds (sd_tls sd)" using stages(3) s5 by simp
      moreover have "t_wall (?now ?R) - (?dur + 1) * Millisecond + Milliseconds (sd_tcp sd) * Millisecond \<le> t_wall (?now 3)"
        using stages(8) idx(6) by simp
      moreover have "t_wall (?now 4) \<le> t_wall (?now ?R) - Milliseconds (sd_ttfb sd) * Millisecond"
        using stages(9) s5(1) idx(7) by simp
      ultimately have tv: "validateTLS u i (UTC (?now ?R)) ?dur (Milliseconds (sd_tcp sd)) (Milliseconds (sd_ttfb sd)) t = None"
        "wtls_HandshakeMS t = Milliseconds (sd_tls sd)"
        using tlsEvidence_valid [OF t(2) tlsok [OF t(1)] lib] by blast+
      show ?thesis
        using True e http t tv parse acc stages s5 idx(6,7) sch ep
        by (simp add: validateEvidence_web_def firstErr_simps tlsDurationMS_def not_less)
    next
      case False
      then show ?thesis
        using e http tls parse acc stages idx(6,7) sch ep
        by (simp add: validateEvidence_web_def firstErr_simps tlsDurationMS_def not_less)
    qed
    with version e show ?thesis by (simp add: guard_def)
  qed
qed

section \<open>Valid results\<close>

definition web_env_ok :: "WebWorld \<Rightarrow> WebObserver \<Rightarrow> bool" where
  "web_env_ok w ob \<longleftrightarrow> web_clock_ok (ww_now w) \<and> platform_ok (ww_os w) (ww_arch w) \<and> (\<exists>cfg. newObserver_web cfg = Inr ob)"

lemma newObserver_web_source:
  "newObserver_web cfg = Inr ob \<Longrightarrow> wob_source ob =
     \<lparr>src_backend = ''go-stdlib-http1-direct'', src_capability = CapabilityNative, src_reason = ''''\<rparr>"
  by (auto simp: newObserver_web_def Let_def split: if_splits)

lemma baseResult_web_sel [simp]:
  "env_schema (baseResult_web w ob f s i) = SchemaVersion"
  "env_probe (baseResult_web w ob f s i) = ProbeKind_web"
  "env_observedAt (baseResult_web w ob f s i) = UTC f"
  "env_durationMS (baseResult_web w ob f s i) = (if Milliseconds (Sub f s) < 0 then 0 else Milliseconds (Sub f s))"
  "env_platform (baseResult_web w ob f s i) = \<lparr>plat_os = ww_os w, plat_arch = ww_arch w\<rparr>"
  "env_source (baseResult_web w ob f s i) = wob_source ob"
  "env_input (baseResult_web w ob f s i) = i"
  "env_evidence (baseResult_web w ob f s i) = None"
  "env_failure (baseResult_web w ob f s i) = None"
  by (simp_all add: baseResult_web_def Let_def)

lemma failureResult_web_sel [simp]:
  "env_outcome (failureResult_web w ob f s i oc c e) = oc"
  "env_input (failureResult_web w ob f s i oc c e) = i"
  "env_evidence (failureResult_web w ob f s i oc c e) = None"
  "env_probe (failureResult_web w ob f s i oc c e) = ProbeKind_web"
  "env_failure (failureResult_web w ob f s i oc c e) =
     Some \<lparr>fail_code = c, fail_detail = (case e of None \<Rightarrow> '''' | Some x \<Rightarrow> err_text x)\<rparr>"
  by (simp_all add: failureResult_web_def)

lemma failureResult_web_envelope:
  assumes "web_env_ok w ob" "coherent oc c"
  shows "Validate_envelope (failureResult_web w ob (ww_now w n) s i oc c e) = None"
  using assms clock_nonzero [OF web_clock_clock, of "ww_now w" n]
  by (auto simp: Validate_envelope_None Validate_outcome_None failureResult_web_def coherent_def
      platform_ok_def newObserver_web_source web_env_ok_def)

text \<open>A code that fits the scheme: no TLS failure of a plain HTTP exchange.\<close>

definition tlsCodes :: "FailureCode set" where
  "tlsCodes = {FailureTLSTimeout, FailureTLSConnectionReset, FailureTLSCertificate, FailureTLSHandshake}"

lemma Validate_web_failure:
  assumes "web_env_ok w ob" "coherent oc c" "validFailureCode_web c" "c \<noteq> FailureInvalidInput" "oc \<noteq> OutcomeSucceeded"
    and n: "normalizeRequest_web u r = (i, t, None)" and tls: "win_Scheme i = SchemeHTTP \<Longrightarrow> c \<notin> tlsCodes"
  shows "Validate_web u (failureResult_web w ob (ww_now w n) s i oc c e) = None"
proof -
  have "stable_request u r" using normalizeRequest_web_ok [OF n] by metis
  then obtain t' where "normalizeRequest_web u (recordedRequest i) = (i, t', None)"
    using normalizeRequest_web_again [OF n] by blast
  then show ?thesis
    using failureResult_web_envelope [OF assms(1,2)] assms(3-5) tls
    by (auto simp: Validate_web_def firstErr_simps validateInputContract_web_def recordedRequest_def Let_def
        validateFailureForInput_def tlsCodes_def)
qed

lemma Validate_web_invalid_input:
  assumes "web_env_ok w ob" and n: "normalizeRequest_web u r = (i, t, Some m)" and st: "stable_request u r"
  shows "Validate_web u (failureResult_web w ob (ww_now w n) s i OutcomeFailed FailureInvalidInput e) = None"
proof -
  obtain t' where "normalizeRequest_web u (recordedRequest i) = (i, t', Some m)"
    using normalizeRequest_web_again [OF n st] by blast
  then show ?thesis
    using failureResult_web_envelope [OF assms(1), of OutcomeFailed FailureInvalidInput]
    by (simp add: Validate_web_def firstErr_simps validateInputContract_web_def recordedRequest_def Let_def
        validateFailureForInput_def coherent_def validFailureCode_web_def)
qed

lemma failureCodes_ok:
  "coherent OutcomeFailed (timeoutCode s)" "validFailureCode_web (timeoutCode s)" "timeoutCode s \<noteq> FailureInvalidInput"
  "timeoutCode s \<in> tlsCodes \<Longrightarrow> s = attemptStageTLS"
  by (cases s; auto simp: timeoutCode_def coherent_def validFailureCode_web_def tlsCodes_def web_codes)+

lemma classifyContext_ok:
  assumes "classifyContext c k s = Some (oc, code, e)"
  shows "coherent oc code" "validFailureCode_web code" "code \<noteq> FailureInvalidInput" "oc \<noteq> OutcomeSucceeded"
    "code \<in> tlsCodes \<Longrightarrow> s = attemptStageTLS"
proof -
  have "oc = OutcomeCancelled \<and> code = FailureCancelled \<or> oc = OutcomeFailed \<and> code = timeoutCode s"
    using assms by (auto simp: classifyContext_def split: option.splits if_splits)
  then show "coherent oc code" "validFailureCode_web code" "code \<noteq> FailureInvalidInput" "oc \<noteq> OutcomeSucceeded"
    "code \<in> tlsCodes \<Longrightarrow> s = attemptStageTLS"
    using failureCodes_ok [of s] by (auto simp: coherent_def validFailureCode_web_def tlsCodes_def web_codes)
qed

lemma classifyAttemptContext_ok:
  assumes "classifyAttemptContext p a k s = Some (oc, code, e)"
  shows "coherent oc code" "validFailureCode_web code" "code \<noteq> FailureInvalidInput" "oc \<noteq> OutcomeSucceeded"
    "code \<in> tlsCodes \<Longrightarrow> s = attemptStageTLS"
  using assms classifyContext_ok [of p k s oc code e] classifyContext_ok [of a "k + 1" s oc code e]
  by (auto simp: classifyAttemptContext_def split: option.splits)

lemma classifyExchangeFailure_ok:
  shows "coherent OutcomeFailed (classifyExchangeFailure e s)" "validFailureCode_web (classifyExchangeFailure e s)"
    "classifyExchangeFailure e s \<noteq> FailureInvalidInput"
    "classifyExchangeFailure e s \<in> tlsCodes \<Longrightarrow> s = attemptStageTLS \<or> isCertificateFailure (Some e)"
proof -
  let ?c = "classifyExchangeFailure e s" and ?codes = "failureCodesFor s"
  have cases: "?c = sfc_timeout ?codes \<or> ?c = FailureTLSCertificate \<and> isCertificateFailure (Some e) \<or>
      ?c = FailureTCPConnectionRefused_web \<or> ?c = FailureTCPNoRoute_web \<or> ?c = sfc_reset ?codes \<or> ?c = sfc_fallback ?codes"
    by (simp add: classifyExchangeFailure_def Let_def)
  show "coherent OutcomeFailed ?c" "validFailureCode_web ?c" "?c \<noteq> FailureInvalidInput"
    using cases by (cases s; auto simp: coherent_def validFailureCode_web_def web_codes)+
  show "?c \<in> tlsCodes \<Longrightarrow> s = attemptStageTLS \<or> isCertificateFailure (Some e)"
    using cases by (cases s) (auto simp: tlsCodes_def web_codes)
qed

lemma failureStage_plain: "failureStage t SchemeHTTP \<noteq> attemptStageTLS"
  by (simp add: failureStage_def)

lemma Validate_web_success:
  assumes env: "web_env_ok w ob" and n: "normalizeRequest_web u r = (i, t, None)"
  shows "Validate_web u ((baseResult_web w ob (ww_now w k) (ww_now w 0) i)
    \<lparr>env_outcome := OutcomeSucceeded, env_evidence := Some e\<rparr>) = wrapErr ''invalid Web observation evidence: ''
      (validateEvidence_web u i (UTC (ww_now w k)) (Milliseconds (Sub (ww_now w k) (ww_now w 0))) e)"
proof -
  have "stable_request u r" using normalizeRequest_web_ok [OF n] by metis
  then obtain t' where again: "normalizeRequest_web u (recordedRequest i) = (i, t', None)"
    using normalizeRequest_web_again [OF n] by blast
  have clk: "web_clock_ok (ww_now w)" using env by (simp add: web_env_ok_def)
  obtain f W where "mono f" "\<And>m n. Sub (ww_now w n) (ww_now w m) = f n - f m" using web_clock_Sub [OF clk] by metis
  then have nn: "\<not> Milliseconds (Sub (ww_now w k) (ww_now w 0)) < 0"
    using monoD [of f 0 k] by (simp add: Milliseconds_def pos_imp_zdiv_nonneg_iff)
  have "Validate_envelope ((baseResult_web w ob (ww_now w k) (ww_now w 0) i)
    \<lparr>env_outcome := OutcomeSucceeded, env_evidence := Some e\<rparr>) = None"
    using env clock_nonzero [OF web_clock_clock [OF clk], of k] nn
    by (auto simp: Validate_envelope_None Validate_outcome_None platform_ok_def newObserver_web_source web_env_ok_def)
  with again nn show ?thesis
    by (simp add: Validate_web_def firstErr.simps guard_def wrapErr_def validateInputContract_web_def recordedRequest_def Let_def
        split: option.split)
qed

lemma Observe_web_exact:
  assumes env: "web_env_ok w ob" and lib: "web_library_ok w" and st: "stable_request u r"
  shows "Validate_web u (Observe_web u w ob r) = (case env_evidence (Observe_web u w ob r) of
      None \<Rightarrow> None
    | Some e \<Rightarrow> guard (\<not> knownVersion (whttp_Protocol (wev_HTTP e)))
        ''invalid Web observation evidence: unsupported HTTP protocol'')"
proof -
  obtain i tg err where n: "normalizeRequest_web u r = (i, tg, err)" by (metis prod_cases3)
  show ?thesis
  proof (cases err)
    case (Some m)
    with Validate_web_invalid_input [OF env n [unfolded Some] st] n show ?thesis by (simp add: Observe_web_def Let_def)
  next
    case None
    note n = n [unfolded None]
    note bad = Validate_web_failure [OF env _ _ _ _ n]
    show ?thesis
    proof (cases "classifyContext (ww_ctx w) 0 attemptStageTCP")
      case (Some c)
      obtain oc code e where c: "c = (oc, code, e)" by (metis prod_cases3)
      note ok = classifyContext_ok [OF Some [unfolded c]]
      show ?thesis using bad [OF ok(1-4)] ok(5) n Some c by (auto simp: Observe_web_def Let_def)
    next
      case live: None
      obtain hq where hq: "newHttpRequest i tg = Some hq" "u_Scheme (hq_URL hq) = win_Scheme i"
        using newHttpRequest_ok [OF n] by blast
      let ?x = "ww_roundTrip w (webTransport ob tg) hq"
      let ?trace = "runTransport u w tg 1 (wx_steps ?x)"
      let ?attempt = "withTimeout (ww_ctx w) (ww_fired w (wob_timeout ob))"
      have xok: "exchange_ok (ww_now w) (webTransport ob tg) hq ?x" using lib by (simp add: web_library_ok_def)
      note unfold = Observe_web_def Let_def
      show ?thesis
      proof (cases "wx_answer ?x")
        case (Inl e)
        have cert: "win_Scheme i = SchemeHTTP \<Longrightarrow> \<not> isCertificateFailure (Some e)"
          using xok Inl hq(2) by (simp add: exchange_ok_def)
        let ?stage = "failureStage ?trace (win_Scheme i)"
        show ?thesis
        proof (cases "classifyAttemptContext (ww_ctx w) ?attempt 1 ?stage")
          case (Some c)
          obtain oc code e' where c: "c = (oc, code, e')" by (metis prod_cases3)
          note ok = classifyAttemptContext_ok [OF Some [unfolded c]]
          have "Validate_web u (failureResult_web w ob (ww_now w (at_reads ?trace)) (ww_now w 0) i oc code (Some e')) = None"
            by (rule bad [OF ok(1-4)]) (use ok(5) failureStage_plain [of ?trace] in auto)
          with n live hq Inl Some c show ?thesis by (simp add: unfold)
        next
          case None
          have "Validate_web u (failureResult_web w ob (ww_now w (at_reads ?trace)) (ww_now w 0) i OutcomeFailed
              (classifyExchangeFailure e ?stage) (Some e)) = None"
            by (rule bad) (use classifyExchangeFailure_ok [of e ?stage] failureStage_plain [of ?trace] cert in auto)
          with n live hq Inl None show ?thesis by (simp add: unfold)
        qed
      next
        case (Inr response)
        have proto: "Validate_web u (failureResult_web w ob (ww_now w (at_reads ?trace)) (ww_now w 0) i OutcomeFailed
              FailureHTTPProtocol e) = None" for e
          by (rule bad) (auto simp: coherent_def validFailureCode_web_def tlsCodes_def web_codes)
        show ?thesis
        proof (cases "successDurations ?trace (win_Scheme i)")
          case (Inl m)
          with n live hq Inr proto show ?thesis by (simp add: unfold)
        next
          case sd: (Inr sd)
          show ?thesis
          proof (cases "evidenceFromResponse_web w i tg response (at_remoteEndpoint ?trace) sd")
            case (Inl m)
            with n live hq Inr sd proto show ?thesis by (simp add: unfold)
          next
            case ev: (Inr e)
            have clk: "web_clock_ok (ww_now w)" using env by (simp add: web_env_ok_def)
            have np: "tp_NextProtos (webTransport ob tg) = [''http/1.1'']" by (simp add: webTransport_def)
            note good = evidence_valid_web [OF n clk lib xok Inr np sd ev]
            show ?thesis
            proof (cases "classifyAttemptContext (ww_ctx w) ?attempt 1 attemptStageHTTP")
              case (Some c)
              obtain oc code e' where c: "c = (oc, code, e')" by (metis prod_cases3)
              note ok = classifyAttemptContext_ok [OF Some [unfolded c]]
              have "Validate_web u (failureResult_web w ob (ww_now w (at_reads ?trace)) (ww_now w 0) i oc code (Some e')) = None"
                by (rule bad [OF ok(1-4)]) (use ok(5) in auto)
              with n live hq Inr sd ev Some c show ?thesis by (simp add: unfold)
            next
              case None
              with n live hq Inr sd ev Validate_web_success [OF env n, where k = "at_reads ?trace" and e = e] good show ?thesis
                by (simp add: unfold wrapErr_def guard_def)
            qed
          qed
        qed
      qed
    qed
  qed
qed

lemma Observe_web_decided:
  assumes env: "web_env_ok w ob" and lib: "web_library_ok w"
  shows "Validate_web u (Observe_web u w ob r) = None \<longleftrightarrow> stable_request u r \<and>
    (\<forall>e. env_evidence (Observe_web u w ob r) = Some e \<longrightarrow> knownVersion (whttp_Protocol (wev_HTTP e)))"
proof (cases "stable_request u r")
  case True
  from Observe_web_exact [OF env lib this] True show ?thesis by (simp split: option.split)
next
  case False
  obtain i t e where n: "normalizeRequest_web u r = (i, t, e)" by (metis prod_cases3)
  then obtain m where m: "e = Some m" using normalizeRequest_web_ok False by (metis option.exhaust)
  have "validateInputContract_web u i f \<noteq> None" for f
    using normalizeRequest_web_unstable [OF n False]
    by (auto simp: validateInputContract_web_def recordedRequest_def Let_def split: prod.split)
  then have "Validate_web u x \<noteq> None" if "env_input x = i" for x
    using that by (auto simp: Validate_web_def firstErr_simps)
  moreover have "env_input (Observe_web u w ob r) = i" using n m by (simp add: Observe_web_def Let_def)
  ultimately show ?thesis using False by blast
qed

section \<open>Safety\<close>

text \<open>The dial function reaches only the literal endpoint of the request.\<close>

lemma Observe_web_dial_lemma:
  assumes "\<And>ip port. isAllowedPublicIP ip \<Longrightarrow> port = 80 \<or> port = 443 \<Longrightarrow>
      d (if Is4 ip then ''tcp4'' else ''tcp6'') (AddrPortString (ip, port)) =
      d' (if Is4 ip then ''tcp4'' else ''tcp6'') (AddrPortString (ip, port))"
  shows "Observe_web u (w\<lparr>ww_dial := d\<rparr>) ob r = Observe_web u (w\<lparr>ww_dial := d'\<rparr>) ob r"
proof -
  obtain i tg err where n: "normalizeRequest_web u r = (i, tg, err)" by (metis prod_cases3)
  let ?w = "w\<lparr>ww_dial := d\<rparr>" and ?w' = "w\<lparr>ww_dial := d'\<rparr>"
  have same: "baseResult_web ?w = baseResult_web ?w'" "failureResult_web ?w = failureResult_web ?w'"
    "tlsEvidenceFromState ?w = tlsEvidenceFromState ?w'"
    by (intro ext, simp add: baseResult_web_def failureResult_web_def tlsEvidenceFromState_def Let_def
        split: option.split list.split)+
  then have ev: "evidenceFromResponse_web ?w = evidenceFromResponse_web ?w'"
    by (intro ext) (simp add: evidenceFromResponse_web_def Let_def cong: if_cong)
  show ?thesis
  proof (cases err)
    case (Some m)
    with n same show ?thesis by (simp add: Observe_web_def)
  next
    case None
    have "d (wtgt_network tg) (wtgt_endpoint tg) = d' (wtgt_network tg) (wtgt_endpoint tg)"
    proof -
      obtain "NormalizePublicIP (win_DialIP i) = (win_DialIP i, wtgt_ip tg, None)"
        "wtgt_endpoint tg = AddrPortString (wtgt_ip tg, win_Port i)" "win_Port i = 80 \<or> win_Port i = 443"
        "wtgt_network tg = (if Is4 (wtgt_ip tg) then ''tcp4'' else ''tcp6'')"
        using normalizeRequest_web_ok [OF n [unfolded None]] by metis
      with assms [of "wtgt_ip tg" "win_Port i"] NormalizePublicIP_accept_cases(4) show ?thesis by simp
    qed
    then have "literalDialer u ?w tg a s = literalDialer u ?w' tg a s" for a s
      by (cases s) (simp add: literalDialer_def Let_def cong: if_cong sum.case_cong option.case_cong)
    then have "runTransportStep u ?w tg s x = runTransportStep u ?w' tg s x" for s x
      by (cases s; cases x) simp_all
    then have "runTransportStep u ?w tg = runTransportStep u ?w' tg" by (intro ext)
    then have "runTransport u ?w tg = runTransport u ?w' tg" by (intro ext) (simp add: runTransport_def)
    with n same ev show ?thesis by (simp add: Observe_web_def Let_def cong: option.case_cong sum.case_cong)
  qed
qed

text \<open>Evidence names the recorded address and is committed only in time.\<close>

lemma Observe_web_success_lemma:
  assumes "env_evidence (Observe_web u w ob r) = Some e"
  shows "ww_ctx w 0 = None \<and> ww_ctx w 1 = None \<and> withTimeout (ww_ctx w) (ww_fired w (wob_timeout ob)) 2 = None \<and>
    (\<exists>i tg. normalizeRequest_web u r = (i, tg, None) \<and> env_input (Observe_web u w ob r) = i \<and>
       wev_RemoteEndpoint e = AddrPortString (wtgt_ip tg, win_Port i) \<and> isAllowedPublicIP (wtgt_ip tg) \<and>
       AddrString (wtgt_ip tg) = win_DialIP i)"
proof -
  obtain i tg err where n: "normalizeRequest_web u r = (i, tg, err)" by (metis prod_cases3)
  have err: "err = None" using assms n by (cases err) (simp_all add: Observe_web_def Let_def)
  have live: "classifyContext (ww_ctx w) 0 attemptStageTCP = None"
    using assms n err by (auto simp: Observe_web_def Let_def split: option.splits)
  obtain hq where hq: "newHttpRequest i tg = Some hq" using newHttpRequest_ok [OF n [unfolded err]] by blast
  let ?x = "ww_roundTrip w (webTransport ob tg) hq"
  let ?trace = "runTransport u w tg 1 (wx_steps ?x)"
  let ?attempt = "withTimeout (ww_ctx w) (ww_fired w (wob_timeout ob))"
  obtain response where x: "wx_answer ?x = Inr response"
    using assms n err live hq by (cases "wx_answer ?x") (auto simp: Observe_web_def Let_def split: option.splits)
  obtain sd where sd: "successDurations ?trace (win_Scheme i) = Inr sd"
    using assms n err live hq x by (cases "successDurations ?trace (win_Scheme i)") (simp_all add: Observe_web_def Let_def)
  obtain e' where ev: "evidenceFromResponse_web w i tg response (at_remoteEndpoint ?trace) sd = Inr e'"
    using assms n err live hq x sd
    by (cases "evidenceFromResponse_web w i tg response (at_remoteEndpoint ?trace) sd") (auto simp: Observe_web_def Let_def)
  have late: "classifyAttemptContext (ww_ctx w) ?attempt 1 attemptStageHTTP = None" and e: "e' = e"
    and inp: "env_input (Observe_web u w ob r) = i"
    using assms n err live hq x sd ev by (auto simp: Observe_web_def Let_def split: option.splits)
  have cc: "classifyContext c k s = None \<longleftrightarrow> c k = None" for c k s
    by (cases "c k") (auto simp: classifyContext_def ctxErrAt_def)
  have "ww_ctx w 0 = None" "ww_ctx w 1 = None" "?attempt 2 = None"
    using live late by (auto simp: cc classifyAttemptContext_def numeral_2_eq_2 split: option.splits)
  moreover have "wev_RemoteEndpoint e = wtgt_endpoint tg"
    using ev e by (auto simp: evidenceFromResponse_web_def Let_def split: if_splits sum.splits prod.splits)
  moreover obtain "NormalizePublicIP (win_DialIP i) = (win_DialIP i, wtgt_ip tg, None)"
    "wtgt_endpoint tg = AddrPortString (wtgt_ip tg, win_Port i)"
    using normalizeRequest_web_ok [OF n [unfolded err]] by metis
  ultimately show ?thesis using n err inp NormalizePublicIP_accept_cases(1,4) by auto
qed

end
