(* ===== verification/WebClaims.thy ===== *)
theory WebClaims
  imports WebProps
begin

text \<open>
  A concrete exchange of the Web observer, and its properties.
\<close>

section \<open>A concrete exchange\<close>

text \<open>One connection to 1.1.1.1 port 80 and a response of the given HTTP version.\<close>

definition webWorld :: "string \<Rightarrow> WebWorld" where
  "webWorld version = \<lparr>ww_now = steadyClock 1000000, ww_ctx = background, ww_fired = (\<lambda>d n. False),
     ww_dial = (\<lambda>network endpoint. \<lparr>wd_events = [ConnectStart, ConnectDone None], wd_answer = Inr (Some endpoint)\<rparr>),
     ww_roundTrip = (\<lambda>tp hq. \<lparr>
       wx_steps = [TransportDial (JoinHostPort (hq_Host hq) ''80''), TransportEvent (WroteRequest None),
         TransportEvent GotFirstResponseByte],
       wx_answer = Inr \<lparr>rs_StatusCode = 204, rs_Proto = version, rs_Header = (\<lambda>name. ''''), rs_TLS = None\<rparr>\<rparr>),
     ww_os = ''linux'', ww_arch = ''amd64'', ww_sha256 = (\<lambda>bs. replicate 32 0), ww_cipherSuiteName = (\<lambda>n. ''TLS_NONE'')\<rparr>"

definition demoWebObserver :: WebObserver where
  "demoWebObserver = \<lparr>wob_timeout = defaultTimeout_web,
     wob_source = \<lparr>src_backend = ''go-stdlib-http1-direct'', src_capability = CapabilityNative, src_reason = ''''\<rparr>\<rparr>"

definition demoWebRequest :: WebObsRequest where
  "demoWebRequest = \<lparr>wreq_Scheme = ''http'', wreq_Hostname = ''example.com'', wreq_DialIP = ''1.1.1.1'',
     wreq_Path = '''', wreq_RawQuery = ''''\<rparr>"

definition asciiUni :: unitab where
  "asciiUni = \<lparr>uni_lower = id, uni_fold = (=)\<rparr>"

lemma demoWebObserver_new: "newObserver_web \<lparr>wcfg_Timeout = 0\<rparr> = Inr demoWebObserver"
  by (simp add: newObserver_web_def demoWebObserver_def defaultTimeout_web_def maximumTimeout_web_def)

lemma steadyClock_web: "web_clock_ok (steadyClock 1000000)"
proof -
  let ?f = "\<lambda>n :: nat. 1000000 * int (min n 1000)"
  have "mono ?f" by (intro monoI) simp
  moreover have "?f n - ?f 0 < 2 ^ 62" for n by simp
  moreover have "t_mono (steadyClock 1000000 n) = Some (?f n) \<and> t_wall (steadyClock 1000000 n) = 10 ^ 18 + ?f n" for n
    by (simp add: steadyClock_def)
  moreover have "\<not> IsZero (steadyClock 1000000 n)" for n by (simp add: steadyClock_def IsZero_def)
  ultimately show ?thesis unfolding web_clock_ok_def by blast
qed

lemma webWorld_ok: "web_env_ok (webWorld version) demoWebObserver" "web_library_ok (webWorld version)"
proof -
  show "web_env_ok (webWorld version) demoWebObserver"
    using demoWebObserver_new by (auto simp: web_env_ok_def webWorld_def steadyClock_web platform_ok_def)
  have "steps_ok [TransportDial a, TransportEvent (WroteRequest None), TransportEvent GotFirstResponseByte]" for a
    unfolding steps_ok_def
    by (intro exI [of _ a] exI [of _ "[]"] exI [of _ "[WroteRequest None, GotFirstResponseByte]"])
      (simp add: handshake_events_ok_def exchangeEvent_def)
  then show "web_library_ok (webWorld version)"
    by (simp add: web_library_ok_def webWorld_def exchange_ok_def dial_events_ok_def)
qed

lemma example_host: "NormalizeWebHostname u ''example.com'' = (''example.com'', None)"
  by (rule NormalizeWebHostname_fixed [OF ascii_host_example])

text \<open>One trailing dot is dropped per pass.\<close>

lemma double_dot: "webHostnameText u ''a..'' = ''a.''" "webHostnameText u ''a.'' = ''a''"
  by (simp_all add: webHostnameText_def TrimSpace_graphic isGraph_def ToLower_lower_id TrimSuffixDot_def)

lemma example_target: "NormalizeWebRequestTarget '''' '''' =
  (\<lparr>wt_EscapedPath = ''/'', wt_Path = ''/'', wt_RawPath = '''', wt_RawQuery = ''''\<rparr>, None)"
  by code_simp

definition demoTarget :: WebTarget where
  "demoTarget = \<lparr>wtgt_hostname = ''example.com'', wtgt_ip = Addr4 1 1 1 1, wtgt_family = FamilyIPv4_web, wtgt_port = 80,
     wtgt_network = ''tcp4'', wtgt_endpoint = ''1.1.1.1:80'', wtgt_path = ''/'', wtgt_rawPath = '''', wtgt_rawQuery = ''''\<rparr>"

lemma normalize_demo_web: "normalizeRequest_web u demoWebRequest =
  (\<lparr>win_Scheme = ''http'', win_Hostname = ''example.com'', win_DialIP = ''1.1.1.1'', win_Family = FamilyIPv4_web,
     win_Port = 80, win_Method = ''GET'', win_Path = ''/'', win_RawQuery = ''''\<rparr>, demoTarget, None)"
proof -
  have "normalizeScheme u ''http'' = (''http'', 80, None)"
    using known_scheme [of "''http''" u] by (simp add: normalizeScheme_def SchemeHTTP_def httpPort_def)
  then show ?thesis
    using NormalizePublicIP_complete [OF one_one_allowed]
    by (simp add: normalizeRequest_web_def demoWebRequest_def example_host example_target one_one_text normalizePublicIP_web_def
        httpMethod_def AddrPortString_def firstErr.simps fmtBase_rec digitChar_text demoTarget_def)
qed

lemma demo_endpoint_web: "canonicalRemoteEndpoint_web (Some ''1.1.1.1:80'') = Inr ''1.1.1.1:80''"
proof -
  have "AddrPortString (Addr4 1 1 1 1, 80) = ''1.1.1.1:80''"
    by (simp add: AddrPortString_def one_one_text fmtBase_rec digitChar_text)
  with ParseAddrPort_String [of "Addr4 1 1 1 1" 80] show ?thesis
    by (simp add: canonicalRemoteEndpoint_web_def)
qed

lemma demo_stable_web: "stable_request u demoWebRequest"
  using normalizeRequest_web_ok [OF normalize_demo_web] by metis

lemma demo_dial: "literalDialer u (webWorld version) demoTarget ''example.com:80'' (False, newTrace 1) =
    (Inr ''1.1.1.1:80'', True, (newTrace 3)\<lparr>at_connectStarted := steadyClock 1000000 1,
       at_connectDone := steadyClock 1000000 2, at_remoteEndpoint := ''1.1.1.1:80''\<rparr>)"
proof -
  have "logicalEndpoint demoTarget = ''example.com:80''"
    by (simp add: logicalEndpoint_def demoTarget_def JoinHostPort_def fmtBase_rec digitChar_text)
  moreover have "EqualFold u ''example.com:80'' ''example.com:80''" by (simp add: EqualFold_def isAscii_def)
  moreover have "IsZero (at_connectStarted (newTrace 1))" by (simp add: newTrace_def IsZero_def zeroTime_def)
  ultimately show ?thesis
    by (simp add: literalDialer_def webWorld_def demo_endpoint_web newTrace_def numeral_3_eq_3 numeral_2_eq_2)
      (simp add: demoTarget_def demo_endpoint_web)
qed

lemma demo_trace: "runTransport u (webWorld version) demoTarget 1
    [TransportDial ''example.com:80'', TransportEvent (WroteRequest None), TransportEvent GotFirstResponseByte] =
  (newTrace 5)\<lparr>at_connectStarted := steadyClock 1000000 1, at_connectDone := steadyClock 1000000 2,
     at_requestWritten := steadyClock 1000000 3, at_firstByte := steadyClock 1000000 4, at_remoteEndpoint := ''1.1.1.1:80''\<rparr>"
  by (simp add: runTransport_def demo_dial del: One_nat_def) (simp add: newTrace_def webWorld_def)

lemma demo_Observe_web: "\<exists>e. env_evidence (Observe_web u (webWorld version) demoWebObserver demoWebRequest) = Some e \<and>
    whttp_Protocol (wev_HTTP e) = version \<and> wev_RemoteEndpoint e = ''1.1.1.1:80'' \<and>
    env_outcome (Observe_web u (webWorld version) demoWebObserver demoWebRequest) = OutcomeSucceeded"
proof -
  have live: "withTimeout (\<lambda>n. None) (\<lambda>n. False) k = None" for k
    by (induction k) simp_all
  note n = normalize_demo_web [of u]
  obtain hq where hq: "newHttpRequest \<lparr>win_Scheme = ''http'', win_Hostname = ''example.com'', win_DialIP = ''1.1.1.1'',
     win_Family = FamilyIPv4_web, win_Port = 80, win_Method = ''GET'', win_Path = ''/'', win_RawQuery = ''''\<rparr> demoTarget = Some hq"
    "hq_Host hq = ''example.com''"
    using newHttpRequest_ok [OF n] by auto
  let ?x = "ww_roundTrip (webWorld version) (webTransport demoWebObserver demoTarget) hq"
  have x: "wx_steps ?x = [TransportDial ''example.com:80'', TransportEvent (WroteRequest None), TransportEvent GotFirstResponseByte]"
    "wx_answer ?x = Inr \<lparr>rs_StatusCode = 204, rs_Proto = version, rs_Header = (\<lambda>name. ''''), rs_TLS = None\<rparr>"
    by (simp_all add: webWorld_def hq(2) JoinHostPort_def)
  have ctx: "ww_ctx (webWorld version) = (\<lambda>n. None)" "ww_fired (webWorld version) = (\<lambda>d n. False)"
    by (simp_all add: webWorld_def background_def)
  have ep: "wtgt_endpoint demoTarget = ''1.1.1.1:80''" by (simp add: demoTarget_def)
  have z: "\<not> IsZero (steadyClock 1000000 k)" for k by (simp add: steadyClock_def IsZero_def)
  show ?thesis
    by (simp add: Observe_web_def n hq(1) x demo_trace ctx live Let_def classifyContext_def classifyAttemptContext_def ctxErrAt_def
        successDurations_def z newTrace_def evidenceFromResponse_web_def boundedHeaderValue_def ep
        SchemeHTTP_def SchemeHTTPS_def del: One_nat_def)
qed

section \<open>Properties\<close>

text \<open>Property C24: whatever the request, the peer and the contexts do, the envelope of the Web observer
  passes the validator of its package, except exactly in two cases: the request is refused and its recorded
  scheme or host name changes when it is normalized again, or the status line of the response names a version
  of HTTP other than 1.0 and 1.1, which the observer reports and the validator refuses. The wall and the
  monotonic clock advance together, and the library is that of Go: events in the order of \<open>net/http\<close>, SHA-256 of 32
  bytes, and over HTTPS a protocol that was offered and certificates with ordered times that cover the handshake.\<close>

theorem Observe_web_valid:
  assumes "web_env_ok w ob" "web_library_ok w"
  shows "Validate_web u (Observe_web u w ob request) = None \<longleftrightarrow> stable_request u request \<and>
    (\<forall>e. env_evidence (Observe_web u w ob request) = Some e \<longrightarrow> knownVersion (whttp_Protocol (wev_HTTP e)))"
  by (rule Observe_web_decided [OF assms])

lemma Observe_web_valid_witness:
  "Validate_web asciiUni (Observe_web asciiUni (webWorld ''HTTP/1.1'') demoWebObserver demoWebRequest) = None \<and>
   Validate_web asciiUni (Observe_web asciiUni (webWorld ''HTTP/1.2'') demoWebObserver demoWebRequest) \<noteq> None"
  using demo_Observe_web [of asciiUni "''HTTP/1.1''"] demo_Observe_web [of asciiUni "''HTTP/1.2''"] demo_stable_web
  by (simp only: Observe_web_valid [OF webWorld_ok]) (auto simp: knownVersion_def)

text \<open>A server whose status line says HTTP/1.2 makes the observer report success, and the
  validator refuses the report of that success.\<close>

theorem Observe_web_foreign_version:
  "env_outcome (Observe_web u (webWorld ''HTTP/1.2'') demoWebObserver demoWebRequest) = OutcomeSucceeded \<and>
   Validate_web u (Observe_web u (webWorld ''HTTP/1.2'') demoWebObserver demoWebRequest) =
     Some ''invalid Web observation evidence: unsupported HTTP protocol''"
  using Observe_web_exact [OF webWorld_ok demo_stable_web, of u "''HTTP/1.2''"] demo_Observe_web [of u "''HTTP/1.2''"]
  by (auto simp: knownVersion_def guard_def)

text \<open>Property C25: the request that is sent is the request that is recorded: it is made for every
  accepted request, and its URL, printed and parsed again by the library, keeps the recorded scheme,
  host, escaped path and query, and carries no credentials.\<close>

theorem newHttpRequest_faithful:
  assumes "normalizeRequest_web u request = (i, t, None)"
  shows "\<exists>hq. newHttpRequest i t = Some hq \<and> u_Scheme (hq_URL hq) = win_Scheme i \<and>
    u_Host (hq_URL hq) = win_Hostname i \<and> EscapedPath (hq_URL hq) = win_Path i \<and>
    u_RawQuery (hq_URL hq) = win_RawQuery i \<and> u_User (hq_URL hq) = None \<and>
    hq_Host hq = win_Hostname i \<and> hq_Method hq = ''GET''"
  by (rule newHttpRequest_ok [OF assms])

lemma newHttpRequest_faithful_witness:
  "\<exists>hq. newHttpRequest (fst (normalizeRequest_web asciiUni demoWebRequest)) (fst (snd (normalizeRequest_web asciiUni demoWebRequest))) = Some hq \<and>
     EscapedPath (hq_URL hq) = ''/'' \<and> hq_Host hq = ''example.com''"
  using newHttpRequest_faithful [OF normalize_demo_web] by (auto simp: normalize_demo_web)

text \<open>Property C26: the observer connects only to a public address on port 80 or 443: two networks that
  answer alike on those give the same result, whatever they would do on any other endpoint.\<close>

theorem Observe_web_dials_public_only:
  assumes "\<And>ip port. isAllowedPublicIP ip \<Longrightarrow> port = 80 \<or> port = 443 \<Longrightarrow>
      d (if Is4 ip then ''tcp4'' else ''tcp6'') (AddrPortString (ip, port)) =
      d' (if Is4 ip then ''tcp4'' else ''tcp6'') (AddrPortString (ip, port))"
  shows "Observe_web u (w\<lparr>ww_dial := d\<rparr>) ob request = Observe_web u (w\<lparr>ww_dial := d'\<rparr>) ob request"
  by (rule Observe_web_dial_lemma) (rule assms)

lemma Observe_web_dials_public_only_witness:
  "Observe_web asciiUni ((webWorld ''HTTP/1.1'')\<lparr>ww_dial := (\<lambda>network endpoint.
       \<lparr>wd_events = [], wd_answer = if endpoint = ''10.0.0.1:80'' then Inr None else Inl (plainErr ''unreachable'')\<rparr>)\<rparr>)
     demoWebObserver demoWebRequest =
   Observe_web asciiUni ((webWorld ''HTTP/1.1'')\<lparr>ww_dial := (\<lambda>network endpoint.
       \<lparr>wd_events = [], wd_answer = Inl (plainErr ''unreachable'')\<rparr>)\<rparr>) demoWebObserver demoWebRequest"
proof (rule Observe_web_dials_public_only)
  fix ip port
  assume a: "isAllowedPublicIP ip" and p: "port = 80 \<or> port = (443 :: nat)"
  have priv: "AddrPortString (Addr4 10 0 0 1, 80) = ''10.0.0.1:80''"
    by (simp add: AddrPortString_def AddrString_def dotted_def fmtBase_rec digitChar_text)
  have "IsValid ip" using a by (simp add: isAllowedPublicIP_def split: if_splits)
  then have "ip = Addr4 10 0 0 1" if "AddrPortString (ip, port) = ''10.0.0.1:80''"
    using that p ParseAddrPort_String [of ip port] ParseAddrPort_String [of "Addr4 10 0 0 1" 80] priv by auto
  with a have "AddrPortString (ip, port) \<noteq> ''10.0.0.1:80''"
    by (auto simp: isAllowedPublicIP_v4 specialV4_def)
  then show "\<lparr>wd_events = [], wd_answer = if AddrPortString (ip, port) = ''10.0.0.1:80'' then Inr None
       else Inl (plainErr ''unreachable'')\<rparr> = \<lparr>wd_events = [], wd_answer = Inl (plainErr ''unreachable'')\<rparr>" by simp
qed

text \<open>Property C27: a success carries the connected endpoint, which is the recorded public address with
  the port of the scheme, and it is committed only while neither the caller's context nor the
  deadline of the attempt is done.\<close>

theorem Observe_web_success:
  assumes "env_evidence (Observe_web u w ob request) = Some e"
  shows "ww_ctx w 0 = None \<and> ww_ctx w 1 = None \<and> withTimeout (ww_ctx w) (ww_fired w (wob_timeout ob)) 2 = None \<and>
    (\<exists>i tg. normalizeRequest_web u request = (i, tg, None) \<and> env_input (Observe_web u w ob request) = i \<and>
       wev_RemoteEndpoint e = AddrPortString (wtgt_ip tg, win_Port i) \<and> isAllowedPublicIP (wtgt_ip tg) \<and>
       AddrString (wtgt_ip tg) = win_DialIP i)"
  by (rule Observe_web_success_lemma [OF assms])

lemma Observe_web_success_witness:
  "\<exists>e. env_evidence (Observe_web asciiUni (webWorld ''HTTP/1.0'') demoWebObserver demoWebRequest) = Some e \<and>
     wev_RemoteEndpoint e = AddrPortString (Addr4 1 1 1 1, 80)"
proof -
  obtain e where e: "env_evidence (Observe_web asciiUni (webWorld ''HTTP/1.0'') demoWebObserver demoWebRequest) = Some e"
    using demo_Observe_web [of asciiUni "''HTTP/1.0''"] by blast
  with Observe_web_success [OF e] show ?thesis by (auto simp: normalize_demo_web demoTarget_def)
qed

end
