(* ===== verification/SystemResolver.thy ===== *)
theory SystemResolver
  imports TlsObservation GoUrl NetipRoundtrip
begin

text \<open>
  Package \<open>internal/platform/systemresolver\<close>: one lookup through the resolver of the operating
  system. The lookup, the clock and the context are parameters; what the code reads of a lookup
  error are the sentinels of its chain and the flags of its first \<open>net.DNSError\<close>.
\<close>

section \<open>Types\<close>

datatype Family_sys = FamilyIPv4_sys | FamilyIPv6_sys | FamilyOther_sys string

record SysInput =
  yin_Hostname :: string

record SysAddress =
  adr_IP :: string
  adr_Family :: Family_sys

record SysEvidence =
  yev_Addresses :: "SysAddress list"

type_synonym SysResult = "(SysInput, SysEvidence) Envelope"

record lookupErr =
  le_err :: goerr
  le_dns :: "(bool \<times> bool) option"

record SysWorld =
  yw_lookup :: "string \<Rightarrow> lookupErr + Addr list"
  yw_now :: "nat \<Rightarrow> gotime"
  yw_ctx :: ctx
  yw_source :: Source
  yw_os :: string
  yw_arch :: string

section \<open>Resolve\<close>

definition normalizeHostname_sys :: "string \<Rightarrow> string \<times> error option" where
  "normalizeHostname_sys value =
     (let hostname = TrimSpace value in
      (hostname, firstErr [
         guard (hostname = '''') ''hostname must not be empty'',
         guard (ParseAddr hostname \<noteq> None) ''IP literals are not system-resolution hostnames'',
         guard (list_ex (\<lambda>c. c \<in> set ''/:@?#[]*'' \<or> c = CHR 0x5C) hostname \<or> list_ex isSpaceRune (runes hostname))
           ''hostname must not include a scheme, port, path, or whitespace'']))"

fun uniqueAddresses :: "Addr set \<Rightarrow> Addr list \<Rightarrow> error + SysAddress list" where
  "uniqueAddresses seen [] = Inr []"
| "uniqueAddresses seen (a # as) =
     (if \<not> IsValid a then Inl ''system resolver returned an invalid address''
      else if Unmap a \<in> seen then uniqueAddresses seen as
      else if \<not> Is4 (Unmap a) \<and> \<not> Is6 (Unmap a) then Inl ''system resolver returned an unsupported address family''
      else (case uniqueAddresses (insert (Unmap a) seen) as of
          Inl e \<Rightarrow> Inl e
        | Inr xs \<Rightarrow> Inr (\<lparr>adr_IP = AddrString (Unmap a),
            adr_Family = (if Is4 (Unmap a) then FamilyIPv4_sys else FamilyIPv6_sys)\<rparr> # xs)))"

definition normalizeAddresses :: "Addr list \<Rightarrow> error + SysEvidence" where
  "normalizeAddresses addresses = (case uniqueAddresses {} addresses of
      Inl e \<Rightarrow> Inl e
    | Inr xs \<Rightarrow> Inr \<lparr>yev_Addresses = xs\<rparr>)"

text \<open>The context is read at \<open>k\<close> and again at \<open>k + 1\<close>.\<close>

definition classifyFailure_sys :: "ctx \<Rightarrow> nat \<Rightarrow> lookupErr \<Rightarrow> Outcome \<times> FailureCode" where
  "classifyFailure_sys c k le =
     (let err = Some (le_err le) in
      if errorsIs (ctxErrAt c k) SCanceled \<or> errorsIs err SCanceled then (OutcomeCancelled, FailureCancelled)
      else if errorsIs (ctxErrAt c (k + 1)) SDeadlineExceeded \<or> errorsIs err SDeadlineExceeded
      then (OutcomeFailed, FailureTimeout)
      else (case le_dns le of
          Some (True, isTimeout) \<Rightarrow> (OutcomeFailed, FailureNameUnresolved)
        | Some (False, True) \<Rightarrow> (OutcomeFailed, FailureTimeout)
        | _ \<Rightarrow> if netTimeout err then (OutcomeFailed, FailureTimeout)
              else (OutcomeFailed, FailureResolutionFailure)))"

definition result_sys :: "SysWorld \<Rightarrow> string \<Rightarrow> Outcome \<Rightarrow> SysEvidence option \<Rightarrow> Failure option \<Rightarrow> SysResult" where
  "result_sys w hostname outcome evidence failure =
     (let finishedAt = yw_now w 1; duration = Milliseconds (Sub finishedAt (yw_now w 0)) in
      \<lparr>env_schema = SchemaVersion, env_probe = KindSystemResolution, env_observedAt = UTC finishedAt,
       env_durationMS = (if duration < 0 then 0 else duration),
       env_platform = \<lparr>plat_os = yw_os w, plat_arch = yw_arch w\<rparr>, env_source = yw_source w,
       env_input = \<lparr>yin_Hostname = hostname\<rparr>, env_outcome = outcome, env_evidence = evidence, env_failure = failure\<rparr>)"

definition failureResult_sys :: "SysWorld \<Rightarrow> string \<Rightarrow> FailureCode \<Rightarrow> error \<Rightarrow> SysResult" where
  "failureResult_sys w hostname code err =
     result_sys w hostname (if code = FailureCancelled then OutcomeCancelled else OutcomeFailed) None
       (Some \<lparr>fail_code = code, fail_detail = err\<rparr>)"

definition Resolve :: "SysWorld \<Rightarrow> string \<Rightarrow> SysResult" where
  "Resolve w value =
     (let (hostname, err) = normalizeHostname_sys value in
      case err of
        Some e \<Rightarrow> failureResult_sys w hostname FailureInvalidInput e
      | None \<Rightarrow> (case yw_lookup w hostname of
          Inl le \<Rightarrow> (let (outcome, code) = classifyFailure_sys (yw_ctx w) 0 le in
            result_sys w hostname outcome None (Some \<lparr>fail_code = code, fail_detail = err_text (le_err le)\<rparr>))
        | Inr addresses \<Rightarrow> (case ctxErrAt (yw_ctx w) 0 of
            Some e \<Rightarrow> (let (outcome, code) = classifyFailure_sys (yw_ctx w) 1 \<lparr>le_err = e, le_dns = None\<rparr> in
              result_sys w hostname outcome None (Some \<lparr>fail_code = code, fail_detail = err_text e\<rparr>))
          | None \<Rightarrow> (case normalizeAddresses addresses of
              Inl e \<Rightarrow> failureResult_sys w hostname FailureResolutionFailure e
            | Inr evidence \<Rightarrow>
                if yev_Addresses evidence = []
                then failureResult_sys w hostname FailureResolutionFailure ''system resolver returned no addresses''
                else result_sys w hostname OutcomeSucceeded (Some evidence) None))))"

section \<open>Validate\<close>

definition validFailureCode_sys :: "FailureCode \<Rightarrow> bool" where
  "validFailureCode_sys code = (code \<in> {FailureInvalidInput, FailureNameUnresolved, FailureTimeout,
     FailureResolutionFailure, FailureCancelled})"

fun validateAddresses :: "Addr set \<Rightarrow> SysAddress list \<Rightarrow> error option" where
  "validateAddresses seen [] = None"
| "validateAddresses seen (a # as) = (case ParseAddr (adr_IP a) of
      None \<Rightarrow> Some ''address has invalid ip''
    | Some ip \<Rightarrow>
       (let parsed = Unmap ip in
        if adr_IP a \<noteq> AddrString parsed then Some ''address ip is not canonical''
        else if adr_Family a \<noteq> (if Is4 parsed then FamilyIPv4_sys else FamilyIPv6_sys)
        then Some ''address family does not match''
        else if parsed \<in> seen then Some ''address duplicates''
        else validateAddresses (insert parsed seen) as))"

definition Validate_sys :: "SysResult \<Rightarrow> error option" where
  "Validate_sys result = firstErr [
     wrapErr ''invalid probe envelope: '' (Validate_envelope result),
     guard (env_probe result \<noteq> KindSystemResolution) ''probe must be system_resolution'',
     guard (case env_failure result of None \<Rightarrow> False | Some f \<Rightarrow> \<not> validFailureCode_sys (fail_code f))
       ''unsupported system resolver failure code'',
     (let (normalizedHostname, inputErr) = normalizeHostname_sys (yin_Hostname (env_input result)) in
      if normalizedHostname \<noteq> yin_Hostname (env_input result) then Some ''input hostname must be normalized''
      else if inputErr \<noteq> None then
        guard (env_outcome result \<noteq> OutcomeFailed \<or>
            (case env_failure result of None \<Rightarrow> True | Some f \<Rightarrow> fail_code f \<noteq> FailureInvalidInput))
          ''invalid hostname must produce failed/invalid_input''
      else if (case env_failure result of None \<Rightarrow> False | Some f \<Rightarrow> fail_code f = FailureInvalidInput)
      then Some ''valid hostname must not produce invalid_input''
      else if env_outcome result \<noteq> OutcomeSucceeded then None
      else (case env_evidence result of
          None \<Rightarrow> Some ''panic: nil evidence''
        | Some evidence \<Rightarrow>
            if yev_Addresses evidence = [] then Some ''successful system resolution must include at least one address''
            else validateAddresses {} (yev_Addresses evidence)))]"

section \<open>The source of the lookups\<close>

record resolverBuildProfile =
  rbp_nativeAvailable :: bool
  rbp_nativeByDefault :: bool
  rbp_nativeBackend :: string
  rbp_fallbackBackend :: string
  rbp_fallbackReason :: string

definition parsePart :: "string \<Rightarrow> string \<Rightarrow> string" where
  "parsePart mode part = (if part = '''' \<or> isDigit (hd part) then mode else part)"

definition dnsModeOf :: "string \<Rightarrow> string" where
  "dnsModeOf value =
     (if snd (snd (cutAt (CHR ''#'') value)) then ''conditional''
      else
       (let (first, second, found) = cutAt (CHR ''+'') value;
            mode = (if found then parsePart (parsePart '''' first) second else parsePart '''' value) in
        if mode = ''go'' \<or> mode = ''cgo'' then mode else ''''))"

fun netDNSLoop :: "string list \<Rightarrow> string" where
  "netDNSLoop [] = ''''"
| "netDNSLoop (setting # settings) =
     (let (name, value, ok) = cutAt (CHR ''='') setting in
      if \<not> ok \<or> name \<noteq> ''netdns'' then netDNSLoop settings else dnsModeOf value)"

definition netDNSMode :: "string \<Rightarrow> string" where
  "netDNSMode godebug = netDNSLoop (rev (splitOn (CHR '','') godebug))"

definition sourceForGODEBUG :: "resolverBuildProfile \<Rightarrow> string \<Rightarrow> Source" where
  "sourceForGODEBUG profile godebug =
     (let mode = netDNSMode godebug;
          native = \<lparr>src_backend = rbp_nativeBackend profile, src_capability = CapabilityNative, src_reason = ''''\<rparr> in
      if mode = ''go'' then
        \<lparr>src_backend = ''go-dns-resolver'', src_capability = CapabilityDegraded, src_reason = ''go_resolver_forced''\<rparr>
      else if mode = ''cgo'' then
        (if rbp_nativeAvailable profile then native
         else \<lparr>src_backend = rbp_fallbackBackend profile, src_capability = CapabilityDegraded,
           src_reason = ''native_backend_unavailable''\<rparr>)
      else if mode = ''conditional'' then
        \<lparr>src_backend = ''resolver-selection-conditional'', src_capability = CapabilityDegraded,
          src_reason = ''godebug_bisect_selection_unverified''\<rparr>
      else if rbp_nativeByDefault profile then native
      else \<lparr>src_backend = rbp_fallbackBackend profile, src_capability = CapabilityDegraded,
        src_reason = rbp_fallbackReason profile\<rparr>)"

text \<open>The build profiles, one for each set of build constraints.\<close>

definition profile_darwin_native :: resolverBuildProfile where
  "profile_darwin_native = \<lparr>rbp_nativeAvailable = True, rbp_nativeByDefault = True,
     rbp_nativeBackend = ''darwin-system-resolver'', rbp_fallbackBackend = ''go-dns-resolver'', rbp_fallbackReason = ''''\<rparr>"

definition profile_darwin_netgo :: resolverBuildProfile where
  "profile_darwin_netgo = \<lparr>rbp_nativeAvailable = False, rbp_nativeByDefault = False, rbp_nativeBackend = '''',
     rbp_fallbackBackend = ''go-dns-resolver'', rbp_fallbackReason = ''native_backend_disabled_at_build''\<rparr>"

definition profile_linux_dynamic :: resolverBuildProfile where
  "profile_linux_dynamic = \<lparr>rbp_nativeAvailable = True, rbp_nativeByDefault = False,
     rbp_nativeBackend = ''linux-libc-nss'', rbp_fallbackBackend = ''linux-resolver-selection-unverified'',
     rbp_fallbackReason = ''backend_selection_unverified''\<rparr>"

definition profile_linux_go :: resolverBuildProfile where
  "profile_linux_go = \<lparr>rbp_nativeAvailable = False, rbp_nativeByDefault = False, rbp_nativeBackend = '''',
     rbp_fallbackBackend = ''go-dns-resolver'', rbp_fallbackReason = ''native_backend_unavailable''\<rparr>"

definition profile_linux_native :: resolverBuildProfile where
  "profile_linux_native = \<lparr>rbp_nativeAvailable = True, rbp_nativeByDefault = True,
     rbp_nativeBackend = ''linux-libc-nss'', rbp_fallbackBackend = ''go-dns-resolver'', rbp_fallbackReason = ''''\<rparr>"

definition profile_other :: resolverBuildProfile where
  "profile_other = \<lparr>rbp_nativeAvailable = False, rbp_nativeByDefault = False, rbp_nativeBackend = '''',
     rbp_fallbackBackend = ''resolver-backend-unverified'', rbp_fallbackReason = ''platform_backend_unverified''\<rparr>"

definition profile_windows_native :: resolverBuildProfile where
  "profile_windows_native = \<lparr>rbp_nativeAvailable = True, rbp_nativeByDefault = True,
     rbp_nativeBackend = ''windows-system-resolver'', rbp_fallbackBackend = ''go-dns-resolver'', rbp_fallbackReason = ''''\<rparr>"

definition profile_windows_netgo :: resolverBuildProfile where
  "profile_windows_netgo = \<lparr>rbp_nativeAvailable = False, rbp_nativeByDefault = False, rbp_nativeBackend = '''',
     rbp_fallbackBackend = ''go-dns-resolver'', rbp_fallbackReason = ''native_backend_disabled_at_build''\<rparr>"

definition compiledProfiles :: "resolverBuildProfile list" where
  "compiledProfiles = [profile_darwin_native, profile_darwin_netgo, profile_linux_dynamic, profile_linux_go,
     profile_linux_native, profile_other, profile_windows_native, profile_windows_netgo]"

end
