(* ===== verification/SysProps.thy ===== *)
theory SysProps
  imports SystemResolver TlsProps
begin

text \<open>
  What the system-resolution probe guarantees: every envelope is valid, the addresses are the ones
  of the lookup without repetitions, and the reported source never claims a native resolver that
  the build does not have.
\<close>

section \<open>What every lookup reports\<close>

lemma normalizeHostname_sys_again:
  "normalizeHostname_sys (fst (normalizeHostname_sys v)) = normalizeHostname_sys v"
  by (simp add: normalizeHostname_sys_def Let_def)

text \<open>The addresses reported are the unmapped ones, each at its first place.\<close>

fun firstPlaces :: "'a set \<Rightarrow> 'a list \<Rightarrow> 'a list" where
  "firstPlaces seen [] = []"
| "firstPlaces seen (x # xs) = (if x \<in> seen then firstPlaces seen xs else x # firstPlaces (insert x seen) xs)"

lemma firstPlaces_set: "set (firstPlaces seen xs) = set xs - seen"
  by (induction seen xs rule: firstPlaces.induct) auto

lemma firstPlaces_distinct: "distinct (firstPlaces seen xs)"
  by (induction seen xs rule: firstPlaces.induct) (auto simp: firstPlaces_set)

definition addressOf :: "Addr \<Rightarrow> SysAddress" where
  "addressOf ip = \<lparr>adr_IP = AddrString ip, adr_Family = (if Is4 ip then FamilyIPv4_sys else FamilyIPv6_sys)\<rparr>"

lemma Unmap_family: "\<not> Is4 (Unmap a) \<and> \<not> Is6 (Unmap a) \<longleftrightarrow> \<not> IsValid a"
  by (cases a rule: Unmap.cases) simp_all

lemma IsValid_Unmap: "IsValid (Unmap a) = IsValid a"
  by (cases a rule: Unmap.cases) simp_all

lemma uniqueAddresses_first:
  "uniqueAddresses seen as = (if list_all IsValid as
     then Inr (map addressOf (firstPlaces seen (map Unmap as)))
     else Inl ''system resolver returned an invalid address'')"
  by (induction seen as rule: uniqueAddresses.induct) (auto simp: addressOf_def Unmap_family)

lemma validateAddresses_ok:
  assumes "distinct ips" "\<forall>ip \<in> set ips. IsValid ip \<and> Unmap ip = ip" "set ips \<inter> seen = {}"
  shows "validateAddresses seen (map addressOf ips) = None"
  using assms
proof (induction ips arbitrary: seen)
  case (Cons ip ips)
  have "ParseAddr (AddrString ip) = Some ip" using Cons.prems(2) by (simp add: ParseAddr_String)
  then show ?case using Cons by (simp add: addressOf_def Let_def)
qed simp

definition source_ok :: "Source \<Rightarrow> bool" where
  "source_ok s \<longleftrightarrow> src_backend s \<noteq> '''' \<and>
     (src_capability s = CapabilityNative \<and> src_reason s = '''' \<or>
      src_capability s = CapabilityDegraded \<and> src_reason s \<noteq> '''')"

definition sys_env_ok :: "SysWorld \<Rightarrow> bool" where
  "sys_env_ok w \<longleftrightarrow> clock_ok (yw_now w) \<and> platform_ok (yw_os w) (yw_arch w) \<and> source_ok (yw_source w)"

lemma result_sys_envelope:
  assumes "sys_env_ok w"
  shows "Validate_envelope (result_sys w h oc ev fl) = None \<longleftrightarrow> Validate_outcome oc ev fl = None"
  using assms clock_nonzero [of "yw_now w" 1]
  by (auto simp: Validate_envelope_None result_sys_def Let_def sys_env_ok_def source_ok_def platform_ok_def)

lemma result_sys_sel [simp]:
  "env_probe (result_sys w h oc ev fl) = KindSystemResolution" "env_outcome (result_sys w h oc ev fl) = oc"
  "env_evidence (result_sys w h oc ev fl) = ev" "env_failure (result_sys w h oc ev fl) = fl"
  "yin_Hostname (env_input (result_sys w h oc ev fl)) = h"
  by (simp_all add: result_sys_def Let_def)

lemma classifyFailure_sys_ok:
  assumes "classifyFailure_sys c k le = (oc, code)"
  shows "coherent oc code \<and> validFailureCode_sys code \<and> code \<noteq> FailureInvalidInput"
  using assms
  by (auto simp: classifyFailure_sys_def coherent_def validFailureCode_sys_def Let_def
      split: if_splits option.splits prod.splits bool.splits)

lemma Validate_sys_failure:
  assumes env: "sys_env_ok w" and n: "normalizeHostname_sys h = (h, None)"
    and f: "coherent oc code" "validFailureCode_sys code" "code \<noteq> FailureInvalidInput"
  shows "Validate_sys (result_sys w h oc None (Some \<lparr>fail_code = code, fail_detail = d\<rparr>)) = None"
  using f result_sys_envelope [OF env] n
  by (auto simp: Validate_sys_def firstErr_simps Validate_outcome_None coherent_def split: Outcome.splits)

lemma Resolve_valid_lemma:
  assumes env: "sys_env_ok w"
  shows "Validate_sys (Resolve w v) = None"
proof -
  obtain h err where n: "normalizeHostname_sys v = (h, err)" by (metis prod.collapse)
  then have again: "normalizeHostname_sys h = (h, err)" using normalizeHostname_sys_again [of v] by simp
  note valid = Validate_sys_failure [OF env]
  show ?thesis
  proof (cases err)
    case (Some m)
    with again n show ?thesis
      by (simp add: Resolve_def failureResult_sys_def Validate_sys_def firstErr_simps validFailureCode_sys_def
          result_sys_envelope [OF env] Validate_outcome_None)
  next
    case None
    note again = again [unfolded None]
    have failed: "Validate_sys (failureResult_sys w h FailureResolutionFailure e) = None" for e
      unfolding failureResult_sys_def by (rule valid [OF again]) (simp_all add: coherent_def validFailureCode_sys_def)
    show ?thesis
    proof (cases "yw_lookup w h")
      case (Inl le)
      obtain oc code where c: "classifyFailure_sys (yw_ctx w) 0 le = (oc, code)" by (metis prod.collapse)
      with n None Inl valid [OF again] classifyFailure_sys_ok [OF c] show ?thesis by (simp add: Resolve_def)
    next
      case (Inr as)
      show ?thesis
      proof (cases "ctxErrAt (yw_ctx w) 0")
        case (Some e)
        obtain oc code where c: "classifyFailure_sys (yw_ctx w) 1 \<lparr>le_err = e, le_dns = None\<rparr> = (oc, code)" by (metis prod.collapse)
        with n None Inr Some valid [OF again] classifyFailure_sys_ok [OF c] show ?thesis by (simp add: Resolve_def)
      next
        case live: None
        let ?ips = "firstPlaces {} (map Unmap as)"
        have "validateAddresses {} (map addressOf ?ips) = None" if "list_all IsValid as"
          using that by (intro validateAddresses_ok)
            (auto simp: firstPlaces_distinct firstPlaces_set list_all_iff IsValid_Unmap Unmap_Unmap)
        then have "Validate_sys (result_sys w h OutcomeSucceeded (Some \<lparr>yev_Addresses = map addressOf ?ips\<rparr>) None) = None"
          if "list_all IsValid as" "?ips \<noteq> []"
          using that again by (simp add: Validate_sys_def firstErr_simps result_sys_envelope [OF env] Validate_outcome_None)
        then show ?thesis
          using n None Inr failed
          by (cases "list_all IsValid as"; cases "?ips = []")
            (simp_all add: live Resolve_def normalizeAddresses_def uniqueAddresses_first)
      qed
    qed
  qed
qed

section \<open>The reported source\<close>

lemma source_of_profile: "source_ok (sourceForGODEBUG p g)"
  if "p \<in> set compiledProfiles"
  using that
  by (auto simp: compiledProfiles_def sourceForGODEBUG_def source_ok_def Let_def profile_darwin_native_def
      profile_darwin_netgo_def profile_linux_dynamic_def profile_linux_go_def profile_linux_native_def
      profile_other_def profile_windows_native_def profile_windows_netgo_def)

text \<open>Only the last setting of \<open>netdns\<close> counts.\<close>

lemma splitOn_nonempty: "splitOn c s \<noteq> []"
  by (induction s) (auto split: list.split)

lemma splitOn_append: "splitOn c (a @ c # b) = splitOn c a @ splitOn c b"
proof (induction a)
  case (Cons x a)
  then show ?case using splitOn_nonempty [of c a] by (auto split: list.split)
qed simp

lemma splitOn_single: "c \<notin> set s \<Longrightarrow> splitOn c s = [s]"
  by (induction s) auto

lemma netDNSLoop_skip: "\<forall>s \<in> set ss. fst (cutAt (CHR ''='') s) \<noteq> ''netdns'' \<Longrightarrow> netDNSLoop (ss @ ts) = netDNSLoop ts"
  by (induction ss) (auto simp: Let_def split: prod.split)

section \<open>Properties\<close>

definition demoSysWorld :: SysWorld where
  "demoSysWorld = \<lparr>yw_lookup = (\<lambda>h. Inr [Addr4 1 1 1 1, Addr6 0 0 0 0 0 0xffff 0x0101 0x0101 '''', Addr4 10 0 0 1]),
     yw_now = steadyClock 1000000, yw_ctx = background, yw_source = sourceForGODEBUG profile_linux_go '''',
     yw_os = ''linux'', yw_arch = ''amd64''\<rparr>"

lemma demo_hostname_sys: "normalizeHostname_sys ''localhost'' = (''localhost'', None)"
proof -
  have "TrimSpace ''localhost'' = ''localhost''" by (rule TrimSpace_graphic) (simp add: graphic_def isGraph_def)
  moreover have "runes ''localhost'' = map byte ''localhost''" by (rule runes_ascii) (simp add: isAscii_def)
  moreover have "ParseAddr ''localhost'' = None" by code_simp
  ultimately show ?thesis by (simp add: normalizeHostname_sys_def firstErr_simps isSpaceRune_def spaceRunes_def)
qed

text \<open>Property C28: every envelope of the system-resolution probe passes its validator, whatever the
  lookup answers, whenever the context ends, for every build and every setting of GODEBUG.\<close>

theorem Resolve_valid:
  assumes "clock_ok (yw_now w)" "platform_ok (yw_os w) (yw_arch w)"
    and "profile \<in> set compiledProfiles" "yw_source w = sourceForGODEBUG profile godebug"
  shows "Validate_sys (Resolve w hostname) = None"
  by (rule Resolve_valid_lemma) (use assms source_of_profile in \<open>simp add: sys_env_ok_def\<close>)

lemma Resolve_valid_witness: "Validate_sys (Resolve demoSysWorld ''localhost'') = None"
  by (rule Resolve_valid [of _ profile_linux_go "''''"])
    (simp_all add: demoSysWorld_def steadyClock_ok platform_ok_def compiledProfiles_def)

text \<open>A successful resolution reports exactly the addresses of the lookup, in the order
  of the lookup: each text reads back as the unmapped address, no address is reported twice, and the
  family is that of the address.\<close>

theorem Resolve_addresses:
  assumes "env_evidence (Resolve w hostname) = Some e"
  shows "\<exists>as ips. yw_lookup w (TrimSpace hostname) = Inr as \<and> ips = firstPlaces {} (map Unmap as) \<and> ips \<noteq> [] \<and>
    distinct ips \<and> set ips = Unmap ` set as \<and> map (ParseAddr \<circ> adr_IP) (yev_Addresses e) = map Some ips \<and>
    map adr_Family (yev_Addresses e) = map (\<lambda>ip. if Is4 ip then FamilyIPv4_sys else FamilyIPv6_sys) ips"
proof -
  obtain h err where n: "normalizeHostname_sys hostname = (h, err)" by (metis prod.collapse)
  have h: "h = TrimSpace hostname" using n by (simp add: normalizeHostname_sys_def Let_def)
  obtain as where as: "yw_lookup w h = Inr as" "normalizeAddresses as = Inr e" "yev_Addresses e \<noteq> []"
    using assms n
    by (auto simp: Resolve_def failureResult_sys_def split: option.splits sum.splits prod.splits if_splits)
  then have ok: "list_all IsValid as" and e: "yev_Addresses e = map addressOf (firstPlaces {} (map Unmap as))"
    by (auto simp: normalizeAddresses_def uniqueAddresses_first split: if_splits)
  have "ParseAddr (AddrString ip) = Some ip" if "ip \<in> set (firstPlaces {} (map Unmap as))" for ip
    using that ok by (intro ParseAddr_String) (auto simp: firstPlaces_set list_all_iff IsValid_Unmap)
  then show ?thesis using as e h by (auto simp: addressOf_def firstPlaces_set firstPlaces_distinct)
qed

lemma Resolve_addresses_witness:
  "map (ParseAddr \<circ> adr_IP) (yev_Addresses (the (env_evidence (Resolve demoSysWorld ''localhost'')))) =
     [Some (Addr4 1 1 1 1), Some (Addr4 10 0 0 1)]"
proof -
  have u: "hiOctet 257 = 1" "loOctet 257 = 1" by code_simp+
  obtain e where e: "env_evidence (Resolve demoSysWorld ''localhost'') = Some e"
    by (simp add: Resolve_def demo_hostname_sys demoSysWorld_def background_def ctxErrAt_def normalizeAddresses_def u)
  obtain as ips where "yw_lookup demoSysWorld (TrimSpace ''localhost'') = Inr as" "ips = firstPlaces {} (map Unmap as)"
    "map (ParseAddr \<circ> adr_IP) (yev_Addresses e) = map Some ips"
    using Resolve_addresses [OF e] by blast
  moreover have "yw_lookup demoSysWorld (TrimSpace ''localhost'') =
      Inr [Addr4 1 1 1 1, Addr6 0 0 0 0 0 0xffff 0x0101 0x0101 '''', Addr4 10 0 0 1]" by (simp add: demoSysWorld_def)
  ultimately show ?thesis by (simp add: e) (auto simp: u)
qed

text \<open>Whatever the build and the setting of GODEBUG, the reported source satisfies the
  rules of the envelope, and it claims a native resolver only if the build has that resolver and the
  setting does not force or randomize another one.\<close>

theorem sourceForGODEBUG_honest:
  assumes "profile \<in> set compiledProfiles"
  shows "source_ok (sourceForGODEBUG profile godebug) \<and>
    (src_capability (sourceForGODEBUG profile godebug) = CapabilityNative \<longrightarrow>
       rbp_nativeAvailable profile \<and> src_backend (sourceForGODEBUG profile godebug) = rbp_nativeBackend profile \<and>
       netDNSMode godebug \<noteq> ''go'' \<and> netDNSMode godebug \<noteq> ''conditional'' \<and>
       (rbp_nativeByDefault profile \<or> netDNSMode godebug = ''cgo''))"
  using source_of_profile [OF assms] assms
  by (auto simp: compiledProfiles_def sourceForGODEBUG_def Let_def profile_darwin_native_def
      profile_darwin_netgo_def profile_linux_dynamic_def profile_linux_go_def profile_linux_native_def
      profile_other_def profile_windows_native_def profile_windows_netgo_def split: if_splits)

lemma sourceForGODEBUG_honest_witness:
  "source_ok (sourceForGODEBUG profile_linux_dynamic ''netdns=cgo+1'')"
  using sourceForGODEBUG_honest [of profile_linux_dynamic] by (simp add: compiledProfiles_def)

text \<open>The last setting of netdns decides, wherever it stands and whatever other settings
  surround it.\<close>

theorem netDNSMode_last:
  assumes "CHR '','' \<notin> set mode" "\<forall>s \<in> set rest. CHR '','' \<notin> set s \<and> fst (cutAt (CHR ''='') s) \<noteq> ''netdns''"
  shows "netDNSMode (before @ '',netdns='' @ mode @ concat (map (\<lambda>s. CHR '','' # s) rest)) = dnsModeOf mode"
proof -
  have tail: "splitOn (CHR '','') (s @ concat (map (\<lambda>s. CHR '','' # s) rest)) = s # rest" if "CHR '','' \<notin> set s" for s
    using that assms(2)
  proof (induction rest arbitrary: s)
    case (Cons r rest)
    then show ?case by (simp add: splitOn_append splitOn_single)
  qed (simp add: splitOn_single)
  have split: "splitOn (CHR '','') (before @ CHR '','' # (''netdns='' @ mode) @ concat (map (\<lambda>s. CHR '','' # s) rest)) =
      splitOn (CHR '','') before @ (''netdns='' @ mode) # rest"
    by (subst splitOn_append, subst tail) (use assms(1) in auto)
  have "netDNSLoop (rev rest @ (''netdns='' @ mode) # rev (splitOn (CHR '','') before)) = dnsModeOf mode"
    using netDNSLoop_skip [of "rev rest"] assms(2) by (simp add: cutAt_def Let_def)
  with split show ?thesis by (simp add: netDNSMode_def)
qed

lemma netDNSMode_last_witness: "netDNSMode ''netdns=go,netdns=cgo+2,http2client=0'' = ''cgo''"
proof -
  have "netDNSMode (''netdns=go'' @ '',netdns='' @ ''cgo+2'' @ concat (map (\<lambda>s. CHR '','' # s) [''http2client=0''])) = dnsModeOf ''cgo+2''"
    by (rule netDNSMode_last) (simp_all add: cutAt_def Let_def)
  then show ?thesis by (simp add: dnsModeOf_def cutAt_def Let_def parsePart_def isDigit_def)
qed

end
