(* ===== verification/WebRecheck.thy ===== *)
theory WebRecheck
  imports WebObservation
begin

text \<open>
  Package \<open>internal/webrecheck\<close>: one Web observation of every local and every reference candidate of a
  host name. The Web observer is a parameter of a run; the looks at the contexts are numbered, each
  a block of five readings.
\<close>

section \<open>Types\<close>

definition SchemaVersion_rck :: int where "SchemaVersion_rck = 1"
definition Operation_rck :: string where "Operation_rck = ''web_candidate_recheck''"
definition candidateLimitPerSource :: nat where "candidateLimitPerSource = 2"
definition httpsPort_rck :: nat where "httpsPort_rck = 443"
definition httpMethod_rck :: string where "httpMethod_rck = ''GET''"
definition httpPath_rck :: string where "httpPath_rck = ''/''"
definition retryLimit_rck :: nat where "retryLimit_rck = 0"
definition redirectLimit_rck :: nat where "redirectLimit_rck = 0"

datatype RckStatus = RckCompleted | RckStopped | RckCancelled | RckStatusOther string

datatype RckStop = RckInvalidInput | RckTimeout | RckStopCancelled | RckInvalidProbeEvidence | RckStopOther string

datatype CandidateSource = CandidateLocal | CandidateReference | CandidateSourceOther string

record RckConfig =
  kcfg_Timeout :: int

record RckRequest =
  kreq_Hostname :: string
  kreq_LocalCandidates :: "string list"
  kreq_ReferenceCandidates :: "string list"

record RckInput =
  kin_Hostname :: string
  kin_URL :: string
  kin_Scheme :: string
  kin_Family :: Family_web
  kin_Port :: nat
  kin_Method :: string
  kin_Path :: string
  kin_CandidateLimitPerSource :: nat
  kin_RetryLimit :: nat
  kin_RedirectLimit :: nat
  kin_LocalCandidates :: "string list"
  kin_ReferenceCandidates :: "string list"

record RckAttempt =
  katt_CandidateSource :: CandidateSource
  katt_Observation :: WebResult

record RckResult =
  krs_SchemaVersion :: int
  krs_Operation :: string
  krs_ObservedAt :: gotime
  krs_DurationMS :: int
  krs_Platform :: Platform
  krs_Input :: RckInput
  krs_Status :: RckStatus
  krs_StopReason :: RckStop
  krs_Detail :: string
  krs_LocalCandidatesOmitted :: nat
  krs_ReferenceCandidatesOmitted :: nat
  krs_Attempts :: "RckAttempt list option"

section \<open>Normalizing a request\<close>

definition familyFor :: "Addr \<Rightarrow> Family_web" where
  "familyFor address = (if Is4 address then FamilyIPv4_web else FamilyIPv6_web)"

text \<open>The texts seen are those kept so far.\<close>

fun candidateLoop :: "string \<Rightarrow> string list \<Rightarrow> Family_web \<Rightarrow> error option \<Rightarrow> string list \<Rightarrow>
    string list \<times> Family_web \<times> error option" where
  "candidateLoop label normalized family err [] = (normalized, family, err)"
| "candidateLoop label normalized family err (value # values) =
     (let (text, address, e) = NormalizePublicIP value;
          normalized' = (if text \<in> set normalized then normalized else normalized @ [text]) in
      case e of
        Some m \<Rightarrow> candidateLoop label normalized' family
          (case err of None \<Rightarrow> Some (label @ '' candidate: '' @ m) | Some x \<Rightarrow> Some x) values
      | None \<Rightarrow>
          if family = FamilyOther_web '''' then candidateLoop label normalized' (familyFor address) err values
          else candidateLoop label normalized' family
            (if family \<noteq> familyFor address \<and> err = None then Some (label @ '' candidates must use one address family'') else err)
            values)"

definition normalizeCandidates :: "string \<Rightarrow> string list \<Rightarrow> string list \<times> Family_web \<times> error option" where
  "normalizeCandidates label values =
     (let (normalized, family, err) = candidateLoop label [] (FamilyOther_web '''') None values in
      if values = [] then (normalized, family, Some (label @ '' candidates must not be empty''))
      else (normalized, family, err))"

definition normalizeRequest_rck :: "'a unitab_scheme \<Rightarrow> RckRequest \<Rightarrow> RckInput \<times> error option" where
  "normalizeRequest_rck u request =
     (let (hostname, hostnameErr) = NormalizeWebHostname u (kreq_Hostname request);
          (local, localFamily, localErr) = normalizeCandidates ''local'' (kreq_LocalCandidates request);
          (reference, referenceFamily, referenceErr) = normalizeCandidates ''reference'' (kreq_ReferenceCandidates request);
          family = (if localFamily = FamilyOther_web '''' then referenceFamily else localFamily);
          inp = \<lparr>kin_Hostname = hostname, kin_URL = ''https://'' @ hostname @ ''/'', kin_Scheme = SchemeHTTPS,
            kin_Family = family, kin_Port = httpsPort_rck, kin_Method = httpMethod_rck, kin_Path = httpPath_rck,
            kin_CandidateLimitPerSource = candidateLimitPerSource, kin_RetryLimit = retryLimit_rck,
            kin_RedirectLimit = redirectLimit_rck, kin_LocalCandidates = local, kin_ReferenceCandidates = reference\<rparr> in
      (inp, firstErr [hostnameErr, localErr, referenceErr,
         guard (localFamily \<noteq> referenceFamily) ''local family does not match reference family'']))"

section \<open>The schedule\<close>

record scheduledCandidate =
  sc_source :: CandidateSource
  sc_ip :: string

definition boundedCandidates :: "string list \<Rightarrow> string list" where
  "boundedCandidates values = take (min (length values) candidateLimitPerSource) values"

definition omittedCandidates :: "string list \<Rightarrow> nat" where
  "omittedCandidates values = length values - candidateLimitPerSource"

definition scheduleOf :: "RckInput \<Rightarrow> scheduledCandidate list" where
  "scheduleOf inp =
     (let local = boundedCandidates (kin_LocalCandidates inp); reference = boundedCandidates (kin_ReferenceCandidates inp) in
      concat (map (\<lambda>index.
          (if index < length local then [\<lparr>sc_source = CandidateLocal, sc_ip = local ! index\<rparr>] else []) @
          (if index < length reference then [\<lparr>sc_source = CandidateReference, sc_ip = reference ! index\<rparr>] else []))
        [0..<max (length local) (length reference)]))"

section \<open>Construction\<close>

definition defaultTimeout_rck :: int where "defaultTimeout_rck = 25 * Second"
definition maximumTimeout_rck :: int where "maximumTimeout_rck = 30 * Second"
definition perAttemptTimeout :: int where "perAttemptTimeout = 5 * Second"

record RckObserver =
  ko_timeout :: int
  ko_platform :: Platform

definition normalizeTimeout_rck :: "int \<Rightarrow> error + int" where
  "normalizeTimeout_rck timeout =
     (if timeout = 0 then Inr defaultTimeout_rck
      else if timeout < 0 \<or> maximumTimeout_rck < timeout then Inl ''timeout must be between zero and 30s''
      else Inr timeout)"

definition newObserver_rck :: "RckConfig \<Rightarrow> Platform \<Rightarrow> Platform \<Rightarrow> bool \<Rightarrow> error + RckObserver" where
  "newObserver_rck config runtimePlatform depPlatform hasWeb =
     (case normalizeTimeout_rck (kcfg_Timeout config) of
        Inl e \<Rightarrow> Inl e
      | Inr timeout \<Rightarrow>
          (let platform = (if plat_os depPlatform = '''' \<and> plat_arch depPlatform = '''' then runtimePlatform else depPlatform) in
           if plat_os platform = '''' \<or> plat_arch platform = ''''
             then Inl ''platform dependency must include OS and architecture''
           else if \<not> hasWeb then Inl ''Web observation dependency must not be nil''
           else Inr \<lparr>ko_timeout = timeout, ko_platform = platform\<rparr>))"

definition New_rck :: "RckConfig \<Rightarrow> Platform \<Rightarrow> error + (RckObserver \<times> WebObserver)" where
  "New_rck config runtimePlatform =
     (case normalizeTimeout_rck (kcfg_Timeout config) of
        Inl e \<Rightarrow> Inl e
      | Inr timeout \<Rightarrow>
          (case newObserver_web \<lparr>wcfg_Timeout = min timeout perAttemptTimeout\<rparr> of
             Inl e \<Rightarrow> Inl (''create Web observation adapter: '' @ e)
           | Inr web \<Rightarrow>
               (case newObserver_rck config runtimePlatform \<lparr>plat_os = '''', plat_arch = ''''\<rparr> True of
                  Inl e \<Rightarrow> Inl e
                | Inr ob \<Rightarrow> Inr (ob, web))))"

section \<open>Observe\<close>

record RckWorld =
  kw_now :: "nat \<Rightarrow> gotime"
  kw_ctx :: ctx
  kw_fired :: "int \<Rightarrow> nat \<Rightarrow> bool"
  kw_web :: "nat \<Rightarrow> WebObsRequest \<Rightarrow> WebResult"

record RckTerminal =
  ter_status :: RckStatus
  ter_reason :: RckStop
  ter_detail :: string

record RckBuilder =
  kb_input :: RckInput
  kb_localCandidatesOmitted :: nat
  kb_referenceCandidatesOmitted :: nat
  kb_attempts :: "RckAttempt list"
  kb_webSource :: "Source option"

definition recheckCtx :: "RckWorld \<Rightarrow> RckObserver \<Rightarrow> ctx" where
  "recheckCtx w ob = withTimeout (kw_ctx w) (kw_fired w (ko_timeout ob))"

text \<open>\<open>err.Error()\<close>; the error of a context that is done is not nil.\<close>

definition terminalText :: "goerr option \<Rightarrow> string" where
  "terminalText err = (case err of None \<Rightarrow> ''panic: nil error'' | Some e \<Rightarrow> err_text e)"

definition terminalContext_rck :: "ctx \<Rightarrow> ctx \<Rightarrow> nat \<Rightarrow> RckTerminal option" where
  "terminalContext_rck parent recheck n =
     (let k = 5 * n in
      if errorsIs (ctxErrAt parent k) SCanceled
      then Some \<lparr>ter_status = RckCancelled, ter_reason = RckStopCancelled, ter_detail = terminalText (ctxErrAt parent (k + 1))\<rparr>
      else if ctxErrAt parent (k + 1) \<noteq> None \<or> errorsIs (ctxErrAt recheck (k + 2)) SDeadlineExceeded
      then Some \<lparr>ter_status = RckStopped, ter_reason = RckTimeout, ter_detail =
        terminalText (case ctxErrAt parent (k + 3) of None \<Rightarrow> ctxErrAt recheck (k + 4) | Some e \<Rightarrow> Some e)\<rparr>
      else if errorsIs (ctxErrAt recheck (k + 3)) SCanceled
      then Some \<lparr>ter_status = RckCancelled, ter_reason = RckStopCancelled, ter_detail = terminalText (ctxErrAt recheck (k + 4))\<rparr>
      else None)"

definition expectedInput :: "RckInput \<Rightarrow> string \<Rightarrow> WebInput" where
  "expectedInput inp ip = \<lparr>win_Scheme = kin_Scheme inp, win_Hostname = kin_Hostname inp, win_DialIP = ip,
     win_Family = kin_Family inp, win_Port = kin_Port inp, win_Method = kin_Method inp, win_Path = kin_Path inp,
     win_RawQuery = ''''\<rparr>"

definition validateObservation_rck :: "'a unitab_scheme \<Rightarrow> RckObserver \<Rightarrow> WebResult \<Rightarrow> scheduledCandidate \<Rightarrow> RckBuilder \<Rightarrow>
    RckBuilder \<times> error option" where
  "validateObservation_rck u ob result candidate builder = (case Validate_web u result of
      Some e \<Rightarrow> (builder, Some (''invalid Web Observation: '' @ e))
    | None \<Rightarrow>
        if env_platform result \<noteq> ko_platform ob \<or> env_input result \<noteq> expectedInput (kb_input builder) (sc_ip candidate)
        then (builder, Some ''Web Observation changes the fixed platform or first-hop request'')
        else (case kb_webSource builder of
            None \<Rightarrow> (builder\<lparr>kb_webSource := Some (env_source result)\<rparr>, None)
          | Some source \<Rightarrow> (builder, guard (env_source result \<noteq> source) ''Web Observation changes the configured adapter'')))"

text \<open>The loop over the schedule: the next look at the contexts, the report, and how it ended early.\<close>

fun observeCandidates :: "'a unitab_scheme \<Rightarrow> RckWorld \<Rightarrow> RckObserver \<Rightarrow> nat \<Rightarrow> RckBuilder \<Rightarrow> scheduledCandidate list \<Rightarrow>
    nat \<times> RckBuilder \<times> RckTerminal option" where
  "observeCandidates u w ob n builder [] = (n, builder, None)"
| "observeCandidates u w ob n builder (candidate # candidates) =
     (case terminalContext_rck (kw_ctx w) (recheckCtx w ob) n of
        Some state \<Rightarrow> (n + 1, builder, Some state)
      | None \<Rightarrow>
         (let observation = kw_web w n \<lparr>wreq_Scheme = kin_Scheme (kb_input builder), wreq_Hostname = kin_Hostname (kb_input builder),
                wreq_DialIP = sc_ip candidate, wreq_Path = '''', wreq_RawQuery = ''''\<rparr>;
              attempt = \<lparr>katt_CandidateSource = sc_source candidate, katt_Observation = observation\<rparr>;
              (builder, err) = validateObservation_rck u ob observation candidate builder in
          case err of
            Some e \<Rightarrow> (n + 1, builder, Some \<lparr>ter_status = RckStopped, ter_reason = RckInvalidProbeEvidence, ter_detail = e\<rparr>)
          | None \<Rightarrow> (case terminalContext_rck (kw_ctx w) (recheckCtx w ob) (n + 1) of
              Some state \<Rightarrow>
                (n + 2, (if env_outcome observation \<noteq> OutcomeSucceeded
                         then builder\<lparr>kb_attempts := kb_attempts builder @ [attempt]\<rparr> else builder), Some state)
            | None \<Rightarrow>
               (let builder = builder\<lparr>kb_attempts := kb_attempts builder @ [attempt]\<rparr> in
                if env_outcome observation = OutcomeCancelled
                then (n + 2, builder, Some \<lparr>ter_status = RckCancelled, ter_reason = RckStopCancelled, ter_detail = ''''\<rparr>)
                else observeCandidates u w ob (n + 2) builder candidates))))"

definition finish_rck :: "RckWorld \<Rightarrow> RckObserver \<Rightarrow> RckBuilder \<Rightarrow> RckTerminal \<Rightarrow> RckResult" where
  "finish_rck w ob builder state =
     (let startedAt = kw_now w 0; finishedAt = kw_now w 1; duration = Milliseconds (Sub finishedAt startedAt) in
      \<lparr>krs_SchemaVersion = SchemaVersion_rck, krs_Operation = Operation_rck, krs_ObservedAt = UTC finishedAt,
       krs_DurationMS = (if duration < 0 then 0 else duration), krs_Platform = ko_platform ob,
       krs_Input = kb_input builder, krs_Status = ter_status state, krs_StopReason = ter_reason state,
       krs_Detail = ter_detail state, krs_LocalCandidatesOmitted = kb_localCandidatesOmitted builder,
       krs_ReferenceCandidatesOmitted = kb_referenceCandidatesOmitted builder, krs_Attempts = Some (kb_attempts builder)\<rparr>)"

definition Observe_rck :: "'a unitab_scheme \<Rightarrow> RckWorld \<Rightarrow> RckObserver \<Rightarrow> RckRequest \<Rightarrow> RckResult" where
  "Observe_rck u w ob request =
     (let (inp, err) = normalizeRequest_rck u request;
          builder = \<lparr>kb_input = inp, kb_localCandidatesOmitted = 0, kb_referenceCandidatesOmitted = 0,
            kb_attempts = [], kb_webSource = None\<rparr> in
      case err of
        Some e \<Rightarrow> finish_rck w ob builder \<lparr>ter_status = RckStopped, ter_reason = RckInvalidInput, ter_detail = e\<rparr>
      | None \<Rightarrow>
         (let builder = builder\<lparr>kb_localCandidatesOmitted := omittedCandidates (kin_LocalCandidates inp),
                kb_referenceCandidatesOmitted := omittedCandidates (kin_ReferenceCandidates inp)\<rparr> in
          case terminalContext_rck (kw_ctx w) (kw_ctx w) 0 of
            Some state \<Rightarrow> finish_rck w ob builder state
          | None \<Rightarrow> (case observeCandidates u w ob 1 builder (scheduleOf inp) of
              (n, builder, Some state) \<Rightarrow> finish_rck w ob builder state
            | (n, builder, None) \<Rightarrow> (case terminalContext_rck (kw_ctx w) (recheckCtx w ob) n of
                Some state \<Rightarrow> finish_rck w ob builder state
              | None \<Rightarrow> finish_rck w ob builder \<lparr>ter_status = RckCompleted, ter_reason = RckStopOther '''', ter_detail = ''''\<rparr>))))"

section \<open>Validate\<close>

definition validateTerminalShape :: "RckResult \<Rightarrow> error option" where
  "validateTerminalShape result = (case krs_Status result of
      RckCompleted \<Rightarrow> guard (krs_StopReason result \<noteq> RckStopOther '''' \<or> krs_Detail result \<noteq> '''')
        ''completed recheck must not include a stop reason or detail''
    | RckStopped \<Rightarrow> guard (krs_StopReason result \<noteq> RckTimeout \<and> krs_StopReason result \<noteq> RckInvalidProbeEvidence \<or>
          TrimSpace (krs_Detail result) = '''') ''stopped recheck requires a supported reason and detail''
    | RckCancelled \<Rightarrow> guard (krs_StopReason result \<noteq> RckStopCancelled) ''cancelled recheck requires cancelled stop reason''
    | RckStatusOther s \<Rightarrow> Some ''unsupported status'')"

text \<open>The loop over the attempts and the schedule; the source of the first attempt is the adapter.\<close>

fun validateAttempts_rck :: "'a unitab_scheme \<Rightarrow> RckResult \<Rightarrow> Source option \<Rightarrow> (RckAttempt \<times> scheduledCandidate) list \<Rightarrow>
    error option" where
  "validateAttempts_rck u result source [] = None"
| "validateAttempts_rck u result source ((attempt, want) # rest) =
     (let observation = katt_Observation attempt in
      case firstErr [
        guard (katt_CandidateSource attempt \<noteq> sc_source want) ''attempt does not follow the alternating source schedule'',
        wrapErr ''attempt: '' (Validate_web u observation),
        guard (env_platform observation \<noteq> krs_Platform result \<or> env_input observation \<noteq> expectedInput (krs_Input result) (sc_ip want))
          ''attempt changes the fixed platform or first-hop request'',
        (case source of None \<Rightarrow> None | Some s \<Rightarrow> guard (env_source observation \<noteq> s) ''attempt changes the configured Web adapter''),
        guard (env_outcome observation = OutcomeCancelled \<and> (krs_Status result \<noteq> RckCancelled \<or> rest \<noteq> []))
          ''cancelled Web attempt must terminate a cancelled recheck''] of
        Some e \<Rightarrow> Some e
      | None \<Rightarrow> validateAttempts_rck u result
          (case source of None \<Rightarrow> Some (env_source observation) | Some s \<Rightarrow> Some s) rest)"

definition Validate_rck :: "'a unitab_scheme \<Rightarrow> RckResult \<Rightarrow> error option" where
  "Validate_rck u result =
     (let attempts = sliceOf (krs_Attempts result); inp = krs_Input result;
          (normalized, inputErr) = normalizeRequest_rck u \<lparr>kreq_Hostname = kin_Hostname inp,
            kreq_LocalCandidates = kin_LocalCandidates inp, kreq_ReferenceCandidates = kin_ReferenceCandidates inp\<rparr>;
          expected = scheduleOf inp in
      case firstErr [
        guard (krs_SchemaVersion result \<noteq> SchemaVersion_rck) ''schema_version must be 1'',
        guard (krs_Operation result \<noteq> Operation_rck) ''operation must be web_candidate_recheck'',
        guard (IsZero (krs_ObservedAt result)) ''observed_at must not be zero'',
        guard (t_zone (krs_ObservedAt result) \<noteq> 0) ''observed_at must use UTC'',
        guard (krs_DurationMS result < 0) ''duration_ms must not be negative'',
        guard (plat_os (krs_Platform result) = '''' \<or> plat_arch (krs_Platform result) = '''') ''platform must include OS and architecture'',
        guard (krs_Attempts result = None) ''attempts must encode as an array'',
        guard (normalized \<noteq> inp) ''input does not match the normalized fixed policy''] of
        Some e \<Rightarrow> Some e
      | None \<Rightarrow>
          if inputErr \<noteq> None then
            guard (krs_Status result \<noteq> RckStopped \<or> krs_StopReason result \<noteq> RckInvalidInput \<or>
                TrimSpace (krs_Detail result) = '''' \<or> attempts \<noteq> [] \<or>
                krs_LocalCandidatesOmitted result \<noteq> 0 \<or> krs_ReferenceCandidatesOmitted result \<noteq> 0)
              ''invalid input requires stopped/invalid_input without evidence''
          else firstErr [
            guard (krs_Status result = RckStopped \<and> krs_StopReason result = RckInvalidInput)
              ''valid input must not stop as invalid_input'',
            validateTerminalShape result,
            guard (krs_LocalCandidatesOmitted result \<noteq> omittedCandidates (kin_LocalCandidates inp) \<or>
                krs_ReferenceCandidatesOmitted result \<noteq> omittedCandidates (kin_ReferenceCandidates inp))
              ''candidate omitted counts do not match the fixed limit'',
            guard (length expected < length attempts) ''attempts exceed the bounded candidate schedule'',
            guard (krs_Status result = RckCompleted \<and> length attempts \<noteq> length expected)
              ''completed recheck requires every bounded candidate attempt'',
            guard (krs_Status result = RckStopped \<and> krs_StopReason result = RckInvalidProbeEvidence \<and>
                length attempts = length expected) ''invalid_probe_evidence must stop before the full schedule'',
            validateAttempts_rck u result None (zip attempts expected),
            guard (krs_Status result = RckCompleted \<and> list_ex (\<lambda>a. env_outcome (katt_Observation a) = OutcomeCancelled) attempts)
              ''completed recheck includes cancelled attempt''])"

end
