(* ===== verification/WebRecheckProps.thy ===== *)
theory WebRecheckProps
  imports WebRecheck WebProps
begin

text \<open>
  The recheck of Web candidates: normalizing is stable, the loop follows the schedule, and the exact
  cases in which the validator refuses a report.
\<close>

section \<open>Normalizing again\<close>

definition okCandidate :: "string \<Rightarrow> bool" where
  "okCandidate v \<longleftrightarrow> snd (snd (NormalizePublicIP v)) = None"

definition candidateFamily :: "string \<Rightarrow> Family_web" where
  "candidateFamily v = familyFor (fst (snd (NormalizePublicIP v)))"

definition candidateText :: "string \<Rightarrow> string" where
  "candidateText v = fst (NormalizePublicIP v)"

lemma candidate_again [simp]:
  "okCandidate (candidateText v) = okCandidate v" "candidateFamily (candidateText v) = candidateFamily v"
  "candidateText (candidateText v) = candidateText v"
  by (simp_all add: okCandidate_def candidateFamily_def candidateText_def NormalizePublicIP_idempotent)

lemma familyFor_known [simp]: "familyFor a \<noteq> FamilyOther_web s" "candidateFamily v \<noteq> FamilyOther_web s"
  by (simp_all add: familyFor_def candidateFamily_def)

text \<open>The family after the loop: the first one of an accepted candidate.\<close>

definition familyAfter :: "Family_web \<Rightarrow> string list \<Rightarrow> Family_web" where
  "familyAfter family vs = (if family \<noteq> FamilyOther_web '''' then family
     else case find okCandidate vs of None \<Rightarrow> family | Some v \<Rightarrow> candidateFamily v)"

lemma candidateLoop_step:
  "candidateLoop label N f err (v # vs) =
     candidateLoop label (if candidateText v \<in> set N then N else N @ [candidateText v])
       (if okCandidate v \<and> f = FamilyOther_web '''' then candidateFamily v else f)
       (if err \<noteq> None then err
        else if \<not> okCandidate v then Some (label @ '' candidate: '' @ the (snd (snd (NormalizePublicIP v))))
        else if f \<noteq> FamilyOther_web '''' \<and> f \<noteq> candidateFamily v then Some (label @ '' candidates must use one address family'')
        else None) vs"
proof -
  obtain t a e where n: "NormalizePublicIP v = (t, a, e)" by (metis prod_cases3)
  show ?thesis
    by (cases e; cases err) (simp_all add: n okCandidate_def candidateFamily_def candidateText_def)
qed

declare candidateLoop.simps(2) [simp del]

lemma dedup_cong: "set s = set s' \<Longrightarrow> dedup s xs = dedup s' xs"
proof (induction xs arbitrary: s s')
  case (Cons x xs)
  have "dedup (x # s) xs = dedup (x # s') xs" by (rule Cons.IH) (simp add: Cons.prems)
  moreover have "dedup s xs = dedup s' xs" by (rule Cons.IH) (rule Cons.prems)
  ultimately show ?case by (simp add: Cons.prems)
qed simp

lemma candidateLoop_texts: "fst (candidateLoop label N f err vs) = N @ dedup N (map candidateText vs)"
proof (induction vs arbitrary: N f err)
  case (Cons v vs)
  have "dedup (N @ [candidateText v]) xs = dedup (candidateText v # N) xs" for xs by (rule dedup_cong) auto
  with Cons show ?case by (simp add: candidateLoop_step)
qed simp

lemma candidateLoop_family: "fst (snd (candidateLoop label N f err vs)) = familyAfter f vs"
  by (induction vs arbitrary: N f err) (auto simp: candidateLoop_step familyAfter_def)

lemma candidateLoop_accepts:
  "snd (snd (candidateLoop label N f err vs)) = None \<longleftrightarrow>
     err = None \<and> list_all okCandidate vs \<and> list_all (\<lambda>v. candidateFamily v = familyAfter f vs) vs"
proof (induction vs arbitrary: N f err)
  case (Cons v vs)
  show ?case
  proof (cases "okCandidate v")
    case True
    then have "familyAfter (if f = FamilyOther_web '''' then candidateFamily v else f) vs = familyAfter f (v # vs)"
      by (simp add: familyAfter_def)
    moreover have "f \<noteq> FamilyOther_web '''' \<Longrightarrow> familyAfter f (v # vs) = f" by (simp add: familyAfter_def)
    moreover have "f = FamilyOther_web '''' \<Longrightarrow> familyAfter f (v # vs) = candidateFamily v" using True by (simp add: familyAfter_def)
    ultimately show ?thesis using True by (auto simp: candidateLoop_step Cons.IH)
  next
    case False
    then show ?thesis by (simp add: candidateLoop_step Cons.IH)
  qed
qed simp

lemma candidateLoop_message:
  "snd (snd (candidateLoop label N f err vs)) = Some m \<Longrightarrow> err = Some m \<or> (\<exists>rest. m = label @ CHR '' '' # rest)"
proof (induction vs arbitrary: N f err)
  case (Cons v vs)
  show ?case using Cons.IH [OF Cons.prems [unfolded candidateLoop_step]] by (auto split: if_splits)
qed simp

lemma find_dedup: "\<forall>s \<in> set seen. \<not> P s \<Longrightarrow> find P (dedup seen xs) = find P xs"
proof (induction seen xs rule: dedup.induct)
  case (2 seen x xs)
  then show ?case by (cases "P x") auto
qed simp

lemma find_map: "find P (map g xs) = map_option g (find (P \<circ> g) xs)"
  by (induction xs) auto

lemma normalizeCandidates_again:
  assumes "normalizeCandidates label vs = (ts, f, e)"
  shows "ts = dedup [] (map candidateText vs)" "\<exists>e'. normalizeCandidates label ts = (ts, f, e') \<and> (e' = None) = (e = None)"
    "e = Some m \<Longrightarrow> \<exists>rest. m = label @ CHR '' '' # rest"
    "e = None \<Longrightarrow> vs \<noteq> [] \<and> (\<forall>t \<in> set ts. okCandidate t \<and> candidateText t = t \<and> candidateFamily t = f)"
proof -
  have ts: "ts = dedup [] (map candidateText vs)" and f: "f = familyAfter (FamilyOther_web '''') vs"
    and e: "e = (if vs = [] then Some (label @ '' candidates must not be empty'') else snd (snd (candidateLoop label [] (FamilyOther_web '''') None vs)))"
    using assms candidateLoop_texts [of label "[]" "FamilyOther_web ''''" None vs]
      candidateLoop_family [of label "[]" "FamilyOther_web ''''" None vs]
    by (auto simp: normalizeCandidates_def split: prod.splits if_splits)
  show "ts = dedup [] (map candidateText vs)" by (rule ts)
  have fixed: "map candidateText ts = ts" using ts by (intro map_idI) (auto simp: set_dedup)
  have fam: "familyAfter (FamilyOther_web '''') ts = f"
    by (simp add: f familyAfter_def ts find_dedup find_map comp_def map_option_case split: option.split)
  have dd: "dedup [] ts = ts" by (simp add: ts dedup_idem)
  have again: "fst (normalizeCandidates label ts) = ts" "fst (snd (normalizeCandidates label ts)) = f"
    using candidateLoop_texts [of label "[]" "FamilyOther_web ''''" None ts]
      candidateLoop_family [of label "[]" "FamilyOther_web ''''" None ts]
    by (auto simp: normalizeCandidates_def fam fixed dd split: prod.splits)
  have sets: "set ts = candidateText ` set vs" "ts = [] \<longleftrightarrow> vs = []" by (auto simp: ts set_dedup dedup_Nil_iff)
  have err: "(snd (snd (normalizeCandidates label ts)) = None) = (e = None)"
    using candidateLoop_accepts [of label "[]" "FamilyOther_web ''''" None ts]
      candidateLoop_accepts [of label "[]" "FamilyOther_web ''''" None vs]
    by (auto simp: normalizeCandidates_def e fam f [symmetric] list_all_iff sets split: prod.splits)
  show "\<exists>e'. normalizeCandidates label ts = (ts, f, e') \<and> (e' = None) = (e = None)"
    using again err by (intro exI [of _ "snd (snd (normalizeCandidates label ts))"]) (auto simp: prod_eq_iff)
  show "e = Some m \<Longrightarrow> \<exists>rest. m = label @ CHR '' '' # rest"
    using candidateLoop_message [of label "[]" "FamilyOther_web ''''" None vs m] by (auto simp: e split: if_splits)
  show "vs \<noteq> [] \<and> (\<forall>t \<in> set ts. okCandidate t \<and> candidateText t = t \<and> candidateFamily t = f)" if "e = None"
    using that candidateLoop_accepts [of label "[]" "FamilyOther_web ''''" None vs]
    by (auto simp: e f [symmetric] list_all_iff sets split: if_splits)
qed


text \<open>The host name of a request and of what is recorded for it.\<close>

lemma firstErr_member: "firstErr xs = Some m \<Longrightarrow> Some m \<in> set xs"
proof (induction xs)
  case (Cons x xs)
  then show ?case by (cases x) (auto simp: firstErr.simps)
qed (simp add: firstErr.simps)

lemma visible_text: "isGraph c \<Longrightarrow> TrimSpace (c # s) \<noteq> ''''"
  using not_blank_graph by (simp add: blank_def)

text \<open>What holds of every message holds of the first one.\<close>

lemma firstErr_pred: "firstErr xs = Some m \<Longrightarrow> list_all (pred_option P) xs \<Longrightarrow> P m"
  by (auto dest!: firstErr_member simp: list_all_iff)

lemma guard_pred: "P t \<Longrightarrow> pred_option P (guard b t)"
  by (simp add: guard_def)

lemma webHostnameErr_visible:
  assumes "webHostnameErr h = Some m"
  shows "TrimSpace m \<noteq> ''''"
proof -
  let ?V = "\<lambda>m. TrimSpace m \<noteq> ''''"
  have v: "?V (CHR ''h'' # s)" "?V (CHR ''I'' # s)" for s using visible_text by (simp_all add: isGraph_def)
  have "pred_option ?V (webLabelErr l)" for l
  proof (cases "webLabelErr l")
    case (Some e)
    have "?V e" by (rule firstErr_pred [where P = ?V, OF Some [unfolded webLabelErr_def]]) (simp add: guard_pred v)
    with Some show ?thesis by simp
  qed simp
  then have "list_all (pred_option ?V) (map webLabelErr ls)" for ls by (simp add: list_all_iff)
  then show ?thesis using firstErr_pred [where P = ?V, OF assms [unfolded webHostnameErr_def]] by (simp add: guard_pred v)
qed

definition recorded_rck :: "RckInput \<Rightarrow> RckRequest" where
  "recorded_rck i = \<lparr>kreq_Hostname = kin_Hostname i, kreq_LocalCandidates = kin_LocalCandidates i,
     kreq_ReferenceCandidates = kin_ReferenceCandidates i\<rparr>"

lemma normalizeRequest_rck_again:
  assumes n: "normalizeRequest_rck u r = (i, e)"
    and stable: "webHostnameText u (webHostnameText u (kreq_Hostname r)) = webHostnameText u (kreq_Hostname r)"
  shows "\<exists>e'. normalizeRequest_rck u (recorded_rck i) = (i, e') \<and> (e' = None) = (e = None)"
    and "e = Some m \<Longrightarrow> TrimSpace m \<noteq> ''''"
    and "e = None \<Longrightarrow> NormalizeWebHostname u (kin_Hostname i) = (kin_Hostname i, None) \<and>
      (\<forall>c \<in> set (kin_LocalCandidates i) \<union> set (kin_ReferenceCandidates i).
         okCandidate c \<and> candidateText c = c \<and> candidateFamily c = kin_Family i) \<and>
      kin_LocalCandidates i \<noteq> [] \<and> kin_ReferenceCandidates i \<noteq> []"
proof -
  obtain h he where h: "NormalizeWebHostname u (kreq_Hostname r) = (h, he)" by (metis prod.collapse)
  obtain ls lf le where l: "normalizeCandidates ''local'' (kreq_LocalCandidates r) = (ls, lf, le)" by (metis prod_cases3)
  obtain rs rf re where rr: "normalizeCandidates ''reference'' (kreq_ReferenceCandidates r) = (rs, rf, re)" by (metis prod_cases3)
  have again: "NormalizeWebHostname u h = (h, he)" using NormalizeWebHostname_again [OF stable] h by simp
  have i: "kin_Hostname i = h" "kin_LocalCandidates i = ls" "kin_ReferenceCandidates i = rs"
    "kin_Family i = (if lf = FamilyOther_web '''' then rf else lf)"
    using n h l rr by (auto simp: normalizeRequest_rck_def)
  have e: "e = firstErr [he, le, re, guard (lf \<noteq> rf) ''local family does not match reference family'']"
    using n h l rr by (auto simp: normalizeRequest_rck_def)
  obtain le' re' where lr: "normalizeCandidates ''local'' ls = (ls, lf, le')" "(le' = None) = (le = None)"
    "normalizeCandidates ''reference'' rs = (rs, rf, re')" "(re' = None) = (re = None)"
    using normalizeCandidates_again(2) [OF l] normalizeCandidates_again(2) [OF rr] by blast
  have "normalizeRequest_rck u (recorded_rck i) =
      (i, firstErr [he, le', re', guard (lf \<noteq> rf) ''local family does not match reference family''])"
    using n h l rr again lr i by (auto simp: normalizeRequest_rck_def recorded_rck_def)
  then show "\<exists>e'. normalizeRequest_rck u (recorded_rck i) = (i, e') \<and> (e' = None) = (e = None)"
    using lr by (auto simp: e firstErr_simps)
  show "TrimSpace m \<noteq> ''''" if "e = Some m"
  proof -
    from that consider "he = Some m" | "le = Some m" | "re = Some m" | "m = ''local family does not match reference family''"
      unfolding e by (auto simp: guard_def dest!: firstErr_member split: if_splits)
    moreover have "isGraph (CHR ''l'')" "isGraph (CHR ''r'')" by (simp_all add: isGraph_def)
    ultimately show ?thesis
    proof cases
      case 1
      then show ?thesis using h webHostnameErr_visible by (auto simp: NormalizeWebHostname_def Let_def)
    next
      case 2
      then show ?thesis using normalizeCandidates_again(3) [OF l] visible_text \<open>isGraph (CHR ''l'')\<close> by fastforce
    next
      case 3
      then show ?thesis using normalizeCandidates_again(3) [OF rr] visible_text \<open>isGraph (CHR ''r'')\<close> by fastforce
    next
      case 4
      then show ?thesis using visible_text \<open>isGraph (CHR ''l'')\<close> by simp
    qed
  qed
  show "NormalizeWebHostname u (kin_Hostname i) = (kin_Hostname i, None) \<and>
      (\<forall>c \<in> set (kin_LocalCandidates i) \<union> set (kin_ReferenceCandidates i).
         okCandidate c \<and> candidateText c = c \<and> candidateFamily c = kin_Family i) \<and>
      kin_LocalCandidates i \<noteq> [] \<and> kin_ReferenceCandidates i \<noteq> []" if "e = None"
  proof -
    have none: "he = None" "le = None" "re = None" "lf = rf" using that unfolding e by (auto simp: firstErr_simps)
    note L = normalizeCandidates_again(4) [OF l none(2)] and R = normalizeCandidates_again(4) [OF rr none(3)]
    have "ls \<noteq> []" "rs \<noteq> []"
      using L R normalizeCandidates_again(1) [OF l] normalizeCandidates_again(1) [OF rr] by (simp_all add: dedup_Nil_iff)
    with L R again none i show ?thesis by auto
  qed
qed

lemma normalizeRequest_rck_accepted:
  assumes "normalizeRequest_rck u r = (i, None)"
  shows "NormalizeWebHostname u (kin_Hostname i) = (kin_Hostname i, None) \<and>
      (\<forall>c \<in> set (kin_LocalCandidates i) \<union> set (kin_ReferenceCandidates i).
         okCandidate c \<and> candidateText c = c \<and> candidateFamily c = kin_Family i)"
proof -
  obtain h where h: "NormalizeWebHostname u (kreq_Hostname r) = (h, None)"
    using assms by (auto simp: normalizeRequest_rck_def firstErr_simps split: prod.splits)
  then have "webHostnameText u (webHostnameText u (kreq_Hostname r)) = webHostnameText u (kreq_Hostname r)"
    using NormalizeWebHostname_fixed [OF h] by (simp add: NormalizeWebHostname_def Let_def)
  from normalizeRequest_rck_again(3) [OF assms this refl] show ?thesis by blast
qed

section \<open>The loop over the schedule\<close>

definition att_ok :: "'a unitab_scheme \<Rightarrow> Platform \<Rightarrow> RckInput \<Rightarrow> RckAttempt \<Rightarrow> scheduledCandidate \<Rightarrow> bool" where
  "att_ok u platform inp a c \<longleftrightarrow> katt_CandidateSource a = sc_source c \<and> Validate_web u (katt_Observation a) = None \<and>
     env_platform (katt_Observation a) = platform \<and> env_input (katt_Observation a) = expectedInput inp (sc_ip c)"

definition one_source :: "Source option \<Rightarrow> RckAttempt list \<Rightarrow> bool" where
  "one_source s xs \<longleftrightarrow> (\<exists>x. (s = None \<or> s = Some x) \<and> (\<forall>a \<in> set xs. env_source (katt_Observation a) = x))"

lemma one_source_None: "one_source s xs \<Longrightarrow> one_source None xs"
  by (auto simp: one_source_def)

lemma one_source_Cons:
  "one_source s (x # xs) \<longleftrightarrow> (s = None \<or> s = Some (env_source (katt_Observation x))) \<and>
     one_source (Some (env_source (katt_Observation x))) xs"
  by (auto simp: one_source_def)

abbreviation cancelledAttempt :: "RckAttempt \<Rightarrow> bool" where
  "cancelledAttempt a \<equiv> env_outcome (katt_Observation a) = OutcomeCancelled"

text \<open>How the loop ends early, after the given attempts of the schedule.\<close>

definition early_end :: "RckAttempt list \<Rightarrow> scheduledCandidate list \<Rightarrow> RckTerminal \<Rightarrow> bool" where
  "early_end xs expected t \<longleftrightarrow>
     ter_status t = RckCancelled \<and> ter_reason t = RckStopCancelled \<or>
     ter_status t = RckStopped \<and> TrimSpace (ter_detail t) \<noteq> '''' \<and>
       (ter_reason t = RckTimeout \<or>
        ter_reason t = RckInvalidProbeEvidence \<and> length xs < length expected \<and> \<not> list_ex cancelledAttempt xs)"

lemma terminalContext_rck_end:
  assumes "terminalContext_rck c c' n = Some t"
  shows "early_end xs expected t"
proof -
  have v: "TrimSpace (terminalText (ctxErrAt c'' k)) \<noteq> ''''" for c'' k
  proof (cases "c'' k")
    case None
    have "isGraph (CHR ''p'')" by (simp add: isGraph_def)
    then show ?thesis using None visible_text by (simp add: terminalText_def ctxErrAt_def)
  next
    case (Some e)
    have "isGraph (CHR ''c'')" by (simp add: isGraph_def)
    then show ?thesis using Some visible_text by (cases e) (simp_all add: terminalText_def ctxErrAt_def)
  qed
  have v': "TrimSpace (terminalText (case ctxErrAt c i of None \<Rightarrow> ctxErrAt c' j | Some e \<Rightarrow> Some e)) \<noteq> ''''" for i j
    proof (cases "c i")
    case None
    have n: "ctxErrAt c i = None" by (simp add: None)
    show ?thesis unfolding n option.case by (rule v)
  next
    case (Some e)
    then have "ctxErrAt c i = Some (ctxGoErr e)" by (simp add: ctxErrAt_def)
    then show ?thesis using v [of c i] by simp
  qed
  show ?thesis
    using assms v v' by (auto simp: terminalContext_rck_def early_end_def Let_def split: if_splits)
qed


lemma validateObservation_rck_cases:
  assumes "validateObservation_rck u ob x c b = (b', err)"
  shows "err = None \<Longrightarrow> Validate_web u x = None \<and> env_platform x = ko_platform ob \<and> env_input x = expectedInput (kb_input b) (sc_ip c) \<and>
      kb_webSource b' = Some (env_source x) \<and> (kb_webSource b = None \<or> kb_webSource b = Some (env_source x))"
    and "kb_input b' = kb_input b \<and> kb_attempts b' = kb_attempts b \<and> kb_localCandidatesOmitted b' = kb_localCandidatesOmitted b \<and>
      kb_referenceCandidatesOmitted b' = kb_referenceCandidatesOmitted b"
    and "err = Some e \<Longrightarrow> TrimSpace e \<noteq> ''''"
proof -
  have v: "TrimSpace (CHR ''i'' # s) \<noteq> ''''" "TrimSpace (CHR ''W'' # s) \<noteq> ''''" for s
    using visible_text by (simp_all add: isGraph_def)
  show "err = None \<Longrightarrow> Validate_web u x = None \<and> env_platform x = ko_platform ob \<and> env_input x = expectedInput (kb_input b) (sc_ip c) \<and>
      kb_webSource b' = Some (env_source x) \<and> (kb_webSource b = None \<or> kb_webSource b = Some (env_source x))"
    "kb_input b' = kb_input b \<and> kb_attempts b' = kb_attempts b \<and> kb_localCandidatesOmitted b' = kb_localCandidatesOmitted b \<and>
      kb_referenceCandidatesOmitted b' = kb_referenceCandidatesOmitted b"
    using assms by (auto simp: validateObservation_rck_def split: option.splits if_splits)
  show "err = Some e \<Longrightarrow> TrimSpace e \<noteq> ''''"
    using assms v by (auto simp: validateObservation_rck_def guard_def split: option.splits if_splits)
qed

text \<open>The state at the head of the loop, after the candidates of \<open>read\<close>.\<close>

definition rck_inv :: "'a unitab_scheme \<Rightarrow> Platform \<Rightarrow> RckInput \<Rightarrow> scheduledCandidate list \<Rightarrow> RckBuilder \<Rightarrow> bool" where
  "rck_inv u platform inp read b \<longleftrightarrow> kb_input b = inp \<and> list_all2 (att_ok u platform inp) (kb_attempts b) read \<and>
     one_source (kb_webSource b) (kb_attempts b) \<and> (kb_webSource b = None \<longrightarrow> kb_attempts b = []) \<and>
     \<not> list_ex cancelledAttempt (kb_attempts b)"

text \<open>The state after the loop.\<close>

definition rck_post :: "'a unitab_scheme \<Rightarrow> Platform \<Rightarrow> RckInput \<Rightarrow> scheduledCandidate list \<Rightarrow> RckBuilder \<Rightarrow> bool" where
  "rck_post u platform inp expected b \<longleftrightarrow> kb_input b = inp \<and> length (kb_attempts b) \<le> length expected \<and>
     list_all2 (att_ok u platform inp) (kb_attempts b) (take (length (kb_attempts b)) expected) \<and>
     one_source None (kb_attempts b) \<and> \<not> list_ex cancelledAttempt (butlast (kb_attempts b))"

lemma rck_inv_post:
  assumes "rck_inv u platform inp read b"
  shows "rck_post u platform inp (read @ rest) b"
proof -
  have "length (kb_attempts b) = length read" using assms by (auto simp: rck_inv_def dest: list_all2_lengthD)
  moreover have "\<not> list_ex cancelledAttempt (butlast (kb_attempts b))"
    using assms by (auto simp: rck_inv_def list_ex_iff dest: in_set_butlastD)
  ultimately show ?thesis using assms one_source_None by (auto simp: rck_inv_def rck_post_def)
qed

lemma one_source_snoc:
  assumes "one_source s xs" "s = None \<longrightarrow> xs = []" "s = None \<or> s = Some (env_source (katt_Observation a))"
  shows "one_source (Some (env_source (katt_Observation a))) (xs @ [a])"
  using assms by (auto simp: one_source_def)

lemma observeCandidates_ok:
  assumes "observeCandidates u w ob n b cs = (n', b', st)" "rck_inv u (ko_platform ob) inp read b" "expected = read @ cs"
  shows "rck_post u (ko_platform ob) inp expected b' \<and>
    kb_localCandidatesOmitted b' = kb_localCandidatesOmitted b \<and> kb_referenceCandidatesOmitted b' = kb_referenceCandidatesOmitted b \<and>
    (case st of None \<Rightarrow> rck_inv u (ko_platform ob) inp expected b' | Some t \<Rightarrow> early_end (kb_attempts b') expected t)"
  using assms
proof (induction cs arbitrary: n b read)
  case Nil
  then show ?case using rck_inv_post [of u "ko_platform ob" inp read b "[]"] by auto
next
  case (Cons c cs)
  note inv = Cons.prems(2)
  have len: "length (kb_attempts b) < length expected"
    using inv Cons.prems(3) by (auto simp: rck_inv_def dest: list_all2_lengthD)
  show ?case
  proof (cases "terminalContext_rck (kw_ctx w) (recheckCtx w ob) n")
    case (Some t)
    then have "n' = n + 1" "b' = b" "st = Some t" using Cons.prems(1) by simp_all
    then show ?thesis using rck_inv_post [OF inv, of "c # cs"] Cons.prems(3) terminalContext_rck_end [OF Some] by simp
  next
    case live: None
    let ?x = "kw_web w n \<lparr>wreq_Scheme = kin_Scheme (kb_input b), wreq_Hostname = kin_Hostname (kb_input b),
                wreq_DialIP = sc_ip c, wreq_Path = '''', wreq_RawQuery = ''''\<rparr>"
    let ?a = "\<lparr>katt_CandidateSource = sc_source c, katt_Observation = ?x\<rparr>"
    obtain b1 err where v: "validateObservation_rck u ob ?x c b = (b1, err)" by (metis prod.collapse)
    note vc = validateObservation_rck_cases [OF v]
    show ?thesis
    proof (cases err)
      case (Some e)
      have "rck_post u (ko_platform ob) inp expected b1"
        using rck_inv_post [OF inv, of "c # cs"] vc(2) Cons.prems(3) by (simp add: rck_post_def)
      moreover have "early_end (kb_attempts b1) expected \<lparr>ter_status = RckStopped, ter_reason = RckInvalidProbeEvidence, ter_detail = e\<rparr>"
        using vc(2) vc(3) [OF Some] inv len by (simp add: early_end_def rck_inv_def)
      ultimately show ?thesis using Cons.prems(1) live v Some vc(2) by auto
    next
      case ok: None
      let ?b = "b1\<lparr>kb_attempts := kb_attempts b1 @ [?a]\<rparr>"
      have att: "att_ok u (ko_platform ob) inp ?a c" using vc(1) [OF ok] inv by (simp add: att_ok_def rck_inv_def)
      have src: "one_source (Some (env_source ?x)) (kb_attempts b1 @ [?a])"
        using one_source_snoc [of "kb_webSource b" "kb_attempts b" ?a] vc(1) [OF ok] vc(2) inv by (simp add: rck_inv_def)
      have post: "rck_post u (ko_platform ob) inp expected ?b"
      proof -
        have l: "length (kb_attempts b1) = length read" using inv vc(2) by (auto simp: rck_inv_def dest: list_all2_lengthD)
        have "list_all2 (att_ok u (ko_platform ob) inp) (kb_attempts b1 @ [?a]) (read @ [c])"
          using inv vc(2) att by (auto simp: rck_inv_def intro: list_all2_appendI)
        then show ?thesis using inv vc(2) l one_source_None [OF src] Cons.prems(3) by (simp add: rck_post_def rck_inv_def list_ex_iff)
      qed
      have post1: "rck_post u (ko_platform ob) inp expected b1"
        using rck_inv_post [OF inv, of "c # cs"] vc(2) Cons.prems(3) by (simp add: rck_post_def)
      show ?thesis
      proof (cases "terminalContext_rck (kw_ctx w) (recheckCtx w ob) (n + 1)")
        case (Some t)
        then have "b' = (if env_outcome ?x \<noteq> OutcomeSucceeded then ?b else b1)" "st = Some t"
          using Cons.prems(1) live v ok by (simp_all add: Let_def)
        then show ?thesis using post post1 vc(2) terminalContext_rck_end [OF Some] by simp
      next
        case live': None
        show ?thesis
        proof (cases "env_outcome ?x = OutcomeCancelled")
          case True
          then have "early_end (kb_attempts ?b) expected \<lparr>ter_status = RckCancelled, ter_reason = RckStopCancelled, ter_detail = ''''\<rparr>"
            by (simp add: early_end_def)
          with Cons.prems(1) live v ok live' True post vc(2) show ?thesis by (auto simp: Let_def)
        next
          case False
          have "rck_inv u (ko_platform ob) inp (read @ [c]) ?b"
            using inv vc(2) vc(1) [OF ok] att src False
            by (auto simp: rck_inv_def intro: list_all2_appendI)
          moreover have "observeCandidates u w ob (n + 2) ?b cs = (n', b', st)"
            using Cons.prems(1) live v ok live' False by (simp add: Let_def)
          ultimately show ?thesis using Cons.IH [of "n + 2" ?b "read @ [c]"] Cons.prems(3) vc(2) by simp
        qed
      qed
    qed
  qed
qed

section \<open>The validator\<close>

lemma validateAttempts_rck_exact:
  assumes "list_all2 (att_ok u (krs_Platform r) (krs_Input r)) xs cs" "one_source s xs" "\<not> list_ex cancelledAttempt (butlast xs)"
  shows "validateAttempts_rck u r s (zip xs cs) = guard (krs_Status r \<noteq> RckCancelled \<and> list_ex cancelledAttempt xs)
    ''cancelled Web attempt must terminate a cancelled recheck''"
  using assms
proof (induction xs cs arbitrary: s rule: list_all2_induct)
  case (Cons x xs c cs)
  have src: "one_source (case s of None \<Rightarrow> Some (env_source (katt_Observation x)) | Some s \<Rightarrow> Some s) xs"
    using Cons.prems(1) by (auto simp: one_source_Cons)
  have same: "(case s of None \<Rightarrow> None | Some s \<Rightarrow> guard (env_source (katt_Observation x) \<noteq> s) ''attempt changes the configured Web adapter'') = None"
    using Cons.prems(1) by (auto simp: one_source_Cons guard_def)
  have len: "zip xs cs = [] \<longleftrightarrow> xs = []" using list_all2_lengthD [OF Cons.hyps(2)] by (cases xs; cases cs) auto
  have rest: "validateAttempts_rck u r (case s of None \<Rightarrow> Some (env_source (katt_Observation x)) | Some s \<Rightarrow> Some s) (zip xs cs) =
      guard (krs_Status r \<noteq> RckCancelled \<and> list_ex cancelledAttempt xs) ''cancelled Web attempt must terminate a cancelled recheck''"
    by (rule Cons.IH [OF src]) (use Cons.prems(2) in \<open>cases xs; simp\<close>)
  show ?case
  proof (cases "cancelledAttempt x")
    case True
    then have "xs = []" using Cons.prems(2) by (cases xs) auto
    with True Cons.hyps same len show ?thesis
      by (simp add: Let_def att_ok_def firstErr.simps guard_def wrapErr_def)
  next
    case False
    with Cons.hyps(1) same rest show ?thesis
      by (simp add: Let_def att_ok_def firstErr.simps guard_def wrapErr_def)
  qed
qed (simp add: guard_def)


section \<open>The report\<close>

lemma finish_rck_sel [simp]:
  "krs_SchemaVersion (finish_rck w ob b t) = SchemaVersion_rck" "krs_Operation (finish_rck w ob b t) = Operation_rck"
  "krs_ObservedAt (finish_rck w ob b t) = UTC (kw_now w 1)" "\<not> krs_DurationMS (finish_rck w ob b t) < 0"
  "krs_Platform (finish_rck w ob b t) = ko_platform ob" "krs_Input (finish_rck w ob b t) = kb_input b"
  "krs_Status (finish_rck w ob b t) = ter_status t" "krs_StopReason (finish_rck w ob b t) = ter_reason t"
  "krs_Detail (finish_rck w ob b t) = ter_detail t"
  "krs_LocalCandidatesOmitted (finish_rck w ob b t) = kb_localCandidatesOmitted b"
  "krs_ReferenceCandidatesOmitted (finish_rck w ob b t) = kb_referenceCandidatesOmitted b"
  "krs_Attempts (finish_rck w ob b t) = Some (kb_attempts b)"
  by (simp_all add: finish_rck_def Let_def)

definition rck_env_ok :: "RckWorld \<Rightarrow> RckObserver \<Rightarrow> bool" where
  "rck_env_ok w ob \<longleftrightarrow> (\<forall>n. \<not> IsZero (kw_now w n)) \<and> plat_os (ko_platform ob) \<noteq> '''' \<and> plat_arch (ko_platform ob) \<noteq> ''''"

text \<open>What a run with an accepted request has come to.\<close>

definition rck_run :: "'a unitab_scheme \<Rightarrow> Platform \<Rightarrow> RckInput \<Rightarrow> RckBuilder \<Rightarrow> RckTerminal \<Rightarrow> bool" where
  "rck_run u platform inp b t \<longleftrightarrow> rck_post u platform inp (scheduleOf inp) b \<and>
     kb_localCandidatesOmitted b = omittedCandidates (kin_LocalCandidates inp) \<and>
     kb_referenceCandidatesOmitted b = omittedCandidates (kin_ReferenceCandidates inp) \<and>
     (early_end (kb_attempts b) (scheduleOf inp) t \<or>
      t = \<lparr>ter_status = RckCompleted, ter_reason = RckStopOther '''', ter_detail = ''''\<rparr> \<and>
      length (kb_attempts b) = length (scheduleOf inp) \<and> \<not> list_ex cancelledAttempt (kb_attempts b))"

lemma Observe_rck_run:
  assumes n: "normalizeRequest_rck u r = (inp, None)"
  shows "\<exists>b t. Observe_rck u w ob r = finish_rck w ob b t \<and> rck_run u (ko_platform ob) inp b t"
proof -
  let ?b = "\<lparr>kb_input = inp, kb_localCandidatesOmitted = omittedCandidates (kin_LocalCandidates inp),
    kb_referenceCandidatesOmitted = omittedCandidates (kin_ReferenceCandidates inp), kb_attempts = [], kb_webSource = None\<rparr>"
  have start: "rck_inv u (ko_platform ob) inp [] ?b" by (simp add: rck_inv_def one_source_def)
  note start_post = rck_inv_post [OF start, of "scheduleOf inp"]
  show ?thesis
  proof (cases "terminalContext_rck (kw_ctx w) (kw_ctx w) 0")
    case (Some t)
    then have "Observe_rck u w ob r = finish_rck w ob ?b t" using n by (simp add: Observe_rck_def)
    moreover have "rck_run u (ko_platform ob) inp ?b t"
      using start_post terminalContext_rck_end [OF Some] by (simp add: rck_run_def)
    ultimately show ?thesis by blast
  next
    case None
    obtain k b st where loop: "observeCandidates u w ob 1 ?b (scheduleOf inp) = (k, b, st)" by (metis prod_cases3)
    note post = observeCandidates_ok [OF loop start, of "scheduleOf inp"]
    show ?thesis
    proof (cases st)
      case (Some t)
      then have "Observe_rck u w ob r = finish_rck w ob b t" using n None loop by (simp add: Observe_rck_def)
      moreover have "rck_run u (ko_platform ob) inp b t" using post Some by (simp add: rck_run_def)
      ultimately show ?thesis by blast
    next
      case all: None
      then have inv: "rck_inv u (ko_platform ob) inp (scheduleOf inp) b" using post by simp
      have len: "length (kb_attempts b) = length (scheduleOf inp)" using inv by (auto simp: rck_inv_def dest: list_all2_lengthD)
      show ?thesis
      proof (cases "terminalContext_rck (kw_ctx w) (recheckCtx w ob) k")
        case (Some t)
        then have "Observe_rck u w ob r = finish_rck w ob b t" using n None loop all by (simp add: Observe_rck_def)
        moreover have "rck_run u (ko_platform ob) inp b t" using post terminalContext_rck_end [OF Some] by (simp add: rck_run_def)
        ultimately show ?thesis by blast
      next
        case fin: None
        let ?t = "\<lparr>ter_status = RckCompleted, ter_reason = RckStopOther '''', ter_detail = ''''\<rparr>"
        have "Observe_rck u w ob r = finish_rck w ob b ?t" using n None loop all fin by (simp add: Observe_rck_def)
        moreover have "rck_run u (ko_platform ob) inp b ?t" using post len inv by (simp add: rck_run_def rck_inv_def)
        ultimately show ?thesis by blast
      qed
    qed
  qed
qed

lemma zip_take: "zip xs ys = zip xs (take (length xs) ys)"
  by (induction xs ys rule: list_induct2') auto

lemma Observe_rck_exact:
  assumes env: "rck_env_ok w ob"
    and stable: "webHostnameText u (webHostnameText u (kreq_Hostname r)) = webHostnameText u (kreq_Hostname r)"
  shows "Validate_rck u (Observe_rck u w ob r) = guard (krs_Status (Observe_rck u w ob r) = RckStopped \<and>
      list_ex cancelledAttempt (sliceOf (krs_Attempts (Observe_rck u w ob r))))
    ''cancelled Web attempt must terminate a cancelled recheck''"
proof -
  obtain inp e where n: "normalizeRequest_rck u r = (inp, e)" by (metis prod.collapse)
  note again = normalizeRequest_rck_again [OF n stable]
  obtain e' where n': "normalizeRequest_rck u (recorded_rck inp) = (inp, e')" "(e' = None) = (e = None)" using again(1) by blast
  note e0 = env [unfolded rck_env_ok_def]
  show ?thesis
  proof (cases e)
    case (Some m)
    then obtain m' where "e' = Some m'" using n'(2) by auto
    with Some n n'(1) again(2) [OF Some] e0 show ?thesis
      by (simp add: Observe_rck_def Validate_rck_def recorded_rck_def Let_def firstErr.simps guard_def)
  next
    case None
    then have e': "e' = None" using n'(2) by simp
    obtain b t where run: "Observe_rck u w ob r = finish_rck w ob b t" "rck_run u (ko_platform ob) inp b t"
      using Observe_rck_run [OF n [unfolded None]] by blast
    let ?R = "finish_rck w ob b t" and ?E = "scheduleOf inp"
    have inp: "kb_input b = inp" and len: "length (kb_attempts b) \<le> length ?E"
      and rest: "kb_localCandidatesOmitted b = omittedCandidates (kin_LocalCandidates inp)"
      "kb_referenceCandidatesOmitted b = omittedCandidates (kin_ReferenceCandidates inp)"
      using run(2) by (simp_all add: rck_run_def rck_post_def)
    have loop: "validateAttempts_rck u ?R None (zip (kb_attempts b) ?E) = guard (ter_status t \<noteq> RckCancelled \<and>
        list_ex cancelledAttempt (kb_attempts b)) ''cancelled Web attempt must terminate a cancelled recheck''"
      using run(2) validateAttempts_rck_exact [of u ?R "kb_attempts b" "take (length (kb_attempts b)) ?E" None]
      by (simp add: zip_take [of "kb_attempts b" ?E] rck_run_def rck_post_def)
    consider "ter_status t = RckCancelled" "ter_reason t = RckStopCancelled"
      | "ter_status t = RckStopped" "TrimSpace (ter_detail t) \<noteq> ''''" "ter_reason t = RckTimeout"
      | "ter_status t = RckStopped" "TrimSpace (ter_detail t) \<noteq> ''''" "ter_reason t = RckInvalidProbeEvidence"
          "length (kb_attempts b) < length ?E" "\<not> list_ex cancelledAttempt (kb_attempts b)"
      | "t = \<lparr>ter_status = RckCompleted, ter_reason = RckStopOther '''', ter_detail = ''''\<rparr>"
          "length (kb_attempts b) = length ?E" "\<not> list_ex cancelledAttempt (kb_attempts b)"
      using run(2) by (auto simp: rck_run_def early_end_def)
    then show ?thesis
      using n'(1) [unfolded recorded_rck_def] e' e0 inp len rest loop
      by cases (simp_all add: run(1) Validate_rck_def validateTerminalShape_def Let_def firstErr.simps guard_def)
  qed
qed

lemma normalizeRequest_rck_unstable:
  assumes "normalizeRequest_rck u r = (i, e)"
    and "webHostnameText u (webHostnameText u (kreq_Hostname r)) \<noteq> webHostnameText u (kreq_Hostname r)"
  shows "fst (normalizeRequest_rck u (recorded_rck i)) \<noteq> i" "e \<noteq> None"
proof -
  have rec: "kin_Hostname (fst (normalizeRequest_rck u r')) = webHostnameText u (kreq_Hostname r')" for r'
    by (simp add: normalizeRequest_rck_def NormalizeWebHostname_def Let_def split: prod.split)
  have i: "kin_Hostname i = webHostnameText u (kreq_Hostname r)" using rec [of r] assms(1) by simp
  have "kreq_Hostname (recorded_rck i) = kin_Hostname i" by (simp add: recorded_rck_def)
  with rec [of "recorded_rck i"] i assms(2) show "fst (normalizeRequest_rck u (recorded_rck i)) \<noteq> i" by metis
  show "e \<noteq> None"
  proof
    assume "e = None"
    with assms(1) obtain h where h: "NormalizeWebHostname u (kreq_Hostname r) = (h, None)"
      by (auto simp: normalizeRequest_rck_def Let_def firstErr_simps split: prod.splits)
    from NormalizeWebHostname_fixed [OF h] h assms(2) show False by (simp add: NormalizeWebHostname_def Let_def)
  qed
qed

lemma Validate_rck_input: "Validate_rck u R = None \<Longrightarrow> fst (normalizeRequest_rck u (recorded_rck (krs_Input R))) = krs_Input R"
  by (auto simp: Validate_rck_def recorded_rck_def Let_def firstErr_simps split: prod.splits option.splits)

lemma Observe_rck_decided:
  assumes env: "rck_env_ok w ob"
  shows "Validate_rck u (Observe_rck u w ob r) = None \<longleftrightarrow>
    webHostnameText u (webHostnameText u (kreq_Hostname r)) = webHostnameText u (kreq_Hostname r) \<and>
    \<not> (krs_Status (Observe_rck u w ob r) = RckStopped \<and> list_ex cancelledAttempt (sliceOf (krs_Attempts (Observe_rck u w ob r))))"
proof (cases "webHostnameText u (webHostnameText u (kreq_Hostname r)) = webHostnameText u (kreq_Hostname r)")
  case True
  with Observe_rck_exact [OF env True] show ?thesis by simp
next
  case False
  obtain i e where n: "normalizeRequest_rck u r = (i, e)" by (metis prod.collapse)
  note u = normalizeRequest_rck_unstable [OF n False]
  have "krs_Input (Observe_rck u w ob r) = i" using n u(2) by (auto simp: Observe_rck_def Let_def)
  with u(1) Validate_rck_input False show ?thesis by metis
qed

end
