(* ===== verification/WebPath.thy ===== *)
theory WebPath
  imports WebObservation SystemResolver
begin

text \<open>
  Package \<open>internal/webpath\<close>, \<open>types.go\<close>, \<open>redirect.go\<close>, \<open>observer.go\<close>: the public website path of
  one host name. The resolver and the Web observer are parameters of a run. The steps of a run are
  numbered: step n is one call of either, and the contexts are read in a block of five readings
  after it.
\<close>

section \<open>Resolving references\<close>

text \<open>
  \<open>url.ResolveReference\<close>. The path so far is kept without its leading slash; the flag says whether
  the next element needs no slash in front.
\<close>

fun resolveElements :: "bool \<Rightarrow> string \<Rightarrow> string list \<Rightarrow> string" where
  "resolveElements first dst [] = dst"
| "resolveElements first dst (e # es) =
     (if e = ''.'' then resolveElements False dst es
      else if e = ''..'' then (case cutLast (CHR ''/'') dst of
          None \<Rightarrow> resolveElements True '''' es
        | Some (front, dropped) \<Rightarrow> resolveElements first front es)
      else resolveElements False (dst @ (if first then '''' else ''/'') @ e) es)"

definition resolvePath :: "string \<Rightarrow> string \<Rightarrow> string" where
  "resolvePath base ref =
     (let full = (if ref = '''' then base
            else if hd ref \<noteq> CHR ''/'' then (case cutLast (CHR ''/'') base of
                None \<Rightarrow> ref
              | Some (front, dropped) \<Rightarrow> front @ ''/'' @ ref)
            else ref) in
      if full = '''' then ''''
      else
       (let elements = splitOn (CHR ''/'') full;
            dst = ''/'' @ resolveElements True '''' elements;
            r = (if last elements = ''.'' \<or> last elements = ''..'' then dst @ ''/'' else dst) in
        if 1 < length r \<and> r ! 1 = CHR ''/'' then tl r else r))"

text \<open>An error of \<open>setPath\<close> is ignored; it leaves the URL unchanged.\<close>

definition withPath :: "url \<Rightarrow> string \<Rightarrow> url" where
  "withPath u p = (case setPath u p of None \<Rightarrow> u | Some v \<Rightarrow> v)"

definition ResolveReference :: "url \<Rightarrow> url \<Rightarrow> url" where
  "ResolveReference u ref =
     (let r = (if u_Scheme ref = '''' then ref\<lparr>u_Scheme := u_Scheme u\<rparr> else ref) in
      if u_Scheme ref \<noteq> '''' \<or> u_Host ref \<noteq> '''' \<or> u_User ref \<noteq> None
      then withPath r (resolvePath (EscapedPath ref) '''')
      else if u_Opaque ref \<noteq> '''' then r\<lparr>u_User := None, u_Host := ''''\<rparr>
      else
       (let r = (if u_Path ref = '''' \<and> \<not> u_ForceQuery ref \<and> u_RawQuery ref = ''''
              then (if u_Fragment ref = ''''
                    then r\<lparr>u_RawQuery := u_RawQuery u, u_Fragment := u_Fragment u, u_RawFragment := u_RawFragment u\<rparr>
                    else r\<lparr>u_RawQuery := u_RawQuery u\<rparr>)
              else r) in
        if u_Path ref = '''' \<and> u_Opaque u \<noteq> ''''
        then r\<lparr>u_Opaque := u_Opaque u, u_User := None, u_Host := ''''\<rparr>
        else withPath (r\<lparr>u_Host := u_Host u, u_User := u_User u\<rparr>) (resolvePath (EscapedPath u) (EscapedPath ref))))"

section \<open>Types\<close>

definition SchemaVersion_wpath :: int where "SchemaVersion_wpath = 1"
definition Operation_wpath :: string where "Operation_wpath = ''web_path''"
definition redirectLimit :: int where "redirectLimit = 3"
definition candidateLimitPerFamily :: int where "candidateLimitPerFamily = 2"

datatype WStatus = WCompleted | WStopped | WCancelled | WStatusOther string

datatype WStop =
    WStopFinalResponse
  | WStopInvalidInput
  | WStopResolutionFailed
  | WStopNoPublicCandidates
  | WStopAllCandidatesFailed
  | WStopRedirectLocationUnavailable
  | WStopRedirectTargetInvalid
  | WStopRedirectTargetUnsafe
  | WStopRedirectLoop
  | WStopRedirectLimit
  | WStopPathTimeout
  | WStopCancelled
  | WStopInvalidProbeEvidence
  | WStopOther string

record WPathConfig =
  xcfg_Timeout :: int

record WPathRequest =
  xreq_Hostname :: string

record WPathInput =
  xin_Hostname :: string
  xin_InitialURL :: string
  xin_Method :: string
  xin_RedirectLimit :: int
  xin_CandidateLimitPerFamily :: int

record Hop =
  hop_URL :: string
  hop_Resolution :: SysResult
  hop_Attempts :: "WebResult list option"

record WPathResult =
  wp_SchemaVersion :: int
  wp_Operation :: string
  wp_ObservedAt :: gotime
  wp_DurationMS :: int
  wp_Platform :: Platform
  wp_Input :: WPathInput
  wp_Status :: WStatus
  wp_StopReason :: WStop
  wp_Detail :: string
  wp_RedirectsFollowed :: int
  wp_HTTPFallbackUsed :: bool
  wp_Hops :: "Hop list option"

section \<open>Redirects\<close>

definition isRedirectStatus :: "int \<Rightarrow> bool" where
  "isRedirectStatus status = (status \<in> {301, 302, 303, 307, 308})"

text \<open>The checks of a resolved reference, and the canonical URL they make of it.\<close>

definition targetOf :: "'a unitab_scheme \<Rightarrow> url \<Rightarrow> (WStop \<times> error) + url" where
  "targetOf u resolved = (let next0 = resolved\<lparr>u_Fragment := ''''\<rparr> in
     if u_Opaque next0 \<noteq> '''' \<or> u_User next0 \<noteq> None
     then Inl (WStopRedirectTargetUnsafe, ''redirect target must not use opaque URLs or credentials'')
     else
      (let scheme = ToLower u (u_Scheme next0) in
       if scheme \<noteq> SchemeHTTP \<and> scheme \<noteq> SchemeHTTPS
       then Inl (WStopRedirectTargetUnsafe, ''redirect scheme is not HTTP(S)'')
       else
        (let (hostname, hostErr) = NormalizeWebHostname u (Hostname next0); port = urlPort next0 in
         case hostErr of
           Some e \<Rightarrow> Inl (WStopRedirectTargetInvalid, ''invalid redirect hostname: '' @ e)
         | None \<Rightarrow>
             if port \<noteq> '''' \<and> \<not> (scheme = SchemeHTTP \<and> port = ''80'' \<or> scheme = SchemeHTTPS \<and> port = ''443'')
             then Inl (WStopRedirectTargetUnsafe, ''redirect target uses unsupported port'')
             else
              (let next1 = next0\<lparr>u_Scheme := scheme, u_Host := hostname\<rparr>;
                   next2 = (if u_RawQuery next1 = '''' then next1\<lparr>u_ForceQuery := False\<rparr> else next1);
                   next3 = (if EscapedPath next2 = '''' then next2\<lparr>u_Path := ''/'', u_RawPath := ''''\<rparr> else next2);
                   (requestTarget, err) = NormalizeWebRequestTarget (EscapedPath next3) (u_RawQuery next3) in
               case err of
                 Some e \<Rightarrow> Inl (WStopRedirectTargetInvalid, ''invalid redirect request target: '' @ e)
               | None \<Rightarrow> Inr (next3\<lparr>u_Path := wt_Path requestTarget, u_RawPath := wt_RawPath requestTarget,
                   u_RawQuery := wt_RawQuery requestTarget\<rparr>)))))"

definition redirectTarget :: "'a unitab_scheme \<Rightarrow> url \<Rightarrow> HTTPObservation \<Rightarrow> (WStop \<times> error) + url" where
  "redirectTarget u current response =
     (if whttp_LocationOmitted response \<or> whttp_Location response = ''''
      then Inl (WStopRedirectLocationUnavailable, ''redirect response has no usable Location'')
      else case urlParse (whttp_Location response) of
        None \<Rightarrow> Inl (WStopRedirectTargetInvalid, ''parse redirect Location'')
      | Some reference \<Rightarrow> targetOf u (ResolveReference current reference))"

section \<open>Construction\<close>

definition defaultTimeout_wpath :: int where "defaultTimeout_wpath = 15 * Second"
definition maximumTimeout_wpath :: int where "maximumTimeout_wpath = 45 * Second"
definition perProbeTimeout :: int where "perProbeTimeout = 5 * Second"

record WPathObserver =
  xo_timeout :: int
  xo_platform :: Platform

definition normalizeTimeout_wpath :: "int \<Rightarrow> error + int" where
  "normalizeTimeout_wpath timeout =
     (if timeout = 0 then Inr defaultTimeout_wpath
      else if timeout < 0 \<or> maximumTimeout_wpath < timeout then Inl ''timeout must be between zero and 45s''
      else Inr timeout)"

definition newObserver_wpath :: "WPathConfig \<Rightarrow> Platform \<Rightarrow> Platform \<Rightarrow> bool \<Rightarrow> bool \<Rightarrow> error + WPathObserver" where
  "newObserver_wpath config runtimePlatform depPlatform hasResolver hasWeb =
     (case normalizeTimeout_wpath (xcfg_Timeout config) of
        Inl e \<Rightarrow> Inl e
      | Inr timeout \<Rightarrow>
          (let platform = (if plat_os depPlatform = '''' \<and> plat_arch depPlatform = '''' then runtimePlatform else depPlatform) in
           if plat_os platform = '''' \<or> plat_arch platform = ''''
             then Inl ''platform dependency must include OS and architecture''
           else if \<not> hasResolver then Inl ''system resolver dependency must not be nil''
           else if \<not> hasWeb then Inl ''Web observation dependency must not be nil''
           else Inr \<lparr>xo_timeout = timeout, xo_platform = platform\<rparr>))"

definition New_wpath :: "WPathConfig \<Rightarrow> Platform \<Rightarrow> error + (WPathObserver \<times> WebObserver)" where
  "New_wpath config runtimePlatform =
     (case normalizeTimeout_wpath (xcfg_Timeout config) of
        Inl e \<Rightarrow> Inl e
      | Inr timeout \<Rightarrow>
          (case newObserver_web \<lparr>wcfg_Timeout = min timeout perProbeTimeout\<rparr> of
             Inl e \<Rightarrow> Inl (''create Web observation adapter: '' @ e)
           | Inr web \<Rightarrow>
               (case newObserver_wpath config runtimePlatform \<lparr>plat_os = '''', plat_arch = ''''\<rparr> True True of
                  Inl e \<Rightarrow> Inl e
                | Inr ob \<Rightarrow> Inr (ob, web))))"

definition normalizeInput :: "'a unitab_scheme \<Rightarrow> WPathRequest \<Rightarrow> WPathInput \<times> url option \<times> error option" where
  "normalizeInput u request =
     (let (hostname, err) = NormalizeWebHostname u (xreq_Hostname request);
          inp = \<lparr>xin_Hostname = hostname, xin_InitialURL = ''https://'' @ hostname @ ''/'', xin_Method = ''GET'',
            xin_RedirectLimit = redirectLimit, xin_CandidateLimitPerFamily = candidateLimitPerFamily\<rparr> in
      case err of
        Some e \<Rightarrow> (inp, None, Some e)
      | None \<Rightarrow> (inp, Some (emptyURL\<lparr>u_Scheme := SchemeHTTPS, u_Host := hostname, u_Path := ''/''\<rparr>), None))"

section \<open>The state of a run\<close>

record WPathWorld =
  xw_now :: "nat \<Rightarrow> gotime"
  xw_ctx :: ctx
  xw_fired :: "int \<Rightarrow> nat \<Rightarrow> bool"
  xw_resolve :: "nat \<Rightarrow> string \<Rightarrow> SysResult"
  xw_web :: "nat \<Rightarrow> WebObsRequest \<Rightarrow> WebResult"

record WPathBuilder =
  xb_input :: WPathInput
  xb_hops :: "Hop list"
  xb_redirectsFollowed :: int
  xb_fallbackUsed :: bool

text \<open>How a hop or a chain ends.\<close>

record WEnd =
  we_status :: WStatus
  we_reason :: WStop
  we_detail :: string

abbreviation wstopped :: "WStop \<Rightarrow> string \<Rightarrow> WEnd" where
  "wstopped reason detail \<equiv> \<lparr>we_status = WStopped, we_reason = reason, we_detail = detail\<rparr>"

record chainResult =
  cr_end :: WEnd
  cr_hadResponse :: bool

text \<open>The contexts of a path are the caller's one and the one with the timeout of the path.\<close>

definition pathCtx :: "WPathWorld \<Rightarrow> WPathObserver \<Rightarrow> ctx" where
  "pathCtx w ob = withTimeout (xw_ctx w) (xw_fired w (xo_timeout ob))"

definition terminalContext_wpath :: "ctx \<Rightarrow> ctx \<Rightarrow> nat \<Rightarrow> WEnd option" where
  "terminalContext_wpath parent attempt n =
     (let k = 5 * n in
      if errorsIs (ctxErrAt parent k) SCanceled
      then map_option (\<lambda>e. \<lparr>we_status = WCancelled, we_reason = WStopCancelled, we_detail = err_text e\<rparr>) (ctxErrAt parent (k + 1))
      else if ctxErrAt parent (k + 1) \<noteq> None \<or> errorsIs (ctxErrAt attempt (k + 2)) SDeadlineExceeded
      then map_option (\<lambda>e. wstopped WStopPathTimeout (err_text e))
        (case ctxErrAt parent (k + 3) of None \<Rightarrow> ctxErrAt attempt (k + 4) | Some e \<Rightarrow> Some e)
      else if errorsIs (ctxErrAt attempt (k + 3)) SCanceled
      then map_option (\<lambda>e. \<lparr>we_status = WCancelled, we_reason = WStopCancelled, we_detail = err_text e\<rparr>) (ctxErrAt attempt (k + 4))
      else None)"

abbreviation terminalNow :: "WPathWorld \<Rightarrow> WPathObserver \<Rightarrow> nat \<Rightarrow> WEnd option" where
  "terminalNow w ob n \<equiv> terminalContext_wpath (xw_ctx w) (pathCtx w ob) n"

section \<open>The candidates of a resolution\<close>

fun selectLoop :: "(Family_sys \<Rightarrow> int) \<Rightarrow> SysAddress list \<Rightarrow> string list" where
  "selectLoop counts [] = []"
| "selectLoop counts (address # addresses) =
     (if candidateLimitPerFamily \<le> counts (adr_Family address) then selectLoop counts addresses
      else
       (let (text, parsed, err) = NormalizePublicIP (adr_IP address);
            family = (if Is4 parsed then FamilyIPv4_sys else FamilyIPv6_sys) in
        if err \<noteq> None \<or> text \<noteq> adr_IP address then selectLoop counts addresses
        else if family \<noteq> adr_Family address then selectLoop counts addresses
        else text # selectLoop (counts(family := counts family + 1)) addresses))"

definition selectPublicCandidates :: "SysAddress list \<Rightarrow> string list" where
  "selectPublicCandidates addresses = selectLoop (\<lambda>f. 0) addresses"

section \<open>One hop\<close>

definition webRequestFor :: "url \<Rightarrow> string \<Rightarrow> WebObsRequest" where
  "webRequestFor target candidate = \<lparr>wreq_Scheme = u_Scheme target, wreq_Hostname = Hostname target, wreq_DialIP = candidate,
     wreq_Path = EscapedPath target, wreq_RawQuery = u_RawQuery target\<rparr>"

definition matchesTarget :: "Platform \<Rightarrow> url \<Rightarrow> string \<Rightarrow> WebResult \<Rightarrow> bool" where
  "matchesTarget platform target candidate observation \<longleftrightarrow> env_platform observation = platform \<and>
     win_Scheme (env_input observation) = u_Scheme target \<and>
     win_Hostname (env_input observation) = Hostname target \<and>
     win_DialIP (env_input observation) = candidate \<and>
     win_Path (env_input observation) = EscapedPath target \<and>
     win_RawQuery (env_input observation) = u_RawQuery target"

text \<open>The loop over the candidates: the next step, the hop, and the end of the run or the response.\<close>

fun observeAttempts :: "'a unitab_scheme \<Rightarrow> WPathWorld \<Rightarrow> WPathObserver \<Rightarrow> url \<Rightarrow> nat \<Rightarrow> Hop \<Rightarrow> string list \<Rightarrow>
    nat \<times> Hop \<times> (WEnd + WebResult)" where
  "observeAttempts u w ob target n hop [] = (n, hop, Inl (wstopped WStopAllCandidatesFailed
     ''all bounded public candidates failed before valid HTTP response headers''))"
| "observeAttempts u w ob target n hop (candidate # candidates) =
     (let observation = xw_web w n (webRequestFor target candidate) in
      case Validate_web u observation of
        Some e \<Rightarrow> (n + 1, hop, Inl (wstopped WStopInvalidProbeEvidence (''invalid Web Observation: '' @ e)))
      | None \<Rightarrow>
          if \<not> matchesTarget (xo_platform ob) target candidate observation
          then (n + 1, hop, Inl (wstopped WStopInvalidProbeEvidence
            ''Web Observation does not match the requested platform and target''))
          else
           (let hop = hop\<lparr>hop_Attempts := Some (sliceOf (hop_Attempts hop) @ [observation])\<rparr> in
            case terminalNow w ob n of
              Some e \<Rightarrow> (n + 1, hop, Inl e)
            | None \<Rightarrow>
                if env_outcome observation = OutcomeCancelled
                then (n + 1, hop, Inl \<lparr>we_status = WCancelled, we_reason = WStopCancelled, we_detail = ''''\<rparr>)
                else if env_outcome observation = OutcomeSucceeded then (n + 1, hop, Inr observation)
                else observeAttempts u w ob target (n + 1) hop candidates))"

text \<open>A resolution that did not succeed has a failure: it was validated.\<close>

definition observeHop :: "'a unitab_scheme \<Rightarrow> WPathWorld \<Rightarrow> WPathObserver \<Rightarrow> url \<Rightarrow> nat \<Rightarrow>
    nat \<times> Hop option \<times> (WEnd + WebResult)" where
  "observeHop u w ob target n = (case terminalNow w ob n of
      Some e \<Rightarrow> (n + 1, None, Inl e)
    | None \<Rightarrow>
       (let resolution = xw_resolve w (n + 1) (Hostname target) in
        case Validate_sys resolution of
          Some e \<Rightarrow> (n + 2, None, Inl (wstopped WStopInvalidProbeEvidence (''invalid System Resolution: '' @ e)))
        | None \<Rightarrow>
            if env_platform resolution \<noteq> xo_platform ob \<or> yin_Hostname (env_input resolution) \<noteq> Hostname target
            then (n + 2, None, Inl (wstopped WStopInvalidProbeEvidence
              ''System Resolution does not match the requested platform and hostname''))
            else
             (let hop = \<lparr>hop_URL = urlString target, hop_Resolution = resolution, hop_Attempts = Some []\<rparr> in
              case terminalNow w ob (n + 1) of
                Some e \<Rightarrow> (n + 2, Some hop, Inl e)
              | None \<Rightarrow>
                  if env_outcome resolution = OutcomeCancelled
                  then (n + 2, Some hop, Inl \<lparr>we_status = WCancelled, we_reason = WStopCancelled, we_detail = ''''\<rparr>)
                  else if env_outcome resolution \<noteq> OutcomeSucceeded
                  then (n + 2, Some hop, Inl (wstopped WStopResolutionFailed (case env_failure resolution of
                    None \<Rightarrow> ''panic: nil failure'' | Some f \<Rightarrow> fail_detail f)))
                  else
                   (let candidates = (case env_evidence resolution of None \<Rightarrow> [] | Some e \<Rightarrow> selectPublicCandidates (yev_Addresses e)) in
                    if candidates = []
                    then (n + 2, Some hop, Inl (wstopped WStopNoPublicCandidates
                      ''system resolution returned no allowed public Web address''))
                    else (case observeAttempts u w ob target (n + 2) hop candidates of
                      (n', hop', r) \<Rightarrow> (n', Some hop', r))))))"


section \<open>A chain of redirects\<close>

text \<open>
  The loop of a chain. An observation that succeeded has evidence: it was validated, and a response
  comes with its hop; the branches for the missing ones stand for a nil dereference. The measure
  counts the redirects still allowed, and the first hop.
\<close>

function observeChain :: "'a unitab_scheme \<Rightarrow> WPathWorld \<Rightarrow> WPathObserver \<Rightarrow> nat \<Rightarrow> url \<Rightarrow> string set \<Rightarrow>
    bool \<Rightarrow> bool \<Rightarrow> WPathBuilder \<Rightarrow> nat \<times> WPathBuilder \<times> chainResult" where
  "observeChain u w ob n current seen hadResponse pendingRedirect builder0 =
     (let (n', hop, r) = observeHop u w ob current n;
          builder = (case hop of
              None \<Rightarrow> builder0
            | Some h \<Rightarrow> builder0\<lparr>xb_redirectsFollowed := xb_redirectsFollowed builder0 + (if pendingRedirect then 1 else 0),
                xb_hops := xb_hops builder0 @ [h]\<rparr>) in
      case r of
        Inl e \<Rightarrow> (n', builder, \<lparr>cr_end = e, cr_hadResponse = hadResponse\<rparr>)
      | Inr observed \<Rightarrow> (case env_evidence observed of
          None \<Rightarrow> (n', builder, \<lparr>cr_end = wstopped WStopInvalidProbeEvidence ''panic: nil evidence'', cr_hadResponse = True\<rparr>)
        | Some evidence \<Rightarrow>
            if \<not> isRedirectStatus (whttp_StatusCode (wev_HTTP evidence))
            then (n', builder, \<lparr>cr_end = \<lparr>we_status = WCompleted, we_reason = WStopFinalResponse, we_detail = ''''\<rparr>,
              cr_hadResponse = True\<rparr>)
            else if redirectLimit \<le> xb_redirectsFollowed builder
            then (n', builder, \<lparr>cr_end = wstopped WStopRedirectLimit ''redirect limit 3 reached'', cr_hadResponse = True\<rparr>)
            else (case redirectTarget u current (wev_HTTP evidence) of
                Inl (reason, e) \<Rightarrow> (n', builder, \<lparr>cr_end = wstopped reason e, cr_hadResponse = True\<rparr>)
              | Inr target \<Rightarrow>
                  if urlString target \<in> seen
                  then (n', builder, \<lparr>cr_end = wstopped WStopRedirectLoop (''redirect loop returns to '' @ urlString target),
                    cr_hadResponse = True\<rparr>)
                  else if hop = None then (n', builder, \<lparr>cr_end = wstopped WStopInvalidProbeEvidence ''panic: nil hop'', cr_hadResponse = True\<rparr>)
                  else observeChain u w ob n' target (insert (urlString target) seen) True True builder)))"
  by pat_completeness auto

termination
  by (relation "measure (\<lambda>(u, w, ob, n, current, seen, had, pending, b).
      nat (redirectLimit - xb_redirectsFollowed b) + (if pending then 0 else 1))")
    (auto split: option.splits)

declare observeChain.simps [simp del]

section \<open>Observe\<close>

definition finish_wpath :: "WPathWorld \<Rightarrow> WPathObserver \<Rightarrow> WPathBuilder \<Rightarrow> WEnd \<Rightarrow> WPathResult" where
  "finish_wpath w ob builder e =
     (let startedAt = xw_now w 0; finishedAt = xw_now w 1; duration = Milliseconds (Sub finishedAt startedAt) in
      \<lparr>wp_SchemaVersion = SchemaVersion_wpath, wp_Operation = Operation_wpath, wp_ObservedAt = UTC finishedAt,
       wp_DurationMS = (if duration < 0 then 0 else duration), wp_Platform = xo_platform ob,
       wp_Input = xb_input builder, wp_Status = we_status e, wp_StopReason = we_reason e, wp_Detail = we_detail e,
       wp_RedirectsFollowed = xb_redirectsFollowed builder, wp_HTTPFallbackUsed = xb_fallbackUsed builder,
       wp_Hops = Some (xb_hops builder)\<rparr>)"

text \<open>The chain over HTTPS and, if no candidate answered and the path has time left, over HTTP.\<close>

definition observeChains :: "'a unitab_scheme \<Rightarrow> WPathWorld \<Rightarrow> WPathObserver \<Rightarrow> url \<Rightarrow> WPathBuilder \<Rightarrow>
    nat \<times> WPathBuilder \<times> WEnd" where
  "observeChains u w ob initial builder =
     (let (n, builder, chain) = observeChain u w ob 1 initial {urlString initial} False False builder in
      if we_status (cr_end chain) = WStopped \<and> we_reason (cr_end chain) = WStopAllCandidatesFailed \<and>
         \<not> cr_hadResponse chain \<and> ctxErrAt (pathCtx w ob) (5 * n) = None
      then
       (let fallbackURL = initial\<lparr>u_Scheme := SchemeHTTP\<rparr>;
            (n, builder, chain) = observeChain u w ob (n + 1) fallbackURL {urlString fallbackURL} False False
              (builder\<lparr>xb_fallbackUsed := True\<rparr>) in
        (n, builder, cr_end chain))
      else (n + 1, builder, cr_end chain))"

definition Observe_wpath :: "'a unitab_scheme \<Rightarrow> WPathWorld \<Rightarrow> WPathObserver \<Rightarrow> WPathRequest \<Rightarrow> WPathResult" where
  "Observe_wpath u w ob request =
     (let (inp, initialURL, err) = normalizeInput u request;
          builder = \<lparr>xb_input = inp, xb_hops = [], xb_redirectsFollowed = 0, xb_fallbackUsed = False\<rparr> in
      case err of
        Some e \<Rightarrow> finish_wpath w ob builder (wstopped WStopInvalidInput e)
      | None \<Rightarrow> (case terminalContext_wpath (xw_ctx w) (xw_ctx w) 0 of
          Some e \<Rightarrow> finish_wpath w ob builder e
        | None \<Rightarrow>
           (let (n, builder, e) = observeChains u w ob (case initialURL of None \<Rightarrow> emptyURL | Some v \<Rightarrow> v) builder in
            finish_wpath w ob builder (case terminalNow w ob n of Some e' \<Rightarrow> e' | None \<Rightarrow> e))))"

end
