(* ===== verification/WebPathValidate.thy ===== *)
theory WebPathValidate
  imports WebPath
begin

text \<open>Package \<open>internal/webpath\<close>, \<open>validate.go\<close>. Indices and values are left out of the error texts.\<close>

section \<open>Status and reason\<close>

definition validStoppedReason :: "WStop \<Rightarrow> bool" where
  "validStoppedReason reason = (reason \<in> {WStopInvalidInput, WStopResolutionFailed, WStopNoPublicCandidates,
     WStopAllCandidatesFailed, WStopRedirectLocationUnavailable, WStopRedirectTargetInvalid,
     WStopRedirectTargetUnsafe, WStopRedirectLoop, WStopRedirectLimit, WStopPathTimeout, WStopInvalidProbeEvidence})"

fun validateTerminalPair :: "WStatus \<Rightarrow> WStop \<Rightarrow> error option" where
  "validateTerminalPair WCompleted reason = guard (reason \<noteq> WStopFinalResponse) ''completed status requires final_response''"
| "validateTerminalPair WCancelled reason = guard (reason \<noteq> WStopCancelled) ''cancelled status requires cancelled reason''"
| "validateTerminalPair WStopped reason =
     guard (reason = WStopOther '''' \<or> reason = WStopFinalResponse \<or> reason = WStopCancelled \<or> \<not> validStoppedReason reason)
       ''stopped status has unsupported reason''"
| "validateTerminalPair (WStatusOther s) reason = Some ''unsupported status''"

section \<open>One hop\<close>

definition addressSet :: "SysResult \<Rightarrow> Addr set" where
  "addressSet resolution = (if env_outcome resolution \<noteq> OutcomeSucceeded then {}
     else case env_evidence resolution of
       None \<Rightarrow> {}
     | Some e \<Rightarrow> set (List.map_filter (\<lambda>a. map_option Unmap (ParseAddr (adr_IP a))) (yev_Addresses e)))"

definition candidatesOf :: "SysResult \<Rightarrow> string list" where
  "candidatesOf resolution = (case env_evidence resolution of
      None \<Rightarrow> [] | Some e \<Rightarrow> selectPublicCandidates (yev_Addresses e))"

text \<open>
  The loop over the attempts: the candidates, the addresses of the resolution, the index, the
  attempts of each family, the addresses tried so far and the successes so far.
\<close>

fun validateHopAttempts :: "'a unitab_scheme \<Rightarrow> Platform \<Rightarrow> url \<Rightarrow> string \<Rightarrow> string list \<Rightarrow> Addr set \<Rightarrow> nat \<Rightarrow>
    (Family_web \<Rightarrow> int) \<Rightarrow> Addr set \<Rightarrow> nat \<Rightarrow> WebResult list \<Rightarrow> error option" where
  "validateHopAttempts u platform parsed hostname selected resolved i counts attempted successes [] =
     guard (1 < successes) ''hop must not include more than one successful attempt''"
| "validateHopAttempts u platform parsed hostname selected resolved i counts attempted successes (attempt # attempts) =
     (let inp = env_input attempt; counts' = counts(win_Family inp := counts (win_Family inp) + 1);
          successes' = (if env_outcome attempt = OutcomeSucceeded then successes + 1 else successes) in
      case firstErr [
        wrapErr ''attempt: '' (Validate_web u attempt),
        guard (env_platform attempt \<noteq> platform) ''attempt platform does not match path platform'',
        guard (win_Scheme inp \<noteq> u_Scheme parsed \<or> win_Hostname inp \<noteq> hostname \<or> win_Path inp \<noteq> EscapedPath parsed \<or>
            win_RawQuery inp \<noteq> u_RawQuery parsed) ''attempt request does not match hop URL''] of
        Some e \<Rightarrow> Some e
      | None \<Rightarrow> (case ParseAddr (win_DialIP inp) of
          None \<Rightarrow> Some ''attempt dial IP is invalid''
        | Some ip \<Rightarrow>
           (let address = Unmap ip in
            case firstErr [
              guard (length selected \<le> i \<or> win_DialIP inp \<noteq> selected ! i) ''attempt does not follow bounded resolver order'',
              guard (address \<notin> resolved) ''attempt dial IP was not returned by this resolution'',
              (let (text, ip', err) = NormalizePublicIP (AddrString address) in
                guard (err \<noteq> None) ''attempt dial IP is not an allowed public address''),
              guard (address \<in> attempted) ''attempt repeats dial IP'',
              guard (candidateLimitPerFamily < counts' (win_Family inp)) ''attempts exceed per-family candidate limit'',
              guard (env_outcome attempt = OutcomeSucceeded \<and> attempts \<noteq> []) ''successful attempt must be terminal for its hop'',
              guard (env_outcome attempt = OutcomeCancelled \<and> attempts \<noteq> []) ''cancelled attempt must be terminal for its hop''] of
              Some e \<Rightarrow> Some e
            | None \<Rightarrow> validateHopAttempts u platform parsed hostname selected resolved (i + 1) counts'
                (insert address attempted) successes' attempts)))"

definition validateHop :: "'a unitab_scheme \<Rightarrow> Platform \<Rightarrow> Hop \<Rightarrow> error + url" where
  "validateHop u platform hop = (case urlParse (hop_URL hop) of
      None \<Rightarrow> Inl ''parse URL''
    | Some parsed \<Rightarrow>
       (let (hostname, hostErr) = NormalizeWebHostname u (Hostname parsed); resolution = hop_Resolution hop;
            selected = (if env_outcome resolution = OutcomeSucceeded then candidatesOf resolution else []) in
        case firstErr [
          guard (urlString parsed \<noteq> hop_URL hop \<or> u_User parsed \<noteq> None \<or> u_Fragment parsed \<noteq> '''' \<or> u_Opaque parsed \<noteq> '''')
            ''URL must be canonical HTTP(S) without credentials or fragment'',
          guard (u_Scheme parsed \<noteq> SchemeHTTP \<and> u_Scheme parsed \<noteq> SchemeHTTPS) ''unsupported scheme'',
          guard (urlPort parsed \<noteq> '''') ''canonical hop URL must not include an explicit default port'',
          guard (hostErr \<noteq> None \<or> hostname \<noteq> Hostname parsed) ''URL hostname is not normalized'',
          guard (EscapedPath parsed = '''') ''URL must include an explicit path'',
          wrapErr ''resolution: '' (Validate_sys resolution),
          guard (env_platform resolution \<noteq> platform) ''resolution platform does not match path platform'',
          guard (yin_Hostname (env_input resolution) \<noteq> hostname) ''resolution hostname does not match URL hostname'',
          guard (hop_Attempts hop = None) ''attempts must be an explicit array'',
          guard (env_outcome resolution \<noteq> OutcomeSucceeded \<and> sliceOf (hop_Attempts hop) \<noteq> [])
            ''failed resolution must not have Web attempts'',
          validateHopAttempts u platform parsed hostname selected (addressSet resolution) 0 (\<lambda>f. 0) {} 0
            (sliceOf (hop_Attempts hop))] of
          Some e \<Rightarrow> Inl e
        | None \<Rightarrow> Inr parsed))"

definition successfulAttempt :: "Hop \<Rightarrow> WebResult option" where
  "successfulAttempt hop = (let attempts = sliceOf (hop_Attempts hop) in
     if attempts = [] then None
     else if env_outcome (last attempts) \<noteq> OutcomeSucceeded then None
     else Some (last attempts))"

definition exhaustedPublicCandidates :: "Hop \<Rightarrow> bool" where
  "exhaustedPublicCandidates hop =
     (if env_outcome (hop_Resolution hop) \<noteq> OutcomeSucceeded \<or> successfulAttempt hop \<noteq> None then False
      else
       (let candidates = candidatesOf (hop_Resolution hop); attempts = sliceOf (hop_Attempts hop) in
        if candidates = [] \<or> length attempts \<noteq> length candidates then False
        else list_all (\<lambda>a. env_outcome a = OutcomeFailed) attempts))"

section \<open>The sequence of hops\<close>

fun validateHops :: "'a unitab_scheme \<Rightarrow> Platform \<Rightarrow> Hop list \<Rightarrow> error + url list" where
  "validateHops u platform [] = Inr []"
| "validateHops u platform (hop # hops) = (case validateHop u platform hop of
      Inl e \<Rightarrow> Inl (''invalid hop: '' @ e)
    | Inr parsed \<Rightarrow> (case validateHops u platform hops of
        Inl e \<Rightarrow> Inl e
      | Inr urls \<Rightarrow> Inr (parsed # urls)))"

text \<open>A successful attempt was validated, so its evidence is there.\<close>

definition httpOf :: "WebResult \<Rightarrow> HTTPObservation" where
  "httpOf result = wev_HTTP (the (env_evidence result))"

text \<open>The loop over the transitions between hops: it counts the redirects. The flag marks the fallback.\<close>

fun validateTransitions :: "'a unitab_scheme \<Rightarrow> string \<Rightarrow> bool \<Rightarrow> int \<Rightarrow> (Hop \<times> url) list \<Rightarrow> error + int" where
  "validateTransitions u fallbackURL fallback computed (previous # current # hops) =
     (if fallback then
        (if hop_URL (fst current) \<noteq> fallbackURL \<or> \<not> exhaustedPublicCandidates (fst previous)
         then Inl ''HTTP fallback must follow a failed initial HTTPS hop''
         else validateTransitions u fallbackURL False computed (current # hops))
      else (case successfulAttempt (fst previous) of
          None \<Rightarrow> Inl ''hop is not reached from a successful redirect''
        | Some success \<Rightarrow>
            if \<not> isRedirectStatus (whttp_StatusCode (httpOf success)) then Inl ''hop is not reached from a successful redirect''
            else (case redirectTarget u (snd previous) (httpOf success) of
                Inl (reason, e) \<Rightarrow> Inl (''hop follows unusable redirect: '' @ e)
              | Inr target \<Rightarrow>
                  if urlString target \<noteq> hop_URL (fst current) then Inl ''hop URL does not match redirect target''
                  else validateTransitions u fallbackURL False (computed + 1) (current # hops))))"
| "validateTransitions u fallbackURL fallback computed hops = Inr computed"

definition validateTerminalEvidence :: "'a unitab_scheme \<Rightarrow> WPathResult \<Rightarrow> (Hop \<times> url) list \<Rightarrow> error option" where
  "validateTerminalEvidence u result hops =
     (if wp_StopReason result = WStopInvalidProbeEvidence \<or> wp_StopReason result = WStopPathTimeout \<or>
         wp_Status result = WCancelled then None
      else if hops = [] then Some ''terminal reason requires at least one hop''
      else
       (let (final, parsed) = last hops; resolution = hop_Resolution final;
            success = successfulAttempt final;
            redirected = (case success of None \<Rightarrow> False | Some s \<Rightarrow> isRedirectStatus (whttp_StatusCode (httpOf s)));
            http = httpOf (the success) in
        case wp_StopReason result of
          WStopFinalResponse \<Rightarrow> guard (success = None \<or> redirected) ''final_response requires a successful non-redirect response''
        | WStopResolutionFailed \<Rightarrow> guard (env_outcome resolution \<noteq> OutcomeFailed \<or> sliceOf (hop_Attempts final) \<noteq> [])
            ''resolution_failed requires a failed resolution and no attempts''
        | WStopNoPublicCandidates \<Rightarrow> guard (env_outcome resolution \<noteq> OutcomeSucceeded \<or> candidatesOf resolution \<noteq> [] \<or>
              sliceOf (hop_Attempts final) \<noteq> []) ''no_public_candidates does not match last-hop evidence''
        | WStopAllCandidatesFailed \<Rightarrow> guard (\<not> exhaustedPublicCandidates final) ''all_candidates_failed requires only failed attempts''
        | WStopRedirectLocationUnavailable \<Rightarrow>
            guard (\<not> redirected \<or> \<not> whttp_LocationOmitted http \<and> whttp_Location http \<noteq> '''')
              ''redirect_location_unavailable does not match last response''
        | WStopRedirectTargetInvalid \<Rightarrow>
            (if \<not> redirected then Some ''redirect target stop requires a successful redirect response''
             else guard (case redirectTarget u parsed http of Inr t \<Rightarrow> True | Inl (reason, e) \<Rightarrow> reason \<noteq> wp_StopReason result)
               ''redirect target stop reason does not match Location'')
        | WStopRedirectTargetUnsafe \<Rightarrow>
            (if \<not> redirected then Some ''redirect target stop requires a successful redirect response''
             else guard (case redirectTarget u parsed http of Inr t \<Rightarrow> True | Inl (reason, e) \<Rightarrow> reason \<noteq> wp_StopReason result)
               ''redirect target stop reason does not match Location'')
        | WStopRedirectLoop \<Rightarrow>
            (if \<not> redirected then Some ''redirect_loop requires a successful redirect response''
             else (case redirectTarget u parsed http of
                 Inl (reason, e) \<Rightarrow> Some (''redirect_loop Location is unusable: '' @ e)
               | Inr target \<Rightarrow> guard (\<not> list_ex (\<lambda>(h, prior). urlString prior = urlString target) hops)
                   ''redirect_loop target does not repeat an observed URL''))
        | WStopRedirectLimit \<Rightarrow> guard (wp_RedirectsFollowed result \<noteq> redirectLimit \<or> \<not> redirected)
            ''redirect_limit does not match last response or count''
        | _ \<Rightarrow> None))"

section \<open>Validate\<close>

definition validateHopSequence :: "'a unitab_scheme \<Rightarrow> WPathResult \<Rightarrow> Hop list \<Rightarrow> error option" where
  "validateHopSequence u result hops = (case validateHops u (wp_Platform result) hops of
      Inl e \<Rightarrow> Some e
    | Inr urls \<Rightarrow>
        if wp_HTTPFallbackUsed result \<and> (hops = [] \<or> \<not> exhaustedPublicCandidates (hd hops))
        then Some ''HTTP fallback requires exhausted initial HTTPS candidates''
        else (case validateTransitions u (''http://'' @ xin_Hostname (wp_Input result) @ ''/'') (wp_HTTPFallbackUsed result) 0 (zip hops urls) of
            Inl e \<Rightarrow> Some e
          | Inr computed \<Rightarrow> firstErr [
              guard (computed \<noteq> wp_RedirectsFollowed result) ''redirects_followed does not match the hop transitions'',
              guard (wp_HTTPFallbackUsed result \<and> length hops < 2 \<and> wp_Status result \<noteq> WCancelled \<and>
                  wp_StopReason result \<noteq> WStopPathTimeout \<and> wp_StopReason result \<noteq> WStopInvalidProbeEvidence)
                ''HTTP fallback requires an HTTP hop unless interrupted'',
              validateTerminalEvidence u result (zip hops urls)]))"

definition Validate_wpath :: "'a unitab_scheme \<Rightarrow> WPathResult \<Rightarrow> error option" where
  "Validate_wpath u result =
     (let hops = sliceOf (wp_Hops result);
          (normalized, initial, inputErr) = normalizeInput u \<lparr>xreq_Hostname = xin_Hostname (wp_Input result)\<rparr> in
      case firstErr [
        guard (wp_SchemaVersion result \<noteq> SchemaVersion_wpath) ''schema_version must be 1'',
        guard (wp_Operation result \<noteq> Operation_wpath) ''operation must be web_path'',
        guard (IsZero (wp_ObservedAt result)) ''observed_at must not be zero'',
        guard (t_zone (wp_ObservedAt result) \<noteq> 0) ''observed_at must use UTC'',
        guard (wp_DurationMS result < 0) ''duration_ms must not be negative'',
        guard (plat_os (wp_Platform result) = '''' \<or> plat_arch (wp_Platform result) = '''') ''platform os and arch must not be empty'',
        guard (wp_Hops result = None) ''hops must be an explicit array'',
        guard (wp_RedirectsFollowed result < 0 \<or> redirectLimit < wp_RedirectsFollowed result)
          ''redirects_followed must be between zero and 3'',
        guard (normalized \<noteq> wp_Input result) ''input must use its normalized and fixed representation''] of
        Some e \<Rightarrow> Some e
      | None \<Rightarrow>
          if inputErr \<noteq> None then
            guard (wp_Status result \<noteq> WStopped \<or> wp_StopReason result \<noteq> WStopInvalidInput \<or> hops \<noteq> [] \<or>
                wp_RedirectsFollowed result \<noteq> 0 \<or> wp_HTTPFallbackUsed result)
              ''invalid hostname requires stopped/invalid_input with no hops''
          else firstErr [
            guard (wp_Status result = WStopped \<and> wp_StopReason result = WStopInvalidInput)
              ''valid hostname must not stop as invalid_input'',
            validateTerminalPair (wp_Status result) (wp_StopReason result),
            guard (wp_Status result = WCompleted \<and> wp_Detail result \<noteq> '''') ''completed path must not include stop detail'',
            guard (redirectLimit + 1 + (if wp_HTTPFallbackUsed result then 1 else 0) < int (length hops))
              ''hops exceed bounded maximum'',
            guard (hops \<noteq> [] \<and> hop_URL (hd hops) \<noteq> xin_InitialURL (wp_Input result)) ''first hop URL must be the initial URL'',
            validateHopSequence u result hops])"

end
