(* ===== verification/WebPathProps.thy ===== *)
theory WebPathProps
  imports WebPathValidate WebProps SysProps
begin

text \<open>
  The URLs, hops and chains of a Web path: a redirect target is canonical, a hop the observer
  records is accepted by the validator, and the hops of a chain are linked by their redirects.
\<close>

section \<open>Canonical URLs\<close>

text \<open>What a hop URL is, and when two of them are the same site and request.\<close>

definition web_url :: "'a unitab_scheme \<Rightarrow> url \<Rightarrow> bool" where
  "web_url u v \<longleftrightarrow> (u_Scheme v = SchemeHTTP \<or> u_Scheme v = SchemeHTTPS) \<and> u_Opaque v = '''' \<and> u_User v = None \<and>
     NormalizeWebHostname u (u_Host v) = (u_Host v, None) \<and> u_Fragment v = '''' \<and>
     (u_RawQuery v = '''' \<longrightarrow> \<not> u_ForceQuery v) \<and> validateRawQuery (u_RawQuery v) = None \<and>
     EscapedPath v \<noteq> '''' \<and> hd (EscapedPath v) = CHR ''/'' \<and>
     (\<exists>v0 p v1. setPath v0 p = Some v1 \<and> u_Path v1 = u_Path v \<and> u_RawPath v1 = u_RawPath v) \<and> u_Path v \<noteq> ''*'' \<and>
     length (requestTarget (EscapedPath v) (u_RawQuery v)) \<le> MaxWebRequestTargetBytes"

definition same_url :: "url \<Rightarrow> url \<Rightarrow> bool" where
  "same_url v v' \<longleftrightarrow> u_Scheme v' = u_Scheme v \<and> u_Opaque v' = u_Opaque v \<and> u_User v' = u_User v \<and>
     u_Host v' = u_Host v \<and> u_Fragment v' = u_Fragment v \<and> u_RawQuery v' = u_RawQuery v \<and> EscapedPath v' = EscapedPath v"

lemma web_url_host:
  assumes "web_url u v"
  shows "hostText (u_Host v)" "u_Host v \<noteq> ''''"
  using assms NormalizeWebHostname_accept(1,2) [of u "u_Host v" "u_Host v"] by (simp_all add: web_url_def)

lemma urlString_web:
  assumes "web_url u v"
  shows "urlString v = u_Scheme v @ ''://'' @ u_Host v @ requestTarget (EscapedPath v) (u_RawQuery v)"
proof -
  note host = web_url_host [OF assms]
  show ?thesis
    using assms host hostText_url(1) [OF host]
    by (auto simp: web_url_def urlString_def userString_def requestTarget_def Let_def SchemeHTTP_def SchemeHTTPS_def)
qed

lemma Hostname_web:
  assumes "web_url u v"
  shows "Hostname v = u_Host v" "urlPort v = ''''"
proof -
  note h = web_url_host [OF assms]
  have c: "byte c = 45 \<or> byte c = 46 \<or> 48 \<le> byte c \<and> byte c \<le> 57 \<or> 97 \<le> byte c \<and> byte c \<le> 122"
    if "c \<in> set (u_Host v)" for c
    using h(1) that by (fastforce simp: hostText_def list_all_iff hostnameChar_def)
  have "CHR '':'' \<notin> set (u_Host v)" "CHR ''['' \<notin> set (u_Host v)" using c by fastforce+
  moreover then have "hd (u_Host v) \<noteq> CHR ''[''" using h(2) hd_in_set by metis
  ultimately show "Hostname v = u_Host v" "urlPort v = ''''"
    by (simp_all add: Hostname_def urlPort_def splitHostPort_def cutLast_None)
qed

text \<open>A canonical URL is printed and parsed back to the same one.\<close>

lemma urlParse_canonical:
  assumes v: "web_url u v"
  shows "\<exists>v'. urlParse (urlString v) = Some v' \<and> same_url v v' \<and> web_url u v'"
proof -
  obtain v0 p v1 where p: "setPath v0 p = Some v1" "u_Path v1 = u_Path v" "u_RawPath v1 = u_RawPath v"
    using v by (auto simp: web_url_def)
  have ep: "EscapedPath v1 = EscapedPath v" by (rule EscapedPath_cong) (simp_all add: p)
  let ?e = "emptyURL\<lparr>u_Scheme := u_Scheme v, u_RawQuery := u_RawQuery v, u_Host := u_Host v\<rparr>"
  have star: "u_Path v1 \<noteq> ''*''" using v p by (simp add: web_url_def)
  have "urlParse (urlString v) = setPath ?e (EscapedPath v)"
    unfolding urlString_web [OF v]
    by (rule urlParse_web [OF _ web_url_host [OF v] _ _ EscapedPath_plain]) (use v in \<open>auto simp: web_url_def\<close>)
  moreover obtain v' where v': "setPath ?e (EscapedPath v) = Some v'"
    using EscapedPath_reads(1) [OF p(1) star] ep by auto
  moreover have "EscapedPath v' = EscapedPath v" "u_Path v' = u_Path v"
    using EscapedPath_reads [OF p(1) star, of ?e] v' ep p by auto
  moreover note setPath_sel [OF v']
  ultimately show ?thesis
    using v v' by (intro exI [of _ v']) (auto simp: same_url_def web_url_def emptyURL_def)
qed

text \<open>Redirects depend on nothing else.\<close>

lemma withPath_sel [simp]:
  "u_Scheme (withPath r p) = u_Scheme r" "u_Opaque (withPath r p) = u_Opaque r" "u_User (withPath r p) = u_User r"
  "u_Host (withPath r p) = u_Host r" "u_ForceQuery (withPath r p) = u_ForceQuery r"
  "u_RawQuery (withPath r p) = u_RawQuery r" "u_Fragment (withPath r p) = u_Fragment r"
  by (simp_all add: withPath_def setPath_def split: option.split)

lemma EscapedPath_update [simp]:
  "EscapedPath (v\<lparr>u_RawFragment := x\<rparr>) = EscapedPath v" "EscapedPath (v\<lparr>u_Scheme := s\<rparr>) = EscapedPath v"
  "EscapedPath (v\<lparr>u_Host := s\<rparr>) = EscapedPath v" "EscapedPath (v\<lparr>u_ForceQuery := b\<rparr>) = EscapedPath v"
  "EscapedPath (v\<lparr>u_Fragment := s\<rparr>) = EscapedPath v" "EscapedPath (v\<lparr>u_RawQuery := s\<rparr>) = EscapedPath v"
  by (simp_all add: EscapedPath_def)

lemma withPath_RawFragment: "(withPath r p)\<lparr>u_RawFragment := x\<rparr> = withPath (r\<lparr>u_RawFragment := x\<rparr>) p"
  by (auto simp: withPath_def setPath_def split: option.splits)

lemma ResolveReference_same:
  assumes "same_url c c'"
  shows "(ResolveReference c' ref)\<lparr>u_RawFragment := x\<rparr> = (ResolveReference c ref)\<lparr>u_RawFragment := x\<rparr>"
proof -
  have eqs: "u_Scheme c' = u_Scheme c" "u_Opaque c' = u_Opaque c" "u_User c' = u_User c" "u_Host c' = u_Host c"
    "u_Fragment c' = u_Fragment c" "u_RawQuery c' = u_RawQuery c" "EscapedPath c' = EscapedPath c"
    using assms by (simp_all add: same_url_def)
  let ?abs = "u_Scheme ref \<noteq> '''' \<or> u_Host ref \<noteq> '''' \<or> u_User ref \<noteq> None"
  let ?bare = "u_Path ref = '''' \<and> \<not> u_ForceQuery ref \<and> u_RawQuery ref = ''''"
  show ?thesis
  proof (cases "?abs \<or> u_Opaque ref \<noteq> ''''")
    case True
    then show ?thesis by (simp only: ResolveReference_def Let_def eqs) auto
  next
    case False
    then have f: "?abs = False" "(u_Opaque ref \<noteq> '''') = False" by blast+
    show ?thesis
      by (cases ?bare; cases "u_Fragment ref = ''''"; cases "u_Path ref = '''' \<and> u_Opaque c \<noteq> ''''")
        (simp_all only: ResolveReference_def Let_def eqs f if_True if_False withPath_RawFragment, simp_all)
  qed
qed

lemma targetOf_cases:
  assumes "targetOf u n = Inr t"
  obtains h rt where "ToLower u (u_Scheme n) = SchemeHTTP \<or> ToLower u (u_Scheme n) = SchemeHTTPS"
    "u_Opaque n = ''''" "u_User n = None" "NormalizeWebHostname u (Hostname (n\<lparr>u_Fragment := ''''\<rparr>)) = (h, None)"
    "\<exists>p q. NormalizeWebRequestTarget p q = (rt, None) \<and> q = u_RawQuery n"
    "u_Scheme t = ToLower u (u_Scheme n)" "u_Opaque t = ''''" "u_User t = None" "u_Host t = h" "u_Fragment t = ''''"
    "u_RawQuery t = wt_RawQuery rt" "u_Path t = wt_Path rt" "u_RawPath t = wt_RawPath rt"
    "u_RawQuery n = '''' \<longrightarrow> \<not> u_ForceQuery t"
proof -
  let ?n = "n\<lparr>u_Fragment := ''''\<rparr>"
  obtain h he where h: "NormalizeWebHostname u (Hostname ?n) = (h, he)" by (metis prod.collapse)
  let ?n1 = "?n\<lparr>u_Scheme := ToLower u (u_Scheme n), u_Host := h\<rparr>"
  let ?n2 = "if u_RawQuery ?n1 = '''' then ?n1\<lparr>u_ForceQuery := False\<rparr> else ?n1"
  let ?n3 = "if EscapedPath ?n2 = '''' then ?n2\<lparr>u_Path := ''/'', u_RawPath := ''''\<rparr> else ?n2"
  obtain rt te where rt: "NormalizeWebRequestTarget (EscapedPath ?n3) (u_RawQuery ?n3) = (rt, te)" by (metis prod.collapse)
  have c: "u_Opaque n = ''''" "u_User n = None" "ToLower u (u_Scheme n) = SchemeHTTP \<or> ToLower u (u_Scheme n) = SchemeHTTPS"
    "he = None" "te = None" "t = ?n3\<lparr>u_Path := wt_Path rt, u_RawPath := wt_RawPath rt, u_RawQuery := wt_RawQuery rt\<rparr>"
    using assms h rt unfolding targetOf_def Let_def
    by (auto split: if_split_asm option.split_asm simp del: not_None_eq split_paired_Ex split_paired_All)
  have q: "u_RawQuery ?n3 = u_RawQuery n" by simp
  have sel: "u_Scheme t = ToLower u (u_Scheme n)" "u_Opaque t = ''''" "u_User t = None" "u_Host t = h" "u_Fragment t = ''''"
    "u_RawQuery t = wt_RawQuery rt" "u_Path t = wt_Path rt" "u_RawPath t = wt_RawPath rt"
    "u_RawQuery n = '''' \<longrightarrow> \<not> u_ForceQuery t"
    unfolding c(6) using c(1,2) by simp_all
  have "\<exists>p q. NormalizeWebRequestTarget p q = (rt, None) \<and> q = u_RawQuery n"
    using rt unfolding q c(5) by blast
  with c(1-3) h sel show ?thesis unfolding c(4) by (intro that) assumption+
qed

lemma Hostname_update [simp]:
  "Hostname (v\<lparr>u_RawFragment := x\<rparr>) = Hostname v" "urlPort (v\<lparr>u_RawFragment := x\<rparr>) = urlPort v"
  by (simp_all add: Hostname_def urlPort_def)

lemma targetOf_RawFragment:
  "targetOf u (n\<lparr>u_RawFragment := x\<rparr>) = map_sum id (\<lambda>t. t\<lparr>u_RawFragment := x\<rparr>) (targetOf u n)"
proof -
  let ?n = "n\<lparr>u_Fragment := ''''\<rparr>" and ?m = "n\<lparr>u_RawFragment := x, u_Fragment := ''''\<rparr>"
  obtain h he where h: "NormalizeWebHostname u (Hostname ?n) = (h, he)" by (metis prod.collapse)
  have m: "Hostname ?m = Hostname ?n" "urlPort ?m = urlPort ?n" by (simp_all add: Hostname_def urlPort_def)
  let ?s = "ToLower u (u_Scheme n)" and ?p = "if EscapedPath n = '''' then ''/'' else EscapedPath n"
  have root: "EscapedPath (v\<lparr>u_Path := ''/'', u_RawPath := ''''\<rparr>) = ''/''" for v :: url
    by (simp add: EscapedPath_def escape_def slash_plain)
  obtain rt te where rt: "NormalizeWebRequestTarget ?p (u_RawQuery n) = (rt, te)" by (metis prod.collapse)
  consider (opaque) "u_Opaque n \<noteq> '''' \<or> u_User n \<noteq> None"
    | (scheme) "\<not> (u_Opaque n \<noteq> '''' \<or> u_User n \<noteq> None)" "?s \<noteq> SchemeHTTP \<and> ?s \<noteq> SchemeHTTPS"
    | (host) e where "\<not> (u_Opaque n \<noteq> '''' \<or> u_User n \<noteq> None)" "\<not> (?s \<noteq> SchemeHTTP \<and> ?s \<noteq> SchemeHTTPS)" "he = Some e"
    | (rest) "\<not> (u_Opaque n \<noteq> '''' \<or> u_User n \<noteq> None)" "\<not> (?s \<noteq> SchemeHTTP \<and> ?s \<noteq> SchemeHTTPS)" "he = None"
    by (cases he) blast+
  then show ?thesis
  proof cases
    case opaque
    then show ?thesis by (simp add: targetOf_def Let_def)
  next
    case scheme
    then show ?thesis by (simp add: targetOf_def Let_def)
  next
    case host
    then show ?thesis by (simp add: targetOf_def Let_def m h)
  next
    case rest
    let ?bad = "urlPort ?n \<noteq> '''' \<and> \<not> (?s = SchemeHTTP \<and> urlPort ?n = ''80'' \<or> ?s = SchemeHTTPS \<and> urlPort ?n = ''443'')"
    note r = rest(1,2)
    show ?thesis
    proof (cases ?bad)
      case True
      with r show ?thesis
        by (simp only: targetOf_def Let_def url.simps m h rest(3) prod.case option.case if_True if_False map_sum.simps) simp
    next
      case False
      then show ?thesis
        using r rt
        by (cases te; cases "u_RawQuery n = ''''"; cases "EscapedPath n = ''''")
          (simp_all only: targetOf_def Let_def url.simps m h rest(3) prod.case option.case if_True if_False map_sum.simps, simp_all add: root)
    qed
  qed
qed

lemma urlString_RawFragment: "u_Fragment v = '''' \<Longrightarrow> urlString (v\<lparr>u_RawFragment := x\<rparr>) = urlString v"
  by (simp add: urlString_def Let_def)

lemma redirectTarget_web:
  assumes "redirectTarget u c r = Inr t"
  shows "web_url u t"
proof -
  obtain ref where "targetOf u (ResolveReference c ref) = Inr t"
    using assms by (auto simp: redirectTarget_def split: if_splits option.splits)
  then show ?thesis
  proof (cases rule: targetOf_cases)
    case (1 h rt)
    then obtain p where p: "NormalizeWebRequestTarget p (u_RawQuery (ResolveReference c ref)) = (rt, None)" by blast
    then obtain v u0 p' where v: "setPath u0 p' = Some v" "wt_EscapedPath rt = EscapedPath v" "wt_Path rt = u_Path v"
      "wt_RawPath rt = u_RawPath v" "wt_RawQuery rt = u_RawQuery (ResolveReference c ref)" "validateRawQuery (wt_RawQuery rt) = None"
      "EscapedPath v \<noteq> ''''" "hd (EscapedPath v) = CHR ''/''" "u_Path v \<noteq> ''*''"
      by (metis accepted_target)
    have len: "length (requestTarget (wt_EscapedPath rt) (wt_RawQuery rt)) \<le> MaxWebRequestTargetBytes"
      using NormalizeWebRequestTarget_good [OF p] by (simp add: target_good_def)
    have "EscapedPath t = EscapedPath v" by (rule EscapedPath_cong) (simp_all add: 1 v)
    with 1 v show ?thesis using NormalizeWebHostname_fixed [OF 1(4)] len by (auto simp: web_url_def)
  qed
qed

text \<open>Following a redirect from a URL and from what its text parses to is the same.\<close>

lemma redirectTarget_same:
  assumes "same_url c c'"
  shows "case redirectTarget u c r of Inl e \<Rightarrow> redirectTarget u c' r = Inl e
    | Inr t \<Rightarrow> \<exists>t'. redirectTarget u c' r = Inr t' \<and> urlString t' = urlString t"
proof (cases "whttp_LocationOmitted r \<or> whttp_Location r = '''' \<or> urlParse (whttp_Location r) = None")
  case True
  then show ?thesis by (auto simp: redirectTarget_def split: option.split)
next
  case False
  then obtain ref where ref: "urlParse (whttp_Location r) = Some ref" by auto
  let ?n = "ResolveReference c ref" and ?n' = "ResolveReference c' ref"
  have eq: "?n' = ?n\<lparr>u_RawFragment := u_RawFragment ?n'\<rparr>"
    using ResolveReference_same [OF assms, where ref = ref and x = "u_RawFragment ?n'"] by simp
  have r: "redirectTarget u c r = targetOf u ?n" "redirectTarget u c' r = targetOf u ?n'"
    using False ref by (simp_all add: redirectTarget_def)
  have "targetOf u ?n' = map_sum id (\<lambda>t. t\<lparr>u_RawFragment := u_RawFragment ?n'\<rparr>) (targetOf u ?n)"
    by (subst eq) (rule targetOf_RawFragment)
  moreover have "urlString (t\<lparr>u_RawFragment := y\<rparr>) = urlString t" if "targetOf u ?n = Inr t" for t y
    using redirectTarget_web [of u c r t] that r by (intro urlString_RawFragment) (simp add: web_url_def)
  ultimately show ?thesis by (auto simp: r split: sum.split)
qed

lemma redirectTarget_reasons:
  "redirectTarget u c r = Inl (reason, e) \<Longrightarrow>
   reason \<in> {WStopRedirectLocationUnavailable, WStopRedirectTargetInvalid, WStopRedirectTargetUnsafe} \<and>
   (reason = WStopRedirectLocationUnavailable \<longleftrightarrow> whttp_LocationOmitted r \<or> whttp_Location r = '''')"
  by (auto simp: redirectTarget_def targetOf_def Let_def split: if_splits option.splits prod.splits)

section \<open>Candidates\<close>

text \<open>A candidate is the canonical text of a public address of the resolution; the family it counts for.\<close>

definition sys_family :: "string \<Rightarrow> Family_sys" where
  "sys_family c = (if Is4 (fst (snd (NormalizePublicIP c))) then FamilyIPv4_sys else FamilyIPv6_sys)"

definition eligible :: "SysAddress \<Rightarrow> bool" where
  "eligible a \<longleftrightarrow> (\<exists>ip. NormalizePublicIP (adr_IP a) = (adr_IP a, ip, None)) \<and> sys_family (adr_IP a) = adr_Family a"

lemma selectLoop_step: "selectLoop counts (a # xs) =
  (if counts (adr_Family a) < candidateLimitPerFamily \<and> eligible a
   then adr_IP a # selectLoop (counts(adr_Family a := counts (adr_Family a) + 1)) xs
   else selectLoop counts xs)"
proof -
  obtain tx ip err where n: "NormalizePublicIP (adr_IP a) = (tx, ip, err)" by (metis prod_cases3)
  then have "sys_family (adr_IP a) = (if Is4 ip then FamilyIPv4_sys else FamilyIPv6_sys)" by (simp add: sys_family_def)
  with n show ?thesis by (auto simp: eligible_def not_less)
qed

declare selectLoop.simps(2) [simp del]

lemma selectLoop_member:
  "c \<in> set (selectLoop counts xs) \<Longrightarrow> c \<in> adr_IP ` set xs \<and> (\<exists>ip. NormalizePublicIP c = (c, ip, None))"
  by (induction xs arbitrary: counts) (auto simp: selectLoop_step eligible_def split: if_splits)

lemma selectLoop_distinct: "distinct (map adr_IP xs) \<Longrightarrow> distinct (selectLoop counts xs)"
  by (induction xs arbitrary: counts) (auto simp: selectLoop_step dest: selectLoop_member)

lemma selectLoop_families:
  "int (length (filter (\<lambda>c. sys_family c = f) (selectLoop counts xs))) \<le> max 0 (candidateLimitPerFamily - counts f)"
proof (induction xs arbitrary: counts)
  case (Cons a xs)
  obtain k where k: "k = counts(adr_Family a := counts (adr_Family a) + 1)" by blast
  then have "k f = (if f = adr_Family a then counts f + 1 else counts f)" by simp
  with Cons.IH [of counts] Cons.IH [of k] show ?case
    unfolding selectLoop_step k [symmetric] by (auto simp: eligible_def)
qed simp

lemma validateAddresses_distinct:
  "validateAddresses seen xs = None \<Longrightarrow> distinct (map adr_IP xs) \<and>
     (\<forall>a \<in> set xs. \<exists>ip. ParseAddr (adr_IP a) = Some ip \<and> Unmap ip \<notin> seen)"
proof (induction seen xs rule: validateAddresses.induct)
  case (2 seen a xs)
  then obtain ip where ip: "ParseAddr (adr_IP a) = Some ip" "Unmap ip \<notin> seen"
    "validateAddresses (insert (Unmap ip) seen) xs = None"
    by (auto simp: Let_def split: option.splits if_splits)
  with 2 have IH: "distinct (map adr_IP xs)"
    "\<forall>b \<in> set xs. \<exists>ip'. ParseAddr (adr_IP b) = Some ip' \<and> Unmap ip' \<notin> insert (Unmap ip) seen"
    by (auto simp: Let_def split: if_splits)
  then have "adr_IP a \<notin> adr_IP ` set xs" using ip(1) by force
  with IH ip show ?case by auto
qed simp

lemma sys_valid_evidence:
  assumes "Validate_sys r = None" "env_outcome r = OutcomeSucceeded"
  obtains e where "env_evidence r = Some e" "validateAddresses {} (yev_Addresses e) = None"
proof -
  have env: "Validate_envelope r = None" using assms(1) by (simp add: Validate_sys_def firstErr_simps)
  then obtain e where e: "env_evidence r = Some e" "env_failure r = None"
    using assms(2) by (auto simp: Validate_envelope_None Validate_outcome_None)
  with assms have "validateAddresses {} (yev_Addresses e) = None"
    by (auto simp: Validate_sys_def firstErr_simps split: prod.splits if_splits)
  with e that show thesis by blast
qed

text \<open>What the candidates of a valid resolution are.\<close>

lemma candidates_ok:
  assumes "Validate_sys r = None" "env_outcome r = OutcomeSucceeded"
  shows "distinct (candidatesOf r)"
    and "int (length (filter (\<lambda>c. sys_family c = f) (candidatesOf r))) \<le> candidateLimitPerFamily"
    and "c \<in> set (candidatesOf r) \<Longrightarrow> \<exists>ip. NormalizePublicIP c = (c, ip, None) \<and> ip \<in> addressSet r"
proof -
  obtain e where e: "env_evidence r = Some e" "validateAddresses {} (yev_Addresses e) = None"
    using sys_valid_evidence [OF assms] .
  have c: "candidatesOf r = selectLoop (\<lambda>f. 0) (yev_Addresses e)"
    using e by (simp add: candidatesOf_def selectPublicCandidates_def)
  show "distinct (candidatesOf r)" unfolding c
    using validateAddresses_distinct [OF e(2)] by (intro selectLoop_distinct) simp
  show "int (length (filter (\<lambda>c. sys_family c = f) (candidatesOf r))) \<le> candidateLimitPerFamily"
    unfolding c using selectLoop_families [of f "\<lambda>f. 0" "yev_Addresses e"] by (simp add: candidateLimitPerFamily_def)
  show "\<exists>ip. NormalizePublicIP c = (c, ip, None) \<and> ip \<in> addressSet r" if "c \<in> set (candidatesOf r)"
  proof -
    from that obtain a ip where a: "a \<in> set (yev_Addresses e)" "c = adr_IP a" "NormalizePublicIP c = (c, ip, None)"
      unfolding c by (auto dest!: selectLoop_member)
    with NormalizePublicIP_accept_cases [OF a(3)] have "ip \<in> addressSet r"
      using assms(2) e(1) by (force simp: addressSet_def List.map_filter_def image_iff)
    with a show ?thesis by blast
  qed
qed

section \<open>Hops\<close>

text \<open>
  The attempts of a hop follow the candidates of its resolution in order; only the last one may be
  something else than a failure.
\<close>

definition attempts_ok :: "'a unitab_scheme \<Rightarrow> Platform \<Rightarrow> url \<Rightarrow> string list \<Rightarrow> WebResult list \<Rightarrow> bool" where
  "attempts_ok u platform t selected xs \<longleftrightarrow> length xs \<le> length selected \<and>
     (\<forall>k < length xs. Validate_web u (xs ! k) = None \<and> matchesTarget platform t (selected ! k) (xs ! k)) \<and>
     (\<forall>x \<in> set (butlast xs). env_outcome x = OutcomeFailed)"

definition selectedOf :: "Hop \<Rightarrow> string list" where
  "selectedOf hop = (if env_outcome (hop_Resolution hop) = OutcomeSucceeded then candidatesOf (hop_Resolution hop) else [])"

definition hop_ok :: "'a unitab_scheme \<Rightarrow> Platform \<Rightarrow> url \<Rightarrow> Hop \<Rightarrow> bool" where
  "hop_ok u platform t hop \<longleftrightarrow> web_url u t \<and> hop_URL hop = urlString t \<and> Validate_sys (hop_Resolution hop) = None \<and>
     env_platform (hop_Resolution hop) = platform \<and> yin_Hostname (env_input (hop_Resolution hop)) = Hostname t \<and>
     (\<exists>xs. hop_Attempts hop = Some xs \<and> attempts_ok u platform t (selectedOf hop) xs)"

text \<open>A valid attempt records the family of its address.\<close>

lemma attempt_family:
  assumes "Validate_web u a = None" "NormalizePublicIP (win_DialIP (env_input a)) = (c, ip, None)"
  shows "win_Family (env_input a) = (if Is4 ip then FamilyIPv4_web else FamilyIPv6_web)"
proof -
  let ?i = "env_input a"
  obtain n t e where n: "normalizeRequest_web u \<lparr>wreq_Scheme = win_Scheme ?i, wreq_Hostname = win_Hostname ?i,
      wreq_DialIP = win_DialIP ?i, wreq_Path = win_Path ?i, wreq_RawQuery = win_RawQuery ?i\<rparr> = (n, t, e)" by (metis prod_cases3)
  have "n = ?i"
    using assms(1) n by (auto simp: Validate_web_def firstErr_simps validateInputContract_web_def Let_def split: if_splits)
  moreover have "IsValid ip" using NormalizePublicIP_accept_cases(2) [OF assms(2)] .
  then have "win_Family n = (if Is4 ip then FamilyIPv4_web else FamilyIPv6_web)"
    using n assms(2)
    by (auto simp: normalizeRequest_web_def normalizePublicIP_web_def Let_def split: option.splits prod.splits if_splits)
  ultimately show ?thesis by simp
qed

lemma attempt_success_evidence:
  assumes "Validate_web u a = None" "env_outcome a = OutcomeSucceeded"
  shows "\<exists>e. env_evidence a = Some e"
proof -
  have "Validate_envelope a = None" using assms(1) by (simp add: Validate_web_def firstErr_simps)
  then show ?thesis using assms(2) by (auto simp: Validate_envelope_None Validate_outcome_None)
qed

lemma attempt_outcomes:
  assumes "Validate_web u a = None"
  shows "env_outcome a = OutcomeSucceeded \<or> env_outcome a = OutcomeFailed \<or> env_outcome a = OutcomeCancelled"
proof -
  have "Validate_envelope a = None" using assms by (simp add: Validate_web_def firstErr_simps)
  then show ?thesis by (rule valid_envelope_cases) auto
qed

definition web_family :: "Family_sys \<Rightarrow> Family_web" where
  "web_family f = (if f = FamilyIPv4_sys then FamilyIPv4_web else FamilyIPv6_web)"

lemma count_snoc: "length (filter P (xs @ [x])) = length (filter P xs) + (if P x then 1 else 0)"
  by simp

text \<open>The loop over the attempts, after those of \<open>done\<close> have been read.\<close>

lemma validateHopAttempts_ok:
  assumes r: "Validate_sys r = None" "env_outcome r = OutcomeSucceeded"
    and t: "same_url t p" "h = Hostname t"
    and c: "\<And>f. counts f = int (length (filter (\<lambda>c. web_family (sys_family c) = f) (take i (candidatesOf r))))"
    and a: "attempted = {ip. \<exists>k < i. NormalizePublicIP (candidatesOf r ! k) = (candidatesOf r ! k, ip, None)}"
    and xs: "i + length xs \<le> length (candidatesOf r)"
      "\<And>k. k < length xs \<Longrightarrow> Validate_web u (xs ! k) = None \<and> matchesTarget platform t (candidatesOf r ! (i + k)) (xs ! k)"
      "\<And>x. x \<in> set (butlast xs) \<Longrightarrow> env_outcome x = OutcomeFailed"
  shows "validateHopAttempts u platform p h (candidatesOf r) (addressSet r) i counts attempted 0 xs = None"
  using c a xs
proof (induction xs arbitrary: i counts attempted)
  case (Cons x xs)
  let ?c = "candidatesOf r ! i" and ?i = "env_input x"
  have len: "i < length (candidatesOf r)" using Cons.prems(3) by simp
  have x: "Validate_web u x = None" "matchesTarget platform t ?c x" using Cons.prems(4) [of 0] by auto
  obtain ip where ip: "NormalizePublicIP ?c = (?c, ip, None)" "ip \<in> addressSet r"
    using candidates_ok(3) [OF r, of ?c] len by auto
  note acc = NormalizePublicIP_accept_cases [OF ip(1)]
  have in_eq: "win_DialIP ?i = ?c" "env_platform x = platform" "win_Scheme ?i = u_Scheme p" "win_Hostname ?i = h"
    "win_Path ?i = EscapedPath p" "win_RawQuery ?i = u_RawQuery p"
    using x(2) t by (simp_all add: matchesTarget_def same_url_def)
  have fam: "win_Family ?i = web_family (sys_family ?c)"
    using attempt_family [OF x(1)] ip(1) in_eq(1) by (simp add: web_family_def sys_family_def)
  have fresh: "ip \<notin> attempted"
  proof
    assume "ip \<in> attempted"
    then obtain k where k: "k < i" "NormalizePublicIP (candidatesOf r ! k) = (candidatesOf r ! k, ip, None)"
      using Cons.prems(2) by auto
    have "candidatesOf r ! k = ?c" using NormalizePublicIP_accept_cases(1) [OF k(2)] acc(1) by simp
    with candidates_ok(1) [OF r] len k(1) show False by (simp add: nth_eq_iff_index_eq)
  qed
  let ?counts = "counts(win_Family ?i := counts (win_Family ?i) + 1)"
  have take_Suc: "take (i + 1) (candidatesOf r) = take i (candidatesOf r) @ [?c]" using len by (simp add: take_Suc_conv_app_nth)
  have counts': "?counts f = int (length (filter (\<lambda>c. web_family (sys_family c) = f) (take (i + 1) (candidatesOf r))))" for f
    unfolding take_Suc count_snoc using Cons.prems(1) [of f] by (auto simp: fam)
  have "length (filter P (take n zs)) \<le> length (filter P zs)" for P n and zs :: "string list"
    by (metis append_take_drop_id filter_append length_append le_add1)
  then have "?counts (win_Family ?i) \<le> int (length (filter (\<lambda>c. web_family (sys_family c) = win_Family ?i) (candidatesOf r)))"
    unfolding counts' by simp
  also have "\<dots> = int (length (filter (\<lambda>c. sys_family c = sys_family ?c) (candidatesOf r)))"
  proof -
    have "(web_family (sys_family c) = win_Family ?i) = (sys_family c = sys_family ?c)" for c
      by (auto simp: fam web_family_def sys_family_def)
    then show ?thesis by simp
  qed
  also have "\<dots> \<le> candidateLimitPerFamily" by (rule candidates_ok(2) [OF r])
  finally have limit: "\<not> candidateLimitPerFamily < counts (win_Family ?i) + 1" by simp
  show ?case
  proof (cases "xs = []")
    case True
    then show ?thesis
      using x in_eq ip acc len fresh limit by (simp add: Let_def firstErr.simps guard_def wrapErr_def)
  next
    case False
    then have out: "env_outcome x = OutcomeFailed" using Cons.prems(5) by simp
    have att: "insert ip attempted = {ip. \<exists>k < i + 1. NormalizePublicIP (candidatesOf r ! k) = (candidatesOf r ! k, ip, None)}"
      using Cons.prems(2) ip(1) by (auto simp: less_Suc_eq)
    have "validateHopAttempts u platform p h (candidatesOf r) (addressSet r) (i + 1) ?counts (insert ip attempted) 0 xs = None"
    proof (rule Cons.IH [OF counts' att])
      show "i + 1 + length xs \<le> length (candidatesOf r)" using Cons.prems(3) by simp
      show "Validate_web u (xs ! k) = None \<and> matchesTarget platform t (candidatesOf r ! (i + 1 + k)) (xs ! k)"
        if "k < length xs" for k
        using Cons.prems(4) [of "Suc k"] that by simp
      show "env_outcome y = OutcomeFailed" if "y \<in> set (butlast xs)" for y
        using Cons.prems(5) that False by simp
    qed
    then show ?thesis
      using x in_eq ip acc len fresh limit out by (simp add: Let_def firstErr.simps guard_def wrapErr_def)
  qed
qed (simp add: guard_def)

lemma same_url_text: "same_url v v' \<Longrightarrow> web_url u v \<Longrightarrow> web_url u v' \<Longrightarrow> urlString v' = urlString v"
  by (simp add: urlString_web same_url_def)

lemma validateHop_ok:
  assumes "hop_ok u platform t hop"
  shows "\<exists>p. validateHop u platform hop = Inr p \<and> same_url t p \<and> web_url u p"
proof -
  let ?r = "hop_Resolution hop"
  have web: "web_url u t" and h: "hop_URL hop = urlString t" "Validate_sys ?r = None" "env_platform ?r = platform"
    "yin_Hostname (env_input ?r) = Hostname t"
    using assms by (simp_all add: hop_ok_def)
  obtain xs where xs: "hop_Attempts hop = Some xs" "attempts_ok u platform t (selectedOf hop) xs"
    using assms by (auto simp: hop_ok_def)
  obtain p where p: "urlParse (urlString t) = Some p" "same_url t p" "web_url u p"
    using urlParse_canonical [OF web] by blast
  have host: "Hostname p = Hostname t" "NormalizeWebHostname u (Hostname t) = (Hostname t, None)"
    using Hostname_web [OF web] Hostname_web [OF p(3)] p(2) web by (simp_all add: same_url_def web_url_def)
  have loop: "validateHopAttempts u platform p (Hostname t) (selectedOf hop) (addressSet ?r) 0 (\<lambda>f. 0) {} 0 xs = None"
  proof (cases "env_outcome ?r = OutcomeSucceeded")
    case True
    then show ?thesis
      using xs validateHopAttempts_ok [OF h(2) True p(2) refl, of "\<lambda>f. 0" 0 "{}" xs u platform]
      by (simp add: selectedOf_def attempts_ok_def)
  next
    case False
    with xs show ?thesis by (simp add: selectedOf_def attempts_ok_def guard_def)
  qed
  have none: "env_outcome ?r \<noteq> OutcomeSucceeded \<Longrightarrow> xs = []"
    using xs by (simp add: selectedOf_def attempts_ok_def)
  have "validateHop u platform hop = Inr p"
    using h p xs(1) host Hostname_web(2) [OF p(3)] loop none same_url_text [OF p(2) web p(3)] p(3)
    by (auto simp: validateHop_def firstErr.simps guard_def wrapErr_def web_url_def Let_def selectedOf_def)
  with p show ?thesis by blast
qed

text \<open>How a run is cut short, and how a hop ends a chain.\<close>

definition interrupted :: "WEnd \<Rightarrow> bool" where
  "interrupted e \<longleftrightarrow> we_status e = WCancelled \<and> we_reason e = WStopCancelled \<or>
     we_status e = WStopped \<and> (we_reason e = WStopPathTimeout \<or> we_reason e = WStopInvalidProbeEvidence)"

definition hop_end :: "Hop \<Rightarrow> WEnd \<Rightarrow> bool" where
  "hop_end hop e \<longleftrightarrow> we_status e = WStopped \<and> (
     we_reason e = WStopResolutionFailed \<and> env_outcome (hop_Resolution hop) = OutcomeFailed \<and> hop_Attempts hop = Some [] \<or>
     we_reason e = WStopNoPublicCandidates \<and> env_outcome (hop_Resolution hop) = OutcomeSucceeded \<and>
       candidatesOf (hop_Resolution hop) = [] \<and> hop_Attempts hop = Some [] \<or>
     we_reason e = WStopAllCandidatesFailed \<and> exhaustedPublicCandidates hop)"

lemma terminalContext_interrupted: "terminalContext_wpath c c' n = Some e \<Longrightarrow> interrupted e"
  by (auto simp: terminalContext_wpath_def interrupted_def Let_def split: if_splits option.splits)

lemma attempts_ok_snoc:
  assumes "attempts_ok u platform t selected xs" "length xs < length selected" "Validate_web u x = None"
    and "matchesTarget platform t (selected ! length xs) x" "\<forall>y \<in> set xs. env_outcome y = OutcomeFailed"
  shows "attempts_ok u platform t selected (xs @ [x])"
  using assms by (auto simp: attempts_ok_def nth_append less_Suc_eq)

lemma observeAttempts_ok:
  assumes "observeAttempts u w ob t n hop cs = (n', hop', r)" "hop_ok u (xo_platform ob) t hop"
    and "hop_Attempts hop = Some xs" "\<forall>x \<in> set xs. env_outcome x = OutcomeFailed"
    and "selectedOf hop = candidatesOf (hop_Resolution hop)" "cs = drop (length xs) (selectedOf hop)" "selectedOf hop \<noteq> []"
  shows "hop_ok u (xo_platform ob) t hop' \<and>
    (case r of Inl e \<Rightarrow> interrupted e \<or> hop_end hop' e
     | Inr x \<Rightarrow> successfulAttempt hop' = Some x \<and> Validate_web u x = None \<and> env_outcome x = OutcomeSucceeded)"
  using assms
proof (induction cs arbitrary: n hop xs)
  case Nil
  then have "length xs = length (selectedOf hop)" by (auto simp: hop_ok_def attempts_ok_def)
  moreover have "env_outcome (hop_Resolution hop) = OutcomeSucceeded" using Nil by (auto simp: selectedOf_def split: if_splits)
  moreover have "successfulAttempt hop = None" using Nil last_in_set [of xs] by (auto simp: successfulAttempt_def Let_def)
  ultimately have "exhaustedPublicCandidates hop"
    using Nil by (simp add: exhaustedPublicCandidates_def Let_def list_all_iff)
  with Nil show ?case by (auto simp: hop_end_def)
next
  case (Cons c cs)
  let ?x = "xw_web w n (webRequestFor t c)"
  let ?h = "hop\<lparr>hop_Attempts := Some (xs @ [?x])\<rparr>"
  have len: "length xs < length (selectedOf hop)" using Cons.prems(6) by (metis drop_all list.distinct(1) not_less)
  have c: "selectedOf hop ! length xs = c" "cs = drop (length (xs @ [?x])) (selectedOf hop)"
    using Cons.prems(6) len by (simp_all add: Cons_nth_drop_Suc [symmetric])
  show ?case
  proof (cases "Validate_web u ?x")
    case (Some e)
    with Cons.prems(1,2) show ?thesis by (auto simp: Let_def interrupted_def)
  next
    case valid: None
    show ?thesis
    proof (cases "matchesTarget (xo_platform ob) t c ?x")
      case False
      with valid Cons.prems(1,2) show ?thesis by (auto simp: Let_def interrupted_def)
    next
      case True
      have sel: "selectedOf ?h = selectedOf hop" "hop_Resolution ?h = hop_Resolution hop" by (simp_all add: selectedOf_def)
      have ok: "hop_ok u (xo_platform ob) t ?h"
        using Cons.prems(2,3,4) attempts_ok_snoc [OF _ len valid] True c(1) by (auto simp: hop_ok_def sel(1))
      have succ: "successfulAttempt ?h = (if env_outcome ?x = OutcomeSucceeded then Some ?x else None)"
        by (simp add: successfulAttempt_def Let_def)
      show ?thesis
      proof (cases "terminalNow w ob n")
        case (Some e)
        with valid True ok Cons.prems(1-3) show ?thesis by (auto simp: Let_def dest: terminalContext_interrupted)
      next
        case live: None
        show ?thesis
        proof (cases "env_outcome ?x = OutcomeCancelled \<or> env_outcome ?x = OutcomeSucceeded")
          case True': True
          with valid True live ok succ Cons.prems(1-3) show ?thesis by (auto simp: Let_def interrupted_def)
        next
          case False
          then have f: "env_outcome ?x = OutcomeFailed" using attempt_outcomes [OF valid] by blast
          have "observeAttempts u w ob t (n + 1) ?h cs = (n', hop', r)"
            using Cons.prems(1,3) valid True live False by (simp add: Let_def)
          then show ?thesis
            by (rule Cons.IH [where xs = "xs @ [?x]", OF _ ok]) (use Cons.prems(4,5,7) f c(2) in \<open>auto simp: sel\<close>)
        qed
      qed
    qed
  qed
qed

lemma observeHop_ok:
  assumes hop: "observeHop u w ob t n = (n', ho, r)" and t: "web_url u t"
  shows "case ho of
      None \<Rightarrow> (\<exists>e. r = Inl e \<and> interrupted e)
    | Some hop \<Rightarrow> hop_ok u (xo_platform ob) t hop \<and>
        (case r of Inl e \<Rightarrow> interrupted e \<or> hop_end hop e
         | Inr x \<Rightarrow> successfulAttempt hop = Some x \<and> Validate_web u x = None \<and> env_outcome x = OutcomeSucceeded)"
proof (cases "terminalNow w ob n")
  case (Some e)
  with hop show ?thesis by (auto simp: observeHop_def dest: terminalContext_interrupted)
next
  case live: None
  let ?r = "xw_resolve w (n + 1) (Hostname t)"
  show ?thesis
  proof (cases "Validate_sys ?r = None \<and> env_platform ?r = xo_platform ob \<and> yin_Hostname (env_input ?r) = Hostname t")
    case False
    with hop live show ?thesis
      by (auto simp: observeHop_def Let_def interrupted_def split: option.splits if_splits)
  next
    case True
    let ?h = "\<lparr>hop_URL = urlString t, hop_Resolution = ?r, hop_Attempts = Some []\<rparr>"
    have ok: "hop_ok u (xo_platform ob) t ?h" using True t by (simp add: hop_ok_def attempts_ok_def)
    show ?thesis
    proof (cases "terminalNow w ob (n + 1)")
      case (Some e)
      with hop live True ok show ?thesis by (auto simp: observeHop_def Let_def dest: terminalContext_interrupted)
    next
      case live': None
      have "Validate_envelope ?r = None" using True by (simp add: Validate_sys_def firstErr_simps)
      then consider "env_outcome ?r = OutcomeCancelled" | "env_outcome ?r = OutcomeFailed" | "env_outcome ?r = OutcomeSucceeded"
        by (rule valid_envelope_cases) auto
      then show ?thesis
      proof cases
        case 1
        with hop live True live' ok show ?thesis by (auto simp: observeHop_def Let_def interrupted_def)
      next
        case 2
        with hop live True live' ok show ?thesis by (auto simp: observeHop_def Let_def hop_end_def)
      next
        case 3
        have cs: "(case env_evidence q of None \<Rightarrow> [] | Some e \<Rightarrow> selectPublicCandidates (yev_Addresses e)) = candidatesOf q" for q
          by (simp add: candidatesOf_def)
        show ?thesis
        proof (cases "candidatesOf ?r = []")
          case empty: True
          with hop live True live' ok 3 show ?thesis
            by (auto simp: observeHop_def Let_def hop_end_def candidatesOf_def)
        next
          case False
          obtain h' where loop: "observeAttempts u w ob t (n + 2) ?h (candidatesOf ?r) = (n', h', r)" "ho = Some h'"
            using hop live True live' 3 False by (auto simp: observeHop_def Let_def cs split: prod.splits)
          show ?thesis
            using observeAttempts_ok [OF loop(1) ok, of "[]"] 3 False loop(2) by (simp add: selectedOf_def)
        qed
      qed
    qed
  qed
qed

end
