(* ===== verification/WebPathChain.thy ===== *)
theory WebPathChain
  imports WebPathProps
begin

text \<open>
  The chain of hops of a Web path: the invariant of the loop that follows redirects, and what the
  validator makes of the recorded hops.
\<close>

section \<open>Linked hops\<close>

text \<open>A hop leads to a URL when its last attempt is a redirect whose target is that URL.\<close>

definition leads_to :: "'a unitab_scheme \<Rightarrow> Hop \<times> url \<Rightarrow> url \<Rightarrow> bool" where
  "leads_to u z t \<longleftrightarrow> (\<exists>s. successfulAttempt (fst z) = Some s \<and> isRedirectStatus (whttp_StatusCode (httpOf s)) \<and>
     redirectTarget u (snd z) (httpOf s) = Inr t)"

definition linked :: "'a unitab_scheme \<Rightarrow> Platform \<Rightarrow> (Hop \<times> url) list \<Rightarrow> bool" where
  "linked u platform zs \<longleftrightarrow> (\<forall>z \<in> set zs. hop_ok u platform (snd z) (fst z)) \<and>
     successively (\<lambda>z z'. leads_to u z (snd z')) zs"

text \<open>How the answer of the last hop ends a chain.\<close>

definition answer_end :: "'a unitab_scheme \<Rightarrow> (Hop \<times> url) list \<Rightarrow> WebResult \<Rightarrow> WEnd \<Rightarrow> bool" where
  "answer_end u zs s e \<longleftrightarrow>
     (if \<not> isRedirectStatus (whttp_StatusCode (httpOf s))
      then e = \<lparr>we_status = WCompleted, we_reason = WStopFinalResponse, we_detail = ''''\<rparr>
      else we_status e = WStopped \<and>
       (we_reason e = WStopRedirectLimit \<and> length zs = 4 \<or>
        (\<exists>err. redirectTarget u (snd (last zs)) (httpOf s) = Inl (we_reason e, err)) \<or>
        we_reason e = WStopRedirectLoop \<and> (\<exists>t. redirectTarget u (snd (last zs)) (httpOf s) = Inr t \<and>
          urlString t \<in> urlString ` snd ` set zs)))"

definition chain_end :: "'a unitab_scheme \<Rightarrow> (Hop \<times> url) list \<Rightarrow> WEnd \<Rightarrow> bool" where
  "chain_end u zs e \<longleftrightarrow> interrupted e \<or>
     zs \<noteq> [] \<and> (hop_end (fst (last zs)) e \<or> (\<exists>s. successfulAttempt (fst (last zs)) = Some s \<and> answer_end u zs s e))"

text \<open>The report so far: the hops of earlier chains, then those of this one.\<close>

definition recorded :: "WPathBuilder \<Rightarrow> (Hop \<times> url) list \<Rightarrow> WPathBuilder \<Rightarrow> bool" where
  "recorded b0 zs b \<longleftrightarrow> xb_input b = xb_input b0 \<and> xb_fallbackUsed b = xb_fallbackUsed b0 \<and>
     xb_hops b = xb_hops b0 @ map fst zs \<and> xb_redirectsFollowed b = int (length zs) - (if zs = [] then 0 else 1)"

text \<open>The state at the head of the loop.\<close>

definition chain_inv :: "'a unitab_scheme \<Rightarrow> Platform \<Rightarrow> WPathBuilder \<Rightarrow> url \<Rightarrow> (Hop \<times> url) list \<Rightarrow> url \<Rightarrow>
    string set \<Rightarrow> bool \<Rightarrow> bool \<Rightarrow> WPathBuilder \<Rightarrow> bool" where
  "chain_inv u platform b0 init zs current seen had pending b \<longleftrightarrow>
     linked u platform zs \<and> recorded b0 zs b \<and> web_url u current \<and> length zs \<le> 3 \<and>
     had = (zs \<noteq> []) \<and> pending = (zs \<noteq> []) \<and> seen = urlString ` (snd ` set zs \<union> {current}) \<and>
     (if zs = [] then current = init else snd (hd zs) = init \<and> leads_to u (last zs) current)"

lemma linked_snoc:
  assumes "linked u platform zs" "hop_ok u platform t h" "zs \<noteq> [] \<Longrightarrow> leads_to u (last zs) t"
  shows "linked u platform (zs @ [(h, t)])"
  using assms by (auto simp: linked_def successively_append_iff)

lemma linked_prefix: "linked u platform (zs @ ys) \<Longrightarrow> linked u platform zs"
  by (auto simp: linked_def successively_append_iff)

lemma observeChain_ok:
  assumes "observeChain u w ob n current seen had pending b = (n', b', r)"
    and "chain_inv u (xo_platform ob) b0 init zs current seen had pending b"
  shows "\<exists>zs'. linked u (xo_platform ob) zs' \<and> recorded b0 zs' b' \<and> length zs' \<le> 4 \<and>
    (zs' \<noteq> [] \<longrightarrow> snd (hd zs') = init) \<and> chain_end u zs' (cr_end r) \<and>
    (\<not> cr_hadResponse r \<longrightarrow> length zs' \<le> 1)"
  using assms
proof (induction u w ob n current seen had pending b arbitrary: zs rule: observeChain.induct)
  case (1 u w ob n current seen had pending b)
  have inv: "linked u (xo_platform ob) zs" "recorded b0 zs b" "web_url u current" "length zs \<le> 3" "had = (zs \<noteq> [])"
    "pending = (zs \<noteq> [])" "seen = urlString ` (snd ` set zs \<union> {current})"
    "zs \<noteq> [] \<Longrightarrow> snd (hd zs) = init \<and> leads_to u (last zs) current" "zs = [] \<Longrightarrow> current = init"
    using "1.prems"(2) by (auto simp: chain_inv_def split: if_splits)
  obtain n1 ho hr where hop: "observeHop u w ob current n = (n1, ho, hr)" by (metis prod_cases3)
  note h = observeHop_ok [OF hop inv(3)]
  show ?case
  proof (cases ho)
    case None
    then obtain e where "hr = Inl e" "interrupted e" using h by auto
    with None hop "1.prems"(1) inv show ?thesis
      by (subst (asm) observeChain.simps) (auto intro!: exI [of _ zs] simp: chain_end_def)
  next
    case (Some hp)
    let ?zs = "zs @ [(hp, current)]"
    let ?b = "b\<lparr>xb_redirectsFollowed := xb_redirectsFollowed b + (if pending then 1 else 0), xb_hops := xb_hops b @ [hp]\<rparr>"
    have ok: "hop_ok u (xo_platform ob) current hp" using h Some by simp
    have lk: "linked u (xo_platform ob) ?zs" by (rule linked_snoc [OF inv(1) ok]) (use inv in simp)
    have rec: "recorded b0 ?zs ?b" using inv(2,6) by (auto simp: recorded_def)
    have init: "snd (hd ?zs) = init" using inv(8,9) by (cases zs) auto
    have len: "length ?zs \<le> 4" using inv(4) by simp
    have seen: "urlString ` snd ` set ?zs = seen" using inv(7) by auto
    have had: "\<not> had \<Longrightarrow> length ?zs \<le> 1" using inv(5) by simp
    note base = lk rec init len
    show ?thesis
    proof (cases hr)
      case (Inl e)
      then have "interrupted e \<or> hop_end hp e" using h Some by simp
      with Inl Some hop "1.prems"(1) base had show ?thesis
        by (subst (asm) observeChain.simps) (auto intro!: exI [of _ ?zs] simp: chain_end_def)
    next
      case (Inr x)
      then have x: "successfulAttempt hp = Some x" "Validate_web u x = None" "env_outcome x = OutcomeSucceeded"
        using h Some by auto
      obtain ev where ev: "env_evidence x = Some ev" using attempt_success_evidence [OF x(2,3)] by blast
      have http: "httpOf x = wev_HTTP ev" using ev by (simp add: httpOf_def)
      have fin: ?thesis if "b' = ?b" "answer_end u ?zs x (cr_end r)" "cr_hadResponse r"
        using that base x(1) by (intro exI [of _ ?zs]) (auto simp: chain_end_def)
      note eq = "1.prems"(1)[unfolded observeChain.simps [of u w ob n current seen had pending b], simplified hop Some Inr Let_def
          prod.case option.case sum.case ev]
      show ?thesis
      proof (cases "isRedirectStatus (whttp_StatusCode (wev_HTTP ev))")
        case False
        with eq show ?thesis by (intro fin) (auto simp: answer_end_def http)
      next
        case redirect: True
        show ?thesis
        proof (cases "redirectLimit \<le> xb_redirectsFollowed ?b")
          case True
          moreover have "length ?zs = 4" using True rec len by (simp add: recorded_def redirectLimit_def)
          ultimately show ?thesis using eq redirect by (intro fin) (auto simp: answer_end_def http)
        next
          case below: False
          show ?thesis
          proof (cases "redirectTarget u current (wev_HTTP ev)")
            case (Inl re)
            then show ?thesis using eq redirect below by (cases re; intro fin) (auto simp: answer_end_def http)
          next
            case (Inr t)
            show ?thesis
            proof (cases "urlString t \<in> seen")
              case True
              then show ?thesis using eq redirect below Inr seen by (intro fin) (auto simp: answer_end_def http)
            next
              case False
              have call: "observeChain u w ob n1 t (insert (urlString t) seen) True True ?b = (n', b', r)"
                using eq redirect below Inr False by simp
              have lead: "leads_to u (last ?zs) t" using x(1) redirect Inr http by (auto simp: leads_to_def)
              have inv': "chain_inv u (xo_platform ob) b0 init ?zs t (insert (urlString t) seen) True True ?b"
                unfolding chain_inv_def
                using lk rec redirectTarget_web [OF Inr] lead init seen rec below
                by (auto simp: recorded_def redirectLimit_def)
              show ?thesis
                by (rule "1.IH" [OF hop [symmetric] refl refl _ _ _ _ _ _ _ _ call inv'])
                  (use Some \<open>hr = Inr x\<close> ev redirect below Inr False in auto)
            qed
          qed
        qed
      qed
    qed
  qed
qed


section \<open>What the validator makes of them\<close>

definition parsed_as :: "Hop \<times> url \<Rightarrow> Hop \<times> url \<Rightarrow> bool" where
  "parsed_as z z' \<longleftrightarrow> fst z' = fst z \<and> same_url (snd z) (snd z') \<and> urlString (snd z') = urlString (snd z)"

lemma validateHops_ok:
  "(\<And>z. z \<in> set zs \<Longrightarrow> hop_ok u platform (snd z) (fst z)) \<Longrightarrow>
   \<exists>ps. validateHops u platform (map fst zs) = Inr ps \<and> list_all2 parsed_as zs (zip (map fst zs) ps)"
proof (induction zs)
  case (Cons z zs)
  have ok: "hop_ok u platform (snd z) (fst z)" using Cons.prems by simp
  then obtain p where p: "validateHop u platform (fst z) = Inr p" "same_url (snd z) p" "web_url u p"
    using validateHop_ok by blast
  moreover have "urlString p = urlString (snd z)" using same_url_text [OF p(2) _ p(3)] ok by (simp add: hop_ok_def)
  then have "parsed_as z (fst z, p)" using p(2) by (simp add: parsed_as_def)
  moreover obtain ps where "validateHops u platform (map fst zs) = Inr ps" "list_all2 parsed_as zs (zip (map fst zs) ps)"
    using Cons by auto
  ultimately show ?case by auto
qed simp

lemma leads_to_parsed:
  assumes "leads_to u z t" "parsed_as z z'"
  shows "\<exists>s t'. successfulAttempt (fst z') = Some s \<and> isRedirectStatus (whttp_StatusCode (httpOf s)) \<and>
    redirectTarget u (snd z') (httpOf s) = Inr t' \<and> urlString t' = urlString t"
proof -
  obtain s where s: "successfulAttempt (fst z) = Some s" "isRedirectStatus (whttp_StatusCode (httpOf s))"
    "redirectTarget u (snd z) (httpOf s) = Inr t"
    using assms(1) by (auto simp: leads_to_def)
  then show ?thesis
    using assms(2) redirectTarget_same [of "snd z" "snd z'" u "httpOf s"] by (auto simp: parsed_as_def)
qed

lemma validateTransitions_ok:
  assumes "linked u platform zs" "list_all2 parsed_as zs ys"
  shows "validateTransitions u fb False c ys = Inr (c + int (length zs) - (if zs = [] then 0 else 1))"
  using assms
proof (induction ys arbitrary: zs c)
  case (Cons y ys)
  then obtain z zs' where z: "zs = z # zs'" "parsed_as z y" "list_all2 parsed_as zs' ys" by (auto simp: list_all2_Cons2)
  show ?case
  proof (cases ys)
    case Nil
    with z show ?thesis by simp
  next
    case (Cons y2 ys')
    then obtain z2 zs2 where z2: "zs' = z2 # zs2" "parsed_as z2 y2" using z(3) by (auto simp: list_all2_Cons2)
    have l: "leads_to u z (snd z2)" "linked u platform zs'" "hop_ok u platform (snd z2) (fst z2)"
      using Cons.prems(1) z(1) z2(1) by (auto simp: linked_def)
    have u2: "hop_URL (fst y2) = urlString (snd z2)" using l(3) z2(2) by (simp add: hop_ok_def parsed_as_def)
    from leads_to_parsed [OF l(1) z(2)] obtain s t' where s: "successfulAttempt (fst y) = Some s"
      "isRedirectStatus (whttp_StatusCode (httpOf s))" "redirectTarget u (snd y) (httpOf s) = Inr t'" "urlString t' = urlString (snd z2)"
      by blast
    show ?thesis
      using Cons.IH [OF l(2) z(3), of "c + 1"] s u2 z z2 Cons by simp
  qed
qed simp


lemma parsed_last:
  assumes "list_all2 parsed_as zs ys" "zs \<noteq> []"
  shows "ys \<noteq> []" "parsed_as (last zs) (last ys)"
  using assms by (induction rule: list_all2_induct) (auto split: if_splits)

text \<open>The final reason fits the last hop; other hops may come first.\<close>

lemma validateTerminalEvidence_ok:
  assumes e: "chain_end u zs e" and ys: "list_all2 parsed_as zs ys"
    and r: "wp_Status r = we_status e" "wp_StopReason r = we_reason e"
    and n: "length zs = 4 \<Longrightarrow> wp_RedirectsFollowed r = redirectLimit"
  shows "validateTerminalEvidence u r (pre @ ys) = None"
proof (cases "interrupted e")
  case True
  then show ?thesis by (auto simp: validateTerminalEvidence_def interrupted_def r)
next
  case False
  then have ne: "zs \<noteq> []" using e by (simp add: chain_end_def)
  note p = parsed_last [OF ys ne]
  have last: "last (pre @ ys) = (fst (last zs), snd (last ys))" "pre @ ys \<noteq> []"
    using p by (auto simp: parsed_as_def prod_eq_iff)
  have same: "same_url (snd (last zs)) (snd (last ys))" using p(2) by (simp add: parsed_as_def)
  consider (hop) "hop_end (fst (last zs)) e" | (answer) s where "successfulAttempt (fst (last zs)) = Some s" "answer_end u zs s e"
    using e False ne by (auto simp: chain_end_def)
  then show ?thesis
  proof cases
    case hop
    then show ?thesis using last(2)
      by (auto simp: validateTerminalEvidence_def last(1) hop_end_def r guard_def Let_def)
  next
    case (answer s)
    show ?thesis
    proof (cases "isRedirectStatus (whttp_StatusCode (httpOf s))")
      case False
      with answer last(2) show ?thesis
        by (auto simp: validateTerminalEvidence_def last(1) answer_end_def r guard_def Let_def)
    next
      case True
      then consider (limit) "we_reason e = WStopRedirectLimit" "length zs = 4"
        | (target) err where "redirectTarget u (snd (last zs)) (httpOf s) = Inl (we_reason e, err)"
        | (loop) t where "we_reason e = WStopRedirectLoop" "redirectTarget u (snd (last zs)) (httpOf s) = Inr t"
            "urlString t \<in> urlString ` snd ` set zs"
        using answer(2) by (auto simp: answer_end_def)
      then show ?thesis
      proof cases
        case limit
        with n answer True last(2) show ?thesis
          by (auto simp: validateTerminalEvidence_def last(1) r guard_def Let_def)
      next
        case target
        with redirectTarget_same [OF same, of u "httpOf s"]
        have t': "redirectTarget u (snd (last ys)) (httpOf s) = Inl (we_reason e, err)" by simp
        from redirectTarget_reasons [OF this] t' answer True last(2) show ?thesis
          by (auto simp: validateTerminalEvidence_def last(1) r guard_def Let_def)
      next
        case loop
        with redirectTarget_same [OF same, of u "httpOf s"]
        obtain t' where t': "redirectTarget u (snd (last ys)) (httpOf s) = Inr t'" "urlString t' = urlString t" by auto
        obtain k where k: "k < length zs" "urlString (snd (zs ! k)) = urlString t"
          using loop(3) by (auto simp: in_set_conv_nth)
        then have q: "parsed_as (zs ! k) (ys ! k)" "k < length ys" using ys by (auto simp: list_all2_conv_all_nth)
        have "urlString (snd (ys ! k)) = urlString (snd (zs ! k))" using q(1) by (simp add: parsed_as_def)
        then have "list_ex (\<lambda>(h, prior). urlString prior = urlString t') (pre @ ys)"
          using q(2) k t'(2) by (auto simp: list_ex_iff split_beta intro!: bexI [of _ "ys ! k"])
        with loop t' answer True last(2) show ?thesis
          by (auto simp: validateTerminalEvidence_def last(1) r guard_def Let_def)
      qed
    qed
  qed
qed

end
