(* ===== verification/WebPathClaims.thy ===== *)
theory WebPathClaims
  imports WebPathChain WebClaims
begin

text \<open>
  The report of a Web path passes its own validator, and the bounds of its chains.
\<close>

section \<open>The report\<close>

lemma finish_wpath_sel [simp]:
  "wp_SchemaVersion (finish_wpath w ob b e) = SchemaVersion_wpath" "wp_Operation (finish_wpath w ob b e) = Operation_wpath"
  "wp_ObservedAt (finish_wpath w ob b e) = UTC (xw_now w 1)" "\<not> wp_DurationMS (finish_wpath w ob b e) < 0"
  "wp_Platform (finish_wpath w ob b e) = xo_platform ob" "wp_Input (finish_wpath w ob b e) = xb_input b"
  "wp_Status (finish_wpath w ob b e) = we_status e" "wp_StopReason (finish_wpath w ob b e) = we_reason e"
  "wp_Detail (finish_wpath w ob b e) = we_detail e" "wp_RedirectsFollowed (finish_wpath w ob b e) = xb_redirectsFollowed b"
  "wp_HTTPFallbackUsed (finish_wpath w ob b e) = xb_fallbackUsed b" "wp_Hops (finish_wpath w ob b e) = Some (xb_hops b)"
  by (simp_all add: finish_wpath_def Let_def)

lemma chain_end_pair:
  assumes "chain_end u zs e"
  shows "validateTerminalPair (we_status e) (we_reason e) = None"
    and "\<not> (we_status e = WStopped \<and> we_reason e = WStopInvalidInput)"
    and "we_status e = WCompleted \<Longrightarrow> we_detail e = ''''"
  using assms redirectTarget_reasons
  by (auto simp: chain_end_def interrupted_def hop_end_def answer_end_def guard_def validStoppedReason_def split: if_splits)
    (fastforce dest: redirectTarget_reasons)+

text \<open>The recorded hops: those of the chain that ended the path, after the exhausted one of a fallback.\<close>

definition fallback_prefix :: "'a unitab_scheme \<Rightarrow> Platform \<Rightarrow> (Hop \<times> url) list \<Rightarrow> bool" where
  "fallback_prefix u platform pre \<longleftrightarrow> pre = [] \<or>
     (\<exists>z. pre = [z] \<and> hop_ok u platform (snd z) (fst z) \<and> exhaustedPublicCandidates (fst z))"

lemma validateHopSequence_ok:
  assumes pre: "fallback_prefix u (wp_Platform r) pre" and zs: "linked u (wp_Platform r) zs" "chain_end u zs e" "length zs \<le> 4"
    and r: "wp_Status r = we_status e" "wp_StopReason r = we_reason e" "wp_HTTPFallbackUsed r = (pre \<noteq> [])"
      "wp_RedirectsFollowed r = int (length zs) - (if zs = [] then 0 else 1)"
    and fb: "pre \<noteq> [] \<Longrightarrow> zs \<noteq> [] \<Longrightarrow> urlString (snd (hd zs)) = ''http://'' @ xin_Hostname (wp_Input r) @ ''/''"
  shows "validateHopSequence u r (map fst (pre @ zs)) = None"
proof -
  have ok: "hop_ok u (wp_Platform r) (snd z) (fst z)" if "z \<in> set (pre @ zs)" for z
    using that pre zs(1) by (auto simp: fallback_prefix_def linked_def)
  from validateHops_ok [of "pre @ zs", OF ok] obtain ps where
    ps: "validateHops u (wp_Platform r) (map fst (pre @ zs)) = Inr ps" "list_all2 parsed_as (pre @ zs) (zip (map fst (pre @ zs)) ps)"
    by auto
  then obtain xs ys where ys: "zip (map fst (pre @ zs)) ps = xs @ ys" "list_all2 parsed_as pre xs" "list_all2 parsed_as zs ys"
    by (auto simp: list_all2_append1)
  have terminal: "validateTerminalEvidence u r (xs @ ys) = None"
    by (rule validateTerminalEvidence_ok [OF zs(2) ys(3) r(1,2)]) (auto simp: r redirectLimit_def)
  have empty: "zs = [] \<Longrightarrow> interrupted e" using zs(2) by (simp add: chain_end_def)
  have moves: "validateTransitions u (''http://'' @ xin_Hostname (wp_Input r) @ ''/'') (pre \<noteq> []) 0 (xs @ ys) =
      Inr (int (length zs) - (if zs = [] then 0 else 1))"
  proof (cases pre)
    case Nil
    with ys(2) validateTransitions_ok [OF zs(1) ys(3)] show ?thesis by simp
  next
    case (Cons z rest)
    with pre have z: "pre = [z]" "exhaustedPublicCandidates (fst z)" by (auto simp: fallback_prefix_def)
    with ys(2) obtain x where x: "xs = [x]" "fst x = fst z" by (auto simp: list_all2_Cons1 parsed_as_def)
    show ?thesis
    proof (cases zs)
      case Nil
      with ys(3) x z show ?thesis by simp
    next
      case (Cons z2 zs2)
      then obtain y ys2 where y: "ys = y # ys2" "parsed_as z2 y" using ys(3) by (auto simp: list_all2_Cons1)
      have "hop_ok u (wp_Platform r) (snd z2) (fst z2)" using ok Cons by simp
      then have "hop_URL (fst y) = ''http://'' @ xin_Hostname (wp_Input r) @ ''/''"
        using fb z(1) Cons y(2) by (simp add: hop_ok_def parsed_as_def)
      with validateTransitions_ok [OF zs(1) ys(3)] x z y Cons show ?thesis by simp
    qed
  qed
  obtain hs where hs: "hs = map fst (pre @ zs)" by blast
  have hd: "pre \<noteq> [] \<Longrightarrow> hs \<noteq> [] \<and> exhaustedPublicCandidates (hd hs)"
    using pre by (auto simp: fallback_prefix_def hs)
  have cut: "interrupted e" if "pre \<noteq> []" "length hs < 2"
    using that pre empty by (cases zs) (auto simp: fallback_prefix_def hs)
  have urls: "validateHops u (wp_Platform r) hs = Inr ps" "zip hs ps = xs @ ys" using ps(1) ys(1) by (simp_all add: hs)
  show ?thesis
    unfolding hs [symmetric] validateHopSequence_def urls sum.case r(3) moves r(4)
    using hd cut terminal by (auto simp: firstErr_simps guard_def interrupted_def r)
qed

text \<open>What holds of the report when a run ends.\<close>

definition report_ok :: "'a unitab_scheme \<Rightarrow> Platform \<Rightarrow> url \<Rightarrow> WPathInput \<Rightarrow> WPathBuilder \<Rightarrow> WEnd \<Rightarrow> bool" where
  "report_ok u platform init inp b e \<longleftrightarrow> (\<exists>pre zs. fallback_prefix u platform pre \<and> linked u platform zs \<and>
     chain_end u zs e \<and> length zs \<le> 4 \<and> xb_input b = inp \<and> xb_fallbackUsed b = (pre \<noteq> []) \<and>
     xb_hops b = map fst (pre @ zs) \<and> xb_redirectsFollowed b = int (length zs) - (if zs = [] then 0 else 1) \<and>
     (pre \<noteq> [] \<longrightarrow> snd (hd pre) = init) \<and>
     (zs \<noteq> [] \<longrightarrow> snd (hd zs) = (if pre = [] then init else init\<lparr>u_Scheme := SchemeHTTP\<rparr>)))"

lemma initial_web:
  assumes "NormalizeWebHostname u h = (h, None)" "s = SchemeHTTP \<or> s = SchemeHTTPS"
  shows "web_url u (emptyURL\<lparr>u_Scheme := s, u_Host := h, u_Path := ''/''\<rparr>)"
    and "urlString (emptyURL\<lparr>u_Scheme := s, u_Host := h, u_Path := ''/''\<rparr>) = s @ ''://'' @ h @ ''/''"
proof -
  let ?v = "emptyURL\<lparr>u_Scheme := s, u_Host := h, u_Path := ''/''\<rparr>"
  have path: "EscapedPath ?v = ''/''" by (simp add: EscapedPath_def escape_def slash_plain emptyURL_def)
  have "setPath emptyURL ''/'' = Some (emptyURL\<lparr>u_Path := ''/''\<rparr>)" by code_simp
  then have "\<exists>v0 p v1. setPath v0 p = Some v1 \<and> u_Path v1 = u_Path ?v \<and> u_RawPath v1 = u_RawPath ?v"
    by (intro exI conjI) (assumption | simp add: emptyURL_def)+
  moreover have "validateRawQuery '''' = None" by code_simp
  moreover have "length (requestTarget ''/'' '''') \<le> MaxWebRequestTargetBytes" by code_simp
  ultimately show w: "web_url u ?v" using assms path by (simp add: web_url_def) (simp add: emptyURL_def)
  show "urlString ?v = s @ ''://'' @ h @ ''/''"
    unfolding urlString_web [OF w] path by (simp add: requestTarget_def emptyURL_def)
qed

lemma Validate_wpath_report:
  assumes host: "NormalizeWebHostname u h = (h, None)"
    and init: "init = emptyURL\<lparr>u_Scheme := SchemeHTTPS, u_Host := h, u_Path := ''/''\<rparr>"
    and inp: "inp = fst (normalizeInput u \<lparr>xreq_Hostname = h\<rparr>)"
    and env: "\<not> IsZero (xw_now w 1)" "plat_os (xo_platform ob) \<noteq> ''''" "plat_arch (xo_platform ob) \<noteq> ''''"
    and rep: "report_ok u (xo_platform ob) init inp b e"
  shows "Validate_wpath u (finish_wpath w ob b e) = None"
proof -
  let ?r = "finish_wpath w ob b e" and ?init = "\<lambda>s. emptyURL\<lparr>u_Scheme := s, u_Host := h, u_Path := ''/''\<rparr>"
  have inp': "normalizeInput u \<lparr>xreq_Hostname = h\<rparr> = (inp, Some init, None)" "xin_Hostname inp = h"
    "xin_InitialURL inp = ''https://'' @ h @ ''/''"
    using host by (simp_all add: inp init normalizeInput_def)
  obtain pre zs where z: "fallback_prefix u (xo_platform ob) pre" "linked u (xo_platform ob) zs" "chain_end u zs e" "length zs \<le> 4"
    "xb_input b = inp" "xb_fallbackUsed b = (pre \<noteq> [])" "xb_hops b = map fst (pre @ zs)"
    "xb_redirectsFollowed b = int (length zs) - (if zs = [] then 0 else 1)" "pre \<noteq> [] \<longrightarrow> snd (hd pre) = init"
    "zs \<noteq> [] \<longrightarrow> snd (hd zs) = (if pre = [] then init else init\<lparr>u_Scheme := SchemeHTTP\<rparr>)"
    using rep by (auto simp: report_ok_def)
  have switch: "init\<lparr>u_Scheme := SchemeHTTP\<rparr> = ?init SchemeHTTP" by (simp add: init emptyURL_def)
  have urls: "urlString init = ''https://'' @ h @ ''/''" "urlString (init\<lparr>u_Scheme := SchemeHTTP\<rparr>) = ''http://'' @ h @ ''/''"
    using initial_web(2) [OF host, of SchemeHTTPS] initial_web(2) [OF host, of SchemeHTTP]
    unfolding switch unfolding init by (simp_all add: SchemeHTTP_def SchemeHTTPS_def)
  have seq: "validateHopSequence u ?r (map fst (pre @ zs)) = None"
    by (rule validateHopSequence_ok [OF _ _ z(3)]) (use z inp' urls in auto)
  have first: "hop_URL (hd (xb_hops b)) = ''https://'' @ h @ ''/''" if "xb_hops b \<noteq> []"
  proof (cases pre)
    case Nil
    then have "zs \<noteq> []" "hop_ok u (xo_platform ob) (snd (hd zs)) (fst (hd zs))"
      using that z(2,7) hd_in_set [of zs] by (auto simp: linked_def)
    with Nil z(7,10) urls show ?thesis by (simp add: hop_ok_def hd_map)
  next
    case (Cons q qs)
    with z(1,7,9) urls show ?thesis by (auto simp: fallback_prefix_def hop_ok_def)
  qed
  have len: "int (length (xb_hops b)) \<le> redirectLimit + 1 + (if xb_fallbackUsed b then 1 else 0)"
    using z(1,4,6,7) by (auto simp: fallback_prefix_def redirectLimit_def)
  have red: "0 \<le> xb_redirectsFollowed b" "xb_redirectsFollowed b \<le> redirectLimit"
    using z(4,8) by (cases zs; simp add: redirectLimit_def)+
  show ?thesis
    using env inp' z(5) seq [folded z(7)] first len red chain_end_pair [OF z(3)]
    by (auto simp: Validate_wpath_def Let_def firstErr.simps guard_def)
qed


lemma recorded_self: "xb_redirectsFollowed b = 0 \<Longrightarrow> recorded b [] b"
  by (simp add: recorded_def)

lemma chain_inv_start:
  assumes "web_url u t" "xb_redirectsFollowed b = 0"
  shows "chain_inv u platform b t [] t {urlString t} False False b"
  using assms by (simp add: chain_inv_def linked_def recorded_self)

lemma observeChains_ok:
  assumes run: "observeChains u w ob init b0 = (n, b, e)"
    and init: "web_url u init" "web_url u (init\<lparr>u_Scheme := SchemeHTTP\<rparr>)"
    and b0: "b0 = \<lparr>xb_input = inp, xb_hops = [], xb_redirectsFollowed = 0, xb_fallbackUsed = False\<rparr>"
  shows "report_ok u (xo_platform ob) init inp b e"
proof -
  obtain n1 b1 c1 where one: "observeChain u w ob 1 init {urlString init} False False b0 = (n1, b1, c1)" by (metis prod_cases3)
  have start: "chain_inv u (xo_platform ob) b0 init [] init {urlString init} False False b0"
    by (rule chain_inv_start) (simp_all add: init b0)
  obtain zs where z: "linked u (xo_platform ob) zs" "recorded b0 zs b1" "length zs \<le> 4" "zs \<noteq> [] \<longrightarrow> snd (hd zs) = init"
    "chain_end u zs (cr_end c1)" "\<not> cr_hadResponse c1 \<longrightarrow> length zs \<le> 1"
    using observeChain_ok [OF one start] by blast
  show ?thesis
  proof (cases "we_status (cr_end c1) = WStopped \<and> we_reason (cr_end c1) = WStopAllCandidatesFailed \<and>
         \<not> cr_hadResponse c1 \<and> ctxErrAt (pathCtx w ob) (5 * n1) = None")
    case False
    with run one have "b = b1" "e = cr_end c1" by (auto simp: observeChains_def split: if_splits)
    with z b0 show ?thesis
      unfolding report_ok_def by (intro exI [of _ "[]"] exI [of _ zs]) (auto simp: recorded_def fallback_prefix_def)
  next
    case True
    let ?b = "b1\<lparr>xb_fallbackUsed := True\<rparr>" and ?f = "init\<lparr>u_Scheme := SchemeHTTP\<rparr>"
    have "\<not> interrupted (cr_end c1)" using True by (simp add: interrupted_def)
    moreover have "\<not> answer_end u zs s (cr_end c1)" for s
      using True redirectTarget_reasons by (auto simp: answer_end_def dest: redirectTarget_reasons)
    ultimately have "zs \<noteq> []" "hop_end (fst (last zs)) (cr_end c1)" using z(5) by (auto simp: chain_end_def)
    then obtain y where y: "zs = [y]" "exhaustedPublicCandidates (fst y)"
      using z(6) True by (cases zs) (auto simp: hop_end_def)
    have pre: "fallback_prefix u (xo_platform ob) [y]" using z(1) y by (simp add: fallback_prefix_def linked_def)
    obtain n2 c2 where two: "observeChain u w ob (n1 + 1) ?f {urlString ?f} False False ?b = (n2, b, c2)" "e = cr_end c2"
      using run one True by (auto simp: observeChains_def Let_def split: prod.splits)
    have start2: "chain_inv u (xo_platform ob) ?b ?f [] ?f {urlString ?f} False False ?b"
      by (rule chain_inv_start [OF init(2)]) (use z(2) y in \<open>simp add: recorded_def\<close>)
    obtain zs2 where z2: "linked u (xo_platform ob) zs2" "recorded ?b zs2 b" "length zs2 \<le> 4"
      "zs2 \<noteq> [] \<longrightarrow> snd (hd zs2) = ?f" "chain_end u zs2 e"
      using observeChain_ok [OF two(1) start2] two(2) by blast
    have hops: "xb_hops b1 = [fst y]" "xb_input b1 = inp" using z(2) y b0 by (simp_all add: recorded_def)
    show ?thesis
      unfolding report_ok_def
      by (intro exI [of _ "[y]"] exI [of _ zs2]) (use pre z2 z(4) y hops in \<open>auto simp: recorded_def\<close>)
  qed
qed

text \<open>A run that is cut short at the end keeps its report.\<close>

lemma report_interrupted: "report_ok u platform init inp b e \<Longrightarrow> interrupted e' \<Longrightarrow> report_ok u platform init inp b e'"
  unfolding report_ok_def chain_end_def by blast

lemma report_empty:
  assumes "interrupted e"
  shows "report_ok u platform init inp \<lparr>xb_input = inp, xb_hops = [], xb_redirectsFollowed = 0, xb_fallbackUsed = False\<rparr> e"
  using assms unfolding report_ok_def
  by (intro exI [of _ "[]"]) (auto simp: fallback_prefix_def linked_def chain_end_def)

text \<open>The clock and the platform of an observer.\<close>

definition wpath_env_ok :: "WPathWorld \<Rightarrow> WPathObserver \<Rightarrow> bool" where
  "wpath_env_ok w ob \<longleftrightarrow> (\<forall>n. \<not> IsZero (xw_now w n)) \<and> plat_os (xo_platform ob) \<noteq> '''' \<and> plat_arch (xo_platform ob) \<noteq> ''''"

lemma Observe_wpath_report:
  assumes env: "wpath_env_ok w ob" and h: "NormalizeWebHostname u (xreq_Hostname request) = (h, None)"
    and init: "init = emptyURL\<lparr>u_Scheme := SchemeHTTPS, u_Host := h, u_Path := ''/''\<rparr>"
  shows "\<exists>b e. Observe_wpath u w ob request = finish_wpath w ob b e \<and> NormalizeWebHostname u h = (h, None) \<and>
    report_ok u (xo_platform ob) init (fst (normalizeInput u \<lparr>xreq_Hostname = h\<rparr>)) b e"
proof -
  have host: "NormalizeWebHostname u h = (h, None)" using NormalizeWebHostname_fixed h by blast
  let ?inp = "fst (normalizeInput u \<lparr>xreq_Hostname = h\<rparr>)"
  have n: "normalizeInput u request = (?inp, Some init, None)" using h host by (simp add: normalizeInput_def init)
  let ?b = "\<lparr>xb_input = ?inp, xb_hops = [], xb_redirectsFollowed = 0, xb_fallbackUsed = False\<rparr>"
  have web: "web_url u init" "web_url u (init\<lparr>u_Scheme := SchemeHTTP\<rparr>)"
    using initial_web(1) [OF host, of SchemeHTTPS] initial_web(1) [OF host, of SchemeHTTP]
    by (simp_all add: init emptyURL_def)
  show ?thesis
  proof (cases "terminalContext_wpath (xw_ctx w) (xw_ctx w) 0")
    case (Some e)
    with n have "Observe_wpath u w ob request = finish_wpath w ob ?b e" by (simp add: Observe_wpath_def)
    with host report_empty [OF terminalContext_interrupted [OF Some]] show ?thesis by blast
  next
    case None
    obtain k b e where run: "observeChains u w ob init ?b = (k, b, e)" by (metis prod_cases3)
    note rep = observeChains_ok [OF run web refl]
    show ?thesis
      using n None run host rep report_interrupted [OF rep terminalContext_interrupted, of "xw_ctx w" "pathCtx w ob" k]
      by (cases "terminalNow w ob k") (auto simp: Observe_wpath_def)
  qed
qed

lemma normalizeInput_unstable:
  assumes "webHostnameText u (webHostnameText u (xreq_Hostname request)) \<noteq> webHostnameText u (xreq_Hostname request)"
  shows "fst (normalizeInput u \<lparr>xreq_Hostname = xin_Hostname (fst (normalizeInput u request))\<rparr>) \<noteq> fst (normalizeInput u request)"
proof -
  have rec: "xin_Hostname (fst (normalizeInput u r)) = webHostnameText u (xreq_Hostname r)" for r
    by (simp add: normalizeInput_def NormalizeWebHostname_def Let_def split: option.split)
  have "xin_Hostname (fst (normalizeInput u \<lparr>xreq_Hostname = xin_Hostname (fst (normalizeInput u request))\<rparr>)) \<noteq>
      xin_Hostname (fst (normalizeInput u request))"
    using assms by (simp only: rec WPathRequest.simps) simp
  then show ?thesis by metis
qed

lemma Validate_wpath_input:
  "Validate_wpath u R = None \<Longrightarrow> fst (normalizeInput u \<lparr>xreq_Hostname = xin_Hostname (wp_Input R)\<rparr>) = wp_Input R"
  by (auto simp: Validate_wpath_def Let_def firstErr_simps split: prod.splits option.splits)

lemma Observe_wpath_ok:
  assumes env: "wpath_env_ok w ob"
    and stable: "webHostnameText u (webHostnameText u (xreq_Hostname request)) = webHostnameText u (xreq_Hostname request)"
  shows "Validate_wpath u (Observe_wpath u w ob request) = None"
proof -
  obtain h he where h: "NormalizeWebHostname u (xreq_Hostname request) = (h, he)" by (metis prod.collapse)
  show ?thesis
  proof (cases he)
    case None
    with Observe_wpath_report [OF env, of u request h, OF _ refl] h obtain b e where
      "Observe_wpath u w ob request = finish_wpath w ob b e" "NormalizeWebHostname u h = (h, None)"
      "report_ok u (xo_platform ob) (emptyURL\<lparr>u_Scheme := SchemeHTTPS, u_Host := h, u_Path := ''/''\<rparr>)
        (fst (normalizeInput u \<lparr>xreq_Hostname = h\<rparr>)) b e"
      by blast
    with Validate_wpath_report [OF this(2) refl refl _ _ _ this(3)] env show ?thesis by (simp add: wpath_env_ok_def)
  next
    case (Some er)
    have again: "NormalizeWebHostname u h = (h, Some er)"
      using NormalizeWebHostname_again [OF stable] h Some by simp
    obtain inp where n: "normalizeInput u request = (inp, None, Some er)" "normalizeInput u \<lparr>xreq_Hostname = xin_Hostname inp\<rparr> = (inp, None, Some er)"
      using h again Some by (simp add: normalizeInput_def)
    with env show ?thesis
      by (simp add: Observe_wpath_def Validate_wpath_def Let_def firstErr.simps guard_def wpath_env_ok_def redirectLimit_def)
  qed
qed

lemma Observe_wpath_decided:
  assumes env: "wpath_env_ok w ob"
  shows "Validate_wpath u (Observe_wpath u w ob request) = None \<longleftrightarrow>
    webHostnameText u (webHostnameText u (xreq_Hostname request)) = webHostnameText u (xreq_Hostname request)"
proof
  assume v: "Validate_wpath u (Observe_wpath u w ob request) = None"
  show "webHostnameText u (webHostnameText u (xreq_Hostname request)) = webHostnameText u (xreq_Hostname request)"
  proof (rule ccontr)
    assume c: "webHostnameText u (webHostnameText u (xreq_Hostname request)) \<noteq> webHostnameText u (xreq_Hostname request)"
    obtain h he where h: "NormalizeWebHostname u (xreq_Hostname request) = (h, he)" by (metis prod.collapse)
    have "he \<noteq> None"
    proof
      assume "he = None"
      with NormalizeWebHostname_fixed [of u "xreq_Hostname request" h] h have "NormalizeWebHostname u h = (h, None)" by simp
      with h c show False by (simp add: NormalizeWebHostname_def Let_def)
    qed
    then have "wp_Input (Observe_wpath u w ob request) = fst (normalizeInput u request)"
      using h by (auto simp: normalizeInput_def Observe_wpath_def Let_def split: option.splits)
    with Validate_wpath_input [OF v] normalizeInput_unstable [OF c] show False by simp
  qed
qed (rule Observe_wpath_ok [OF env])

end
