(* ===== verification/WebPathProbes.thy ===== *)
theory WebPathProbes
  imports WebPathClaims
begin

text \<open>
  The Web path over the probes it is built from: the requests it makes of the system resolver and of
  the Web observer are answered by evidence it accepts.
\<close>

section \<open>The requests of a path\<close>

lemma TrimSpace_host: "hostText h \<Longrightarrow> TrimSpace h = h"
proof (rule TrimSpace_graphic)
  assume "hostText h"
  then show "graphic h" by (auto simp: hostText_def graphic_def isGraph_def list_all_iff hostnameChar_def)
qed

lemma web_request_accepted:
  assumes t: "web_url u t" and c: "NormalizePublicIP c = (c, ip, None)"
  shows "\<exists>i tg. normalizeRequest_web u (webRequestFor t c) = (i, tg, None) \<and> win_Scheme i = u_Scheme t \<and>
    win_Hostname i = Hostname t \<and> win_DialIP i = c \<and> win_Path i = EscapedPath t \<and> win_RawQuery i = u_RawQuery t"
proof -
  obtain v0 p v1 where p: "setPath v0 p = Some v1" "u_Path v1 = u_Path t" "u_RawPath v1 = u_RawPath t"
    using t by (auto simp: web_url_def)
  have ep: "EscapedPath v1 = EscapedPath t" by (rule EscapedPath_cong) (simp_all add: p)
  have "u_Path v1 \<noteq> ''*''" "EscapedPath v1 \<noteq> ''''" "hd (EscapedPath v1) = CHR ''/''"
    "validateRawQuery (u_RawQuery t) = None" "length (requestTarget (EscapedPath v1) (u_RawQuery t)) \<le> MaxWebRequestTargetBytes"
    using t p ep by (simp_all add: web_url_def)
  from NormalizeWebRequestTarget_accepts [OF p(1) this] obtain raw where
    rt: "NormalizeWebRequestTarget (EscapedPath t) (u_RawQuery t) =
      (\<lparr>wt_EscapedPath = EscapedPath t, wt_Path = u_Path v1, wt_RawPath = raw, wt_RawQuery = u_RawQuery t\<rparr>, None)"
    unfolding ep by blast
  have scheme: "u_Scheme t = SchemeHTTP \<or> u_Scheme t = SchemeHTTPS" using t by (auto simp: web_url_def)
  then obtain port where s: "normalizeScheme u (u_Scheme t) = (u_Scheme t, port, None)"
    using known_scheme [OF scheme, of u] by (auto simp: normalizeScheme_def SchemeHTTP_def SchemeHTTPS_def)
  have h: "NormalizeWebHostname u (Hostname t) = (Hostname t, None)"
    using t Hostname_web(1) [OF t] by (simp add: web_url_def)
  show ?thesis
    using s h c rt by (auto simp: normalizeRequest_web_def webRequestFor_def normalizePublicIP_web_def firstErr.simps Let_def)
qed

section \<open>What the probes record\<close>

lemma Observe_web_records:
  "env_input (Observe_web u w ob r) = fst (normalizeRequest_web u r)"
  "env_platform (Observe_web u w ob r) = \<lparr>plat_os = ww_os w, plat_arch = ww_arch w\<rparr>"
proof -
  have f: "env_platform (failureResult_web w ob a b i oc c e) = \<lparr>plat_os = ww_os w, plat_arch = ww_arch w\<rparr>" for a b i oc c e
    by (simp add: failureResult_web_def)
  show "env_input (Observe_web u w ob r) = fst (normalizeRequest_web u r)"
    "env_platform (Observe_web u w ob r) = \<lparr>plat_os = ww_os w, plat_arch = ww_arch w\<rparr>"
    by (auto simp: Observe_web_def Let_def f split: prod.splits option.splits sum.splits)
qed

lemma Resolve_records:
  "yin_Hostname (env_input (Resolve w h)) = TrimSpace h"
  "env_platform (Resolve w h) = \<lparr>plat_os = yw_os w, plat_arch = yw_arch w\<rparr>"
proof -
  have p: "env_platform (result_sys w x oc ev fl) = \<lparr>plat_os = yw_os w, plat_arch = yw_arch w\<rparr>" for x oc ev fl
    by (simp add: result_sys_def Let_def)
  have n: "fst (normalizeHostname_sys h) = TrimSpace h" by (simp add: normalizeHostname_sys_def Let_def)
  show "yin_Hostname (env_input (Resolve w h)) = TrimSpace h"
    unfolding n [symmetric]
    by (auto simp: Resolve_def failureResult_sys_def Let_def split: prod.splits option.splits sum.splits)
  show "env_platform (Resolve w h) = \<lparr>plat_os = yw_os w, plat_arch = yw_arch w\<rparr>"
    by (auto simp: Resolve_def failureResult_sys_def p Let_def split: prod.splits option.splits sum.splits)
qed

section \<open>A path over its probes\<close>

text \<open>
  Every resolution is a run of the system resolver, every observation a run of the Web observer, all
  on the platform of the path; the versions of HTTP are the known ones.
\<close>

definition over_probes :: "'a unitab_scheme \<Rightarrow> WPathWorld \<Rightarrow> WPathObserver \<Rightarrow> bool" where
  "over_probes u w ob \<longleftrightarrow>
     (\<forall>n h. \<exists>sw. sys_env_ok sw \<and> \<lparr>plat_os = yw_os sw, plat_arch = yw_arch sw\<rparr> = xo_platform ob \<and> xw_resolve w n h = Resolve sw h) \<and>
     (\<forall>n r. \<exists>ww wob. web_env_ok ww wob \<and> web_library_ok ww \<and> \<lparr>plat_os = ww_os ww, plat_arch = ww_arch ww\<rparr> = xo_platform ob \<and>
        xw_web w n r = Observe_web u ww wob r \<and> (\<forall>e. env_evidence (xw_web w n r) = Some e \<longrightarrow> knownVersion (whttp_Protocol (wev_HTTP e))))"

lemma over_probes_resolve:
  assumes "over_probes u w ob" "web_url u t"
  shows "Validate_sys (xw_resolve w n (Hostname t)) = None" "env_platform (xw_resolve w n (Hostname t)) = xo_platform ob"
    "yin_Hostname (env_input (xw_resolve w n (Hostname t))) = Hostname t"
proof -
  obtain sw where "sys_env_ok sw" "\<lparr>plat_os = yw_os sw, plat_arch = yw_arch sw\<rparr> = xo_platform ob"
    "xw_resolve w n (Hostname t) = Resolve sw (Hostname t)"
    using assms(1) unfolding over_probes_def by metis
  then show "Validate_sys (xw_resolve w n (Hostname t)) = None" "env_platform (xw_resolve w n (Hostname t)) = xo_platform ob"
    "yin_Hostname (env_input (xw_resolve w n (Hostname t))) = Hostname t"
    using Hostname_web(1) [OF assms(2)] TrimSpace_host [OF web_url_host(1) [OF assms(2)]]
    by (simp_all add: Resolve_valid_lemma Resolve_records)
qed

lemma over_probes_web:
  assumes "over_probes u w ob" "web_url u t" "NormalizePublicIP c = (c, ip, None)"
  shows "Validate_web u (xw_web w n (webRequestFor t c)) = None"
    "matchesTarget (xo_platform ob) t c (xw_web w n (webRequestFor t c))"
proof -
  let ?r = "webRequestFor t c" and ?x = "xw_web w n (webRequestFor t c)"
  obtain ww wob where w: "web_env_ok ww wob" "web_library_ok ww" "\<lparr>plat_os = ww_os ww, plat_arch = ww_arch ww\<rparr> = xo_platform ob"
    "?x = Observe_web u ww wob ?r" "\<forall>e. env_evidence ?x = Some e \<longrightarrow> knownVersion (whttp_Protocol (wev_HTTP e))"
    using assms(1) unfolding over_probes_def by metis
  obtain i tg where i: "normalizeRequest_web u ?r = (i, tg, None)" "win_Scheme i = u_Scheme t"
    "win_Hostname i = Hostname t" "win_DialIP i = c" "win_Path i = EscapedPath t" "win_RawQuery i = u_RawQuery t"
    using web_request_accepted [OF assms(2,3)] by blast
  have "stable_request u ?r" using normalizeRequest_web_ok [OF i(1)] by metis
  from Observe_web_exact [OF w(1,2) this] show "Validate_web u ?x = None"
    using w(4,5) by (auto simp: guard_def split: option.splits)
  show "matchesTarget (xo_platform ob) t c ?x"
    using i w(3) by (simp add: matchesTarget_def w(4) Observe_web_records)
qed

text \<open>No step is rejected.\<close>

abbreviation accepted_end :: "WEnd + WebResult \<Rightarrow> bool" where
  "accepted_end r \<equiv> (case r of Inl e \<Rightarrow> we_reason e \<noteq> WStopInvalidProbeEvidence | Inr x \<Rightarrow> True)"

lemma terminalContext_reason: "terminalContext_wpath c c' n = Some e \<Longrightarrow> we_reason e \<noteq> WStopInvalidProbeEvidence"
  by (auto simp: terminalContext_wpath_def Let_def split: if_splits)

lemma observeAttempts_accepted:
  assumes "over_probes u w ob" "web_url u t"
  shows "(\<And>c. c \<in> set cs \<Longrightarrow> \<exists>ip. NormalizePublicIP c = (c, ip, None)) \<Longrightarrow>
    accepted_end (snd (snd (observeAttempts u w ob t n hop cs)))"
proof (induction cs arbitrary: n hop)
  case (Cons c cs)
  obtain ip where "NormalizePublicIP c = (c, ip, None)" using Cons.prems [of c] by auto
  note x = over_probes_web [OF assms this, of n]
  show ?case
  proof (cases "terminalNow w ob n")
    case (Some e)
    with x terminalContext_reason [OF Some] show ?thesis by (simp add: Let_def)
  next
    case None
    with x Cons.IH [OF Cons.prems] show ?thesis by (simp add: Let_def)
  qed
qed simp

lemma observeHop_accepted:
  assumes "over_probes u w ob" "web_url u t"
  shows "accepted_end (snd (snd (observeHop u w ob t n)))"
proof -
  let ?r = "xw_resolve w (Suc n) (Hostname t)"
  note r = over_probes_resolve [OF assms, of "Suc n"]
  have cs: "(case env_evidence q of None \<Rightarrow> [] | Some e \<Rightarrow> selectPublicCandidates (yev_Addresses e)) = candidatesOf q" for q
    by (simp add: candidatesOf_def)
  have loop: "accepted_end (snd (snd (observeAttempts u w ob t k hop (candidatesOf ?r))))"
    if "env_outcome ?r = OutcomeSucceeded" for k hop
    using candidates_ok(3) [OF r(1) that] by (intro observeAttempts_accepted [OF assms]) blast
  show ?thesis
    using r terminalContext_reason loop
    by (auto simp: observeHop_def Let_def cs split: option.split prod.split)
      (metis snd_conv sum.simps(5))+
qed


lemma observeChain_accepted:
  assumes "observeChain u w ob n current seen had pending b = (n', b', r)" "over_probes u w ob" "web_url u current"
  shows "we_reason (cr_end r) \<noteq> WStopInvalidProbeEvidence"
  using assms
proof (induction u w ob n current seen had pending b rule: observeChain.induct)
  case (1 u w ob n current seen had pending b)
  obtain n1 ho hr where hop: "observeHop u w ob current n = (n1, ho, hr)" by (metis prod_cases3)
  have acc: "accepted_end hr" using observeHop_accepted [OF "1.prems"(2,3), of n] hop by simp
  note h = observeHop_ok [OF hop "1.prems"(3)]
  let ?b = "case ho of None \<Rightarrow> b | Some h \<Rightarrow> b\<lparr>xb_redirectsFollowed := xb_redirectsFollowed b + (if pending then 1 else 0),
      xb_hops := xb_hops b @ [h]\<rparr>"
  show ?case
  proof (cases hr)
    case (Inl e)
    with hop acc "1.prems"(1) show ?thesis
      by (subst (asm) observeChain.simps) auto
  next
    case (Inr x)
    then obtain hp where hp: "ho = Some hp" "Validate_web u x = None" "env_outcome x = OutcomeSucceeded"
      using h by (cases ho) auto
    obtain ev where ev: "env_evidence x = Some ev" using attempt_success_evidence [OF hp(2,3)] by blast
    note eq = "1.prems"(1)[unfolded observeChain.simps [of u w ob n current seen had pending b], simplified hop hp(1) Inr Let_def
        prod.case option.case sum.case ev]
    show ?thesis
    proof (cases "isRedirectStatus (whttp_StatusCode (wev_HTTP ev)) \<and> \<not> redirectLimit \<le> xb_redirectsFollowed ?b")
      case False
      with eq hp(1) show ?thesis by (auto split: if_splits)
    next
      case follow: True
      show ?thesis
      proof (cases "redirectTarget u current (wev_HTTP ev)")
        case (Inl re)
        then show ?thesis using eq follow hp(1) redirectTarget_reasons [of u current "wev_HTTP ev" "fst re" "snd re"]
          by (cases re) auto
      next
        case (Inr t)
        show ?thesis
        proof (cases "urlString t \<in> seen")
          case True
          with eq follow hp(1) Inr show ?thesis by auto
        next
          case False
          have "observeChain u w ob n1 t (insert (urlString t) seen) True True ?b = (n', b', r)"
            using eq follow Inr False hp(1) by simp
          from "1.IH" [OF hop [symmetric] refl refl refl \<open>hr = Inr x\<close> ev _ _ Inr False _ this "1.prems"(2) redirectTarget_web [OF Inr]]
          show ?thesis using follow hp(1) by simp
        qed
      qed
    qed
  qed
qed

lemma observeChains_accepted:
  assumes "over_probes u w ob" "web_url u init" "web_url u (init\<lparr>u_Scheme := SchemeHTTP\<rparr>)"
    and "observeChains u w ob init b0 = (n, b, e)"
  shows "we_reason e \<noteq> WStopInvalidProbeEvidence"
  using assms(4) observeChain_accepted [OF _ assms(1,2)] observeChain_accepted [OF _ assms(1,3)]
  by (fastforce simp: observeChains_def Let_def split: prod.splits if_splits)

section \<open>A concrete run\<close>

text \<open>The host name has one public address, and no server answers on it.\<close>

definition demoResolverWorld :: SysWorld where
  "demoResolverWorld = demoSysWorld\<lparr>yw_lookup := (\<lambda>h. Inr [Addr4 10 0 0 1, Addr4 1 1 1 1])\<rparr>"

definition silentWebWorld :: WebWorld where
  "silentWebWorld = (webWorld ''HTTP/1.1'')\<lparr>ww_roundTrip := (\<lambda>tp hq. \<lparr>wx_steps = [], wx_answer = Inl (plainErr ''no route'')\<rparr>)\<rparr>"

definition demoPathWorld :: WPathWorld where
  "demoPathWorld = \<lparr>xw_now = steadyClock 1000000, xw_ctx = background, xw_fired = (\<lambda>d n. False),
     xw_resolve = (\<lambda>n. Resolve demoResolverWorld), xw_web = (\<lambda>n. Observe_web asciiUni silentWebWorld demoWebObserver)\<rparr>"

definition demoPathObserver :: WPathObserver where
  "demoPathObserver = \<lparr>xo_timeout = defaultTimeout_wpath, xo_platform = \<lparr>plat_os = ''linux'', plat_arch = ''amd64''\<rparr>\<rparr>"

definition demoPathRequest :: WPathRequest where
  "demoPathRequest = \<lparr>xreq_Hostname = ''example.com''\<rparr>"

lemma demoPathObserver_new: "newObserver_wpath \<lparr>xcfg_Timeout = 0\<rparr> \<lparr>plat_os = ''linux'', plat_arch = ''amd64''\<rparr>
    \<lparr>plat_os = '''', plat_arch = ''''\<rparr> True True = Inr demoPathObserver"
  by (simp add: newObserver_wpath_def normalizeTimeout_wpath_def demoPathObserver_def)

lemma demo_wpath_env: "wpath_env_ok demoPathWorld demoPathObserver"
  by (simp add: wpath_env_ok_def demoPathWorld_def demoPathObserver_def steadyClock_def IsZero_def)

lemma silent_failed:
  assumes "normalizeRequest_web u r = (i, tg, None)"
  shows "env_outcome (Observe_web u silentWebWorld demoWebObserver r) = OutcomeFailed"
proof -
  have live: "withTimeout (\<lambda>n. None) (\<lambda>n. False) k = None" for k by (induction k) simp_all
  obtain hq where hq: "newHttpRequest i tg = Some hq" using newHttpRequest_ok [OF assms] by blast
  show ?thesis
    by (simp add: Observe_web_def assms hq silentWebWorld_def webWorld_def background_def Let_def classifyContext_def
        classifyAttemptContext_def ctxErrAt_def live)
qed

lemma silent_evidence: "env_evidence (Observe_web u silentWebWorld demoWebObserver r) = None"
  by (auto simp: Observe_web_def silentWebWorld_def Let_def split: prod.splits option.splits)

lemma demo_over_probes: "over_probes asciiUni demoPathWorld demoPathObserver"
proof -
  have "sys_env_ok demoResolverWorld"
    by (simp add: sys_env_ok_def demoResolverWorld_def demoSysWorld_def steadyClock_ok platform_ok_def source_of_profile compiledProfiles_def)
  moreover have "web_env_ok silentWebWorld demoWebObserver"
    using webWorld_ok(1) [of "''HTTP/1.1''"] by (simp add: web_env_ok_def silentWebWorld_def)
  moreover have "web_library_ok silentWebWorld"
    using webWorld_ok(2) [of "''HTTP/1.1''"]
    by (simp add: web_library_ok_def silentWebWorld_def exchange_ok_def isCertificateFailure_def plainErr_def errorsIs_def)
  ultimately show ?thesis
    unfolding over_probes_def demoPathWorld_def demoPathObserver_def
    by (auto simp: silent_evidence intro!: exI [of _ demoResolverWorld] exI [of _ silentWebWorld] exI [of _ demoWebObserver])
      (simp_all add: demoResolverWorld_def demoSysWorld_def silentWebWorld_def webWorld_def)
qed

lemma demo_candidates:
  "env_outcome (Resolve demoResolverWorld ''example.com'') = OutcomeSucceeded"
  "candidatesOf (Resolve demoResolverWorld ''example.com'') = [''1.1.1.1'']"
proof -
  have n: "normalizeHostname_sys ''example.com'' = (''example.com'', None)"
  proof -
    have "TrimSpace ''example.com'' = ''example.com''" by (rule TrimSpace_graphic) (simp add: graphic_def isGraph_def)
    moreover have "runes ''example.com'' = map byte ''example.com''" by (rule runes_ascii) (simp add: isAscii_def)
    moreover have "ParseAddr ''example.com'' = None" by code_simp
    ultimately show ?thesis by (simp add: normalizeHostname_sys_def firstErr_simps isSpaceRune_def spaceRunes_def)
  qed
  have w: "yw_lookup demoResolverWorld h = Inr [Addr4 10 0 0 1, Addr4 1 1 1 1]" "yw_ctx demoResolverWorld = background" for h
    by (simp_all add: demoResolverWorld_def demoSysWorld_def)
  have r: "Resolve demoResolverWorld ''example.com'' = result_sys demoResolverWorld ''example.com'' OutcomeSucceeded
     (Some \<lparr>yev_Addresses = [addressOf (Addr4 10 0 0 1), addressOf (Addr4 1 1 1 1)]\<rparr>) None"
    by (simp add: Resolve_def n w background_def ctxErrAt_def normalizeAddresses_def addressOf_def)
  show "env_outcome (Resolve demoResolverWorld ''example.com'') = OutcomeSucceeded" by (simp add: r)
  have priv: "\<not> isAllowedPublicIP (Addr4 10 0 0 1)" by (simp add: isAllowedPublicIP_v4 specialV4_def)
  have "\<not> eligible (addressOf (Addr4 10 0 0 1))"
  proof
    assume "eligible (addressOf (Addr4 10 0 0 1))"
    then obtain ip where ip: "NormalizePublicIP (AddrString (Addr4 10 0 0 1)) = (AddrString (Addr4 10 0 0 1), ip, None)"
      by (auto simp: eligible_def addressOf_def)
    have "ParseAddr (AddrString (Addr4 10 0 0 1)) = Some (Addr4 10 0 0 1)" by (rule ParseAddr_String) simp_all
    with NormalizePublicIP_accept_cases [OF ip] priv show False by simp
  qed
  moreover have "eligible (addressOf (Addr4 1 1 1 1))" "adr_IP (addressOf (Addr4 1 1 1 1)) = ''1.1.1.1''"
    using NormalizePublicIP_complete [OF one_one_allowed] by (simp_all add: eligible_def addressOf_def one_one_text sys_family_def)
  ultimately show "candidatesOf (Resolve demoResolverWorld ''example.com'') = [''1.1.1.1'']"
    by (simp add: candidatesOf_def selectPublicCandidates_def r selectLoop_step candidateLimitPerFamily_def)
qed

lemma demo_live: "terminalNow demoPathWorld demoPathObserver n = None" "ctxErrAt (pathCtx demoPathWorld demoPathObserver) n = None"
proof -
  have live: "withTimeout (\<lambda>n. None) (\<lambda>n. False) k = None" for k by (induction k) simp_all
  show "terminalNow demoPathWorld demoPathObserver n = None" "ctxErrAt (pathCtx demoPathWorld demoPathObserver) n = None"
    by (simp_all add: terminalContext_wpath_def demoPathWorld_def pathCtx_def background_def ctxErrAt_def live Let_def errorsIs_def)
qed

lemma demo_hop:
  assumes t: "web_url asciiUni t" "Hostname t = ''example.com''"
  shows "\<exists>n' hop. observeHop asciiUni demoPathWorld demoPathObserver t n = (n', Some hop, Inl (wstopped WStopAllCandidatesFailed
     ''all bounded public candidates failed before valid HTTP response headers''))"
proof -
  have c: "NormalizePublicIP ''1.1.1.1'' = (''1.1.1.1'', Addr4 1 1 1 1, None)"
    using NormalizePublicIP_complete [OF one_one_allowed] by (simp add: one_one_text)
  obtain i tg where i: "normalizeRequest_web asciiUni (webRequestFor t ''1.1.1.1'') = (i, tg, None)"
    using web_request_accepted [OF t(1) c] by blast
  have cs: "(case env_evidence q of None \<Rightarrow> [] | Some e \<Rightarrow> selectPublicCandidates (yev_Addresses e)) = candidatesOf q" for q
    by (simp add: candidatesOf_def)
  have res: "xw_resolve demoPathWorld k = Resolve demoResolverWorld" for k by (simp add: demoPathWorld_def)
  have web: "env_outcome (xw_web demoPathWorld k (webRequestFor t ''1.1.1.1'')) = OutcomeFailed" for k
    using silent_failed [OF i] by (simp add: demoPathWorld_def)
  show ?thesis
    using over_probes_resolve [OF demo_over_probes t(1), of "Suc n"] over_probes_web [OF demo_over_probes t(1) c] web
    by (simp add: observeHop_def Let_def cs res t(2) demo_candidates demo_live)
qed

lemma demo_chain:
  assumes "web_url asciiUni t" "Hostname t = ''example.com''"
  shows "\<exists>n' b'. observeChain asciiUni demoPathWorld demoPathObserver n t seen False False b = (n', b',
      \<lparr>cr_end = wstopped WStopAllCandidatesFailed ''all bounded public candidates failed before valid HTTP response headers'',
       cr_hadResponse = False\<rparr>) \<and> xb_fallbackUsed b' = xb_fallbackUsed b"
  using demo_hop [OF assms, of n] by (subst observeChain.simps) auto

lemma demo_wpath_run:
  "wp_HTTPFallbackUsed (Observe_wpath asciiUni demoPathWorld demoPathObserver demoPathRequest) \<and>
   wp_StopReason (Observe_wpath asciiUni demoPathWorld demoPathObserver demoPathRequest) = WStopAllCandidatesFailed"
proof -
  let ?init = "emptyURL\<lparr>u_Scheme := SchemeHTTPS, u_Host := ''example.com'', u_Path := ''/''\<rparr>"
  let ?f = "?init\<lparr>u_Scheme := SchemeHTTP\<rparr>"
  have web: "web_url asciiUni ?init" "web_url asciiUni ?f"
    using initial_web(1) [OF example_host, of SchemeHTTPS] initial_web(1) [OF example_host, of SchemeHTTP]
    by (simp_all add: emptyURL_def)
  have host: "Hostname ?init = ''example.com''" "Hostname ?f = ''example.com''"
    using Hostname_web(1) [OF web(1)] Hostname_web(1) [OF web(2)] by simp_all
  obtain inp where n: "normalizeInput asciiUni demoPathRequest = (inp, Some ?init, None)"
    by (simp add: normalizeInput_def demoPathRequest_def example_host)
  let ?b = "\<lparr>xb_input = inp, xb_hops = [], xb_redirectsFollowed = 0, xb_fallbackUsed = False\<rparr>"
  obtain n1 b1 where one: "observeChain asciiUni demoPathWorld demoPathObserver 1 ?init {urlString ?init} False False ?b = (n1, b1,
      \<lparr>cr_end = wstopped WStopAllCandidatesFailed ''all bounded public candidates failed before valid HTTP response headers'',
       cr_hadResponse = False\<rparr>)"
    using demo_chain [OF web(1) host(1)] by blast
  obtain n2 b2 where two: "observeChain asciiUni demoPathWorld demoPathObserver (n1 + 1) ?f {urlString ?f} False False
      (b1\<lparr>xb_fallbackUsed := True\<rparr>) = (n2, b2,
      \<lparr>cr_end = wstopped WStopAllCandidatesFailed ''all bounded public candidates failed before valid HTTP response headers'',
       cr_hadResponse = False\<rparr>)" "xb_fallbackUsed b2"
    using demo_chain [OF web(2) host(2), of "n1 + 1" "{urlString ?f}" "b1\<lparr>xb_fallbackUsed := True\<rparr>"] by auto
  have run: "observeChains asciiUni demoPathWorld demoPathObserver ?init ?b =
      (n2, b2, wstopped WStopAllCandidatesFailed ''all bounded public candidates failed before valid HTTP response headers'')"
    unfolding observeChains_def one Let_def prod.case chainResult.select_convs two(1) demo_live by simp
  have "terminalContext_wpath (xw_ctx demoPathWorld) (xw_ctx demoPathWorld) 0 = None"
    by (simp add: demoPathWorld_def background_def terminalContext_wpath_def ctxErrAt_def errorsIs_def Let_def)
  then show ?thesis by (simp add: Observe_wpath_def n run two(2) demo_live)
qed

section \<open>Properties\<close>

text \<open>Property C29: the report of a run passes the validator of its package, whatever the resolver
  and the Web observer answer and however the contexts end: its hops are linked by their redirects,
  the counts are right, the fallback follows exhausted candidates and the reason fits the last hop.
  The one exception, exactly, is a host name whose recorded text changes when it is normalized again; such a
  host name is refused. The clock is not at the zero time and the platform is named.\<close>

theorem Observe_wpath_valid:
  assumes "wpath_env_ok w ob"
  shows "Validate_wpath u (Observe_wpath u w ob request) = None \<longleftrightarrow>
    webHostnameText u (webHostnameText u (xreq_Hostname request)) = webHostnameText u (xreq_Hostname request)"
  by (rule Observe_wpath_decided [OF assms])

lemma Observe_wpath_valid_witness:
  "Validate_wpath asciiUni (Observe_wpath asciiUni demoPathWorld demoPathObserver demoPathRequest) = None \<and>
   wp_HTTPFallbackUsed (Observe_wpath asciiUni demoPathWorld demoPathObserver demoPathRequest) \<and>
   Validate_wpath asciiUni (Observe_wpath asciiUni demoPathWorld demoPathObserver \<lparr>xreq_Hostname = ''a..''\<rparr>) \<noteq> None"
proof -
  have "webHostnameText asciiUni ''example.com'' = ''example.com''"
    using example_host [of asciiUni] by (simp add: NormalizeWebHostname_def Let_def)
  then show ?thesis
    using Observe_wpath_valid [OF demo_wpath_env, of asciiUni demoPathRequest] demo_wpath_run
      Observe_wpath_valid [OF demo_wpath_env, of asciiUni "\<lparr>xreq_Hostname = ''a..''\<rparr>"]
    by (simp add: demoPathRequest_def double_dot)
qed

text \<open>Property C30: over the system resolver and the Web observer of this program, and as long as every response
  names HTTP/1.0 or HTTP/1.1, a path never stops because of invalid probe evidence, whatever else the
  network does: what the path asks for is accepted and recorded as it was asked. The platform is one for the
  path and its probes, and the clocks and the libraries of Go are as for the two probes.\<close>

theorem Observe_wpath_accepts_probes:
  assumes "over_probes u w ob"
  shows "wp_StopReason (Observe_wpath u w ob request) \<noteq> WStopInvalidProbeEvidence"
proof -
  obtain h he where h: "NormalizeWebHostname u (xreq_Hostname request) = (h, he)" by (metis prod.collapse)
  show ?thesis
  proof (cases he)
    case (Some er)
    with h show ?thesis by (simp add: Observe_wpath_def normalizeInput_def)
  next
    case None
    have host: "NormalizeWebHostname u h = (h, None)" using NormalizeWebHostname_fixed h None by blast
    let ?init = "emptyURL\<lparr>u_Scheme := SchemeHTTPS, u_Host := h, u_Path := ''/''\<rparr>"
    have web: "web_url u ?init" "web_url u (?init\<lparr>u_Scheme := SchemeHTTP\<rparr>)"
      using initial_web(1) [OF host, of SchemeHTTPS] initial_web(1) [OF host, of SchemeHTTP] by (simp_all add: emptyURL_def)
    obtain inp where n: "normalizeInput u request = (inp, Some ?init, None)" using h None by (simp add: normalizeInput_def)
    let ?b = "\<lparr>xb_input = inp, xb_hops = [], xb_redirectsFollowed = 0, xb_fallbackUsed = False\<rparr>"
    obtain k b e where run: "observeChains u w ob ?init ?b = (k, b, e)" by (metis prod_cases3)
    show ?thesis
      using n run observeChains_accepted [OF assms web run] terminalContext_reason
      by (auto simp: Observe_wpath_def Let_def split: option.split)
  qed
qed


lemma Observe_wpath_accepts_probes_witness:
  "wp_StopReason (Observe_wpath asciiUni demoPathWorld demoPathObserver demoPathRequest) \<noteq> WStopInvalidProbeEvidence"
  by (rule Observe_wpath_accepts_probes [OF demo_over_probes])

text \<open>What a hop tries.\<close>

definition hop_bounded :: "Hop \<Rightarrow> bool" where
  "hop_bounded hop \<longleftrightarrow> (let dials = map (win_DialIP \<circ> env_input) (sliceOf (hop_Attempts hop)) in
     dials = take (length dials) (candidatesOf (hop_Resolution hop)) \<and> distinct dials \<and> length dials \<le> 4 \<and>
     list_all (\<lambda>c. case ParseAddr c of None \<Rightarrow> False | Some ip \<Rightarrow> isAllowedPublicIP ip) dials)"

lemma two_families: "int (length xs) = int (length (filter (\<lambda>c. sys_family c = FamilyIPv4_sys) xs)) +
    int (length (filter (\<lambda>c. sys_family c = FamilyIPv6_sys) xs))"
  by (induction xs) (auto simp: sys_family_def)

lemma hop_ok_bounded:
  assumes "hop_ok u platform t hop"
  shows "hop_bounded hop"
proof -
  let ?r = "hop_Resolution hop"
  obtain xs where xs: "hop_Attempts hop = Some xs" "attempts_ok u platform t (selectedOf hop) xs"
    using assms by (auto simp: hop_ok_def)
  show ?thesis
  proof (cases "env_outcome ?r = OutcomeSucceeded")
    case False
    with xs show ?thesis by (simp add: selectedOf_def attempts_ok_def hop_bounded_def)
  next
    case True
    have v: "Validate_sys ?r = None" using assms by (simp add: hop_ok_def)
    note c = candidates_ok [OF v True]
    let ?d = "map (win_DialIP \<circ> env_input) xs"
    have len: "length xs \<le> length (candidatesOf ?r)"
      and dial: "\<And>k. k < length xs \<Longrightarrow> win_DialIP (env_input (xs ! k)) = candidatesOf ?r ! k"
      using xs(2) True by (simp_all add: attempts_ok_def selectedOf_def matchesTarget_def)
    then have d: "?d = take (length xs) (candidatesOf ?r)" by (intro nth_equalityI) auto
    have "length (candidatesOf ?r) \<le> 4"
      using c(2) [of FamilyIPv4_sys] c(2) [of FamilyIPv6_sys] two_families [of "candidatesOf ?r"]
      by (simp add: candidateLimitPerFamily_def)
    moreover have "case ParseAddr z of None \<Rightarrow> False | Some ip \<Rightarrow> isAllowedPublicIP ip" if "z \<in> set ?d" for z
    proof -
      from that have "z \<in> set (candidatesOf ?r)" unfolding d by (rule in_set_takeD)
      then obtain ip where "NormalizePublicIP z = (z, ip, None)" using c(3) by blast
      from NormalizePublicIP_accept_cases [OF this] show ?thesis by simp
    qed
    moreover have "distinct ?d" unfolding d using c(1) by simp
    ultimately show ?thesis using xs(1) d len by (auto simp: hop_bounded_def Let_def list_all_iff)
  qed
qed

text \<open>Property C31: a run makes at most five hops, follows at most three redirects, and each hop tries at
  most four addresses, each once and in the order its own resolution gave them; every address it
  tries is an allowed public one. After a fallback to HTTP the first hop had tried all its addresses
  over HTTPS and none had answered.\<close>

theorem Observe_wpath_bounds:
  assumes "wpath_env_ok w ob"
  shows "length (sliceOf (wp_Hops (Observe_wpath u w ob request))) \<le> 5 \<and>
    0 \<le> wp_RedirectsFollowed (Observe_wpath u w ob request) \<and> wp_RedirectsFollowed (Observe_wpath u w ob request) \<le> 3 \<and>
    list_all hop_bounded (sliceOf (wp_Hops (Observe_wpath u w ob request))) \<and>
    (wp_HTTPFallbackUsed (Observe_wpath u w ob request) \<longrightarrow>
       sliceOf (wp_Hops (Observe_wpath u w ob request)) \<noteq> [] \<and>
       exhaustedPublicCandidates (hd (sliceOf (wp_Hops (Observe_wpath u w ob request)))))"
proof -
  obtain h he where h: "NormalizeWebHostname u (xreq_Hostname request) = (h, he)" by (metis prod.collapse)
  show ?thesis
  proof (cases he)
    case (Some er)
    with h show ?thesis by (simp add: Observe_wpath_def normalizeInput_def)
  next
    case None
    with Observe_wpath_report [OF assms, of u request h, OF _ refl] h obtain b e where
      r: "Observe_wpath u w ob request = finish_wpath w ob b e"
      "report_ok u (xo_platform ob) (emptyURL\<lparr>u_Scheme := SchemeHTTPS, u_Host := h, u_Path := ''/''\<rparr>)
        (fst (normalizeInput u \<lparr>xreq_Hostname = h\<rparr>)) b e"
      by blast
    then obtain pre zs where z: "fallback_prefix u (xo_platform ob) pre" "linked u (xo_platform ob) zs" "length zs \<le> 4"
      "xb_fallbackUsed b = (pre \<noteq> [])" "xb_hops b = map fst (pre @ zs)"
      "xb_redirectsFollowed b = int (length zs) - (if zs = [] then 0 else 1)"
      by (auto simp: report_ok_def)
    have "hop_bounded (fst z)" if "z \<in> set (pre @ zs)" for z
    proof (rule hop_ok_bounded)
      show "hop_ok u (xo_platform ob) (snd z) (fst z)"
        using that z(1,2) by (auto simp: fallback_prefix_def linked_def)
    qed
    then have "list_all hop_bounded (xb_hops b)" unfolding z(5) list_all_iff by auto
    moreover have "length (xb_hops b) \<le> 5" using z(1,3) unfolding z(5) by (auto simp: fallback_prefix_def)
    moreover have "pre \<noteq> [] \<Longrightarrow> xb_hops b \<noteq> [] \<and> exhaustedPublicCandidates (hd (xb_hops b))"
      using z(1) unfolding z(5) by (auto simp: fallback_prefix_def)
    moreover have "0 \<le> xb_redirectsFollowed b" "xb_redirectsFollowed b \<le> 3" using z(3,6) by (cases zs; simp)+
    ultimately show ?thesis using r(1) z(4) by auto
  qed
qed

lemma Observe_wpath_bounds_witness:
  "list_all hop_bounded (sliceOf (wp_Hops (Observe_wpath asciiUni demoPathWorld demoPathObserver demoPathRequest))) \<and>
   exhaustedPublicCandidates (hd (sliceOf (wp_Hops (Observe_wpath asciiUni demoPathWorld demoPathObserver demoPathRequest))))"
  using Observe_wpath_bounds [OF demo_wpath_env, of asciiUni demoPathRequest] demo_wpath_run by blast

text \<open>Property C32: the target of a redirect is canonical: HTTP or HTTPS on the default port, a normalized
  host name, no credentials and no fragment; its text parses back to a URL with the same scheme, host,
  path and query, whose text is the same.\<close>

theorem redirectTarget_canonical:
  assumes "redirectTarget u current response = Inr t"
  shows "(u_Scheme t = SchemeHTTP \<or> u_Scheme t = SchemeHTTPS) \<and> urlPort t = '''' \<and> u_User t = None \<and> u_Fragment t = '''' \<and>
    NormalizeWebHostname u (Hostname t) = (Hostname t, None) \<and>
    (\<exists>t'. urlParse (urlString t) = Some t' \<and> urlString t' = urlString t \<and> u_Scheme t' = u_Scheme t \<and> u_Host t' = u_Host t \<and>
       EscapedPath t' = EscapedPath t \<and> u_RawQuery t' = u_RawQuery t)"
proof -
  have t: "web_url u t" by (rule redirectTarget_web [OF assms])
  obtain t' where t': "urlParse (urlString t) = Some t'" "same_url t t'" "web_url u t'"
    using urlParse_canonical [OF t] by blast
  have "(u_Scheme t = SchemeHTTP \<or> u_Scheme t = SchemeHTTPS) \<and> u_User t = None \<and> u_Fragment t = '''' \<and>
    NormalizeWebHostname u (Hostname t) = (Hostname t, None)"
    using t Hostname_web(1) [OF t] by (simp add: web_url_def)
  moreover have "\<exists>t'. urlParse (urlString t) = Some t' \<and> urlString t' = urlString t \<and> u_Scheme t' = u_Scheme t \<and>
      u_Host t' = u_Host t \<and> EscapedPath t' = EscapedPath t \<and> u_RawQuery t' = u_RawQuery t"
    using t' same_url_text [OF t'(2) t t'(3)] by (auto simp: same_url_def)
  ultimately show ?thesis using Hostname_web(2) [OF t] by blast
qed

text \<open>A relative reference with a fragment, and dot segments, from a page over HTTPS.\<close>

definition demoRedirect :: HTTPObservation where
  "demoRedirect = \<lparr>whttp_Protocol = ''HTTP/1.1'', whttp_StatusCode = 302, whttp_TTFBMS = 5,
     whttp_Location = ''../b?x=1#top'', whttp_LocationOmitted = False, whttp_RetryAfter = '''', whttp_RetryAfterOmitted = False\<rparr>"

definition demoCurrent :: url where
  "demoCurrent = emptyURL\<lparr>u_Scheme := ''https'', u_Host := ''example.com'', u_Path := ''/a/c/d''\<rparr>"

lemma demo_redirect: "\<exists>t. redirectTarget u demoCurrent demoRedirect = Inr t \<and> u_Host t = ''example.com'' \<and> EscapedPath t = ''/a/b''"
proof -
  have p: "urlParse ''../b?x=1#top'' = Some (emptyURL\<lparr>u_Path := ''../b'', u_RawQuery := ''x=1'', u_Fragment := ''top''\<rparr>)" by code_simp
  have r: "ResolveReference demoCurrent (emptyURL\<lparr>u_Path := ''../b'', u_RawQuery := ''x=1'', u_Fragment := ''top''\<rparr>) =
    demoCurrent\<lparr>u_Path := ''/a/b'', u_RawQuery := ''x=1'', u_Fragment := ''top''\<rparr>" by code_simp
  let ?n = "demoCurrent\<lparr>u_Path := ''/a/b'', u_RawQuery := ''x=1'', u_Fragment := ''''\<rparr>"
  have e: "EscapedPath ?n = ''/a/b''" "Hostname ?n = ''example.com''" "urlPort ?n = ''''" by code_simp+
  have t: "NormalizeWebRequestTarget ''/a/b'' ''x=1'' =
      (\<lparr>wt_EscapedPath = ''/a/b'', wt_Path = ''/a/b'', wt_RawPath = '''', wt_RawQuery = ''x=1''\<rparr>, None)" by code_simp
  have ep: "EscapedPath v = ''/a/b''" if "u_Path v = ''/a/b''" "u_RawPath v = ''''" for v
  proof -
    have "EscapedPath (emptyURL\<lparr>u_Path := ''/a/b''\<rparr>) = ''/a/b''" by code_simp
    moreover have "EscapedPath v = EscapedPath (emptyURL\<lparr>u_Path := ''/a/b''\<rparr>)"
      by (rule EscapedPath_cong) (simp_all add: that emptyURL_def)
    ultimately show ?thesis by simp
  qed
  have sel: "u_RawPath demoCurrent = ''''" "u_Scheme demoCurrent = SchemeHTTPS" "u_Opaque demoCurrent = ''''" "u_User demoCurrent = None"
    by (simp_all add: demoCurrent_def emptyURL_def SchemeHTTPS_def)
  have lower: "ToLower u SchemeHTTPS = SchemeHTTPS" unfolding SchemeHTTPS_def by (rule ToLower_lower_id) simp
  show ?thesis
    by (simp add: redirectTarget_def demoRedirect_def p r targetOf_def Let_def sel e lower example_host)
      (simp add: t sel ep lower)
qed

lemma redirectTarget_canonical_witness:
  "\<exists>t t'. redirectTarget asciiUni demoCurrent demoRedirect = Inr t \<and> urlParse (urlString t) = Some t' \<and>
     u_Host t' = ''example.com'' \<and> EscapedPath t' = ''/a/b''"
proof -
  obtain t where t: "redirectTarget asciiUni demoCurrent demoRedirect = Inr t" "u_Host t = ''example.com''" "EscapedPath t = ''/a/b''"
    using demo_redirect by blast
  with redirectTarget_canonical [OF t(1)] show ?thesis by auto
qed

end
