(* ===== verification/WebRecheckClaims.thy ===== *)
theory WebRecheckClaims
  imports WebRecheckProps WebPathProbes
begin

text \<open>
  The recheck over the Web observer of the program, its schedule, and a concrete run.
\<close>

section \<open>The requests of a recheck\<close>

lemma recheck_request_accepted:
  assumes h: "NormalizeWebHostname u h = (h, None)" and c: "okCandidate c" "candidateText c = c"
    and i: "kin_Scheme i = SchemeHTTPS" "kin_Hostname i = h" "kin_Family i = candidateFamily c" "kin_Port i = 443"
      "kin_Method i = httpMethod" "kin_Path i = ''/''"
  shows "\<exists>tg. normalizeRequest_web u \<lparr>wreq_Scheme = SchemeHTTPS, wreq_Hostname = h, wreq_DialIP = c, wreq_Path = '''', wreq_RawQuery = ''''\<rparr> =
    (expectedInput i c, tg, None)"
proof -
  obtain a where a: "NormalizePublicIP c = (c, a, None)"
    using c by (metis candidateText_def okCandidate_def prod.collapse)
  then have "IsValid a" by (rule NormalizePublicIP_accept_cases)
  with a have ip: "normalizePublicIP_web c = (c, a, candidateFamily c, None)"
    by (simp add: normalizePublicIP_web_def candidateFamily_def familyFor_def)
  have s: "normalizeScheme u SchemeHTTPS = (SchemeHTTPS, 443, None)"
    using known_scheme [of SchemeHTTPS u] by (simp add: normalizeScheme_def SchemeHTTP_def SchemeHTTPS_def httpsPort_def)
  show ?thesis
    by (simp add: normalizeRequest_web_def s h ip example_target expectedInput_def i firstErr.simps)
qed

lemma Observe_web_source: "env_source (Observe_web u w ob r) = wob_source ob"
proof -
  have f: "env_source (failureResult_web w ob a b i oc c e) = wob_source ob" for a b i oc c e
    by (simp add: failureResult_web_def)
  show ?thesis by (auto simp: Observe_web_def Let_def f split: prod.splits option.splits sum.splits)
qed

text \<open>Every observation is a run of the Web observer on the platform of the recheck, and names a known version of HTTP.\<close>

definition over_web :: "'a unitab_scheme \<Rightarrow> RckWorld \<Rightarrow> RckObserver \<Rightarrow> bool" where
  "over_web u w ob \<longleftrightarrow> (\<forall>n r. \<exists>ww wob. web_env_ok ww wob \<and> web_library_ok ww \<and>
     \<lparr>plat_os = ww_os ww, plat_arch = ww_arch ww\<rparr> = ko_platform ob \<and> kw_web w n r = Observe_web u ww wob r \<and>
     (\<forall>e. env_evidence (kw_web w n r) = Some e \<longrightarrow> knownVersion (whttp_Protocol (wev_HTTP e))))"

definition directSource :: Source where
  "directSource = \<lparr>src_backend = ''go-stdlib-http1-direct'', src_capability = CapabilityNative, src_reason = ''''\<rparr>"

lemma over_web_observation:
  assumes "over_web u w ob" "normalizeRequest_web u r = (i, tg, None)"
  shows "Validate_web u (kw_web w n r) = None" "env_platform (kw_web w n r) = ko_platform ob"
    "env_input (kw_web w n r) = i" "env_source (kw_web w n r) = directSource"
proof -
  obtain ww wob where w: "web_env_ok ww wob" "web_library_ok ww" "\<lparr>plat_os = ww_os ww, plat_arch = ww_arch ww\<rparr> = ko_platform ob"
    "kw_web w n r = Observe_web u ww wob r" "\<forall>e. env_evidence (kw_web w n r) = Some e \<longrightarrow> knownVersion (whttp_Protocol (wev_HTTP e))"
    using assms(1) unfolding over_web_def by metis
  have "stable_request u r" using normalizeRequest_web_ok [OF assms(2)] by metis
  from Observe_web_exact [OF w(1,2) this] show "Validate_web u (kw_web w n r) = None"
    using w(4,5) by (auto simp: guard_def split: option.splits)
  show "env_platform (kw_web w n r) = ko_platform ob" "env_input (kw_web w n r) = i"
    using w(3) assms(2) by (simp_all add: w(4) Observe_web_records)
  show "env_source (kw_web w n r) = directSource"
    using w(1) newObserver_web_source by (auto simp: w(4) Observe_web_source web_env_ok_def directSource_def)
qed

text \<open>What the loop needs of the normalized input.\<close>

definition good_input :: "'a unitab_scheme \<Rightarrow> RckInput \<Rightarrow> bool" where
  "good_input u i \<longleftrightarrow> NormalizeWebHostname u (kin_Hostname i) = (kin_Hostname i, None) \<and> kin_Scheme i = SchemeHTTPS \<and>
     kin_Port i = 443 \<and> kin_Method i = httpMethod \<and> kin_Path i = ''/''"

definition good_candidate :: "RckInput \<Rightarrow> scheduledCandidate \<Rightarrow> bool" where
  "good_candidate i c \<longleftrightarrow> okCandidate (sc_ip c) \<and> candidateText (sc_ip c) = sc_ip c \<and> candidateFamily (sc_ip c) = kin_Family i"

lemma observeCandidates_accepted:
  assumes "over_web u w ob" "good_input u (kb_input b)" "kb_webSource b = None \<or> kb_webSource b = Some directSource"
    and "\<forall>c \<in> set cs. good_candidate (kb_input b) c" "observeCandidates u w ob n b cs = (n', b', st)"
  shows "case st of None \<Rightarrow> True | Some t \<Rightarrow> ter_reason t \<noteq> RckInvalidProbeEvidence"
  using assms(2-)
proof (induction cs arbitrary: n b)
  case (Cons c cs)
  have reason: "terminalContext_rck p q k = Some t \<Longrightarrow> ter_reason t \<noteq> RckInvalidProbeEvidence" for p q k t
    by (auto simp: terminalContext_rck_def Let_def split: if_splits)
  let ?r = "\<lparr>wreq_Scheme = kin_Scheme (kb_input b), wreq_Hostname = kin_Hostname (kb_input b), wreq_DialIP = sc_ip c,
    wreq_Path = '''', wreq_RawQuery = ''''\<rparr>"
  obtain tg where "normalizeRequest_web u ?r = (expectedInput (kb_input b) (sc_ip c), tg, None)"
    using recheck_request_accepted [of u "kin_Hostname (kb_input b)" "sc_ip c" "kb_input b"] Cons.prems(1,3)
    by (auto simp: good_input_def good_candidate_def)
  note x = over_web_observation [OF assms(1) this, of n]
  have v: "validateObservation_rck u ob (kw_web w n ?r) c b = (b\<lparr>kb_webSource := Some directSource\<rparr>, None)"
    using x Cons.prems(2) by (auto simp: validateObservation_rck_def guard_def)
  show ?case
  proof (cases "terminalContext_rck (kw_ctx w) (recheckCtx w ob) n")
    case (Some t)
    then have "st = Some t" using Cons.prems(4) by simp
    with reason [OF Some] show ?thesis by simp
  next
    case live: None
    show ?thesis
    proof (cases "terminalContext_rck (kw_ctx w) (recheckCtx w ob) (n + 1)")
      case (Some t)
      then have "st = Some t" using Cons.prems(4) live v by (simp add: Let_def)
      with reason [OF Some] show ?thesis by simp
    next
      case live': None
      let ?b = "b\<lparr>kb_webSource := Some directSource, kb_attempts := kb_attempts b @
        [\<lparr>katt_CandidateSource = sc_source c, katt_Observation = kw_web w n ?r\<rparr>]\<rparr>"
      show ?thesis
      proof (cases "env_outcome (kw_web w n ?r) = OutcomeCancelled")
        case True
        then have "st = Some \<lparr>ter_status = RckCancelled, ter_reason = RckStopCancelled, ter_detail = ''''\<rparr>"
          using Cons.prems(4) live live' v by (simp add: Let_def)
        then show ?thesis by simp
      next
        case False
        then have "observeCandidates u w ob (n + 2) ?b cs = (n', b', st)"
          using Cons.prems(4) live live' v by (simp add: Let_def)
        then show ?thesis using Cons.IH [of ?b "n + 2"] Cons.prems(1,3) by simp
      qed
    qed
  qed
qed simp

lemma scheduleOf_members:
  assumes "c \<in> set (scheduleOf i)"
  shows "sc_ip c \<in> set (kin_LocalCandidates i) \<union> set (kin_ReferenceCandidates i)"
  using assms by (auto simp: scheduleOf_def boundedCandidates_def Let_def split: if_splits dest: in_set_takeD nth_mem)


text \<open>The schedule takes at most two candidates of each source, in their order, and alternates.\<close>

lemma scheduleOf_sources:
  "map sc_ip (filter (\<lambda>c. sc_source c = CandidateLocal) (scheduleOf i)) = take 2 (kin_LocalCandidates i)"
  "map sc_ip (filter (\<lambda>c. sc_source c = CandidateReference) (scheduleOf i)) = take 2 (kin_ReferenceCandidates i)"
  "length (scheduleOf i) \<le> 4"
proof -
  have upt: "[0..<max 2 n] = 0 # 1 # [2..<n]" "[0..<max n 2] = 0 # 1 # [2..<n]" "[0..<Suc (Suc 0)] = [0, 1]" for n :: nat
    by (auto simp: max_def upt_rec numeral_2_eq_2)
  have b: "boundedCandidates vs = (case vs of [] \<Rightarrow> [] | [a] \<Rightarrow> [a] | a # b # rest \<Rightarrow> [a, b])"
    "take 2 vs = (case vs of [] \<Rightarrow> [] | [a] \<Rightarrow> [a] | a # b # rest \<Rightarrow> [a, b])" for vs
    by (auto simp: boundedCandidates_def candidateLimitPerSource_def numeral_2_eq_2 split: list.split)
  show "map sc_ip (filter (\<lambda>c. sc_source c = CandidateLocal) (scheduleOf i)) = take 2 (kin_LocalCandidates i)"
    "map sc_ip (filter (\<lambda>c. sc_source c = CandidateReference) (scheduleOf i)) = take 2 (kin_ReferenceCandidates i)"
    "length (scheduleOf i) \<le> 4"
    by (auto simp: scheduleOf_def b Let_def upt split: list.split)
qed

lemma Observe_rck_accepted:
  assumes "over_web u w ob" "normalizeRequest_rck u r = (inp, None)" "Observe_rck u w ob r = finish_rck w ob b t"
  shows "ter_reason t \<noteq> RckInvalidProbeEvidence"
proof -
  have reason: "terminalContext_rck p q k = Some t \<Longrightarrow> ter_reason t \<noteq> RckInvalidProbeEvidence" for p q k t
    by (auto simp: terminalContext_rck_def Let_def split: if_splits)
  have "kin_Scheme inp = SchemeHTTPS" "kin_Port inp = 443" "kin_Method inp = httpMethod" "kin_Path inp = ''/''"
    using assms(2) by (auto simp: normalizeRequest_rck_def httpsPort_rck_def httpMethod_rck_def httpPath_rck_def httpMethod_def
        split: prod.splits)
  note ok = normalizeRequest_rck_accepted [OF assms(2)]
  have good: "good_input u inp" using ok \<open>kin_Scheme inp = SchemeHTTPS\<close> \<open>kin_Port inp = 443\<close> \<open>kin_Method inp = httpMethod\<close>
      \<open>kin_Path inp = ''/''\<close> by (simp add: good_input_def)
  have cs: "\<forall>c \<in> set (scheduleOf inp). good_candidate inp c"
    using ok scheduleOf_members [of _ inp] by (fastforce simp: good_candidate_def)
  let ?b = "\<lparr>kb_input = inp, kb_localCandidatesOmitted = omittedCandidates (kin_LocalCandidates inp),
    kb_referenceCandidatesOmitted = omittedCandidates (kin_ReferenceCandidates inp), kb_attempts = [], kb_webSource = None\<rparr>"
  obtain k b1 st where loop: "observeCandidates u w ob 1 ?b (scheduleOf inp) = (k, b1, st)" by (metis prod_cases3)
  have st: "case st of None \<Rightarrow> True | Some t \<Rightarrow> ter_reason t \<noteq> RckInvalidProbeEvidence"
    by (rule observeCandidates_accepted [OF assms(1) _ _ _ loop]) (use good cs in simp_all)
  have "krs_StopReason (Observe_rck u w ob r) \<noteq> RckInvalidProbeEvidence"
    using assms(2) loop st reason by (auto simp: Observe_rck_def Let_def split: option.split)
  then show ?thesis by (simp add: assms(3))
qed

section \<open>A concrete run\<close>

definition demoRecheckWorld :: RckWorld where
  "demoRecheckWorld = \<lparr>kw_now = steadyClock 1000000, kw_ctx = background, kw_fired = (\<lambda>d n. False),
     kw_web = (\<lambda>n. Observe_web asciiUni silentWebWorld demoWebObserver)\<rparr>"

definition demoRecheckObserver :: RckObserver where
  "demoRecheckObserver = \<lparr>ko_timeout = defaultTimeout_rck, ko_platform = \<lparr>plat_os = ''linux'', plat_arch = ''amd64''\<rparr>\<rparr>"

definition demoRecheckRequest :: RckRequest where
  "demoRecheckRequest = \<lparr>kreq_Hostname = ''example.com'', kreq_LocalCandidates = [''1.1.1.1'', ''1.1.1.1''],
     kreq_ReferenceCandidates = [''1.1.1.1'']\<rparr>"

definition demoRecheckInput :: RckInput where
  "demoRecheckInput = \<lparr>kin_Hostname = ''example.com'', kin_URL = ''https://example.com/'', kin_Scheme = SchemeHTTPS,
     kin_Family = FamilyIPv4_web, kin_Port = 443, kin_Method = ''GET'', kin_Path = ''/'', kin_CandidateLimitPerSource = 2,
     kin_RetryLimit = 0, kin_RedirectLimit = 0, kin_LocalCandidates = [''1.1.1.1''], kin_ReferenceCandidates = [''1.1.1.1'']\<rparr>"

lemma demoRecheckObserver_new: "newObserver_rck \<lparr>kcfg_Timeout = 0\<rparr> \<lparr>plat_os = ''linux'', plat_arch = ''amd64''\<rparr>
    \<lparr>plat_os = '''', plat_arch = ''''\<rparr> True = Inr demoRecheckObserver"
  by (simp add: newObserver_rck_def normalizeTimeout_rck_def demoRecheckObserver_def)

lemma one_one_candidate: "NormalizePublicIP ''1.1.1.1'' = (''1.1.1.1'', Addr4 1 1 1 1, None)"
  using NormalizePublicIP_complete [OF one_one_allowed] by (simp add: one_one_text)

lemma normalize_demo_rck: "normalizeRequest_rck u demoRecheckRequest = (demoRecheckInput, None)"
  by (simp add: normalizeRequest_rck_def demoRecheckRequest_def demoRecheckInput_def normalizeCandidates_def candidateLoop_step
      candidateText_def okCandidate_def candidateFamily_def one_one_candidate example_host familyFor_def firstErr.simps guard_def
      httpsPort_rck_def httpMethod_rck_def httpPath_rck_def candidateLimitPerSource_def retryLimit_rck_def redirectLimit_rck_def)

lemma demo_rck_env: "rck_env_ok demoRecheckWorld demoRecheckObserver"
  by (simp add: rck_env_ok_def demoRecheckWorld_def demoRecheckObserver_def steadyClock_def IsZero_def)

lemma demo_over_web: "over_web asciiUni demoRecheckWorld demoRecheckObserver"
proof -
  have "web_env_ok silentWebWorld demoWebObserver"
    using webWorld_ok(1) [of "''HTTP/1.1''"] by (simp add: web_env_ok_def silentWebWorld_def)
  moreover have "web_library_ok silentWebWorld"
    using webWorld_ok(2) [of "''HTTP/1.1''"]
    by (simp add: web_library_ok_def silentWebWorld_def exchange_ok_def isCertificateFailure_def plainErr_def errorsIs_def)
  ultimately show ?thesis
    unfolding over_web_def demoRecheckWorld_def demoRecheckObserver_def
    by (auto simp: silent_evidence intro!: exI [of _ silentWebWorld] exI [of _ demoWebObserver])
      (simp_all add: silentWebWorld_def webWorld_def)
qed

lemma demo_rck_live: "terminalContext_rck (kw_ctx demoRecheckWorld) (recheckCtx demoRecheckWorld demoRecheckObserver) n = None"
  "terminalContext_rck (kw_ctx demoRecheckWorld) (kw_ctx demoRecheckWorld) n = None"
proof -
  have live: "withTimeout (\<lambda>n. None) (\<lambda>n. False) k = None" for k by (induction k) simp_all
  show "terminalContext_rck (kw_ctx demoRecheckWorld) (recheckCtx demoRecheckWorld demoRecheckObserver) n = None"
    "terminalContext_rck (kw_ctx demoRecheckWorld) (kw_ctx demoRecheckWorld) n = None"
    by (simp_all add: terminalContext_rck_def demoRecheckWorld_def recheckCtx_def background_def live Let_def)
qed

lemma demo_recheck:
  "krs_Status (Observe_rck asciiUni demoRecheckWorld demoRecheckObserver demoRecheckRequest) = RckCompleted"
  "map (env_outcome \<circ> katt_Observation) (sliceOf (krs_Attempts (Observe_rck asciiUni demoRecheckWorld demoRecheckObserver demoRecheckRequest))) =
     [OutcomeFailed, OutcomeFailed]"
proof -
  let ?r = "\<lparr>wreq_Scheme = SchemeHTTPS, wreq_Hostname = ''example.com'', wreq_DialIP = ''1.1.1.1'', wreq_Path = '''', wreq_RawQuery = ''''\<rparr>"
  have c: "okCandidate ''1.1.1.1''" "candidateText ''1.1.1.1'' = ''1.1.1.1''" "candidateFamily ''1.1.1.1'' = FamilyIPv4_web"
    by (simp_all add: okCandidate_def candidateText_def candidateFamily_def one_one_candidate familyFor_def)
  obtain tg where n: "normalizeRequest_web asciiUni ?r = (expectedInput demoRecheckInput ''1.1.1.1'', tg, None)"
    using recheck_request_accepted [OF example_host c(1,2), of demoRecheckInput asciiUni] c(3)
    by (auto simp: demoRecheckInput_def httpMethod_def)
  note x = over_web_observation [OF demo_over_web n]
  have f: "env_outcome (kw_web demoRecheckWorld k ?r) = OutcomeFailed" for k
    using silent_failed [OF n] by (simp add: demoRecheckWorld_def)
  have s: "scheduleOf demoRecheckInput = [\<lparr>sc_source = CandidateLocal, sc_ip = ''1.1.1.1''\<rparr>, \<lparr>sc_source = CandidateReference, sc_ip = ''1.1.1.1''\<rparr>]"
    by (simp add: scheduleOf_def demoRecheckInput_def boundedCandidates_def candidateLimitPerSource_def)
  have i: "kin_Scheme demoRecheckInput = SchemeHTTPS" "kin_Hostname demoRecheckInput = ''example.com''"
    by (simp_all add: demoRecheckInput_def)
  show "krs_Status (Observe_rck asciiUni demoRecheckWorld demoRecheckObserver demoRecheckRequest) = RckCompleted"
    "map (env_outcome \<circ> katt_Observation) (sliceOf (krs_Attempts (Observe_rck asciiUni demoRecheckWorld demoRecheckObserver demoRecheckRequest))) =
       [OutcomeFailed, OutcomeFailed]"
    by (simp_all add: Observe_rck_def normalize_demo_rck s demo_rck_live validateObservation_rck_def i x f guard_def Let_def)
qed

section \<open>Properties\<close>

text \<open>Property C33: whatever the request and the Web observer answer and however the contexts end, the
  report of a recheck passes its validator, except exactly in two cases: the recorded host name changes when
  it is normalized again (the host name is refused, then), or an attempt was cancelled in a recheck that then
  stopped instead of being cancelled. The clock is not at the zero time and the platform is named.\<close>

theorem Observe_rck_valid:
  assumes "rck_env_ok w ob"
  shows "Validate_rck u (Observe_rck u w ob request) = None \<longleftrightarrow>
    webHostnameText u (webHostnameText u (kreq_Hostname request)) = webHostnameText u (kreq_Hostname request) \<and>
    \<not> (krs_Status (Observe_rck u w ob request) = RckStopped \<and>
      list_ex (\<lambda>a. env_outcome (katt_Observation a) = OutcomeCancelled) (sliceOf (krs_Attempts (Observe_rck u w ob request))))"
  by (rule Observe_rck_decided [OF assms])

lemma Observe_rck_valid_witness:
  "Validate_rck asciiUni (Observe_rck asciiUni demoRecheckWorld demoRecheckObserver demoRecheckRequest) = None \<and>
   Validate_rck asciiUni (Observe_rck asciiUni demoRecheckWorld demoRecheckObserver
     (demoRecheckRequest\<lparr>kreq_Hostname := ''a..''\<rparr>)) \<noteq> None"
proof -
  have "webHostnameText asciiUni ''example.com'' = ''example.com''"
    using example_host [of asciiUni] by (simp add: NormalizeWebHostname_def Let_def)
  then show ?thesis
    using Observe_rck_valid [OF demo_rck_env, of asciiUni demoRecheckRequest] demo_recheck
      Observe_rck_valid [OF demo_rck_env, of asciiUni "demoRecheckRequest\<lparr>kreq_Hostname := ''a..''\<rparr>"]
    by (simp add: demoRecheckRequest_def double_dot)
qed

text \<open>Property C34: over the Web observer of this program a recheck observes its schedule: the attempts
  are the candidates of the schedule in order, all of them when the recheck completes, whether or
  not one has succeeded; the schedule has the first two candidates of each source. The recheck never
  stops because of invalid probe evidence.\<close>

theorem Observe_rck_follows_schedule:
  assumes "over_web u w ob" "normalizeRequest_rck u request = (inp, None)"
  shows "krs_StopReason (Observe_rck u w ob request) \<noteq> RckInvalidProbeEvidence \<and>
    map (\<lambda>a. (katt_CandidateSource a, win_DialIP (env_input (katt_Observation a))))
        (sliceOf (krs_Attempts (Observe_rck u w ob request))) =
      take (length (sliceOf (krs_Attempts (Observe_rck u w ob request)))) (map (\<lambda>c. (sc_source c, sc_ip c)) (scheduleOf inp)) \<and>
    (krs_Status (Observe_rck u w ob request) = RckCompleted \<longrightarrow>
       length (sliceOf (krs_Attempts (Observe_rck u w ob request))) = length (scheduleOf inp)) \<and>
    map sc_ip (filter (\<lambda>c. sc_source c = CandidateLocal) (scheduleOf inp)) = take 2 (kin_LocalCandidates inp) \<and>
    map sc_ip (filter (\<lambda>c. sc_source c = CandidateReference) (scheduleOf inp)) = take 2 (kin_ReferenceCandidates inp)"
proof -
  obtain b t where run: "Observe_rck u w ob request = finish_rck w ob b t" "rck_run u (ko_platform ob) inp b t"
    using Observe_rck_run [OF assms(2)] by blast
  let ?xs = "kb_attempts b"
  have post: "list_all2 (att_ok u (ko_platform ob) inp) ?xs (take (length ?xs) (scheduleOf inp))"
    using run(2) by (simp add: rck_run_def rck_post_def)
  have order: "map (\<lambda>a. (katt_CandidateSource a, win_DialIP (env_input (katt_Observation a)))) xs = map (\<lambda>c. (sc_source c, sc_ip c)) cs"
    if "list_all2 (att_ok u (ko_platform ob) inp) xs cs" for xs cs
    using that by (induction rule: list_all2_induct) (simp_all add: att_ok_def expectedInput_def)
  have all: "krs_Status (finish_rck w ob b t) = RckCompleted \<Longrightarrow> length ?xs = length (scheduleOf inp)"
    using run(2) by (auto simp: rck_run_def early_end_def)
  have "ter_reason t \<noteq> RckInvalidProbeEvidence"
    by (rule Observe_rck_accepted [OF assms run(1)])
  then show ?thesis
    using run(1) order [OF post] all scheduleOf_sources by (simp add: take_map)
qed

lemma Observe_rck_follows_schedule_witness:
  "map (\<lambda>a. (katt_CandidateSource a, win_DialIP (env_input (katt_Observation a))))
      (sliceOf (krs_Attempts (Observe_rck asciiUni demoRecheckWorld demoRecheckObserver demoRecheckRequest))) =
    [(CandidateLocal, ''1.1.1.1''), (CandidateReference, ''1.1.1.1'')]"
proof -
  have s: "scheduleOf demoRecheckInput = [\<lparr>sc_source = CandidateLocal, sc_ip = ''1.1.1.1''\<rparr>, \<lparr>sc_source = CandidateReference, sc_ip = ''1.1.1.1''\<rparr>]"
    by (simp add: scheduleOf_def demoRecheckInput_def boundedCandidates_def candidateLimitPerSource_def)
  show ?thesis
    using Observe_rck_follows_schedule [OF demo_over_web normalize_demo_rck] demo_recheck(1) by (simp add: s)
qed

end
