(* ===== verification/FamilyCondition.thy ===== *)
theory FamilyCondition
  imports GoNet
begin

text \<open>
  Package \<open>internal/platform/familycondition\<close>: whether the kernel selects a public route for IPv4 and
  for IPv6. The dialer, the clock, the contexts and the platform are the environment of a run.
\<close>

section \<open>Types\<close>

definition IPv4RouteTarget :: string where "IPv4RouteTarget = ''1.1.1.1:53''"
definition IPv6RouteTarget :: string where "IPv6RouteTarget = ''[2606:4700:4700::1111]:53''"
definition FailureRouteCheck :: FailureCode where "FailureRouteCheck = FailureOf ''route_check_failure''"

datatype Family_fam = FamilyIPv4_fam | FamilyIPv6_fam | FamilyOther_fam string

datatype FamStatus = StatusRouteSelected | StatusUnavailable | FamStatusOther string

datatype FamReason =
    ReasonKernelRouteSelected
  | ReasonNoRoute
  | ReasonAddressFamilyUnsupported
  | ReasonSourceAddressUnavailable
  | ReasonNetworkDown
  | FamReasonOther string

record FamConfig =
  fcfg_Timeout :: int

record Condition =
  cnd_Family :: Family_fam
  cnd_Network :: string
  cnd_RouteTarget :: string
  cnd_Status :: FamStatus
  cnd_Reason :: FamReason
  cnd_LocalAddress :: string
  cnd_LocalZone :: string
  cnd_PayloadBytesSent :: int

record FamEvidence =
  fev_Conditions :: "Condition list"

type_synonym FamResult = "(unit, FamEvidence) Envelope"

section \<open>The environment and the observer\<close>

record routeSpec =
  rs_family :: Family_fam
  rs_network :: string
  rs_endpoint :: string

definition routeSpecs :: "routeSpec list" where
  "routeSpecs = [\<lparr>rs_family = FamilyIPv4_fam, rs_network = ''udp4'', rs_endpoint = IPv4RouteTarget\<rparr>,
     \<lparr>rs_family = FamilyIPv6_fam, rs_network = ''udp6'', rs_endpoint = IPv6RouteTarget\<rparr>]"

text \<open>The addresses of a connection, as printed; none for a nil address.\<close>

record FamConn =
  fc_remote :: "string option"
  fc_local :: "string option"

record FamWorld =
  fw_now :: "nat \<Rightarrow> gotime"
  fw_ctx :: ctx
  fw_fired :: "int \<Rightarrow> nat \<Rightarrow> bool"
  fw_dial :: "string \<Rightarrow> string \<Rightarrow> goerr + FamConn"
  fw_windows :: bool
  fw_os :: string
  fw_arch :: string

record FamObserver =
  fo_timeout :: int
  fo_source :: Source

definition defaultTimeout_fam :: int where "defaultTimeout_fam = 2 * Second"
definition maximumTimeout_fam :: int where "maximumTimeout_fam = 10 * Second"

definition newObserver_fam :: "FamConfig \<Rightarrow> error + FamObserver" where
  "newObserver_fam config =
     (let timeout = (if fcfg_Timeout config = 0 then defaultTimeout_fam else fcfg_Timeout config) in
      if timeout < 0 \<or> maximumTimeout_fam < timeout then Inl ''timeout must be between zero and 10s''
      else Inr \<lparr>fo_timeout = timeout, fo_source = \<lparr>src_backend = ''go-stdlib-udp-route-selection-no-write'',
        src_capability = CapabilityNative, src_reason = ''''\<rparr>\<rparr>)"

section \<open>One route\<close>

definition isTimeout_fam :: "goerr option \<Rightarrow> bool" where
  "isTimeout_fam err = netTimeout err"

definition classifyUnavailable_unix :: "goerr \<Rightarrow> FamReason option" where
  "classifyUnavailable_unix e = (let is = errorsIs (Some e) in
     if is ENETUNREACH \<or> is EHOSTUNREACH then Some ReasonNoRoute
     else if is EAFNOSUPPORT then Some ReasonAddressFamilyUnsupported
     else if is EADDRNOTAVAIL then Some ReasonSourceAddressUnavailable
     else if is ENETDOWN then Some ReasonNetworkDown
     else None)"

definition classifyUnavailable_windows :: "goerr \<Rightarrow> FamReason option" where
  "classifyUnavailable_windows e = (let is = errorsIs (Some e) in
     if is ENETUNREACH \<or> is EHOSTUNREACH \<or> is WSAENETUNREACH \<or> is WSAEHOSTUNREACH then Some ReasonNoRoute
     else if is EAFNOSUPPORT \<or> is WSAEAFNOSUPPORT then Some ReasonAddressFamilyUnsupported
     else if is EADDRNOTAVAIL \<or> is WSAEADDRNOTAVAIL then Some ReasonSourceAddressUnavailable
     else if is ENETDOWN \<or> is WSAENETDOWN then Some ReasonNetworkDown
     else None)"

definition classifyUnavailable :: "FamWorld \<Rightarrow> goerr \<Rightarrow> FamReason option" where
  "classifyUnavailable w e = (if fw_windows w then classifyUnavailable_windows e else classifyUnavailable_unix e)"

definition canonicalEndpoint_fam :: "string option \<Rightarrow> error + string" where
  "canonicalEndpoint_fam address = (case address of
      None \<Rightarrow> Inl ''dialer returned no remote endpoint''
    | Some a \<Rightarrow> (case ParseAddrPort a of
        None \<Rightarrow> Inl ''parse endpoint''
      | Some (ip, port) \<Rightarrow>
          if Zone ip \<noteq> '''' then Inl ''remote endpoint unexpectedly includes an IPv6 zone''
          else Inr (AddrPortString (Unmap ip, port))))"

text \<open>\<open>netip.Addr.WithZone("")\<close>\<close>

fun WithoutZone :: "Addr \<Rightarrow> Addr" where
  "WithoutZone (Addr6 a b c d e f g h z) = Addr6 a b c d e f g h ''''"
| "WithoutZone x = x"

definition canonicalLocalAddress :: "string option \<Rightarrow> Family_fam \<Rightarrow> error + string \<times> string" where
  "canonicalLocalAddress address family = (case address of
      None \<Rightarrow> Inl ''dialer returned no local source''
    | Some a \<Rightarrow> (case ParseAddrPort a of
        None \<Rightarrow> Inl ''parse local source''
      | Some (ip, port) \<Rightarrow>
         (let zone = Zone ip; local = Unmap (WithoutZone ip) in
          if IsUnspecified local \<or> IsMulticast local then Inl ''local source is not a selected unicast address''
          else if (family = FamilyIPv4_fam) \<noteq> Is4 local then Inl ''local source does not match family''
          else if Is4 local \<and> zone \<noteq> '''' then Inl ''IPv4 local source unexpectedly includes a zone''
          else Inr (AddrString local, zone))))"

definition observeRoute :: "FamWorld \<Rightarrow> routeSpec \<Rightarrow> goerr + Condition" where
  "observeRoute w spec = (case fw_dial w (rs_network spec) (rs_endpoint spec) of
      Inl e \<Rightarrow> Inl e
    | Inr conn \<Rightarrow> (case canonicalEndpoint_fam (fc_remote conn) of
        Inl m \<Rightarrow> Inl (plainErr (''inspect remote endpoint: '' @ m))
      | Inr remote \<Rightarrow>
          if remote \<noteq> rs_endpoint spec then Inl (plainErr ''route selected remote endpoint'')
          else (case canonicalLocalAddress (fc_local conn) (rs_family spec) of
              Inl m \<Rightarrow> Inl (plainErr (''inspect local source: '' @ m))
            | Inr (localAddress, localZone) \<Rightarrow> Inr \<lparr>cnd_Family = rs_family spec, cnd_Network = rs_network spec,
                cnd_RouteTarget = rs_endpoint spec, cnd_Status = StatusRouteSelected, cnd_Reason = ReasonKernelRouteSelected,
                cnd_LocalAddress = localAddress, cnd_LocalZone = localZone, cnd_PayloadBytesSent = 0\<rparr>)))"

definition unavailableCondition :: "routeSpec \<Rightarrow> FamReason \<Rightarrow> Condition" where
  "unavailableCondition spec reason = \<lparr>cnd_Family = rs_family spec, cnd_Network = rs_network spec,
     cnd_RouteTarget = rs_endpoint spec, cnd_Status = StatusUnavailable, cnd_Reason = reason,
     cnd_LocalAddress = '''', cnd_LocalZone = '''', cnd_PayloadBytesSent = 0\<rparr>"

section \<open>Observe\<close>

definition baseResult_fam :: "FamWorld \<Rightarrow> FamObserver \<Rightarrow> FamResult" where
  "baseResult_fam w ob =
     (let finishedAt = fw_now w 1; duration = Milliseconds (Sub finishedAt (fw_now w 0)) in
      \<lparr>env_schema = SchemaVersion, env_probe = KindAddressFamilyConditions, env_observedAt = UTC finishedAt,
       env_durationMS = (if duration < 0 then 0 else duration),
       env_platform = \<lparr>plat_os = fw_os w, plat_arch = fw_arch w\<rparr>, env_source = fo_source ob, env_input = (),
       env_outcome = OutcomeOther '''', env_evidence = None, env_failure = None\<rparr>)"

text \<open>The contexts are read from \<open>k\<close> on.\<close>

definition contextFailure :: "FamWorld \<Rightarrow> FamObserver \<Rightarrow> ctx \<Rightarrow> ctx \<Rightarrow> nat \<Rightarrow> goerr option \<Rightarrow> FamResult" where
  "contextFailure w ob parent attempt k err =
     (let (outcome, code) =
        (if errorsIs (ctxErrAt parent k) SCanceled then (OutcomeCancelled, FailureCancelled)
         else if errorsIs (ctxErrAt parent (k + 1)) SDeadlineExceeded \<or> errorsIs (ctxErrAt attempt (k + 2)) SDeadlineExceeded \<or>
            errorsIs err SDeadlineExceeded \<or> isTimeout_fam err then (OutcomeFailed, FailureTimeout)
         else if errorsIs (ctxErrAt attempt (k + 3)) SCanceled \<or> errorsIs err SCanceled then (OutcomeCancelled, FailureCancelled)
         else (OutcomeFailed, FailureRouteCheck)) in
      (baseResult_fam w ob)\<lparr>env_outcome := outcome, env_failure := Some \<lparr>fail_code = code,
        fail_detail = (case err of None \<Rightarrow> '''' | Some e \<Rightarrow> err_text e)\<rparr>\<rparr>)"

text \<open>\<open>errors.Join\<close> of two errors of contexts, of which only a deadline is a \<open>net.Error\<close>.\<close>

definition joinErrors :: "goerr option \<Rightarrow> goerr option \<Rightarrow> goerr option" where
  "joinErrors a b = (case a of
      None \<Rightarrow> b
    | Some x \<Rightarrow> Some (case b of
          None \<Rightarrow> x
        | Some y \<Rightarrow> \<lparr>err_text = err_text x @ [CHR 0x0A] @ err_text y, err_chain = err_chain x @ err_chain y,
            err_timeout = err_timeout x \<or> err_timeout y\<rparr>))"

text \<open>The loop over the routes; each step has a block of ten readings of the contexts.\<close>

fun observeRoutes :: "FamWorld \<Rightarrow> FamObserver \<Rightarrow> ctx \<Rightarrow> nat \<Rightarrow> routeSpec list \<Rightarrow> FamResult + Condition list" where
  "observeRoutes w ob attempt k [] = Inr []"
| "observeRoutes w ob attempt k (spec # specs) =
     (let rest = (\<lambda>condition. case observeRoutes w ob attempt (k + 10) specs of
            Inl r \<Rightarrow> Inl r | Inr conditions \<Rightarrow> Inr (condition # conditions)) in
      case observeRoute w spec of
        Inr condition \<Rightarrow> rest condition
      | Inl e \<Rightarrow> (case classifyUnavailable w e of
          Some reason \<Rightarrow>
            if ctxErrAt (fw_ctx w) k = None \<and> ctxErrAt attempt (k + 1) = None then rest (unavailableCondition spec reason)
            else Inl (contextFailure w ob (fw_ctx w) attempt (k + 2) (Some e))
        | None \<Rightarrow> Inl (contextFailure w ob (fw_ctx w) attempt (k + 2) (Some e))))"

definition Observe_fam :: "FamWorld \<Rightarrow> FamObserver \<Rightarrow> FamResult" where
  "Observe_fam w ob =
     (let ctx = fw_ctx w in
      if ctxErrAt ctx 0 \<noteq> None then contextFailure w ob ctx ctx 2 (ctxErrAt ctx 1)
      else
       (let attempt = withTimeout ctx (fw_fired w (fo_timeout ob)) in
        case observeRoutes w ob attempt 10 routeSpecs of
          Inl r \<Rightarrow> r
        | Inr conditions \<Rightarrow>
            if ctxErrAt ctx 40 \<noteq> None \<or> ctxErrAt attempt 41 \<noteq> None
            then contextFailure w ob ctx attempt 44 (joinErrors (ctxErrAt ctx 42) (ctxErrAt attempt 43))
            else (baseResult_fam w ob)\<lparr>env_outcome := OutcomeSucceeded, env_evidence := Some \<lparr>fev_Conditions = conditions\<rparr>\<rparr>))"

section \<open>Validate\<close>

definition validateLocalSource :: "Condition \<Rightarrow> Family_fam \<Rightarrow> error option" where
  "validateLocalSource condition family = (case ParseAddr (cnd_LocalAddress condition) of
      None \<Rightarrow> Some ''local address is invalid''
    | Some parsed \<Rightarrow>
       (let address = Unmap parsed in firstErr [
          guard (Zone parsed \<noteq> '''') ''local address must preserve its zone separately'',
          guard (cnd_LocalAddress condition \<noteq> AddrString address) ''local address must be canonical'',
          guard (IsUnspecified address \<or> IsMulticast address) ''local address must be a selected unicast address'',
          guard ((family = FamilyIPv4_fam) \<noteq> Is4 address) ''local address does not match family'',
          guard (Is4 address \<and> cnd_LocalZone condition \<noteq> '''') ''IPv4 local address must not include a zone'',
          guard (\<not> ValidString (cnd_LocalZone condition) \<or> 255 < length (cnd_LocalZone condition))
            ''local zone must be bounded valid UTF-8'']))"

definition validUnavailableReason :: "FamReason \<Rightarrow> bool" where
  "validUnavailableReason reason = (reason \<in> {ReasonNoRoute, ReasonAddressFamilyUnsupported,
     ReasonSourceAddressUnavailable, ReasonNetworkDown})"

definition validFailureCode_fam :: "FailureCode \<Rightarrow> bool" where
  "validFailureCode_fam code = (code \<in> {FailureRouteCheck, FailureTimeout, FailureCancelled})"

definition validateCondition :: "Condition \<Rightarrow> routeSpec \<Rightarrow> error option" where
  "validateCondition condition spec = firstErr [
     guard (cnd_Family condition \<noteq> rs_family spec) ''condition family must be fixed'',
     guard (cnd_Network condition \<noteq> rs_network spec) ''condition network must be fixed'',
     guard (cnd_RouteTarget condition \<noteq> rs_endpoint spec) ''condition route target must be fixed'',
     guard (cnd_PayloadBytesSent condition \<noteq> 0) ''condition must report zero payload bytes sent'',
     (case cnd_Status condition of
        StatusRouteSelected \<Rightarrow> firstErr [
          guard (cnd_Reason condition \<noteq> ReasonKernelRouteSelected) ''selected route must use reason kernel_route_selected'',
          wrapErr ''condition: '' (validateLocalSource condition (rs_family spec))]
      | StatusUnavailable \<Rightarrow> firstErr [
          guard (\<not> validUnavailableReason (cnd_Reason condition)) ''condition has unsupported unavailable reason'',
          guard (cnd_LocalAddress condition \<noteq> '''' \<or> cnd_LocalZone condition \<noteq> '''')
            ''unavailable condition must not include a local source'']
      | FamStatusOther s \<Rightarrow> Some ''condition has unsupported status'')]"

definition Validate_fam :: "FamResult \<Rightarrow> error option" where
  "Validate_fam result = firstErr [
     wrapErr ''invalid probe envelope: '' (Validate_envelope result),
     guard (env_probe result \<noteq> KindAddressFamilyConditions) ''probe must be address_family_conditions'',
     guard (case env_failure result of None \<Rightarrow> False | Some f \<Rightarrow> \<not> validFailureCode_fam (fail_code f))
       ''unsupported address-family-condition failure code'',
     (if env_outcome result \<noteq> OutcomeSucceeded then None
      else (case env_evidence result of
          None \<Rightarrow> Some ''panic: nil evidence''
        | Some evidence \<Rightarrow> firstErr (
            guard (length (fev_Conditions evidence) \<noteq> length routeSpecs) ''evidence must contain exactly 2 conditions'' #
            map (\<lambda>(condition, spec). validateCondition condition spec) (zip (fev_Conditions evidence) routeSpecs))))]"

end
