(* ===== verification/FamilyProps.thy ===== *)
theory FamilyProps
  imports FamilyCondition SysProps
begin

text \<open>The address-family probe: the exact cases in which its validator refuses an envelope.\<close>

section \<open>One condition\<close>

definition badZone :: "Condition \<Rightarrow> bool" where
  "badZone c \<longleftrightarrow> \<not> ValidString (cnd_LocalZone c) \<or> 255 < length (cnd_LocalZone c)"

abbreviation zoneMessage :: error where
  "zoneMessage \<equiv> ''condition: local zone must be bounded valid UTF-8''"

lemma WithoutZone_sel [simp]: "Zone (WithoutZone a) = ''''" "IsValid (WithoutZone a) = IsValid a"
  by (cases a; simp)+

lemma ParseAddrPort_valid: "ParseAddrPort s = Some (ip, port) \<Longrightarrow> IsValid ip"
  by (auto simp: ParseAddrPort_def Let_def split: if_splits option.splits dest: ParseAddr_valid)

lemma ValidString_Nil [simp]: "ValidString ''''"
  by (simp add: ValidString.simps)

lemma observeRoute_condition:
  assumes "observeRoute w spec = Inr c"
  shows "validateCondition c spec = guard (badZone c) zoneMessage"
proof -
  obtain conn a ip port where c: "fw_dial w (rs_network spec) (rs_endpoint spec) = Inr conn" "fc_local conn = Some a"
    "ParseAddrPort a = Some (ip, port)" "\<not> IsUnspecified (Unmap (WithoutZone ip))" "\<not> IsMulticast (Unmap (WithoutZone ip))"
    "(rs_family spec = FamilyIPv4_fam) = Is4 (Unmap (WithoutZone ip))" "Is4 (Unmap (WithoutZone ip)) \<longrightarrow> Zone ip = ''''"
    "c = \<lparr>cnd_Family = rs_family spec, cnd_Network = rs_network spec,
        cnd_RouteTarget = rs_endpoint spec, cnd_Status = StatusRouteSelected, cnd_Reason = ReasonKernelRouteSelected,
        cnd_LocalAddress = AddrString (Unmap (WithoutZone ip)), cnd_LocalZone = Zone ip, cnd_PayloadBytesSent = 0\<rparr>"
    using assms by (auto simp: observeRoute_def canonicalLocalAddress_def Let_def split: sum.splits option.splits if_splits)
  let ?l = "Unmap (WithoutZone ip)"
  have v: "IsValid ?l" "Zone ?l = ''''" using ParseAddrPort_valid [OF c(3)] by (simp_all add: Unmap_Zone)
  have "ParseAddr (AddrString ?l) = Some ?l" by (rule ParseAddr_String) (use v in simp_all)
  then show ?thesis
    using c(4-8) v by (auto simp: validateCondition_def validateLocalSource_def badZone_def firstErr.simps guard_def wrapErr_def)
qed

lemma classifyUnavailable_reason: "classifyUnavailable w e = Some r \<Longrightarrow> validUnavailableReason r"
  by (auto simp: classifyUnavailable_def classifyUnavailable_unix_def classifyUnavailable_windows_def validUnavailableReason_def
      Let_def split: if_splits)

lemma unavailable_condition:
  "classifyUnavailable w e = Some r \<Longrightarrow> validateCondition (unavailableCondition spec r) spec = None \<and>
     \<not> badZone (unavailableCondition spec r)"
  using classifyUnavailable_reason
  by (auto simp: unavailableCondition_def validateCondition_def firstErr.simps guard_def badZone_def)

section \<open>The envelope\<close>

definition fam_env_ok :: "FamWorld \<Rightarrow> FamObserver \<Rightarrow> bool" where
  "fam_env_ok w ob \<longleftrightarrow> clock_ok (fw_now w) \<and> platform_ok (fw_os w) (fw_arch w) \<and> (\<exists>cfg. newObserver_fam cfg = Inr ob)"

lemma contextFailure_valid:
  assumes "fam_env_ok w ob"
  shows "Validate_fam (contextFailure w ob p a k err) = None" "env_evidence (contextFailure w ob p a k err) = None"
proof -
  have src: "fo_source ob = \<lparr>src_backend = ''go-stdlib-udp-route-selection-no-write'',
        src_capability = CapabilityNative, src_reason = ''''\<rparr>"
    using assms by (auto simp: fam_env_ok_def newObserver_fam_def Let_def split: if_splits)
  have "\<not> IsZero (fw_now w 1)" using assms clock_nonzero by (auto simp: fam_env_ok_def)
  then show "Validate_fam (contextFailure w ob p a k err) = None" "env_evidence (contextFailure w ob p a k err) = None"
    using assms src
    by (auto simp: contextFailure_def Validate_fam_def Validate_envelope_None Validate_outcome_None baseResult_fam_def Let_def
        firstErr_simps fam_env_ok_def platform_ok_def validFailureCode_fam_def FailureRouteCheck_def)
qed

text \<open>The outcome of the loop: a failure, or one condition for each route.\<close>

lemma observeRoutes_ok:
  assumes "fam_env_ok w ob"
  shows "case observeRoutes w ob a k specs of
      Inl r \<Rightarrow> \<exists>k e. r = contextFailure w ob (fw_ctx w) a k (Some e)
    | Inr cs \<Rightarrow> list_all2 (\<lambda>c spec. validateCondition c spec = guard (badZone c) zoneMessage) cs specs"
proof (induction specs arbitrary: k)
  case (Cons spec specs)
  have rest: "case (case observeRoutes w ob a (k + 10) specs of Inl r \<Rightarrow> Inl r | Inr conditions \<Rightarrow> Inr (c # conditions)) of
      Inl r \<Rightarrow> \<exists>k e. r = contextFailure w ob (fw_ctx w) a k (Some e)
    | Inr cs \<Rightarrow> list_all2 (\<lambda>c spec. validateCondition c spec = guard (badZone c) zoneMessage) cs (spec # specs)"
    if "validateCondition c spec = guard (badZone c) zoneMessage" for c
    using Cons.IH [of "k + 10"] that by (simp split: sum.splits)
  show ?case
  proof (cases "observeRoute w spec")
    case (Inr c)
    then show ?thesis using rest [OF observeRoute_condition [OF Inr]] by (simp add: Let_def)
  next
    case (Inl e)
    show ?thesis
    proof (cases "classifyUnavailable w e")
      case None
      with Inl show ?thesis by (auto simp: Let_def)
    next
      case (Some r)
      note u = unavailable_condition [OF Some, of spec]
      show ?thesis
      proof (cases "ctxErrAt (fw_ctx w) k = None \<and> ctxErrAt a (k + 1) = None")
        case True
        then show ?thesis using Inl Some rest [of "unavailableCondition spec r"] u by (simp add: Let_def guard_def)
      next
        case False
        then show ?thesis using Inl Some by (auto simp: Let_def)
      qed
    qed
  qed
qed simp

lemma firstErr_conditions:
  "list_all2 (\<lambda>c spec. validateCondition c spec = guard (badZone c) zoneMessage) cs specs \<Longrightarrow>
   firstErr (map (\<lambda>(c, spec). validateCondition c spec) (zip cs specs)) = guard (list_ex badZone cs) zoneMessage"
  by (induction rule: list_all2_induct) (auto simp: firstErr.simps guard_def)

lemma Observe_fam_exact:
  assumes env: "fam_env_ok w ob"
  shows "Validate_fam (Observe_fam w ob) = (case env_evidence (Observe_fam w ob) of
      None \<Rightarrow> None
    | Some e \<Rightarrow> guard (list_ex badZone (fev_Conditions e)) zoneMessage)"
proof -
  note cf = contextFailure_valid [OF env]
  let ?a = "withTimeout (fw_ctx w) (fw_fired w (fo_timeout ob))"
  show ?thesis
  proof (cases "ctxErrAt (fw_ctx w) 0 = None")
    case False
    then show ?thesis by (simp add: Observe_fam_def Let_def cf)
  next
    case live: True
    show ?thesis
    proof (cases "observeRoutes w ob ?a 10 routeSpecs")
      case (Inl r)
      then obtain k e where "r = contextFailure w ob (fw_ctx w) ?a k (Some e)"
        using observeRoutes_ok [OF env, where a = ?a and k = 10 and specs = routeSpecs] by auto
      with Inl live show ?thesis by (simp add: Observe_fam_def Let_def cf)
    next
      case (Inr cs)
      then have cs: "list_all2 (\<lambda>c spec. validateCondition c spec = guard (badZone c) zoneMessage) cs routeSpecs"
        using observeRoutes_ok [OF env, where a = ?a and k = 10 and specs = routeSpecs] by simp
      show ?thesis
      proof (cases "ctxErrAt (fw_ctx w) 40 \<noteq> None \<or> ctxErrAt ?a 41 \<noteq> None")
        case True
        with live Inr show ?thesis by (simp add: Observe_fam_def Let_def cf)
      next
        case False
        have src: "fo_source ob = \<lparr>src_backend = ''go-stdlib-udp-route-selection-no-write'',
            src_capability = CapabilityNative, src_reason = ''''\<rparr>"
          using env by (auto simp: fam_env_ok_def newObserver_fam_def Let_def split: if_splits)
        let ?r = "(baseResult_fam w ob)\<lparr>env_outcome := OutcomeSucceeded, env_evidence := Some \<lparr>fev_Conditions = cs\<rparr>\<rparr>"
        have r: "Observe_fam w ob = ?r" using live Inr False by (simp add: Observe_fam_def Let_def)
        have "\<not> IsZero (fw_now w 1)" using env clock_nonzero by (auto simp: fam_env_ok_def)
        then have "Validate_envelope ?r = None"
          using env src by (simp add: Validate_envelope_None Validate_outcome_None baseResult_fam_def Let_def fam_env_ok_def platform_ok_def)
        moreover have "length cs = length routeSpecs" using cs by (rule list_all2_lengthD)
        ultimately show ?thesis
          unfolding r using firstErr_conditions [OF cs]
          by (simp add: Validate_fam_def firstErr.simps guard_def wrapErr_def baseResult_fam_def Let_def)
      qed
    qed
  qed
qed

section \<open>Properties\<close>

text \<open>Property C35: an envelope of the address-family probe passes its validator, whatever the dialer
  answers and whenever the contexts end, with exactly one exception: the probe reports any zone that the
  connection prints, and the validator refuses one that is longer than 255 bytes or not UTF-8.\<close>

theorem Observe_fam_valid:
  assumes "fam_env_ok w ob"
  shows "Validate_fam (Observe_fam w ob) = (case env_evidence (Observe_fam w ob) of
      None \<Rightarrow> None
    | Some e \<Rightarrow> guard (list_ex (\<lambda>c. \<not> ValidString (cnd_LocalZone c) \<or> 255 < length (cnd_LocalZone c)) (fev_Conditions e))
        ''condition: local zone must be bounded valid UTF-8'')"
  using Observe_fam_exact [OF assms] unfolding badZone_def by (simp split: option.split)

definition demoSource :: "string \<Rightarrow> Addr" where
  "demoSource zone = Addr6 0xfe80 0 0 0 0 0 0 1 zone"

definition demoFamWorld :: "string \<Rightarrow> FamWorld" where
  "demoFamWorld zone = \<lparr>fw_now = steadyClock 1000000, fw_ctx = background, fw_fired = (\<lambda>d n. False),
     fw_dial = (\<lambda>network endpoint. if network = ''udp4'' then Inl \<lparr>err_text = ''no route'', err_chain = [ENETUNREACH], err_timeout = False\<rparr>
       else Inr \<lparr>fc_remote = Some endpoint, fc_local = Some (AddrPortString (demoSource zone, 5353))\<rparr>),
     fw_windows = False, fw_os = ''linux'', fw_arch = ''amd64''\<rparr>"

definition demoFamObserver :: FamObserver where
  "demoFamObserver = \<lparr>fo_timeout = defaultTimeout_fam, fo_source = \<lparr>src_backend = ''go-stdlib-udp-route-selection-no-write'',
     src_capability = CapabilityNative, src_reason = ''''\<rparr>\<rparr>"

lemma demo_fam_env: "fam_env_ok (demoFamWorld zone) demoFamObserver"
proof -
  have "newObserver_fam \<lparr>fcfg_Timeout = 0\<rparr> = Inr demoFamObserver"
    by (simp add: newObserver_fam_def demoFamObserver_def defaultTimeout_fam_def maximumTimeout_fam_def)
  then show ?thesis by (auto simp: fam_env_ok_def demoFamWorld_def steadyClock_ok platform_ok_def)
qed

lemma IPv6RouteTarget_text: "AddrPortString (Addr6 0x2606 0x4700 0x4700 0 0 0 0 0x1111 [], 53) = IPv6RouteTarget"
proof -
  have "fmtHex 0x2606 = ''2606''" "fmtHex 0x4700 = ''4700''" "fmtHex 0x1111 = ''1111''" "fmtDec 53 = ''53''"
    by (simp_all add: fmtBase_rec digitChar_text)
  moreover have "groups6 (Addr6 0x2606 0x4700 0x4700 0 0 0 0 0x1111 []) = [0x2606, 0x4700, 0x4700, 0, 0, 0, 0, 0x1111]"
    by simp
  moreover have "bestRun [0x2606, 0x4700, 0x4700, 0, 0, 0, 0, 0x1111] = Some (3, 7)"
    by (simp add: bestRun_def bestRunStep_def zeroRun_def upt_rec)
  ultimately show ?thesis
    by (simp add: AddrPortString_def AddrString_def string6_def colons_def zoneSuffix_def IPv6RouteTarget_def)
qed

lemma canonicalEndpoint_v6: "canonicalEndpoint_fam (Some IPv6RouteTarget) = Inr IPv6RouteTarget"
proof -
  have "ParseAddrPort IPv6RouteTarget = Some (Addr6 0x2606 0x4700 0x4700 0 0 0 0 0x1111 [], 53)"
    using ParseAddrPort_String [of "Addr6 0x2606 0x4700 0x4700 0 0 0 0 0x1111 []" 53] by (simp add: IPv6RouteTarget_text)
  then show ?thesis using IPv6RouteTarget_text by (simp add: canonicalEndpoint_fam_def)
qed

lemma demo_fam_run:
  "\<exists>c4 c6. env_evidence (Observe_fam (demoFamWorld zone) demoFamObserver) = Some \<lparr>fev_Conditions = [c4, c6]\<rparr> \<and>
    cnd_Status c4 = StatusUnavailable \<and> cnd_LocalZone c4 = '''' \<and> cnd_Status c6 = StatusRouteSelected \<and> cnd_LocalZone c6 = zone"
proof -
  have live: "withTimeout (\<lambda>n. None) (\<lambda>n. False) k = None" for k by (induction k) simp_all
  note ep = canonicalEndpoint_v6
  have local: "canonicalLocalAddress (Some (AddrPortString (demoSource zone, 5353))) FamilyIPv6_fam =
      Inr (AddrString (Addr6 0xfe80 0 0 0 0 0 0 1 ''''), zone)"
  proof -
  have "\<not> IsUnspecified (Addr6 0xfe80 0 0 0 0 0 0 1 '''')" "\<not> IsMulticast (Addr6 0xfe80 0 0 0 0 0 0 1 '''')"
    "Unmap (Addr6 0xfe80 0 0 0 0 0 0 1 '''') = Addr6 0xfe80 0 0 0 0 0 0 1 ''''"
    by (simp_all add: IsUnspecified_def IsMulticast_def IPv4Unspecified_def IPv6Unspecified_def)
  then show ?thesis
    using ParseAddrPort_String [of "demoSource zone" 5353] by (simp add: canonicalLocalAddress_def demoSource_def)
  qed
  show ?thesis
    using local
    by (simp add: Observe_fam_def demoFamWorld_def background_def live routeSpecs_def observeRoute_def classifyUnavailable_def
        classifyUnavailable_unix_def errorsIs_def unavailableCondition_def ep Let_def
        baseResult_fam_def ctxErrAt_def)
qed

lemma Observe_fam_valid_witness:
  "Validate_fam (Observe_fam (demoFamWorld ''eth0'') demoFamObserver) = None \<and>
   Validate_fam (Observe_fam (demoFamWorld [CHR 0xFF]) demoFamObserver) = Some ''condition: local zone must be bounded valid UTF-8''"
proof -
  have v: "ValidString ''eth0''"
    by (rule ValidString_ascii) (simp add: isAscii_def)
  have bad: "\<not> ValidString [CHR 0xFF]"
    by (subst ValidString.simps) (simp add: decodeRune_def)
  from Observe_fam_valid [OF demo_fam_env, of "''eth0''"] demo_fam_run [of "''eth0''"] v
  have "Validate_fam (Observe_fam (demoFamWorld ''eth0'') demoFamObserver) = None" by (auto simp: guard_def)
  moreover from Observe_fam_valid [OF demo_fam_env, of "[CHR 0xFF]"] demo_fam_run [of "[CHR 0xFF]"] bad
  have "Validate_fam (Observe_fam (demoFamWorld [CHR 0xFF]) demoFamObserver) = Some ''condition: local zone must be bounded valid UTF-8''"
    by (auto simp: guard_def)
  ultimately show ?thesis by blast
qed

end
