(* ===== verification/ResolverInventory.thy ===== *)
theory ResolverInventory
  imports GoNet
begin

text \<open>
  Package \<open>internal/platform/resolverinventory\<close>, \<open>observer.go\<close>, \<open>normalize.go\<close>, \<open>validate.go\<close>: the
  configured resolvers of the system. What collects them, the clock and the context are the
  environment of a run.
\<close>

section \<open>Types\<close>

definition FailureUnavailable :: FailureCode where "FailureUnavailable = FailureOf ''resolver_inventory_unavailable''"
definition FailureInvalid :: FailureCode where "FailureInvalid = FailureOf ''resolver_inventory_invalid''"

datatype Scope = ScopeGlobal | ScopeScoped | ScopeOther string

record Server =
  srv_Address :: string
  srv_Port :: nat
  srv_Zone :: string

text \<open>The validator tells a nil slice of domains from an empty one.\<close>

record Group =
  grp_Scope :: Scope
  grp_Servers :: "Server list"
  grp_Interface :: string
  grp_InterfaceIndex :: nat
  grp_SearchDomains :: "string list option"
  grp_MatchDomains :: "string list option"

record InvEvidence =
  iev_Groups :: "Group list"

type_synonym InvResult = "(unit, InvEvidence) Envelope"

section \<open>Normalizing\<close>

definition defaultDNSPort :: nat where "defaultDNSPort = 53"

text \<open>\<open>strings.Contains\<close>\<close>

fun Contains :: "string \<Rightarrow> string \<Rightarrow> bool" where
  "Contains [] p = (p = [])"
| "Contains (c # s) p = (startsWith p (c # s) \<or> Contains s p)"

definition normalizeDomain :: "'a unitab_scheme \<Rightarrow> string \<Rightarrow> error + string" where
  "normalizeDomain u domain0 = (let domain = TrimSpace domain0 in
     if domain = ''.'' then Inr domain
     else
      (let domain = ToLower u (TrimSuffixDot domain) in
       if domain = '''' \<or> HasPrefix domain ''.'' \<or> Contains domain ''..'' then Inl ''invalid domain''
       else if ContainsAny domain (CHR 0x5C # ''/:@?#[]*'') \<or> hasSpaceRune domain then Inl ''invalid domain''
       else Inr domain))"

fun domainsLoop :: "'a unitab_scheme \<Rightarrow> string set \<Rightarrow> string list \<Rightarrow> error + string list" where
  "domainsLoop u seen [] = Inr []"
| "domainsLoop u seen (domain # domains) = (case normalizeDomain u domain of
      Inl e \<Rightarrow> Inl (''domain: '' @ e)
    | Inr normalized \<Rightarrow>
        if normalized \<in> seen then domainsLoop u seen domains
        else (case domainsLoop u (insert normalized seen) domains of
            Inl e \<Rightarrow> Inl e | Inr rest \<Rightarrow> Inr (normalized # rest)))"

definition normalizeDomains :: "'a unitab_scheme \<Rightarrow> string list option \<Rightarrow> error + string list option" where
  "normalizeDomains u domains = (if sliceOf domains = [] then Inr None
     else (case domainsLoop u {} (sliceOf domains) of Inl e \<Rightarrow> Inl e | Inr xs \<Rightarrow> Inr (Some xs)))"

text \<open>\<open>netip.Addr.WithZone("")\<close>\<close>

fun WithoutZone_inv :: "Addr \<Rightarrow> Addr" where
  "WithoutZone_inv (Addr6 a b c d e f g h z) = Addr6 a b c d e f g h ''''"
| "WithoutZone_inv x = x"

definition normalizeServer :: "Server \<Rightarrow> error + Server" where
  "normalizeServer server = (case ParseAddr (TrimSpace (srv_Address server)) of
      None \<Rightarrow> Inl ''invalid address''
    | Some parsed \<Rightarrow>
       (let addressZone = Zone parsed; explicit = TrimSpace (srv_Zone server) in
        if addressZone \<noteq> '''' \<and> explicit \<noteq> '''' \<and> addressZone \<noteq> explicit then Inl ''address zone conflicts with explicit zone''
        else
         (let zone = (if explicit = '''' then addressZone else explicit);
              address = Unmap (if addressZone \<noteq> '''' then WithoutZone_inv parsed else parsed) in
          if zone \<noteq> '''' \<and> (\<not> Is6 address \<or> hasSpaceRune zone) then Inl ''invalid zone for address''
          else if IsUnspecified address then Inl ''unspecified address is not a resolver endpoint''
          else Inr \<lparr>srv_Address = AddrString address, srv_Port = (if srv_Port server = 0 then defaultDNSPort else srv_Port server),
            srv_Zone = zone\<rparr>)))"

fun serversLoop :: "Server set \<Rightarrow> Server list \<Rightarrow> error + Server list" where
  "serversLoop seen [] = Inr []"
| "serversLoop seen (server # servers) = (case normalizeServer server of
      Inl e \<Rightarrow> Inl (''server: '' @ e)
    | Inr normalized \<Rightarrow>
        if normalized \<in> seen then serversLoop seen servers
        else (case serversLoop (insert normalized seen) servers of
            Inl e \<Rightarrow> Inl e | Inr rest \<Rightarrow> Inr (normalized # rest)))"

definition normalizeGroup :: "'a unitab_scheme \<Rightarrow> Group \<Rightarrow> error + Group" where
  "normalizeGroup u grp =
     (let scope = (if grp_Scope grp = ScopeOther '''' then ScopeGlobal else grp_Scope grp) in
      if scope \<noteq> ScopeGlobal \<and> scope \<noteq> ScopeScoped then Inl ''unsupported scope''
      else (case serversLoop {} (grp_Servers grp) of
          Inl e \<Rightarrow> Inl e
        | Inr servers \<Rightarrow> (case normalizeDomains u (grp_SearchDomains grp) of
            Inl e \<Rightarrow> Inl (''search domains: '' @ e)
          | Inr search \<Rightarrow> (case normalizeDomains u (grp_MatchDomains grp) of
              Inl e \<Rightarrow> Inl (''match domains: '' @ e)
            | Inr match \<Rightarrow> Inr (grp\<lparr>grp_Scope := scope, grp_Interface := TrimSpace (grp_Interface grp),
                grp_Servers := servers, grp_SearchDomains := search, grp_MatchDomains := match\<rparr>)))))"

fun scopeText :: "Scope \<Rightarrow> string" where
  "scopeText ScopeGlobal = ''global''"
| "scopeText ScopeScoped = ''scoped''"
| "scopeText (ScopeOther s) = s"

definition groupKey :: "Group \<Rightarrow> string" where
  "groupKey grp = scopeText (grp_Scope grp) @ CHR 0x00 # grp_Interface grp @ CHR 0x00 # fmtDec (grp_InterfaceIndex grp) @
     concat (map (\<lambda>server. CHR 0x00 # srv_Address server @ '':'' @ fmtDec (srv_Port server) @ ''%'' @ srv_Zone server) (grp_Servers grp)) @
     concat (map (\<lambda>domain. CHR 0x00 # ''s:'' @ domain) (sliceOf (grp_SearchDomains grp))) @
     concat (map (\<lambda>domain. CHR 0x00 # ''m:'' @ domain) (sliceOf (grp_MatchDomains grp)))"

fun groupsLoop :: "'a unitab_scheme \<Rightarrow> string set \<Rightarrow> Group list \<Rightarrow> error + Group list" where
  "groupsLoop u seen [] = Inr []"
| "groupsLoop u seen (grp # groups) = (case normalizeGroup u grp of
      Inl e \<Rightarrow> Inl (''resolver group: '' @ e)
    | Inr normalized \<Rightarrow>
        if grp_Servers normalized = [] \<or> groupKey normalized \<in> seen then groupsLoop u seen groups
        else (case groupsLoop u (insert (groupKey normalized) seen) groups of
            Inl e \<Rightarrow> Inl e | Inr rest \<Rightarrow> Inr (normalized # rest)))"

definition normalizeEvidence :: "'a unitab_scheme \<Rightarrow> InvEvidence \<Rightarrow> error + InvEvidence" where
  "normalizeEvidence u evidence = (case groupsLoop u {} (iev_Groups evidence) of
      Inl e \<Rightarrow> Inl e
    | Inr groups \<Rightarrow> if groups = [] then Inl ''resolver inventory contains no configured servers'' else Inr \<lparr>iev_Groups = groups\<rparr>)"

section \<open>Observe\<close>

record collected =
  col_evidence :: InvEvidence
  col_source :: Source

text \<open>An error, and the \<open>collectError\<close> in its chain if there is one: its code and its source.\<close>

record invErr =
  ie_err :: goerr
  ie_collect :: "(FailureCode \<times> Source) option"

record InvWorld =
  iw_collect :: "collected \<times> invErr option"
  iw_now :: "nat \<Rightarrow> gotime"
  iw_ctx :: ctx
  iw_os :: string
  iw_arch :: string

definition unavailablePlatformSource :: Source where
  "unavailablePlatformSource = \<lparr>src_backend = ''resolver-inventory-unavailable'', src_capability = CapabilityDegraded,
     src_reason = ''platform_source_unavailable''\<rparr>"

definition result_inv :: "InvWorld \<Rightarrow> Source \<Rightarrow> Outcome \<Rightarrow> InvEvidence option \<Rightarrow> Failure option \<Rightarrow> InvResult" where
  "result_inv w source outcome evidence failure =
     (let finishedAt = iw_now w 1; duration = Milliseconds (Sub finishedAt (iw_now w 0)) in
      \<lparr>env_schema = SchemaVersion, env_probe = KindResolverInventory, env_observedAt = UTC finishedAt,
       env_durationMS = (if duration < 0 then 0 else duration),
       env_platform = \<lparr>plat_os = iw_os w, plat_arch = iw_arch w\<rparr>, env_source = source,
       env_input = (), env_outcome = outcome, env_evidence = evidence, env_failure = failure\<rparr>)"

definition plainInv :: "goerr \<Rightarrow> invErr" where
  "plainInv e = \<lparr>ie_err = e, ie_collect = None\<rparr>"

text \<open>What is left after the collection: the evidence to return, or the error.\<close>

definition collectEvidence :: "'a unitab_scheme \<Rightarrow> InvWorld \<Rightarrow> invErr + InvEvidence" where
  "collectEvidence u w = (let (observation, err) = iw_collect w in
     case err of
       Some e \<Rightarrow> Inl e
     | None \<Rightarrow> (case ctxErrAt (iw_ctx w) 0 of
         Some e \<Rightarrow> Inl (plainInv e)
       | None \<Rightarrow> (case normalizeEvidence u (col_evidence observation) of
           Inl e \<Rightarrow> Inl \<lparr>ie_err = plainErr e, ie_collect = Some (FailureInvalid, col_source observation)\<rparr>
         | Inr normalized \<Rightarrow> (case ctxErrAt (iw_ctx w) 1 of
             Some e \<Rightarrow> Inl (plainInv e)
           | None \<Rightarrow> Inr normalized))))"

definition Observe_inv :: "'a unitab_scheme \<Rightarrow> InvWorld \<Rightarrow> InvResult" where
  "Observe_inv u w = (let observation = fst (iw_collect w) in
     case collectEvidence u w of
       Inr normalized \<Rightarrow> result_inv w (col_source observation) OutcomeSucceeded (Some normalized) None
     | Inl err \<Rightarrow>
        (let (code, source) = (case ie_collect err of None \<Rightarrow> (FailureUnavailable, col_source observation) | Some cs \<Rightarrow> cs);
             source = (if src_backend source = '''' then unavailablePlatformSource else source);
             (outcome, code) =
               (if errorsIs (ctxErrAt (iw_ctx w) 2) SCanceled \<or> errorsIs (Some (ie_err err)) SCanceled
                then (OutcomeCancelled, FailureCancelled)
                else if errorsIs (ctxErrAt (iw_ctx w) 3) SDeadlineExceeded \<or> errorsIs (Some (ie_err err)) SDeadlineExceeded
                then (OutcomeFailed, FailureTimeout)
                else (OutcomeFailed, code)) in
         result_inv w source outcome None (Some \<lparr>fail_code = code, fail_detail = err_text (ie_err err)\<rparr>)))"

section \<open>Validate\<close>

definition validFailureCode_inv :: "FailureCode \<Rightarrow> bool" where
  "validFailureCode_inv code = (code \<in> {FailureUnavailable, FailureInvalid, FailureTimeout, FailureCancelled})"

definition Validate_inv :: "'a unitab_scheme \<Rightarrow> InvResult \<Rightarrow> error option" where
  "Validate_inv u result = firstErr [
     wrapErr ''invalid probe envelope: '' (Validate_envelope result),
     guard (env_probe result \<noteq> KindResolverInventory) ''probe must be resolver_inventory'',
     guard (case env_failure result of None \<Rightarrow> False | Some f \<Rightarrow> \<not> validFailureCode_inv (fail_code f))
       ''unsupported resolver inventory failure code'',
     (if env_outcome result \<noteq> OutcomeSucceeded then None
      else (case env_evidence result of
          None \<Rightarrow> Some ''panic: nil evidence''
        | Some evidence \<Rightarrow> (case normalizeEvidence u evidence of
            Inl e \<Rightarrow> Some (''invalid resolver inventory evidence: '' @ e)
          | Inr normalized \<Rightarrow> guard (normalized \<noteq> evidence)
              ''resolver inventory evidence must be canonical and deduplicated'')))]"

end
