(* ===== verification/InventoryPlatform.thy ===== *)
theory InventoryPlatform
  imports ResolverInventory GoUrl
begin

text \<open>
  Package \<open>internal/platform/resolverinventory\<close>, \<open>resolvconf.go\<close>, \<open>scutil.go\<close> and the \<open>platform_*.go\<close>
  files: how each system's configuration is read. The file, the output of the command and the
  adapters of Windows are parameters.
\<close>

section \<open>Lines and fields\<close>

text \<open>
  \<open>bufio.Scanner\<close> with a buffer of at most 1024 * 1024 bytes: the lines before the first one that does not
  fit, and whether there is such a line.
\<close>

definition maxTokenSize :: nat where "maxTokenSize = 1024 * 1024"

definition dropCR :: "string \<Rightarrow> string" where
  "dropCR s = (if s \<noteq> [] \<and> last s = CHR 0x0D then butlast s else s)"

definition scanLines :: "string \<Rightarrow> string list \<times> bool" where
  "scanLines contents =
     (let parts = splitOn (CHR 0x0A) contents;
          raw = (if last parts = '''' then butlast parts else parts);
          short = takeWhile (\<lambda>line. length line < maxTokenSize) raw in
      (map dropCR short, length short < length raw))"

text \<open>\<open>strings.Fields\<close>\<close>

function skipSpaces :: "string \<Rightarrow> string" where
  "skipSpaces s = (if s \<noteq> [] \<and> isSpaceRune (fst (decodeRune s)) then skipSpaces (drop (snd (decodeRune s)) s) else s)"
  by pat_completeness auto
termination
  by (relation "measure length") (auto simp: decodeRune_width)

function wordPrefix :: "string \<Rightarrow> string" where
  "wordPrefix s = (if s = [] \<or> isSpaceRune (fst (decodeRune s)) then []
     else take (snd (decodeRune s)) s @ wordPrefix (drop (snd (decodeRune s)) s))"
  by pat_completeness auto
termination
  by (relation "measure length") (auto simp: decodeRune_width)

declare skipSpaces.simps [simp del] wordPrefix.simps [simp del]

lemma skipSpaces_length: "length (skipSpaces s) \<le> length s"
proof (induction s rule: skipSpaces.induct)
  case (1 s)
  then show ?case by (subst skipSpaces.simps) (auto intro: order_trans)
qed

lemma skipSpaces_head: "skipSpaces s = [] \<or> \<not> isSpaceRune (fst (decodeRune (skipSpaces s)))"
proof (induction s rule: skipSpaces.induct)
  case (1 s)
  show ?case
  proof (cases "s \<noteq> [] \<and> isSpaceRune (fst (decodeRune s))")
    case True
    then have "skipSpaces s = skipSpaces (drop (snd (decodeRune s)) s)" by (subst skipSpaces.simps) simp
    with 1 [OF True] show ?thesis by simp
  next
    case False
    have "skipSpaces s = s" by (subst skipSpaces.simps) (rule if_not_P [OF False])
    with False show ?thesis by auto
  qed
qed

lemma wordPrefix_nonempty: "s \<noteq> [] \<Longrightarrow> \<not> isSpaceRune (fst (decodeRune s)) \<Longrightarrow> wordPrefix s \<noteq> []"
  using decodeRune_width [of s] by (subst wordPrefix.simps) auto

function Fields :: "string \<Rightarrow> string list" where
  "Fields s = (let t = skipSpaces s in if t = [] then [] else wordPrefix t # Fields (drop (length (wordPrefix t)) t))"
  by pat_completeness auto
termination
proof (relation "measure length", simp)
  fix s t
  assume t: "t = skipSpaces s" "t \<noteq> []"
  then have "wordPrefix t \<noteq> []" using skipSpaces_head [of s] wordPrefix_nonempty by blast
  then have "length (drop (length (wordPrefix t)) t) < length t" using t(2) by (cases t; cases "wordPrefix t") auto
  then show "(drop (length (wordPrefix t)) t, s) \<in> measure length" using skipSpaces_length [of s] t(1) by simp
qed

declare Fields.simps [simp del]

section \<open>\<open>resolv.conf\<close>\<close>

text \<open>The loop over the lines: the servers and the search domains so far.\<close>

fun resolvLines :: "Server list \<Rightarrow> string list \<Rightarrow> string list \<Rightarrow> error + Server list \<times> string list" where
  "resolvLines servers search [] = Inr (servers, search)"
| "resolvLines servers search (raw # rest) = (let line = TrimSpace raw; fields = Fields line in
     if line = '''' \<or> HasPrefix line ''#'' \<or> HasPrefix line '';'' then resolvLines servers search rest
     else if fields = [] then resolvLines servers search rest
     else if hd fields = ''nameserver'' then
       (if length fields < 2 then Inl ''nameserver directive has no address''
        else resolvLines (servers @ [\<lparr>srv_Address = fields ! 1, srv_Port = defaultDNSPort, srv_Zone = ''''\<rparr>]) search rest)
     else if hd fields = ''search'' then resolvLines servers (tl fields) rest
     else if hd fields = ''domain'' then
       (if length fields < 2 then Inl ''domain directive has no value'' else resolvLines servers [fields ! 1] rest)
     else resolvLines servers search rest)"

text \<open>Whether one of the servers is local.\<close>

fun stubLoop :: "Server list \<Rightarrow> error + bool" where
  "stubLoop [] = Inr False"
| "stubLoop (server # servers) = (case ParseAddr (srv_Address server) of
      None \<Rightarrow> Inl ''invalid canonical resolver address''
    | Some address \<Rightarrow> (case stubLoop servers of
        Inl e \<Rightarrow> Inl e
      | Inr stub \<Rightarrow> Inr (IsLoopback address \<or> IsLinkLocalUnicast address \<or> stub)))"

definition resolvGroup :: "Server list \<Rightarrow> string list \<Rightarrow> Group" where
  "resolvGroup servers search = \<lparr>grp_Scope = ScopeGlobal, grp_Servers = servers, grp_Interface = '''', grp_InterfaceIndex = 0,
     grp_SearchDomains = Some search, grp_MatchDomains = None\<rparr>"

definition parseResolvConf :: "'a unitab_scheme \<Rightarrow> string \<Rightarrow> error + InvEvidence \<times> bool" where
  "parseResolvConf u contents = (let (lines, tooLong) = scanLines contents in
     case resolvLines [] [] lines of
       Inl e \<Rightarrow> Inl e
     | Inr (servers, search) \<Rightarrow>
         if tooLong then Inl ''scan resolv.conf: bufio.Scanner: token too long''
         else (case normalizeEvidence u \<lparr>iev_Groups = [resolvGroup servers search]\<rparr> of
             Inl e \<Rightarrow> Inl e
           | Inr evidence \<Rightarrow> (case stubLoop (grp_Servers (hd (iev_Groups evidence))) of
               Inl e \<Rightarrow> Inl e
             | Inr stub \<Rightarrow> Inr (evidence, stub))))"

section \<open>\<open>scutil --dns\<close>\<close>

definition ParseUint32 :: "string \<Rightarrow> nat option" where
  "ParseUint32 s = (if s = [] then None
     else case readBase 10 0 s of None \<Rightarrow> None | Some n \<Rightarrow> if n < 2 ^ 32 then Some n else None)"

text \<open>\<open>strings.Index\<close> and \<open>strings.LastIndex\<close> of a character.\<close>

definition Index :: "string \<Rightarrow> char \<Rightarrow> int" where
  "Index s c = (if c \<in> set s then int (length (takeWhile (\<lambda>x. x \<noteq> c) s)) else - 1)"

definition LastIndex :: "string \<Rightarrow> char \<Rightarrow> int" where
  "LastIndex s c = (if c \<in> set s then int (length s) - 1 - int (length (takeWhile (\<lambda>x. x \<noteq> c) (rev s))) else - 1)"

definition parseScutilInterface :: "string \<Rightarrow> error + nat \<times> string" where
  "parseScutilInterface val = (let fields = Fields val in
     if fields = [] then Inl ''scutil if_index is empty''
     else (case ParseUint32 (hd fields) of
         None \<Rightarrow> Inl ''invalid scutil if_index''
       | Some index \<Rightarrow>
           if index = 0 then Inl ''invalid scutil if_index''
           else
            (let opened = Index val (CHR ''(''); closed = LastIndex val (CHR '')'') in
             if 0 \<le> opened \<or> 0 \<le> closed then
               (if opened < 0 \<or> closed \<le> opened + 1 \<or> closed \<noteq> int (length val) - 1 then Inl ''invalid scutil interface''
                else Inr (index, TrimSpace (take (nat (closed - (opened + 1))) (drop (nat (opened + 1)) val))))
             else Inr (index, ''''))))"

record scutilGroup =
  sg_scope :: Scope
  sg_servers :: "string list"
  sg_port :: nat
  sg_interfaceName :: string
  sg_interfaceIndex :: nat
  sg_searchDomains :: "string list"
  sg_matchDomains :: "string list"

text \<open>A nil slice of domains and an empty one are normalized alike.\<close>

definition scutilGroup_group :: "'a unitab_scheme \<Rightarrow> scutilGroup \<Rightarrow> error + Group" where
  "scutilGroup_group u g = normalizeGroup u \<lparr>grp_Scope = sg_scope g,
     grp_Servers = map (\<lambda>address. \<lparr>srv_Address = address, srv_Port = sg_port g, srv_Zone = ''''\<rparr>) (sg_servers g),
     grp_Interface = sg_interfaceName g, grp_InterfaceIndex = sg_interfaceIndex g,
     grp_SearchDomains = (if sg_searchDomains g = [] then None else Some (sg_searchDomains g)),
     grp_MatchDomains = (if sg_matchDomains g = [] then None else Some (sg_matchDomains g))\<rparr>"

definition flushGroup :: "'a unitab_scheme \<Rightarrow> scutilGroup option \<Rightarrow> Group list \<Rightarrow> error + Group list" where
  "flushGroup u current groups = (case current of
      None \<Rightarrow> Inr groups
    | Some g \<Rightarrow> (case scutilGroup_group u g of
        Inl e \<Rightarrow> Inl e
      | Inr grp \<Rightarrow> Inr (if grp_Servers grp \<noteq> [] then groups @ [grp] else groups)))"

text \<open>One line of a resolver block.\<close>

definition scutilEntry :: "scutilGroup \<Rightarrow> string \<Rightarrow> error + scutilGroup" where
  "scutilEntry g line =
     (if CHR '':'' \<notin> set line then Inr g
      else
       (let key = TrimSpace (takeWhile (\<lambda>c. c \<noteq> CHR '':'') line);
            val = TrimSpace (drop (length (takeWhile (\<lambda>c. c \<noteq> CHR '':'') line) + 1) line) in
        if HasPrefix key ''nameserver['' then
          (if val = '''' then Inl ''scutil nameserver is empty'' else Inr (g\<lparr>sg_servers := sg_servers g @ [val]\<rparr>))
        else if key = ''port'' then (case ParseUint16 val of
            None \<Rightarrow> Inl ''invalid scutil resolver port''
          | Some port \<Rightarrow> if port = 0 then Inl ''invalid scutil resolver port'' else Inr (g\<lparr>sg_port := port\<rparr>))
        else if key = ''if_index'' then (case parseScutilInterface val of
            Inl e \<Rightarrow> Inl e
          | Inr (index, name) \<Rightarrow> Inr (g\<lparr>sg_interfaceIndex := index, sg_interfaceName := name\<rparr>))
        else if HasPrefix key ''search domain['' then Inr (g\<lparr>sg_searchDomains := sg_searchDomains g @ [val]\<rparr>)
        else if key = ''domain'' then Inr (g\<lparr>sg_matchDomains := sg_matchDomains g @ [val]\<rparr>)
        else Inr g))"

fun scutilLines :: "'a unitab_scheme \<Rightarrow> Scope \<Rightarrow> scutilGroup option \<Rightarrow> Group list \<Rightarrow> string list \<Rightarrow>
    error + scutilGroup option \<times> Group list" where
  "scutilLines u scope current groups [] = Inr (current, groups)"
| "scutilLines u scope current groups (raw # rest) = (let line = TrimSpace raw in
     if line = ''DNS configuration'' then (case flushGroup u current groups of
         Inl e \<Rightarrow> Inl e | Inr groups \<Rightarrow> scutilLines u ScopeGlobal None groups rest)
     else if line = ''DNS configuration (for scoped queries)'' then (case flushGroup u current groups of
         Inl e \<Rightarrow> Inl e | Inr groups \<Rightarrow> scutilLines u ScopeScoped None groups rest)
     else if HasPrefix line ''resolver #'' then (case flushGroup u current groups of
         Inl e \<Rightarrow> Inl e
       | Inr groups \<Rightarrow> scutilLines u scope (Some \<lparr>sg_scope = scope, sg_servers = [], sg_port = defaultDNSPort,
           sg_interfaceName = '''', sg_interfaceIndex = 0, sg_searchDomains = [], sg_matchDomains = []\<rparr>) groups rest)
     else (case current of
         None \<Rightarrow> scutilLines u scope current groups rest
       | Some g \<Rightarrow>
           if line = '''' then scutilLines u scope current groups rest
           else (case scutilEntry g line of
               Inl e \<Rightarrow> Inl e
             | Inr g \<Rightarrow> scutilLines u scope (Some g) groups rest)))"

definition parseScutilDNS :: "'a unitab_scheme \<Rightarrow> string \<Rightarrow> error + InvEvidence" where
  "parseScutilDNS u output = (let (lines, tooLong) = scanLines output in
     case scutilLines u ScopeGlobal None [] lines of
       Inl e \<Rightarrow> Inl e
     | Inr (current, groups) \<Rightarrow>
         if tooLong then Inl ''scan scutil DNS output: bufio.Scanner: token too long''
         else (case flushGroup u current groups of
             Inl e \<Rightarrow> Inl e
           | Inr groups \<Rightarrow> normalizeEvidence u \<lparr>iev_Groups = groups\<rparr>))"

section \<open>The platforms\<close>

definition wrapGo :: "error \<Rightarrow> goerr \<Rightarrow> goerr" where
  "wrapGo prefix e = e\<lparr>err_text := prefix @ err_text e\<rparr>"

definition onlySource :: "Source \<Rightarrow> collected" where
  "onlySource source = \<lparr>col_evidence = \<lparr>iev_Groups = []\<rparr>, col_source = source\<rparr>"

definition collectFailed :: "Source \<Rightarrow> FailureCode \<Rightarrow> goerr \<Rightarrow> collected \<times> invErr option" where
  "collectFailed source code e = (onlySource source, Some \<lparr>ie_err = e, ie_collect = Some (code, source)\<rparr>)"

definition linuxSource :: "string \<Rightarrow> Source" where
  "linuxSource reason = \<lparr>src_backend = ''linux-resolv-conf'', src_capability = CapabilityDegraded, src_reason = reason\<rparr>"

definition linuxResolvConfReason :: string where "linuxResolvConfReason = ''resolv_conf_does_not_expose_per_link_resolvers''"
definition linuxLocalStubReason :: string where "linuxLocalStubReason = ''local_stub_hides_upstream_resolvers''"

text \<open>The context has two readings of its own during the collection.\<close>

definition collectPlatform_linux :: "'a unitab_scheme \<Rightarrow> ctx \<Rightarrow> goerr + string \<Rightarrow> collected \<times> invErr option" where
  "collectPlatform_linux u c readFile = (let source = linuxSource linuxResolvConfReason in
     case ctxErrAt c 0 of
       Some e \<Rightarrow> (onlySource source, Some (plainInv e))
     | None \<Rightarrow> (case readFile of
         Inl e \<Rightarrow> collectFailed source FailureUnavailable (wrapGo ''read /etc/resolv.conf: '' e)
       | Inr contents \<Rightarrow> (case ctxErrAt c 1 of
           Some e \<Rightarrow> (onlySource source, Some (plainInv e))
         | None \<Rightarrow> (case parseResolvConf u contents of
             Inl e \<Rightarrow> collectFailed source FailureInvalid (plainErr (''parse /etc/resolv.conf: '' @ e))
           | Inr (evidence, localStub) \<Rightarrow>
               (\<lparr>col_evidence = evidence, col_source = (if localStub then linuxSource linuxLocalStubReason else source)\<rparr>, None)))))"

definition macOSSource :: Source where
  "macOSSource = \<lparr>src_backend = ''macos-scutil'', src_capability = CapabilityNative, src_reason = ''''\<rparr>"

definition collectPlatform_darwin :: "'a unitab_scheme \<Rightarrow> goerr + string \<Rightarrow> collected \<times> invErr option" where
  "collectPlatform_darwin u output = (case output of
      Inl e \<Rightarrow> collectFailed macOSSource FailureUnavailable (wrapGo ''run /usr/sbin/scutil --dns: '' e)
    | Inr contents \<Rightarrow> (case parseScutilDNS u contents of
        Inl e \<Rightarrow> collectFailed macOSSource FailureInvalid (plainErr (''parse scutil DNS configuration: '' @ e))
      | Inr evidence \<Rightarrow> (\<lparr>col_evidence = evidence, col_source = macOSSource\<rparr>, None)))"

definition unsupportedPlatformSource :: Source where
  "unsupportedPlatformSource = \<lparr>src_backend = ''unsupported-resolver-inventory-platform'', src_capability = CapabilityDegraded,
     src_reason = ''platform_inventory_unsupported''\<rparr>"

definition collectPlatform_other :: "collected \<times> invErr option" where
  "collectPlatform_other = collectFailed unsupportedPlatformSource FailureUnavailable
     (plainErr ''resolver inventory is not supported on this platform'')"

section \<open>Windows\<close>

text \<open>
  What \<open>GetAdaptersAddresses\<close> answers: its linked structures as lists. A server has a socket address
  or none, the address \<open>netip.AddrFromSlice\<close> makes of it, and the scope of an IPv6 socket address.
\<close>

record WinServer =
  ws_sockaddr :: bool
  ws_ip :: "Addr option"
  ws_inet6 :: bool
  ws_scopeID :: nat

record WinAdapter =
  wa_up :: bool
  wa_Ipv6IfIndex :: nat
  wa_IfIndex :: nat
  wa_FriendlyName :: "string option"
  wa_servers :: "WinServer list"
  wa_DnsSuffix :: "string option"
  wa_suffixes :: "string list"

datatype winAnswer = WinAdapters "WinAdapter list" | WinOverflow | WinError goerr

definition windowsSource :: Source where
  "windowsSource = \<lparr>src_backend = ''windows-ip-helper'', src_capability = CapabilityNative, src_reason = ''''\<rparr>"

fun getWindowsAdapters :: "(nat \<Rightarrow> winAnswer) \<Rightarrow> nat \<Rightarrow> nat \<Rightarrow> goerr + WinAdapter list" where
  "getWindowsAdapters answer attempt 0 = Inl (plainErr ''adapter buffer size changed repeatedly'')"
| "getWindowsAdapters answer attempt (Suc left) = (case answer attempt of
      WinAdapters adapters \<Rightarrow> Inr adapters
    | WinError e \<Rightarrow> Inl e
    | WinOverflow \<Rightarrow> getWindowsAdapters answer (attempt + 1) left)"

fun windowsServers :: "WinServer list \<Rightarrow> error + Server list" where
  "windowsServers [] = Inr []"
| "windowsServers (server # servers) =
     (if \<not> ws_sockaddr server then Inl ''adapter has an empty DNS server address''
      else (case ws_ip server of
          None \<Rightarrow> Inl ''adapter has an invalid DNS server address''
        | Some address \<Rightarrow> (case windowsServers servers of
            Inl e \<Rightarrow> Inl e
          | Inr rest \<Rightarrow> Inr (\<lparr>srv_Address = AddrString (Unmap address), srv_Port = defaultDNSPort,
              srv_Zone = (if Is6 address \<and> ws_inet6 server \<and> ws_scopeID server \<noteq> 0 then fmtDec (ws_scopeID server) else '''')\<rparr> # rest))))"

definition windowsAdapterGroup :: "'a unitab_scheme \<Rightarrow> WinAdapter \<Rightarrow> error + Group" where
  "windowsAdapterGroup u adapter = (case windowsServers (wa_servers adapter) of
      Inl e \<Rightarrow> Inl e
    | Inr servers \<Rightarrow>
       (let suffixes = filter (\<lambda>s. s \<noteq> '''') ((case wa_DnsSuffix adapter of None \<Rightarrow> [] | Some s \<Rightarrow> [s]) @ wa_suffixes adapter) in
        normalizeGroup u \<lparr>grp_Scope = ScopeScoped, grp_Servers = servers,
          grp_Interface = (case wa_FriendlyName adapter of None \<Rightarrow> '''' | Some n \<Rightarrow> n),
          grp_InterfaceIndex = (if wa_Ipv6IfIndex adapter = 0 then wa_IfIndex adapter else wa_Ipv6IfIndex adapter),
          grp_SearchDomains = (if suffixes = [] then None else Some suffixes), grp_MatchDomains = None\<rparr>))"

fun windowsGroups :: "'a unitab_scheme \<Rightarrow> WinAdapter list \<Rightarrow> error + Group list" where
  "windowsGroups u [] = Inr []"
| "windowsGroups u (adapter # adapters) =
     (if \<not> wa_up adapter then windowsGroups u adapters
      else (case windowsAdapterGroup u adapter of
          Inl e \<Rightarrow> Inl e
        | Inr grp \<Rightarrow> (case windowsGroups u adapters of
            Inl e \<Rightarrow> Inl e
          | Inr groups \<Rightarrow> Inr (if grp_Servers grp \<noteq> [] then grp # groups else groups))))"

definition collectPlatform_windows :: "'a unitab_scheme \<Rightarrow> ctx \<Rightarrow> (nat \<Rightarrow> winAnswer) \<Rightarrow> collected \<times> invErr option" where
  "collectPlatform_windows u c answer = (case ctxErrAt c 0 of
      Some e \<Rightarrow> (onlySource windowsSource, Some (plainInv e))
    | None \<Rightarrow> (case getWindowsAdapters answer 0 3 of
        Inl e \<Rightarrow> collectFailed windowsSource FailureUnavailable (wrapGo ''GetAdaptersAddresses: '' e)
      | Inr adapters \<Rightarrow> (case windowsGroups u adapters of
          Inl e \<Rightarrow> collectFailed windowsSource FailureInvalid (plainErr e)
        | Inr groups \<Rightarrow> (case ctxErrAt c 1 of
            Some e \<Rightarrow> (onlySource windowsSource, Some (plainInv e))
          | None \<Rightarrow> (case normalizeEvidence u \<lparr>iev_Groups = groups\<rparr> of
              Inl e \<Rightarrow> collectFailed windowsSource FailureInvalid (plainErr e)
            | Inr evidence \<Rightarrow> (\<lparr>col_evidence = evidence, col_source = windowsSource\<rparr>, None))))))"

end
