(* ===== verification/Utf8Props.thy ===== *)
theory Utf8Props
  imports DnsNames NettargetProps
begin

text \<open>
  UTF-8 text: the runes of a concatenation, what an encoded rune decodes to, text without space
  runes, and lowering twice. The normalizers of domains and of \<open>resolv.conf\<close> rest on these.
\<close>

section \<open>Runes of a concatenation\<close>

text \<open>A text starts a rune when its first byte is not a continuation byte.\<close>

definition startsRune :: "string \<Rightarrow> bool" where
  "startsRune p \<longleftrightarrow> (case p of [] \<Rightarrow> False | c # _ \<Rightarrow> \<not> inRange 128 191 (byte c))"

lemma no_continuation:
  "\<not> inRange 128 191 b \<Longrightarrow> decode2 a b = None"
  "\<not> inRange 128 191 b \<Longrightarrow> decode3 a b c = None"
  "\<not> inRange 128 191 c \<Longrightarrow> decode3 a b c = None"
  "\<not> inRange 128 191 b \<Longrightarrow> decode4 a b c d = None"
  "\<not> inRange 128 191 c \<Longrightarrow> decode4 a b c d = None"
  "\<not> inRange 128 191 d \<Longrightarrow> decode4 a b c d = None"
  by (auto simp: decode2_def decode3_def decode4_def inRange_def)

lemma decode_width: "decode2 a b = Some x \<Longrightarrow> snd x = 2" "decode3 a b c = Some x \<Longrightarrow> snd x = 3" "decode4 a b c d = Some x \<Longrightarrow> snd x = 4"
  by (auto simp: decode2_def decode3_def decode4_def split: if_splits)

lemma decodeRune_stays:
  assumes "t \<noteq> []" "startsRune p"
  shows "snd (decodeRune (t @ p)) \<le> length t \<and> decodeRune (t @ p) = decodeRune t"
proof -
  obtain c q where p: "p = c # q" and c: "\<not> inRange 128 191 (byte c)"
    using assms(2) by (cases p) (auto simp: startsRune_def)
  note no = no_continuation [OF c]
  consider a where "t = [a]" | a b where "t = [a, b]" | a b d where "t = [a, b, d]" | a b d e r where "t = a # b # d # e # r"
    using assms(1) by (metis neq_Nil_conv)
  then show ?thesis
  proof cases
    case (1 a)
    have "decodeRune (a # c # q) = (if byte a < 128 then (byte a, 1) else (runeError, 1))"
      by (simp add: decodeRune_def no split: list.split)
    with 1 p show ?thesis by (simp add: decodeRune_def)
  next
    case (2 a b)
    have "decodeRune (a # b # c # q) = (if byte a < 128 then (byte a, 1) else case decode2 (byte a) (byte b) of
        Some x \<Rightarrow> x | None \<Rightarrow> (runeError, 1))"
      by (cases "decode2 (byte a) (byte b)") (simp_all add: decodeRune_def no split: list.split)
    with 2 p show ?thesis by (auto simp: decodeRune_def dest: decode_width split: option.split)
  next
    case (3 a b d)
    have "decodeRune (a # b # d # c # q) = (if byte a < 128 then (byte a, 1) else
        case orElse (decode2 (byte a) (byte b)) (decode3 (byte a) (byte b) (byte d)) of Some x \<Rightarrow> x | None \<Rightarrow> (runeError, 1))"
      by (cases "decode2 (byte a) (byte b)"; cases "decode3 (byte a) (byte b) (byte d)") (simp_all add: decodeRune_def no)
    with 3 p show ?thesis
      by (cases "decode2 (byte a) (byte b)"; cases "decode3 (byte a) (byte b) (byte d)") (auto simp: decodeRune_def dest: decode_width)
  next
    case (4 a b d e r)
    then show ?thesis
      by (cases "decode2 (byte a) (byte b)"; cases "decode3 (byte a) (byte b) (byte d)"; cases "decode4 (byte a) (byte b) (byte d) (byte e)")
        (auto simp: decodeRune_def dest: decode_width)
  qed
qed

lemma runes_step: "s \<noteq> [] \<Longrightarrow> runes s = fst (decodeRune s) # runes (drop (snd (decodeRune s)) s)"
  by (subst runes.simps) simp

lemma runes_append:
  assumes "startsRune p"
  shows "runes (t @ p) = runes t @ runes p"
proof (induction t rule: length_induct)
  case (1 t)
  show ?case
  proof (cases "t = []")
    case False
    note s = decodeRune_stays [OF False assms]
    let ?k = "snd (decodeRune t)"
    have "0 < ?k" using False by (rule decodeRune_width)
    then have "length (drop ?k t) < length t" using False by simp
    with 1 have "runes (drop ?k t @ p) = runes (drop ?k t) @ runes p" by blast
    moreover have "?k \<le> length t" using s by metis
    then have "drop ?k (t @ p) = drop ?k t @ p" by simp
    ultimately have "runes (t @ p) = fst (decodeRune t) # runes (drop ?k t) @ runes p"
      using s False runes_step [of "t @ p"] by (simp del: drop_append)
    then show ?thesis using False runes_step [of t] by simp
  qed simp
qed

section \<open>Encoded runes\<close>

definition validRune :: "nat \<Rightarrow> nat" where
  "validRune r = (if (55296 \<le> r \<and> r \<le> 57343) \<or> 1114111 < r then runeError else r)"

lemma encodeRune_validRune: "encodeRune (validRune r) = encodeRune r"
  by (simp add: encodeRune_def validRune_def runeError_def)

lemma decode_encode_valid:
  assumes v: "validRune r = r"
  shows "decodeRune (encodeRune r @ s) = (r, length (encodeRune r)) \<and> startsRune (encodeRune r)"
proof -
  have r: "\<not> (55296 \<le> r \<and> r \<le> 57343)" "r \<le> 1114111"
    using v by (auto simp: validRune_def runeError_def split: if_splits)
  then have nv: "\<not> ((55296 \<le> r \<and> r \<le> 57343) \<or> 1114111 < r)" by auto
  note enc = encodeRune_def [of r, unfolded if_not_P [OF nv] Let_def]
  consider "r < 128" | "128 \<le> r" "r < 2048" | "2048 \<le> r" "r < 65536" | "65536 \<le> r" by linarith
  then show ?thesis
  proof cases
    case 1
    then have "encodeRune r = [char_of r]" by (simp add: enc)
    with 1 show ?thesis by (simp add: decodeRune_def startsRune_def inRange_def)
  next
    case 2
    let ?a = "192 + r div 64" and ?b = "128 + r mod 64"
    have e: "encodeRune r = [char_of ?a, char_of ?b]" using 2 by (simp add: enc)
    have "194 \<le> ?a" "?a \<le> 223" "?b \<le> 191" using 2 by auto
    then have "?a mod 256 = ?a" "?b mod 256 = ?b" "inRange 194 223 ?a" "inRange 128 191 ?b"
      by (simp_all add: inRange_def)
    then show ?thesis
      by (cases s rule: list.exhaust [case_names Nil Cons])
        (auto simp: e decodeRune_def startsRune_def inRange_def decode2_def split: list.splits)
  next
    case 3
    let ?a = "224 + r div 4096" and ?b = "128 + r div 64 mod 64" and ?c = "128 + r mod 64"
    have e: "encodeRune r = [char_of ?a, char_of ?b, char_of ?c]" using 3 by (simp add: enc)
    have a: "224 \<le> ?a" "?a \<le> 239" "?b \<le> 191" "?c \<le> 191" using 3 by auto
    have sp: "r div 64 = 64 * (r div 4096) + r div 64 mod 64"
      using div_mult2_eq [of r 64 64] mult_div_mod_eq [of 64 "r div 64"] by simp
    have low: "r div 64 mod 64 \<ge> 32" if "?a = 224"
    proof -
      have "32 \<le> r div 64" using 3 div_le_mono [of 2048 r 64] by simp
      with sp that show ?thesis by linarith
    qed
    have high: "r div 64 mod 64 \<le> 31" if "?a = 237"
    proof -
      have "r < 57344" using that by linarith
      then have "r \<le> 55295" using r by linarith
      then have "r div 64 \<le> 863" using div_le_mono [of r 55295 64] by simp
      with sp that show ?thesis by linarith
    qed
    have "?a mod 256 = ?a" "?b mod 256 = ?b" "?c mod 256 = ?c" using a by simp_all
    moreover have "r div 4096 * 4096 + r div 64 mod 64 * 64 + r mod 64 = r" using sp mult_div_mod_eq [of 64 r] by linarith
    ultimately show ?thesis using a low high
      by (cases s rule: list.exhaust [case_names Nil Cons])
        (auto simp: e decodeRune_def startsRune_def inRange_def decode2_def decode3_def split: list.splits)
  next
    case 4
    let ?a = "240 + r div 262144" and ?b = "128 + r div 4096 mod 64" and ?c = "128 + r div 64 mod 64" and ?d = "128 + r mod 64"
    have e: "encodeRune r = [char_of ?a, char_of ?b, char_of ?c, char_of ?d]" using 4 by (simp add: enc)
    have a: "240 \<le> ?a" "?a \<le> 244" "?b \<le> 191" "?c \<le> 191" "?d \<le> 191" using 4 r by auto
    have sp: "r div 4096 = 64 * (r div 262144) + r div 4096 mod 64" "r div 64 = 64 * (r div 4096) + r div 64 mod 64"
      using div_mult2_eq [of r 4096 64] mult_div_mod_eq [of 64 "r div 4096"]
        div_mult2_eq [of r 64 64] mult_div_mod_eq [of 64 "r div 64"] by simp_all
    have low: "r div 4096 mod 64 \<ge> 16" if "?a = 240"
    proof -
      have "16 \<le> r div 4096" using 4 div_le_mono [of 65536 r 4096] by simp
      with sp that show ?thesis by linarith
    qed
    have high: "r div 4096 mod 64 \<le> 15" if "?a = 244"
    proof -
      have "r div 4096 \<le> 271" using r div_le_mono [of r 1114111 4096] by simp
      with sp that show ?thesis by linarith
    qed
    have "r div 262144 * 262144 + r div 4096 mod 64 * 4096 + r div 64 mod 64 * 64 + r mod 64 = r"
      using sp mult_div_mod_eq [of 64 r] by linarith
    then have r': "(?a - 240) * 262144 + (?b - 128) * 4096 + (?c - 128) * 64 + (?d - 128) = r"
      by (simp only: add_diff_cancel_left')
    have b: "byte (char_of ?a) = ?a" "byte (char_of ?b) = ?b" "byte (char_of ?c) = ?c" "byte (char_of ?d) = ?d"
      using a by (simp_all only: of_char_of mod_less)
    have "decode2 ?a ?b = None" "decode3 ?a ?b ?c = None" using a by (simp_all add: decode2_def decode3_def inRange_def)
    moreover have "inRange (if ?a = 240 then 144 else 128) (if ?a = 244 then 143 else 191) ?b"
      using a low high by (simp add: inRange_def split: if_split)
    then have "decode4 ?a ?b ?c ?d = Some (r, 4)"
      using a r' by (simp add: decode4_def inRange_def del: add_diff_cancel_left')
    ultimately have "decodeRune (encodeRune r @ s) = (r, 4)"
      unfolding e using a(1) b by (simp add: decodeRune_def del: of_char_of char_of_eq_iff)
    with a(1) b show ?thesis by (simp add: e startsRune_def inRange_def)
  qed
qed

lemma validRune_idem: "validRune (validRune r) = validRune r"
  by (auto simp: validRune_def runeError_def)

lemma decode_encode: "decodeRune (encodeRune r @ s) = (validRune r, length (encodeRune r))"
  and encodeRune_starts: "startsRune (encodeRune r)"
  using decode_encode_valid [OF validRune_idem, of r s] by (simp_all add: encodeRune_validRune)

lemma runes_encoded: "runes (concat (map encodeRune rs)) = map validRune rs"
proof (induction rs)
  case (Cons r rs)
  have "encodeRune r \<noteq> []" using encodeRune_starts [of r] by (auto simp: startsRune_def)
  with Cons show ?case
    using runes_step [of "encodeRune r @ concat (map encodeRune rs)"] by (simp add: decode_encode)
qed simp

section \<open>Lowering\<close>

text \<open>
  The simple case mapping of Unicode maps a lower-case rune to itself and leaves U+FFFD alone.
\<close>

definition lower_stable :: "'a unitab_scheme \<Rightarrow> bool" where
  "lower_stable u \<longleftrightarrow> unitab_ok u \<and> uni_lower u runeError = runeError \<and>
     (\<forall>r \<ge> 128. uni_lower u r \<ge> 128 \<longrightarrow> uni_lower u (uni_lower u r) = uni_lower u r)"

lemma lowerRune_idem:
  assumes "lower_stable u"
  shows "lowerRune u (validRune (lowerRune u r)) = validRune (lowerRune u r)"
proof -
  have ok: "unitab_ok u" "uni_lower u runeError = runeError" "\<And>r. 128 \<le> r \<Longrightarrow> 128 \<le> uni_lower u r \<Longrightarrow> uni_lower u (uni_lower u r) = uni_lower u r"
    using assms by (auto simp: lower_stable_def)
  let ?l = "lowerRune u r"
  have "lowerRune u ?l = ?l"
  proof (cases "r < 128")
    case True
    then show ?thesis by (auto simp: lowerRune_def)
  next
    case False
    then have "?l = uni_lower u r" "\<not> (65 \<le> ?l \<and> ?l \<le> 90)" using ok(1) by (auto simp: lowerRune_def unitab_ok_def)
    with False ok(3) [of r] show ?thesis by (auto simp: lowerRune_def not_less)
  qed
  moreover have "lowerRune u runeError = runeError" using ok(2) by (simp add: lowerRune_def runeError_def)
  ultimately show ?thesis by (auto simp: validRune_def)
qed

lemma encode_lower_valid:
  "lower_stable u \<Longrightarrow> encodeRune (lowerRune u (validRune (lowerRune u r))) = encodeRune (lowerRune u r)"
  by (simp only: lowerRune_idem encodeRune_validRune)

lemma isAscii_lower: "isAscii (map asciiLower s) = isAscii s"
  by (induction s) (auto simp: isAscii_def asciiLower_def)

lemma ToLower_idem:
  assumes "lower_stable u"
  shows "ToLower u (ToLower u s) = ToLower u s"
proof (cases "isAscii s")
  case True
  then show ?thesis by (simp add: ToLower_def isAscii_lower asciiLower_idem)
next
  case False
  let ?t = "concat (map encodeRune (map (lowerRune u) (runes s)))"
  have t: "ToLower u s = ?t" using False by (simp add: ToLower_def comp_def)
  show ?thesis
  proof (cases "isAscii ?t")
    case True
    have "\<forall>c \<in> set ?t. byte c < 128 \<and> \<not> (65 \<le> byte c \<and> byte c \<le> 90)"
      using True ToLower_not_upper [of u _ s] assms unfolding t by (auto simp: isAscii_def list_all_iff lower_stable_def)
    then show ?thesis unfolding t by (rule ToLower_lower_id)
  next
    case na: False
    have "ToLower u ?t = concat (map (\<lambda>r. encodeRune (lowerRune u r)) (map validRune (map (lowerRune u) (runes s))))"
      using na runes_encoded [of "map (lowerRune u) (runes s)"] by (simp only: ToLower_def if_False)
    also have "\<dots> = ?t" by (simp add: comp_def encode_lower_valid [OF assms])
    finally show ?thesis unfolding t .
  qed
qed

lemma ToLower_append_ascii:
  assumes "p \<noteq> []" "isAscii p"
  shows "ToLower u (t @ p) = ToLower u t @ ToLower u p"
proof -
  have st: "startsRune p" using assms by (cases p) (auto simp: startsRune_def isAscii_def inRange_def)
  have e: "concat (map (\<lambda>r. encodeRune (lowerRune u r)) (runes p)) = map asciiLower p"
    using assms(2)
  proof (induction p)
    case (Cons c p)
    then have "byte c < 128" "isAscii p" by (auto simp: isAscii_def)
    then show ?case using Cons
      by (auto simp: runes_ascii_Cons lowerRune_def asciiLower_def encodeRune_def)
  qed simp
  have a: "isAscii (t @ p) = isAscii t" using assms(2) by (simp add: isAscii_def)
  show ?thesis
    unfolding ToLower_def a using assms(2) e by (simp add: runes_append [OF st])
qed

section \<open>Text without space runes\<close>

lemma space_valid: "isSpaceRune r \<Longrightarrow> validRune r = r"
  by (auto simp: isSpaceRune_def spaceRunes_def validRune_def)

lemma runes_space: "isSpaceRune r \<Longrightarrow> runes (encodeRune r) = [r]"
  using runes_encoded [of "[r]"] by (simp add: space_valid)

lemma TrimSpace_no_space:
  assumes "\<not> hasSpaceRune s"
  shows "TrimSpace s = s"
proof -
  have no: "\<not> isSpaceRune r" if "r \<in> set (runes s)" for r
    using assms that by (simp add: hasSpaceRune_def list_ex_iff)
  have "\<not> startsWith (encodeRune r) s" if "isSpaceRune r" for r
  proof
    assume "startsWith (encodeRune r) s"
    then obtain q where q: "s = encodeRune r @ q" by (metis append_take_drop_id startsWith_def)
    have "encodeRune r \<noteq> []" using encodeRune_starts [of r] by (auto simp: startsRune_def)
    then have "r \<in> set (runes s)"
      using q runes_step [of s] decode_encode [of r q] space_valid [OF that] by simp
    with no that show False by blast
  qed
  then have l: "stripped spaceEncodings s"
    by (auto simp: stripped_def spaceEncodings_def list_all_iff isSpaceRune_def)
  have "\<not> startsWith (rev (encodeRune r)) (rev s)" if "isSpaceRune r" for r
  proof
    assume "startsWith (rev (encodeRune r)) (rev s)"
    then obtain q where "rev s = rev (encodeRune r) @ q" by (metis append_take_drop_id startsWith_def)
    then have "s = rev q @ encodeRune r" by (metis rev_append rev_rev_ident)
    then have "r \<in> set (runes s)" using runes_append [OF encodeRune_starts] runes_space [OF that] by simp
    with no that show False by blast
  qed
  then have r: "stripped (map rev spaceEncodings) (rev s)"
    by (auto simp: stripped_def spaceEncodings_def list_all_iff isSpaceRune_def)
  show ?thesis using l r by (simp add: TrimSpace_def trimLeft_def trimRight_def stripPrefixes_id)
qed

end
