(* ===== verification/InventoryProps.thy ===== *)
theory InventoryProps
  imports InventoryPlatform Utf8Props SysProps
begin

text \<open>
  What the resolver inventory guarantees: normalizing is stable, so its validator, which
  normalizes the evidence once more, accepts what the probe reports, up to one exception in the
  domains; and the collectors of the platforms meet the contract the observer relies on.
\<close>

section \<open>Domains\<close>

definition trimmedDomain :: "string \<Rightarrow> string" where
  "trimmedDomain d = (if d = ''.'' then d else TrimSuffixDot d)"

text \<open>Only a domain that still ends in a dot is not its own normal form.\<close>

definition stableDomain :: "string \<Rightarrow> bool" where
  "stableDomain d \<longleftrightarrow> d = ''.'' \<or> \<not> (d \<noteq> [] \<and> last d = CHR ''.'')"

lemma trimmed_stable: "trimmedDomain d = d \<longleftrightarrow> stableDomain d"
  by (cases d rule: rev_cases) (auto simp: trimmedDomain_def stableDomain_def TrimSuffixDot_def)

lemma Contains_append: "\<not> Contains (s @ t) p \<Longrightarrow> p \<noteq> [] \<Longrightarrow> \<not> Contains s p"
proof (induction s)
  case (Cons c s)
  moreover have "startsWith p (c # s) \<Longrightarrow> startsWith p ((c # s) @ t)"
    using startsWith_take [of p "length (c # s)" "(c # s) @ t"] by simp
  ultimately show ?case by auto
qed simp

lemma hasSpace_dot: "\<not> hasSpaceRune (s @ ''.'') \<Longrightarrow> \<not> hasSpaceRune s"
  using runes_append [of "''.''" s] by (simp add: hasSpaceRune_def startsRune_def inRange_def)

lemma normalizeDomain_again:
  assumes u: "lower_stable u" and n: "normalizeDomain u x = Inr d"
  shows "normalizeDomain u d = Inr (trimmedDomain d)"
proof (cases "TrimSpace x = ''.''")
  case True
  with n have "d = ''.''" by (simp add: normalizeDomain_def)
  moreover have "TrimSpace ''.'' = ''.''" using TrimSpace_idem [of x] True by simp
  ultimately show ?thesis by (simp add: normalizeDomain_def trimmedDomain_def)
next
  case False
  with n have d: "d = ToLower u (TrimSuffixDot (TrimSpace x))" "d \<noteq> []" "\<not> HasPrefix d ''.''" "\<not> Contains d ''..''"
    "\<not> ContainsAny d (CHR 0x5C # ''/:@?#[]*'')" "\<not> hasSpaceRune d"
    by (auto simp: normalizeDomain_def Let_def split: if_splits)
  have low: "ToLower u d = d" using ToLower_idem [OF u] d(1) by simp
  have trim: "TrimSpace d = d" using d(6) by (rule TrimSpace_no_space)
  have dot: "d \<noteq> ''.''" using d(3) by (auto simp: HasPrefix_def startsWith_def)
  show ?thesis
  proof (cases "last d = CHR ''.''")
    case False
    with d low trim dot show ?thesis by (simp add: normalizeDomain_def Let_def trimmedDomain_def TrimSuffixDot_def)
  next
    case True
    let ?e = "butlast d"
    have de: "d = ?e @ ''.''" using True d(2) append_butlast_last_id [of d] by simp
    have e: "?e \<noteq> []" using de dot by auto
    have "ToLower u d = ToLower u ?e @ ''.''"
      using ToLower_append_ascii [of "''.''" u ?e] de by (simp add: isAscii_def ToLower_def asciiLower_def)
    then have "ToLower u ?e = ?e" using low de by (metis append_same_eq)
    moreover have "\<not> HasPrefix ?e ''.''" using d(3) e de by (cases ?e) (auto simp: HasPrefix_def startsWith_def)
    moreover have "\<not> Contains ?e ''..''" using d(4) de Contains_append [of ?e "''.''" "''..''"] by simp
    moreover have "\<not> ContainsAny ?e (CHR 0x5C # ''/:@?#[]*'')"
      using d(5) by (auto simp: ContainsAny_def list_ex_iff dest: in_set_butlastD)
    moreover have "\<not> hasSpaceRune ?e" using d(6) de hasSpace_dot [of ?e] by simp
    ultimately show ?thesis using True d(2) trim dot e
      by (simp add: normalizeDomain_def Let_def trimmedDomain_def TrimSuffixDot_def)
  qed
qed

text \<open>A loop that keeps the first place of each normal form.\<close>

lemma firstPlaces_length: "length (firstPlaces seen xs) \<le> length xs"
  by (induction seen xs rule: firstPlaces.induct) auto

lemma firstPlaces_same: "length (firstPlaces seen xs) = length xs \<Longrightarrow> firstPlaces seen xs = xs"
proof (induction seen xs rule: firstPlaces.induct)
  case (2 seen x xs)
  then show ?case using firstPlaces_length [of seen xs] by (auto split: if_splits)
qed simp

lemma firstPlaces_id: "distinct xs \<Longrightarrow> set xs \<inter> seen = {} \<Longrightarrow> firstPlaces seen xs = xs"
  by (induction seen xs rule: firstPlaces.induct) auto

lemma firstPlaces_map_same: "firstPlaces seen (map f xs) = xs \<Longrightarrow> map f xs = xs"
  using firstPlaces_same [of seen "map f xs"] by simp

lemma firstPlaces_empty: "firstPlaces {} xs = [] \<longleftrightarrow> xs = []"
  by (cases xs) auto

lemma domainsLoop_firsts:
  "(\<And>d. d \<in> set ds \<Longrightarrow> normalizeDomain u d = Inr (f d)) \<Longrightarrow> domainsLoop u seen ds = Inr (firstPlaces seen (map f ds))"
  by (induction ds arbitrary: seen) auto

lemma domainsLoop_ok:
  "domainsLoop u seen xs = Inr ds \<Longrightarrow>
   distinct ds \<and> set ds \<inter> seen = {} \<and> (\<forall>d \<in> set ds. \<exists>x. normalizeDomain u x = Inr d)"
proof (induction u seen xs arbitrary: ds rule: domainsLoop.induct)
  case (2 u seen x xs)
  then show ?case by (fastforce split: sum.splits if_splits)
qed simp

definition stableDomains :: "string list option \<Rightarrow> bool" where
  "stableDomains ds = list_all stableDomain (sliceOf ds)"

definition trimmedDomains :: "string list option \<Rightarrow> string list option" where
  "trimmedDomains ds = (case ds of None \<Rightarrow> None | Some xs \<Rightarrow> Some (firstPlaces {} (map trimmedDomain xs)))"

lemma map_trimmed: "map trimmedDomain xs = xs \<longleftrightarrow> list_all stableDomain xs"
  by (induction xs) (auto simp: trimmed_stable)

lemma normalizeDomains_again:
  assumes u: "lower_stable u" and n: "normalizeDomains u ds0 = Inr ds"
  shows "normalizeDomains u ds = Inr (trimmedDomains ds) \<and> (trimmedDomains ds = ds \<longleftrightarrow> stableDomains ds)"
proof (cases "sliceOf ds0 = []")
  case True
  with n show ?thesis by (simp add: normalizeDomains_def trimmedDomains_def stableDomains_def)
next
  case False
  with n obtain xs where xs: "ds = Some xs" "domainsLoop u {} (sliceOf ds0) = Inr xs"
    by (auto simp: normalizeDomains_def split: sum.splits)
  note ok = domainsLoop_ok [OF xs(2)]
  have ne: "xs \<noteq> []" using xs(2) False by (cases "sliceOf ds0") (auto split: sum.splits)
  have "domainsLoop u {} xs = Inr (firstPlaces {} (map trimmedDomain xs))"
    using ok normalizeDomain_again [OF u] by (intro domainsLoop_firsts) blast
  then have "normalizeDomains u ds = Inr (trimmedDomains ds)"
    using xs(1) ne by (simp add: normalizeDomains_def trimmedDomains_def)
  moreover have "firstPlaces {} (map trimmedDomain xs) = xs \<longleftrightarrow> list_all stableDomain xs"
    using firstPlaces_map_same [of "{}" trimmedDomain xs] firstPlaces_id [of xs "{}"] ok map_trimmed [of xs] by metis
  ultimately show ?thesis using xs(1) by (simp add: trimmedDomains_def stableDomains_def)
qed

section \<open>Servers\<close>

lemma Unmap_WithoutZone: "Zone (Unmap (WithoutZone_inv a)) = ''''"
  by (cases a rule: Unmap.cases) simp_all

lemma normalizeServer_again:
  assumes n: "normalizeServer x = Inr s"
  shows "normalizeServer s = Inr s"
proof -
  obtain parsed where p: "ParseAddr (TrimSpace (srv_Address x)) = Some parsed"
    using n by (auto simp: normalizeServer_def split: option.splits)
  let ?zone = "if TrimSpace (srv_Zone x) = '''' then Zone parsed else TrimSpace (srv_Zone x)"
  let ?a = "Unmap (if Zone parsed \<noteq> '''' then WithoutZone_inv parsed else parsed)"
  have s: "s = \<lparr>srv_Address = AddrString ?a, srv_Port = (if srv_Port x = 0 then defaultDNSPort else srv_Port x), srv_Zone = ?zone\<rparr>"
    and z: "?zone = '''' \<or> (Is6 ?a \<and> \<not> hasSpaceRune ?zone)" and u: "\<not> IsUnspecified ?a"
    using n p by (auto simp: normalizeServer_def Let_def split: if_splits)
  have "IsValid parsed" using p ParseAddr_valid by blast
  then have v: "IsValid ?a" by (cases parsed rule: Unmap.cases) simp_all
  have z0: "Zone ?a = ''''" using Unmap_WithoutZone Unmap_Zone by simp
  have unm: "Unmap ?a = ?a" by (rule Unmap_Unmap)
  have "TrimSpace (AddrString ?a) = AddrString ?a" using v z0 by (rule TrimSpace_AddrString)
  moreover have "ParseAddr (AddrString ?a) = Some ?a" using v by (rule ParseAddr_String)
  moreover have "TrimSpace ?zone = ?zone" using z TrimSpace_no_space by (cases "?zone = ''''") auto
  ultimately show ?thesis
    unfolding s using z u z0 unm by (auto simp: normalizeServer_def Let_def defaultDNSPort_def)
qed

lemma serversLoop_firsts:
  "(\<And>s. s \<in> set ss \<Longrightarrow> normalizeServer s = Inr s) \<Longrightarrow> serversLoop seen ss = Inr (firstPlaces seen ss)"
  by (induction ss arbitrary: seen) auto

lemma serversLoop_ok:
  "serversLoop seen xs = Inr ss \<Longrightarrow>
   distinct ss \<and> set ss \<inter> seen = {} \<and> (\<forall>s \<in> set ss. normalizeServer s = Inr s)"
proof (induction seen xs arbitrary: ss rule: serversLoop.induct)
  case (2 seen x xs)
  from 2(3) obtain s where s: "normalizeServer x = Inr s" by (auto split: sum.splits)
  note again = normalizeServer_again [OF s]
  show ?case
  proof (cases "s \<in> seen")
    case True
    with 2(1) [OF s True] 2(3) s show ?thesis by simp
  next
    case False
    with 2(3) s obtain rest where rest: "serversLoop (insert s seen) xs = Inr rest" "ss = s # rest" by (auto split: sum.splits)
    with 2(2) [OF s False] again False show ?thesis by auto
  qed
qed simp

lemma serversLoop_again: "serversLoop {} xs = Inr ss \<Longrightarrow> serversLoop {} ss = Inr ss"
  using serversLoop_ok [of "{}" xs ss] serversLoop_firsts [of ss "{}"] firstPlaces_id [of ss "{}"] by simp

section \<open>Groups\<close>

definition stableGroup :: "Group \<Rightarrow> bool" where
  "stableGroup g \<longleftrightarrow> stableDomains (grp_SearchDomains g) \<and> stableDomains (grp_MatchDomains g)"

definition trimmedGroup :: "Group \<Rightarrow> Group" where
  "trimmedGroup g = g\<lparr>grp_SearchDomains := trimmedDomains (grp_SearchDomains g),
     grp_MatchDomains := trimmedDomains (grp_MatchDomains g)\<rparr>"

lemma normalizeGroup_again:
  assumes u: "lower_stable u" and n: "normalizeGroup u x = Inr g"
  shows "normalizeGroup u g = Inr (trimmedGroup g) \<and> (trimmedGroup g = g \<longleftrightarrow> stableGroup g)"
proof -
  have g: "grp_Scope g = ScopeGlobal \<or> grp_Scope g = ScopeScoped" "grp_Interface g = TrimSpace (grp_Interface x)"
    "serversLoop {} (grp_Servers x) = Inr (grp_Servers g)" "normalizeDomains u (grp_SearchDomains x) = Inr (grp_SearchDomains g)"
    "normalizeDomains u (grp_MatchDomains x) = Inr (grp_MatchDomains g)"
    using n by (auto simp: normalizeGroup_def Let_def split: if_splits sum.splits)
  note s = serversLoop_again [OF g(3)]
  note d = normalizeDomains_again [OF u g(4)] normalizeDomains_again [OF u g(5)]
  have "normalizeGroup u g = Inr (trimmedGroup g)"
    using g(1,2) s d by (auto simp: normalizeGroup_def Let_def trimmedGroup_def)
  moreover have "trimmedGroup g = g \<longleftrightarrow> stableGroup g"
    using d by (cases g) (simp add: trimmedGroup_def stableGroup_def)
  ultimately show ?thesis ..
qed

text \<open>The groups kept, by their keys.\<close>

fun firstKeys :: "string set \<Rightarrow> Group list \<Rightarrow> Group list" where
  "firstKeys seen [] = []"
| "firstKeys seen (g # gs) = (if groupKey g \<in> seen then firstKeys seen gs else g # firstKeys (insert (groupKey g) seen) gs)"

lemma firstKeys_length: "length (firstKeys seen gs) \<le> length gs"
  by (induction seen gs rule: firstKeys.induct) auto

lemma firstKeys_same: "length (firstKeys seen gs) = length gs \<Longrightarrow> firstKeys seen gs = gs"
proof (induction seen gs rule: firstKeys.induct)
  case (2 seen g gs)
  then show ?case using firstKeys_length [of seen gs] by (auto split: if_splits)
qed simp

lemma firstKeys_id: "distinct (map groupKey gs) \<Longrightarrow> groupKey ` set gs \<inter> seen = {} \<Longrightarrow> firstKeys seen gs = gs"
  by (induction seen gs rule: firstKeys.induct) auto

lemma firstKeys_map_same: "firstKeys seen (map f gs) = gs \<Longrightarrow> map f gs = gs"
  using firstKeys_same [of seen "map f gs"] by simp

lemma groupsLoop_firsts:
  "(\<And>g. g \<in> set gs \<Longrightarrow> normalizeGroup u g = Inr (f g) \<and> grp_Servers (f g) \<noteq> []) \<Longrightarrow>
   groupsLoop u seen gs = Inr (firstKeys seen (map f gs))"
  by (induction gs arbitrary: seen) auto

lemma groupsLoop_ok:
  "groupsLoop u seen xs = Inr gs \<Longrightarrow> distinct (map groupKey gs) \<and> groupKey ` set gs \<inter> seen = {} \<and>
     (\<forall>g \<in> set gs. grp_Servers g \<noteq> [] \<and> (\<exists>x. normalizeGroup u x = Inr g))"
proof (induction u seen xs arbitrary: gs rule: groupsLoop.induct)
  case (2 u seen x xs)
  from 2(3) obtain g where g: "normalizeGroup u x = Inr g" by (auto split: sum.splits)
  show ?case
  proof (cases "grp_Servers g = [] \<or> groupKey g \<in> seen")
    case True
    with 2(1) [OF g True] 2(3) g show ?thesis by simp
  next
    case False
    with 2(3) g obtain rest where rest: "groupsLoop u (insert (groupKey g) seen) xs = Inr rest" "gs = g # rest"
      by (auto split: sum.splits)
    with 2(2) [OF g False] g False show ?thesis by auto
  qed
qed simp

definition stableEvidence :: "InvEvidence \<Rightarrow> bool" where
  "stableEvidence ev = list_all stableGroup (iev_Groups ev)"

definition trimmedEvidence :: "InvEvidence \<Rightarrow> InvEvidence" where
  "trimmedEvidence ev = \<lparr>iev_Groups = firstKeys {} (map trimmedGroup (iev_Groups ev))\<rparr>"

lemma normalizeEvidence_again:
  assumes u: "lower_stable u" and n: "normalizeEvidence u ev0 = Inr ev"
  shows "normalizeEvidence u ev = Inr (trimmedEvidence ev) \<and> (trimmedEvidence ev = ev \<longleftrightarrow> stableEvidence ev)"
proof -
  let ?gs = "iev_Groups ev"
  have gs: "groupsLoop u {} (iev_Groups ev0) = Inr ?gs" "?gs \<noteq> []"
    using n by (auto simp: normalizeEvidence_def split: sum.splits if_splits)
  note ok = groupsLoop_ok [OF gs(1)]
  have again: "normalizeGroup u g = Inr (trimmedGroup g) \<and> (trimmedGroup g = g \<longleftrightarrow> stableGroup g)" if "g \<in> set ?gs" for g
    using ok that normalizeGroup_again [OF u] by blast
  have "grp_Servers (trimmedGroup g) = grp_Servers g" for g by (simp add: trimmedGroup_def)
  then have loop: "groupsLoop u {} ?gs = Inr (firstKeys {} (map trimmedGroup ?gs))"
    using again ok by (intro groupsLoop_firsts) auto
  moreover have "firstKeys {} (map trimmedGroup ?gs) \<noteq> []" using gs(2) by (cases ?gs) auto
  moreover have "firstKeys {} (map trimmedGroup ?gs) = ?gs \<longleftrightarrow> stableEvidence ev"
  proof -
    have "map trimmedGroup ?gs = ?gs \<longleftrightarrow> stableEvidence ev"
      unfolding stableEvidence_def list_all_iff using again map_idI [of ?gs trimmedGroup]
      by (metis map_eq_conv map_ident)
    then show ?thesis
      using firstKeys_map_same [of "{}" trimmedGroup ?gs] firstKeys_id [of ?gs "{}"] ok by auto
  qed
  ultimately show ?thesis
    by (cases ev) (simp add: normalizeEvidence_def trimmedEvidence_def)
qed

text \<open>After the second round nothing ends in a dot: a domain has no two dots in a row.\<close>

lemma Contains_end: "Contains (s @ p) p"
  by (induction s) (cases p; simp add: startsWith_def)+

lemma trimmed_domain_stable:
  assumes "normalizeDomain u x = Inr d"
  shows "stableDomain (trimmedDomain d)"
proof (cases "d = ''.'' \<or> \<not> (d \<noteq> [] \<and> last d = CHR ''.'')")
  case True
  then show ?thesis by (auto simp: stableDomain_def trimmedDomain_def TrimSuffixDot_def)
next
  case False
  with assms have nodots: "\<not> Contains d ''..''"
    by (auto simp: normalizeDomain_def Let_def split: if_splits)
  have de: "d = butlast d @ ''.''" using False append_butlast_last_id [of d] by simp
  have "\<not> (butlast d \<noteq> [] \<and> last (butlast d) = CHR ''.'')"
  proof
    assume e: "butlast d \<noteq> [] \<and> last (butlast d) = CHR ''.''"
    then have "butlast d = butlast (butlast d) @ ''.''" using append_butlast_last_id [of "butlast d"] by simp
    with de have "d = (butlast (butlast d) @ ''.'') @ ''.''" by metis
    then have "d = butlast (butlast d) @ ''..''" by simp
    then have "Contains d ''..''" using Contains_end by metis
    with nodots show False ..
  qed
  with False show ?thesis by (auto simp: stableDomain_def trimmedDomain_def TrimSuffixDot_def)
qed

lemma trimmed_domains_stable:
  assumes "normalizeDomains u ds0 = Inr ds"
  shows "stableDomains (trimmedDomains ds)"
proof (cases ds)
  case (Some xs)
  with assms have "domainsLoop u {} (sliceOf ds0) = Inr xs"
    by (auto simp: normalizeDomains_def split: if_splits sum.splits)
  then have "\<forall>d \<in> set xs. stableDomain (trimmedDomain d)"
    using domainsLoop_ok trimmed_domain_stable by blast
  with Some show ?thesis by (auto simp: stableDomains_def trimmedDomains_def list_all_iff firstPlaces_set)
qed (simp add: stableDomains_def trimmedDomains_def)

lemma firstKeys_set: "set (firstKeys seen gs) \<subseteq> set gs"
  by (induction seen gs rule: firstKeys.induct) auto

lemma trimmed_evidence_stable:
  assumes "normalizeEvidence u ev0 = Inr ev"
  shows "stableEvidence (trimmedEvidence ev)"
proof -
  have "groupsLoop u {} (iev_Groups ev0) = Inr (iev_Groups ev)"
    using assms by (auto simp: normalizeEvidence_def split: sum.splits if_splits)
  note ok = groupsLoop_ok [OF this]
  have "stableGroup (trimmedGroup g)" if g: "g \<in> set (iev_Groups ev)" for g
  proof -
    obtain x where "normalizeGroup u x = Inr g" using ok g by blast
    then have "normalizeDomains u (grp_SearchDomains x) = Inr (grp_SearchDomains g)"
      "normalizeDomains u (grp_MatchDomains x) = Inr (grp_MatchDomains g)"
      by (auto simp: normalizeGroup_def Let_def split: if_splits sum.splits)
    then show ?thesis by (simp add: stableGroup_def trimmedGroup_def trimmed_domains_stable)
  qed
  then show ?thesis
    using firstKeys_set [of "{}" "map trimmedGroup (iev_Groups ev)"]
    by (auto simp: stableEvidence_def trimmedEvidence_def list_all_iff)
qed

section \<open>The observer over its collector\<close>

definition inv_env_ok :: "InvWorld \<Rightarrow> bool" where
  "inv_env_ok w \<longleftrightarrow> clock_ok (iw_now w) \<and> platform_ok (iw_os w) (iw_arch w)"

text \<open>What the observer relies on: normal evidence, a source on every path, and codes its validator knows.\<close>

locale resolver_collector =
  fixes u :: "'a unitab_scheme" and collect :: "collected \<times> invErr option"
  assumes normal: "snd collect = None \<Longrightarrow> \<exists>ev0. normalizeEvidence u ev0 = Inr (col_evidence (fst collect))"
    and source: "source_ok (col_source (fst collect))"
    and collect_error: "snd collect = Some e \<Longrightarrow> ie_collect e = Some (code, src) \<Longrightarrow>
      source_ok src \<and> code \<in> {FailureUnavailable, FailureInvalid}"
begin

lemma failure_source:
  assumes "iw_collect w = collect" "collectEvidence u w = Inl err" "ie_collect err = Some (code, src)"
  shows "source_ok src \<and> code \<in> {FailureUnavailable, FailureInvalid}"
proof -
  obtain observation e where c: "collect = (observation, e)" by fastforce
  show ?thesis
  proof (cases e)
    case (Some e')
    with assms c collect_error show ?thesis by (simp add: collectEvidence_def)
  next
    case None
    with assms c have "src = col_source observation \<and> code = FailureInvalid"
      by (auto simp: collectEvidence_def plainInv_def split: option.splits sum.splits)
    with source c show ?thesis by simp
  qed
qed

lemma observe_valid:
  assumes u: "lower_stable u" and env: "inv_env_ok w" and w: "iw_collect w = collect"
  shows "Validate_inv u (Observe_inv u w) = None"
proof -
  have envelope: "Validate_envelope (result_inv w s oc ev fl) = None \<longleftrightarrow> Validate_outcome oc ev fl = None" if "source_ok s" for s oc ev fl
    using env that clock_nonzero [of "iw_now w" 1]
    by (auto simp: Validate_envelope_None result_inv_def Let_def inv_env_ok_def source_ok_def platform_ok_def)
  have sel: "env_probe (result_inv w s oc ev fl) = KindResolverInventory" "env_outcome (result_inv w s oc ev fl) = oc"
    "env_evidence (result_inv w s oc ev fl) = ev" "env_failure (result_inv w s oc ev fl) = fl" for s oc ev fl
    by (simp_all add: result_inv_def Let_def)
  show ?thesis
  proof (cases "collectEvidence u w")
    case (Inr ev)
    let ?r = "result_inv w (col_source (fst collect)) OutcomeSucceeded (Some ev) None"
    have r: "Observe_inv u w = ?r" using Inr w by (simp add: Observe_inv_def)
    have c: "snd collect = None" "normalizeEvidence u (col_evidence (fst collect)) = Inr ev"
      using Inr w by (auto simp: collectEvidence_def Let_def split: prod.splits option.splits sum.splits)
    obtain ev0 where ev0: "normalizeEvidence u ev0 = Inr (col_evidence (fst collect))" using normal [OF c(1)] ..
    have "ev = trimmedEvidence (col_evidence (fst collect))" using normalizeEvidence_again [OF u ev0] c(2) by simp
    then have "stableEvidence ev" using trimmed_evidence_stable [OF ev0] by simp
    then have again: "normalizeEvidence u ev = Inr ev" using normalizeEvidence_again [OF u c(2)] by simp
    have "Validate_envelope ?r = None" using source by (simp add: envelope Validate_outcome_None)
    then show ?thesis
      unfolding r Validate_inv_def using again by (simp add: sel firstErr.simps guard_def wrapErr_def)
  next
    case (Inl err)
    have s0: "src_backend (col_source (fst collect)) \<noteq> ''''" using source by (simp add: source_ok_def)
    let ?cs = "case ie_collect err of None \<Rightarrow> (FailureUnavailable, col_source (fst collect)) | Some cs \<Rightarrow> cs"
    obtain code0 source where p: "?cs = (code0, source)" by fastforce
    have cs: "source_ok source \<and> code0 \<in> {FailureUnavailable, FailureInvalid}"
      using failure_source [OF w Inl] source p by (auto split: option.splits)
    then have b: "src_backend source \<noteq> ''''" by (simp add: source_ok_def)
    let ?oc = "if errorsIs (ctxErrAt (iw_ctx w) 2) SCanceled \<or> errorsIs (Some (ie_err err)) SCanceled
        then (OutcomeCancelled, FailureCancelled)
        else if errorsIs (ctxErrAt (iw_ctx w) 3) SDeadlineExceeded \<or> errorsIs (Some (ie_err err)) SDeadlineExceeded
        then (OutcomeFailed, FailureTimeout) else (OutcomeFailed, code0)"
    obtain oc code where o: "?oc = (oc, code)" by fastforce
    have r: "Observe_inv u w = result_inv w source oc None (Some \<lparr>fail_code = code, fail_detail = err_text (ie_err err)\<rparr>)"
      unfolding Observe_inv_def Let_def Inl w sum.case p prod.case if_not_P [OF b] o ..
    have c: "(oc = OutcomeCancelled \<and> code = FailureCancelled) \<or> (oc = OutcomeFailed \<and> (code = FailureTimeout \<or> code = code0))"
      using o by (auto split: if_splits)
    show ?thesis
      unfolding r Validate_inv_def using cs c
      by (auto simp: sel firstErr_simps envelope Validate_outcome_None validFailureCode_inv_def
          FailureUnavailable_def FailureInvalid_def)
  qed
qed

end

text \<open>Each platform meets it.\<close>

lemma sources_ok: "source_ok (linuxSource linuxResolvConfReason)" "source_ok (linuxSource linuxLocalStubReason)" "source_ok macOSSource"
  "source_ok unsupportedPlatformSource" "source_ok windowsSource"
  by (simp_all add: source_ok_def linuxSource_def linuxResolvConfReason_def linuxLocalStubReason_def macOSSource_def
      unsupportedPlatformSource_def windowsSource_def)

lemma parseResolvConf_normal: "parseResolvConf u contents = Inr (evidence, stub) \<Longrightarrow> \<exists>ev0. normalizeEvidence u ev0 = Inr evidence"
  by (auto simp: parseResolvConf_def Let_def split: prod.splits sum.splits if_splits)

lemma parseScutilDNS_normal: "parseScutilDNS u printed = Inr evidence \<Longrightarrow> \<exists>ev0. normalizeEvidence u ev0 = Inr evidence"
  by (auto simp: parseScutilDNS_def Let_def split: prod.splits sum.splits if_splits)

interpretation linux: resolver_collector u "collectPlatform_linux u c contents" for u c contents
  by unfold_locales (auto simp: collectPlatform_linux_def sources_ok parseResolvConf_normal onlySource_def plainInv_def collectFailed_def Let_def
      ctxErrAt_def split: option.splits sum.splits)

interpretation darwin: resolver_collector u "collectPlatform_darwin u printed" for u printed
  by unfold_locales (auto simp: collectPlatform_darwin_def sources_ok parseScutilDNS_normal onlySource_def collectFailed_def split: sum.splits)

interpretation other: resolver_collector u collectPlatform_other for u
  by unfold_locales (auto simp: collectPlatform_other_def sources_ok onlySource_def collectFailed_def)

interpretation windows: resolver_collector u "collectPlatform_windows u c answer" for u c answer
  by unfold_locales (auto simp: collectPlatform_windows_def sources_ok onlySource_def plainInv_def collectFailed_def
      ctxErrAt_def split: option.splits sum.splits)

end
