(* ===== verification/ResolvConfText.thy ===== *)
theory ResolvConfText
  imports InventoryProps
begin

text \<open>
  What \<open>parseResolvConf\<close> reads out of a configuration: the abstract configuration is a list of directives,
  printed one to a line, and the parser gives its meaning back: the servers in their order, the last search
  list, whether a server is local.
\<close>

section \<open>Configurations and their text\<close>

datatype confLine =
    ConfNameserver Addr
  | ConfSearch "string list"
  | ConfDomain string
  | ConfOptions "string list"
  | ConfComment "string list"

fun confWords :: "confLine \<Rightarrow> string list" where
  "confWords (ConfNameserver a) = [''nameserver'', AddrString a]"
| "confWords (ConfSearch ds) = ''search'' # ds"
| "confWords (ConfDomain d) = [''domain'', d]"
| "confWords (ConfOptions ws) = ''options'' # ws"
| "confWords (ConfComment ws) = ''#'' # ws"

definition confText :: "confLine list \<Rightarrow> string" where
  "confText ls = concat (map (\<lambda>l. joinWith '' '' (confWords l) @ [CHR 0x0A]) ls)"

fun confAddr :: "confLine \<Rightarrow> Addr list" where
  "confAddr (ConfNameserver a) = [a]"
| "confAddr _ = []"

fun confDomains :: "confLine \<Rightarrow> string list option" where
  "confDomains (ConfSearch ds) = Some ds"
| "confDomains (ConfDomain d) = Some [d]"
| "confDomains _ = None"

definition confServers :: "confLine list \<Rightarrow> Addr list" where
  "confServers ls = concat (map confAddr ls)"

text \<open>The last list of domains counts.\<close>

definition confLast :: "confLine list \<Rightarrow> string list" where
  "confLast ls = (case filter (\<lambda>l. confDomains l \<noteq> None) (rev ls) of [] \<Rightarrow> [] | l # _ \<Rightarrow> the (confDomains l))"

definition word_ok :: "string \<Rightarrow> bool" where
  "word_ok w \<longleftrightarrow> w \<noteq> [] \<and> graphic w"

definition line_ok :: "confLine \<Rightarrow> bool" where
  "line_ok l \<longleftrightarrow> list_all word_ok (confWords l) \<and> length (joinWith '' '' (confWords l)) < maxTokenSize"

section \<open>Words and lines\<close>

lemma graphic_not_space: "isGraph c \<Longrightarrow> byte c < 128 \<and> \<not> isSpaceRune (byte c)"
  by (auto simp: isGraph_def isSpaceRune_def spaceRunes_def)

lemma wordPrefix_word: "graphic w \<Longrightarrow> rest = [] \<or> (\<exists>t. rest = CHR '' '' # t) \<Longrightarrow> wordPrefix (w @ rest) = w"
proof (induction w)
  case Nil
  then show ?case by (subst wordPrefix.simps) (auto simp: decodeRune_def isSpaceRune_def spaceRunes_def)
next
  case (Cons c w)
  then have c: "byte c < 128" "\<not> isSpaceRune (byte c)" using graphic_not_space by (auto simp: graphic_def)
  have "wordPrefix (w @ rest) = w" using Cons by (simp add: graphic_def)
  then show ?case using c by (subst wordPrefix.simps) (simp add: decodeRune_ascii)
qed

lemma skipSpaces_word: "word_ok w \<Longrightarrow> skipSpaces (w @ rest) = w @ rest"
  using graphic_not_space by (subst skipSpaces.simps) (cases w; auto simp: word_ok_def graphic_def decodeRune_ascii)

lemma skipSpaces_blank: "skipSpaces (CHR '' '' # s) = skipSpaces s"
  by (subst skipSpaces.simps) (simp add: decodeRune_ascii isSpaceRune_def spaceRunes_def)

lemma Fields_skip: "skipSpaces s = skipSpaces t \<Longrightarrow> Fields s = Fields t"
  by (simp add: Fields.simps [of s] Fields.simps [of t])

lemma Fields_Nil: "Fields [] = []"
  by (subst Fields.simps) (simp add: skipSpaces.simps)

lemma Fields_word:
  assumes w: "word_ok w" and r: "rest = [] \<or> (\<exists>t. rest = CHR '' '' # t)"
  shows "Fields (w @ rest) = w # Fields rest"
  using w wordPrefix_word [OF _ r, of w]
  by (subst Fields.simps) (simp add: skipSpaces_word [OF w] Let_def word_ok_def)

lemma Fields_words: "list_all word_ok ws \<Longrightarrow> Fields (joinWith '' '' ws) = ws"
proof (induction ws rule: induct_list012)
  case (3 v w ws)
  have "Fields (joinWith '' '' (v # w # ws)) = v # Fields ('' '' @ joinWith '' '' (w # ws))"
    using 3(3) Fields_word [of v "'' '' @ joinWith '' '' (w # ws)"] by simp
  also have "Fields ('' '' @ joinWith '' '' (w # ws)) = Fields (joinWith '' '' (w # ws))"
    by (rule Fields_skip) (simp add: skipSpaces_blank)
  finally show ?case using 3 by simp
qed (use Fields_word [of _ "[]"] Fields_Nil in \<open>auto\<close>)

lemma join_ends:
  "ws \<noteq> [] \<Longrightarrow> list_all word_ok ws \<Longrightarrow> joinWith '' '' ws \<noteq> [] \<and> hd (joinWith '' '' ws) = hd (hd ws) \<and> isGraph (last (joinWith '' '' ws))"
proof (induction ws rule: induct_list012)
  case (2 w)
  then show ?case by (auto simp: word_ok_def graphic_def list_all_iff)
next
  case (3 v w ws)
  then have "v \<noteq> []" "joinWith '' '' (w # ws) \<noteq> []" "isGraph (last (joinWith '' '' (w # ws)))" by (auto simp: word_ok_def)
  then show ?case by simp
qed simp

lemma join_trim: "ws \<noteq> [] \<Longrightarrow> list_all word_ok ws \<Longrightarrow> TrimSpace (joinWith '' '' ws) = joinWith '' '' ws"
  using join_ends [of ws] by (intro TrimSpace_graph) (cases ws; cases "hd ws"; auto simp: word_ok_def graphic_def)+

lemma join_no_newline: "list_all word_ok ws \<Longrightarrow> CHR 0x0A \<notin> set (joinWith '' '' ws)"
  by (induction ws rule: induct_list012) (auto simp: word_ok_def graphic_def list_all_iff isGraph_def)

lemma splitOn_lines: "\<forall>l \<in> set ls. c \<notin> set l \<Longrightarrow> splitOn c (concat (map (\<lambda>l. l @ [c]) ls)) = ls @ [[]]"
proof (induction ls)
  case (Cons l ls)
  then show ?case using splitOn_append [of c l "concat (map (\<lambda>l. l @ [c]) ls)"] splitOn_single [of c l] by simp
qed simp

lemma scanLines_text:
  assumes "\<forall>l \<in> set ls. CHR 0x0A \<notin> set l \<and> length l < maxTokenSize \<and> dropCR l = l"
  shows "scanLines (concat (map (\<lambda>l. l @ [CHR 0x0A]) ls)) = (ls, False)"
proof -
  have "takeWhile (\<lambda>line. length line < maxTokenSize) ls = ls" using assms by (intro takeWhile_eq_all_conv [THEN iffD2]) blast
  moreover have "map dropCR ls = ls" using assms by (intro map_idI) blast
  ultimately show ?thesis using splitOn_lines [of ls "CHR 0x0A"] assms
    by (simp add: scanLines_def Let_def del: takeWhile_eq_all_conv)
qed

lemma confWords_ne: "confWords l \<noteq> []"
  by (cases l) simp_all

lemma confText_lines:
  assumes "list_all line_ok ls"
  shows "scanLines (confText ls) = (map (\<lambda>l. joinWith '' '' (confWords l)) ls, False)"
proof -
  have "dropCR (joinWith '' '' (confWords l)) = joinWith '' '' (confWords l)" if "line_ok l" for l
    using join_ends [of "confWords l"] confWords_ne [of l] that by (auto simp: dropCR_def line_ok_def isGraph_def)
  then have "\<forall>l \<in> set (map (\<lambda>l. joinWith '' '' (confWords l)) ls). CHR 0x0A \<notin> set l \<and> length l < maxTokenSize \<and> dropCR l = l"
    using assms join_no_newline by (auto simp: list_all_iff line_ok_def)
  from scanLines_text [OF this] show ?thesis by (simp add: confText_def comp_def)
qed

section \<open>Directives\<close>

definition confServer :: "Addr \<Rightarrow> Server" where
  "confServer a = \<lparr>srv_Address = AddrString a, srv_Port = defaultDNSPort, srv_Zone = ''''\<rparr>"

fun confStep :: "confLine \<Rightarrow> string list \<Rightarrow> string list" where
  "confStep l search = (case confDomains l of None \<Rightarrow> search | Some ds \<Rightarrow> ds)"

lemma resolvLines_words:
  assumes "TrimSpace x = x" "Fields x = confWords l" "x \<noteq> []"
    "HasPrefix x ''#'' \<longleftrightarrow> hd (hd (confWords l)) = CHR ''#''" "HasPrefix x '';'' \<longleftrightarrow> hd (hd (confWords l)) = CHR '';''"
  shows "resolvLines servers search (x # rest) = resolvLines (servers @ map confServer (confAddr l)) (confStep l search) rest"
  using assms by (cases l) (simp_all add: confServer_def Let_def)

lemma resolvLines_step:
  assumes "line_ok l"
  shows "resolvLines servers search (joinWith '' '' (confWords l) # rest) =
    resolvLines (servers @ map confServer (confAddr l)) (confStep l search) rest"
proof (rule resolvLines_words)
  have ok: "list_all word_ok (confWords l)" using assms by (simp add: line_ok_def)
  let ?x = "joinWith '' '' (confWords l)"
  show "TrimSpace ?x = ?x" "Fields ?x = confWords l" using join_trim [OF confWords_ne ok] Fields_words [OF ok] .
  have hd: "?x \<noteq> []" "hd ?x = hd (hd (confWords l))" using join_ends [OF confWords_ne ok] by auto
  then show "?x \<noteq> []" "HasPrefix ?x ''#'' \<longleftrightarrow> hd (hd (confWords l)) = CHR ''#''"
    "HasPrefix ?x '';'' \<longleftrightarrow> hd (hd (confWords l)) = CHR '';''"
    by (cases ?x; auto simp: HasPrefix_def startsWith_def)+
qed

lemma resolvLines_text:
  "list_all line_ok ls \<Longrightarrow> resolvLines servers search (map (\<lambda>l. joinWith '' '' (confWords l)) ls) =
     Inr (servers @ map confServer (confServers ls), fold confStep ls search)"
proof (induction ls arbitrary: servers search)
  case (Cons l ls)
  then have "line_ok l" "list_all line_ok ls" by simp_all
  then show ?case using Cons.IH by (simp only: list.map resolvLines_step) (simp add: confServers_def)
qed (simp add: confServers_def)

lemma confLast_fold: "fold confStep ls [] = confLast ls"
proof (induction ls rule: rev_induct)
  case (snoc l ls)
  then show ?case by (auto simp: confLast_def split: option.split)
qed (simp add: confLast_def)

section \<open>The evidence\<close>

definition resolver_ok :: "Addr \<Rightarrow> bool" where
  "resolver_ok a \<longleftrightarrow> IsValid a \<and> Zone a = '''' \<and> Unmap a = a \<and> \<not> IsUnspecified a"

lemma normalizeServer_conf: "resolver_ok a \<Longrightarrow> normalizeServer (confServer a) = Inr (confServer a)"
proof -
  assume a: "resolver_ok a"
  then have p: "ParseAddr (TrimSpace (AddrString a)) = Some a"
    using ParseAddr_String [of a] TrimSpace_AddrString [of a] by (simp add: resolver_ok_def)
  from a show ?thesis
    by (simp add: resolver_ok_def confServer_def normalizeServer_def defaultDNSPort_def Let_def p)
qed

lemma stubLoop_conf:
  "\<forall>a \<in> set as. resolver_ok a \<Longrightarrow> stubLoop (map confServer as) = Inr (list_ex (\<lambda>a. IsLoopback a \<or> IsLinkLocalUnicast a) as)"
proof (induction as)
  case (Cons a as)
  then have "ParseAddr (srv_Address (confServer a)) = Some a" by (simp add: confServer_def resolver_ok_def ParseAddr_String)
  with Cons show ?case by simp
qed simp

lemma confServer_inj: "resolver_ok a \<Longrightarrow> resolver_ok b \<Longrightarrow> confServer a = confServer b \<Longrightarrow> a = b"
proof -
  assume ok: "resolver_ok a" "resolver_ok b" and "confServer a = confServer b"
  then have "AddrString a = AddrString b" by (simp add: confServer_def)
  then have "Some a = Some b" using ok ParseAddr_String unfolding resolver_ok_def by metis
  then show "a = b" by simp
qed

lemma firstPlaces_confServer:
  "\<forall>a \<in> set as \<union> seen. resolver_ok a \<Longrightarrow>
   firstPlaces (confServer ` seen) (map confServer as) = map confServer (firstPlaces seen as)"
proof (induction as arbitrary: seen)
  case (Cons a as)
  have "confServer a \<in> confServer ` seen \<longleftrightarrow> a \<in> seen" using Cons.prems confServer_inj by (metis UnCI image_iff list.set_intros(1))
  moreover have "firstPlaces (confServer ` insert a seen) (map confServer as) = map confServer (firstPlaces (insert a seen) as)"
    using Cons.prems by (intro Cons.IH) auto
  ultimately show ?case using Cons by auto
qed simp

definition confDomainList :: "string list \<Rightarrow> string list option" where
  "confDomainList ds = (if ds = [] then None else Some (firstPlaces {} ds))"

lemma parse_conf:
  assumes ls: "list_all line_ok ls" and as: "\<forall>a \<in> set (confServers ls). resolver_ok a" "confServers ls \<noteq> []"
    and ds: "\<forall>d \<in> set (confLast ls). normalizeDomain u d = Inr d"
  shows "parseResolvConf u (confText ls) = Inr (\<lparr>iev_Groups = [(resolvGroup (map confServer (firstPlaces {} (confServers ls))) [])
      \<lparr>grp_SearchDomains := confDomainList (confLast ls)\<rparr>]\<rparr>,
    list_ex (\<lambda>a. IsLoopback a \<or> IsLinkLocalUnicast a) (confServers ls))"
proof -
  let ?as = "firstPlaces {} (confServers ls)"
  have "serversLoop {} (map confServer (confServers ls)) = Inr (firstPlaces {} (map confServer (confServers ls)))"
    using as normalizeServer_conf by (intro serversLoop_firsts) auto
  also have "firstPlaces {} (map confServer (confServers ls)) = map confServer ?as"
    using firstPlaces_confServer [of "confServers ls" "{}"] as by simp
  finally have servers: "serversLoop {} (map confServer (confServers ls)) = Inr (map confServer ?as)" .
  have "domainsLoop u {} (confLast ls) = Inr (firstPlaces {} (map id (confLast ls)))"
    using ds by (intro domainsLoop_firsts) simp
  then have domains: "normalizeDomains u (Some (confLast ls)) = Inr (confDomainList (confLast ls))"
    by (simp add: normalizeDomains_def confDomainList_def)
  have ne: "?as \<noteq> []" using as(2) by (simp add: firstPlaces_empty)
  have stub: "stubLoop (map confServer ?as) = Inr (list_ex (\<lambda>a. IsLoopback a \<or> IsLinkLocalUnicast a) (confServers ls))"
    using stubLoop_conf [of ?as] as by (simp add: firstPlaces_set list_ex_iff)
  have none: "normalizeDomains u None = Inr None" by (simp add: normalizeDomains_def)
  show ?thesis
    using ls servers domains ne stub none
    by (simp add: parseResolvConf_def confText_lines resolvLines_text confLast_fold normalizeEvidence_def
        normalizeGroup_def resolvGroup_def Let_def)
qed

section \<open>Properties\<close>

definition plainTab :: "unit unitab_scheme" where
  "plainTab = \<lparr>uni_lower = (\<lambda>r. r), uni_fold = (=)\<rparr>"

lemma plainTab_stable: "lower_stable plainTab"
  by (simp add: lower_stable_def unitab_ok_def plainTab_def)

definition demoConf :: "confLine list" where
  "demoConf = [ConfComment [''generated''], ConfNameserver (Addr4 127 0 0 53), ConfSearch [''a'', ''b''],
     ConfOptions [''edns0''], ConfNameserver (Addr4 1 1 1 1), ConfDomain ''corp.example'', ConfNameserver (Addr4 127 0 0 53)]"

lemma demo_addresses: "AddrString (Addr4 127 0 0 53) = ''127.0.0.53''" "AddrString (Addr4 1 1 1 1) = ''1.1.1.1''"
  by (simp_all add: AddrString_def dotted_def fmtBase_rec digitChar_text)

lemma demoConf_ok: "list_all line_ok demoConf"
  by (simp add: demoConf_def line_ok_def demo_addresses word_ok_def graphic_def isGraph_def maxTokenSize_def)

lemma demoConf_resolvers: "\<forall>a \<in> set (confServers demoConf). resolver_ok a"
  by (simp add: demoConf_def confServers_def resolver_ok_def IsUnspecified_def IPv4Unspecified_def IPv6Unspecified_def)

lemma demoConf_domains: "\<forall>d \<in> set (confLast demoConf). normalizeDomain plainTab d = Inr d"
proof -
  have a: "isAscii ''corp.example''" by (simp add: isAscii_def)
  have "TrimSpace ''corp.example'' = ''corp.example''" by (rule TrimSpace_graphic) (simp add: graphic_def isGraph_def)
  moreover have "ToLower plainTab ''corp.example'' = ''corp.example''" by (rule ToLower_lower_id) simp
  moreover have "\<not> hasSpaceRune ''corp.example''"
    by (simp add: hasSpaceRune_def runes_ascii [OF a] isSpaceRune_def spaceRunes_def)
  ultimately show ?thesis
    by (simp add: demoConf_def confLast_def normalizeDomain_def TrimSuffixDot_def HasPrefix_def startsWith_def ContainsAny_def Let_def)
qed

text \<open>Property C36: the resolver inventory never reports an envelope that its own validator refuses, on any
  platform, for any configuration, output, adapters and contexts. The validator normalizes the evidence
  once more, so this is where normalizing has to be stable.\<close>

theorem Observe_inv_valid:
  assumes "lower_stable u" "inv_env_ok w"
    and "iw_collect w \<in> {collectPlatform_linux u c contents, collectPlatform_darwin u printed, collectPlatform_other,
      collectPlatform_windows u c answer}"
  shows "Validate_inv u (Observe_inv u w) = None"
  using assms linux.observe_valid darwin.observe_valid other.observe_valid windows.observe_valid by blast

definition demoInvWorld :: InvWorld where
  "demoInvWorld = \<lparr>iw_collect = collectPlatform_linux plainTab background (Inr (confText demoConf)), iw_now = steadyClock 1000000,
     iw_ctx = background, iw_os = ''linux'', iw_arch = ''amd64''\<rparr>"

lemma Observe_inv_valid_witness:
  "Validate_inv plainTab (Observe_inv plainTab demoInvWorld) = None \<and> env_outcome (Observe_inv plainTab demoInvWorld) = OutcomeSucceeded"
proof
  have env: "inv_env_ok demoInvWorld" by (simp add: inv_env_ok_def demoInvWorld_def steadyClock_ok platform_ok_def)
  show "Validate_inv plainTab (Observe_inv plainTab demoInvWorld) = None"
    by (rule Observe_inv_valid [OF plainTab_stable env, of background "Inr (confText demoConf)"]) (simp add: demoInvWorld_def)
  have "confServers demoConf \<noteq> []" by (simp add: demoConf_def confServers_def)
  from parse_conf [OF demoConf_ok demoConf_resolvers this demoConf_domains]
  obtain ev stub where p: "parseResolvConf plainTab (confText demoConf) = Inr (ev, stub)" by blast
  obtain ev0 where "normalizeEvidence plainTab ev0 = Inr ev" using parseResolvConf_normal [OF p] ..
  from normalizeEvidence_again [OF plainTab_stable this] have "normalizeEvidence plainTab ev = Inr (trimmedEvidence ev)" ..
  with p show "env_outcome (Observe_inv plainTab demoInvWorld) = OutcomeSucceeded"
    by (simp add: Observe_inv_def demoInvWorld_def collectPlatform_linux_def background_def ctxErrAt_def collectEvidence_def
        result_inv_def Let_def)
qed

text \<open>Property C37: parsing a printed \<open>resolv.conf\<close> gives its meaning: the servers in the order of their
  lines, each once and at port 53, the list of the last \<open>search\<close> or \<open>domain\<close> line, and whether one of the
  servers is local. Comments and options are skipped.\<close>

theorem parseResolvConf_text:
  assumes "list_all line_ok ls" "\<forall>a \<in> set (confServers ls). resolver_ok a" "confServers ls \<noteq> []"
    and "\<forall>d \<in> set (confLast ls). normalizeDomain u d = Inr d"
  shows "parseResolvConf u (confText ls) = Inr (
     \<lparr>iev_Groups = [\<lparr>grp_Scope = ScopeGlobal,
        grp_Servers = map (\<lambda>a. \<lparr>srv_Address = AddrString a, srv_Port = 53, srv_Zone = ''''\<rparr>) (firstPlaces {} (confServers ls)),
        grp_Interface = '''', grp_InterfaceIndex = 0,
        grp_SearchDomains = (if confLast ls = [] then None else Some (firstPlaces {} (confLast ls))),
        grp_MatchDomains = None\<rparr>]\<rparr>,
     list_ex (\<lambda>a. IsLoopback a \<or> IsLinkLocalUnicast a) (confServers ls))"
  unfolding parse_conf [OF assms] by (simp add: resolvGroup_def confDomainList_def confServer_def [abs_def] defaultDNSPort_def)

lemma parseResolvConf_text_witness:
  "\<exists>ev. parseResolvConf plainTab (confText demoConf) = Inr (ev, True) \<and>
     map srv_Address (grp_Servers (hd (iev_Groups ev))) = [''127.0.0.53'', ''1.1.1.1''] \<and>
     grp_SearchDomains (hd (iev_Groups ev)) = Some [''corp.example'']"
proof -
  have ne: "confServers demoConf \<noteq> []" by (simp add: demoConf_def confServers_def)
  have "IsLoopback (Addr4 127 0 0 53)" by (simp add: IsLoopback_def)
  then show ?thesis
    unfolding parseResolvConf_text [OF demoConf_ok demoConf_resolvers ne demoConf_domains]
    by (simp add: demoConf_def confServers_def confLast_def demo_addresses)
qed

end
