(* ===== verification/BrowserOpener.thy ===== *)
theory BrowserOpener
  imports GoNet GoHttp GoUrl
begin

text \<open>
  Package \<open>internal/platform/browseropener\<close>: opening a loopback URL in the browser of the platform. The
  launch command and the context are the environment of a run.
\<close>

section \<open>Types\<close>

datatype OpenStatus = StatusOpened | StatusFailed_open | StatusCancelled_open | OpenStatusOther string

datatype OpenCode =
    FailureInvalidURL
  | FailureCommandUnavailable
  | FailureLaunchTimeout
  | FailureLaunchFailed
  | FailureUnsupportedPlatform
  | FailureCancelled_open
  | OpenCodeOther string

record OpenFailure =
  opf_Code :: OpenCode
  opf_Detail :: string

record OpenResult =
  opr_Backend :: string
  opr_URL :: string
  opr_Status :: OpenStatus
  opr_Failure :: "OpenFailure option"

section \<open>The loopback URL\<close>

text \<open>\<open>strconv.Atoi\<close>: an optional sign and decimal digits within 64 bits.\<close>

definition Atoi :: "string \<Rightarrow> int option" where
  "Atoi s = (let (negative, digits) = (case s of
         [] \<Rightarrow> (False, [])
       | c # t \<Rightarrow> if c = CHR ''-'' then (True, t) else if c = CHR ''+'' then (False, t) else (False, c # t)) in
     if digits = [] then None
     else (case readBase 10 0 digits of
         None \<Rightarrow> None
       | Some n \<Rightarrow> if negative then (if n \<le> 2 ^ 63 then Some (- int n) else None)
           else (if n < 2 ^ 63 then Some (int n) else None)))"

definition Itoa :: "int \<Rightarrow> string" where
  "Itoa n = (if n < 0 then CHR ''-'' # fmtDec (nat (- n)) else fmtDec (nat n))"

definition validateLoopbackURL :: "string \<Rightarrow> error option" where
  "validateLoopbackURL rawURL =
     (if ContainsAny rawURL [CHR 0x00, CHR 0x0D, CHR 0x0A] then Some ''browser URL must not contain control characters''
      else (case urlParse rawURL of
          None \<Rightarrow> Some ''parse browser URL''
        | Some parsed \<Rightarrow>
           (let portText = urlPort parsed; port = Atoi portText in firstErr [
              guard (u_Scheme parsed \<noteq> ''http'' \<or> u_Opaque parsed \<noteq> '''' \<or> u_User parsed \<noteq> None)
                ''browser URL must be an absolute HTTP URL without user information'',
              guard (Hostname parsed \<noteq> ''127.0.0.1'') ''browser URL must use the literal 127.0.0.1 host'',
              guard (case port of None \<Rightarrow> True | Some p \<Rightarrow> p < 1 \<or> 65535 < p \<or> Itoa p \<noteq> portText)
                ''browser URL must include a canonical TCP port'',
              guard (u_Host parsed \<noteq> JoinHostPort ''127.0.0.1'' portText) ''browser URL host and port must use canonical form'',
              guard (u_Path parsed = '''' \<or> hd (u_Path parsed) \<noteq> CHR ''/'') ''browser URL must include an absolute path''])))"

section \<open>Open\<close>

text \<open>An error of the launch: its text, and which of the three sentinels are in its chain.\<close>

record launchErr =
  lau_text :: string
  lau_unsupported :: bool
  lau_notFound :: bool
  lau_notExist :: bool

record Opener =
  on_backend :: string
  on_launch :: "string \<Rightarrow> launchErr option"

definition newOpener :: "string \<Rightarrow> (string \<Rightarrow> launchErr option) \<Rightarrow> error + Opener" where
  "newOpener backend launch =
     (if TrimSpace backend = '''' then Inl ''browser backend must not be empty''
      else Inr \<lparr>on_backend = backend, on_launch = launch\<rparr>)"

definition classifyLaunchFailure :: "launchErr \<Rightarrow> OpenCode" where
  "classifyLaunchFailure err =
     (if lau_unsupported err then FailureUnsupportedPlatform
      else if lau_notFound err \<or> lau_notExist err then FailureCommandUnavailable
      else FailureLaunchFailed)"

definition failed_open :: "Opener \<Rightarrow> string \<Rightarrow> OpenCode \<Rightarrow> string \<Rightarrow> OpenResult" where
  "failed_open ob rawURL code detail = \<lparr>opr_Backend = on_backend ob, opr_URL = rawURL, opr_Status = StatusFailed_open,
     opr_Failure = Some \<lparr>opf_Code = code, opf_Detail = detail\<rparr>\<rparr>"

definition cancelled_open :: "Opener \<Rightarrow> string \<Rightarrow> string \<Rightarrow> OpenResult" where
  "cancelled_open ob rawURL detail = \<lparr>opr_Backend = on_backend ob, opr_URL = rawURL, opr_Status = StatusCancelled_open,
     opr_Failure = Some \<lparr>opf_Code = FailureCancelled_open, opf_Detail = detail\<rparr>\<rparr>"

definition contextResult :: "Opener \<Rightarrow> string \<Rightarrow> goerr \<Rightarrow> OpenResult" where
  "contextResult ob rawURL err =
     (if errorsIs (Some err) SDeadlineExceeded then failed_open ob rawURL FailureLaunchTimeout (err_text err)
      else cancelled_open ob rawURL (err_text err))"

text \<open>The context is read three times, from \<open>k\<close> on.\<close>

definition Open :: "Opener \<Rightarrow> ctx \<Rightarrow> nat \<Rightarrow> string \<Rightarrow> OpenResult" where
  "Open ob ctx k rawURL = (case validateLoopbackURL rawURL of
      Some m \<Rightarrow> failed_open ob rawURL FailureInvalidURL m
    | None \<Rightarrow> (case ctxErrAt ctx k of
        Some err \<Rightarrow> contextResult ob rawURL err
      | None \<Rightarrow>
         (let err = on_launch ob rawURL in
          case ctxErrAt ctx (k + 1) of
            Some contextErr \<Rightarrow> contextResult ob rawURL contextErr
          | None \<Rightarrow> (case err of
              Some e \<Rightarrow> failed_open ob rawURL (classifyLaunchFailure e) (lau_text e)
            | None \<Rightarrow> (case ctxErrAt ctx (k + 2) of
                Some contextErr \<Rightarrow> contextResult ob rawURL contextErr
              | None \<Rightarrow> \<lparr>opr_Backend = on_backend ob, opr_URL = rawURL, opr_Status = StatusOpened, opr_Failure = None\<rparr>)))))"

section \<open>The platforms\<close>

definition platformBackend_darwin :: string where "platformBackend_darwin = ''darwin-open''"
definition platformBackend_linux :: string where "platformBackend_linux = ''linux-xdg-open''"
definition platformBackend_other :: string where "platformBackend_other = ''unsupported-browser-platform''"
definition platformBackend_windows :: string where "platformBackend_windows = ''windows-shell-execute''"

text \<open>Running a command is a parameter: the program and its one argument.\<close>

definition launchPlatform_darwin :: "(string \<Rightarrow> string \<Rightarrow> launchErr option) \<Rightarrow> string \<Rightarrow> launchErr option" where
  "launchPlatform_darwin run rawURL = run ''/usr/bin/open'' rawURL"

definition launchPlatform_linux :: "(string \<Rightarrow> string \<Rightarrow> launchErr option) \<Rightarrow> string \<Rightarrow> launchErr option" where
  "launchPlatform_linux run rawURL = run ''xdg-open'' rawURL"

definition launchPlatform_other :: "string \<Rightarrow> string \<Rightarrow> launchErr option" where
  "launchPlatform_other os rawURL = Some \<lparr>lau_text = ''browser opening is unsupported on this platform'' @ CHR 0x0A # ''GOOS '' @ os,
     lau_unsupported = True, lau_notFound = False, lau_notExist = False\<rparr>"

text \<open>The shell call of Windows, between two readings of the context; a NUL cannot be encoded.\<close>

definition contextLaunchErr :: "goerr \<Rightarrow> launchErr" where
  "contextLaunchErr e = \<lparr>lau_text = err_text e, lau_unsupported = False, lau_notFound = False, lau_notExist = False\<rparr>"

definition launchPlatform_windows :: "ctx \<Rightarrow> nat \<Rightarrow> (string \<Rightarrow> launchErr option) \<Rightarrow> string \<Rightarrow> launchErr option" where
  "launchPlatform_windows ctx k shellExecute rawURL = (case ctxErrAt ctx k of
      Some e \<Rightarrow> Some (contextLaunchErr e)
    | None \<Rightarrow>
        if CHR 0x00 \<in> set rawURL
        then Some \<lparr>lau_text = ''encode ShellExecute URL: invalid argument'', lau_unsupported = False, lau_notFound = False, lau_notExist = False\<rparr>
        else (case shellExecute rawURL of
            Some e \<Rightarrow> Some (e\<lparr>lau_text := ''ShellExecuteW: '' @ lau_text e\<rparr>)
          | None \<Rightarrow> map_option contextLaunchErr (ctxErrAt ctx (k + 1))))"

section \<open>Validate\<close>

definition Validate_open :: "OpenResult \<Rightarrow> string \<Rightarrow> error option" where
  "Validate_open result expectedURL = (let urlErr = validateLoopbackURL expectedURL in firstErr [
     guard (TrimSpace (opr_Backend result) = '''') ''backend must not be empty'',
     guard (opr_URL result \<noteq> expectedURL) ''URL must match the requested URL'',
     (case opr_Status result of
        StatusOpened \<Rightarrow> firstErr [
          wrapErr ''opened result has invalid URL: '' urlErr,
          guard (opr_Failure result \<noteq> None) ''opened result must not include failure'']
      | StatusFailed_open \<Rightarrow> (case opr_Failure result of
          None \<Rightarrow> Some ''failed result requires failure detail''
        | Some failure \<Rightarrow>
            if TrimSpace (opf_Detail failure) = '''' then Some ''failed result requires failure detail''
            else if urlErr \<noteq> None then guard (opf_Code failure \<noteq> FailureInvalidURL) ''invalid URL requires invalid_url failure''
            else guard (opf_Code failure \<notin> {FailureCommandUnavailable, FailureLaunchTimeout, FailureLaunchFailed,
                FailureUnsupportedPlatform}) ''failed result has unsupported failure code'')
      | StatusCancelled_open \<Rightarrow> firstErr [
          wrapErr ''cancelled result has invalid URL: '' urlErr,
          guard (case opr_Failure result of None \<Rightarrow> True
            | Some failure \<Rightarrow> opf_Code failure \<noteq> FailureCancelled_open \<or> TrimSpace (opf_Detail failure) = '''')
            ''cancelled result requires cancelled failure'']
      | OpenStatusOther s \<Rightarrow> Some ''unsupported status'')])"

end
