(* ===== verification/BrowserPlaceholder.thy ===== *)
theory BrowserPlaceholder
  imports BrowserOpener
begin

text \<open>
  Package \<open>internal/browserplaceholder\<close>: a loopback page that is opened in the browser and waits for its
  one request. The listener, the opener, the notifier, the requests that arrive and what the final
  \<open>select\<close> finds ready are the environment of a run.
\<close>

section \<open>Types\<close>

definition SchemaVersion_pl :: int where "SchemaVersion_pl = 1"
definition Operation_pl :: string where "Operation_pl = ''browser_placeholder''"

datatype PlStatus = PlCompleted | PlStopped | PlCancelled | PlStatusOther string

datatype Completion = CompletionPageRequested | CompletionOther string

datatype PlStop =
    StopListenerFailure
  | StopPlaceholderTimeout
  | StopCancelled_pl
  | StopInvalidFallbackNotifier
  | StopInvalidOpenerEvidence
  | StopFallbackNotificationFailure
  | StopServerFailure
  | PlStopOther string

record PlInput =
  pin_ListenNetwork :: string
  pin_ListenAddress :: string
  pin_Path :: string
  pin_OpenTimeoutMS :: int
  pin_TimeoutMS :: int

record Fallback =
  fb_URL :: string
  fb_Failure :: OpenFailure

record PageRequest =
  pr_Method :: string
  pr_Host :: string
  pr_Path :: string

record PlResult =
  plr_SchemaVersion :: int
  plr_Operation :: string
  plr_ObservedAt :: gotime
  plr_DurationMS :: int
  plr_Platform :: Platform
  plr_Input :: PlInput
  plr_URL :: string
  plr_OpenAttempt :: "OpenResult option"
  plr_FallbackNotified :: bool
  plr_PageRequest :: "PageRequest option"
  plr_Status :: PlStatus
  plr_Completion :: Completion
  plr_StopReason :: PlStop
  plr_Detail :: string

section \<open>Constants\<close>

definition defaultTimeout_pl :: int where "defaultTimeout_pl = 60 * Second"
definition maximumTimeout_pl :: int where "maximumTimeout_pl = 120 * Second"
definition listenNetwork :: string where "listenNetwork = ''tcp4''"
definition listenAddress :: string where "listenAddress = ''127.0.0.1:0''"
definition pagePath :: string where "pagePath = ''/''"
definition browserOpenTimeout :: int where "browserOpenTimeout = 5 * Second"

definition placeholderHTML :: string where
  "placeholderHTML = ''<!doctype html><html lang='' @ [CHR 0x22] @ ''en'' @ [CHR 0x22] @ ''><meta charset='' @ [CHR 0x22] @ ''utf-8'' @
     [CHR 0x22] @ ''><meta name='' @ [CHR 0x22] @ ''viewport'' @ [CHR 0x22] @ '' content='' @ [CHR 0x22] @
     ''width=device-width,initial-scale=1'' @ [CHR 0x22] @ ''><title>ReachRun Browser Check</title><main><h1>'' @
     ''ReachRun browser check</h1><p>The local placeholder page is reachable. You may close this tab.</p></main></html>''"

section \<open>The page\<close>

text \<open>A request as the server hands it to the handler, and the response: its header, status and body.\<close>

record HttpRequest_pl =
  hq_Method :: string
  hq_Host :: string
  hq_Path :: string
  hq_RawQuery :: string

record HttpResponse_pl =
  hp_Header :: "(string \<times> string) list"
  hp_Status :: int
  hp_Body :: string

definition headerSet :: "string \<Rightarrow> string \<Rightarrow> (string \<times> string) list \<Rightarrow> (string \<times> string) list" where
  "headerSet k v h = filter (\<lambda>(key, _). key \<noteq> k) h @ [(k, v)]"

text \<open>\<open>http.Error\<close>\<close>

definition httpError :: "(string \<times> string) list \<Rightarrow> string \<Rightarrow> int \<Rightarrow> HttpResponse_pl" where
  "httpError header message code = \<lparr>hp_Header = headerSet ''X-Content-Type-Options'' ''nosniff''
       (headerSet ''Content-Type'' ''text/plain; charset=utf-8'' (filter (\<lambda>(key, _). key \<noteq> ''Content-Length'') header)),
     hp_Status = code, hp_Body = message @ [CHR 0x0A]\<rparr>"

definition placeholderHeaders :: "(string \<times> string) list" where
  "placeholderHeaders = headerSet ''X-Content-Type-Options'' ''nosniff'' (headerSet ''Referrer-Policy'' ''no-referrer''
     (headerSet ''Content-Security-Policy''
        (''default-src '' @ [CHR 0x27] @ ''none'' @ [CHR 0x27] @ ''; object-src '' @ [CHR 0x27] @ ''none'' @ [CHR 0x27] @
         ''; base-uri '' @ [CHR 0x27] @ ''none'' @ [CHR 0x27] @ ''; frame-ancestors '' @ [CHR 0x27] @ ''none'' @ [CHR 0x27])
        (headerSet ''Cache-Control'' ''no-store'' [])))"

text \<open>
  One request: the response, and what is sent to the channel. \<open>complete\<close> is the state of the
  \<open>sync.Once\<close>; \<open>written\<close> says whether the body could be written.
\<close>

definition placeholderHandler :: "string \<Rightarrow> bool \<Rightarrow> HttpRequest_pl \<Rightarrow> bool \<Rightarrow> HttpResponse_pl \<times> PageRequest option \<times> bool" where
  "placeholderHandler expectedHost complete request written =
     (if hq_Host request \<noteq> expectedHost then (httpError placeholderHeaders ''invalid Host'' 421, None, complete)
      else if hq_Method request \<noteq> ''GET''
      then (httpError (headerSet ''Allow'' ''GET'' placeholderHeaders) ''method not allowed'' 405, None, complete)
      else if hq_Path request \<noteq> pagePath \<or> hq_RawQuery request \<noteq> ''''
      then (httpError placeholderHeaders ''404 page not found'' 404, None, complete)
      else
       (let response = \<lparr>hp_Header = headerSet ''Content-Length'' (Itoa (int (length placeholderHTML)))
              (headerSet ''Content-Type'' ''text/html; charset=utf-8'' placeholderHeaders),
              hp_Status = 200, hp_Body = placeholderHTML\<rparr> in
        if \<not> written \<or> complete then (response, None, complete)
        else (response, Some \<lparr>pr_Method = hq_Method request, pr_Host = hq_Host request, pr_Path = hq_Path request\<rparr>, True)))"

text \<open>The requests served so far, and the content of the channel they leave.\<close>

fun serveRequests :: "string \<Rightarrow> bool \<Rightarrow> (HttpRequest_pl \<times> bool) list \<Rightarrow> HttpResponse_pl list \<times> PageRequest list" where
  "serveRequests expectedHost complete [] = ([], [])"
| "serveRequests expectedHost complete ((request, written) # requests) =
     (let (response, sent, complete') = placeholderHandler expectedHost complete request written;
          (responses, channel) = serveRequests expectedHost complete' requests in
      (response # responses, (case sent of None \<Rightarrow> channel | Some page \<Rightarrow> page # channel)))"

section \<open>The runner\<close>

text \<open>
  The address of the listener: whether it is a TCP address, its IP and port. An error of the server that
  is in its channel may be nil. When nothing is chosen from the page requests, the \<open>select\<close> finds the end of
  the server (whether it is \<open>http.ErrServerClosed\<close>, and its text) or the end of the context.
\<close>

record ListenAddr =
  la_TCP :: bool
  la_IP :: Addr
  la_Port :: int

datatype PlEvent = ServeStopped bool string | ContextDone

record PlWorld =
  plw_now :: "nat \<Rightarrow> gotime"
  plw_ctx :: ctx
  plw_fired :: "int \<Rightarrow> nat \<Rightarrow> bool"
  plw_openFired :: "int \<Rightarrow> nat \<Rightarrow> bool"
  plw_listen :: "error + ListenAddr"
  plw_serveFirst :: "string option option"
  plw_serveSecond :: "string option option"
  plw_notify :: "(Fallback \<Rightarrow> error option) option"
  plw_requests :: "(HttpRequest_pl \<times> bool) list"
  plw_takePage :: bool
  plw_event :: PlEvent

record Runner =
  run_timeout :: int
  run_platform :: Platform
  run_open :: "ctx \<Rightarrow> nat \<Rightarrow> string \<Rightarrow> OpenResult"

record PlTerminal =
  ptm_status :: PlStatus
  ptm_reason :: PlStop
  ptm_detail :: string

definition normalizeTimeout_pl :: "int \<Rightarrow> error + int" where
  "normalizeTimeout_pl timeout =
     (if timeout = 0 then Inr defaultTimeout_pl
      else if timeout < Millisecond \<or> maximumTimeout_pl < timeout then Inl ''timeout must be between 1ms and 2m0s''
      else Inr timeout)"

definition newRunner :: "int \<Rightarrow> Platform \<Rightarrow> Platform \<Rightarrow> (ctx \<Rightarrow> nat \<Rightarrow> string \<Rightarrow> OpenResult) option \<Rightarrow> error + Runner" where
  "newRunner timeout0 runtime platform0 opener = (case normalizeTimeout_pl timeout0 of
      Inl e \<Rightarrow> Inl e
    | Inr timeout \<Rightarrow>
       (let platform = (if plat_os platform0 = '''' \<and> plat_arch platform0 = '''' then runtime else platform0) in
        if plat_os platform = '''' \<or> plat_arch platform = '''' then Inl ''platform dependency must include OS and architecture''
        else (case opener of
            None \<Rightarrow> Inl ''browser opener dependency must not be nil''
          | Some open \<Rightarrow> Inr \<lparr>run_timeout = timeout, run_platform = platform, run_open = open\<rparr>)))"

definition fixedInput :: "int \<Rightarrow> PlInput" where
  "fixedInput timeout = \<lparr>pin_ListenNetwork = listenNetwork, pin_ListenAddress = listenAddress, pin_Path = pagePath,
     pin_OpenTimeoutMS = Milliseconds (min timeout browserOpenTimeout), pin_TimeoutMS = Milliseconds timeout\<rparr>"

definition listenerURL :: "ListenAddr \<Rightarrow> error + string \<times> string" where
  "listenerURL address =
     (if \<not> la_TCP address \<or> Unmap (la_IP address) \<noteq> Addr4 127 0 0 1 \<or> la_Port address < 1 \<or> 65535 < la_Port address
      then Inl ''listener returned an invalid TCP address''
      else (let host = JoinHostPort ''127.0.0.1'' (Itoa (la_Port address)) in Inr (''http://'' @ host @ pagePath, host)))"

definition immediateServeFailure :: "string option option \<Rightarrow> string option" where
  "immediateServeFailure serveErrors = (case serveErrors of
      None \<Rightarrow> None
    | Some None \<Rightarrow> Some ''placeholder server stopped without an error''
    | Some (Some err) \<Rightarrow> Some err)"

text \<open>\<open>err.Error()\<close>; the error of a context that is done is not nil.\<close>

definition contextText :: "goerr option \<Rightarrow> string" where
  "contextText err = (case err of None \<Rightarrow> ''panic: nil error'' | Some e \<Rightarrow> err_text e)"

definition contextTerminal :: "ctx \<Rightarrow> nat \<Rightarrow> PlTerminal option" where
  "contextTerminal ctx k =
     (if errorsIs (ctxErrAt ctx k) SCanceled
      then Some \<lparr>ptm_status = PlCancelled, ptm_reason = StopCancelled_pl, ptm_detail = contextText (ctxErrAt ctx (k + 1))\<rparr>
      else if errorsIs (ctxErrAt ctx (k + 1)) SDeadlineExceeded
      then Some \<lparr>ptm_status = PlStopped, ptm_reason = StopPlaceholderTimeout, ptm_detail = contextText (ctxErrAt ctx (k + 2))\<rparr>
      else None)"

definition noTerminal :: PlTerminal where
  "noTerminal = \<lparr>ptm_status = PlStatusOther '''', ptm_reason = PlStopOther '''', ptm_detail = ''''\<rparr>"

definition stopped_pl :: "PlStop \<Rightarrow> string \<Rightarrow> PlTerminal" where
  "stopped_pl reason detail = \<lparr>ptm_status = PlStopped, ptm_reason = reason, ptm_detail = detail\<rparr>"

definition finish_pl :: "PlWorld \<Rightarrow> Runner \<Rightarrow> string \<Rightarrow> OpenResult option \<Rightarrow> bool \<Rightarrow> PageRequest option \<Rightarrow> PlTerminal \<Rightarrow> PlResult" where
  "finish_pl w r rawURL openAttempt fallbackNotified pageRequest state =
     (let finishedAt = plw_now w 1; duration = Milliseconds (Sub finishedAt (plw_now w 0)) in
      \<lparr>plr_SchemaVersion = SchemaVersion_pl, plr_Operation = Operation_pl, plr_ObservedAt = UTC finishedAt,
       plr_DurationMS = (if duration < 0 then 0 else duration), plr_Platform = run_platform r,
       plr_Input = fixedInput (run_timeout r), plr_URL = rawURL, plr_OpenAttempt = openAttempt,
       plr_FallbackNotified = fallbackNotified, plr_PageRequest = pageRequest, plr_Status = ptm_status state,
       plr_Completion = (if ptm_status state = PlCompleted then CompletionPageRequested else CompletionOther ''''),
       plr_StopReason = ptm_reason state, plr_Detail = ptm_detail state\<rparr>)"

text \<open>The \<open>select\<close>: a page request if one is pending and chosen, otherwise the event.\<close>

definition awaitPage :: "PlWorld \<Rightarrow> Runner \<Rightarrow> ctx \<Rightarrow> string \<Rightarrow> string \<Rightarrow> OpenResult \<Rightarrow> bool \<Rightarrow> PlResult" where
  "awaitPage w r runContext rawURL expectedHost attempt notified =
     (let pages = snd (serveRequests expectedHost False (plw_requests w)) in
      if plw_takePage w \<and> pages \<noteq> [] then
        (case contextTerminal runContext 30 of
          Some state \<Rightarrow> finish_pl w r rawURL (Some attempt) notified None state
        | None \<Rightarrow> (case contextTerminal runContext 40 of
            Some state \<Rightarrow> finish_pl w r rawURL (Some attempt) notified None state
          | None \<Rightarrow> finish_pl w r rawURL (Some attempt) notified (Some (hd pages))
              \<lparr>ptm_status = PlCompleted, ptm_reason = PlStopOther '''', ptm_detail = ''''\<rparr>))
      else (case plw_event w of
          ServeStopped closed err \<Rightarrow> finish_pl w r rawURL (Some attempt) notified None
            (stopped_pl StopServerFailure (if closed then ''placeholder server closed before a valid page request'' else err))
        | ContextDone \<Rightarrow> finish_pl w r rawURL (Some attempt) notified None
            (case contextTerminal runContext 50 of None \<Rightarrow> noTerminal | Some state \<Rightarrow> state)))"

text \<open>What follows a valid attempt to open the page.\<close>

definition afterOpen :: "PlWorld \<Rightarrow> Runner \<Rightarrow> (Fallback \<Rightarrow> error option) \<Rightarrow> ctx \<Rightarrow> string \<Rightarrow> string \<Rightarrow> OpenResult \<Rightarrow> PlResult" where
  "afterOpen w r notify runContext rawURL expectedHost attempt = (case contextTerminal runContext 20 of
      Some state \<Rightarrow> finish_pl w r rawURL (Some attempt) False None state
    | None \<Rightarrow>
        if opr_Status attempt = StatusCancelled_open
        then finish_pl w r rawURL None False None
          (stopped_pl StopInvalidOpenerEvidence ''browser opener returned cancellation while the placeholder was active'')
        else (case immediateServeFailure (plw_serveSecond w) of
            Some err \<Rightarrow> finish_pl w r rawURL (Some attempt) False None (stopped_pl StopServerFailure err)
          | None \<Rightarrow> (case (opr_Status attempt, opr_Failure attempt) of
              (StatusFailed_open, Some failure) \<Rightarrow>
                (case notify \<lparr>fb_URL = rawURL, fb_Failure = failure\<rparr> of
                   Some err \<Rightarrow> finish_pl w r rawURL (Some attempt) False None
                     (stopped_pl StopFallbackNotificationFailure (''display browser fallback: '' @ err))
                 | None \<Rightarrow> awaitPage w r runContext rawURL expectedHost attempt True)
            | _ \<Rightarrow> awaitPage w r runContext rawURL expectedHost attempt False)))"

definition Run :: "PlWorld \<Rightarrow> Runner \<Rightarrow> PlResult" where
  "Run w r = (case plw_notify w of
      None \<Rightarrow> finish_pl w r '''' None False None (stopped_pl StopInvalidFallbackNotifier ''fallback notifier must not be nil'')
    | Some notify \<Rightarrow> (case contextTerminal (plw_ctx w) 0 of
        Some state \<Rightarrow> finish_pl w r '''' None False None state
      | None \<Rightarrow>
         (let runContext = withTimeout (plw_ctx w) (plw_fired w (run_timeout r)) in
          case plw_listen w of
            Inl err \<Rightarrow> finish_pl w r '''' None False None (stopped_pl StopListenerFailure (''listen on tcp4/127.0.0.1:0: '' @ err))
          | Inr address \<Rightarrow> (case listenerURL address of
              Inl err \<Rightarrow> finish_pl w r '''' None False None (stopped_pl StopListenerFailure err)
            | Inr (rawURL, expectedHost) \<Rightarrow> (case immediateServeFailure (plw_serveFirst w) of
                Some err \<Rightarrow> finish_pl w r rawURL None False None (stopped_pl StopServerFailure err)
              | None \<Rightarrow>
                 (let openContext = withTimeout runContext (plw_openFired w (min (run_timeout r) browserOpenTimeout));
                      attempt = run_open r openContext 10 rawURL in
                  case Validate_open attempt rawURL of
                    Some err \<Rightarrow> finish_pl w r rawURL None False None (stopped_pl StopInvalidOpenerEvidence err)
                  | None \<Rightarrow> afterOpen w r notify runContext rawURL expectedHost attempt))))))"

section \<open>Validate\<close>

definition validateResultURL :: "string \<Rightarrow> error option" where
  "validateResultURL rawURL = (case urlParse rawURL of
      None \<Rightarrow> Some ''parse result URL''
    | Some parsed \<Rightarrow>
       (let portText = urlPort parsed; port = Atoi portText in
        guard (u_Scheme parsed \<noteq> ''http'' \<or> u_Opaque parsed \<noteq> '''' \<or> u_User parsed \<noteq> None \<or> Hostname parsed \<noteq> ''127.0.0.1'' \<or>
            (case port of None \<Rightarrow> True | Some p \<Rightarrow> p < 1 \<or> 65535 < p \<or> Itoa p \<noteq> portText) \<or>
            u_Host parsed \<noteq> JoinHostPort ''127.0.0.1'' portText \<or> u_Path parsed \<noteq> pagePath \<or> u_RawQuery parsed \<noteq> '''' \<or>
            u_Fragment parsed \<noteq> '''')
          ''URL must be the canonical placeholder loopback URL''))"

definition validateTerminalShape_pl :: "PlResult \<Rightarrow> error option" where
  "validateTerminalShape_pl result =
     (let url = plr_URL result; opener = plr_OpenAttempt result; notified = plr_FallbackNotified result in
      case plr_Status result of
        PlCompleted \<Rightarrow>
          (if plr_Completion result \<noteq> CompletionPageRequested \<or> plr_StopReason result \<noteq> PlStopOther '''' \<or> plr_Detail result \<noteq> '''' \<or>
              url = '''' \<or> opener = None \<or> plr_PageRequest result = None
           then Some ''completed placeholder requires URL, opener, page request, and page_requested completion''
           else if opr_Status (the opener) = StatusFailed_open \<and> \<not> notified
           then Some ''completed failed opener requires terminal fallback notification''
           else guard (opr_Status (the opener) = StatusOpened \<and> notified) ''opened browser attempt must not notify fallback'')
      | PlStopped \<Rightarrow>
          (if plr_Completion result \<noteq> CompletionOther '''' \<or> plr_PageRequest result \<noteq> None \<or> TrimSpace (plr_Detail result) = ''''
           then Some ''stopped placeholder requires detail without completion or page request''
           else (case plr_StopReason result of
               StopListenerFailure \<Rightarrow> guard (url \<noteq> '''' \<or> opener \<noteq> None \<or> notified) ''reason must not include URL or opener evidence''
             | StopInvalidFallbackNotifier \<Rightarrow>
                 guard (url \<noteq> '''' \<or> opener \<noteq> None \<or> notified) ''reason must not include URL or opener evidence''
             | StopPlaceholderTimeout \<Rightarrow> guard (url = '''' \<or> opener = None) ''reason requires URL and opener evidence''
             | StopFallbackNotificationFailure \<Rightarrow>
                 (case opener of
                    None \<Rightarrow> Some ''reason requires URL and opener evidence''
                  | Some attempt \<Rightarrow>
                      if url = '''' then Some ''reason requires URL and opener evidence''
                      else guard (opr_Status attempt \<noteq> StatusFailed_open \<or> notified)
                        ''fallback notification failure requires an unnotified failed opener'')
             | StopServerFailure \<Rightarrow> guard (url = '''') ''server failure requires URL''
             | StopInvalidOpenerEvidence \<Rightarrow> guard (url = '''' \<or> opener \<noteq> None \<or> notified)
                 ''invalid opener evidence keeps URL but discards the invalid attempt''
             | _ \<Rightarrow> Some ''stopped placeholder has unsupported reason''))
      | PlCancelled \<Rightarrow>
          guard (plr_Completion result \<noteq> CompletionOther '''' \<or> plr_StopReason result \<noteq> StopCancelled_pl \<or>
              TrimSpace (plr_Detail result) = '''' \<or> plr_PageRequest result \<noteq> None)
            ''cancelled placeholder requires cancelled reason without completion''
      | PlStatusOther s \<Rightarrow> Some ''unsupported status'')"

definition Validate_pl :: "PlResult \<Rightarrow> error option" where
  "Validate_pl result = firstErr [
     guard (plr_SchemaVersion result \<noteq> SchemaVersion_pl) ''schema_version must be 1'',
     guard (plr_Operation result \<noteq> Operation_pl) ''operation must be browser_placeholder'',
     guard (IsZero (plr_ObservedAt result)) ''observed_at must not be zero'',
     guard (t_zone (plr_ObservedAt result) \<noteq> 0) ''observed_at must use UTC'',
     guard (plr_DurationMS result < 0) ''duration_ms must not be negative'',
     guard (plat_os (plr_Platform result) = '''' \<or> plat_arch (plr_Platform result) = '''') ''platform must include OS and architecture'',
     guard (pin_TimeoutMS (plr_Input result) < 1 \<or> Milliseconds maximumTimeout_pl < pin_TimeoutMS (plr_Input result))
       ''input does not match the fixed placeholder policy'',
     (let timeout = pin_TimeoutMS (plr_Input result) * Millisecond in
      guard (timeout < Millisecond \<or> maximumTimeout_pl < timeout \<or> plr_Input result \<noteq> fixedInput timeout)
        ''input does not match the fixed placeholder policy''),
     validateTerminalShape_pl result,
     (if plr_URL result = '''' then None else validateResultURL (plr_URL result)),
     (case plr_OpenAttempt result of
        None \<Rightarrow> None
      | Some attempt \<Rightarrow> firstErr [
          guard (plr_URL result = '''') ''open attempt requires URL'',
          wrapErr ''invalid browser opener evidence: '' (Validate_open attempt (plr_URL result)),
          guard (opr_Status attempt = StatusCancelled_open \<and> plr_Status result \<noteq> PlCancelled)
            ''cancelled opener requires cancelled placeholder'']),
     (if plr_FallbackNotified result then
        guard (case plr_OpenAttempt result of None \<Rightarrow> True | Some attempt \<Rightarrow> opr_Status attempt \<noteq> StatusFailed_open)
          ''fallback notification requires a failed open attempt''
      else None),
     (case plr_PageRequest result of
        None \<Rightarrow> None
      | Some page \<Rightarrow> (case urlParse (plr_URL result) of
          None \<Rightarrow> Some ''parse result URL''
        | Some parsed \<Rightarrow> guard (page \<noteq> \<lparr>pr_Method = ''GET'', pr_Host = u_Host parsed, pr_Path = pagePath\<rparr>)
            ''page request does not match the exact placeholder URL''))]"

end
