(* ===== verification/BrowserProps.thy ===== *)
theory BrowserProps
  imports BrowserPlaceholder GoUrlProps
begin

text \<open>
  What the browser opener and the placeholder guarantee: the opener launches nothing but canonical
  loopback URLs and its results are valid; every report of the placeholder is valid, except for one reason;
  a completed run has served exactly the request it reports.
\<close>

section \<open>The loopback URL\<close>

definition loopbackHost :: "nat \<Rightarrow> string" where
  "loopbackHost port = ''127.0.0.1:'' @ fmtDec port"

definition loopbackURL :: "nat \<Rightarrow> string" where
  "loopbackURL port = ''http://'' @ loopbackHost port @ ''/''"

lemma loopbackHost_chars: "c \<in> set (loopbackHost port) \<Longrightarrow> isDigit c \<or> c = CHR ''.'' \<or> c = CHR '':''"
  using fmtDec_isDigit by (auto simp: loopbackHost_def isDigit_def)

lemma isDigit_byte: "isDigit c \<longleftrightarrow> 48 \<le> byte c \<and> byte c \<le> 57"
  by (simp add: isDigit_def)

lemma loopbackHost_plain: "c \<in> set (loopbackHost port) \<Longrightarrow> 46 \<le> byte c \<and> byte c \<le> 58 \<and> byte c \<noteq> 47"
  by (auto dest!: loopbackHost_chars simp: isDigit_byte)

lemma loopbackHost_free:
  assumes "byte d < 46 \<or> byte d = 47 \<or> 58 < byte d"
  shows "d \<notin> set (loopbackHost port)"
  using assms loopbackHost_plain [of d port] by auto

lemma parseAuthority_loopback: "parseAuthority (loopbackHost port) = Some (None, loopbackHost port)"
proof -
  have un: "unescape encodeHost (loopbackHost port) = Some (loopbackHost port)"
  proof (rule unescape_id, intro ballI)
    fix c assume "c \<in> set (loopbackHost port)"
    then consider "isDigit c" | "c = CHR ''.''" | "c = CHR '':''" using loopbackHost_chars by blast
    then show "c \<noteq> CHR ''%'' \<and> \<not> shouldEscape c encodeHost"
      by cases (auto simp: isDigit_plain shouldEscape_def hostPunct_def isAlnum_def isDigit_def)
  qed
  have cut: "cutAt (CHR '':'') (loopbackHost port) = (''127.0.0.1'', fmtDec port, True)"
    using cutAt_Some [of "CHR '':''" "''127.0.0.1''" "fmtDec port"] by (simp add: loopbackHost_def)
  have "list_all isDigit (fmtDec port)" using fmtDec_isDigit by (auto simp: list_all_iff)
  then have "parseHost (loopbackHost port) = Some (loopbackHost port)"
    using loopbackHost_free [of "CHR ''[''" port] un cut by (simp add: parseHost_def validOptionalPort_def)
  then show ?thesis
    using loopbackHost_free [of "CHR ''@''" port] by (simp add: parseAuthority_def cutLast_None)
qed

definition loopbackParsed :: "nat \<Rightarrow> url" where
  "loopbackParsed port = emptyURL\<lparr>u_Scheme := ''http'', u_Host := loopbackHost port, u_Path := ''/''\<rparr>"

lemma urlParse_loopback: "urlParse (loopbackURL port) = Some (loopbackParsed port)"
proof -
  let ?h = "loopbackHost port"
  let ?rest = "''//'' @ ?h @ ''/''"
  have ctl: "\<not> list_ex controlByte (loopbackURL port)"
    using loopbackHost_plain [of _ port] by (fastforce simp: loopbackURL_def list_ex_iff controlByte_def)
  have gs: "getScheme (loopbackURL port) = Some (''http'', ?rest)"
    by (simp add: loopbackURL_def getScheme_def isAlnum_def isDigit_def)
  have q: "CHR ''?'' \<notin> set ?rest" using loopbackHost_free [of "CHR ''?''" port] by simp
  have low: "map asciiLower ''http'' = ''http''" by (simp add: asciiLower_def)
  have auth: "takeWhile (\<lambda>c. c \<noteq> CHR ''/'') (drop 2 ?rest) = ?h"
  proof -
    have "\<forall>c \<in> set ?h. c \<noteq> CHR ''/''" using loopbackHost_free [of "CHR ''/''" port] by auto
    then show ?thesis by simp
  qed
  have st: "startsWith ''/'' ?rest" "startsWith ''//'' ?rest" by (simp_all add: startsWith_def)
  have "parseURL False (loopbackURL port) = setPath (emptyURL\<lparr>u_Scheme := ''http'', u_ForceQuery := False, u_RawQuery := '''',
      u_User := None, u_Host := ?h\<rparr>) (drop (2 + length ?h) ?rest)"
    by (rule parseURL_authority [OF ctl _ gs low _ _ _ st auth parseAuthority_loopback])
      (use q in \<open>simp_all add: loopbackURL_def cutAt_None\<close>)
  moreover have "drop (2 + length ?h) ?rest = ''/''" by simp
  moreover have "unescape encodePath ''/'' = Some ''/''" "escape encodePath ''/'' = ''/''"
    using slash_plain by (simp_all add: escape_def)
  moreover have "CHR ''#'' \<notin> set (loopbackURL port)" using loopbackHost_free [of "CHR ''#''" port] by (simp add: loopbackURL_def)
  ultimately show ?thesis
    by (simp add: urlParse_def cutAt_None setPath_def loopbackParsed_def emptyURL_def)
qed

lemma loopback_split: "splitHostPort (loopbackHost port) = (''127.0.0.1'', fmtDec port)"
proof -
  have "cutLast (CHR '':'') (loopbackHost port) = Some (''127.0.0.1'', fmtDec port)"
    using cutLast_Some [of "CHR '':''" "fmtDec port" "''127.0.0.1''"] fmtDec_no_colon by (auto simp: loopbackHost_def)
  moreover have "list_all isDigit (fmtDec port)" using fmtDec_isDigit by (auto simp: list_all_iff)
  ultimately show ?thesis by (simp add: splitHostPort_def validOptionalPort_def)
qed

lemma Atoi_fmtDec: "port \<le> 65535 \<Longrightarrow> Atoi (fmtDec port) = Some (int port)"
proof -
  assume p: "port \<le> 65535"
  obtain c s where c: "fmtDec port = c # s" by (cases "fmtDec port") auto
  then have "isDigit c" using fmtDec_isDigit [of c port] by simp
  then have "c \<noteq> CHR ''-''" "c \<noteq> CHR ''+''" by (auto simp: isDigit_def)
  then show ?thesis using c p readBase_fmtBase [of 10 port] by (simp add: Atoi_def)
qed

lemma loopbackParsed_sel:
  "u_Scheme (loopbackParsed port) = ''http''" "u_Opaque (loopbackParsed port) = ''''" "u_User (loopbackParsed port) = None"
  "u_Host (loopbackParsed port) = loopbackHost port" "u_Path (loopbackParsed port) = ''/''"
  "u_RawQuery (loopbackParsed port) = ''''" "u_Fragment (loopbackParsed port) = ''''"
  "Hostname (loopbackParsed port) = ''127.0.0.1''" "urlPort (loopbackParsed port) = fmtDec port"
  by (simp_all add: Hostname_def urlPort_def loopback_split loopbackParsed_def emptyURL_def)

lemma JoinHostPort_loopback: "JoinHostPort ''127.0.0.1'' (fmtDec port) = loopbackHost port"
  by (simp add: JoinHostPort_def loopbackHost_def)

lemma validateLoopbackURL_ok: "0 < port \<Longrightarrow> port \<le> 65535 \<Longrightarrow> validateLoopbackURL (loopbackURL port) = None"
proof -
  assume p: "0 < port" "port \<le> 65535"
  have "\<not> ContainsAny (loopbackURL port) [CHR 0x00, CHR 0x0D, CHR 0x0A]"
    using loopbackHost_plain [of _ port] by (fastforce simp: ContainsAny_def list_ex_iff loopbackURL_def)
  then show ?thesis
    using p by (simp add: validateLoopbackURL_def urlParse_loopback Atoi_fmtDec Let_def firstErr_simps loopbackParsed_sel
        Itoa_def JoinHostPort_loopback)
qed

lemma validateResultURL_ok: "0 < port \<Longrightarrow> port \<le> 65535 \<Longrightarrow> validateResultURL (loopbackURL port) = None"
  by (simp add: validateResultURL_def urlParse_loopback Atoi_fmtDec Let_def guard_def loopbackParsed_sel
        Itoa_def JoinHostPort_loopback pagePath_def)

lemma listenerURL_ok:
  assumes "listenerURL address = Inr (rawURL, host)"
  obtains port where "0 < port" "port \<le> 65535" "rawURL = loopbackURL port" "host = loopbackHost port"
proof (rule that [of "nat (la_Port address)"])
qed (use assms in \<open>auto simp: listenerURL_def Let_def Itoa_def JoinHostPort_def loopbackURL_def loopbackHost_def pagePath_def split: if_splits\<close>)

section \<open>The opener\<close>

definition opener_ok :: "Opener \<Rightarrow> bool" where
  "opener_ok ob \<longleftrightarrow> TrimSpace (on_backend ob) \<noteq> '''' \<and> (\<forall>url e. on_launch ob url = Some e \<longrightarrow> TrimSpace (lau_text e) \<noteq> '''')"

lemma ctxText_shown: "TrimSpace (ctxText e) \<noteq> ''''"
  by (cases e) (simp_all add: TrimSpace_graph isGraph_def)

lemma validateLoopbackURL_text: "validateLoopbackURL url = Some m \<Longrightarrow> TrimSpace m \<noteq> ''''"
  by (auto simp: validateLoopbackURL_def firstErr.simps guard_def TrimSpace_graph isGraph_def Let_def split: if_splits option.splits)

lemma contextResult_valid:
  assumes "TrimSpace (on_backend ob) \<noteq> ''''" "validateLoopbackURL url = None"
  shows "Validate_open (contextResult ob url (ctxGoErr e)) url = None \<and>
    (opr_Status (contextResult ob url (ctxGoErr e)) = StatusCancelled_open \<longleftrightarrow> e = Canceled)"
  using assms ctxText_shown [of e]
  by (cases e) (simp_all add: contextResult_def errorsIs_def failed_open_def cancelled_open_def Validate_open_def firstErr_simps Let_def guard_def)

lemma Open_valid_lemma:
  assumes "opener_ok ob"
  shows "Validate_open (Open ob ctx k url) url = None"
proof (cases "validateLoopbackURL url")
  case (Some m)
  with assms validateLoopbackURL_text [OF Some] show ?thesis
    by (simp add: Open_def failed_open_def Validate_open_def firstErr_simps opener_ok_def guard_def Let_def)
next
  case None
  note cr = contextResult_valid [OF _ None, of ob]
  have b: "TrimSpace (on_backend ob) \<noteq> ''''" using assms by (simp add: opener_ok_def)
  show ?thesis
  proof (cases "ctx k = None \<and> ctx (k + 1) = None")
    case False
    then show ?thesis using None cr [OF b]
      by (cases "ctx k"; cases "ctx (k + 1)") (auto simp: Open_def ctxErrAt_def Let_def)
  next
    case live: True
    show ?thesis
    proof (cases "on_launch ob url")
      case (Some e)
      then have "TrimSpace (lau_text e) \<noteq> ''''" using assms by (auto simp: opener_ok_def)
      with b None Some live show ?thesis
        by (simp add: Open_def ctxErrAt_def failed_open_def Validate_open_def firstErr_simps guard_def classifyLaunchFailure_def Let_def)
    next
      case n: None
      with b None live cr [OF b] show ?thesis
        by (cases "ctx (k + 2)") (simp_all add: Open_def ctxErrAt_def Validate_open_def firstErr_simps guard_def Let_def)
    qed
  qed
qed

lemma Open_cancelled:
  assumes "opr_Status (Open ob ctx k url) = StatusCancelled_open"
  shows "\<exists>j \<in> {k, k + 1, k + 2}. ctx j = Some Canceled"
proof (cases "validateLoopbackURL url")
  case (Some m)
  with assms show ?thesis by (simp add: Open_def failed_open_def)
next
  case None
  have cr: "opr_Status (contextResult ob url (ctxGoErr e)) = StatusCancelled_open \<longleftrightarrow> e = Canceled" for e
    by (cases e) (simp_all add: contextResult_def errorsIs_def failed_open_def cancelled_open_def)
  show ?thesis
    using assms None cr
    by (cases "ctx k"; cases "ctx (k + 1)"; cases "on_launch ob url"; cases "ctx (k + 2)")
      (auto simp: Open_def ctxErrAt_def failed_open_def Let_def)
qed

text \<open>The launch is never asked for anything but a canonical loopback URL.\<close>

lemma Open_launches_loopback:
  "(\<And>url. validateLoopbackURL url = None \<Longrightarrow> on_launch ob url = on_launch ob' url) \<Longrightarrow> on_backend ob = on_backend ob' \<Longrightarrow>
   Open ob ctx k url = Open ob' ctx k url"
proof -
  assume l: "\<And>url. validateLoopbackURL url = None \<Longrightarrow> on_launch ob url = on_launch ob' url" and b: "on_backend ob = on_backend ob'"
  have f: "failed_open ob u c d = failed_open ob' u c d" and c: "contextResult ob u e = contextResult ob' u e" for u c d e
    using b by (simp_all add: failed_open_def contextResult_def cancelled_open_def)
  show ?thesis
  proof (cases "validateLoopbackURL url")
    case None
    show ?thesis unfolding Open_def l [OF None] b f c ..
  qed (simp add: Open_def f)
qed

section \<open>Contexts\<close>

lemma withTimeout_cancelled: "withTimeout p f n = Some Canceled \<Longrightarrow> \<exists>m \<le> n. p m = Some Canceled"
proof (induction n)
  case 0
  then show ?case by (auto split: option.splits if_splits)
next
  case (Suc n)
  then show ?case by (cases "withTimeout p f n") (auto split: option.splits if_splits intro: le_SucI)
qed

lemma contextTerminal_cases:
  assumes "go_context c"
  obtains "contextTerminal c k = None" "c k = None" "c (k + 1) \<noteq> Some DeadlineExceeded"
  | "contextTerminal c k = Some \<lparr>ptm_status = PlCancelled, ptm_reason = StopCancelled_pl, ptm_detail = ctxText Canceled\<rparr>"
      "c k = Some Canceled"
  | "contextTerminal c k = Some \<lparr>ptm_status = PlStopped, ptm_reason = StopPlaceholderTimeout, ptm_detail = ctxText DeadlineExceeded\<rparr>"
      "c k \<noteq> Some Canceled" "c (k + 1) = Some DeadlineExceeded"
proof (cases "c k = Some Canceled")
  case True
  moreover have "c (k + 1) = Some Canceled" using go_context.err_stable [OF assms True, of "k + 1"] by simp
  then have "contextText (ctxErrAt c (k + 1)) = ctxText Canceled" by (simp add: contextText_def ctxErrAt_def)
  ultimately show ?thesis by (intro that(2)) (simp_all add: contextTerminal_def)
next
  case n: False
  show ?thesis
  proof (cases "c (k + 1) = Some DeadlineExceeded")
    case True
    moreover have "c (k + 2) = Some DeadlineExceeded" using go_context.err_stable [OF assms True, of "k + 2"] by simp
    then have "contextText (ctxErrAt c (k + 2)) = ctxText DeadlineExceeded" by (simp add: contextText_def ctxErrAt_def)
    ultimately show ?thesis using n by (intro that(3)) (simp_all add: contextTerminal_def)
  next
    case False
    moreover have "c k = None"
    proof (cases "c k")
      case (Some e)
      with n have "c k = Some DeadlineExceeded" by (cases e) simp_all
      then have "c (k + 1) = Some DeadlineExceeded" using go_context.err_stable [OF assms, of k _ "k + 1"] by simp
      with False show ?thesis by simp
    qed
    ultimately show ?thesis using n by (intro that(1)) (simp_all add: contextTerminal_def)
  qed
qed

section \<open>Reports\<close>

definition pl_env_ok :: "PlWorld \<Rightarrow> Runner \<Rightarrow> bool" where
  "pl_env_ok w r \<longleftrightarrow> clock_ok (plw_now w) \<and> go_context (plw_ctx w) \<and> plat_os (run_platform r) \<noteq> '''' \<and> plat_arch (run_platform r) \<noteq> '''' \<and>
     (\<exists>timeout0. normalizeTimeout_pl timeout0 = Inr (run_timeout r)) \<and>
     (\<forall>err. plw_serveFirst w = Some (Some err) \<longrightarrow> TrimSpace err \<noteq> '''') \<and>
     (\<forall>err. plw_serveSecond w = Some (Some err) \<longrightarrow> TrimSpace err \<noteq> '''') \<and>
     (\<forall>closed err. plw_event w = ServeStopped closed err \<longrightarrow> TrimSpace err \<noteq> '''') \<and>
     (plw_event w = ContextDone \<longrightarrow> withTimeout (plw_ctx w) (plw_fired w (run_timeout r)) 50 \<noteq> None)"

text \<open>The fixed fields of a report pass; what is left is its shape.\<close>

definition shape_errs :: "PlResult \<Rightarrow> error option" where
  "shape_errs result = firstErr [
     validateTerminalShape_pl result,
     (if plr_URL result = '''' then None else validateResultURL (plr_URL result)),
     (case plr_OpenAttempt result of
        None \<Rightarrow> None
      | Some attempt \<Rightarrow> firstErr [
          guard (plr_URL result = '''') ''open attempt requires URL'',
          wrapErr ''invalid browser opener evidence: '' (Validate_open attempt (plr_URL result)),
          guard (opr_Status attempt = StatusCancelled_open \<and> plr_Status result \<noteq> PlCancelled)
            ''cancelled opener requires cancelled placeholder'']),
     (if plr_FallbackNotified result then
        guard (case plr_OpenAttempt result of None \<Rightarrow> True | Some attempt \<Rightarrow> opr_Status attempt \<noteq> StatusFailed_open)
          ''fallback notification requires a failed open attempt''
      else None),
     (case plr_PageRequest result of
        None \<Rightarrow> None
      | Some page \<Rightarrow> (case urlParse (plr_URL result) of
          None \<Rightarrow> Some ''parse result URL''
        | Some parsed \<Rightarrow> guard (page \<noteq> \<lparr>pr_Method = ''GET'', pr_Host = u_Host parsed, pr_Path = pagePath\<rparr>)
            ''page request does not match the exact placeholder URL''))]"

lemma fixedInput_rounded:
  assumes "normalizeTimeout_pl timeout0 = Inr t"
  shows "fixedInput (Milliseconds t * Millisecond) = fixedInput t" "1 \<le> Milliseconds t"
    "Milliseconds t \<le> Milliseconds maximumTimeout_pl" "Millisecond \<le> Milliseconds t * Millisecond"
    "Milliseconds t * Millisecond \<le> maximumTimeout_pl"
proof -
  have t: "Millisecond \<le> t" "t \<le> maximumTimeout_pl"
    using assms by (auto simp: normalizeTimeout_pl_def defaultTimeout_pl_def maximumTimeout_pl_def  split: if_splits)
  have m: "Milliseconds t = t div 1000000" using t by (simp add: Milliseconds_def)
  show "1 \<le> Milliseconds t" "Milliseconds t \<le> Milliseconds maximumTimeout_pl"
    "Millisecond \<le> Milliseconds t * Millisecond" "Milliseconds t * Millisecond \<le> maximumTimeout_pl"
    using t unfolding m by (simp_all add: Milliseconds_def maximumTimeout_pl_def)
  show "fixedInput (Milliseconds t * Millisecond) = fixedInput t"
    using t unfolding m
    by (auto simp: fixedInput_def Milliseconds_def browserOpenTimeout_def min_def)
qed

lemma finish_sel [simp]:
  "plr_URL (finish_pl w r url attempt notified page st) = url" "plr_OpenAttempt (finish_pl w r url attempt notified page st) = attempt"
  "plr_FallbackNotified (finish_pl w r url attempt notified page st) = notified"
  "plr_PageRequest (finish_pl w r url attempt notified page st) = page"
  "plr_Status (finish_pl w r url attempt notified page st) = ptm_status st"
  "plr_StopReason (finish_pl w r url attempt notified page st) = ptm_reason st"
  "plr_Detail (finish_pl w r url attempt notified page st) = ptm_detail st"
  "plr_Completion (finish_pl w r url attempt notified page st) =
     (if ptm_status st = PlCompleted then CompletionPageRequested else CompletionOther '''')"
  by (simp_all add: finish_pl_def Let_def)

lemma Validate_finish:
  assumes "pl_env_ok w r"
  shows "Validate_pl (finish_pl w r url attempt notified page st) = shape_errs (finish_pl w r url attempt notified page st)"
proof -
  obtain timeout0 where t: "normalizeTimeout_pl timeout0 = Inr (run_timeout r)" using assms by (auto simp: pl_env_ok_def)
  have zero: "\<not> IsZero (plw_now w 1)" using assms clock_nonzero [of "plw_now w" 1] by (simp add: pl_env_ok_def)
  let ?f = "finish_pl w r url attempt notified page st"
  have "plr_SchemaVersion ?f = SchemaVersion_pl" "plr_Operation ?f = Operation_pl" "\<not> IsZero (plr_ObservedAt ?f)"
    "t_zone (plr_ObservedAt ?f) = 0" "0 \<le> plr_DurationMS ?f" "plr_Platform ?f = run_platform r"
    "plr_Input ?f = fixedInput (run_timeout r)"
    using zero by (simp_all add: finish_pl_def Let_def)
  moreover have "pin_TimeoutMS (fixedInput (run_timeout r)) = Milliseconds (run_timeout r)" by (simp add: fixedInput_def)
  ultimately show ?thesis
    using assms fixedInput_rounded [OF t] unfolding Validate_pl_def shape_errs_def
    by (simp add: pl_env_ok_def firstErr.simps guard_def)
qed

text \<open>Reports without an address, and reports with one.\<close>

lemma shape_bare:
  "reason \<in> {StopListenerFailure, StopInvalidFallbackNotifier} \<Longrightarrow> TrimSpace detail \<noteq> '''' \<Longrightarrow>
   shape_errs (finish_pl w r '''' None False None (stopped_pl reason detail)) = None"
  by (auto simp: shape_errs_def stopped_pl_def validateTerminalShape_pl_def firstErr_simps guard_def Let_def)

definition attempt_ok :: "nat \<Rightarrow> OpenResult \<Rightarrow> bool" where
  "attempt_ok port attempt \<longleftrightarrow> Validate_open attempt (loopbackURL port) = None"

lemma loopbackURL_ne: "loopbackURL port \<noteq> ''''"
  by (simp add: loopbackURL_def)

lemma shape_stopped:
  assumes "0 < port" "port \<le> 65535" "TrimSpace detail \<noteq> ''''"
  shows "shape_errs (finish_pl w r (loopbackURL port) None False None (stopped_pl StopInvalidOpenerEvidence detail)) = None"
    and "shape_errs (finish_pl w r (loopbackURL port) None False None (stopped_pl StopServerFailure detail)) = None"
  using assms loopbackURL_ne validateResultURL_ok
  by (simp_all add: shape_errs_def stopped_pl_def validateTerminalShape_pl_def firstErr_simps guard_def Let_def)

lemma shape_attempt:
  assumes p: "0 < port" "port \<le> 65535" and a: "attempt_ok port attempt"
    and n: "notified \<longrightarrow> opr_Status attempt = StatusFailed_open"
    and c: "opr_Status attempt = StatusCancelled_open \<longrightarrow> ptm_status st = PlCancelled"
    and s: "(ptm_status st = PlCancelled \<and> ptm_reason st = StopCancelled_pl) \<or>
      (ptm_status st = PlStopped \<and> ptm_reason st \<in> {StopPlaceholderTimeout, StopServerFailure}) \<or>
      (ptm_status st = PlStopped \<and> ptm_reason st = StopFallbackNotificationFailure \<and> opr_Status attempt = StatusFailed_open \<and> \<not> notified)"
    and d: "TrimSpace (ptm_detail st) \<noteq> ''''"
  shows "shape_errs (finish_pl w r (loopbackURL port) (Some attempt) notified None st) = None"
proof -
  have "validateTerminalShape_pl (finish_pl w r (loopbackURL port) (Some attempt) notified None st) = None"
    using s d loopbackURL_ne by (cases st) (auto simp: validateTerminalShape_pl_def guard_def Let_def)
  then show ?thesis
    using p a n c loopbackURL_ne validateResultURL_ok
    by (auto simp: shape_errs_def attempt_ok_def firstErr_simps guard_def)
qed

lemma shape_completed:
  assumes p: "0 < port" "port \<le> 65535" and a: "attempt_ok port attempt"
    and n: "notified \<longleftrightarrow> opr_Status attempt = StatusFailed_open" and c: "opr_Status attempt \<noteq> StatusCancelled_open"
    and page: "page = \<lparr>pr_Method = ''GET'', pr_Host = loopbackHost port, pr_Path = ''/''\<rparr>"
  shows "shape_errs (finish_pl w r (loopbackURL port) (Some attempt) notified (Some page)
      \<lparr>ptm_status = PlCompleted, ptm_reason = PlStopOther '''', ptm_detail = ''''\<rparr>) = None"
  using assms loopbackURL_ne validateResultURL_ok
  by (auto simp: shape_errs_def attempt_ok_def firstErr_simps guard_def validateTerminalShape_pl_def Let_def urlParse_loopback
      loopbackParsed_sel pagePath_def)

section \<open>The page\<close>

lemma handler_sends:
  assumes "placeholderHandler host complete request written = (response, sent, complete')"
  shows "sent = Some page \<Longrightarrow> \<not> complete \<and> complete' \<and> written \<and> request = \<lparr>hq_Method = ''GET'', hq_Host = host, hq_Path = pagePath, hq_RawQuery = ''''\<rparr> \<and>
      page = \<lparr>pr_Method = ''GET'', pr_Host = host, pr_Path = pagePath\<rparr>"
    and "complete \<Longrightarrow> complete' \<and> sent = None"
    and "hp_Status response = 200 \<Longrightarrow> request = \<lparr>hq_Method = ''GET'', hq_Host = host, hq_Path = pagePath, hq_RawQuery = ''''\<rparr>"
  using assms by (auto simp: placeholderHandler_def httpError_def Let_def split: if_splits)

lemma serveRequests_done: "snd (serveRequests host True requests) = []"
proof (induction requests)
  case (Cons q requests)
  obtain request written where q: "q = (request, written)" by fastforce
  obtain response sent complete' where h: "placeholderHandler host True request written = (response, sent, complete')"
    using prod_cases3 by blast
  with handler_sends(2) [OF h] have "complete'" "sent = None" by simp_all
  with q h Cons show ?case by (cases "serveRequests host True requests") simp
qed simp

text \<open>At most one request is reported: the first good one.\<close>

lemma serveRequests_one:
  "snd (serveRequests host False requests) =
     (if \<exists>q \<in> set requests. q = (\<lparr>hq_Method = ''GET'', hq_Host = host, hq_Path = pagePath, hq_RawQuery = ''''\<rparr>, True)
      then [\<lparr>pr_Method = ''GET'', pr_Host = host, pr_Path = pagePath\<rparr>] else [])"
proof (induction requests)
  case (Cons q requests)
  obtain request written where q: "q = (request, written)" by fastforce
  let ?good = "\<lparr>hq_Method = ''GET'', hq_Host = host, hq_Path = pagePath, hq_RawQuery = ''''\<rparr>"
  show ?case
  proof (cases "request = ?good \<and> written")
    case True
    obtain response where "placeholderHandler host False request written =
        (response, Some \<lparr>pr_Method = ''GET'', pr_Host = host, pr_Path = pagePath\<rparr>, True)"
      using True by (simp add: placeholderHandler_def Let_def)
    with True q serveRequests_done [of host requests] show ?thesis
      by (cases "serveRequests host True requests") simp
  next
    case False
    have "\<exists>response. placeholderHandler host False request written = (response, None, False)"
      using False by (cases request) (auto simp: placeholderHandler_def Let_def)
    then obtain response where "placeholderHandler host False request written = (response, None, False)" ..
    with False q Cons show ?thesis by (auto split: prod.split)
  qed
qed simp

section \<open>A run over an opener\<close>

text \<open>What the placeholder relies on: valid results, and a cancellation only on a cancelled context.\<close>

locale browser_opener =
  fixes op :: "ctx \<Rightarrow> nat \<Rightarrow> string \<Rightarrow> OpenResult"
  assumes op_valid: "Validate_open (op c k url) url = None"
    and op_cancelled: "opr_Status (op c k url) = StatusCancelled_open \<Longrightarrow> \<exists>j \<in> {k, k + 1, k + 2}. c j = Some Canceled"
begin

lemma cancelled_run:
  assumes "opr_Status (op (withTimeout (withTimeout p f) g) 10 url) = StatusCancelled_open"
  shows "contextTerminal (withTimeout p f) 20 = Some \<lparr>ptm_status = PlCancelled, ptm_reason = StopCancelled_pl, ptm_detail = ctxText Canceled\<rparr>"
proof -
  obtain j where "j \<in> {10, 10 + 1, 10 + 2}" and j2: "withTimeout (withTimeout p f) g j = Some Canceled"
    using op_cancelled [OF assms] by blast
  then have j: "j \<le> 12" by auto
  then obtain m where m: "m \<le> j" "withTimeout p f m = Some Canceled" using withTimeout_cancelled [OF j2] by blast
  then have "withTimeout p f 20 = Some Canceled" using withTimeout_stable [OF m(2), of 20] j by simp
  with timeout_ctx.go_context_axioms [of p f] show ?thesis by (cases rule: contextTerminal_cases [where k = 20]) simp_all
qed

lemma awaitPage_valid:
  assumes env: "pl_env_ok w r" and p: "0 < port" "port \<le> 65535" and a: "attempt_ok port attempt"
    and n: "notified \<longleftrightarrow> opr_Status attempt = StatusFailed_open" and c: "opr_Status attempt \<noteq> StatusCancelled_open"
    and run: "runContext = withTimeout (plw_ctx w) (plw_fired w (run_timeout r))"
  shows "Validate_pl (awaitPage w r runContext (loopbackURL port) (loopbackHost port) attempt notified) = None"
proof -
  note V = Validate_finish [OF env]
  have ctx: "go_context runContext" unfolding run by (rule timeout_ctx.go_context_axioms)
  have term_ok: "shape_errs (finish_pl w r (loopbackURL port) (Some attempt) notified None st) = None"
    if st: "contextTerminal runContext k = Some st" for k st
    using ctx
  proof (cases rule: contextTerminal_cases [where k = k])
    case 2
    with st have "st = \<lparr>ptm_status = PlCancelled, ptm_reason = StopCancelled_pl, ptm_detail = ctxText Canceled\<rparr>" by simp
    then show ?thesis using n c ctxText_shown [of Canceled] by (intro shape_attempt [OF p a]) simp_all
  next
    case 3
    with st have "st = \<lparr>ptm_status = PlStopped, ptm_reason = StopPlaceholderTimeout, ptm_detail = ctxText DeadlineExceeded\<rparr>" by simp
    then show ?thesis using n c ctxText_shown [of DeadlineExceeded] by (intro shape_attempt [OF p a]) simp_all
  qed (use st in simp)
  have serve: "shape_errs (finish_pl w r (loopbackURL port) (Some attempt) notified None (stopped_pl StopServerFailure d)) = None"
    if "TrimSpace d \<noteq> ''''" for d
    using that n c by (intro shape_attempt [OF p a]) (simp_all add: stopped_pl_def)
  let ?pages = "snd (serveRequests (loopbackHost port) False (plw_requests w))"
  show ?thesis
  proof (cases "plw_takePage w \<and> ?pages \<noteq> []")
    case True
    then have "hd ?pages = \<lparr>pr_Method = ''GET'', pr_Host = loopbackHost port, pr_Path = ''/''\<rparr>"
      by (auto simp: serveRequests_one pagePath_def split: if_splits)
    from shape_completed [OF p a n c this] term_ok True show ?thesis
      by (cases "contextTerminal runContext 30"; cases "contextTerminal runContext 40") (simp_all add: awaitPage_def V Let_def)
  next
    case no: False
    show ?thesis
    proof (cases "plw_event w")
      case (ServeStopped closed err)
      have "TrimSpace ''placeholder server closed before a valid page request'' \<noteq> ''''"
        by (simp add: TrimSpace_graph isGraph_def)
      moreover have "TrimSpace err \<noteq> ''''" using env ServeStopped by (simp add: pl_env_ok_def)
      ultimately show ?thesis using no ServeStopped serve by (auto simp: awaitPage_def V Let_def)
    next
      case ContextDone
      then have "runContext 50 \<noteq> None" using env run by (simp add: pl_env_ok_def)
      then obtain st where "contextTerminal runContext 50 = Some st"
        using contextTerminal_cases [OF ctx, of 50] by (metis option.exhaust)
      with no ContextDone term_ok show ?thesis by (auto simp: awaitPage_def V Let_def)
    qed
  qed
qed

end

text \<open>The one report that fails: the context of the caller was past its deadline before anything was done.\<close>

definition lateStart :: "PlWorld \<Rightarrow> bool" where
  "lateStart w \<longleftrightarrow> plw_notify w \<noteq> None \<and> plw_ctx w 0 \<noteq> Some Canceled \<and> plw_ctx w 1 = Some DeadlineExceeded"

context browser_opener
begin

lemma afterOpen_valid:
  assumes env: "pl_env_ok w r" and p: "0 < port" "port \<le> 65535" and a: "attempt_ok port attempt"
    and run: "runContext = withTimeout (plw_ctx w) (plw_fired w (run_timeout r))"
    and op: "opr_Status attempt = StatusCancelled_open \<Longrightarrow> contextTerminal runContext 20 =
      Some \<lparr>ptm_status = PlCancelled, ptm_reason = StopCancelled_pl, ptm_detail = ctxText Canceled\<rparr>"
  shows "Validate_pl (afterOpen w r notify runContext (loopbackURL port) (loopbackHost port) attempt) = None"
proof -
  note V = Validate_finish [OF env]
  have ctx: "go_context runContext" unfolding run by (rule timeout_ctx.go_context_axioms)
  show ?thesis
  proof (cases "contextTerminal runContext 20")
    case (Some st)
    have "shape_errs (finish_pl w r (loopbackURL port) (Some attempt) False None st) = None"
      using ctx
    proof (cases rule: contextTerminal_cases [where k = 20])
      case 2
      with Some ctxText_shown [of Canceled] show ?thesis by (intro shape_attempt [OF p a]) auto
    next
      case 3
      with Some op ctxText_shown [of DeadlineExceeded] show ?thesis by (intro shape_attempt [OF p a]) auto
    qed (use Some in simp)
    with Some show ?thesis by (simp add: afterOpen_def V)
  next
    case live: None
    with op have nc: "opr_Status attempt \<noteq> StatusCancelled_open" by auto
    show ?thesis
    proof (cases "immediateServeFailure (plw_serveSecond w)")
      case (Some err)
      have "TrimSpace ''placeholder server stopped without an error'' \<noteq> ''''" by (simp add: TrimSpace_graph isGraph_def)
      then have "TrimSpace err \<noteq> ''''" using Some env by (auto simp: immediateServeFailure_def pl_env_ok_def split: option.splits)
      then have "shape_errs (finish_pl w r (loopbackURL port) (Some attempt) False None (stopped_pl StopServerFailure err)) = None"
        using nc by (intro shape_attempt [OF p a]) (simp_all add: stopped_pl_def)
      with live nc Some show ?thesis by (simp add: afterOpen_def V)
    next
      case ok: None
      have await: "Validate_pl (awaitPage w r runContext (loopbackURL port) (loopbackHost port) attempt notified) = None"
        if "notified \<longleftrightarrow> opr_Status attempt = StatusFailed_open" for notified
        by (rule awaitPage_valid [OF env p a that nc run])
      have failure: "opr_Failure attempt \<noteq> None" if "opr_Status attempt = StatusFailed_open"
        using that a by (auto simp: attempt_ok_def Validate_open_def firstErr_simps split: option.splits)
      show ?thesis
      proof (cases "opr_Status attempt = StatusFailed_open")
        case False
        then have "(case (opr_Status attempt, opr_Failure attempt) of (StatusFailed_open, Some failure) \<Rightarrow> f failure | _ \<Rightarrow> g) = g" for f and g :: PlResult
          by (cases "opr_Status attempt") simp_all
        with live ok nc await [of False] False show ?thesis by (simp add: afterOpen_def)
      next
        case True
        then obtain failure where f: "opr_Failure attempt = Some failure" using failure by auto
        show ?thesis
        proof (cases "notify \<lparr>fb_URL = loopbackURL port, fb_Failure = failure\<rparr>")
          case None
          with live ok nc True f await [of True] show ?thesis by (simp add: afterOpen_def)
        next
          case (Some err)
          have "\<not> blank (''display browser fallback: '' @ err)" using not_blank_graph [of "CHR ''d''"] by (simp add: isGraph_def)
          then have "shape_errs (finish_pl w r (loopbackURL port) (Some attempt) False None
              (stopped_pl StopFallbackNotificationFailure (''display browser fallback: '' @ err))) = None"
            using True by (intro shape_attempt [OF p a]) (simp_all add: stopped_pl_def blank_def)
          with Some live ok nc True f show ?thesis by (simp add: afterOpen_def V)
        qed
      qed
    qed
  qed
qed

lemma Run_exact:
  assumes env: "pl_env_ok w r" and op: "run_open r = op"
  shows "Validate_pl (Run w r) = guard (lateStart w) ''reason requires URL and opener evidence''"
proof (cases "plw_notify w")
  case None
  have "TrimSpace ''fallback notifier must not be nil'' \<noteq> ''''" by (simp add: TrimSpace_graph isGraph_def)
  with None show ?thesis by (simp add: Run_def Validate_finish [OF env] shape_bare lateStart_def guard_def)
next
  case notify: (Some notify)
  note V = Validate_finish [OF env]
  have ctx: "go_context (plw_ctx w)" using env by (simp add: pl_env_ok_def)
  have cancelled: "TrimSpace (ctxText Canceled) \<noteq> ''''" by (rule ctxText_shown)
  show ?thesis
    using ctx
  proof (cases rule: contextTerminal_cases [where k = 0])
    case 2
    then have "\<not> lateStart w" by (simp add: lateStart_def)
    with 2 notify ctxText_shown [of Canceled] show ?thesis
      by (simp add: Run_def V shape_errs_def validateTerminalShape_pl_def firstErr_simps guard_def)
  next
    case 3
    then have "lateStart w" using notify by (simp add: lateStart_def)
    with 3 notify ctxText_shown [of DeadlineExceeded] show ?thesis
      by (simp add: Run_def V shape_errs_def validateTerminalShape_pl_def firstErr.simps guard_def Let_def)
  next
    case live: 1
    then have nl: "\<not> lateStart w" by (simp add: lateStart_def)
    show ?thesis
    proof (cases "plw_listen w")
      case (Inl err)
      have "\<not> blank (''listen on tcp4/127.0.0.1:0: '' @ err)" using not_blank_graph [of "CHR ''l''"] by (simp add: isGraph_def)
      with Inl live notify nl show ?thesis by (simp add: Run_def V shape_bare guard_def blank_def)
    next
      case (Inr address)
      show ?thesis
      proof (cases "listenerURL address")
        case (Inl err)
        then have "err = ''listener returned an invalid TCP address''" by (auto simp: listenerURL_def Let_def split: if_splits)
        moreover have "TrimSpace ''listener returned an invalid TCP address'' \<noteq> ''''" by (simp add: TrimSpace_graph isGraph_def)
        ultimately show ?thesis using Inl Inr live notify nl by (simp add: Run_def V shape_bare guard_def)
      next
        case url: (Inr uh)
        obtain port where p: "0 < port" "port \<le> 65535" "uh = (loopbackURL port, loopbackHost port)"
          using listenerURL_ok [of address "fst uh" "snd uh"] url by (metis prod.collapse)
        show ?thesis
        proof (cases "immediateServeFailure (plw_serveFirst w)")
          case (Some err)
          have "TrimSpace ''placeholder server stopped without an error'' \<noteq> ''''" by (simp add: TrimSpace_graph isGraph_def)
          then have "TrimSpace err \<noteq> ''''" using Some env by (auto simp: immediateServeFailure_def pl_env_ok_def split: option.splits)
          with Some Inr url p live notify nl show ?thesis by (simp add: Run_def V shape_stopped guard_def)
        next
          case None
          let ?run = "withTimeout (plw_ctx w) (plw_fired w (run_timeout r))"
          let ?open = "withTimeout ?run (plw_openFired w (min (run_timeout r) browserOpenTimeout))"
          let ?attempt = "op ?open 10 (loopbackURL port)"
          have "Validate_pl (afterOpen w r notify ?run (loopbackURL port) (loopbackHost port) ?attempt) = None"
            by (rule afterOpen_valid [OF env p(1,2) _ refl]) (simp_all add: attempt_ok_def op_valid cancelled_run)
          with None Inr url p live notify nl op op_valid show ?thesis by (simp add: Run_def guard_def Let_def)
        qed
      qed
    qed
  qed
qed

end

text \<open>The opener of the program meets the contract; where no browser can be opened, without any condition.\<close>

lemma Open_contract: "opener_ok ob \<Longrightarrow> browser_opener (Open ob)"
  by unfold_locales (simp_all only: Open_valid_lemma Open_cancelled)

definition unsupportedOpener :: "string \<Rightarrow> Opener" where
  "unsupportedOpener os = \<lparr>on_backend = platformBackend_other, on_launch = launchPlatform_other os\<rparr>"

lemma unsupportedOpener_ok: "opener_ok (unsupportedOpener os)"
proof -
  have "\<not> blank (''browser opening is unsupported on this platform'' @ x)" for x
    using not_blank_graph [of "CHR ''b''"] by (simp add: isGraph_def)
  then show ?thesis
    by (simp add: opener_ok_def unsupportedOpener_def platformBackend_other_def launchPlatform_other_def TrimSpace_graph isGraph_def blank_def)
qed

interpretation unsupported: browser_opener "Open (unsupportedOpener os)" for os
  by (rule Open_contract) (rule unsupportedOpener_ok)

section \<open>What a completed run has seen\<close>

lemma contextTerminal_status: "contextTerminal c k = Some st \<Longrightarrow> ptm_status st \<noteq> PlCompleted"
  by (auto simp: contextTerminal_def split: if_splits)

lemma awaitPage_completed:
  assumes "plr_Status (awaitPage w r runContext url host attempt notified) = PlCompleted"
  shows "contextTerminal runContext 30 = None \<and> contextTerminal runContext 40 = None \<and>
    (\<lparr>hq_Method = ''GET'', hq_Host = host, hq_Path = pagePath, hq_RawQuery = ''''\<rparr>, True) \<in> set (plw_requests w) \<and>
    awaitPage w r runContext url host attempt notified = finish_pl w r url (Some attempt) notified
      (Some \<lparr>pr_Method = ''GET'', pr_Host = host, pr_Path = pagePath\<rparr>)
      \<lparr>ptm_status = PlCompleted, ptm_reason = PlStopOther '''', ptm_detail = ''''\<rparr>"
proof (cases "plw_takePage w \<and> snd (serveRequests host False (plw_requests w)) \<noteq> []")
  case True
  with assms show ?thesis
    by (auto simp: awaitPage_def Let_def serveRequests_one dest: contextTerminal_status split: option.splits if_splits)
next
  case False
  have "ptm_status (case contextTerminal runContext 50 of None \<Rightarrow> noTerminal | Some state \<Rightarrow> state) \<noteq> PlCompleted"
    by (auto simp: noTerminal_def dest: contextTerminal_status split: option.split)
  with False assms show ?thesis by (cases "plw_event w") (auto simp: awaitPage_def Let_def stopped_pl_def)
qed

lemma afterOpen_completed:
  assumes "plr_Status (afterOpen w r notify runContext url host attempt) = PlCompleted"
  shows "\<exists>notified. (notified \<longrightarrow> (\<exists>failure. opr_Failure attempt = Some failure \<and> notify \<lparr>fb_URL = url, fb_Failure = failure\<rparr> = None)) \<and>
    (opr_Status attempt = StatusFailed_open \<and> opr_Failure attempt \<noteq> None \<longrightarrow> notified) \<and>
    afterOpen w r notify runContext url host attempt = awaitPage w r runContext url host attempt notified"
proof -
  have live: "contextTerminal runContext 20 = None"
    using assms contextTerminal_status by (cases "contextTerminal runContext 20") (auto simp: afterOpen_def)
  have nc: "opr_Status attempt \<noteq> StatusCancelled_open"
    using assms live by (auto simp: afterOpen_def stopped_pl_def)
  have s: "immediateServeFailure (plw_serveSecond w) = None"
    using assms live nc by (cases "immediateServeFailure (plw_serveSecond w)") (simp_all add: afterOpen_def stopped_pl_def)
  show ?thesis
  proof (cases "opr_Status attempt = StatusFailed_open \<and> opr_Failure attempt \<noteq> None")
    case True
    then obtain failure where f: "opr_Status attempt = StatusFailed_open" "opr_Failure attempt = Some failure" by auto
    then have "notify \<lparr>fb_URL = url, fb_Failure = failure\<rparr> = None"
      using assms live s
      by (cases "notify \<lparr>fb_URL = url, fb_Failure = failure\<rparr>") (simp_all add: afterOpen_def stopped_pl_def)
    with f live s show ?thesis by (intro exI [of _ True]) (simp add: afterOpen_def)
  next
    case False
    then have "(case (opr_Status attempt, opr_Failure attempt) of (StatusFailed_open, Some failure) \<Rightarrow> f failure | _ \<Rightarrow> g) = g" for f and g :: PlResult
      by (cases "opr_Status attempt"; cases "opr_Failure attempt") simp_all
    with False live nc s show ?thesis by (intro exI [of _ False]) (simp add: afterOpen_def)
  qed
qed

lemma Run_completed_lemma:
  assumes "plr_Status (Run w r) = PlCompleted"
  obtains notify port attempt where "plw_notify w = Some notify" "0 < port" "port \<le> 65535"
    "Validate_open attempt (loopbackURL port) = None"
    "Run w r = afterOpen w r notify (withTimeout (plw_ctx w) (plw_fired w (run_timeout r))) (loopbackURL port) (loopbackHost port) attempt"
proof -
  obtain notify where n: "plw_notify w = Some notify"
    using assms by (auto simp: Run_def stopped_pl_def split: option.splits)
  have live: "contextTerminal (plw_ctx w) 0 = None"
    using assms n by (auto simp: Run_def dest: contextTerminal_status split: option.splits)
  obtain address where l: "plw_listen w = Inr address"
    using assms n live by (auto simp: Run_def Let_def stopped_pl_def split: sum.splits)
  obtain url host where u: "listenerURL address = Inr (url, host)"
    using assms n live l by (auto simp: Run_def Let_def stopped_pl_def split: sum.splits)
  obtain port where p: "0 < port" "port \<le> 65535" "url = loopbackURL port" "host = loopbackHost port"
    using listenerURL_ok [OF u] by metis
  have s: "immediateServeFailure (plw_serveFirst w) = None"
    using assms n live l u by (auto simp: Run_def Let_def stopped_pl_def split: option.splits)
  let ?run = "withTimeout (plw_ctx w) (plw_fired w (run_timeout r))"
  let ?attempt = "run_open r (withTimeout ?run (plw_openFired w (min (run_timeout r) browserOpenTimeout))) 10 url"
  have v: "Validate_open ?attempt url = None"
    using assms n live l u s by (auto simp: Run_def Let_def stopped_pl_def split: option.splits)
  show thesis
    by (rule that [OF n p(1,2), of ?attempt]) (use n live l u s v p(3,4) in \<open>simp_all add: Run_def Let_def\<close>)
qed

section \<open>Properties\<close>

text \<open>Property C38: every result of the browser opener passes its validator, whatever the launch
  command does and whenever the context ends; it reports an opened browser only for a canonical loopback URL, after a
  launch without an error and while the context is live.\<close>

theorem Open_valid:
  assumes "opener_ok ob"
  shows "Validate_open (Open ob ctx k url) url = None \<and>
    (opr_Status (Open ob ctx k url) = StatusOpened \<longrightarrow>
      validateLoopbackURL url = None \<and> on_launch ob url = None \<and> ctx k = None \<and> ctx (k + 1) = None \<and> ctx (k + 2) = None)"
proof
  show "Validate_open (Open ob ctx k url) url = None" using assms by (rule Open_valid_lemma)
  have cr: "opr_Status (contextResult ob url e) \<noteq> StatusOpened" for e
    by (simp add: contextResult_def failed_open_def cancelled_open_def)
  show "opr_Status (Open ob ctx k url) = StatusOpened \<longrightarrow>
      validateLoopbackURL url = None \<and> on_launch ob url = None \<and> ctx k = None \<and> ctx (k + 1) = None \<and> ctx (k + 2) = None"
    using cr by (cases "validateLoopbackURL url"; cases "ctx k"; cases "ctx (k + 1)"; cases "on_launch ob url"; cases "ctx (k + 2)")
      (simp_all add: Open_def ctxErrAt_def failed_open_def Let_def)
qed

definition demoOpener :: Opener where
  "demoOpener = \<lparr>on_backend = platformBackend_linux, on_launch = launchPlatform_linux (\<lambda>program url.
     Some \<lparr>lau_text = ''executable file not found'', lau_unsupported = False, lau_notFound = True, lau_notExist = False\<rparr>)\<rparr>"

lemma demoOpener_ok: "opener_ok demoOpener"
  by (simp add: opener_ok_def demoOpener_def platformBackend_linux_def launchPlatform_linux_def TrimSpace_graph isGraph_def)

lemma demoOpener_fails: "opr_Status (Open demoOpener (\<lambda>n. None) 10 (loopbackURL 40000)) = StatusFailed_open \<and>
    opr_Failure (Open demoOpener (\<lambda>n. None) 10 (loopbackURL 40000)) =
      Some \<lparr>opf_Code = FailureCommandUnavailable, opf_Detail = ''executable file not found''\<rparr>"
  by (simp add: Open_def validateLoopbackURL_ok ctxErrAt_def demoOpener_def launchPlatform_linux_def failed_open_def classifyLaunchFailure_def Let_def)

lemma Open_valid_witness:
  "Validate_open (Open demoOpener background 10 (loopbackURL 40000)) (loopbackURL 40000) = None \<and>
   opr_Status (Open demoOpener background 10 (loopbackURL 40000)) = StatusFailed_open"
  using Open_valid [OF demoOpener_ok, of background 10 "loopbackURL 40000"] demoOpener_fails
  by (simp add: background_def)

text \<open>Property C39: over the opener of the program every report of the placeholder passes its
  validator, whatever the listener, the server, the notifier, the requests and the contexts do, with exactly one
  exception: the context of the caller was past its deadline before anything was done. Then the report says the
  placeholder timed out, which the validator only accepts with an address and an attempt to open it.\<close>

theorem Run_valid:
  assumes "pl_env_ok w r" "opener_ok ob" "run_open r = Open ob"
  shows "Validate_pl (Run w r) =
    guard (plw_notify w \<noteq> None \<and> plw_ctx w 0 \<noteq> Some Canceled \<and> plw_ctx w 1 = Some DeadlineExceeded)
      ''reason requires URL and opener evidence''"
  using browser_opener.Run_exact [OF Open_contract [OF assms(2)] assms(1,3)] by (simp add: lateStart_def)

definition demoPlWorld :: "ctx \<Rightarrow> PlWorld" where
  "demoPlWorld ctx = \<lparr>plw_now = steadyClock 1000000, plw_ctx = ctx, plw_fired = (\<lambda>d n. False), plw_openFired = (\<lambda>d n. False),
     plw_listen = Inr \<lparr>la_TCP = True, la_IP = Addr4 127 0 0 1, la_Port = 40000\<rparr>, plw_serveFirst = None, plw_serveSecond = None,
     plw_notify = Some (\<lambda>fallback. None),
     plw_requests = [(\<lparr>hq_Method = ''GET'', hq_Host = ''rebound.example'', hq_Path = ''/'', hq_RawQuery = ''''\<rparr>, True),
       (\<lparr>hq_Method = ''GET'', hq_Host = loopbackHost 40000, hq_Path = pagePath, hq_RawQuery = ''''\<rparr>, True)],
     plw_takePage = True, plw_event = ServeStopped True ''http: Server closed''\<rparr>"

definition demoRunner :: Runner where
  "demoRunner = \<lparr>run_timeout = defaultTimeout_pl, run_platform = \<lparr>plat_os = ''linux'', plat_arch = ''amd64''\<rparr>, run_open = Open demoOpener\<rparr>"

lemma demo_pl_env: "go_context ctx \<Longrightarrow> pl_env_ok (demoPlWorld ctx) demoRunner"
proof -
  assume "go_context ctx"
  moreover have "normalizeTimeout_pl 0 = Inr (run_timeout demoRunner)" by (simp add: normalizeTimeout_pl_def demoRunner_def)
  moreover have "TrimSpace ''http: Server closed'' \<noteq> ''''" by (simp add: TrimSpace_graph isGraph_def)
  ultimately show ?thesis
    unfolding pl_env_ok_def by (auto simp: demoPlWorld_def demoRunner_def steadyClock_ok)
qed

lemma demo_Run: "plr_Status (Run (demoPlWorld background) demoRunner) = PlCompleted"
proof -
  have l: "listenerURL \<lparr>la_TCP = True, la_IP = Addr4 127 0 0 1, la_Port = 40000\<rparr> = Inr (loopbackURL 40000, loopbackHost 40000)"
    by (simp add: listenerURL_def Let_def Itoa_def JoinHostPort_loopback [of 40000, simplified] loopbackURL_def pagePath_def)
  have live: "withTimeout (\<lambda>n. None) (\<lambda>n. False) = (\<lambda>n. None)"
  proof
    fix k show "withTimeout (\<lambda>n. None) (\<lambda>n. False) k = None" by (induction k) simp_all
  qed
  have t: "contextTerminal (\<lambda>n. None) k = None" for k by (simp add: contextTerminal_def)
  have v: "Validate_open (Open demoOpener (\<lambda>n. None) 10 (loopbackURL 40000)) (loopbackURL 40000) = None"
    by (rule Open_valid_lemma [OF demoOpener_ok])
  have good: "snd (serveRequests (loopbackHost 40000) False (plw_requests (demoPlWorld (\<lambda>n. None)))) =
      [\<lparr>pr_Method = ''GET'', pr_Host = loopbackHost 40000, pr_Path = pagePath\<rparr>]"
    unfolding serveRequests_one by (simp add: demoPlWorld_def)
  have s: "plw_notify (demoPlWorld (\<lambda>n. None)) = Some (\<lambda>fallback. None)" "plw_ctx (demoPlWorld (\<lambda>n. None)) = (\<lambda>n. None)"
    "plw_listen (demoPlWorld (\<lambda>n. None)) = Inr \<lparr>la_TCP = True, la_IP = Addr4 127 0 0 1, la_Port = 40000\<rparr>"
    "plw_serveFirst (demoPlWorld (\<lambda>n. None)) = None" "plw_serveSecond (demoPlWorld (\<lambda>n. None)) = None"
    "plw_fired (demoPlWorld (\<lambda>n. None)) d = (\<lambda>n. False)" "plw_openFired (demoPlWorld (\<lambda>n. None)) d = (\<lambda>n. False)"
    "plw_takePage (demoPlWorld (\<lambda>n. None))" for d
    by (simp_all add: demoPlWorld_def)
  have r: "run_open demoRunner = Open demoOpener" by (simp add: demoRunner_def)
  have i: "immediateServeFailure None = None" by (simp add: immediateServeFailure_def)
  show ?thesis
    by (simp add: Run_def background_def s t l i live r v afterOpen_def demoOpener_fails awaitPage_def good Let_def)
qed

lemma Run_valid_witness:
  "Validate_pl (Run (demoPlWorld background) demoRunner) = None \<and>
   Validate_pl (Run (demoPlWorld (doneFrom 0 DeadlineExceeded)) demoRunner) = Some ''reason requires URL and opener evidence''"
proof -
  have ro: "run_open demoRunner = Open demoOpener" by (simp add: demoRunner_def)
  have "go_context (doneFrom 0 DeadlineExceeded)" by unfold_locales (simp add: doneFrom_def)
  from Run_valid [OF demo_pl_env [OF this] demoOpener_ok ro] Run_valid [OF demo_pl_env [OF background_ctx.go_context_axioms] demoOpener_ok ro]
  show ?thesis by (simp add: demoPlWorld_def background_def doneFrom_def guard_def)
qed

text \<open>Property C40: a completed run has served a GET request for the root page whose Host is exactly
  the address it was opened at, reports that request, and was committed while its context was live; and when the
  opener had failed, the user had been given the address.\<close>

theorem Run_completed:
  assumes "plr_Status (Run w r) = PlCompleted"
  shows "\<exists>port attempt notify. 0 < port \<and> port \<le> 65535 \<and> plw_notify w = Some notify \<and>
    plr_URL (Run w r) = loopbackURL port \<and> plr_OpenAttempt (Run w r) = Some attempt \<and>
    (\<lparr>hq_Method = ''GET'', hq_Host = loopbackHost port, hq_Path = ''/'', hq_RawQuery = ''''\<rparr>, True) \<in> set (plw_requests w) \<and>
    plr_PageRequest (Run w r) = Some \<lparr>pr_Method = ''GET'', pr_Host = loopbackHost port, pr_Path = ''/''\<rparr> \<and>
    withTimeout (plw_ctx w) (plw_fired w (run_timeout r)) 40 = None \<and>
    (opr_Status attempt = StatusFailed_open \<longrightarrow>
      (\<exists>failure. opr_Failure attempt = Some failure \<and> notify \<lparr>fb_URL = loopbackURL port, fb_Failure = failure\<rparr> = None))"
proof -
  let ?run = "withTimeout (plw_ctx w) (plw_fired w (run_timeout r))"
  obtain notify port attempt where n: "plw_notify w = Some notify" "0 < port" "port \<le> 65535"
    "Validate_open attempt (loopbackURL port) = None"
    "Run w r = afterOpen w r notify ?run (loopbackURL port) (loopbackHost port) attempt"
    using Run_completed_lemma [OF assms] .
  obtain notified where a:
    "notified \<Longrightarrow> \<exists>failure. opr_Failure attempt = Some failure \<and> notify \<lparr>fb_URL = loopbackURL port, fb_Failure = failure\<rparr> = None"
    "opr_Status attempt = StatusFailed_open \<and> opr_Failure attempt \<noteq> None \<longrightarrow> notified"
    "Run w r = awaitPage w r ?run (loopbackURL port) (loopbackHost port) attempt notified"
    using afterOpen_completed [OF assms [unfolded n(5)]] n(5) by metis
  note p = awaitPage_completed [OF assms [unfolded a(3)]]
  have live: "?run 40 = None"
    using p timeout_ctx.go_context_axioms contextTerminal_cases [of ?run 40] by (metis option.distinct(1))
  have f: "opr_Failure attempt \<noteq> None" if "opr_Status attempt = StatusFailed_open"
    using that n(4) by (auto simp: Validate_open_def firstErr_simps split: option.splits)
  from p a live n f show ?thesis by (intro exI [of _ port] exI [of _ attempt] exI [of _ notify]) (auto simp: pagePath_def)
qed

lemma Run_completed_witness:
  "\<exists>port. plr_URL (Run (demoPlWorld background) demoRunner) = loopbackURL port \<and>
     plr_PageRequest (Run (demoPlWorld background) demoRunner) = Some \<lparr>pr_Method = ''GET'', pr_Host = loopbackHost port, pr_Path = ''/''\<rparr>"
  using Run_completed [OF demo_Run] by blast

end
