(* ===== verification/Cli.thy ===== *)
theory Cli
  imports FamilyCondition ResolverInventory SystemResolver DnsValidate PathValidate WebPathValidate WebRecheck SshObservation
    TlsRetryBatch BrowserPlaceholder
begin

text \<open>
  Package \<open>main\<close>, \<open>cmd/reachrun/main.go\<close>: the arguments of each command, the resolvers it offers, the run
  of one command and its exit code. The observers are the dependencies of a run; every result is checked by
  the validator of its package before it is printed. A printed document is the result itself: its encoding
  as JSON is a parameter that may fail.
\<close>

section \<open>Constants\<close>

definition phase0ProbeTimeout :: int where "phase0ProbeTimeout = 5 * Second"
definition phase0WebPathTimeout :: int where "phase0WebPathTimeout = 15 * Second"
definition phase0DNSHTTPSPathTimeout :: int where "phase0DNSHTTPSPathTimeout = 30 * Second"
definition phase0WebRecheckTimeout :: int where "phase0WebRecheckTimeout = 25 * Second"
definition phase0TLSRetryBatchTimeout :: int where "phase0TLSRetryBatchTimeout = 30 * Second"
definition phase0BrowserPlaceholderTimeout :: int where "phase0BrowserPlaceholderTimeout = 60 * Second"

definition resolverCurrent :: ResolverID where "resolverCurrent = ''current''"
definition resolverCloudflareWire :: ResolverID where "resolverCloudflareWire = ''cloudflare-wire''"
definition resolverCloudflareDoH :: ResolverID where "resolverCloudflareDoH = ''cloudflare-doh''"
definition resolverGoogleWire :: ResolverID where "resolverGoogleWire = ''google-wire''"
definition resolverGoogleDoH :: ResolverID where "resolverGoogleDoH = ''google-doh''"

lemmas resolver_ids = resolverCurrent_def resolverCloudflareWire_def resolverCloudflareDoH_def resolverGoogleWire_def resolverGoogleDoH_def

section \<open>Arguments\<close>

definition parseDNSTransport :: "string \<Rightarrow> Transport option" where
  "parseDNSTransport v =
     (if v = ''udp'' then Some TransportUDP else if v = ''tcp'' then Some TransportTCP else if v = ''doh'' then Some TransportDoH
      else None)"

definition resolverFor :: "string \<Rightarrow> Transport \<Rightarrow> ResolverID option" where
  "resolverFor provider transport =
     (if provider = ''current'' then (if transport = TransportDoH then None else Some resolverCurrent)
      else if provider = ''cloudflare'' then
        (if transport = TransportDoH then Some resolverCloudflareDoH else Some resolverCloudflareWire)
      else if provider = ''google'' then
        (if transport = TransportDoH then Some resolverGoogleDoH else Some resolverGoogleWire)
      else None)"

definition parseQueryType :: "string \<Rightarrow> QueryType option" where
  "parseQueryType v =
     (if v = ''A'' then Some QueryTypeA else if v = ''AAAA'' then Some QueryTypeAAAA else if v = ''CNAME'' then Some QueryTypeCNAME
      else if v = ''SVCB'' then Some QueryTypeSVCB else if v = ''HTTPS'' then Some QueryTypeHTTPS else None)"

definition parseDNSObservationArgs :: "string list \<Rightarrow> (DnsRequest \<times> string) option" where
  "parseDNSObservationArgs args =
     (if length args \<noteq> 5 \<or> args ! 0 \<noteq> ''dns-observe'' then None
      else (case parseDNSTransport (args ! 1) of
          None \<Rightarrow> None
        | Some transport \<Rightarrow>
           (let provider = args ! 2 in
            case resolverFor provider transport of
              None \<Rightarrow> None
            | Some resolver \<Rightarrow> (case parseQueryType (args ! 3) of
                None \<Rightarrow> None
              | Some queryType \<Rightarrow> Some (\<lparr>dreq_Hostname = args ! 4, dreq_QueryType = queryType, dreq_Resolver = resolver,
                  dreq_Transport = transport\<rparr>, provider)))))"

definition parseDNSHTTPSPathArgs :: "string list \<Rightarrow> (PathRequest \<times> string) option" where
  "parseDNSHTTPSPathArgs args =
     (if length args \<noteq> 4 \<or> args ! 0 \<noteq> ''dns-https-path'' then None
      else (case parseDNSTransport (args ! 1) of
          None \<Rightarrow> None
        | Some transport \<Rightarrow>
           (let provider = args ! 2 in
            case resolverFor provider transport of
              None \<Rightarrow> None
            | Some resolver \<Rightarrow> Some (\<lparr>preq_Hostname = args ! 3, preq_Resolver = resolver, preq_Transport = transport\<rparr>, provider))))"

definition parseWebRecheckArgs :: "string list \<Rightarrow> RckRequest option" where
  "parseWebRecheckArgs args =
     (if length args \<noteq> 4 \<or> args ! 0 \<noteq> ''web-recheck'' then None
      else Some \<lparr>kreq_Hostname = args ! 1, kreq_LocalCandidates = splitOn (CHR '','') (args ! 2),
        kreq_ReferenceCandidates = splitOn (CHR '','') (args ! 3)\<rparr>)"

definition parseWebObservationArgs :: "string list \<Rightarrow> WebObsRequest option" where
  "parseWebObservationArgs args =
     (if length args \<noteq> 4 \<or> args ! 0 \<noteq> ''web-observe'' then None
      else if args ! 1 \<noteq> SchemeHTTP \<and> args ! 1 \<noteq> SchemeHTTPS then None
      else Some \<lparr>wreq_Scheme = args ! 1, wreq_Hostname = args ! 2, wreq_DialIP = args ! 3, wreq_Path = '''', wreq_RawQuery = ''''\<rparr>)"

definition parseSSHObservationArgs :: "string list \<Rightarrow> SshRequest option" where
  "parseSSHObservationArgs args =
     (if length args < 2 \<or> 3 < length args \<or> args ! 0 \<noteq> ''ssh-observe'' then None
      else if length args = 3 then
        (case ParseUint16 (args ! 2) of
          None \<Rightarrow> None
        | Some parsed \<Rightarrow> if parsed = 0 then None else Some \<lparr>sreq_DialIP = args ! 1, sreq_Port = parsed\<rparr>)
      else Some \<lparr>sreq_DialIP = args ! 1, sreq_Port = DefaultPort_ssh\<rparr>)"

definition parseTLSObservationArgs :: "string list \<Rightarrow> TlsRequest option" where
  "parseTLSObservationArgs args =
     (if length args \<noteq> 2 \<or> args ! 0 \<noteq> ''tls-observe'' then None else Some \<lparr>req_DialIP = args ! 1\<rparr>)"

definition parseTLSRetryBatchArgs :: "string list \<Rightarrow> BatchRequest option" where
  "parseTLSRetryBatchArgs args =
     (if length args \<noteq> 2 \<or> args ! 0 \<noteq> ''tls-retry-batch'' then None
      else Some \<lparr>breq_Targets = splitOn (CHR '','') (args ! 1)\<rparr>)"

section \<open>Resolvers\<close>

definition wireResolver :: "ResolverID \<Rightarrow> Addr \<Rightarrow> ResolverEndpoint" where
  "wireResolver resolver address = \<lparr>rep_ID = resolver, rep_WireIP = address, rep_DoHURL = '''', rep_DoHBootstrap = AddrInvalid\<rparr>"

definition referenceResolverConfig :: DnsConfig where
  "referenceResolverConfig = \<lparr>dcfg_Resolvers = [
       wireResolver resolverCloudflareWire (Addr4 1 1 1 1),
       \<lparr>rep_ID = resolverCloudflareDoH, rep_WireIP = AddrInvalid, rep_DoHURL = ''https://cloudflare-dns.com/dns-query'',
         rep_DoHBootstrap = Addr4 1 1 1 1\<rparr>,
       wireResolver resolverGoogleWire (Addr4 8 8 8 8),
       \<lparr>rep_ID = resolverGoogleDoH, rep_WireIP = AddrInvalid, rep_DoHURL = ''https://dns.google/dns-query'',
         rep_DoHBootstrap = Addr4 8 8 8 8\<rparr>],
     dcfg_Timeout = phase0ProbeTimeout\<rparr>"

fun WithZone :: "string \<Rightarrow> Addr \<Rightarrow> Addr" where
  "WithZone zone (Addr6 a b c d e f g h z) = Addr6 a b c d e f g h zone"
| "WithZone zone x = x"

definition currentResolverServerEndpoint :: "Group \<Rightarrow> Server \<Rightarrow> error + ResolverEndpoint" where
  "currentResolverServerEndpoint grp server = (case ParseAddr (srv_Address server) of
      None \<Rightarrow> Inl ''parse resolver address''
    | Some parsed \<Rightarrow>
       (let address = Unmap (WithZone '''' parsed) in
        if IsUnspecified address \<or> IsMulticast address \<or> address = ipv4LimitedBroadcast
        then Inl ''resolver address is not a unicast dial target''
        else if Is6 address \<and> IsLinkLocalUnicast address then
         (let zone0 = (if srv_Zone server = '''' then grp_Interface grp else srv_Zone server);
              zone = (if zone0 = '''' \<and> grp_InterfaceIndex grp \<noteq> 0 then fmtDec (grp_InterfaceIndex grp) else zone0) in
          if zone = '''' then Inl ''link-local resolver has no interface zone''
          else Inr (wireResolver resolverCurrent (WithZone zone address)))
        else Inr (wireResolver resolverCurrent address)))"

text \<open>The first server on port 53 that can be dialed; otherwise the first reason against one.\<close>

fun firstEndpoint :: "error option \<Rightarrow> (Group \<times> Server) list \<Rightarrow> error option + ResolverEndpoint" where
  "firstEndpoint firstRejected [] = Inl firstRejected"
| "firstEndpoint firstRejected ((grp, server) # servers) =
     (if srv_Port server \<noteq> 53 then firstEndpoint firstRejected servers
      else (case currentResolverServerEndpoint grp server of
          Inr endpoint \<Rightarrow> Inr endpoint
        | Inl err \<Rightarrow> firstEndpoint (case firstRejected of None \<Rightarrow> Some err | Some e \<Rightarrow> Some e) servers))"

definition inventoryServers :: "InvEvidence \<Rightarrow> (Group \<times> Server) list" where
  "inventoryServers ev = concat (map (\<lambda>grp. map (\<lambda>server. (grp, server)) (grp_Servers grp)) (iev_Groups ev))"

definition currentResolverEndpoint :: "'a unitab_scheme \<Rightarrow> InvResult \<Rightarrow> error + ResolverEndpoint" where
  "currentResolverEndpoint u result = (case Validate_inv u result of
      Some e \<Rightarrow> Inl (''invalid inventory: '' @ e)
    | None \<Rightarrow>
        if env_outcome result \<noteq> OutcomeSucceeded then Inl ''inventory did not succeed''
        else (case env_evidence result of
            None \<Rightarrow> Inl ''panic: nil evidence''
          | Some ev \<Rightarrow> (case firstEndpoint None (inventoryServers ev) of
              Inr endpoint \<Rightarrow> Inr endpoint
            | Inl (Some firstRejected) \<Rightarrow> Inl (''inventory has no usable port 53 resolver: '' @ firstRejected)
            | Inl None \<Rightarrow> Inl ''inventory has no resolver on supported port 53'')))"

section \<open>The dependencies and the output of a run\<close>

record Deps =
  dep_resolver :: "ctx \<Rightarrow> string \<Rightarrow> SysResult"
  dep_inventory :: "ctx \<Rightarrow> InvResult"
  dep_newDNS :: "DnsConfig \<Rightarrow> error + (ctx \<Rightarrow> DnsRequest \<Rightarrow> DnsResult)"
  dep_newPath :: "PathConfig \<Rightarrow> error + (ctx \<Rightarrow> PathRequest \<Rightarrow> PathResult)"
  dep_newWeb :: "WebConfig \<Rightarrow> error + (ctx \<Rightarrow> WebObsRequest \<Rightarrow> WebResult)"
  dep_newWebPath :: "WPathConfig \<Rightarrow> error + (ctx \<Rightarrow> WPathRequest \<Rightarrow> WPathResult)"
  dep_newRecheck :: "RckConfig \<Rightarrow> error + (ctx \<Rightarrow> RckRequest \<Rightarrow> RckResult)"
  dep_newSSH :: "SshConfig \<Rightarrow> error + (ctx \<Rightarrow> SshRequest \<Rightarrow> SshResult)"
  dep_newTLS :: "TlsConfig \<Rightarrow> error + (ctx \<Rightarrow> TlsRequest \<Rightarrow> TlsResult)"
  dep_newBatch :: "BatchConfig \<Rightarrow> error + (ctx \<Rightarrow> BatchRequest \<Rightarrow> BatchResult)"
  dep_newFamily :: "FamConfig \<Rightarrow> error + (ctx \<Rightarrow> FamResult)"
  dep_newRunner :: "int \<Rightarrow> error + (ctx \<Rightarrow> (Fallback \<Rightarrow> error option) \<Rightarrow> PlResult)"

datatype Document =
    DocBrowser PlResult
  | DocFamily FamResult
  | DocResolve SysResult
  | DocInventory InvResult
  | DocDNS DnsResult
  | DocPath PathResult
  | DocWeb WebResult
  | DocWebPath WPathResult
  | DocRecheck RckResult
  | DocSSH SshResult
  | DocTLS TlsResult
  | DocBatch BatchResult

record CliOut =
  cli_code :: int
  cli_stdout :: "Document list"
  cli_stderr :: "string list"

text \<open>
  What a run meets from outside: the context of the process, the timers of the contexts derived from it,
  whether a document can be encoded and written, and whether the notice of the browser can be. The notice
  is the one line on standard error that is not in \<open>cli_stderr\<close>.
\<close>

record CliWorld =
  cw_ctx :: ctx
  cw_fired :: "int \<Rightarrow> nat \<Rightarrow> bool"
  cw_spent :: nat
  cw_encode :: "Document \<Rightarrow> error option"
  cw_notice :: "Fallback \<Rightarrow> error option"

definition commandContext :: "CliWorld \<Rightarrow> int \<Rightarrow> ctx" where
  "commandContext w timeout = withTimeout (cw_ctx w) (cw_fired w timeout)"

definition usage :: "string list" where
  "usage = [''Usage:'', ''  reachrun browser-placeholder'', ''  reachrun family-conditions'', ''  reachrun resolve <hostname>'',
     ''  reachrun resolver-inventory'',
     ''  reachrun dns-observe <udp|tcp|doh> <current|cloudflare|google> <A|AAAA|CNAME|SVCB|HTTPS> <hostname>'',
     ''  reachrun dns-https-path <udp|tcp|doh> <current|cloudflare|google> <hostname>'',
     ''  reachrun web-path <hostname>'',
     ''  reachrun web-recheck <hostname> <local-ip[,local-ip]> <reference-ip[,reference-ip]>'',
     ''  reachrun web-observe <http|https> <hostname> <public-ip>'',
     ''  reachrun ssh-observe <public-ip> [port]'', ''  reachrun tls-observe <public-ip>'',
     ''  reachrun tls-retry-batch <public-ip[,public-ip]>'',
     ''Phase 0 diagnostic only: each valid command prints one terminal JSON evidence document.'']"

definition usageError :: CliOut where
  "usageError = \<lparr>cli_code = 2, cli_stdout = [], cli_stderr = usage\<rparr>"

definition failure_cli :: "string \<Rightarrow> error \<Rightarrow> CliOut" where
  "failure_cli what err = \<lparr>cli_code = 1, cli_stdout = [], cli_stderr = [''reachrun: '' @ what @ '': '' @ err]\<rparr>"

definition emitResult :: "CliWorld \<Rightarrow> Document \<Rightarrow> Outcome \<Rightarrow> CliOut" where
  "emitResult w result outcome = (case cw_encode w result of
      Some err \<Rightarrow> failure_cli ''encode result'' err
    | None \<Rightarrow> \<lparr>cli_code = (case outcome of OutcomeSucceeded \<Rightarrow> 0 | OutcomeCancelled \<Rightarrow> 130 | _ \<Rightarrow> 1),
        cli_stdout = [result], cli_stderr = []\<rparr>)"

definition withStderr :: "string list \<Rightarrow> CliOut \<Rightarrow> CliOut" where
  "withStderr lines out = out\<lparr>cli_stderr := lines @ cli_stderr out\<rparr>"

section \<open>The commands\<close>

definition runBrowserPlaceholder :: "CliWorld \<Rightarrow> Deps \<Rightarrow> CliOut" where
  "runBrowserPlaceholder w deps =
     (let runContext = commandContext w phase0BrowserPlaceholderTimeout in
      case dep_newRunner deps phase0BrowserPlaceholderTimeout of
        Inl err \<Rightarrow> failure_cli ''create browser-placeholder runner'' err
      | Inr runner \<Rightarrow>
         (let result = runner runContext (cw_notice w) in
          case Validate_pl result of
            Some err \<Rightarrow> failure_cli ''invalid browser-placeholder result'' err
          | None \<Rightarrow> emitResult w (DocBrowser result) (case plr_Status result of
              PlCompleted \<Rightarrow> OutcomeSucceeded | PlCancelled \<Rightarrow> OutcomeCancelled | _ \<Rightarrow> OutcomeFailed)))"

definition runTLSRetryBatch :: "CliWorld \<Rightarrow> Deps \<Rightarrow> BatchRequest \<Rightarrow> CliOut" where
  "runTLSRetryBatch w deps request =
     (let batchContext = commandContext w phase0TLSRetryBatchTimeout in
      case dep_newBatch deps \<lparr>bcfg_Timeout = phase0TLSRetryBatchTimeout\<rparr> of
        Inl err \<Rightarrow> failure_cli ''create TLS retry-batch observer'' err
      | Inr observer \<Rightarrow>
         (let result = observer batchContext request in
          case Validate_batch result of
            Some err \<Rightarrow> failure_cli ''invalid TLS retry-batch result'' err
          | None \<Rightarrow> emitResult w (DocBatch result) (case br_Status result of
              BatchStatus.StatusCompleted \<Rightarrow> OutcomeSucceeded | BatchStatus.StatusCancelled \<Rightarrow> OutcomeCancelled | _ \<Rightarrow> OutcomeFailed)))"

definition runFamilyConditions :: "CliWorld \<Rightarrow> Deps \<Rightarrow> CliOut" where
  "runFamilyConditions w deps =
     (let probeContext = commandContext w phase0ProbeTimeout in
      case dep_newFamily deps \<lparr>fcfg_Timeout = phase0ProbeTimeout\<rparr> of
        Inl err \<Rightarrow> failure_cli ''create address-family-condition observer'' err
      | Inr observer \<Rightarrow>
         (let result = observer probeContext in
          case Validate_fam result of
            Some err \<Rightarrow> failure_cli ''invalid address-family-condition result'' err
          | None \<Rightarrow> emitResult w (DocFamily result) (env_outcome result)))"

definition runTLSObservation :: "CliWorld \<Rightarrow> Deps \<Rightarrow> TlsRequest \<Rightarrow> CliOut" where
  "runTLSObservation w deps request =
     (let probeContext = commandContext w phase0ProbeTimeout in
      case dep_newTLS deps \<lparr>cfg_Timeout = phase0ProbeTimeout\<rparr> of
        Inl err \<Rightarrow> failure_cli ''create TLS observer'' err
      | Inr observer \<Rightarrow>
         (let result = observer probeContext request in
          case Validate_tls result of
            Some err \<Rightarrow> failure_cli ''invalid TLS observation result'' err
          | None \<Rightarrow> emitResult w (DocTLS result) (env_outcome result)))"

definition runWebRecheck :: "'a unitab_scheme \<Rightarrow> CliWorld \<Rightarrow> Deps \<Rightarrow> RckRequest \<Rightarrow> CliOut" where
  "runWebRecheck u w deps request =
     (let recheckContext = commandContext w phase0WebRecheckTimeout in
      case dep_newRecheck deps \<lparr>kcfg_Timeout = phase0WebRecheckTimeout\<rparr> of
        Inl err \<Rightarrow> failure_cli ''create Web candidate recheck observer'' err
      | Inr observer \<Rightarrow>
         (let result = observer recheckContext request in
          case Validate_rck u result of
            Some err \<Rightarrow> failure_cli ''invalid Web candidate recheck result'' err
          | None \<Rightarrow> emitResult w (DocRecheck result) (case krs_Status result of
              RckCompleted \<Rightarrow> OutcomeSucceeded | RckCancelled \<Rightarrow> OutcomeCancelled | _ \<Rightarrow> OutcomeFailed)))"

definition runWebPath :: "'a unitab_scheme \<Rightarrow> CliWorld \<Rightarrow> Deps \<Rightarrow> WPathRequest \<Rightarrow> CliOut" where
  "runWebPath u w deps request =
     (let pathContext = commandContext w phase0WebPathTimeout in
      case dep_newWebPath deps \<lparr>xcfg_Timeout = phase0WebPathTimeout\<rparr> of
        Inl err \<Rightarrow> failure_cli ''create Web-path observer'' err
      | Inr observer \<Rightarrow>
         (let result = observer pathContext request in
          case Validate_wpath u result of
            Some err \<Rightarrow> failure_cli ''invalid Web-path result'' err
          | None \<Rightarrow> emitResult w (DocWebPath result) (case wp_Status result of
              WCompleted \<Rightarrow> OutcomeSucceeded | WCancelled \<Rightarrow> OutcomeCancelled | _ \<Rightarrow> OutcomeFailed)))"

definition runSSHObservation :: "CliWorld \<Rightarrow> Deps \<Rightarrow> SshRequest \<Rightarrow> CliOut" where
  "runSSHObservation w deps request =
     (let probeContext = commandContext w phase0ProbeTimeout in
      case dep_newSSH deps \<lparr>scfg_Timeout = phase0ProbeTimeout\<rparr> of
        Inl err \<Rightarrow> failure_cli ''create SSH observer'' err
      | Inr observer \<Rightarrow>
         (let result = observer probeContext request in
          case Validate_ssh result of
            Some err \<Rightarrow> failure_cli ''invalid SSH observation result'' err
          | None \<Rightarrow> emitResult w (DocSSH result) (env_outcome result)))"

definition runWebObservation :: "'a unitab_scheme \<Rightarrow> CliWorld \<Rightarrow> Deps \<Rightarrow> WebObsRequest \<Rightarrow> CliOut" where
  "runWebObservation u w deps request =
     (let probeContext = commandContext w phase0ProbeTimeout in
      case dep_newWeb deps \<lparr>wcfg_Timeout = phase0ProbeTimeout\<rparr> of
        Inl err \<Rightarrow> failure_cli ''create Web observer'' err
      | Inr observer \<Rightarrow>
         (let result = observer probeContext request in
          case Validate_web u result of
            Some err \<Rightarrow> failure_cli ''invalid Web observation result'' err
          | None \<Rightarrow> emitResult w (DocWeb result) (env_outcome result)))"

definition runResolve :: "CliWorld \<Rightarrow> Deps \<Rightarrow> string \<Rightarrow> CliOut" where
  "runResolve w deps hostname =
     (let result = dep_resolver deps (commandContext w phase0ProbeTimeout) hostname in
      case Validate_sys result of
        Some err \<Rightarrow> failure_cli ''invalid system resolver result'' err
      | None \<Rightarrow> emitResult w (DocResolve result) (env_outcome result))"

definition runResolverInventory :: "'a unitab_scheme \<Rightarrow> CliWorld \<Rightarrow> Deps \<Rightarrow> CliOut" where
  "runResolverInventory u w deps =
     (let result = dep_inventory deps (commandContext w phase0ProbeTimeout) in
      case Validate_inv u result of
        Some err \<Rightarrow> failure_cli ''invalid resolver inventory result'' err
      | None \<Rightarrow> emitResult w (DocInventory result) (env_outcome result))"

text \<open>
  The context as it goes on after \<open>k\<close> looks at it, and after \<open>cancel()\<close>: it is cancelled, unless it was done
  before. The inventory and the observer of a command share one context: \<open>cw_spent\<close> is the number of looks
  when the inventory returns. A result names the configuration, the context to go on with and the lines
  written to standard error.
\<close>

definition ctxAfter :: "ctx \<Rightarrow> nat \<Rightarrow> ctx" where
  "ctxAfter c k = (\<lambda>n. c (k + n))"

definition cancelNow :: "ctx \<Rightarrow> ctx" where
  "cancelNow c = (\<lambda>n. Some (case c 0 of None \<Rightarrow> Canceled | Some e \<Rightarrow> e))"

definition resolverConfigForProvider ::
  "'a unitab_scheme \<Rightarrow> CliWorld \<Rightarrow> Deps \<Rightarrow> ctx \<Rightarrow> string \<Rightarrow> DnsConfig \<times> ctx \<times> string list" where
  "resolverConfigForProvider u w deps ctx provider =
     (let config = referenceResolverConfig in
      if provider \<noteq> ''current'' then (config, ctx, [])
      else
       (let inventory = dep_inventory deps ctx;
            ctx0 = ctxAfter ctx (cw_spent w);
            ctx' = (if Validate_inv u inventory = None \<and> env_outcome inventory = OutcomeCancelled then cancelNow ctx0 else ctx0) in
        case currentResolverEndpoint u inventory of
          Inl err \<Rightarrow> (config, ctxAfter ctx' 1,
            if ctx' 0 \<noteq> Some Canceled then [''reachrun: current resolver unavailable: '' @ err] else [])
        | Inr endpoint \<Rightarrow> (config\<lparr>dcfg_Resolvers := dcfg_Resolvers config @ [endpoint]\<rparr>, ctx', [])))"

definition runDNSObservation :: "'a unitab_scheme \<Rightarrow> dnslib \<Rightarrow> CliWorld \<Rightarrow> Deps \<Rightarrow> DnsRequest \<Rightarrow> string \<Rightarrow> CliOut" where
  "runDNSObservation u L w deps request provider =
     (let (config, probeContext, lines) = resolverConfigForProvider u w deps (commandContext w phase0ProbeTimeout) provider in
      withStderr lines (case dep_newDNS deps config of
        Inl err \<Rightarrow> failure_cli ''create DNS observer'' err
      | Inr observer \<Rightarrow>
         (let result = observer probeContext request in
          case Validate_dns u L result of
            Some err \<Rightarrow> failure_cli ''invalid DNS observation result'' err
          | None \<Rightarrow> emitResult w (DocDNS result) (env_outcome result))))"

definition runDNSHTTPSPath :: "'a unitab_scheme \<Rightarrow> dnslib \<Rightarrow> CliWorld \<Rightarrow> Deps \<Rightarrow> PathRequest \<Rightarrow> string \<Rightarrow> CliOut" where
  "runDNSHTTPSPath u L w deps request provider =
     (let (config, pathContext, lines) = resolverConfigForProvider u w deps (commandContext w phase0DNSHTTPSPathTimeout) provider in
      withStderr lines (case dep_newPath deps \<lparr>pcfg_DNS = config, pcfg_Timeout = phase0DNSHTTPSPathTimeout\<rparr> of
        Inl err \<Rightarrow> failure_cli ''create DNS HTTPS-path observer'' err
      | Inr observer \<Rightarrow>
         (let result = observer pathContext request in
          case Validate_path u L result of
            Some err \<Rightarrow> failure_cli ''invalid DNS HTTPS-path result'' err
          | None \<Rightarrow> emitResult w (DocPath result) (case pth_Status result of
              PathStatus.StatusCompleted \<Rightarrow> OutcomeSucceeded | PathStatus.StatusCancelled \<Rightarrow> OutcomeCancelled | _ \<Rightarrow> OutcomeFailed))))"

section \<open>The dispatch\<close>

definition orUsage :: "'r option \<Rightarrow> ('r \<Rightarrow> CliOut) \<Rightarrow> CliOut" where
  "orUsage parsed k = (case parsed of None \<Rightarrow> usageError | Some r \<Rightarrow> k r)"

definition run_cli :: "'a unitab_scheme \<Rightarrow> dnslib \<Rightarrow> CliWorld \<Rightarrow> Deps \<Rightarrow> string list \<Rightarrow> CliOut" where
  "run_cli u L w deps args = (case args of
      [] \<Rightarrow> usageError
    | command # rest \<Rightarrow>
        if command = ''browser-placeholder'' then (if length args \<noteq> 1 then usageError else runBrowserPlaceholder w deps)
        else if command = ''family-conditions'' then (if length args \<noteq> 1 then usageError else runFamilyConditions w deps)
        else if command = ''resolve'' then (if length args \<noteq> 2 then usageError else runResolve w deps (args ! 1))
        else if command = ''resolver-inventory'' then (if length args \<noteq> 1 then usageError else runResolverInventory u w deps)
        else if command = ''dns-observe'' then
          orUsage (parseDNSObservationArgs args) (\<lambda>(request, provider). runDNSObservation u L w deps request provider)
        else if command = ''dns-https-path'' then
          orUsage (parseDNSHTTPSPathArgs args) (\<lambda>(request, provider). runDNSHTTPSPath u L w deps request provider)
        else if command = ''web-observe'' then orUsage (parseWebObservationArgs args) (runWebObservation u w deps)
        else if command = ''web-path'' then
          (if length args \<noteq> 2 then usageError else runWebPath u w deps \<lparr>xreq_Hostname = args ! 1\<rparr>)
        else if command = ''web-recheck'' then orUsage (parseWebRecheckArgs args) (runWebRecheck u w deps)
        else if command = ''ssh-observe'' then orUsage (parseSSHObservationArgs args) (runSSHObservation w deps)
        else if command = ''tls-observe'' then orUsage (parseTLSObservationArgs args) (runTLSObservation w deps)
        else if command = ''tls-retry-batch'' then orUsage (parseTLSRetryBatchArgs args) (runTLSRetryBatch w deps)
        else usageError)"

end
