(* ===== verification/CliProps.thy ===== *)
theory CliProps
  imports Cli DnsNames WebClaims
begin

text \<open>
  What the command line guarantees: nothing is printed that its validator refuses, the exit code tells
  the outcome, and the accepted argument lists are exactly the documented ones without DNS over HTTPS to
  the current resolver.
\<close>

section \<open>Documents and exit codes\<close>

definition docErr :: "'a unitab_scheme \<Rightarrow> dnslib \<Rightarrow> Document \<Rightarrow> error option" where
  "docErr u L doc = (case doc of
      DocBrowser r \<Rightarrow> Validate_pl r
    | DocFamily r \<Rightarrow> Validate_fam r
    | DocResolve r \<Rightarrow> Validate_sys r
    | DocInventory r \<Rightarrow> Validate_inv u r
    | DocDNS r \<Rightarrow> Validate_dns u L r
    | DocPath r \<Rightarrow> Validate_path u L r
    | DocWeb r \<Rightarrow> Validate_web u r
    | DocWebPath r \<Rightarrow> Validate_wpath u r
    | DocRecheck r \<Rightarrow> Validate_rck u r
    | DocSSH r \<Rightarrow> Validate_ssh r
    | DocTLS r \<Rightarrow> Validate_tls r
    | DocBatch r \<Rightarrow> Validate_batch r)"

text \<open>Whether the operation of a document succeeded, was cancelled, or neither.\<close>

datatype Verdict = Succeeded | Cancelled | Failed

definition outcomeVerdict :: "Outcome \<Rightarrow> Verdict" where
  "outcomeVerdict oc = (case oc of OutcomeSucceeded \<Rightarrow> Succeeded | OutcomeCancelled \<Rightarrow> Cancelled | _ \<Rightarrow> Failed)"

definition docVerdict :: "Document \<Rightarrow> Verdict" where
  "docVerdict doc = (case doc of
      DocBrowser r \<Rightarrow> (case plr_Status r of PlCompleted \<Rightarrow> Succeeded | PlCancelled \<Rightarrow> Cancelled | _ \<Rightarrow> Failed)
    | DocFamily r \<Rightarrow> outcomeVerdict (env_outcome r)
    | DocResolve r \<Rightarrow> outcomeVerdict (env_outcome r)
    | DocInventory r \<Rightarrow> outcomeVerdict (env_outcome r)
    | DocDNS r \<Rightarrow> outcomeVerdict (env_outcome r)
    | DocPath r \<Rightarrow> (case pth_Status r of PathStatus.StatusCompleted \<Rightarrow> Succeeded | PathStatus.StatusCancelled \<Rightarrow> Cancelled | _ \<Rightarrow> Failed)
    | DocWeb r \<Rightarrow> outcomeVerdict (env_outcome r)
    | DocWebPath r \<Rightarrow> (case wp_Status r of WCompleted \<Rightarrow> Succeeded | WCancelled \<Rightarrow> Cancelled | _ \<Rightarrow> Failed)
    | DocRecheck r \<Rightarrow> (case krs_Status r of RckCompleted \<Rightarrow> Succeeded | RckCancelled \<Rightarrow> Cancelled | _ \<Rightarrow> Failed)
    | DocSSH r \<Rightarrow> outcomeVerdict (env_outcome r)
    | DocTLS r \<Rightarrow> outcomeVerdict (env_outcome r)
    | DocBatch r \<Rightarrow> (case br_Status r of BatchStatus.StatusCompleted \<Rightarrow> Succeeded | BatchStatus.StatusCancelled \<Rightarrow> Cancelled | _ \<Rightarrow> Failed))"

definition verdictCode :: "Verdict \<Rightarrow> int" where
  "verdictCode v = (case v of Succeeded \<Rightarrow> 0 | Cancelled \<Rightarrow> 130 | Failed \<Rightarrow> 1)"

text \<open>An output: nothing printed and an error code, or one valid document and the code of its verdict.\<close>

definition printed_ok :: "'a unitab_scheme \<Rightarrow> dnslib \<Rightarrow> CliWorld \<Rightarrow> int set \<Rightarrow> CliOut \<Rightarrow> bool" where
  "printed_ok u L w codes out \<longleftrightarrow> cli_stdout out = [] \<and> cli_code out \<in> codes \<or>
     (\<exists>doc. cli_stdout out = [doc] \<and> docErr u L doc = None \<and> cw_encode w doc = None \<and> cli_code out = verdictCode (docVerdict doc))"

lemma printed_failure [simp]: "1 \<in> codes \<Longrightarrow> printed_ok u L w codes (failure_cli what err)"
  by (simp add: printed_ok_def failure_cli_def)

lemma printed_emit:
  "docErr u L doc = None \<Longrightarrow> outcomeVerdict oc = docVerdict doc \<Longrightarrow> 1 \<in> codes \<Longrightarrow> printed_ok u L w codes (emitResult w doc oc)"
  by (cases "cw_encode w doc"; cases oc) (auto simp: printed_ok_def emitResult_def failure_cli_def verdictCode_def outcomeVerdict_def)

lemma printed_stderr [simp]: "printed_ok u L w codes (withStderr lines out) = printed_ok u L w codes out"
  by (simp add: printed_ok_def withStderr_def)

lemmas emit_simps = printed_emit docErr_def docVerdict_def outcomeVerdict_def Let_def

lemma printed_commands:
  "printed_ok u L w {1} (runBrowserPlaceholder w deps)"
  "printed_ok u L w {1} (runFamilyConditions w deps)"
  "printed_ok u L w {1} (runResolve w deps hostname)"
  "printed_ok u L w {1} (runResolverInventory u w deps)"
  "printed_ok u L w {1} (runDNSObservation u L w deps dnsRequest provider)"
  "printed_ok u L w {1} (runDNSHTTPSPath u L w deps pathRequest provider)"
  "printed_ok u L w {1} (runWebObservation u w deps webRequest)"
  "printed_ok u L w {1} (runWebPath u w deps wpathRequest)"
  "printed_ok u L w {1} (runWebRecheck u w deps rckRequest)"
  "printed_ok u L w {1} (runSSHObservation w deps sshRequest)"
  "printed_ok u L w {1} (runTLSObservation w deps tlsRequest)"
  "printed_ok u L w {1} (runTLSRetryBatch w deps batchRequest)"
  by (auto simp: runBrowserPlaceholder_def runFamilyConditions_def runResolve_def runResolverInventory_def runDNSObservation_def
      runDNSHTTPSPath_def runWebObservation_def runWebPath_def runWebRecheck_def runSSHObservation_def runTLSObservation_def
      runTLSRetryBatch_def emit_simps split: sum.split option.split prod.split PlStatus.split PathStatus.split WStatus.split
      RckStatus.split BatchStatus.split Outcome.split)

lemma printed_more: "printed_ok u L w codes out \<Longrightarrow> codes \<subseteq> codes' \<Longrightarrow> printed_ok u L w codes' out"
  by (auto simp: printed_ok_def)

lemma run_cli_printed: "printed_ok u L w {1, 2} (run_cli u L w deps args)"
proof -
  have usage: "printed_ok u L w {1, 2} usageError" by (simp add: printed_ok_def usageError_def)
  note more = printed_commands [THEN printed_more, of "{1, 2}"]
  have or: "printed_ok u L w {1, 2} (orUsage p k)" if "\<And>r. printed_ok u L w {1, 2} (k r)" for p :: "'r option" and k
    using that usage by (cases p) (simp_all add: orUsage_def)
  show ?thesis
    unfolding run_cli_def by (cases args) (simp_all add: usage more or split: prod.split)
qed

section \<open>The documented command lines\<close>

definition commandLine :: "string list \<Rightarrow> bool" where
  "commandLine args \<longleftrightarrow>
     args = [''browser-placeholder''] \<or> args = [''family-conditions''] \<or> (\<exists>h. args = [''resolve'', h]) \<or> args = [''resolver-inventory''] \<or>
     (\<exists>t p q h. args = [''dns-observe'', t, p, q, h] \<and> t \<in> {''udp'', ''tcp'', ''doh''} \<and> p \<in> {''current'', ''cloudflare'', ''google''} \<and>
        \<not> (t = ''doh'' \<and> p = ''current'') \<and> q \<in> {''A'', ''AAAA'', ''CNAME'', ''SVCB'', ''HTTPS''}) \<or>
     (\<exists>t p h. args = [''dns-https-path'', t, p, h] \<and> t \<in> {''udp'', ''tcp'', ''doh''} \<and> p \<in> {''current'', ''cloudflare'', ''google''} \<and>
        \<not> (t = ''doh'' \<and> p = ''current'')) \<or>
     (\<exists>h. args = [''web-path'', h]) \<or> (\<exists>h l r. args = [''web-recheck'', h, l, r]) \<or>
     (\<exists>s h ip. args = [''web-observe'', s, h, ip] \<and> s \<in> {''http'', ''https''}) \<or>
     (\<exists>ip. args = [''ssh-observe'', ip]) \<or> (\<exists>ip port n. args = [''ssh-observe'', ip, port] \<and> ParseUint16 port = Some n \<and> n \<noteq> 0) \<or>
     (\<exists>ip. args = [''tls-observe'', ip]) \<or> (\<exists>ips. args = [''tls-retry-batch'', ips])"

lemma length_list: "length xs = 1 \<longleftrightarrow> (\<exists>a. xs = [a])" "length xs = 2 \<longleftrightarrow> (\<exists>a b. xs = [a, b])"
  "length xs = 3 \<longleftrightarrow> (\<exists>a b c. xs = [a, b, c])" "length xs = 4 \<longleftrightarrow> (\<exists>a b c d. xs = [a, b, c, d])"
  "length xs = 5 \<longleftrightarrow> (\<exists>a b c d e. xs = [a, b, c, d, e])"
  by (auto simp: length_Suc_conv numeral_eq_Suc)

lemmas parse_simps = orUsage_def parseDNSObservationArgs_def parseDNSHTTPSPathArgs_def parseWebRecheckArgs_def parseWebObservationArgs_def
  parseSSHObservationArgs_def parseTLSObservationArgs_def parseTLSRetryBatchArgs_def parseDNSTransport_def resolverFor_def
  parseQueryType_def SchemeHTTP_def SchemeHTTPS_def Let_def

lemma emitted_code: "cli_code (emitResult w doc oc) \<noteq> 2" "cli_code (failure_cli what err) \<noteq> 2"
  by (auto simp: emitResult_def failure_cli_def split: option.split Outcome.split)

lemma usage_code: "cli_code usageError = 2" by (simp add: usageError_def)

lemma stderr_code [simp]: "cli_code (withStderr lines out) = cli_code out" by (simp add: withStderr_def)

lemma verdictCode_usage: "verdictCode v \<noteq> 2" by (cases v) (simp_all add: verdictCode_def)

lemma printed_not_usage: "printed_ok u L w {1} out \<Longrightarrow> cli_code out \<noteq> 2"
  using verdictCode_usage by (auto simp: printed_ok_def)

lemmas command_codes = printed_commands [THEN printed_not_usage]

lemma dns_args: "parseDNSObservationArgs args = None \<longleftrightarrow> \<not> (\<exists>t p q h. args = [''dns-observe'', t, p, q, h] \<and> t \<in> {''udp'', ''tcp'', ''doh''} \<and>
     p \<in> {''current'', ''cloudflare'', ''google''} \<and> \<not> (t = ''doh'' \<and> p = ''current'') \<and> q \<in> {''A'', ''AAAA'', ''CNAME'', ''SVCB'', ''HTTPS''})"
proof (cases "length args = 5 \<and> args ! 0 = ''dns-observe''")
  case True
  then obtain t p q h where "args = [''dns-observe'', t, p, q, h]" by (auto simp: length_list)
  then show ?thesis
    by (auto simp: parseDNSObservationArgs_def parseDNSTransport_def resolverFor_def parseQueryType_def split: if_splits)
next
  case False
  then have "parseDNSObservationArgs args = None" by (auto simp: parseDNSObservationArgs_def)
  moreover have "args \<noteq> [''dns-observe'', t, p, q, h]" for t p q h using False by auto
  ultimately show ?thesis by simp
qed

lemma path_args: "parseDNSHTTPSPathArgs args = None \<longleftrightarrow> \<not> (\<exists>t p h. args = [''dns-https-path'', t, p, h] \<and> t \<in> {''udp'', ''tcp'', ''doh''} \<and>
     p \<in> {''current'', ''cloudflare'', ''google''} \<and> \<not> (t = ''doh'' \<and> p = ''current''))"
proof (cases "length args = 4 \<and> args ! 0 = ''dns-https-path''")
  case True
  then obtain t p h where "args = [''dns-https-path'', t, p, h]" by (auto simp: length_list)
  then show ?thesis
    by (auto simp: parseDNSHTTPSPathArgs_def parseDNSTransport_def resolverFor_def split: if_splits)
next
  case False
  then have "parseDNSHTTPSPathArgs args = None" by (auto simp: parseDNSHTTPSPathArgs_def)
  moreover have "args \<noteq> [''dns-https-path'', t, p, h]" for t p h using False by auto
  ultimately show ?thesis by simp
qed

lemma web_args: "parseWebObservationArgs args = None \<longleftrightarrow> \<not> (\<exists>s h ip. args = [''web-observe'', s, h, ip] \<and> s \<in> {''http'', ''https''})"
proof (cases "length args = 4 \<and> args ! 0 = ''web-observe''")
  case True
  then obtain s h ip where "args = [''web-observe'', s, h, ip]" by (auto simp: length_list)
  then show ?thesis by (auto simp: parseWebObservationArgs_def SchemeHTTP_def SchemeHTTPS_def)
qed (auto simp: parseWebObservationArgs_def)

lemma ssh_args: "parseSSHObservationArgs args = None \<longleftrightarrow> \<not> ((\<exists>ip. args = [''ssh-observe'', ip]) \<or>
     (\<exists>ip port n. args = [''ssh-observe'', ip, port] \<and> ParseUint16 port = Some n \<and> n \<noteq> 0))"
proof (cases "(length args = 2 \<or> length args = 3) \<and> args ! 0 = ''ssh-observe''")
  case True
  then consider ip where "args = [''ssh-observe'', ip]" | ip port where "args = [''ssh-observe'', ip, port]" by (auto simp: length_list)
  then show ?thesis by cases (auto simp: parseSSHObservationArgs_def split: option.splits)
qed (auto simp: parseSSHObservationArgs_def)

lemma short_args:
  "parseWebRecheckArgs args = None \<longleftrightarrow> \<not> (\<exists>h l r. args = [''web-recheck'', h, l, r])"
  "parseTLSObservationArgs args = None \<longleftrightarrow> \<not> (\<exists>ip. args = [''tls-observe'', ip])"
  "parseTLSRetryBatchArgs args = None \<longleftrightarrow> \<not> (\<exists>ips. args = [''tls-retry-batch'', ips])"
  by (auto simp: parseWebRecheckArgs_def parseTLSObservationArgs_def parseTLSRetryBatchArgs_def length_list)

lemma orUsage_code: "(\<And>r. cli_code (k r) \<noteq> 2) \<Longrightarrow> cli_code (orUsage p k) = 2 \<longleftrightarrow> p = None"
  by (cases p) (simp_all add: orUsage_def usage_code)

lemma run_cli_usage: "cli_code (run_cli u L w deps args) = 2 \<longleftrightarrow> \<not> commandLine args"
proof (cases args)
  case Nil
  then show ?thesis by (simp add: run_cli_def commandLine_def usage_code)
next
  case (Cons command rest)
  have pair: "cli_code (case r of (request, provider) \<Rightarrow> runDNSObservation u L w deps request provider) \<noteq> 2"
    "cli_code (case r' of (request, provider) \<Rightarrow> runDNSHTTPSPath u L w deps request provider) \<noteq> 2" for r r'
    by (cases r, simp add: command_codes) (cases r', simp add: command_codes)
  show ?thesis
    using Cons
    by (simp add: run_cli_def commandLine_def usage_code orUsage_code command_codes pair dns_args path_args web_args ssh_args
        short_args length_Suc_conv numeral_eq_Suc)
qed

section \<open>The properties\<close>

text \<open>
  Property C13. Whatever the arguments, the contexts and the observers behind the command are, a run either
  prints nothing and exits with code 1 or 2, or it prints exactly one document, which satisfies the validator
  of its package, and its exit code is the verdict of that document: 0 for success, 130 for cancellation, 1
  for everything else.
\<close>

theorem run_cli_output:
  "cli_stdout (run_cli u L w deps args) = [] \<and> cli_code (run_cli u L w deps args) \<in> {1, 2} \<or>
   (\<exists>doc. cli_stdout (run_cli u L w deps args) = [doc] \<and> docErr u L doc = None \<and>
      cli_code (run_cli u L w deps args) = verdictCode (docVerdict doc))"
  using run_cli_printed [of u L w deps args] unfolding printed_ok_def by blast

text \<open>
  Property C19. A run exits with the usage code 2 exactly when its arguments are none of the command lines
  that \<open>commandLine\<close> lists: the documented ones, a DNS command with an offered transport, provider and query
  type but never DNS over HTTPS to the current resolver, and an SSH port that is a decimal of sixteen bits other
  than zero.
\<close>

theorem run_cli_usage_exact:
  "cli_code (run_cli u L w deps args) = 2 \<longleftrightarrow> \<not> commandLine args"
  by (rule run_cli_usage)

text \<open>
  The usage offers every provider for every transport and promises a document for each valid command. The
  code refuses DNS over HTTPS to the current resolver, and prints nothing where the observer succeeds with
  evidence its own validator refuses, such as a response of HTTP/1.2.
\<close>

theorem run_cli_doh_current:
  "run_cli u L w deps [''dns-observe'', ''doh'', ''current'', ''A'', h] = usageError"
  by (simp add: run_cli_def orUsage_def parseDNSObservationArgs_def parseDNSTransport_def resolverFor_def)

theorem run_cli_foreign_version:
  "cli_stdout (run_cli u L w (deps\<lparr>dep_newWeb := \<lambda>cfg. Inr (\<lambda>ctx r. Observe_web u (webWorld ''HTTP/1.2'') demoWebObserver r)\<rparr>)
     [''web-observe'', ''http'', ''example.com'', ''1.1.1.1'']) = []"
proof -
  have "parseWebObservationArgs [''web-observe'', ''http'', ''example.com'', ''1.1.1.1''] = Some demoWebRequest"
    by (simp add: parseWebObservationArgs_def demoWebRequest_def SchemeHTTP_def)
  moreover have "Validate_web u (Observe_web u (webWorld ''HTTP/1.2'') demoWebObserver demoWebRequest) \<noteq> None"
    using Observe_web_foreign_version [of u] by simp
  ultimately show ?thesis
    by (auto simp: run_cli_def orUsage_def runWebObservation_def failure_cli_def Let_def split: option.split)
qed

end
