(* ===== verification/Spec2Isabelle.thy ===== *)
theory Spec2Isabelle
  imports TlsBatchProps DnsClaims PathClaims WebRequest SshProps WebClaims SysProps WebRecheckClaims
  FamilyProps ResolvConfText BrowserProps CliProps
begin

text \<open>
  Verification of reachrun, a command-line tool that collects evidence about the reachability of
  hosts. Every probe runs under bounds, returns one versioned envelope with evidence or with a
  classified failure, and has a validator for what it returns; larger operations call a probe
  several times and keep its envelopes in a report with a validator of its own.

  \<^bold>\<open>Parts and how they interact.\<close> \<open>cmd/reachrun\<close> builds the observers, validates what they
  return and prints it.
  \<open>internal/probe\<close> is the envelope. \<open>internal/nettarget\<close> is the one policy for targets: public
  addresses, Web host names, Web request targets; every probe normalizes its request with it and
  every validator normalizes the recorded input again. \<open>internal/dnsobservation\<close>,
  \<open>internal/tlsobservation\<close>, \<open>internal/sshobservation\<close> and \<open>internal/webobservation\<close> are probes that
  make one exchange.
  \<open>internal/tlsretrybatch\<close> runs the TLS probe on several targets with two workers, retries and one
  overall deadline. \<open>internal/dnshttpspath\<close> runs the DNS probe along HTTPS aliases, decides which
  service bindings are usable and asks for the addresses of their targets.

  \<^bold>\<open>Theories and sources.\<close> A name that two packages use carries the suffix of its package
  (\<open>Observe_tls\<close>, \<open>Observe_dns\<close>, \<open>Observe_ssh\<close>, \<open>Observe_web\<close>, \<open>Observe_batch\<close>, \<open>Observe_path\<close>).

  \<^item> \<open>Prelude\<close>: errors, early returns (\<open>guard\<close>, \<open>firstErr\<close>), nil-able slices, lists.
  \<^item> \<open>GoStd\<close>, \<open>GoNum\<close>, \<open>GoTime\<close>, \<open>GoNet\<close>, \<open>GoHttp\<close>, \<open>GoUrl\<close>, \<open>Netip\<close>: what the program uses of the Go
    standard library, written out: strings as bytes, UTF-8, decimal and hexadecimal text, the
    clock, contexts, errors, \<open>net/netip\<close>, \<open>net/url\<close>, streams, media types. \<open>NetipRoundtrip\<close> and
    \<open>GoUrlProps\<close> prove that their parsers read back what their printers write.
  \<^item> \<open>Envelope\<close>: \<open>internal/probe/envelope.go\<close>. \<open>Nettarget\<close>, \<open>NettargetProps\<close>, \<open>WebRequest\<close>:
    \<open>internal/nettarget\<close> (\<open>publicip.go\<close>, \<open>webhostname.go\<close>, \<open>webrequest.go\<close>).
  \<^item> \<open>TlsObservation\<close>, \<open>TlsProps\<close>: \<open>internal/tlsobservation\<close>. \<open>TlsRetryBatch\<close>, \<open>TlsBatchProps\<close>:
    \<open>internal/tlsretrybatch\<close>. \<open>SshObservation\<close>, \<open>SshProps\<close>: \<open>internal/sshobservation\<close>.
  \<^item> \<open>DnsTypes\<close> (\<open>observation.go\<close>), \<open>DnsMessage\<close> (\<open>message.go\<close>), \<open>DnsTransport\<close> (\<open>transport.go\<close>),
    \<open>DnsValidate\<close> (\<open>validate.go\<close>) of \<open>internal/dnsobservation\<close>, with \<open>DnsNames\<close>, \<open>DnsProps\<close> and
    \<open>DnsClaims\<close>.
  \<^item> \<open>PathTypes\<close> (\<open>types.go\<close>, \<open>service.go\<close>), \<open>PathObserver\<close> (\<open>observer.go\<close>), \<open>PathValidate\<close>
    (\<open>validate.go\<close>) of \<open>internal/dnshttpspath\<close>, with \<open>PathProps\<close>, \<open>PathChain\<close>, \<open>PathService\<close>,
    \<open>PathBounds\<close>, \<open>PathAdapter\<close> and \<open>PathClaims\<close>.
  \<^item> \<open>WebObservation\<close>, with \<open>WebProps\<close> and \<open>WebClaims\<close>: \<open>internal/webobservation\<close>. \<open>runTransport\<close> is
    what the transport of \<open>net/http\<close> does with the dial function and the trace of the code: the
    steps it takes are the parameter, their effect on the trace is the code's.
  \<^item> \<open>SystemResolver\<close>, \<open>SysProps\<close>: \<open>internal/platform/systemresolver\<close>.
  \<^item> \<open>WebPath\<close> (\<open>types.go\<close>, \<open>redirect.go\<close>, \<open>observer.go\<close>), \<open>WebPathValidate\<close> (\<open>validate.go\<close>) of
    \<open>internal/webpath\<close>, with \<open>WebPathProps\<close> (canonical URLs, candidates, hops), \<open>WebPathChain\<close> (the
    loop invariant of a chain), \<open>WebPathClaims\<close> (the report) and \<open>WebPathProbes\<close> (the path over
    \<open>systemresolver\<close> and \<open>webobservation\<close>).
  \<^item> \<open>WebRecheck\<close> (all files), \<open>WebRecheckProps\<close>, \<open>WebRecheckClaims\<close>: \<open>internal/webrecheck\<close>.
  \<^item> \<open>FamilyCondition\<close>, \<open>FamilyProps\<close>: \<open>internal/platform/familycondition\<close>.
  \<^item> \<open>ResolverInventory\<close> (\<open>observer.go\<close>, \<open>normalize.go\<close>, \<open>validate.go\<close>), \<open>InventoryPlatform\<close> (the parsers and
    the platforms), \<open>InventoryProps\<close> (the locale \<open>resolver_collector\<close>, interpreted on each platform),
    \<open>ResolvConfText\<close>: \<open>internal/platform/resolverinventory\<close>; \<open>Utf8Props\<close> holds the facts on UTF-8.
  \<^item> \<open>BrowserOpener\<close> (\<open>internal/platform/browseropener\<close>), \<open>BrowserPlaceholder\<close>
    (\<open>internal/browserplaceholder\<close>), \<open>BrowserProps\<close> (the locale \<open>browser_opener\<close> is what the placeholder relies on).
  \<^item> \<open>Cli\<close>, \<open>CliProps\<close>: \<open>cmd/reachrun/main.go\<close>. The observers are the dependencies of a run, as in the code.

  \<^bold>\<open>State and environment.\<close> A struct is a record, a string enumeration a datatype with a constructor
  for any other text, an error its text, an error of the network the sentinels \<open>errors.Is\<close> finds
  in it. What a run meets from outside is a record of functions: the clock by the number of its
  reading, a context by the number of the look at it, dialers and connections by what they are
  asked, a peer by what each read answers. So one definition covers every timing, every
  cancellation and every peer. Readings are numbered in program order. The workers of the batch
  are a state machine that moves one shared-memory step at a time, and a run is any list of choices
  of a worker, its observation and its delays. The wire codec of DNS messages
  (\<open>golang.org/x/net/dns/dnsmessage\<close>) and the tables of Unicode are parameters (\<open>dnslib\<close>,
  \<open>unitab\<close>), with their documented behaviour as named hypotheses.

  \<^bold>\<open>What is shown.\<close> For each probe: which of its envelopes its validator refuses, exactly: none, or
  the completed handshakes with certificate times or ALPN text it excludes (TLS), one length of
  identification (SSH), other versions of HTTP (Web), names outside the host-name syntax (DNS),
  and requests whose recorded text changes when it is normalized again. Nothing is reported
  as succeeded once the context is over, except a TCP connection with TLS unconfirmed by a timeout; only public targets are dialed; the evidence of a DNS
  success belongs to the query that was sent; the Web request on the wire is the recorded one; a conforming SSH server is recognized. For the batch:
  an invariant of all interleavings, its bounds, termination and the validity of the report. For the
  path: the chain of HTTPS observations as the invariant of the alias loop, the reports its validator refuses,
  the bound on requests, the decisions about service bindings against a reference, and the
  contract \<open>dns_adapter\<close> between the path and its DNS observer, which the observer of
  \<open>internal/dnsobservation\<close> is shown to meet. For the policy: exactness of the public-address check
  against the special-purpose registries, and that normalizing is stable, which the validators
  rely on. For the Web path: that its report is valid for every resolver and every Web observer, unless the
  host name changes when it is normalized again, its
  bounds, canonical redirect targets, and that the two probes it calls never give it evidence it
  refuses, other versions of HTTP apart. For the command line: what it prints passed its validator, the exit code is
  its verdict, and the argument lists it accepts.

  \<^bold>\<open>Bounds and fuel.\<close> Nothing runs on fuel except \<open>runSched\<close>, which replays a given list of
  choices; \<open>reach_terminates\<close> bounds the steps a batch takes by 32 for each target plus two. Loops
  are functions with a termination proof: the alias loop by the aliases still allowed, the reading
  of an SSH line by the bytes still allowed, parsers by the text left. 64-bit sums that the code
  does not guard wrap (\<open>add64\<close>); sizes that the code bounds before it adds them are integers.

  \<^bold>\<open>Not modelled.\<close> Of \<open>cmd/reachrun\<close> the entry point: signals, standard streams and the constructors it passes. Formatting verbs inside error texts are left out of the text: no branch of
  the program reads them. JSON encoding is not modelled, apart from the difference between a nil
  and an empty slice, which the validators of the reports look at. The scripted test doubles are
  not part of the program.
\<close>

end
